(* ===== verification/Prelude.thy ===== *)
theory Prelude
  imports Main "HOL-Library.Word"
begin

text \<open>
  Shared vocabulary of the development: fixed-width integers as words, byte strings, the
  little- and big-endian byte representations of an integer, and the interface locale of
  append-only sinks, which the data buffer and the protocol document builder both provide.
\<close>

unbundle bit_operations_syntax

type_synonym u8 = "8 word"
type_synonym u16 = "16 word"
type_synonym u32 = "32 word"
type_synonym u64 = "64 word"
type_synonym bytes = "u8 list"

text \<open>An IEEE single is only ever moved around by the modelled code: its bit pattern.\<close>
type_synonym f32 = "32 word"
type_synonym f64 = "64 word"

named_theorems bytes_simps \<open>lengths and shapes of byte representations\<close>

subsection \<open>Byte representations of integers\<close>

definition bytes_le :: "nat \<Rightarrow> 'a::len word \<Rightarrow> bytes" where
  "bytes_le n w = map (\<lambda>i. ucast (drop_bit (8 * i) w)) [0..<n]"

definition bytes_be :: "nat \<Rightarrow> 'a::len word \<Rightarrow> bytes" where
  "bytes_be n w = rev (bytes_le n w)"

fun of_le :: "bytes \<Rightarrow> 'a::len word" where
  "of_le [] = 0"
| "of_le (b # bs) = ucast b OR push_bit 8 (of_le bs)"

definition of_be :: "bytes \<Rightarrow> 'a::len word" where
  "of_be bs = of_le (rev bs)"

lemma length_bytes_le [simp, bytes_simps]: "length (bytes_le n w) = n"
  by (simp add: bytes_le_def)

lemma length_bytes_be [simp, bytes_simps]: "length (bytes_be n w) = n"
  by (simp add: bytes_be_def)

lemma bit_of_le:
  "bit (of_le bs :: 'a::len word) i \<longleftrightarrow>
     i < LENGTH('a) \<and> i div 8 < length bs \<and> bit (bs ! (i div 8)) (i mod 8)"
proof (induction bs arbitrary: i)
  case Nil
  then show ?case by simp
next
  case (Cons b bs)
  show ?case
  proof (cases "i < 8")
    case True
    then show ?thesis by (auto simp: bit_simps)
  next
    case False
    then obtain j where j: "i = 8 + j" using le_Suc_ex not_less by blast
    have d: "(8 + j) div 8 = Suc (j div 8)" by simp
    have "\<not> bit (ucast b :: 'a word) i"
      using False by (auto simp: bit_simps dest: bit_imp_le_length)
    then show ?thesis
      using Cons.IH [of j] d by (auto simp: j bit_simps dest: bit_imp_le_length)
  qed
qed

lemma nth_bytes_le: "i < n \<Longrightarrow> bytes_le n w ! i = ucast (drop_bit (8 * i) w)"
  by (simp add: bytes_le_def)

lemma of_le_bytes_le:
  fixes w :: "'a::len word"
  assumes "LENGTH('a) = 8 * n"
  shows "of_le (bytes_le n w) = w"
proof (rule bit_word_eqI)
  fix i assume i: "i < LENGTH('a)"
  then have "i div 8 < n" using assms by auto
  with i show "bit (of_le (bytes_le n w) :: 'a word) i = bit w i"
    by (simp add: bit_of_le nth_bytes_le bit_simps)
qed

lemma bytes_le_of_le:
  assumes "LENGTH('a) = 8 * n" and "length bs = n"
  shows "bytes_le n (of_le bs :: 'a::len word) = bs"
proof (rule nth_equalityI)
  show "length (bytes_le n (of_le bs :: 'a word)) = length bs" using assms by simp
next
  fix i assume "i < length (bytes_le n (of_le bs :: 'a word))"
  then have i: "i < n" by simp
  show "bytes_le n (of_le bs :: 'a word) ! i = bs ! i"
  proof (rule bit_word_eqI)
    fix j assume j: "j < LENGTH(8)"
    from i j assms have "8 * i + j < LENGTH('a)" by simp
    moreover have "(8 * i + j) div 8 = i" "(8 * i + j) mod 8 = j" using j by simp_all
    ultimately show "bit (bytes_le n (of_le bs :: 'a word) ! i) j = bit (bs ! i) j"
      using i j assms by (simp add: nth_bytes_le bit_simps bit_of_le)
  qed
qed

lemma of_be_bytes_be: "LENGTH('a) = 8 * n \<Longrightarrow> of_be (bytes_be n w) = (w :: 'a::len word)"
  by (simp add: of_be_def bytes_be_def of_le_bytes_le)

lemma bytes_le_inject:
  fixes v w :: "'a::len word"
  assumes "LENGTH('a) = 8 * n" and "bytes_le n v = bytes_le n w"
  shows "v = w"
  using of_le_bytes_le [OF assms(1)] assms(2) by metis

lemma bytes_le_1 [simp]: "bytes_le 1 (w :: u8) = [w]" "bytes_le (Suc 0) (w :: u8) = [w]"
  by (simp_all add: bytes_le_def)

lemma of_le_singleton [simp]: "of_le [b] = (b :: u8)"
  by simp

text \<open>The byte swap of a host integer: the same bytes in the opposite order.\<close>

definition bswap_bytes :: "nat \<Rightarrow> 'a::len word \<Rightarrow> 'a word" where
  "bswap_bytes n w = of_le (rev (bytes_le n w))"

lemma bytes_le_bswap_bytes:
  "LENGTH('a) = 8 * n \<Longrightarrow> bytes_le n (bswap_bytes n w) = bytes_be n (w :: 'a::len word)"
  by (simp add: bswap_bytes_def bytes_be_def bytes_le_of_le)

lemma bswap_bytes_twice:
  "LENGTH('a) = 8 * n \<Longrightarrow> bswap_bytes n (bswap_bytes n w) = (w :: 'a::len word)"
  unfolding bswap_bytes_def [of n "bswap_bytes n w"]
  by (simp add: bytes_le_bswap_bytes bytes_be_def of_le_bytes_le)

lemma bswap_bytes_of_le:
  assumes "LENGTH('a) = 8 * n" and "length bs = n"
  shows "bswap_bytes n (of_le bs) = (of_be bs :: 'a::len word)"
  using assms by (simp add: bswap_bytes_def of_be_def bytes_le_of_le)

subsection \<open>Masks and bounds\<close>

lemma less_2p_iff_take_bit:
  fixes x :: "'a::len word"
  assumes "n < LENGTH('a)"
  shows "x < 2 ^ n \<longleftrightarrow> take_bit n x = x"
  using assms less_mask_eq [of x n] and_mask_less_size [of n x]
  by (auto simp: take_bit_eq_mask word_size)

lemma less_2p_iff_bits:
  fixes x :: "'a::len word"
  assumes "n < LENGTH('a)"
  shows "x < 2 ^ n \<longleftrightarrow> (\<forall>i \<ge> n. \<not> bit x i)"
proof -
  have "take_bit n x = x \<longleftrightarrow> (\<forall>i \<ge> n. \<not> bit x i)"
    unfolding bit_eq_iff bit_take_bit_iff by (auto simp: not_le) (metis not_le bit_imp_le_length)+
  with assms show ?thesis by (simp add: less_2p_iff_take_bit)
qed

lemma less_0x80_u8: "(b :: u8) < 0x80 \<longleftrightarrow> \<not> bit b 7"
proof -
  have "i = 7" if "7 \<le> i" "bit b i" for i
    using that bit_imp_le_length [of b i] by simp
  moreover have "(0x80 :: u8) = 2 ^ 7" by simp
  ultimately show ?thesis using less_2p_iff_bits [of 7 b] by fastforce
qed

lemma low_mask_7f: "(x :: 'a::len word) AND 0x7F = take_bit 7 x"
  by (simp add: take_bit_eq_mask mask_eq_exp_minus_1)

lemma low_mask_3f: "(x :: 'a::len word) AND 0x3F = take_bit 6 x"
  by (simp add: take_bit_eq_mask mask_eq_exp_minus_1)

lemma bit_0x80: "bit (0x80 :: 'a::len word) i \<longleftrightarrow> i = 7 \<and> 7 < LENGTH('a)"
proof -
  have "(0x80 :: 'a word) = 2 ^ 7" by simp
  then show ?thesis by (simp only: bit_exp_iff) (auto simp: possible_bit_word)
qed

lemma bit_0x80_int: "bit (0x80 :: int) i \<longleftrightarrow> i = 7"
proof -
  have "(0x80 :: int) = 2 ^ 7" by simp
  then show ?thesis by (simp only: bit_exp_iff) (auto simp: possible_bit_def)
qed

lemmas tdf_bits = bit_0x80_int low_mask_7f low_mask_3f bit_0x80 less_0x80_u8 bit_simps

subsection \<open>Statements in order\<close>

text \<open>A block of statements of the code: each takes the state the one before it left.\<close>

fun in_order :: "('s \<Rightarrow> 's) list \<Rightarrow> 's \<Rightarrow> 's" where
  "in_order [] s = s"
| "in_order (f # fs) s = in_order fs (f s)"

lemma in_order_Nil: "in_order [] = (\<lambda>s. s)"
  by (simp add: fun_eq_iff)

lemma in_order_Cons: "in_order (f # fs) = fcomp f (in_order fs)"
  by (simp add: fun_eq_iff)

lemma in_order_append [simp]: "in_order (fs @ gs) s = in_order gs (in_order fs s)"
  by (induction fs arbitrary: s) simp_all

text \<open>A loop whose body can fail.\<close>

primrec each :: "('x \<Rightarrow> 'b \<Rightarrow> 'b option) \<Rightarrow> 'x list \<Rightarrow> 'b \<Rightarrow> 'b option" where
  "each f [] b = Some b"
| "each f (x # xs) b = Option.bind (f x b) (each f xs)"

lemma each_cong [fundef_cong]:
  assumes "xs = ys" and "b = c" and "\<And>x d. x \<in> set ys \<Longrightarrow> f x d = g x d"
  shows "each f xs b = each g ys c"
  using assms(3) unfolding assms(1,2)
  by (induction ys arbitrary: c) (auto split: bind_split)

lemma each_append: "each f (xs @ ys) b = Option.bind (each f xs b) (each f ys)"
  by (induction xs arbitrary: b) (auto split: bind_split)

lemma each_map: "each f (map g xs) = each (\<lambda>x. f (g x)) xs"
  by (induction xs) (rule ext, simp)+

subsection \<open>Append-only sinks\<close>

text \<open>
  Writers are functions from a sink to a sink.  A sink has a content that writing extends at
  its end, and an invariant (\<open>ready\<close>: the write position is the end) that writing keeps.
  \<open>appends f xs\<close> says that \<open>f\<close> adds exactly \<open>xs\<close>.
\<close>

locale sink =
  fixes ready :: "'b \<Rightarrow> bool" and content :: "'b \<Rightarrow> 'e list" and put :: "'e list \<Rightarrow> 'b \<Rightarrow> 'b"
  assumes ready_put: "ready b \<Longrightarrow> ready (put xs b)"
    and content_put: "ready b \<Longrightarrow> content (put xs b) = content b @ xs"
begin

definition appends :: "('b \<Rightarrow> 'b) \<Rightarrow> 'e list \<Rightarrow> bool" where
  "appends f xs \<longleftrightarrow> (\<forall>b. ready b \<longrightarrow> ready (f b) \<and> content (f b) = content b @ xs)"

lemma appendsI:
  "(\<And>b. ready b \<Longrightarrow> ready (f b)) \<Longrightarrow> (\<And>b. ready b \<Longrightarrow> content (f b) = content b @ xs)
     \<Longrightarrow> appends f xs"
  by (simp add: appends_def)

lemma appends_put: "appends (put xs) xs"
  by (simp add: appends_def ready_put content_put)

lemma appends_id: "appends (\<lambda>b. b) []"
  by (simp add: appends_def)

lemma appends_comp: "appends f xs \<Longrightarrow> appends g ys \<Longrightarrow> appends (\<lambda>b. g (f b)) (xs @ ys)"
  by (simp add: appends_def)

lemma appends_ready: "appends f xs \<Longrightarrow> ready b \<Longrightarrow> ready (f b)"
  by (simp add: appends_def)

lemma appends_content: "appends f xs \<Longrightarrow> ready b \<Longrightarrow> content (f b) = content b @ xs"
  by (simp add: appends_def)

lemma appends_fold:
  "(\<And>x. x \<in> set xs \<Longrightarrow> appends (f x) (g x)) \<Longrightarrow> appends (fold f xs) (concat (map g xs))"
proof (induction xs)
  case Nil
  then show ?case by (simp add: appends_def)
next
  case (Cons x xs)
  have "appends (\<lambda>b. fold f xs (f x b)) (g x @ concat (map g xs))"
    by (rule appends_comp) (use Cons in auto)
  then show ?case by (simp add: appends_def)
qed

text \<open>The same for writers that can fail: \<open>emits f xs\<close> when \<open>f\<close> succeeds and adds \<open>xs\<close>.\<close>

definition emits :: "('b \<Rightarrow> 'b option) \<Rightarrow> 'e list \<Rightarrow> bool" where
  "emits f xs \<longleftrightarrow>
     (\<forall>b. ready b \<longrightarrow> (\<exists>b'. f b = Some b' \<and> ready b' \<and> content b' = content b @ xs))"

lemma emits_Some: "appends f xs \<Longrightarrow> emits (\<lambda>b. Some (f b)) xs"
  by (simp add: appends_def emits_def)

lemma emits_none: "emits Some []"
  by (simp add: emits_def)

lemma emits_pre: "appends f xs \<Longrightarrow> emits g ys \<Longrightarrow> emits (\<lambda>b. g (f b)) (xs @ ys)"
  by (fastforce simp: appends_def emits_def)

lemma emits_bind: "emits f xs \<Longrightarrow> emits g ys \<Longrightarrow> emits (\<lambda>b. Option.bind (f b) g) (xs @ ys)"
  by (fastforce simp: emits_def)

lemma emits_each:
  "(\<And>x. x \<in> set xs \<Longrightarrow> emits (f x) (g x)) \<Longrightarrow> emits (each f xs) (concat (map g xs))"
proof (induction xs)
  case Nil
  then show ?case by (simp add: emits_def)
next
  case (Cons x xs)
  then have "emits (\<lambda>b. Option.bind (f x b) (each f xs)) (g x @ concat (map g xs))"
    by (intro emits_bind) auto
  then show ?case by (simp add: emits_def)
qed

lemma emitsD: "emits f xs \<Longrightarrow> ready b \<Longrightarrow> \<exists>b'. f b = Some b' \<and> ready b' \<and> content b' = content b @ xs"
  by (simp add: emits_def)

end

subsection \<open>Sources\<close>

text \<open>
  The reading side: \<open>at b xs b'\<close> says that \<open>xs\<close> comes next in the source \<open>b\<close> and that \<open>b'\<close> is the
  source after it.  \<open>reads f xs x\<close>: wherever \<open>xs\<close> comes next, \<open>f\<close> consumes exactly \<open>xs\<close> and
  returns \<open>x\<close>.
\<close>

locale source =
  fixes at :: "'b \<Rightarrow> 'e list \<Rightarrow> 'b \<Rightarrow> bool"
  assumes at_Nil: "at b [] c \<Longrightarrow> c = b"
    and at_append: "at b (xs @ ys) c \<Longrightarrow> \<exists>m. at b xs m \<and> at m ys c"
begin

definition reads :: "('b \<Rightarrow> ('x \<times> 'b) option) \<Rightarrow> 'e list \<Rightarrow> 'x \<Rightarrow> bool" where
  "reads f xs x \<longleftrightarrow> (\<forall>b c. at b xs c \<longrightarrow> f b = Some (x, c))"

lemma readsI: "(\<And>b c. at b xs c \<Longrightarrow> f b = Some (x, c)) \<Longrightarrow> reads f xs x"
  by (simp add: reads_def)

lemma readsD: "reads f xs x \<Longrightarrow> at b xs c \<Longrightarrow> f b = Some (x, c)"
  by (simp add: reads_def)

lemma reads_return: "reads (\<lambda>b. Some (x, b)) [] x"
  by (auto simp: reads_def dest: at_Nil)

lemma reads_bind:
  assumes "reads f xs x" and "reads (g x) ys y"
  shows "reads (\<lambda>b. Option.bind (f b) (\<lambda>(x, b). g x b)) (xs @ ys) y"
proof (rule readsI)
  fix b c assume "at b (xs @ ys) c"
  then obtain m where "at b xs m" "at m ys c" using at_append by blast
  with assms show "Option.bind (f b) (\<lambda>(x, b). g x b) = Some (y, c)"
    by (simp add: readsD [of f xs x b m] readsD [of "g x" ys y m c])
qed

lemma reads_map:
  assumes "reads f xs x"
  shows "reads (\<lambda>b. Option.bind (f b) (\<lambda>(x, b). Some (h x, b))) xs (h x)"
  using reads_bind [OF assms, of "\<lambda>x b. Some (h x, b)" "[]" "h x"] reads_return [of "h x"] by simp

end

end
