(* ===== verification/Text.thy ===== *)
theory Text
  imports Prelude
begin

text \<open>
  Strings and numbers of the C++ standard library the sources use (\<open>std::string\<close> from a pointer,
  \<open>isspace\<close>, \<open>std::stoull\<close>, \<open>std::strtoul\<close>, \<open>std::to_string\<close>), and the string helpers of
  \<open>source/Core/Utils/Functions.{h,cpp}\<close>.  A string is a list of 8-bit characters.
\<close>

subsection \<open>C strings\<close>

definition c_str :: "string \<Rightarrow> string" where
  "c_str s = takeWhile (\<lambda>c. c \<noteq> CHR 0x00) s"

definition no_nul :: "string \<Rightarrow> bool" where
  "no_nul s \<longleftrightarrow> CHR 0x00 \<notin> set s"

lemma c_str_no_nul [simp]: "no_nul s \<Longrightarrow> c_str s = s"
  by (simp add: c_str_def no_nul_def) (metis takeWhile_eq_all_conv)

subsection \<open>Numbers in strings\<close>

definition digit_value :: "char \<Rightarrow> nat" where
  "digit_value c =
     (let n = of_char c :: nat in
      if 48 \<le> n \<and> n \<le> 57 then n - 48
      else if 97 \<le> n \<and> n \<le> 122 then n - 87
      else if 65 \<le> n \<and> n \<le> 90 then n - 55 else 36)"

definition isspace :: "char \<Rightarrow> bool" where
  "isspace c = (let n = of_char c :: nat in n = 32 \<or> 9 \<le> n \<and> n \<le> 13)"

definition number_base :: "string \<Rightarrow> nat \<times> string" where
  "number_base s =
     (if take 1 s = ''0'' then
        if 2 < length s \<and> s ! 1 \<in> {CHR ''x'', CHR ''X''} \<and> digit_value (s ! 2) < 16
        then (16, drop 2 s) else (8, s)
      else (10, s))"

definition digits_value :: "nat \<Rightarrow> string \<Rightarrow> nat" where
  "digits_value base ds = foldl (\<lambda>n c. n * base + digit_value c) 0 ds"

definition stoull :: "string \<Rightarrow> u64 option" where
  "stoull s =
     (let s1 = dropWhile isspace s;
          neg = (take 1 s1 = ''-'');
          s2 = (if neg \<or> take 1 s1 = ''+'' then drop 1 s1 else s1);
          (base, s3) = number_base s2;
          ds = takeWhile (\<lambda>c. digit_value c < base) s3;
          n = digits_value base ds
      in if ds = [] \<or> n \<ge> 2 ^ 64 then None
         else Some (if neg then - of_nat n else of_nat n))"

text \<open>\<open>std::to_string\<close> of an unsigned number.\<close>

fun decimal :: "nat \<Rightarrow> string" where
  "decimal n =
     (if n < 10 then [char_of (48 + n)] else decimal (n div 10) @ [char_of (48 + n mod 10)])"

declare decimal.simps [simp del]

lemma digit_char:
  fixes k :: nat
  assumes "k < 10"
  shows "digit_value (char_of (48 + k)) = k" "\<not> isspace (char_of (48 + k))"
    "char_of (48 + k) \<noteq> CHR ''-''" "char_of (48 + k) \<noteq> CHR ''+''" "char_of (48 + k) \<noteq> CHR 0x00"
    "char_of (48 + k) = CHR ''0'' \<longleftrightarrow> k = 0"
proof -
  have "(48 + k) mod 256 = 48 + k" "take_bit 8 (48 + k) = 48 + k" using assms by (simp_all add: take_bit_eq_mod)
  then show "digit_value (char_of (48 + k)) = k" "\<not> isspace (char_of (48 + k))"
    "char_of (48 + k) \<noteq> CHR ''-''" "char_of (48 + k) \<noteq> CHR ''+''" "char_of (48 + k) \<noteq> CHR 0x00"
    "char_of (48 + k) = CHR ''0'' \<longleftrightarrow> k = 0"
    using assms by (simp_all add: digit_value_def isspace_def char_of_eq_iff)
qed

lemma decimal_chars: "c \<in> set (decimal n) \<Longrightarrow> \<exists>k :: nat. k < 10 \<and> c = char_of (48 + k)"
proof (induction n rule: decimal.induct)
  case (1 n)
  have "n mod 10 < 10" by simp
  with 1 show ?case by (subst (asm) (2) decimal.simps) (fastforce split: if_splits)
qed

lemma decimal_value: "digits_value 10 (decimal n) = n"
proof (induction n rule: decimal.induct)
  case (1 n)
  then show ?case
    by (subst decimal.simps) (simp add: digits_value_def digit_char)
qed

lemma decimal_first: "\<exists>(k :: nat) r. k < 10 \<and> decimal n = char_of (48 + k) # r \<and> (k = 0 \<longrightarrow> n = 0)"
proof (induction n rule: decimal.induct)
  case (1 n)
  show ?case
  proof (cases "n < 10")
    case False
    with 1 obtain k :: nat and r where "k < 10" "decimal (n div 10) = char_of (48 + k) # r" "k = 0 \<longrightarrow> n div 10 = 0" by auto
    with False show ?thesis by (subst decimal.simps) (auto intro!: exI [of _ k])
  qed (subst decimal.simps; auto)
qed

lemma stoull_decimal:
  assumes "n < 2 ^ 64"
  shows "stoull (decimal n) = Some (of_nat n)"
proof -
  obtain k :: nat and r where k: "k < 10" "decimal n = char_of (48 + k) # r" "k = 0 \<longrightarrow> n = 0"
    using decimal_first by blast
  have all: "takeWhile (\<lambda>c. digit_value c < 10) (decimal n) = decimal n"
    by (auto simp: takeWhile_eq_all_conv digit_char dest!: decimal_chars)
  have d: "dropWhile isspace (decimal n) = decimal n" "take 1 (decimal n) = [char_of (48 + k)]"
    using k by (simp_all add: digit_char)
  show ?thesis
  proof (cases "n = 0")
    case True
    moreover have "decimal 0 = ''0''" by code_simp
    ultimately have "decimal n = ''0''" by simp
    with True show ?thesis
      by (simp add: stoull_def isspace_def number_base_def digit_value_def digits_value_def Let_def)
  next
    case False
    have "number_base (decimal n) = (10, decimal n)" using False k d by (simp add: number_base_def digit_char)
    moreover have "decimal n \<noteq> []" using k(2) by simp
    ultimately show ?thesis using assms k(1)
      by (simp add: stoull_def Let_def digit_char decimal_value all d [simplified])
  qed
qed

lemma no_nul_decimal: "no_nul (decimal n)" "c_str (decimal n) = decimal n"
proof -
  show "no_nul (decimal n)" unfolding no_nul_def using decimal_chars digit_char(5) by fastforce
  then show "c_str (decimal n) = decimal n" by (rule c_str_no_nul)
qed


subsection \<open>Conversions: to\_number and to\_string\<close>

text \<open>
  \<open>strtoul\<close> with base 10, or 0 for the base of the prefix, and a 64-bit \<open>unsigned long\<close>; without
  digits it is zero, out of range all ones.  \<open>strtoll\<close> saturates at both ends.  A 64-bit signed
  number is the word of its two's complement.
\<close>

definition scan_number :: "nat \<Rightarrow> string \<Rightarrow> bool \<times> nat option" where
  "scan_number base s =
     (let s1 = dropWhile isspace (c_str s);
          neg = (take 1 s1 = ''-'');
          s2 = (if neg \<or> take 1 s1 = ''+'' then drop 1 s1 else s1);
          (b, s3) = (if base = 0 then number_base s2 else (base, s2));
          ds = takeWhile (\<lambda>c. digit_value c < b) s3
      in (neg, if ds = [] then None else Some (digits_value b ds)))"

definition strtoul :: "nat \<Rightarrow> string \<Rightarrow> u64" where
  "strtoul base s =
     (case scan_number base s of
        (neg, None) \<Rightarrow> 0
      | (neg, Some n) \<Rightarrow> if n \<ge> 2 ^ 64 then - 1 else if neg then - of_nat n else of_nat n)"

definition strtoll :: "nat \<Rightarrow> string \<Rightarrow> u64" where
  "strtoll base s =
     (case scan_number base s of
        (neg, None) \<Rightarrow> 0
      | (neg, Some n) \<Rightarrow>
          if neg then (if n > 2 ^ 63 then 0x8000000000000000 else - of_nat n)
          else if n \<ge> 2 ^ 63 then 0x7FFFFFFFFFFFFFFF else of_nat n)"

definition to_number_u8 :: "string \<Rightarrow> u8" where "to_number_u8 s = ucast (strtoul 10 s)"

definition to_number_u16 :: "string \<Rightarrow> u16" where "to_number_u16 s = ucast (strtoul 10 s)"

definition to_number_u32 :: "nat \<Rightarrow> string \<Rightarrow> u32" where "to_number_u32 base s = ucast (strtoul base s)"

definition to_number_u64 :: "string \<Rightarrow> u64" where "to_number_u64 s = strtoul 10 s"

definition to_number_i64 :: "string \<Rightarrow> u64" where "to_number_i64 s = strtoll 10 s"

definition to_string_i64 :: "u64 \<Rightarrow> string" where
  "to_string_i64 w = (if w \<ge> 2 ^ 63 then ''-'' @ decimal (unat (- w)) else decimal (unat w))"

lemma scan_decimal: "scan_number 10 (decimal n) = (False, Some n)"
proof -
  obtain k :: nat and r where k: "k < 10" "decimal n = char_of (48 + k) # r" using decimal_first by blast
  have all: "takeWhile (\<lambda>c. digit_value c < 10) (decimal n) = decimal n"
    by (auto simp: takeWhile_eq_all_conv digit_char dest!: decimal_chars)
  have d: "dropWhile isspace (decimal n) = decimal n" "take 1 (decimal n) = [char_of (48 + k)]"
    using k by (simp_all add: digit_char)
  have "decimal n \<noteq> []" using k(2) by simp
  then show ?thesis
    using k(1) by (simp add: scan_number_def no_nul_decimal digit_char decimal_value all d [simplified])
qed

lemma scan_negative: "scan_number 10 (''-'' @ decimal n) = (True, Some n)"
proof -
  have "c_str (''-'' @ decimal n) = ''-'' @ decimal n" using no_nul_decimal(1) by (simp add: no_nul_def)
  moreover have all: "takeWhile (\<lambda>c. digit_value c < 10) (decimal n) = decimal n"
    by (auto simp: takeWhile_eq_all_conv digit_char dest!: decimal_chars)
  moreover have "decimal n \<noteq> []" using decimal_first [of n] by auto
  ultimately show ?thesis by (simp add: scan_number_def isspace_def decimal_value Let_def all)
qed

lemma scan_decimal_prefix: "scan_number 0 (decimal n) = (False, Some n)"
proof -
  obtain k :: nat and r where k: "k < 10" "decimal n = char_of (48 + k) # r" "k = 0 \<longrightarrow> n = 0"
    using decimal_first by blast
  have d: "dropWhile isspace (decimal n) = decimal n" "take 1 (decimal n) = [char_of (48 + k)]"
    using k by (simp_all add: digit_char)
  show ?thesis
  proof (cases "n = 0")
    case True
    moreover have "decimal 0 = ''0''" by code_simp
    moreover have "scan_number 0 ''0'' = (False, Some 0)" by code_simp
    ultimately show ?thesis by simp
  next
    case False
    then have "number_base (decimal n) = (10, decimal n)" using k d by (simp add: number_base_def digit_char)
    then show ?thesis
      using scan_decimal [of n] k(1) by (simp add: scan_number_def no_nul_decimal digit_char d [simplified])
  qed
qed

lemma strtoul_decimal_prefix: "n < 2 ^ 64 \<Longrightarrow> strtoul 0 (decimal n) = of_nat n"
  by (simp add: strtoul_def scan_decimal_prefix)

lemma strtoul_decimal: "n < 2 ^ 64 \<Longrightarrow> strtoul 10 (decimal n) = of_nat n"
  by (simp add: strtoul_def scan_decimal)

lemma to_number_decimal:
  "to_number_u8 (decimal (unat (a :: u8))) = a" "to_number_u16 (decimal (unat (b :: u16))) = b"
  "to_number_u32 10 (decimal (unat (c :: u32))) = c" "to_number_u64 (decimal (unat (d :: u64))) = d"
proof -
  have l: "unat (w :: 'a::len word) < 2 ^ 64" if "LENGTH('a) \<le> 64" for w
    using unsigned_less [of w, where ?'a = nat] power_increasing [OF that, of "2 :: nat"]
    by (metis one_le_numeral order.strict_trans2)
  have u: "ucast (of_nat n :: u64) = (of_nat n :: 'b::len word)" if "LENGTH('b) \<le> 64" for n
    using that by (intro bit_word_eqI) (auto simp: bit_simps)
  show "to_number_u8 (decimal (unat a)) = a" "to_number_u16 (decimal (unat b)) = b"
    "to_number_u32 10 (decimal (unat c)) = c" "to_number_u64 (decimal (unat d)) = d"
    using l [of a] l [of b] l [of c] l [of d]
    by (simp_all add: to_number_u8_def to_number_u16_def to_number_u32_def to_number_u64_def strtoul_decimal u
        del: of_nat_unat) simp_all
qed

lemma to_number_i64: "to_number_i64 (to_string_i64 w) = w"
proof (cases "w \<ge> 2 ^ 63")
  case True
  then have ge: "unat w \<ge> 2 ^ 63" by (simp add: word_le_nat_alt)
  have le: "unat w \<le> 2 ^ 64" using unsigned_less [of w, where ?'a = nat] by simp
  have "(of_nat (2 ^ 64) :: u64) = 0" by (simp only: of_nat_power of_nat_numeral) simp
  then have m: "(of_nat (2 ^ 64 - unat w) :: u64) = - w" by (simp only: of_nat_diff [OF le]) simp
  moreover have "unat (of_nat (2 ^ 64 - unat w) :: u64) = 2 ^ 64 - unat w"
    using ge by (simp add: unat_of_nat)
  ultimately have n: "unat (- w) = 2 ^ 64 - unat w" by simp
  have "\<not> 2 ^ 63 < 2 ^ 64 - unat w" using ge by simp
  then have "strtoll 10 (''-'' @ decimal (unat (- w))) = - of_nat (2 ^ 64 - unat w)"
    by (simp only: strtoll_def scan_negative n prod.case option.case if_True if_False)
  then show ?thesis using True by (simp only: to_number_i64_def to_string_i64_def m if_True) simp
next
  case False
  then have "unat w < 2 ^ 63" by (simp add: word_less_nat_alt not_le)
  then show ?thesis using False by (simp add: to_number_i64_def to_string_i64_def strtoll_def scan_decimal)
qed

subsection \<open>String helpers\<close>

text \<open>\<open>char\<close> is signed: the characters above 0x7F are negative.\<close>

definition char_int :: "char \<Rightarrow> int" where
  "char_int c = (let n = of_char c :: int in if n \<ge> 128 then n - 256 else n)"

definition const_tolower :: "int \<Rightarrow> int" where
  "const_tolower c = (if 65 \<le> c \<and> c \<le> 90 then c + 32 else c)"

definition string_iequals :: "string \<Rightarrow> string \<Rightarrow> bool" where
  "string_iequals lhs rhs \<longleftrightarrow>
     list_all2 (\<lambda>a b. const_tolower (char_int a) = const_tolower (char_int b)) lhs rhs"

definition to_number_bool :: "string \<Rightarrow> bool" where
  "to_number_bool s \<longleftrightarrow> string_iequals s ''true'' \<or> strtoul 10 s > 0"

definition hash_id :: "string \<Rightarrow> u32" where
  "hash_id s = fold (\<lambda>c rez. (rez * 0x1000193) XOR of_int (const_tolower (char_int c))) (c_str s) 0x811C9DC5"

function explode_string :: "string \<Rightarrow> char \<Rightarrow> int \<Rightarrow> string list" where
  "explode_string str delim limit =
     (if limit - 1 \<noteq> - 1 \<and> delim \<in> set str
      then takeWhile (\<lambda>c. c \<noteq> delim) str
             # explode_string (tl (dropWhile (\<lambda>c. c \<noteq> delim) str)) delim (limit - 1)
      else [str])"
  by pat_completeness auto
termination
proof (relation "measure (\<lambda>(str, _, _). length str)")
  fix str :: string and delim and limit :: int assume "limit - 1 \<noteq> - 1 \<and> delim \<in> set str"
  then have "dropWhile (\<lambda>c. c \<noteq> delim) str \<noteq> []" by simp
  moreover have "length (dropWhile (\<lambda>c. c \<noteq> delim) str) \<le> length str" by (rule length_dropWhile_le)
  ultimately show "((tl (dropWhile (\<lambda>c. c \<noteq> delim) str), delim, limit - 1), str, delim, limit)
      \<in> measure (\<lambda>(str, _, _). length str)"
    by (cases "dropWhile (\<lambda>c. c \<noteq> delim) str") auto
qed simp

declare explode_string.simps [simp del]

subsection \<open>Splitting and hashing\<close>

definition join :: "char \<Rightarrow> string list \<Rightarrow> string" where
  "join d ss = concat (map (\<lambda>s. s @ [d]) (butlast ss)) @ last ss"

lemma explode_nonempty [simp]: "explode_string s d l \<noteq> []"
  by (subst explode_string.simps) simp

lemma takeWhile_split: "d \<in> set s \<Longrightarrow> takeWhile (\<lambda>c. c \<noteq> d) s @ d # tl (dropWhile (\<lambda>c. c \<noteq> d) s) = s"
  by (induction s) auto

lemma join_explode: "join d (explode_string s d l) = s"
proof (induction s d l rule: explode_string.induct)
  case (1 s d l)
  then show ?case
    by (subst explode_string.simps) (auto simp: join_def takeWhile_split)
qed

lemma explode_pieces: "p \<in> set (butlast (explode_string s d l)) \<Longrightarrow> d \<notin> set p"
proof (induction s d l rule: explode_string.induct)
  case (1 s d l)
  show ?case
  proof (cases "l - 1 \<noteq> - 1 \<and> d \<in> set s")
    case True
    then show ?thesis using 1 by (subst (asm) (2) explode_string.simps) (auto dest: set_takeWhileD)
  next
    case False
    then have "explode_string s d l = [s]" by (subst explode_string.simps) auto
    with 1 show ?thesis by simp
  qed
qed

lemma explode_count:
  "l \<ge> 0 \<Longrightarrow> length (explode_string s d l) \<le> nat l + 1"
  "l < 0 \<Longrightarrow> d \<notin> set (last (explode_string s d l))"
proof (induction s d l rule: explode_string.induct)
  case (1 s d l)
  { case 1 then show ?case using "1.IH"(1) by (subst explode_string.simps) auto }
  { case 2 then show ?case using "1.IH"(2) by (subst explode_string.simps) auto }
qed

text \<open>
  Splitting a string loses nothing: the pieces joined by the delimiter are the string again,
  no piece but the last contains the delimiter, a limit \<open>n\<close> gives at most \<open>n + 1\<close> pieces and
  without a limit the last piece is free of the delimiter too.
\<close>

lemma explode_string_splits:
  "join d (explode_string s d l) = s \<and> (\<forall>p \<in> set (butlast (explode_string s d l)). d \<notin> set p) \<and>
   (if l \<ge> 0 then length (explode_string s d l) \<le> nat l + 1 else d \<notin> set (last (explode_string s d l)))"
  using join_explode explode_pieces explode_count by auto

lemma iequals_c_str:
  assumes "string_iequals s t"
  shows "string_iequals (c_str s) (c_str t)"
proof -
  have z: "const_tolower (char_int a) = 0 \<longleftrightarrow> a = CHR 0x00" for a
  proof
    assume "const_tolower (char_int a) = 0"
    moreover have "(of_char a :: int) < 256" using of_char_mod_256 [of a, where ?'a = int]
      by (metis pos_mod_bound zero_less_numeral)
    ultimately have "(of_char a :: int) = 0"
      by (auto simp: const_tolower_def char_int_def Let_def split: if_splits)
    then have "(of_char a :: int) = of_char (CHR 0x00)" by simp
    then show "a = CHR 0x00" by (simp only: of_char_eq_iff)
  qed (simp add: const_tolower_def char_int_def)
  from assms show ?thesis unfolding string_iequals_def
  proof (induction rule: list_all2_induct)
    case (Cons a s b t)
    then have "a = CHR 0x00 \<longleftrightarrow> b = CHR 0x00" by (metis z)
    with Cons show ?case by (simp add: c_str_def)
  qed (simp add: c_str_def)
qed

text \<open>
  Asset identifiers ignore case: strings that differ only in the case of letters have the
  same hash.
\<close>

lemma hash_id_ignores_case:
  assumes "string_iequals s t"
  shows "hash_id s = hash_id t"
proof -
  have "fold (\<lambda>c rez. (rez * 0x1000193) XOR of_int (const_tolower (char_int c))) a r =
      fold (\<lambda>c rez. (rez * 0x1000193) XOR of_int (const_tolower (char_int c))) b (r :: u32)"
    if "string_iequals a b" for a b r
    using that unfolding string_iequals_def by (induction arbitrary: r rule: list_all2_induct) simp_all
  with iequals_c_str [OF assms] show ?thesis unfolding hash_id_def by blast
qed

end
