(* ===== verification/DataBuffer.thy ===== *)
theory DataBuffer
  imports Prelude
begin

text \<open>
  The growable byte buffer of \<open>source/Core/IO/DataBuffer.{h,cpp}\<close>: a vector of bytes
  (\<open>mBuffer\<close>, whose size is the capacity), a logical size and a cursor.  Reads are
  bounded by the capacity, not by the logical size, as in the code.  A read that does not fit
  leaves the caller's variable uninitialised: the model returns \<open>None\<close> (no value can be
  relied on).  The host's byte order is a parameter.  Sizes are naturals: every summand is the
  size of an object in memory, so the code's \<open>size_t\<close> sums do not wrap.
\<close>

datatype endian = Little | Big

record databuffer =
  mBuffer :: bytes
  mSize :: nat
  mPosition :: nat

subsection \<open>The vector and the cursor\<close>

definition vector_resize :: "nat \<Rightarrow> bytes \<Rightarrow> bytes" where
  "vector_resize n xs = take n xs @ replicate (n - length xs) 0"

definition db_empty :: databuffer where
  "db_empty = \<lparr>mBuffer = [], mSize = 0, mPosition = 0\<rparr>"

definition can_rw :: "nat \<Rightarrow> databuffer \<Rightarrow> bool" where
  "can_rw n b \<longleftrightarrow> mPosition b + n \<le> length (mBuffer b)"

definition reserve :: "nat \<Rightarrow> databuffer \<Rightarrow> databuffer" where
  "reserve n b = b\<lparr>mBuffer := vector_resize n (mBuffer b)\<rparr>"

definition resize_buffer :: "databuffer \<Rightarrow> databuffer" where
  "resize_buffer b =
     (if mBuffer b = [] then reserve 64 b else reserve (length (mBuffer b) + 1024) b)"

definition impl_peek :: "nat \<Rightarrow> nat \<Rightarrow> databuffer \<Rightarrow> bytes option" where
  "impl_peek S N b =
     (let n = S * N in
      if can_rw n b then Some (take n (drop (mPosition b) (mBuffer b))) else None)"

definition impl_read :: "nat \<Rightarrow> nat \<Rightarrow> databuffer \<Rightarrow> bytes option \<times> databuffer" where
  "impl_read S N b =
     (let n = S * N in
      if can_rw n b
      then (Some (take n (drop (mPosition b) (mBuffer b))), b\<lparr>mPosition := mPosition b + n\<rparr>)
      else (None, b))"

lemma length_vector_resize [simp]: "length (vector_resize n xs) = n"
  by (simp add: vector_resize_def)

lemma take_vector_resize [simp]:
  "k \<le> length xs \<Longrightarrow> k \<le> n \<Longrightarrow> take k (vector_resize n xs) = take k xs"
  by (simp add: vector_resize_def)

lemma resize_buffer_grows: "length (mBuffer b) < length (mBuffer (resize_buffer b))"
  by (simp add: resize_buffer_def reserve_def)

lemma resize_buffer_frame [simp]:
  "mPosition (resize_buffer b) = mPosition b" "mSize (resize_buffer b) = mSize b"
  by (simp_all add: resize_buffer_def reserve_def)

lemma resize_buffer_take:
  "k \<le> length (mBuffer b) \<Longrightarrow> take k (mBuffer (resize_buffer b)) = take k (mBuffer b)"
  by (auto simp: resize_buffer_def reserve_def)

text \<open>The loop \<open>while (!can_rw(length)) resize_buffer()\<close> of \<open>impl_write\<close>.\<close>

function grow :: "nat \<Rightarrow> databuffer \<Rightarrow> databuffer" where
  "grow n b = (if can_rw n b then b else grow n (resize_buffer b))"
  by pat_completeness auto
termination
proof (relation "measure (\<lambda>(n, b). mPosition b + n - length (mBuffer b))")
  fix n b assume "\<not> can_rw n b"
  then show "((n, resize_buffer b), n, b) \<in> measure (\<lambda>(n, b). mPosition b + n - length (mBuffer b))"
    using resize_buffer_grows [of b] by (simp add: can_rw_def)
qed simp

declare grow.simps [simp del]

definition impl_write :: "bytes \<Rightarrow> databuffer \<Rightarrow> databuffer" where
  "impl_write xs b =
     (let n = length xs; g = grow n b; p = mPosition g + n
      in g\<lparr>mBuffer := take (mPosition g) (mBuffer g) @ xs @ drop p (mBuffer g),
           mPosition := p,
           mSize := max (mSize g) p\<rparr>)"

definition set_position :: "nat \<Rightarrow> databuffer \<Rightarrow> databuffer" where
  "set_position n b = b\<lparr>mPosition := min (mSize b) n\<rparr>"

definition db_resize :: "nat \<Rightarrow> databuffer \<Rightarrow> databuffer" where
  "db_resize n b =
     (let b' = b\<lparr>mSize := n\<rparr> in if n > length (mBuffer b) then reserve n b' else b')"

definition db_capacity :: "databuffer \<Rightarrow> nat" where
  "db_capacity b = length (mBuffer b)"

definition db_clear :: "databuffer \<Rightarrow> databuffer" where
  "db_clear b = b\<lparr>mBuffer := [], mPosition := 0, mSize := 0\<rparr>"

definition eof :: "databuffer \<Rightarrow> bool" where
  "eof b \<longleftrightarrow> mPosition b \<ge> mSize b"

definition db_insert :: "databuffer \<Rightarrow> databuffer \<Rightarrow> databuffer" where
  "db_insert other b =
     b\<lparr>mBuffer := take (mSize b) (mBuffer b) @ mBuffer other @ drop (mSize b) (mBuffer b),
       mSize := mSize b + mSize other\<rparr>"

definition read_bytes :: "nat \<Rightarrow> databuffer \<Rightarrow> bytes \<times> databuffer" where
  "read_bytes n b =
     (case impl_read 1 n b of (Some xs, b') \<Rightarrow> (xs, b') | (None, b') \<Rightarrow> (replicate n 0, b'))"

definition skip_bytes :: "nat \<Rightarrow> databuffer \<Rightarrow> databuffer" where
  "skip_bytes n b = b\<lparr>mPosition := mPosition b + n\<rparr>"

subsection \<open>Typed access in host order\<close>

definition from_mem :: "endian \<Rightarrow> bytes \<Rightarrow> 'a::len word" where
  "from_mem h bs = (case h of Little \<Rightarrow> of_le bs | Big \<Rightarrow> of_be bs)"

definition to_mem :: "endian \<Rightarrow> nat \<Rightarrow> 'a::len word \<Rightarrow> bytes" where
  "to_mem h n w = (case h of Little \<Rightarrow> bytes_le n w | Big \<Rightarrow> bytes_be n w)"

definition peek_T :: "endian \<Rightarrow> nat \<Rightarrow> databuffer \<Rightarrow> 'a::len word option" where
  "peek_T h n b = map_option (from_mem h) (impl_peek n 1 b)"

definition read_T :: "endian \<Rightarrow> nat \<Rightarrow> databuffer \<Rightarrow> ('a::len word \<times> databuffer) option" where
  "read_T h n b =
     (case impl_read n 1 b of (Some bs, b') \<Rightarrow> Some (from_mem h bs, b') | (None, _) \<Rightarrow> None)"

definition write_T :: "endian \<Rightarrow> nat \<Rightarrow> 'a::len word \<Rightarrow> databuffer \<Rightarrow> databuffer" where
  "write_T h n w b = impl_write (to_mem h n w) b"

subsection \<open>Access in a fixed byte order\<close>

text \<open>
  The \<open>if constexpr (is_big_endian())\<close> and \<open>if constexpr (is_little_endian())\<close> byte swaps.
\<close>

definition swap_if :: "bool \<Rightarrow> nat \<Rightarrow> 'a::len word \<Rightarrow> 'a word" where
  "swap_if c n w = (if c then bswap_bytes n w else w)"

definition peek_u16_le :: "endian \<Rightarrow> databuffer \<Rightarrow> u16 option" where
  "peek_u16_le h b = map_option (swap_if (h = Big) 2) (peek_T h 2 b)"
definition peek_u32_le :: "endian \<Rightarrow> databuffer \<Rightarrow> u32 option" where
  "peek_u32_le h b = map_option (swap_if (h = Big) 4) (peek_T h 4 b)"
definition peek_u64_le :: "endian \<Rightarrow> databuffer \<Rightarrow> u64 option" where
  "peek_u64_le h b = map_option (swap_if (h = Big) 8) (peek_T h 8 b)"
definition peek_float_le :: "endian \<Rightarrow> databuffer \<Rightarrow> f32 option" where
  "peek_float_le h b = peek_u32_le h b"
definition peek_double_le :: "endian \<Rightarrow> databuffer \<Rightarrow> f64 option" where
  "peek_double_le h b = peek_u64_le h b"

definition peek_u16_be :: "endian \<Rightarrow> databuffer \<Rightarrow> u16 option" where
  "peek_u16_be h b = map_option (swap_if (h = Little) 2) (peek_T h 2 b)"
definition peek_u32_be :: "endian \<Rightarrow> databuffer \<Rightarrow> u32 option" where
  "peek_u32_be h b = map_option (swap_if (h = Little) 4) (peek_T h 4 b)"
definition peek_u64_be :: "endian \<Rightarrow> databuffer \<Rightarrow> u64 option" where
  "peek_u64_be h b = map_option (swap_if (h = Little) 8) (peek_T h 8 b)"
definition peek_float_be :: "endian \<Rightarrow> databuffer \<Rightarrow> f32 option" where
  "peek_float_be h b = peek_u32_be h b"
definition peek_double_be :: "endian \<Rightarrow> databuffer \<Rightarrow> f64 option" where
  "peek_double_be h b = peek_u64_be h b"

definition read_u16_le :: "endian \<Rightarrow> databuffer \<Rightarrow> (u16 \<times> databuffer) option" where
  "read_u16_le h b = map_option (apfst (swap_if (h = Big) 2)) (read_T h 2 b)"
definition read_u32_le :: "endian \<Rightarrow> databuffer \<Rightarrow> (u32 \<times> databuffer) option" where
  "read_u32_le h b = map_option (apfst (swap_if (h = Big) 4)) (read_T h 4 b)"
definition read_u64_le :: "endian \<Rightarrow> databuffer \<Rightarrow> (u64 \<times> databuffer) option" where
  "read_u64_le h b = map_option (apfst (swap_if (h = Big) 8)) (read_T h 8 b)"
definition read_float_le :: "endian \<Rightarrow> databuffer \<Rightarrow> (f32 \<times> databuffer) option" where
  "read_float_le h b = read_u32_le h b"
definition read_double_le :: "endian \<Rightarrow> databuffer \<Rightarrow> (f64 \<times> databuffer) option" where
  "read_double_le h b = read_u64_le h b"

definition read_u16_be :: "endian \<Rightarrow> databuffer \<Rightarrow> (u16 \<times> databuffer) option" where
  "read_u16_be h b = map_option (apfst (swap_if (h = Little) 2)) (read_T h 2 b)"
definition read_u32_be :: "endian \<Rightarrow> databuffer \<Rightarrow> (u32 \<times> databuffer) option" where
  "read_u32_be h b = map_option (apfst (swap_if (h = Little) 4)) (read_T h 4 b)"
definition read_u64_be :: "endian \<Rightarrow> databuffer \<Rightarrow> (u64 \<times> databuffer) option" where
  "read_u64_be h b = map_option (apfst (swap_if (h = Little) 8)) (read_T h 8 b)"
definition read_float_be :: "endian \<Rightarrow> databuffer \<Rightarrow> (f32 \<times> databuffer) option" where
  "read_float_be h b = read_u32_be h b"
definition read_double_be :: "endian \<Rightarrow> databuffer \<Rightarrow> (f64 \<times> databuffer) option" where
  "read_double_be h b = read_u64_be h b"

definition write_u16_le :: "endian \<Rightarrow> u16 \<Rightarrow> databuffer \<Rightarrow> databuffer" where
  "write_u16_le h w b = write_T h 2 (swap_if (h = Big) 2 w) b"
definition write_u32_le :: "endian \<Rightarrow> u32 \<Rightarrow> databuffer \<Rightarrow> databuffer" where
  "write_u32_le h w b = write_T h 4 (swap_if (h = Big) 4 w) b"
definition write_u64_le :: "endian \<Rightarrow> u64 \<Rightarrow> databuffer \<Rightarrow> databuffer" where
  "write_u64_le h w b = write_T h 8 (swap_if (h = Big) 8 w) b"
definition write_float_le :: "endian \<Rightarrow> f32 \<Rightarrow> databuffer \<Rightarrow> databuffer" where
  "write_float_le h w b = write_u32_le h w b"
definition write_double_le :: "endian \<Rightarrow> f64 \<Rightarrow> databuffer \<Rightarrow> databuffer" where
  "write_double_le h w b = write_u64_le h w b"

definition write_u16_be :: "endian \<Rightarrow> u16 \<Rightarrow> databuffer \<Rightarrow> databuffer" where
  "write_u16_be h w b = write_T h 2 (swap_if (h = Little) 2 w) b"
definition write_u32_be :: "endian \<Rightarrow> u32 \<Rightarrow> databuffer \<Rightarrow> databuffer" where
  "write_u32_be h w b = write_T h 4 (swap_if (h = Little) 4 w) b"
definition write_u64_be :: "endian \<Rightarrow> u64 \<Rightarrow> databuffer \<Rightarrow> databuffer" where
  "write_u64_be h w b = write_T h 8 (swap_if (h = Little) 8 w) b"
definition write_float_be :: "endian \<Rightarrow> f32 \<Rightarrow> databuffer \<Rightarrow> databuffer" where
  "write_float_be h w b = write_u32_be h w b"
definition write_double_be :: "endian \<Rightarrow> f64 \<Rightarrow> databuffer \<Rightarrow> databuffer" where
  "write_double_be h w b = write_u64_be h w b"

subsection \<open>The variable-length integers of the protocol\<close>

definition write_u8 :: "u8 \<Rightarrow> databuffer \<Rightarrow> databuffer" where
  "write_u8 w b = write_T Little 1 w b"

definition read_u8 :: "databuffer \<Rightarrow> (u8 \<times> databuffer) option" where
  "read_u8 b = read_T Little 1 b"

definition peek_u8 :: "databuffer \<Rightarrow> u8 option" where
  "peek_u8 b = peek_T Little 1 b"

function encode_tdf_tail :: "u64 \<Rightarrow> databuffer \<Rightarrow> databuffer" where
  "encode_tdf_tail value b =
     (if value \<ge> 0x80
      then encode_tdf_tail (drop_bit 7 value) (write_u8 (ucast ((value AND 0x7F) OR 0x80)) b)
      else write_u8 (ucast value) b)"
  by pat_completeness auto

lemma drop_bit_decreases:
  fixes v :: "'a::len word"
  assumes "v \<noteq> 0" and "0 < n"
  shows "unat (drop_bit n v) < unat v"
proof -
  have "unat v div 2 ^ n < unat v"
    using assms one_less_power [of "2::nat" n] by (intro div_less_dividend) (auto simp: unat_gt_0)
  then show ?thesis by (subst unat_drop_bit_eq) (simp add: drop_bit_eq_div)
qed

termination encode_tdf_tail
  by (relation "measure (\<lambda>(v, b). unat v)") (auto intro!: drop_bit_decreases)

declare encode_tdf_tail.simps [simp del]

definition encode_tdf_integer :: "u64 \<Rightarrow> databuffer \<Rightarrow> databuffer" where
  "encode_tdf_integer value b =
     (if value < 0x40 then write_u8 (ucast (value AND 0xFF)) b
      else encode_tdf_tail (drop_bit 6 value) (write_u8 (ucast ((value AND 0x3F) OR 0x80)) b))"

function decode_tdf_tail :: "nat \<Rightarrow> u64 \<Rightarrow> databuffer \<Rightarrow> (u64 \<times> databuffer) option" where
  "decode_tdf_tail i value b =
     (if i < 8 then
        (case read_u8 b of
          None \<Rightarrow> None
        | Some (next_value, b') \<Rightarrow>
            (let value' = value OR push_bit (i * 7 - 1) (ucast next_value AND 0x7F)
             in if next_value < 0x80 then Some (value', b') else decode_tdf_tail (i + 1) value' b'))
      else Some (value, b))"
  by pat_completeness auto
termination
  by (relation "measure (\<lambda>(i, v, b). 8 - i)") auto

declare decode_tdf_tail.simps [simp del]

definition decode_tdf_integer :: "databuffer \<Rightarrow> (u64 \<times> databuffer) option" where
  "decode_tdf_integer b =
     (case read_u8 b of
        None \<Rightarrow> None
      | Some (value, b') \<Rightarrow>
          if value \<ge> 0x80 then decode_tdf_tail 1 (ucast value AND 0x3F) b'
          else Some (ucast value, b'))"


subsection \<open>The buffer as an append-only sink\<close>

definition ready :: "databuffer \<Rightarrow> bool" where
  "ready b \<longleftrightarrow> mPosition b = mSize b \<and> mSize b \<le> length (mBuffer b)"

definition content :: "databuffer \<Rightarrow> bytes" where
  "content b = take (mSize b) (mBuffer b)"

definition remaining :: "databuffer \<Rightarrow> bytes" where
  "remaining b = drop (mPosition b) (mBuffer b)"

definition wf_buffer :: "databuffer \<Rightarrow> bool" where
  "wf_buffer b \<longleftrightarrow> mSize b \<le> length (mBuffer b) \<and> mPosition b \<le> length (mBuffer b)"

lemma grow_props:
  "can_rw n (grow n b) \<and> mPosition (grow n b) = mPosition b \<and> mSize (grow n b) = mSize b
   \<and> length (mBuffer b) \<le> length (mBuffer (grow n b))
   \<and> (\<forall>k \<le> length (mBuffer b). take k (mBuffer (grow n b)) = take k (mBuffer b))"
proof (induction n b rule: grow.induct)
  case (1 n b)
  show ?case
  proof (cases "can_rw n b")
    case True
    then show ?thesis by (simp add: grow.simps [of n b])
  next
    case False
    with "1.IH" resize_buffer_grows [of b] show ?thesis
      by (auto simp: grow.simps [of n b] resize_buffer_take)
  qed
qed

lemma grow_frame [simp]: "mPosition (grow n b) = mPosition b" "mSize (grow n b) = mSize b"
  using grow_props [of n b] by simp_all

lemma grow_room: "mPosition b + n \<le> length (mBuffer (grow n b))"
  using grow_props [of n b] by (simp add: can_rw_def)

lemma grow_take: "k \<le> length (mBuffer b) \<Longrightarrow> take k (mBuffer (grow n b)) = take k (mBuffer b)"
  using grow_props [of n b] by simp

lemma impl_write_frame [simp]:
  "mPosition (impl_write xs b) = mPosition b + length xs"
  "mSize (impl_write xs b) = max (mSize b) (mPosition b + length xs)"
  by (simp_all add: impl_write_def Let_def)

lemma impl_write_buffer:
  "mPosition b \<le> length (mBuffer b) \<Longrightarrow>
   mBuffer (impl_write xs b) =
     take (mPosition b) (mBuffer b) @ xs
       @ drop (mPosition b + length xs) (mBuffer (grow (length xs) b))"
  by (simp add: impl_write_def Let_def grow_take)

lemma length_impl_write:
  "mPosition b \<le> length (mBuffer b) \<Longrightarrow>
   length (mBuffer (impl_write xs b)) = length (mBuffer (grow (length xs) b))"
  using grow_room [of b "length xs"] by (simp add: impl_write_buffer)

lemma impl_write_ready: "ready b \<Longrightarrow> ready (impl_write xs b)"
  using grow_room [of b "length xs"] by (simp add: ready_def length_impl_write)

lemma impl_write_content: "ready b \<Longrightarrow> content (impl_write xs b) = content b @ xs"
  by (simp add: ready_def content_def impl_write_buffer)

interpretation buf: sink ready content impl_write
  by unfold_locales (rule impl_write_ready impl_write_content; assumption)+

text \<open>Facts that turn every fixed-order writer into the bytes it appends.\<close>

lemma to_mem_Little [simp]: "to_mem Little n w = bytes_le n w"
  and to_mem_Big [simp]: "to_mem Big n w = bytes_be n w"
  and from_mem_Little [simp]: "from_mem Little bs = of_le bs"
  and from_mem_Big [simp]: "from_mem Big bs = of_be bs"
  by (simp_all add: to_mem_def from_mem_def)

lemma bytes_be_bswap_bytes:
  "LENGTH('a) = 8 * n \<Longrightarrow> bytes_be n (bswap_bytes n w) = bytes_le n (w :: 'a::len word)"
  by (simp add: bytes_be_def bytes_le_bswap_bytes)

lemma to_mem_swap_le:
  "LENGTH('a) = 8 * n \<Longrightarrow> to_mem h n (swap_if (h = Big) n (w :: 'a::len word)) = bytes_le n w"
  by (cases h) (simp_all add: swap_if_def bytes_be_bswap_bytes)

lemma to_mem_swap_be:
  "LENGTH('a) = 8 * n \<Longrightarrow> to_mem h n (swap_if (h = Little) n (w :: 'a::len word)) = bytes_be n w"
  by (cases h) (simp_all add: swap_if_def bytes_le_bswap_bytes)

lemma swap_from_mem_le:
  "LENGTH('a) = 8 * n \<Longrightarrow> length bs = n \<Longrightarrow>
   swap_if (h = Big) n (from_mem h bs :: 'a::len word) = of_le bs"
  by (cases h) (simp_all add: swap_if_def of_be_def bswap_bytes_of_le)

lemma swap_from_mem_be:
  "LENGTH('a) = 8 * n \<Longrightarrow> length bs = n \<Longrightarrow>
   swap_if (h = Little) n (from_mem h bs :: 'a::len word) = of_be bs"
  by (cases h) (simp_all add: swap_if_def bswap_bytes_of_le)

lemmas fixed_order_writers =
  write_u16_le_def write_u32_le_def write_u64_le_def write_float_le_def write_double_le_def
  write_u16_be_def write_u32_be_def write_u64_be_def write_float_be_def write_double_be_def

lemma write_u8_eq: "write_u8 w = impl_write [w]"
  by (rule ext) (simp add: write_u8_def write_T_def)

lemma write_u16_be_eq: "write_u16_be h w = impl_write (bytes_be 2 w)"
  and write_u16_le_eq: "write_u16_le h w = impl_write (bytes_le 2 w)"
  by (rule ext, simp add: fixed_order_writers write_T_def to_mem_swap_be to_mem_swap_le)+

lemma write_u32_be_eq: "write_u32_be h w = impl_write (bytes_be 4 w)"
  and write_u32_le_eq: "write_u32_le h w = impl_write (bytes_le 4 w)"
  by (rule ext, simp add: fixed_order_writers write_T_def to_mem_swap_be to_mem_swap_le)+

lemma write_u64_be_eq: "write_u64_be h w = impl_write (bytes_be 8 w)"
  and write_u64_le_eq: "write_u64_le h w = impl_write (bytes_le 8 w)"
  by (rule ext, simp add: fixed_order_writers write_T_def to_mem_swap_be to_mem_swap_le)+

subsection \<open>Reading\<close>

lemma impl_read_remaining:
  assumes "remaining b = xs @ ys" and "length xs = S * N" and "mPosition b \<le> length (mBuffer b)"
  shows "impl_read S N b = (Some xs, b\<lparr>mPosition := mPosition b + S * N\<rparr>)"
proof -
  have "length (remaining b) = length (mBuffer b) - mPosition b" by (simp add: remaining_def)
  with assms have "can_rw (S * N) b" by (simp add: can_rw_def)
  with assms show ?thesis by (simp add: impl_read_def Let_def remaining_def)
qed

lemma remaining_bound: "remaining b = x # xs \<Longrightarrow> mPosition b < length (mBuffer b)"
  by (rule ccontr) (simp add: remaining_def)

lemma remaining_advance:
  "remaining b = xs @ ys \<Longrightarrow> length xs = n \<Longrightarrow>
   remaining (b\<lparr>mPosition := mPosition b + n\<rparr>) = ys"
proof -
  assume xs: "remaining b = xs @ ys" "length xs = n"
  have "drop n (remaining b) = ys" using xs by simp
  then show ?thesis by (simp add: remaining_def add.commute)
qed

lemma read_u8_Cons:
  assumes "remaining b = x # xs"
  shows "read_u8 b = Some (x, b\<lparr>mPosition := Suc (mPosition b)\<rparr>)"
  using impl_read_remaining [of b "[x]" xs 1 1] assms remaining_bound [OF assms]
  by (simp add: read_u8_def read_T_def)

lemma read_u8_end: "remaining b = [] \<Longrightarrow> read_u8 b = None"
  by (simp add: read_u8_def read_T_def impl_read_def can_rw_def remaining_def Let_def)

lemma peek_u8_Cons: "remaining b = x # xs \<Longrightarrow> peek_u8 b = Some x"
  using remaining_bound [of b x xs]
  by (simp add: peek_u8_def peek_T_def impl_peek_def can_rw_def remaining_def Let_def
      take_Suc_conv_app_nth Cons_nth_drop_Suc [symmetric])

lemma remaining_Suc: "remaining b = x # xs \<Longrightarrow> remaining (b\<lparr>mPosition := Suc (mPosition b)\<rparr>) = xs"
  using remaining_advance [of b "[x]" xs 1] by simp

subsection \<open>The encoding as a byte string\<close>

text \<open>What \<open>encode_tdf_integer\<close> appends, without the buffer.\<close>

function tdf_tail :: "u64 \<Rightarrow> bytes" where
  "tdf_tail value =
     (if value \<ge> 0x80 then ucast ((value AND 0x7F) OR 0x80) # tdf_tail (drop_bit 7 value)
      else [ucast value])"
  by pat_completeness auto
termination
  by (relation "measure unat") (auto intro!: drop_bit_decreases)

declare tdf_tail.simps [simp del]

definition tdf_int :: "u64 \<Rightarrow> bytes" where
  "tdf_int value =
     (if value < 0x40 then [ucast value]
      else ucast ((value AND 0x3F) OR 0x80) # tdf_tail (drop_bit 6 value))"

lemma encode_tdf_tail_appends: "buf.appends (encode_tdf_tail v) (tdf_tail v)"
proof (induction v rule: tdf_tail.induct)
  case (1 v)
  show ?case
  proof (cases "v \<ge> 0x80")
    case True
    have "buf.appends (\<lambda>b. encode_tdf_tail (drop_bit 7 v) (impl_write [ucast ((v AND 0x7F) OR 0x80)] b))
            ([ucast ((v AND 0x7F) OR 0x80)] @ tdf_tail (drop_bit 7 v))"
      using True "1.IH" by (intro buf.appends_comp buf.appends_put) auto
    moreover have "encode_tdf_tail v =
        (\<lambda>b. encode_tdf_tail (drop_bit 7 v) (impl_write [ucast ((v AND 0x7F) OR 0x80)] b))"
      using True by (intro ext) (simp add: encode_tdf_tail.simps [of v] write_u8_eq)
    ultimately show ?thesis using True by (simp add: tdf_tail.simps [of v])
  next
    case False
    then have "encode_tdf_tail v = impl_write [ucast v]"
      by (intro ext) (simp add: encode_tdf_tail.simps [of v] write_u8_eq)
    with False show ?thesis by (simp add: tdf_tail.simps [of v] buf.appends_put)
  qed
qed

lemma and_low_mask_id: "v < 0x40 \<Longrightarrow> v AND 0xFF = (v :: u64)"
  using less_mask_eq [of v 8] by (simp add: mask_eq_exp_minus_1 word_less_nat_alt)

lemma encode_tdf_integer_appends: "buf.appends (encode_tdf_integer v) (tdf_int v)"
proof (cases "v < 0x40")
  case True
  then have "encode_tdf_integer v = impl_write [ucast v]"
    by (intro ext) (simp add: encode_tdf_integer_def write_u8_eq and_low_mask_id)
  with True show ?thesis by (simp add: tdf_int_def buf.appends_put)
next
  case False
  then have "encode_tdf_integer v =
      (\<lambda>b. encode_tdf_tail (drop_bit 6 v) (impl_write [ucast ((v AND 0x3F) OR 0x80)] b))"
    by (intro ext) (simp add: encode_tdf_integer_def write_u8_eq)
  moreover have "buf.appends \<dots> ([ucast ((v AND 0x3F) OR 0x80)] @ tdf_tail (drop_bit 6 v))"
    by (intro buf.appends_comp buf.appends_put encode_tdf_tail_appends)
  ultimately show ?thesis using False by (simp add: tdf_int_def)
qed

subsection \<open>Decoding what was encoded\<close>

lemma continuation_byte_high: "\<not> (ucast ((w AND 0x7F) OR 0x80 :: u64) :: u8) < 0x80"
  by (simp add: tdf_bits)

lemma continuation_byte_low:
  "(ucast (ucast ((w AND 0x7F) OR 0x80 :: u64) :: u8) :: u64) AND 0x7F = take_bit 7 w"
  by (rule bit_word_eqI) (auto simp: tdf_bits)

lemma final_byte:
  assumes "w < (0x80 :: u64)"
  shows "(ucast w :: u8) < 0x80" and "(ucast (ucast w :: u8) :: u64) AND 0x7F = w"
proof -
  have "w < 2 ^ 7" using assms by simp
  then have nb: "\<forall>i \<ge> 7. \<not> bit w i" by (subst (asm) less_2p_iff_bits) simp_all
  then show "(ucast w :: u8) < 0x80" by (simp add: tdf_bits)
  show "(ucast (ucast w :: u8) :: u64) AND 0x7F = w"
    using nb by (intro bit_word_eqI) (use nb in \<open>auto simp: tdf_bits intro: ccontr\<close>)
qed

lemma tail_bits:
  assumes "1 \<le> i" and "i < 8"
  shows "push_bit (7 * i - 1) (take_bit 7 w) OR
         push_bit (7 * Suc i - 1) (take_bit (7 * (8 - Suc i)) (drop_bit 7 w))
       = push_bit (7 * i - 1) (take_bit (7 * (8 - i)) (w :: u64))"
proof (rule bit_word_eqI)
  fix n assume n: "n < LENGTH(64)"
  define k where "k = 7 * i - 1"
  have k: "7 * Suc i - 1 = k + 7" "7 * (8 - i) = 7 * (8 - Suc i) + 7" using assms by (auto simp: k_def)
  show "bit (push_bit (7 * i - 1) (take_bit 7 w) OR
         push_bit (7 * Suc i - 1) (take_bit (7 * (8 - Suc i)) (drop_bit 7 w))) n
     = bit (push_bit (7 * i - 1) (take_bit (7 * (8 - i)) w)) n"
  proof (cases "k + 7 \<le> n")
    case True
    then obtain m where m: "n = k + 7 + m" using le_Suc_ex by blast
    show ?thesis unfolding k k_def [symmetric] m
      by (auto simp: bit_simps add.commute dest: bit_imp_le_length)
  next
    case False
    then show ?thesis unfolding k k_def [symmetric] by (auto simp: bit_simps)
  qed
qed

lemma decode_tdf_tail_bytes:
  assumes "1 \<le> i" and "i < 8" and "remaining b = tdf_tail w @ rest"
  shows "decode_tdf_tail i acc b =
     Some (acc OR push_bit (7 * i - 1) (take_bit (7 * (8 - i)) w),
           b\<lparr>mPosition := mPosition b + min (8 - i) (length (tdf_tail w))\<rparr>)"
  using assms
proof (induction w arbitrary: i acc b rule: tdf_tail.induct)
  case (1 w)
  show ?case
  proof (cases "w \<ge> 0x80")
    case True
    define x :: u8 where "x = ucast ((w AND 0x7F) OR 0x80)"
    define b' where "b' = b\<lparr>mPosition := Suc (mPosition b)\<rparr>"
    define acc' where "acc' = acc OR push_bit (7 * i - 1) (take_bit 7 w)"
    from True have tail: "tdf_tail w = x # tdf_tail (drop_bit 7 w)"
      by (simp add: tdf_tail.simps [of w] x_def)
    with "1.prems"(3) have r: "remaining b = x # tdf_tail (drop_bit 7 w) @ rest" by simp
    then have rd: "read_u8 b = Some (x, b')" and r': "remaining b' = tdf_tail (drop_bit 7 w) @ rest"
      by (simp_all add: read_u8_Cons remaining_Suc b'_def)
    have x: "\<not> x < 0x80" "ucast x AND 0x7F = take_bit 7 w"
      unfolding x_def by (rule continuation_byte_high continuation_byte_low)+
    have step: "decode_tdf_tail i acc b = decode_tdf_tail (Suc i) acc' b'"
      using "1.prems"(2) rd x(1)
      by (simp add: decode_tdf_tail.simps [of i acc b] acc'_def Let_def mult.commute x(2) [symmetric])
    show ?thesis
    proof (cases "Suc i < 8")
      case True
      have "decode_tdf_tail (Suc i) acc' b' =
          Some (acc' OR push_bit (7 * Suc i - 1) (take_bit (7 * (8 - Suc i)) (drop_bit 7 w)),
             b'\<lparr>mPosition := mPosition b' + min (8 - Suc i) (length (tdf_tail (drop_bit 7 w)))\<rparr>)"
        by (rule "1.IH" [OF \<open>w \<ge> 0x80\<close> _ True r']) simp
      moreover have "mPosition b' + min (8 - Suc i) (length (tdf_tail (drop_bit 7 w)))
          = mPosition b + min (8 - i) (length (tdf_tail w))"
        using "1.prems"(2) by (simp add: b'_def tail)
      ultimately show ?thesis
        using tail_bits [OF "1.prems"(1,2), of w]
        by (simp add: step b'_def acc'_def or.assoc)
    next
      case False
      with "1.prems"(2) have "i = 7" by simp
      then show ?thesis
        unfolding step by (simp add: decode_tdf_tail.simps [of 8] b'_def acc'_def tail)
    qed
  next
    case False
    then have w: "w < 0x80" by simp
    then have tail: "tdf_tail w = [ucast w]" by (simp add: tdf_tail.simps [of w] linorder_not_le [symmetric])
    with "1.prems"(3) have "remaining b = ucast w # rest" by simp
    then have "read_u8 b = Some (ucast w, b\<lparr>mPosition := Suc (mPosition b)\<rparr>)"
      by (rule read_u8_Cons)
    moreover have "take_bit (7 * (8 - i)) w = w"
    proof -
      have t: "take_bit 7 w = w" using w less_2p_iff_take_bit [of 7 w] by simp
      have "min (7 * (8 - i)) 7 = 7" using "1.prems"(2) by simp
      then have "take_bit (7 * (8 - i)) (take_bit 7 w) = take_bit 7 w"
        by (simp only: take_bit_take_bit)
      then show ?thesis unfolding t .
    qed
    ultimately show ?thesis
      using "1.prems"(2) final_byte [OF w]
      by (simp add: decode_tdf_tail.simps [of i acc b] Let_def mult.commute tail del: push_bit_and)
  qed
qed

lemma decode_tdf_integer_bytes:
  assumes "remaining b = tdf_int v @ rest"
  shows "decode_tdf_integer b =
    Some (take_bit 55 v, b\<lparr>mPosition := mPosition b + min 8 (length (tdf_int v))\<rparr>)"
proof (cases "v < 0x40")
  case True
  then have v: "v < 2 ^ 6" by simp
  then have "take_bit 6 v = v" using less_2p_iff_take_bit [of 6 v] by simp
  then have t: "take_bit k v = v" if "6 \<le> k" for k
  proof -
    have "take_bit k (take_bit 6 v) = take_bit 6 v"
      using that by (simp only: take_bit_take_bit min_def) simp
    then show ?thesis using \<open>take_bit 6 v = v\<close> by simp
  qed
  have small: "(ucast v :: u8) < 0x80"
    by (rule final_byte) (use True in \<open>simp add: order_less_trans [of v 64 128]\<close>)
  have "(ucast (ucast v :: u8) :: u64) = v"
  proof (rule bit_word_eqI)
    fix n assume "n < LENGTH(64)"
    have "bit v n \<longleftrightarrow> bit (take_bit 8 v) n" using t [of 8] by simp
    then show "bit (ucast (ucast v :: u8) :: u64) n = bit v n"
      using \<open>n < LENGTH(64)\<close> by (auto simp: bit_simps)
  qed
  with True assms read_u8_Cons [of b "ucast v" rest] small show ?thesis
    by (simp add: tdf_int_def decode_tdf_integer_def t linorder_not_le [symmetric])
next
  case False
  define x :: u8 where "x = ucast ((v AND 0x3F) OR 0x80)"
  define b' where "b' = b\<lparr>mPosition := Suc (mPosition b)\<rparr>"
  from False assms have r: "remaining b = x # tdf_tail (drop_bit 6 v) @ rest"
    by (simp add: tdf_int_def x_def)
  have x: "\<not> x < 0x80" "(ucast x :: u64) AND 0x3F = take_bit 6 v"
    unfolding x_def by (simp add: tdf_bits, intro bit_word_eqI, auto simp: tdf_bits)
  have "decode_tdf_integer b = decode_tdf_tail 1 (take_bit 6 v) b'"
    using read_u8_Cons [OF r] x by (simp add: decode_tdf_integer_def b'_def linorder_not_le [symmetric])
  moreover have "decode_tdf_tail 1 (take_bit 6 v) b' = Some (take_bit 6 v OR
      push_bit 6 (take_bit 49 (drop_bit 6 v)),
      b'\<lparr>mPosition := mPosition b' + min 7 (length (tdf_tail (drop_bit 6 v)))\<rparr>)"
    using decode_tdf_tail_bytes [of 1 b' "drop_bit 6 v" rest] remaining_Suc [OF r]
    by (simp add: b'_def)
  moreover have "take_bit 6 v OR push_bit 6 (take_bit 49 (drop_bit 6 v)) = take_bit 55 v"
    by (rule bit_word_eqI) (auto simp: bit_simps not_le)
  ultimately show ?thesis using False by (simp add: tdf_int_def b'_def)
qed

subsection \<open>Properties\<close>

text \<open>
  On a buffer whose cursor is at its end, every fixed-order writer appends exactly the
  bytes of the value in the promised order and leaves the cursor at the end, whatever the byte
  order of the host; the floating-point writers append the bit pattern.
\<close>

lemma fixed_order_writers_append:
  assumes "ready b"
  shows "content (write_u16_le h v b) = content b @ bytes_le 2 v \<and>
         content (write_u32_le h w b) = content b @ bytes_le 4 w \<and>
         content (write_u64_le h x b) = content b @ bytes_le 8 x \<and>
         content (write_u16_be h v b) = content b @ rev (bytes_le 2 v) \<and>
         content (write_u32_be h w b) = content b @ rev (bytes_le 4 w) \<and>
         content (write_u64_be h x b) = content b @ rev (bytes_le 8 x) \<and>
         content (write_float_le h w b) = content b @ bytes_le 4 w \<and>
         content (write_double_be h x b) = content b @ rev (bytes_le 8 x) \<and>
         ready (write_u16_be h v b) \<and> ready (write_u32_be h w b) \<and> ready (write_u64_be h x b)"
  using assms
  by (simp add: write_u16_le_eq write_u32_le_eq write_u64_le_eq write_u16_be_eq write_u32_be_eq
      write_u64_be_eq write_float_le_def write_double_be_def buf.content_put buf.ready_put
      bytes_be_def)


lemma remaining_after_write:
  assumes "mPosition b \<le> length (mBuffer b)"
  shows "\<exists>rest. remaining (set_position (mPosition b) (impl_write xs b)) = xs @ rest"
  using assms by (simp add: remaining_def set_position_def impl_write_buffer)

lemma read_T_remaining:
  assumes "remaining b = xs @ rest" and "length xs = n" and "mPosition b \<le> length (mBuffer b)"
  shows "read_T h n b = Some (from_mem h xs, b\<lparr>mPosition := mPosition b + n\<rparr>)"
  using impl_read_remaining [of b xs rest n 1] assms by (simp add: read_T_def)

lemma read_be_remaining:
  assumes "remaining b = bytes_be n w @ rest" and "LENGTH('a) = 8 * n"
    and "mPosition b \<le> length (mBuffer b)"
  shows "map_option (apfst (swap_if (h = Little) n)) (read_T h n b)
       = Some (w :: 'a::len word, b\<lparr>mPosition := mPosition b + n\<rparr>)"
  using read_T_remaining [OF assms(1) _ assms(3), where ?'a = 'a] assms(2)
  by (simp add: swap_from_mem_be of_be_bytes_be)

lemma read_le_remaining:
  assumes "remaining b = bytes_le n w @ rest" and "LENGTH('a) = 8 * n"
    and "mPosition b \<le> length (mBuffer b)"
  shows "map_option (apfst (swap_if (h = Big) n)) (read_T h n b)
       = Some (w :: 'a::len word, b\<lparr>mPosition := mPosition b + n\<rparr>)"
  using read_T_remaining [OF assms(1) _ assms(3), where ?'a = 'a] assms(2)
  by (simp add: swap_from_mem_le of_le_bytes_le)

lemma set_position_write:
  "mPosition b \<le> length (mBuffer b) \<Longrightarrow>
   (set_position (mPosition b) (impl_write xs b))\<lparr>mPosition := mPosition b + length xs\<rparr>
     = impl_write xs b
   \<and> mPosition (set_position (mPosition b) (impl_write xs b)) = mPosition b
   \<and> mPosition b \<le> length (mBuffer (set_position (mPosition b) (impl_write xs b)))"
  using grow_room [of b "length xs"]
  by (simp add: set_position_def length_impl_write)

text \<open>
  Overwriting at any cursor position and going back to it with \<open>set_position\<close>, the
  reader of the same byte order returns the written value and ends where the writer ended,
  even when writer and reader run on hosts of different byte order.
\<close>

lemma fixed_order_roundtrip:
  assumes "wf_buffer b"
  shows "read_u16_le h' (set_position (mPosition b) (write_u16_le h v b)) = Some (v, write_u16_le h v b)
       \<and> read_u32_be h' (set_position (mPosition b) (write_u32_be h w b)) = Some (w, write_u32_be h w b)
       \<and> read_u16_be h' (set_position (mPosition b) (write_u16_be h v b)) = Some (v, write_u16_be h v b)
       \<and> read_u64_be h' (set_position (mPosition b) (write_u64_be h x b)) = Some (x, write_u64_be h x b)
       \<and> read_double_le h' (set_position (mPosition b) (write_double_le h x b))
           = Some (x, write_double_le h x b)"
proof -
  have p: "mPosition b \<le> length (mBuffer b)" using assms by (simp add: wf_buffer_def)
  let ?r = "\<lambda>xs. set_position (mPosition b) (impl_write xs b)"
  have be: "map_option (apfst (swap_if (h' = Little) n)) (read_T h' n (?r (bytes_be n u)))
      = Some (u, impl_write (bytes_be n u) b)" if "LENGTH('a) = 8 * n" for n and u :: "'a::len word"
    using read_be_remaining [OF _ that, of "?r (bytes_be n u)" u] remaining_after_write [OF p]
      set_position_write [OF p, of "bytes_be n u"] by fastforce
  have le: "map_option (apfst (swap_if (h' = Big) n)) (read_T h' n (?r (bytes_le n u)))
      = Some (u, impl_write (bytes_le n u) b)" if "LENGTH('b) = 8 * n" for n and u :: "'b::len word"
    using read_le_remaining [OF _ that, of "?r (bytes_le n u)" u] remaining_after_write [OF p]
      set_position_write [OF p, of "bytes_le n u"] by fastforce
  show ?thesis
    by (simp add: read_u16_le_def read_u32_be_def read_u16_be_def read_u64_be_def
        read_double_le_def read_u64_le_def write_double_le_def write_u16_le_eq write_u32_be_eq
        write_u16_be_eq write_u64_be_eq write_u64_le_eq be le)
qed

lemma decode_after_encode:
  assumes "ready b"
  shows "decode_tdf_integer (set_position (mSize b) (encode_tdf_integer v b)) =
     Some (take_bit 55 v,
       (encode_tdf_integer v b)\<lparr>mPosition := mSize b + min 8 (length (tdf_int v))\<rparr>)"
proof -
  let ?e = "encode_tdf_integer v b" and ?s = "set_position (mSize b) (encode_tdf_integer v b)"
  have r: "ready ?e" and c: "content ?e = content b @ tdf_int v"
    using encode_tdf_integer_appends assms by (rule buf.appends_ready buf.appends_content)+
  have lc: "length (content b) = mSize b" and le: "length (content ?e) = mSize ?e"
    using assms r by (simp_all add: content_def ready_def)
  have pos: "mPosition ?s = mSize b"
    using lc le by (simp add: set_position_def c min_def)
  have "mBuffer ?e = content ?e @ drop (mSize ?e) (mBuffer ?e)" by (simp add: content_def)
  then have split: "mBuffer ?e = content b @ tdf_int v @ drop (mSize ?e) (mBuffer ?e)"
    by (simp add: c)
  have "drop (length (content b)) (mBuffer ?e) = tdf_int v @ drop (mSize ?e) (mBuffer ?e)"
    by (subst split) simp
  then have "remaining ?s = tdf_int v @ drop (mSize ?e) (mBuffer ?e)"
    using pos lc by (simp add: remaining_def set_position_def)
  then show ?thesis
    using pos by (simp add: decode_tdf_integer_bytes) (simp add: set_position_def)
qed

text \<open>
  Encoding an integer at the end of a buffer and decoding it there yields the low 55 bits
  of the integer, and the decoder consumes at most eight bytes.
\<close>

lemma tdf_integer_roundtrip:
  assumes "ready b"
  shows "decode_tdf_integer (set_position (mSize b) (encode_tdf_integer v b)) =
     Some (take_bit 55 v,
       (encode_tdf_integer v b)\<lparr>mPosition := mSize b + min 8 (length (tdf_int v))\<rparr>)"
  using assms by (rule decode_after_encode)

lemma drop_bit_word_eq_0:
  fixes w :: "'a::len word"
  assumes "n < LENGTH('a)"
  shows "drop_bit n w = 0 \<longleftrightarrow> w < 2 ^ n"
proof -
  have "drop_bit n w = 0 \<longleftrightarrow> (\<forall>i. \<not> bit w (n + i))"
    by (auto simp: bit_eq_iff bit_simps)
      (meson bit_imp_le_length le_add2 order_le_less_trans)
  also have "\<dots> \<longleftrightarrow> (\<forall>i \<ge> n. \<not> bit w i)" by (metis le_add1 le_iff_add)
  finally show ?thesis using less_2p_iff_bits [OF assms, of w] by simp
qed

lemma length_tdf_tail_le: "length (tdf_tail w) \<le> Suc k \<longleftrightarrow> drop_bit (7 * Suc k) w = 0"
proof (induction w arbitrary: k rule: tdf_tail.induct)
  case (1 w)
  have small: "w < 0x80 \<longleftrightarrow> drop_bit 7 w = 0" using drop_bit_word_eq_0 [of 7 w] by simp
  show ?case
  proof (cases "w \<ge> 0x80")
    case True
    then have nz: "drop_bit 7 w \<noteq> 0" using small by auto
    show ?thesis
    proof (cases k)
      case 0
      have "tdf_tail (drop_bit 7 w) \<noteq> []" by (simp add: tdf_tail.simps [of "drop_bit 7 w"])
      with True nz 0 show ?thesis by (simp add: tdf_tail.simps [of w])
    next
      case (Suc j)
      have "drop_bit (7 * Suc j) (drop_bit 7 w) = drop_bit (7 * Suc k) w"
        by (simp add: Suc drop_bit_drop_bit add.commute)
      with True "1.IH" [of j] Suc show ?thesis by (simp add: tdf_tail.simps [of w])
    qed
  next
    case False
    then have "drop_bit 7 w = 0" using small by (simp add: linorder_not_le)
    moreover have "drop_bit (7 * Suc k) w = drop_bit (7 * k) (drop_bit 7 w)"
      by (simp add: drop_bit_drop_bit add.commute)
    ultimately show ?thesis using False by (simp add: tdf_tail.simps [of w])
  qed
qed

lemma length_tdf_int_le: "length (tdf_int v) \<le> 8 \<longleftrightarrow> v < 2 ^ 55"
proof (cases "v < 0x40")
  case True
  then have "v < 2 ^ 55" by (rule order_less_trans) simp
  with True show ?thesis by (simp add: tdf_int_def)
next
  case False
  have "drop_bit (7 * Suc 6) (drop_bit 6 v) = drop_bit 55 v" by (simp add: drop_bit_drop_bit)
  with False length_tdf_tail_le [of "drop_bit 6 v" 6] drop_bit_word_eq_0 [of 55 v]
  show ?thesis by (simp add: tdf_int_def)
qed

text \<open>
  The decoder returns the encoded integer and consumes the whole encoding exactly for
  integers below 2 ^ 55; from 2 ^ 55 on it drops the high bits and stops inside the encoding.
\<close>

lemma tdf_integer_exact_iff:
  assumes "ready b"
  shows "decode_tdf_integer (set_position (mSize b) (encode_tdf_integer v b))
           = Some (v, encode_tdf_integer v b) \<longleftrightarrow> v < 2 ^ 55"
proof -
  let ?e = "encode_tdf_integer v b"
  have r: "ready ?e" and c: "content ?e = content b @ tdf_int v"
    using encode_tdf_integer_appends assms by (rule buf.appends_ready buf.appends_content)+
  have "length (content b) = mSize b" "length (content ?e) = mSize ?e"
    using assms r by (simp_all add: content_def ready_def)
  then have end_pos: "mPosition ?e = mSize b + length (tdf_int v)"
    using r by (simp add: c ready_def)
  note len = length_tdf_int_le [of v]
  have eq: "?e\<lparr>mPosition := p\<rparr> = ?e \<longleftrightarrow> p = mPosition ?e" for p
    by (cases ?e) auto
  have "take_bit 55 v = v \<longleftrightarrow> v < 2 ^ 55" using less_2p_iff_take_bit [of 55 v] by simp
  then show ?thesis
    using len by (cases "length (tdf_int v) \<le> 8")
      (auto simp: decode_after_encode [OF assms] eq end_pos)
qed

text \<open>
  Every operation keeps the cursor and the logical size inside the vector: the write and
  resize paths because they grow it first, the read paths because they check the capacity.
\<close>

lemma wf_buffer_preserved:
  assumes "wf_buffer b" and "wf_buffer other"
  shows "wf_buffer (impl_write xs b) \<and> wf_buffer (snd (impl_read S N b)) \<and>
         wf_buffer (set_position n b) \<and> wf_buffer (db_resize n b) \<and> wf_buffer (db_clear b) \<and>
         wf_buffer (db_insert other b) \<and> wf_buffer (snd (read_bytes n b)) \<and>
         wf_buffer (resize_buffer b) \<and> wf_buffer (encode_tdf_integer v b) \<and> wf_buffer db_empty"
proof -
  have w: "wf_buffer (impl_write ys c)" if "wf_buffer c" for ys c
    using that grow_room [of c "length ys"] grow_props [of "length ys" c]
    by (auto simp: wf_buffer_def length_impl_write)
  have rd: "wf_buffer (snd (impl_read S N b))" for S N
    using assms(1) by (simp add: impl_read_def Let_def can_rw_def wf_buffer_def)
  have t: "wf_buffer (encode_tdf_tail u c)" if "wf_buffer c" for u c
    using that
  proof (induction u c rule: encode_tdf_tail.induct)
    case (1 u c)
    then show ?case by (simp add: encode_tdf_tail.simps [of u c] write_u8_eq w)
  qed
  have e: "wf_buffer (encode_tdf_integer v b)"
    using assms(1) by (simp add: encode_tdf_integer_def write_u8_eq w t)
  have rb: "wf_buffer (snd (read_bytes n b))"
    using rd [of 1 n] by (auto simp: read_bytes_def split: prod.split option.split)
  have "wf_buffer (set_position n b)" "wf_buffer (db_resize n b)" "wf_buffer (db_clear b)"
    "wf_buffer (db_insert other b)" "wf_buffer (resize_buffer b)" "wf_buffer db_empty"
    using assms resize_buffer_grows [of b]
    by (auto simp: set_position_def db_resize_def Let_def reserve_def db_clear_def db_insert_def
        wf_buffer_def db_empty_def)
  then show ?thesis using w [OF assms(1)] rd e rb by blast
qed

text \<open>
  The end-of-file test and the readers disagree: whenever the vector is larger than the
  logical size, a reader standing at end of file still returns a byte, the one left in the
  vector behind the logical size.
\<close>

lemma read_past_logical_size:
  assumes "wf_buffer b" and "mPosition b = mSize b" and "mSize b < length (mBuffer b)"
  shows "eof b \<and> read_u8 b = Some (mBuffer b ! mSize b, b\<lparr>mPosition := Suc (mSize b)\<rparr>)"
proof -
  have "remaining b = mBuffer b ! mSize b # drop (Suc (mSize b)) (mBuffer b)"
    using assms by (simp add: remaining_def Cons_nth_drop_Suc)
  from read_u8_Cons [OF this] assms show ?thesis by (simp add: eof_def)
qed

subsection \<open>The buffer as a source\<close>

text \<open>The next bytes lie before the logical end, so that \<open>eof\<close> is only true after the last.\<close>

definition at :: "databuffer \<Rightarrow> bytes \<Rightarrow> databuffer \<Rightarrow> bool" where
  "at b xs c \<longleftrightarrow> (\<exists>r. remaining b = xs @ r) \<and> mPosition b + length xs \<le> mSize b \<and>
     mPosition b \<le> length (mBuffer b) \<and> c = b\<lparr>mPosition := mPosition b + length xs\<rparr>"

lemma at_split:
  assumes "at b (xs @ ys) c"
  shows "\<exists>m. at b xs m \<and> at m ys c"
proof -
  obtain r where r: "remaining b = xs @ ys @ r" using assms by (auto simp: at_def)
  define m where "m = b\<lparr>mPosition := mPosition b + length xs\<rparr>"
  have p: "mPosition b \<le> length (mBuffer b)" using assms by (simp add: at_def)
  have "length (remaining b) = length (mBuffer b) - mPosition b" by (simp add: remaining_def)
  with r p have "mPosition b + length xs \<le> length (mBuffer b)" by simp
  moreover have "remaining m = ys @ r" unfolding m_def by (rule remaining_advance [OF r refl])
  ultimately have "at m ys c" using assms by (auto simp: at_def m_def add.assoc)
  moreover have "at b xs m" using assms r p by (auto simp: at_def m_def)
  ultimately show ?thesis by blast
qed

interpretation src: source at
proof
  show "c = b" if "at b [] c" for b c using that by (simp add: at_def)
  show "\<exists>m. at b xs m \<and> at m ys c" if "at b (xs @ ys) c" for b xs ys c using that by (rule at_split)
qed

lemma at_not_eof: "at b xs c \<Longrightarrow> xs \<noteq> [] \<Longrightarrow> \<not> eof b"
  by (cases xs) (auto simp: at_def eof_def)

lemma at_end_eof: "at b xs c \<Longrightarrow> mPosition b + length xs = mSize b \<Longrightarrow> eof c"
  by (simp add: at_def eof_def)

lemma at_peek: "at b (x # xs) c \<Longrightarrow> peek_u8 b = Some x"
  by (auto simp: at_def intro: peek_u8_Cons)

lemma reads_u8: "src.reads read_u8 [x] x"
  by (rule src.readsI) (auto simp: at_def dest: read_u8_Cons)

lemma reads_skip: "length xs = n \<Longrightarrow> src.reads (\<lambda>b. Some (x, skip_bytes n b)) xs x"
  by (rule src.readsI) (simp add: at_def skip_bytes_def)

lemma reads_le:
  assumes "LENGTH('a) = 8 * n"
  shows "src.reads (read_T Little n) (bytes_le n (w :: 'a::len word)) w"
proof (rule src.readsI)
  fix b c assume a: "at b (bytes_le n w) c"
  then obtain r where "remaining b = bytes_le n w @ r" by (auto simp: at_def)
  from impl_read_remaining [OF this, of n 1] a show "read_T Little n b = Some (w, c)"
    using of_le_bytes_le [OF assms, of w] by (simp add: read_T_def at_def)
qed

lemma reads_tdf_integer:
  assumes "v < 2 ^ 55"
  shows "src.reads decode_tdf_integer (tdf_int v) v"
proof (rule src.readsI)
  fix b c assume a: "at b (tdf_int v) c"
  then obtain r where r: "remaining b = tdf_int v @ r" by (auto simp: at_def)
  have "take_bit 55 v = v" using assms less_2p_iff_take_bit [of 55 v] by simp
  moreover have "min 8 (length (tdf_int v)) = length (tdf_int v)"
    using length_tdf_int_le [of v] assms by simp
  ultimately show "decode_tdf_integer b = Some (v, c)"
    using decode_tdf_integer_bytes [OF r] a by (simp add: at_def)
qed

end
