(* ===== verification/BitStream.thy ===== *)
theory BitStream
  imports Prelude
begin

text \<open>
  The serialisation layer of \<open>source/RakNet/Types.h\<close>: the byte-swapping \<open>Write\<close> templates
  and the \<open>reflection_serializer\<close>.  The bit stream itself is third-party code: it is the
  parameter \<open>B\<close>, a record of the operations the code calls together with two observations
  (the bytes of the stream and how many bits are allocated), and \<open>bitstream_laws\<close> states
  what its documentation promises: writing an integer at a byte-aligned offset stores it in
  network byte order, advances the offset and touches no other allocated byte; moving the
  offset and reserving memory keep all allocated bytes.
\<close>

record 's bitstream =
  GetWriteOffset :: "'s \<Rightarrow> nat"
  SetWriteOffset :: "nat \<Rightarrow> 's \<Rightarrow> 's"
  AddBitsAndReallocate :: "nat \<Rightarrow> 's \<Rightarrow> 's"
  StreamWrite8 :: "u8 \<Rightarrow> 's \<Rightarrow> 's"
  StreamWrite16 :: "u16 \<Rightarrow> 's \<Rightarrow> 's"
  StreamWrite32 :: "u32 \<Rightarrow> 's \<Rightarrow> 's"
  StreamWrite64 :: "u64 \<Rightarrow> 's \<Rightarrow> 's"
  AllocatedBits :: "'s \<Rightarrow> nat"
  StreamByte :: "'s \<Rightarrow> nat \<Rightarrow> u8"

text \<open>\<open>puts B f bs\<close>: \<open>f\<close> writes the bytes \<open>bs\<close> at the (aligned) offset and nothing else.\<close>

definition puts :: "'s bitstream \<Rightarrow> ('s \<Rightarrow> 's) \<Rightarrow> bytes \<Rightarrow> bool" where
  "puts B f bs \<longleftrightarrow> (\<forall>s k. GetWriteOffset B s = 8 * k \<longrightarrow>
     GetWriteOffset B (f s) = 8 * (k + length bs) \<and>
     AllocatedBits B s \<le> AllocatedBits B (f s) \<and>
     (bs \<noteq> [] \<longrightarrow> 8 * (k + length bs) \<le> AllocatedBits B (f s)) \<and>
     (\<forall>i < length bs. StreamByte B (f s) (k + i) = bs ! i) \<and>
     (\<forall>j. (j < k \<or> k + length bs \<le> j) \<and> 8 * Suc j \<le> AllocatedBits B s
        \<longrightarrow> StreamByte B (f s) j = StreamByte B s j))"

text \<open>\<open>keeps B f\<close>: \<open>f\<close> keeps every allocated byte and frees nothing.\<close>

definition keeps :: "'s bitstream \<Rightarrow> ('s \<Rightarrow> 's) \<Rightarrow> bool" where
  "keeps B f \<longleftrightarrow> (\<forall>s. AllocatedBits B s \<le> AllocatedBits B (f s) \<and>
     (\<forall>j. 8 * Suc j \<le> AllocatedBits B s \<longrightarrow> StreamByte B (f s) j = StreamByte B s j))"

definition bitstream_laws :: "'s bitstream \<Rightarrow> bool" where
  "bitstream_laws B \<longleftrightarrow>
     (\<forall>n s. GetWriteOffset B (SetWriteOffset B n s) = n) \<and>
     (\<forall>n. keeps B (SetWriteOffset B n)) \<and>
     (\<forall>n s. GetWriteOffset B (AddBitsAndReallocate B n s) = GetWriteOffset B s) \<and>
     (\<forall>n. keeps B (AddBitsAndReallocate B n)) \<and>
     (\<forall>w. puts B (StreamWrite8 B w) (bytes_be 1 w)) \<and>
     (\<forall>w. puts B (StreamWrite16 B w) (bytes_be 2 w)) \<and>
     (\<forall>w. puts B (StreamWrite32 B w) (bytes_be 4 w)) \<and>
     (\<forall>w. puts B (StreamWrite64 B w) (bytes_be 8 w))"

subsection \<open>Byte swapping and the Write templates\<close>

definition bswap_u16 :: "u16 \<Rightarrow> u16" where
  "bswap_u16 t = drop_bit 8 t OR push_bit 8 t"

definition bswap_u32 :: "u32 \<Rightarrow> u32" where
  "bswap_u32 t = push_bit 24 t OR push_bit 8 (t AND 0x0000FF00)
     OR drop_bit 8 (t AND 0x00FF0000) OR drop_bit 24 t"

definition bswap_u64 :: "u64 \<Rightarrow> u64" where
  "bswap_u64 t = push_bit 56 t OR push_bit 40 (t AND 0x000000000000FF00)
     OR push_bit 24 (t AND 0x0000000000FF0000) OR push_bit 8 (t AND 0x00000000FF000000)
     OR drop_bit 8 (t AND 0x000000FF00000000) OR drop_bit 24 (t AND 0x0000FF0000000000)
     OR drop_bit 40 (t AND 0x00FF000000000000) OR drop_bit 56 t"

text \<open>The byte loop of \<open>bswap<float>\<close>, on the value's representation.\<close>

definition bswap_float :: "f32 \<Rightarrow> f32" where
  "bswap_float t = of_le (rev (bytes_le 4 t))"

definition bits_to_bytes :: "nat \<Rightarrow> nat" where
  "bits_to_bytes n = (n + 7) div 8"

definition bytes_to_bits :: "nat \<Rightarrow> nat" where
  "bytes_to_bits n = n * 8"

definition Write_bool :: "'s bitstream \<Rightarrow> bool \<Rightarrow> 's \<Rightarrow> 's" where
  "Write_bool B v = StreamWrite8 B (of_bool v)"
definition Write_u8 :: "'s bitstream \<Rightarrow> u8 \<Rightarrow> 's \<Rightarrow> 's" where
  "Write_u8 B v = StreamWrite8 B v"
definition Write_u16 :: "'s bitstream \<Rightarrow> u16 \<Rightarrow> 's \<Rightarrow> 's" where
  "Write_u16 B v = StreamWrite16 B (bswap_u16 v)"
definition Write_u32 :: "'s bitstream \<Rightarrow> u32 \<Rightarrow> 's \<Rightarrow> 's" where
  "Write_u32 B v = StreamWrite32 B (bswap_u32 v)"
definition Write_u64 :: "'s bitstream \<Rightarrow> u64 \<Rightarrow> 's \<Rightarrow> 's" where
  "Write_u64 B v = StreamWrite64 B (bswap_u64 v)"
definition Write_f32 :: "'s bitstream \<Rightarrow> f32 \<Rightarrow> 's \<Rightarrow> 's" where
  "Write_f32 B v = StreamWrite32 B (bswap_float v)"

record vec2 = v2x :: f32  v2y :: f32
record vec3 = vx :: f32  vy :: f32  vz :: f32
record quat = qx :: f32  qy :: f32  qz :: f32  qw :: f32

definition Write_vec2 :: "'s bitstream \<Rightarrow> vec2 \<Rightarrow> 's \<Rightarrow> 's" where
  "Write_vec2 B v = in_order [Write_f32 B (v2x v), Write_f32 B (v2y v)]"
definition Write_vec3 :: "'s bitstream \<Rightarrow> vec3 \<Rightarrow> 's \<Rightarrow> 's" where
  "Write_vec3 B v = in_order [Write_f32 B (vx v), Write_f32 B (vy v), Write_f32 B (vz v)]"
definition Write_quat :: "'s bitstream \<Rightarrow> quat \<Rightarrow> 's \<Rightarrow> 's" where
  "Write_quat B v =
     in_order [Write_f32 B (qx v), Write_f32 B (qy v), Write_f32 B (qz v), Write_f32 B (qw v)]"

text \<open>\<open>ReallocateStream\<close> (\<open>source/RakNet/Types.cpp\<close>) reports the offset and reserves room;
  its message about unaligned offsets is output only.\<close>

definition ReallocateStream :: "'s bitstream \<Rightarrow> nat \<Rightarrow> 's \<Rightarrow> nat \<times> 's" where
  "ReallocateStream B sizeInBits s = (GetWriteOffset B s, AddBitsAndReallocate B sizeInBits s)"

subsection \<open>The reflection serialiser\<close>

record reflector =
  mStartOffset :: nat
  mWriteBits :: u16

definition BitSize_max :: nat where
  "BitSize_max = 2 ^ 32 - 1"

definition refl_new :: reflector where
  "refl_new = \<lparr>mStartOffset = BitSize_max, mWriteBits = 0\<rparr>"

definition refl_begin :: "'s bitstream \<Rightarrow> nat \<Rightarrow> reflector \<times> 's \<Rightarrow> reflector \<times> 's" where
  "refl_begin B FieldCount = (\<lambda>(r, s).
     if mStartOffset r \<noteq> BitSize_max then (r, s)
     else
       (let start = GetWriteOffset B s;
            r' = r\<lparr>mStartOffset := start, mWriteBits := 0\<rparr>
        in if FieldCount \<le> 8 then (r', SetWriteOffset B (start + bytes_to_bits 1) s)
           else if FieldCount \<le> 16 then (r', SetWriteOffset B (start + bytes_to_bits 2) s)
           else (r', s)))"

definition refl_end :: "'s bitstream \<Rightarrow> nat \<Rightarrow> reflector \<times> 's \<Rightarrow> reflector \<times> 's" where
  "refl_end B FieldCount = (\<lambda>(r, s).
     (r\<lparr>mStartOffset := BitSize_max\<rparr>,
      if FieldCount > 16 then Write_u8 B 0xFF s
      else
        (let pos = GetWriteOffset B s; s1 = SetWriteOffset B (mStartOffset r) s;
             s2 = (if FieldCount \<le> 8 then Write_u8 B (ucast (mWriteBits r)) s1
                   else Write_u16 B (mWriteBits r) s1)
         in SetWriteOffset B pos s2)))"

text \<open>\<open>write<Field>(value)\<close> with the value's own writer as an argument.\<close>

definition refl_write ::
  "'s bitstream \<Rightarrow> nat \<Rightarrow> nat \<Rightarrow> ('s \<Rightarrow> 's) \<Rightarrow> reflector \<times> 's \<Rightarrow> reflector \<times> 's" where
  "refl_write B FieldCount field w = (\<lambda>(r, s).
     if FieldCount > 16 then (r, w (Write_u8 B (of_nat field) s))
     else (r\<lparr>mWriteBits := mWriteBits r OR push_bit field 1\<rparr>, w s))"

text \<open>A serialiser's life: construct, \<open>begin\<close>, the writes, \<open>end\<close>.\<close>

definition reflect ::
  "'s bitstream \<Rightarrow> nat \<Rightarrow> (reflector \<times> 's \<Rightarrow> reflector \<times> 's) \<Rightarrow> 's \<Rightarrow> 's" where
  "reflect B FieldCount writes s =
     snd (in_order [refl_begin B FieldCount, writes, refl_end B FieldCount] (refl_new, s))"

subsection \<open>Layouts: what a sequence of writes leaves in the stream\<close>

text \<open>
  A layout is a list of chunks (position relative to a base, bytes) in the order they are
  written; a later chunk wins where chunks overlap.
\<close>

type_synonym layout = "(nat \<times> bytes) list"

fun chunk_at :: "nat \<times> bytes \<Rightarrow> nat \<Rightarrow> u8 option" where
  "chunk_at (p, bs) k = (if p \<le> k \<and> k < p + length bs then Some (bs ! (k - p)) else None)"

fun overlay :: "layout \<Rightarrow> nat \<Rightarrow> u8 option" where
  "overlay [] k = None"
| "overlay (c # cs) k = (case overlay cs k of None \<Rightarrow> chunk_at c k | Some b \<Rightarrow> Some b)"

definition shift :: "nat \<Rightarrow> layout \<Rightarrow> layout" where
  "shift n cs = map (apfst ((+) n)) cs"

text \<open>
  \<open>leaves B b q cs s t\<close>: going from stream \<open>s\<close> to \<open>t\<close> the offset became byte \<open>b + q\<close>, the
  chunks \<open>cs\<close> (relative to \<open>b\<close>) are in the stream and every other allocated byte is kept.
\<close>

definition leaves :: "'s bitstream \<Rightarrow> nat \<Rightarrow> nat \<Rightarrow> layout \<Rightarrow> 's \<Rightarrow> 's \<Rightarrow> bool" where
  "leaves B b q cs s t \<longleftrightarrow>
     GetWriteOffset B t = 8 * (b + q) \<and>
     AllocatedBits B s \<le> AllocatedBits B t \<and>
     (\<forall>k v. overlay cs k = Some v \<longrightarrow>
        8 * Suc (b + k) \<le> AllocatedBits B t \<and> StreamByte B t (b + k) = v) \<and>
     (\<forall>j. 8 * Suc j \<le> AllocatedBits B s \<and> (b \<le> j \<longrightarrow> overlay cs (j - b) = None)
        \<longrightarrow> StreamByte B t j = StreamByte B s j)"

definition seg :: "'s bitstream \<Rightarrow> nat \<Rightarrow> ('s \<Rightarrow> 's) \<Rightarrow> nat \<Rightarrow> nat \<Rightarrow> layout \<Rightarrow> bool" where
  "seg B b f p q cs \<longleftrightarrow>
     (\<forall>s. GetWriteOffset B s = 8 * (b + p) \<longrightarrow> leaves B b q cs s (f s))"

definition lays_out :: "'s bitstream \<Rightarrow> ('s \<Rightarrow> 's) \<Rightarrow> nat \<Rightarrow> layout \<Rightarrow> bool" where
  "lays_out B f n cs \<longleftrightarrow> (\<forall>b. seg B b f 0 n cs)"

text \<open>A layout is tight when its chunks stay within the size and do not overlap.\<close>

fun tight :: "nat \<Rightarrow> layout \<Rightarrow> bool" where
  "tight n [] = True"
| "tight n ((p, bs) # cs) \<longleftrightarrow>
     p + length bs \<le> n \<and> (\<forall>(q, ds) \<in> set cs. p + length bs \<le> q \<or> q + length ds \<le> p) \<and> tight n cs"

lemma overlay_append:
  "overlay (cs @ ds) k = (case overlay ds k of None \<Rightarrow> overlay cs k | Some b \<Rightarrow> Some b)"
  by (induction cs) (auto split: option.splits)

lemma overlay_shift:
  "overlay (shift n cs) k = (if n \<le> k then overlay cs (k - n) else None)"
  by (induction cs) (auto simp: shift_def split: option.splits)

lemma shift_simps [simp]:
  "shift n [] = []" "shift n ((p, bs) # cs) = (n + p, bs) # shift n cs"
  "shift n (cs @ ds) = shift n cs @ shift n ds"
  by (simp_all add: shift_def)

lemma overlay_outside:
  "(\<And>p bs. (p, bs) \<in> set cs \<Longrightarrow> k < p \<or> p + length bs \<le> k) \<Longrightarrow> overlay cs k = None"
  by (induction cs) (force split: option.splits)+

lemma tight_chunk:
  "tight n cs \<Longrightarrow> (p, bs) \<in> set cs \<Longrightarrow> i < length bs \<Longrightarrow> overlay cs (p + i) = Some (bs ! i)"
proof (induction cs)
  case Nil
  then show ?case by simp
next
  case (Cons c cs)
  show ?case
  proof (cases "(p, bs) \<in> set cs")
    case True
    with Cons show ?thesis by (cases c) auto
  next
    case False
    with Cons.prems have c: "c = (p, bs)" by simp
    have "overlay cs (p + i) = None"
      by (rule overlay_outside) (use Cons.prems c in \<open>fastforce\<close>)
    then show ?thesis using Cons.prems c by simp
  qed
qed

lemma tight_bound: "tight n cs \<Longrightarrow> overlay cs k = Some v \<Longrightarrow> k < n"
  by (induction n cs rule: tight.induct) (auto split: option.splits if_splits)

subsection \<open>The swaps reverse the bytes\<close>

lemma bytes_le_unfold:
  "bytes_le 2 w = [ucast w, ucast (drop_bit 8 w)]"
  "bytes_le 4 w = [ucast w, ucast (drop_bit 8 w), ucast (drop_bit 16 w), ucast (drop_bit 24 w)]"
  "bytes_le 8 w = [ucast w, ucast (drop_bit 8 w), ucast (drop_bit 16 w), ucast (drop_bit 24 w),
     ucast (drop_bit 32 w), ucast (drop_bit 40 w), ucast (drop_bit 48 w), ucast (drop_bit 56 w)]"
  by (simp_all add: bytes_le_def upt_rec)

lemma byte_masks:
  "(0x0000FF00 :: u32) = push_bit 8 (mask 8)" "(0x00FF0000 :: u32) = push_bit 16 (mask 8)"
  "(0x000000000000FF00 :: u64) = push_bit 8 (mask 8)"
  "(0x0000000000FF0000 :: u64) = push_bit 16 (mask 8)"
  "(0x00000000FF000000 :: u64) = push_bit 24 (mask 8)"
  "(0x000000FF00000000 :: u64) = push_bit 32 (mask 8)"
  "(0x0000FF0000000000 :: u64) = push_bit 40 (mask 8)"
  "(0x00FF000000000000 :: u64) = push_bit 48 (mask 8)"
  by (simp_all add: mask_eq_exp_minus_1)

lemma bytes_be_bswap_u16: "bytes_be 2 (bswap_u16 t) = bytes_le 2 t"
  unfolding bytes_be_def bytes_le_unfold bswap_u16_def
  by (simp, intro conjI; rule bit_word_eqI; auto simp: bit_simps dest: bit_imp_le_length)

lemma bytes_be_bswap_u32: "bytes_be 4 (bswap_u32 t) = bytes_le 4 t"
  unfolding bytes_be_def bytes_le_unfold bswap_u32_def byte_masks
  by (simp del: push_bit_mask_eq, intro conjI; rule bit_word_eqI;
      auto simp: bit_simps dest: bit_imp_le_length)

lemma bytes_be_bswap_u64: "bytes_be 8 (bswap_u64 t) = bytes_le 8 t"
  unfolding bytes_be_def bytes_le_unfold bswap_u64_def byte_masks
  by (simp, intro conjI; rule bit_word_eqI; auto simp: bit_simps dest: bit_imp_le_length)

lemma bytes_be_bswap_float: "bytes_be 4 (bswap_float t) = bytes_le 4 t"
  by (simp add: bytes_be_def bswap_float_def bytes_le_of_le)

subsection \<open>Rules for sequences of writes\<close>

lemma law_offset:
  "bitstream_laws B \<Longrightarrow> GetWriteOffset B (SetWriteOffset B n s) = n"
  "bitstream_laws B \<Longrightarrow> GetWriteOffset B (AddBitsAndReallocate B n s) = GetWriteOffset B s"
  unfolding bitstream_laws_def by blast+

lemma law_keeps:
  "bitstream_laws B \<Longrightarrow> keeps B (SetWriteOffset B n)"
  "bitstream_laws B \<Longrightarrow> keeps B (AddBitsAndReallocate B n)"
  unfolding bitstream_laws_def by blast+

lemma puts_Write:
  assumes "bitstream_laws B"
  shows "puts B (Write_bool B c) [of_bool c]" "puts B (Write_u8 B v8) [v8]"
    "puts B (Write_u16 B v16) (bytes_le 2 v16)" "puts B (Write_u32 B v32) (bytes_le 4 v32)"
    "puts B (Write_u64 B v64) (bytes_le 8 v64)" "puts B (Write_f32 B vf) (bytes_le 4 vf)"
proof -
  note l = assms [unfolded bitstream_laws_def]
  have one: "bytes_be 1 w = [w]" for w :: u8 by (simp add: bytes_be_def)
  show "puts B (Write_bool B c) [of_bool c]" "puts B (Write_u8 B v8) [v8]"
    unfolding Write_bool_def Write_u8_def one [symmetric] using l by blast+
  show "puts B (Write_u16 B v16) (bytes_le 2 v16)"
    unfolding Write_u16_def bytes_be_bswap_u16 [symmetric] using l by blast
  show "puts B (Write_u32 B v32) (bytes_le 4 v32)"
    unfolding Write_u32_def bytes_be_bswap_u32 [symmetric] using l by blast
  show "puts B (Write_u64 B v64) (bytes_le 8 v64)"
    unfolding Write_u64_def bytes_be_bswap_u64 [symmetric] using l by blast
  show "puts B (Write_f32 B vf) (bytes_le 4 vf)"
    unfolding Write_f32_def bytes_be_bswap_float [of vf, symmetric] using l by blast
qed

lemma leavesI:
  assumes "GetWriteOffset B t = 8 * (b + q)" and "AllocatedBits B s \<le> AllocatedBits B t"
    and "\<And>k v. overlay cs k = Some v \<Longrightarrow> 8 * Suc (b + k) \<le> AllocatedBits B t"
    and "\<And>k v. overlay cs k = Some v \<Longrightarrow> StreamByte B t (b + k) = v"
    and "\<And>j. 8 * Suc j \<le> AllocatedBits B s \<Longrightarrow> (b \<le> j \<Longrightarrow> overlay cs (j - b) = None) \<Longrightarrow>
      StreamByte B t j = StreamByte B s j"
  shows "leaves B b q cs s t"
  unfolding leaves_def using assms by blast

lemma leavesD:
  assumes "leaves B b q cs s t"
  shows "GetWriteOffset B t = 8 * (b + q)" and "AllocatedBits B s \<le> AllocatedBits B t"
    and "overlay cs k = Some v \<Longrightarrow> 8 * Suc (b + k) \<le> AllocatedBits B t"
    and "overlay cs k = Some v \<Longrightarrow> StreamByte B t (b + k) = v"
    and "8 * Suc j \<le> AllocatedBits B s \<Longrightarrow> (b \<le> j \<Longrightarrow> overlay cs (j - b) = None) \<Longrightarrow>
      StreamByte B t j = StreamByte B s j"
  using assms unfolding leaves_def by blast+

lemma leaves_keeps:
  assumes "keeps B f" and "GetWriteOffset B (f s) = 8 * (b + q)"
  shows "leaves B b q [] s (f s)"
  using assms by (auto intro!: leavesI simp: keeps_def)

lemma leaves_trans:
  assumes l: "leaves B b q cs s t" and r: "leaves B b q' ds t u"
  shows "leaves B b q' (cs @ ds) s u"
proof (rule leavesI)
  show "GetWriteOffset B u = 8 * (b + q')" by (rule leavesD [OF r])
  show "AllocatedBits B s \<le> AllocatedBits B u"
    using leavesD(2) [OF l] leavesD(2) [OF r] by simp
next
  fix k v assume kv: "overlay (cs @ ds) k = Some v"
  show "8 * Suc (b + k) \<le> AllocatedBits B u"
    using kv leavesD(3) [OF l, of k] leavesD(3) [OF r, of k] leavesD(2) [OF r]
    by (fastforce simp: overlay_append split: option.splits)
  show "StreamByte B u (b + k) = v"
  proof (cases "overlay ds k")
    case None
    with kv have "overlay cs k = Some v" by (simp add: overlay_append)
    then have "StreamByte B t (b + k) = v" "8 * Suc (b + k) \<le> AllocatedBits B t"
      by (rule leavesD [OF l])+
    with None show ?thesis using leavesD(5) [OF r, of "b + k"] by simp
  next
    case (Some w)
    with kv leavesD(4) [OF r, of k] show ?thesis by (simp add: overlay_append)
  qed
next
  fix j assume j: "8 * Suc j \<le> AllocatedBits B s"
    and n: "b \<le> j \<Longrightarrow> overlay (cs @ ds) (j - b) = None"
  then have "b \<le> j \<Longrightarrow> overlay cs (j - b) = None" and "b \<le> j \<Longrightarrow> overlay ds (j - b) = None"
    by (auto simp: overlay_append split: option.splits)
  with j leavesD(2) [OF l] show "StreamByte B u j = StreamByte B s j"
    using leavesD(5) [OF l, of j] leavesD(5) [OF r, of j] by simp
qed

lemma leaves_puts:
  assumes f: "puts B f bs" and s: "GetWriteOffset B s = 8 * (b + p)"
  shows "leaves B b (p + length bs) [(p, bs)] s (f s)"
proof (rule leavesI)
  note * = f [unfolded puts_def, rule_format, OF s]
  show "GetWriteOffset B (f s) = 8 * (b + (p + length bs))" using * by (simp add: add.assoc)
  show "AllocatedBits B s \<le> AllocatedBits B (f s)" using * by simp
  have bytes: "StreamByte B (f s) (b + p + i) = bs ! i" if "i < length bs" for i using * that by blast
  {
    fix k v assume "overlay [(p, bs)] k = Some v"
    then have k: "p \<le> k" "k < p + length bs" "v = bs ! (k - p)" by (auto split: if_splits)
    then have "bs \<noteq> []" by auto
    with * have "8 * (b + p + length bs) \<le> AllocatedBits B (f s)" by blast
    with k show "8 * Suc (b + k) \<le> AllocatedBits B (f s)" by simp
    show "StreamByte B (f s) (b + k) = v" using bytes [of "k - p"] k by simp
  }
  fix j assume j: "8 * Suc j \<le> AllocatedBits B s" "b \<le> j \<Longrightarrow> overlay [(p, bs)] (j - b) = None"
  then have "j < b + p \<or> b + p + length bs \<le> j" by (force split: if_splits)
  with * j show "StreamByte B (f s) j = StreamByte B s j" by blast
qed

lemma leaves_shift:
  assumes l: "leaves B (b + p) n cs s t"
  shows "leaves B b (p + n) (shift p cs) s t"
proof (rule leavesI)
  show "GetWriteOffset B t = 8 * (b + (p + n))" using leavesD(1) [OF l] by simp
  show "AllocatedBits B s \<le> AllocatedBits B t" by (rule leavesD [OF l])
next
  fix k v assume "overlay (shift p cs) k = Some v"
  then have k: "p \<le> k" "overlay cs (k - p) = Some v" by (auto simp: overlay_shift split: if_splits)
  then show "8 * Suc (b + k) \<le> AllocatedBits B t" and "StreamByte B t (b + k) = v"
    using leavesD(3,4) [OF l k(2)] by simp_all
next
  fix j assume j: "8 * Suc j \<le> AllocatedBits B s" "b \<le> j \<Longrightarrow> overlay (shift p cs) (j - b) = None"
  then have "b + p \<le> j \<Longrightarrow> overlay cs (j - (b + p)) = None"
    by (simp add: overlay_shift diff_diff_left split: if_splits)
  with j(1) show "StreamByte B t j = StreamByte B s j" by (rule leavesD(5) [OF l])
qed

lemma seg_leaves: "seg B b f p q cs \<Longrightarrow> GetWriteOffset B s = 8 * (b + p) \<Longrightarrow> leaves B b q cs s (f s)"
  by (simp add: seg_def)

lemma seg_puts: "puts B f bs \<Longrightarrow> seg B b f p (p + length bs) [(p, bs)]"
  by (simp add: seg_def leaves_puts)

lemma seg_comp:
  assumes "seg B b f p q cs" and "seg B b g q r ds"
  shows "seg B b (fcomp f g) p r (cs @ ds)"
  unfolding seg_def
proof (intro allI impI)
  fix s assume "GetWriteOffset B s = 8 * (b + p)"
  then have l: "leaves B b q cs s (f s)" by (rule seg_leaves [OF assms(1)])
  then have "leaves B b r ds (f s) (g (f s))" by (rule seg_leaves [OF assms(2) leavesD(1)])
  with l show "leaves B b r (cs @ ds) s ((fcomp f g) s)" by (simp add: leaves_trans)
qed

lemma seg_in_order:
  "seg B b (in_order []) p p []"
  "seg B b f p q cs \<Longrightarrow> seg B b (in_order fs) q r ds \<Longrightarrow> seg B b (in_order (f # fs)) p r (cs @ ds)"
  using seg_comp [of B b f p q cs "in_order fs" r ds]
  by (simp_all add: in_order_Cons seg_def leaves_def)

lemma seg_seek:
  assumes "bitstream_laws B"
  shows "seg B b (SetWriteOffset B (8 * b + bytes_to_bits k)) p k []"
  unfolding seg_def using law_keeps(1) [OF assms] law_offset(1) [OF assms]
  by (auto intro!: leaves_keeps simp: bytes_to_bits_def)

lemma seg_seek_start:
  assumes "bitstream_laws B"
  shows "seg B b (SetWriteOffset B (8 * b)) p 0 []"
  using seg_seek [OF assms, of b 0 p] by (simp add: bytes_to_bits_def)

lemma seg_conv: "seg B b f p q cs \<Longrightarrow> q = q' \<Longrightarrow> cs = cs' \<Longrightarrow> seg B b f p q' cs'"
  by simp

lemma seg_nested: "lays_out B f n cs \<Longrightarrow> seg B b f p (p + n) (shift p cs)"
  by (simp add: lays_out_def seg_def leaves_shift add.assoc)

text \<open>The frame of every \<open>WriteTo\<close>: reserve, then run the body from the saved offset.\<close>

lemma lays_outI:
  assumes "bitstream_laws B"
    and "\<And>s. f s = (let (off, s') = ReallocateStream B m s in body off s')"
    and "\<And>b. seg B b (body (8 * b)) 0 n cs"
  shows "lays_out B f n cs"
  unfolding lays_out_def seg_def
proof (intro allI impI)
  fix b s assume s: "GetWriteOffset B s = 8 * (b + 0)"
  let ?t = "AddBitsAndReallocate B m s"
  have t: "leaves B b 0 [] s ?t"
    using s by (intro leaves_keeps law_keeps [OF assms(1)]) (simp add: law_offset [OF assms(1)])
  have "f s = body (8 * b) ?t" using s by (simp add: assms(2) ReallocateStream_def)
  moreover have "leaves B b n cs ?t (body (8 * b) ?t)"
    by (rule seg_leaves [OF assms(3) leavesD(1) [OF t]])
  ultimately show "leaves B b n cs s (f s)" using leaves_trans [OF t] by simp
qed

text \<open>A layout without gaps is a byte string at the offset.\<close>

lemma puts_lays_out: "puts B f bs \<Longrightarrow> lays_out B f (length bs) [(0, bs)]"
  unfolding lays_out_def using seg_puts [of B f bs _ 0] by simp

lemma lays_out_conv:
  "lays_out B f n cs \<Longrightarrow> n = n' \<Longrightarrow> cs = cs' \<Longrightarrow> lays_out B f n' cs'"
  by simp

lemma lays_out_seg: "(\<And>b. seg B b f 0 n cs) \<Longrightarrow> lays_out B f n cs"
  by (simp add: lays_out_def)

text \<open>What a tight layout promises: every chunk is readable, nothing outside the block changes.\<close>

lemma lays_out_tight:
  assumes "lays_out B f n cs" and "tight n cs" and "GetWriteOffset B s = 8 * b"
  shows "GetWriteOffset B (f s) = 8 * (b + n)"
    and "(p, bs) \<in> set cs \<Longrightarrow> i < length bs \<Longrightarrow> StreamByte B (f s) (b + p + i) = bs ! i"
    and "8 * Suc j \<le> AllocatedBits B s \<Longrightarrow> j < b \<or> b + n \<le> j \<Longrightarrow>
      StreamByte B (f s) j = StreamByte B s j"
proof -
  have l: "leaves B b n cs s (f s)" using assms(1,3) by (simp add: lays_out_def seg_def)
  show "GetWriteOffset B (f s) = 8 * (b + n)" by (rule leavesD [OF l])
  show "StreamByte B (f s) (b + p + i) = bs ! i" if "(p, bs) \<in> set cs" "i < length bs"
    using leavesD(4) [OF l tight_chunk [OF assms(2) that]] by (simp add: add.assoc)
  show "StreamByte B (f s) j = StreamByte B s j"
    if "8 * Suc j \<le> AllocatedBits B s" "j < b \<or> b + n \<le> j"
  proof (rule leavesD(5) [OF l that(1)])
    assume "b \<le> j"
    with that(2) have "\<not> j - b < n" by simp
    then show "overlay cs (j - b) = None" using tight_bound [OF assms(2), of "j - b"] by fastforce
  qed
qed

subsection \<open>Rules for the reflection serialiser\<close>

definition rseg ::
  "'s bitstream \<Rightarrow> nat \<Rightarrow> (reflector \<times> 's \<Rightarrow> reflector \<times> 's)
     \<Rightarrow> u16 \<Rightarrow> u16 \<Rightarrow> nat \<Rightarrow> nat \<Rightarrow> layout \<Rightarrow> bool" where
  "rseg B b f m m' p q cs \<longleftrightarrow>
     (\<forall>r s. mWriteBits r = m \<longrightarrow> GetWriteOffset B s = 8 * (b + p) \<longrightarrow>
        mWriteBits (fst (f (r, s))) = m' \<and> mStartOffset (fst (f (r, s))) = mStartOffset r \<and>
        leaves B b q cs s (snd (f (r, s))))"

lemma rseg_write_mask:
  assumes "\<not> 16 < F" and "seg B b w p q cs"
  shows "rseg B b (refl_write B F k w) m (m OR push_bit k 1) p q cs"
  using assms by (simp add: rseg_def refl_write_def seg_leaves)

lemma rseg_write_tag:
  assumes "bitstream_laws B" and "16 < F" and "seg B b w (p + 1) q cs"
  shows "rseg B b (refl_write B F k w) m m p q ([(p, [of_nat k])] @ cs)"
proof -
  have "seg B b (Write_u8 B (of_nat k)) p (p + 1) [(p, [of_nat k])]"
    using seg_puts [OF puts_Write(2) [OF assms(1), of "of_nat k"], of b p] by simp
  from seg_comp [OF this assms(3)] assms(2) show ?thesis
    by (simp add: rseg_def refl_write_def seg_def)
qed

lemma rseg_comp:
  assumes "rseg B b f m m' p q cs" and "rseg B b g m' m'' q r ds"
  shows "rseg B b (fcomp f g) m m'' p r (cs @ ds)"
  unfolding rseg_def
proof (intro allI impI)
  fix r1 :: reflector and s assume "mWriteBits r1 = m" and "GetWriteOffset B s = 8 * (b + p)"
  then have f: "mWriteBits (fst (f (r1, s))) = m'" "mStartOffset (fst (f (r1, s))) = mStartOffset r1"
    "leaves B b q cs s (snd (f (r1, s)))"
    using assms(1) unfolding rseg_def by blast+
  obtain r2 t where t: "f (r1, s) = (r2, t)" by fastforce
  with f have "mWriteBits r2 = m'" "GetWriteOffset B t = 8 * (b + q)"
    using leavesD(1) [OF f(3)] by simp_all
  then have "mWriteBits (fst (g (r2, t))) = m''" "mStartOffset (fst (g (r2, t))) = mStartOffset r2"
    "leaves B b r ds t (snd (g (r2, t)))"
    using assms(2) unfolding rseg_def by blast+
  then show "mWriteBits (fst ((fcomp f g) (r1, s))) = m'' \<and>
      mStartOffset (fst ((fcomp f g) (r1, s))) = mStartOffset r1 \<and>
      leaves B b r (cs @ ds) s (snd ((fcomp f g) (r1, s)))"
    using f t leaves_trans by auto
qed

lemma rseg_skip: "rseg B b (\<lambda>x. x) m m p p []"
  by (auto simp: rseg_def leaves_def)

lemma rseg_in_order:
  "rseg B b (in_order []) m m p p []"
  "rseg B b f m m' p q cs \<Longrightarrow> rseg B b (in_order fs) m' m'' q r ds
     \<Longrightarrow> rseg B b (in_order (f # fs)) m m'' p r (cs @ ds)"
  using rseg_skip [of B b m p] rseg_comp [of B b f m m' p q cs "in_order fs" m'' r ds]
  by (simp_all add: in_order_Cons in_order_Nil)

lemma leaves_seek:
  "bitstream_laws B \<Longrightarrow> leaves B b k [] s (SetWriteOffset B (8 * (b + k)) s)"
  by (rule leaves_keeps) (simp_all add: law_keeps law_offset)

lemma reflect_body:
  assumes "bitstream_laws B" and "F \<le> 16" and "w = (if F \<le> 8 then 1 else 2)"
    and "rseg B b body 0 m w q cs" and "GetWriteOffset B s = 8 * b"
  shows "\<exists>t. leaves B b q cs s t \<and>
     reflect B F body s =
       (let s1 = SetWriteOffset B (8 * b) t
        in SetWriteOffset B (8 * (b + q))
             (if F \<le> 8 then Write_u8 B (ucast m) s1 else Write_u16 B m s1))"
proof -
  let ?r = "\<lparr>mStartOffset = 8 * b, mWriteBits = 0\<rparr>"
  let ?s1 = "SetWriteOffset B (8 * (b + w)) s"
  obtain r' t where t: "body (?r, ?s1) = (r', t)" by fastforce
  have s1: "leaves B b w [] s ?s1" by (rule leaves_seek [OF assms(1)])
  have "mWriteBits r' = m \<and> mStartOffset r' = 8 * b \<and> leaves B b q cs ?s1 t"
    using assms(4) leavesD(1) [OF s1] t unfolding rseg_def by (metis fst_conv reflector.select_convs(1,2) snd_conv)
  moreover from this have "leaves B b q cs s t" "GetWriteOffset B t = 8 * (b + q)"
    using leaves_trans [OF s1] leavesD(1) by fastforce+
  moreover have "refl_begin B F (refl_new, s) = (?r, ?s1)"
    using assms(2,3,5) by (simp add: refl_begin_def refl_new_def bytes_to_bits_def Let_def)
  ultimately show ?thesis
    using assms(2) t by (auto simp: reflect_def refl_end_def Let_def intro!: exI [of _ t])
qed

lemma reflect_mask8:
  assumes "bitstream_laws B" and "F \<le> 8" and "\<And>b. rseg B b body 0 m 1 q cs"
  shows "lays_out B (reflect B F body) q (cs @ [(0, [ucast m])])"
  unfolding lays_out_def seg_def
proof (intro allI impI)
  fix b s assume s: "GetWriteOffset B s = 8 * (b + 0)"
  have "\<exists>t. leaves B b q cs s t \<and> reflect B F body s =
      (let s1 = SetWriteOffset B (8 * b) t in SetWriteOffset B (8 * (b + q))
         (if F \<le> 8 then Write_u8 B (ucast m) s1 else Write_u16 B m s1))"
    by (rule reflect_body [OF assms(1) _ _ assms(3)]) (use assms s in auto)
  then obtain t where t: "leaves B b q cs s t" and eq: "reflect B F body s =
      SetWriteOffset B (8 * (b + q)) (Write_u8 B (ucast m) (SetWriteOffset B (8 * b) t))"
    using assms by (auto simp: Let_def)
  let ?u = "SetWriteOffset B (8 * b) t"
  have u: "leaves B b 0 [] t ?u" using leaves_seek [OF assms(1), of b 0 t] by simp
  have "leaves B b (0 + length ([ucast m])) [(0, [ucast m])] ?u (Write_u8 B (ucast m) ?u)"
    using leaves_puts [OF puts_Write(2) [OF assms(1), of "ucast m"] leavesD(1) [OF u]] by simp
  from leaves_trans [OF leaves_trans [OF u this] leaves_seek [OF assms(1)]]
  have "leaves B b q [(0, [ucast m])] t (reflect B F body s)" unfolding eq by simp
  with t show "leaves B b q (cs @ [(0, [ucast m])]) s (reflect B F body s)" by (rule leaves_trans)
qed

lemma reflect_mask16:
  assumes "bitstream_laws B" and "8 < F" and "F \<le> 16" and "\<And>b. rseg B b body 0 m 2 q cs"
  shows "lays_out B (reflect B F body) q (cs @ [(0, bytes_le 2 m)])"
  unfolding lays_out_def seg_def
proof (intro allI impI)
  fix b s assume s: "GetWriteOffset B s = 8 * (b + 0)"
  have "\<exists>t. leaves B b q cs s t \<and> reflect B F body s =
      (let s1 = SetWriteOffset B (8 * b) t in SetWriteOffset B (8 * (b + q))
         (if F \<le> 8 then Write_u8 B (ucast m) s1 else Write_u16 B m s1))"
    by (rule reflect_body [OF assms(1) _ _ assms(4)]) (use assms s in auto)
  then obtain t where t: "leaves B b q cs s t" and eq: "reflect B F body s =
      SetWriteOffset B (8 * (b + q)) (Write_u16 B m (SetWriteOffset B (8 * b) t))"
    using assms by (auto simp: Let_def)
  let ?u = "SetWriteOffset B (8 * b) t"
  have u: "leaves B b 0 [] t ?u" using leaves_seek [OF assms(1), of b 0 t] by simp
  have "leaves B b (0 + length (bytes_le 2 m)) [(0, bytes_le 2 m)] ?u (Write_u16 B m ?u)"
    by (rule leaves_puts [OF puts_Write(3) [OF assms(1)] leavesD(1) [OF u]])
  from leaves_trans [OF leaves_trans [OF u this] leaves_seek [OF assms(1)]]
  have "leaves B b q [(0, bytes_le 2 m)] t (reflect B F body s)" unfolding eq by simp
  with t show "leaves B b q (cs @ [(0, bytes_le 2 m)]) s (reflect B F body s)" by (rule leaves_trans)
qed

lemma reflect_tags:
  assumes "bitstream_laws B" and "16 < F" and "\<And>b. rseg B b body 0 m 0 q cs"
  shows "lays_out B (reflect B F body) (q + 1) (cs @ [(q, [0xFF])])"
  unfolding lays_out_def seg_def
proof (intro allI impI)
  fix b s assume s: "GetWriteOffset B s = 8 * (b + 0)"
  let ?r = "\<lparr>mStartOffset = 8 * b, mWriteBits = 0\<rparr>"
  obtain r' t where t: "body (?r, s) = (r', t)" by fastforce
  have l: "leaves B b q cs s t"
    using assms(3) s t unfolding rseg_def by (metis reflector.select_convs(2) snd_conv)
  have "refl_begin B F (refl_new, s) = (?r, s)"
    using assms(2) s by (simp add: refl_begin_def refl_new_def Let_def)
  then have "reflect B F body s = Write_u8 B 0xFF t"
    using assms(2) t by (simp add: reflect_def refl_end_def)
  moreover have "leaves B b (q + 1) [(q, [0xFF])] t (Write_u8 B 0xFF t)"
    using leaves_puts [OF puts_Write(2) [OF assms(1)] leavesD(1) [OF l]] by simp
  ultimately show "leaves B b (q + 1) (cs @ [(q, [0xFF])]) s (reflect B F body s)"
    using leaves_trans [OF l] by simp
qed

lemma rseg_conv:
  "rseg B b f m m' p q cs \<Longrightarrow> m' = n \<Longrightarrow> q = q' \<Longrightarrow> cs = cs' \<Longrightarrow> rseg B b f m n p q' cs'"
  by simp

subsection \<open>Rule sets\<close>

text \<open>Writers of one value, as segments; vectors write their components in order.\<close>

definition bytes_bool :: "bool \<Rightarrow> bytes" where "bytes_bool c = [of_bool c]"
definition bytes_vec2 :: "vec2 \<Rightarrow> bytes" where
  "bytes_vec2 v = bytes_le 4 (v2x v) @ bytes_le 4 (v2y v)"
definition bytes_vec3 :: "vec3 \<Rightarrow> bytes" where
  "bytes_vec3 v = bytes_le 4 (vx v) @ bytes_le 4 (vy v) @ bytes_le 4 (vz v)"
definition bytes_quat :: "quat \<Rightarrow> bytes" where
  "bytes_quat v =
     bytes_le 4 (qx v) @ bytes_le 4 (qy v) @ bytes_le 4 (qz v) @ bytes_le 4 (qw v)"

lemma length_bytes_fields [simp, bytes_simps]:
  "length (bytes_bool c) = 1" "length (bytes_vec2 v2) = 8" "length (bytes_vec3 v3) = 12"
  "length (bytes_quat q) = 16"
  by (simp_all add: bytes_bool_def bytes_vec2_def bytes_vec3_def bytes_quat_def)

lemma puts_comp:
  assumes f: "puts B f xs" and g: "puts B g ys"
  shows "puts B (fcomp f g) (xs @ ys)"
  unfolding puts_def
proof (intro allI impI)
  fix s k assume s: "GetWriteOffset B s = 8 * k"
  note F = f [unfolded puts_def, rule_format, OF s]
  then have "GetWriteOffset B (f s) = 8 * (k + length xs)" by simp
  note G = g [unfolded puts_def, rule_format, OF this]
  have bytes: "StreamByte B (g (f s)) (k + i) = (xs @ ys) ! i" if i: "i < length (xs @ ys)" for i
  proof (cases "i < length xs")
    case True
    then have "xs \<noteq> []" by auto
    with F have "8 * (k + length xs) \<le> AllocatedBits B (f s)" by blast
    then have "8 * Suc (k + i) \<le> AllocatedBits B (f s)" using True by simp
    then have "StreamByte B (g (f s)) (k + i) = StreamByte B (f s) (k + i)" using G True by simp
    then show ?thesis using F True by (simp add: nth_append)
  next
    case False
    define j where "j = i - length xs"
    have j: "j < length ys" "i = length xs + j" using False i by (simp_all add: j_def)
    have "StreamByte B (g (f s)) (k + length xs + j) = ys ! j" using G j(1) by blast
    then show ?thesis using j by (simp add: nth_append add.assoc)
  qed
  have alloc: "8 * (k + length (xs @ ys)) \<le> AllocatedBits B (g (f s))" if "xs @ ys \<noteq> []"
    using that F G by (cases "ys = []") (auto simp: add.assoc)
  show "GetWriteOffset B ((fcomp f g) s) = 8 * (k + length (xs @ ys)) \<and>
     AllocatedBits B s \<le> AllocatedBits B ((fcomp f g) s) \<and>
     (xs @ ys \<noteq> [] \<longrightarrow> 8 * (k + length (xs @ ys)) \<le> AllocatedBits B ((fcomp f g) s)) \<and>
     (\<forall>i<length (xs @ ys). StreamByte B ((fcomp f g) s) (k + i) = (xs @ ys) ! i) \<and>
     (\<forall>j. (j < k \<or> k + length (xs @ ys) \<le> j) \<and> 8 * Suc j \<le> AllocatedBits B s
        \<longrightarrow> StreamByte B ((fcomp f g) s) j = StreamByte B s j)"
    using F G bytes alloc by (auto simp: add.assoc)
qed

lemma puts_in_order:
  "list_all2 (puts B) fs bss \<Longrightarrow> puts B (in_order fs) (concat bss)"
proof (induction fs bss rule: list_all2_induct)
  case Nil
  then show ?case by (simp add: puts_def)
next
  case (Cons f fs bs bss)
  from puts_comp [OF Cons.hyps(1) Cons.IH] show ?case by (simp only: in_order_Cons concat.simps)
qed

lemma puts_pair: "puts B f xs \<Longrightarrow> puts B g ys \<Longrightarrow> puts B (in_order [f, g]) (xs @ ys)"
  using puts_in_order [of B "[f, g]" "[xs, ys]"] by simp

lemma puts_fields:
  assumes "bitstream_laws B"
  shows "puts B (Write_bool B c) (bytes_bool c)" "puts B (Write_vec2 B v2) (bytes_vec2 v2)"
    "puts B (Write_vec3 B v3) (bytes_vec3 v3)" "puts B (Write_quat B q) (bytes_quat q)"
  unfolding bytes_bool_def Write_vec2_def bytes_vec2_def Write_vec3_def bytes_vec3_def
    Write_quat_def bytes_quat_def
  using puts_Write [OF assms] puts_in_order [of B "[Write_f32 B (v2x v2), Write_f32 B (v2y v2)]"
      "[bytes_le 4 (v2x v2), bytes_le 4 (v2y v2)]"]
    puts_in_order [of B "[Write_f32 B (vx v3), Write_f32 B (vy v3), Write_f32 B (vz v3)]"
      "[bytes_le 4 (vx v3), bytes_le 4 (vy v3), bytes_le 4 (vz v3)]"]
    puts_in_order [of B "[Write_f32 B (qx q), Write_f32 B (qy q), Write_f32 B (qz q), Write_f32 B (qw q)]"
      "[bytes_le 4 (qx q), bytes_le 4 (qy q), bytes_le 4 (qz q), bytes_le 4 (qw q)]"]
  by simp_all

lemma seg_fields:
  assumes "bitstream_laws B"
  shows "seg B b (Write_bool B c) p (p + 1) [(p, bytes_bool c)]"
    "seg B b (Write_u8 B w8) p (p + 1) [(p, [w8])]"
    "seg B b (Write_u16 B w16) p (p + 2) [(p, bytes_le 2 w16)]"
    "seg B b (Write_u32 B w32) p (p + 4) [(p, bytes_le 4 w32)]"
    "seg B b (Write_u64 B w64) p (p + 8) [(p, bytes_le 8 w64)]"
    "seg B b (Write_f32 B wx) p (p + 4) [(p, bytes_le 4 wx)]"
    "seg B b (Write_vec2 B v2) p (p + 8) [(p, bytes_vec2 v2)]"
    "seg B b (Write_vec3 B v3) p (p + 12) [(p, bytes_vec3 v3)]"
    "seg B b (Write_quat B q) p (p + 16) [(p, bytes_quat q)]"
  using seg_puts [OF puts_fields(1) [OF assms, of c], of b p]
    seg_puts [OF puts_fields(2) [OF assms, of v2], of b p]
    seg_puts [OF puts_fields(3) [OF assms, of v3], of b p]
    seg_puts [OF puts_fields(4) [OF assms, of q], of b p]
    seg_puts [OF puts_Write(2) [OF assms, where ?v8.0 = w8], of b p]
    seg_puts [OF puts_Write(3) [OF assms, of w16], of b p]
    seg_puts [OF puts_Write(4) [OF assms, of w32], of b p]
    seg_puts [OF puts_Write(5) [OF assms, of w64], of b p]
    seg_puts [OF puts_Write(6) [OF assms, of wx], of b p]
  by simp_all

subsection \<open>Reflection of fields without gaps\<close>

text \<open>
  The wire format of a reflected structure, from its fields (index, bytes): up to 8 fields a
  one-byte mask of the present fields and then their bytes; up to 16 fields a two-byte mask;
  beyond that every field is preceded by its index and the list is closed by 0xFF.
\<close>

definition field_mask :: "(nat \<times> bytes) list \<Rightarrow> u16" where
  "field_mask fs = fold (\<lambda>(k, _) m. m OR push_bit k 1) fs 0"

definition reflection_bytes :: "nat \<Rightarrow> (nat \<times> bytes) list \<Rightarrow> bytes" where
  "reflection_bytes F fs =
     (if F \<le> 8 then ucast (field_mask fs) # concat (map snd fs)
      else if F \<le> 16 then bytes_le 2 (field_mask fs) @ concat (map snd fs)
      else concat (map (\<lambda>(k, bs). of_nat k # bs) fs) @ [0xFF])"

lemma puts_of_layout:
  assumes l: "lays_out B f (length bs) cs"
    and o: "\<And>k. overlay cs k = (if k < length bs then Some (bs ! k) else None)"
  shows "puts B f bs"
  unfolding puts_def
proof (intro allI impI)
  fix s k assume "GetWriteOffset B s = 8 * k"
  then have *: "leaves B k (length bs) cs s (f s)" using l by (simp add: lays_out_def seg_def)
  have alloc: "8 * (k + length bs) \<le> AllocatedBits B (f s)" if "bs \<noteq> []"
  proof -
    from that obtain m where m: "length bs = Suc m" by (cases bs) auto
    then show ?thesis using leavesD(3) [OF *, of m] o [of m] by simp
  qed
  show "GetWriteOffset B (f s) = 8 * (k + length bs) \<and>
     AllocatedBits B s \<le> AllocatedBits B (f s) \<and>
     (bs \<noteq> [] \<longrightarrow> 8 * (k + length bs) \<le> AllocatedBits B (f s)) \<and>
     (\<forall>i < length bs. StreamByte B (f s) (k + i) = bs ! i) \<and>
     (\<forall>j. (j < k \<or> k + length bs \<le> j) \<and> 8 * Suc j \<le> AllocatedBits B s
        \<longrightarrow> StreamByte B (f s) j = StreamByte B s j)"
  proof (intro conjI allI impI)
    show "GetWriteOffset B (f s) = 8 * (k + length bs)" by (rule leavesD [OF *])
    show "AllocatedBits B s \<le> AllocatedBits B (f s)" by (rule leavesD [OF *])
    show "8 * (k + length bs) \<le> AllocatedBits B (f s)" if "bs \<noteq> []" by (rule alloc [OF that])
    show "StreamByte B (f s) (k + i) = bs ! i" if "i < length bs" for i
      using that leavesD(4) [OF *, of i] by (simp add: o)
    show "StreamByte B (f s) j = StreamByte B s j"
      if "(j < k \<or> k + length bs \<le> j) \<and> 8 * Suc j \<le> AllocatedBits B s" for j
      using that leavesD(5) [OF *, of j] by (auto simp: o)
  qed
qed

text \<open>Consecutive chunks from a position.\<close>

fun chunks :: "nat \<Rightarrow> bytes list \<Rightarrow> layout" where
  "chunks p [] = []"
| "chunks p (bs # bss) = (p, bs) # chunks (p + length bs) bss"

lemma overlay_chunks:
  "overlay (chunks p bss) k =
     (if p \<le> k \<and> k < p + length (concat bss) then Some (concat bss ! (k - p)) else None)"
  by (induction p bss rule: chunks.induct) (auto simp: nth_append diff_diff_left not_less)

definition refl_fields ::
  "'s bitstream \<Rightarrow> nat \<Rightarrow> (nat \<times> ('s \<Rightarrow> 's)) list \<Rightarrow> reflector \<times> 's \<Rightarrow> reflector \<times> 's" where
  "refl_fields B F ws = in_order (map (\<lambda>(k, w). refl_write B F k w) ws)"

lemma rseg_fields_mask:
  assumes "\<not> 16 < F"
    and "list_all2 (\<lambda>(k, w) (k', bs). k = k' \<and> puts B w bs) ws fs"
  shows "rseg B b (refl_fields B F ws) m (fold (\<lambda>(k, _) m. m OR push_bit k 1) fs m)
           p (p + length (concat (map snd fs))) (chunks p (map snd fs))"
  using assms(2)
proof (induction ws fs arbitrary: m p rule: list_all2_induct)
  case Nil
  then show ?case by (simp add: refl_fields_def rseg_skip)
next
  case (Cons x ws y fs)
  obtain k w bs where x: "x = (k, w)" "y = (k, bs)" "puts B w bs"
    using Cons.hyps(1) by (cases x; cases y) auto
  have "rseg B b (refl_write B F k w) m (m OR push_bit k 1) p (p + length bs) [(p, bs)]"
    by (rule rseg_write_mask [OF assms(1) seg_puts [OF x(3)]])
  from rseg_in_order(2) [OF this Cons.IH [unfolded refl_fields_def]] show ?case
    by (simp add: x refl_fields_def add.assoc in_order_Cons fcomp_def)
qed

lemma rseg_fields_tag:
  assumes "bitstream_laws B" and "16 < F"
    and "list_all2 (\<lambda>(k, w) (k', bs). k = k' \<and> puts B w bs) ws fs"
  shows "rseg B b (refl_fields B F ws) m m
           p (p + length (concat (map (\<lambda>(k, bs). of_nat k # bs) fs)))
           (chunks p (concat (map (\<lambda>(k, bs). [[of_nat k], bs]) fs)))"
  using assms(3)
proof (induction ws fs arbitrary: p rule: list_all2_induct)
  case Nil
  then show ?case by (simp add: refl_fields_def rseg_skip)
next
  case (Cons x ws y fs)
  obtain k w bs where x: "x = (k, w)" "y = (k, bs)" "puts B w bs"
    using Cons.hyps(1) by (cases x; cases y) auto
  have "rseg B b (refl_write B F k w) m m p (p + 1 + length bs) ([(p, [of_nat k])] @ [(p + 1, bs)])"
    by (rule rseg_write_tag [OF assms(1,2) seg_puts [OF x(3)]])
  from rseg_in_order(2) [OF this Cons.IH [unfolded refl_fields_def]] show ?case
    by (simp add: x refl_fields_def add.assoc in_order_Cons fcomp_def)
qed

lemma concat_tags:
  "concat (concat (map (\<lambda>(k, bs). [[of_nat k], bs]) fs)) = concat (map (\<lambda>(k, bs). of_nat k # bs) fs)"
  by (induction fs) auto

lemma reflect_fields_puts:
  assumes "bitstream_laws B"
    and fs: "list_all2 (\<lambda>(k, w) (k', bs). k = k' \<and> puts B w bs) ws fs"
  shows "puts B (reflect B F (refl_fields B F ws)) (reflection_bytes F fs)"
proof -
  let ?bs = "concat (map snd fs)"
  consider "F \<le> 8" | "8 < F" "F \<le> 16" | "16 < F" by linarith
  then show ?thesis
  proof cases
    case 1
    have "rseg B b (refl_fields B F ws) 0 (field_mask fs) 1 (1 + length ?bs) (chunks 1 (map snd fs))" for b
      unfolding field_mask_def using 1 by (intro rseg_fields_mask fs) simp
    from reflect_mask8 [OF assms(1) 1 this] show ?thesis
      using 1 by (intro puts_of_layout [where cs = "chunks 1 (map snd fs) @ [(0, [ucast (field_mask fs)])]"])
        (auto simp: reflection_bytes_def overlay_append overlay_chunks nth_Cons')
  next
    case 2
    have "rseg B b (refl_fields B F ws) 0 (field_mask fs) 2 (2 + length ?bs) (chunks 2 (map snd fs))" for b
      unfolding field_mask_def using 2 by (intro rseg_fields_mask fs) simp
    from reflect_mask16 [OF assms(1) 2 this] show ?thesis
      using 2 by (intro puts_of_layout [where cs = "chunks 2 (map snd fs) @ [(0, bytes_le 2 (field_mask fs))]"])
        (auto simp: reflection_bytes_def overlay_append overlay_chunks nth_append)
  next
    case 3
    let ?ts = "concat (map (\<lambda>(k, bs). of_nat k # bs) fs) :: bytes"
    have "rseg B b (refl_fields B F ws) 0 0 0 (length ?ts)
        (chunks 0 (concat (map (\<lambda>(k, bs). [[of_nat k], bs]) fs)))" for b
      using rseg_fields_tag [OF assms(1) 3 fs, of b 0 0] by simp
    from reflect_tags [OF assms(1) 3 this] show ?thesis
      using 3 by (intro puts_of_layout [where cs = "chunks 0 (concat (map (\<lambda>(k, bs). [[of_nat k], bs]) fs)) @ [(length ?ts, [0xFF])]"])
        (auto simp: reflection_bytes_def overlay_append overlay_chunks concat_tags nth_append)
  qed
qed

subsection \<open>Blocks\<close>

text \<open>
  \<open>writes_block B f n cs\<close>: from an aligned offset, \<open>f\<close> advances by exactly \<open>n\<close> bytes, each
  chunk of \<open>cs\<close> can be read back at its place, and no allocated byte outside the block changes.
\<close>

definition writes_block :: "'s bitstream \<Rightarrow> ('s \<Rightarrow> 's) \<Rightarrow> nat \<Rightarrow> layout \<Rightarrow> bool" where
  "writes_block B f n cs \<longleftrightarrow> (\<forall>s b. GetWriteOffset B s = 8 * b \<longrightarrow>
     GetWriteOffset B (f s) = 8 * (b + n) \<and>
     (\<forall>(p, bs) \<in> set cs. \<forall>i < length bs. StreamByte B (f s) (b + p + i) = bs ! i) \<and>
     (\<forall>j. 8 * Suc j \<le> AllocatedBits B s \<and> (j < b \<or> b + n \<le> j)
        \<longrightarrow> StreamByte B (f s) j = StreamByte B s j))"

lemma writes_blockI:
  assumes "lays_out B f n cs" and "tight n cs"
  shows "writes_block B f n cs"
  unfolding writes_block_def
proof (intro allI impI conjI ballI)
  fix s b assume s: "GetWriteOffset B s = 8 * b"
  show "GetWriteOffset B (f s) = 8 * (b + n)" by (rule lays_out_tight [OF assms s])
  show "case x of (p, bs) \<Rightarrow> \<forall>i < length bs. StreamByte B (f s) (b + p + i) = bs ! i"
    if "x \<in> set cs" for x
    using that lays_out_tight(2) [OF assms s] by (cases x) auto
  show "StreamByte B (f s) j = StreamByte B s j"
    if "8 * Suc j \<le> AllocatedBits B s \<and> (j < b \<or> b + n \<le> j)" for j
    using that lays_out_tight(3) [OF assms s] by blast
qed

subsection \<open>A stream that satisfies the laws\<close>

text \<open>A growing memory with an offset in bits; used to show that the laws are satisfiable.\<close>

record memory =
  mem_offset :: nat
  mem_alloc :: nat
  mem_byte :: "nat \<Rightarrow> u8"

definition mem_put :: "bytes \<Rightarrow> memory \<Rightarrow> memory" where
  "mem_put bs m =
     (let o8 = mem_offset m div 8 in
      m\<lparr>mem_offset := mem_offset m + 8 * length bs,
        mem_alloc := max (mem_alloc m) (mem_offset m + 8 * length bs),
        mem_byte := (\<lambda>j. if o8 \<le> j \<and> j < o8 + length bs then bs ! (j - o8) else mem_byte m j)\<rparr>)"

definition mem_stream :: "memory bitstream" where
  "mem_stream =
     \<lparr>GetWriteOffset = mem_offset,
      SetWriteOffset = (\<lambda>n m. m\<lparr>mem_offset := n\<rparr>),
      AddBitsAndReallocate = (\<lambda>n m. m\<lparr>mem_alloc := max (mem_alloc m) (mem_offset m + n)\<rparr>),
      StreamWrite8 = (\<lambda>w. mem_put (bytes_be 1 w)),
      StreamWrite16 = (\<lambda>w. mem_put (bytes_be 2 w)),
      StreamWrite32 = (\<lambda>w. mem_put (bytes_be 4 w)),
      StreamWrite64 = (\<lambda>w. mem_put (bytes_be 8 w)),
      AllocatedBits = mem_alloc,
      StreamByte = mem_byte\<rparr>"

definition mem_empty :: memory where
  "mem_empty = \<lparr>mem_offset = 0, mem_alloc = 0, mem_byte = (\<lambda>_. 0)\<rparr>"

lemma mem_put_puts: "puts mem_stream (mem_put bs) bs"
  by (auto simp: puts_def mem_stream_def mem_put_def Let_def)

lemma mem_stream_laws: "bitstream_laws mem_stream"
  unfolding bitstream_laws_def
  using mem_put_puts by (auto simp: mem_stream_def keeps_def)

subsection \<open>Properties\<close>

text \<open>
  The two byte swaps cancel on the wire: whatever its width, an integer, a flag, a float or
  a vector of floats written with the \<open>Write\<close> templates appears as its little-endian bytes at
  the stream's offset, components in declaration order, and nothing else is touched.
\<close>

lemma wire_is_little_endian:
  assumes "bitstream_laws B"
  shows "puts B (Write_bool B c) [if c then 1 else 0] \<and> puts B (Write_u8 B v8) [v8] \<and>
    puts B (Write_u16 B v16) (bytes_le 2 v16) \<and> puts B (Write_u32 B v32) (bytes_le 4 v32) \<and>
    puts B (Write_u64 B v64) (bytes_le 8 v64) \<and> puts B (Write_f32 B vf) (bytes_le 4 vf) \<and>
    puts B (Write_vec3 B v) (bytes_le 4 (vx v) @ bytes_le 4 (vy v) @ bytes_le 4 (vz v)) \<and>
    puts B (Write_quat B q)
      (bytes_le 4 (qx q) @ bytes_le 4 (qy q) @ bytes_le 4 (qz q) @ bytes_le 4 (qw q))"
  using puts_Write [OF assms] puts_fields(3) [OF assms, of v] puts_fields(4) [OF assms, of q]
  by (simp add: bytes_vec3_def bytes_quat_def of_bool_def)

text \<open>
  The reflection serialiser produces its wire format for any number of fields: a one-byte
  mask up to 8 fields, a two-byte little-endian mask up to 16, index-tagged fields closed by
  0xFF beyond, with the fields' bytes in the order they were written; the mask is written back
  in front although it is only known at the end.
\<close>

lemma reflection_wire_format:
  assumes "bitstream_laws B"
    and "list_all2 (\<lambda>(k, w) (k', bs). k = k' \<and> puts B w bs) ws fs"
  shows "puts B (reflect B F (refl_fields B F ws)) (reflection_bytes F fs)"
  using assms by (rule reflect_fields_puts)

end
