(* ===== verification/RakTypes.thy ===== *)
theory RakTypes
  imports BitStream
begin

text \<open>
  The game structures of \<open>source/RakNet/Types.{h,cpp}\<close> and their two serialisations: the
  full memory image (\<open>WriteTo\<close>: reserve the block, seek to the offset of each group of fields,
  write them, seek to the end of the block) and the reflection of all fields
  (\<open>WriteReflection\<close>).  Each \<open>_layout\<close> is the offset table of the image and each \<open>_fields\<close>
  the list of reflected fields; the lemmas show that the code produces exactly these and that
  no image writes outside its block or over itself.
  Field names are the source's, with a prefix where the source's name is used by two structures.
\<close>

subsection \<open>Structures and their writers\<close>

record cAIDirector =
  mBossId :: u32
  mActiveHordeWaves :: u32
  mbBossSpawned :: bool
  mbBossHorde :: bool
  mbCaptainSpawned :: bool
  mbBossComplete :: bool
  mbHordeSpawned :: bool

definition cAIDirector_WriteTo :: "'s bitstream \<Rightarrow> cAIDirector \<Rightarrow> 's \<Rightarrow> 's" where
  "cAIDirector_WriteTo B d s =
     (let (off, s') = ReallocateStream B (bytes_to_bits 0x4D0) s in
      in_order [SetWriteOffset B (off + bytes_to_bits 0xD),
       Write_bool B (mbBossSpawned d),
       Write_bool B (mbBossHorde d),
       Write_bool B (mbCaptainSpawned d),
       Write_bool B (mbBossComplete d),
       SetWriteOffset B (off + bytes_to_bits 0x14),
       Write_u32 B (mBossId d),
       SetWriteOffset B (off + bytes_to_bits 0x47C),
       Write_u32 B (mActiveHordeWaves d),
       SetWriteOffset B (off + bytes_to_bits 0x48C),
       Write_bool B (mbHordeSpawned d),
       SetWriteOffset B (off + bytes_to_bits 0x4D0)] s')"

definition cAIDirector_layout :: "cAIDirector \<Rightarrow> layout" where
  "cAIDirector_layout d =
     [(0xD, bytes_bool (mbBossSpawned d)),
      (0xE, bytes_bool (mbBossHorde d)),
      (0xF, bytes_bool (mbCaptainSpawned d)),
      (0x10, bytes_bool (mbBossComplete d)),
      (0x14, bytes_le 4 (mBossId d)),
      (0x47C, bytes_le 4 (mActiveHordeWaves d)),
      (0x48C, bytes_bool (mbHordeSpawned d))]"

definition cAIDirector_WriteReflection :: "'s bitstream \<Rightarrow> cAIDirector \<Rightarrow> 's \<Rightarrow> 's" where
  "cAIDirector_WriteReflection B d = reflect B 7
     (in_order [refl_write B 7 0 (Write_bool B (mbBossSpawned d)),
      refl_write B 7 1 (Write_bool B (mbBossHorde d)),
      refl_write B 7 2 (Write_bool B (mbCaptainSpawned d)),
      refl_write B 7 3 (Write_bool B (mbBossComplete d)),
      refl_write B 7 4 (Write_bool B (mbHordeSpawned d)),
      refl_write B 7 5 (Write_u32 B (mBossId d)),
      refl_write B 7 6 (Write_u32 B (mActiveHordeWaves d))])"

definition cAIDirector_fields :: "cAIDirector \<Rightarrow> (nat \<times> bytes) list" where
  "cAIDirector_fields d =
     [(0, bytes_bool (mbBossSpawned d)),
      (1, bytes_bool (mbBossHorde d)),
      (2, bytes_bool (mbCaptainSpawned d)),
      (3, bytes_bool (mbBossComplete d)),
      (4, bytes_bool (mbHordeSpawned d)),
      (5, bytes_le 4 (mBossId d)),
      (6, bytes_le 4 (mActiveHordeWaves d))]"

record labsCrystal =
  crystalNoun :: u32
  lc_level :: u16

definition labsCrystal_WriteTo :: "'s bitstream \<Rightarrow> labsCrystal \<Rightarrow> 's \<Rightarrow> 's" where
  "labsCrystal_WriteTo B d =
     in_order [Write_u32 B (crystalNoun d), Write_u16 B (lc_level d), Write_u32 B 0, Write_u32 B 0,
       Write_u16 B 0]"

definition labsCrystal_layout :: "labsCrystal \<Rightarrow> layout" where
  "labsCrystal_layout d =
     [(0x0, bytes_le 4 (crystalNoun d)),
      (0x4, bytes_le 2 (lc_level d)),
      (0x6, bytes_le 4 (0 :: u32)),
      (0xA, bytes_le 4 (0 :: u32)),
      (0xE, bytes_le 2 (0 :: u16))]"

definition labsCrystal_WriteReflection :: "'s bitstream \<Rightarrow> labsCrystal \<Rightarrow> 's \<Rightarrow> 's" where
  "labsCrystal_WriteReflection B d = reflect B 2
     (in_order [refl_write B 2 0 (Write_u32 B (crystalNoun d)),
      refl_write B 2 1 (Write_u16 B (lc_level d))])"

definition labsCrystal_fields :: "labsCrystal \<Rightarrow> (nat \<times> bytes) list" where
  "labsCrystal_fields d =
     [(0, bytes_le 4 (crystalNoun d)),
      (1, bytes_le 2 (lc_level d))]"

record cGameObjectCreateData =
  goc_noun :: u32
  goc_position :: vec3
  rotXDegrees :: f32
  rotYDegrees :: f32
  rotZDegrees :: f32
  assetId :: u64
  goc_scale :: f32
  goc_team :: u8
  hasCollision :: bool
  playerControlled :: bool

definition cGameObjectCreateData_WriteTo :: "'s bitstream \<Rightarrow> cGameObjectCreateData \<Rightarrow> 's \<Rightarrow> 's" where
  "cGameObjectCreateData_WriteTo B d s =
     (let (off, s') = ReallocateStream B (bytes_to_bits 0x70) s in
      in_order [SetWriteOffset B off,
       Write_u32 B (goc_noun d),
       Write_vec3 B (goc_position d),
       Write_f32 B (rotXDegrees d),
       Write_f32 B (rotYDegrees d),
       Write_f32 B (rotZDegrees d),
       SetWriteOffset B (off + bytes_to_bits 0x20),
       Write_u64 B (assetId d),
       Write_f32 B (goc_scale d),
       Write_u8 B (goc_team d),
       Write_bool B (hasCollision d),
       Write_bool B (playerControlled d),
       SetWriteOffset B (off + bytes_to_bits 0x70)] s')"

definition cGameObjectCreateData_layout :: "cGameObjectCreateData \<Rightarrow> layout" where
  "cGameObjectCreateData_layout d =
     [(0x0, bytes_le 4 (goc_noun d)),
      (0x4, bytes_vec3 (goc_position d)),
      (0x10, bytes_le 4 (rotXDegrees d)),
      (0x14, bytes_le 4 (rotYDegrees d)),
      (0x18, bytes_le 4 (rotZDegrees d)),
      (0x20, bytes_le 8 (assetId d)),
      (0x28, bytes_le 4 (goc_scale d)),
      (0x2C, [goc_team d]),
      (0x2D, bytes_bool (hasCollision d)),
      (0x2E, bytes_bool (playerControlled d))]"

definition cGameObjectCreateData_WriteReflection :: "'s bitstream \<Rightarrow> cGameObjectCreateData \<Rightarrow> 's \<Rightarrow> 's" where
  "cGameObjectCreateData_WriteReflection B d = reflect B 10
     (in_order [refl_write B 10 0 (Write_u32 B (goc_noun d)),
      refl_write B 10 1 (Write_vec3 B (goc_position d)),
      refl_write B 10 2 (Write_f32 B (rotXDegrees d)),
      refl_write B 10 3 (Write_f32 B (rotYDegrees d)),
      refl_write B 10 4 (Write_f32 B (rotZDegrees d)),
      refl_write B 10 5 (Write_u64 B (assetId d)),
      refl_write B 10 6 (Write_f32 B (goc_scale d)),
      refl_write B 10 7 (Write_u8 B (goc_team d)),
      refl_write B 10 8 (Write_bool B (hasCollision d)),
      refl_write B 10 9 (Write_bool B (playerControlled d))])"

definition cGameObjectCreateData_fields :: "cGameObjectCreateData \<Rightarrow> (nat \<times> bytes) list" where
  "cGameObjectCreateData_fields d =
     [(0, bytes_le 4 (goc_noun d)),
      (1, bytes_vec3 (goc_position d)),
      (2, bytes_le 4 (rotXDegrees d)),
      (3, bytes_le 4 (rotYDegrees d)),
      (4, bytes_le 4 (rotZDegrees d)),
      (5, bytes_le 8 (assetId d)),
      (6, bytes_le 4 (goc_scale d)),
      (7, [goc_team d]),
      (8, bytes_bool (hasCollision d)),
      (9, bytes_bool (playerControlled d))]"

record sporelabsObject =
  mTeam :: u8
  mbPlayerControlled :: bool
  mInputSyncStamp :: u32
  mPlayerIdx :: u8
  mLinearVelocity :: vec3
  mAngularVelocity :: vec3
  mPosition :: vec3
  mOrientation :: quat
  mScale :: f32
  mMarkerScale :: f32
  mLastAnimationState :: u32
  mLastAnimationPlayTimeMs :: u64
  mOverrideMoveIdleAnimationState :: u32
  mGraphicsState :: u32
  mGraphicsStateStartTimeMs :: u64
  mNewGraphicsStateStartTimeMs :: u64
  mVisible :: bool
  mbHasCollision :: bool
  mOwnerID :: u32
  mMovementType :: u8
  mDisableRepulsion :: bool
  mInteractableState :: u32
  sourceMarkerKey_markerId :: u32

definition sporelabsObject_WriteTo :: "'s bitstream \<Rightarrow> sporelabsObject \<Rightarrow> 's \<Rightarrow> 's" where
  "sporelabsObject_WriteTo B d s =
     (let (off, s') = ReallocateStream B (bytes_to_bits 0x308) s in
      in_order [SetWriteOffset B (off + bytes_to_bits 0x10),
       Write_f32 B (mScale d),
       Write_f32 B (mMarkerScale d),
       SetWriteOffset B (off + bytes_to_bits 0x18),
       Write_vec3 B (mPosition d),
       Write_quat B (mOrientation d),
       Write_vec3 B (mLinearVelocity d),
       Write_vec3 B (mAngularVelocity d),
       SetWriteOffset B (off + bytes_to_bits 0x50),
       Write_u32 B (mOwnerID d),
       Write_u8 B (mTeam d),
       Write_u8 B (mPlayerIdx d),
       SetWriteOffset B (off + bytes_to_bits 0x58),
       Write_u32 B (mInputSyncStamp d),
       Write_bool B (mbPlayerControlled d),
       SetWriteOffset B (off + bytes_to_bits 0x5F),
       Write_bool B (mVisible d),
       Write_bool B (mbHasCollision d),
       Write_u8 B (mMovementType d),
       SetWriteOffset B (off + bytes_to_bits 0x88),
       Write_u32 B (sourceMarkerKey_markerId d),
       SetWriteOffset B (off + bytes_to_bits 0xAC),
       Write_u32 B (mLastAnimationState d),
       SetWriteOffset B (off + bytes_to_bits 0xB8),
       Write_u64 B (mLastAnimationPlayTimeMs d),
       Write_u32 B (mOverrideMoveIdleAnimationState d),
       SetWriteOffset B (off + bytes_to_bits 0x258),
       Write_u32 B (mGraphicsState d),
       SetWriteOffset B (off + bytes_to_bits 0x260),
       Write_u64 B (mGraphicsStateStartTimeMs d),
       Write_u64 B (mNewGraphicsStateStartTimeMs d),
       SetWriteOffset B (off + bytes_to_bits 0x284),
       Write_bool B (mDisableRepulsion d),
       SetWriteOffset B (off + bytes_to_bits 0x288),
       Write_u32 B (mInteractableState d),
       SetWriteOffset B (off + bytes_to_bits 0x308)] s')"

definition sporelabsObject_layout :: "sporelabsObject \<Rightarrow> layout" where
  "sporelabsObject_layout d =
     [(0x10, bytes_le 4 (mScale d)),
      (0x14, bytes_le 4 (mMarkerScale d)),
      (0x18, bytes_vec3 (mPosition d)),
      (0x24, bytes_quat (mOrientation d)),
      (0x34, bytes_vec3 (mLinearVelocity d)),
      (0x40, bytes_vec3 (mAngularVelocity d)),
      (0x50, bytes_le 4 (mOwnerID d)),
      (0x54, [mTeam d]),
      (0x55, [mPlayerIdx d]),
      (0x58, bytes_le 4 (mInputSyncStamp d)),
      (0x5C, bytes_bool (mbPlayerControlled d)),
      (0x5F, bytes_bool (mVisible d)),
      (0x60, bytes_bool (mbHasCollision d)),
      (0x61, [mMovementType d]),
      (0x88, bytes_le 4 (sourceMarkerKey_markerId d)),
      (0xAC, bytes_le 4 (mLastAnimationState d)),
      (0xB8, bytes_le 8 (mLastAnimationPlayTimeMs d)),
      (0xC0, bytes_le 4 (mOverrideMoveIdleAnimationState d)),
      (0x258, bytes_le 4 (mGraphicsState d)),
      (0x260, bytes_le 8 (mGraphicsStateStartTimeMs d)),
      (0x268, bytes_le 8 (mNewGraphicsStateStartTimeMs d)),
      (0x284, bytes_bool (mDisableRepulsion d)),
      (0x288, bytes_le 4 (mInteractableState d))]"

definition sporelabsObject_WriteReflection :: "'s bitstream \<Rightarrow> sporelabsObject \<Rightarrow> 's \<Rightarrow> 's" where
  "sporelabsObject_WriteReflection B d = reflect B 23
     (in_order [refl_write B 23 0 (Write_u8 B (mTeam d)),
      refl_write B 23 1 (Write_bool B (mbPlayerControlled d)),
      refl_write B 23 2 (Write_u32 B (mInputSyncStamp d)),
      refl_write B 23 3 (Write_u8 B (mPlayerIdx d)),
      refl_write B 23 4 (Write_vec3 B (mLinearVelocity d)),
      refl_write B 23 5 (Write_vec3 B (mAngularVelocity d)),
      refl_write B 23 6 (Write_vec3 B (mPosition d)),
      refl_write B 23 7 (Write_quat B (mOrientation d)),
      refl_write B 23 8 (Write_f32 B (mScale d)),
      refl_write B 23 9 (Write_f32 B (mMarkerScale d)),
      refl_write B 23 10 (Write_u32 B (mLastAnimationState d)),
      refl_write B 23 11 (Write_u64 B (mLastAnimationPlayTimeMs d)),
      refl_write B 23 12 (Write_u32 B (mOverrideMoveIdleAnimationState d)),
      refl_write B 23 13 (Write_u32 B (mGraphicsState d)),
      refl_write B 23 14 (Write_u64 B (mGraphicsStateStartTimeMs d)),
      refl_write B 23 15 (Write_u64 B (mNewGraphicsStateStartTimeMs d)),
      refl_write B 23 16 (Write_bool B (mVisible d)),
      refl_write B 23 17 (Write_bool B (mbHasCollision d)),
      refl_write B 23 18 (Write_u32 B (mOwnerID d)),
      refl_write B 23 19 (Write_u8 B (mMovementType d)),
      refl_write B 23 20 (Write_bool B (mDisableRepulsion d)),
      refl_write B 23 21 (Write_u32 B (mInteractableState d)),
      refl_write B 23 22 (Write_u32 B (sourceMarkerKey_markerId d))])"

definition sporelabsObject_fields :: "sporelabsObject \<Rightarrow> (nat \<times> bytes) list" where
  "sporelabsObject_fields d =
     [(0, [mTeam d]),
      (1, bytes_bool (mbPlayerControlled d)),
      (2, bytes_le 4 (mInputSyncStamp d)),
      (3, [mPlayerIdx d]),
      (4, bytes_vec3 (mLinearVelocity d)),
      (5, bytes_vec3 (mAngularVelocity d)),
      (6, bytes_vec3 (mPosition d)),
      (7, bytes_quat (mOrientation d)),
      (8, bytes_le 4 (mScale d)),
      (9, bytes_le 4 (mMarkerScale d)),
      (10, bytes_le 4 (mLastAnimationState d)),
      (11, bytes_le 8 (mLastAnimationPlayTimeMs d)),
      (12, bytes_le 4 (mOverrideMoveIdleAnimationState d)),
      (13, bytes_le 4 (mGraphicsState d)),
      (14, bytes_le 8 (mGraphicsStateStartTimeMs d)),
      (15, bytes_le 8 (mNewGraphicsStateStartTimeMs d)),
      (16, bytes_bool (mVisible d)),
      (17, bytes_bool (mbHasCollision d)),
      (18, bytes_le 4 (mOwnerID d)),
      (19, [mMovementType d]),
      (20, bytes_bool (mDisableRepulsion d)),
      (21, bytes_le 4 (mInteractableState d)),
      (22, bytes_le 4 (sourceMarkerKey_markerId d))]"

record cAgentBlackboard =
  targetId :: u32
  mbInCombat :: bool
  mStealthType :: u8
  mbTargetable :: bool
  mNumAttackers :: u32

definition cAgentBlackboard_WriteTo :: "'s bitstream \<Rightarrow> cAgentBlackboard \<Rightarrow> 's \<Rightarrow> 's" where
  "cAgentBlackboard_WriteTo B d s =
     (let (off, s') = ReallocateStream B (bytes_to_bits 0x598) s in
      in_order [SetWriteOffset B (off + bytes_to_bits 0x550),
       Write_u32 B (targetId d),
       Write_bool B (mbInCombat d),
       SetWriteOffset B (off + bytes_to_bits 0x556),
       Write_u8 B (mStealthType d),
       SetWriteOffset B (off + bytes_to_bits 0x578),
       Write_bool B (mbTargetable d),
       SetWriteOffset B (off + bytes_to_bits 0x57C),
       Write_u32 B (mNumAttackers d),
       SetWriteOffset B (off + bytes_to_bits 0x598)] s')"

definition cAgentBlackboard_layout :: "cAgentBlackboard \<Rightarrow> layout" where
  "cAgentBlackboard_layout d =
     [(0x550, bytes_le 4 (targetId d)),
      (0x554, bytes_bool (mbInCombat d)),
      (0x556, [mStealthType d]),
      (0x578, bytes_bool (mbTargetable d)),
      (0x57C, bytes_le 4 (mNumAttackers d))]"

definition cAgentBlackboard_WriteReflection :: "'s bitstream \<Rightarrow> cAgentBlackboard \<Rightarrow> 's \<Rightarrow> 's" where
  "cAgentBlackboard_WriteReflection B d = reflect B 5
     (in_order [refl_write B 5 0 (Write_u32 B (targetId d)),
      refl_write B 5 1 (Write_bool B (mbInCombat d)),
      refl_write B 5 2 (Write_u8 B (mStealthType d)),
      refl_write B 5 3 (Write_bool B (mbTargetable d)),
      refl_write B 5 4 (Write_u32 B (mNumAttackers d))])"

definition cAgentBlackboard_fields :: "cAgentBlackboard \<Rightarrow> (nat \<times> bytes) list" where
  "cAgentBlackboard_fields d =
     [(0, bytes_le 4 (targetId d)),
      (1, bytes_bool (mbInCombat d)),
      (2, [mStealthType d]),
      (3, bytes_bool (mbTargetable d)),
      (4, bytes_le 4 (mNumAttackers d))]"

record cLobParams =
  planeDirLinearParam :: f32
  upLinearParam :: f32
  upQuadraticParam :: f32
  lobUpDir :: vec3
  planeDir :: vec3
  bounceNum :: u32
  bounceRestitution :: f32
  groundCollisionOnly :: bool
  stopBounceOnCreatures :: bool

definition cLobParams_WriteTo :: "'s bitstream \<Rightarrow> cLobParams \<Rightarrow> 's \<Rightarrow> 's" where
  "cLobParams_WriteTo B d s =
     (let (off, s') = ReallocateStream B (bytes_to_bits 0x54) s in
      in_order [SetWriteOffset B (off + bytes_to_bits 0x18),
       Write_vec3 B (lobUpDir d),
       SetWriteOffset B (off + bytes_to_bits 0x30),
       Write_u32 B (bounceNum d),
       Write_f32 B (bounceRestitution d),
       Write_bool B (groundCollisionOnly d),
       Write_bool B (stopBounceOnCreatures d),
       SetWriteOffset B (off + bytes_to_bits 0x3C),
       Write_vec3 B (planeDir d),
       SetWriteOffset B (off + bytes_to_bits 0x48),
       Write_f32 B (planeDirLinearParam d),
       Write_f32 B (upLinearParam d),
       Write_f32 B (upQuadraticParam d),
       SetWriteOffset B (off + bytes_to_bits 0x54)] s')"

definition cLobParams_layout :: "cLobParams \<Rightarrow> layout" where
  "cLobParams_layout d =
     [(0x18, bytes_vec3 (lobUpDir d)),
      (0x30, bytes_le 4 (bounceNum d)),
      (0x34, bytes_le 4 (bounceRestitution d)),
      (0x38, bytes_bool (groundCollisionOnly d)),
      (0x39, bytes_bool (stopBounceOnCreatures d)),
      (0x3C, bytes_vec3 (planeDir d)),
      (0x48, bytes_le 4 (planeDirLinearParam d)),
      (0x4C, bytes_le 4 (upLinearParam d)),
      (0x50, bytes_le 4 (upQuadraticParam d))]"

definition cLobParams_WriteReflection :: "'s bitstream \<Rightarrow> cLobParams \<Rightarrow> 's \<Rightarrow> 's" where
  "cLobParams_WriteReflection B d = reflect B 9
     (in_order [refl_write B 9 0 (Write_f32 B (planeDirLinearParam d)),
      refl_write B 9 1 (Write_f32 B (upLinearParam d)),
      refl_write B 9 2 (Write_f32 B (upQuadraticParam d)),
      refl_write B 9 3 (Write_vec3 B (lobUpDir d)),
      refl_write B 9 4 (Write_vec3 B (planeDir d)),
      refl_write B 9 5 (Write_u32 B (bounceNum d)),
      refl_write B 9 6 (Write_f32 B (bounceRestitution d)),
      refl_write B 9 7 (Write_bool B (groundCollisionOnly d)),
      refl_write B 9 8 (Write_bool B (stopBounceOnCreatures d))])"

definition cLobParams_fields :: "cLobParams \<Rightarrow> (nat \<times> bytes) list" where
  "cLobParams_fields d =
     [(0, bytes_le 4 (planeDirLinearParam d)),
      (1, bytes_le 4 (upLinearParam d)),
      (2, bytes_le 4 (upQuadraticParam d)),
      (3, bytes_vec3 (lobUpDir d)),
      (4, bytes_vec3 (planeDir d)),
      (5, bytes_le 4 (bounceNum d)),
      (6, bytes_le 4 (bounceRestitution d)),
      (7, bytes_bool (groundCollisionOnly d)),
      (8, bytes_bool (stopBounceOnCreatures d))]"

record cProjectileParams =
  mSpeed :: f32
  mAcceleration :: f32
  mJinkInfo :: u32
  mRange :: f32
  mSpinRate :: f32
  mDirection :: vec3
  mProjectileFlags :: u8
  mHomingDelay :: f32
  mTurnRate :: f32
  mTurnAcceleration :: f32
  mEccentricity :: f32
  mPiercing :: bool
  mIgnoreGroundCollide :: bool
  mIgnoreCreatureCollide :: bool
  mCombatantSweepHeight :: f32

definition cProjectileParams_WriteTo :: "'s bitstream \<Rightarrow> cProjectileParams \<Rightarrow> 's \<Rightarrow> 's" where
  "cProjectileParams_WriteTo B d s =
     (let (off, s') = ReallocateStream B (bytes_to_bits 0x3C) s in
      in_order [SetWriteOffset B off,
       Write_f32 B (mSpeed d),
       Write_f32 B (mAcceleration d),
       Write_u32 B (mJinkInfo d),
       Write_f32 B (mRange d),
       Write_f32 B (mSpinRate d),
       Write_vec3 B (mDirection d),
       Write_u8 B (mProjectileFlags d),
       SetWriteOffset B (off + bytes_to_bits 0x24),
       Write_f32 B (mHomingDelay d),
       Write_f32 B (mTurnRate d),
       Write_f32 B (mTurnAcceleration d),
       Write_bool B (mPiercing d),
       Write_bool B (mIgnoreGroundCollide d),
       Write_bool B (mIgnoreCreatureCollide d),
       SetWriteOffset B (off + bytes_to_bits 0x34),
       Write_f32 B (mEccentricity d),
       Write_f32 B (mCombatantSweepHeight d),
       SetWriteOffset B (off + bytes_to_bits 0x3C)] s')"

definition cProjectileParams_layout :: "cProjectileParams \<Rightarrow> layout" where
  "cProjectileParams_layout d =
     [(0x0, bytes_le 4 (mSpeed d)),
      (0x4, bytes_le 4 (mAcceleration d)),
      (0x8, bytes_le 4 (mJinkInfo d)),
      (0xC, bytes_le 4 (mRange d)),
      (0x10, bytes_le 4 (mSpinRate d)),
      (0x14, bytes_vec3 (mDirection d)),
      (0x20, [mProjectileFlags d]),
      (0x24, bytes_le 4 (mHomingDelay d)),
      (0x28, bytes_le 4 (mTurnRate d)),
      (0x2C, bytes_le 4 (mTurnAcceleration d)),
      (0x30, bytes_bool (mPiercing d)),
      (0x31, bytes_bool (mIgnoreGroundCollide d)),
      (0x32, bytes_bool (mIgnoreCreatureCollide d)),
      (0x34, bytes_le 4 (mEccentricity d)),
      (0x38, bytes_le 4 (mCombatantSweepHeight d))]"

definition cProjectileParams_WriteReflection :: "'s bitstream \<Rightarrow> cProjectileParams \<Rightarrow> 's \<Rightarrow> 's" where
  "cProjectileParams_WriteReflection B d = reflect B 15
     (in_order [refl_write B 15 0 (Write_f32 B (mSpeed d)),
      refl_write B 15 1 (Write_f32 B (mAcceleration d)),
      refl_write B 15 2 (Write_u32 B (mJinkInfo d)),
      refl_write B 15 3 (Write_f32 B (mRange d)),
      refl_write B 15 4 (Write_f32 B (mSpinRate d)),
      refl_write B 15 5 (Write_vec3 B (mDirection d)),
      refl_write B 15 6 (Write_u8 B (mProjectileFlags d)),
      refl_write B 15 7 (Write_f32 B (mHomingDelay d)),
      refl_write B 15 8 (Write_f32 B (mTurnRate d)),
      refl_write B 15 9 (Write_f32 B (mTurnAcceleration d)),
      refl_write B 15 10 (Write_f32 B (mEccentricity d)),
      refl_write B 15 11 (Write_bool B (mPiercing d)),
      refl_write B 15 12 (Write_bool B (mIgnoreGroundCollide d)),
      refl_write B 15 13 (Write_bool B (mIgnoreCreatureCollide d)),
      refl_write B 15 14 (Write_f32 B (mCombatantSweepHeight d))])"

definition cProjectileParams_fields :: "cProjectileParams \<Rightarrow> (nat \<times> bytes) list" where
  "cProjectileParams_fields d =
     [(0, bytes_le 4 (mSpeed d)),
      (1, bytes_le 4 (mAcceleration d)),
      (2, bytes_le 4 (mJinkInfo d)),
      (3, bytes_le 4 (mRange d)),
      (4, bytes_le 4 (mSpinRate d)),
      (5, bytes_vec3 (mDirection d)),
      (6, [mProjectileFlags d]),
      (7, bytes_le 4 (mHomingDelay d)),
      (8, bytes_le 4 (mTurnRate d)),
      (9, bytes_le 4 (mTurnAcceleration d)),
      (10, bytes_le 4 (mEccentricity d)),
      (11, bytes_bool (mPiercing d)),
      (12, bytes_bool (mIgnoreGroundCollide d)),
      (13, bytes_bool (mIgnoreCreatureCollide d)),
      (14, bytes_le 4 (mCombatantSweepHeight d))]"

record LocomotionData =
  lobStartTime :: u64
  lobPrevSpeedModifier :: f32
  lobParams :: cLobParams
  mProjectileParams :: cProjectileParams
  mGoalFlags :: u32
  mGoalPosition :: vec3
  mPartialGoalPosition :: vec3
  mFacing :: vec3
  mExternalLinearVelocity :: vec3
  mExternalForce :: vec3
  mAllowedStopDistance :: f32
  mDesiredStopDistance :: f32
  mTargetObjectId :: u32
  mTargetPosition :: vec3
  mExpectedGeoCollision :: vec3
  mInitialDirection :: vec3
  mOffset :: vec3
  reflectedLastUpdate :: u32

definition LocomotionData_WriteTo :: "'s bitstream \<Rightarrow> LocomotionData \<Rightarrow> 's \<Rightarrow> 's" where
  "LocomotionData_WriteTo B d s =
     (let (off, s') = ReallocateStream B (bytes_to_bits 0x290) s in
      in_order [SetWriteOffset B (off + bytes_to_bits 0x8),
       Write_u32 B (reflectedLastUpdate d),
       SetWriteOffset B (off + bytes_to_bits 0x44),
       cProjectileParams_WriteTo B (mProjectileParams d),
       SetWriteOffset B (off + bytes_to_bits 0x84),
       Write_vec3 B (mExpectedGeoCollision d),
       Write_u32 B (mTargetObjectId d),
       SetWriteOffset B (off + bytes_to_bits 0x9C),
       Write_vec3 B (mInitialDirection d),
       SetWriteOffset B (off + bytes_to_bits 0xD8),
       Write_u64 B (lobStartTime d),
       Write_f32 B (lobPrevSpeedModifier d),
       cLobParams_WriteTo B (lobParams d),
       SetWriteOffset B (off + bytes_to_bits 0x138),
       Write_vec3 B (mOffset d),
       Write_u32 B (mGoalFlags d),
       Write_vec3 B (mGoalPosition d),
       Write_vec3 B (mPartialGoalPosition d),
       SetWriteOffset B (off + bytes_to_bits 0x178),
       Write_vec3 B (mFacing d),
       Write_vec3 B (mExternalLinearVelocity d),
       Write_vec3 B (mExternalForce d),
       Write_f32 B (mAllowedStopDistance d),
       Write_f32 B (mDesiredStopDistance d),
       SetWriteOffset B (off + bytes_to_bits 0x1AC),
       Write_vec3 B (mTargetPosition d),
       SetWriteOffset B (off + bytes_to_bits 0x290)] s')"

definition LocomotionData_layout :: "LocomotionData \<Rightarrow> layout" where
  "LocomotionData_layout d =
     [(0x8, bytes_le 4 (reflectedLastUpdate d))] @
     shift 0x44 (cProjectileParams_layout (mProjectileParams d)) @
     [(0x84, bytes_vec3 (mExpectedGeoCollision d)),
      (0x90, bytes_le 4 (mTargetObjectId d)),
      (0x9C, bytes_vec3 (mInitialDirection d)),
      (0xD8, bytes_le 8 (lobStartTime d)),
      (0xE0, bytes_le 4 (lobPrevSpeedModifier d))] @
     shift 0xE4 (cLobParams_layout (lobParams d)) @
     [(0x138, bytes_vec3 (mOffset d)),
      (0x144, bytes_le 4 (mGoalFlags d)),
      (0x148, bytes_vec3 (mGoalPosition d)),
      (0x154, bytes_vec3 (mPartialGoalPosition d)),
      (0x178, bytes_vec3 (mFacing d)),
      (0x184, bytes_vec3 (mExternalLinearVelocity d)),
      (0x190, bytes_vec3 (mExternalForce d)),
      (0x19C, bytes_le 4 (mAllowedStopDistance d)),
      (0x1A0, bytes_le 4 (mDesiredStopDistance d)),
      (0x1AC, bytes_vec3 (mTargetPosition d))]"

definition LocomotionData_WriteReflection :: "'s bitstream \<Rightarrow> LocomotionData \<Rightarrow> 's \<Rightarrow> 's" where
  "LocomotionData_WriteReflection B d = reflect B 18
     (in_order [refl_write B 18 0 (Write_u64 B (lobStartTime d)),
      refl_write B 18 1 (Write_f32 B (lobPrevSpeedModifier d)),
      refl_write B 18 2 (cLobParams_WriteTo B (lobParams d)),
      refl_write B 18 3 (cProjectileParams_WriteTo B (mProjectileParams d)),
      refl_write B 18 4 (Write_u32 B (mGoalFlags d)),
      refl_write B 18 5 (Write_vec3 B (mGoalPosition d)),
      refl_write B 18 6 (Write_vec3 B (mPartialGoalPosition d)),
      refl_write B 18 7 (Write_vec3 B (mFacing d)),
      refl_write B 18 8 (Write_vec3 B (mExternalLinearVelocity d)),
      refl_write B 18 9 (Write_vec3 B (mExternalForce d)),
      refl_write B 18 10 (Write_f32 B (mAllowedStopDistance d)),
      refl_write B 18 11 (Write_f32 B (mDesiredStopDistance d)),
      refl_write B 18 12 (Write_u32 B (mTargetObjectId d)),
      refl_write B 18 13 (Write_vec3 B (mTargetPosition d)),
      refl_write B 18 14 (Write_vec3 B (mExpectedGeoCollision d)),
      refl_write B 18 15 (Write_vec3 B (mInitialDirection d)),
      refl_write B 18 16 (Write_vec3 B (mOffset d)),
      refl_write B 18 17 (Write_u32 B (reflectedLastUpdate d))])"

record cCombatantData =
  mHitPoints :: f32
  mManaPoints :: f32

definition cCombatantData_WriteTo :: "'s bitstream \<Rightarrow> cCombatantData \<Rightarrow> 's \<Rightarrow> 's" where
  "cCombatantData_WriteTo B d s =
     (let (off, s') = ReallocateStream B (bytes_to_bits 0x70) s in
      in_order [SetWriteOffset B (off + bytes_to_bits 0x40),
       Write_f32 B (mHitPoints d),
       Write_f32 B (mManaPoints d),
       SetWriteOffset B (off + bytes_to_bits 0x70)] s')"

definition cCombatantData_layout :: "cCombatantData \<Rightarrow> layout" where
  "cCombatantData_layout d =
     [(0x40, bytes_le 4 (mHitPoints d)),
      (0x44, bytes_le 4 (mManaPoints d))]"

definition cCombatantData_WriteReflection :: "'s bitstream \<Rightarrow> cCombatantData \<Rightarrow> 's \<Rightarrow> 's" where
  "cCombatantData_WriteReflection B d = reflect B 2
     (in_order [refl_write B 2 0 (Write_f32 B (mHitPoints d)),
      refl_write B 2 1 (Write_f32 B (mManaPoints d))])"

definition cCombatantData_fields :: "cCombatantData \<Rightarrow> (nat \<times> bytes) list" where
  "cCombatantData_fields d =
     [(0, bytes_le 4 (mHitPoints d)),
      (1, bytes_le 4 (mManaPoints d))]"

record cInteractableData =
  mNumTimesUsed :: u32
  mNumUsesAllowed :: u32
  mInteractableAbility :: u32

definition cInteractableData_WriteTo :: "'s bitstream \<Rightarrow> cInteractableData \<Rightarrow> 's \<Rightarrow> 's" where
  "cInteractableData_WriteTo B d s =
     (let (off, s') = ReallocateStream B (bytes_to_bits 0x34) s in
      in_order [SetWriteOffset B (off + bytes_to_bits 0x8),
       Write_u32 B (mNumTimesUsed d),
       Write_u32 B (mNumUsesAllowed d),
       SetWriteOffset B (off + bytes_to_bits 0x14),
       Write_u32 B (mInteractableAbility d),
       SetWriteOffset B (off + bytes_to_bits 0x34)] s')"

definition cInteractableData_layout :: "cInteractableData \<Rightarrow> layout" where
  "cInteractableData_layout d =
     [(0x8, bytes_le 4 (mNumTimesUsed d)),
      (0xC, bytes_le 4 (mNumUsesAllowed d)),
      (0x14, bytes_le 4 (mInteractableAbility d))]"

definition cInteractableData_WriteReflection :: "'s bitstream \<Rightarrow> cInteractableData \<Rightarrow> 's \<Rightarrow> 's" where
  "cInteractableData_WriteReflection B d = reflect B 3
     (in_order [refl_write B 3 0 (Write_u32 B (mNumTimesUsed d)),
      refl_write B 3 1 (Write_u32 B (mNumUsesAllowed d)),
      refl_write B 3 2 (Write_u32 B (mInteractableAbility d))])"

definition cInteractableData_fields :: "cInteractableData \<Rightarrow> (nat \<times> bytes) list" where
  "cInteractableData_fields d =
     [(0, bytes_le 4 (mNumTimesUsed d)),
      (1, bytes_le 4 (mNumUsesAllowed d)),
      (2, bytes_le 4 (mInteractableAbility d))]"

record cLootData =
  crystalLevel :: u32
  mId :: u64
  mRigblockAsset :: u32
  mSuffixAssetId :: u32
  mPrefixAssetId1 :: u32
  mPrefixAssetId2 :: u32
  mItemLevel :: u32
  mRarity :: u32
  mLootInstanceId :: u64
  mDNAAmount :: f32

definition cLootData_WriteTo :: "'s bitstream \<Rightarrow> cLootData \<Rightarrow> 's \<Rightarrow> 's" where
  "cLootData_WriteTo B d s =
     (let (off, s') = ReallocateStream B (bytes_to_bits 0x80) s in
      in_order [SetWriteOffset B (off + bytes_to_bits 0x8),
       Write_u32 B (crystalLevel d),
       SetWriteOffset B (off + bytes_to_bits 0x10),
       Write_u64 B (mId d),
       Write_u32 B (mRigblockAsset d),
       Write_u32 B (mSuffixAssetId d),
       Write_u32 B (mPrefixAssetId1 d),
       Write_u32 B (mPrefixAssetId2 d),
       Write_u32 B (mItemLevel d),
       Write_u32 B (mRarity d),
       SetWriteOffset B (off + bytes_to_bits 0x40),
       Write_u64 B (mLootInstanceId d),
       Write_f32 B (mDNAAmount d),
       SetWriteOffset B (off + bytes_to_bits 0x80)] s')"

definition cLootData_layout :: "cLootData \<Rightarrow> layout" where
  "cLootData_layout d =
     [(0x8, bytes_le 4 (crystalLevel d)),
      (0x10, bytes_le 8 (mId d)),
      (0x18, bytes_le 4 (mRigblockAsset d)),
      (0x1C, bytes_le 4 (mSuffixAssetId d)),
      (0x20, bytes_le 4 (mPrefixAssetId1 d)),
      (0x24, bytes_le 4 (mPrefixAssetId2 d)),
      (0x28, bytes_le 4 (mItemLevel d)),
      (0x2C, bytes_le 4 (mRarity d)),
      (0x40, bytes_le 8 (mLootInstanceId d)),
      (0x48, bytes_le 4 (mDNAAmount d))]"

definition cLootData_WriteReflection :: "'s bitstream \<Rightarrow> cLootData \<Rightarrow> 's \<Rightarrow> 's" where
  "cLootData_WriteReflection B d = reflect B 10
     (in_order [refl_write B 10 0 (Write_u32 B (crystalLevel d)),
      refl_write B 10 1 (Write_u64 B (mId d)),
      refl_write B 10 2 (Write_u32 B (mRigblockAsset d)),
      refl_write B 10 3 (Write_u32 B (mSuffixAssetId d)),
      refl_write B 10 4 (Write_u32 B (mPrefixAssetId1 d)),
      refl_write B 10 5 (Write_u32 B (mPrefixAssetId2 d)),
      refl_write B 10 6 (Write_u32 B (mItemLevel d)),
      refl_write B 10 7 (Write_u32 B (mRarity d)),
      refl_write B 10 8 (Write_u64 B (mLootInstanceId d)),
      refl_write B 10 9 (Write_f32 B (mDNAAmount d))])"

definition cLootData_fields :: "cLootData \<Rightarrow> (nat \<times> bytes) list" where
  "cLootData_fields d =
     [(0, bytes_le 4 (crystalLevel d)),
      (1, bytes_le 8 (mId d)),
      (2, bytes_le 4 (mRigblockAsset d)),
      (3, bytes_le 4 (mSuffixAssetId d)),
      (4, bytes_le 4 (mPrefixAssetId1 d)),
      (5, bytes_le 4 (mPrefixAssetId2 d)),
      (6, bytes_le 4 (mItemLevel d)),
      (7, bytes_le 4 (mRarity d)),
      (8, bytes_le 8 (mLootInstanceId d)),
      (9, bytes_le 4 (mDNAAmount d))]"

record GravityForce =
  gf_radius :: f32
  gf_force :: f32
  forceForMover :: f32

definition GravityForce_WriteTo :: "'s bitstream \<Rightarrow> GravityForce \<Rightarrow> 's \<Rightarrow> 's" where
  "GravityForce_WriteTo B d s =
     (let (off, s') = ReallocateStream B (bytes_to_bits 0x20) s in
      in_order [SetWriteOffset B (off + bytes_to_bits 0x8),
       Write_f32 B (gf_radius d),
       Write_f32 B (gf_force d),
       Write_f32 B (forceForMover d),
       SetWriteOffset B (off + bytes_to_bits 0x20)] s')"

definition GravityForce_layout :: "GravityForce \<Rightarrow> layout" where
  "GravityForce_layout d =
     [(0x8, bytes_le 4 (gf_radius d)),
      (0xC, bytes_le 4 (gf_force d)),
      (0x10, bytes_le 4 (forceForMover d))]"

definition GravityForce_WriteReflection :: "'s bitstream \<Rightarrow> GravityForce \<Rightarrow> 's \<Rightarrow> 's" where
  "GravityForce_WriteReflection B d = reflect B 3
     (in_order [refl_write B 3 0 (Write_f32 B (gf_radius d)),
      refl_write B 3 1 (Write_f32 B (gf_force d)),
      refl_write B 3 2 (Write_f32 B (forceForMover d))])"

definition GravityForce_fields :: "GravityForce \<Rightarrow> (nat \<times> bytes) list" where
  "GravityForce_fields d =
     [(0, bytes_le 4 (gf_radius d)),
      (1, bytes_le 4 (gf_force d)),
      (2, bytes_le 4 (forceForMover d))]"

record CombatEvent =
  ce_flags :: u32
  deltaHealth :: f32
  absorbedAmount :: f32
  targetID :: u32
  sourceID :: u32
  abilityID :: u32
  damageDirection :: vec3
  integerHpChange :: u32

definition CombatEvent_WriteTo :: "'s bitstream \<Rightarrow> CombatEvent \<Rightarrow> 's \<Rightarrow> 's" where
  "CombatEvent_WriteTo B d s =
     (let (off, s') = ReallocateStream B (bytes_to_bits 0x28) s in
      in_order [SetWriteOffset B off,
       Write_u32 B (ce_flags d),
       SetWriteOffset B (off + bytes_to_bits 0x4),
       Write_f32 B (deltaHealth d),
       Write_f32 B (absorbedAmount d),
       Write_u32 B (targetID d),
       Write_u32 B (sourceID d),
       Write_u32 B (abilityID d),
       Write_vec3 B (damageDirection d),
       SetWriteOffset B (off + bytes_to_bits 0x24),
       Write_u32 B (integerHpChange d),
       SetWriteOffset B (off + bytes_to_bits 0x28)] s')"

definition CombatEvent_layout :: "CombatEvent \<Rightarrow> layout" where
  "CombatEvent_layout d =
     [(0x0, bytes_le 4 (ce_flags d)),
      (0x4, bytes_le 4 (deltaHealth d)),
      (0x8, bytes_le 4 (absorbedAmount d)),
      (0xC, bytes_le 4 (targetID d)),
      (0x10, bytes_le 4 (sourceID d)),
      (0x14, bytes_le 4 (abilityID d)),
      (0x18, bytes_vec3 (damageDirection d)),
      (0x24, bytes_le 4 (integerHpChange d))]"

definition CombatEvent_WriteReflection :: "'s bitstream \<Rightarrow> CombatEvent \<Rightarrow> 's \<Rightarrow> 's" where
  "CombatEvent_WriteReflection B d = reflect B 8
     (in_order [refl_write B 8 0 (Write_u32 B (ce_flags d)),
      refl_write B 8 1 (Write_f32 B (deltaHealth d)),
      refl_write B 8 2 (Write_f32 B (absorbedAmount d)),
      refl_write B 8 3 (Write_u32 B (targetID d)),
      refl_write B 8 4 (Write_u32 B (sourceID d)),
      refl_write B 8 5 (Write_u32 B (abilityID d)),
      refl_write B 8 6 (Write_vec3 B (damageDirection d)),
      refl_write B 8 7 (Write_u32 B (integerHpChange d))])"

definition CombatEvent_fields :: "CombatEvent \<Rightarrow> (nat \<times> bytes) list" where
  "CombatEvent_fields d =
     [(0, bytes_le 4 (ce_flags d)),
      (1, bytes_le 4 (deltaHealth d)),
      (2, bytes_le 4 (absorbedAmount d)),
      (3, bytes_le 4 (targetID d)),
      (4, bytes_le 4 (sourceID d)),
      (5, bytes_le 4 (abilityID d)),
      (6, bytes_vec3 (damageDirection d)),
      (7, bytes_le 4 (integerHpChange d))]"

record DifficultyTuning =
  HealthPercentIncrease :: "f32 \<times> f32"
  DamagePercentIncrease :: "f32 \<times> f32"
  ItemLevelRange :: "f32 \<times> f32"
  RatingConversion :: "f32 \<times> f32"
  ExpectedAvatarLevel :: "u32 \<times> u32"
  GearScoreRange :: vec2
  GearScoreMax :: vec2
  StarModeHealthMult :: f32
  StarModeDamageMult :: f32
  StarModeEliteChanceAdd :: f32
  StarModeSuggestedLevelAdd :: f32

definition DifficultyTuning_WriteTo :: "'s bitstream \<Rightarrow> DifficultyTuning \<Rightarrow> 's \<Rightarrow> 's" where
  "DifficultyTuning_WriteTo B d s =
     (let (off, s') = ReallocateStream B (bytes_to_bits 0x48) s in
      in_order [SetWriteOffset B (off + bytes_to_bits 0x0),
       Write_f32 B (fst (HealthPercentIncrease d)),
       Write_f32 B (snd (HealthPercentIncrease d)),
       Write_f32 B (fst (DamagePercentIncrease d)),
       Write_f32 B (snd (DamagePercentIncrease d)),
       Write_f32 B (fst (ItemLevelRange d)),
       Write_f32 B (snd (ItemLevelRange d)),
       Write_vec2 B (GearScoreRange d),
       Write_vec2 B (GearScoreMax d),
       Write_u32 B (fst (ExpectedAvatarLevel d)),
       Write_u32 B (snd (ExpectedAvatarLevel d)),
       Write_f32 B (fst (RatingConversion d)),
       Write_f32 B (snd (RatingConversion d)),
       Write_f32 B (StarModeHealthMult d),
       Write_f32 B (StarModeDamageMult d),
       Write_f32 B (StarModeEliteChanceAdd d),
       Write_f32 B (StarModeSuggestedLevelAdd d),
       SetWriteOffset B (off + bytes_to_bits 0x48)] s')"

definition DifficultyTuning_layout :: "DifficultyTuning \<Rightarrow> layout" where
  "DifficultyTuning_layout d =
     [(0x0, bytes_le 4 (fst (HealthPercentIncrease d))),
      (0x4, bytes_le 4 (snd (HealthPercentIncrease d))),
      (0x8, bytes_le 4 (fst (DamagePercentIncrease d))),
      (0xC, bytes_le 4 (snd (DamagePercentIncrease d))),
      (0x10, bytes_le 4 (fst (ItemLevelRange d))),
      (0x14, bytes_le 4 (snd (ItemLevelRange d))),
      (0x18, bytes_vec2 (GearScoreRange d)),
      (0x20, bytes_vec2 (GearScoreMax d)),
      (0x28, bytes_le 4 (fst (ExpectedAvatarLevel d))),
      (0x2C, bytes_le 4 (snd (ExpectedAvatarLevel d))),
      (0x30, bytes_le 4 (fst (RatingConversion d))),
      (0x34, bytes_le 4 (snd (RatingConversion d))),
      (0x38, bytes_le 4 (StarModeHealthMult d)),
      (0x3C, bytes_le 4 (StarModeDamageMult d)),
      (0x40, bytes_le 4 (StarModeEliteChanceAdd d)),
      (0x44, bytes_le 4 (StarModeSuggestedLevelAdd d))]"

definition DifficultyTuning_WriteReflection :: "'s bitstream \<Rightarrow> DifficultyTuning \<Rightarrow> 's \<Rightarrow> 's" where
  "DifficultyTuning_WriteReflection B d = reflect B 11
     (in_order [refl_write B 11 0 (in_order [Write_f32 B (fst (HealthPercentIncrease d)), Write_f32 B (snd (HealthPercentIncrease d))]),
      refl_write B 11 1 (in_order [Write_f32 B (fst (DamagePercentIncrease d)), Write_f32 B (snd (DamagePercentIncrease d))]),
      refl_write B 11 2 (in_order [Write_f32 B (fst (ItemLevelRange d)), Write_f32 B (snd (ItemLevelRange d))]),
      refl_write B 11 3 (Write_vec2 B (GearScoreRange d)),
      refl_write B 11 4 (Write_vec2 B (GearScoreMax d)),
      refl_write B 11 5 (in_order [Write_u32 B (fst (ExpectedAvatarLevel d)), Write_u32 B (snd (ExpectedAvatarLevel d))]),
      refl_write B 11 6 (in_order [Write_f32 B (fst (RatingConversion d)), Write_f32 B (snd (RatingConversion d))]),
      refl_write B 11 7 (Write_f32 B (StarModeHealthMult d)),
      refl_write B 11 8 (Write_f32 B (StarModeDamageMult d)),
      refl_write B 11 9 (Write_f32 B (StarModeEliteChanceAdd d)),
      refl_write B 11 10 (Write_f32 B (StarModeSuggestedLevelAdd d))])"

definition DifficultyTuning_fields :: "DifficultyTuning \<Rightarrow> (nat \<times> bytes) list" where
  "DifficultyTuning_fields d =
     [(0, bytes_le 4 (fst (HealthPercentIncrease d)) @ bytes_le 4 (snd (HealthPercentIncrease d))),
      (1, bytes_le 4 (fst (DamagePercentIncrease d)) @ bytes_le 4 (snd (DamagePercentIncrease d))),
      (2, bytes_le 4 (fst (ItemLevelRange d)) @ bytes_le 4 (snd (ItemLevelRange d))),
      (3, bytes_vec2 (GearScoreRange d)),
      (4, bytes_vec2 (GearScoreMax d)),
      (5, bytes_le 4 (fst (ExpectedAvatarLevel d)) @ bytes_le 4 (snd (ExpectedAvatarLevel d))),
      (6, bytes_le 4 (fst (RatingConversion d)) @ bytes_le 4 (snd (RatingConversion d))),
      (7, bytes_le 4 (StarModeHealthMult d)),
      (8, bytes_le 4 (StarModeDamageMult d)),
      (9, bytes_le 4 (StarModeEliteChanceAdd d)),
      (10, bytes_le 4 (StarModeSuggestedLevelAdd d))]"

record PlanetData =
  pd_kills :: u32
  pd_unk :: u32
  damageDealt :: f32
  damageTaken :: f32
  healingDone :: f32
  healingReceived :: f32
  playerIndex :: u8

definition PlanetData_WriteTo :: "'s bitstream \<Rightarrow> PlanetData \<Rightarrow> 's \<Rightarrow> 's" where
  "PlanetData_WriteTo B d s =
     (let (off, s') = ReallocateStream B (bytes_to_bits 0x19) s in
      in_order [SetWriteOffset B (off + bytes_to_bits 0x0),
       Write_u32 B (pd_kills d),
       Write_u32 B (pd_unk d),
       Write_f32 B (damageDealt d),
       Write_f32 B (damageTaken d),
       Write_f32 B (healingDone d),
       Write_f32 B (healingReceived d),
       Write_u8 B (playerIndex d),
       SetWriteOffset B (off + bytes_to_bits 0x19)] s')"

definition PlanetData_layout :: "PlanetData \<Rightarrow> layout" where
  "PlanetData_layout d =
     [(0x0, bytes_le 4 (pd_kills d)),
      (0x4, bytes_le 4 (pd_unk d)),
      (0x8, bytes_le 4 (damageDealt d)),
      (0xC, bytes_le 4 (damageTaken d)),
      (0x10, bytes_le 4 (healingDone d)),
      (0x14, bytes_le 4 (healingReceived d)),
      (0x18, [playerIndex d])]"

subsection \<open>The writers produce the layouts\<close>

lemma cAIDirector_lays_out:
  assumes "bitstream_laws B"
  shows "lays_out B (cAIDirector_WriteTo B d) 0x4D0 (cAIDirector_layout d)"
  apply (rule lays_outI [OF assms cAIDirector_WriteTo_def])
  apply (rule seg_conv)
    apply (rule seg_in_order seg_seek [OF assms] seg_seek_start [OF assms] seg_fields [OF assms])+
   apply (simp_all add: cAIDirector_layout_def)
  done

lemma cAIDirector_tight: "tight 0x4D0 (cAIDirector_layout d)"
  by (simp add: cAIDirector_layout_def bytes_simps)

lemma cAIDirector_reflects:
  assumes "bitstream_laws B"
  shows "puts B (cAIDirector_WriteReflection B d) (reflection_bytes 7 (cAIDirector_fields d))"
proof -
  have "cAIDirector_WriteReflection B d = reflect B 7 (refl_fields B 7
     [(0, (Write_bool B (mbBossSpawned d))),
      (1, (Write_bool B (mbBossHorde d))),
      (2, (Write_bool B (mbCaptainSpawned d))),
      (3, (Write_bool B (mbBossComplete d))),
      (4, (Write_bool B (mbHordeSpawned d))),
      (5, (Write_u32 B (mBossId d))),
      (6, (Write_u32 B (mActiveHordeWaves d)))])"
    by (simp add: cAIDirector_WriteReflection_def refl_fields_def)
  then show ?thesis
    by (simp only:) (rule reflect_fields_puts [OF assms],
      simp add: cAIDirector_fields_def puts_Write [OF assms] puts_fields [OF assms] puts_pair)
qed

lemma labsCrystal_lays_out:
  assumes "bitstream_laws B"
  shows "lays_out B (labsCrystal_WriteTo B d) 0x10 (labsCrystal_layout d)"
  apply (rule lays_out_seg)
  apply (unfold labsCrystal_WriteTo_def)
  apply (rule seg_conv)
    apply (rule seg_in_order seg_fields [OF assms])+
   apply (simp_all add: labsCrystal_layout_def)
  done

lemma labsCrystal_tight: "tight 0x10 (labsCrystal_layout d)"
  by (simp add: labsCrystal_layout_def bytes_simps)

lemma labsCrystal_reflects:
  assumes "bitstream_laws B"
  shows "puts B (labsCrystal_WriteReflection B d) (reflection_bytes 2 (labsCrystal_fields d))"
proof -
  have "labsCrystal_WriteReflection B d = reflect B 2 (refl_fields B 2
     [(0, (Write_u32 B (crystalNoun d))),
      (1, (Write_u16 B (lc_level d)))])"
    by (simp add: labsCrystal_WriteReflection_def refl_fields_def)
  then show ?thesis
    by (simp only:) (rule reflect_fields_puts [OF assms],
      simp add: labsCrystal_fields_def puts_Write [OF assms] puts_fields [OF assms] puts_pair)
qed

lemma cGameObjectCreateData_lays_out:
  assumes "bitstream_laws B"
  shows "lays_out B (cGameObjectCreateData_WriteTo B d) 0x70 (cGameObjectCreateData_layout d)"
  apply (rule lays_outI [OF assms cGameObjectCreateData_WriteTo_def])
  apply (rule seg_conv)
    apply (rule seg_in_order seg_seek [OF assms] seg_seek_start [OF assms] seg_fields [OF assms])+
   apply (simp_all add: cGameObjectCreateData_layout_def)
  done

lemma cGameObjectCreateData_tight: "tight 0x70 (cGameObjectCreateData_layout d)"
  by (simp add: cGameObjectCreateData_layout_def bytes_simps)

lemma cGameObjectCreateData_reflects:
  assumes "bitstream_laws B"
  shows "puts B (cGameObjectCreateData_WriteReflection B d) (reflection_bytes 10 (cGameObjectCreateData_fields d))"
proof -
  have "cGameObjectCreateData_WriteReflection B d = reflect B 10 (refl_fields B 10
     [(0, (Write_u32 B (goc_noun d))),
      (1, (Write_vec3 B (goc_position d))),
      (2, (Write_f32 B (rotXDegrees d))),
      (3, (Write_f32 B (rotYDegrees d))),
      (4, (Write_f32 B (rotZDegrees d))),
      (5, (Write_u64 B (assetId d))),
      (6, (Write_f32 B (goc_scale d))),
      (7, (Write_u8 B (goc_team d))),
      (8, (Write_bool B (hasCollision d))),
      (9, (Write_bool B (playerControlled d)))])"
    by (simp add: cGameObjectCreateData_WriteReflection_def refl_fields_def)
  then show ?thesis
    by (simp only:) (rule reflect_fields_puts [OF assms],
      simp add: cGameObjectCreateData_fields_def puts_Write [OF assms] puts_fields [OF assms] puts_pair)
qed

lemma sporelabsObject_lays_out:
  assumes "bitstream_laws B"
  shows "lays_out B (sporelabsObject_WriteTo B d) 0x308 (sporelabsObject_layout d)"
  apply (rule lays_outI [OF assms sporelabsObject_WriteTo_def])
  apply (rule seg_conv)
    apply (rule seg_in_order seg_seek [OF assms] seg_seek_start [OF assms] seg_fields [OF assms])+
   apply (simp_all add: sporelabsObject_layout_def)
  done

lemma sporelabsObject_tight: "tight 0x308 (sporelabsObject_layout d)"
  by (simp add: sporelabsObject_layout_def bytes_simps)

lemma sporelabsObject_reflects:
  assumes "bitstream_laws B"
  shows "puts B (sporelabsObject_WriteReflection B d) (reflection_bytes 23 (sporelabsObject_fields d))"
proof -
  have "sporelabsObject_WriteReflection B d = reflect B 23 (refl_fields B 23
     [(0, (Write_u8 B (mTeam d))),
      (1, (Write_bool B (mbPlayerControlled d))),
      (2, (Write_u32 B (mInputSyncStamp d))),
      (3, (Write_u8 B (mPlayerIdx d))),
      (4, (Write_vec3 B (mLinearVelocity d))),
      (5, (Write_vec3 B (mAngularVelocity d))),
      (6, (Write_vec3 B (mPosition d))),
      (7, (Write_quat B (mOrientation d))),
      (8, (Write_f32 B (mScale d))),
      (9, (Write_f32 B (mMarkerScale d))),
      (10, (Write_u32 B (mLastAnimationState d))),
      (11, (Write_u64 B (mLastAnimationPlayTimeMs d))),
      (12, (Write_u32 B (mOverrideMoveIdleAnimationState d))),
      (13, (Write_u32 B (mGraphicsState d))),
      (14, (Write_u64 B (mGraphicsStateStartTimeMs d))),
      (15, (Write_u64 B (mNewGraphicsStateStartTimeMs d))),
      (16, (Write_bool B (mVisible d))),
      (17, (Write_bool B (mbHasCollision d))),
      (18, (Write_u32 B (mOwnerID d))),
      (19, (Write_u8 B (mMovementType d))),
      (20, (Write_bool B (mDisableRepulsion d))),
      (21, (Write_u32 B (mInteractableState d))),
      (22, (Write_u32 B (sourceMarkerKey_markerId d)))])"
    by (simp add: sporelabsObject_WriteReflection_def refl_fields_def)
  then show ?thesis
    by (simp only:) (rule reflect_fields_puts [OF assms],
      simp add: sporelabsObject_fields_def puts_Write [OF assms] puts_fields [OF assms] puts_pair)
qed

lemma cAgentBlackboard_lays_out:
  assumes "bitstream_laws B"
  shows "lays_out B (cAgentBlackboard_WriteTo B d) 0x598 (cAgentBlackboard_layout d)"
  apply (rule lays_outI [OF assms cAgentBlackboard_WriteTo_def])
  apply (rule seg_conv)
    apply (rule seg_in_order seg_seek [OF assms] seg_seek_start [OF assms] seg_fields [OF assms])+
   apply (simp_all add: cAgentBlackboard_layout_def)
  done

lemma cAgentBlackboard_tight: "tight 0x598 (cAgentBlackboard_layout d)"
  by (simp add: cAgentBlackboard_layout_def bytes_simps)

lemma cAgentBlackboard_reflects:
  assumes "bitstream_laws B"
  shows "puts B (cAgentBlackboard_WriteReflection B d) (reflection_bytes 5 (cAgentBlackboard_fields d))"
proof -
  have "cAgentBlackboard_WriteReflection B d = reflect B 5 (refl_fields B 5
     [(0, (Write_u32 B (targetId d))),
      (1, (Write_bool B (mbInCombat d))),
      (2, (Write_u8 B (mStealthType d))),
      (3, (Write_bool B (mbTargetable d))),
      (4, (Write_u32 B (mNumAttackers d)))])"
    by (simp add: cAgentBlackboard_WriteReflection_def refl_fields_def)
  then show ?thesis
    by (simp only:) (rule reflect_fields_puts [OF assms],
      simp add: cAgentBlackboard_fields_def puts_Write [OF assms] puts_fields [OF assms] puts_pair)
qed

lemma cLobParams_lays_out:
  assumes "bitstream_laws B"
  shows "lays_out B (cLobParams_WriteTo B d) 0x54 (cLobParams_layout d)"
  apply (rule lays_outI [OF assms cLobParams_WriteTo_def])
  apply (rule seg_conv)
    apply (rule seg_in_order seg_seek [OF assms] seg_seek_start [OF assms] seg_fields [OF assms])+
   apply (simp_all add: cLobParams_layout_def)
  done

lemma cLobParams_tight: "tight 0x54 (cLobParams_layout d)"
  by (simp add: cLobParams_layout_def bytes_simps)

lemma cLobParams_reflects:
  assumes "bitstream_laws B"
  shows "puts B (cLobParams_WriteReflection B d) (reflection_bytes 9 (cLobParams_fields d))"
proof -
  have "cLobParams_WriteReflection B d = reflect B 9 (refl_fields B 9
     [(0, (Write_f32 B (planeDirLinearParam d))),
      (1, (Write_f32 B (upLinearParam d))),
      (2, (Write_f32 B (upQuadraticParam d))),
      (3, (Write_vec3 B (lobUpDir d))),
      (4, (Write_vec3 B (planeDir d))),
      (5, (Write_u32 B (bounceNum d))),
      (6, (Write_f32 B (bounceRestitution d))),
      (7, (Write_bool B (groundCollisionOnly d))),
      (8, (Write_bool B (stopBounceOnCreatures d)))])"
    by (simp add: cLobParams_WriteReflection_def refl_fields_def)
  then show ?thesis
    by (simp only:) (rule reflect_fields_puts [OF assms],
      simp add: cLobParams_fields_def puts_Write [OF assms] puts_fields [OF assms] puts_pair)
qed

lemma cProjectileParams_lays_out:
  assumes "bitstream_laws B"
  shows "lays_out B (cProjectileParams_WriteTo B d) 0x3C (cProjectileParams_layout d)"
  apply (rule lays_outI [OF assms cProjectileParams_WriteTo_def])
  apply (rule seg_conv)
    apply (rule seg_in_order seg_seek [OF assms] seg_seek_start [OF assms] seg_fields [OF assms])+
   apply (simp_all add: cProjectileParams_layout_def)
  done

lemma cProjectileParams_tight: "tight 0x3C (cProjectileParams_layout d)"
  by (simp add: cProjectileParams_layout_def bytes_simps)

lemma cProjectileParams_reflects:
  assumes "bitstream_laws B"
  shows "puts B (cProjectileParams_WriteReflection B d) (reflection_bytes 15 (cProjectileParams_fields d))"
proof -
  have "cProjectileParams_WriteReflection B d = reflect B 15 (refl_fields B 15
     [(0, (Write_f32 B (mSpeed d))),
      (1, (Write_f32 B (mAcceleration d))),
      (2, (Write_u32 B (mJinkInfo d))),
      (3, (Write_f32 B (mRange d))),
      (4, (Write_f32 B (mSpinRate d))),
      (5, (Write_vec3 B (mDirection d))),
      (6, (Write_u8 B (mProjectileFlags d))),
      (7, (Write_f32 B (mHomingDelay d))),
      (8, (Write_f32 B (mTurnRate d))),
      (9, (Write_f32 B (mTurnAcceleration d))),
      (10, (Write_f32 B (mEccentricity d))),
      (11, (Write_bool B (mPiercing d))),
      (12, (Write_bool B (mIgnoreGroundCollide d))),
      (13, (Write_bool B (mIgnoreCreatureCollide d))),
      (14, (Write_f32 B (mCombatantSweepHeight d)))])"
    by (simp add: cProjectileParams_WriteReflection_def refl_fields_def)
  then show ?thesis
    by (simp only:) (rule reflect_fields_puts [OF assms],
      simp add: cProjectileParams_fields_def puts_Write [OF assms] puts_fields [OF assms] puts_pair)
qed

lemma LocomotionData_lays_out:
  assumes "bitstream_laws B"
  shows "lays_out B (LocomotionData_WriteTo B d) 0x290 (LocomotionData_layout d)"
  apply (rule lays_outI [OF assms LocomotionData_WriteTo_def])
  apply (rule seg_conv)
    apply (rule seg_in_order seg_seek [OF assms] seg_seek_start [OF assms] seg_fields [OF assms]
      seg_nested [OF cProjectileParams_lays_out [OF assms]]
      seg_nested [OF cLobParams_lays_out [OF assms]])+
   apply (simp_all add: LocomotionData_layout_def)
  done

lemma LocomotionData_tight: "tight 0x290 (LocomotionData_layout d)"
  by (simp add: LocomotionData_layout_def bytes_simps cProjectileParams_layout_def cLobParams_layout_def)

lemma cCombatantData_lays_out:
  assumes "bitstream_laws B"
  shows "lays_out B (cCombatantData_WriteTo B d) 0x70 (cCombatantData_layout d)"
  apply (rule lays_outI [OF assms cCombatantData_WriteTo_def])
  apply (rule seg_conv)
    apply (rule seg_in_order seg_seek [OF assms] seg_seek_start [OF assms] seg_fields [OF assms])+
   apply (simp_all add: cCombatantData_layout_def)
  done

lemma cCombatantData_tight: "tight 0x70 (cCombatantData_layout d)"
  by (simp add: cCombatantData_layout_def bytes_simps)

lemma cCombatantData_reflects:
  assumes "bitstream_laws B"
  shows "puts B (cCombatantData_WriteReflection B d) (reflection_bytes 2 (cCombatantData_fields d))"
proof -
  have "cCombatantData_WriteReflection B d = reflect B 2 (refl_fields B 2
     [(0, (Write_f32 B (mHitPoints d))),
      (1, (Write_f32 B (mManaPoints d)))])"
    by (simp add: cCombatantData_WriteReflection_def refl_fields_def)
  then show ?thesis
    by (simp only:) (rule reflect_fields_puts [OF assms],
      simp add: cCombatantData_fields_def puts_Write [OF assms] puts_fields [OF assms] puts_pair)
qed

lemma cInteractableData_lays_out:
  assumes "bitstream_laws B"
  shows "lays_out B (cInteractableData_WriteTo B d) 0x34 (cInteractableData_layout d)"
  apply (rule lays_outI [OF assms cInteractableData_WriteTo_def])
  apply (rule seg_conv)
    apply (rule seg_in_order seg_seek [OF assms] seg_seek_start [OF assms] seg_fields [OF assms])+
   apply (simp_all add: cInteractableData_layout_def)
  done

lemma cInteractableData_tight: "tight 0x34 (cInteractableData_layout d)"
  by (simp add: cInteractableData_layout_def bytes_simps)

lemma cInteractableData_reflects:
  assumes "bitstream_laws B"
  shows "puts B (cInteractableData_WriteReflection B d) (reflection_bytes 3 (cInteractableData_fields d))"
proof -
  have "cInteractableData_WriteReflection B d = reflect B 3 (refl_fields B 3
     [(0, (Write_u32 B (mNumTimesUsed d))),
      (1, (Write_u32 B (mNumUsesAllowed d))),
      (2, (Write_u32 B (mInteractableAbility d)))])"
    by (simp add: cInteractableData_WriteReflection_def refl_fields_def)
  then show ?thesis
    by (simp only:) (rule reflect_fields_puts [OF assms],
      simp add: cInteractableData_fields_def puts_Write [OF assms] puts_fields [OF assms] puts_pair)
qed

lemma cLootData_lays_out:
  assumes "bitstream_laws B"
  shows "lays_out B (cLootData_WriteTo B d) 0x80 (cLootData_layout d)"
  apply (rule lays_outI [OF assms cLootData_WriteTo_def])
  apply (rule seg_conv)
    apply (rule seg_in_order seg_seek [OF assms] seg_seek_start [OF assms] seg_fields [OF assms])+
   apply (simp_all add: cLootData_layout_def)
  done

lemma cLootData_tight: "tight 0x80 (cLootData_layout d)"
  by (simp add: cLootData_layout_def bytes_simps)

lemma cLootData_reflects:
  assumes "bitstream_laws B"
  shows "puts B (cLootData_WriteReflection B d) (reflection_bytes 10 (cLootData_fields d))"
proof -
  have "cLootData_WriteReflection B d = reflect B 10 (refl_fields B 10
     [(0, (Write_u32 B (crystalLevel d))),
      (1, (Write_u64 B (mId d))),
      (2, (Write_u32 B (mRigblockAsset d))),
      (3, (Write_u32 B (mSuffixAssetId d))),
      (4, (Write_u32 B (mPrefixAssetId1 d))),
      (5, (Write_u32 B (mPrefixAssetId2 d))),
      (6, (Write_u32 B (mItemLevel d))),
      (7, (Write_u32 B (mRarity d))),
      (8, (Write_u64 B (mLootInstanceId d))),
      (9, (Write_f32 B (mDNAAmount d)))])"
    by (simp add: cLootData_WriteReflection_def refl_fields_def)
  then show ?thesis
    by (simp only:) (rule reflect_fields_puts [OF assms],
      simp add: cLootData_fields_def puts_Write [OF assms] puts_fields [OF assms] puts_pair)
qed

lemma GravityForce_lays_out:
  assumes "bitstream_laws B"
  shows "lays_out B (GravityForce_WriteTo B d) 0x20 (GravityForce_layout d)"
  apply (rule lays_outI [OF assms GravityForce_WriteTo_def])
  apply (rule seg_conv)
    apply (rule seg_in_order seg_seek [OF assms] seg_seek_start [OF assms] seg_fields [OF assms])+
   apply (simp_all add: GravityForce_layout_def)
  done

lemma GravityForce_tight: "tight 0x20 (GravityForce_layout d)"
  by (simp add: GravityForce_layout_def bytes_simps)

lemma GravityForce_reflects:
  assumes "bitstream_laws B"
  shows "puts B (GravityForce_WriteReflection B d) (reflection_bytes 3 (GravityForce_fields d))"
proof -
  have "GravityForce_WriteReflection B d = reflect B 3 (refl_fields B 3
     [(0, (Write_f32 B (gf_radius d))),
      (1, (Write_f32 B (gf_force d))),
      (2, (Write_f32 B (forceForMover d)))])"
    by (simp add: GravityForce_WriteReflection_def refl_fields_def)
  then show ?thesis
    by (simp only:) (rule reflect_fields_puts [OF assms],
      simp add: GravityForce_fields_def puts_Write [OF assms] puts_fields [OF assms] puts_pair)
qed

lemma CombatEvent_lays_out:
  assumes "bitstream_laws B"
  shows "lays_out B (CombatEvent_WriteTo B d) 0x28 (CombatEvent_layout d)"
  apply (rule lays_outI [OF assms CombatEvent_WriteTo_def])
  apply (rule seg_conv)
    apply (rule seg_in_order seg_seek [OF assms] seg_seek_start [OF assms] seg_fields [OF assms])+
   apply (simp_all add: CombatEvent_layout_def)
  done

lemma CombatEvent_tight: "tight 0x28 (CombatEvent_layout d)"
  by (simp add: CombatEvent_layout_def bytes_simps)

lemma CombatEvent_reflects:
  assumes "bitstream_laws B"
  shows "puts B (CombatEvent_WriteReflection B d) (reflection_bytes 8 (CombatEvent_fields d))"
proof -
  have "CombatEvent_WriteReflection B d = reflect B 8 (refl_fields B 8
     [(0, (Write_u32 B (ce_flags d))),
      (1, (Write_f32 B (deltaHealth d))),
      (2, (Write_f32 B (absorbedAmount d))),
      (3, (Write_u32 B (targetID d))),
      (4, (Write_u32 B (sourceID d))),
      (5, (Write_u32 B (abilityID d))),
      (6, (Write_vec3 B (damageDirection d))),
      (7, (Write_u32 B (integerHpChange d)))])"
    by (simp add: CombatEvent_WriteReflection_def refl_fields_def)
  then show ?thesis
    by (simp only:) (rule reflect_fields_puts [OF assms],
      simp add: CombatEvent_fields_def puts_Write [OF assms] puts_fields [OF assms] puts_pair)
qed

lemma DifficultyTuning_lays_out:
  assumes "bitstream_laws B"
  shows "lays_out B (DifficultyTuning_WriteTo B d) 0x48 (DifficultyTuning_layout d)"
  apply (rule lays_outI [OF assms DifficultyTuning_WriteTo_def])
  apply (rule seg_conv)
    apply (rule seg_in_order seg_seek [OF assms] seg_seek_start [OF assms] seg_fields [OF assms])+
   apply (simp_all add: DifficultyTuning_layout_def)
  done

lemma DifficultyTuning_tight: "tight 0x48 (DifficultyTuning_layout d)"
  by (simp add: DifficultyTuning_layout_def bytes_simps)

lemma DifficultyTuning_reflects:
  assumes "bitstream_laws B"
  shows "puts B (DifficultyTuning_WriteReflection B d) (reflection_bytes 11 (DifficultyTuning_fields d))"
proof -
  have "DifficultyTuning_WriteReflection B d = reflect B 11 (refl_fields B 11
     [(0, (in_order [Write_f32 B (fst (HealthPercentIncrease d)), Write_f32 B (snd (HealthPercentIncrease d))])),
      (1, (in_order [Write_f32 B (fst (DamagePercentIncrease d)), Write_f32 B (snd (DamagePercentIncrease d))])),
      (2, (in_order [Write_f32 B (fst (ItemLevelRange d)), Write_f32 B (snd (ItemLevelRange d))])),
      (3, (Write_vec2 B (GearScoreRange d))),
      (4, (Write_vec2 B (GearScoreMax d))),
      (5, (in_order [Write_u32 B (fst (ExpectedAvatarLevel d)), Write_u32 B (snd (ExpectedAvatarLevel d))])),
      (6, (in_order [Write_f32 B (fst (RatingConversion d)), Write_f32 B (snd (RatingConversion d))])),
      (7, (Write_f32 B (StarModeHealthMult d))),
      (8, (Write_f32 B (StarModeDamageMult d))),
      (9, (Write_f32 B (StarModeEliteChanceAdd d))),
      (10, (Write_f32 B (StarModeSuggestedLevelAdd d)))])"
    by (simp add: DifficultyTuning_WriteReflection_def refl_fields_def)
  then show ?thesis
    by (simp only:) (rule reflect_fields_puts [OF assms],
      simp add: DifficultyTuning_fields_def puts_Write [OF assms] puts_fields [OF assms] puts_pair)
qed

lemma PlanetData_lays_out:
  assumes "bitstream_laws B"
  shows "lays_out B (PlanetData_WriteTo B d) 0x19 (PlanetData_layout d)"
  apply (rule lays_outI [OF assms PlanetData_WriteTo_def])
  apply (rule seg_conv)
    apply (rule seg_in_order seg_seek [OF assms] seg_seek_start [OF assms] seg_fields [OF assms])+
   apply (simp_all add: PlanetData_layout_def)
  done

lemma PlanetData_tight: "tight 0x19 (PlanetData_layout d)"
  by (simp add: PlanetData_layout_def bytes_simps)

end
