(* ===== verification/RakImages.thy ===== *)
theory RakImages
  imports RakTypes
begin

text \<open>
  What the game structures of \<open>source/RakNet/Types.cpp\<close> promise to the client: the images of
  the structures have the client's sizes and offsets, the reflections can be decoded, and the
  locomotion commands (\<open>LocomotionData::SetGoalPosition\<close> and the others) reach the wire.
\<close>

subsection \<open>Default objects and locomotion commands\<close>

definition vec3_zero :: vec3 where
  "vec3_zero = \<lparr>vx = 0, vy = 0, vz = 0\<rparr>"

text \<open>
  The constructor; \<open>q0\<close> is glm's value-initialised quaternion, and the float 1 has the bits
  0x3F800000.
\<close>

definition sporelabsObject_new :: "quat \<Rightarrow> sporelabsObject" where
  "sporelabsObject_new q0 =
     \<lparr>mTeam = 1, mbPlayerControlled = False, mInputSyncStamp = 0, mPlayerIdx = 0,
      mLinearVelocity = vec3_zero, mAngularVelocity = vec3_zero, mPosition = vec3_zero,
      mOrientation = q0,
      mScale = 0x3F800000, mMarkerScale = 0x3F800000, mLastAnimationState = 0,
      mLastAnimationPlayTimeMs = 0, mOverrideMoveIdleAnimationState = 0, mGraphicsState = 0,
      mGraphicsStateStartTimeMs = 0, mNewGraphicsStateStartTimeMs = 0, mVisible = True,
      mbHasCollision = False, mOwnerID = 0, mMovementType = 0, mDisableRepulsion = False,
      mInteractableState = 0, sourceMarkerKey_markerId = 0\<rparr>"

definition SetGoalPosition :: "vec3 \<Rightarrow> LocomotionData \<Rightarrow> LocomotionData" where
  "SetGoalPosition pos d =
     d\<lparr>mTargetObjectId := 0, mFacing := vec3_zero, mTargetPosition := vec3_zero,
       mExternalLinearVelocity := vec3_zero, mGoalFlags := 0x001, mGoalPosition := pos,
       mAllowedStopDistance := 0, mDesiredStopDistance := 0\<rparr>"

definition SetGoalPositionWithDistance :: "vec3 \<Rightarrow> f32 \<Rightarrow> LocomotionData \<Rightarrow> LocomotionData" where
  "SetGoalPositionWithDistance pos dist d =
     (let d1 = SetGoalPosition pos d
      in d1\<lparr>mAllowedStopDistance := dist, mDesiredStopDistance := dist\<rparr>)"

definition Stop :: "LocomotionData \<Rightarrow> LocomotionData" where
  "Stop d = d\<lparr>mTargetObjectId := 0, mFacing := vec3_zero, mGoalFlags := 0x020\<rparr>"

definition ApplyExternalVelocity :: "vec3 \<Rightarrow> LocomotionData \<Rightarrow> LocomotionData" where
  "ApplyExternalVelocity v d =
     d\<lparr>mTargetObjectId := 0, mFacing := vec3_zero, mGoalFlags := 0x008,
       mExternalLinearVelocity := v\<rparr>"

definition ClearExternalVelocity :: "vec3 \<Rightarrow> LocomotionData \<Rightarrow> LocomotionData" where
  "ClearExternalVelocity v d = d\<lparr>mGoalFlags := 0x020, mExternalLinearVelocity := vec3_zero\<rparr>"

lemmas locomotion_defs = SetGoalPosition_def SetGoalPositionWithDistance_def Stop_def
  ApplyExternalVelocity_def ClearExternalVelocity_def Let_def

subsection \<open>Decoding a reflection\<close>

text \<open>
  The receiver of a reflection knows how many bytes each field has (\<open>sz\<close>) and recovers the
  fields from the mask or from the tags.
\<close>

fun parse_fields :: "(nat \<Rightarrow> nat) \<Rightarrow> nat list \<Rightarrow> bytes \<Rightarrow> ((nat \<times> bytes) list \<times> bytes) option" where
  "parse_fields sz [] bs = Some ([], bs)"
| "parse_fields sz (k # ks) bs =
     (if length bs < sz k then None
      else map_option (apfst (Cons (k, take (sz k) bs))) (parse_fields sz ks (drop (sz k) bs)))"

function parse_tagged :: "(nat \<Rightarrow> nat) \<Rightarrow> bytes \<Rightarrow> ((nat \<times> bytes) list \<times> bytes) option" where
  "parse_tagged sz [] = None"
| "parse_tagged sz (t # bs) =
     (let k = unat t in
      if t = 0xFF then Some ([], bs)
      else if length bs < sz k then None
      else map_option (apfst (Cons (k, take (sz k) bs))) (parse_tagged sz (drop (sz k) bs)))"
  by pat_completeness auto
termination by (relation "measure (\<lambda>(_, bs). length bs)") auto

definition parse_reflection ::
  "nat \<Rightarrow> (nat \<Rightarrow> nat) \<Rightarrow> bytes \<Rightarrow> ((nat \<times> bytes) list \<times> bytes) option" where
  "parse_reflection F sz bs =
     (if F \<le> 8 then
        (if bs = [] then None
         else parse_fields sz (filter (bit (hd bs)) [0..<8]) (tl bs))
      else if F \<le> 16 then
        (if length bs < 2 then None
         else parse_fields sz (filter (bit (of_le (take 2 bs) :: u16)) [0..<16]) (drop 2 bs))
      else parse_tagged sz bs)"

text \<open>Fields in the order of their indices, each of its size.\<close>

definition well_sized :: "nat \<Rightarrow> (nat \<Rightarrow> nat) \<Rightarrow> (nat \<times> bytes) list \<Rightarrow> bool" where
  "well_sized F sz fs \<longleftrightarrow>
     F \<le> 255 \<and> sorted_wrt (<) (map fst fs) \<and> (\<forall>(k, bs) \<in> set fs. k < F \<and> length bs = sz k)"

lemma parse_fields_concat:
  assumes "\<forall>(k, bs) \<in> set fs. length bs = sz k"
  shows "parse_fields sz (map fst fs) (concat (map snd fs) @ r) = Some (fs, r)"
  using assms by (induction fs) auto

lemma parse_tagged_concat:
  assumes "\<forall>(k, bs) \<in> set fs. k < 255 \<and> length bs = sz k"
  shows "parse_tagged sz (concat (map (\<lambda>(k, bs). of_nat k # bs) fs) @ 0xFF # r) = Some (fs, r)"
  using assms
proof (induction fs)
  case (Cons f fs)
  obtain k bs where f: "f = (k, bs)" by (cases f)
  with Cons.prems have k: "k < 255" "length bs = sz k" by auto
  then have u: "unat (of_nat k :: u8) = k" by (simp add: unat_of_nat)
  have "(of_nat k :: u8) \<noteq> 0xFF"
  proof
    assume "(of_nat k :: u8) = 0xFF"
    then have "unat (of_nat k :: u8) = 255" by simp
    with u k show False by simp
  qed
  with Cons k show ?case by (simp add: f Let_def u del: of_nat_add)
qed simp

lemma bit_field_mask:
  assumes "k < 16"
  shows "bit (field_mask fs) k \<longleftrightarrow> k \<in> fst ` set fs"
proof -
  have "bit (fold (\<lambda>(k, _) m. m OR push_bit k 1) fs m) k \<longleftrightarrow> bit m k \<or> k \<in> fst ` set fs"
    for m :: u16
    by (induction fs arbitrary: m) (use assms in \<open>auto simp: bit_simps\<close>)
  then show ?thesis by (simp add: field_mask_def)
qed

lemma mask_indices:
  assumes "sorted_wrt (<) (map fst fs)" and "\<forall>k \<in> fst ` set fs. k < n" and "n \<le> 16"
    and "\<And>k. k < n \<Longrightarrow> bit m k \<longleftrightarrow> bit (field_mask fs) k"
  shows "filter (bit m) [0..<n] = map fst fs"
proof (rule sorted_distinct_set_unique)
  show "sorted (filter (bit m) [0..<n])" by (simp add: sorted_wrt_filter)
  show "sorted (map fst fs)" "distinct (map fst fs)"
    using assms(1) by (simp_all add: strict_sorted_iff)
  show "set (filter (bit m) [0..<n]) = set (map fst fs)"
    using assms(2,3,4) bit_field_mask by auto
qed simp

lemma parse_reflection_bytes:
  assumes "well_sized F sz fs"
  shows "parse_reflection F sz (reflection_bytes F fs @ r) = Some (fs, r)"
proof -
  note ws = assms [unfolded well_sized_def]
  have sz: "\<forall>(k, bs) \<in> set fs. length bs = sz k" using ws by auto
  consider "F \<le> 8" | "8 < F" "F \<le> 16" | "16 < F" by linarith
  then show ?thesis
  proof cases
    case 1
    have "filter (bit (ucast (field_mask fs) :: u8)) [0..<8] = map fst fs"
      by (rule mask_indices) (use ws 1 in \<open>auto simp: bit_simps\<close>)
    with parse_fields_concat [OF sz] 1 show ?thesis
      by (simp add: parse_reflection_def reflection_bytes_def)
  next
    case 2
    have "filter (bit (field_mask fs)) [0..<16] = map fst fs"
      by (rule mask_indices) (use ws 2 in auto)
    with parse_fields_concat [OF sz] 2 show ?thesis
      by (simp add: parse_reflection_def reflection_bytes_def of_le_bytes_le)
  next
    case 3
    have "\<forall>(k, bs) \<in> set fs. k < 255 \<and> length bs = sz k" using ws by auto
    from parse_tagged_concat [OF this] 3 show ?thesis
      by (simp add: parse_reflection_def reflection_bytes_def)
  qed
qed

subsection \<open>The locomotion reflection\<close>

text \<open>
  It has more than 16 fields, two of which are whole images (projectile and lob parameters) with
  unwritten gaps, so its layout is stated directly: each field after its tag, 0xFF at the end.
\<close>

definition LocomotionData_reflection :: "LocomotionData \<Rightarrow> layout" where
  "LocomotionData_reflection d =
     [(0, [0]), (1, bytes_le 8 (lobStartTime d)), (9, [1]), (10, bytes_le 4 (lobPrevSpeedModifier d)),
      (14, [2])] @ shift 15 (cLobParams_layout (lobParams d)) @
     [(99, [3])] @ shift 100 (cProjectileParams_layout (mProjectileParams d)) @
     [(160, [4]), (161, bytes_le 4 (mGoalFlags d)),
      (165, [5]), (166, bytes_vec3 (mGoalPosition d)),
      (178, [6]), (179, bytes_vec3 (mPartialGoalPosition d)),
      (191, [7]), (192, bytes_vec3 (mFacing d)),
      (204, [8]), (205, bytes_vec3 (mExternalLinearVelocity d)),
      (217, [9]), (218, bytes_vec3 (mExternalForce d)),
      (230, [10]), (231, bytes_le 4 (mAllowedStopDistance d)),
      (235, [11]), (236, bytes_le 4 (mDesiredStopDistance d)),
      (240, [12]), (241, bytes_le 4 (mTargetObjectId d)),
      (245, [13]), (246, bytes_vec3 (mTargetPosition d)),
      (258, [14]), (259, bytes_vec3 (mExpectedGeoCollision d)),
      (271, [15]), (272, bytes_vec3 (mInitialDirection d)),
      (284, [16]), (285, bytes_vec3 (mOffset d)),
      (297, [17]), (298, bytes_le 4 (reflectedLastUpdate d)), (302, [0xFF])]"

lemma LocomotionData_reflects:
  assumes "bitstream_laws B"
  shows "lays_out B (LocomotionData_WriteReflection B d) 303 (LocomotionData_reflection d)"
proof -
  have F: "16 < (18::nat)" by simp
  show ?thesis
    unfolding LocomotionData_WriteReflection_def
    apply (rule lays_out_conv)
      apply (rule reflect_tags [OF assms F])
      apply (rule rseg_conv)
        apply (rule rseg_in_order rseg_write_tag [OF assms F] seg_fields [OF assms]
          seg_nested [OF cProjectileParams_lays_out [OF assms]]
          seg_nested [OF cLobParams_lays_out [OF assms]])+
       apply (rule refl)
      apply (rule refl)
     apply (rule refl)
    apply (simp_all add: LocomotionData_reflection_def)
    done
qed

lemma LocomotionData_reflection_tight: "tight 303 (LocomotionData_reflection d)"
  by (simp add: LocomotionData_reflection_def bytes_simps cProjectileParams_layout_def
      cLobParams_layout_def)

subsection \<open>Properties\<close>

text \<open>
  \<open>delivers B f F ls fs\<close>: \<open>f\<close> puts bytes from which a receiver that knows the number of
  fields and their sizes reads exactly \<open>fs\<close> and stops at the end of the message.
\<close>

definition delivers ::
  "'s bitstream \<Rightarrow> ('s \<Rightarrow> 's) \<Rightarrow> nat \<Rightarrow> nat list \<Rightarrow> (nat \<times> bytes) list \<Rightarrow> bool" where
  "delivers B f F ls fs \<longleftrightarrow>
     (\<exists>bs. puts B f bs \<and> (\<forall>r. parse_reflection F ((!) ls) (bs @ r) = Some (fs, r)))"

lemma deliversI:
  "puts B f (reflection_bytes F fs) \<Longrightarrow> well_sized F ((!) ls) fs \<Longrightarrow> delivers B f F ls fs"
  unfolding delivers_def using parse_reflection_bytes by blast

lemma mem_empty_offset: "GetWriteOffset mem_stream mem_empty = 8 * 0"
  by (simp add: mem_stream_def mem_empty_def)

text \<open>
  A reflection can be decoded: whatever the number of fields (up to 255), a receiver that
  knows the size of each field reads back exactly the fields that were written, in order, and
  finds the end of the message, for the mask forms as for the tagged form.
\<close>

lemma reflection_decodes:
  assumes "bitstream_laws B"
    and "list_all2 (\<lambda>(k, w) (k', bs). k = k' \<and> puts B w bs) ws fs"
    and "well_sized F ((!) ls) fs"
  shows "delivers B (reflect B F (refl_fields B F ws)) F ls fs"
  using reflect_fields_puts [OF assms(1,2)] assms(3) by (rule deliversI)

text \<open>
  The image of a game object is a block of exactly 0x308 bytes in which every field is at
  the client's offset (scale 0x10, position 0x18, orientation 0x24, owner 0x50, team 0x54, ...,
  interactable state 0x288), no field overwrites another, and nothing outside the block changes.
\<close>

lemma object_image:
  assumes "bitstream_laws B"
  shows "writes_block B (sporelabsObject_WriteTo B d) 0x308
    [(0x10, bytes_le 4 (mScale d)), (0x14, bytes_le 4 (mMarkerScale d)),
     (0x18, bytes_vec3 (mPosition d)), (0x24, bytes_quat (mOrientation d)),
     (0x34, bytes_vec3 (mLinearVelocity d)), (0x40, bytes_vec3 (mAngularVelocity d)),
     (0x50, bytes_le 4 (mOwnerID d)), (0x54, [mTeam d]), (0x55, [mPlayerIdx d]),
     (0x58, bytes_le 4 (mInputSyncStamp d)), (0x5C, bytes_bool (mbPlayerControlled d)),
     (0x5F, bytes_bool (mVisible d)), (0x60, bytes_bool (mbHasCollision d)),
     (0x61, [mMovementType d]), (0x88, bytes_le 4 (sourceMarkerKey_markerId d)),
     (0xAC, bytes_le 4 (mLastAnimationState d)), (0xB8, bytes_le 8 (mLastAnimationPlayTimeMs d)),
     (0xC0, bytes_le 4 (mOverrideMoveIdleAnimationState d)),
     (0x258, bytes_le 4 (mGraphicsState d)), (0x260, bytes_le 8 (mGraphicsStateStartTimeMs d)),
     (0x268, bytes_le 8 (mNewGraphicsStateStartTimeMs d)),
     (0x284, bytes_bool (mDisableRepulsion d)), (0x288, bytes_le 4 (mInteractableState d))]"
  using writes_blockI [OF sporelabsObject_lays_out [OF assms] sporelabsObject_tight]
  by (simp add: sporelabsObject_layout_def)

text \<open>
  Every other structure of the server has an image of the client's size (director 0x4D0,
  creation data 0x70, blackboard 0x598, lob parameters 0x54, projectile 0x3C, combatant 0x70,
  interactable 0x34, loot 0x80, gravity 0x20, combat event 0x28, tuning 0x48, planet 0x19), with
  each field at its offset, no overlap, and nothing outside the block changed.
\<close>

lemma structure_images:
  assumes "bitstream_laws B"
  shows "writes_block B (cAIDirector_WriteTo B a) 0x4D0 (cAIDirector_layout a) \<and>
    writes_block B (labsCrystal_WriteTo B k) 0x10 (labsCrystal_layout k) \<and>
    writes_block B (cGameObjectCreateData_WriteTo B c) 0x70 (cGameObjectCreateData_layout c) \<and>
    writes_block B (cAgentBlackboard_WriteTo B bb) 0x598 (cAgentBlackboard_layout bb) \<and>
    writes_block B (cLobParams_WriteTo B lp) 0x54 (cLobParams_layout lp) \<and>
    writes_block B (cProjectileParams_WriteTo B pp) 0x3C (cProjectileParams_layout pp) \<and>
    writes_block B (cCombatantData_WriteTo B cd) 0x70 (cCombatantData_layout cd) \<and>
    writes_block B (cInteractableData_WriteTo B i) 0x34 (cInteractableData_layout i) \<and>
    writes_block B (cLootData_WriteTo B l) 0x80 (cLootData_layout l) \<and>
    writes_block B (GravityForce_WriteTo B g) 0x20 (GravityForce_layout g) \<and>
    writes_block B (CombatEvent_WriteTo B e) 0x28 (CombatEvent_layout e) \<and>
    writes_block B (DifficultyTuning_WriteTo B t) 0x48 (DifficultyTuning_layout t) \<and>
    writes_block B (PlanetData_WriteTo B p) 0x19 (PlanetData_layout p)"
  by (intro conjI writes_blockI assms cAIDirector_lays_out cAIDirector_tight
      labsCrystal_lays_out labsCrystal_tight cGameObjectCreateData_lays_out
      cGameObjectCreateData_tight cAgentBlackboard_lays_out cAgentBlackboard_tight
      cLobParams_lays_out cLobParams_tight cProjectileParams_lays_out cProjectileParams_tight
      cCombatantData_lays_out cCombatantData_tight cInteractableData_lays_out
      cInteractableData_tight cLootData_lays_out cLootData_tight GravityForce_lays_out
      GravityForce_tight CombatEvent_lays_out CombatEvent_tight DifficultyTuning_lays_out
      DifficultyTuning_tight PlanetData_lays_out PlanetData_tight)

text \<open>
  Every reflected structure can be decoded by a receiver that knows the fixed sizes of its
  fields: game object, director, crystal, creation data, blackboard, lob and projectile
  parameters, combatant, interactable, loot, gravity, combat event and tuning.
\<close>

lemma structure_reflections:
  assumes "bitstream_laws B"
  shows "delivers B (sporelabsObject_WriteReflection B d) 23
      [1, 1, 4, 1, 12, 12, 12, 16, 4, 4, 4, 8, 4, 4, 8, 8, 1, 1, 4, 1, 1, 4, 4]
      (sporelabsObject_fields d) \<and>
    delivers B (cAIDirector_WriteReflection B a) 7 [1, 1, 1, 1, 1, 4, 4] (cAIDirector_fields a) \<and>
    delivers B (labsCrystal_WriteReflection B k) 2 [4, 2] (labsCrystal_fields k) \<and>
    delivers B (cGameObjectCreateData_WriteReflection B c) 10 [4, 12, 4, 4, 4, 8, 4, 1, 1, 1]
      (cGameObjectCreateData_fields c) \<and>
    delivers B (cAgentBlackboard_WriteReflection B bb) 5 [4, 1, 1, 1, 4] (cAgentBlackboard_fields bb) \<and>
    delivers B (cCombatantData_WriteReflection B cd) 2 [4, 4] (cCombatantData_fields cd) \<and>
    delivers B (cInteractableData_WriteReflection B i) 3 [4, 4, 4] (cInteractableData_fields i) \<and>
    delivers B (GravityForce_WriteReflection B g) 3 [4, 4, 4] (GravityForce_fields g) \<and>
    delivers B (cLobParams_WriteReflection B lp) 9 [4, 4, 4, 12, 12, 4, 4, 1, 1] (cLobParams_fields lp) \<and>
    delivers B (cProjectileParams_WriteReflection B pp) 15
      [4, 4, 4, 4, 4, 12, 1, 4, 4, 4, 4, 1, 1, 1, 4] (cProjectileParams_fields pp) \<and>
    delivers B (cLootData_WriteReflection B l) 10 [4, 8, 4, 4, 4, 4, 4, 4, 8, 4] (cLootData_fields l) \<and>
    delivers B (CombatEvent_WriteReflection B e) 8 [4, 4, 4, 4, 4, 4, 12, 4] (CombatEvent_fields e) \<and>
    delivers B (DifficultyTuning_WriteReflection B t) 11 [8, 8, 8, 8, 8, 8, 8, 4, 4, 4, 4]
      (DifficultyTuning_fields t)"
  by (intro conjI deliversI assms sporelabsObject_reflects cAIDirector_reflects labsCrystal_reflects
      cGameObjectCreateData_reflects cAgentBlackboard_reflects cCombatantData_reflects
      cInteractableData_reflects GravityForce_reflects cLobParams_reflects
      cProjectileParams_reflects cLootData_reflects CombatEvent_reflects DifficultyTuning_reflects)
    (simp_all add: well_sized_def bytes_simps sporelabsObject_fields_def cAIDirector_fields_def
      labsCrystal_fields_def cGameObjectCreateData_fields_def cAgentBlackboard_fields_def
      cCombatantData_fields_def cInteractableData_fields_def GravityForce_fields_def
      cLobParams_fields_def cProjectileParams_fields_def cLootData_fields_def CombatEvent_fields_def
      DifficultyTuning_fields_def)

lemma goal_layout:
  assumes "l = LocomotionData_layout (SetGoalPositionWithDistance pos dist d)"
  shows "{(0x144, bytes_le 4 (1::u32)), (0x148, bytes_vec3 pos), (0x19C, bytes_le 4 dist),
      (0x1A0, bytes_le 4 dist), (0x90, bytes_le 4 (0::u32)), (0x1AC, bytes_vec3 vec3_zero),
      (0x178, bytes_vec3 vec3_zero), (0x184, bytes_vec3 vec3_zero)} \<subseteq> set l"
  unfolding assms by (simp add: locomotion_defs LocomotionData_layout_def)

lemma goal_layout_nested:
  assumes "l = LocomotionData_layout (SetGoalPositionWithDistance pos dist d)"
  shows "set (shift 0x44 (cProjectileParams_layout (mProjectileParams d))) \<subseteq> set l \<and>
    set (shift 0xE4 (cLobParams_layout (lobParams d))) \<subseteq> set l"
proof -
  have pq: "mProjectileParams (SetGoalPositionWithDistance pos dist d) = mProjectileParams d"
    "lobParams (SetGoalPositionWithDistance pos dist d) = lobParams d"
    by (simp_all add: locomotion_defs)
  show ?thesis unfolding assms LocomotionData_layout_def set_append pq by blast
qed

lemma goal_reflection:
  "{(160, [4]), (161, bytes_le 4 (1::u32)), (165, [5]), (166, bytes_vec3 pos),
    (230, [10]), (231, bytes_le 4 dist), (235, [11]), (236, bytes_le 4 dist),
    (240, [12]), (241, bytes_le 4 (0::u32)), (302, [0xFF])}
   \<subseteq> set (LocomotionData_reflection (SetGoalPositionWithDistance pos dist d))"
  by (simp add: locomotion_defs LocomotionData_reflection_def)

text \<open>
  A locomotion command reaches the wire: after \<open>SetGoalPositionWithDistance\<close> both the
  0x290-byte image and the reflection of the locomotion data carry the goal flag 1, the new goal
  position and the stop distance in both distance fields, and a cleared target object, target
  position, facing and external velocity, at the places where the client reads them, with the
  nested projectile and lob images at 0x44 and 0xE4.
\<close>

lemma goal_reaches_wire:
  assumes "bitstream_laws B" and "d' = SetGoalPositionWithDistance pos dist d"
  shows "(\<exists>cs. writes_block B (LocomotionData_WriteTo B d') 0x290 cs \<and>
      {(0x144, bytes_le 4 (1::u32)), (0x148, bytes_vec3 pos), (0x19C, bytes_le 4 dist),
       (0x1A0, bytes_le 4 dist), (0x90, bytes_le 4 (0::u32)), (0x1AC, bytes_vec3 vec3_zero),
       (0x178, bytes_vec3 vec3_zero), (0x184, bytes_vec3 vec3_zero)} \<subseteq> set cs \<and>
      set (shift 0x44 (cProjectileParams_layout (mProjectileParams d))) \<subseteq> set cs \<and>
      set (shift 0xE4 (cLobParams_layout (lobParams d))) \<subseteq> set cs) \<and>
    (\<exists>cs. writes_block B (LocomotionData_WriteReflection B d') 303 cs \<and>
      {(160, [4]), (161, bytes_le 4 (1::u32)), (165, [5]), (166, bytes_vec3 pos),
       (230, [10]), (231, bytes_le 4 dist), (235, [11]), (236, bytes_le 4 dist),
       (240, [12]), (241, bytes_le 4 (0::u32)), (302, [0xFF])} \<subseteq> set cs)"
proof (intro conjI exI)
  show "writes_block B (LocomotionData_WriteTo B d') 0x290 (LocomotionData_layout d')"
    by (rule writes_blockI [OF LocomotionData_lays_out [OF assms(1)] LocomotionData_tight])
  show "writes_block B (LocomotionData_WriteReflection B d') 303 (LocomotionData_reflection d')"
    by (rule writes_blockI [OF LocomotionData_reflects [OF assms(1)] LocomotionData_reflection_tight])
qed (simp_all only: assms(2) goal_layout [OF refl] goal_layout_nested [OF refl] goal_reflection)

end
