(* ===== verification/TDF.thy ===== *)
theory TDF
  imports DataBuffer Text "HOL-Library.Monad_Syntax"
begin

text \<open>
  The tagged data format of the Blaze protocol, \<open>source/Blaze/TDF.{h,cpp}\<close>: labels, headers,
  integers, strings, and the writer of a document (\<open>Packet::Write\<close>, \<open>Packet::WriteType\<close>).

  The documents are values of the third-party library rapidjson: \<open>jval\<close> is the data of a JSON
  document, and the library's operations the code relies on are the record \<open>jsonlib\<close>, a
  parameter, with their documented behaviour as \<open>json_laws\<close>.  A C++ string is a list of
  characters.  \<open>None\<close> is an execution whose result the code does not define: an exception, a
  failed assertion of the library, or a value read past the buffer.  The raw 32-bit reads and
  writes of headers use the host's byte order; the model takes a little-endian host, the only
  one on which the code speaks the client's format.
\<close>

subsection \<open>Types\<close>

datatype tdf_type =
    T_Integer | T_String | T_Binary | T_Struct | T_List | T_Map | T_Union | T_IntegerList
  | T_ObjectType | T_ObjectId | T_Float | T_TimeValue | T_Invalid

definition type_code :: "tdf_type \<Rightarrow> u32" where
  "type_code t = (case t of
     T_Integer \<Rightarrow> 0 | T_String \<Rightarrow> 1 | T_Binary \<Rightarrow> 2 | T_Struct \<Rightarrow> 3 | T_List \<Rightarrow> 4 | T_Map \<Rightarrow> 5
   | T_Union \<Rightarrow> 6 | T_IntegerList \<Rightarrow> 7 | T_ObjectType \<Rightarrow> 8 | T_ObjectId \<Rightarrow> 9 | T_Float \<Rightarrow> 10
   | T_TimeValue \<Rightarrow> 11 | T_Invalid \<Rightarrow> 0xFF)"

record header =
  label :: string
  htype :: u32

subsection \<open>Labels and headers\<close>

definition char_byte :: "char \<Rightarrow> u8" where "char_byte c = of_char c"
definition byte_char :: "u8 \<Rightarrow> char" where "byte_char b = char_of (unat b)"

definition CompressLabel :: "string \<Rightarrow> u32" where
  "CompressLabel l =
     drop_bit 8 (bswap_bytes 4 (fold (\<lambda>i ret. ret OR
       push_bit ((3 - i) * 6) (0x20 OR (ucast (char_byte (l ! i)) AND 0x1F)))
       [0..<min (length l) 4] 0))"

definition DecompressLabel :: "u32 \<Rightarrow> string" where
  "DecompressLabel lbl =
     (let w = drop_bit 8 (bswap_bytes 4 lbl)
      in fold (\<lambda>i ret. let val = drop_bit ((3 - i) * 6) w AND 0x3F
                      in if val > 0 then ret @ [byte_char (ucast (0x40 OR (val AND 0x1F)))] else ret)
           [0..<4] [])"

definition ReadHeader :: "databuffer \<Rightarrow> (header \<times> databuffer) option" where
  "ReadHeader b = do {
     (v, b') \<leftarrow> read_T Little 4 b;
     Some (\<lparr>label = DecompressLabel (v AND 0x00FFFFFF), htype = drop_bit 24 v\<rparr>, b')
   }"

definition WriteHeader :: "string \<Rightarrow> u32 \<Rightarrow> databuffer \<Rightarrow> databuffer" where
  "WriteHeader l t b = write_T Little 4 (CompressLabel l OR push_bit 24 t) b"

definition WriteUnionHeader :: "string \<Rightarrow> u32 \<Rightarrow> databuffer \<Rightarrow> databuffer" where
  "WriteUnionHeader l activeMember b =
     write_u8 (ucast activeMember) (WriteHeader l (type_code T_Union) b)"

definition read_integer :: "databuffer \<Rightarrow> (u64 \<times> databuffer) option" where
  "read_integer b = decode_tdf_integer b"

definition WriteInteger :: "string \<Rightarrow> u64 \<Rightarrow> databuffer \<Rightarrow> databuffer" where
  "WriteInteger l v b = encode_tdf_integer v (WriteHeader l (type_code T_Integer) b)"

text \<open>
  \<open>std::string::resize\<close> throws beyond \<open>max_size()\<close>; \<open>buffer.read<char>\<close> that does not fit leaves
  the resized string as it is, all NUL, and does not advance.
\<close>

definition string_max_size :: nat where "string_max_size = 2 ^ 63 - 1"

definition read_chars :: "nat \<Rightarrow> databuffer \<Rightarrow> (string \<times> databuffer) option" where
  "read_chars n b =
     (if n > string_max_size then None
      else Some (case impl_read 1 n b of
          (Some xs, b') \<Rightarrow> (map byte_char xs, b')
        | (None, b') \<Rightarrow> (replicate n (CHR 0x00), b')))"

definition read_string :: "databuffer \<Rightarrow> (string \<times> databuffer) option" where
  "read_string b = do {
     (n, b1) \<leftarrow> decode_tdf_integer b;
     let len = n - 1;
     (str, b2) \<leftarrow> (if len > 0 then read_chars (unat len) b1 else Some ([], b1));
     Some (str, skip_bytes 1 b2)
   }"

definition WriteString :: "string \<Rightarrow> string \<Rightarrow> databuffer \<Rightarrow> databuffer" where
  "WriteString l v b =
     (let len = of_nat (length v) :: u64
      in write_u8 0 (impl_write (map char_byte v)
           (encode_tdf_integer (len + 1) (WriteHeader l (type_code T_String) b))))"

subsection \<open>JSON documents\<close>

datatype jval =
    JNull
  | JBool bool
  | JUint u64
  | JString string
  | JArray "jval list"
  | JObject "(string \<times> jval) list"

text \<open>
  \<open>FindMember\<close> returns a position in the member list (its length for \<open>MemberEnd()\<close>);
  \<open>JAddMember\<close> and \<open>JPushBack\<close> are the library's appends.
\<close>

record jsonlib =
  FindMember :: "(string \<times> jval) list \<Rightarrow> string \<Rightarrow> nat"
  JAddMember :: "(string \<times> jval) list \<Rightarrow> string \<Rightarrow> jval \<Rightarrow> (string \<times> jval) list"
  JPushBack :: "jval list \<Rightarrow> jval \<Rightarrow> jval list"

fun first_index :: "(string \<times> 'v) list \<Rightarrow> string \<Rightarrow> nat" where
  "first_index [] k = 0"
| "first_index ((k', _) # ms) k = (if k' = k then 0 else Suc (first_index ms k))"

definition json_laws :: "jsonlib \<Rightarrow> bool" where
  "json_laws J \<longleftrightarrow>
     (\<forall>ms k. FindMember J ms k = first_index ms k) \<and>
     (\<forall>ms k v. JAddMember J ms k v = ms @ [(k, v)]) \<and>
     (\<forall>vs v. JPushBack J vs v = vs @ [v])"

text \<open>An object built member by member.\<close>

definition new_object :: "jsonlib \<Rightarrow> (string \<times> jval) list \<Rightarrow> jval" where
  "new_object J fs = JObject (foldl (\<lambda>ms (k, v). JAddMember J ms k v) [] fs)"

lemma new_object_laws [simp]: "json_laws J \<Longrightarrow> new_object J fs = JObject fs"
proof -
  assume "json_laws J"
  then have "foldl (\<lambda>ms (k, v). JAddMember J ms k v) ms fs = ms @ fs" for ms
    by (induction fs arbitrary: ms) (auto simp: json_laws_def)
  then show ?thesis by (simp add: new_object_def)
qed

text \<open>\<open>value["name"]\<close>, \<open>GetUint\<close>, \<open>GetUint64\<close>, \<open>GetBool\<close>, \<open>GetString\<close>, \<open>GetArray\<close>, \<open>GetObject\<close>.\<close>

fun subscript :: "jsonlib \<Rightarrow> jval \<Rightarrow> string \<Rightarrow> jval option" where
  "subscript J (JObject ms) k =
     (if FindMember J ms k < length ms then Some (snd (ms ! FindMember J ms k)) else None)"
| "subscript J _ k = None"

fun GetUint64 :: "jval \<Rightarrow> u64 option" where
  "GetUint64 (JUint n) = Some n"
| "GetUint64 _ = None"

definition GetUint :: "jval \<Rightarrow> u32 option" where
  "GetUint v = (case v of JUint n \<Rightarrow> if n < 2 ^ 32 then Some (ucast n) else None | _ \<Rightarrow> None)"

fun GetBool :: "jval \<Rightarrow> bool option" where
  "GetBool (JBool c) = Some c"
| "GetBool _ = None"

text \<open>\<open>GetString\<close> is a pointer to characters; the \<open>std::string\<close> made of it ends at the first NUL.\<close>

fun GetString :: "jval \<Rightarrow> string option" where
  "GetString (JString s) = Some (c_str s)"
| "GetString _ = None"

fun GetArray :: "jval \<Rightarrow> jval list option" where
  "GetArray (JArray vs) = Some vs"
| "GetArray _ = None"

fun GetObject :: "jval \<Rightarrow> (string \<times> jval) list option" where
  "GetObject (JObject ms) = Some ms"
| "GetObject _ = None"

subsection \<open>Writing a document\<close>

lemma size_subscript: "subscript J v k = Some w \<Longrightarrow> size w < size v"
proof (cases v)
  case (JObject ms)
  assume "subscript J v k = Some w"
  with JObject obtain i where "i < length ms" "w = snd (ms ! i)" by (auto split: if_splits)
  then obtain k' where "(k', w) \<in> set ms" by (metis nth_mem prod.collapse)
  then show ?thesis
    using size_list_estimation' [of "(k', w)" ms "size w" "size_prod (\<lambda>_. 0) size"] JObject by simp
qed simp_all

lemma size_GetArray: "GetArray v = Some vs \<Longrightarrow> w \<in> set vs \<Longrightarrow> size w < size v"
  by (cases v) (auto dest: size_list_estimation' [where f = size, OF _ order_refl])

lemma size_GetObject: "GetObject v = Some ms \<Longrightarrow> (k, w) \<in> set ms \<Longrightarrow> size w < size v \<and> 0 < size v"
  by (cases v) (auto dest: size_list_estimation' [where f = "size_prod (\<lambda>_. 0) size", OF _ order_refl])

lemma size_element: "w \<in> set vs \<Longrightarrow> (size w :: nat) \<le> size_list size vs"
  by (erule size_list_estimation') simp

lemma size_content:
  "subscript J v k = Some c \<Longrightarrow> GetArray c = Some vs \<Longrightarrow> w \<in> set vs \<Longrightarrow> size w < size v"
  "subscript J v k = Some c \<Longrightarrow> GetObject c = Some ms \<Longrightarrow> (n, w) \<in> set ms \<Longrightarrow> size w < size v"
  "subscript J v k = Some c \<Longrightarrow> GetObject c = Some ms \<Longrightarrow> (n, w) \<in> set ms
     \<Longrightarrow> Suc (2 * size w) < 2 * size v"
  by (fastforce dest: size_subscript size_GetArray size_GetObject)+

text \<open>
  The cases of \<open>WriteType\<close> that write no other values.  The key of a map is the member's name, a
  string value, so a compound key type fails at its first \<open>value["..."]\<close>.
\<close>

definition compound :: "u32 \<Rightarrow> bool" where
  "compound t \<longleftrightarrow> t \<in> {type_code T_Union, type_code T_Struct, type_code T_List, type_code T_Map}"

definition write_u8_of :: "u32 \<Rightarrow> databuffer \<Rightarrow> databuffer" where
  "write_u8_of n b = write_u8 (ucast n) b"

definition WriteScalar :: "jsonlib \<Rightarrow> u32 \<Rightarrow> jval \<Rightarrow> databuffer \<Rightarrow> databuffer option" where
  "WriteScalar J type v b =
     (if type = type_code T_Integer then
        (case v of JString _ \<Rightarrow> do { str \<leftarrow> GetString v; n \<leftarrow> stoull str; Some (encode_tdf_integer n b) }
         | _ \<Rightarrow> do { n \<leftarrow> GetUint64 v; Some (encode_tdf_integer n b) })
      else if type = type_code T_String then do {
        str \<leftarrow> GetString v;
        Some (write_u8 0 (impl_write (map char_byte str) (encode_tdf_integer (of_nat (length str) + 1) b)))
      }
      else if type = type_code T_Binary then do {
        c \<leftarrow> subscript J v ''_Content''; str \<leftarrow> GetString c;
        Some (impl_write (map char_byte str) (encode_tdf_integer (of_nat (length str)) b))
      }
      else if type = type_code T_IntegerList then do {
        c \<leftarrow> subscript J v ''_Content''; vs \<leftarrow> GetArray c;
        let contentLength = (of_nat (length vs) :: u8);
        each (\<lambda>i b. do { n \<leftarrow> GetUint64 (vs ! i); Some (encode_tdf_integer n b) })
          [0..<unat contentLength] (write_u8 contentLength b)
      }
      else if type = type_code T_ObjectType then do {
        x \<leftarrow> subscript J v ''_X''; nx \<leftarrow> GetUint64 x;
        y \<leftarrow> subscript J v ''_Y''; ny \<leftarrow> GetUint64 y;
        Some (encode_tdf_integer ny (encode_tdf_integer nx b))
      }
      else if type = type_code T_ObjectId then do {
        x \<leftarrow> subscript J v ''_X''; nx \<leftarrow> GetUint64 x;
        y \<leftarrow> subscript J v ''_Y''; ny \<leftarrow> GetUint64 y;
        z \<leftarrow> subscript J v ''_Z''; nz \<leftarrow> GetUint64 z;
        Some (encode_tdf_integer nz (encode_tdf_integer ny (encode_tdf_integer nx b)))
      }
      else Some b)"

function Write :: "jsonlib \<Rightarrow> string option \<Rightarrow> jval \<Rightarrow> databuffer \<Rightarrow> databuffer option"
  and WriteType :: "jsonlib \<Rightarrow> u32 \<Rightarrow> string option \<Rightarrow> jval \<Rightarrow> databuffer \<Rightarrow> databuffer option" where
  "Write J name v b =
     (case v of
        JObject ms \<Rightarrow> do { t \<leftarrow> subscript J v ''_Type''; u \<leftarrow> GetUint t; WriteType J u name v b }
      | JArray vs \<Rightarrow> each (Write J None) vs b
      | JString str \<Rightarrow> WriteType J (type_code T_String) name v b
      | _ \<Rightarrow> WriteType J (type_code T_Integer) name v b)"
| "WriteType J type name v b =
     (let b = (case name of None \<Rightarrow> b | Some l \<Rightarrow> WriteHeader (c_str l) type b) in
      if type = type_code T_Union then do {
        m \<leftarrow> subscript J v ''_AddressMember''; addressMember \<leftarrow> GetUint m;
        let b = write_u8_of addressMember b;
        if addressMember \<noteq> 0x7F then do {
          c \<leftarrow> subscript J v ''_Content''; ms \<leftarrow> GetObject c;
          each (\<lambda>(k, w). Write J (Some k) w) ms b
        } else Some b
      }
      else if type = type_code T_Struct then do {
        c \<leftarrow> subscript J v ''_Content''; ms \<leftarrow> GetObject c;
        b \<leftarrow> each (\<lambda>(k, w). Write J (Some k) w) ms b;
        Some (write_u8 0 b)
      }
      else if type = type_code T_List then do {
        c \<leftarrow> subscript J v ''_Content''; vs \<leftarrow> GetArray c;
        lt \<leftarrow> subscript J v ''_ListType''; listType \<leftarrow> GetUint lt;
        let contentLength = (of_nat (length vs) :: u8);
        let b = write_u8 contentLength (write_u8_of listType b);
        st \<leftarrow> subscript J v ''_Stub''; isStub \<leftarrow> GetBool st;
        if isStub then each (WriteType J listType None) vs (write_u8 0x02 b)
        else each (WriteType J listType None) (take (unat contentLength) vs) b
      }
      else if type = type_code T_Map then do {
        c \<leftarrow> subscript J v ''_Content''; ms \<leftarrow> GetObject c;
        kt \<leftarrow> subscript J v ''_KeyType''; keyType \<leftarrow> GetUint kt;
        let b = write_u8_of keyType b;
        vt \<leftarrow> subscript J v ''_ValueType''; valueType \<leftarrow> GetUint vt;
        let b = write_u8_of valueType b;
        let b = write_u8 (of_nat (length ms)) b;
        each (\<lambda>(k, w) b. do {
          b \<leftarrow> (if compound keyType then None else WriteScalar J keyType (JString k) b);
          WriteType J valueType None w b }) ms b
      }
      else WriteScalar J type v b)"
  by pat_completeness auto
termination
  by (relation "measure (\<lambda>x. case x of Inl (J, n, v, b) \<Rightarrow> 2 * size v + 1 | Inr (J, t, n, v, b) \<Rightarrow> 2 * size v)") (auto intro: size_content dest: size_element in_set_takeD)


subsection \<open>The abstract format\<close>

text \<open>
  Values of the format, the document each stands for, and its bytes.  A key of a map is a string
  or the digits of an integer; the counts of lists and maps are one byte.
\<close>

datatype tdf =
    V_Integer u64
  | V_String string
  | V_Binary string
  | V_IntegerList "u64 list"
  | V_ObjectType u64 u64
  | V_ObjectId u64 u64 u64
  | V_Struct "(string \<times> tdf) list"
  | V_Union u32 "(string \<times> tdf) list"
  | V_List tdf_type bool "tdf list"
  | V_Map tdf_type tdf_type "(string \<times> tdf) list"

fun tag :: "tdf \<Rightarrow> tdf_type" where
  "tag (V_Integer _) = T_Integer"
| "tag (V_String _) = T_String"
| "tag (V_Binary _) = T_Binary"
| "tag (V_IntegerList _) = T_IntegerList"
| "tag (V_ObjectType _ _) = T_ObjectType"
| "tag (V_ObjectId _ _ _) = T_ObjectId"
| "tag (V_Struct _) = T_Struct"
| "tag (V_Union _ _) = T_Union"
| "tag (V_List _ _ _) = T_List"
| "tag (V_Map _ _ _) = T_Map"

definition JType :: "tdf_type \<Rightarrow> jval" where
  "JType t = JUint (ucast (type_code t))"

fun json_of :: "tdf \<Rightarrow> jval" where
  "json_of (V_Integer n) = JUint n"
| "json_of (V_String s) = JString s"
| "json_of (V_Binary s) = JObject [(''_Type'', JType T_Binary), (''_Content'', JString s)]"
| "json_of (V_IntegerList ns) =
     JObject [(''_Type'', JType T_IntegerList), (''_Content'', JArray (map JUint ns))]"
| "json_of (V_ObjectType x y) =
     JObject [(''_Type'', JType T_ObjectType), (''_X'', JUint x), (''_Y'', JUint y)]"
| "json_of (V_ObjectId x y z) =
     JObject [(''_Type'', JType T_ObjectId), (''_X'', JUint x), (''_Y'', JUint y), (''_Z'', JUint z)]"
| "json_of (V_Struct fs) =
     JObject [(''_Type'', JType T_Struct), (''_Content'', JObject (map (\<lambda>(l, v). (l, json_of v)) fs))]"
| "json_of (V_Union m fs) =
     JObject [(''_Type'', JType T_Union), (''_AddressMember'', JUint (ucast m)),
       (''_Content'', JObject (map (\<lambda>(l, v). (l, json_of v)) fs))]"
| "json_of (V_List t stub vs) =
     JObject [(''_Type'', JType T_List), (''_ListType'', JType t),
       (''_Content'', JArray (map json_of vs)), (''_Stub'', JBool stub)]"
| "json_of (V_Map kt vt ms) =
     JObject [(''_Type'', JType T_Map), (''_KeyType'', JType kt), (''_ValueType'', JType vt),
       (''_Content'', JObject (map (\<lambda>(l, v). (l, json_of v)) ms))]"

definition header_bytes :: "string \<Rightarrow> tdf_type \<Rightarrow> bytes" where
  "header_bytes l t = bytes_le 4 (CompressLabel l OR push_bit 24 (type_code t))"

definition string_bytes :: "string \<Rightarrow> bytes" where
  "string_bytes s = tdf_int (of_nat (length s) + 1) @ map char_byte s @ [0]"

definition key_bytes :: "tdf_type \<Rightarrow> string \<Rightarrow> bytes" where
  "key_bytes t k = (if t = T_Integer then tdf_int (the (stoull k)) else string_bytes k)"

fun tdf_bytes :: "tdf \<Rightarrow> bytes" where
  "tdf_bytes (V_Integer n) = tdf_int n"
| "tdf_bytes (V_String s) = string_bytes s"
| "tdf_bytes (V_Binary s) = tdf_int (of_nat (length s)) @ map char_byte s"
| "tdf_bytes (V_IntegerList ns) =
     of_nat (length ns) # concat (map tdf_int (take (length ns mod 256) ns))"
| "tdf_bytes (V_ObjectType x y) = tdf_int x @ tdf_int y"
| "tdf_bytes (V_ObjectId x y z) = tdf_int x @ tdf_int y @ tdf_int z"
| "tdf_bytes (V_Struct fs) =
     concat (map (\<lambda>(l, v). header_bytes l (tag v) @ tdf_bytes v) fs) @ [0]"
| "tdf_bytes (V_Union m fs) =
     ucast m # (if m = 0x7F then []
                else concat (map (\<lambda>(l, v). header_bytes l (tag v) @ tdf_bytes v) fs))"
| "tdf_bytes (V_List t stub vs) =
     ucast (type_code t) # of_nat (length vs) #
       (if stub then 2 # concat (map tdf_bytes vs)
        else concat (take (length vs mod 256) (map tdf_bytes vs)))"
| "tdf_bytes (V_Map kt vt ms) =
     ucast (type_code kt) # ucast (type_code vt) # of_nat (length ms) #
       concat (map (\<lambda>(k, v). key_bytes kt k @ tdf_bytes v) ms)"

text \<open>
  What the code can write: strings without NUL, list elements and map values of the announced
  type, keys that are strings or that \<open>std::stoull\<close> accepts.
\<close>

fun writable :: "tdf \<Rightarrow> bool" where
  "writable (V_String s) = no_nul s"
| "writable (V_Binary s) = no_nul s"
| "writable (V_Struct fs) = (\<forall>(l, v) \<in> set fs. no_nul l \<and> writable v)"
| "writable (V_Union m fs) = (\<forall>(l, v) \<in> set fs. no_nul l \<and> writable v)"
| "writable (V_List t stub vs) = (\<forall>v \<in> set vs. tag v = t \<and> writable v)"
| "writable (V_Map kt vt ms) =
     (\<forall>(k, v) \<in> set ms. (kt = T_String \<or> kt = T_Integer \<and> stoull k \<noteq> None) \<and> no_nul k
        \<and> tag v = vt \<and> writable v)"
| "writable _ = True"

definition fields_bytes :: "(string \<times> tdf) list \<Rightarrow> bytes" where
  "fields_bytes fs = concat (map (\<lambda>(l, v). header_bytes l (tag v) @ tdf_bytes v) fs)"

definition fields_json :: "(string \<times> tdf) list \<Rightarrow> (string \<times> jval) list" where
  "fields_json fs = map (\<lambda>(l, v). (l, json_of v)) fs"

end
