(* ===== verification/TDFWrite.thy ===== *)
theory TDFWrite
  imports TDF
begin

text \<open>
  The writer of \<open>source/Blaze/TDF.cpp\<close> refines the abstract format: on the document of a value it
  succeeds and appends the value's bytes.  The rules of the sink interface for writers that can
  fail (\<open>buf.emits\<close>) follow the structure of the code.
\<close>

subsection \<open>Reading a document\<close>

lemma type_code_inject [simp]: "type_code s = type_code t \<longleftrightarrow> s = t"
  by (cases s; cases t) (simp_all add: type_code_def)

lemma subscript_object:
  "json_laws J \<Longrightarrow> subscript J (JObject ((k', v) # ms)) k
     = (if k' = k then Some v else subscript J (JObject ms) k)"
  by (simp add: json_laws_def)

lemma subscript_empty: "json_laws J \<Longrightarrow> subscript J (JObject []) k = None"
  by (simp add: json_laws_def)

lemma GetUint_JType [simp]: "GetUint (JType t) = Some (type_code t)"
  by (cases t) (simp_all add: GetUint_def JType_def type_code_def)

lemma ucast_u32_u64: "(ucast (w :: u32) :: u64) < 2 ^ 32 \<and> ucast (ucast w :: u64) = w"
proof
  show "(ucast w :: u64) < 2 ^ 32"
    using less_2p_iff_bits [of 32 "ucast w :: u64"] by (auto simp: bit_simps dest: bit_imp_le_length)
  show "ucast (ucast w :: u64) = w" by (rule bit_word_eqI) (simp add: bit_simps)
qed

lemma GetUint_ucast [simp]: "GetUint (JUint (ucast (w :: u32))) = Some w"
  using ucast_u32_u64 [of w] by (simp add: GetUint_def)

lemma byte_char_byte [simp]: "byte_char (char_byte c) = c"
proof -
  have "unat (of_nat (of_char c) :: u8) = of_char c" by (simp only: unat_of_nat) simp
  then have "unat (of_char c :: u8) = of_char c" by (simp only: of_nat_of_char)
  then show ?thesis by (simp add: byte_char_def char_byte_def)
qed

lemma byte_char_comp [simp]: "byte_char \<circ> char_byte = id"
  by (simp add: fun_eq_iff)

lemma char_byte_char [simp]: "char_byte (byte_char b) = b"
proof -
  have "unat b < 2 ^ LENGTH(8)" by (rule unsigned_less)
  then have "(of_char (char_of (unat b)) :: nat) = unat b" by simp
  then have "(of_nat (of_char (char_of (unat b))) :: u8) = b" by simp
  then show ?thesis by (simp only: char_byte_def byte_char_def of_nat_of_char)
qed

subsection \<open>Appended bytes of the small writers\<close>

lemma WriteHeader_appends: "buf.appends (WriteHeader l (type_code t)) (header_bytes l t)"
  unfolding WriteHeader_def write_T_def header_bytes_def by (simp add: buf.appends_put)

lemma write_u8_appends: "buf.appends (write_u8 w) [w]"
  unfolding write_u8_eq by (rule buf.appends_put)

lemma write_u8_of_appends: "buf.appends (write_u8_of n) [ucast n]"
  unfolding write_u8_of_def by (rule write_u8_appends)

lemmas encode_appends = encode_tdf_integer_appends

lemma string_appends:
  "buf.appends (\<lambda>b. write_u8 0 (impl_write (map char_byte s) (encode_tdf_integer (of_nat (length s) + 1) b)))
     (string_bytes s)"
  unfolding string_bytes_def
  using buf.appends_comp [OF buf.appends_comp [OF encode_appends buf.appends_put] write_u8_appends]
  by simp

definition name_bytes :: "string option \<Rightarrow> tdf_type \<Rightarrow> bytes" where
  "name_bytes name t = (case name of None \<Rightarrow> [] | Some l \<Rightarrow> header_bytes (c_str l) t)"

lemma name_appends:
  "buf.appends (\<lambda>b. case name of None \<Rightarrow> b | Some l \<Rightarrow> WriteHeader (c_str l) (type_code t) b)
     (name_bytes name t)"
  by (cases name) (simp_all add: name_bytes_def buf.appends_id WriteHeader_appends)

subsection \<open>The scalar cases\<close>

lemma scalar_emits:
  assumes J: "json_laws J" and "writable v"
    and "\<not> compound (type_code (tag v))"
  shows "buf.emits (WriteScalar J (type_code (tag v)) (json_of v)) (tdf_bytes v)"
proof (cases v)
  case (V_Integer n)
  then show ?thesis
    using buf.emits_Some [OF encode_appends [of n]] by (simp add: WriteScalar_def [abs_def])
next
  case (V_String s)
  with assms show ?thesis
    using buf.emits_Some [OF string_appends [of s]] by (simp add: WriteScalar_def [abs_def])
next
  case (V_Binary s)
  with assms show ?thesis
    using buf.emits_Some [OF buf.appends_comp [OF encode_appends [of "of_nat (length s)"] buf.appends_put]]
    by (simp add: WriteScalar_def [abs_def] subscript_object del: subscript.simps)
next
  case (V_IntegerList ns)
  define k where "k = length ns mod 256"
  have k: "unat (of_nat (length ns) :: u8) = k" by (simp add: k_def unat_of_nat)
  have "k \<le> length ns" by (simp add: k_def)
  then have take: "map ((!) ns) [0..<k] = take k ns" by (auto intro: nth_equalityI)
  have e: "buf.emits (each (\<lambda>i b. do { n \<leftarrow> GetUint64 (map JUint ns ! i); Some (encode_tdf_integer n b) })
      [0..<k]) (concat (map (\<lambda>i. tdf_int (ns ! i)) [0..<k]))"
    by (rule buf.emits_each) (use \<open>k \<le> length ns\<close> buf.emits_Some [OF encode_appends] in simp)
  have "map (\<lambda>i. tdf_int (ns ! i)) [0..<k] = map tdf_int (take k ns)"
    by (simp flip: take)
  with e show ?thesis
    using V_IntegerList J buf.emits_pre [OF write_u8_appends e, of "of_nat (length ns)"]
    by (simp add: WriteScalar_def [abs_def] subscript_object k Let_def flip: k_def del: subscript.simps)
next
  case (V_ObjectType x y)
  then show ?thesis
    using J buf.emits_Some [OF buf.appends_comp [OF encode_appends [of x] encode_appends [of y]]]
    by (simp add: WriteScalar_def [abs_def] subscript_object del: subscript.simps)
next
  case (V_ObjectId x y z)
  then show ?thesis
    using J buf.emits_Some [OF buf.appends_comp [OF buf.appends_comp
      [OF encode_appends [of x] encode_appends [of y]] encode_appends [of z]]]
    by (simp add: WriteScalar_def [abs_def] subscript_object del: subscript.simps)
qed (use assms(3) in \<open>simp_all add: compound_def\<close>)

subsection \<open>The compound cases\<close>

declare Write.simps [simp del] WriteType.simps [simp del]

lemma Write_json_of:
  "json_laws J \<Longrightarrow> Write J name (json_of v) = WriteType J (type_code (tag v)) name (json_of v)"
  by (rule ext, cases v) (simp_all add: Write.simps subscript_object del: subscript.simps)

definition value_emits :: "jsonlib \<Rightarrow> tdf \<Rightarrow> bool" where
  "value_emits J v \<longleftrightarrow>
     (\<forall>name. buf.emits (WriteType J (type_code (tag v)) name (json_of v)) (name_bytes name (tag v) @ tdf_bytes v))"

lemma fields_emits:
  assumes J: "json_laws J" and "\<And>l v. (l, v) \<in> set fs \<Longrightarrow> no_nul l \<and> value_emits J v"
  shows "buf.emits (each (\<lambda>(k, w). Write J (Some k) w) (map (\<lambda>(l, v). (l, json_of v)) fs)) (fields_bytes fs)"
  unfolding each_map fields_bytes_def
proof (rule buf.emits_each)
  fix x assume "x \<in> set fs"
  moreover obtain l v where lv: "x = (l, v)" by (cases x)
  ultimately have x: "x = (l, v)" "no_nul l" "value_emits J v" using assms(2) [of l v] by simp_all
  from x(3) [unfolded value_emits_def, rule_format, of "Some l"] x(2)
  show "buf.emits (case case x of (l, v) \<Rightarrow> (l, json_of v) of (k, w) \<Rightarrow> Write J (Some k) w)
      (case x of (l, v) \<Rightarrow> header_bytes l (tag v) @ tdf_bytes v)"
    by (simp add: x(1) Write_json_of [OF J] name_bytes_def)
qed

lemma elements_emits:
  assumes "\<And>v. v \<in> set vs \<Longrightarrow> tag v = t \<and> value_emits J v"
  shows "buf.emits (each (WriteType J (type_code t) None) (map json_of vs)) (concat (map tdf_bytes vs))"
  unfolding each_map
proof (rule buf.emits_each)
  fix v assume "v \<in> set vs"
  with assms have v: "tag v = t" "value_emits J v" by auto
  from v(2) [unfolded value_emits_def, rule_format, of None]
  show "buf.emits (WriteType J (type_code t) None (json_of v)) (tdf_bytes v)"
    by (simp add: v(1) name_bytes_def)
qed

lemma key_emits:
  assumes "kt = T_String \<or> kt = T_Integer \<and> stoull k \<noteq> None" and "no_nul k"
  shows "buf.emits (\<lambda>b. if compound (type_code kt) then None else WriteScalar J (type_code kt) (JString k) b)
     (key_bytes kt k)"
  using assms buf.emits_Some [OF string_appends [of k]] buf.emits_Some [OF encode_appends]
  by (auto simp: compound_def WriteScalar_def key_bytes_def)

lemma entries_emits:
  assumes "\<And>k v. (k, v) \<in> set ms \<Longrightarrow>
      (kt = T_String \<or> kt = T_Integer \<and> stoull k \<noteq> None) \<and> no_nul k \<and> tag v = vt \<and> value_emits J v"
  shows "buf.emits (each (\<lambda>(k, w) b. do {
      b \<leftarrow> (if compound (type_code kt) then None else WriteScalar J (type_code kt) (JString k) b);
      WriteType J (type_code vt) None w b }) (map (\<lambda>(l, v). (l, json_of v)) ms))
    (concat (map (\<lambda>(k, v). key_bytes kt k @ tdf_bytes v) ms))"
  unfolding each_map
proof (rule buf.emits_each)
  fix x assume "x \<in> set ms"
  moreover obtain k v where kv: "x = (k, v)" by (cases x)
  ultimately have x: "x = (k, v)" "kt = T_String \<or> kt = T_Integer \<and> stoull k \<noteq> None"
    "no_nul k" "tag v = vt" "value_emits J v" using assms [of k v] by simp_all
  have "buf.emits (WriteType J (type_code vt) None (json_of v)) (tdf_bytes v)"
    using x(5) [unfolded value_emits_def, rule_format, of None] by (simp add: x(4) name_bytes_def)
  from buf.emits_bind [OF key_emits [OF x(2,3)] this]
  show "buf.emits (case case x of (l, v) \<Rightarrow> (l, json_of v) of (k, w) \<Rightarrow> (\<lambda>b. do {
      b \<leftarrow> (if compound (type_code kt) then None else WriteScalar J (type_code kt) (JString k) b);
      WriteType J (type_code vt) None w b }))
    (case x of (k, v) \<Rightarrow> key_bytes kt k @ tdf_bytes v)"
    by (simp add: x(1))
qed

lemma value_emits_scalar:
  assumes "json_laws J" and "writable v" and "\<not> compound (type_code (tag v))"
  shows "value_emits J v"
  unfolding value_emits_def
proof
  fix name
  have "WriteType J (type_code (tag v)) name (json_of v) = (\<lambda>b. WriteScalar J (type_code (tag v)) (json_of v)
      (case name of None \<Rightarrow> b | Some l \<Rightarrow> WriteHeader (c_str l) (type_code (tag v)) b))"
    using assms(3) by (intro ext) (simp add: WriteType.simps compound_def Let_def)
  then show "buf.emits (WriteType J (type_code (tag v)) name (json_of v)) (name_bytes name (tag v) @ tdf_bytes v)"
    using buf.emits_pre [OF name_appends scalar_emits [OF assms]] by simp
qed

lemma value_emits_struct:
  assumes J: "json_laws J" and "\<And>l v. (l, v) \<in> set fs \<Longrightarrow> no_nul l \<and> value_emits J v"
  shows "value_emits J (V_Struct fs)"
  unfolding value_emits_def
proof
  fix name
  note e = buf.emits_bind [OF buf.emits_pre [OF name_appends [of T_Struct name] fields_emits [OF assms]]
      buf.emits_Some [OF write_u8_appends [of 0]]]
  show "buf.emits (WriteType J (type_code (tag (V_Struct fs))) name (json_of (V_Struct fs)))
      (name_bytes name (tag (V_Struct fs)) @ tdf_bytes (V_Struct fs))"
    using e J by (simp add: WriteType.simps [abs_def] subscript_object Let_def fields_bytes_def
        del: subscript.simps)
qed

lemma value_emits_union:
  assumes J: "json_laws J" and "\<And>l v. (l, v) \<in> set fs \<Longrightarrow> no_nul l \<and> value_emits J v"
  shows "value_emits J (V_Union m fs)"
  unfolding value_emits_def
proof
  fix name
  note h = buf.appends_comp [OF name_appends [of T_Union name] write_u8_of_appends [of m]]
  have g: "GetUint (JUint 0x7F) = Some 0x7F" by (simp add: GetUint_def)
  show "buf.emits (WriteType J (type_code (tag (V_Union m fs))) name (json_of (V_Union m fs)))
      (name_bytes name (tag (V_Union m fs)) @ tdf_bytes (V_Union m fs))"
    using buf.emits_pre [OF h fields_emits [OF assms]] buf.emits_Some [OF h] J g
    by (cases "m = 0x7F") (simp_all add: WriteType.simps [abs_def] subscript_object Let_def fields_bytes_def
        del: subscript.simps)
qed

lemma value_emits_list:
  assumes J: "json_laws J" and vs: "\<And>v. v \<in> set vs \<Longrightarrow> tag v = t \<and> value_emits J v"
  shows "value_emits J (V_List t stub vs)"
  unfolding value_emits_def
proof
  fix name
  define k where "k = length vs mod 256"
  have k: "unat (of_nat (length vs) :: u8) = k" by (simp add: k_def unat_of_nat)
  note h = buf.appends_comp [OF buf.appends_comp [OF name_appends [of T_List name]
      write_u8_of_appends [of "type_code t"]] write_u8_appends [of "of_nat (length vs)"]]
  note s = buf.emits_pre [OF buf.appends_comp [OF h write_u8_appends [of 2]] elements_emits [OF vs]]
  have "\<And>v. v \<in> set (take k vs) \<Longrightarrow> tag v = t \<and> value_emits J v"
    using vs by (meson in_set_takeD)
  note n = buf.emits_pre [OF h elements_emits [OF this]]
  show "buf.emits (WriteType J (type_code (tag (V_List t stub vs))) name (json_of (V_List t stub vs)))
      (name_bytes name (tag (V_List t stub vs)) @ tdf_bytes (V_List t stub vs))"
    using s n J by (simp add: WriteType.simps [abs_def] subscript_object Let_def take_map k
        flip: k_def del: subscript.simps)
qed

lemma value_emits_map:
  assumes J: "json_laws J"
    and ms: "\<And>k v. (k, v) \<in> set ms \<Longrightarrow>
      (kt = T_String \<or> kt = T_Integer \<and> stoull k \<noteq> None) \<and> no_nul k \<and> tag v = vt \<and> value_emits J v"
  shows "value_emits J (V_Map kt vt ms)"
  unfolding value_emits_def
proof
  fix name
  note h = buf.appends_comp [OF buf.appends_comp [OF buf.appends_comp
      [OF name_appends [of T_Map name] write_u8_of_appends [of "type_code kt"]]
      write_u8_of_appends [of "type_code vt"]] write_u8_appends [of "of_nat (length ms)"]]
  show "buf.emits (WriteType J (type_code (tag (V_Map kt vt ms))) name (json_of (V_Map kt vt ms)))
      (name_bytes name (tag (V_Map kt vt ms)) @ tdf_bytes (V_Map kt vt ms))"
    using buf.emits_pre [OF h entries_emits [OF ms]] J
    by (simp add: WriteType.simps [abs_def] subscript_object Let_def del: subscript.simps)
qed

lemma writable_emits:
  assumes J: "json_laws J"
  shows "writable v \<Longrightarrow> value_emits J v"
proof (induction v)
  case (V_Struct fs)
  then show ?case by (intro value_emits_struct J) fastforce
next
  case (V_Union m fs)
  then show ?case by (intro value_emits_union J) fastforce
next
  case (V_List t stub vs)
  then show ?case by (intro value_emits_list J) auto
next
  case (V_Map kt vt ms)
  then show ?case by (intro value_emits_map J) fastforce
qed (intro value_emits_scalar J, simp_all add: compound_def)+

end
