(* ===== verification/TDFParse.thy ===== *)
theory TDFParse
  imports TDFWrite
begin

text \<open>
  Labels and headers of \<open>source/Blaze/TDF.cpp\<close> in both directions, and the parser
  (\<open>Parser::Read\<close>, \<open>Parser::ReadValue\<close> and the readers of each type).
\<close>

subsection \<open>Labels\<close>

lemma bit_bswap32:
  "bit (bswap_bytes 4 (w :: u32)) i \<longleftrightarrow> i < 32 \<and> bit w (8 * (3 - i div 8) + i mod 8)"
proof (cases "i < 32")
  case True
  then have "i div 8 < 4" by (simp add: div_less_iff_less_mult)
  then have "rev (bytes_le 4 w) ! (i div 8) = ucast (drop_bit (8 * (3 - i div 8)) w)"
    by (simp add: rev_nth nth_bytes_le)
  with True \<open>i div 8 < 4\<close> show ?thesis by (simp add: bswap_bytes_def bit_of_le bit_simps)
qed (simp add: bswap_bytes_def bit_of_le)

lemma bswap_24_twice:
  assumes "take_bit 24 w = w"
  shows "drop_bit 8 (bswap_bytes 4 (drop_bit 8 (bswap_bytes 4 w))) = (w :: u32)"
proof (rule bit_word_eqI)
  fix i :: nat assume "i < LENGTH(32)"
  show "bit (drop_bit 8 (bswap_bytes 4 (drop_bit 8 (bswap_bytes 4 w)))) i = bit w i"
  proof (cases "i < 24")
    case True
    define q r where "q = i div 8" and "r = i mod 8"
    have i: "i = 8 * q + r" "r < 8" "q < 3" using True by (auto simp: q_def r_def div_less_iff_less_mult)
    have "bit (drop_bit 8 (bswap_bytes 4 (drop_bit 8 (bswap_bytes 4 w)))) i =
        bit (bswap_bytes 4 (drop_bit 8 (bswap_bytes 4 w))) (8 + i)"
      by (simp add: bit_drop_bit_eq)
    also have "\<dots> = bit (drop_bit 8 (bswap_bytes 4 w)) (8 * (3 - Suc q) + r)"
    proof -
      have "(8 + i) div 8 = Suc q" "(8 + i) mod 8 = r" using i by simp_all
      then show ?thesis using True unfolding bit_bswap32 [of _ "8 + i"] by simp
    qed
    also have "\<dots> = bit (bswap_bytes 4 w) (8 * (3 - q) + r)"
    proof -
      have "8 + (8 * (3 - Suc q) + r) = 8 * (3 - q) + r" using i by simp
      then show ?thesis by (simp only: bit_drop_bit_eq comp_def)
    qed
    also have "\<dots> = bit w i"
    proof -
      have "(8 * (3 - q) + r) div 8 = 3 - q" "(8 * (3 - q) + r) mod 8 = r" "8 * (3 - q) + r < 32"
        "3 - (3 - q) = q" using i by auto
      then show ?thesis unfolding bit_bswap32 [of _ "8 * (3 - q) + r"] by (simp add: i(1))
    qed
    finally show ?thesis .
  next
    case False
    have "\<not> bit (take_bit 24 w) i" using False by (simp add: bit_take_bit_iff)
    with False assms show ?thesis by (simp add: bit_drop_bit_eq bit_bswap32)
  qed
qed

text \<open>Four six-bit letters in a word.\<close>

definition letters :: "u32 \<Rightarrow> u32 \<Rightarrow> u32 \<Rightarrow> u32 \<Rightarrow> u32" where
  "letters x3 x2 x1 x0 = push_bit 18 x3 OR push_bit 12 x2 OR push_bit 6 x1 OR x0"

lemma sextet_bits: "take_bit 6 (x :: u32) = x \<Longrightarrow> bit x i \<Longrightarrow> i < 6"
  by (metis bit_take_bit_iff)

lemma letters_props:
  assumes "take_bit 6 x3 = x3" "take_bit 6 x2 = x2" "take_bit 6 x1 = x1" "take_bit 6 x0 = x0"
  shows "take_bit 24 (letters x3 x2 x1 x0) = letters x3 x2 x1 x0"
    "take_bit 6 (drop_bit 18 (letters x3 x2 x1 x0)) = x3"
    "take_bit 6 (drop_bit 12 (letters x3 x2 x1 x0)) = x2"
    "take_bit 6 (drop_bit 6 (letters x3 x2 x1 x0)) = x1"
    "take_bit 6 (letters x3 x2 x1 x0) = x0"
  by (rule bit_word_eqI;
      auto simp: letters_def bit_simps dest: assms [THEN sextet_bits])+

text \<open>A label letter on the wire, and what it decompresses to: the letter's low five bits in 0x40.\<close>

definition sextet :: "char \<Rightarrow> u32" where
  "sextet c = 0x20 OR (ucast (char_byte c) AND 0x1F)"

definition label_char :: "char \<Rightarrow> char" where
  "label_char c = byte_char (0x40 OR (char_byte c AND 0x1F))"

lemma low_mask_1f: "(x :: 'a::len word) AND 0x1F = take_bit 5 x"
  by (simp add: take_bit_eq_mask mask_eq_exp_minus_1)

lemma sextet_props:
  "take_bit 6 (sextet c) = sextet c" "0 < sextet c"
  "ucast (0x40 OR (sextet c AND 0x1F)) = (0x40 OR (char_byte c AND 0x1F) :: u8)"
proof -
  have b: "bit (0x20 :: u32) i \<longleftrightarrow> i = 5" for i
    using bit_exp_iff [of 5 i, where 'a = "32 word"] by auto
  have b': "bit (0x20 :: int) i \<longleftrightarrow> i = 5" for i
    using bit_exp_iff [of 5 i, where 'a = int] by simp
  show "take_bit 6 (sextet c) = sextet c"
    by (rule bit_word_eqI) (auto simp: sextet_def low_mask_1f b bit_simps b')
  have "bit (sextet c) 5" by (simp add: sextet_def b bit_simps b')
  then show "0 < sextet c" by (auto simp: word_gt_0)
  show "ucast (0x40 OR (sextet c AND 0x1F)) = (0x40 OR (char_byte c AND 0x1F) :: u8)"
    by (rule bit_word_eqI) (auto simp: sextet_def low_mask_1f b bit_simps b')
qed

definition label_word :: "string \<Rightarrow> u32" where
  "label_word l =
     letters (if 0 < length l then sextet (l ! 0) else 0) (if 1 < length l then sextet (l ! 1) else 0)
       (if 2 < length l then sextet (l ! 2) else 0) (if 3 < length l then sextet (l ! 3) else 0)"

lemma label_cases:
  obtains "l = []" | a where "l = [a]" | a b where "l = [a, b]" | a b c where "l = [a, b, c]"
  | a b c d r where "l = a # b # c # d # r"
  by (metis neq_Nil_conv)

lemma upt_small: "[0..<1] = [0 :: nat]" "[0..<2] = [0, 1 :: nat]" "[0..<3] = [0, 1, 2 :: nat]"
  "[0..<4] = [0, 1, 2, 3 :: nat]"
  by (simp_all add: upt_rec)

lemma CompressLabel_letters: "CompressLabel l = drop_bit 8 (bswap_bytes 4 (label_word l))"
proof -
  have "fold (\<lambda>i ret. ret OR push_bit ((3 - i) * 6) (0x20 OR (ucast (char_byte (l ! i)) AND 0x1F)))
       [0..<min (length l) 4] (0 :: u32) = label_word l"
    unfolding sextet_def [symmetric]
    by (cases l rule: label_cases) (simp_all add: label_word_def letters_def upt_small or.assoc)
  then show ?thesis by (simp add: CompressLabel_def)
qed

lemma label_word_24: "take_bit 24 (label_word l) = label_word l"
  unfolding label_word_def by (rule letters_props(1)) (simp_all add: sextet_props)

lemma DecompressLabel_CompressLabel:
  "DecompressLabel (CompressLabel l) = map label_char (take 4 l)"
proof -
  have m: "(x :: u32) AND 0x3F = take_bit 6 x" for x by (rule low_mask_3f)
  have w: "drop_bit 8 (bswap_bytes 4 (CompressLabel l)) = label_word l"
    unfolding CompressLabel_letters by (rule bswap_24_twice [OF label_word_24])
  note p = letters_props(2-5) [of "if 0 < length l then sextet (l ! 0) else 0"
      "if 1 < length l then sextet (l ! 1) else 0" "if 2 < length l then sextet (l ! 2) else 0"
      "if 3 < length l then sextet (l ! 3) else 0"]
  show ?thesis
    using p unfolding DecompressLabel_def w Let_def m upt_small
    by (cases l rule: label_cases) (simp_all add: label_word_def sextet_props label_char_def)
qed

subsection \<open>The parser\<close>

text \<open>
  The recursion goes through \<open>ReadValue\<close> only: the readers of each type take the reader of
  nested values as an argument.  \<open>n\<close> bounds the nesting and the iterations of the loops that run
  until a terminator; the loops over a count run that often.  The member \<open>mHeader\<close> only feeds a
  message for unknown types.
\<close>

type_synonym 'x parse = "databuffer \<Rightarrow> ('x \<times> databuffer) option"

definition AddObject :: "jsonlib \<Rightarrow> string \<Rightarrow> jval \<Rightarrow> jval \<Rightarrow> jval" where
  "AddObject J key v parent =
     (case parent of
        JObject ms \<Rightarrow>
          (let i = FindMember J ms key in
           if i < length ms then JObject (ms[i := (fst (ms ! i), v)])
           else JObject (JAddMember J ms key v))
      | JArray vs \<Rightarrow> JArray (JPushBack J vs v)
      | _ \<Rightarrow> parent)"

definition ReadInteger :: "jval parse" where
  "ReadInteger b = do { (n, b) \<leftarrow> read_integer b; Some (JUint n, b) }"

definition ReadString :: "jval parse" where
  "ReadString b = do { (str, b) \<leftarrow> read_string b; Some (JString str, b) }"

definition ReadBlob :: "jval parse" where
  "ReadBlob b = do {
     (len, b) \<leftarrow> read_integer b;
     (str, b) \<leftarrow> (if len > 0 then read_chars (unat len) b else Some ([], b));
     Some (JString str, b)
   }"

primrec ReadMembers :: "nat \<Rightarrow> (jval \<Rightarrow> jval parse) \<Rightarrow> jval \<Rightarrow> jval parse" where
  "ReadMembers 0 rv p b = None"
| "ReadMembers (Suc n) rv p b = do {
     x \<leftarrow> peek_u8 b;
     if x \<noteq> 0x00 then do { (p, b) \<leftarrow> rv p b; ReadMembers n rv p b } else Some (p, b)
   }"

definition ReadStruct :: "nat \<Rightarrow> jsonlib \<Rightarrow> (jval \<Rightarrow> jval parse) \<Rightarrow> jval parse" where
  "ReadStruct n J rv b = do {
     (v, b) \<leftarrow> ReadMembers n rv (new_object J [(''_Type'', JType T_Struct)]) b;
     Some (v, skip_bytes 1 b)
   }"

definition ReadUnion :: "jsonlib \<Rightarrow> (jval \<Rightarrow> jval parse) \<Rightarrow> jval parse" where
  "ReadUnion J rv b = do {
     (addressMember, b) \<leftarrow> read_u8 b;
     let v = new_object J [(''_Type'', JType T_Union), (''_AddressMember'', JUint (ucast addressMember))];
     if addressMember \<noteq> 0x7F then rv v b else Some (v, b)
   }"

text \<open>The items of a list: of a type without a case nothing is read and nothing is added.\<close>

definition ReadItem :: "nat \<Rightarrow> jsonlib \<Rightarrow> (jval \<Rightarrow> jval parse) \<Rightarrow> u8 \<Rightarrow> jval list \<Rightarrow> jval list parse" where
  "ReadItem n J rv t vs b =
     (if t = ucast (type_code T_Integer) then do { (v, b) \<leftarrow> ReadInteger b; Some (JPushBack J vs v, b) }
      else if t = ucast (type_code T_String) then do { (v, b) \<leftarrow> ReadString b; Some (JPushBack J vs v, b) }
      else if t = ucast (type_code T_Struct) then do { (v, b) \<leftarrow> ReadStruct n J rv b; Some (JPushBack J vs v, b) }
      else Some (vs, b))"

primrec times :: "nat \<Rightarrow> ('x \<Rightarrow> 'x parse) \<Rightarrow> 'x \<Rightarrow> 'x parse" where
  "times 0 f x b = Some (x, b)"
| "times (Suc k) f x b = do { (x, b) \<leftarrow> f x b; times k f x b }"

definition ReadList :: "nat \<Rightarrow> jsonlib \<Rightarrow> (jval \<Rightarrow> jval parse) \<Rightarrow> jval parse" where
  "ReadList n J rv b = do {
     (listType, b) \<leftarrow> read_u8 b;
     (listSize, b) \<leftarrow> read_u8 b;
     let fields = [(''_Type'', JType T_List), (''_ListType'', JUint (ucast listType)),
                   (''_ListSize'', JUint (ucast listSize))];
     x \<leftarrow> peek_u8 b;
     if x = 0x02 \<and> listType = ucast (type_code T_Struct) then do {
       (content, b) \<leftarrow> ReadMembers n rv (JArray []) (skip_bytes 1 b);
       Some (new_object J (fields @ [(''_Stub'', JBool True), (''_Content'', content)]), skip_bytes 1 b)
     } else do {
       (vs, b) \<leftarrow> times (unat listSize) (ReadItem n J rv listType) [] b;
       Some (new_object J (fields @ [(''_Stub'', JBool False), (''_Content'', JArray vs)]), b)
     }
   }"

definition GetMapItem :: "nat \<Rightarrow> jsonlib \<Rightarrow> (jval \<Rightarrow> jval parse) \<Rightarrow> u8 \<Rightarrow> jval parse" where
  "GetMapItem n J rv t b =
     (if t = ucast (type_code T_Integer) then ReadInteger b
      else if t = ucast (type_code T_String) then ReadString b
      else if t = ucast (type_code T_Struct) then ReadStruct n J rv b
      else Some (JNull, b))"

definition ReadEntry ::
  "nat \<Rightarrow> jsonlib \<Rightarrow> (jval \<Rightarrow> jval parse) \<Rightarrow> u8 \<Rightarrow> u8 \<Rightarrow> (string \<times> jval) list \<Rightarrow> (string \<times> jval) list parse" where
  "ReadEntry n J rv keyType valueType ms b = do {
     (key, b) \<leftarrow> GetMapItem n J rv keyType b;
     (v, b) \<leftarrow> GetMapItem n J rv valueType b;
     key \<leftarrow> (if keyType = ucast (type_code T_Integer)
            then do { k \<leftarrow> GetUint64 key; Some (JString (decimal (unat k))) } else Some key);
     case key of JString k \<Rightarrow> Some (JAddMember J ms k v, b) | _ \<Rightarrow> None
   }"

definition ReadMap :: "nat \<Rightarrow> jsonlib \<Rightarrow> (jval \<Rightarrow> jval parse) \<Rightarrow> jval parse" where
  "ReadMap n J rv b = do {
     (keyType, b) \<leftarrow> read_u8 b;
     (valueType, b) \<leftarrow> read_u8 b;
     (mapSize, b) \<leftarrow> read_u8 b;
     (ms, b) \<leftarrow> times (unat mapSize) (ReadEntry n J rv keyType valueType) [] b;
     Some (new_object J [(''_Type'', JType T_Map), (''_KeyType'', JUint (ucast keyType)),
       (''_ValueType'', JUint (ucast valueType)), (''_MapSize'', JUint (ucast mapSize)),
       (''_Content'', JObject ms)], b)
   }"

definition ReadIntegerList :: "jsonlib \<Rightarrow> jval parse" where
  "ReadIntegerList J b = do {
     (listSize, b) \<leftarrow> read_u8 b;
     (vs, b) \<leftarrow> times (unat listSize)
       (\<lambda>vs b. do { (v, b) \<leftarrow> ReadInteger b; Some (JPushBack J vs v, b) }) [] b;
     Some (new_object J [(''_Type'', JType T_IntegerList), (''_ListSize'', JUint (ucast listSize)),
       (''_Content'', JArray vs)], b)
   }"

definition ReadObjectType :: "jsonlib \<Rightarrow> jval parse" where
  "ReadObjectType J b = do {
     (x, b) \<leftarrow> ReadInteger b; (y, b) \<leftarrow> ReadInteger b;
     Some (new_object J [(''_Type'', JType T_ObjectType), (''_X'', x), (''_Y'', y)], b)
   }"

definition ReadObjectId :: "jsonlib \<Rightarrow> jval parse" where
  "ReadObjectId J b = do {
     (x, b) \<leftarrow> ReadInteger b; (y, b) \<leftarrow> ReadInteger b; (z, b) \<leftarrow> ReadInteger b;
     Some (new_object J [(''_Type'', JType T_ObjectId), (''_X'', x), (''_Y'', y), (''_Z'', z)], b)
   }"

text \<open>The switch of \<open>ReadValue\<close>; \<open>None\<close> inside stands for its default case.\<close>

definition ReadTyped :: "nat \<Rightarrow> jsonlib \<Rightarrow> (jval \<Rightarrow> jval parse) \<Rightarrow> u32 \<Rightarrow> jval parse option" where
  "ReadTyped n J rv t =
     (if t = type_code T_Integer then Some ReadInteger
      else if t = type_code T_String then Some ReadString
      else if t = type_code T_Binary then Some ReadBlob
      else if t = type_code T_Struct then Some (ReadStruct n J rv)
      else if t = type_code T_Union then Some (ReadUnion J rv)
      else if t = type_code T_List then Some (ReadList n J rv)
      else if t = type_code T_Map then Some (ReadMap n J rv)
      else if t = type_code T_IntegerList then Some (ReadIntegerList J)
      else if t = type_code T_ObjectType then Some (ReadObjectType J)
      else if t = type_code T_ObjectId then Some (ReadObjectId J)
      else None)"

primrec ReadValue :: "nat \<Rightarrow> jsonlib \<Rightarrow> jval \<Rightarrow> jval parse" where
  "ReadValue 0 J parent b = None"
| "ReadValue (Suc n) J parent b = do {
     (h, b) \<leftarrow> ReadHeader b;
     if eof b then Some (parent, b)
     else (case ReadTyped n J (ReadValue n J) (htype h) of
         None \<Rightarrow> Some (parent, b)
       | Some reader \<Rightarrow> do { (v, b) \<leftarrow> reader b; Some (AddObject J (label h) v parent, b) })
   }"

primrec ReadDocument :: "nat \<Rightarrow> nat \<Rightarrow> jsonlib \<Rightarrow> jval \<Rightarrow> jval parse" where
  "ReadDocument 0 n J doc b = (if eof b then Some (doc, b) else None)"
| "ReadDocument (Suc k) n J doc b =
     (if eof b then Some (doc, b)
      else do { (doc, b) \<leftarrow> ReadValue n J doc b; ReadDocument k n J doc b })"

definition Parser_Read :: "nat \<Rightarrow> jsonlib \<Rightarrow> jval parse" where
  "Parser_Read n J b = ReadDocument n n J (JObject []) b"

end
