(* ===== verification/TDFRoundtrip.thy ===== *)
theory TDFRoundtrip
  imports TDFParse
begin

text \<open>
  The parser of \<open>source/Blaze/TDF.cpp\<close> reads back what the writer writes: the document it builds
  for the bytes of a value, and the conditions under which the format is unambiguous.
\<close>

subsection \<open>What the parser builds\<close>

definition wire_label :: "string \<Rightarrow> string" where
  "wire_label l = map label_char (take 4 l)"

definition put_member :: "string \<Rightarrow> jval \<Rightarrow> (string \<times> jval) list \<Rightarrow> (string \<times> jval) list" where
  "put_member k v ms =
     (let i = first_index ms k in if i < length ms then ms[i := (fst (ms ! i), v)] else ms @ [(k, v)])"

definition wire_key :: "tdf_type \<Rightarrow> string \<Rightarrow> string" where
  "wire_key kt k = (if kt = T_Integer then decimal (unat (the (stoull k))) else k)"

definition JCount :: "nat \<Rightarrow> jval" where "JCount n = JUint (of_nat n)"

fun parsed :: "tdf \<Rightarrow> jval" where
  "parsed (V_Integer n) = JUint n"
| "parsed (V_String s) = JString s"
| "parsed (V_Binary s) = JString s"
| "parsed (V_IntegerList ns) =
     JObject [(''_Type'', JType T_IntegerList), (''_ListSize'', JCount (length ns)),
       (''_Content'', JArray (map JUint ns))]"
| "parsed (V_ObjectType x y) =
     JObject [(''_Type'', JType T_ObjectType), (''_X'', JUint x), (''_Y'', JUint y)]"
| "parsed (V_ObjectId x y z) =
     JObject [(''_Type'', JType T_ObjectId), (''_X'', JUint x), (''_Y'', JUint y), (''_Z'', JUint z)]"
| "parsed (V_Struct fs) =
     JObject (fold (\<lambda>(l, v). put_member (wire_label l) v) (map (\<lambda>(l, v). (l, parsed v)) fs)
       [(''_Type'', JType T_Struct)])"
| "parsed (V_Union m fs) =
     JObject (fold (\<lambda>(l, v). put_member (wire_label l) v) (map (\<lambda>(l, v). (l, parsed v)) fs)
       [(''_Type'', JType T_Union), (''_AddressMember'', JUint (ucast m))])"
| "parsed (V_List t stub vs) =
     JObject [(''_Type'', JType T_List), (''_ListType'', JType t), (''_ListSize'', JCount (length vs)),
       (''_Stub'', JBool stub), (''_Content'', JArray (map parsed vs))]"
| "parsed (V_Map kt vt ms) =
     JObject [(''_Type'', JType T_Map), (''_KeyType'', JType kt), (''_ValueType'', JType vt),
       (''_MapSize'', JCount (length ms)),
       (''_Content'', JObject (map (\<lambda>(k, v). (wire_key kt k, parsed v)) ms))]"

text \<open>
  The values the parser recovers: integers of at most 55 bits, counts below 256, lists of
  integers, strings or structures that are neither empty nor stubs, maps of such values, unions
  of one field (none when unset), no empty labels in a structure.
\<close>

definition listable :: "tdf_type \<Rightarrow> bool" where
  "listable t \<longleftrightarrow> t \<in> {T_Integer, T_String, T_Struct}"

fun parsable :: "tdf \<Rightarrow> bool" where
  "parsable (V_Integer n) = (n < 2 ^ 55)"
| "parsable (V_String s) = (length s < 2 ^ 55 - 1)"
| "parsable (V_Binary s) = (length s < 2 ^ 55)"
| "parsable (V_IntegerList ns) = (length ns < 256 \<and> (\<forall>n \<in> set ns. n < 2 ^ 55))"
| "parsable (V_ObjectType x y) = (x < 2 ^ 55 \<and> y < 2 ^ 55)"
| "parsable (V_ObjectId x y z) = (x < 2 ^ 55 \<and> y < 2 ^ 55 \<and> z < 2 ^ 55)"
| "parsable (V_Struct fs) = (\<forall>(l, v) \<in> set fs. l \<noteq> [] \<and> parsable v)"
| "parsable (V_Union m fs) =
     (m < 256 \<and> length fs = (if m = 0x7F then 0 else 1) \<and> (\<forall>(l, v) \<in> set fs. parsable v))"
| "parsable (V_List t stub vs) =
     (\<not> stub \<and> vs \<noteq> [] \<and> length vs < 256 \<and> listable t \<and> (\<forall>v \<in> set vs. tag v = t \<and> parsable v))"
| "parsable (V_Map kt vt ms) =
     (length ms < 256 \<and> listable vt \<and> kt \<in> {T_Integer, T_String} \<and>
      (\<forall>(k, v) \<in> set ms. tag v = vt \<and> parsable v \<and>
        (if kt = T_Integer then \<exists>n. stoull k = Some n \<and> n < 2 ^ 55 else length k < 2 ^ 55 - 1)))"

subsection \<open>Headers and scalars\<close>

lemma length_header_bytes [simp]: "length (header_bytes l t) = 4"
  by (simp add: header_bytes_def)

lemma reads_header:
  "src.reads ReadHeader (header_bytes l t) \<lparr>label = wire_label l, htype = type_code t\<rparr>"
proof -
  define c where "c = CompressLabel l"
  have c: "take_bit 24 c = c"
  proof (rule bit_word_eqI)
    fix n show "bit (take_bit 24 c) n = bit c n"
      unfolding c_def CompressLabel_letters by (auto simp: bit_simps bit_bswap32)
  qed
  have t: "drop_bit 24 (push_bit 24 (type_code t)) = type_code t"
    "type_code t AND 0xFF = type_code t"
    by (cases t; simp add: type_code_def)+
  have m: "(x :: u32) AND 0x00FFFFFF = take_bit 24 x" for x
    by (simp add: take_bit_eq_mask mask_eq_exp_minus_1)
  have "drop_bit 24 c = 0" using c by (metis drop_bit_take_bit diff_self_eq_0 take_bit_0)
  then have "drop_bit 24 (c OR push_bit 24 (type_code t)) = type_code t"
    by (simp add: t del: push_bit_and push_bit_or)
  moreover have "take_bit 24 (c OR push_bit 24 (type_code t)) = c"
    using c by (simp add: take_bit_push_bit)
  ultimately have "\<lparr>label = DecompressLabel ((c OR push_bit 24 (type_code t)) AND 0x00FFFFFF),
      htype = drop_bit 24 (c OR push_bit 24 (type_code t))\<rparr> = \<lparr>label = wire_label l, htype = type_code t\<rparr>"
    by (simp only: m c_def DecompressLabel_CompressLabel wire_label_def)
  with src.reads_map [OF reads_le [where w = "c OR push_bit 24 (type_code t)" and n = 4],
      of "\<lambda>v. \<lparr>label = DecompressLabel (v AND 0x00FFFFFF), htype = drop_bit 24 v\<rparr>"]
  show ?thesis by (simp add: ReadHeader_def [abs_def] header_bytes_def c_def)
qed

lemma header_first_byte:
  assumes "l \<noteq> []"
  shows "\<exists>x xs. header_bytes l t = x # xs \<and> x \<noteq> 0 \<and> x \<noteq> 2"
proof -
  let ?w = "CompressLabel l OR push_bit 24 (type_code t)"
  have s: "bit (sextet c) 5" for c
    using bit_exp_iff [of 5 5, where 'a = "32 word"] by (simp add: sextet_def bit_or_iff)
  have "header_bytes l t = ucast ?w # tl (header_bytes l t)"
    by (simp add: header_bytes_def bytes_le_def upt_small)
  moreover have "bit (CompressLabel l) 7"
    unfolding CompressLabel_letters using assms s
    by (simp add: bit_drop_bit_eq bit_bswap32 label_word_def letters_def bit_or_iff bit_push_bit_iff)
  then have "bit (ucast ?w :: u8) 7" by (simp add: bit_simps)
  then have "(ucast ?w :: u8) \<noteq> 0 \<and> (ucast ?w :: u8) \<noteq> 2"
  proof -
    have "\<not> bit (0 :: u8) 7" "\<not> bit (2 :: u8) 7" by code_simp+
    then show "bit x 7 \<Longrightarrow> x \<noteq> 0 \<and> x \<noteq> 2" for x :: u8 by auto
  qed
  ultimately show ?thesis by blast
qed

lemma reads_chars:
  assumes "length s < 2 ^ 55"
  shows "src.reads (read_chars (length s)) (map char_byte s) s"
proof (rule src.readsI)
  fix b c assume a: "at b (map char_byte s) c"
  then obtain r where r: "remaining b = map char_byte s @ r" by (auto simp: at_def)
  have "length s \<le> string_max_size" using assms by (simp add: string_max_size_def)
  with impl_read_remaining [OF r, of 1 "length s"] a show "read_chars (length s) b = Some (s, c)"
    by (simp add: read_chars_def at_def)
qed

lemma unat_count: "n < 2 ^ 55 \<Longrightarrow> unat (of_nat n :: u64) = n"
  by (simp add: unat_of_nat)

lemma count_less: "n < 2 ^ 55 \<Longrightarrow> (of_nat n :: u64) < 2 ^ 55"
  by (simp add: word_less_nat_alt unat_count)

lemma reads_string:
  assumes "length s < 2 ^ 55 - 1"
  shows "src.reads read_string (string_bytes s) s"
proof -
  let ?n = "of_nat (length s) :: u64"
  have n: "?n + 1 < 2 ^ 55" using count_less [of "Suc (length s)"] assms by (simp add: add.commute)
  have "src.reads (\<lambda>b. if ?n > 0 then read_chars (unat ?n) b else Some ([], b)) (map char_byte s) s"
  proof (cases "s = []")
    case True
    then show ?thesis using src.reads_return by simp
  next
    case False
    then have "?n > 0" using unat_count [of "length s"] assms by (simp add: word_gt_0 unat_eq_zero [symmetric])
    then show ?thesis using reads_chars [of s] assms unat_count [of "length s"] by simp
  qed
  from src.reads_bind [OF this, of "\<lambda>str b. Some (str, skip_bytes 1 b)" "[0]" s]
    reads_skip [of "[0]" 1 s]
  have "src.reads (\<lambda>b. do { (str, b) \<leftarrow> (if ?n > 0 then read_chars (unat ?n) b else Some ([], b));
      Some (str, skip_bytes 1 b) }) (map char_byte s @ [0]) s" by simp
  then show ?thesis
    unfolding read_string_def [abs_def] string_bytes_def Let_def
    by (intro src.reads_bind [OF reads_tdf_integer [OF n]]) (simp only: add_diff_cancel_right')
qed

lemma reads_ReadInteger: "n < 2 ^ 55 \<Longrightarrow> src.reads ReadInteger (tdf_int n) (JUint n)"
  unfolding ReadInteger_def [abs_def] read_integer_def
  by (rule src.reads_map [OF reads_tdf_integer])

lemma reads_ReadString: "length s < 2 ^ 55 - 1 \<Longrightarrow> src.reads ReadString (string_bytes s) (JString s)"
  unfolding ReadString_def [abs_def] by (rule src.reads_map [OF reads_string])

lemma reads_ReadBlob:
  assumes "length s < 2 ^ 55"
  shows "src.reads ReadBlob (tdf_int (of_nat (length s)) @ map char_byte s) (JString s)"
proof -
  let ?n = "of_nat (length s) :: u64"
  have "src.reads (\<lambda>b. if ?n > 0 then read_chars (unat ?n) b else Some ([], b)) (map char_byte s) s"
  proof (cases "s = []")
    case True
    then show ?thesis using src.reads_return by simp
  next
    case False
    then have "?n > 0" using unat_count [of "length s"] assms by (simp add: word_gt_0 unat_eq_zero [symmetric])
    then show ?thesis using reads_chars [OF assms] unat_count [OF assms] by simp
  qed
  from src.reads_map [OF this, of JString]
  show ?thesis
    unfolding ReadBlob_def [abs_def] read_integer_def
    by (intro src.reads_bind [OF reads_tdf_integer [OF count_less [OF assms]]]) simp
qed

lemma reads_times:
  assumes "\<And>x a. x \<in> set xs \<Longrightarrow> src.reads (f a) (bs x) (h x a)"
  shows "src.reads (times (length xs) f a) (concat (map bs xs)) (fold h xs a)"
  using assms
proof (induction xs arbitrary: a)
  case Nil
  then show ?case using src.reads_return by simp
next
  case (Cons x xs)
  have "src.reads (\<lambda>b. do { (a, b) \<leftarrow> f a b; times (length xs) f a b })
      (bs x @ concat (map bs xs)) (fold h xs (h x a))"
    by (rule src.reads_bind) (use Cons in auto)
  then show ?case by simp
qed

lemma unat_small_count: "n < 256 \<Longrightarrow> unat (of_nat n :: u8) = n"
  by (simp add: unat_of_nat)

lemma JCount_byte: "n < 256 \<Longrightarrow> JUint (ucast (of_nat n :: u8)) = JCount n"
proof -
  assume "n < 256"
  then have "unat (ucast (of_nat n :: u8) :: u64) = unat (of_nat n :: u64)"
    by (simp add: unsigned_ucast_eq unsigned_of_nat take_bit_eq_mod)
  then show ?thesis unfolding JCount_def by (simp add: word_unat_eq_iff)
qed

lemma JType_byte: "JUint (ucast (ucast (type_code t) :: u8)) = JType t"
  by (cases t) (simp_all add: JType_def type_code_def)

lemma type_byte_eq: "(ucast (type_code s) :: u8) = ucast (type_code t) \<longleftrightarrow> s = t"
  by (cases s; cases t) (simp_all add: type_code_def)

lemma AddObject_object:
  "json_laws J \<Longrightarrow> AddObject J k v (JObject ms) = JObject (put_member k v ms)"
  by (simp add: AddObject_def put_member_def json_laws_def Let_def)

lemma fold_AddObject:
  "json_laws J \<Longrightarrow> fold (\<lambda>(l, v). AddObject J (wire_label l) v) fs (JObject ms)
     = JObject (fold (\<lambda>(l, v). put_member (wire_label l) v) fs ms)"
  by (induction fs arbitrary: ms) (auto simp: AddObject_object)

subsection \<open>Structures\<close>

text \<open>A field, as the reader of nested values sees it.\<close>

definition field_reads :: "jsonlib \<Rightarrow> (jval \<Rightarrow> jval parse) \<Rightarrow> string \<times> tdf \<Rightarrow> bool" where
  "field_reads J rv f \<longleftrightarrow> (\<forall>p. src.reads (rv p) (header_bytes (fst f) (tag (snd f)) @ tdf_bytes (snd f))
     (AddObject J (wire_label (fst f)) (parsed (snd f)) p))"

lemma ReadMembers_loop:
  assumes "\<And>f. f \<in> set fs \<Longrightarrow> field_reads J rv f \<and> fst f \<noteq> []" and "length fs < k"
    and "at b (fields_bytes fs @ [0]) c"
  shows "do { (v, b) \<leftarrow> ReadMembers k rv p b; Some (v, skip_bytes 1 b) } =
    Some (fold (\<lambda>(l, v). AddObject J (wire_label l) (parsed v)) fs p, c)"
  using assms
proof (induction fs arbitrary: p k b)
  case Nil
  then obtain m where k: "k = Suc m" by (cases k) auto
  from Nil have "at b [0] c" by (simp add: fields_bytes_def)
  from at_peek [OF this] src.readsD [OF reads_skip [of "[0]" 1 p] this] show ?case by (simp add: k)
next
  case (Cons f fs)
  obtain l v where f: "f = (l, v)" by (cases f)
  obtain m where k: "k = Suc m" using Cons.prems(2) by (cases k) auto
  obtain x xs where h: "header_bytes l (tag v) = x # xs" "x \<noteq> 0"
    using header_first_byte [of l "tag v"] Cons.prems(1) [of f] by (auto simp: f)
  have "at b ((header_bytes l (tag v) @ tdf_bytes v) @ (fields_bytes fs @ [0])) c"
    using Cons.prems(3) by (simp add: f fields_bytes_def)
  then obtain d where d: "at b (header_bytes l (tag v) @ tdf_bytes v) d" "at d (fields_bytes fs @ [0]) c"
    using at_split by blast
  have "peek_u8 b = Some x" using d(1) by (intro at_peek) (simp add: h)
  moreover have "rv p b = Some (AddObject J (wire_label l) (parsed v) p, d)"
    using Cons.prems(1) [of f] d(1) by (auto simp: field_reads_def f intro: src.readsD)
  moreover have "do { (v, b) \<leftarrow> ReadMembers m rv (AddObject J (wire_label l) (parsed v) p) d;
      Some (v, skip_bytes 1 b) } =
    Some (fold (\<lambda>(l, v). AddObject J (wire_label l) (parsed v)) fs (AddObject J (wire_label l) (parsed v) p), c)"
    by (rule Cons.IH) (use Cons.prems d(2) k in auto)
  ultimately show ?case using h(2) by (simp add: f k)
qed

lemma reads_ReadStruct:
  assumes J: "json_laws J" and "\<And>f. f \<in> set fs \<Longrightarrow> field_reads J rv f \<and> fst f \<noteq> []"
    and "length fs < k"
  shows "src.reads (ReadStruct k J rv) (tdf_bytes (V_Struct fs)) (parsed (V_Struct fs))"
proof (rule src.readsI)
  fix b c assume "at b (tdf_bytes (V_Struct fs)) c"
  then have "at b (fields_bytes fs @ [0]) c" by (simp add: fields_bytes_def)
  from ReadMembers_loop [OF assms(2,3) this, where p = "JObject [(''_Type'', JType T_Struct)]"]
  have "ReadStruct k J rv b = Some (fold (\<lambda>(l, v). AddObject J (wire_label l) (parsed v)) fs
      (JObject [(''_Type'', JType T_Struct)]), c)"
    by (simp add: ReadStruct_def J)
  moreover have "fold (\<lambda>(l, v). AddObject J (wire_label l) (parsed v)) fs p =
      fold (\<lambda>(l, v). AddObject J (wire_label l) v) (map (\<lambda>(l, v). (l, parsed v)) fs) p" for p
    by (induction fs arbitrary: p) auto
  ultimately show "ReadStruct k J rv b = Some (parsed (V_Struct fs), c)"
    by (simp add: fold_AddObject [OF J])
qed

subsection \<open>Every type\<close>

text \<open>\<open>enough P\<close>: \<open>P\<close> holds for all sufficiently large bounds.\<close>

definition enough :: "(nat \<Rightarrow> bool) \<Rightarrow> bool" where
  "enough P \<longleftrightarrow> (\<exists>n0. \<forall>n \<ge> n0. P n)"

lemma enough_mono: "enough P \<Longrightarrow> (\<And>n. P n \<Longrightarrow> Q n) \<Longrightarrow> enough Q"
  by (auto simp: enough_def)

lemma enough_conj: "enough P \<Longrightarrow> enough Q \<Longrightarrow> enough (\<lambda>n. P n \<and> Q n)"
  unfolding enough_def by (metis max.bounded_iff)

lemma enough_all: "(\<And>n. P n) \<Longrightarrow> enough P"
  by (simp add: enough_def)

lemma enough_greater: "enough (\<lambda>n. k < n)"
  unfolding enough_def by (rule exI [of _ "Suc k"]) simp

lemma enough_Suc: "enough P \<Longrightarrow> enough (\<lambda>n. \<exists>m. n = Suc m \<and> P m)"
  unfolding enough_def by (metis Suc_le_D Suc_le_mono)

lemma enough_ball: "(\<And>x. x \<in> set xs \<Longrightarrow> enough (P x)) \<Longrightarrow> enough (\<lambda>n. \<forall>x \<in> set xs. P x n)"
  by (induction xs) (auto intro: enough_all enough_conj)

definition value_reads :: "nat \<Rightarrow> jsonlib \<Rightarrow> tdf \<Rightarrow> bool" where
  "value_reads n J v \<longleftrightarrow> (\<exists>rd. ReadTyped n J (ReadValue n J) (type_code (tag v)) = Some rd \<and>
     src.reads rd (tdf_bytes v) (parsed v))"

lemma tdf_int_nonempty: "tdf_int n \<noteq> []"
  by (simp add: tdf_int_def)

lemma tdf_bytes_nonempty: "tdf_bytes v \<noteq> []"
  by (cases v) (simp_all add: tdf_int_nonempty string_bytes_def)

lemma field_reads_value:
  assumes "value_reads n J v"
  shows "field_reads J (ReadValue (Suc n) J) (l, v)"
  unfolding field_reads_def
proof (intro allI src.readsI)
  fix p b c
  assume "at b (header_bytes (fst (l, v)) (tag (snd (l, v))) @ tdf_bytes (snd (l, v))) c"
  then obtain d where d: "at b (header_bytes l (tag v)) d" "at d (tdf_bytes v) c"
    using at_split by fastforce
  from assms obtain rd where "ReadTyped n J (ReadValue n J) (type_code (tag v)) = Some rd"
    "rd d = Some (parsed v, c)" unfolding value_reads_def using d(2) by (auto dest: src.readsD)
  then show "ReadValue (Suc n) J p b = Some (AddObject J (wire_label (fst (l, v))) (parsed (snd (l, v))) p, c)"
    using src.readsD [OF reads_header d(1)] at_not_eof [OF d(2) tdf_bytes_nonempty] by simp
qed

lemma item_reader:
  assumes "listable t" and "ReadTyped n J rv (type_code t) = Some rd"
  shows "GetMapItem n J rv (ucast (type_code t)) = rd"
  using assms
  by (auto simp: listable_def ReadTyped_def GetMapItem_def [abs_def] type_code_def split: if_splits)

lemma reads_item:
  assumes "listable t" and "tag v = t" and "value_reads n J v"
  shows "src.reads (GetMapItem n J (ReadValue n J) (ucast (type_code t))) (tdf_bytes v) (parsed v)"
proof -
  from assms(3) obtain rd where rd: "ReadTyped n J (ReadValue n J) (type_code t) = Some rd"
    "src.reads rd (tdf_bytes v) (parsed v)" by (auto simp: value_reads_def assms(2))
  show ?thesis unfolding item_reader [OF assms(1) rd(1)] by (rule rd(2))
qed

lemma ReadItem_listable:
  assumes "json_laws J" and "listable t"
  shows "ReadItem n J rv (ucast (type_code t)) vs =
    (\<lambda>b. do { (v, b) \<leftarrow> GetMapItem n J rv (ucast (type_code t)) b; Some (vs @ [v], b) })"
  using assms by (intro ext) (auto simp: listable_def ReadItem_def GetMapItem_def type_code_def json_laws_def)

lemma fold_snoc: "fold (\<lambda>x vs. vs @ [g x]) xs vs = vs @ map g xs"
  by (induction xs arbitrary: vs) simp_all

lemma reads_ReadIntegerList:
  assumes J: "json_laws J" and "length ns < 256" and "\<And>n. n \<in> set ns \<Longrightarrow> n < 2 ^ 55"
  shows "src.reads (ReadIntegerList J) (tdf_bytes (V_IntegerList ns)) (parsed (V_IntegerList ns))"
proof -
  have f: "src.reads (\<lambda>b. do { (v, b) \<leftarrow> ReadInteger b; Some (JPushBack J vs v, b) }) (tdf_int n) (vs @ [JUint n])"
    if "n \<in> set ns" for n vs
    using src.reads_map [OF reads_ReadInteger [OF assms(3) [OF that]], of "JPushBack J vs"] J
    by (simp add: json_laws_def)
  note t = reads_times [of ns "\<lambda>vs b. do { (v, b) \<leftarrow> ReadInteger b; Some (JPushBack J vs v, b) }"
      tdf_int "\<lambda>n vs. vs @ [JUint n]" "[]", OF f]
  have t': "src.reads (times (unat (of_nat (length ns) :: u8))
      (\<lambda>vs b. do { (v, b) \<leftarrow> ReadInteger b; Some (JPushBack J vs v, b) }) [])
      (concat (map tdf_int ns)) (map JUint ns)"
    using t unat_small_count [OF assms(2)] by (simp add: fold_snoc)
  from src.reads_map [OF t', of "\<lambda>vs. new_object J [(''_Type'', JType T_IntegerList),
      (''_ListSize'', JCount (length ns)), (''_Content'', JArray vs)]"]
  have "src.reads (\<lambda>b. do { (vs, b) \<leftarrow> times (unat (of_nat (length ns) :: u8))
      (\<lambda>vs b. do { (v, b) \<leftarrow> ReadInteger b; Some (JPushBack J vs v, b) }) [] b;
      Some (new_object J [(''_Type'', JType T_IntegerList), (''_ListSize'', JUint (ucast (of_nat (length ns) :: u8))),
        (''_Content'', JArray vs)], b) }) (concat (map tdf_int ns)) (parsed (V_IntegerList ns))"
    by (simp add: JCount_byte [OF assms(2)] J)
  moreover have "tdf_bytes (V_IntegerList ns) = [of_nat (length ns)] @ concat (map tdf_int ns)"
    using assms(2) by simp
  ultimately show ?thesis
    unfolding ReadIntegerList_def [abs_def] by (simp only:) (rule src.reads_bind [OF reads_u8])
qed

lemma struct_first_byte:
  assumes "tag v = T_Struct" and "parsable v"
  shows "\<exists>x xs. tdf_bytes v = x # xs \<and> x \<noteq> 2"
proof -
  obtain fs where v: "v = V_Struct fs" using assms(1) by (cases v) auto
  show ?thesis
  proof (cases fs)
    case (Cons f gs)
    obtain l w where f: "f = (l, w)" by (cases f)
    have "l \<noteq> []" using assms(2) by (simp add: v Cons f)
    from header_first_byte [OF this, of "tag w"] show ?thesis by (auto simp: v Cons f)
  qed (simp add: v)
qed

lemma reads_ReadList:
  assumes J: "json_laws J" and ok: "parsable (V_List t stub vs)"
    and vs: "\<And>v. v \<in> set vs \<Longrightarrow> value_reads n J v"
  shows "src.reads (ReadList n J (ReadValue n J)) (tdf_bytes (V_List t stub vs)) (parsed (V_List t stub vs))"
proof -
  let ?t = "ucast (type_code t) :: u8" and ?k = "of_nat (length vs) :: u8"
  have len: "length vs < 256" and t: "listable t" and stub: "\<not> stub" and ne: "vs \<noteq> []"
    and each: "\<And>v. v \<in> set vs \<Longrightarrow> tag v = t \<and> parsable v"
    using ok by auto
  have f: "src.reads (ReadItem n J (ReadValue n J) ?t ws) (tdf_bytes v) (ws @ [parsed v])" if "v \<in> set vs" for v ws
    unfolding ReadItem_listable [OF J t]
    by (rule src.reads_map, rule reads_item [OF t]) (use each vs that in auto)
  have "src.reads (times (length vs) (ReadItem n J (ReadValue n J) ?t) []) (concat (map tdf_bytes vs)) (map parsed vs)"
    using reads_times [of vs "ReadItem n J (ReadValue n J) ?t" tdf_bytes "\<lambda>v ws. ws @ [parsed v]" "[]", OF f]
    by (simp add: fold_snoc)
  then have items: "src.reads (times (unat ?k) (ReadItem n J (ReadValue n J) ?t) []) (concat (map tdf_bytes vs)) (map parsed vs)"
    using unat_small_count [OF len] by simp
  have bytes: "tdf_bytes (V_List t stub vs) = [?t] @ [?k] @ concat (map tdf_bytes vs)"
    using stub len by simp
  have first: "\<exists>x xs. concat (map tdf_bytes vs) = x # xs \<and> \<not> (x = 2 \<and> ?t = ucast (type_code T_Struct))"
  proof -
    obtain v ws where v: "vs = v # ws" using ne by (cases vs) auto
    obtain x xs where x: "tdf_bytes v = x # xs" using tdf_bytes_nonempty [of v] by (cases "tdf_bytes v") auto
    have "x \<noteq> 2" if "t = T_Struct"
      using struct_first_byte [of v] each [of v] that by (auto simp: v x)
    then show ?thesis by (auto simp: v x type_byte_eq)
  qed
  then obtain x xs where x: "concat (map tdf_bytes vs) = x # xs"
    "\<not> (x = 2 \<and> ?t = ucast (type_code T_Struct))" by blast
  show ?thesis
    unfolding bytes ReadList_def [abs_def]
  proof (rule src.reads_bind [OF reads_u8], rule src.reads_bind [OF reads_u8], rule src.readsI)
    fix b c assume a: "at b (concat (map tdf_bytes vs)) c"
    have "peek_u8 b = Some x" using a by (intro at_peek) (simp add: x(1))
    with x(2) src.readsD [OF items a] show "(let fields = [(''_Type'', JType T_List), (''_ListType'', JUint (ucast ?t)),
                   (''_ListSize'', JUint (ucast ?k))] in do {
     x \<leftarrow> peek_u8 b;
     if x = 0x02 \<and> ?t = ucast (type_code T_Struct) then do {
       (content, b) \<leftarrow> ReadMembers n (ReadValue n J) (JArray []) (skip_bytes 1 b);
       Some (new_object J (fields @ [(''_Stub'', JBool True), (''_Content'', content)]), skip_bytes 1 b)
     } else do {
       (vs, b) \<leftarrow> times (unat ?k) (ReadItem n J (ReadValue n J) ?t) [] b;
       Some (new_object J (fields @ [(''_Stub'', JBool False), (''_Content'', JArray vs)]), b)
     } }) = Some (parsed (V_List t stub vs), c)"
      using J stub len by (auto simp add: JType_byte JCount_byte Let_def type_byte_eq)
  qed
qed

lemma reads_ReadEntry:
  assumes J: "json_laws J" and kt: "kt \<in> {T_Integer, T_String}" and vt: "listable vt"
    and v: "tag v = vt" "value_reads n J v"
    and k: "if kt = T_Integer then \<exists>n. stoull k = Some n \<and> n < 2 ^ 55 else length k < 2 ^ 55 - 1"
  shows "src.reads (ReadEntry n J (ReadValue n J) (ucast (type_code kt)) (ucast (type_code vt)) ms)
     (key_bytes kt k @ tdf_bytes v) (ms @ [(wire_key kt k, parsed v)])"
proof (rule src.readsI)
  let ?kt = "ucast (type_code kt) :: u8" and ?vt = "ucast (type_code vt) :: u8"
  fix b c assume "at b (key_bytes kt k @ tdf_bytes v) c"
  then obtain d where d: "at b (key_bytes kt k) d" "at d (tdf_bytes v) c" using at_split by blast
  have item: "GetMapItem n J (ReadValue n J) ?vt d = Some (parsed v, c)"
    by (rule src.readsD [OF reads_item [OF vt v] d(2)])
  show "ReadEntry n J (ReadValue n J) ?kt ?vt ms b = Some (ms @ [(wire_key kt k, parsed v)], c)"
  proof (cases "kt = T_Integer")
    case True
    with k obtain m where m: "stoull k = Some m" "m < 2 ^ 55" by auto
    have "ReadInteger b = Some (JUint m, d)"
      using d(1) True m by (intro src.readsD [OF reads_ReadInteger]) (simp_all add: key_bytes_def)
    then have "GetMapItem n J (ReadValue n J) (ucast (type_code T_Integer)) b = Some (JUint m, d)"
      by (simp add: GetMapItem_def)
    then show ?thesis
      using item J True m by (simp add: ReadEntry_def wire_key_def json_laws_def)
  next
    case False
    have "ReadString b = Some (JString k, d)"
      using d(1) False k by (intro src.readsD [OF reads_ReadString]) (simp_all add: key_bytes_def)
    then have "GetMapItem n J (ReadValue n J) (ucast (type_code T_String)) b = Some (JString k, d)"
      by (simp add: GetMapItem_def type_byte_eq)
    then show ?thesis
      using item J False kt by (simp add: ReadEntry_def wire_key_def json_laws_def type_byte_eq)
  qed
qed

lemma reads_ReadMap:
  assumes J: "json_laws J" and ok: "parsable (V_Map kt vt ms)"
    and vs: "\<And>k v. (k, v) \<in> set ms \<Longrightarrow> value_reads n J v"
  shows "src.reads (ReadMap n J (ReadValue n J)) (tdf_bytes (V_Map kt vt ms)) (parsed (V_Map kt vt ms))"
proof -
  let ?kt = "ucast (type_code kt) :: u8" and ?vt = "ucast (type_code vt) :: u8"
    and ?k = "of_nat (length ms) :: u8"
  let ?f = "ReadEntry n J (ReadValue n J) ?kt ?vt"
  let ?b = "\<lambda>(k, v). key_bytes kt k @ tdf_bytes v" and ?g = "\<lambda>(k, v). (wire_key kt k, parsed v)"
  have len: "length ms < 256" using ok by simp
  have f: "src.reads (?f es) (?b x) (es @ [?g x])" if "x \<in> set ms" for x es
  proof -
    obtain k v where x: "x = (k, v)" by (cases x)
    have "src.reads (?f es) (key_bytes kt k @ tdf_bytes v) (es @ [(wire_key kt k, parsed v)])"
      by (rule reads_ReadEntry [OF J]) (use ok that vs [of k v] x in auto)
    then show ?thesis by (simp add: x)
  qed
  have "src.reads (times (unat ?k) ?f []) (concat (map ?b ms)) (map ?g ms)"
    using reads_times [of ms ?f ?b "\<lambda>x es. es @ [?g x]" "[]", OF f] unat_small_count [OF len]
    by (simp add: fold_snoc)
  from src.reads_map [OF this, of "\<lambda>ms'. new_object J [(''_Type'', JType T_Map), (''_KeyType'', JUint (ucast ?kt)),
       (''_ValueType'', JUint (ucast ?vt)), (''_MapSize'', JUint (ucast ?k)), (''_Content'', JObject ms')]"]
  have e: "src.reads (\<lambda>b. do { (ms', b) \<leftarrow> times (unat ?k) ?f [] b;
      Some (new_object J [(''_Type'', JType T_Map), (''_KeyType'', JUint (ucast ?kt)),
       (''_ValueType'', JUint (ucast ?vt)), (''_MapSize'', JUint (ucast ?k)), (''_Content'', JObject ms')], b) })
      (concat (map ?b ms)) (parsed (V_Map kt vt ms))"
    by (simp add: J JType_byte JCount_byte [OF len])
  have bytes: "tdf_bytes (V_Map kt vt ms) = [?kt] @ [?vt] @ [?k] @ concat (map ?b ms)" by simp
  show ?thesis
    unfolding bytes ReadMap_def [abs_def]
    by (rule src.reads_bind [OF reads_u8], rule src.reads_bind [OF reads_u8],
        rule src.reads_bind [OF reads_u8], rule e)
qed

lemma reads_ReadUnion:
  assumes J: "json_laws J" and ok: "parsable (V_Union m fs)"
    and fs: "\<And>f. f \<in> set fs \<Longrightarrow> field_reads J rv f"
  shows "src.reads (ReadUnion J rv) (tdf_bytes (V_Union m fs)) (parsed (V_Union m fs))"
proof -
  have m: "m < 256" and len: "length fs = (if m = 0x7F then 0 else 1)" using ok by simp_all
  have mb: "ucast (ucast m :: u8) = m"
  proof (rule bit_word_eqI)
    fix i have "take_bit 8 m = m" using m less_2p_iff_take_bit [of 8 m] by simp
    then have "bit m i \<Longrightarrow> i < 8" by (metis bit_take_bit_iff)
    then show "bit (ucast (ucast m :: u8) :: u32) i = bit m i" by (auto simp: bit_simps)
  qed
  have mj: "ucast (ucast m :: u8) = (ucast m :: u64)"
    by (subst (2) mb [symmetric]) (rule bit_word_eqI, auto simp: bit_simps)
  have m7: "(ucast m :: u8) = 0x7F \<longleftrightarrow> m = 0x7F" using mb by auto
  let ?v = "JObject [(''_Type'', JType T_Union), (''_AddressMember'', JUint (ucast m))]"
  have body: "src.reads (\<lambda>b. if m \<noteq> 0x7F then rv ?v b else Some (?v, b))
      (if m = 0x7F then [] else fields_bytes fs) (parsed (V_Union m fs))"
  proof (cases "m = 0x7F")
    case True
    then show ?thesis using len src.reads_return by simp
  next
    case False
    then obtain l v where f: "fs = [(l, v)]" using len by (cases fs) auto
    have "src.reads (rv ?v) (header_bytes l (tag v) @ tdf_bytes v) (AddObject J (wire_label l) (parsed v) ?v)"
      using fs [of "(l, v)"] unfolding f field_reads_def by simp
    with False show ?thesis by (simp add: f fields_bytes_def AddObject_object [OF J])
  qed
  have bytes: "tdf_bytes (V_Union m fs) = [ucast m] @ (if m = 0x7F then [] else fields_bytes fs)"
    by (simp add: fields_bytes_def)
  show ?thesis
    unfolding bytes ReadUnion_def [abs_def]
    by (rule src.reads_bind [OF reads_u8]) (use body in \<open>simp add: J mj m7 Let_def\<close>)
qed

lemma reads_ReadObjectType:
  assumes "json_laws J" and "x < 2 ^ 55" and "y < 2 ^ 55"
  shows "src.reads (ReadObjectType J) (tdf_bytes (V_ObjectType x y)) (parsed (V_ObjectType x y))"
  unfolding ReadObjectType_def [abs_def] tdf_bytes.simps
  by (rule src.reads_bind [OF reads_ReadInteger [OF assms(2)]])
    (use src.reads_map [OF reads_ReadInteger [OF assms(3)]] assms(1) in simp)

lemma reads_ReadObjectId:
  assumes "json_laws J" and "x < 2 ^ 55" and "y < 2 ^ 55" and "z < 2 ^ 55"
  shows "src.reads (ReadObjectId J) (tdf_bytes (V_ObjectId x y z)) (parsed (V_ObjectId x y z))"
  unfolding ReadObjectId_def [abs_def] tdf_bytes.simps
  by (rule src.reads_bind [OF reads_ReadInteger [OF assms(2)]],
      rule src.reads_bind [OF reads_ReadInteger [OF assms(3)]])
    (use src.reads_map [OF reads_ReadInteger [OF assms(4)]] assms(1) in simp)

lemma parsable_reads:
  assumes J: "json_laws J"
  shows "parsable v \<Longrightarrow> enough (\<lambda>n. value_reads n J v)"
proof (induction v)
  case (V_ObjectType x y)
  then show ?case
    using reads_ReadObjectType [OF J, of x y] by (intro enough_all) (simp add: value_reads_def ReadTyped_def)
next
  case (V_ObjectId x y z)
  then show ?case
    using reads_ReadObjectId [OF J, of x y z] by (intro enough_all) (simp add: value_reads_def ReadTyped_def)
next
  case (V_Integer n)
  then show ?case
    using reads_ReadInteger [of n] by (intro enough_all) (simp add: value_reads_def ReadTyped_def)
next
  case (V_String s)
  then show ?case
    using reads_ReadString [of s] by (intro enough_all) (simp add: value_reads_def ReadTyped_def)
next
  case (V_Binary s)
  then show ?case
    using reads_ReadBlob [of s] by (intro enough_all) (simp add: value_reads_def ReadTyped_def)
next
  case (V_IntegerList ns)
  then show ?case
    using reads_ReadIntegerList [OF J, of ns] by (intro enough_all) (simp add: value_reads_def ReadTyped_def)
next
  case (V_Struct fs)
  have "enough (\<lambda>n. \<forall>f \<in> set fs. value_reads n J (snd f))"
    by (rule enough_ball) (use V_Struct in fastforce)
  from enough_conj [OF enough_Suc [OF this] enough_greater [of "length fs"]] show ?case
  proof (rule enough_mono)
    fix n assume n: "(\<exists>m. n = Suc m \<and> (\<forall>f \<in> set fs. value_reads m J (snd f))) \<and> length fs < n"
    have "field_reads J (ReadValue n J) f \<and> fst f \<noteq> []" if "f \<in> set fs" for f
      using n that V_Struct.prems field_reads_value [of _ J "snd f" "fst f"] by fastforce
    from reads_ReadStruct [OF J this, where k = n] n show "value_reads n J (V_Struct fs)"
      by (simp add: value_reads_def ReadTyped_def)
  qed
next
  case (V_Union m fs)
  have "enough (\<lambda>n. \<forall>f \<in> set fs. value_reads n J (snd f))"
    by (rule enough_ball) (use V_Union in fastforce)
  then have "enough (\<lambda>n. \<exists>m. n = Suc m \<and> (\<forall>f \<in> set fs. value_reads m J (snd f)))" by (rule enough_Suc)
  then show ?case
  proof (rule enough_mono)
    fix n assume n: "\<exists>m. n = Suc m \<and> (\<forall>f \<in> set fs. value_reads m J (snd f))"
    have "field_reads J (ReadValue n J) f" if "f \<in> set fs" for f
      using n that field_reads_value [of _ J "snd f" "fst f"] by fastforce
    from reads_ReadUnion [OF J V_Union.prems this] show "value_reads n J (V_Union m fs)"
      by (simp add: value_reads_def ReadTyped_def)
  qed
next
  case (V_List t stub vs)
  have "enough (\<lambda>n. \<forall>v \<in> set vs. value_reads n J v)"
    by (rule enough_ball) (use V_List in auto)
  then show ?case
    by (rule enough_mono) (use reads_ReadList [OF J V_List.prems] in \<open>simp add: value_reads_def ReadTyped_def\<close>)
next
  case (V_Map kt vt ms)
  have "enough (\<lambda>n. \<forall>f \<in> set ms. value_reads n J (snd f))"
    by (rule enough_ball) (use V_Map in fastforce)
  then show ?case
  proof (rule enough_mono)
    fix n assume n: "\<forall>f \<in> set ms. value_reads n J (snd f)"
    have "value_reads n J v" if "(k, v) \<in> set ms" for k v using n that by auto
    from reads_ReadMap [OF J V_Map.prems this] show "value_reads n J (V_Map kt vt ms)"
      by (simp add: value_reads_def ReadTyped_def)
  qed
qed

subsection \<open>Documents\<close>

lemma reads_document:
  assumes "\<And>f. f \<in> set fs \<Longrightarrow> field_reads J (ReadValue n J) f" and "length fs \<le> k"
    and "at b (fields_bytes fs) c" and "mPosition b + length (fields_bytes fs) = mSize b"
  shows "ReadDocument k n J doc b = Some (fold (\<lambda>(l, v). AddObject J (wire_label l) (parsed v)) fs doc, c)"
  using assms
proof (induction fs arbitrary: k doc b)
  case Nil
  then have "c = b" "eof b" by (simp_all add: fields_bytes_def src.at_Nil eof_def)
  then show ?case by (cases k) simp_all
next
  case (Cons f fs)
  obtain l v where f: "f = (l, v)" by (cases f)
  obtain m where k: "k = Suc m" using Cons.prems(2) by (cases k) auto
  have "at b ((header_bytes l (tag v) @ tdf_bytes v) @ fields_bytes fs) c"
    using Cons.prems(3) by (simp add: f fields_bytes_def)
  then obtain d where d: "at b (header_bytes l (tag v) @ tdf_bytes v) d" "at d (fields_bytes fs) c"
    using at_split by blast
  have "\<not> eof b" using tdf_bytes_nonempty by (intro at_not_eof [OF d(1)]) simp
  moreover have "ReadValue n J doc b = Some (AddObject J (wire_label l) (parsed v) doc, d)"
    using Cons.prems(1) [of f] d(1) by (auto simp: field_reads_def f intro: src.readsD)
  moreover have "ReadDocument m n J (AddObject J (wire_label l) (parsed v) doc) d =
      Some (fold (\<lambda>(l, v). AddObject J (wire_label l) (parsed v)) fs (AddObject J (wire_label l) (parsed v) doc), c)"
    using Cons.prems k d Cons.prems(4)
    by (intro Cons.IH) (auto simp: f fields_bytes_def at_def)
  ultimately show ?case by (simp add: f k)
qed

lemma parser_reads_fields:
  assumes J: "json_laws J" and "\<And>l v. (l, v) \<in> set fs \<Longrightarrow> parsable v"
  shows "enough (\<lambda>n. \<forall>b c. at b (fields_bytes fs) c \<and> mPosition b + length (fields_bytes fs) = mSize b \<longrightarrow>
     Parser_Read n J b = Some (JObject (fold (\<lambda>(l, v). put_member (wire_label l) (parsed v)) fs []), c))"
proof -
  have "enough (\<lambda>n. \<forall>f \<in> set fs. value_reads n J (snd f))"
    by (rule enough_ball) (use parsable_reads [OF J] assms(2) in auto)
  from enough_conj [OF enough_Suc [OF this] enough_greater [of "length fs"]] show ?thesis
  proof (rule enough_mono)
    fix n assume n: "(\<exists>m. n = Suc m \<and> (\<forall>f \<in> set fs. value_reads m J (snd f))) \<and> length fs < n"
    have f: "field_reads J (ReadValue n J) f" if "f \<in> set fs" for f
      using n that field_reads_value [of _ J "snd f" "fst f"] by fastforce
    have "fold (\<lambda>(l, v). AddObject J (wire_label l) (parsed v)) gs (JObject ms) =
        JObject (fold (\<lambda>(l, v). put_member (wire_label l) (parsed v)) gs ms)" for gs ms
      by (induction gs arbitrary: ms) (auto simp: AddObject_object [OF J])
    moreover have "ReadDocument n n J (JObject []) b =
        Some (fold (\<lambda>(l, v). AddObject J (wire_label l) (parsed v)) fs (JObject []), c)"
      if "at b (fields_bytes fs) c" "mPosition b + length (fields_bytes fs) = mSize b" for b c
      by (rule reads_document [OF f _ that]) (use n in simp_all)
    ultimately show "\<forall>b c. at b (fields_bytes fs) c \<and> mPosition b + length (fields_bytes fs) = mSize b \<longrightarrow>
      Parser_Read n J b = Some (JObject (fold (\<lambda>(l, v). put_member (wire_label l) (parsed v)) fs []), c)"
      unfolding Parser_Read_def by simp
  qed
qed

end
