(* ===== verification/TDFPacket.thy ===== *)
theory TDFPacket
  imports TDFWrite
begin

text \<open>
  The document builder \<open>Packet\<close> of \<open>source/Blaze/TDF.{h,cpp}\<close>.  The code keeps a stack of pointers
  to the open containers of its document; a pointer is modelled by the path of positions that
  leads to it, which appending to a container leaves valid.  \<open>None\<close> is a failed assertion.
\<close>

type_synonym path = "nat list"

record packet =
  mDocument :: jval
  mStack :: "path list"

fun child :: "jval \<Rightarrow> nat \<Rightarrow> jval option" where
  "child (JObject ms) i = (if i < length ms then Some (snd (ms ! i)) else None)"
| "child (JArray vs) i = (if i < length vs then Some (vs ! i) else None)"
| "child _ i = None"

fun set_child :: "nat \<Rightarrow> (jval \<Rightarrow> jval) \<Rightarrow> jval \<Rightarrow> jval" where
  "set_child i f (JObject ms) = (if i < length ms then JObject (ms[i := (fst (ms ! i), f (snd (ms ! i)))]) else JObject ms)"
| "set_child i f (JArray vs) = (if i < length vs then JArray (vs[i := f (vs ! i)]) else JArray vs)"
| "set_child i f v = v"

fun at_path :: "jval \<Rightarrow> path \<Rightarrow> jval option" where
  "at_path v [] = Some v"
| "at_path v (i # p) = Option.bind (child v i) (\<lambda>w. at_path w p)"

fun update_path :: "path \<Rightarrow> (jval \<Rightarrow> jval) \<Rightarrow> jval \<Rightarrow> jval" where
  "update_path [] f v = f v"
| "update_path (i # p) f v = set_child i (update_path p f) v"

definition Packet_new :: packet where
  "Packet_new = \<lparr>mDocument = JObject [], mStack = [[]]\<rparr>"

subsection \<open>Adding values\<close>

definition AddMember :: "jsonlib \<Rightarrow> path option \<Rightarrow> string \<Rightarrow> jval \<Rightarrow> packet \<Rightarrow> (path \<times> packet) option" where
  "AddMember J parent name v p =
     (let pp = (case parent of None \<Rightarrow> [] | Some q \<Rightarrow> q) in
      case at_path (mDocument p) pp of
        Some (JObject ms) \<Rightarrow>
          (let ms' = JAddMember J ms name v
           in Some (pp @ [length ms' - 1], p\<lparr>mDocument := update_path pp (\<lambda>_. JObject ms') (mDocument p)\<rparr>))
      | Some (JArray vs) \<Rightarrow>
          Some (pp @ [length vs], p\<lparr>mDocument := update_path pp (\<lambda>_. JArray (JPushBack J vs v)) (mDocument p)\<rparr>)
      | _ \<Rightarrow> None)"

text \<open>\<open>AddMember(...)["_Content"]\<close>.\<close>

definition content_of :: "jsonlib \<Rightarrow> path \<Rightarrow> packet \<Rightarrow> path option" where
  "content_of J q p =
     (case at_path (mDocument p) q of
        Some (JObject ms) \<Rightarrow>
          if FindMember J ms ''_Content'' < length ms then Some (q @ [FindMember J ms ''_Content'']) else None
      | _ \<Rightarrow> None)"

definition mStack_back :: "packet \<Rightarrow> path option" where
  "mStack_back p = (if mStack p = [] then None else Some (last (mStack p)))"

definition put :: "jsonlib \<Rightarrow> string \<Rightarrow> jval \<Rightarrow> packet \<Rightarrow> packet option" where
  "put J lbl v p = do {
     top \<leftarrow> mStack_back p;
     (_, p) \<leftarrow> AddMember J (Some top) lbl v p;
     Some p
   }"

definition push :: "jsonlib \<Rightarrow> string \<Rightarrow> jval \<Rightarrow> packet \<Rightarrow> packet option" where
  "push J lbl v p = do {
     top \<leftarrow> mStack_back p;
     (q, p) \<leftarrow> AddMember J (Some top) lbl v p;
     c \<leftarrow> content_of J q p;
     Some (p\<lparr>mStack := mStack p @ [c]\<rparr>)
   }"

definition blob_value :: "jsonlib \<Rightarrow> bytes option \<Rightarrow> jval" where
  "blob_value J data =
     new_object J [(''_Type'', JType T_Binary),
       (''_Content'', JString (case data of None \<Rightarrow> [] | Some bs \<Rightarrow> map byte_char bs))]"

definition object_type_value :: "jsonlib \<Rightarrow> u16 \<Rightarrow> u16 \<Rightarrow> jval" where
  "object_type_value J x y =
     new_object J [(''_Type'', JType T_ObjectType), (''_X'', JUint (ucast x)), (''_Y'', JUint (ucast y))]"

definition object_id_value :: "jsonlib \<Rightarrow> u16 \<Rightarrow> u16 \<Rightarrow> u64 \<Rightarrow> jval" where
  "object_id_value J x y z =
     new_object J [(''_Type'', JType T_ObjectId), (''_X'', JUint (ucast x)), (''_Y'', JUint (ucast y)),
       (''_Z'', JUint z)]"

definition integer_list_value :: "jsonlib \<Rightarrow> jval" where
  "integer_list_value J = new_object J [(''_Type'', JType T_IntegerList), (''_Content'', JArray [])]"

definition struct_value :: "jsonlib \<Rightarrow> jval" where
  "struct_value J = new_object J [(''_Type'', JType T_Struct), (''_Content'', JObject [])]"

definition union_value :: "jsonlib \<Rightarrow> u32 \<Rightarrow> jval" where
  "union_value J t =
     new_object J [(''_Type'', JType T_Union), (''_AddressMember'', JUint (ucast t)), (''_Content'', JObject [])]"

definition map_value :: "jsonlib \<Rightarrow> tdf_type \<Rightarrow> tdf_type \<Rightarrow> jval" where
  "map_value J kt vt =
     new_object J [(''_Type'', JType T_Map), (''_KeyType'', JType kt), (''_ValueType'', JType vt),
       (''_Content'', JObject [])]"

definition list_value :: "jsonlib \<Rightarrow> tdf_type \<Rightarrow> bool \<Rightarrow> jval" where
  "list_value J t isStub =
     new_object J [(''_Type'', JType T_List), (''_ListType'', JType t), (''_Content'', JArray []),
       (''_Stub'', JBool isStub)]"

lemmas value_defs = blob_value_def object_type_value_def object_id_value_def integer_list_value_def
  struct_value_def union_value_def map_value_def list_value_def

definition put_integer :: "jsonlib \<Rightarrow> string \<Rightarrow> u64 \<Rightarrow> packet \<Rightarrow> packet option" where
  "put_integer J lbl n = put J lbl (JUint n)"

definition put_string :: "jsonlib \<Rightarrow> string \<Rightarrow> string \<Rightarrow> packet \<Rightarrow> packet option" where
  "put_string J lbl str = put J lbl (JString str)"

definition put_blob :: "jsonlib \<Rightarrow> string \<Rightarrow> bytes option \<Rightarrow> packet \<Rightarrow> packet option" where
  "put_blob J lbl data = put J lbl (blob_value J data)"

definition put_object_type :: "jsonlib \<Rightarrow> string \<Rightarrow> u16 \<Rightarrow> u16 \<Rightarrow> packet \<Rightarrow> packet option" where
  "put_object_type J lbl x y = put J lbl (object_type_value J x y)"

definition put_object_id :: "jsonlib \<Rightarrow> string \<Rightarrow> u16 \<Rightarrow> u16 \<Rightarrow> u64 \<Rightarrow> packet \<Rightarrow> packet option" where
  "put_object_id J lbl x y z = put J lbl (object_id_value J x y z)"

definition push_integer_list :: "jsonlib \<Rightarrow> string \<Rightarrow> packet \<Rightarrow> packet option" where
  "push_integer_list J lbl = push J lbl (integer_list_value J)"

definition push_struct :: "jsonlib \<Rightarrow> string \<Rightarrow> packet \<Rightarrow> packet option" where
  "push_struct J lbl = push J lbl (struct_value J)"

definition push_union :: "jsonlib \<Rightarrow> string \<Rightarrow> u32 \<Rightarrow> packet \<Rightarrow> packet option" where
  "push_union J lbl t = push J lbl (union_value J t)"

definition push_map :: "jsonlib \<Rightarrow> string \<Rightarrow> tdf_type \<Rightarrow> tdf_type \<Rightarrow> packet \<Rightarrow> packet option" where
  "push_map J lbl kt vt = push J lbl (map_value J kt vt)"

definition push_list :: "jsonlib \<Rightarrow> string \<Rightarrow> tdf_type \<Rightarrow> bool \<Rightarrow> packet \<Rightarrow> packet option" where
  "push_list J lbl t isStub = push J lbl (list_value J t isStub)"

definition pop :: "packet \<Rightarrow> packet option" where
  "pop p = Some (if length (mStack p) > 1 then p\<lparr>mStack := butlast (mStack p)\<rparr> else p)"

subsection \<open>The older interface\<close>

definition Put :: "jsonlib \<Rightarrow> path option \<Rightarrow> string \<Rightarrow> jval \<Rightarrow> packet \<Rightarrow> packet option" where
  "Put J parent lbl v p = map_option snd (AddMember J parent lbl v p)"

definition PutInteger :: "jsonlib \<Rightarrow> path option \<Rightarrow> string \<Rightarrow> u64 \<Rightarrow> packet \<Rightarrow> packet option" where
  "PutInteger J parent lbl n = Put J parent lbl (JUint n)"

definition PutString :: "jsonlib \<Rightarrow> path option \<Rightarrow> string \<Rightarrow> string \<Rightarrow> packet \<Rightarrow> packet option" where
  "PutString J parent lbl str = Put J parent lbl (JString str)"

definition PutBlob :: "jsonlib \<Rightarrow> path option \<Rightarrow> string \<Rightarrow> bytes option \<Rightarrow> packet \<Rightarrow> packet option" where
  "PutBlob J parent lbl data = Put J parent lbl (blob_value J data)"

definition PutObjectType :: "jsonlib \<Rightarrow> path option \<Rightarrow> string \<Rightarrow> u16 \<Rightarrow> u16 \<Rightarrow> packet \<Rightarrow> packet option" where
  "PutObjectType J parent lbl x y = Put J parent lbl (object_type_value J x y)"

definition PutObjectId :: "jsonlib \<Rightarrow> path option \<Rightarrow> string \<Rightarrow> u16 \<Rightarrow> u16 \<Rightarrow> u64 \<Rightarrow> packet \<Rightarrow> packet option" where
  "PutObjectId J parent lbl x y z = Put J parent lbl (object_id_value J x y z)"

definition Create :: "jsonlib \<Rightarrow> path option \<Rightarrow> string \<Rightarrow> jval \<Rightarrow> packet \<Rightarrow> (path \<times> packet) option" where
  "Create J parent lbl v p = do {
     (q, p) \<leftarrow> AddMember J parent lbl v p;
     c \<leftarrow> content_of J q p;
     Some (c, p)
   }"

definition CreateStruct :: "jsonlib \<Rightarrow> path option \<Rightarrow> string \<Rightarrow> packet \<Rightarrow> (path \<times> packet) option" where
  "CreateStruct J parent lbl = Create J parent lbl (struct_value J)"

definition CreateUnion :: "jsonlib \<Rightarrow> path option \<Rightarrow> string \<Rightarrow> u32 \<Rightarrow> packet \<Rightarrow> (path \<times> packet) option" where
  "CreateUnion J parent lbl m = Create J parent lbl (union_value J m)"

definition CreateList :: "jsonlib \<Rightarrow> path option \<Rightarrow> string \<Rightarrow> tdf_type \<Rightarrow> bool \<Rightarrow> packet \<Rightarrow> (path \<times> packet) option" where
  "CreateList J parent lbl t isStub = Create J parent lbl (list_value J t isStub)"

definition CreateMap :: "jsonlib \<Rightarrow> path option \<Rightarrow> string \<Rightarrow> tdf_type \<Rightarrow> tdf_type \<Rightarrow> packet \<Rightarrow> (path \<times> packet) option" where
  "CreateMap J parent lbl kt vt = Create J parent lbl (map_value J kt vt)"

definition Packet_Write :: "jsonlib \<Rightarrow> packet \<Rightarrow> databuffer \<Rightarrow> databuffer option" where
  "Packet_Write J p b = do {
     ms \<leftarrow> GetObject (mDocument p);
     each (\<lambda>(k, w). Write J (Some k) w) ms b
   }"

subsection \<open>Paths\<close>

fun container :: "jval \<Rightarrow> bool" where
  "container (JObject _) = True"
| "container (JArray _) = True"
| "container _ = False"

fun append_to :: "(string \<times> jval) list \<Rightarrow> jval \<Rightarrow> jval" where
  "append_to fs (JObject ms) = JObject (ms @ fs)"
| "append_to fs (JArray vs) = JArray (vs @ map snd fs)"
| "append_to fs v = v"

fun width :: "jval \<Rightarrow> nat" where
  "width (JObject ms) = length ms"
| "width (JArray vs) = length vs"
| "width _ = 0"

lemma child_set_child: "child v i = Some w \<Longrightarrow> child (set_child i f v) i = Some (f w)"
  by (cases v) (auto split: if_splits)

lemma at_update: "at_path d p = Some v \<Longrightarrow> at_path (update_path p f d) p = Some (f v)"
  by (induction p arbitrary: d) (auto simp: child_set_child split: bind_splits)

lemma set_child_set_child: "set_child i f (set_child i g v) = set_child i (\<lambda>w. f (g w)) v"
  by (cases v) auto

lemma update_update: "update_path p f (update_path p g d) = update_path p (\<lambda>v. f (g v)) d"
  by (induction p arbitrary: f g d) (simp_all add: set_child_set_child)

lemma update_append: "update_path (p @ q) f d = update_path p (update_path q f) d"
proof (induction p arbitrary: d)
  case (Cons i p)
  then have "update_path (p @ q) f = update_path p (update_path q f)" by (rule ext)
  then show ?case by simp
qed simp

lemma set_child_cong: "child v i = Some w \<Longrightarrow> f w = g w \<Longrightarrow> set_child i f v = set_child i g v"
  by (cases v) (auto split: if_splits)

lemma update_cong: "at_path d p = Some v \<Longrightarrow> f v = g v \<Longrightarrow> update_path p f d = update_path p g d"
  by (induction p arbitrary: d) (auto split: bind_splits intro: set_child_cong)

lemma at_append: "at_path d (p @ q) = Option.bind (at_path d p) (\<lambda>v. at_path v q)"
  by (induction p arbitrary: d) (auto split: bind_splits)

lemma append_to_append: "append_to gs (append_to fs v) = append_to (fs @ gs) v"
  by (cases v) simp_all

lemma container_append [simp]: "container (append_to fs v) = container v"
  by (cases v) simp_all

lemma append_to_Nil: "container v \<Longrightarrow> append_to [] v = v"
  by (cases v) simp_all

lemma update_path_id: "at_path d p = Some v \<Longrightarrow> f v = v \<Longrightarrow> update_path p f d = d"
proof (induction p arbitrary: d)
  case (Cons i p)
  then obtain w where w: "child d i = Some w" "at_path w p = Some v" by (auto split: bind_splits)
  with Cons have "update_path p f w = w" by simp
  with w(1) show ?case by (cases d) (auto split: if_splits)
qed simp

subsection \<open>What a builder adds\<close>

text \<open>
  \<open>adds f fs\<close>: on every packet whose innermost open container exists, \<open>f\<close> succeeds and its only
  effect is to append the members \<open>fs\<close> (in an array, their values) to that container.
\<close>

definition pkt_open :: "packet \<Rightarrow> bool" where
  "pkt_open p \<longleftrightarrow> mStack p \<noteq> [] \<and>
     (\<exists>v. at_path (mDocument p) (last (mStack p)) = Some v \<and> container v)"

definition extend :: "(string \<times> jval) list \<Rightarrow> packet \<Rightarrow> packet" where
  "extend fs p = p\<lparr>mDocument := update_path (last (mStack p)) (append_to fs) (mDocument p)\<rparr>"

definition adds :: "(packet \<Rightarrow> packet option) \<Rightarrow> (string \<times> jval) list \<Rightarrow> bool" where
  "adds f fs \<longleftrightarrow> (\<forall>p. pkt_open p \<longrightarrow> f p = Some (extend fs p))"

lemma pkt_open_extend: "pkt_open p \<Longrightarrow> pkt_open (extend fs p)"
  by (auto simp: pkt_open_def extend_def at_update)

lemma extend_extend: "extend gs (extend fs p) = extend (fs @ gs) p"
  by (simp add: extend_def update_update append_to_append)

lemma adds_bind: "adds f fs \<Longrightarrow> adds g gs \<Longrightarrow> adds (\<lambda>p. Option.bind (f p) g) (fs @ gs)"
  by (simp add: adds_def pkt_open_extend extend_extend)

lemma adds_Some: "adds Some []"
  by (auto simp: adds_def pkt_open_def extend_def append_to_Nil update_path_id)

lemma adds_each:
  "(\<And>x. x \<in> set xs \<Longrightarrow> adds (f x) (g x)) \<Longrightarrow> adds (each f xs) (concat (map g xs))"
proof (induction xs)
  case Nil
  then show ?case using adds_Some by (simp add: adds_def)
next
  case (Cons x xs)
  have "adds (\<lambda>b. Option.bind (f x b) (each f xs)) (g x @ concat (map g xs))"
    by (intro adds_bind) (use Cons in auto)
  then show ?case by (simp add: adds_def)
qed

lemma AddMember_eq:
  assumes "json_laws J" and "at_path (mDocument p) pp = Some c" and "container c"
  shows "AddMember J (Some pp) l v p =
    Some (pp @ [width c], p\<lparr>mDocument := update_path pp (append_to [(l, v)]) (mDocument p)\<rparr>)"
  using assms update_cong [OF assms(2), of "\<lambda>_. append_to [(l, v)] c" "append_to [(l, v)]"]
  by (cases c) (simp_all add: AddMember_def json_laws_def)

lemma adds_put:
  assumes "json_laws J"
  shows "adds (put J l v) [(l, v)]"
  unfolding adds_def
proof (intro allI impI)
  fix p assume "pkt_open p"
  then obtain c where "mStack p \<noteq> []" "at_path (mDocument p) (last (mStack p)) = Some c" "container c"
    by (auto simp: pkt_open_def)
  then show "put J l v p = Some (extend [(l, v)] p)"
    using AddMember_eq [OF assms, of p "last (mStack p)" c]
    by (simp add: put_def mStack_back_def extend_def)
qed

text \<open>Statements in order, and the statements between a push and its \<open>pop()\<close>.\<close>

definition run :: "(packet \<Rightarrow> packet option) list \<Rightarrow> packet \<Rightarrow> packet option" where
  "run fs = each (\<lambda>f. f) fs"

definition within ::
  "(packet \<Rightarrow> packet option) \<Rightarrow> (packet \<Rightarrow> packet option) list \<Rightarrow> packet \<Rightarrow> packet option" where
  "within opening body p = do { p \<leftarrow> opening p; p \<leftarrow> run body p; pop p }"

lemma adds_run_Nil: "adds (run []) []"
  using adds_Some by (simp add: run_def adds_def)

lemma adds_run_Cons: "adds f fs \<Longrightarrow> adds (run gs) hs \<Longrightarrow> adds (run (f # gs)) (fs @ hs)"
  using adds_bind [of f fs "run gs" hs] by (simp add: run_def adds_def)

lemma set_last_child:
  "container v \<Longrightarrow> set_child (width v) f (append_to [(l, w)] v) = append_to [(l, f w)] v"
  by (cases v) (simp_all add: list_update_append)

lemma last_child: "container v \<Longrightarrow> child (append_to [(l, w)] v) (width v) = Some w"
  by (cases v) simp_all

lemma adds_within:
  assumes J: "json_laws J" and w: "w = JObject ms" and c: "first_index ms ''_Content'' = c" "c < length ms"
    and w0: "container (snd (ms ! c))" and body: "adds (run body) fs"
  shows "adds (within (push J l w) body) [(l, set_child c (append_to fs) w)]"
  unfolding adds_def
proof (intro allI impI)
  fix p assume "pkt_open p"
  then obtain v where v: "mStack p \<noteq> []" "at_path (mDocument p) (last (mStack p)) = Some v" "container v"
    by (auto simp: pkt_open_def)
  let ?top = "last (mStack p)"
  define d1 where "d1 = update_path ?top (append_to [(l, w)]) (mDocument p)"
  define q where "q = ?top @ [width v, c]"
  define p2 where "p2 = p\<lparr>mDocument := d1, mStack := mStack p @ [q]\<rparr>"
  have parent: "at_path d1 ?top = Some (append_to [(l, w)] v)"
    unfolding d1_def by (rule at_update [OF v(2)])
  then have at_w: "at_path d1 (?top @ [width v]) = Some w"
    using v(3) by (simp add: at_append last_child)
  have at_q: "at_path d1 q = Some (snd (ms ! c))"
    using parent v(3) c(2) by (simp add: q_def at_append last_child w)
  have "FindMember J ms ''_Content'' = c" using J c(1) by (simp add: json_laws_def)
  then have push: "push J l w p = Some p2"
    using AddMember_eq [OF J v(2,3), of l w] at_w [unfolded d1_def] v(1) c(2)
    by (simp add: push_def mStack_back_def content_of_def w p2_def q_def d1_def)
  have "pkt_open p2" using at_q w0 by (simp add: pkt_open_def p2_def)
  then have run: "run body p2 = Some (extend fs p2)" using body by (simp add: adds_def)
  have "update_path q (append_to fs) d1 =
      update_path ?top (\<lambda>u. update_path [width v, c] (append_to fs) (append_to [(l, w)] u)) (mDocument p)"
    by (simp add: q_def d1_def update_append update_update del: update_path.simps)
  also have "\<dots> = update_path ?top (append_to [(l, set_child c (append_to fs) w)]) (mDocument p)"
  proof (rule update_cong [OF v(2)])
    have "update_path [] (append_to fs) = append_to fs" by (rule ext) simp
    then show "update_path [width v, c] (append_to fs) (append_to [(l, w)] v) =
        append_to [(l, set_child c (append_to fs) w)] v"
      by (simp add: set_last_child [OF v(3)])
  qed
  finally have "update_path q (append_to fs) d1 =
      update_path ?top (append_to [(l, set_child c (append_to fs) w)]) (mDocument p)" .
  with push run v(1)
  show "within (push J l w) body p = Some (extend [(l, set_child c (append_to fs) w)] p)"
    by (simp add: within_def pop_def extend_def p2_def)
qed

subsection \<open>Builders of abstract values\<close>

text \<open>\<open>builds J f fs\<close>: \<open>f\<close> adds the documents of the labelled values \<open>fs\<close>.\<close>

definition builds :: "(packet \<Rightarrow> packet option) \<Rightarrow> (string \<times> tdf) list \<Rightarrow> bool" where
  "builds f fs \<longleftrightarrow> adds f (fields_json fs)"

lemma builds_run_Nil: "builds (run []) []"
  using adds_run_Nil by (simp add: builds_def fields_json_def)

lemma builds_run_Cons: "builds f fs \<Longrightarrow> builds (run gs) hs \<Longrightarrow> builds (run (f # gs)) (fs @ hs)"
  using adds_run_Cons [of f "fields_json fs" gs "fields_json hs"]
  by (simp add: builds_def fields_json_def)

lemma builds_run_one: "builds f fs \<Longrightarrow> builds (run [f]) fs"
  using builds_run_Cons [OF _ builds_run_Nil] by simp

lemma builds_each:
  assumes "\<And>x. x \<in> set xs \<Longrightarrow> builds (f x) (g x)"
  shows "builds (each f xs) (concat (map g xs))"
  using adds_each [of xs f "\<lambda>x. fields_json (g x)"] assms
  by (simp add: builds_def fields_json_def map_concat comp_def)

lemma builds_skip: "builds Some []"
  using adds_Some by (simp add: builds_def fields_json_def)

lemma builds_if: "builds f fs \<Longrightarrow> builds g gs \<Longrightarrow> builds (if c then f else g) (if c then fs else gs)"
  by simp

lemma builds_put:
  assumes J: "json_laws J"
  shows "builds (put_integer J l n) [(l, V_Integer n)]"
    "builds (put_string J l str) [(l, V_String str)]"
    "builds (put_blob J l data) [(l, V_Binary (case data of None \<Rightarrow> [] | Some bs \<Rightarrow> map byte_char bs))]"
    "builds (put_object_type J l x y) [(l, V_ObjectType (ucast x) (ucast y))]"
    "builds (put_object_id J l x y z) [(l, V_ObjectId (ucast x) (ucast y) z)]"
  using adds_put [OF J] J
  by (auto simp: builds_def fields_json_def put_integer_def put_string_def put_blob_def
      put_object_type_def put_object_id_def value_defs)

lemma builds_within:
  assumes J: "json_laws J" and b: "builds (run body) fs"
  shows "builds (within (push_struct J l) body) [(l, V_Struct fs)]"
    "builds (within (push_union J l m) body) [(l, V_Union m fs)]"
    "builds (within (push_map J l kt vt) body) [(l, V_Map kt vt fs)]"
    "builds (within (push_list J l t stub) body) [(l, V_List t stub (map snd fs))]"
proof -
  have a: "adds (run body) (fields_json fs)" using b by (simp add: builds_def)
  note w = adds_within [OF J refl _ _ _ a]
  show "builds (within (push_struct J l) body) [(l, V_Struct fs)]"
    using w [of "[(''_Type'', JType T_Struct), (''_Content'', JObject [])]" 1] J
    by (simp add: builds_def push_struct_def struct_value_def fields_json_def)
  show "builds (within (push_union J l m) body) [(l, V_Union m fs)]"
    using w [of "[(''_Type'', JType T_Union), (''_AddressMember'', JUint (ucast m)), (''_Content'', JObject [])]" 2] J
    by (simp add: builds_def push_union_def union_value_def fields_json_def numeral_2_eq_2)
  show "builds (within (push_map J l kt vt) body) [(l, V_Map kt vt fs)]"
    using w [of "[(''_Type'', JType T_Map), (''_KeyType'', JType kt), (''_ValueType'', JType vt), (''_Content'', JObject [])]" 3] J
    by (simp add: builds_def push_map_def map_value_def fields_json_def numeral_3_eq_3)
  show "builds (within (push_list J l t stub) body) [(l, V_List t stub (map snd fs))]"
    using w [of "[(''_Type'', JType T_List), (''_ListType'', JType t), (''_Content'', JArray []), (''_Stub'', JBool stub)]" 2] J
    by (simp add: builds_def push_list_def list_value_def fields_json_def numeral_2_eq_2 comp_def case_prod_unfold)
qed

lemma builds_within_integer_list:
  assumes J: "json_laws J" and b: "builds (run body) fs" and "map snd fs = map V_Integer ns"
  shows "builds (within (push_integer_list J l) body) [(l, V_IntegerList ns)]"
proof -
  have a: "adds (run body) (fields_json fs)" using b by (simp add: builds_def)
  have "map snd (fields_json fs) = map json_of (map snd fs)"
    by (simp add: fields_json_def case_prod_unfold)
  then have m: "map snd (fields_json fs) = map JUint ns" using assms(3) by simp
  show ?thesis
    using adds_within [OF J refl _ _ _ a, of "[(''_Type'', JType T_IntegerList), (''_Content'', JArray [])]" 1] J m
    by (simp add: builds_def push_integer_list_def integer_list_value_def fields_json_def)
qed

end
