(* ===== verification/TDFProps.thy ===== *)
theory TDFProps
  imports TDFPacket TDFRoundtrip
begin

text \<open>
  The properties of the tagged data format of \<open>source/Blaze/TDF.cpp\<close>: labels and headers, the
  writer against the abstract format, the builder, and the round trip through the parser.
\<close>

subsection \<open>A library that satisfies the laws\<close>

definition std_json :: jsonlib where
  "std_json = \<lparr>FindMember = first_index, JAddMember = (\<lambda>ms k v. ms @ [(k, v)]), JPushBack = (\<lambda>vs v. vs @ [v])\<rparr>"

lemma std_json_laws: "json_laws std_json"
  by (simp add: std_json_def json_laws_def)

subsection \<open>Labels and headers\<close>

lemma label_char_id:
  assumes "char_byte c AND 0xE0 = 0x40"
  shows "label_char c = c"
proof -
  have "(char_byte c AND 0xE0) OR (char_byte c AND 0x1F) = char_byte c AND (0xE0 OR 0x1F)"
    by (simp only: bit.conj_disj_distrib)
  also have "(0xE0 OR 0x1F :: u8) = -1" by simp
  finally have "0x40 OR (char_byte c AND 0x1F) = char_byte c" using assms by simp
  then show ?thesis by (simp add: label_char_def)
qed

lemma at_write:
  assumes "ready b" and "ready b'" and "content b' = content b @ xs"
  shows "at (set_position (mSize b) b') xs b'"
proof -
  have lb: "length (content b) = mSize b" "length (content b') = mSize b'"
    using assms(1,2) by (simp_all add: content_def ready_def)
  then have size: "mSize b' = mSize b + length xs" using assms(3) by simp
  have "mBuffer b' = content b' @ drop (mSize b') (mBuffer b')" by (simp add: content_def)
  then have split: "mBuffer b' = content b @ xs @ drop (mSize b') (mBuffer b')" by (simp add: assms(3))
  have "drop (length (content b)) (mBuffer b') = xs @ drop (mSize b') (mBuffer b')"
    by (subst split) simp
  moreover have "(set_position (mSize b) b')\<lparr>mPosition := mSize b + length xs\<rparr> = b'"
    using assms(2) size by (simp add: set_position_def ready_def)
  ultimately show ?thesis
    using assms(2) lb size
    by (auto simp: at_def set_position_def remaining_def ready_def)
qed

text \<open>
  A header written at the end of a buffer reads back with its type and the first four
  characters of its label, each reduced to its low five bits in the column of the capital
  letters; labels of at most four characters between "@" and "_" come back unchanged.
\<close>

lemma header_roundtrip:
  assumes "ready b"
  shows "ReadHeader (set_position (mSize b) (WriteHeader l (type_code t) b)) =
      Some (\<lparr>label = map label_char (take 4 l), htype = type_code t\<rparr>, WriteHeader l (type_code t) b)
    \<and> (length l \<le> 4 \<and> (\<forall>c \<in> set l. char_byte c AND 0xE0 = 0x40) \<longrightarrow> map label_char (take 4 l) = l)"
proof
  have "at (set_position (mSize b) (WriteHeader l (type_code t) b)) (header_bytes l t) (WriteHeader l (type_code t) b)"
    using WriteHeader_appends assms
    by (intro at_write) (auto dest: buf.appends_ready buf.appends_content)
  from src.readsD [OF reads_header this]
  show "ReadHeader (set_position (mSize b) (WriteHeader l (type_code t) b)) =
      Some (\<lparr>label = map label_char (take 4 l), htype = type_code t\<rparr>, WriteHeader l (type_code t) b)"
    by (simp add: wire_label_def)
  show "length l \<le> 4 \<and> (\<forall>c \<in> set l. char_byte c AND 0xE0 = 0x40) \<longrightarrow> map label_char (take 4 l) = l"
    by (auto simp: label_char_id intro: map_idI)
qed

subsection \<open>The writer\<close>

text \<open>
  C20: The document writer refines the abstract format: for every value the code can write, with
  any nesting of structures, unions, lists, maps and integer lists, \<open>Packet::Write\<close> succeeds on
  the value's document and appends exactly the header and the bytes of the value.
\<close>

theorem writer_refines_format:
  assumes "json_laws J" and "writable v" and "no_nul l"
  shows "buf.emits (Write J (Some l) (json_of v)) (header_bytes l (tag v) @ tdf_bytes v)"
  using writable_emits [OF assms(1,2), unfolded value_emits_def, rule_format, of "Some l"] assms(3)
  by (simp add: Write_json_of [OF assms(1)] name_bytes_def)

theorem writer_refines_format_witness:
  "\<exists>b. Write std_json (Some ''VAL'') (json_of (V_List T_Struct False [V_Struct [(''A'', V_Integer 5)]])) db_empty = Some b
     \<and> content b = [0xDA, 0x1B, 0x00, 4] @ [3, 1, 0x84, 0, 0, 0, 5, 0]"
proof -
  let ?v = "V_List T_Struct False [V_Struct [(''A'', V_Integer 5)]]"
  have "buf.emits (Write std_json (Some ''VAL'') (json_of ?v)) (header_bytes ''VAL'' (tag ?v) @ tdf_bytes ?v)"
    by (rule writer_refines_format [OF std_json_laws]) (simp_all add: no_nul_def)
  moreover have "header_bytes ''VAL'' T_List = [0xDA, 0x1B, 0x00, 4]"
    unfolding header_bytes_def by code_simp
  moreover have "header_bytes ''A'' T_Integer = [0x84, 0, 0, 0]" unfolding header_bytes_def by code_simp
  moreover have "tdf_bytes ?v = [3, 1] @ header_bytes ''A'' T_Integer @ [5, 0]"
    by (simp add: tdf_int_def type_code_def)
  moreover have "ready db_empty" "content db_empty = []" by (simp_all add: ready_def content_def db_empty_def)
  ultimately show ?thesis by (auto dest!: buf.emitsD)
qed

text \<open>
  The count of a list or map is one byte: a list of 256 or more integers is written as its
  length modulo 256 and silently cut to that many elements, while a map with as many entries is
  written with all of them behind a count that announces fewer.
\<close>

lemma counts_wrap:
  assumes "json_laws J" and "no_nul l"
  shows "buf.emits (Write J (Some l) (json_of (V_IntegerList (replicate (256 + k) n))))
      (header_bytes l T_IntegerList @ of_nat k # concat (replicate (k mod 256) (tdf_int n)))
    \<and> buf.emits (Write J (Some l) (json_of (V_Map T_String T_Integer (replicate (256 + k) (''K'', V_Integer n)))))
      (header_bytes l T_Map @ [1, 0, of_nat k] @ concat (replicate (256 + k) (string_bytes ''K'' @ tdf_int n)))"
proof -
  have w: "buf.emits (Write J (Some l) (json_of v)) (header_bytes l (tag v) @ tdf_bytes v)" if "writable v" for v
    using writable_emits [OF assms(1) that, unfolded value_emits_def, rule_format, of "Some l"] assms(2)
    by (simp add: Write_json_of [OF assms(1)] name_bytes_def)
  have c: "(of_nat (256 + k) :: u8) = of_nat k" by simp
  then have z: "256 + (of_nat k :: u8) = of_nat k" by (simp only: of_nat_add of_nat_numeral)
  have k: "(256 + k) mod 256 = k mod 256" by simp
  have "k mod 256 \<le> 256 + k" by (rule order_trans [OF mod_less_eq_dividend]) simp
  then have "tdf_bytes (V_IntegerList (replicate (256 + k) n)) = of_nat k # concat (replicate (k mod 256) (tdf_int n))"
    by (simp only: tdf_bytes.simps length_replicate c k take_replicate map_replicate min.absorb2 min.absorb1)
  moreover have "tdf_bytes (V_Map T_String T_Integer (replicate (256 + k) (''K'', V_Integer n))) =
      [1, 0, of_nat k] @ concat (replicate (256 + k) (string_bytes ''K'' @ tdf_int n))"
    by (simp only: tdf_bytes.simps length_replicate c map_replicate)
      (simp add: type_code_def key_bytes_def)
  ultimately show ?thesis
    using w [of "V_IntegerList (replicate (256 + k) n)"]
      w [of "V_Map T_String T_Integer (replicate (256 + k) (''K'', V_Integer n))"]
    by (simp add: no_nul_def z)
qed

subsection \<open>The parser\<close>

text \<open>
  A string whose length field is zero makes the parser fail: the code subtracts one from the
  length in 64 bits and resizes a string to 2 ^ 64 - 1 characters, which throws.  This does not
  depend on what follows, on the bound of the recursion or on the rest of the document.
\<close>

lemma zero_length_string_throws:
  assumes "at b (header_bytes l T_String @ [0]) c"
  shows "Parser_Read (Suc n) J b = None \<and> read_string (b\<lparr>mPosition := mPosition b + 4\<rparr>) = None"
proof -
  obtain d where d: "at b (header_bytes l T_String) d" "at d [0] c" using at_split [OF assms] by blast
  have "tdf_int 0 = [0]" by (simp add: tdf_int_def)
  then have "decode_tdf_integer d = Some (0, c)"
    using d(2) by (intro src.readsD [OF reads_tdf_integer]) simp_all
  moreover have "unat (- 1 :: u64) = 18446744073709551615"
    by (simp add: unsigned_minus_1_eq_mask mask_eq_exp_minus_1)
  then have "read_chars (unat (- 1 :: u64)) c = None"
    by (simp only: read_chars_def string_max_size_def) simp
  ultimately have "read_string d = None" by (simp add: read_string_def Let_def word_gt_0)
  moreover have "d = b\<lparr>mPosition := mPosition b + 4\<rparr>" using d(1) by (simp add: at_def)
  moreover have "\<not> eof b" using assms by (rule at_not_eof) simp
  moreover have "\<not> eof d" using d(2) by (rule at_not_eof) simp
  ultimately show ?thesis
    using src.readsD [OF reads_header d(1)]
    by (simp add: Parser_Read_def ReadTyped_def ReadString_def)
qed

subsection \<open>The round trip\<close>

lemma packet_write_emits:
  assumes J: "json_laws J" and "builds f fs"
    and ok: "\<And>l v. (l, v) \<in> set fs \<Longrightarrow> no_nul l \<and> writable v"
  shows "buf.emits (\<lambda>b. do { p \<leftarrow> f Packet_new; Packet_Write J p b }) (fields_bytes fs)"
proof -
  have "pkt_open Packet_new" by (simp add: pkt_open_def Packet_new_def)
  with assms(2) have f: "f Packet_new = Some (extend (fields_json fs) Packet_new)"
    by (simp add: builds_def adds_def)
  have "mDocument (extend (fields_json fs) Packet_new) = JObject (fields_json fs)"
    by (simp add: extend_def Packet_new_def)
  then have "(\<lambda>b. do { p \<leftarrow> f Packet_new; Packet_Write J p b }) =
      each (\<lambda>(k, w). Write J (Some k) w) (map (\<lambda>(l, v). (l, json_of v)) fs)"
    by (intro ext) (simp add: f Packet_Write_def fields_json_def)
  moreover have "value_emits J v" if "(l, v) \<in> set fs" for l v
    using writable_emits [OF J] ok [OF that] by blast
  ultimately show ?thesis using fields_emits [OF J, of fs] ok by simp
qed

lemma packet_parses_back:
  assumes "json_laws J" and "builds f fs"
    and "\<forall>(l, v) \<in> set fs. no_nul l \<and> writable v \<and> parsable v"
  shows "\<exists>b. do { p \<leftarrow> f Packet_new; Packet_Write J p db_empty } = Some b \<and> content b = fields_bytes fs \<and>
    (\<exists>n0. \<forall>n \<ge> n0. Parser_Read n J (set_position 0 b) =
      Some (JObject (fold (\<lambda>(l, v). put_member (wire_label l) (parsed v)) fs []), b))"
proof -
  have e: "ready db_empty" "content db_empty = []" by (simp_all add: ready_def content_def db_empty_def)
  have "buf.emits (\<lambda>b. do { p \<leftarrow> f Packet_new; Packet_Write J p b }) (fields_bytes fs)"
    by (rule packet_write_emits [OF assms(1,2)]) (use assms(3) in auto)
  from buf.emitsD [OF this e(1)] e(2) obtain b where
    b: "do { p \<leftarrow> f Packet_new; Packet_Write J p db_empty } = Some b" "ready b" "content b = fields_bytes fs"
    by auto
  have a: "at (set_position 0 b) (fields_bytes fs) b"
    using at_write [OF e(1) b(2)] b(3) e(2) by (simp add: db_empty_def)
  have "length (content b) = mSize b" using b(2) by (simp add: content_def ready_def)
  then have "mPosition (set_position 0 b) + length (fields_bytes fs) = mSize (set_position 0 b)"
    by (simp add: b(3) set_position_def)
  moreover have "enough (\<lambda>n. \<forall>b c. at b (fields_bytes fs) c \<and> mPosition b + length (fields_bytes fs) = mSize b \<longrightarrow>
      Parser_Read n J b = Some (JObject (fold (\<lambda>(l, v). put_member (wire_label l) (parsed v)) fs []), c))"
    by (rule parser_reads_fields [OF assms(1)]) (use assms(3) in auto)
  ultimately show ?thesis using a b(1,3) unfolding enough_def by blast
qed

text \<open>
  C1: The round trip of a message: whatever fields a sequence of builder calls adds, if their
  values can be written and parsed, then writing the packet into an empty buffer succeeds, and
  for every sufficiently large bound the parser reads the bytes back to a document with exactly
  those fields under their wire labels and stops at the end of the buffer.
\<close>

theorem packet_roundtrip:
  assumes "json_laws J" and "builds f fs"
    and "\<forall>(l, v) \<in> set fs. no_nul l \<and> writable v \<and> parsable v"
  shows "\<exists>b. do { p \<leftarrow> f Packet_new; Packet_Write J p db_empty } = Some b \<and> content b = fields_bytes fs \<and>
    (\<exists>n0. \<forall>n \<ge> n0. Parser_Read n J (set_position 0 b) =
      Some (JObject (fold (\<lambda>(l, v). put_member (wire_label l) (parsed v)) fs []), b))"
  using assms by (rule packet_parses_back)

theorem packet_roundtrip_witness:
  "\<exists>b. do { p \<leftarrow> run [put_integer std_json ''GID'' 300,
        within (push_struct std_json ''ADDR'') [put_string std_json ''HOST'' ''ea'']] Packet_new;
      Packet_Write std_json p db_empty } = Some b \<and>
    (\<exists>n. Parser_Read n std_json (set_position 0 b) = Some (JObject
      [(''GID'', JUint 300),
       (''ADDR'', JObject [(''_Type'', JType T_Struct), (''HOST'', JString ''ea'')])], b))"
proof -
  let ?fs = "[(''GID'', V_Integer 300), (''ADDR'', V_Struct [(''HOST'', V_String ''ea'')])]"
  note J = std_json_laws
  have "builds (run [put_integer std_json ''GID'' 300,
      within (push_struct std_json ''ADDR'') [put_string std_json ''HOST'' ''ea'']]) ?fs"
    using builds_run_Cons [OF builds_put(1) [OF J] builds_run_one [OF builds_within(1) [OF J
      builds_run_one [OF builds_put(2) [OF J]]]]] by simp
  moreover have "\<forall>(l, v) \<in> set ?fs. no_nul l \<and> writable v \<and> parsable v" by (simp add: no_nul_def)
  moreover have "wire_label ''GID'' = ''GID''" "wire_label ''ADDR'' = ''ADDR''" "wire_label ''HOST'' = ''HOST''"
    by code_simp+
  ultimately show ?thesis
    using packet_roundtrip [OF J, of _ ?fs] by (fastforce simp: put_member_def)
qed

end
