(* ===== verification/TDFTerminates.thy ===== *)
theory TDFTerminates
  imports TDFProps
begin

text \<open>
  The loops of the parser of \<open>source/Blaze/TDF.cpp\<close> come to an end: every turn of a loop that has
  no count, and every nested value, takes at least a header from the buffer.  The fuel of the model
  is therefore no restriction as soon as it exceeds the bytes that are left.
\<close>

subsection \<open>What is left to read\<close>

definition left :: "databuffer \<Rightarrow> nat" where
  "left b = length (mBuffer b) - mPosition b"

text \<open>The same data, with no more of it left.\<close>

definition ahead :: "databuffer \<Rightarrow> databuffer \<Rightarrow> bool" where
  "ahead b c \<longleftrightarrow> mBuffer c = mBuffer b \<and> mSize c = mSize b \<and> left c \<le> left b"

lemma ahead_refl [simp]: "ahead b b"
  by (simp add: ahead_def)

lemma ahead_trans: "ahead b c \<Longrightarrow> ahead c d \<Longrightarrow> ahead b d"
  by (simp add: ahead_def)

definition shrinks :: "'x parse \<Rightarrow> bool" where
  "shrinks f \<longleftrightarrow> (\<forall>b v c. f b = Some (v, c) \<longrightarrow> ahead b c)"

definition shrinks_strictly :: "'x parse \<Rightarrow> bool" where
  "shrinks_strictly f \<longleftrightarrow> (\<forall>b v c. f b = Some (v, c) \<longrightarrow> ahead b c \<and> left c < left b)"

named_theorems shrink_rules

lemma shrinks_strict: "shrinks_strictly f \<Longrightarrow> shrinks f"
  unfolding shrinks_strictly_def shrinks_def by blast

lemma shrinks_strictly_left: "shrinks_strictly f \<Longrightarrow> f b = Some (v, c) \<Longrightarrow> left c < left b"
  by (auto simp: shrinks_strictly_def)

lemma shrinks_Some [shrink_rules]: "shrinks (\<lambda>b. Some (x, b))"
  by (simp add: shrinks_def)

lemma shrinks_None [shrink_rules]: "shrinks (\<lambda>b. None)"
  by (simp add: shrinks_def)

lemma shrinks_bind [shrink_rules]:
  "shrinks f \<Longrightarrow> (\<And>x. shrinks (g x)) \<Longrightarrow> shrinks (\<lambda>b. Option.bind (f b) (\<lambda>(x, b). g x b))"
  unfolding shrinks_def by (auto split: bind_splits) (meson ahead_trans)

lemma shrinks_if [shrink_rules]:
  "(P \<Longrightarrow> shrinks f) \<Longrightarrow> (\<not> P \<Longrightarrow> shrinks g) \<Longrightarrow> shrinks (\<lambda>b. if P then f b else g b)"
  by (cases P) simp_all

lemma shrinks_value: "(\<And>x. shrinks (f x)) \<Longrightarrow> shrinks (\<lambda>b. Option.bind (g b) (\<lambda>x. f x b))"
  unfolding shrinks_def by (auto split: bind_splits)

lemma ahead_skip [simp]: "ahead b (skip_bytes n b)"
  by (simp add: ahead_def left_def skip_bytes_def)

lemma ahead_advance [simp]: "ahead b (b\<lparr>mPosition := mPosition b + n\<rparr>)"
  by (simp add: ahead_def left_def)

lemma left_skip: "left (skip_bytes n b) \<le> left b"
  using ahead_skip by (simp add: ahead_def)

lemma shrinks_skip [shrink_rules]: "shrinks (\<lambda>b. Some (x, skip_bytes n b))"
  by (simp add: shrinks_def)

lemma shrinks_after_skip [shrink_rules]: "shrinks f \<Longrightarrow> shrinks (\<lambda>b. f (skip_bytes n b))"
  unfolding shrinks_def by (meson ahead_skip ahead_trans)

lemma shrinks_read_T [shrink_rules]: "shrinks (read_T h n)"
  by (auto simp: shrinks_def read_T_def impl_read_def Let_def split: prod.splits if_splits option.splits)

lemma header_shrinks: "shrinks_strictly ReadHeader"
  by (auto simp: shrinks_strictly_def ReadHeader_def read_T_def impl_read_def can_rw_def Let_def left_def
      split: bind_splits prod.splits if_splits option.splits)

lemma shrinks_read_u8 [shrink_rules]: "shrinks read_u8"
  using shrinks_read_T unfolding read_u8_def [abs_def] .

lemma decode_tail_left: "decode_tdf_tail i v b = Some (w, c) \<Longrightarrow> ahead b c"
proof (induction i v b rule: decode_tdf_tail.induct)
  case (1 i v b)
  then show ?case
    using shrinks_read_u8 unfolding decode_tdf_tail.simps [of i] shrinks_def
    by (auto simp: Let_def split: if_splits option.splits) (meson ahead_trans)+
qed

lemma shrinks_read_integer [shrink_rules]: "shrinks read_integer"
  using shrinks_read_u8 unfolding shrinks_def read_integer_def decode_tdf_integer_def
  by (auto split: option.splits if_splits dest!: decode_tail_left) (meson ahead_trans)+

lemma shrinks_read_chars [shrink_rules]: "shrinks (read_chars n)"
  by (auto simp: shrinks_def read_chars_def impl_read_def Let_def split: if_splits prod.splits option.splits)

lemma shrinks_read_string [shrink_rules]: "shrinks read_string"
  unfolding read_string_def [abs_def] read_integer_def [symmetric] Let_def
  by (intro shrink_rules)

lemma shrinks_scalars [shrink_rules]: "shrinks ReadInteger" "shrinks ReadString" "shrinks ReadBlob"
  unfolding ReadInteger_def [abs_def] ReadString_def [abs_def] ReadBlob_def [abs_def] by (intro shrink_rules)+

lemma times_fun:
  "times 0 f x = (\<lambda>b. Some (x, b))"
  "times (Suc k) f x = (\<lambda>b. Option.bind (f x b) (\<lambda>(x, b). times k f x b))"
  by (rule ext, simp)+

lemma shrinks_times [shrink_rules]:
  assumes "\<And>x. shrinks (f x)"
  shows "shrinks (times k f x)"
  by (induction k arbitrary: x) (unfold times_fun, (intro shrink_rules assms | assumption)+)

subsection \<open>Readers that agree on short inputs\<close>

definition agree :: "nat \<Rightarrow> 'x parse \<Rightarrow> 'x parse \<Rightarrow> bool" where
  "agree k f g \<longleftrightarrow> (\<forall>b. left b < k \<longrightarrow> f b = g b)"

named_theorems agree_rules

lemma agree_refl [agree_rules]: "agree k f f"
  by (simp add: agree_def)

lemma agree_bind [agree_rules]:
  assumes "agree k f f'" and "shrinks f" and "\<And>x. agree k (g x) (g' x)"
  shows "agree k (\<lambda>b. Option.bind (f b) (\<lambda>(x, b). g x b)) (\<lambda>b. Option.bind (f' b) (\<lambda>(x, b). g' x b))"
  unfolding agree_def
proof (intro allI impI)
  fix b assume b: "left b < k"
  then have "f' b = f b" using assms(1) by (simp add: agree_def)
  moreover have "g x c = g' x c" if "f b = Some (x, c)" for x c
    using assms(2,3) b that unfolding shrinks_def agree_def ahead_def by (meson le_less_trans)
  ultimately show "Option.bind (f b) (\<lambda>(x, b). g x b) = Option.bind (f' b) (\<lambda>(x, b). g' x b)"
    by (cases "f b") auto
qed

lemma agree_if [agree_rules]:
  "agree k f f' \<Longrightarrow> agree k g g' \<Longrightarrow> agree k (\<lambda>b. if P then f b else g b) (\<lambda>b. if P then f' b else g' b)"
  by (cases P) simp_all

lemma agree_times [agree_rules]:
  assumes "\<And>x. agree k (f x) (g x)" and "\<And>x. shrinks (f x)"
  shows "agree k (times j f x) (times j g x)"
  by (induction j arbitrary: x) (unfold times_fun, (intro agree_rules assms | assumption)+)

lemma agree_value: "(\<And>x. agree k (f x) (f' x)) \<Longrightarrow>
    agree k (\<lambda>b. Option.bind (g b) (\<lambda>x. f x b)) (\<lambda>b. Option.bind (g b) (\<lambda>x. f' x b))"
  unfolding agree_def by (auto split: bind_splits intro!: Option.bind_cong)

lemma agree_after_skip [agree_rules]: "agree k f g \<Longrightarrow> agree k (\<lambda>b. f (skip_bytes n b)) (\<lambda>b. g (skip_bytes n b))"
  unfolding agree_def using left_skip le_less_trans by blast

lemma agree_mono: "agree k f g \<Longrightarrow> j \<le> k \<Longrightarrow> agree j f g"
  by (auto simp: agree_def)

subsection \<open>The parser\<close>

lemma members_fun:
  "ReadMembers 0 rv p = (\<lambda>b. None)"
  "ReadMembers (Suc n) rv p = (\<lambda>b. Option.bind (peek_u8 b) (\<lambda>x.
     if x \<noteq> 0 then Option.bind (rv p b) (\<lambda>(p, b). ReadMembers n rv p b) else Some (p, b)))"
  by (rule ext, simp)+

lemma shrinks_members:
  assumes "\<And>p. shrinks (rv p)"
  shows "shrinks (ReadMembers n rv p)"
  by (induction n arbitrary: p) (unfold members_fun, (intro shrink_rules shrinks_value assms | assumption)+)

lemma shrinks_struct:
  assumes "\<And>p. shrinks (rv p)"
  shows "shrinks (ReadStruct n J rv)"
  unfolding ReadStruct_def [abs_def] by (intro shrink_rules shrinks_members assms)

lemma shrinks_item:
  assumes "\<And>p. shrinks (rv p)"
  shows "shrinks (ReadItem n J rv t vs)"
  unfolding ReadItem_def [abs_def] by (intro shrink_rules shrinks_struct assms)

lemma shrinks_map_item:
  assumes "\<And>p. shrinks (rv p)"
  shows "shrinks (GetMapItem n J rv t)"
  unfolding GetMapItem_def [abs_def] by (intro shrink_rules shrinks_struct assms)

lemma shrinks_entry:
  assumes "\<And>p. shrinks (rv p)"
  shows "shrinks (ReadEntry n J rv k t ms)"
  unfolding ReadEntry_def [abs_def]
proof (intro shrink_rules shrinks_map_item assms)
  fix key v
  show "shrinks (\<lambda>b. Option.bind (if k = ucast (type_code T_Integer)
      then do { k \<leftarrow> GetUint64 key; Some (JString (decimal (unat k))) } else Some key)
      (\<lambda>key. case key of JString k \<Rightarrow> Some (JAddMember J ms k v, b) | _ \<Rightarrow> None))"
    by (auto simp: shrinks_def split: bind_splits jval.splits)
qed

lemma shrinks_typed:
  assumes "\<And>p. shrinks (rv p)" and "ReadTyped n J rv t = Some f"
  shows "shrinks f"
proof -
  have "shrinks (ReadUnion J rv)"
    unfolding ReadUnion_def [abs_def] Let_def by (intro shrink_rules assms)
  moreover have "shrinks (ReadList n J rv)"
    unfolding ReadList_def [abs_def] Let_def
    by (intro shrink_rules shrinks_value shrinks_members shrinks_item assms)
  moreover have "shrinks (ReadMap n J rv)"
    unfolding ReadMap_def [abs_def] Let_def by (intro shrink_rules shrinks_entry assms)
  moreover have "shrinks (ReadIntegerList J)"
    unfolding ReadIntegerList_def [abs_def] by (intro shrink_rules)
  moreover have "shrinks (ReadObjectType J)" "shrinks (ReadObjectId J)"
    unfolding ReadObjectType_def [abs_def] ReadObjectId_def [abs_def] by (intro shrink_rules)+
  ultimately show ?thesis
    using assms(2) shrinks_struct [OF assms(1)] shrinks_scalars by (auto simp: ReadTyped_def split: if_splits)
qed

text \<open>The loop to a terminator, where the reader of nested values agrees and takes something.\<close>

lemma agree_members:
  assumes "\<And>p. agree k (rv p) (rv' p)" and "\<And>p. shrinks_strictly (rv p)" and "k \<le> n" and "k \<le> m"
  shows "agree k (ReadMembers n rv p) (ReadMembers m rv' p)"
  using assms(1,3,4)
proof (induction k arbitrary: n m p)
  case (Suc k)
  obtain n' m' where nm: "n = Suc n'" "m = Suc m'" "k \<le> n'" "k \<le> m'"
    using Suc.prems(2,3) by (cases n; cases m) auto
  have rec: "agree k (ReadMembers n' rv q) (ReadMembers m' rv' q)" for q
    by (rule Suc.IH [OF agree_mono [OF Suc.prems(1)]]) (use nm in auto)
  have "ReadMembers n rv p b = ReadMembers m rv' p b" if b: "left b < Suc k" for b
  proof -
    have "rv' p b = rv p b" using Suc.prems(1) b by (simp add: agree_def)
    moreover have "ReadMembers n' rv q c = ReadMembers m' rv' q c" if "rv p b = Some (q, c)" for q c
    proof -
      have "left c < left b" using assms(2) that by (simp add: shrinks_strictly_def)
      then show ?thesis using rec b by (simp add: agree_def)
    qed
    ultimately show ?thesis by (cases "peek_u8 b"; cases "rv p b") (auto simp: nm)
  qed
  then show ?case by (simp add: agree_def)
qed (simp add: agree_def)

lemma agree_typed:
  assumes "\<And>p. agree k (rv p) (rv' p)" and "\<And>p. shrinks_strictly (rv p)" and "k \<le> n" and "k \<le> m"
  shows "rel_option (agree k) (ReadTyped n J rv t) (ReadTyped m J rv' t)"
proof -
  have sh: "shrinks (rv p)" for p by (rule shrinks_strict [OF assms(2)])
  note mem = agree_members [OF assms(1,2) assms(3,4)]
  note members = shrinks_members [OF sh]
  have struct: "agree k (ReadStruct n J rv) (ReadStruct m J rv')"
    unfolding ReadStruct_def [abs_def] by (intro agree_rules mem members)
  have item: "agree k (ReadItem n J rv l vs) (ReadItem m J rv' l vs)" for l vs
    unfolding ReadItem_def [abs_def] by (intro agree_rules struct shrinks_struct sh)
  have map_item: "agree k (GetMapItem n J rv l) (GetMapItem m J rv' l)" for l
    unfolding GetMapItem_def [abs_def] by (intro agree_rules struct)
  have "agree k (ReadEntry n J rv x y ms) (ReadEntry m J rv' x y ms)" for x y ms
    unfolding ReadEntry_def [abs_def] by (intro agree_rules map_item shrinks_map_item sh)
  then have "agree k (ReadMap n J rv) (ReadMap m J rv')"
    unfolding ReadMap_def [abs_def] Let_def by (intro agree_rules shrink_rules shrinks_entry sh)
  moreover have "agree k (ReadUnion J rv) (ReadUnion J rv')"
    unfolding ReadUnion_def [abs_def] Let_def by (intro agree_rules shrink_rules assms(1))
  moreover have "agree k (ReadList n J rv) (ReadList m J rv')"
    unfolding ReadList_def [abs_def] Let_def
    by (intro agree_rules agree_value shrink_rules mem members item shrinks_item sh)
  ultimately show ?thesis using struct by (auto simp: ReadTyped_def agree_refl)
qed

lemma value_shrinks: "shrinks_strictly (ReadValue n J p)"
proof (induction n arbitrary: p)
  case (Suc n)
  have "ahead b c \<and> left c < left b" if r: "ReadValue (Suc n) J p b = Some (v, c)" for b v c
  proof -
    obtain h d where h: "ReadHeader b = Some (h, d)" using r by (auto split: bind_splits)
    then have d: "ahead b d" "left d < left b" using header_shrinks by (simp_all add: shrinks_strictly_def)
    show ?thesis
    proof (cases "eof d \<or> ReadTyped n J (ReadValue n J) (htype h) = None")
      case True
      then show ?thesis using r h d by (auto split: if_splits)
    next
      case False
      then obtain f w where f: "ReadTyped n J (ReadValue n J) (htype h) = Some f" "f d = Some (w, c)"
        using r h by (auto split: bind_splits)
      then have "shrinks f" by (intro shrinks_typed [OF shrinks_strict [OF Suc.IH]])
      then show ?thesis using f(2) d unfolding shrinks_def ahead_def by fastforce
    qed
  qed
  then show ?case unfolding shrinks_strictly_def by blast
qed (simp add: shrinks_strictly_def)

lemma agree_ReadValue: "k \<le> n \<Longrightarrow> k \<le> m \<Longrightarrow> agree k (ReadValue n J p) (ReadValue m J p)"
proof (induction k arbitrary: n m p)
  case (Suc k)
  obtain n' m' where nm: "n = Suc n'" "m = Suc m'" "k \<le> n'" "k \<le> m'"
    using Suc.prems by (cases n; cases m) auto
  have typed: "rel_option (agree k) (ReadTyped n' J (ReadValue n' J) t) (ReadTyped m' J (ReadValue m' J) t)" for t
    by (rule agree_typed [OF Suc.IH value_shrinks]) (use nm in auto)
  have "ReadValue n J p b = ReadValue m J p b" if b: "left b < Suc k" for b
  proof (cases "ReadHeader b")
    case (Some r)
    obtain h d where r: "r = (h, d)" by fastforce
    then have "left d < k" using header_shrinks Some b unfolding shrinks_strictly_def by fastforce
    then show ?thesis using typed [of "htype h"] Some
      by (auto simp: nm r agree_def option_rel_Some1 split: option.splits elim!: option.rel_cases)
  qed (simp add: nm)
  then show ?case by (simp add: agree_def)
qed (simp add: agree_def)

lemma agree_ReadDocument:
  "left b < k \<Longrightarrow> k \<le> i \<Longrightarrow> k \<le> j \<Longrightarrow> k \<le> n \<Longrightarrow> k \<le> m \<Longrightarrow> ReadDocument i n J doc b = ReadDocument j m J doc b"
proof (induction k arbitrary: i j doc b)
  case (Suc k)
  obtain i' j' where ij: "i = Suc i'" "j = Suc j'" "k \<le> i'" "k \<le> j'"
    using Suc.prems by (cases i; cases j) auto
  have v: "ReadValue n J doc b = ReadValue m J doc b"
    using agree_ReadValue [of "Suc k" n m J doc] Suc.prems by (simp add: agree_def)
  have "ReadDocument i' n J d c = ReadDocument j' m J d c" if "ReadValue m J doc b = Some (d, c)" for d c
  proof -
    have "left c < k" using value_shrinks that Suc.prems(1) unfolding shrinks_strictly_def by fastforce
    then show ?thesis by (rule Suc.IH) (use ij Suc.prems(4,5) in auto)
  qed
  then show ?case using v by (cases "ReadValue m J doc b") (auto simp: ij)
qed simp

subsection \<open>The parser with the end of the turns told apart\<close>

text \<open>
  \<open>None\<close> of the parser is an exception of the code; in the model it is also what is left when the
  turns have run out.  The same parser, with a value of its own for each of the two: \<open>Threw\<close> is an
  exception, \<open>Unfinished\<close> a loop or a nesting that is still going on after its last turn.
  \<open>erase\<close> forgets the difference and gives the parser above.
\<close>

datatype 'x outcome = Done 'x databuffer | Threw | Unfinished

type_synonym 'x run = "databuffer \<Rightarrow> 'x outcome"

definition go :: "'x outcome \<Rightarrow> ('x \<Rightarrow> 'y run) \<Rightarrow> 'y outcome" where
  "go r f = (case r of Done x b \<Rightarrow> f x b | Threw \<Rightarrow> Threw | Unfinished \<Rightarrow> Unfinished)"

definition go_value :: "'x option \<Rightarrow> ('x \<Rightarrow> 'y outcome) \<Rightarrow> 'y outcome" where
  "go_value r f = (case r of Some x \<Rightarrow> f x | None \<Rightarrow> Threw)"

text \<open>A reader without loops of its own either reads or throws.\<close>

definition run_step :: "'x parse \<Rightarrow> 'x run" where
  "run_step f b = (case f b of Some (x, c) \<Rightarrow> Done x c | None \<Rightarrow> Threw)"

primrec run_members :: "nat \<Rightarrow> (jval \<Rightarrow> jval run) \<Rightarrow> jval \<Rightarrow> jval run" where
  "run_members 0 rv p b = Unfinished"
| "run_members (Suc n) rv p b = go_value (peek_u8 b) (\<lambda>x.
     if x \<noteq> 0x00 then go (rv p b) (run_members n rv) else Done p b)"

definition run_struct :: "nat \<Rightarrow> jsonlib \<Rightarrow> (jval \<Rightarrow> jval run) \<Rightarrow> jval run" where
  "run_struct n J rv b = go (run_members n rv (new_object J [(''_Type'', JType T_Struct)]) b)
     (\<lambda>v b. Done v (skip_bytes 1 b))"

definition run_union :: "jsonlib \<Rightarrow> (jval \<Rightarrow> jval run) \<Rightarrow> jval run" where
  "run_union J rv b = go (run_step read_u8 b) (\<lambda>addressMember b.
     let v = new_object J [(''_Type'', JType T_Union), (''_AddressMember'', JUint (ucast addressMember))] in
     if addressMember \<noteq> 0x7F then rv v b else Done v b)"

definition run_item :: "nat \<Rightarrow> jsonlib \<Rightarrow> (jval \<Rightarrow> jval run) \<Rightarrow> u8 \<Rightarrow> jval list \<Rightarrow> jval list run" where
  "run_item n J rv t vs b =
     (if t = ucast (type_code T_Integer) then go (run_step ReadInteger b) (\<lambda>v b. Done (JPushBack J vs v) b)
      else if t = ucast (type_code T_String) then go (run_step ReadString b) (\<lambda>v b. Done (JPushBack J vs v) b)
      else if t = ucast (type_code T_Struct) then go (run_struct n J rv b) (\<lambda>v b. Done (JPushBack J vs v) b)
      else Done vs b)"

primrec run_times :: "nat \<Rightarrow> ('x \<Rightarrow> 'x run) \<Rightarrow> 'x \<Rightarrow> 'x run" where
  "run_times 0 f x b = Done x b"
| "run_times (Suc k) f x b = go (f x b) (run_times k f)"

definition run_list :: "nat \<Rightarrow> jsonlib \<Rightarrow> (jval \<Rightarrow> jval run) \<Rightarrow> jval run" where
  "run_list n J rv b = go (run_step read_u8 b) (\<lambda>listType b. go (run_step read_u8 b) (\<lambda>listSize b.
     let fields = [(''_Type'', JType T_List), (''_ListType'', JUint (ucast listType)),
                   (''_ListSize'', JUint (ucast listSize))] in
     go_value (peek_u8 b) (\<lambda>x.
       if x = 0x02 \<and> listType = ucast (type_code T_Struct) then
         go (run_members n rv (JArray []) (skip_bytes 1 b)) (\<lambda>content b.
           Done (new_object J (fields @ [(''_Stub'', JBool True), (''_Content'', content)])) (skip_bytes 1 b))
       else
         go (run_times (unat listSize) (run_item n J rv listType) [] b) (\<lambda>vs b.
           Done (new_object J (fields @ [(''_Stub'', JBool False), (''_Content'', JArray vs)])) b))))"

definition run_map_item :: "nat \<Rightarrow> jsonlib \<Rightarrow> (jval \<Rightarrow> jval run) \<Rightarrow> u8 \<Rightarrow> jval run" where
  "run_map_item n J rv t b =
     (if t = ucast (type_code T_Integer) then run_step ReadInteger b
      else if t = ucast (type_code T_String) then run_step ReadString b
      else if t = ucast (type_code T_Struct) then run_struct n J rv b
      else Done JNull b)"

definition run_entry ::
  "nat \<Rightarrow> jsonlib \<Rightarrow> (jval \<Rightarrow> jval run) \<Rightarrow> u8 \<Rightarrow> u8 \<Rightarrow> (string \<times> jval) list \<Rightarrow> (string \<times> jval) list run" where
  "run_entry n J rv keyType valueType ms b = go (run_map_item n J rv keyType b) (\<lambda>key b.
     go (run_map_item n J rv valueType b) (\<lambda>v b.
     go_value (if keyType = ucast (type_code T_Integer)
            then do { k \<leftarrow> GetUint64 key; Some (JString (decimal (unat k))) } else Some key) (\<lambda>key.
     case key of JString k \<Rightarrow> Done (JAddMember J ms k v) b | _ \<Rightarrow> Threw)))"

definition run_map :: "nat \<Rightarrow> jsonlib \<Rightarrow> (jval \<Rightarrow> jval run) \<Rightarrow> jval run" where
  "run_map n J rv b = go (run_step read_u8 b) (\<lambda>keyType b. go (run_step read_u8 b) (\<lambda>valueType b. go (run_step read_u8 b) (\<lambda>mapSize b.
     go (run_times (unat mapSize) (run_entry n J rv keyType valueType) [] b) (\<lambda>ms b.
     Done (new_object J [(''_Type'', JType T_Map), (''_KeyType'', JUint (ucast keyType)),
       (''_ValueType'', JUint (ucast valueType)), (''_MapSize'', JUint (ucast mapSize)),
       (''_Content'', JObject ms)]) b))))"

definition run_typed :: "nat \<Rightarrow> jsonlib \<Rightarrow> (jval \<Rightarrow> jval run) \<Rightarrow> u32 \<Rightarrow> jval run option" where
  "run_typed n J rv t =
     (if t = type_code T_Integer then Some (run_step ReadInteger)
      else if t = type_code T_String then Some (run_step ReadString)
      else if t = type_code T_Binary then Some (run_step ReadBlob)
      else if t = type_code T_Struct then Some (run_struct n J rv)
      else if t = type_code T_Union then Some (run_union J rv)
      else if t = type_code T_List then Some (run_list n J rv)
      else if t = type_code T_Map then Some (run_map n J rv)
      else if t = type_code T_IntegerList then Some (run_step (ReadIntegerList J))
      else if t = type_code T_ObjectType then Some (run_step (ReadObjectType J))
      else if t = type_code T_ObjectId then Some (run_step (ReadObjectId J))
      else None)"

primrec run_value :: "nat \<Rightarrow> jsonlib \<Rightarrow> jval \<Rightarrow> jval run" where
  "run_value 0 J parent b = Unfinished"
| "run_value (Suc n) J parent b = go (run_step ReadHeader b) (\<lambda>h b.
     if eof b then Done parent b
     else (case run_typed n J (run_value n J) (htype h) of
         None \<Rightarrow> Done parent b
       | Some reader \<Rightarrow> go (reader b) (\<lambda>v b. Done (AddObject J (label h) v parent) b)))"

primrec run_document :: "nat \<Rightarrow> nat \<Rightarrow> jsonlib \<Rightarrow> jval \<Rightarrow> jval run" where
  "run_document 0 n J doc b = (if eof b then Done doc b else Unfinished)"
| "run_document (Suc k) n J doc b =
     (if eof b then Done doc b else go (run_value n J doc b) (run_document k n J))"

definition run_parser :: "nat \<Rightarrow> jsonlib \<Rightarrow> jval run" where
  "run_parser n J b = run_document n n J (JObject []) b"

subsubsection \<open>Forgetting the difference\<close>

primrec erase :: "'x outcome \<Rightarrow> ('x \<times> databuffer) option" where
  "erase (Done x b) = Some (x, b)"
| "erase Threw = None"
| "erase Unfinished = None"

lemma erase_go [simp]:
  "erase (go r f) = Option.bind (erase r) (\<lambda>(x, b). erase (f x b))"
  "erase (go_value v g) = Option.bind v (\<lambda>x. erase (g x))" "erase (run_step p b) = p b"
  subgoal by (cases r) (simp_all add: go_def)
  subgoal by (cases v) (simp_all add: go_value_def)
  subgoal by (auto simp: run_step_def split: option.splits)
  done

lemma erase_members:
  assumes "\<And>p b. erase (rv p b) = rv' p b"
  shows "erase (run_members n rv p b) = ReadMembers n rv' p b"
  by (induction n arbitrary: p b) (auto simp: assms intro!: Option.bind_cong)

lemma erase_times:
  assumes "\<And>x b. erase (f x b) = f' x b"
  shows "erase (run_times k f x b) = times k f' x b"
  by (induction k arbitrary: x b) (auto simp: assms intro!: Option.bind_cong)

lemma erase_readers:
  assumes "\<And>p b. erase (rv p b) = rv' p b"
  shows "erase (run_struct n J rv b) = ReadStruct n J rv' b" "erase (run_union J rv b) = ReadUnion J rv' b"
    "erase (run_item n J rv t vs b) = ReadItem n J rv' t vs b" "erase (run_map_item n J rv t b) = GetMapItem n J rv' t b"
  by (auto simp: run_struct_def ReadStruct_def run_union_def ReadUnion_def run_item_def ReadItem_def run_map_item_def
      GetMapItem_def erase_members [OF assms] assms Let_def intro!: Option.bind_cong)

lemma erase_entry:
  assumes "\<And>p b. erase (rv p b) = rv' p b"
  shows "erase (run_entry n J rv k t ms b) = ReadEntry n J rv' k t ms b"
  by (auto simp: run_entry_def ReadEntry_def erase_readers [OF assms] intro!: Option.bind_cong split: jval.splits)

lemma erase_collections:
  assumes "\<And>p b. erase (rv p b) = rv' p b"
  shows "erase (run_list n J rv b) = ReadList n J rv' b" "erase (run_map n J rv b) = ReadMap n J rv' b"
  by (auto simp: run_list_def ReadList_def run_map_def ReadMap_def Let_def erase_members [OF assms]
      erase_times [OF erase_readers(3) [OF assms]] erase_times [OF erase_entry [OF assms]] intro!: Option.bind_cong)

lemma erase_typed:
  assumes "\<And>p b. erase (rv p b) = rv' p b"
  shows "map_option (\<lambda>f b. erase (f b)) (run_typed n J rv t) = ReadTyped n J rv' t"
  by (simp add: run_typed_def ReadTyped_def erase_readers [OF assms] erase_collections [OF assms])

lemma erase_value: "erase (run_value n J p b) = ReadValue n J p b"
proof (induction n arbitrary: p b)
  case (Suc n)
  note T = erase_typed [of "run_value n J" "ReadValue n J", OF Suc.IH, symmetric]
  show ?case by (auto simp: T intro!: Option.bind_cong split: option.splits)
qed simp

lemma erase_document: "erase (run_document k n J doc b) = ReadDocument k n J doc b"
  by (induction k arbitrary: doc b) (auto simp: erase_value intro!: Option.bind_cong)

subsubsection \<open>The turns do not run out\<close>

definition ends :: "nat \<Rightarrow> 'x run \<Rightarrow> bool" where
  "ends k f \<longleftrightarrow> (\<forall>b. left b < k \<longrightarrow> f b \<noteq> Unfinished)"

named_theorems ends_rules

lemma ends_simple [ends_rules]: "ends k (\<lambda>b. Done (x b) (g b))" "ends k (\<lambda>b. Threw)" "ends k (run_step p)" "ends k (\<lambda>b. run_step p b)"
  by (auto simp: ends_def run_step_def split: option.splits)

lemma ends_go [ends_rules]:
  assumes "ends k f" and "shrinks (\<lambda>b. erase (f b))" and "\<And>x. ends k (g x)"
  shows "ends k (\<lambda>b. go (f b) g)"
  unfolding ends_def
proof (intro allI impI)
  fix b assume b: "left b < k"
  show "go (f b) g \<noteq> Unfinished"
  proof (cases "f b")
    case (Done x c)
    then have "left c < k" using assms(2) b by (auto simp: shrinks_def ahead_def dest!: spec [of _ b])
    then show ?thesis using assms(3) Done by (simp add: go_def ends_def)
  qed (use assms(1) b in \<open>auto simp: go_def ends_def\<close>)
qed

lemma ends_if [ends_rules]: "(P \<Longrightarrow> ends k f) \<Longrightarrow> (\<not> P \<Longrightarrow> ends k g) \<Longrightarrow> ends k (\<lambda>b. if P then f b else g b)"
  by (cases P) simp_all

lemma ends_go_value [ends_rules]: "(\<And>x. ends k (g x)) \<Longrightarrow> ends k (\<lambda>b. go_value (v b) (\<lambda>x. g x b))"
  by (auto simp: ends_def go_value_def split: option.splits)

lemma ends_after_skip [ends_rules]: "ends k f \<Longrightarrow> ends k (\<lambda>b. f (skip_bytes n b))"
  unfolding ends_def using left_skip le_less_trans by blast

lemma ends_mono: "ends k f \<Longrightarrow> j \<le> k \<Longrightarrow> ends j f"
  by (auto simp: ends_def)

lemma shrinks_step [shrink_rules]: "shrinks p \<Longrightarrow> shrinks (\<lambda>b. erase (run_step p b))"
  by simp
text \<open>A reader of nested values that takes something and does not run out of turns.\<close>

definition progresses :: "nat \<Rightarrow> (jval \<Rightarrow> jval run) \<Rightarrow> bool" where
  "progresses k rv \<longleftrightarrow> (\<forall>p. ends k (rv p) \<and> shrinks_strictly (\<lambda>b. erase (rv p b)))"

lemma ends_members: "progresses k rv \<Longrightarrow> k \<le> n \<Longrightarrow> ends k (run_members n rv p)"
proof (induction k arbitrary: n p)
  case (Suc k)
  obtain m where n: "n = Suc m" "k \<le> m" using Suc.prems(2) by (cases n) auto
  have rec: "ends k (run_members m rv q)" for q
    by (rule Suc.IH [OF _ n(2)]) (use Suc.prems(1) in \<open>auto simp: progresses_def intro: ends_mono\<close>)
  have "go (rv p b) (run_members m rv) \<noteq> Unfinished" if b: "left b < Suc k" for b
  proof (cases "rv p b")
    case (Done q c)
    then have "left c < left b" using Suc.prems(1) shrinks_strictly_left [of "\<lambda>b. erase (rv p b)" b q c] by (simp add: progresses_def)
    then show ?thesis using rec b Done by (simp add: go_def ends_def)
  qed (use Suc.prems(1) b in \<open>auto simp: progresses_def ends_def go_def\<close>)
  then show ?case by (auto simp: ends_def n go_value_def split: option.splits)
qed (simp add: ends_def)

lemma ends_times [ends_rules]:
  assumes "\<And>x. ends k (f x)" and "\<And>x. shrinks (\<lambda>b. erase (f x b))"
  shows "ends k (run_times j f x)"
proof (induction j arbitrary: x)
  case (Suc j)
  have "run_times (Suc j) f x = (\<lambda>b. go (f x b) (run_times j f))" by (rule ext) simp
  then show ?case using ends_go [OF assms Suc.IH] by simp
qed (simp add: ends_def)

lemma ends_typed:
  assumes "progresses k rv" and "k \<le> n" and "run_typed n J rv t = Some f"
  shows "ends k f"
proof -
  have sh: "shrinks (\<lambda>b. erase (rv p b))" for p using assms(1) shrinks_strict by (auto simp: progresses_def)
  have rv: "ends k (rv p)" for p using assms(1) by (simp add: progresses_def)
  note mem = ends_members [OF assms(1,2)]
  note er = erase_members [of rv, OF refl] erase_readers [of rv, OF refl] erase_entry [of rv, OF refl]
    erase_times [OF erase_readers(3) [of rv, OF refl]] erase_times [OF erase_entry [of rv, OF refl]]
  have sm: "shrinks (\<lambda>b. erase (run_members n rv p b))" for p
    unfolding er(1) using shrinks_members [of "\<lambda>p b. erase (rv p b)", OF sh] by simp
  have struct: "ends k (run_struct n J rv)" "shrinks (\<lambda>b. erase (run_struct n J rv b))"
    subgoal unfolding run_struct_def [abs_def] by (intro ends_rules mem sm)
    subgoal unfolding er(2) using shrinks_struct [of "\<lambda>p b. erase (rv p b)", OF sh] by simp
    done
  have union: "ends k (run_union J rv)"
    unfolding run_union_def [abs_def] Let_def by (intro ends_rules rv shrink_rules)
  have item: "ends k (run_item n J rv l vs)" "shrinks (\<lambda>b. erase (run_item n J rv l vs b))" for l vs
    subgoal unfolding run_item_def [abs_def] by (intro ends_rules struct shrink_rules)
    subgoal unfolding er(4) using shrinks_item [of "\<lambda>p b. erase (rv p b)", OF sh] by simp
    done
  have map_item: "ends k (run_map_item n J rv l)" "shrinks (\<lambda>b. erase (run_map_item n J rv l b))" for l
    subgoal unfolding run_map_item_def [abs_def] by (intro ends_rules struct)
    subgoal unfolding er(5) using shrinks_map_item [of "\<lambda>p b. erase (rv p b)", OF sh] by simp
    done
  have entry: "ends k (run_entry n J rv x y ms)" "shrinks (\<lambda>b. erase (run_entry n J rv x y ms b))" for x y ms
    subgoal
    proof -
      have key: "ends k (\<lambda>b. case key of JString k \<Rightarrow> Done (JAddMember J ms k v) b | _ \<Rightarrow> Threw)" for key v
        by (cases key) (auto intro: ends_rules)
      show ?thesis unfolding run_entry_def [abs_def] by (intro ends_rules map_item key)
    qed
    subgoal unfolding er(6) using shrinks_entry [of "\<lambda>p b. erase (rv p b)", OF sh] by simp
    done
  have list: "ends k (run_list n J rv)"
  proof -
    have "shrinks (\<lambda>b. erase (run_times j (run_item n J rv l) vs b))" for j l vs
      unfolding er(7) using shrinks_times [OF shrinks_item [of "\<lambda>p b. erase (rv p b)", OF sh]] by simp
    then show ?thesis unfolding run_list_def [abs_def] Let_def by (intro ends_rules mem sm item shrink_rules)
  qed
  have map: "ends k (run_map n J rv)"
  proof -
    have "shrinks (\<lambda>b. erase (run_times j (run_entry n J rv x y) vs b))" for j x y vs
      unfolding er(8) using shrinks_times [OF shrinks_entry [of "\<lambda>p b. erase (rv p b)", OF sh]] by simp
    then show ?thesis unfolding run_map_def [abs_def] by (intro ends_rules entry shrink_rules)
  qed
  show ?thesis
    using assms(3) struct(1) union list map ends_simple(3) by (auto simp: run_typed_def split: if_splits)
qed

lemma ends_value: "k \<le> n \<Longrightarrow> ends k (run_value n J p)"
proof (induction k arbitrary: n p)
  case (Suc k)
  obtain m where n: "n = Suc m" "k \<le> m" using Suc.prems by (cases n) auto
  have p: "progresses k (run_value m J)"
    using Suc.IH [OF n(2)] value_shrinks by (auto simp: progresses_def erase_value)
  have "run_value n J p b \<noteq> Unfinished" if b: "left b < Suc k" for b
  proof (cases "ReadHeader b")
    case (Some r)
    obtain h d where r: "r = (h, d)" by fastforce
    then have d: "left d < k" using header_shrinks Some b unfolding shrinks_strictly_def by fastforce
    show ?thesis
    proof (cases "run_typed m J (run_value m J) (htype h)")
      case typed: (Some f)
      then have "f d \<noteq> Unfinished" using ends_typed [OF p n(2) typed] d by (simp add: ends_def)
      then show ?thesis using Some r typed by (cases "f d") (auto simp: n go_def run_step_def)
    qed (use Some r in \<open>auto simp: n go_def run_step_def\<close>)
  qed (simp add: n go_def run_step_def)
  then show ?case by (simp add: ends_def)
qed (simp add: ends_def)

lemma ends_document: "k \<le> j \<Longrightarrow> k \<le> n \<Longrightarrow> ends k (run_document j n J doc)"
proof (induction k arbitrary: j doc)
  case (Suc k)
  obtain i where j: "j = Suc i" "k \<le> i" using Suc.prems by (cases j) auto
  have "run_document j n J doc b \<noteq> Unfinished" if b: "left b < Suc k" for b
  proof (cases "run_value n J doc b")
    case (Done d c)
    then have "left c < left b"
      using shrinks_strictly_left [OF value_shrinks [of n J doc], of b d c] erase_value [of n J doc b] by simp
    then show ?thesis using Suc.IH [OF j(2)] Suc.prems b Done by (simp add: j go_def ends_def)
  qed (use ends_value [of "Suc k" n J doc] Suc.prems b in \<open>auto simp: j go_def ends_def\<close>)
  then show ?case by (simp add: ends_def)
qed (simp add: ends_def)

lemma outcome_known: "erase r = erase r' \<Longrightarrow> r \<noteq> Unfinished \<Longrightarrow> r' \<noteq> Unfinished \<Longrightarrow> r = r'"
  by (cases r; cases r') auto



end
