(* ===== verification/BlazeMessages.thy ===== *)
theory BlazeMessages
  imports TDFPacket TDFParse
begin

text \<open>
  The Blaze messages of \<open>source/Blaze/Functions.{h,cpp}\<close>: one record per struct, its \<open>Write\<close> as
  statements over the document builder, and the labelled values (\<open>_fields\<close>) it builds.  A
  \<open>std::map\<close> is the list of its entries in the order of iteration; an \<open>enum class\<close> is its
  underlying \<open>int\<close>.
\<close>

type_synonym enum_code = u32
type_synonym i32 = u32
type_synonym i64 = u64
type_synonym object_id = "u16 \<times> u16 \<times> u64"

text \<open>The overload of \<open>put_object_id\<close> that takes the tuple.\<close>

definition put_id :: "jsonlib \<Rightarrow> string \<Rightarrow> object_id \<Rightarrow> packet \<Rightarrow> packet option" where
  "put_id J lbl objectId = (case objectId of (x, y, z) \<Rightarrow> put_object_id J lbl x y z)"

definition V_id :: "object_id \<Rightarrow> tdf" where
  "V_id objectId = (case objectId of (x, y, z) \<Rightarrow> V_ObjectId (ucast x) (ucast y) z)"

named_theorems builds_rules

lemma builds_put_id: "json_laws J \<Longrightarrow> builds (put_id J l i) [(l, V_id i)]"
  by (cases i) (simp add: put_id_def V_id_def builds_put)

lemma builds_no_blob: "json_laws J \<Longrightarrow> builds (put_blob J l None) [(l, V_Binary [])]"
  using builds_put(3) [of J l None] by simp

lemma builds_empty_integer_list:
  "json_laws J \<Longrightarrow> builds (within (push_integer_list J l) []) [(l, V_IntegerList [])]"
  by (rule builds_within_integer_list [OF _ builds_run_Nil]) simp_all

lemma builds_each_value:
  "(\<And>x. builds (f x) [g x]) \<Longrightarrow> builds (each f xs) (map g xs)"
  using builds_each [of xs f "\<lambda>x. [g x]"] by simp

lemma builds_each_pair:
  assumes "\<And>k v. builds (f k v) [g k v]"
  shows "builds (each (\<lambda>(k, v). f k v) xs) (map (\<lambda>(k, v). g k v) xs)"
  by (rule builds_each_value) (auto split: prod.split intro: assms)

lemma builds_conv: "builds f fs \<Longrightarrow> fs = fs' \<Longrightarrow> builds f fs'"
  by simp

lemmas builds_intros =
  builds_run_Cons builds_run_Nil builds_each_pair builds_each_value builds_skip builds_if
  builds_empty_integer_list builds_within builds_put_id builds_no_blob builds_put(1,2)

subsection \<open>Structures and writers\<close>

record ClientData =
  ClientData_serviceName :: string
  ClientData_type :: enum_code
  ClientData_lang :: u32
  ClientData_iito :: bool

definition ClientData_Write :: "jsonlib \<Rightarrow> ClientData \<Rightarrow> packet \<Rightarrow> packet option" where
  "ClientData_Write J d = run
     [put_integer J ''IITO'' (if ClientData_iito d then 1 else 0),
      put_integer J ''LANG'' (ucast (ClientData_lang d)),
      put_string J ''SVCN'' (ClientData_serviceName d),
      put_integer J ''TYPE'' (scast (ClientData_type d))]"

definition ClientData_fields :: "ClientData \<Rightarrow> (string \<times> tdf) list" where
  "ClientData_fields d =
     [(''IITO'', V_Integer (if ClientData_iito d then 1 else 0)),
      (''LANG'', V_Integer (ucast (ClientData_lang d))),
      (''SVCN'', V_String (ClientData_serviceName d)),
      (''TYPE'', V_Integer (scast (ClientData_type d)))]"

record PresenceInfo =
  PresenceInfo_state :: enum_code
  PresenceInfo_level :: u32
  PresenceInfo_playgroupId :: u16
  PresenceInfo_extra :: u16

definition PresenceInfo_Write :: "jsonlib \<Rightarrow> PresenceInfo \<Rightarrow> packet \<Rightarrow> packet option" where
  "PresenceInfo_Write J d = run
     [put_integer J ''GRP'' (ucast (PresenceInfo_playgroupId d)),
      put_integer J ''LVL'' (ucast (PresenceInfo_level d)),
      put_integer J ''STAT'' (scast (PresenceInfo_state d)),
      put_integer J ''XTRA'' (ucast (PresenceInfo_extra d))]"

definition PresenceInfo_fields :: "PresenceInfo \<Rightarrow> (string \<times> tdf) list" where
  "PresenceInfo_fields d =
     [(''GRP'', V_Integer (ucast (PresenceInfo_playgroupId d))),
      (''LVL'', V_Integer (ucast (PresenceInfo_level d))),
      (''STAT'', V_Integer (scast (PresenceInfo_state d))),
      (''XTRA'', V_Integer (ucast (PresenceInfo_extra d)))]"

record IpAddress =
  IpAddress_address :: u32
  IpAddress_port :: u16

definition IpAddress_Write :: "jsonlib \<Rightarrow> IpAddress \<Rightarrow> packet \<Rightarrow> packet option" where
  "IpAddress_Write J d = run
     [put_integer J ''IP'' (ucast (IpAddress_address d)),
      put_integer J ''PORT'' (ucast (IpAddress_port d))]"

definition IpAddress_fields :: "IpAddress \<Rightarrow> (string \<times> tdf) list" where
  "IpAddress_fields d =
     [(''IP'', V_Integer (ucast (IpAddress_address d))),
      (''PORT'', V_Integer (ucast (IpAddress_port d)))]"

record HostNameAddress =
  HostNameAddress_name :: string
  HostNameAddress_port :: u16

definition HostNameAddress_Write :: "jsonlib \<Rightarrow> HostNameAddress \<Rightarrow> packet \<Rightarrow> packet option" where
  "HostNameAddress_Write J d = run
     [put_string J ''NAME'' (HostNameAddress_name d),
      put_integer J ''PORT'' (ucast (HostNameAddress_port d))]"

definition HostNameAddress_fields :: "HostNameAddress \<Rightarrow> (string \<times> tdf) list" where
  "HostNameAddress_fields d =
     [(''NAME'', V_String (HostNameAddress_name d)),
      (''PORT'', V_Integer (ucast (HostNameAddress_port d)))]"

record IpPairAddress =
  IpPairAddress_exip :: IpAddress
  IpPairAddress_inip :: IpAddress

definition IpPairAddress_Write :: "jsonlib \<Rightarrow> IpPairAddress \<Rightarrow> packet \<Rightarrow> packet option" where
  "IpPairAddress_Write J d = run
     [within (push_struct J ''EXIP'') [IpAddress_Write J (IpPairAddress_exip d)],
      within (push_struct J ''INIP'') [IpAddress_Write J (IpPairAddress_inip d)]]"

definition IpPairAddress_fields :: "IpPairAddress \<Rightarrow> (string \<times> tdf) list" where
  "IpPairAddress_fields d =
     [(''EXIP'', V_Struct (IpAddress_fields (IpPairAddress_exip d))),
      (''INIP'', V_Struct (IpAddress_fields (IpPairAddress_inip d)))]"

record UserOptions =
  UserOptions_value :: enum_code

definition UserOptions_Write :: "jsonlib \<Rightarrow> UserOptions \<Rightarrow> packet \<Rightarrow> packet option" where
  "UserOptions_Write J d = run
     [put_integer J ''TMOP'' (scast (UserOptions_value d))]"

definition UserOptions_fields :: "UserOptions \<Rightarrow> (string \<times> tdf) list" where
  "UserOptions_fields d =
     [(''TMOP'', V_Integer (scast (UserOptions_value d)))]"

record TickerServer =
  TickerServer_address :: string
  TickerServer_key :: string
  TickerServer_port :: u16

definition TickerServer_Write :: "jsonlib \<Rightarrow> TickerServer \<Rightarrow> packet \<Rightarrow> packet option" where
  "TickerServer_Write J d = run
     [put_string J ''ADRS'' (TickerServer_address d),
      put_integer J ''PORT'' (ucast (TickerServer_port d)),
      put_string J ''SKEY'' (TickerServer_key d)]"

definition TickerServer_fields :: "TickerServer \<Rightarrow> (string \<times> tdf) list" where
  "TickerServer_fields d =
     [(''ADRS'', V_String (TickerServer_address d)),
      (''PORT'', V_Integer (ucast (TickerServer_port d))),
      (''SKEY'', V_String (TickerServer_key d))]"

record TelemetryServer =
  TelemetryServer_address :: string
  TelemetryServer_disable :: string
  TelemetryServer_filter :: string
  TelemetryServer_noToggleOk :: string
  TelemetryServer_session :: string
  TelemetryServer_key :: string
  TelemetryServer_location :: u32
  TelemetryServer_port :: u32
  TelemetryServer_sendDelay :: u32
  TelemetryServer_sendPercentage :: u32
  TelemetryServer_anonymous :: bool

definition TelemetryServer_Write :: "jsonlib \<Rightarrow> TelemetryServer \<Rightarrow> packet \<Rightarrow> packet option" where
  "TelemetryServer_Write J d = run
     [put_string J ''ADRS'' (TelemetryServer_address d),
      put_integer J ''ANON'' (if TelemetryServer_anonymous d then 1 else 0),
      put_string J ''DISA'' (TelemetryServer_disable d),
      put_string J ''FILT'' (TelemetryServer_filter d),
      put_integer J ''LOC'' (ucast (TelemetryServer_location d)),
      put_string J ''NOOK'' (TelemetryServer_noToggleOk d),
      put_integer J ''PORT'' (ucast (TelemetryServer_port d)),
      put_integer J ''SDLY'' (ucast (TelemetryServer_sendDelay d)),
      put_string J ''SESS'' (TelemetryServer_session d),
      put_string J ''SKEY'' (TelemetryServer_key d),
      put_integer J ''SPCT'' (ucast (TelemetryServer_sendPercentage d))]"

definition TelemetryServer_fields :: "TelemetryServer \<Rightarrow> (string \<times> tdf) list" where
  "TelemetryServer_fields d =
     [(''ADRS'', V_String (TelemetryServer_address d)),
      (''ANON'', V_Integer (if TelemetryServer_anonymous d then 1 else 0)),
      (''DISA'', V_String (TelemetryServer_disable d)),
      (''FILT'', V_String (TelemetryServer_filter d)),
      (''LOC'', V_Integer (ucast (TelemetryServer_location d))),
      (''NOOK'', V_String (TelemetryServer_noToggleOk d)),
      (''PORT'', V_Integer (ucast (TelemetryServer_port d))),
      (''SDLY'', V_Integer (ucast (TelemetryServer_sendDelay d))),
      (''SESS'', V_String (TelemetryServer_session d)),
      (''SKEY'', V_String (TelemetryServer_key d)),
      (''SPCT'', V_Integer (ucast (TelemetryServer_sendPercentage d)))]"

record PssConfig =
  PssConfig_oids :: "string list"
  PssConfig_address :: string
  PssConfig_pjid :: string
  PssConfig_port :: u32
  PssConfig_rprt :: u32
  PssConfig_tiid :: u32

definition PssConfig_Write :: "jsonlib \<Rightarrow> PssConfig \<Rightarrow> packet \<Rightarrow> packet option" where
  "PssConfig_Write J d = run
     [put_string J ''ADRS'' (PssConfig_address d),
      put_blob J ''CSIG'' None,
      within (push_list J ''OIDS'' T_Integer False) [each (\<lambda>oid. put_string J '''' oid)
        (PssConfig_oids d)],
      put_string J ''PJID'' (PssConfig_pjid d),
      put_integer J ''PORT'' (ucast (PssConfig_port d)),
      put_integer J ''RPRT'' (ucast (PssConfig_rprt d)),
      put_integer J ''TIID'' (ucast (PssConfig_tiid d))]"

definition PssConfig_fields :: "PssConfig \<Rightarrow> (string \<times> tdf) list" where
  "PssConfig_fields d =
     [(''ADRS'', V_String (PssConfig_address d)),
      (''CSIG'', V_Binary []),
      (''OIDS'', V_List T_Integer False (map V_String (PssConfig_oids d))),
      (''PJID'', V_String (PssConfig_pjid d)),
      (''PORT'', V_Integer (ucast (PssConfig_port d))),
      (''RPRT'', V_Integer (ucast (PssConfig_rprt d))),
      (''TIID'', V_Integer (ucast (PssConfig_tiid d)))]"

record NetworkQosData =
  NetworkQosData_dbps :: u32
  NetworkQosData_type :: enum_code
  NetworkQosData_ubps :: u32

definition NetworkQosData_Write :: "jsonlib \<Rightarrow> NetworkQosData \<Rightarrow> packet \<Rightarrow> packet option" where
  "NetworkQosData_Write J d = run
     [put_integer J ''DBPS'' (ucast (NetworkQosData_dbps d)),
      put_integer J ''NATT'' (scast (NetworkQosData_type d)),
      put_integer J ''UBPS'' (ucast (NetworkQosData_ubps d))]"

definition NetworkQosData_fields :: "NetworkQosData \<Rightarrow> (string \<times> tdf) list" where
  "NetworkQosData_fields d =
     [(''DBPS'', V_Integer (ucast (NetworkQosData_dbps d))),
      (''NATT'', V_Integer (scast (NetworkQosData_type d))),
      (''UBPS'', V_Integer (ucast (NetworkQosData_ubps d)))]"

record QosPingSiteInfo =
  QosPingSiteInfo_name :: string
  QosPingSiteInfo_address :: string
  QosPingSiteInfo_port :: u16

definition QosPingSiteInfo_Write :: "jsonlib \<Rightarrow> QosPingSiteInfo \<Rightarrow> packet \<Rightarrow> packet option" where
  "QosPingSiteInfo_Write J d = run
     [put_string J ''PSA'' (QosPingSiteInfo_address d),
      put_integer J ''PSP'' (ucast (QosPingSiteInfo_port d)),
      put_string J ''SNA'' (QosPingSiteInfo_name d)]"

definition QosPingSiteInfo_fields :: "QosPingSiteInfo \<Rightarrow> (string \<times> tdf) list" where
  "QosPingSiteInfo_fields d =
     [(''PSA'', V_String (QosPingSiteInfo_address d)),
      (''PSP'', V_Integer (ucast (QosPingSiteInfo_port d))),
      (''SNA'', V_String (QosPingSiteInfo_name d))]"

record QosConfigInfo =
  QosConfigInfo_bandwidthPingSiteInfo :: "QosPingSiteInfo list"
  QosConfigInfo_pingSiteInfoByAlias :: "(string \<times> QosPingSiteInfo) list"
  QosConfigInfo_serviceId :: u32
  QosConfigInfo_latencyProbes :: u16

definition QosConfigInfo_Write :: "jsonlib \<Rightarrow> QosConfigInfo \<Rightarrow> packet \<Rightarrow> packet option" where
  "QosConfigInfo_Write J d = run
     [within (push_struct J ''BWPS'') [if QosConfigInfo_bandwidthPingSiteInfo d \<noteq> [] then
        QosPingSiteInfo_Write J (hd (QosConfigInfo_bandwidthPingSiteInfo d)) else Some],
      put_integer J ''LNP'' (ucast (QosConfigInfo_latencyProbes d)),
      within (push_map J ''LTPS'' T_String T_Struct) [each (\<lambda>(name, siteInfo). within
        (push_struct J name) [QosPingSiteInfo_Write J siteInfo]) (QosConfigInfo_pingSiteInfoByAlias
        d)],
      put_integer J ''SVID'' (ucast (QosConfigInfo_serviceId d))]"

definition QosConfigInfo_fields :: "QosConfigInfo \<Rightarrow> (string \<times> tdf) list" where
  "QosConfigInfo_fields d =
     [(''BWPS'', V_Struct ((if QosConfigInfo_bandwidthPingSiteInfo d \<noteq> [] then
        QosPingSiteInfo_fields (hd (QosConfigInfo_bandwidthPingSiteInfo d)) else []))),
      (''LNP'', V_Integer (ucast (QosConfigInfo_latencyProbes d))),
      (''LTPS'', V_Map T_String T_Struct (map (\<lambda>(name, siteInfo). (name, V_Struct
        (QosPingSiteInfo_fields siteInfo))) (QosConfigInfo_pingSiteInfoByAlias d))),
      (''SVID'', V_Integer (ucast (QosConfigInfo_serviceId d)))]"

record UserSessionExtendedData =
  UserSessionExtendedData_qos :: NetworkQosData
  UserSessionExtendedData_ip :: IpPairAddress
  UserSessionExtendedData_clientAttributes :: "(u32 \<times> i32) list"
  UserSessionExtendedData_dataMap :: "(u32 \<times> i64) list"
  UserSessionExtendedData_latencyList :: "i32 list"
  UserSessionExtendedData_blazeObjectIdList :: "object_id list"
  UserSessionExtendedData_country :: string
  UserSessionExtendedData_userAttributes :: u64
  UserSessionExtendedData_hardwareFlags :: u32

definition UserSessionExtendedData_Write :: "jsonlib \<Rightarrow> UserSessionExtendedData \<Rightarrow> packet \<Rightarrow> packet option" where
  "UserSessionExtendedData_Write J d = run
     [if IpAddress_address (IpPairAddress_exip (UserSessionExtendedData_ip d)) = 0 \<and>
        IpAddress_address (IpPairAddress_inip (UserSessionExtendedData_ip d)) = 0 then within
        (push_union J ''ADDR'' 0x7F) [] else within (push_union J ''ADDR'' 2) [within (push_struct
        J ''VALU'') [IpPairAddress_Write J (UserSessionExtendedData_ip d)]],
      put_string J ''BPS'' ''gva'',
      within (push_map J ''CMAP'' T_Integer T_Integer) [each (\<lambda>(key, value). put_integer J
        (decimal (unat key)) (scast (value))) (UserSessionExtendedData_clientAttributes d)],
      put_string J ''CTY'' (UserSessionExtendedData_country d),
      within (push_integer_list J ''CVAR'') [],
      within (push_map J ''DMAP'' T_Integer T_Integer) [each (\<lambda>(key, value). put_integer J
        (decimal (unat key)) value) (UserSessionExtendedData_dataMap d)],
      put_integer J ''HWFG'' (ucast (UserSessionExtendedData_hardwareFlags d)),
      within (push_list J ''PSLM'' T_Integer False) [each (\<lambda>value. put_integer J ''''
        (scast (value))) (UserSessionExtendedData_latencyList d)],
      within (push_struct J ''QDAT'') [NetworkQosData_Write J (UserSessionExtendedData_qos d)],
      put_integer J ''UATT'' (UserSessionExtendedData_userAttributes d),
      within (push_list J ''ULST'' T_ObjectId False) [each (\<lambda>value. put_id J '''' value)
        (UserSessionExtendedData_blazeObjectIdList d)]]"

definition UserSessionExtendedData_fields :: "UserSessionExtendedData \<Rightarrow> (string \<times> tdf) list" where
  "UserSessionExtendedData_fields d =
     (if IpAddress_address (IpPairAddress_exip (UserSessionExtendedData_ip d)) = 0 \<and>
        IpAddress_address (IpPairAddress_inip (UserSessionExtendedData_ip d)) = 0 then [(''ADDR'',
        V_Union 0x7F ([]))] else [(''ADDR'', V_Union 2 ([(''VALU'', V_Struct (IpPairAddress_fields
        (UserSessionExtendedData_ip d)))]))]) @
     [(''BPS'', V_String ''gva''),
      (''CMAP'', V_Map T_Integer T_Integer (map (\<lambda>(key, value). ((decimal (unat key)),
        V_Integer (scast (value)))) (UserSessionExtendedData_clientAttributes d))),
      (''CTY'', V_String (UserSessionExtendedData_country d)),
      (''CVAR'', V_IntegerList []),
      (''DMAP'', V_Map T_Integer T_Integer (map (\<lambda>(key, value). ((decimal (unat key)),
        V_Integer value)) (UserSessionExtendedData_dataMap d))),
      (''HWFG'', V_Integer (ucast (UserSessionExtendedData_hardwareFlags d))),
      (''PSLM'', V_List T_Integer False (map (\<lambda>value. V_Integer (scast (value)))
        (UserSessionExtendedData_latencyList d))),
      (''QDAT'', V_Struct (NetworkQosData_fields (UserSessionExtendedData_qos d))),
      (''UATT'', V_Integer (UserSessionExtendedData_userAttributes d)),
      (''ULST'', V_List T_ObjectId False (map (\<lambda>value. V_id value)
        (UserSessionExtendedData_blazeObjectIdList d)))]"

record HostInfo =
  HostInfo_id :: i64
  HostInfo_slot :: u8

definition HostInfo_Write :: "jsonlib \<Rightarrow> HostInfo \<Rightarrow> packet \<Rightarrow> packet option" where
  "HostInfo_Write J d = run
     [put_integer J ''HPID'' (HostInfo_id d),
      put_integer J ''HSLT'' (ucast (HostInfo_slot d))]"

definition HostInfo_fields :: "HostInfo \<Rightarrow> (string \<times> tdf) list" where
  "HostInfo_fields d =
     [(''HPID'', V_Integer (HostInfo_id d)),
      (''HSLT'', V_Integer (ucast (HostInfo_slot d)))]"

record PersonaDetails =
  PersonaDetails_name :: string
  PersonaDetails_id :: i64
  PersonaDetails_last :: u32
  PersonaDetails_status :: enum_code
  PersonaDetails_externalReference :: u64
  PersonaDetails_externalReferenceType :: enum_code

definition PersonaDetails_Write :: "jsonlib \<Rightarrow> PersonaDetails \<Rightarrow> packet \<Rightarrow> packet option" where
  "PersonaDetails_Write J d = run
     [put_string J ''DSNM'' (PersonaDetails_name d),
      put_integer J ''LAST'' (ucast (PersonaDetails_last d)),
      put_integer J ''PID'' (PersonaDetails_id d),
      put_integer J ''STAS'' (scast (PersonaDetails_status d)),
      put_integer J ''XREF'' (PersonaDetails_externalReference d),
      put_integer J ''XTYP'' (scast (PersonaDetails_externalReferenceType d))]"

definition PersonaDetails_fields :: "PersonaDetails \<Rightarrow> (string \<times> tdf) list" where
  "PersonaDetails_fields d =
     [(''DSNM'', V_String (PersonaDetails_name d)),
      (''LAST'', V_Integer (ucast (PersonaDetails_last d))),
      (''PID'', V_Integer (PersonaDetails_id d)),
      (''STAS'', V_Integer (scast (PersonaDetails_status d))),
      (''XREF'', V_Integer (PersonaDetails_externalReference d)),
      (''XTYP'', V_Integer (scast (PersonaDetails_externalReferenceType d)))]"

record SessionInfo =
  SessionInfo_personaDetails :: PersonaDetails
  SessionInfo_email :: string
  SessionInfo_key :: string
  SessionInfo_blazeId :: i64
  SessionInfo_uid :: i64
  SessionInfo_lastLogin :: i64
  SessionInfo_firstLogin :: bool

definition SessionInfo_Write :: "jsonlib \<Rightarrow> SessionInfo \<Rightarrow> packet \<Rightarrow> packet option" where
  "SessionInfo_Write J d = run
     [put_integer J ''BUID'' (SessionInfo_blazeId d),
      put_integer J ''FRST'' (if SessionInfo_firstLogin d then 1 else 0),
      put_string J ''KEY'' (SessionInfo_key d),
      put_integer J ''LLOG'' (SessionInfo_lastLogin d),
      put_string J ''MAIL'' (SessionInfo_email d),
      within (push_struct J ''PDTL'') [PersonaDetails_Write J (SessionInfo_personaDetails d)],
      put_integer J ''UID'' (SessionInfo_uid d)]"

definition SessionInfo_fields :: "SessionInfo \<Rightarrow> (string \<times> tdf) list" where
  "SessionInfo_fields d =
     [(''BUID'', V_Integer (SessionInfo_blazeId d)),
      (''FRST'', V_Integer (if SessionInfo_firstLogin d then 1 else 0)),
      (''KEY'', V_String (SessionInfo_key d)),
      (''LLOG'', V_Integer (SessionInfo_lastLogin d)),
      (''MAIL'', V_String (SessionInfo_email d)),
      (''PDTL'', V_Struct (PersonaDetails_fields (SessionInfo_personaDetails d))),
      (''UID'', V_Integer (SessionInfo_uid d))]"

record ListIdentification =
  ListIdentification_name :: string
  ListIdentification_type :: u32

definition ListIdentification_Write :: "jsonlib \<Rightarrow> ListIdentification \<Rightarrow> packet \<Rightarrow> packet option" where
  "ListIdentification_Write J d = run
     [put_string J ''LNM'' (ListIdentification_name d),
      put_integer J ''TYPE'' (ucast (ListIdentification_type d))]"

definition ListIdentification_fields :: "ListIdentification \<Rightarrow> (string \<times> tdf) list" where
  "ListIdentification_fields d =
     [(''LNM'', V_String (ListIdentification_name d)),
      (''TYPE'', V_Integer (ucast (ListIdentification_type d)))]"

record ListInfo =
  ListInfo_blazeObjectId :: object_id
  ListInfo_identification :: ListIdentification
  ListInfo_flags :: u32
  ListInfo_lms :: u32
  ListInfo_prid :: u32

definition ListInfo_Write :: "jsonlib \<Rightarrow> ListInfo \<Rightarrow> packet \<Rightarrow> packet option" where
  "ListInfo_Write J d = run
     [put_id J ''BOID'' (ListInfo_blazeObjectId d),
      put_integer J ''FLGS'' (ucast (ListInfo_flags d)),
      within (push_struct J ''LID'') [ListIdentification_Write J (ListInfo_identification d)],
      put_integer J ''LMS'' (ucast (ListInfo_lms d)),
      put_integer J ''PRID'' (ucast (ListInfo_prid d))]"

definition ListInfo_fields :: "ListInfo \<Rightarrow> (string \<times> tdf) list" where
  "ListInfo_fields d =
     [(''BOID'', V_id (ListInfo_blazeObjectId d)),
      (''FLGS'', V_Integer (ucast (ListInfo_flags d))),
      (''LID'', V_Struct (ListIdentification_fields (ListInfo_identification d))),
      (''LMS'', V_Integer (ucast (ListInfo_lms d))),
      (''PRID'', V_Integer (ucast (ListInfo_prid d)))]"

record ListMemberId =
  ListMemberId_name :: string
  ListMemberId_id :: i64
  ListMemberId_externalReference :: u64
  ListMemberId_externalReferenceType :: enum_code

definition ListMemberId_Write :: "jsonlib \<Rightarrow> ListMemberId \<Rightarrow> packet \<Rightarrow> packet option" where
  "ListMemberId_Write J d = run
     [put_integer J ''BLID'' (ListMemberId_id d),
      put_string J ''PNAM'' (ListMemberId_name d),
      put_integer J ''XREF'' (ListMemberId_externalReference d),
      put_integer J ''XTYP'' (scast (ListMemberId_externalReferenceType d))]"

definition ListMemberId_fields :: "ListMemberId \<Rightarrow> (string \<times> tdf) list" where
  "ListMemberId_fields d =
     [(''BLID'', V_Integer (ListMemberId_id d)),
      (''PNAM'', V_String (ListMemberId_name d)),
      (''XREF'', V_Integer (ListMemberId_externalReference d)),
      (''XTYP'', V_Integer (scast (ListMemberId_externalReferenceType d)))]"

record ListMemberInfo =
  ListMemberInfo_id :: ListMemberId
  ListMemberInfo_time :: i64

definition ListMemberInfo_Write :: "jsonlib \<Rightarrow> ListMemberInfo \<Rightarrow> packet \<Rightarrow> packet option" where
  "ListMemberInfo_Write J d = run
     [within (push_struct J ''LMID'') [ListMemberId_Write J (ListMemberInfo_id d)],
      put_integer J ''TIME'' (ListMemberInfo_time d)]"

definition ListMemberInfo_fields :: "ListMemberInfo \<Rightarrow> (string \<times> tdf) list" where
  "ListMemberInfo_fields d =
     [(''LMID'', V_Struct (ListMemberId_fields (ListMemberInfo_id d))),
      (''TIME'', V_Integer (ListMemberInfo_time d))]"

record ListMemberInfoUpdate =
  ListMemberInfoUpdate_info :: ListMemberInfo
  ListMemberInfoUpdate_type :: enum_code

definition ListMemberInfoUpdate_Write :: "jsonlib \<Rightarrow> ListMemberInfoUpdate \<Rightarrow> packet \<Rightarrow> packet option" where
  "ListMemberInfoUpdate_Write J d = run
     [within (push_struct J ''LMID'') [ListMemberInfo_Write J (ListMemberInfoUpdate_info d)],
      put_integer J ''LUPT'' (scast (ListMemberInfoUpdate_type d))]"

definition ListMemberInfoUpdate_fields :: "ListMemberInfoUpdate \<Rightarrow> (string \<times> tdf) list" where
  "ListMemberInfoUpdate_fields d =
     [(''LMID'', V_Struct (ListMemberInfo_fields (ListMemberInfoUpdate_info d))),
      (''LUPT'', V_Integer (scast (ListMemberInfoUpdate_type d)))]"

record ListMembers =
  ListMembers_memberList :: "ListMemberInfo list"
  ListMembers_info :: ListInfo
  ListMembers_ofrc :: u32
  ListMembers_toct :: u32

definition ListMembers_Write :: "jsonlib \<Rightarrow> ListMembers \<Rightarrow> packet \<Rightarrow> packet option" where
  "ListMembers_Write J d = run
     [within (push_struct J ''INFO'') [ListInfo_Write J (ListMembers_info d)],
      within (push_list J ''MEML'' T_Struct False) [each (\<lambda>memberInfo. within (push_struct
        J '''') [ListMemberInfo_Write J memberInfo]) (ListMembers_memberList d)],
      put_integer J ''OFRC'' (ucast (ListMembers_ofrc d)),
      put_integer J ''TOCT'' (ucast (ListMembers_toct d))]"

definition ListMembers_fields :: "ListMembers \<Rightarrow> (string \<times> tdf) list" where
  "ListMembers_fields d =
     [(''INFO'', V_Struct (ListInfo_fields (ListMembers_info d))),
      (''MEML'', V_List T_Struct False (map (\<lambda>memberInfo. V_Struct (ListMemberInfo_fields
        memberInfo)) (ListMembers_memberList d))),
      (''OFRC'', V_Integer (ucast (ListMembers_ofrc d))),
      (''TOCT'', V_Integer (ucast (ListMembers_toct d)))]"

record ClientMessage =
  ClientMessage_attributes :: "(u32 \<times> string) list"
  ClientMessage_target :: object_id
  ClientMessage_flags :: u32
  ClientMessage_stat :: u32
  ClientMessage_tag :: u32
  ClientMessage_type :: u32

definition ClientMessage_Write :: "jsonlib \<Rightarrow> ClientMessage \<Rightarrow> packet \<Rightarrow> packet option" where
  "ClientMessage_Write J d = run
     [within (push_map J ''ATTR'' T_Integer T_String) [each (\<lambda>(id, message). put_string J
        (decimal (unat id)) message) (ClientMessage_attributes d)],
      put_integer J ''FLAG'' (ucast (ClientMessage_flags d)),
      put_integer J ''STAT'' (ucast (ClientMessage_stat d)),
      put_integer J ''TAG'' (ucast (ClientMessage_tag d)),
      put_id J ''TARG'' (ClientMessage_target d),
      put_integer J ''TYPE'' (ucast (ClientMessage_type d))]"

definition ClientMessage_fields :: "ClientMessage \<Rightarrow> (string \<times> tdf) list" where
  "ClientMessage_fields d =
     [(''ATTR'', V_Map T_Integer T_String (map (\<lambda>(id, message). ((decimal (unat id)),
        V_String message)) (ClientMessage_attributes d))),
      (''FLAG'', V_Integer (ucast (ClientMessage_flags d))),
      (''STAT'', V_Integer (ucast (ClientMessage_stat d))),
      (''TAG'', V_Integer (ucast (ClientMessage_tag d))),
      (''TARG'', V_id (ClientMessage_target d)),
      (''TYPE'', V_Integer (ucast (ClientMessage_type d)))]"

record ServerMessage =
  ServerMessage_message :: ClientMessage
  ServerMessage_name :: string
  ServerMessage_source :: object_id
  ServerMessage_flags :: u32
  ServerMessage_messageId :: u32
  ServerMessage_time :: u32

definition ServerMessage_Write :: "jsonlib \<Rightarrow> ServerMessage \<Rightarrow> packet \<Rightarrow> packet option" where
  "ServerMessage_Write J d = run
     [put_integer J ''FLAG'' (ucast (ServerMessage_flags d)),
      put_integer J ''MGID'' (ucast (ServerMessage_messageId d)),
      put_string J ''NAME'' (ServerMessage_name d),
      within (push_struct J ''PYLD'') [ClientMessage_Write J (ServerMessage_message d)],
      put_id J ''SRCE'' (ServerMessage_source d),
      put_integer J ''TIME'' (ucast (ServerMessage_time d))]"

definition ServerMessage_fields :: "ServerMessage \<Rightarrow> (string \<times> tdf) list" where
  "ServerMessage_fields d =
     [(''FLAG'', V_Integer (ucast (ServerMessage_flags d))),
      (''MGID'', V_Integer (ucast (ServerMessage_messageId d))),
      (''NAME'', V_String (ServerMessage_name d)),
      (''PYLD'', V_Struct (ClientMessage_fields (ServerMessage_message d))),
      (''SRCE'', V_id (ServerMessage_source d)),
      (''TIME'', V_Integer (ucast (ServerMessage_time d)))]"

record UserIdentification =
  UserIdentification_name :: string
  UserIdentification_id :: i64
  UserIdentification_localization :: u32

definition UserIdentification_Write :: "jsonlib \<Rightarrow> UserIdentification \<Rightarrow> packet \<Rightarrow> packet option" where
  "UserIdentification_Write J d = run
     [put_integer J ''AID'' (UserIdentification_id d),
      put_integer J ''ALOC'' (ucast (UserIdentification_localization d)),
      put_blob J ''EXBB'' None,
      put_integer J ''EXID'' 0,
      put_integer J ''ID'' (UserIdentification_id d),
      put_string J ''NAME'' (UserIdentification_name d)]"

definition UserIdentification_fields :: "UserIdentification \<Rightarrow> (string \<times> tdf) list" where
  "UserIdentification_fields d =
     [(''AID'', V_Integer (UserIdentification_id d)),
      (''ALOC'', V_Integer (ucast (UserIdentification_localization d))),
      (''EXBB'', V_Binary []),
      (''EXID'', V_Integer 0),
      (''ID'', V_Integer (UserIdentification_id d)),
      (''NAME'', V_String (UserIdentification_name d))]"

record UserData =
  UserData_extendedData :: UserSessionExtendedData
  UserData_user :: UserIdentification
  UserData_statusFlags :: u32

definition UserData_Write :: "jsonlib \<Rightarrow> UserData \<Rightarrow> packet \<Rightarrow> packet option" where
  "UserData_Write J d = run
     [within (push_struct J ''EDAT'') [UserSessionExtendedData_Write J (UserData_extendedData d)],
      put_integer J ''FLGS'' (ucast (UserData_statusFlags d)),
      within (push_struct J ''USER'') [UserIdentification_Write J (UserData_user d)]]"

definition UserData_fields :: "UserData \<Rightarrow> (string \<times> tdf) list" where
  "UserData_fields d =
     [(''EDAT'', V_Struct (UserSessionExtendedData_fields (UserData_extendedData d))),
      (''FLGS'', V_Integer (ucast (UserData_statusFlags d))),
      (''USER'', V_Struct (UserIdentification_fields (UserData_user d)))]"

record PlaygroupInfo =
  PlaygroupInfo_attributes :: "(string \<times> string) list"
  PlaygroupInfo_uuid :: string
  PlaygroupInfo_ukey :: string
  PlaygroupInfo_name :: string
  PlaygroupInfo_ownerId :: i64
  PlaygroupInfo_playgroupId :: u32
  PlaygroupInfo_memberLimit :: u16
  PlaygroupInfo_hostSlotId :: u8
  PlaygroupInfo_state :: enum_code
  PlaygroupInfo_ntop :: enum_code
  PlaygroupInfo_pres :: enum_code
  PlaygroupInfo_uprs :: bool
  PlaygroupInfo_enbv :: bool

definition PlaygroupInfo_Write :: "jsonlib \<Rightarrow> PlaygroupInfo \<Rightarrow> packet \<Rightarrow> packet option" where
  "PlaygroupInfo_Write J d = run
     [within (push_map J ''ATTR'' T_Integer T_String) [each (\<lambda>(key, value). put_string J
        key value) (PlaygroupInfo_attributes d)],
      put_integer J ''ENBV'' (if PlaygroupInfo_enbv d then 1 else 0),
      within (push_union J ''HNET'' 0x7F) [],
      put_integer J ''HSID'' (ucast (PlaygroupInfo_hostSlotId d)),
      put_integer J ''JOIN'' (scast (PlaygroupInfo_state d)),
      put_integer J ''MLIM'' (ucast (PlaygroupInfo_memberLimit d)),
      put_string J ''NAME'' (PlaygroupInfo_name d),
      put_integer J ''NTOP'' (scast (PlaygroupInfo_ntop d)),
      put_integer J ''OWNR'' (PlaygroupInfo_ownerId d),
      put_integer J ''PGID'' (ucast (PlaygroupInfo_playgroupId d)),
      put_integer J ''PRES'' (scast (PlaygroupInfo_pres d)),
      put_string J ''UKEY'' (PlaygroupInfo_ukey d),
      put_integer J ''UPRS'' (if PlaygroupInfo_uprs d then 1 else 0),
      put_string J ''UUID'' (PlaygroupInfo_uuid d),
      put_integer J ''VOIP'' 0,
      put_blob J ''XNNC'' None,
      put_blob J ''XSES'' None]"

definition PlaygroupInfo_fields :: "PlaygroupInfo \<Rightarrow> (string \<times> tdf) list" where
  "PlaygroupInfo_fields d =
     [(''ATTR'', V_Map T_Integer T_String (map (\<lambda>(key, value). (key, V_String value))
        (PlaygroupInfo_attributes d))),
      (''ENBV'', V_Integer (if PlaygroupInfo_enbv d then 1 else 0)),
      (''HNET'', V_Union 0x7F ([])),
      (''HSID'', V_Integer (ucast (PlaygroupInfo_hostSlotId d))),
      (''JOIN'', V_Integer (scast (PlaygroupInfo_state d))),
      (''MLIM'', V_Integer (ucast (PlaygroupInfo_memberLimit d))),
      (''NAME'', V_String (PlaygroupInfo_name d)),
      (''NTOP'', V_Integer (scast (PlaygroupInfo_ntop d))),
      (''OWNR'', V_Integer (PlaygroupInfo_ownerId d)),
      (''PGID'', V_Integer (ucast (PlaygroupInfo_playgroupId d))),
      (''PRES'', V_Integer (scast (PlaygroupInfo_pres d))),
      (''UKEY'', V_String (PlaygroupInfo_ukey d)),
      (''UPRS'', V_Integer (if PlaygroupInfo_uprs d then 1 else 0)),
      (''UUID'', V_String (PlaygroupInfo_uuid d)),
      (''VOIP'', V_Integer 0),
      (''XNNC'', V_Binary []),
      (''XSES'', V_Binary [])]"

record PlaygroupMemberInfo =
  PlaygroupMemberInfo_attributes :: "(string \<times> string) list"
  PlaygroupMemberInfo_user :: UserIdentification
  PlaygroupMemberInfo_jtim :: u32
  PlaygroupMemberInfo_permissions :: u32
  PlaygroupMemberInfo_slot :: u8

definition PlaygroupMemberInfo_Write :: "jsonlib \<Rightarrow> PlaygroupMemberInfo \<Rightarrow> packet \<Rightarrow> packet option" where
  "PlaygroupMemberInfo_Write J d = run
     [within (push_map J ''ATTR'' T_Integer T_String) [each (\<lambda>(key, value). put_string J
        key value) (PlaygroupMemberInfo_attributes d)],
      put_integer J ''JTIM'' (ucast (PlaygroupMemberInfo_jtim d)),
      put_integer J ''PERM'' (ucast (PlaygroupMemberInfo_permissions d)),
      within (push_union J ''PNET'' 0x7F) [],
      put_integer J ''SID'' (ucast (PlaygroupMemberInfo_slot d)),
      within (push_struct J ''USER'') [UserIdentification_Write J (PlaygroupMemberInfo_user d)]]"

definition PlaygroupMemberInfo_fields :: "PlaygroupMemberInfo \<Rightarrow> (string \<times> tdf) list" where
  "PlaygroupMemberInfo_fields d =
     [(''ATTR'', V_Map T_Integer T_String (map (\<lambda>(key, value). (key, V_String value))
        (PlaygroupMemberInfo_attributes d))),
      (''JTIM'', V_Integer (ucast (PlaygroupMemberInfo_jtim d))),
      (''PERM'', V_Integer (ucast (PlaygroupMemberInfo_permissions d))),
      (''PNET'', V_Union 0x7F ([])),
      (''SID'', V_Integer (ucast (PlaygroupMemberInfo_slot d))),
      (''USER'', V_Struct (UserIdentification_fields (PlaygroupMemberInfo_user d)))]"

record PlayerConnectionStatus =
  PlayerConnectionStatus_id :: i64
  PlayerConnectionStatus_flags :: u32
  PlayerConnectionStatus_status :: enum_code

definition PlayerConnectionStatus_Write :: "jsonlib \<Rightarrow> PlayerConnectionStatus \<Rightarrow> packet \<Rightarrow> packet option" where
  "PlayerConnectionStatus_Write J d = run
     [put_integer J ''FLGS'' (ucast (PlayerConnectionStatus_flags d)),
      put_integer J ''PID'' (PlayerConnectionStatus_id d),
      put_integer J ''STAT'' (scast (PlayerConnectionStatus_status d))]"

definition PlayerConnectionStatus_fields :: "PlayerConnectionStatus \<Rightarrow> (string \<times> tdf) list" where
  "PlayerConnectionStatus_fields d =
     [(''FLGS'', V_Integer (ucast (PlayerConnectionStatus_flags d))),
      (''PID'', V_Integer (PlayerConnectionStatus_id d)),
      (''STAT'', V_Integer (scast (PlayerConnectionStatus_status d)))]"

record ReplicatedGamePlayer =
  ReplicatedGamePlayer_ugid :: object_id
  ReplicatedGamePlayer_name :: string
  ReplicatedGamePlayer_hostNetwork :: IpPairAddress
  ReplicatedGamePlayer_id :: i64
  ReplicatedGamePlayer_time :: i64
  ReplicatedGamePlayer_gameId :: u32
  ReplicatedGamePlayer_localization :: u32
  ReplicatedGamePlayer_uid :: u32
  ReplicatedGamePlayer_tIndex :: u16
  ReplicatedGamePlayer_slot :: u8
  ReplicatedGamePlayer_slotType :: enum_code
  ReplicatedGamePlayer_state :: enum_code

definition ReplicatedGamePlayer_Write :: "jsonlib \<Rightarrow> ReplicatedGamePlayer \<Rightarrow> packet \<Rightarrow> packet option" where
  "ReplicatedGamePlayer_Write J d = run
     [put_blob J ''BLOB'' None,
      put_integer J ''EXID'' 0,
      put_integer J ''GID'' (ucast (ReplicatedGamePlayer_gameId d)),
      put_integer J ''LOC'' (ucast (ReplicatedGamePlayer_localization d)),
      put_string J ''NAME'' (ReplicatedGamePlayer_name d),
      within (push_map J ''PATT'' T_String T_String) [],
      put_integer J ''PID'' (ReplicatedGamePlayer_id d),
      within (push_union J ''PNET'' 2) [within (push_struct J ''VALU'') [IpPairAddress_Write J
        (ReplicatedGamePlayer_hostNetwork d)]],
      put_integer J ''SID'' (ucast (ReplicatedGamePlayer_slot d)),
      put_integer J ''SLOT'' (scast (ReplicatedGamePlayer_slotType d)),
      put_integer J ''STAT'' (scast (ReplicatedGamePlayer_state d)),
      put_integer J ''TIDX'' (ucast (ReplicatedGamePlayer_tIndex d)),
      put_integer J ''TIME'' (ReplicatedGamePlayer_time d),
      put_id J ''UGID'' (ReplicatedGamePlayer_ugid d),
      put_integer J ''UID'' (ucast (ReplicatedGamePlayer_uid d))]"

definition ReplicatedGamePlayer_fields :: "ReplicatedGamePlayer \<Rightarrow> (string \<times> tdf) list" where
  "ReplicatedGamePlayer_fields d =
     [(''BLOB'', V_Binary []),
      (''EXID'', V_Integer 0),
      (''GID'', V_Integer (ucast (ReplicatedGamePlayer_gameId d))),
      (''LOC'', V_Integer (ucast (ReplicatedGamePlayer_localization d))),
      (''NAME'', V_String (ReplicatedGamePlayer_name d)),
      (''PATT'', V_Map T_String T_String ([])),
      (''PID'', V_Integer (ReplicatedGamePlayer_id d)),
      (''PNET'', V_Union 2 ([(''VALU'', V_Struct (IpPairAddress_fields
        (ReplicatedGamePlayer_hostNetwork d)))])),
      (''SID'', V_Integer (ucast (ReplicatedGamePlayer_slot d))),
      (''SLOT'', V_Integer (scast (ReplicatedGamePlayer_slotType d))),
      (''STAT'', V_Integer (scast (ReplicatedGamePlayer_state d))),
      (''TIDX'', V_Integer (ucast (ReplicatedGamePlayer_tIndex d))),
      (''TIME'', V_Integer (ReplicatedGamePlayer_time d)),
      (''UGID'', V_id (ReplicatedGamePlayer_ugid d)),
      (''UID'', V_Integer (ucast (ReplicatedGamePlayer_uid d)))]"

record ReplicatedGameData =
  ReplicatedGameData_attributes :: "(string \<times> string) list"
  ReplicatedGameData_criteria :: "(string \<times> string) list"
  ReplicatedGameData_administrators :: "i64 list"
  ReplicatedGameData_capacity :: "u16 list"
  ReplicatedGameData_tids :: "u16 list"
  ReplicatedGameData_name :: string
  ReplicatedGameData_type :: string
  ReplicatedGameData_playgroupId :: string
  ReplicatedGameData_psas :: string
  ReplicatedGameData_uuid :: string
  ReplicatedGameData_version :: string
  ReplicatedGameData_hostNetwork :: IpPairAddress
  ReplicatedGameData_networkQos :: NetworkQosData
  ReplicatedGameData_pHost :: HostInfo
  ReplicatedGameData_tHost :: HostInfo
  ReplicatedGameData_gpvh :: u64
  ReplicatedGameData_gsid :: u64
  ReplicatedGameData_id :: u32
  ReplicatedGameData_settings :: u32
  ReplicatedGameData_hses :: u32
  ReplicatedGameData_seed :: u32
  ReplicatedGameData_maxPlayers :: u16
  ReplicatedGameData_queueCapacity :: u16
  ReplicatedGameData_tcap :: u16
  ReplicatedGameData_state :: enum_code
  ReplicatedGameData_networkTopology :: enum_code
  ReplicatedGameData_presence :: enum_code
  ReplicatedGameData_ignore :: bool
  ReplicatedGameData_resetable :: bool

definition ReplicatedGameData_Write :: "jsonlib \<Rightarrow> ReplicatedGameData \<Rightarrow> packet \<Rightarrow> packet option" where
  "ReplicatedGameData_Write J d = run
     [within (push_list J ''ADMN'' T_Integer False) [each (\<lambda>value. put_integer J ''''
        value) (ReplicatedGameData_administrators d)],
      within (push_map J ''ATTR'' T_String T_String) [each (\<lambda>(key, value). put_string J key
        value) (ReplicatedGameData_attributes d)],
      within (push_list J ''CAP'' T_Integer False) [each (\<lambda>value. put_integer J '''' (ucast
        (value))) (ReplicatedGameData_capacity d)],
      within (push_map J ''CRIT'' T_String T_String) [each (\<lambda>(key, value). put_string J key
        value) (ReplicatedGameData_criteria d)],
      put_integer J ''GID'' (ucast (ReplicatedGameData_id d)),
      put_string J ''GNAM'' (ReplicatedGameData_name d),
      put_integer J ''GPVH'' (ReplicatedGameData_gpvh d),
      put_integer J ''GSET'' (ucast (ReplicatedGameData_settings d)),
      put_integer J ''GSID'' (ReplicatedGameData_gsid d),
      put_integer J ''GSTA'' (scast (ReplicatedGameData_state d)),
      put_string J ''GTYP'' (ReplicatedGameData_type d),
      within (push_list J ''HNET'' T_Struct True) [within (push_struct J '''') [IpPairAddress_Write
        J (ReplicatedGameData_hostNetwork d)]],
      put_integer J ''HSES'' (ucast (ReplicatedGameData_hses d)),
      put_integer J ''IGNO'' (if ReplicatedGameData_ignore d then 1 else 0),
      put_integer J ''MCAP'' (ucast (ReplicatedGameData_maxPlayers d)),
      within (push_struct J ''NQOS'') [NetworkQosData_Write J (ReplicatedGameData_networkQos d)],
      put_integer J ''NRES'' (if ReplicatedGameData_resetable d then 0 else 1),
      put_integer J ''NTOP'' (scast (ReplicatedGameData_networkTopology d)),
      put_string J ''PGID'' (ReplicatedGameData_playgroupId d),
      put_blob J ''PGSR'' None,
      within (push_struct J ''PHST'') [HostInfo_Write J (ReplicatedGameData_pHost d)],
      put_integer J ''PRES'' (scast (ReplicatedGameData_presence d)),
      put_string J ''PSAS'' (ReplicatedGameData_psas d),
      put_integer J ''QCAP'' (ucast (ReplicatedGameData_queueCapacity d)),
      put_integer J ''SEED'' (ucast (ReplicatedGameData_seed d)),
      put_integer J ''TCAP'' (ucast (ReplicatedGameData_tcap d)),
      within (push_struct J ''THST'') [HostInfo_Write J (ReplicatedGameData_tHost d)],
      within (push_list J ''TIDS'' T_Integer False) [each (\<lambda>value. put_integer J ''''
        (ucast (value))) (ReplicatedGameData_tids d)],
      put_string J ''UUID'' (ReplicatedGameData_uuid d),
      put_integer J ''VOIP'' 0,
      put_string J ''VSTR'' (ReplicatedGameData_version d),
      put_blob J ''XNNC'' None,
      put_blob J ''XSES'' None]"

definition ReplicatedGameData_fields :: "ReplicatedGameData \<Rightarrow> (string \<times> tdf) list" where
  "ReplicatedGameData_fields d =
     [(''ADMN'', V_List T_Integer False (map (\<lambda>value. V_Integer value)
        (ReplicatedGameData_administrators d))),
      (''ATTR'', V_Map T_String T_String (map (\<lambda>(key, value). (key, V_String value))
        (ReplicatedGameData_attributes d))),
      (''CAP'', V_List T_Integer False (map (\<lambda>value. V_Integer (ucast (value)))
        (ReplicatedGameData_capacity d))),
      (''CRIT'', V_Map T_String T_String (map (\<lambda>(key, value). (key, V_String value))
        (ReplicatedGameData_criteria d))),
      (''GID'', V_Integer (ucast (ReplicatedGameData_id d))),
      (''GNAM'', V_String (ReplicatedGameData_name d)),
      (''GPVH'', V_Integer (ReplicatedGameData_gpvh d)),
      (''GSET'', V_Integer (ucast (ReplicatedGameData_settings d))),
      (''GSID'', V_Integer (ReplicatedGameData_gsid d)),
      (''GSTA'', V_Integer (scast (ReplicatedGameData_state d))),
      (''GTYP'', V_String (ReplicatedGameData_type d)),
      (''HNET'', V_List T_Struct True ([V_Struct (IpPairAddress_fields
        (ReplicatedGameData_hostNetwork d))])),
      (''HSES'', V_Integer (ucast (ReplicatedGameData_hses d))),
      (''IGNO'', V_Integer (if ReplicatedGameData_ignore d then 1 else 0)),
      (''MCAP'', V_Integer (ucast (ReplicatedGameData_maxPlayers d))),
      (''NQOS'', V_Struct (NetworkQosData_fields (ReplicatedGameData_networkQos d))),
      (''NRES'', V_Integer (if ReplicatedGameData_resetable d then 0 else 1)),
      (''NTOP'', V_Integer (scast (ReplicatedGameData_networkTopology d))),
      (''PGID'', V_String (ReplicatedGameData_playgroupId d)),
      (''PGSR'', V_Binary []),
      (''PHST'', V_Struct (HostInfo_fields (ReplicatedGameData_pHost d))),
      (''PRES'', V_Integer (scast (ReplicatedGameData_presence d))),
      (''PSAS'', V_String (ReplicatedGameData_psas d)),
      (''QCAP'', V_Integer (ucast (ReplicatedGameData_queueCapacity d))),
      (''SEED'', V_Integer (ucast (ReplicatedGameData_seed d))),
      (''TCAP'', V_Integer (ucast (ReplicatedGameData_tcap d))),
      (''THST'', V_Struct (HostInfo_fields (ReplicatedGameData_tHost d))),
      (''TIDS'', V_List T_Integer False (map (\<lambda>value. V_Integer (ucast (value)))
        (ReplicatedGameData_tids d))),
      (''UUID'', V_String (ReplicatedGameData_uuid d)),
      (''VOIP'', V_Integer 0),
      (''VSTR'', V_String (ReplicatedGameData_version d)),
      (''XNNC'', V_Binary []),
      (''XSES'', V_Binary [])]"

record UserDetails =
  UserDetails_personaDetailsList :: "PersonaDetails list"
  UserDetails_mail :: string

definition UserDetails_Write :: "jsonlib \<Rightarrow> UserDetails \<Rightarrow> packet \<Rightarrow> packet option" where
  "UserDetails_Write J d = run
     [put_string J ''MAIL'' (UserDetails_mail d),
      within (push_list J ''PLST'' T_Struct False) [each (\<lambda>value. within (push_struct J
        '''') [PersonaDetails_Write J value]) (UserDetails_personaDetailsList d)]]"

definition UserDetails_fields :: "UserDetails \<Rightarrow> (string \<times> tdf) list" where
  "UserDetails_fields d =
     [(''MAIL'', V_String (UserDetails_mail d)),
      (''PLST'', V_List T_Struct False (map (\<lambda>value. V_Struct (PersonaDetails_fields
        value)) (UserDetails_personaDetailsList d)))]"

record PasswordRulesInfo =
  PasswordRulesInfo_vdch :: string
  PasswordRulesInfo_minS :: u16
  PasswordRulesInfo_maxS :: u16

definition PasswordRulesInfo_Write :: "jsonlib \<Rightarrow> PasswordRulesInfo \<Rightarrow> packet \<Rightarrow> packet option" where
  "PasswordRulesInfo_Write J d = run
     [put_integer J ''MAXS'' (ucast (PasswordRulesInfo_maxS d)),
      put_integer J ''MINS'' (ucast (PasswordRulesInfo_minS d)),
      put_string J ''VDCH'' (PasswordRulesInfo_vdch d)]"

definition PasswordRulesInfo_fields :: "PasswordRulesInfo \<Rightarrow> (string \<times> tdf) list" where
  "PasswordRulesInfo_fields d =
     [(''MAXS'', V_Integer (ucast (PasswordRulesInfo_maxS d))),
      (''MINS'', V_Integer (ucast (PasswordRulesInfo_minS d))),
      (''VDCH'', V_String (PasswordRulesInfo_vdch d))]"

record RoomMemberData =
  RoomMemberData_memberId :: i64
  RoomMemberData_roomId :: u32

definition RoomMemberData_Write :: "jsonlib \<Rightarrow> RoomMemberData \<Rightarrow> packet \<Rightarrow> packet option" where
  "RoomMemberData_Write J d = run
     [put_integer J ''BZID'' (RoomMemberData_memberId d),
      put_integer J ''RMID'' (ucast (RoomMemberData_roomId d))]"

definition RoomMemberData_fields :: "RoomMemberData \<Rightarrow> (string \<times> tdf) list" where
  "RoomMemberData_fields d =
     [(''BZID'', V_Integer (RoomMemberData_memberId d)),
      (''RMID'', V_Integer (ucast (RoomMemberData_roomId d)))]"

record CreateGameRequest =
  CreateGameRequest_attributes :: "(string \<times> string) list"
  CreateGameRequest_playerAttributes :: "(string \<times> string) list"
  CreateGameRequest_criteria :: "(string \<times> string) list"
  CreateGameRequest_matr :: "(string \<times> string) list"
  CreateGameRequest_administrators :: "i64 list"
  CreateGameRequest_seat :: "i64 list"
  CreateGameRequest_sidl :: "u32 list"
  CreateGameRequest_capacity :: "u16 list"
  CreateGameRequest_tids :: "u16 list"
  CreateGameRequest_name :: string
  CreateGameRequest_type :: string
  CreateGameRequest_playgroupId :: string
  CreateGameRequest_playgroupSc :: string
  CreateGameRequest_version :: string
  CreateGameRequest_ctr :: string
  CreateGameRequest_url :: string
  CreateGameRequest_hostNetwork :: IpPairAddress
  CreateGameRequest_btpl :: object_id
  CreateGameRequest_rgid :: u32
  CreateGameRequest_settings :: u32
  CreateGameRequest_slot :: u32
  CreateGameRequest_maxPlayers :: u16
  CreateGameRequest_queueCapacity :: u16
  CreateGameRequest_tcap :: u16
  CreateGameRequest_tIndex :: u16
  CreateGameRequest_networkTopology :: enum_code
  CreateGameRequest_presence :: enum_code
  CreateGameRequest_ignore :: bool
  CreateGameRequest_resetable :: bool

definition CreateGameRequest_Write :: "jsonlib \<Rightarrow> CreateGameRequest \<Rightarrow> packet \<Rightarrow> packet option" where
  "CreateGameRequest_Write J d = run
     [within (push_list J ''ADMN'' T_Integer False) [each (\<lambda>value. put_integer J ''''
        value) (CreateGameRequest_administrators d)],
      within (push_map J ''ATTR'' T_String T_String) [each (\<lambda>(key, value). put_string J key
        value) (CreateGameRequest_attributes d)],
      put_id J ''BTPL'' (CreateGameRequest_btpl d),
      within (push_map J ''CRIT'' T_String T_String) [each (\<lambda>(key, value). put_string J key
        value) (CreateGameRequest_criteria d)],
      put_string J ''GCTR'' (CreateGameRequest_ctr d),
      put_string J ''GNAM'' (CreateGameRequest_name d),
      put_integer J ''GSET'' (ucast (CreateGameRequest_settings d)),
      put_string J ''GTYP'' (CreateGameRequest_type d),
      put_string J ''GURL'' (CreateGameRequest_url d),
      within (push_list J ''HNET'' T_Struct True) [within (push_struct J '''') [IpPairAddress_Write
        J (CreateGameRequest_hostNetwork d)]],
      put_integer J ''IGNO'' (if CreateGameRequest_ignore d then 1 else 0),
      within (push_map J ''MATR'' T_String T_String) [each (\<lambda>(key, value). put_string J key
        value) (CreateGameRequest_matr d)],
      put_integer J ''NRES'' (if CreateGameRequest_resetable d then 0 else 1),
      put_integer J ''NTOP'' (scast (CreateGameRequest_networkTopology d)),
      within (push_map J ''PATT'' T_String T_String) [each (\<lambda>(key, value). put_string J key
        value) (CreateGameRequest_playerAttributes d)],
      within (push_list J ''PCAP'' T_Integer False) [each (\<lambda>value. put_integer J ''''
        (ucast (value))) (CreateGameRequest_capacity d)],
      put_string J ''PGID'' (CreateGameRequest_playgroupId d),
      put_blob J ''PGSR'' None,
      put_integer J ''PMAX'' (ucast (CreateGameRequest_maxPlayers d)),
      put_integer J ''PRES'' (scast (CreateGameRequest_presence d)),
      put_integer J ''QCAP'' (ucast (CreateGameRequest_queueCapacity d)),
      put_integer J ''RGID'' (ucast (CreateGameRequest_rgid d)),
      within (push_list J ''SEAT'' T_Integer False) [each (\<lambda>value. put_integer J ''''
        value) (CreateGameRequest_seat d)],
      within (push_list J ''SIDL'' T_Integer False) [each (\<lambda>value. put_integer J ''''
        (ucast (value))) (CreateGameRequest_sidl d)],
      put_integer J ''SLOT'' (ucast (CreateGameRequest_slot d)),
      put_integer J ''TCAP'' (ucast (CreateGameRequest_tcap d)),
      within (push_list J ''TIDS'' T_Integer False) [each (\<lambda>value. put_integer J ''''
        (ucast (value))) (CreateGameRequest_tids d)],
      put_integer J ''TIDX'' (ucast (CreateGameRequest_tIndex d)),
      put_integer J ''VOIP'' 0,
      put_string J ''VSTR'' (CreateGameRequest_version d)]"

definition CreateGameRequest_fields :: "CreateGameRequest \<Rightarrow> (string \<times> tdf) list" where
  "CreateGameRequest_fields d =
     [(''ADMN'', V_List T_Integer False (map (\<lambda>value. V_Integer value)
        (CreateGameRequest_administrators d))),
      (''ATTR'', V_Map T_String T_String (map (\<lambda>(key, value). (key, V_String value))
        (CreateGameRequest_attributes d))),
      (''BTPL'', V_id (CreateGameRequest_btpl d)),
      (''CRIT'', V_Map T_String T_String (map (\<lambda>(key, value). (key, V_String value))
        (CreateGameRequest_criteria d))),
      (''GCTR'', V_String (CreateGameRequest_ctr d)),
      (''GNAM'', V_String (CreateGameRequest_name d)),
      (''GSET'', V_Integer (ucast (CreateGameRequest_settings d))),
      (''GTYP'', V_String (CreateGameRequest_type d)),
      (''GURL'', V_String (CreateGameRequest_url d)),
      (''HNET'', V_List T_Struct True ([V_Struct (IpPairAddress_fields
        (CreateGameRequest_hostNetwork d))])),
      (''IGNO'', V_Integer (if CreateGameRequest_ignore d then 1 else 0)),
      (''MATR'', V_Map T_String T_String (map (\<lambda>(key, value). (key, V_String value))
        (CreateGameRequest_matr d))),
      (''NRES'', V_Integer (if CreateGameRequest_resetable d then 0 else 1)),
      (''NTOP'', V_Integer (scast (CreateGameRequest_networkTopology d))),
      (''PATT'', V_Map T_String T_String (map (\<lambda>(key, value). (key, V_String value))
        (CreateGameRequest_playerAttributes d))),
      (''PCAP'', V_List T_Integer False (map (\<lambda>value. V_Integer (ucast (value)))
        (CreateGameRequest_capacity d))),
      (''PGID'', V_String (CreateGameRequest_playgroupId d)),
      (''PGSR'', V_Binary []),
      (''PMAX'', V_Integer (ucast (CreateGameRequest_maxPlayers d))),
      (''PRES'', V_Integer (scast (CreateGameRequest_presence d))),
      (''QCAP'', V_Integer (ucast (CreateGameRequest_queueCapacity d))),
      (''RGID'', V_Integer (ucast (CreateGameRequest_rgid d))),
      (''SEAT'', V_List T_Integer False (map (\<lambda>value. V_Integer value)
        (CreateGameRequest_seat d))),
      (''SIDL'', V_List T_Integer False (map (\<lambda>value. V_Integer (ucast (value)))
        (CreateGameRequest_sidl d))),
      (''SLOT'', V_Integer (ucast (CreateGameRequest_slot d))),
      (''TCAP'', V_Integer (ucast (CreateGameRequest_tcap d))),
      (''TIDS'', V_List T_Integer False (map (\<lambda>value. V_Integer (ucast (value)))
        (CreateGameRequest_tids d))),
      (''TIDX'', V_Integer (ucast (CreateGameRequest_tIndex d))),
      (''VOIP'', V_Integer 0),
      (''VSTR'', V_String (CreateGameRequest_version d))]"
subsection \<open>What the writers build\<close>

lemma ClientData_builds [builds_rules]:
  assumes "json_laws J"
  shows "builds (ClientData_Write J d) (ClientData_fields d)"
  unfolding ClientData_Write_def
  by (rule builds_conv, (rule builds_intros builds_rules assms)+, simp add: ClientData_fields_def)

lemma PresenceInfo_builds [builds_rules]:
  assumes "json_laws J"
  shows "builds (PresenceInfo_Write J d) (PresenceInfo_fields d)"
  unfolding PresenceInfo_Write_def
  by (rule builds_conv, (rule builds_intros builds_rules assms)+, simp add: PresenceInfo_fields_def)

lemma IpAddress_builds [builds_rules]:
  assumes "json_laws J"
  shows "builds (IpAddress_Write J d) (IpAddress_fields d)"
  unfolding IpAddress_Write_def
  by (rule builds_conv, (rule builds_intros builds_rules assms)+, simp add: IpAddress_fields_def)

lemma HostNameAddress_builds [builds_rules]:
  assumes "json_laws J"
  shows "builds (HostNameAddress_Write J d) (HostNameAddress_fields d)"
  unfolding HostNameAddress_Write_def
  by (rule builds_conv, (rule builds_intros builds_rules assms)+, simp add: HostNameAddress_fields_def)

lemma IpPairAddress_builds [builds_rules]:
  assumes "json_laws J"
  shows "builds (IpPairAddress_Write J d) (IpPairAddress_fields d)"
  unfolding IpPairAddress_Write_def
  by (rule builds_conv, (rule builds_intros builds_rules assms)+, simp add: IpPairAddress_fields_def)

lemma UserOptions_builds [builds_rules]:
  assumes "json_laws J"
  shows "builds (UserOptions_Write J d) (UserOptions_fields d)"
  unfolding UserOptions_Write_def
  by (rule builds_conv, (rule builds_intros builds_rules assms)+, simp add: UserOptions_fields_def)

lemma TickerServer_builds [builds_rules]:
  assumes "json_laws J"
  shows "builds (TickerServer_Write J d) (TickerServer_fields d)"
  unfolding TickerServer_Write_def
  by (rule builds_conv, (rule builds_intros builds_rules assms)+, simp add: TickerServer_fields_def)

lemma TelemetryServer_builds [builds_rules]:
  assumes "json_laws J"
  shows "builds (TelemetryServer_Write J d) (TelemetryServer_fields d)"
  unfolding TelemetryServer_Write_def
  by (rule builds_conv, (rule builds_intros builds_rules assms)+, simp add: TelemetryServer_fields_def)

lemma PssConfig_builds [builds_rules]:
  assumes "json_laws J"
  shows "builds (PssConfig_Write J d) (PssConfig_fields d)"
  unfolding PssConfig_Write_def
  by (rule builds_conv, (rule builds_intros builds_rules assms)+, simp add: PssConfig_fields_def)

lemma NetworkQosData_builds [builds_rules]:
  assumes "json_laws J"
  shows "builds (NetworkQosData_Write J d) (NetworkQosData_fields d)"
  unfolding NetworkQosData_Write_def
  by (rule builds_conv, (rule builds_intros builds_rules assms)+, simp add: NetworkQosData_fields_def)

lemma QosPingSiteInfo_builds [builds_rules]:
  assumes "json_laws J"
  shows "builds (QosPingSiteInfo_Write J d) (QosPingSiteInfo_fields d)"
  unfolding QosPingSiteInfo_Write_def
  by (rule builds_conv, (rule builds_intros builds_rules assms)+, simp add: QosPingSiteInfo_fields_def)

lemma QosConfigInfo_builds [builds_rules]:
  assumes "json_laws J"
  shows "builds (QosConfigInfo_Write J d) (QosConfigInfo_fields d)"
  unfolding QosConfigInfo_Write_def
  by (rule builds_conv, (rule builds_intros builds_rules assms)+, simp add: QosConfigInfo_fields_def)

lemma UserSessionExtendedData_builds [builds_rules]:
  assumes "json_laws J"
  shows "builds (UserSessionExtendedData_Write J d) (UserSessionExtendedData_fields d)"
  unfolding UserSessionExtendedData_Write_def
  by (rule builds_conv, (rule builds_intros builds_rules assms)+, simp add: UserSessionExtendedData_fields_def)

lemma HostInfo_builds [builds_rules]:
  assumes "json_laws J"
  shows "builds (HostInfo_Write J d) (HostInfo_fields d)"
  unfolding HostInfo_Write_def
  by (rule builds_conv, (rule builds_intros builds_rules assms)+, simp add: HostInfo_fields_def)

lemma PersonaDetails_builds [builds_rules]:
  assumes "json_laws J"
  shows "builds (PersonaDetails_Write J d) (PersonaDetails_fields d)"
  unfolding PersonaDetails_Write_def
  by (rule builds_conv, (rule builds_intros builds_rules assms)+, simp add: PersonaDetails_fields_def)

lemma SessionInfo_builds [builds_rules]:
  assumes "json_laws J"
  shows "builds (SessionInfo_Write J d) (SessionInfo_fields d)"
  unfolding SessionInfo_Write_def
  by (rule builds_conv, (rule builds_intros builds_rules assms)+, simp add: SessionInfo_fields_def)

lemma ListIdentification_builds [builds_rules]:
  assumes "json_laws J"
  shows "builds (ListIdentification_Write J d) (ListIdentification_fields d)"
  unfolding ListIdentification_Write_def
  by (rule builds_conv, (rule builds_intros builds_rules assms)+, simp add: ListIdentification_fields_def)

lemma ListInfo_builds [builds_rules]:
  assumes "json_laws J"
  shows "builds (ListInfo_Write J d) (ListInfo_fields d)"
  unfolding ListInfo_Write_def
  by (rule builds_conv, (rule builds_intros builds_rules assms)+, simp add: ListInfo_fields_def)

lemma ListMemberId_builds [builds_rules]:
  assumes "json_laws J"
  shows "builds (ListMemberId_Write J d) (ListMemberId_fields d)"
  unfolding ListMemberId_Write_def
  by (rule builds_conv, (rule builds_intros builds_rules assms)+, simp add: ListMemberId_fields_def)

lemma ListMemberInfo_builds [builds_rules]:
  assumes "json_laws J"
  shows "builds (ListMemberInfo_Write J d) (ListMemberInfo_fields d)"
  unfolding ListMemberInfo_Write_def
  by (rule builds_conv, (rule builds_intros builds_rules assms)+, simp add: ListMemberInfo_fields_def)

lemma ListMemberInfoUpdate_builds [builds_rules]:
  assumes "json_laws J"
  shows "builds (ListMemberInfoUpdate_Write J d) (ListMemberInfoUpdate_fields d)"
  unfolding ListMemberInfoUpdate_Write_def
  by (rule builds_conv, (rule builds_intros builds_rules assms)+, simp add: ListMemberInfoUpdate_fields_def)

lemma ListMembers_builds [builds_rules]:
  assumes "json_laws J"
  shows "builds (ListMembers_Write J d) (ListMembers_fields d)"
  unfolding ListMembers_Write_def
  by (rule builds_conv, (rule builds_intros builds_rules assms)+, simp add: ListMembers_fields_def)

lemma ClientMessage_builds [builds_rules]:
  assumes "json_laws J"
  shows "builds (ClientMessage_Write J d) (ClientMessage_fields d)"
  unfolding ClientMessage_Write_def
  by (rule builds_conv, (rule builds_intros builds_rules assms)+, simp add: ClientMessage_fields_def)

lemma ServerMessage_builds [builds_rules]:
  assumes "json_laws J"
  shows "builds (ServerMessage_Write J d) (ServerMessage_fields d)"
  unfolding ServerMessage_Write_def
  by (rule builds_conv, (rule builds_intros builds_rules assms)+, simp add: ServerMessage_fields_def)

lemma UserIdentification_builds [builds_rules]:
  assumes "json_laws J"
  shows "builds (UserIdentification_Write J d) (UserIdentification_fields d)"
  unfolding UserIdentification_Write_def
  by (rule builds_conv, (rule builds_intros builds_rules assms)+, simp add: UserIdentification_fields_def)

lemma UserData_builds [builds_rules]:
  assumes "json_laws J"
  shows "builds (UserData_Write J d) (UserData_fields d)"
  unfolding UserData_Write_def
  by (rule builds_conv, (rule builds_intros builds_rules assms)+, simp add: UserData_fields_def)

lemma PlaygroupInfo_builds [builds_rules]:
  assumes "json_laws J"
  shows "builds (PlaygroupInfo_Write J d) (PlaygroupInfo_fields d)"
  unfolding PlaygroupInfo_Write_def
  by (rule builds_conv, (rule builds_intros builds_rules assms)+, simp add: PlaygroupInfo_fields_def)

lemma PlaygroupMemberInfo_builds [builds_rules]:
  assumes "json_laws J"
  shows "builds (PlaygroupMemberInfo_Write J d) (PlaygroupMemberInfo_fields d)"
  unfolding PlaygroupMemberInfo_Write_def
  by (rule builds_conv, (rule builds_intros builds_rules assms)+, simp add: PlaygroupMemberInfo_fields_def)

lemma PlayerConnectionStatus_builds [builds_rules]:
  assumes "json_laws J"
  shows "builds (PlayerConnectionStatus_Write J d) (PlayerConnectionStatus_fields d)"
  unfolding PlayerConnectionStatus_Write_def
  by (rule builds_conv, (rule builds_intros builds_rules assms)+, simp add: PlayerConnectionStatus_fields_def)

lemma ReplicatedGamePlayer_builds [builds_rules]:
  assumes "json_laws J"
  shows "builds (ReplicatedGamePlayer_Write J d) (ReplicatedGamePlayer_fields d)"
  unfolding ReplicatedGamePlayer_Write_def
  by (rule builds_conv, (rule builds_intros builds_rules assms)+, simp add: ReplicatedGamePlayer_fields_def)

lemma ReplicatedGameData_builds [builds_rules]:
  assumes "json_laws J"
  shows "builds (ReplicatedGameData_Write J d) (ReplicatedGameData_fields d)"
  unfolding ReplicatedGameData_Write_def
  by (rule builds_conv, (rule builds_intros builds_rules assms)+, simp add: ReplicatedGameData_fields_def)

lemma UserDetails_builds [builds_rules]:
  assumes "json_laws J"
  shows "builds (UserDetails_Write J d) (UserDetails_fields d)"
  unfolding UserDetails_Write_def
  by (rule builds_conv, (rule builds_intros builds_rules assms)+, simp add: UserDetails_fields_def)

lemma PasswordRulesInfo_builds [builds_rules]:
  assumes "json_laws J"
  shows "builds (PasswordRulesInfo_Write J d) (PasswordRulesInfo_fields d)"
  unfolding PasswordRulesInfo_Write_def
  by (rule builds_conv, (rule builds_intros builds_rules assms)+, simp add: PasswordRulesInfo_fields_def)

lemma RoomMemberData_builds [builds_rules]:
  assumes "json_laws J"
  shows "builds (RoomMemberData_Write J d) (RoomMemberData_fields d)"
  unfolding RoomMemberData_Write_def
  by (rule builds_conv, (rule builds_intros builds_rules assms)+, simp add: RoomMemberData_fields_def)

lemma CreateGameRequest_builds [builds_rules]:
  assumes "json_laws J"
  shows "builds (CreateGameRequest_Write J d) (CreateGameRequest_fields d)"
  unfolding CreateGameRequest_Write_def
  by (rule builds_conv, (rule builds_intros builds_rules assms)+, simp add: CreateGameRequest_fields_def)

end
