(* ===== verification/BlazeRead.thy ===== *)
theory BlazeRead
  imports BlazeMessages TDFRoundtrip
begin

text \<open>
  The \<open>Read\<close> members of the messages in \<open>source/Blaze/Functions.cpp\<close>: from a document of the
  parser and the object before the call to the object after it.  \<open>None\<close> is a failed assertion of
  the JSON library (a missing member, a value of another type).
\<close>

subsection \<open>Members of a value\<close>

text \<open>\<open>GetInt64\<close> of an unsigned value asserts that it is below \<open>2 ^ 63\<close>.\<close>

definition GetInt64 :: "jval \<Rightarrow> i64 option" where
  "GetInt64 v = (case v of JUint n \<Rightarrow> if n < 2 ^ 63 then Some n else None | _ \<Rightarrow> None)"

definition get_uint :: "jsonlib \<Rightarrow> jval \<Rightarrow> string \<Rightarrow> u32 option" where
  "get_uint J v k = Option.bind (subscript J v k) GetUint"

definition get_uint64 :: "jsonlib \<Rightarrow> jval \<Rightarrow> string \<Rightarrow> u64 option" where
  "get_uint64 J v k = Option.bind (subscript J v k) GetUint64"

definition get_int64 :: "jsonlib \<Rightarrow> jval \<Rightarrow> string \<Rightarrow> i64 option" where
  "get_int64 J v k = Option.bind (subscript J v k) GetInt64"

definition get_string :: "jsonlib \<Rightarrow> jval \<Rightarrow> string \<Rightarrow> string option" where
  "get_string J v k = Option.bind (subscript J v k) GetString"

text \<open>\<open>FindMember(k)\<close> and the code that runs only where it is not \<open>MemberEnd()\<close>.\<close>

fun if_member :: "jsonlib \<Rightarrow> jval \<Rightarrow> string \<Rightarrow> (jval \<Rightarrow> 'a \<Rightarrow> 'a option) \<Rightarrow> 'a \<Rightarrow> 'a option" where
  "if_member J (JObject ms) k f d =
     (if FindMember J ms k < length ms then f (snd (ms ! FindMember J ms k)) d else Some d)"
| "if_member J _ k f d = None"

text \<open>\<open>if (!value.IsObject()) return;\<close>\<close>

fun if_object :: "jval \<Rightarrow> ('a \<Rightarrow> 'a option) \<Rightarrow> 'a \<Rightarrow> 'a option" where
  "if_object (JObject _) f d = f d"
| "if_object _ f d = Some d"

text \<open>The three components of an object id.\<close>

definition get_object_id :: "jsonlib \<Rightarrow> jval \<Rightarrow> object_id option" where
  "get_object_id J v = do {
     x \<leftarrow> get_uint J v ''_X''; y \<leftarrow> get_uint J v ''_Y''; z \<leftarrow> get_uint64 J v ''_Z'';
     Some (ucast x, ucast y, z)
   }"

text \<open>\<open>std::map::emplace\<close>: a new key goes to its place in the order, an old one is kept.\<close>

fun emplace :: "('k \<Rightarrow> 'k \<Rightarrow> bool) \<Rightarrow> 'k \<Rightarrow> 'v \<Rightarrow> ('k \<times> 'v) list \<Rightarrow> ('k \<times> 'v) list" where
  "emplace lt k v [] = [(k, v)]"
| "emplace lt k v ((k', v') # m) =
     (if lt k k' then (k, v) # (k', v') # m
      else if lt k' k then (k', v') # emplace lt k v m else (k', v') # m)"

fun string_less :: "string \<Rightarrow> string \<Rightarrow> bool" where
  "string_less s [] = False"
| "string_less [] (d # t) = True"
| "string_less (c # s) (d # t) =
     ((of_char c :: nat) < of_char d \<or> c = d \<and> string_less s t)"

subsection \<open>The readers\<close>

definition ClientData_Read :: "jsonlib \<Rightarrow> jval \<Rightarrow> ClientData \<Rightarrow> ClientData option" where
  "ClientData_Read J value = if_object value (\<lambda>d. do {
     s \<leftarrow> get_string J value ''SVCN'';
     l \<leftarrow> get_uint J value ''LANG'';
     t \<leftarrow> get_uint J value ''TYPE'';
     i \<leftarrow> get_uint J value ''IITO'';
     Some (d\<lparr>ClientData_serviceName := s, ClientData_lang := l, ClientData_type := t,
       ClientData_iito := (i \<noteq> 0)\<rparr>)
   })"

definition PresenceInfo_Read :: "jsonlib \<Rightarrow> jval \<Rightarrow> PresenceInfo \<Rightarrow> PresenceInfo option" where
  "PresenceInfo_Read J value = if_object value (\<lambda>d. do {
     g \<leftarrow> get_uint J value ''GRP'';
     l \<leftarrow> get_uint J value ''LVL'';
     s \<leftarrow> get_uint J value ''STAT'';
     x \<leftarrow> get_uint J value ''XTRA'';
     Some (d\<lparr>PresenceInfo_playgroupId := ucast g, PresenceInfo_level := l, PresenceInfo_state := s,
       PresenceInfo_extra := ucast x\<rparr>)
   })"

definition IpAddress_Read :: "jsonlib \<Rightarrow> jval \<Rightarrow> IpAddress \<Rightarrow> IpAddress option" where
  "IpAddress_Read J value = if_object value (\<lambda>d. do {
     a \<leftarrow> get_uint J value ''IP'';
     p \<leftarrow> get_uint J value ''PORT'';
     Some (d\<lparr>IpAddress_address := a, IpAddress_port := ucast p\<rparr>)
   })"

definition HostNameAddress_Read :: "jsonlib \<Rightarrow> jval \<Rightarrow> HostNameAddress \<Rightarrow> HostNameAddress option" where
  "HostNameAddress_Read J value = if_object value (\<lambda>d. do {
     n \<leftarrow> get_string J value ''NAME'';
     p \<leftarrow> get_uint J value ''PORT'';
     Some (d\<lparr>HostNameAddress_name := n, HostNameAddress_port := ucast p\<rparr>)
   })"

definition IpPairAddress_Read :: "jsonlib \<Rightarrow> jval \<Rightarrow> IpPairAddress \<Rightarrow> IpPairAddress option" where
  "IpPairAddress_Read J value = if_object value (\<lambda>d. do {
     d \<leftarrow> if_member J value ''EXIP'' (\<lambda>v d. do {
       a \<leftarrow> IpAddress_Read J v (IpPairAddress_exip d);
       Some (d\<lparr>IpPairAddress_exip := a\<rparr>) }) d;
     if_member J value ''INIP'' (\<lambda>v d. do {
       a \<leftarrow> IpAddress_Read J v (IpPairAddress_inip d);
       Some (d\<lparr>IpPairAddress_inip := a\<rparr>) }) d
   })"

text \<open>A stub: it returns either way.\<close>

definition UserSessionExtendedData_Read ::
  "jsonlib \<Rightarrow> jval \<Rightarrow> UserSessionExtendedData \<Rightarrow> UserSessionExtendedData option" where
  "UserSessionExtendedData_Read J value = if_object value Some"

definition PersonaDetails_Read :: "jsonlib \<Rightarrow> jval \<Rightarrow> PersonaDetails \<Rightarrow> PersonaDetails option" where
  "PersonaDetails_Read J value = if_object value (\<lambda>d. do {
     n \<leftarrow> get_string J value ''DSNM'';
     l \<leftarrow> get_uint J value ''LAST'';
     i \<leftarrow> get_int64 J value ''PID'';
     s \<leftarrow> get_uint J value ''STAS'';
     x \<leftarrow> get_uint64 J value ''XREF'';
     t \<leftarrow> get_uint J value ''XTYP'';
     Some (d\<lparr>PersonaDetails_name := n, PersonaDetails_last := l, PersonaDetails_id := i,
       PersonaDetails_status := s, PersonaDetails_externalReference := x,
       PersonaDetails_externalReferenceType := t\<rparr>)
   })"

definition ListIdentification_Read ::
  "jsonlib \<Rightarrow> jval \<Rightarrow> ListIdentification \<Rightarrow> ListIdentification option" where
  "ListIdentification_Read J value = if_object value (\<lambda>d. do {
     n \<leftarrow> get_string J value ''LNM'';
     t \<leftarrow> get_uint J value ''TYPE'';
     Some (d\<lparr>ListIdentification_name := n, ListIdentification_type := t\<rparr>)
   })"

definition ListInfo_Read :: "jsonlib \<Rightarrow> jval \<Rightarrow> ListInfo \<Rightarrow> ListInfo option" where
  "ListInfo_Read J value = if_object value (\<lambda>d. do {
     listIdData \<leftarrow> subscript J value ''LID'';
     i \<leftarrow> ListIdentification_Read J listIdData (ListInfo_identification d);
     objectId \<leftarrow> subscript J value ''BOID'';
     b \<leftarrow> get_object_id J objectId;
     f \<leftarrow> get_uint J value ''FLGS'';
     l \<leftarrow> get_uint J value ''LMS'';
     p \<leftarrow> get_uint J value ''PRID'';
     Some (d\<lparr>ListInfo_identification := i, ListInfo_blazeObjectId := b, ListInfo_flags := f,
       ListInfo_lms := l, ListInfo_prid := p\<rparr>)
   })"

definition ListMemberId_Read :: "jsonlib \<Rightarrow> jval \<Rightarrow> ListMemberId \<Rightarrow> ListMemberId option" where
  "ListMemberId_Read J value = if_object value (\<lambda>d. do {
     i \<leftarrow> get_int64 J value ''BLID'';
     n \<leftarrow> get_string J value ''PNAM'';
     x \<leftarrow> get_uint64 J value ''XREF'';
     t \<leftarrow> get_uint J value ''XTYP'';
     Some (d\<lparr>ListMemberId_id := i, ListMemberId_name := n, ListMemberId_externalReference := x,
       ListMemberId_externalReferenceType := t\<rparr>)
   })"

definition ClientMessage_Read :: "jsonlib \<Rightarrow> jval \<Rightarrow> ClientMessage \<Rightarrow> ClientMessage option" where
  "ClientMessage_Read J value = if_object value (\<lambda>d. do {
     d \<leftarrow> if_member J value ''ATTR'' (\<lambda>v d. do {
       c \<leftarrow> subscript J v ''_Content''; ms \<leftarrow> GetObject c;
       each (\<lambda>(name, a) d. do {
         s \<leftarrow> GetString a;
         Some (d\<lparr>ClientMessage_attributes :=
           emplace (<) (to_number_u32 0 (c_str name)) s (ClientMessage_attributes d)\<rparr>) }) ms d }) d;
     targetData \<leftarrow> subscript J value ''TARG'';
     i \<leftarrow> get_object_id J targetData;
     f \<leftarrow> get_uint J value ''FLAG'';
     s \<leftarrow> get_uint J value ''STAT'';
     t \<leftarrow> get_uint J value ''TAG'';
     y \<leftarrow> get_uint J value ''TYPE'';
     Some (d\<lparr>ClientMessage_target := i, ClientMessage_flags := f, ClientMessage_stat := s,
       ClientMessage_tag := t, ClientMessage_type := y\<rparr>)
   })"

definition UserIdentification_Read ::
  "jsonlib \<Rightarrow> jval \<Rightarrow> UserIdentification \<Rightarrow> UserIdentification option" where
  "UserIdentification_Read J value = if_object value (\<lambda>d. do {
     l \<leftarrow> get_uint J value ''ALOC'';
     i \<leftarrow> get_int64 J value ''ID'';
     n \<leftarrow> get_string J value ''NAME'';
     Some (d\<lparr>UserIdentification_localization := l, UserIdentification_id := i,
       UserIdentification_name := n\<rparr>)
   })"

definition UserData_Read :: "jsonlib \<Rightarrow> jval \<Rightarrow> UserData \<Rightarrow> UserData option" where
  "UserData_Read J value = if_object value (\<lambda>d. do {
     d \<leftarrow> if_member J value ''EDAT'' (\<lambda>v d. do {
       c \<leftarrow> subscript J v ''_Content'';
       e \<leftarrow> UserSessionExtendedData_Read J c (UserData_extendedData d);
       Some (d\<lparr>UserData_extendedData := e\<rparr>) }) d;
     d \<leftarrow> if_member J value ''USER'' (\<lambda>v d. do {
       c \<leftarrow> subscript J v ''_Content'';
       u \<leftarrow> UserIdentification_Read J c (UserData_user d);
       Some (d\<lparr>UserData_user := u\<rparr>) }) d;
     f \<leftarrow> get_uint J value ''FLGS'';
     Some (d\<lparr>UserData_statusFlags := f\<rparr>)
   })"

definition PlayerConnectionStatus_Read ::
  "jsonlib \<Rightarrow> jval \<Rightarrow> PlayerConnectionStatus \<Rightarrow> PlayerConnectionStatus option" where
  "PlayerConnectionStatus_Read J value = if_object value (\<lambda>d. do {
     f \<leftarrow> get_uint J value ''FLGS'';
     i \<leftarrow> get_int64 J value ''PID'';
     s \<leftarrow> get_uint J value ''STAT'';
     Some (d\<lparr>PlayerConnectionStatus_flags := f, PlayerConnectionStatus_id := i,
       PlayerConnectionStatus_status := s\<rparr>)
   })"


definition PasswordRulesInfo_Read :: "jsonlib \<Rightarrow> jval \<Rightarrow> PasswordRulesInfo \<Rightarrow> PasswordRulesInfo option" where
  "PasswordRulesInfo_Read J value = if_object value (\<lambda>d. do {
     x \<leftarrow> get_uint J value ''MAXS'';
     n \<leftarrow> get_uint J value ''MINS'';
     v \<leftarrow> get_string J value ''VDCH'';
     Some (d\<lparr>PasswordRulesInfo_maxS := ucast x, PasswordRulesInfo_minS := ucast n,
       PasswordRulesInfo_vdch := v\<rparr>)
   })"

definition RoomMemberData_Read :: "jsonlib \<Rightarrow> jval \<Rightarrow> RoomMemberData \<Rightarrow> RoomMemberData option" where
  "RoomMemberData_Read J value = if_object value (\<lambda>d. do {
     i \<leftarrow> get_int64 J value ''BZID'';
     r \<leftarrow> get_uint J value ''RMID'';
     Some (d\<lparr>RoomMemberData_memberId := i, RoomMemberData_roomId := r\<rparr>)
   })"

text \<open>\<open>emplace_back()\<close> constructs a new object, whose value before the call is an argument here.\<close>

definition UserDetails_Read ::
  "PersonaDetails \<Rightarrow> jsonlib \<Rightarrow> jval \<Rightarrow> UserDetails \<Rightarrow> UserDetails option" where
  "UserDetails_Read blank J value = if_object value (\<lambda>d. do {
     d \<leftarrow> if_member J value ''MAIL'' (\<lambda>v d. do {
       s \<leftarrow> GetString v; Some (d\<lparr>UserDetails_mail := s\<rparr>) }) d;
     if_member J value ''PLST'' (\<lambda>v d. do {
       c \<leftarrow> subscript J v ''_Content''; vs \<leftarrow> GetArray c;
       each (\<lambda>child d. do {
         p \<leftarrow> PersonaDetails_Read J child blank;
         Some (d\<lparr>UserDetails_personaDetailsList := UserDetails_personaDetailsList d @ [p]\<rparr>) }) vs d }) d
   })"

text \<open>
  \<open>CreateGameRequest::Read\<close>: \<open>assign\<close> is \<open>member = value\<close>; the loops run over the \<open>_Content\<close> of a list
  (\<open>over_array\<close>, \<open>push_back\<close>) or of a map (\<open>over_object\<close>, \<open>emplace\<close>).
\<close>

definition assign :: "'x option \<Rightarrow> ('x \<Rightarrow> 'a \<Rightarrow> 'a) \<Rightarrow> 'a \<Rightarrow> 'a option" where
  "assign g f d = map_option (\<lambda>x. f x d) g"

definition over_array :: "jsonlib \<Rightarrow> (jval \<Rightarrow> 'x option) \<Rightarrow> ('x \<Rightarrow> 'a \<Rightarrow> 'a) \<Rightarrow> jval \<Rightarrow> 'a \<Rightarrow> 'a option" where
  "over_array J get f v d = do {
     c \<leftarrow> subscript J v ''_Content''; vs \<leftarrow> GetArray c;
     each (\<lambda>child. assign (get child) f) vs d
   }"

definition over_object ::
  "jsonlib \<Rightarrow> (string \<Rightarrow> string \<Rightarrow> 'a \<Rightarrow> 'a) \<Rightarrow> jval \<Rightarrow> 'a \<Rightarrow> 'a option" where
  "over_object J f v d = do {
     c \<leftarrow> subscript J v ''_Content''; ms \<leftarrow> GetObject c;
     each (\<lambda>(name, child). assign (GetString child) (f (c_str name))) ms d
   }"

definition CreateGameRequest_ReadHost :: "jsonlib \<Rightarrow> jval \<Rightarrow> CreateGameRequest \<Rightarrow> CreateGameRequest option" where
  "CreateGameRequest_ReadHost J value d = do {
     v \<leftarrow> subscript J value ''HNET''; c \<leftarrow> subscript J v ''_Content''; hnetData \<leftarrow> GetArray c;
     v0 \<leftarrow> (if 0 < length hnetData then Some (hnetData ! 0) else None);
     inip \<leftarrow> IpAddress_Read J v0 (IpPairAddress_inip (CreateGameRequest_hostNetwork d));
     v1 \<leftarrow> (if 1 < length hnetData then Some (hnetData ! 1) else None);
     exip \<leftarrow> IpAddress_Read J v1 (IpPairAddress_exip (CreateGameRequest_hostNetwork d));
     Some (d\<lparr>CreateGameRequest_hostNetwork := (CreateGameRequest_hostNetwork d)
       \<lparr>IpPairAddress_inip := inip, IpPairAddress_exip := exip\<rparr>\<rparr>)
   }"

definition CreateGameRequest_Read :: "jsonlib \<Rightarrow> jval \<Rightarrow> CreateGameRequest \<Rightarrow> CreateGameRequest option" where
  "CreateGameRequest_Read J value = if_object value (each (\<lambda>f. f)
     [if_member J value ''ADMN'' (over_array J GetInt64
        (\<lambda>n d. d\<lparr>CreateGameRequest_administrators := CreateGameRequest_administrators d @ [n]\<rparr>)),
      (\<lambda>d. do { v \<leftarrow> subscript J value ''ATTR''; over_object J
        (\<lambda>k s d. d\<lparr>CreateGameRequest_attributes :=
          emplace string_less k s (CreateGameRequest_attributes d)\<rparr>) v d }),
      assign (do { v \<leftarrow> subscript J value ''BTPL''; get_object_id J v })
        (\<lambda>i d. d\<lparr>CreateGameRequest_btpl := i\<rparr>),
      if_member J value ''CRIT'' (over_object J
        (\<lambda>k s d. d\<lparr>CreateGameRequest_criteria :=
          emplace string_less k s (CreateGameRequest_criteria d)\<rparr>)),
      assign (get_string J value ''GCTR'') (\<lambda>s d. d\<lparr>CreateGameRequest_ctr := s\<rparr>),
      assign (get_string J value ''GNAM'') (\<lambda>s d. d\<lparr>CreateGameRequest_name := s\<rparr>),
      assign (get_uint J value ''GSET'') (\<lambda>n d. d\<lparr>CreateGameRequest_settings := n\<rparr>),
      assign (get_string J value ''GTYP'') (\<lambda>s d. d\<lparr>CreateGameRequest_type := s\<rparr>),
      assign (get_string J value ''GURL'') (\<lambda>s d. d\<lparr>CreateGameRequest_url := s\<rparr>),
      CreateGameRequest_ReadHost J value,
      assign (get_uint J value ''IGNO'') (\<lambda>n d. d\<lparr>CreateGameRequest_ignore := (n \<noteq> 0)\<rparr>),
      if_member J value ''MATR'' (over_object J
        (\<lambda>k s d. d\<lparr>CreateGameRequest_matr := emplace string_less k s (CreateGameRequest_matr d)\<rparr>)),
      assign (get_uint J value ''NRES'') (\<lambda>n d. d\<lparr>CreateGameRequest_resetable := (n \<noteq> 0)\<rparr>),
      assign (get_uint J value ''NTOP'') (\<lambda>n d. d\<lparr>CreateGameRequest_networkTopology := n\<rparr>),
      if_member J value ''PATT'' (over_object J
        (\<lambda>k s d. d\<lparr>CreateGameRequest_playerAttributes :=
          emplace string_less k s (CreateGameRequest_playerAttributes d)\<rparr>)),
      (\<lambda>d. do { v \<leftarrow> subscript J value ''PCAP''; over_array J GetUint
        (\<lambda>n d. d\<lparr>CreateGameRequest_capacity := CreateGameRequest_capacity d @ [ucast n]\<rparr>) v d }),
      assign (get_string J value ''PGID'') (\<lambda>s d. d\<lparr>CreateGameRequest_playgroupId := s\<rparr>),
      assign (get_string J value ''PGSC'') (\<lambda>s d. d\<lparr>CreateGameRequest_playgroupSc := s\<rparr>),
      assign (get_uint J value ''PMAX'') (\<lambda>n d. d\<lparr>CreateGameRequest_maxPlayers := ucast n\<rparr>),
      assign (get_uint J value ''PRES'') (\<lambda>n d. d\<lparr>CreateGameRequest_presence := n\<rparr>),
      assign (get_uint J value ''QCAP'') (\<lambda>n d. d\<lparr>CreateGameRequest_queueCapacity := ucast n\<rparr>),
      assign (get_uint J value ''RGID'') (\<lambda>n d. d\<lparr>CreateGameRequest_rgid := n\<rparr>),
      if_member J value ''SEAT'' (over_array J GetInt64
        (\<lambda>n d. d\<lparr>CreateGameRequest_seat := CreateGameRequest_seat d @ [n]\<rparr>)),
      if_member J value ''SIDL'' (over_array J GetUint
        (\<lambda>n d. d\<lparr>CreateGameRequest_sidl := CreateGameRequest_sidl d @ [n]\<rparr>)),
      assign (get_uint J value ''SLOT'') (\<lambda>n d. d\<lparr>CreateGameRequest_slot := n\<rparr>),
      assign (get_uint J value ''TCAP'') (\<lambda>n d. d\<lparr>CreateGameRequest_tcap := ucast n\<rparr>),
      if_member J value ''TIDS'' (over_array J GetUint
        (\<lambda>n d. d\<lparr>CreateGameRequest_tids := CreateGameRequest_tids d @ [ucast n]\<rparr>)),
      assign (get_uint J value ''TIDX'') (\<lambda>n d. d\<lparr>CreateGameRequest_tIndex := ucast n\<rparr>),
      assign (get_string J value ''VSTR'') (\<lambda>s d. d\<lparr>CreateGameRequest_version := s\<rparr>)])"

subsection \<open>Documents of the parser\<close>

text \<open>The document of a message and the members the readers find in it.\<close>

definition document :: "(string \<times> tdf) list \<Rightarrow> (string \<times> jval) list" where
  "document fs = fold (\<lambda>(l, v). put_member (wire_label l) (parsed v)) fs []"

text \<open>Labels as the messages spell them: at most four capital letters.\<close>

definition plain_label :: "string \<Rightarrow> bool" where
  "plain_label l \<longleftrightarrow> length l \<le> 4 \<and> (\<forall>c \<in> set l. label_char c = c)"

lemma plain_wire_label: "plain_label l \<Longrightarrow> wire_label l = l"
  by (simp add: plain_label_def wire_label_def map_idI)

lemma label_char_capital [simp]:
  "label_char CHR ''A'' = CHR ''A''" "label_char CHR ''B'' = CHR ''B''" "label_char CHR ''C'' = CHR ''C''"
  "label_char CHR ''D'' = CHR ''D''" "label_char CHR ''E'' = CHR ''E''" "label_char CHR ''F'' = CHR ''F''"
  "label_char CHR ''G'' = CHR ''G''" "label_char CHR ''H'' = CHR ''H''" "label_char CHR ''I'' = CHR ''I''"
  "label_char CHR ''J'' = CHR ''J''" "label_char CHR ''K'' = CHR ''K''" "label_char CHR ''L'' = CHR ''L''"
  "label_char CHR ''M'' = CHR ''M''" "label_char CHR ''N'' = CHR ''N''" "label_char CHR ''O'' = CHR ''O''"
  "label_char CHR ''P'' = CHR ''P''" "label_char CHR ''Q'' = CHR ''Q''" "label_char CHR ''R'' = CHR ''R''"
  "label_char CHR ''S'' = CHR ''S''" "label_char CHR ''T'' = CHR ''T''" "label_char CHR ''U'' = CHR ''U''"
  "label_char CHR ''V'' = CHR ''V''" "label_char CHR ''W'' = CHR ''W''" "label_char CHR ''X'' = CHR ''X''"
  "label_char CHR ''Y'' = CHR ''Y''" "label_char CHR ''Z'' = CHR ''Z''"
  by code_simp+

lemma put_member_new: "k \<notin> fst ` set ms \<Longrightarrow> put_member k v ms = ms @ [(k, v)]"
proof -
  assume "k \<notin> fst ` set ms"
  then have "first_index ms k = length ms" by (induction ms) auto
  then show ?thesis by (simp add: put_member_def)
qed

lemma fold_put_member:
  assumes "\<forall>(l, v) \<in> set fs. plain_label l" and "distinct (map fst ms @ map fst fs)"
  shows "fold (\<lambda>(l, v). put_member (wire_label l) (f v)) fs ms = ms @ map (\<lambda>(l, v). (l, f v)) fs"
  using assms
proof (induction fs arbitrary: ms)
  case (Cons x fs)
  obtain l v where x: "x = (l, v)" by (cases x)
  have "put_member l (f v) ms = ms @ [(l, f v)]"
    using Cons.prems(2) by (intro put_member_new) (auto simp: x)
  moreover have "wire_label l = l" using Cons.prems(1) by (simp add: x plain_wire_label)
  ultimately show ?case using Cons.IH [of "ms @ [(l, f v)]"] Cons.prems by (simp add: x)
qed simp

text \<open>The labels of a message are plain and distinct, and none is \<open>_Type\<close>.\<close>

definition good_labels :: "string list \<Rightarrow> bool" where
  "good_labels ls \<longleftrightarrow> (\<forall>l \<in> set ls. plain_label l) \<and> distinct (''_Type'' # ls)"

lemma document_eq:
  assumes "good_labels (map fst fs)"
  shows "document fs = map (\<lambda>(l, v). (l, parsed v)) fs"
  using assms fold_put_member [of fs "[]" parsed]
  by (fastforce simp: document_def good_labels_def)

lemma parsed_struct_eq:
  assumes "good_labels (map fst fs)"
  shows "parsed (V_Struct fs) = JObject ((''_Type'', JType T_Struct) # map (\<lambda>(l, v). (l, parsed v)) fs)"
proof -
  have f: "fold (\<lambda>(l, v). put_member (wire_label l) v) (map (\<lambda>(l, v). (l, parsed v)) fs) ms =
      fold (\<lambda>(l, v). put_member (wire_label l) (parsed v)) fs ms" for ms
    by (simp add: fold_map comp_def case_prod_unfold)
  show ?thesis
    using assms fold_put_member [of fs "[(''_Type'', JType T_Struct)]" parsed]
    unfolding parsed.simps f by (fastforce simp: good_labels_def)
qed

end
