(* ===== verification/Json.thy ===== *)
theory Json
  imports TDFProps
begin

text \<open>
  The helpers of \<open>source/Core/Utils/JSON.cpp\<close> over the library's documents.  A missing member reads
  as a default; \<open>None\<close> is a failed assertion of the library (a member of another type, or a value
  that is not an object).
\<close>

fun member_or :: "jsonlib \<Rightarrow> 'a \<Rightarrow> (jval \<Rightarrow> 'a option) \<Rightarrow> jval \<Rightarrow> string \<Rightarrow> 'a option" where
  "member_or J d get (JObject ms) k =
     (if FindMember J ms k < length ms then get (snd (ms ! FindMember J ms k)) else Some d)"
| "member_or J d get _ k = None"

definition json_Get :: "jsonlib \<Rightarrow> jval \<Rightarrow> string \<Rightarrow> jval option" where
  "json_Get J = member_or J JNull Some"

definition json_GetString :: "jsonlib \<Rightarrow> jval \<Rightarrow> string \<Rightarrow> string option" where
  "json_GetString J = member_or J [] GetString"

definition json_GetBool :: "jsonlib \<Rightarrow> jval \<Rightarrow> string \<Rightarrow> bool option" where
  "json_GetBool J = member_or J False GetBool"

definition json_GetUint8 :: "jsonlib \<Rightarrow> jval \<Rightarrow> string \<Rightarrow> u8 option" where
  "json_GetUint8 J = member_or J 0 (\<lambda>v. map_option ucast (GetUint v))"

definition json_GetUint16 :: "jsonlib \<Rightarrow> jval \<Rightarrow> string \<Rightarrow> u16 option" where
  "json_GetUint16 J = member_or J 0 (\<lambda>v. map_option ucast (GetUint v))"

definition json_GetUint :: "jsonlib \<Rightarrow> jval \<Rightarrow> string \<Rightarrow> u32 option" where
  "json_GetUint J = member_or J 0 GetUint"

definition json_GetUint64 :: "jsonlib \<Rightarrow> jval \<Rightarrow> string \<Rightarrow> u64 option" where
  "json_GetUint64 J = member_or J 0 GetUint64"

text \<open>\<open>Set\<close> adds a member at the end, \<open>Add\<close> an element of an array.\<close>

fun json_Set :: "jsonlib \<Rightarrow> string \<Rightarrow> jval \<Rightarrow> jval \<Rightarrow> jval option" where
  "json_Set J k v (JObject ms) = Some (JObject (JAddMember J ms k v))"
| "json_Set J k v _ = None"

fun json_Add :: "jsonlib \<Rightarrow> jval \<Rightarrow> jval \<Rightarrow> jval option" where
  "json_Add J v (JArray vs) = Some (JArray (JPushBack J vs v))"
| "json_Add J v _ = None"

lemma map_of_first_index:
  "map_of ms k = (if first_index ms k < length ms then Some (snd (ms ! first_index ms k)) else None)"
  by (induction ms k rule: first_index.induct) auto

lemma member_or_laws:
  "json_laws J \<Longrightarrow> member_or J d get (JObject ms) k = (case map_of ms k of None \<Rightarrow> Some d | Some v \<Rightarrow> get v)"
  by (simp add: json_laws_def map_of_first_index)

lemmas json_get_defs = json_Get_def json_GetString_def json_GetBool_def json_GetUint8_def json_GetUint16_def
  json_GetUint_def json_GetUint64_def

text \<open>The object that a series of \<open>Set\<close> calls builds.\<close>

definition json_sets :: "jsonlib \<Rightarrow> (string \<times> jval) list \<Rightarrow> jval \<Rightarrow> jval option" where
  "json_sets J fs v = each (\<lambda>(k, w). json_Set J k w) fs v"

lemma json_sets_object: "json_laws J \<Longrightarrow> json_sets J fs (JObject ms) = Some (JObject (ms @ fs))"
  by (induction fs arbitrary: ms) (auto simp: json_sets_def json_laws_def)

end
