(* ===== verification/BlazeProps.thy ===== *)
theory BlazeProps
  imports BlazeRead TDFProps Json
begin

text \<open>
  What a Blaze message goes through: built by \<open>Write\<close>, serialised by \<open>Packet::Write\<close>, parsed by
  \<open>Parser::Read\<close> and taken apart by \<open>Read\<close>.  The interface \<open>message\<close> states what the four steps
  need of a message; each message that has both members is an instance.  \<open>fresh\<close> is the state of the receiving object: most readers overwrite every member.
\<close>

definition survives :: "jsonlib \<Rightarrow> (packet \<Rightarrow> packet option) \<Rightarrow> (jval \<Rightarrow> 'm option) \<Rightarrow> 'm \<Rightarrow> bool" where
  "survives J w r d \<longleftrightarrow>
     (\<exists>b. do { p \<leftarrow> w Packet_new; Packet_Write J p db_empty } = Some b \<and>
       (\<exists>n0. \<forall>n \<ge> n0. do { (v, c) \<leftarrow> Parser_Read n J (set_position 0 b); r v } = Some d))"

locale message =
  fixes wr :: "jsonlib \<Rightarrow> 'm \<Rightarrow> packet \<Rightarrow> packet option"
    and fields :: "'m \<Rightarrow> (string \<times> tdf) list"
    and rd :: "jsonlib \<Rightarrow> jval \<Rightarrow> 'm \<Rightarrow> 'm option"
    and valid :: "'m \<Rightarrow> bool"
    and fresh :: "'m \<Rightarrow> bool"
  assumes writes: "json_laws J \<Longrightarrow> builds (wr J d) (fields d)"
    and sendable: "valid d \<Longrightarrow> \<forall>(l, v) \<in> set (fields d). no_nul l \<and> writable v \<and> parsable v"
    and reads: "json_laws J \<Longrightarrow> valid d \<Longrightarrow> fresh d0 \<Longrightarrow> rd J (JObject (document (fields d))) d0 = Some d"
begin

lemma message_survives:
  assumes "json_laws J" and "valid d" and "fresh d0"
  shows "survives J (wr J d) (\<lambda>v. rd J v d0) d"
  unfolding survives_def
  using packet_parses_back [OF assms(1) writes [OF assms(1)] sendable [OF assms(2)]] reads [OF assms]
  by (fastforce simp: document_def)

end

subsection \<open>Values that survive\<close>

text \<open>
  Strings without NUL and of less than \<open>2 ^ 55 - 1\<close> characters, enumerators that are not
  negative, 64-bit numbers of at most 55 bits.
\<close>

definition text_ok :: "string \<Rightarrow> bool" where
  "text_ok s \<longleftrightarrow> no_nul s \<and> length s < 2 ^ 55 - 1"

definition enum_ok :: "enum_code \<Rightarrow> bool" where
  "enum_ok e \<longleftrightarrow> e < 2 ^ 31"

lemma text_okD: "text_ok s \<Longrightarrow> no_nul s" "text_ok s \<Longrightarrow> CHR 0x00 \<notin> set s" "text_ok s \<Longrightarrow> CHR 0x00 \<notin> set s" "text_ok s \<Longrightarrow> length s < 36028797018963967"
  "text_ok s \<Longrightarrow> c_str s = s"
  by (simp_all add: text_ok_def c_str_no_nul no_nul_def [symmetric])

lemma unat_ucast_u64:
  assumes "LENGTH('a) \<le> 64"
  shows "unat (ucast (w :: 'a::len word) :: u64) = unat w"
proof -
  have "unat w < 2 ^ LENGTH('a)" by (rule unsigned_less)
  also have "\<dots> \<le> 2 ^ 64" using assms by (rule power_increasing) simp
  finally show ?thesis by (simp add: unsigned_ucast_eq take_bit_nat_eq_self)
qed

lemma small_ucast:
  "(ucast (w :: u32) :: u64) < 4294967296" "(ucast (v :: u16) :: u64) < 4294967296"
  "(ucast (w :: u32) :: u64) < 36028797018963968" "(ucast (v :: u16) :: u64) < 36028797018963968"
  using unsigned_less [of w, where ?'a = nat] unsigned_less [of v, where ?'a = nat]
  by (simp_all add: word_less_nat_alt unat_ucast_u64)

lemma ucast_u64_back: "ucast (ucast (w :: u32) :: u64) = w"
  "ucast (ucast (v :: u16) :: u64) = (ucast v :: u32)" "ucast (ucast (v :: u16) :: u32) = v"
  by (rule bit_word_eqI, simp add: bit_simps)+

lemma scast_enum: "enum_ok e \<Longrightarrow> (scast e :: u64) = ucast e"
proof -
  assume "enum_ok e"
  then have "take_bit 31 e = e"
    by (intro unsigned_word_eqI [where ?'a = nat]) (simp add: enum_ok_def word_less_nat_alt unsigned_take_bit_eq take_bit_nat_eq_self_iff)
  then have "\<not> bit e 31" by (metis bit_take_bit_iff less_irrefl)
  then have lt: "bit e n \<Longrightarrow> n < 31" for n
    using bit_imp_le_length [of e n] by (cases "n = 31") auto
  then show ?thesis
    by (intro bit_word_eqI) (auto simp: bit_simps min_def dest: lt)
qed

lemma get_wire:
  "GetUint (JUint (ucast (w :: u32))) = Some w"
  "GetUint (JUint (ucast (v :: u16))) = Some (ucast v)"
  "enum_ok e \<Longrightarrow> GetUint (JUint (scast e)) = Some e"
  "n < 36028797018963968 \<Longrightarrow> GetInt64 (JUint n) = Some n"
  "GetUint (JUint 0) = Some 0" "GetUint (JUint 1) = Some 1"
proof -
  show "GetUint (JUint (ucast (w :: u32))) = Some w" for w :: u32
    using small_ucast(1) by (simp add: GetUint_def ucast_u64_back)
  then show "enum_ok e \<Longrightarrow> GetUint (JUint (scast e)) = Some e" by (simp add: scast_enum)
  show "GetUint (JUint (ucast (v :: u16))) = Some (ucast v)"
    using small_ucast(2) by (simp add: GetUint_def ucast_u64_back)
  show "n < 36028797018963968 \<Longrightarrow> GetInt64 (JUint n) = Some n"
    using order.strict_trans [of n 36028797018963968 9223372036854775808] by (simp add: GetInt64_def)
qed (simp_all add: GetUint_def)

lemma member_laws:
  assumes "json_laws J"
  shows "subscript J (JObject ms) k = map_of ms k"
    "if_member J (JObject ms) k f d = (case map_of ms k of None \<Rightarrow> Some d | Some v \<Rightarrow> f v d)"
  using assms by (simp_all add: json_laws_def map_of_first_index)

declare subscript.simps [simp del] if_member.simps [simp del] parsed.simps(7) [simp del]

lemmas get_defs = get_uint_def get_uint64_def get_int64_def get_string_def get_object_id_def

lemmas label_simps = good_labels_def plain_label_def

lemmas message_simps = document_eq parsed_struct_eq label_simps member_laws get_defs get_wire
  text_okD small_ucast ucast_u64_back no_nul_def V_id_def

subsection \<open>The messages\<close>

lemma enum_small: "enum_ok e \<Longrightarrow> (scast e :: u64) < 36028797018963968"
  by (simp add: scast_enum small_ucast)

definition ClientData_valid :: "ClientData \<Rightarrow> bool" where
  "ClientData_valid d \<longleftrightarrow>
     text_ok (ClientData_serviceName d) \<and>
     enum_ok (ClientData_type d)"

interpretation client_data: message ClientData_Write ClientData_fields ClientData_Read ClientData_valid "\<lambda>_. True"
proof
  fix d d0 assume v: "ClientData_valid d"
  show "\<forall>(l, v) \<in> set (ClientData_fields d). no_nul l \<and> writable v \<and> parsable v"
    using v by (auto simp: ClientData_valid_def ClientData_fields_def message_simps enum_small split: prod.split)
  fix J assume "json_laws J"
  then show "ClientData_Read J (JObject (document (ClientData_fields d))) d0 = Some d"
    using v by (simp add: ClientData_valid_def ClientData_fields_def ClientData_Read_def message_simps split: prod.split)
qed (rule ClientData_builds)

definition PresenceInfo_valid :: "PresenceInfo \<Rightarrow> bool" where
  "PresenceInfo_valid d \<longleftrightarrow>
     enum_ok (PresenceInfo_state d)"

interpretation presence_info: message PresenceInfo_Write PresenceInfo_fields PresenceInfo_Read PresenceInfo_valid "\<lambda>_. True"
proof
  fix d d0 assume v: "PresenceInfo_valid d"
  show "\<forall>(l, v) \<in> set (PresenceInfo_fields d). no_nul l \<and> writable v \<and> parsable v"
    using v by (auto simp: PresenceInfo_valid_def PresenceInfo_fields_def message_simps enum_small split: prod.split)
  fix J assume "json_laws J"
  then show "PresenceInfo_Read J (JObject (document (PresenceInfo_fields d))) d0 = Some d"
    using v by (simp add: PresenceInfo_valid_def PresenceInfo_fields_def PresenceInfo_Read_def message_simps split: prod.split)
qed (rule PresenceInfo_builds)

interpretation ip_address: message IpAddress_Write IpAddress_fields IpAddress_Read "\<lambda>_. True" "\<lambda>_. True"
proof
  fix d d0
  show "\<forall>(l, v) \<in> set (IpAddress_fields d). no_nul l \<and> writable v \<and> parsable v"
    by (auto simp: IpAddress_fields_def message_simps)
  fix J assume "json_laws J"
  then show "IpAddress_Read J (JObject (document (IpAddress_fields d))) d0 = Some d"
    by (simp add: IpAddress_fields_def IpAddress_Read_def message_simps)
qed (rule IpAddress_builds)

definition HostNameAddress_valid :: "HostNameAddress \<Rightarrow> bool" where
  "HostNameAddress_valid d \<longleftrightarrow>
     text_ok (HostNameAddress_name d)"

interpretation host_name_address: message HostNameAddress_Write HostNameAddress_fields HostNameAddress_Read HostNameAddress_valid "\<lambda>_. True"
proof
  fix d d0 assume v: "HostNameAddress_valid d"
  show "\<forall>(l, v) \<in> set (HostNameAddress_fields d). no_nul l \<and> writable v \<and> parsable v"
    using v by (auto simp: HostNameAddress_valid_def HostNameAddress_fields_def message_simps enum_small split: prod.split)
  fix J assume "json_laws J"
  then show "HostNameAddress_Read J (JObject (document (HostNameAddress_fields d))) d0 = Some d"
    using v by (simp add: HostNameAddress_valid_def HostNameAddress_fields_def HostNameAddress_Read_def message_simps split: prod.split)
qed (rule HostNameAddress_builds)

interpretation ip_pair_address: message IpPairAddress_Write IpPairAddress_fields IpPairAddress_Read "\<lambda>_. True" "\<lambda>_. True"
proof
  fix d d0
  show "\<forall>(l, v) \<in> set (IpPairAddress_fields d). no_nul l \<and> writable v \<and> parsable v"
    by (auto simp: IpPairAddress_fields_def IpAddress_fields_def IpAddress_Read_def message_simps)
  fix J assume "json_laws J"
  then show "IpPairAddress_Read J (JObject (document (IpPairAddress_fields d))) d0 = Some d"
    by (simp add: IpPairAddress_fields_def IpAddress_fields_def IpAddress_Read_def IpPairAddress_Read_def message_simps)
qed (rule IpPairAddress_builds)

definition PersonaDetails_valid :: "PersonaDetails \<Rightarrow> bool" where
  "PersonaDetails_valid d \<longleftrightarrow>
     text_ok (PersonaDetails_name d) \<and>
     PersonaDetails_id d < 2 ^ 55 \<and>
     enum_ok (PersonaDetails_status d) \<and>
     PersonaDetails_externalReference d < 2 ^ 55 \<and>
     enum_ok (PersonaDetails_externalReferenceType d)"

interpretation persona_details: message PersonaDetails_Write PersonaDetails_fields PersonaDetails_Read PersonaDetails_valid "\<lambda>_. True"
proof
  fix d d0 assume v: "PersonaDetails_valid d"
  show "\<forall>(l, v) \<in> set (PersonaDetails_fields d). no_nul l \<and> writable v \<and> parsable v"
    using v by (auto simp: PersonaDetails_valid_def PersonaDetails_fields_def message_simps enum_small split: prod.split)
  fix J assume "json_laws J"
  then show "PersonaDetails_Read J (JObject (document (PersonaDetails_fields d))) d0 = Some d"
    using v by (simp add: PersonaDetails_valid_def PersonaDetails_fields_def PersonaDetails_Read_def message_simps split: prod.split)
qed (rule PersonaDetails_builds)

definition ListIdentification_valid :: "ListIdentification \<Rightarrow> bool" where
  "ListIdentification_valid d \<longleftrightarrow>
     text_ok (ListIdentification_name d)"

interpretation list_identification: message ListIdentification_Write ListIdentification_fields ListIdentification_Read ListIdentification_valid "\<lambda>_. True"
proof
  fix d d0 assume v: "ListIdentification_valid d"
  show "\<forall>(l, v) \<in> set (ListIdentification_fields d). no_nul l \<and> writable v \<and> parsable v"
    using v by (auto simp: ListIdentification_valid_def ListIdentification_fields_def message_simps enum_small split: prod.split)
  fix J assume "json_laws J"
  then show "ListIdentification_Read J (JObject (document (ListIdentification_fields d))) d0 = Some d"
    using v by (simp add: ListIdentification_valid_def ListIdentification_fields_def ListIdentification_Read_def message_simps split: prod.split)
qed (rule ListIdentification_builds)

definition ListInfo_valid :: "ListInfo \<Rightarrow> bool" where
  "ListInfo_valid d \<longleftrightarrow>
     ListIdentification_valid (ListInfo_identification d) \<and>
     snd (snd (ListInfo_blazeObjectId d)) < 2 ^ 55"

interpretation list_info: message ListInfo_Write ListInfo_fields ListInfo_Read ListInfo_valid "\<lambda>_. True"
proof
  fix d d0 assume v: "ListInfo_valid d"
  show "\<forall>(l, v) \<in> set (ListInfo_fields d). no_nul l \<and> writable v \<and> parsable v"
    using v by (auto simp: ListInfo_valid_def ListInfo_fields_def ListIdentification_valid_def ListIdentification_fields_def ListIdentification_Read_def message_simps enum_small split: prod.split)
  fix J assume "json_laws J"
  then show "ListInfo_Read J (JObject (document (ListInfo_fields d))) d0 = Some d"
    using v by (simp add: ListInfo_valid_def ListInfo_fields_def ListIdentification_valid_def ListIdentification_fields_def ListIdentification_Read_def ListInfo_Read_def message_simps split: prod.split)
qed (rule ListInfo_builds)

definition ListMemberId_valid :: "ListMemberId \<Rightarrow> bool" where
  "ListMemberId_valid d \<longleftrightarrow>
     text_ok (ListMemberId_name d) \<and>
     ListMemberId_id d < 2 ^ 55 \<and>
     ListMemberId_externalReference d < 2 ^ 55 \<and>
     enum_ok (ListMemberId_externalReferenceType d)"

interpretation list_member_id: message ListMemberId_Write ListMemberId_fields ListMemberId_Read ListMemberId_valid "\<lambda>_. True"
proof
  fix d d0 assume v: "ListMemberId_valid d"
  show "\<forall>(l, v) \<in> set (ListMemberId_fields d). no_nul l \<and> writable v \<and> parsable v"
    using v by (auto simp: ListMemberId_valid_def ListMemberId_fields_def message_simps enum_small split: prod.split)
  fix J assume "json_laws J"
  then show "ListMemberId_Read J (JObject (document (ListMemberId_fields d))) d0 = Some d"
    using v by (simp add: ListMemberId_valid_def ListMemberId_fields_def ListMemberId_Read_def message_simps split: prod.split)
qed (rule ListMemberId_builds)

definition UserIdentification_valid :: "UserIdentification \<Rightarrow> bool" where
  "UserIdentification_valid d \<longleftrightarrow>
     text_ok (UserIdentification_name d) \<and>
     UserIdentification_id d < 2 ^ 55"

interpretation user_identification: message UserIdentification_Write UserIdentification_fields UserIdentification_Read UserIdentification_valid "\<lambda>_. True"
proof
  fix d d0 assume v: "UserIdentification_valid d"
  show "\<forall>(l, v) \<in> set (UserIdentification_fields d). no_nul l \<and> writable v \<and> parsable v"
    using v by (auto simp: UserIdentification_valid_def UserIdentification_fields_def message_simps enum_small split: prod.split)
  fix J assume "json_laws J"
  then show "UserIdentification_Read J (JObject (document (UserIdentification_fields d))) d0 = Some d"
    using v by (simp add: UserIdentification_valid_def UserIdentification_fields_def UserIdentification_Read_def message_simps split: prod.split)
qed (rule UserIdentification_builds)

definition PlayerConnectionStatus_valid :: "PlayerConnectionStatus \<Rightarrow> bool" where
  "PlayerConnectionStatus_valid d \<longleftrightarrow>
     PlayerConnectionStatus_id d < 2 ^ 55 \<and>
     enum_ok (PlayerConnectionStatus_status d)"

interpretation player_connection_status: message PlayerConnectionStatus_Write PlayerConnectionStatus_fields PlayerConnectionStatus_Read PlayerConnectionStatus_valid "\<lambda>_. True"
proof
  fix d d0 assume v: "PlayerConnectionStatus_valid d"
  show "\<forall>(l, v) \<in> set (PlayerConnectionStatus_fields d). no_nul l \<and> writable v \<and> parsable v"
    using v by (auto simp: PlayerConnectionStatus_valid_def PlayerConnectionStatus_fields_def message_simps enum_small split: prod.split)
  fix J assume "json_laws J"
  then show "PlayerConnectionStatus_Read J (JObject (document (PlayerConnectionStatus_fields d))) d0 = Some d"
    using v by (simp add: PlayerConnectionStatus_valid_def PlayerConnectionStatus_fields_def PlayerConnectionStatus_Read_def message_simps split: prod.split)
qed (rule PlayerConnectionStatus_builds)

definition PasswordRulesInfo_valid :: "PasswordRulesInfo \<Rightarrow> bool" where
  "PasswordRulesInfo_valid d \<longleftrightarrow>
     text_ok (PasswordRulesInfo_vdch d)"

interpretation password_rules_info: message PasswordRulesInfo_Write PasswordRulesInfo_fields PasswordRulesInfo_Read PasswordRulesInfo_valid "\<lambda>_. True"
proof
  fix d d0 assume v: "PasswordRulesInfo_valid d"
  show "\<forall>(l, v) \<in> set (PasswordRulesInfo_fields d). no_nul l \<and> writable v \<and> parsable v"
    using v by (auto simp: PasswordRulesInfo_valid_def PasswordRulesInfo_fields_def message_simps enum_small split: prod.split)
  fix J assume "json_laws J"
  then show "PasswordRulesInfo_Read J (JObject (document (PasswordRulesInfo_fields d))) d0 = Some d"
    using v by (simp add: PasswordRulesInfo_valid_def PasswordRulesInfo_fields_def PasswordRulesInfo_Read_def message_simps split: prod.split)
qed (rule PasswordRulesInfo_builds)

definition RoomMemberData_valid :: "RoomMemberData \<Rightarrow> bool" where
  "RoomMemberData_valid d \<longleftrightarrow>
     RoomMemberData_memberId d < 2 ^ 55"

interpretation room_member_data: message RoomMemberData_Write RoomMemberData_fields RoomMemberData_Read RoomMemberData_valid "\<lambda>_. True"
proof
  fix d d0 assume v: "RoomMemberData_valid d"
  show "\<forall>(l, v) \<in> set (RoomMemberData_fields d). no_nul l \<and> writable v \<and> parsable v"
    using v by (auto simp: RoomMemberData_valid_def RoomMemberData_fields_def message_simps enum_small split: prod.split)
  fix J assume "json_laws J"
  then show "RoomMemberData_Read J (JObject (document (RoomMemberData_fields d))) d0 = Some d"
    using v by (simp add: RoomMemberData_valid_def RoomMemberData_fields_def RoomMemberData_Read_def message_simps split: prod.split)
qed (rule RoomMemberData_builds)

subsection \<open>Integer keys\<close>

lemma decimal_key:
  "stoull (decimal (unat (w :: u32))) = Some (ucast w)" "to_number_u32 0 (decimal (unat w)) = w"
  "wire_key T_Integer (decimal (unat w)) = decimal (unat w)"
proof -
  have "unat w < 2 ^ 64" using unsigned_less [of w, where ?'a = nat] by (rule order.strict_trans) simp
  then show s: "stoull (decimal (unat w)) = Some (ucast w)" by (simp add: stoull_decimal)
  show "to_number_u32 0 (decimal (unat w)) = w" 
    using \<open>unat w < 2 ^ 64\<close> by (simp add: to_number_u32_def strtoul_decimal_prefix ucast_u64_back)
  show "wire_key T_Integer (decimal (unat w)) = decimal (unat w)"
    by (simp add: wire_key_def s unat_ucast_u64)
qed

subsection \<open>Messages with maps and lists\<close>

text \<open>
  The attributes of a client message are a \<open>std::map\<close>: keys in increasing order.  The count is one
  byte.  Reading adds to the attributes the object already has, so the receiver starts empty.
\<close>

definition ClientMessage_valid :: "ClientMessage \<Rightarrow> bool" where
  "ClientMessage_valid d \<longleftrightarrow>
     sorted_wrt (<) (map fst (ClientMessage_attributes d)) \<and> length (ClientMessage_attributes d) < 256 \<and>
     (\<forall>(k, s) \<in> set (ClientMessage_attributes d). text_ok s) \<and> snd (snd (ClientMessage_target d)) < 2 ^ 55"

lemma emplace_last:
  fixes m :: "('k::linorder \<times> 'v) list"
  shows "\<forall>k' \<in> fst ` set m. k' < k \<Longrightarrow> emplace (<) k v m = m @ [(k, v)]"
  by (induction m) (auto dest: less_asym)

lemma read_attributes:
  assumes "sorted_wrt (<) (map fst (ClientMessage_attributes d @ as))" and "\<forall>(k, s) \<in> set as. text_ok s"
  shows "each (\<lambda>(name, a) d. do {
         s \<leftarrow> GetString a;
         Some (d\<lparr>ClientMessage_attributes :=
           emplace (<) (to_number_u32 0 (c_str name)) s (ClientMessage_attributes d)\<rparr>) })
      (map (\<lambda>(k, s). (decimal (unat k), JString s)) as) d
    = Some (d\<lparr>ClientMessage_attributes := ClientMessage_attributes d @ as\<rparr>)"
  using assms
proof (induction as arbitrary: d)
  case (Cons x as)
  obtain k s where x: "x = (k, s)" by (cases x)
  have "emplace (<) k s (ClientMessage_attributes d) = ClientMessage_attributes d @ [(k, s)]"
    using Cons.prems(1) by (intro emplace_last) (auto simp: x sorted_wrt_append)
  then show ?case
    using Cons.prems Cons.IH [of "d\<lparr>ClientMessage_attributes := ClientMessage_attributes d @ [(k, s)]\<rparr>"]
    by (simp add: x no_nul_decimal decimal_key text_okD)
qed simp

interpretation client_message: message ClientMessage_Write ClientMessage_fields ClientMessage_Read
  ClientMessage_valid "\<lambda>d :: ClientMessage. ClientMessage_attributes d = []"
proof
  fix d d0 :: ClientMessage assume v: "ClientMessage_valid d"
  have map_ok: "writable (V_Map T_Integer T_String (map (\<lambda>(k, s). (decimal (unat k), V_String s)) (ClientMessage_attributes d)))"
    "parsable (V_Map T_Integer T_String (map (\<lambda>(k, s). (decimal (unat k), V_String s)) (ClientMessage_attributes d)))"
    using v by (auto simp: ClientMessage_valid_def decimal_key no_nul_decimal text_okD listable_def small_ucast)
  then show "\<forall>(l, v) \<in> set (ClientMessage_fields d). no_nul l \<and> writable v \<and> parsable v"
    using v by (auto simp: ClientMessage_valid_def ClientMessage_fields_def message_simps
        simp del: writable.simps(6) parsable.simps(10) split: prod.split)
  have content: "parsed (V_Map T_Integer T_String (map (\<lambda>(k, s). (decimal (unat k), V_String s)) (ClientMessage_attributes d))) =
      JObject [(''_Type'', JType T_Map), (''_KeyType'', JType T_Integer), (''_ValueType'', JType T_String),
       (''_MapSize'', JCount (length (ClientMessage_attributes d))),
       (''_Content'', JObject (map (\<lambda>(k, s). (decimal (unat k), JString s)) (ClientMessage_attributes d)))]"
    by (simp add: case_prod_unfold comp_def decimal_key)
  fix J assume "json_laws J" and "ClientMessage_attributes d0 = []"
  then show "ClientMessage_Read J (JObject (document (ClientMessage_fields d))) d0 = Some d"
    using v read_attributes [of d0 "ClientMessage_attributes d"]
    by (simp add: ClientMessage_valid_def ClientMessage_fields_def ClientMessage_Read_def message_simps content
        del: parsed.simps(10) split: prod.split)
qed (rule ClientMessage_builds)

definition UserDetails_valid :: "UserDetails \<Rightarrow> bool" where
  "UserDetails_valid d \<longleftrightarrow> text_ok (UserDetails_mail d) \<and> UserDetails_personaDetailsList d \<noteq> [] \<and>
     length (UserDetails_personaDetailsList d) < 256 \<and>
     (\<forall>p \<in> set (UserDetails_personaDetailsList d). PersonaDetails_valid p)"

lemma read_persona:
  assumes "json_laws J" and "PersonaDetails_valid p"
  shows "PersonaDetails_Read J (parsed (V_Struct (PersonaDetails_fields p))) blank = Some p"
  using assms
  by (simp add: PersonaDetails_valid_def PersonaDetails_fields_def PersonaDetails_Read_def message_simps)

lemma read_personas:
  assumes "json_laws J" and "\<forall>p \<in> set ps. PersonaDetails_valid p"
  shows "each (\<lambda>child d. do {
         p \<leftarrow> PersonaDetails_Read J child blank;
         Some (d\<lparr>UserDetails_personaDetailsList := UserDetails_personaDetailsList d @ [p]\<rparr>) })
      (map (\<lambda>p. parsed (V_Struct (PersonaDetails_fields p))) ps) (d :: UserDetails)
    = Some (d\<lparr>UserDetails_personaDetailsList := UserDetails_personaDetailsList d @ ps\<rparr>)"
  using assms(2) by (induction ps arbitrary: d) (simp_all add: read_persona [OF assms(1)])

interpretation user_details: message UserDetails_Write UserDetails_fields "UserDetails_Read blank"
  UserDetails_valid "\<lambda>d :: UserDetails. UserDetails_personaDetailsList d = []"
proof
  fix d d0 :: UserDetails assume v: "UserDetails_valid d"
  have p: "\<forall>p \<in> set (UserDetails_personaDetailsList d).
      writable (V_Struct (PersonaDetails_fields p)) \<and> parsable (V_Struct (PersonaDetails_fields p))"
    using v persona_details.sendable
    by (fastforce simp: UserDetails_valid_def PersonaDetails_fields_def)
  then show "\<forall>(l, v) \<in> set (UserDetails_fields d). no_nul l \<and> writable v \<and> parsable v"
    using v by (auto simp: UserDetails_valid_def UserDetails_fields_def message_simps listable_def
        simp del: writable.simps(3) parsable.simps(7))
  fix J assume "json_laws J" and "UserDetails_personaDetailsList d0 = []"
  then show "UserDetails_Read blank J (JObject (document (UserDetails_fields d))) d0 = Some d"
    using v read_personas [of J "UserDetails_personaDetailsList d" blank]
    by (simp add: UserDetails_valid_def UserDetails_fields_def UserDetails_Read_def document_eq label_simps
        member_laws get_wire text_okD comp_def)
qed (rule UserDetails_builds)

subsection \<open>What a request keeps\<close>

text \<open>Statements that leave a member \<open>g\<close> alone.\<close>

definition keeps :: "('a \<Rightarrow> 'b) \<Rightarrow> ('a \<Rightarrow> 'a option) \<Rightarrow> bool" where
  "keeps g f \<longleftrightarrow> (\<forall>d d'. f d = Some d' \<longrightarrow> g d' = g d)"

lemma keeps_each: "(\<And>x. x \<in> set xs \<Longrightarrow> keeps g (f x)) \<Longrightarrow> keeps g (each f xs)"
proof (induction xs)
  case (Cons x xs)
  then show ?case by (fastforce simp: keeps_def split: bind_splits)
qed (simp add: keeps_def)

lemma keeps_assign: "(\<And>x d. g (f x d) = g d) \<Longrightarrow> keeps g (assign m f)"
  by (auto simp: keeps_def assign_def)

lemma keeps_if_member: "(\<And>v. keeps g (f v)) \<Longrightarrow> keeps g (if_member J v k f)"
  by (cases v) (auto simp: keeps_def if_member.simps)

lemma keeps_over_array:
  assumes "\<And>x d. g (f x d) = g d"
  shows "keeps g (over_array J get f v)"
  unfolding keeps_def
proof (intro allI impI)
  fix d d' assume "over_array J get f v d = Some d'"
  then obtain vs where "each (\<lambda>child. assign (get child) f) vs d = Some d'"
    by (auto simp: over_array_def split: bind_splits)
  moreover have "keeps g (each (\<lambda>child. assign (get child) f) vs)"
    by (rule keeps_each, rule keeps_assign, rule assms)
  ultimately show "g d' = g d" by (simp add: keeps_def)
qed

lemma keeps_over_object:
  assumes "\<And>k x d. g (f k x d) = g d"
  shows "keeps g (over_object J f v)"
  unfolding keeps_def
proof (intro allI impI)
  let ?body = "\<lambda>(name, child). assign (GetString child) (f (c_str name))"
  fix d d' assume "over_object J f v d = Some d'"
  then obtain ms where "each ?body ms d = Some d'" by (auto simp: over_object_def split: bind_splits)
  moreover have "keeps g (each ?body ms)"
    by (rule keeps_each) (auto split: prod.split intro: keeps_assign assms)
  ultimately show "g d' = g d" by (simp add: keeps_def)
qed

lemmas keeps_rules = keeps_assign keeps_if_member keeps_over_array keeps_over_object

subsection \<open>The order of the labels\<close>

text \<open>A Blaze decoder expects the labels of a structure in increasing order.\<close>

definition ascending :: "(string \<times> tdf) list \<Rightarrow> bool" where
  "ascending fs \<longleftrightarrow> (\<forall>l \<in> fst ` set fs. plain_label l) \<and> sorted_wrt string_less (map fst fs)"

definition in_label_order :: "(packet \<Rightarrow> packet option) \<Rightarrow> bool" where
  "in_label_order f \<longleftrightarrow> (\<exists>fs. builds f fs \<and> ascending fs)"

lemma in_label_orderI: "builds f fs \<Longrightarrow> ascending fs \<Longrightarrow> in_label_order f"
  by (auto simp: in_label_order_def)

lemmas ascending_simps = ascending_def plain_label_def

lemma ClientData_ordered: "json_laws J \<Longrightarrow> in_label_order (ClientData_Write J d)"
  by (rule in_label_orderI [OF ClientData_builds]) (simp_all add: ClientData_fields_def ascending_simps)

lemma PresenceInfo_ordered: "json_laws J \<Longrightarrow> in_label_order (PresenceInfo_Write J d)"
  by (rule in_label_orderI [OF PresenceInfo_builds]) (simp_all add: PresenceInfo_fields_def ascending_simps)

lemma IpAddress_ordered: "json_laws J \<Longrightarrow> in_label_order (IpAddress_Write J d)"
  by (rule in_label_orderI [OF IpAddress_builds]) (simp_all add: IpAddress_fields_def ascending_simps)

lemma HostNameAddress_ordered: "json_laws J \<Longrightarrow> in_label_order (HostNameAddress_Write J d)"
  by (rule in_label_orderI [OF HostNameAddress_builds]) (simp_all add: HostNameAddress_fields_def ascending_simps)

lemma IpPairAddress_ordered: "json_laws J \<Longrightarrow> in_label_order (IpPairAddress_Write J d)"
  by (rule in_label_orderI [OF IpPairAddress_builds]) (simp_all add: IpPairAddress_fields_def ascending_simps)

lemma UserOptions_ordered: "json_laws J \<Longrightarrow> in_label_order (UserOptions_Write J d)"
  by (rule in_label_orderI [OF UserOptions_builds]) (simp_all add: UserOptions_fields_def ascending_simps)

lemma TickerServer_ordered: "json_laws J \<Longrightarrow> in_label_order (TickerServer_Write J d)"
  by (rule in_label_orderI [OF TickerServer_builds]) (simp_all add: TickerServer_fields_def ascending_simps)

lemma TelemetryServer_ordered: "json_laws J \<Longrightarrow> in_label_order (TelemetryServer_Write J d)"
  by (rule in_label_orderI [OF TelemetryServer_builds]) (simp_all add: TelemetryServer_fields_def ascending_simps)

lemma PssConfig_ordered: "json_laws J \<Longrightarrow> in_label_order (PssConfig_Write J d)"
  by (rule in_label_orderI [OF PssConfig_builds]) (simp_all add: PssConfig_fields_def ascending_simps)

lemma NetworkQosData_ordered: "json_laws J \<Longrightarrow> in_label_order (NetworkQosData_Write J d)"
  by (rule in_label_orderI [OF NetworkQosData_builds]) (simp_all add: NetworkQosData_fields_def ascending_simps)

lemma QosPingSiteInfo_ordered: "json_laws J \<Longrightarrow> in_label_order (QosPingSiteInfo_Write J d)"
  by (rule in_label_orderI [OF QosPingSiteInfo_builds]) (simp_all add: QosPingSiteInfo_fields_def ascending_simps)

lemma QosConfigInfo_ordered: "json_laws J \<Longrightarrow> in_label_order (QosConfigInfo_Write J d)"
  by (rule in_label_orderI [OF QosConfigInfo_builds]) (simp_all add: QosConfigInfo_fields_def ascending_simps)

lemma UserSessionExtendedData_ordered: "json_laws J \<Longrightarrow> in_label_order (UserSessionExtendedData_Write J d)"
  by (rule in_label_orderI [OF UserSessionExtendedData_builds]) (simp_all add: UserSessionExtendedData_fields_def ascending_simps)

lemma HostInfo_ordered: "json_laws J \<Longrightarrow> in_label_order (HostInfo_Write J d)"
  by (rule in_label_orderI [OF HostInfo_builds]) (simp_all add: HostInfo_fields_def ascending_simps)

lemma PersonaDetails_ordered: "json_laws J \<Longrightarrow> in_label_order (PersonaDetails_Write J d)"
  by (rule in_label_orderI [OF PersonaDetails_builds]) (simp_all add: PersonaDetails_fields_def ascending_simps)

lemma SessionInfo_ordered: "json_laws J \<Longrightarrow> in_label_order (SessionInfo_Write J d)"
  by (rule in_label_orderI [OF SessionInfo_builds]) (simp_all add: SessionInfo_fields_def ascending_simps)

lemma ListIdentification_ordered: "json_laws J \<Longrightarrow> in_label_order (ListIdentification_Write J d)"
  by (rule in_label_orderI [OF ListIdentification_builds]) (simp_all add: ListIdentification_fields_def ascending_simps)

lemma ListInfo_ordered: "json_laws J \<Longrightarrow> in_label_order (ListInfo_Write J d)"
  by (rule in_label_orderI [OF ListInfo_builds]) (simp_all add: ListInfo_fields_def ascending_simps)

lemma ListMemberId_ordered: "json_laws J \<Longrightarrow> in_label_order (ListMemberId_Write J d)"
  by (rule in_label_orderI [OF ListMemberId_builds]) (simp_all add: ListMemberId_fields_def ascending_simps)

lemma ListMemberInfo_ordered: "json_laws J \<Longrightarrow> in_label_order (ListMemberInfo_Write J d)"
  by (rule in_label_orderI [OF ListMemberInfo_builds]) (simp_all add: ListMemberInfo_fields_def ascending_simps)

lemma ListMemberInfoUpdate_ordered: "json_laws J \<Longrightarrow> in_label_order (ListMemberInfoUpdate_Write J d)"
  by (rule in_label_orderI [OF ListMemberInfoUpdate_builds]) (simp_all add: ListMemberInfoUpdate_fields_def ascending_simps)

lemma ListMembers_ordered: "json_laws J \<Longrightarrow> in_label_order (ListMembers_Write J d)"
  by (rule in_label_orderI [OF ListMembers_builds]) (simp_all add: ListMembers_fields_def ascending_simps)

lemma ClientMessage_ordered: "json_laws J \<Longrightarrow> in_label_order (ClientMessage_Write J d)"
  by (rule in_label_orderI [OF ClientMessage_builds]) (simp_all add: ClientMessage_fields_def ascending_simps)

lemma ServerMessage_ordered: "json_laws J \<Longrightarrow> in_label_order (ServerMessage_Write J d)"
  by (rule in_label_orderI [OF ServerMessage_builds]) (simp_all add: ServerMessage_fields_def ascending_simps)

lemma UserIdentification_ordered: "json_laws J \<Longrightarrow> in_label_order (UserIdentification_Write J d)"
  by (rule in_label_orderI [OF UserIdentification_builds]) (simp_all add: UserIdentification_fields_def ascending_simps)

lemma UserData_ordered: "json_laws J \<Longrightarrow> in_label_order (UserData_Write J d)"
  by (rule in_label_orderI [OF UserData_builds]) (simp_all add: UserData_fields_def ascending_simps)

lemma PlaygroupInfo_ordered: "json_laws J \<Longrightarrow> in_label_order (PlaygroupInfo_Write J d)"
  by (rule in_label_orderI [OF PlaygroupInfo_builds]) (simp_all add: PlaygroupInfo_fields_def ascending_simps)

lemma PlaygroupMemberInfo_ordered: "json_laws J \<Longrightarrow> in_label_order (PlaygroupMemberInfo_Write J d)"
  by (rule in_label_orderI [OF PlaygroupMemberInfo_builds]) (simp_all add: PlaygroupMemberInfo_fields_def ascending_simps)

lemma PlayerConnectionStatus_ordered: "json_laws J \<Longrightarrow> in_label_order (PlayerConnectionStatus_Write J d)"
  by (rule in_label_orderI [OF PlayerConnectionStatus_builds]) (simp_all add: PlayerConnectionStatus_fields_def ascending_simps)

lemma ReplicatedGamePlayer_ordered: "json_laws J \<Longrightarrow> in_label_order (ReplicatedGamePlayer_Write J d)"
  by (rule in_label_orderI [OF ReplicatedGamePlayer_builds]) (simp_all add: ReplicatedGamePlayer_fields_def ascending_simps)

lemma ReplicatedGameData_ordered: "json_laws J \<Longrightarrow> in_label_order (ReplicatedGameData_Write J d)"
  by (rule in_label_orderI [OF ReplicatedGameData_builds]) (simp_all add: ReplicatedGameData_fields_def ascending_simps)

lemma UserDetails_ordered: "json_laws J \<Longrightarrow> in_label_order (UserDetails_Write J d)"
  by (rule in_label_orderI [OF UserDetails_builds]) (simp_all add: UserDetails_fields_def ascending_simps)

lemma PasswordRulesInfo_ordered: "json_laws J \<Longrightarrow> in_label_order (PasswordRulesInfo_Write J d)"
  by (rule in_label_orderI [OF PasswordRulesInfo_builds]) (simp_all add: PasswordRulesInfo_fields_def ascending_simps)

lemma RoomMemberData_ordered: "json_laws J \<Longrightarrow> in_label_order (RoomMemberData_Write J d)"
  by (rule in_label_orderI [OF RoomMemberData_builds]) (simp_all add: RoomMemberData_fields_def ascending_simps)

lemma CreateGameRequest_ordered: "json_laws J \<Longrightarrow> in_label_order (CreateGameRequest_Write J d)"
  by (rule in_label_orderI [OF CreateGameRequest_builds]) (simp_all add: CreateGameRequest_fields_def ascending_simps)

lemmas message_ordered =
  ClientData_ordered
  PresenceInfo_ordered
  IpAddress_ordered
  HostNameAddress_ordered
  IpPairAddress_ordered
  UserOptions_ordered
  TickerServer_ordered
  TelemetryServer_ordered
  PssConfig_ordered
  NetworkQosData_ordered
  QosPingSiteInfo_ordered
  QosConfigInfo_ordered
  UserSessionExtendedData_ordered
  HostInfo_ordered
  PersonaDetails_ordered
  SessionInfo_ordered
  ListIdentification_ordered
  ListInfo_ordered
  ListMemberId_ordered
  ListMemberInfo_ordered
  ListMemberInfoUpdate_ordered
  ListMembers_ordered
  ClientMessage_ordered
  ServerMessage_ordered
  UserIdentification_ordered
  UserData_ordered
  PlaygroupInfo_ordered
  PlaygroupMemberInfo_ordered
  PlayerConnectionStatus_ordered
  ReplicatedGamePlayer_ordered
  ReplicatedGameData_ordered
  UserDetails_ordered
  PasswordRulesInfo_ordered
  RoomMemberData_ordered
  CreateGameRequest_ordered

text \<open>
  Every message writer succeeds on an open packet and adds fields whose labels are plain (at
  most four capital letters, so that they survive the compression) and strictly increasing, the
  order Blaze decoders expect of a structure.
\<close>

lemma messages_in_label_order:
  assumes "json_laws J"
  shows "in_label_order (ClientData_Write J x0) \<and>
    in_label_order (PresenceInfo_Write J x1) \<and>
    in_label_order (IpAddress_Write J x2) \<and>
    in_label_order (HostNameAddress_Write J x3) \<and>
    in_label_order (IpPairAddress_Write J x4) \<and>
    in_label_order (UserOptions_Write J x5) \<and>
    in_label_order (TickerServer_Write J x6) \<and>
    in_label_order (TelemetryServer_Write J x7) \<and>
    in_label_order (PssConfig_Write J x8) \<and>
    in_label_order (NetworkQosData_Write J x9) \<and>
    in_label_order (QosPingSiteInfo_Write J x10) \<and>
    in_label_order (QosConfigInfo_Write J x11) \<and>
    in_label_order (UserSessionExtendedData_Write J x12) \<and>
    in_label_order (HostInfo_Write J x13) \<and>
    in_label_order (PersonaDetails_Write J x14) \<and>
    in_label_order (SessionInfo_Write J x15) \<and>
    in_label_order (ListIdentification_Write J x16) \<and>
    in_label_order (ListInfo_Write J x17) \<and>
    in_label_order (ListMemberId_Write J x18) \<and>
    in_label_order (ListMemberInfo_Write J x19) \<and>
    in_label_order (ListMemberInfoUpdate_Write J x20) \<and>
    in_label_order (ListMembers_Write J x21) \<and>
    in_label_order (ClientMessage_Write J x22) \<and>
    in_label_order (ServerMessage_Write J x23) \<and>
    in_label_order (UserIdentification_Write J x24) \<and>
    in_label_order (UserData_Write J x25) \<and>
    in_label_order (PlaygroupInfo_Write J x26) \<and>
    in_label_order (PlaygroupMemberInfo_Write J x27) \<and>
    in_label_order (PlayerConnectionStatus_Write J x28) \<and>
    in_label_order (ReplicatedGamePlayer_Write J x29) \<and>
    in_label_order (ReplicatedGameData_Write J x30) \<and>
    in_label_order (UserDetails_Write J x31) \<and>
    in_label_order (PasswordRulesInfo_Write J x32) \<and>
    in_label_order (RoomMemberData_Write J x33) \<and>
    in_label_order (CreateGameRequest_Write J x34)"
  by (intro conjI message_ordered assms)

subsection \<open>What survives\<close>

text \<open>
  C2: A message of one of thirteen classes (\<open>ClientData\<close>, \<open>PresenceInfo\<close>, \<open>IpAddress\<close>,
  \<open>HostNameAddress\<close>, \<open>IpPairAddress\<close>, \<open>PersonaDetails\<close>, \<open>ListIdentification\<close>, \<open>ListInfo\<close>, \<open>ListMemberId\<close>,
  \<open>UserIdentification\<close>, \<open>PlayerConnectionStatus\<close>, \<open>PasswordRulesInfo\<close>, \<open>RoomMemberData\<close>) that a peer writes into a
  packet and serialises arrives: parsing the bytes and reading the document gives the same object
  back, whatever the receiving object held (but for attributes and lists, which are added to).  This
  needs strings without NUL, enumerators that are not negative and 64-bit numbers of at most 55 bits.
\<close>

theorem messages_survive_the_wire:
  assumes "json_laws J"
  shows "(ClientData_valid x1 \<longrightarrow> survives J (ClientData_Write J x1) (\<lambda>v. ClientData_Read J v y1) x1) \<and>
    (PresenceInfo_valid x2 \<longrightarrow> survives J (PresenceInfo_Write J x2) (\<lambda>v. PresenceInfo_Read J v y2) x2) \<and>
    survives J (IpAddress_Write J x3) (\<lambda>v. IpAddress_Read J v y3) x3 \<and>
    (HostNameAddress_valid x4 \<longrightarrow> survives J (HostNameAddress_Write J x4) (\<lambda>v. HostNameAddress_Read J v y4) x4) \<and>
    survives J (IpPairAddress_Write J x5) (\<lambda>v. IpPairAddress_Read J v y5) x5 \<and>
    (PersonaDetails_valid x6 \<longrightarrow> survives J (PersonaDetails_Write J x6) (\<lambda>v. PersonaDetails_Read J v y6) x6) \<and>
    (ListIdentification_valid x7 \<longrightarrow>
      survives J (ListIdentification_Write J x7) (\<lambda>v. ListIdentification_Read J v y7) x7) \<and>
    (ListInfo_valid x8 \<longrightarrow> survives J (ListInfo_Write J x8) (\<lambda>v. ListInfo_Read J v y8) x8) \<and>
    (ListMemberId_valid x9 \<longrightarrow> survives J (ListMemberId_Write J x9) (\<lambda>v. ListMemberId_Read J v y9) x9) \<and>
    (UserIdentification_valid x10 \<longrightarrow>
      survives J (UserIdentification_Write J x10) (\<lambda>v. UserIdentification_Read J v y10) x10) \<and>
    (PlayerConnectionStatus_valid x11 \<longrightarrow>
      survives J (PlayerConnectionStatus_Write J x11) (\<lambda>v. PlayerConnectionStatus_Read J v y11) x11) \<and>
    (PasswordRulesInfo_valid x12 \<longrightarrow>
      survives J (PasswordRulesInfo_Write J x12) (\<lambda>v. PasswordRulesInfo_Read J v y12) x12) \<and>
    (RoomMemberData_valid x13 \<longrightarrow>
      survives J (RoomMemberData_Write J x13) (\<lambda>v. RoomMemberData_Read J v y13) x13)"
  by (intro conjI impI client_data.message_survives presence_info.message_survives ip_address.message_survives
      host_name_address.message_survives ip_pair_address.message_survives persona_details.message_survives
      list_identification.message_survives list_info.message_survives list_member_id.message_survives
      user_identification.message_survives player_connection_status.message_survives
      password_rules_info.message_survives room_member_data.message_survives assms TrueI)

theorem messages_survive_the_wire_witness:
  "survives std_json
     (PersonaDetails_Write std_json \<lparr>PersonaDetails_name = ''DS'', PersonaDetails_id = 7, PersonaDetails_last = 0,
        PersonaDetails_status = 2, PersonaDetails_externalReference = 0, PersonaDetails_externalReferenceType = 0\<rparr>)
     (\<lambda>v. PersonaDetails_Read std_json v \<lparr>PersonaDetails_name = [], PersonaDetails_id = 0, PersonaDetails_last = 1,
        PersonaDetails_status = 0, PersonaDetails_externalReference = 9, PersonaDetails_externalReferenceType = 9\<rparr>)
     \<lparr>PersonaDetails_name = ''DS'', PersonaDetails_id = 7, PersonaDetails_last = 0,
        PersonaDetails_status = 2, PersonaDetails_externalReference = 0, PersonaDetails_externalReferenceType = 0\<rparr>"
  by (rule messages_survive_the_wire [OF std_json_laws, THEN conjunct2, THEN conjunct2, THEN conjunct2,
        THEN conjunct2, THEN conjunct2, THEN conjunct1, THEN mp])
    (simp add: PersonaDetails_valid_def text_ok_def no_nul_def enum_ok_def)

text \<open>
  C24: Chat messages and account details arrive with their maps and lists: the attributes of a
  client message keep their integer keys through the decimal labels of the document, in order,
  and the list of personas keeps its order.  The receiving object starts without attributes or
  personas, the counts fit one byte and the list of personas is not empty.
\<close>

theorem collections_survive_the_wire:
  assumes "json_laws J"
  shows "(ClientMessage_valid x \<and> ClientMessage_attributes x0 = [] \<longrightarrow>
      survives J (ClientMessage_Write J x) (\<lambda>v. ClientMessage_Read J v x0) x) \<and>
    (UserDetails_valid y \<and> UserDetails_personaDetailsList y0 = [] \<longrightarrow>
      survives J (UserDetails_Write J y) (\<lambda>v. UserDetails_Read blank J v y0) y)"
  using client_message.message_survives [OF assms] user_details.message_survives [OF assms] by blast

theorem collections_survive_the_wire_witness:
  "survives std_json
     (ClientMessage_Write std_json \<lparr>ClientMessage_attributes = [(1, ''hi''), (65281, ''x'')],
        ClientMessage_target = (1, 2, 3), ClientMessage_flags = 0, ClientMessage_stat = 0, ClientMessage_tag = 4,
        ClientMessage_type = 5\<rparr>)
     (\<lambda>v. ClientMessage_Read std_json v \<lparr>ClientMessage_attributes = [], ClientMessage_target = (0, 0, 0),
        ClientMessage_flags = 1, ClientMessage_stat = 1, ClientMessage_tag = 1, ClientMessage_type = 1\<rparr>)
     \<lparr>ClientMessage_attributes = [(1, ''hi''), (65281, ''x'')],
        ClientMessage_target = (1, 2, 3), ClientMessage_flags = 0, ClientMessage_stat = 0, ClientMessage_tag = 4,
        ClientMessage_type = 5\<rparr>"
  by (rule collections_survive_the_wire [OF std_json_laws, THEN conjunct1, THEN mp])
    (simp add: ClientMessage_valid_def text_ok_def no_nul_def)

subsection \<open>What does not survive\<close>

text \<open>What a statement in the middle sets is final when the statements after it leave it alone.\<close>

lemma each_nth:
  assumes "each (\<lambda>f. f) fs d0 = Some d" and "i < length fs" and "list_all (keeps g) (drop (Suc i) fs)"
  shows "\<exists>e e'. (fs ! i) e = Some e' \<and> g d = g e'"
proof -
  have "fs = take i fs @ fs ! i # drop (Suc i) fs" using assms(2) by (rule id_take_nth_drop)
  with assms(1) have "each (\<lambda>f. f) (take i fs @ fs ! i # drop (Suc i) fs) d0 = Some d" by simp
  then obtain e e' where "(fs ! i) e = Some e'" "each (\<lambda>f. f) (drop (Suc i) fs) e' = Some d"
    by (auto simp: each_append split: bind_splits)
  moreover have "keeps g (each (\<lambda>f. f) (drop (Suc i) fs))" using assms(3) by (intro keeps_each) (simp add: list_all_iff)
  ultimately show ?thesis by (auto simp: keeps_def)
qed

lemma keeps_bind: "(\<And>v. keeps g (f v)) \<Longrightarrow> keeps g (\<lambda>d. Option.bind m (\<lambda>v. f v d))"
  by (cases m) (simp_all add: keeps_def)

lemma each_None: "x \<in> set xs \<Longrightarrow> (\<And>d. f x d = None) \<Longrightarrow> each f xs d = None"
  by (induction xs arbitrary: d) (auto split: bind_splits)

lemma resetable_read:
  assumes J: "json_laws J" and v: "map_of ms ''NRES'' = Some (JUint n)" "n < 2"
    and r: "CreateGameRequest_Read J (JObject ms) d0 = Some d"
  shows "CreateGameRequest_resetable d \<longleftrightarrow> n \<noteq> 0"
proof -
  have "unat n < 2" using v(2) by (simp add: word_less_nat_alt)
  then have "ucast n = (0 :: u32) \<longleftrightarrow> n = 0" "n < 2 ^ 32"
    by (auto simp: word_eq_iff_unsigned [where 'a = nat] unsigned_ucast_eq take_bit_nat_eq_self word_less_nat_alt)
  then have n: "assign (get_uint J (JObject ms) ''NRES'') (\<lambda>n d. d\<lparr>CreateGameRequest_resetable := (n \<noteq> 0)\<rparr>) e = Some e' \<Longrightarrow>
      CreateGameRequest_resetable e' \<longleftrightarrow> n \<noteq> 0" for e e' :: CreateGameRequest
    using J v by (auto simp: get_uint_def member_laws GetUint_def assign_def)
  have "\<exists>(e :: CreateGameRequest) e'. assign (get_uint J (JObject ms) ''NRES'') (\<lambda>n d. d\<lparr>CreateGameRequest_resetable := (n \<noteq> 0)\<rparr>) e = Some e' \<and>
      CreateGameRequest_resetable d = CreateGameRequest_resetable e'"
    by (rule each_nth [OF r [unfolded CreateGameRequest_Read_def if_object.simps], of 12
          CreateGameRequest_resetable, simplified])
      (intro conjI keeps_rules keeps_bind; simp)
  with n show ?thesis by blast
qed

lemma in_NRES: "(''NRES'', v) \<in> set (CreateGameRequest_fields d) \<Longrightarrow>
    v = V_Integer (if CreateGameRequest_resetable d then 0 else 1)"
  by (simp add: CreateGameRequest_fields_def)

text \<open>
  A game request's \<open>resetable\<close> flag does not survive: \<open>Write\<close> sends \<open>NRES\<close> as "not resetable",
  \<open>Read\<close> takes it as "resetable", so whatever else the document holds, the flag that is read is
  the opposite of the flag that was written.
\<close>

lemma resetable_inverted:
  assumes "json_laws J" and "(''NRES'', v) \<in> set (CreateGameRequest_fields d)"
    and "map_of ms ''NRES'' = Some (parsed v)" and "CreateGameRequest_Read J (JObject ms) d0 = Some d'"
  shows "builds (CreateGameRequest_Write J d) (CreateGameRequest_fields d) \<and>
    (CreateGameRequest_resetable d' \<longleftrightarrow> \<not> CreateGameRequest_resetable d)"
proof -
  let ?n = "if CreateGameRequest_resetable d then 0 else 1 :: u64"
  have "CreateGameRequest_resetable d' \<longleftrightarrow> ?n \<noteq> 0"
    using in_NRES [OF assms(2)] assms(3) by (intro resetable_read [OF assms(1) _ _ assms(4)]) simp_all
  then show ?thesis using CreateGameRequest_builds [OF assms(1)] by simp
qed

definition sample_request :: "(string \<times> jval) list" where
  "sample_request =
     [(''ATTR'', JObject [(''_Content'', JObject [])]), (''BTPL'', JObject [(''_X'', JUint 0), (''_Y'', JUint 0), (''_Z'', JUint 0)]),
      (''GCTR'', JString []), (''GNAM'', JString ''g''), (''GSET'', JUint 1), (''GTYP'', JString []), (''GURL'', JString []),
      (''HNET'', JObject [(''_Content'', JArray [JNull, JNull])]), (''IGNO'', JUint 0), (''NRES'', JUint 1), (''NTOP'', JUint 0),
      (''PCAP'', JObject [(''_Content'', JArray [JUint 4])]), (''PGID'', JString []), (''PGSC'', JString []), (''PMAX'', JUint 4),
      (''PRES'', JUint 1), (''QCAP'', JUint 0), (''RGID'', JUint 0), (''SLOT'', JUint 0), (''TCAP'', JUint 0), (''TIDX'', JUint 0),
      (''VSTR'', JString [])]"

lemma sample_request_reads: "CreateGameRequest_Read std_json (JObject sample_request) d0 \<noteq> None"
  by (simp add: CreateGameRequest_Read_def sample_request_def member_laws [OF std_json_laws] get_defs assign_def
      over_array_def over_object_def CreateGameRequest_ReadHost_def IpAddress_Read_def GetUint_def)

definition sample_game :: "bool \<Rightarrow> CreateGameRequest" where
  "sample_game r = \<lparr>CreateGameRequest_attributes = [], CreateGameRequest_playerAttributes = [],
     CreateGameRequest_criteria = [], CreateGameRequest_matr = [], CreateGameRequest_administrators = [],
     CreateGameRequest_seat = [], CreateGameRequest_sidl = [], CreateGameRequest_capacity = [4],
     CreateGameRequest_tids = [], CreateGameRequest_name = ''g'', CreateGameRequest_type = [],
     CreateGameRequest_playgroupId = [], CreateGameRequest_playgroupSc = [], CreateGameRequest_version = [],
     CreateGameRequest_ctr = [], CreateGameRequest_url = [],
     CreateGameRequest_hostNetwork = \<lparr>IpPairAddress_exip = \<lparr>IpAddress_address = 1, IpAddress_port = 2\<rparr>,
       IpPairAddress_inip = \<lparr>IpAddress_address = 1, IpAddress_port = 2\<rparr>\<rparr>,
     CreateGameRequest_btpl = (0, 0, 0), CreateGameRequest_rgid = 0, CreateGameRequest_settings = 1,
     CreateGameRequest_slot = 0, CreateGameRequest_maxPlayers = 4, CreateGameRequest_queueCapacity = 0,
     CreateGameRequest_tcap = 0, CreateGameRequest_tIndex = 0, CreateGameRequest_networkTopology = 0,
     CreateGameRequest_presence = 1, CreateGameRequest_ignore = False, CreateGameRequest_resetable = r\<rparr>"

lemma short_host_list:
  assumes "json_laws J" and "map_of ms ''HNET'' = Some v" and "subscript J v ''_Content'' = Some (JArray vs)"
    and "length vs < 2"
  shows "CreateGameRequest_Read J (JObject ms) d0 = None"
  unfolding CreateGameRequest_Read_def if_object.simps
proof (rule each_None [where x = "CreateGameRequest_ReadHost J (JObject ms)"])
  show "CreateGameRequest_ReadHost J (JObject ms) d = None" for d
    using assms by (auto simp: CreateGameRequest_ReadHost_def member_laws split: bind_splits)
qed simp

text \<open>
  The server cannot read the game requests it writes: \<open>Write\<close> puts one structure with both
  addresses into the list \<open>HNET\<close>, \<open>Read\<close> takes the internal address from its first entry and the
  external one from a second entry, and the access to that entry fails.
\<close>

lemma own_request_unreadable:
  assumes "json_laws J" and "(''HNET'', v) \<in> set (CreateGameRequest_fields d)"
    and "map_of ms ''HNET'' = Some (parsed v)"
  shows "builds (CreateGameRequest_Write J d) (CreateGameRequest_fields d) \<and>
    CreateGameRequest_Read J (JObject ms) d0 = None"
proof -
  have v: "v = V_List T_Struct True [V_Struct (IpPairAddress_fields (CreateGameRequest_hostNetwork d))]"
    using assms(2) by (simp add: CreateGameRequest_fields_def)
  have "CreateGameRequest_Read J (JObject ms) d0 = None"
    by (rule short_host_list [OF assms(1,3)]) (simp add: v member_laws [OF assms(1)], simp)
  then show ?thesis using CreateGameRequest_builds [OF assms(1)] by blast
qed

lemma set_put_member: "fst ` set (put_member k v ms) \<subseteq> insert k (fst ` set ms)"
proof -
  have "fst ` set (ms[i := (fst (ms ! i), v)]) \<subseteq> fst ` set ms" if "i < length ms" for i
    using that set_update_subset_insert [of ms i "(fst (ms ! i), v)"] nth_mem [OF that] by fastforce
  then show ?thesis by (auto simp: put_member_def Let_def)
qed

lemma parsed_struct_members:
  "\<exists>ms. parsed (V_Struct fs) = JObject ms \<and> fst ` set ms \<subseteq> insert ''_Type'' (wire_label ` fst ` set fs)"
proof -
  have "fst ` set (fold (\<lambda>(l, v). put_member (wire_label l) v) xs ms) \<subseteq> wire_label ` fst ` set xs \<union> fst ` set ms"
    for xs :: "(string \<times> jval) list" and ms
  proof (induction xs arbitrary: ms)
    case (Cons x xs)
    obtain l v where "x = (l, v)" by (cases x)
    moreover have "X \<subseteq> P \<union> Q \<Longrightarrow> Q \<subseteq> insert k R \<Longrightarrow> X \<subseteq> insert k (P \<union> R)" for X P Q R :: "string set" and k
      by blast
    note this [OF Cons.IH [of "put_member (wire_label l) v ms"] set_put_member]
    ultimately show ?case by simp
  qed simp
  from this [of "map (\<lambda>(l, v). (l, parsed v)) fs" "[(''_Type'', JType T_Struct)]"]
  show ?thesis by (simp add: parsed.simps(7) image_image case_prod_unfold)
qed

text \<open>
  The user data of a parsed message cannot be read: \<open>UserData::Read\<close> looks for the members of
  \<open>EDAT\<close> and \<open>USER\<close> under \<open>_Content\<close>, where the builder keeps them, but the parser puts the
  members of a structure directly into its object, whatever they are; the access fails.
\<close>

lemma user_data_unreadable:
  assumes "json_laws J" and "map_of ms ''EDAT'' = Some (parsed (V_Struct fs)) \<or> map_of ms ''USER'' = Some (parsed (V_Struct fs))"
  shows "UserData_Read J (JObject ms) d = None"
proof -
  obtain ns where ns: "parsed (V_Struct fs) = JObject ns" "fst ` set ns \<subseteq> insert ''_Type'' (wire_label ` fst ` set fs)"
    using parsed_struct_members by blast
  have "wire_label l \<noteq> ''_Content''" for l
  proof
    assume "wire_label l = ''_Content''"
    then have "length (wire_label l) = 8" by simp
    then show False by (simp add: wire_label_def)
  qed
  then have "''_Content'' \<notin> fst ` set ns" using ns(2) by auto
  then have "subscript J (parsed (V_Struct fs)) ''_Content'' = None"
    by (simp add: ns(1) member_laws [OF assms(1)] map_of_eq_None_iff)
  with assms show ?thesis
    by (auto simp: UserData_Read_def member_laws split: bind_splits option.splits)
qed

lemma write_field_fails:
  assumes J: "json_laws J" and "builds f fs" and "(l, v) \<in> set fs"
    and fails: "\<And>name b. WriteType J (type_code (tag v)) name (json_of v) b = None"
  shows "do { p \<leftarrow> f Packet_new; Packet_Write J p b } = None"
proof -
  have "pkt_open Packet_new" by (simp add: pkt_open_def Packet_new_def)
  with assms(2) have f: "f Packet_new = Some (TDFPacket.extend (fields_json fs) Packet_new)"
    by (simp add: builds_def adds_def)
  have "mDocument (TDFPacket.extend (fields_json fs) Packet_new) = JObject (fields_json fs)"
    by (simp add: TDFPacket.extend_def Packet_new_def)
  moreover have "each (\<lambda>(k, w). Write J (Some k) w) (fields_json fs) b = None"
  proof (rule each_None)
    show "(l, json_of v) \<in> set (fields_json fs)" using assms(3) by (force simp: fields_json_def)
  qed (use fails in \<open>simp add: Write_json_of [OF J]\<close>)
  ultimately show ?thesis by (simp add: f Packet_Write_def)
qed

lemma list_element_fails:
  assumes J: "json_laws J" and "w \<in> set ws" and "length ws < 256"
    and "\<And>b. WriteType J (type_code t) None (json_of w) b = None"
  shows "WriteType J (type_code T_List) name (json_of (V_List t False ws)) b = None"
proof -
  have k: "unat (of_nat (length ws) :: u8) = length ws" using assms(3) by (simp add: unat_of_nat)
  have "each (WriteType J (type_code t) None) (map json_of ws) b = None" for b
    by (rule each_None [where x = "json_of w"]) (use assms in auto)
  then show ?thesis
    using J k by (simp add: WriteType.simps [of _ "type_code T_List"] subscript_object Let_def)
qed

text \<open>
  A configuration of the push service with an object id that does not start with a number
  cannot be sent: the list \<open>OIDS\<close> is announced as integers but gets strings, and the serialiser
  converts each with \<open>std::stoull\<close>, which throws.
\<close>

lemma pss_config_unsendable:
  assumes "json_laws J" and "oid \<in> set (PssConfig_oids d)" and "stoull (c_str oid) = None"
    and "length (PssConfig_oids d) < 256"
  shows "do { p \<leftarrow> PssConfig_Write J d Packet_new; Packet_Write J p b } = None"
proof (rule write_field_fails [OF assms(1) PssConfig_builds [OF assms(1)]])
  show "(''OIDS'', V_List T_Integer False (map V_String (PssConfig_oids d))) \<in> set (PssConfig_fields d)"
    by (simp add: PssConfig_fields_def)
  have "WriteType J (type_code T_Integer) None (json_of (V_String oid)) b = None" for b
    using assms(3) by (simp add: WriteType.simps [of _ "type_code T_Integer"] WriteScalar_def)
  then show "WriteType J (type_code (tag (V_List T_Integer False (map V_String (PssConfig_oids d))))) name
      (json_of (V_List T_Integer False (map V_String (PssConfig_oids d)))) b = None" for name b
    using list_element_fails [OF assms(1), of "V_String oid" "map V_String (PssConfig_oids d)" T_Integer] assms(2,4)
    by (simp del: json_of.simps)
qed

subsection \<open>A game on the wire\<close>

definition entries_ok :: "(string \<times> string) list \<Rightarrow> bool" where
  "entries_ok m \<longleftrightarrow> (\<forall>(k, s) \<in> set m. no_nul k \<and> no_nul s)"

text \<open>
  A replicated game with strings without NUL is serialised to exactly the bytes of its
  fields in the format, appended to whatever the buffer holds: the lists and maps with their one
  byte counts, the host's addresses as a stub list, the two host records and the network
  quality as structures.
\<close>

lemma game_data_on_the_wire:
  assumes "json_laws J" and "entries_ok (ReplicatedGameData_attributes d)" "entries_ok (ReplicatedGameData_criteria d)"
    and "\<forall>s \<in> {ReplicatedGameData_name d, ReplicatedGameData_type d, ReplicatedGameData_playgroupId d,
      ReplicatedGameData_psas d, ReplicatedGameData_uuid d, ReplicatedGameData_version d}. no_nul s"
  shows "buf.emits (\<lambda>b. do { p \<leftarrow> ReplicatedGameData_Write J d Packet_new; Packet_Write J p b })
    (fields_bytes (ReplicatedGameData_fields d))"
proof (rule packet_write_emits [OF assms(1) ReplicatedGameData_builds [OF assms(1)]])
  have "no_nul l" if "(l, v) \<in> set (ReplicatedGameData_fields d)" for l v
    using that by (auto simp: ReplicatedGameData_fields_def no_nul_def)
  moreover have "list_all (\<lambda>(l, v). writable v) (ReplicatedGameData_fields d)"
    using assms(2-4) by (auto simp: ReplicatedGameData_fields_def IpPairAddress_fields_def IpAddress_fields_def
        NetworkQosData_fields_def HostInfo_fields_def entries_ok_def no_nul_def)
  ultimately show "no_nul l \<and> writable v" if "(l, v) \<in> set (ReplicatedGameData_fields d)" for l v
    using that by (auto simp: list_all_iff)
qed

end
