(* ===== verification/Xml.thy ===== *)
theory Xml
  imports Text "HOL-Library.Monad_Syntax"
begin

text \<open>
  XML documents.  The tree of the third-party library pugixml is the data type \<open>xnode\<close>; the
  operations the sources call are the record \<open>xmllib\<close>, a parameter, with their documented
  behaviour as \<open>xml_laws\<close>.  A node that code appends and then fills through its handle is built
  first and appended after.  The text nodes are \<open>xml_add_text_node\<close> and \<open>xml_get_text_node\<close> of
  \<open>source/Core/Utils/Functions.{h,cpp}\<close>.
\<close>

datatype xnode =
    XElement string "(string \<times> string) list" "xnode list"
  | XText string

record xmllib =
  xml_element :: "string \<Rightarrow> xnode"
  xml_pcdata :: "string \<Rightarrow> xnode"
  xml_append :: "xnode \<Rightarrow> xnode \<Rightarrow> xnode"
  xml_set_attribute :: "xnode \<Rightarrow> string \<Rightarrow> string \<Rightarrow> xnode"
  xml_name :: "xnode \<Rightarrow> string"
  xml_child :: "xnode \<Rightarrow> string \<Rightarrow> xnode option"
  xml_children :: "xnode \<Rightarrow> xnode list"
  xml_text :: "xnode \<Rightarrow> string"
  xml_attribute :: "xnode \<Rightarrow> string \<Rightarrow> string"
  xml_as_uint :: "string \<Rightarrow> u32"
  xml_remove_child :: "xnode \<Rightarrow> string \<Rightarrow> xnode"
  xml_written :: "xnode \<Rightarrow> xnode"

fun named :: "string \<Rightarrow> xnode \<Rightarrow> bool" where
  "named k (XElement n as cs) \<longleftrightarrow> n = k"
| "named k (XText s) \<longleftrightarrow> False"

fun first_text :: "xnode list \<Rightarrow> string" where
  "first_text [] = []"
| "first_text (XText s # cs) = s"
| "first_text (XElement n as ds # cs) = first_text cs"

fun remove_named :: "string \<Rightarrow> xnode list \<Rightarrow> xnode list" where
  "remove_named k [] = []"
| "remove_named k (c # cs) = (if named k c then cs else c # remove_named k cs)"

subsection \<open>Documents in files\<close>

text \<open>
  \<open>xml_written\<close> is the document that \<open>load_file\<close> with its default flags parses from the file that
  \<open>save_file\<close> writes with tabs and in Latin-1.  Its behaviour is stated for plain documents: the
  elements have names of letters, digits and underscores, attributes of printable ASCII characters,
  and either one text of printable ASCII characters, tabs and line ends, or elements only.  Then the
  parser drops the texts that are empty or white space (\<open>parse_ws_pcdata\<close> is not a default), and makes
  every line end a line feed (\<open>parse_eol\<close> is).
\<close>

definition blank :: "string \<Rightarrow> bool" where
  "blank s \<longleftrightarrow> (\<forall>c \<in> set s. c \<in> {CHR '' '', CHR 0x09, CHR 0x0A, CHR 0x0D})"

fun eol :: "string \<Rightarrow> string" where
  "eol [] = []"
| "eol (c # s) =
     (if c = CHR 0x0D then CHR 0x0A # eol (if take 1 s = [CHR 0x0A] then drop 1 s else s) else c # eol s)"

fun blank_node :: "xnode \<Rightarrow> bool" where
  "blank_node (XText s) \<longleftrightarrow> blank s"
| "blank_node (XElement n as cs) \<longleftrightarrow> False"

primrec again :: "xnode \<Rightarrow> xnode" where
  "again (XElement n as cs) = XElement n as (filter (\<lambda>c. \<not> blank_node c) (map again cs))"
| "again (XText s) = XText (eol s)"

definition printable :: "string \<Rightarrow> bool" where
  "printable s \<longleftrightarrow> (\<forall>c \<in> set s. 32 \<le> (of_char c :: nat) \<and> (of_char c :: nat) \<le> 126)"

definition plain_text :: "string \<Rightarrow> bool" where
  "plain_text s \<longleftrightarrow>
     (\<forall>c \<in> set s. c \<in> {CHR 0x09, CHR 0x0A, CHR 0x0D} \<or> 32 \<le> (of_char c :: nat) \<and> (of_char c :: nat) \<le> 126)"

definition plain_name :: "string \<Rightarrow> bool" where
  "plain_name s \<longleftrightarrow> s \<noteq> [] \<and> (\<forall>c \<in> set s. digit_value c < 36 \<or> c = CHR ''_'') \<and> \<not> digit_value (hd s) < 10"

fun plain_node :: "xnode \<Rightarrow> bool" where
  "plain_node (XElement n as cs) \<longleftrightarrow>
     plain_name n \<and> (\<forall>(k, v) \<in> set as. plain_name k \<and> printable v) \<and>
     ((case cs of [XText s] \<Rightarrow> plain_text s | _ \<Rightarrow> False) \<or> (\<forall>c \<in> set cs. plain_node c))"
| "plain_node (XText s) \<longleftrightarrow> False"

subsection \<open>The library\<close>

text \<open>
  \<open>child\<close> is the first element of that name, \<open>text().get()\<close> the first text child, both empty on a
  null node; attributes that do not exist read as the empty string.  \<open>as_uint\<close>
  reads the decimal text that \<open>set_value\<close> writes for a number; \<open>remove_child\<close> removes the first
  element of that name.
\<close>

definition xml_laws :: "xmllib \<Rightarrow> bool" where
  "xml_laws X \<longleftrightarrow>
     (\<forall>n. xml_element X n = XElement n [] []) \<and>
     (\<forall>s. xml_pcdata X s = XText s) \<and>
     (\<forall>n as cs c. xml_append X (XElement n as cs) c = XElement n as (cs @ [c])) \<and>
     (\<forall>n as cs k v. xml_set_attribute X (XElement n as cs) k v = XElement n (as @ [(k, v)]) cs) \<and>
     (\<forall>n as cs. xml_name X (XElement n as cs) = n) \<and>
     (\<forall>n as cs k. xml_child X (XElement n as cs) k = find (named k) cs) \<and>
     (\<forall>n as cs. xml_children X (XElement n as cs) = cs) \<and>
     (\<forall>n as cs. xml_text X (XElement n as cs) = first_text cs) \<and>
     (\<forall>n as cs k. xml_attribute X (XElement n as cs) k = (case map_of as k of None \<Rightarrow> [] | Some v \<Rightarrow> v)) \<and>
     (\<forall>w. xml_as_uint X (decimal (unat w)) = w) \<and>
     (\<forall>n as cs k. xml_remove_child X (XElement n as cs) k = XElement n as (remove_named k cs)) \<and>
     (\<forall>cs. (\<forall>c \<in> set cs. plain_node c) \<longrightarrow> xml_written X (XElement [] [] cs) = again (XElement [] [] cs))"

definition std_xml :: xmllib where
  "std_xml =
     \<lparr>xml_element = (\<lambda>n. XElement n [] []), xml_pcdata = XText,
      xml_append = (\<lambda>v c. case v of XElement n as cs \<Rightarrow> XElement n as (cs @ [c]) | XText s \<Rightarrow> XText s),
      xml_set_attribute = (\<lambda>v k w. case v of XElement n as cs \<Rightarrow> XElement n (as @ [(k, w)]) cs | XText s \<Rightarrow> XText s),
      xml_name = (\<lambda>v. case v of XElement n as cs \<Rightarrow> n | XText s \<Rightarrow> []),
      xml_child = (\<lambda>v k. case v of XElement n as cs \<Rightarrow> find (named k) cs | XText s \<Rightarrow> None),
      xml_children = (\<lambda>v. case v of XElement n as cs \<Rightarrow> cs | XText s \<Rightarrow> []),
      xml_text = (\<lambda>v. case v of XElement n as cs \<Rightarrow> first_text cs | XText s \<Rightarrow> s),
      xml_attribute = (\<lambda>v k. case v of
          XElement n as cs \<Rightarrow> (case map_of as k of None \<Rightarrow> [] | Some w \<Rightarrow> w) | XText s \<Rightarrow> []),
      xml_as_uint = to_number_u32 10,
      xml_remove_child = (\<lambda>v k. case v of XElement n as cs \<Rightarrow> XElement n as (remove_named k cs) | XText s \<Rightarrow> XText s),
      xml_written = again\<rparr>"

lemma std_xml_laws: "xml_laws std_xml"
  by (simp add: xml_laws_def std_xml_def to_number_decimal)

lemma xml_simps:
  assumes "xml_laws X"
  shows "xml_element X n = XElement n [] []" "xml_pcdata X s = XText s"
    "xml_append X (XElement n as cs) c = XElement n as (cs @ [c])"
    "xml_set_attribute X (XElement n as cs) k v = XElement n (as @ [(k, v)]) cs"
    "xml_name X (XElement n as cs) = n" "xml_child X (XElement n as cs) k = find (named k) cs"
    "xml_children X (XElement n as cs) = cs" "xml_text X (XElement n as cs) = first_text cs"
    "xml_attribute X (XElement n as cs) k = (case map_of as k of None \<Rightarrow> [] | Some v \<Rightarrow> v)"
    "xml_as_uint X (decimal (unat w)) = w" "xml_remove_child X (XElement n as cs) k = XElement n as (remove_named k cs)"
  using assms by (simp_all add: xml_laws_def)

lemma xml_written_plain:
  "xml_laws X \<Longrightarrow> \<forall>c \<in> set cs. plain_node c \<Longrightarrow> xml_written X (XElement [] [] cs) = again (XElement [] [] cs)"
  by (simp add: xml_laws_def)

subsection \<open>Texts in files\<close>

text \<open>What comes back of a text.\<close>

definition kept_text :: "string \<Rightarrow> string" where
  "kept_text s = (if blank s then [] else eol s)"

lemma blank_Cons: "blank (c # s) \<longleftrightarrow> c \<in> {CHR '' '', CHR 0x09, CHR 0x0A, CHR 0x0D} \<and> blank s"
  by (simp add: blank_def)

lemma blank_eol [simp]: "blank (eol s) = blank s"
proof (induction s rule: eol.induct)
  case (2 c s)
  have b: "blank (drop 1 s) = blank s" if "take 1 s = [CHR 0x0A]" using that by (cases s) (simp_all add: blank_Cons)
  show ?case
  proof (cases "c = CHR 0x0D")
    case True
    then show ?thesis using 2(1) [OF True] b by (cases "take 1 s = [CHR 0x0A]") (simp_all add: blank_Cons)
  next
    case False
    then show ?thesis using 2(2) [OF False] by (simp add: blank_Cons)
  qed
qed simp

lemma eol_same: "CHR 0x0D \<notin> set s \<Longrightarrow> eol s = s"
  by (induction s) auto

text \<open>The texts that come back as they are: no carriage return, and not white space only.\<close>

lemma kept_text_same: "CHR 0x0D \<notin> set s \<Longrightarrow> s = [] \<or> \<not> blank s \<Longrightarrow> kept_text s = s"
  by (cases "s = []") (simp_all add: kept_text_def eol_same blank_def)

lemma kept_text_lost:
  "kept_text s = s \<longleftrightarrow> CHR 0x0D \<notin> set s \<and> (s = [] \<or> \<not> blank s)"
proof -
  have "CHR 0x0D \<notin> set (eol s)"
  proof (induction s rule: eol.induct)
    case (2 c s)
    then show ?case by (cases "c = CHR 0x0D") simp_all
  qed simp
  then have e: "eol s = s \<longleftrightarrow> CHR 0x0D \<notin> set s" using eol_same [of s] by fastforce
  show ?thesis
  proof (cases "blank s")
    case True
    then show ?thesis by (cases "s = []") (simp_all add: kept_text_def)
  next
    case False
    then show ?thesis using e by (simp add: kept_text_def)
  qed
qed

lemma decimal_text: "plain_text (decimal n)" "printable (decimal n)" "kept_text (decimal n) = decimal n"
proof -
  have c: "\<exists>k < 10. c = char_of (48 + k :: nat)" if "c \<in> set (decimal n)" for c using decimal_chars [OF that] by auto
  have r: "48 \<le> (of_char c :: nat) \<and> (of_char c :: nat) \<le> 57" if "c \<in> set (decimal n)" for c using c [OF that] by auto
  then show "plain_text (decimal n)" "printable (decimal n)" unfolding plain_text_def printable_def by force+
  have "CHR 0x0D \<notin> set (decimal n)" using r by force
  moreover have "\<not> blank (decimal n)"
  proof -
    have "decimal n \<noteq> []" using decimal_first [of n] by auto
    then have "hd (decimal n) \<in> set (decimal n)" by simp
    moreover from r [OF this] have "hd (decimal n) \<notin> {CHR '' '', CHR 0x09, CHR 0x0A, CHR 0x0D}" by auto
    ultimately show ?thesis unfolding blank_def by blast
  qed
  ultimately show "kept_text (decimal n) = decimal n" by (intro kept_text_same) auto
qed

lemma plain_no_nul: "plain_text s \<Longrightarrow> no_nul s" "printable s \<Longrightarrow> no_nul s"
  by (force simp: plain_text_def printable_def no_nul_def)+

lemma plain_append: "plain_text (s @ t) \<longleftrightarrow> plain_text s \<and> plain_text t"
  by (auto simp: plain_text_def)

text \<open>The elements of a document are not dropped.\<close>

lemma again_plain:
  assumes "plain_node v"
  shows "\<not> blank_node (again v)" "named k (again v) \<longleftrightarrow> named k v"
  using assms by (cases v, auto)+

lemma again_elements:
  assumes "\<forall>c \<in> set cs. plain_node c"
  shows "again (XElement n as cs) = XElement n as (map again cs)"
  using assms again_plain(1) by (auto simp: filter_id_conv)

lemma find_again:
  assumes "\<forall>c \<in> set cs. plain_node c"
  shows "find (named k) (map again cs) = map_option again (find (named k) cs)"
  using assms by (induction cs) (auto simp: again_plain(2))

subsection \<open>Text nodes\<close>

definition xml_add_text_node :: "xmllib \<Rightarrow> string \<Rightarrow> string \<Rightarrow> xnode \<Rightarrow> xnode" where
  "xml_add_text_node X name value node =
     xml_append X node (xml_append X (xml_element X name) (xml_pcdata X (c_str value)))"

definition xml_get_text_node :: "xmllib \<Rightarrow> xnode \<Rightarrow> string \<Rightarrow> string" where
  "xml_get_text_node X node name =
     (case xml_child X node name of None \<Rightarrow> [] | Some c \<Rightarrow> xml_text X c)"

text \<open>The text nodes added one after another.\<close>

definition add_texts :: "xmllib \<Rightarrow> (string \<times> string) list \<Rightarrow> xnode \<Rightarrow> xnode" where
  "add_texts X fs node = fold (\<lambda>(k, s). xml_add_text_node X k s) fs node"

definition text_nodes :: "(string \<times> string) list \<Rightarrow> xnode list" where
  "text_nodes fs = map (\<lambda>(k, s). XElement k [] [XText (c_str s)]) fs"

lemma add_texts_element:
  assumes "xml_laws X"
  shows "add_texts X fs (XElement n as cs) = XElement n as (cs @ text_nodes fs)"
  using assms
  by (induction fs arbitrary: cs)
    (auto simp: add_texts_def text_nodes_def xml_add_text_node_def xml_laws_def)

lemma find_text_nodes: "find (named k) (text_nodes fs) = map_option (\<lambda>s. XElement k [] [XText (c_str s)]) (map_of fs k)"
  by (induction fs) (auto simp: text_nodes_def)

lemma find_append: "find P (xs @ ys) = (case find P xs of None \<Rightarrow> find P ys | Some x \<Rightarrow> Some x)"
  by (induction xs) auto

lemma get_text_nodes:
  assumes "xml_laws X"
  shows "xml_get_text_node X (XElement n as (text_nodes fs @ cs)) k =
    (case map_of fs k of Some s \<Rightarrow> c_str s | None \<Rightarrow> xml_get_text_node X (XElement n as cs) k)"
  using assms
  by (auto simp: xml_get_text_node_def xml_laws_def find_append find_text_nodes split: option.splits)

lemma get_text_empty: "xml_laws X \<Longrightarrow> xml_get_text_node X (XElement n as []) k = []"
  by (simp add: xml_get_text_node_def xml_laws_def)

text \<open>Reading the text nodes of an element that has nothing else.\<close>

lemma get_texts:
  assumes "xml_laws X"
  shows "xml_get_text_node X (XElement n as (text_nodes fs)) k = (case map_of fs k of Some s \<Rightarrow> c_str s | None \<Rightarrow> [])"
  using get_text_nodes [OF assms, of n as fs "[]" k] get_text_empty [OF assms] by (simp split: option.splits)

text \<open>The same after the way through a file.\<close>

definition plain_texts :: "(string \<times> string) list \<Rightarrow> bool" where
  "plain_texts fs \<longleftrightarrow> (\<forall>(k, s) \<in> set fs. plain_name k \<and> plain_text s)"

lemma plain_texts_simps [simp]:
  "plain_texts []" "plain_texts ((k, s) # fs) \<longleftrightarrow> plain_name k \<and> plain_text s \<and> plain_texts fs"
  by (auto simp: plain_texts_def)

lemma plain_text_nodes: "plain_texts fs \<Longrightarrow> \<forall>c \<in> set (text_nodes fs). plain_node c"
  by (fastforce simp: plain_texts_def text_nodes_def plain_no_nul(1))

lemma plain_text_element: "plain_name n \<Longrightarrow> plain_texts fs \<Longrightarrow> plain_node (XElement n [] (text_nodes fs))"
  using plain_text_nodes [of fs] by simp

lemmas plain_name_simps = plain_name_def digit_value_def

lemma get_texts_again:
  assumes "xml_laws X"
  shows "xml_get_text_node X (XElement n as (map again (text_nodes fs) @ cs)) k =
    (case map_of fs k of Some s \<Rightarrow> kept_text (c_str s) | None \<Rightarrow> xml_get_text_node X (XElement n as cs) k)"
proof (induction fs)
  case (Cons f fs)
  obtain j s where f: "f = (j, s)" by (cases f)
  have "first_text (filter (\<lambda>c. \<not> blank_node c) [XText (eol (c_str s))]) = kept_text (c_str s)"
    by (simp add: kept_text_def)
  then show ?case using Cons assms by (auto simp: f text_nodes_def xml_get_text_node_def xml_simps [OF assms])
qed (simp add: text_nodes_def)

lemma get_file_texts:
  assumes "xml_laws X"
  shows "xml_get_text_node X (XElement n as (map again (text_nodes fs))) k =
    (case map_of fs k of Some s \<Rightarrow> kept_text (c_str s) | None \<Rightarrow> [])"
  using get_texts_again [OF assms, of n as fs "[]" k] get_text_empty [OF assms] by (simp split: option.splits)

text \<open>Counting up, short of the largest number.\<close>

lemma unat_plus_one:
  fixes w :: "'a::len word"
  assumes "w \<noteq> - 1"
  shows "unat (w + 1) = unat w + 1"
proof -
  have "w + 1 \<noteq> 0" using assms by (simp add: eq_neg_iff_add_eq_0)
  then show ?thesis using unatSuc [of w] by (simp add: add.commute)
qed

subsection \<open>Stored objects\<close>

text \<open>
  What a class with \<open>Write\<close> and \<open>Read\<close> on XML nodes promises: the element it writes reads back,
  after it has been in a file, as what is kept of the object.  \<open>item\<close> is the element of an object
  (\<open>None\<close> when writing fails), \<open>parse\<close> the object read from a node (\<open>None\<close> when the reader refuses it),
  \<open>valid\<close> the objects it can write, \<open>keep\<close> what is kept.
\<close>

definition append_item :: "xmllib \<Rightarrow> (xmllib \<Rightarrow> 'a \<Rightarrow> xnode option) \<Rightarrow> 'a \<Rightarrow> xnode \<Rightarrow> xnode option" where
  "append_item X item a node = do { v \<leftarrow> item X a; Some (xml_append X node v) }"

locale stored =
  fixes item :: "xmllib \<Rightarrow> 'a \<Rightarrow> xnode option"
    and parse :: "xmllib \<Rightarrow> xnode \<Rightarrow> 'a option"
    and valid :: "'a \<Rightarrow> bool"
    and keep :: "'a \<Rightarrow> 'a"
  assumes parse_item: "xml_laws X \<Longrightarrow> valid a \<Longrightarrow> \<exists>v. item X a = Some v \<and> plain_node v \<and> parse X (again v) = Some (keep a)"
begin

text \<open>Writing a list of objects into a node adds one element per object, which read back in order.\<close>

lemma append_items:
  assumes "xml_laws X" and "\<forall>a \<in> set xs. valid a"
  shows "\<exists>vs. each (append_item X item) xs (XElement n ats cs) = Some (XElement n ats (cs @ vs)) \<and>
    (\<forall>v \<in> set vs. plain_node v) \<and> map (parse X) (map again vs) = map (\<lambda>a. Some (keep a)) xs"
  using assms(2)
proof (induction xs arbitrary: cs)
  case (Cons a xs)
  then obtain v where v: "item X a = Some v" "plain_node v" "parse X (again v) = Some (keep a)"
    using parse_item [OF assms(1), of a] by auto
  from Cons.prems have "\<forall>a \<in> set xs. valid a" by simp
  from Cons.IH [OF this, of "cs @ [v]"] obtain vs
    where "each (append_item X item) xs (XElement n ats (cs @ [v])) = Some (XElement n ats ((cs @ [v]) @ vs))"
      "\<forall>v \<in> set vs. plain_node v" "map (parse X) (map again vs) = map (\<lambda>a. Some (keep a)) xs" by blast
  moreover have "append_item X item a (XElement n ats cs) = Some (XElement n ats (cs @ [v]))"
    using v assms(1) by (simp add: append_item_def xml_laws_def)
  ultimately show ?case using v(2,3) by (intro exI [of _ "v # vs"]) simp
qed simp

text \<open>A reader that skips the nodes it refuses gets exactly the objects written.\<close>

lemma kept_items:
  assumes "map (parse X) vs = map (\<lambda>a. Some (keep a)) xs"
  shows "List.map_filter (parse X) vs = map keep xs"
proof -
  have "List.map_filter (parse X) vs = map the (filter (\<lambda>r. r \<noteq> None) (map (parse X) vs))"
    by (simp add: List.map_filter_def filter_map comp_def)
  then show ?thesis unfolding assms by (simp add: filter_map comp_def)
qed

end

end
