(* ===== verification/Parts.thy ===== *)
theory Parts
  imports Xml Json
begin

text \<open>
  Parts and the part inventory: \<open>source/SporeNet/Part.{h,cpp}\<close>.  A part keeps asset numbers and the
  hashes of their asset names; the setters clamp the numbers to the assets that exist.
\<close>

record part =
  mTimestamp :: u64
  mRigblockAssetHash :: u32
  mPrefixAssetHash :: u32
  mPrefixSecondaryAssetHash :: u32
  mSuffixAssetHash :: u32
  mCost :: u32
  mEquippedToCreatureId :: u32
  mRigblockAssetId :: u16
  mPrefixAssetId :: u16
  mPrefixSecondaryAssetId :: u16
  mSuffixAssetId :: u16
  mLevel :: u16
  mRarity :: u8
  mMarketStatus :: u8
  mStatus :: u8
  mUsage :: u8
  mIsFlair :: bool

subsection \<open>Setters\<close>

definition rigblock_hash :: "u16 \<Rightarrow> u32" where
  "rigblock_hash n = hash_id (''_Generated/LootRigblock'' @ decimal (unat n) @ ''.LootRigblock'')"

definition prefix_hash :: "u16 \<Rightarrow> u32" where
  "prefix_hash n =
     hash_id (if n > 0 then ''_Generated/LootPrefix'' @ decimal (unat n) @ ''.LootPrefix'' else [])"

definition suffix_hash :: "u16 \<Rightarrow> u32" where
  "suffix_hash n =
     hash_id (if n > 0 then ''_Generated/LootSuffix'' @ decimal (unat n) @ ''.LootSuffix'' else [])"

definition SetRigblock :: "u16 \<Rightarrow> part \<Rightarrow> part" where
  "SetRigblock rigblock p =
     (let n = (if \<not> (rigblock \<ge> 1 \<and> rigblock \<le> 1573) \<and> \<not> (rigblock \<ge> 10001 \<and> rigblock \<le> 10835)
               then 1 else rigblock)
      in p\<lparr>mRigblockAssetId := n, mRigblockAssetHash := rigblock_hash n\<rparr>)"

definition SetPrefix :: "u16 \<Rightarrow> bool \<Rightarrow> part \<Rightarrow> part" where
  "SetPrefix prefix secondary p =
     (let n = (if \<not> (prefix \<ge> 1 \<and> prefix \<le> 338) then 0 else prefix)
      in if secondary then p\<lparr>mPrefixSecondaryAssetId := n, mPrefixSecondaryAssetHash := prefix_hash n\<rparr>
         else p\<lparr>mPrefixAssetId := n, mPrefixAssetHash := prefix_hash n\<rparr>)"

definition SetSuffix :: "u16 \<Rightarrow> part \<Rightarrow> part" where
  "SetSuffix suffix p =
     (let n = (if \<not> (suffix \<ge> 1 \<and> suffix \<le> 83) \<and> \<not> (suffix \<ge> 10001 \<and> suffix \<le> 10275)
               then 0 else suffix)
      in p\<lparr>mSuffixAssetId := n, mSuffixAssetHash := suffix_hash n\<rparr>)"

definition SetCreationDate :: "u64 \<Rightarrow> part \<Rightarrow> part" where
  "SetCreationDate timestamp p = p\<lparr>mTimestamp := timestamp\<rparr>"

definition SetCost :: "u32 \<Rightarrow> part \<Rightarrow> part" where "SetCost cost p = p\<lparr>mCost := cost\<rparr>"

definition SetLevel :: "u16 \<Rightarrow> part \<Rightarrow> part" where "SetLevel level p = p\<lparr>mLevel := level\<rparr>"

definition SetRarity :: "u8 \<Rightarrow> part \<Rightarrow> part" where "SetRarity rarity p = p\<lparr>mRarity := rarity\<rparr>"

definition SetMarketStatus :: "u8 \<Rightarrow> part \<Rightarrow> part" where
  "SetMarketStatus marketStatus p = p\<lparr>mMarketStatus := marketStatus\<rparr>"

definition SetStatus :: "u8 \<Rightarrow> part \<Rightarrow> part" where "SetStatus status p = p\<lparr>mStatus := status\<rparr>"

definition SetUsage :: "u8 \<Rightarrow> part \<Rightarrow> part" where "SetUsage usage p = p\<lparr>mUsage := usage\<rparr>"

definition SetIsFlair :: "bool \<Rightarrow> part \<Rightarrow> part" where "SetIsFlair flair p = p\<lparr>mIsFlair := flair\<rparr>"

subsection \<open>Constructors, reading and writing\<close>

text \<open>The members' default values.\<close>

definition part_zero :: part where
  "part_zero = \<lparr>mTimestamp = 0, mRigblockAssetHash = 0, mPrefixAssetHash = 0, mPrefixSecondaryAssetHash = 0,
     mSuffixAssetHash = 0, mCost = 0, mEquippedToCreatureId = 0, mRigblockAssetId = 0, mPrefixAssetId = 0,
     mPrefixSecondaryAssetId = 0, mSuffixAssetId = 0, mLevel = 0, mRarity = 0, mMarketStatus = 0, mStatus = 0,
     mUsage = 0, mIsFlair = False\<rparr>"

definition Part_new :: "u32 \<Rightarrow> part" where
  "Part_new rigblock =
     in_order [SetRigblock (ucast rigblock), SetPrefix 0 False, SetPrefix 0 True, SetSuffix 0] part_zero"

text \<open>\<open>Read\<close> from XML: the result tells whether the node is a part.\<close>

definition Part_Read :: "xmllib \<Rightarrow> xnode \<Rightarrow> part \<Rightarrow> bool \<times> part" where
  "Part_Read X node p =
     (if xml_name X node \<noteq> ''part'' then (False, p)
      else (let t = xml_get_text_node X node in
        (True, in_order
          [mIsFlair_update (\<lambda>_. to_number_bool (t ''is_flair'')),
           mCost_update (\<lambda>_. to_number_u32 10 (t ''cost'')),
           mEquippedToCreatureId_update (\<lambda>_. to_number_u32 10 (t ''creature_id'')),
           mLevel_update (\<lambda>_. to_number_u16 (t ''level'')),
           mMarketStatus_update (\<lambda>_. to_number_u8 (t ''market_status'')),
           mRarity_update (\<lambda>_. to_number_u8 (t ''rarity'')),
           mStatus_update (\<lambda>_. to_number_u8 (t ''status'')),
           mUsage_update (\<lambda>_. to_number_u8 (t ''usage'')),
           mTimestamp_update (\<lambda>_. to_number_u64 (t ''creation_date'')),
           SetRigblock (ucast (to_number_u32 10 (t ''rigblock_asset_id''))),
           SetPrefix (ucast (to_number_u32 10 (t ''prefix_asset_id''))) False,
           SetPrefix (ucast (to_number_u32 10 (t ''prefix_secondary_asset_id''))) True,
           SetSuffix (ucast (to_number_u32 10 (t ''suffix_asset_id'')))] p)))"

definition Part_of_node :: "xmllib \<Rightarrow> xnode \<Rightarrow> part" where
  "Part_of_node X node =
     (let (ok, p) = Part_Read X node part_zero in
      if ok then p else in_order [SetRigblock 1, SetPrefix 0 False, SetPrefix 0 True, SetSuffix 0] p)"

definition flag_text :: "bool \<Rightarrow> string" where
  "flag_text b = (if b then ''1'' else ''0'')"

definition part_texts :: "part \<Rightarrow> (string \<times> string) list" where
  "part_texts p =
     [(''is_flair'', flag_text (mIsFlair p)), (''cost'', decimal (unat (mCost p))),
      (''creature_id'', decimal (unat (mEquippedToCreatureId p))), (''level'', decimal (unat (mLevel p))),
      (''market_status'', decimal (unat (mMarketStatus p))), (''rarity'', decimal (unat (mRarity p))),
      (''status'', decimal (unat (mStatus p))), (''usage'', decimal (unat (mUsage p))),
      (''creation_date'', decimal (unat (mTimestamp p))),
      (''rigblock_asset_id'', decimal (unat (mRigblockAssetId p))),
      (''prefix_asset_id'', decimal (unat (mPrefixAssetId p))),
      (''prefix_secondary_asset_id'', decimal (unat (mPrefixSecondaryAssetId p))),
      (''suffix_asset_id'', decimal (unat (mSuffixAssetId p)))]"

definition Part_item :: "xmllib \<Rightarrow> part \<Rightarrow> xnode" where
  "Part_item X p = add_texts X (part_texts p) (xml_element X ''part'')"

definition Part_Write :: "xmllib \<Rightarrow> part \<Rightarrow> xnode \<Rightarrow> xnode" where
  "Part_Write X p node = xml_append X node (Part_item X p)"

definition part_api_texts :: "part \<Rightarrow> u32 \<Rightarrow> bool \<Rightarrow> (string \<times> string) list" where
  "part_api_texts p index offer =
     (if offer then
        [(''cost'', decimal (unat (mCost p))), (''level'', decimal (unat (mLevel p))),
         (''prefix_asset_id'', decimal (unat (mPrefixAssetHash p))),
         (''prefix_secondary_asset_id'', decimal (unat (mPrefixSecondaryAssetHash p))),
         (''rarity'', decimal (unat (mRarity p))), (''reference_id'', decimal (unat index)),
         (''rigblock_asset_id'', decimal (unat (mRigblockAssetHash p))),
         (''suffix_asset_id'', decimal (unat (mSuffixAssetHash p)))]
      else
        [(''is_flair'', flag_text (mIsFlair p)), (''cost'', decimal (unat (mCost p))),
         (''creature_id'', decimal (unat (mEquippedToCreatureId p))), (''id'', decimal (unat index)),
         (''level'', decimal (unat (mLevel p))), (''market_status'', decimal (unat (mMarketStatus p))),
         (''prefix_asset_id'', decimal (unat (mPrefixAssetHash p))),
         (''prefix_secondary_asset_id'', decimal (unat (mPrefixSecondaryAssetHash p))),
         (''rarity'', decimal (unat (mRarity p))), (''reference_id'', decimal (unat index)),
         (''rigblock_asset_id'', decimal (unat (mRigblockAssetHash p))),
         (''status'', decimal (unat (mStatus p))), (''suffix_asset_id'', decimal (unat (mSuffixAssetHash p))),
         (''usage'', decimal (unat (mUsage p))), (''creation_date'', decimal (unat (mTimestamp p)))])"

definition Part_WriteApi :: "xmllib \<Rightarrow> part \<Rightarrow> u32 \<Rightarrow> bool \<Rightarrow> xnode \<Rightarrow> xnode" where
  "Part_WriteApi X p index offer node =
     xml_append X node (add_texts X (part_api_texts p index offer) (xml_element X ''part''))"

subsection \<open>Parts in JSON\<close>

definition Part_ReadJson :: "jsonlib \<Rightarrow> jval \<Rightarrow> part \<Rightarrow> (bool \<times> part) option" where
  "Part_ReadJson J v p =
     (case v of
        JObject ms \<Rightarrow> do {
          cost \<leftarrow> json_GetUint J v ''cost'';
          level \<leftarrow> json_GetUint16 J v ''level'';
          market \<leftarrow> json_GetUint8 J v ''market_status'';
          rarity \<leftarrow> json_GetUint8 J v ''rarity'';
          usage \<leftarrow> json_GetUint8 J v ''usage'';
          rigblock \<leftarrow> json_GetUint16 J v ''rigblock_asset_id'';
          prefix \<leftarrow> json_GetUint16 J v ''prefix_asset_id'';
          secondary \<leftarrow> json_GetUint16 J v ''prefix_secondary_asset_id'';
          suffix \<leftarrow> json_GetUint16 J v ''suffix_asset_id'';
          Some (True, in_order [SetRigblock rigblock, SetPrefix prefix False, SetPrefix secondary True, SetSuffix suffix]
            (p\<lparr>mCost := cost, mLevel := level, mMarketStatus := market, mRarity := rarity, mUsage := usage\<rparr>))
        }
      | _ \<Rightarrow> Some (False, p))"

definition Part_of_json :: "jsonlib \<Rightarrow> jval \<Rightarrow> part option" where
  "Part_of_json J v = do {
     (ok, p) \<leftarrow> Part_ReadJson J v part_zero;
     Some (if ok then p else in_order [SetRigblock 1, SetPrefix 0 False, SetPrefix 0 True, SetSuffix 0] p)
   }"

definition JNum :: "'a::len word \<Rightarrow> jval" where "JNum n = JUint (ucast n)"

definition Part_WriteJson :: "jsonlib \<Rightarrow> part \<Rightarrow> u32 \<Rightarrow> bool \<Rightarrow> jval option" where
  "Part_WriteJson J p index api =
     json_sets J
       ([(''cost'', JNum (mCost p)), (''level'', JNum (mLevel p)), (''market_status'', JNum (mMarketStatus p)),
         (''rarity'', JNum (mRarity p)), (''usage'', JNum (mUsage p))] @
        (if api then
           [(''id'', JNum index), (''reference_id'', JNum index),
            (''rigblock_asset_id'', JNum (mRigblockAssetHash p)), (''prefix_asset_id'', JNum (mPrefixAssetHash p)),
            (''prefix_secondary_asset_id'', JNum (mPrefixSecondaryAssetHash p)),
            (''suffix_asset_id'', JNum (mSuffixAssetHash p))]
         else
           [(''rigblock_asset_id'', JNum (mRigblockAssetId p)), (''prefix_asset_id'', JNum (mPrefixAssetId p)),
            (''prefix_secondary_asset_id'', JNum (mPrefixSecondaryAssetId p)),
            (''suffix_asset_id'', JNum (mSuffixAssetId p))])) (new_object J [])"

subsection \<open>The inventory\<close>

type_synonym parts = "part list"

text \<open>\<open>operator[]\<close> of a vector checks nothing: outside the range the model has no value.\<close>

definition GetPart :: "nat \<Rightarrow> parts \<Rightarrow> part option" where
  "GetPart index items = (if index < length items then Some (items ! index) else None)"

definition AddPart :: "part \<Rightarrow> parts \<Rightarrow> parts" where
  "AddPart part items = items @ [part]"

definition Parts_Read :: "xmllib \<Rightarrow> xnode \<Rightarrow> parts \<Rightarrow> parts" where
  "Parts_Read X node items =
     (case xml_child X node ''parts'' of
        None \<Rightarrow> items
      | Some c \<Rightarrow> items @ map (Part_of_node X) (xml_children X c))"

definition Parts_Write :: "xmllib \<Rightarrow> parts \<Rightarrow> xnode \<Rightarrow> xnode" where
  "Parts_Write X items node =
     xml_append X node (fold (Part_Write X) items (xml_element X ''parts''))"

definition Parts_WriteApi :: "xmllib \<Rightarrow> parts \<Rightarrow> bool \<Rightarrow> xnode \<Rightarrow> xnode" where
  "Parts_WriteApi X items offer node =
     xml_append X node
       (fold (\<lambda>(i, p). Part_WriteApi X p (of_nat (i + 1)) offer) (enumerate 0 items) (xml_element X ''parts''))"

subsection \<open>The vendor\<close>

text \<open>\<open>Vendor::RefreshPartOfferList\<close>; \<open>clock i\<close> is the time read for the part of number \<open>i\<close>.\<close>

definition RefreshPartOfferList :: "(nat \<Rightarrow> u64) \<Rightarrow> parts" where
  "RefreshPartOfferList clock =
     map (\<lambda>i. in_order
            [SetCreationDate (clock i), SetIsFlair False, SetMarketStatus 0xAB, SetCost 0x1234, SetLevel 30, SetRarity 2,
             SetStatus 0x62, SetUsage 0x55, SetPrefix 1 False, SetPrefix 2 True, SetSuffix 3]
            (Part_new (of_nat i)))
       [100..<150]"

subsection \<open>Well-formed parts\<close>

text \<open>The numbers name assets that exist and the hashes are those of the numbers.\<close>

definition wf_part :: "part \<Rightarrow> bool" where
  "wf_part p \<longleftrightarrow>
     (1 \<le> mRigblockAssetId p \<and> mRigblockAssetId p \<le> 1573 \<or> 10001 \<le> mRigblockAssetId p \<and> mRigblockAssetId p \<le> 10835) \<and>
     mPrefixAssetId p \<le> 338 \<and> mPrefixSecondaryAssetId p \<le> 338 \<and>
     (mSuffixAssetId p \<le> 83 \<or> 10001 \<le> mSuffixAssetId p \<and> mSuffixAssetId p \<le> 10275) \<and>
     mRigblockAssetHash p = rigblock_hash (mRigblockAssetId p) \<and>
     mPrefixAssetHash p = prefix_hash (mPrefixAssetId p) \<and>
     mPrefixSecondaryAssetHash p = prefix_hash (mPrefixSecondaryAssetId p) \<and>
     mSuffixAssetHash p = suffix_hash (mSuffixAssetId p)"

lemma setters_wf:
  "wf_part p \<Longrightarrow> wf_part (SetRigblock r p)" "wf_part p \<Longrightarrow> wf_part (SetPrefix n s p)"
  "wf_part p \<Longrightarrow> wf_part (SetSuffix n p)" "wf_part p \<Longrightarrow> wf_part (SetCreationDate t p)"
  "wf_part p \<Longrightarrow> wf_part (SetCost c p)" "wf_part p \<Longrightarrow> wf_part (SetLevel l p)"
  "wf_part p \<Longrightarrow> wf_part (SetRarity q p)" "wf_part p \<Longrightarrow> wf_part (SetMarketStatus q p)"
  "wf_part p \<Longrightarrow> wf_part (SetStatus q p)" "wf_part p \<Longrightarrow> wf_part (SetUsage q p)"
  "wf_part p \<Longrightarrow> wf_part (SetIsFlair b p)"
  by (auto simp: wf_part_def SetRigblock_def SetPrefix_def SetSuffix_def SetCreationDate_def SetCost_def SetLevel_def
      SetRarity_def SetMarketStatus_def SetStatus_def SetUsage_def SetIsFlair_def Let_def)

text \<open>The four asset setters together make any part well-formed.\<close>

lemma assets_set_wf: "wf_part (in_order [SetRigblock r, SetPrefix n False, SetPrefix m True, SetSuffix s] p)"
  by (auto simp: wf_part_def SetRigblock_def SetPrefix_def SetSuffix_def Let_def)

lemma in_order_wf: "wf_part p \<Longrightarrow> (\<And>f q. f \<in> set fs \<Longrightarrow> wf_part q \<Longrightarrow> wf_part (f q)) \<Longrightarrow> wf_part (in_order fs p)"
  by (induction fs arbitrary: p) auto

lemma Part_new_wf: "wf_part (Part_new r)"
  unfolding Part_new_def by (rule assets_set_wf)

lemma Part_Read_wf: "Part_Read X node p = (True, q) \<Longrightarrow> wf_part q"
  using assets_set_wf by (auto simp: Part_Read_def Let_def split: if_splits)

lemma Part_of_node_wf: "wf_part (Part_of_node X node)"
proof -
  obtain ok q where r: "Part_Read X node part_zero = (ok, q)" by (cases "Part_Read X node part_zero")
  then show ?thesis
    using Part_Read_wf [of X node part_zero q] assets_set_wf by (cases ok) (simp_all add: Part_of_node_def)
qed

lemma Part_of_json_wf: "Part_of_json J v = Some p \<Longrightarrow> wf_part p"
  using assets_set_wf
  by (auto simp: Part_of_json_def Part_ReadJson_def split: bind_splits jval.splits if_splits)

lemma RefreshPartOfferList_wf: "p \<in> set (RefreshPartOfferList clock) \<Longrightarrow> wf_part p"
  unfolding RefreshPartOfferList_def by (auto intro!: Part_new_wf setters_wf)

text \<open>
  C34: Every part the server holds names assets that exist and carries their hashes: each
  constructor makes such a part (from a number, from XML or JSON, whatever they contain), every
  setter keeps it one, and so do reading and extending an inventory and the vendor's offers.
\<close>

theorem parts_stay_well_formed:
  "wf_part (Part_new r) \<and> wf_part (Part_of_node X node) \<and> (\<forall>p. Part_of_json J v = Some p \<longrightarrow> wf_part p) \<and>
   (\<forall>p. wf_part p \<longrightarrow> (\<forall>n c t l q b s. wf_part (SetRigblock n p) \<and> wf_part (SetPrefix n s p) \<and> wf_part (SetSuffix n p) \<and>
      wf_part (SetCreationDate t p) \<and> wf_part (SetCost c p) \<and> wf_part (SetLevel l p) \<and> wf_part (SetRarity q p) \<and>
      wf_part (SetMarketStatus q p) \<and> wf_part (SetStatus q p) \<and> wf_part (SetUsage q p) \<and> wf_part (SetIsFlair b p))) \<and>
   (\<forall>items. list_all wf_part items \<longrightarrow> list_all wf_part (Parts_Read X node items) \<and>
      (\<forall>p. wf_part p \<longrightarrow> list_all wf_part (AddPart p items))) \<and>
   list_all wf_part (RefreshPartOfferList clock)"
proof -
  have list: "list_all wf_part (Parts_Read X node items)" "\<forall>p. wf_part p \<longrightarrow> list_all wf_part (AddPart p items)"
    if "list_all wf_part items" for items
    using that by (auto simp: list_all_iff Parts_Read_def AddPart_def Part_of_node_wf split: option.splits)
  have offers: "list_all wf_part (RefreshPartOfferList clock)"
    using RefreshPartOfferList_wf unfolding list_all_iff by blast
  show ?thesis
    by (intro conjI allI impI Part_new_wf Part_of_node_wf offers list setters_wf)
      (use list in \<open>auto intro: Part_of_json_wf\<close>)
qed

theorem parts_stay_well_formed_witness: "wf_part (SetRigblock 20000 (Part_new 7))"
proof -
  have "wf_part (Part_new 7)" by (rule parts_stay_well_formed [THEN conjunct1])
  then show ?thesis
    using parts_stay_well_formed [THEN conjunct2, THEN conjunct2, THEN conjunct2, THEN conjunct1] by blast
qed

subsection \<open>Storage\<close>

lemma flag_text: "c_str (flag_text b) = flag_text b" "to_number_bool (flag_text b) \<longleftrightarrow> b"
  "plain_text (flag_text b)" "kept_text (flag_text b) = flag_text b"
proof -
  have d: "decimal 1 = ''1''" "decimal 0 = ''0''" by code_simp+
  show "plain_text (flag_text b)" "kept_text (flag_text b) = flag_text b"
    using decimal_text(1,3) [of 1] decimal_text(1,3) [of 0] unfolding d by (simp_all add: flag_text_def)
  have "strtoul 10 ''1'' = 1" "strtoul 10 ''0'' = 0"
    using strtoul_decimal [of 1] strtoul_decimal [of 0] unfolding d by simp_all
  moreover have "\<not> string_iequals ''1'' ''true''" "\<not> string_iequals ''0'' ''true''" by (simp_all add: string_iequals_def)
  ultimately have "to_number_bool ''1'' \<and> \<not> to_number_bool ''0'' \<and> c_str ''1'' = ''1'' \<and> c_str ''0'' = ''0''"
    by (simp add: to_number_bool_def no_nul_def)
  then show "c_str (flag_text b) = flag_text b" "to_number_bool (flag_text b) \<longleftrightarrow> b"
    by (simp_all add: flag_text_def)
qed

lemma wf_part_assets:
  assumes "wf_part p"
  shows "SetRigblock (mRigblockAssetId p) q = q\<lparr>mRigblockAssetId := mRigblockAssetId p, mRigblockAssetHash := mRigblockAssetHash p\<rparr>"
    "SetPrefix (mPrefixAssetId p) False q = q\<lparr>mPrefixAssetId := mPrefixAssetId p, mPrefixAssetHash := mPrefixAssetHash p\<rparr>"
    "SetPrefix (mPrefixSecondaryAssetId p) True q =
       q\<lparr>mPrefixSecondaryAssetId := mPrefixSecondaryAssetId p, mPrefixSecondaryAssetHash := mPrefixSecondaryAssetHash p\<rparr>"
    "SetSuffix (mSuffixAssetId p) q = q\<lparr>mSuffixAssetId := mSuffixAssetId p, mSuffixAssetHash := mSuffixAssetHash p\<rparr>"
proof -
  have z: "w = 0 \<or> 1 \<le> w" for w :: u16 by (metis linorder_not_le word_less_1)
  show "SetRigblock (mRigblockAssetId p) q = q\<lparr>mRigblockAssetId := mRigblockAssetId p, mRigblockAssetHash := mRigblockAssetHash p\<rparr>"
    "SetPrefix (mPrefixAssetId p) False q = q\<lparr>mPrefixAssetId := mPrefixAssetId p, mPrefixAssetHash := mPrefixAssetHash p\<rparr>"
    "SetPrefix (mPrefixSecondaryAssetId p) True q =
       q\<lparr>mPrefixSecondaryAssetId := mPrefixSecondaryAssetId p, mPrefixSecondaryAssetHash := mPrefixSecondaryAssetHash p\<rparr>"
    "SetSuffix (mSuffixAssetId p) q = q\<lparr>mSuffixAssetId := mSuffixAssetId p, mSuffixAssetHash := mSuffixAssetHash p\<rparr>"
    using assms z [of "mPrefixAssetId p"] z [of "mPrefixSecondaryAssetId p"] z [of "mSuffixAssetId p"]
    by (auto simp: wf_part_def SetRigblock_def SetPrefix_def SetSuffix_def Let_def)
qed

lemma ucast_u16_back: "ucast (ucast (w :: u16) :: u32) = w"
  by (rule bit_word_eqI) (simp add: bit_simps)

lemma to_number_u32_u16: "ucast (to_number_u32 10 (decimal (unat (w :: u16)))) = w"
proof -
  have "unat (ucast w :: u32) = unat w"
    using unsigned_less [of w, where ?'a = nat] by (simp add: unsigned_ucast_eq take_bit_nat_eq_self)
  then show ?thesis using to_number_decimal(3) [of "ucast w"] by (simp add: ucast_u16_back)
qed

lemma Part_item_element:
  "xml_laws X \<Longrightarrow> Part_item X p = XElement ''part'' [] (text_nodes (part_texts p))"
  using add_texts_element [of X "part_texts p" "''part''" "[]" "[]"] by (simp add: Part_item_def xml_laws_def)

lemma part_texts_plain: "plain_texts (part_texts p)"
  by (simp add: part_texts_def flag_text decimal_text plain_name_simps)

interpretation part_store: stored "\<lambda>X p. Some (Part_item X p)" "\<lambda>X node. Some (Part_of_node X node)" wf_part "\<lambda>p. p"
proof
  fix X p assume X: "xml_laws X" and p: "wf_part p"
  let ?e = "XElement ''part'' [] (text_nodes (part_texts p))"
  have a: "again ?e = XElement ''part'' [] (map again (text_nodes (part_texts p)))"
    by (rule again_elements) (rule plain_text_nodes [OF part_texts_plain])
  have "Part_of_node X (again ?e) = p" unfolding a
    by (simp add: Part_of_node_def Part_Read_def get_file_texts [OF X] part_texts_def flag_text xml_simps [OF X]
        no_nul_decimal decimal_text to_number_decimal to_number_u32_u16 wf_part_assets [OF p] part_zero_def)
  moreover have "plain_node ?e" by (rule plain_text_element [OF _ part_texts_plain]) (simp add: plain_name_simps)
  ultimately show "\<exists>v. Some (Part_item X p) = Some v \<and> plain_node v \<and> Some (Part_of_node X (again v)) = Some p"
    by (simp add: Part_item_element [OF X])
qed

lemma Parts_Write_element:
  assumes "xml_laws X"
  shows "Parts_Write X items (XElement n as cs) = XElement n as (cs @ [XElement ''parts'' [] (map (Part_item X) items)])"
proof -
  have "fold (Part_Write X) items (XElement m bs ds) = XElement m bs (ds @ map (Part_item X) items)" for m bs ds
    using assms by (induction items arbitrary: ds) (simp_all add: Part_Write_def xml_laws_def)
  then show ?thesis using assms by (simp add: Parts_Write_def xml_laws_def)
qed

lemma Parts_Read_element:
  "xml_laws X \<Longrightarrow> find (named ''parts'') cs = Some (XElement m bs ds) \<Longrightarrow>
     Parts_Read X (XElement n as cs) items = items @ map (Part_of_node X) ds"
  by (simp add: Parts_Read_def xml_laws_def)

lemma parts_read_back:
  assumes "xml_laws X" and "list_all wf_part items"
  shows "\<forall>v \<in> set (map (Part_item X) items). plain_node v"
    "map (Part_of_node X) (map again (map (Part_item X) items)) = items"
proof -
  have p: "plain_node (Part_item X p)" "Part_of_node X (again (Part_item X p)) = p" if "p \<in> set items" for p
    using part_store.parse_item [OF assms(1), of p] assms(2) that by (simp_all add: list_all_iff)
  then show "\<forall>v \<in> set (map (Part_item X) items). plain_node v" by simp
  show "map (Part_of_node X) (map again (map (Part_item X) items)) = items" using p(2) by (simp add: comp_def map_idI)
qed

subsection \<open>Parts sent to the web interface\<close>

lemma GetUint_JNum:
  "GetUint (JNum (a :: u32)) = Some a" "map_option ucast (GetUint (JNum (b :: u16))) = Some b"
  "map_option ucast (GetUint (JNum (c :: u8))) = Some c"
proof -
  have l: "(ucast w :: u64) < 2 ^ 32" if "LENGTH('a) \<le> 32" for w :: "'a::len word"
    using that by (subst less_2p_iff_bits) (auto simp: bit_simps dest: bit_imp_le_length)
  have u: "(ucast (ucast w :: u64) :: u32) = ucast w" "ucast (ucast w :: u32) = w"
    if "LENGTH('a) \<le> 32" for w :: "'a::len word"
    using that by (auto intro!: bit_word_eqI simp: bit_simps dest: bit_imp_le_length)
  show "GetUint (JNum a) = Some a" "map_option ucast (GetUint (JNum b)) = Some b"
    "map_option ucast (GetUint (JNum c)) = Some c"
    using l [of a] l [of b] l [of c] by (simp_all add: GetUint_def JNum_def u)
qed

text \<open>
  The JSON of a part keeps what the web interface edits (cost, level, rarity, market status,
  usage and the four assets with their hashes) and loses the creation date, the creature that
  wears the part, its status and its flair, which come back as zero.
\<close>

lemma part_json_roundtrip:
  assumes "json_laws J" and "wf_part p"
  shows "\<exists>v. Part_WriteJson J p i False = Some v \<and>
     Part_of_json J v = Some (p\<lparr>mTimestamp := 0, mEquippedToCreatureId := 0, mStatus := 0, mIsFlair := False\<rparr>)"
proof -
  define fs where "fs =
     [(''cost'', JNum (mCost p)), (''level'', JNum (mLevel p)), (''market_status'', JNum (mMarketStatus p)),
      (''rarity'', JNum (mRarity p)), (''usage'', JNum (mUsage p)), (''rigblock_asset_id'', JNum (mRigblockAssetId p)),
      (''prefix_asset_id'', JNum (mPrefixAssetId p)), (''prefix_secondary_asset_id'', JNum (mPrefixSecondaryAssetId p)),
      (''suffix_asset_id'', JNum (mSuffixAssetId p))]"
  have w: "Part_WriteJson J p i False = Some (JObject fs)"
    using assms(1) by (simp add: Part_WriteJson_def json_sets_object fs_def)
  have g: "json_GetUint J (JObject fs) ''cost'' = Some (mCost p)" "json_GetUint16 J (JObject fs) ''level'' = Some (mLevel p)"
    "json_GetUint8 J (JObject fs) ''market_status'' = Some (mMarketStatus p)"
    "json_GetUint8 J (JObject fs) ''rarity'' = Some (mRarity p)" "json_GetUint8 J (JObject fs) ''usage'' = Some (mUsage p)"
    "json_GetUint16 J (JObject fs) ''rigblock_asset_id'' = Some (mRigblockAssetId p)"
    "json_GetUint16 J (JObject fs) ''prefix_asset_id'' = Some (mPrefixAssetId p)"
    "json_GetUint16 J (JObject fs) ''prefix_secondary_asset_id'' = Some (mPrefixSecondaryAssetId p)"
    "json_GetUint16 J (JObject fs) ''suffix_asset_id'' = Some (mSuffixAssetId p)"
    unfolding json_get_defs member_or_laws [OF assms(1)] by (simp_all add: fs_def GetUint_JNum)
  have "Part_of_json J (JObject fs)
      = Some (p\<lparr>mTimestamp := 0, mEquippedToCreatureId := 0, mStatus := 0, mIsFlair := False\<rparr>)"
    by (simp add: Part_of_json_def Part_ReadJson_def g wf_part_assets [OF assms(2)] part_zero_def)
  with w show ?thesis by blast
qed

end
