(* ===== verification/Creatures.thy ===== *)
theory Creatures
  imports Xml
begin

text \<open>
  Creatures: \<open>source/SporeNet/Creature.{h,cpp}\<close> (the XML side; the JSON side of the templates needs
  the library's floating-point numbers).  The templates are a database by name, the creatures of a
  player copies that refer to one.  Floating-point numbers are their bit patterns and the
  conversions of the C library between them and text are the record \<open>floatlib\<close>, a parameter.
\<close>

record floatlib =
  strtof :: "string \<Rightarrow> u32"
  strtod :: "string \<Rightarrow> u64"
  float_text :: "u32 \<Rightarrow> string"
  double_text :: "u64 \<Rightarrow> string"

subsection \<open>Enumerations\<close>

datatype CreatureType = Bio | Cyber | Plasma | Necro | Chrono | CT_All | CT_Unknown

definition from_string_type :: "string \<Rightarrow> CreatureType" where
  "from_string_type src =
     (if string_iequals src ''bio'' then Bio else if string_iequals src ''cyber'' then Cyber
      else if string_iequals src ''plasma'' then Plasma else if string_iequals src ''necro'' then Necro
      else if string_iequals src ''chrono'' then Chrono else if string_iequals src ''all'' then CT_All
      else CT_Unknown)"

fun to_string_type :: "CreatureType \<Rightarrow> string" where
  "to_string_type Bio = ''bio''" | "to_string_type Cyber = ''cyber''" | "to_string_type Plasma = ''plasma''"
| "to_string_type Necro = ''necro''" | "to_string_type Chrono = ''chrono''" | "to_string_type CT_All = ''all''"
| "to_string_type CT_Unknown = ''unknown''"

datatype CreatureClass = Ravager | Sentinel | Tempest | CC_All | CC_Unknown

definition from_string_class :: "string \<Rightarrow> CreatureClass" where
  "from_string_class src =
     (if string_iequals src ''ravager'' then Ravager else if string_iequals src ''sentinel'' then Sentinel
      else if string_iequals src ''tempest'' then Tempest else if string_iequals src ''all'' then CC_All
      else CC_Unknown)"

fun to_string_class :: "CreatureClass \<Rightarrow> string" where
  "to_string_class Ravager = ''ravager''" | "to_string_class Sentinel = ''sentinel''"
| "to_string_class Tempest = ''tempest''" | "to_string_class CC_All = ''all''" | "to_string_class CC_Unknown = ''unknown''"

datatype CreatureParts = CP_All | NoHands | NoFeet | CP_Unknown

definition from_string_parts :: "string \<Rightarrow> CreatureParts" where
  "from_string_parts src =
     (if string_iequals src ''no_feet'' then NoFeet else if string_iequals src ''no_hands'' then NoHands
      else if string_iequals src ''all'' then CP_All else CP_Unknown)"

fun to_string_parts :: "CreatureParts \<Rightarrow> string" where
  "to_string_parts NoFeet = ''no_feet''" | "to_string_parts NoHands = ''no_hands''"
| "to_string_parts CP_All = ''all''" | "to_string_parts CP_Unknown = ''unknown''"

subsection \<open>Statistics in strings\<close>

record Stats =
  statName :: string
  maxValue :: u32
  currentValue :: u32

definition stats_text :: "Stats list \<Rightarrow> string" where
  "stats_text stats =
     concat (map (\<lambda>s. statName s @ '','' @ decimal (unat (maxValue s)) @ '','' @ decimal (unat (currentValue s)) @ '';'') stats)"

text \<open>The loop that skips entries of fewer than three fields.\<close>

definition parse_stat :: "string list \<Rightarrow> Stats" where
  "parse_stat d = \<lparr>statName = d ! 0, maxValue = to_number_u32 10 (d ! 1), currentValue = to_number_u32 10 (d ! 2)\<rparr>"

definition parse_stats :: "string \<Rightarrow> Stats list" where
  "parse_stats s =
     map parse_stat (filter (\<lambda>d. \<not> length d < 3)
       (map (\<lambda>e. explode_string e (CHR '','') (- 1)) (filter (\<lambda>e. e \<noteq> []) (explode_string s (CHR '';'') (- 1)))))"

text \<open>
  The loop without that test: \<open>statData[1]\<close> and \<open>statData[2]\<close> of a shorter entry are out of the
  range of the vector, for which the model has no value.
\<close>

definition parse_stats_unchecked :: "string \<Rightarrow> Stats list option" where
  "parse_stats_unchecked s =
     each (\<lambda>d stats. if length d < 3 then None else Some (stats @ [parse_stat d]))
       (map (\<lambda>e. explode_string e (CHR '','') (- 1)) (filter (\<lambda>e. e \<noteq> []) (explode_string s (CHR '';'') (- 1)))) []"

subsection \<open>Template creatures\<close>

record TemplateCreature =
  tc_stats :: "Stats list"
  tc_ability :: "u32 list"
  tc_nameLocaleId :: string
  tc_textLocaleId :: string
  tc_name :: string
  tc_baseWeaponDamageMin :: u64
  tc_baseWeaponDamageMax :: u64
  tc_gearScore :: u32
  tc_noun :: u32
  tc_type :: CreatureType
  tc_class :: CreatureClass
  tc_equipableParts :: CreatureParts

text \<open>\<open>None\<close> when the second loop over the statistics runs out of range.\<close>

definition TemplateCreature_Read :: "xmllib \<Rightarrow> floatlib \<Rightarrow> xnode \<Rightarrow> TemplateCreature \<Rightarrow> TemplateCreature option" where
  "TemplateCreature_Read X F node t =
     (let s = xml_get_text_node X node; statsString = s ''stats_template'';
          t1 = t\<lparr>tc_noun := hash_id (xml_attribute X node ''noun''),
                 tc_nameLocaleId := s ''name_locale_id'', tc_textLocaleId := s ''text_locale_id'',
                 tc_name := s ''name'', tc_type := from_string_type (s ''type_a''),
                 tc_baseWeaponDamageMin := strtod F (s ''weapon_min_damage''),
                 tc_baseWeaponDamageMax := strtod F (s ''weapon_max_damage''),
                 tc_gearScore := strtof F (s ''gear_score''), tc_class := from_string_class (s ''class''),
                 tc_equipableParts := from_string_parts (s ''creature_parts''),
                 tc_stats := parse_stats statsString\<rparr>
      in do { stats \<leftarrow> parse_stats_unchecked statsString; Some (t1\<lparr>tc_stats := stats\<rparr>) })"

definition template_texts :: "floatlib \<Rightarrow> TemplateCreature \<Rightarrow> (string \<times> string) list" where
  "template_texts F t =
     [(''name_locale_id'', tc_nameLocaleId t), (''text_locale_id'', tc_textLocaleId t), (''name'', tc_name t),
      (''type_a'', to_string_type (tc_type t)), (''weapon_min_damage'', double_text F (tc_baseWeaponDamageMin t)),
      (''weapon_max_damage'', double_text F (tc_baseWeaponDamageMax t)), (''gear_score'', float_text F (tc_gearScore t)),
      (''class'', to_string_class (tc_class t)), (''creature_parts'', to_string_parts (tc_equipableParts t)),
      (''stats_template'', stats_text (tc_stats t))]"

definition ability_texts :: "u32 list \<Rightarrow> (string \<times> string) list" where
  "ability_texts ab =
     [(''ability_basic'', decimal (unat (ab ! 0))), (''ability_special_1'', decimal (unat (ab ! 1))),
      (''ability_special_2'', decimal (unat (ab ! 2))), (''ability_random'', decimal (unat (ab ! 3))),
      (''ability_passive'', decimal (unat (ab ! 4)))]"

definition TemplateCreature_WriteApi :: "xmllib \<Rightarrow> floatlib \<Rightarrow> TemplateCreature \<Rightarrow> bool \<Rightarrow> xnode \<Rightarrow> xnode" where
  "TemplateCreature_WriteApi X F t include_abilities node =
     (let node1 = add_texts X (template_texts F t) node in
      if include_abilities then
        xml_append X (add_texts X (ability_texts (tc_ability t)) node1)
          (add_texts X (map (\<lambda>value. (''id'', decimal (unat value))) (tc_ability t)) (xml_element X ''ability''))
      else node1)"

definition Template_GetAbility :: "TemplateCreature \<Rightarrow> u8 \<Rightarrow> u32" where
  "Template_GetAbility t index = (if unat index < length (tc_ability t) then tc_ability t ! unat index else 0)"

text \<open>The database: names with their templates, in the order in which the container is walked.\<close>

type_synonym templates = "(string \<times> TemplateCreature) list"

definition GetByName :: "templates \<Rightarrow> string \<Rightarrow> TemplateCreature option" where
  "GetByName db name = map_of db name"

definition GetByNoun :: "templates \<Rightarrow> u32 \<Rightarrow> TemplateCreature option" where
  "GetByNoun db noun = find (\<lambda>t. tc_noun t = noun) (map snd db)"

subsection \<open>Creatures\<close>

record AbilityStat =
  ab_key :: string
  ab_token :: string
  ab_value :: string

record Creature =
  c_abilityStats :: "AbilityStat list"
  c_stats :: "Stats list"
  c_template :: "TemplateCreature option"
  c_pngLargeUrl :: string
  c_pngThumbUrl :: string
  c_creatorId :: u64
  c_gearScore :: u32
  c_itemPoints :: u32
  c_id :: u32
  c_version :: u32

text \<open>The defaults: 0x43960000 is the number 300.\<close>

definition Creature_new :: "TemplateCreature option \<Rightarrow> Creature" where
  "Creature_new t = \<lparr>c_abilityStats = [], c_stats = [], c_template = t, c_pngLargeUrl = [], c_pngThumbUrl = [],
     c_creatorId = 0, c_gearScore = 0, c_itemPoints = 0x43960000, c_id = 0, c_version = 0\<rparr>"

definition Creature_Read :: "xmllib \<Rightarrow> floatlib \<Rightarrow> templates \<Rightarrow> xnode \<Rightarrow> Creature \<Rightarrow> Creature" where
  "Creature_Read X F db node c =
     (let s = xml_get_text_node X node in
      c\<lparr>c_template := GetByName db (xml_attribute X node ''template''),
        c_id := to_number_u32 10 (s ''id''), c_version := to_number_u32 10 (s ''version''),
        c_gearScore := strtof F (s ''gear_score''), c_itemPoints := strtof F (s ''item_points''),
        c_pngLargeUrl := s ''png_large_url'', c_pngThumbUrl := s ''png_thumb_url''\<rparr>)"

definition creature_texts :: "floatlib \<Rightarrow> Creature \<Rightarrow> (string \<times> string) list" where
  "creature_texts F c =
     [(''id'', decimal (unat (c_id c))), (''version'', decimal (unat (c_version c))),
      (''gear_score'', float_text F (c_gearScore c)), (''item_points'', float_text F (c_itemPoints c)),
      (''png_large_url'', c_pngLargeUrl c), (''png_thumb_url'', c_pngThumbUrl c)]"

text \<open>\<open>mTemplate->GetName()\<close> is not guarded: without a template the model has no value.\<close>

definition Creature_Write :: "xmllib \<Rightarrow> floatlib \<Rightarrow> Creature \<Rightarrow> xnode \<Rightarrow> xnode option" where
  "Creature_Write X F c node = do {
     t \<leftarrow> c_template c;
     Some (add_texts X (creature_texts F c) (xml_set_attribute X node ''template'' (c_str (tc_name t))))
   }"

definition Creature_WriteApi :: "xmllib \<Rightarrow> floatlib \<Rightarrow> Creature \<Rightarrow> bool \<Rightarrow> bool \<Rightarrow> bool \<Rightarrow> xnode \<Rightarrow> xnode" where
  "Creature_WriteApi X F c profile_data include_abilities include_parts node =
     (case c_template c of
        None \<Rightarrow> node
      | Some t \<Rightarrow>
          (let node1 =
             (if profile_data then
                add_texts X [(''creator_id'', to_string_i64 (c_creatorId c)), (''stats'', ''TODO'')]
                  (xml_remove_child X (TemplateCreature_WriteApi X F t include_abilities node) ''stats_template'')
              else
                add_texts X
                  [(''id'', decimal (unat (c_id c))), (''name'', tc_name t), (''png_large_url'', c_pngLargeUrl c),
                   (''png_thumb_url'', c_pngThumbUrl c), (''noun_id'', decimal (unat (tc_noun t))),
                   (''version'', decimal (unat (c_version c))), (''gear_score'', float_text F (c_gearScore c)),
                   (''item_points'', float_text F (c_itemPoints c))] node)
           in if include_parts then xml_append X node1 (xml_element X ''parts'') else node1))"

definition Creature_Update :: "u32 \<Rightarrow> u32 \<Rightarrow> string \<Rightarrow> string \<Rightarrow> Creature \<Rightarrow> Creature" where
  "Creature_Update gearScore itemPoints stats abilityStats c =
     c\<lparr>c_gearScore := gearScore, c_itemPoints := itemPoints, c_stats := parse_stats stats,
       c_abilityStats := map (\<lambda>d. \<lparr>ab_key = [], ab_token = d ! 0, ab_value = d ! 1\<rparr>)
         (filter (\<lambda>d. \<not> length d < 2)
           (map (\<lambda>e. explode_string e (CHR ''!'') (- 1))
             (filter (\<lambda>e. e \<noteq> []) (explode_string abilityStats (CHR '';'') (- 1)))))\<rparr>"

definition Creature_GetName :: "Creature \<Rightarrow> string" where
  "Creature_GetName c = (case c_template c of None \<Rightarrow> [] | Some t \<Rightarrow> tc_name t)"

definition Creature_GetNoun :: "Creature \<Rightarrow> u32" where
  "Creature_GetNoun c = (case c_template c of None \<Rightarrow> 0 | Some t \<Rightarrow> tc_noun t)"

definition Creature_GetAbility :: "Creature \<Rightarrow> u8 \<Rightarrow> u32" where
  "Creature_GetAbility c index = (case c_template c of None \<Rightarrow> 0 | Some t \<Rightarrow> Template_GetAbility t index)"

definition Creature_GetType :: "Creature \<Rightarrow> CreatureType" where
  "Creature_GetType c = (case c_template c of None \<Rightarrow> CT_Unknown | Some t \<Rightarrow> tc_type t)"

definition Creature_GetClass :: "Creature \<Rightarrow> CreatureClass" where
  "Creature_GetClass c = (case c_template c of None \<Rightarrow> CC_Unknown | Some t \<Rightarrow> tc_class t)"

definition Creature_GetEquipableParts :: "Creature \<Rightarrow> CreatureParts" where
  "Creature_GetEquipableParts c = (case c_template c of None \<Rightarrow> CP_Unknown | Some t \<Rightarrow> tc_equipableParts t)"

subsection \<open>The creatures of a player\<close>

type_synonym creatures = "Creature list"

text \<open>The element of a creature and the reader's view of a node: only \<open>creature\<close> elements count.\<close>

definition Creature_item :: "xmllib \<Rightarrow> floatlib \<Rightarrow> Creature \<Rightarrow> xnode option" where
  "Creature_item X F c = Creature_Write X F c (xml_element X ''creature'')"

definition Creature_of_node :: "xmllib \<Rightarrow> floatlib \<Rightarrow> templates \<Rightarrow> xnode \<Rightarrow> Creature option" where
  "Creature_of_node X F db node =
     (if xml_name X node = ''creature'' then Some (Creature_Read X F db node (Creature_new None)) else None)"

definition Creatures_Read :: "xmllib \<Rightarrow> floatlib \<Rightarrow> templates \<Rightarrow> xnode \<Rightarrow> creatures \<Rightarrow> creatures" where
  "Creatures_Read X F db node cs =
     (case xml_child X node ''creatures'' of
        None \<Rightarrow> cs
      | Some v \<Rightarrow> cs @ List.map_filter (Creature_of_node X F db) (xml_children X v))"

definition Creatures_Write :: "xmllib \<Rightarrow> floatlib \<Rightarrow> creatures \<Rightarrow> xnode \<Rightarrow> xnode option" where
  "Creatures_Write X F cs node = do {
     v \<leftarrow> each (append_item X (\<lambda>X c. Creature_item X F c)) cs (xml_element X ''creatures'');
     Some (xml_append X node v)
   }"

definition Creatures_WriteApi :: "xmllib \<Rightarrow> floatlib \<Rightarrow> creatures \<Rightarrow> xnode \<Rightarrow> xnode" where
  "Creatures_WriteApi X F cs node =
     xml_append X node
       (fold (\<lambda>c v. xml_append X v (Creature_WriteApi X F c False False False (xml_element X ''creature''))) cs
         (xml_element X ''creatures''))"

definition Creatures_Add :: "templates \<Rightarrow> u32 \<Rightarrow> creatures \<Rightarrow> u32 \<times> creatures" where
  "Creatures_Add db templateId cs =
     (case GetByNoun db templateId of
        None \<Rightarrow> (0, cs)
      | Some t \<Rightarrow>
          (let i = (if cs = [] then 1 else c_id (last cs) + 1);
               cs' = cs @ [(Creature_new (Some t))\<lparr>c_version := 1, c_id := i\<rparr>]
           in (c_id (last cs'), cs')))"

definition Creatures_Get :: "creatures \<Rightarrow> u64 \<Rightarrow> Creature option" where
  "Creatures_Get cs creatureId = find (\<lambda>c. ucast (c_id c) = creatureId) cs"

subsection \<open>Enumerations as text\<close>

lemma string_iequals_trans: "string_iequals s t \<Longrightarrow> string_iequals s u \<Longrightarrow> string_iequals t u"
  unfolding string_iequals_def
  by (induction s arbitrary: t u) (auto simp: list_all2_Cons1)

lemma string_iequals_length: "string_iequals s t \<Longrightarrow> length s = length t"
  by (simp add: string_iequals_def list_all2_lengthD)

lemma from_string_to_string:
  "from_string_type (to_string_type t) = t" "from_string_class (to_string_class c) = c"
  "from_string_parts (to_string_parts p) = p"
proof -
  have "list_all (\<lambda>t. from_string_type (to_string_type t) = t) [Bio, Cyber, Plasma, Necro, Chrono, CT_All, CT_Unknown]"
    by code_simp
  then show "from_string_type (to_string_type t) = t" by (cases t) simp_all
  have "list_all (\<lambda>t. from_string_class (to_string_class t) = t) [Ravager, Sentinel, Tempest, CC_All, CC_Unknown]"
    by code_simp
  then show "from_string_class (to_string_class c) = c" by (cases c) simp_all
  have "list_all (\<lambda>t. from_string_parts (to_string_parts t) = t) [CP_All, NoHands, NoFeet, CP_Unknown]"
    by code_simp
  then show "from_string_parts (to_string_parts p) = p" by (cases p) simp_all
qed

lemma string_iequals_eq: "string_iequals s t \<Longrightarrow> string_iequals s u = string_iequals t u"
proof -
  have sym: "string_iequals t s" if "string_iequals s t" for s t
    using that unfolding string_iequals_def by (auto simp: list_all2_conv_all_nth)
  assume "string_iequals s t"
  then show ?thesis using string_iequals_trans sym by blast
qed

text \<open>
  The three creature enumerations survive being written as text, whatever the case of the
  letters of the text read back.
\<close>

lemma creature_enums_roundtrip:
  "(string_iequals s (to_string_type t) \<longrightarrow> from_string_type s = t) \<and>
   (string_iequals s (to_string_class c) \<longrightarrow> from_string_class s = c) \<and>
   (string_iequals s (to_string_parts p) \<longrightarrow> from_string_parts s = p)"
proof (intro conjI impI)
  assume h: "string_iequals s (to_string_type t)"
  have "from_string_type s = from_string_type (to_string_type t)"
    unfolding from_string_type_def string_iequals_eq [OF h] by (rule refl)
  then show "from_string_type s = t" by (simp only: from_string_to_string)
next
  assume h: "string_iequals s (to_string_class c)"
  have "from_string_class s = from_string_class (to_string_class c)"
    unfolding from_string_class_def string_iequals_eq [OF h] by (rule refl)
  then show "from_string_class s = c" by (simp only: from_string_to_string)
next
  assume h: "string_iequals s (to_string_parts p)"
  have "from_string_parts s = from_string_parts (to_string_parts p)"
    unfolding from_string_parts_def string_iequals_eq [OF h] by (rule refl)
  then show "from_string_parts s = p" by (simp only: from_string_to_string)
qed

subsection \<open>Statistics\<close>

lemma explode_unlimited: "l < 0 \<Longrightarrow> explode_string s d l = explode_string s d (- 1)"
proof (induction "length s" arbitrary: s l rule: less_induct)
  case less
  show ?case
  proof (cases "d \<in> set s")
    case True
    define r where "r = tl (dropWhile (\<lambda>c. c \<noteq> d) s)"
    have "length s = length (takeWhile (\<lambda>c. c \<noteq> d) s) + 1 + length r"
      using arg_cong [OF takeWhile_split [OF True], of length] by (simp add: r_def)
    then have "length r < length s" by simp
    then have "explode_string r d (l - 1) = explode_string r d (- 1)" "explode_string r d (- 2) = explode_string r d (- 1)"
      using less.prems by (auto intro!: less.hyps)
    moreover have "explode_string s d k = takeWhile (\<lambda>c. c \<noteq> d) s # explode_string r d (k - 1)" if "k < 0" for k
      using True that by (subst explode_string.simps) (simp add: r_def)
    ultimately show ?thesis using less.prems by simp
  next
    case False
    then have "explode_string s d k = [s]" for k by (subst explode_string.simps) simp
    then show ?thesis by simp
  qed
qed

lemma explode_step:
  assumes "d \<notin> set a"
  shows "explode_string (a @ d # s) d (- 1) = a # explode_string s d (- 1)"
proof -
  have "takeWhile (\<lambda>c. c \<noteq> d) (a @ d # s) = a" "dropWhile (\<lambda>c. c \<noteq> d) (a @ d # s) = d # s"
    using assms by (induction a) auto
  then show ?thesis using explode_unlimited [of "- 2" s d] by (subst explode_string.simps) simp
qed

lemma explode_last: "d \<notin> set a \<Longrightarrow> explode_string a d (- 1) = [a]"
  by (subst explode_string.simps) simp

lemma parse_stats_equation:
  "parse_stats_unchecked s =
     (if \<forall>e \<in> set (explode_string s (CHR '';'') (- 1)). e \<noteq> [] \<longrightarrow> length (explode_string e (CHR '','') (- 1)) \<ge> 3
      then Some (parse_stats s) else None)"
proof -
  have "each (\<lambda>d stats. if length d < 3 then None else Some (stats @ [parse_stat d])) ds acc =
      (if \<forall>d \<in> set ds. length d \<ge> 3 then Some (acc @ map parse_stat (filter (\<lambda>d. \<not> length d < 3) ds)) else None)" for ds acc
    by (induction ds arbitrary: acc) auto
  then show ?thesis by (auto simp: parse_stats_unchecked_def parse_stats_def)
qed

text \<open>
  The statistics of a creature are parsed twice.  The loop without the length test agrees
  with the other exactly when every entry that is not empty has three fields; on a shorter entry it
  leaves the range of the vector.
\<close>

lemma short_stat_out_of_range:
  "parse_stats_unchecked s =
     (if \<forall>e \<in> set (explode_string s (CHR '';'') (- 1)). e = [] \<or> \<not> length (explode_string e (CHR '','') (- 1)) < 3
      then Some (parse_stats s) else None)"
  using parse_stats_equation [of s] by (auto simp: not_less)

definition stat_entry :: "Stats \<Rightarrow> string" where
  "stat_entry s = statName s @ '','' @ decimal (unat (maxValue s)) @ '','' @ decimal (unat (currentValue s))"

lemma decimal_no_sep: "CHR '','' \<notin> set (decimal n)" "CHR '';'' \<notin> set (decimal n)"
proof -
  have "digit_value c < 10" if "c \<in> set (decimal n)" for c using decimal_chars [OF that] digit_char(1) by auto
  moreover have "digit_value (CHR '','') = 36" "digit_value (CHR '';'') = 36" by (simp_all add: digit_value_def)
  ultimately show "CHR '','' \<notin> set (decimal n)" "CHR '';'' \<notin> set (decimal n)" by force+
qed

lemma stat_entry_fields:
  assumes "CHR '','' \<notin> set (statName s)"
  shows "explode_string (stat_entry s) (CHR '','') (- 1) =
    [statName s, decimal (unat (maxValue s)), decimal (unat (currentValue s))]"
proof -
  let ?d = "CHR '',''"
  have e: "stat_entry s = statName s @ ?d # (decimal (unat (maxValue s)) @ ?d # decimal (unat (currentValue s)))"
    by (simp add: stat_entry_def)
  show ?thesis unfolding e explode_step [OF assms] explode_step [OF decimal_no_sep(1)] explode_last [OF decimal_no_sep(1)]
    by (rule refl)
qed

lemma stats_text_entries:
  assumes "\<forall>s \<in> set ss. CHR '';'' \<notin> set (statName s)"
  shows "explode_string (stats_text ss) (CHR '';'') (- 1) = map stat_entry ss @ [[]]"
  using assms
proof (induction ss)
  case Nil
  then show ?case using explode_last [of "CHR '';''" "[]"] by (simp add: stats_text_def)
next
  case (Cons s ss)
  then have "CHR '';'' \<notin> set (stat_entry s)" by (simp add: stat_entry_def decimal_no_sep)
  moreover have "stats_text (s # ss) = stat_entry s @ CHR '';'' # stats_text ss" by (simp add: stats_text_def stat_entry_def)
  ultimately show ?case using Cons explode_step [of "CHR '';''" "stat_entry s" "stats_text ss"] by simp
qed

text \<open>
  The statistics written into a string are parsed back, by both loops, when no name contains
  the separators.
\<close>

lemma stats_roundtrip:
  assumes "\<forall>s \<in> set ss. CHR '','' \<notin> set (statName s) \<and> CHR '';'' \<notin> set (statName s)"
  shows "parse_stats (stats_text ss) = ss \<and> parse_stats_unchecked (stats_text ss) = Some ss"
proof -
  have ne: "stat_entry s \<noteq> []" for s by (simp add: stat_entry_def)
  have f: "parse_stat (explode_string (stat_entry s) (CHR '','') (- 1)) = s"
    "length (explode_string (stat_entry s) (CHR '','') (- 1)) = 3" if "s \<in> set ss" for s
    using assms that stat_entry_fields [of s] by (simp_all add: parse_stat_def to_number_decimal)
  have e: "explode_string (stats_text ss) (CHR '';'') (- 1) = map stat_entry ss @ [[]]"
    using stats_text_entries assms by simp
  then have "parse_stats (stats_text ss) = map (\<lambda>s. parse_stat (explode_string (stat_entry s) (CHR '','') (- 1))) ss"
    using f(2) by (simp add: parse_stats_def ne filter_map comp_def)
  then have p: "parse_stats (stats_text ss) = ss" using f(1) by (simp add: map_idI)
  then show ?thesis using e f(2) by (simp add: parse_stats_equation)
qed

subsection \<open>Storing creatures\<close>

text \<open>
  What storage keeps of a creature, and the creatures it can keep: those whose template is known.  The
  text of a float has no white space (\<open>std::to_string\<close>).
\<close>

definition floats_print :: "floatlib \<Rightarrow> bool" where
  "floats_print F \<longleftrightarrow> (\<forall>w. float_text F w \<noteq> [] \<and> printable (float_text F w) \<and> CHR '' '' \<notin> set (float_text F w))"

definition stored_creature :: "floatlib \<Rightarrow> Creature \<Rightarrow> Creature" where
  "stored_creature F c =
     c\<lparr>c_abilityStats := [], c_stats := [], c_creatorId := 0, c_gearScore := strtof F (float_text F (c_gearScore c)),
       c_itemPoints := strtof F (float_text F (c_itemPoints c)), c_pngLargeUrl := kept_text (c_pngLargeUrl c),
       c_pngThumbUrl := kept_text (c_pngThumbUrl c)\<rparr>"

definition storable_creature :: "templates \<Rightarrow> Creature \<Rightarrow> bool" where
  "storable_creature db c \<longleftrightarrow>
     plain_text (c_pngLargeUrl c) \<and> plain_text (c_pngThumbUrl c) \<and>
     (case c_template c of None \<Rightarrow> False | Some t \<Rightarrow> printable (tc_name t) \<and> GetByName db (tc_name t) = Some t)"

lemma printable_plain: "printable s \<Longrightarrow> plain_text s"
  by (auto simp: printable_def plain_text_def)

lemma float_kept:
  assumes "floats_print F"
  shows "plain_text (float_text F w)" "c_str (float_text F w) = float_text F w" "kept_text (float_text F w) = float_text F w"
proof -
  have p: "float_text F w \<noteq> []" "printable (float_text F w)" "CHR '' '' \<notin> set (float_text F w)"
    using assms by (simp_all add: floats_print_def)
  show "plain_text (float_text F w)" using p(2) by (rule printable_plain)
  show "c_str (float_text F w) = float_text F w" using plain_no_nul(2) [OF p(2)] by (rule c_str_no_nul)
  have n: "c \<notin> {CHR 0x09, CHR 0x0A, CHR 0x0D}" if "c \<in> set (float_text F w)" for c using p(2) that by (force simp: printable_def)
  obtain c s where cs: "float_text F w = c # s" using p(1) by (cases "float_text F w") auto
  have "\<not> blank (float_text F w)" using n [of c] p(3) by (auto simp: cs blank_Cons)
  then show "kept_text (float_text F w) = float_text F w" using n by (intro kept_text_same) auto
qed

interpretation creature_store: stored "\<lambda>X. Creature_item X F" "\<lambda>X. Creature_of_node X F db"
    "\<lambda>c. floats_print F \<and> storable_creature db c" "stored_creature F"
  for F db
proof
  fix X c assume X: "xml_laws X" and Fc: "floats_print F \<and> storable_creature db c"
  then obtain t where t: "c_template c = Some t" "printable (tc_name t)" "GetByName db (tc_name t) = Some t"
    by (auto simp: storable_creature_def split: option.splits)
  let ?as = "[(''template'', tc_name t)]"
  let ?e = "XElement ''creature'' ?as (text_nodes (creature_texts F c))"
  note f = float_kept [OF conjunct1 [OF Fc]]
  have p: "plain_texts (creature_texts F c)"
    using Fc by (simp add: creature_texts_def decimal_text f plain_name_simps storable_creature_def)
  have i: "Creature_item X F c = Some ?e"
    using t add_texts_element [OF X, of "creature_texts F c" "''creature''" ?as "[]"]
    by (simp add: Creature_item_def Creature_Write_def xml_simps [OF X] plain_no_nul)
  have a: "again ?e = XElement ''creature'' ?as (map again (text_nodes (creature_texts F c)))"
    by (rule again_elements) (rule plain_text_nodes [OF p])
  have "Creature_Read X F db (again ?e) (Creature_new None) = stored_creature F c"
    unfolding a using t Fc
    by (simp add: Creature_Read_def xml_simps [OF X] get_file_texts [OF X] creature_texts_def stored_creature_def Creature_new_def
        no_nul_decimal decimal_text f to_number_decimal storable_creature_def plain_no_nul)
  then have "Creature_of_node X F db (again ?e) = Some (stored_creature F c)" by (simp add: Creature_of_node_def a xml_simps [OF X])
  moreover have "plain_node ?e" using plain_text_nodes [OF p] t(2) by (simp add: plain_name_simps)
  ultimately show "\<exists>v. Creature_item X F c = Some v \<and> plain_node v \<and> Creature_of_node X F db (again v) = Some (stored_creature F c)"
    using i by blast
qed

text \<open>The written creatures, read back from a document that has them.\<close>

lemma creatures_stored:
  assumes "xml_laws X" and "floats_print F \<or> cs = []" and "\<forall>c \<in> set cs. storable_creature db c"
  shows "\<exists>ws. (\<forall>n as vs. Creatures_Write X F cs (XElement n as vs) = Some (XElement n as (vs @ [XElement ''creatures'' [] ws]))) \<and>
    plain_node (XElement ''creatures'' [] ws) \<and>
    (\<forall>n as vs old. find (named ''creatures'') vs = Some (again (XElement ''creatures'' [] ws)) \<longrightarrow>
       Creatures_Read X F db (XElement n as vs) old = old @ map (stored_creature F) cs)"
proof -
  obtain ws where ws: "each (append_item X (\<lambda>X. Creature_item X F)) cs (XElement ''creatures'' [] []) = Some (XElement ''creatures'' [] ([] @ ws))"
    "\<forall>v \<in> set ws. plain_node v" "map (Creature_of_node X F db) (map again ws) = map (\<lambda>c. Some (stored_creature F c)) cs"
  proof -
    have "\<forall>c \<in> set cs. floats_print F \<and> storable_creature db c" using assms(2,3) by auto
    from creature_store.append_items [OF assms(1) this] that show thesis by blast
  qed
  note r = creature_store.kept_items [OF ws(3)]
  show ?thesis
    using ws(1) again_elements [OF ws(2), of "''creatures''" "[]"] r ws(2)
    by (intro exI [of _ ws]) (simp add: Creatures_Write_def Creatures_Read_def xml_simps [OF assms(1)] plain_name_simps)
qed

definition std_floats :: floatlib where
  "std_floats = \<lparr>strtof = to_number_u32 10, strtod = to_number_u64, float_text = (\<lambda>w. decimal (unat w)), double_text = (\<lambda>w. decimal (unat w))\<rparr>"

definition demo_template :: TemplateCreature where
  "demo_template = \<lparr>tc_stats = [], tc_ability = [1, 2, 3, 4, 5], tc_nameLocaleId = [], tc_textLocaleId = [], tc_name = ''ZrinAlpha'',
     tc_baseWeaponDamageMin = 1, tc_baseWeaponDamageMax = 1, tc_gearScore = 0, tc_noun = 576185321, tc_type = Plasma,
     tc_class = Ravager, tc_equipableParts = CP_All\<rparr>"

text \<open>
  Reading a creature whose template is unknown leaves it without one, and such a creature can
  never be saved again: writing a list of creatures fails exactly when one of them has no template.
\<close>

lemma unknown_template_breaks_saving:
  assumes "xml_laws X"
  shows "(Creatures_Write X F cs (XElement n as vs) = None \<longleftrightarrow> (\<exists>c \<in> set cs. c_template c = None)) \<and>
    (\<forall>node c. c_template (Creature_Read X F db node c) = None \<longleftrightarrow> xml_attribute X node ''template'' \<notin> fst ` set db)"
proof -
  have "each (append_item X (\<lambda>X. Creature_item X F)) cs v = None \<longleftrightarrow> (\<exists>c \<in> set cs. c_template c = None)" for v
  proof (induction cs arbitrary: v)
    case (Cons c cs)
    then show ?case
      by (cases "c_template c") (simp_all add: append_item_def Creature_item_def Creature_Write_def)
  qed simp
  then show ?thesis
    by (simp add: Creatures_Write_def bind_eq_None_conv Creature_Read_def GetByName_def map_of_eq_None_iff Let_def)
qed

subsection \<open>Creature numbers\<close>

definition ids_increase :: "creatures \<Rightarrow> bool" where
  "ids_increase cs \<longleftrightarrow> sorted_wrt (<) (0 # map (\<lambda>c. unat (c_id c)) cs)"

lemma Creatures_Get_found:
  assumes "ids_increase cs" and "c \<in> set cs"
  shows "Creatures_Get cs (ucast (c_id c)) = Some c"
proof -
  have "ucast a = (ucast b :: u64) \<longleftrightarrow> a = b" for a b :: u32
  proof
    assume "ucast a = (ucast b :: u64)"
    then have "ucast (ucast a :: u64) = (ucast (ucast b :: u64) :: u32)" by simp
    moreover have "ucast (ucast w :: u64) = w" for w :: u32 by (rule bit_word_eqI) (simp add: bit_simps)
    ultimately show "a = b" by simp
  qed simp
  moreover have "find (\<lambda>d. c_id d = c_id c) cs = Some c"
    using assms by (induction cs) (auto simp: ids_increase_def)
  ultimately show ?thesis by (simp add: Creatures_Get_def)
qed

text \<open>
  C36: New creatures get new numbers: while the last number is not the largest one, adding a
  creature of a known template keeps the numbers increasing (so distinct), returns a number that
  is not zero and under which the creature is found; an unknown template adds nothing.
\<close>

theorem creature_ids_stay_unique:
  assumes "ids_increase cs" and "cs = [] \<or> c_id (last cs) \<noteq> - 1" and "Creatures_Add db k cs = (i, cs')"
  shows "case GetByNoun db k of
      None \<Rightarrow> i = 0 \<and> cs' = cs
    | Some t \<Rightarrow> i \<noteq> 0 \<and> ids_increase cs' \<and> (\<exists>c. Creatures_Get cs' (ucast i) = Some c \<and> c_id c = i \<and> c_template c = Some t) \<and>
        (\<forall>c \<in> set cs. Creatures_Get cs' (ucast (c_id c)) = Some c)"
proof (cases "GetByNoun db k")
  case None
  then show ?thesis using assms(3) by (simp add: Creatures_Add_def)
next
  case (Some t)
  define j where "j = (if cs = [] then 1 else c_id (last cs) + 1)"
  let ?c = "(Creature_new (Some t))\<lparr>c_version := 1, c_id := j\<rparr>"
  have r: "i = j" "cs' = cs @ [?c]" using assms(3) Some by (auto simp: Creatures_Add_def j_def Let_def)
  have j: "unat j = (if cs = [] then 1 else unat (c_id (last cs)) + 1)"
    using assms(2) by (auto simp: j_def unat_plus_one)
  have up: "unat (c_id c) < unat j" if "c \<in> set cs" for c
  proof -
    have "cs = butlast cs @ [last cs]" using that by (metis append_butlast_last_id empty_iff set_empty)
    moreover have "c = x \<or> unat (c_id c) < unat (c_id x)" if "ids_increase (bs @ [x])" "c \<in> set (bs @ [x])" for bs x
      using that by (auto simp: ids_increase_def sorted_wrt_append)
    ultimately have "c = last cs \<or> unat (c_id c) < unat (c_id (last cs))" using assms(1) that by metis
    then show ?thesis using j that by auto
  qed
  then have inc: "ids_increase cs'" using assms(1) j unfolding ids_increase_def r by (auto simp: sorted_wrt_append)
  have "?c \<in> set cs'" using r by simp
  from Creatures_Get_found [OF inc this] have "Creatures_Get cs' (ucast i) = Some ?c" using r by simp
  moreover have "Creatures_Get cs' (ucast (c_id c)) = Some c" if "c \<in> set cs" for c
    using that r by (intro Creatures_Get_found [OF inc]) simp
  moreover have "i \<noteq> 0" using j r(1) by (auto split: if_splits)
  ultimately show ?thesis using Some inc r(1) by (simp add: Creature_new_def)
qed

theorem creature_ids_stay_unique_witness: "fst (Creatures_Add [(''ZrinAlpha'', demo_template)] 576185321 []) \<noteq> 0"
proof -
  obtain i cs where r: "Creatures_Add [(''ZrinAlpha'', demo_template)] 576185321 [] = (i, cs)" by fastforce
  have "GetByNoun [(''ZrinAlpha'', demo_template)] 576185321 = Some demo_template" by (simp add: GetByNoun_def demo_template_def)
  then show ?thesis using creature_ids_stay_unique [OF _ _ r] r by (simp add: ids_increase_def)
qed

end
