(* ===== verification/Accounts.thy ===== *)
theory Accounts
  imports Xml
begin

text \<open>
  What the server stores of a player beside creatures and parts: the account and the feed
  (\<open>source/SporeNet/User.{h,cpp}\<close>) and the squads (\<open>source/SporeNet/Squad.{h,cpp}\<close>).
\<close>

subsection \<open>Accounts\<close>

record Account =
  tutorialCompleted :: bool
  grantAllAccess :: bool
  grantOnlineAccess :: bool
  account_id :: u64
  chainProgression :: u32
  creatureRewards :: u32
  currentGameId :: u32
  currentPlaygroupId :: u32
  defaultDeckPveId :: u32
  defaultDeckPvpId :: u32
  account_level :: u32
  xp :: u32
  dna :: u32
  avatarId :: u32
  newPlayerInventory :: u32
  newPlayerProgress :: u32
  cashoutBonusTime :: u32
  starLevel :: u32
  unlockCatalysts :: u32
  unlockDiagonalCatalysts :: u32
  unlockInventory :: u32
  unlockFuelTanks :: u32
  unlockPveDecks :: u32
  unlockPvpDecks :: u32
  unlockStats :: u32
  unlockInventoryIdentify :: u32
  unlockEditorFlairSlots :: u32
  upsell :: u32
  capLevel :: u32
  capProgression :: u32

definition Account_default :: Account where
  "Account_default =
     \<lparr>tutorialCompleted = False, grantAllAccess = False, grantOnlineAccess = False, account_id = 1,
      chainProgression = 0, creatureRewards = 0, currentGameId = 1, currentPlaygroupId = 1, defaultDeckPveId = 1,
      defaultDeckPvpId = 1, account_level = 1, xp = 0, dna = 0, avatarId = 0, newPlayerInventory = 0,
      newPlayerProgress = 0, cashoutBonusTime = 0, starLevel = 0, unlockCatalysts = 0, unlockDiagonalCatalysts = 0,
      unlockInventory = 0, unlockFuelTanks = 0, unlockPveDecks = 0, unlockPvpDecks = 0, unlockStats = 0,
      unlockInventoryIdentify = 0, unlockEditorFlairSlots = 0, upsell = 0, capLevel = 0, capProgression = 0\<rparr>"

definition Account_Read :: "xmllib \<Rightarrow> xnode \<Rightarrow> Account \<Rightarrow> Account" where
  "Account_Read X node a =
     (case xml_child X node ''account'' of
        None \<Rightarrow> a
      | Some account \<Rightarrow>
          (let n = (\<lambda>k. to_number_u32 10 (xml_get_text_node X account k)) in
           in_order
             [tutorialCompleted_update (\<lambda>_. xml_get_text_node X account ''tutorial_completed'' = ''Y''),
              grantAllAccess_update (\<lambda>_. n ''grant_all_access'' \<noteq> 0),
              grantOnlineAccess_update (\<lambda>_. n ''grant_online_access'' \<noteq> 0),
              chainProgression_update (\<lambda>_. n ''chain_progression''),
              creatureRewards_update (\<lambda>_. n ''creature_rewards''),
              currentGameId_update (\<lambda>_. n ''current_game_id''),
              currentPlaygroupId_update (\<lambda>_. n ''current_playgroup_id''),
              defaultDeckPveId_update (\<lambda>_. n ''default_deck_pve_id''),
              defaultDeckPvpId_update (\<lambda>_. n ''default_deck_pvp_id''),
              account_level_update (\<lambda>_. n ''level''),
              xp_update (\<lambda>_. n ''xp''),
              dna_update (\<lambda>_. n ''dna''),
              avatarId_update (\<lambda>_. min (n ''avatar_id'') 16),
              account_id_update (\<lambda>_. to_number_i64 (xml_get_text_node X account ''id'')),
              newPlayerInventory_update (\<lambda>_. n ''new_player_inventory''),
              newPlayerProgress_update (\<lambda>_. n ''new_player_progress''),
              cashoutBonusTime_update (\<lambda>_. n ''cashout_bonus_time''),
              starLevel_update (\<lambda>_. n ''star_level''),
              unlockCatalysts_update (\<lambda>_. n ''unlock_catalysts''),
              unlockDiagonalCatalysts_update (\<lambda>_. n ''unlock_diagonal_catalysts''),
              unlockFuelTanks_update (\<lambda>_. n ''unlock_fuel_tanks''),
              unlockInventoryIdentify_update (\<lambda>_. n ''unlock_inventory''),
              unlockPveDecks_update (\<lambda>_. n ''unlock_pve_decks''),
              unlockPvpDecks_update (\<lambda>_. n ''unlock_pvp_decks''),
              unlockStats_update (\<lambda>_. n ''unlock_stats''),
              unlockInventoryIdentify_update (\<lambda>_. n ''unlock_inventory_identify''),
              unlockEditorFlairSlots_update (\<lambda>_. n ''unlock_editor_flair_slots''),
              upsell_update (\<lambda>_. n ''upsell''),
              capLevel_update (\<lambda>_. n ''cap_level''),
              capProgression_update (\<lambda>_. n ''cap_progression'')] a))"

definition account_texts :: "Account \<Rightarrow> (string \<times> string) list" where
  "account_texts a =
     (let n = (\<lambda>w :: u32. decimal (unat w)) in
     [(''tutorial_completed'', if tutorialCompleted a then ''Y'' else ''N''),
      (''chain_progression'', n (chainProgression a)), (''creature_rewards'', n (creatureRewards a)),
      (''current_game_id'', n (currentGameId a)), (''current_playgroup_id'', n (currentPlaygroupId a)),
      (''default_deck_pve_id'', n (defaultDeckPveId a)), (''default_deck_pvp_id'', n (defaultDeckPvpId a)),
      (''dna'', n (dna a)), (''level'', n (account_level a)), (''avatar_id'', n (avatarId a)),
      (''id'', to_string_i64 (account_id a)), (''new_player_inventory'', n (newPlayerInventory a)),
      (''new_player_progress'', n (newPlayerProgress a)), (''cashout_bonus_time'', n (cashoutBonusTime a)),
      (''star_level'', n (starLevel a)), (''unlock_catalysts'', n (unlockCatalysts a)),
      (''unlock_diagonal_catalysts'', n (unlockDiagonalCatalysts a)), (''unlock_fuel_tanks'', n (unlockFuelTanks a)),
      (''unlock_inventory'', n (unlockInventoryIdentify a)), (''unlock_pve_decks'', n (unlockPveDecks a)),
      (''unlock_pvp_decks'', n (unlockPvpDecks a)), (''unlock_stats'', n (unlockStats a)),
      (''unlock_inventory_identify'', n (unlockInventoryIdentify a)),
      (''unlock_editor_flair_slots'', n (unlockEditorFlairSlots a)), (''upsell'', n (upsell a)), (''xp'', n (xp a)),
      (''grant_all_access'', if grantAllAccess a then ''1'' else ''0''), (''cap_level'', n (capLevel a)),
      (''cap_progression'', n (capProgression a))])"

definition Account_Write :: "xmllib \<Rightarrow> Account \<Rightarrow> xnode \<Rightarrow> xnode" where
  "Account_Write X a node = add_texts X (account_texts a) node"

subsection \<open>The feed\<close>

text \<open>\<open>FeedMessageType\<close> has the values 1, 2 and 3 of 32-bit numbers.\<close>

definition Feed_Friend :: u32 where "Feed_Friend = 1"
definition Feed_Creature :: u32 where "Feed_Creature = 2"
definition Feed_Upgrade :: u32 where "Feed_Upgrade = 3"

record FeedItem =
  feed_metadata :: string
  feed_name :: string
  feed_timestamp :: u64
  feed_accountId :: u32
  feed_id :: u32
  feed_messageId :: u32

type_synonym feed = "FeedItem list"

text \<open>
  A message number that is none of the three is not assigned: the member of the new item keeps the
  value it was created with, the parameter \<open>junk\<close>.
\<close>

definition FeedItem_of_node :: "xmllib \<Rightarrow> u32 \<Rightarrow> xnode \<Rightarrow> FeedItem" where
  "FeedItem_of_node X junk item =
     (let t = xml_get_text_node X item; m = to_number_u32 10 (t ''message_id'') in
      \<lparr>feed_metadata = t ''metadata'', feed_name = t ''name'', feed_timestamp = to_number_u64 (t ''time''),
       feed_accountId = to_number_u32 10 (t ''account_id''), feed_id = to_number_u32 10 (t ''id''),
       feed_messageId = (if m = Feed_Friend \<or> m = Feed_Creature \<or> m = Feed_Upgrade then m else junk)\<rparr>)"

definition Feed_Read :: "xmllib \<Rightarrow> u32 \<Rightarrow> xnode \<Rightarrow> feed \<Rightarrow> feed" where
  "Feed_Read X junk node fs =
     (case xml_child X node ''feed'' of
        None \<Rightarrow> fs
      | Some f \<Rightarrow>
          (case xml_child X f ''items'' of
             None \<Rightarrow> fs
           | Some items \<Rightarrow> fs @ map (FeedItem_of_node X junk) (xml_children X items)))"

definition feed_texts :: "FeedItem \<Rightarrow> (string \<times> string) list" where
  "feed_texts i =
     [(''account_id'', decimal (unat (feed_accountId i))), (''id'', decimal (unat (feed_id i))),
      (''message_id'', decimal (unat (feed_messageId i))), (''metadata'', feed_metadata i), (''name'', feed_name i),
      (''time'', decimal (unat (feed_timestamp i)))]"

definition FeedItem_item :: "xmllib \<Rightarrow> FeedItem \<Rightarrow> xnode option" where
  "FeedItem_item X i = Some (add_texts X (feed_texts i) (xml_element X ''item''))"

definition Feed_Write :: "xmllib \<Rightarrow> feed \<Rightarrow> xnode \<Rightarrow> xnode option" where
  "Feed_Write X fs node =
     (if fs = [] then Some (xml_append X node (xml_element X ''feed''))
      else do {
        items \<leftarrow> each (append_item X FeedItem_item) fs (xml_element X ''items'');
        Some (xml_append X node (xml_append X (xml_element X ''feed'') items))
      })"

subsection \<open>Squads\<close>

text \<open>The creature numbers are an array of three.\<close>

record Squad =
  mCreatureIds :: "u32 list"
  squad_mName :: string
  squad_mCategory :: string
  squad_mId :: u32
  squad_mSlot :: u32
  squad_mLocked :: bool

text \<open>A new squad; its creature numbers are not initialised.\<close>

definition Squad_new :: "u32 list \<Rightarrow> u32 \<Rightarrow> u32 \<Rightarrow> Squad" where
  "Squad_new junk i slot = \<lparr>mCreatureIds = junk, squad_mName = [], squad_mCategory = [], squad_mId = i,
     squad_mSlot = slot, squad_mLocked = True\<rparr>"

text \<open>The loop writes before it tests the count, and leaves when the array is full.\<close>

fun read_creature_ids :: "xmllib \<Rightarrow> xnode list \<Rightarrow> nat \<Rightarrow> u32 list \<Rightarrow> u32 list" where
  "read_creature_ids X [] count ids = ids"
| "read_creature_ids X (c # cs) count ids =
     (let ids' = ids[count := xml_as_uint X (xml_attribute X c ''id'')] in
      if count + 1 \<ge> length ids' then ids' else read_creature_ids X cs (count + 1) ids')"

definition Squad_Read :: "xmllib \<Rightarrow> xnode \<Rightarrow> Squad \<Rightarrow> bool \<times> Squad" where
  "Squad_Read X node s =
     (if xml_name X node \<noteq> ''squad'' then (False, s)
      else (let t = xml_get_text_node X node;
                s1 = s\<lparr>squad_mName := t ''name'', squad_mCategory := t ''category'', squad_mId := to_number_u32 10 (t ''id''),
                       squad_mSlot := to_number_u32 10 (t ''slot''), squad_mLocked := to_number_u32 10 (t ''locked'') \<noteq> 0\<rparr>
            in (True, case xml_child X node ''creatures'' of
                        None \<Rightarrow> s1
                      | Some cs \<Rightarrow> s1\<lparr>mCreatureIds := read_creature_ids X (xml_children X cs) 0 (mCreatureIds s1)\<rparr>)))"

definition squad_texts :: "Squad \<Rightarrow> (string \<times> string) list" where
  "squad_texts s =
     [(''name'', squad_mName s), (''id'', decimal (unat (squad_mId s))), (''category'', squad_mCategory s),
      (''slot'', decimal (unat (squad_mSlot s))), (''locked'', if squad_mLocked s then ''1'' else ''0'')]"

definition Squad_item :: "xmllib \<Rightarrow> Squad \<Rightarrow> xnode option" where
  "Squad_item X s =
     Some (xml_append X (add_texts X (squad_texts s) (xml_element X ''squad''))
       (fold (\<lambda>i v. xml_append X v (xml_set_attribute X (xml_element X ''creature'') ''id'' (decimal (unat i))))
         (mCreatureIds s) (xml_element X ''creatures'')))"

definition Squad_Write :: "xmllib \<Rightarrow> Squad \<Rightarrow> xnode \<Rightarrow> xnode option" where
  "Squad_Write X s node = append_item X Squad_item s node"

definition SetCreatureId :: "u8 \<Rightarrow> u32 \<Rightarrow> Squad \<Rightarrow> Squad" where
  "SetCreatureId index i s =
     (if unat index < length (mCreatureIds s) then s\<lparr>mCreatureIds := (mCreatureIds s)[unat index := i]\<rparr> else s)"

definition Squad_Reset :: "u32 \<Rightarrow> Squad \<Rightarrow> Squad" where
  "Squad_Reset slot s =
     s\<lparr>squad_mId := slot, squad_mSlot := slot, squad_mName := ''Slot '' @ decimal (unat slot), squad_mLocked := False\<rparr>"

definition Squad_Update :: "string \<Rightarrow> bool \<Rightarrow> Squad \<Rightarrow> Squad" where
  "Squad_Update creatureStringList pvp s =
     (let creatureIds = explode_string creatureStringList (CHR '','') (- 1);
          len = min (length creatureIds) (length (mCreatureIds s));
          ids = fold (\<lambda>i ids. let n = to_number_u32 10 (creatureIds ! i) in if n > 0 then ids[i := n] else ids)
                  [0..<len] (mCreatureIds s)
      in s\<lparr>mCreatureIds := ids, squad_mCategory := if pvp then ''pvp'' else ''pve''\<rparr>)"

text \<open>The container \<open>Squads\<close>: at most three squads.\<close>

type_synonym squads = "Squad list"

definition Squads_Read :: "xmllib \<Rightarrow> u32 list \<Rightarrow> xnode \<Rightarrow> squads \<Rightarrow> squads" where
  "Squads_Read X junk node ss =
     (case xml_child X node ''decks'' of
        None \<Rightarrow> ss
      | Some decks \<Rightarrow> ss @ map (\<lambda>v. snd (Squad_Read X v (Squad_new junk 0 0))) (xml_children X decks))"

definition Squads_Write :: "xmllib \<Rightarrow> squads \<Rightarrow> xnode \<Rightarrow> xnode option" where
  "Squads_Write X ss node = do {
     decks \<leftarrow> each (Squad_Write X) ss (xml_element X ''decks'');
     Some (xml_append X node decks)
   }"

definition Squads_Create :: "u32 list \<Rightarrow> squads \<Rightarrow> bool \<times> squads" where
  "Squads_Create junk ss = (if length ss \<ge> 3 then (False, ss) else (True, ss @ [Squad_new junk 0 0]))"

definition Squads_Remove :: "nat \<Rightarrow> squads \<Rightarrow> squads" where
  "Squads_Remove index ss = (if index < length ss then take index ss @ drop (index + 1) ss else ss)"

definition Squads_Get :: "nat \<Rightarrow> squads \<Rightarrow> Squad option" where
  "Squads_Get index ss = (if index < length ss then Some (ss ! index) else None)"

subsection \<open>Storing accounts\<close>

text \<open>
  What comes back: the inventory size keeps the value it had before reading, online access is
  lost, the avatar is bounded.
\<close>

definition stored_account :: "Account \<Rightarrow> Account \<Rightarrow> Account" where
  "stored_account old a =
     a\<lparr>grantOnlineAccess := False, unlockInventory := unlockInventory old, avatarId := min (avatarId a) 16\<rparr>"

lemma one_text: "c_str ''1'' = ''1''" "c_str ''0'' = ''0''" "to_number_u32 10 ''1'' = 1" "to_number_u32 10 ''0'' = 0"
    "to_number_u32 10 [] = 0" "kept_text ''1'' = ''1''" "kept_text ''0'' = ''0''" "plain_text ''1''" "plain_text ''0''"
proof -
  have d: "decimal 1 = ''1''" "decimal 0 = ''0''" by code_simp+
  then show "c_str ''1'' = ''1''" "c_str ''0'' = ''0''" "to_number_u32 10 ''1'' = 1" "to_number_u32 10 ''0'' = 0"
    "to_number_u32 10 [] = 0"
    using no_nul_decimal(2) [of 1] no_nul_decimal(2) [of 0] to_number_decimal(3) [of 1] to_number_decimal(3) [of 0]
    by (simp_all add: to_number_u32_def strtoul_def scan_number_def c_str_def)
  show "kept_text ''1'' = ''1''" "kept_text ''0'' = ''0''" "plain_text ''1''" "plain_text ''0''"
    using decimal_text(3) [of 1] decimal_text(3) [of 0] decimal_text(1) [of 1] decimal_text(1) [of 0] unfolding d by simp_all
qed

lemma i64_text: "c_str (to_string_i64 w) = to_string_i64 w" "plain_text (to_string_i64 w)" "kept_text (to_string_i64 w) = to_string_i64 w"
proof -
  have m: "c_str (''-'' @ decimal n) = ''-'' @ decimal n" "plain_text (''-'' @ decimal n)" "kept_text (''-'' @ decimal n) = ''-'' @ decimal n" for n
  proof -
    show p: "plain_text (''-'' @ decimal n)" unfolding plain_append using decimal_text(1) by (simp add: plain_text_def)
    show "c_str (''-'' @ decimal n) = ''-'' @ decimal n" using plain_no_nul(1) [OF p] by (rule c_str_no_nul)
    have "CHR 0x0D \<notin> set (decimal n)" using decimal_text(3) [of n] kept_text_lost by blast
    then show "kept_text (''-'' @ decimal n) = ''-'' @ decimal n" by (intro kept_text_same) (simp_all add: blank_Cons)
  qed
  show "c_str (to_string_i64 w) = to_string_i64 w" "plain_text (to_string_i64 w)" "kept_text (to_string_i64 w) = to_string_i64 w"
    using m decimal_text no_nul_decimal(2) by (simp_all add: to_string_i64_def)
qed

lemma Account_Write_element:
  "xml_laws X \<Longrightarrow> Account_Write X a (xml_element X ''account'') = XElement ''account'' [] (text_nodes (account_texts a))"
  using add_texts_element [of X "account_texts a" "''account''" "[]" "[]"] by (simp add: Account_Write_def xml_simps(1))

lemma account_texts_plain: "plain_texts (account_texts a)"
  unfolding account_texts_def Let_def
  by (simp add: decimal_text i64_text one_text plain_name_simps) (simp add: plain_text_def)

lemma account_stored:
  assumes "xml_laws X" and "find (named ''account'') vs = Some (again (Account_Write X a (xml_element X ''account'')))"
  shows "Account_Read X (XElement n as vs) old = stored_account old a"
proof -
  have e: "again (XElement ''account'' [] (text_nodes (account_texts a))) = XElement ''account'' [] (map again (text_nodes (account_texts a)))"
    by (rule again_elements) (rule plain_text_nodes [OF account_texts_plain])
  have y: "c_str ''Y'' = ''Y''" "c_str ''N'' = ''N''" "kept_text ''Y'' = ''Y''" "kept_text ''N'' = ''N''"
    by (simp_all add: c_str_def kept_text_def blank_def)
  have "xml_child X (XElement n as vs) ''account'' = Some (XElement ''account'' [] (map again (text_nodes (account_texts a))))"
    using assms(2) unfolding Account_Write_element [OF assms(1)] e by (simp add: xml_simps [OF assms(1)])
  then show ?thesis
    by (cases a; cases old) (simp add: Account_Read_def get_file_texts [OF assms(1)] account_texts_def Let_def no_nul_decimal to_number_decimal
        decimal_text one_text y to_number_i64 i64_text stored_account_def min_def)
qed

subsection \<open>Storing the feed\<close>

definition storable_feed :: "FeedItem \<Rightarrow> bool" where
  "storable_feed i \<longleftrightarrow>
     plain_text (feed_metadata i) \<and> plain_text (feed_name i) \<and> feed_messageId i \<in> {Feed_Friend, Feed_Creature, Feed_Upgrade}"

definition stored_feed :: "FeedItem \<Rightarrow> FeedItem" where
  "stored_feed i = i\<lparr>feed_metadata := kept_text (feed_metadata i), feed_name := kept_text (feed_name i)\<rparr>"

interpretation feed_store: stored FeedItem_item "\<lambda>X v. Some (FeedItem_of_node X junk v)" storable_feed stored_feed
  for junk
proof
  fix X i assume X: "xml_laws X" and i: "storable_feed i"
  let ?e = "XElement ''item'' [] (text_nodes (feed_texts i))"
  have p: "plain_texts (feed_texts i)" using i by (simp add: feed_texts_def decimal_text plain_name_simps storable_feed_def)
  have "FeedItem_item X i = Some ?e"
    using add_texts_element [OF X, of "feed_texts i" "''item''" "[]" "[]"] by (simp add: FeedItem_item_def xml_simps [OF X])
  moreover have "again ?e = XElement ''item'' [] (map again (text_nodes (feed_texts i)))"
    by (rule again_elements) (rule plain_text_nodes [OF p])
  then have "FeedItem_of_node X junk (again ?e) = stored_feed i"
    using i by (auto simp: FeedItem_of_node_def get_file_texts [OF X] feed_texts_def no_nul_decimal decimal_text to_number_decimal
        plain_no_nul storable_feed_def stored_feed_def Let_def)
  moreover have "plain_node ?e" by (rule plain_text_element [OF _ p]) (simp add: plain_name_simps)
  ultimately show "\<exists>v. FeedItem_item X i = Some v \<and> plain_node v \<and> Some (FeedItem_of_node X junk (again v)) = Some (stored_feed i)"
    by blast
qed

text \<open>Reading the written feed from a document with nodes of other names.\<close>

lemma feed_stored:
  assumes "xml_laws X" and "\<forall>i \<in> set fs. storable_feed i"
  shows "\<exists>w. (\<forall>n as vs. Feed_Write X fs (XElement n as vs) = Some (XElement n as (vs @ [w]))) \<and> named ''feed'' w \<and> plain_node w \<and>
    (\<forall>n as vs old. find (named ''feed'') vs = Some (again w) \<longrightarrow> Feed_Read X junk (XElement n as vs) old = old @ map stored_feed fs)"
proof (cases "fs = []")
  case True
  show ?thesis
    by (rule exI [of _ "XElement ''feed'' [] []"]) (simp add: True Feed_Write_def Feed_Read_def xml_simps [OF assms(1)] plain_name_simps)
next
  case False
  obtain ws where ws: "each (append_item X FeedItem_item) fs (XElement ''items'' [] []) = Some (XElement ''items'' [] ([] @ ws))"
    "\<forall>v \<in> set ws. plain_node v" "map (\<lambda>v. Some (FeedItem_of_node X junk v)) (map again ws) = map (\<lambda>i. Some (stored_feed i)) fs"
    using feed_store.append_items [OF assms] by blast
  have m: "map (FeedItem_of_node X junk) (map again ws) = map stored_feed fs"
    using arg_cong [OF ws(3), of "map the"] by (simp add: comp_def)
  let ?items = "XElement ''items'' [] ws"
  have p: "plain_node ?items" "plain_node (XElement ''feed'' [] [?items])" using ws(2) by (simp_all add: plain_name_simps)
  have "again (XElement ''feed'' [] [?items]) = XElement ''feed'' [] [XElement ''items'' [] (map again ws)]"
    using again_elements [of "[?items]" "''feed''" "[]"] again_elements [of ws "''items''" "[]"] p(1) ws(2) by simp
  then show ?thesis using False ws(1) p(2) m
    by (intro exI [of _ "XElement ''feed'' [] [?items]"]) (simp add: Feed_Write_def Feed_Read_def xml_simps [OF assms(1)])
qed

subsection \<open>Storing squads\<close>

definition storable_squad :: "Squad \<Rightarrow> bool" where
  "storable_squad s \<longleftrightarrow> length (mCreatureIds s) = 3 \<and> plain_text (squad_mName s) \<and> plain_text (squad_mCategory s)"

definition stored_squad :: "Squad \<Rightarrow> Squad" where
  "stored_squad s = s\<lparr>squad_mName := kept_text (squad_mName s), squad_mCategory := kept_text (squad_mCategory s)\<rparr>"

definition Squad_of_node :: "xmllib \<Rightarrow> u32 list \<Rightarrow> xnode \<Rightarrow> Squad option" where
  "Squad_of_node X junk v = (let (ok, s) = Squad_Read X v (Squad_new junk 0 0) in if ok then Some s else None)"

lemma squad_creature_nodes:
  assumes "xml_laws X"
  shows "fold (\<lambda>i v. xml_append X v (xml_set_attribute X (xml_element X ''creature'') ''id'' (decimal (unat i)))) is (XElement n as vs) =
    XElement n as (vs @ map (\<lambda>i. XElement ''creature'' [(''id'', decimal (unat (i :: u32)))] []) is)"
  by (induction "is" arbitrary: vs) (simp_all add: xml_simps [OF assms])

lemma Squad_of_node_item:
  assumes X: "xml_laws X" and s: "storable_squad s" and j: "length junk = 3"
  shows "\<exists>v. Squad_item X s = Some v \<and> plain_node v \<and> Squad_of_node X junk (again v) = Some (stored_squad s)"
proof -
  define vs where "vs = map (\<lambda>i. XElement ''creature'' [(''id'', decimal (unat (i :: u32)))] []) (mCreatureIds s)"
  define e where "e = XElement ''squad'' [] (text_nodes (squad_texts s) @ [XElement ''creatures'' [] vs])"
  define e' where "e' = XElement ''squad'' [] (map again (text_nodes (squad_texts s)) @ [XElement ''creatures'' [] vs])"
  have i: "Squad_item X s = Some e"
    using add_texts_element [OF X, of "squad_texts s" "''squad''" "[]" "[]"] squad_creature_nodes [OF X, of "mCreatureIds s" _ _ "[]"]
    by (simp add: Squad_item_def xml_simps [OF X] vs_def e_def)
  have ps: "plain_texts (squad_texts s)" using s by (simp add: squad_texts_def decimal_text one_text plain_name_simps storable_squad_def)
  have pv: "\<forall>c \<in> set vs. plain_node c" by (auto simp: vs_def decimal_text plain_name_simps)
  have pc: "plain_node (XElement ''creatures'' [] vs)" using pv by (simp add: plain_name_simps)
  have pe: "\<forall>c \<in> set (text_nodes (squad_texts s) @ [XElement ''creatures'' [] vs]). plain_node c"
    using plain_text_nodes [OF ps] pc by (simp del: plain_node.simps)
  then have p: "plain_node e" by (simp add: e_def plain_name_simps)
  have "map again vs = vs" by (simp add: vs_def)
  then have "again e = e'" unfolding e_def e'_def again_elements [OF pe] using again_elements [OF pv, of "''creatures''" "[]"] by simp
  have "find (named ''creatures'') (map again (text_nodes (squad_texts s))) = None"
    unfolding find_again [OF plain_text_nodes [OF ps]] by (simp add: find_text_nodes squad_texts_def)
  then have c: "xml_child X e' ''creatures'' = Some (XElement ''creatures'' [] vs)"
    "xml_children X (XElement ''creatures'' [] vs) = vs" "xml_name X e' = ''squad''"
    by (simp_all add: xml_simps [OF X] find_append e'_def)
  obtain a b c where abc: "mCreatureIds s = [a, b, c]" using s by (auto simp: storable_squad_def length_Suc_conv numeral_3_eq_3)
  obtain x y z where xyz: "junk = [x, y, z]" using j by (auto simp: length_Suc_conv numeral_3_eq_3)
  have r: "read_creature_ids X vs 0 junk = mCreatureIds s" by (simp add: vs_def abc xyz xml_simps [OF X])
  have "xml_get_text_node X e' k = (case map_of (squad_texts s) k of Some t \<Rightarrow> kept_text (c_str t) | None \<Rightarrow>
      xml_get_text_node X (XElement ''squad'' [] [XElement ''creatures'' [] vs]) k)" for k
    unfolding e'_def by (rule get_texts_again [OF X])
  then have t: "xml_get_text_node X e' ''name'' = kept_text (squad_mName s)" "xml_get_text_node X e' ''category'' = kept_text (squad_mCategory s)"
    "xml_get_text_node X e' ''id'' = decimal (unat (squad_mId s))" "xml_get_text_node X e' ''slot'' = decimal (unat (squad_mSlot s))"
    "to_number_u32 10 (xml_get_text_node X e' ''locked'') \<noteq> 0 \<longleftrightarrow> squad_mLocked s"
    using s by (simp_all add: squad_texts_def no_nul_decimal decimal_text storable_squad_def plain_no_nul one_text)
  have "Squad_of_node X junk (again e) = Some (stored_squad s)"
    unfolding \<open>again e = e'\<close> Squad_of_node_def Squad_Read_def Let_def c t option.case by (simp add: Squad_new_def r to_number_decimal stored_squad_def)
  with i p show ?thesis by blast
qed

interpretation squad_store: stored Squad_item "\<lambda>X. Squad_of_node X junk" "\<lambda>s. length junk = 3 \<and> storable_squad s" stored_squad
  for junk
  by standard (rule Squad_of_node_item, simp_all)

end
