(* ===== verification/Users.thy ===== *)
theory Users
  imports Creatures Parts Accounts BlazeMessages
begin

text \<open>
  Players and their sessions: the classes \<open>User\<close> and \<open>UserManager\<close> of \<open>source/SporeNet/User.{h,cpp}\<close>.
  A user is a value; the manager maps the user names of the players that are logged in to them.  The
  storage directory is a map from paths to files.
\<close>

record User =
  mAccount :: Account
  mAssociationLists :: "u32 \<Rightarrow> ListMembers option"
  mSquads :: "Squad list"
  mCreatures :: creatures
  mFeed :: feed
  mParts :: parts
  mUsername :: string
  mPassword :: string
  mName :: string
  mAuthToken :: string
  mRoom :: "nat option"
  mExtendedData :: UserSessionExtendedData
  mId :: u32
  mState :: u32

text \<open>What the constructor leaves uninitialised in the extended data is zero here.\<close>

definition ExtendedData_default :: UserSessionExtendedData where
  "ExtendedData_default =
     \<lparr>UserSessionExtendedData_qos = \<lparr>NetworkQosData_dbps = 0, NetworkQosData_type = 0, NetworkQosData_ubps = 0\<rparr>,
      UserSessionExtendedData_ip = \<lparr>IpPairAddress_exip = \<lparr>IpAddress_address = 0, IpAddress_port = 0\<rparr>,
        IpPairAddress_inip = \<lparr>IpAddress_address = 0, IpAddress_port = 0\<rparr>\<rparr>,
      UserSessionExtendedData_clientAttributes = [], UserSessionExtendedData_dataMap = [],
      UserSessionExtendedData_latencyList = [], UserSessionExtendedData_blazeObjectIdList = [],
      UserSessionExtendedData_country = [], UserSessionExtendedData_userAttributes = 0,
      UserSessionExtendedData_hardwareFlags = 0\<rparr>"

text \<open>A room is referred to by its place in the store of rooms.\<close>

definition User_new :: "string \<Rightarrow> string \<Rightarrow> string \<Rightarrow> User" where
  "User_new name username password =
     \<lparr>mAccount = Account_default, mAssociationLists = (\<lambda>_. None), mSquads = [], mCreatures = [], mFeed = [], mParts = [],
      mUsername = username, mPassword = password, mName = name, mAuthToken = [], mRoom = None,
      mExtendedData = ExtendedData_default, mId = 0, mState = 0\<rparr>"

definition UpdateState :: "u32 \<Rightarrow> User \<Rightarrow> bool \<times> User" where
  "UpdateState newState u = (if mState u \<noteq> newState then (True, u\<lparr>mState := newState\<rparr>) else (False, u))"

subsection \<open>Creatures and squads\<close>

definition GetCreatureById :: "u32 \<Rightarrow> User \<Rightarrow> Creature option" where
  "GetCreatureById i u = find (\<lambda>c. c_id c = i) (mCreatures u)"

definition UnlockCreature :: "templates \<Rightarrow> u32 \<Rightarrow> User \<Rightarrow> u32 \<times> User" where
  "UnlockCreature db templateId u =
     (if creatureRewards (mAccount u) > 0 then
        (let u1 = u\<lparr>mAccount := (mAccount u)\<lparr>creatureRewards := creatureRewards (mAccount u) - 1\<rparr>\<rparr>;
             (i, cs) = Creatures_Add db templateId (mCreatures u1)
         in (i, u1\<lparr>mCreatures := cs\<rparr>))
      else (0, u))"

text \<open>The position of the first squad of that number.\<close>

definition GetSquadById :: "u32 \<Rightarrow> User \<Rightarrow> nat option" where
  "GetSquadById i u = find (\<lambda>k. squad_mId (mSquads u ! k) = i) [0..<length (mSquads u)]"

definition ResetSquads :: "u32 list \<Rightarrow> User \<Rightarrow> User" where
  "ResetSquads junk u = u\<lparr>mSquads := map (\<lambda>i. Squad_Reset i (Squad_new junk 0 0)) [1, 2, 3]\<rparr>"

text \<open>One number of the list: \<open>creatureIndex\<close> is an 8-bit counter of the creatures found.\<close>

definition UpdateSquad_step :: "creatures \<Rightarrow> string \<Rightarrow> u8 \<times> Squad \<Rightarrow> u8 \<times> Squad" where
  "UpdateSquad_step cs idString = (\<lambda>(creatureIndex, squad).
     let i = to_number_u32 10 idString in
     if i = 0 then (creatureIndex, squad)
     else (case Creatures_Get cs (ucast i) of
             None \<Rightarrow> (creatureIndex, squad)
           | Some c \<Rightarrow> (creatureIndex + 1, SetCreatureId creatureIndex (c_id c) squad)))"

definition UpdateSquad :: "u32 \<Rightarrow> string \<Rightarrow> bool \<Rightarrow> User \<Rightarrow> User" where
  "UpdateSquad slot creatureStringList pvp u =
     (case GetSquadById slot u of
        None \<Rightarrow> u
      | Some k \<Rightarrow>
          u\<lparr>mSquads := (mSquads u)[k := snd (fold (UpdateSquad_step (mCreatures u))
              (explode_string creatureStringList (CHR '','') (- 1)) (0, mSquads u ! k))]\<rparr>)"

subsection \<open>Upgrades\<close>

definition unlockCost :: "u32 list" where
  "unlockCost =
     [0, 2000, 6000, 16000, 30000, 80000, 150000, 300000, 200, 350, 500, 700, 900, 1200, 1600, 4000, 8000, 13000, 19000,
      29000, 42000, 57000, 76000, 100000, 160000, 250000, 5000, 25000, 50000, 100000, 200000, 400000, 1000000, 2500000,
      5000000, 10000000, 500, 4000, 0, 0, 0, 0, 400, 1200, 4000, 0, 1000, 5000, 10000, 200, 600, 1200, 20000000] @
     replicate 11 0"

text \<open>The array has 64 entries; those that have no initialiser are zero.\<close>

lemma unlockCost_length [simp]: "length unlockCost = 64"
  by (simp add: unlockCost_def)

definition unlock_inventory :: "u32 \<Rightarrow> Account \<Rightarrow> Account" where
  "unlock_inventory n a = a\<lparr>unlockInventory := n, unlockInventoryIdentify := 180 + 30 * n\<rparr>"

definition apply_upgrade :: "u32 \<Rightarrow> Account \<Rightarrow> Account" where
  "apply_upgrade i a =
     (if 1 \<le> i \<and> i \<le> 6 then a\<lparr>unlockCatalysts := i - 1 + 4\<rparr>
      else if i = 7 then a\<lparr>unlockDiagonalCatalysts := 1\<rparr>
      else if 8 \<le> i \<and> i \<le> 25 then a\<lparr>unlockStats := i - 8 + 1\<rparr>
      else if 26 \<le> i \<and> i \<le> 35 then unlock_inventory (i - 26 + 4) a
      else if 36 \<le> i \<and> i \<le> 37 then a\<lparr>unlockPveDecks := i - 36 + 2\<rparr>
      else if i = 38 then a\<lparr>unlockPvpDecks := 1\<rparr>
      else if 42 \<le> i \<and> i \<le> 44 then a\<lparr>unlockFuelTanks := i - 42 + 3\<rparr>
      else if 46 \<le> i \<and> i \<le> 48 then a\<lparr>unlockEditorFlairSlots := i - 46 + 4\<rparr>
      else if 49 \<le> i \<and> i \<le> 51 then unlock_inventory (i - 49 + 1) a
      else if i = 52 then unlock_inventory (i - 52 + 14) a
      else a)"

definition UnlockUpgrade :: "u32 \<Rightarrow> User \<Rightarrow> bool \<times> User" where
  "UnlockUpgrade unlockId u =
     (if unat unlockId \<ge> length unlockCost then (False, u)
      else (let cost = unlockCost ! unat unlockId; a = mAccount u in
        if cost > dna a then (False, u)
        else (True, u\<lparr>mAccount := apply_upgrade unlockId (a\<lparr>dna := dna a - cost\<rparr>)\<rparr>)))"

definition User_AddPart :: "part \<Rightarrow> User \<Rightarrow> User" where
  "User_AddPart part u = u\<lparr>mParts := AddPart part (mParts u)\<rparr>"

subsection \<open>Friends\<close>

definition list_Ignore :: u32 where "list_Ignore = 4"
definition list_Friend :: u32 where "list_Friend = 5"

text \<open>The default constructed list and entry (the numbers without initialiser are zeroed by \<open>operator[]\<close>).\<close>

definition ListMembers_default :: ListMembers where
  "ListMembers_default =
     \<lparr>ListMembers_memberList = [],
      ListMembers_info = \<lparr>ListInfo_blazeObjectId = (0, 0, 0),
        ListInfo_identification = \<lparr>ListIdentification_name = [], ListIdentification_type = 0\<rparr>,
        ListInfo_flags = 0, ListInfo_lms = 0, ListInfo_prid = 0\<rparr>,
      ListMembers_ofrc = 0, ListMembers_toct = 0\<rparr>"

definition list_of :: "u32 \<Rightarrow> User \<Rightarrow> ListMembers" where
  "list_of k u = (case mAssociationLists u k of None \<Rightarrow> ListMembers_default | Some l \<Rightarrow> l)"

definition listed :: "u32 \<Rightarrow> User \<Rightarrow> User \<Rightarrow> bool" where
  "listed k u other =
     (case mAssociationLists u k of
        None \<Rightarrow> False
      | Some l \<Rightarrow> list_ex (\<lambda>m. ListMemberId_id (ListMemberInfo_id m) = account_id (mAccount other)) (ListMembers_memberList l))"

definition IsFriend :: "User \<Rightarrow> User \<Rightarrow> bool" where "IsFriend u other = listed list_Friend u other"

definition IsIgnored :: "User \<Rightarrow> User \<Rightarrow> bool" where "IsIgnored u other = listed list_Ignore u other"

definition AddFriendUser :: "u64 \<Rightarrow> User \<Rightarrow> User \<Rightarrow> User" where
  "AddFriendUser now other u =
     (if IsFriend u other then u
      else (let l = list_of list_Friend u;
                m = \<lparr>ListMemberInfo_id = \<lparr>ListMemberId_name = mName other, ListMemberId_id = account_id (mAccount other),
                       ListMemberId_externalReference = 0, ListMemberId_externalReferenceType = 0\<rparr>,
                     ListMemberInfo_time = now\<rparr>
            in u\<lparr>mAssociationLists := (mAssociationLists u)(list_Friend \<mapsto>
                   l\<lparr>ListMembers_memberList := ListMembers_memberList l @ [m]\<rparr>)\<rparr>))"

text \<open>The other three only create the list.\<close>

definition touch_list :: "u32 \<Rightarrow> User \<Rightarrow> User" where
  "touch_list k u = u\<lparr>mAssociationLists := (mAssociationLists u)(k \<mapsto> list_of k u)\<rparr>"

definition RemoveFriendUser :: "User \<Rightarrow> User \<Rightarrow> User" where "RemoveFriendUser other u = touch_list list_Friend u"

definition AddIgnoredUser :: "User \<Rightarrow> User \<Rightarrow> User" where "AddIgnoredUser other u = touch_list list_Ignore u"

definition RemoveIgnoredUser :: "User \<Rightarrow> User \<Rightarrow> User" where "RemoveIgnoredUser other u = touch_list list_Ignore u"

subsection \<open>Storage\<close>

text \<open>
  The directory of the stored users.  A file is what parsing it gives: a document, or something that
  does not parse.  So \<open>save_file\<close> puts there the document that comes back from the Latin-1 text that it
  writes, \<open>xml_written\<close>.  \<open>writable\<close> tells where \<open>save_file\<close> succeeds, \<open>base\<close> is the storage path of the
  configuration.
\<close>

datatype stored_file = Document xnode | Unparsable

record disk =
  files :: "string \<Rightarrow> stored_file option"
  writable :: "string \<Rightarrow> bool"
  base :: string

definition user_path :: "disk \<Rightarrow> string \<Rightarrow> string" where
  "user_path d username = base d @ ''user/'' @ username @ ''.xml''"

definition load_file :: "disk \<Rightarrow> string \<Rightarrow> xnode option" where
  "load_file d path = (case files d path of Some (Document v) \<Rightarrow> Some v | _ \<Rightarrow> None)"

definition save_file :: "xmllib \<Rightarrow> string \<Rightarrow> xnode \<Rightarrow> disk \<Rightarrow> bool \<times> disk" where
  "save_file X path v d =
     (if writable d path then (True, d\<lparr>files := (files d)(path \<mapsto> Document (xml_written X v))\<rparr>) else (False, d))"

text \<open>The squads of the document that can be read; \<open>junk\<close> is the content of a new squad's array.\<close>

definition User_LoadDoc :: "xmllib \<Rightarrow> floatlib \<Rightarrow> templates \<Rightarrow> u32 \<Rightarrow> u32 list \<Rightarrow> xnode \<Rightarrow> User \<Rightarrow> User" where
  "User_LoadDoc X F db junk_id junk document u =
     (case xml_child X document ''user'' of
        None \<Rightarrow> u
      | Some docUser \<Rightarrow>
          in_order
            [mName_update (\<lambda>_. xml_get_text_node X docUser ''name''),
             mPassword_update (\<lambda>_. xml_get_text_node X docUser ''password''),
             mAccount_update (Account_Read X docUser),
             mCreatures_update (Creatures_Read X F db docUser),
             mSquads_update (\<lambda>ss. case xml_child X docUser ''squads'' of
                 None \<Rightarrow> ss
               | Some docSquads \<Rightarrow> ss @ List.map_filter (Squad_of_node X junk) (xml_children X docSquads)),
             mFeed_update (Feed_Read X junk_id docUser),
             mParts_update (Parts_Read X docUser)] u)"

definition User_Load :: "xmllib \<Rightarrow> floatlib \<Rightarrow> templates \<Rightarrow> u32 \<Rightarrow> u32 list \<Rightarrow> disk \<Rightarrow> User \<Rightarrow> bool \<times> User" where
  "User_Load X F db junk_id junk d u =
     (case load_file d (user_path d (mUsername u)) of
        None \<Rightarrow> (False, u)
      | Some document \<Rightarrow> (True, User_LoadDoc X F db junk_id junk document u))"

text \<open>\<open>None\<close> when writing a creature without template fails.\<close>

definition User_SaveDoc :: "xmllib \<Rightarrow> floatlib \<Rightarrow> User \<Rightarrow> xnode option" where
  "User_SaveDoc X F u = do {
     let v1 = add_texts X [(''name'', mName u), (''password'', mPassword u)] (xml_element X ''user'');
     let v2 = xml_append X v1 (Account_Write X (mAccount u) (xml_element X ''account''));
     v3 \<leftarrow> Creatures_Write X F (mCreatures u) v2;
     squads \<leftarrow> each (Squad_Write X) (mSquads u) (xml_element X ''squads'');
     let v4 = xml_append X v3 squads;
     v5 \<leftarrow> Feed_Write X (mFeed u) v4;
     let v6 = Parts_Write X (mParts u) v5;
     Some (xml_append X (xml_element X []) v6)
   }"

definition User_Save :: "xmllib \<Rightarrow> floatlib \<Rightarrow> User \<Rightarrow> disk \<Rightarrow> (bool \<times> disk) option" where
  "User_Save X F u d = do {
     document \<leftarrow> User_SaveDoc X F u;
     Some (save_file X (user_path d (mUsername u)) document d)
   }"

text \<open>The users that storage can keep, and what it keeps of them.\<close>

definition storable_user :: "templates \<Rightarrow> User \<Rightarrow> bool" where
  "storable_user db u \<longleftrightarrow>
     plain_text (mName u) \<and> plain_text (mPassword u) \<and> list_all (storable_creature db) (mCreatures u) \<and>
     list_all storable_squad (mSquads u) \<and> list_all storable_feed (mFeed u) \<and> list_all wf_part (mParts u)"

definition stored_user :: "floatlib \<Rightarrow> User \<Rightarrow> User" where
  "stored_user F u =
     (User_new (kept_text (mName u)) (mUsername u) (kept_text (mPassword u)))
       \<lparr>mAccount := stored_account Account_default (mAccount u), mCreatures := map (stored_creature F) (mCreatures u),
        mSquads := map stored_squad (mSquads u), mFeed := map stored_feed (mFeed u), mParts := mParts u\<rparr>"

lemma squads_stored:
  assumes "xml_laws X" and "\<forall>s \<in> set ss. storable_squad s" and "length junk = 3"
  shows "\<exists>ws. each (Squad_Write X) ss (xml_element X ''squads'') = Some (XElement ''squads'' [] ws) \<and> (\<forall>w \<in> set ws. plain_node w) \<and>
    List.map_filter (Squad_of_node X junk) (map again ws) = map stored_squad ss"
proof -
  have e: "Squad_Write X = append_item X Squad_item" by (rule ext)+ (simp add: Squad_Write_def)
  have "\<forall>s \<in> set ss. length junk = 3 \<and> storable_squad s" using assms(2,3) by simp
  from squad_store.append_items [OF assms(1) this, of "''squads''" "[]" "[]"] obtain ws
    where ws: "each (append_item X Squad_item) ss (XElement ''squads'' [] []) = Some (XElement ''squads'' [] ([] @ ws))"
      "\<forall>w \<in> set ws. plain_node w" "map (Squad_of_node X junk) (map again ws) = map (\<lambda>s. Some (stored_squad s)) ss" by blast
  then show ?thesis using squad_store.kept_items [OF ws(3)] by (simp add: e xml_simps [OF assms(1)])
qed

text \<open>The document of a user: its parts, and that it is plain.\<close>

lemma user_document:
  assumes "xml_laws X" and "floats_print F \<or> mCreatures u = []" and "storable_user db u" and "length junk = 3"
  shows "\<exists>vs. User_SaveDoc X F u = Some (XElement [] [] [XElement ''user'' [] vs]) \<and> (\<forall>v \<in> set vs. plain_node v) \<and>
    User_LoadDoc X F db junk_id junk (XElement [] [] [XElement ''user'' [] (map again vs)]) (User_new [] (mUsername u) []) = stored_user F u"
proof -
  define texts where "texts = [(''name'', mName u), (''password'', mPassword u)]"
  define acc where "acc = Account_Write X (mAccount u) (xml_element X ''account'')"
  define pv where "pv = XElement ''parts'' [] (map (Part_item X) (mParts u))"
  have s: "\<forall>c \<in> set (mCreatures u). storable_creature db c" "\<forall>s \<in> set (mSquads u). storable_squad s"
    "\<forall>i \<in> set (mFeed u). storable_feed i" "list_all wf_part (mParts u)" "plain_text (mName u)" "plain_text (mPassword u)"
    using assms(3) by (simp_all add: storable_user_def list_all_iff)
  obtain cw where cw: "\<And>n as vs. Creatures_Write X F (mCreatures u) (XElement n as vs) = Some (XElement n as (vs @ [XElement ''creatures'' [] cw]))"
    "plain_node (XElement ''creatures'' [] cw)"
    "\<And>n as vs old. find (named ''creatures'') vs = Some (again (XElement ''creatures'' [] cw)) \<Longrightarrow>
       Creatures_Read X F db (XElement n as vs) old = old @ map (stored_creature F) (mCreatures u)"
    using creatures_stored [OF assms(1,2) s(1)] by blast
  obtain sw where sw: "each (Squad_Write X) (mSquads u) (xml_element X ''squads'') = Some (XElement ''squads'' [] sw)"
    "\<forall>w \<in> set sw. plain_node w" "List.map_filter (Squad_of_node X junk) (map again sw) = map stored_squad (mSquads u)"
    using squads_stored [OF assms(1) s(2) assms(4)] by blast
  obtain fw where fw: "\<And>n as vs. Feed_Write X (mFeed u) (XElement n as vs) = Some (XElement n as (vs @ [fw]))" "named ''feed'' fw" "plain_node fw"
    "\<And>n as vs old. find (named ''feed'') vs = Some (again fw) \<Longrightarrow> Feed_Read X junk_id (XElement n as vs) old = old @ map stored_feed (mFeed u)"
    using feed_stored [OF assms(1) s(3)] by blast
  note parts = parts_read_back [OF assms(1) s(4)]
  define vs where "vs = text_nodes texts @ [acc, XElement ''creatures'' [] cw, XElement ''squads'' [] sw, fw, pv]"
  have t: "add_texts X texts (xml_element X ''user'') = XElement ''user'' [] (text_nodes texts)"
    using add_texts_element [OF assms(1), of texts "''user''" "[]" "[]"] by (simp add: xml_simps [OF assms(1)])
  have doc: "User_SaveDoc X F u = Some (XElement [] [] [XElement ''user'' [] vs])"
    unfolding User_SaveDoc_def texts_def [symmetric] t Let_def
    by (simp add: xml_simps [OF assms(1)] cw(1) sw(1) [unfolded xml_simps(1) [OF assms(1)]] fw(1) Parts_Write_element [OF assms(1)] vs_def acc_def pv_def)
  have tp: "plain_texts texts" using s(5,6) by (simp add: texts_def plain_name_simps)
  have acc: "acc = XElement ''account'' [] (text_nodes (account_texts (mAccount u)))"
    unfolding acc_def by (rule Account_Write_element [OF assms(1)])
  have sp: "plain_node acc" "plain_node (XElement ''squads'' [] sw)" "plain_node pv"
  proof -
    show "plain_node acc" unfolding acc by (rule plain_text_element [OF _ account_texts_plain]) (simp add: plain_name_simps)
    show "plain_node (XElement ''squads'' [] sw)" "plain_node pv"
      unfolding pv_def using sw(2) parts(1) by (simp_all add: plain_name_simps)
  qed
  have plain: "\<forall>v \<in> set vs. plain_node v"
    using plain_text_nodes [OF tp] cw(2) fw(3) sp unfolding vs_def by (simp del: plain_node.simps)
  have fwn: "named k fw \<longleftrightarrow> k = ''feed''" for k using fw(2) by (cases fw) auto
  have no_text: "find (named k) (text_nodes texts) = None" if "k \<noteq> ''name''" "k \<noteq> ''password''" for k
    using that by (simp add: find_text_nodes texts_def)
  have at: "find (named k) (map again vs) = map_option again (find (named k) vs)" for k by (rule find_again [OF plain])
  have at: "find (named ''account'') (map again vs) = Some (again acc)"
    "find (named ''creatures'') (map again vs) = Some (again (XElement ''creatures'' [] cw))"
    "find (named ''squads'') (map again vs) = Some (XElement ''squads'' [] (map again sw))"
    "find (named ''feed'') (map again vs) = Some (again fw)"
    "find (named ''parts'') (map again vs) = Some (XElement ''parts'' [] (map again (map (Part_item X) (mParts u))))"
    unfolding at again_elements [OF sw(2), symmetric] again_elements [OF parts(1), symmetric]
    by (simp_all add: vs_def find_append no_text acc fwn pv_def del: again.simps map_map)
  have name: "xml_get_text_node X (XElement ''user'' [] (map again vs)) ''name'' = kept_text (mName u)"
    "xml_get_text_node X (XElement ''user'' [] (map again vs)) ''password'' = kept_text (mPassword u)"
    unfolding vs_def map_append get_texts_again [OF assms(1)] by (simp_all add: texts_def s(5,6) plain_no_nul)
  have pr: "Parts_Read X (XElement ''user'' [] (map again vs)) old = old @ mParts u" for old
    using Parts_Read_element [OF assms(1) at(5)] parts(2) by simp
  have "User_LoadDoc X F db junk_id junk (XElement [] [] [XElement ''user'' [] (map again vs)]) (User_new [] (mUsername u) []) = stored_user F u"
    unfolding User_LoadDoc_def
    by (simp add: xml_simps [OF assms(1)] name cw(3) [OF at(2)] fw(4) [OF at(4)] pr at(3) sw(3)
        account_stored [OF assms(1) at(1) [unfolded acc_def]] stored_user_def User_new_def del: map_map)
  with doc plain show ?thesis by blast
qed

text \<open>Loading what was saved.\<close>

lemma user_stored:
  assumes "xml_laws X" and "floats_print F \<or> mCreatures u = []" and "storable_user db u" and "length junk = 3"
    and "writable d (user_path d (mUsername u))"
  shows "\<exists>d'. User_Save X F u d = Some (True, d') \<and>
    User_Load X F db junk_id junk d' (User_new [] (mUsername u) []) = (True, stored_user F u)"
proof -
  obtain vs where vs: "User_SaveDoc X F u = Some (XElement [] [] [XElement ''user'' [] vs])" "\<forall>v \<in> set vs. plain_node v"
    "User_LoadDoc X F db junk_id junk (XElement [] [] [XElement ''user'' [] (map again vs)]) (User_new [] (mUsername u) []) = stored_user F u"
    using user_document [OF assms(1-4)] by blast
  have p: "\<forall>v \<in> set [XElement ''user'' [] vs]. plain_node v" using vs(2) by (simp add: plain_name_simps)
  have "xml_written X (XElement [] [] [XElement ''user'' [] vs]) = XElement [] [] [XElement ''user'' [] (map again vs)]"
    unfolding xml_written_plain [OF assms(1) p] again_elements [OF p] list.map again_elements [OF vs(2)] by (rule refl)
  moreover have "mUsername (User_new n m w) = m" for n m w by (simp add: User_new_def)
  ultimately show ?thesis
    using assms(5) vs by (simp add: User_Save_def save_file_def User_Load_def load_file_def user_path_def)
qed

text \<open>
  C7: A player survives being saved to the Latin-1 file and loaded from it: of a player whose texts
  are printable ASCII characters, tabs and line ends, the squads, feed, parts and creatures come back
  (creatures without statistics, their numbers as their texts say), the account without online access,
  with the avatar bounded by 16, and with the inventory size of a new account.  Friends, state and
  session data are not stored.  Every text (name, password, addresses of pictures, names of squads,
  texts of the feed) comes back as the file keeps it: with line feeds for its other line ends, and
  empty when it is white space only; \<open>kept_text_lost\<close> says which texts are not changed.
\<close>

theorem user_storage_roundtrip:
  assumes "xml_laws X" and "floats_print F" and "storable_user db u" and "length junk = 3" and "writable d (user_path d (mUsername u))"
  shows "\<exists>d'. User_Save X F u d = Some (True, d') \<and>
    User_Load X F db junk_id junk d' (User_new [] (mUsername u) []) = (True, stored_user F u)"
  using user_stored [OF assms(1) disjI1 [OF assms(2)] assms(3-5)] .

definition empty_disk :: disk where
  "empty_disk = \<lparr>files = (\<lambda>_. None), writable = (\<lambda>_. True), base = ''./storage/''\<rparr>"

lemma std_floats_print: "floats_print std_floats"
proof -
  have "decimal n \<noteq> []" for n using decimal_first [of n] by auto
  moreover have "CHR '' '' \<notin> set (decimal n)" for n
  proof
    assume "CHR '' '' \<in> set (decimal n)"
    then obtain k :: nat where k: "k < 10" "CHR '' '' = char_of (48 + k)" using decimal_chars by blast
    have "(of_char (CHR '' '') :: nat) = 48 + k" unfolding k(2) using k(1) by simp
    then show False by simp
  qed
  ultimately show ?thesis by (simp add: floats_print_def std_floats_def decimal_text)
qed

theorem user_storage_roundtrip_witness:
  "\<exists>d'. User_Save std_xml std_floats (ResetSquads [1, 2, 3] (User_new ''Sage'' ''sage@mail'' ''  '')) empty_disk = Some (True, d') \<and>
    User_Load std_xml std_floats [] 0 [0, 0, 0] d' (User_new [] ''sage@mail'' []) =
      (True, stored_user std_floats (ResetSquads [1, 2, 3] (User_new ''Sage'' ''sage@mail'' ''  '')))"
proof -
  have d: "plain_text (''Slot '' @ decimal n)" for n unfolding plain_append using decimal_text(1) by (simp add: plain_text_def)
  have "storable_user [] (ResetSquads [1, 2, 3] (User_new ''Sage'' ''sage@mail'' ''  ''))"
    using d [of 1] d [of 2] d [of 3]
    by (simp add: storable_user_def ResetSquads_def User_new_def storable_squad_def Squad_Reset_def Squad_new_def plain_text_def)
  from user_storage_roundtrip [OF std_xml_laws std_floats_print this, of "[0, 0, 0]" empty_disk 0]
  show ?thesis by (simp add: empty_disk_def ResetSquads_def User_new_def)
qed

subsection \<open>What the operations on a user do\<close>

text \<open>
  C29: An upgrade is bought exactly when it exists and the DNA suffices; then its price is taken,
  without wrap-around, and nothing of the user but the account changes; otherwise nothing changes.
\<close>

theorem upgrade_is_paid:
  assumes "UnlockUpgrade i u = (ok, u')"
  shows "(ok \<longleftrightarrow> unat i < 64 \<and> unlockCost ! unat i \<le> dna (mAccount u)) \<and>
    (if ok then unat (dna (mAccount u')) + unat (unlockCost ! unat i) = unat (dna (mAccount u)) \<and> u'\<lparr>mAccount := mAccount u\<rparr> = u
     else u' = u)"
proof -
  have d: "dna (apply_upgrade i a) = dna a" for a by (simp add: apply_upgrade_def unlock_inventory_def)
  have "unat (x - y) + unat y = unat x" if "y \<le> x" for x y :: u32
    using that by (simp add: unat_sub word_le_nat_alt)
  then show ?thesis
    using assms by (auto simp: UnlockUpgrade_def Let_def d not_less split: if_splits)
qed

definition rich_user :: "u32 \<Rightarrow> User" where
  "rich_user n = (User_new [] ''sage@mail'' [])\<lparr>mAccount := Account_default\<lparr>dna := n\<rparr>\<rparr>"

theorem upgrade_is_paid_witness: "fst (UnlockUpgrade 1 (rich_user 2500)) \<and> dna (mAccount (snd (UnlockUpgrade 1 (rich_user 2500)))) = 500"
proof -
  obtain ok u' where r: "UnlockUpgrade 1 (rich_user 2500) = (ok, u')" by fastforce
  have c: "unlockCost ! unat (1 :: u32) = 2000" by (simp add: unlockCost_def)
  have "ok" using upgrade_is_paid [OF r] c by (simp add: rich_user_def)
  moreover have "unat (dna (mAccount u')) + unat (2000 :: u32) = unat (2500 :: u32)"
    using upgrade_is_paid [OF r] c \<open>ok\<close> by (simp add: rich_user_def)
  then have "unat (dna (mAccount u')) = 500" by simp
  then have "dna (mAccount u') = 500" by (metis of_nat_numeral of_nat_unat ucast_id)
  ultimately show ?thesis using r by simp
qed

text \<open>
  Upgrades are not tied to the level reached: buying the first catalyst slot again costs 2000
  and takes a player with more slots back to four.
\<close>

lemma upgrade_can_downgrade:
  assumes "2000 \<le> dna (mAccount u)"
  shows "\<exists>u'. UnlockUpgrade 1 u = (True, u') \<and> unlockCatalysts (mAccount u') = 4 \<and> dna (mAccount u') = dna (mAccount u) - 2000"
  using assms by (simp add: UnlockUpgrade_def unlockCost_def apply_upgrade_def Let_def not_less [symmetric])

text \<open>
  A creature reward is spent even when the template is unknown: the player loses the reward
  and gets no creature.
\<close>

lemma unknown_template_spends_reward:
  assumes "GetByNoun db k = None" and "creatureRewards (mAccount u) > 0"
  shows "\<exists>u'. UnlockCreature db k u = (0, u') \<and> mCreatures u' = mCreatures u \<and>
    unat (creatureRewards (mAccount u')) + 1 = unat (creatureRewards (mAccount u))"
proof -
  have "unat (w - 1) + 1 = unat w" if "w > 0" for w :: u32
    using that by (simp add: unat_sub word_le_nat_alt word_gt_0 unat_gt_0 Suc_leI)
  then show ?thesis using assms by (simp add: UnlockCreature_def Creatures_Add_def)
qed

text \<open>
  Adding a friend makes the other player a friend, changes no other player's friendship, and
  does nothing the second time, so a list never holds a player twice.
\<close>

lemma friends_added_once:
  "IsFriend (AddFriendUser now other u) other \<and> AddFriendUser now' other (AddFriendUser now other u) = AddFriendUser now other u \<and>
   (account_id (mAccount third) \<noteq> account_id (mAccount other) \<longrightarrow> IsFriend (AddFriendUser now other u) third = IsFriend u third) \<and>
   (distinct (map (\<lambda>m. ListMemberId_id (ListMemberInfo_id m)) (ListMembers_memberList (list_of list_Friend u))) \<longrightarrow>
    distinct (map (\<lambda>m. ListMemberId_id (ListMemberInfo_id m)) (ListMembers_memberList (list_of list_Friend (AddFriendUser now other u)))))"
proof -
  have f: "IsFriend (AddFriendUser now other u) other"
    by (auto simp: AddFriendUser_def IsFriend_def listed_def list_of_def Let_def list_ex_iff)
  moreover have "AddFriendUser now' other (AddFriendUser now other u) = AddFriendUser now other u"
    using f by (simp add: AddFriendUser_def [of now'])
  moreover have "IsFriend (AddFriendUser now other u) third = IsFriend u third" if "account_id (mAccount third) \<noteq> account_id (mAccount other)"
    using that by (auto simp: AddFriendUser_def IsFriend_def listed_def list_of_def ListMembers_default_def Let_def list_ex_iff split: option.splits)
  moreover have "distinct (map (\<lambda>m. ListMemberId_id (ListMemberInfo_id m)) (ListMembers_memberList (list_of list_Friend (AddFriendUser now other u))))"
    if "distinct (map (\<lambda>m. ListMemberId_id (ListMemberInfo_id m)) (ListMembers_memberList (list_of list_Friend u)))"
    using that by (auto simp: AddFriendUser_def IsFriend_def listed_def list_of_def ListMembers_default_def Let_def list_ex_iff split: option.splits)
  ultimately show ?thesis by blast
qed

end
