(* ===== verification/Sessions.thy ===== *)
theory Sessions
  imports Users "HOL-Library.RBT" "HOL-Library.List_Lexorder" "HOL-Library.Char_ord"
begin

text \<open>
  The class \<open>UserManager\<close> of \<open>source/SporeNet/User.{h,cpp}\<close>: signing up, logging in, logging out.  The
  user objects, which sessions, clients and rooms share, are the store \<open>users\<close>; a reference is a
  place in it, and a new object goes to its end.  The ordered map from user names to the users that
  are logged in is a red-black tree, as in the C++ library; walking it visits the keys in order.
\<close>

record sessions =
  users :: "User list"
  sUsersByEmail :: "(string, nat) rbt"
  disk :: disk

datatype signup_error = AlreadyRegistered | SaveFailed

text \<open>
  \<open>SignUp\<close> throws in three places.  \<open>number\<close> is the value of \<open>rand()\<close>.  The outer option is
  \<open>User_Save\<close>'s, which has a value for a new user.
\<close>

definition SignUp :: "xmllib \<Rightarrow> floatlib \<Rightarrow> u64 \<Rightarrow> string \<Rightarrow> string \<Rightarrow> string \<Rightarrow> sessions \<Rightarrow> ((signup_error + nat) \<times> sessions) option" where
  "SignUp X F number name username password s =
     (if RBT.lookup (sUsersByEmail s) username \<noteq> None then Some (Inl AlreadyRegistered, s)
      else
        (let user = (User_new name username password)\<lparr>mAccount := Account_default\<lparr>account_id := number\<rparr>\<rparr> in
         if files (disk s) (user_path (disk s) username) \<noteq> None then Some (Inl AlreadyRegistered, s)
         else do {
           (saved, d) \<leftarrow> User_Save X F user (disk s);
           Some (if saved then Inr (length (users s)) else Inl SaveFailed, s\<lparr>users := users s @ [user], disk := d\<rparr>)
         }))"

record environment =
  env_xml :: xmllib
  env_floats :: floatlib
  env_templates :: templates

text \<open>The result: the user, whether the login succeeded, whether the user was logged in before.\<close>

definition Login :: "environment \<Rightarrow> u32 \<Rightarrow> u32 list \<Rightarrow> string \<Rightarrow> string \<Rightarrow> sessions \<Rightarrow> (nat \<times> bool \<times> bool) \<times> sessions" where
  "Login E junk_id junk username password s =
     (case RBT.lookup (sUsersByEmail s) username of
        Some user \<Rightarrow> ((user, False, True), s)
      | None \<Rightarrow>
          (let (loaded, user) = User_Load (env_xml E) (env_floats E) (env_templates E) junk_id junk (disk s) (User_new [] username []);
               success = (loaded \<and> mPassword user = password)
           in ((length (users s), success, False),
               s\<lparr>users := users s @ [user],
                 sUsersByEmail := if success then RBT.insert username (length (users s)) (sUsersByEmail s)
                                  else sUsersByEmail s\<rparr>)))"

definition GetUsers :: "sessions \<Rightarrow> nat list" where
  "GetUsers s = map snd (RBT.entries (sUsersByEmail s))"

definition GetUserById :: "u64 \<Rightarrow> sessions \<Rightarrow> nat option" where
  "GetUserById i s = find (\<lambda>a. account_id (mAccount (users s ! a)) = i) (GetUsers s)"

definition GetUserByEmail :: "string \<Rightarrow> sessions \<Rightarrow> nat option" where
  "GetUserByEmail username s = RBT.lookup (sUsersByEmail s) username"

definition GetUserByAuthToken :: "string \<Rightarrow> sessions \<Rightarrow> nat option" where
  "GetUserByAuthToken authToken s = find (\<lambda>a. mAuthToken (users s ! a) = authToken) (GetUsers s)"

text \<open>An update of the object behind a reference.\<close>

definition update_user :: "nat \<Rightarrow> (User \<Rightarrow> User) \<Rightarrow> sessions \<Rightarrow> sessions" where
  "update_user a f s = s\<lparr>users := (users s)[a := f (users s ! a)]\<rparr>"

definition RemoveUser :: "string \<Rightarrow> sessions \<Rightarrow> sessions" where
  "RemoveUser email s = s\<lparr>sUsersByEmail := RBT.delete email (sUsersByEmail s)\<rparr>"

definition Logout :: "xmllib \<Rightarrow> floatlib \<Rightarrow> nat \<Rightarrow> sessions \<Rightarrow> sessions option" where
  "Logout X F a s = do {
     let s1 = RemoveUser (mUsername (users s ! a)) s;
     (saved, d) \<leftarrow> User_Save X F (users s ! a) (disk s1);
     Some (s1\<lparr>disk := d\<rparr>)
   }"

subsection \<open>Steps\<close>

text \<open>
  What can happen: signing up, logging in, a change to a user object (every other operation; none
  changes the user name or the password), logging out, also of an object that is not in the map any more.
\<close>

inductive step :: "environment \<Rightarrow> sessions \<Rightarrow> sessions \<Rightarrow> bool" for E where
  signup: "SignUp (env_xml E) (env_floats E) number name username password s = Some (r, s') \<Longrightarrow> step E s s'"
| login: "Login E junk_id junk username password s = (r, s') \<Longrightarrow> step E s s'"
| change: "\<forall>u. mUsername (f u) = mUsername u \<and> mPassword (f u) = mPassword u \<Longrightarrow> a < length (users s) \<Longrightarrow>
    step E s (update_user a f s)"
| logout: "a < length (users s) \<Longrightarrow> Logout (env_xml E) (env_floats E) a s = Some s' \<Longrightarrow> step E s s'"

inductive reachable :: "environment \<Rightarrow> sessions \<Rightarrow> sessions \<Rightarrow> bool" for E s0 where
  start: "reachable E s0 s0"
| more: "reachable E s0 s \<Longrightarrow> step E s s' \<Longrightarrow> reachable E s0 s'"

text \<open>
  The invariant: a user is logged in under the own name, and there is a file of that name.  \<open>kept\<close>
  says that no file disappears.
\<close>

definition sessions_ok :: "sessions \<Rightarrow> bool" where
  "sessions_ok s \<longleftrightarrow>
     (\<forall>k a. RBT.lookup (sUsersByEmail s) k = Some a \<longrightarrow>
        a < length (users s) \<and> mUsername (users s ! a) = k \<and> files (disk s) (user_path (disk s) k) \<noteq> None)"

definition files_kept :: "sessions \<Rightarrow> sessions \<Rightarrow> bool" where
  "files_kept s s' \<longleftrightarrow>
     base (disk s') = base (disk s) \<and> writable (disk s') = writable (disk s) \<and> dom (files (disk s)) \<subseteq> dom (files (disk s'))"

lemma files_kept_refl [simp]: "files_kept s s" by (simp add: files_kept_def)

lemma files_kept_trans: "files_kept s t \<Longrightarrow> files_kept t u \<Longrightarrow> files_kept s u"
  by (auto simp: files_kept_def)

lemma User_Save_disk:
  "User_Save X F u d = Some (ok, d') \<Longrightarrow>
     base d' = base d \<and> writable d' = writable d \<and> dom (files d) \<subseteq> dom (files d') \<and>
     (\<forall>p. p \<noteq> user_path d (mUsername u) \<longrightarrow> files d' p = files d p)"
  by (auto simp: User_Save_def save_file_def split: bind_splits if_splits)

lemma User_Load_username: "User_Load X F db a j d u = (ok, u') \<Longrightarrow> mUsername u' = mUsername u"
  by (auto simp: User_Load_def User_LoadDoc_def split: option.splits)

text \<open>The invariant under a new disk with more files and new objects.\<close>

lemma sessions_ok_mono:
  assumes "sessions_ok s" and "base d = base (disk s)" and "dom (files (disk s)) \<subseteq> dom (files d)"
  shows "sessions_ok (s\<lparr>users := users s @ us, disk := d\<rparr>)"
  using assms unfolding sessions_ok_def by (fastforce simp: user_path_def nth_append)

lemma SignUp_cases:
  assumes "SignUp X F number name username password s = Some (r, s')"
  obtains "s' = s"
    | user ok d where "mUsername user = username" "User_Save X F user (disk s) = Some (ok, d)"
        "s' = s\<lparr>users := users s @ [user], disk := d\<rparr>"
proof (cases "RBT.lookup (sUsersByEmail s) username = None \<and> files (disk s) (user_path (disk s) username) = None")
  case True
  define user where "user = (User_new name username password)\<lparr>mAccount := Account_default\<lparr>account_id := number\<rparr>\<rparr>"
  have "mUsername user = username" by (simp add: user_def User_new_def)
  moreover obtain ok d where "User_Save X F user (disk s) = Some (ok, d)" "s' = s\<lparr>users := users s @ [user], disk := d\<rparr>"
    using assms True unfolding SignUp_def user_def [symmetric] by (auto split: bind_splits)
  ultimately show ?thesis using that(2) by blast
next
  case False
  then have "s' = s" using assms by (auto simp: SignUp_def Let_def split: if_splits)
  then show ?thesis by (rule that(1))
qed

lemma Login_cases:
  assumes "Login E a j username password s = (r, s')"
  obtains "s' = s"
    | user where "s' = s\<lparr>users := users s @ [user]\<rparr>"
    | user where "User_Load (env_xml E) (env_floats E) (env_templates E) a j (disk s) (User_new [] username []) = (True, user)"
        "s' = s\<lparr>users := users s @ [user], sUsersByEmail := RBT.insert username (length (users s)) (sUsersByEmail s)\<rparr>"
proof (cases "RBT.lookup (sUsersByEmail s) username")
  case None
  obtain ok user where l: "User_Load (env_xml E) (env_floats E) (env_templates E) a j (disk s) (User_new [] username []) = (ok, user)"
    by fastforce
  show ?thesis
  proof (cases "ok \<and> mPassword user = password")
    case True
    then show ?thesis using assms None l by (intro that(3) [of user]) (simp_all add: Login_def)
  next
    case False
    then have "s' = s\<lparr>users := users s @ [user], sUsersByEmail := sUsersByEmail s\<rparr>"
      using assms None l by (auto simp: Login_def Let_def)
    then have "s' = s\<lparr>users := users s @ [user]\<rparr>" by (cases s) simp
    then show ?thesis by (rule that(2))
  qed
next
  case (Some u)
  then have "s' = s" using assms by (simp add: Login_def)
  then show ?thesis by (rule that(1))
qed

lemma step_invariant:
  assumes "step E s s'" and "sessions_ok s"
  shows "sessions_ok s' \<and> files_kept s s'"
  using assms(1)
proof (cases rule: step.cases)
  case (signup number name username password r)
  then show ?thesis
  proof (cases rule: SignUp_cases)
    case (2 user ok d)
    then show ?thesis
      using User_Save_disk [OF 2(2)] sessions_ok_mono [OF assms(2), of d "[user]"] by (simp add: files_kept_def)
  qed (use assms(2) in simp)
next
  case (login junk_id junk username password r)
  then show ?thesis
  proof (cases rule: Login_cases)
    case (2 user)
    then show ?thesis using sessions_ok_mono [OF assms(2), of "disk s" "[user]"] by (simp add: files_kept_def)
  next
    case (3 user)
    have un: "mUsername user = username" using User_Load_username [OF 3(1)] by (simp add: User_new_def)
    have "files (disk s) (user_path (disk s) username) \<noteq> None"
      using 3(1) by (auto simp: User_Load_def load_file_def User_new_def split: option.splits)
    then show ?thesis using un assms(2) 3(2) by (fastforce simp: sessions_ok_def files_kept_def nth_append)
  qed (use assms(2) in simp)
next
  case (change f a)
  then show ?thesis using assms(2) by (auto simp: sessions_ok_def files_kept_def update_user_def nth_list_update)
next
  case (logout a)
  then obtain ok d where d: "User_Save (env_xml E) (env_floats E) (users s ! a) (disk s) = Some (ok, d)"
    "s' = (RemoveUser (mUsername (users s ! a)) s)\<lparr>disk := d\<rparr>"
    by (auto simp: Logout_def RemoveUser_def split: bind_splits)
  have "sessions_ok (RemoveUser (mUsername (users s ! a)) s)"
    using assms(2) by (auto simp: sessions_ok_def RemoveUser_def restrict_map_def split: if_splits)
  then show ?thesis
    using User_Save_disk [OF d(1)] sessions_ok_mono [of "RemoveUser (mUsername (users s ! a)) s" d "[]"] d(2)
    by (simp add: files_kept_def RemoveUser_def)
qed

text \<open>
  C8: In every state that can be reached from one without sessions, each player is logged in under
  the own user name, has a file in the storage, and no file that was there is gone.
\<close>

theorem sessions_invariant:
  assumes "reachable E s0 s" and "sUsersByEmail s0 = RBT.empty"
  shows "sessions_ok s \<and> files_kept s0 s"
  using assms(1)
proof induction
  case start
  then show ?case using assms(2) by (simp add: sessions_ok_def)
next
  case (more s s')
  then show ?case using step_invariant files_kept_trans by blast
qed

definition demo_env :: environment where
  "demo_env = \<lparr>env_xml = std_xml, env_floats = std_floats, env_templates = []\<rparr>"

definition no_sessions :: sessions where
  "no_sessions = \<lparr>users = [], sUsersByEmail = RBT.empty, disk = empty_disk\<rparr>"

theorem sessions_invariant_witness:
  "\<exists>s. step demo_env no_sessions s \<and> sessions_ok s"
proof -
  obtain r s where "Login demo_env 0 [0, 0, 0] ''sage@mail'' ''pw'' no_sessions = (r, s)" by fastforce
  then have st: "step demo_env no_sessions s" by (rule login)
  have "sUsersByEmail no_sessions = RBT.empty" by (simp add: no_sessions_def)
  from sessions_invariant [OF reachable.more [OF reachable.start st] this] st show ?thesis by blast
qed

subsection \<open>Signing up and logging in\<close>

lemma new_user_storable: "plain_text name \<Longrightarrow> plain_text password \<Longrightarrow>
    storable_user db ((User_new name username password)\<lparr>mAccount := a\<rparr>)"
  by (simp add: storable_user_def User_new_def)

text \<open>
  C9: A name that was neither logged in nor stored can sign up where the storage is writable, with a
  name and a password of printable ASCII characters, tabs and line ends; signing up with the name again
  is refused and changes nothing.  From then on a login succeeds exactly when its password is what the
  file keeps of the password that was signed up with, and then gives the number and what the file keeps
  of the name; otherwise it leaves the sessions as they are.  So a password that has no carriage return
  and is not white space only is the only one that works; a password of white space only is accepted at
  the signup and never again: the empty one logs in instead.
\<close>

theorem signup_then_login:
  assumes "xml_laws (env_xml E)" and "plain_text name" and "plain_text password" and "length junk = 3"
    and "RBT.lookup (sUsersByEmail s) username = None" and "files (disk s) (user_path (disk s) username) = None"
    and "writable (disk s) (user_path (disk s) username)"
  shows "\<exists>a s'. SignUp (env_xml E) (env_floats E) number name username password s = Some (Inr a, s') \<and>
     (\<exists>b t. Login E junk_id junk username (kept_text password) s' = ((b, True, False), t) \<and> GetUserByEmail username t = Some b \<and>
        mName (users t ! b) = kept_text name \<and> account_id (mAccount (users t ! b)) = number) \<and>
     (\<forall>other. other \<noteq> kept_text password \<longrightarrow> (\<exists>b t. Login E junk_id junk username other s' = ((b, False, False), t) \<and>
        sUsersByEmail t = sUsersByEmail s' \<and> disk t = disk s')) \<and>
     (kept_text password = password \<longleftrightarrow> CHR 0x0D \<notin> set password \<and> (password = [] \<or> \<not> blank password)) \<and>
     SignUp (env_xml E) (env_floats E) number' name' username password' s' = Some (Inl AlreadyRegistered, s')"
proof -
  define user where "user = (User_new name username password)\<lparr>mAccount := Account_default\<lparr>account_id := number\<rparr>\<rparr>"
  have un: "mUsername user = username" "mCreatures user = []" by (simp_all add: user_def User_new_def)
  have w: "writable (disk s) (user_path (disk s) (mUsername user))" using assms(7) un by simp
  have st: "storable_user (env_templates E) user" unfolding user_def by (rule new_user_storable [OF assms(2,3)])
  obtain d' where d': "User_Save (env_xml E) (env_floats E) user (disk s) = Some (True, d')"
    "User_Load (env_xml E) (env_floats E) (env_templates E) junk_id junk d' (User_new [] username []) = (True, stored_user (env_floats E) user)"
    using user_stored [OF assms(1) disjI2 [OF un(2)] st assms(4) w] un by fastforce
  define s' where "s' = s\<lparr>users := users s @ [user], disk := d'\<rparr>"
  have up: "SignUp (env_xml E) (env_floats E) number name username password s = Some (Inr (length (users s)), s')"
    using assms(5,6) by (simp add: SignUp_def user_def [symmetric] d'(1) s'_def Let_def)
  have pw: "mPassword (stored_user F user) = kept_text password" "mName (stored_user F user) = kept_text name"
    "account_id (mAccount (stored_user F user)) = number" for F
    by (simp_all add: stored_user_def user_def User_new_def stored_account_def)
  have "\<exists>b t. Login E junk_id junk username (kept_text password) s' = ((b, True, False), t) \<and> GetUserByEmail username t = Some b \<and>
      mName (users t ! b) = kept_text name \<and> account_id (mAccount (users t ! b)) = number"
    using assms(5) d'(2) pw by (simp add: Login_def s'_def GetUserByEmail_def nth_append)
  moreover have "\<exists>b t. Login E junk_id junk username other s' = ((b, False, False), t) \<and>
      sUsersByEmail t = sUsersByEmail s' \<and> disk t = disk s'" if "other \<noteq> kept_text password" for other
    using that assms(5) d'(2) pw by (auto simp: Login_def s'_def)
  moreover have "files d' (user_path d' username) \<noteq> None"
    using d'(2) by (auto simp: User_Load_def load_file_def User_new_def split: option.splits)
  then have "SignUp (env_xml E) (env_floats E) number' name' username password' s' = Some (Inl AlreadyRegistered, s')"
    using assms(5) by (simp add: SignUp_def s'_def Let_def)
  ultimately show ?thesis using up kept_text_lost [of password] by blast
qed

theorem signup_then_login_witness:
  "\<exists>a s'. SignUp (env_xml demo_env) (env_floats demo_env) 42 ''Sage'' ''sage@mail'' ''  '' no_sessions = Some (Inr a, s') \<and>
     (\<exists>b t. Login demo_env 0 [0, 0, 0] ''sage@mail'' [] s' = ((b, True, False), t) \<and> GetUserByEmail ''sage@mail'' t = Some b \<and>
        mName (users t ! b) = ''Sage'' \<and> account_id (mAccount (users t ! b)) = 42) \<and>
     (\<exists>b t. Login demo_env 0 [0, 0, 0] ''sage@mail'' ''  '' s' = ((b, False, False), t)) \<and>
     SignUp (env_xml demo_env) (env_floats demo_env) 7 ''Other'' ''sage@mail'' ''x'' s' = Some (Inl AlreadyRegistered, s')"
proof -
  have k: "kept_text ''  '' = []" "kept_text ''Sage'' = ''Sage''" by (simp_all add: kept_text_def blank_def)
  have p: "plain_text ''Sage''" "plain_text ''  ''" by (simp_all add: plain_text_def)
  have e: "xml_laws (env_xml demo_env)" "length [0, 0, 0 :: u32] = 3" "RBT.lookup (sUsersByEmail no_sessions) ''sage@mail'' = None"
    "files (disk no_sessions) (user_path (disk no_sessions) ''sage@mail'') = None"
    "writable (disk no_sessions) (user_path (disk no_sessions) ''sage@mail'')"
    by (simp_all add: demo_env_def std_xml_laws no_sessions_def empty_disk_def)
  obtain a s' where r: "SignUp (env_xml demo_env) (env_floats demo_env) 42 ''Sage'' ''sage@mail'' ''  '' no_sessions = Some (Inr a, s')"
    "\<exists>b t. Login demo_env 0 [0, 0, 0] ''sage@mail'' [] s' = ((b, True, False), t) \<and> GetUserByEmail ''sage@mail'' t = Some b \<and>
        mName (users t ! b) = ''Sage'' \<and> account_id (mAccount (users t ! b)) = 42"
    "\<forall>other. other \<noteq> [] \<longrightarrow> (\<exists>b t. Login demo_env 0 [0, 0, 0] ''sage@mail'' other s' = ((b, False, False), t) \<and>
        sUsersByEmail t = sUsersByEmail s' \<and> disk t = disk s')"
    "SignUp (env_xml demo_env) (env_floats demo_env) 7 ''Other'' ''sage@mail'' ''x'' s' = Some (Inl AlreadyRegistered, s')"
    using signup_then_login [OF e(1) p(1,2) e(2) e(3,4,5), where number = 42 and number' = 7 and name' = "''Other''" and password' = "''x''" and junk_id = 0, unfolded k]
    by blast
  have "\<exists>b t. Login demo_env 0 [0, 0, 0] ''sage@mail'' ''  '' s' = ((b, False, False), t)" using spec [OF r(3), of "''  ''"] by auto
  with r show ?thesis by blast
qed

text \<open>A login under a name that is logged in ignores the password.\<close>

lemma second_login: "GetUserByEmail username s = Some a \<Longrightarrow> Login E junk_id junk username password s = ((a, False, True), s)"
  by (simp add: Login_def GetUserByEmail_def)

end
