(* ===== verification/GameStates.thy ===== *)
theory GameStates
  imports Prelude
begin

text \<open>
  The state machine of a game client: \<open>GameState\<close>, \<open>IsValidStateChange\<close>, \<open>to_string\<close> and
  \<open>Client::SetGameState\<close> of \<open>source/RakNet/Client.{h,cpp}\<close>.
\<close>

text \<open>A 32-bit enumeration: \<open>GS_Other\<close> stands for the values without a name (and \<open>Count\<close>).\<close>

datatype GameState =
    Invalid | Boot | Login_State | Spaceship | Editor | LevelEditor | PreDungeon | Dungeon | Observer | Cinematic
  | Spectator | Replay | ChainVoting | ChainCashOut | GameOver | Quit | ArenaLobby | ArenaRoundResults
  | JuggernautLobby | JuggernautResults | KillRaceLobby | KillRaceResults | GS_Other u32

definition IsValidStateChange :: "GameState \<Rightarrow> GameState \<Rightarrow> bool" where
  "IsValidStateChange fromState toState \<longleftrightarrow>
     (if toState = Login_State \<and> fromState \<noteq> Login_State then True
      else if toState = Spaceship \<and> fromState \<noteq> Spaceship then True
      else case fromState of
          Login_State \<Rightarrow> True | Dungeon \<Rightarrow> True | Observer \<Rightarrow> True | Cinematic \<Rightarrow> True | Spectator \<Rightarrow> True
        | Editor \<Rightarrow> toState = Spaceship | ChainCashOut \<Rightarrow> toState = Spaceship | GameOver \<Rightarrow> toState = Spaceship
        | JuggernautResults \<Rightarrow> toState = Spaceship | KillRaceResults \<Rightarrow> toState = Spaceship
        | LevelEditor \<Rightarrow> toState = Spaceship \<or> toState = PreDungeon
        | Replay \<Rightarrow> toState = Spaceship \<or> toState = PreDungeon
        | ArenaLobby \<Rightarrow> toState = Spaceship \<or> toState = PreDungeon
        | JuggernautLobby \<Rightarrow> toState = Spaceship \<or> toState = PreDungeon
        | KillRaceLobby \<Rightarrow> toState = Spaceship \<or> toState = PreDungeon
        | Boot \<Rightarrow> toState = Login_State \<or> toState = Spaceship
        | Spaceship \<Rightarrow> toState = Editor \<or> toState = LevelEditor \<or> toState = PreDungeon \<or> toState = Replay \<or>
            toState = ChainVoting \<or> toState = ArenaLobby
        | PreDungeon \<Rightarrow> toState = Spaceship \<or> toState = Dungeon \<or> toState = Spectator \<or> toState = Replay
        | ChainVoting \<Rightarrow> toState = Spaceship \<or> toState = PreDungeon \<or> toState = ChainCashOut
        | ArenaRoundResults \<Rightarrow> toState = Spaceship \<or> toState = ArenaLobby
        | _ \<Rightarrow> False)"

fun to_string_state :: "GameState \<Rightarrow> string" where
  "to_string_state Invalid = ''Invalid''" | "to_string_state Boot = ''Boot''" | "to_string_state Login_State = ''Login''"
| "to_string_state Spaceship = ''Spaceship''" | "to_string_state Editor = ''Editor''"
| "to_string_state LevelEditor = ''LevelEditor''" | "to_string_state PreDungeon = ''PreDungeon''"
| "to_string_state Dungeon = ''Dungeon''" | "to_string_state Observer = ''Observer''"
| "to_string_state Cinematic = ''Cinematic''" | "to_string_state Spectator = ''Spectator''"
| "to_string_state Replay = ''Replay''" | "to_string_state ChainVoting = ''ChainVoting''"
| "to_string_state ChainCashOut = ''ChainCashOut''" | "to_string_state GameOver = ''GameOver''"
| "to_string_state Quit = ''Quit''" | "to_string_state ArenaLobby = ''ArenaLobby''"
| "to_string_state ArenaRoundResults = ''ArenaRoundResults''" | "to_string_state JuggernautLobby = ''JuggernautLobby''"
| "to_string_state JuggernautResults = ''JuggernautResults''" | "to_string_state KillRaceLobby = ''KillRaceLobby''"
| "to_string_state KillRaceResults = ''KillRaceResults''" | "to_string_state (GS_Other w) = ''Unknown''"

text \<open>\<open>SetGameState\<close> (the message on the console left out): the result and the new state.\<close>

definition SetGameState :: "GameState \<Rightarrow> GameState \<Rightarrow> bool \<times> GameState" where
  "SetGameState newState s =
     (if s = Invalid \<or> IsValidStateChange s newState then (True, newState) else (False, s))"

subsection \<open>Runs\<close>

text \<open>The states of a client, which starts in \<open>Invalid\<close>, under a series of requests; refused ones do nothing.\<close>

inductive client_run :: "GameState list \<Rightarrow> bool" where
  init: "client_run [Invalid]"
| request: "client_run (s # ss) \<Longrightarrow> SetGameState t s = (ok, s') \<Longrightarrow> client_run (s' # s # ss)"

inductive_simps client_run_Cons: "client_run (t # s # ss)"

text \<open>The states that accept every change, and the states that lead to a guarded state otherwise.\<close>

definition open_states :: "GameState set" where
  "open_states = {Invalid, Login_State, Dungeon, Observer, Cinematic, Spectator}"

fun guards :: "GameState \<Rightarrow> GameState set" where
  "guards Editor = {Spaceship}" | "guards LevelEditor = {Spaceship}" | "guards ChainVoting = {Spaceship}"
| "guards ChainCashOut = {ChainVoting}" | "guards Dungeon = {PreDungeon}" | "guards Spectator = {PreDungeon}"
| "guards ArenaLobby = {Spaceship, ArenaRoundResults}" | "guards Replay = {Spaceship, PreDungeon}"
| "guards PreDungeon = {Spaceship, LevelEditor, Replay, ArenaLobby, JuggernautLobby, KillRaceLobby, ChainVoting}"
| "guards Login_State = - {Login_State}" | "guards Spaceship = - {Spaceship}"
| "guards _ = {}"

lemma change_guarded: "IsValidStateChange s t \<Longrightarrow> s \<in> guards t \<union> open_states"
  by (cases s; cases t) (simp_all add: IsValidStateChange_def open_states_def)

lemma guarded_change: "s \<in> guards t \<union> open_states \<Longrightarrow> s \<noteq> Invalid \<Longrightarrow> IsValidStateChange s t"
  by (cases s; cases t) (simp_all add: IsValidStateChange_def open_states_def)

text \<open>
  C37: In every run of a client, each state that differs from the one before is entered from one of
  its guards or from an open state: dungeons are entered from \<open>PreDungeon\<close>, the cash-out from
  \<open>ChainVoting\<close>, editors from the spaceship; and exactly those changes are accepted.
\<close>

theorem states_entered_through_guards:
  "(client_run (t # s # ss) \<and> t \<noteq> s \<longrightarrow> s \<in> guards t \<union> open_states) \<and>
   (SetGameState t s = (True, t) \<longleftrightarrow> s \<in> guards t \<union> open_states) \<and>
   (s \<notin> guards t \<union> open_states \<longrightarrow> SetGameState t s = (False, s))"
proof -
  have eq: "(s = Invalid \<or> IsValidStateChange s t) = (s \<in> guards t \<union> open_states)" for s t
    using change_guarded [of s t] guarded_change [of s t] by (auto simp: open_states_def)
  have "s \<in> guards t \<union> open_states" if r: "client_run (t # s # ss)" and d: "t \<noteq> s"
  proof -
    obtain r ok where "SetGameState r s = (ok, t)" using r by (auto simp: client_run_Cons)
    then have "r = t \<and> (s = Invalid \<or> IsValidStateChange s t)" using d by (auto simp: SetGameState_def split: if_splits)
    then show ?thesis using eq by blast
  qed
  moreover have "SetGameState t s = (if s \<in> guards t \<union> open_states then (True, t) else (False, s))"
    unfolding SetGameState_def eq ..
  ultimately show ?thesis by simp
qed

theorem states_entered_through_guards_witness:
  "SetGameState Dungeon PreDungeon = (True, Dungeon) \<and> SetGameState Dungeon Spaceship = (False, Spaceship)"
proof -
  have "SetGameState Dungeon PreDungeon = (True, Dungeon)"
    using states_entered_through_guards [of Dungeon PreDungeon "[]"] by simp
  moreover have "SetGameState Dungeon Spaceship = (False, Spaceship)"
    using states_entered_through_guards [of Dungeon Spaceship "[]"] by (simp add: open_states_def)
  ultimately show ?thesis by blast
qed

text \<open>
  No state is final: from every state a client can get to the spaceship, and from there to the
  login, in one accepted change each; even after quitting.
\<close>

lemma no_state_is_final:
  "(s \<noteq> Spaceship \<longrightarrow> SetGameState Spaceship s = (True, Spaceship)) \<and>
   (s \<noteq> Login_State \<longrightarrow> SetGameState Login_State s = (True, Login_State))"
  by (simp add: SetGameState_def IsValidStateChange_def)

end
