(* ===== verification/Rooms.thy ===== *)
theory Rooms
  imports Sessions BlazeMessages
begin

text \<open>
  Chat rooms, their categories and views: \<open>source/SporeNet/Room.{h,cpp}\<close>.  The objects, which maps,
  users and clients share, are stores as for the users; the manager's ordered maps lead from
  numbers to them.
\<close>

subsection \<open>Numbered objects\<close>

text \<open>
  The three managers of the code are the same: a map from numbers to objects, where number 0 asks
  for the one after the last, and a number in use gives the object there is.
\<close>

record 'o registry =
  objects :: "'o list"
  table :: "(u32, nat) rbt"

definition registry_get :: "u32 \<Rightarrow> 'o registry \<Rightarrow> nat option" where
  "registry_get i R = RBT.lookup (table R) i"

definition next_number :: "'o registry \<Rightarrow> u32 \<Rightarrow> u32" where
  "next_number R i =
     (if i = 0 then (if RBT.entries (table R) = [] then 1 else fst (last (RBT.entries (table R))) + 1) else i)"

definition registry_create :: "(u32 \<Rightarrow> 'o) \<Rightarrow> u32 \<Rightarrow> 'o registry \<Rightarrow> nat \<times> 'o registry" where
  "registry_create new i R =
     (let n = next_number R i in
      case RBT.lookup (table R) n of
        Some a \<Rightarrow> (a, R)
      | None \<Rightarrow> (length (objects R), R\<lparr>objects := objects R @ [new n], table := RBT.insert n (length (objects R)) (table R)\<rparr>))"

definition registry_remove :: "u32 \<Rightarrow> 'o registry \<Rightarrow> 'o registry" where
  "registry_remove i R = R\<lparr>table := RBT.delete i (table R)\<rparr>"

definition registry_update :: "nat \<Rightarrow> ('o \<Rightarrow> 'o) \<Rightarrow> 'o registry \<Rightarrow> 'o registry" where
  "registry_update a f R = R\<lparr>objects := (objects R)[a := f (objects R ! a)]\<rparr>"

text \<open>
  What the clients of the managers rely on.  \<open>new\<close> makes an object of a number, \<open>ident\<close> is the
  number of an object.
\<close>

locale numbered =
  fixes new :: "u32 \<Rightarrow> 'o" and ident :: "'o \<Rightarrow> u32"
  assumes ident_new: "ident (new i) = i"
begin

definition registered :: "'o registry \<Rightarrow> bool" where
  "registered R \<longleftrightarrow> (\<forall>i a. registry_get i R = Some a \<longrightarrow> a < length (objects R) \<and> ident (objects R ! a) = i)"

lemma registered_empty: "registered \<lparr>objects = [], table = RBT.empty\<rparr>"
  by (simp add: registered_def registry_get_def)

lemma registered_remove: "registered R \<Longrightarrow> registered (registry_remove i R)"
  by (auto simp: registered_def registry_get_def registry_remove_def restrict_map_def split: if_splits)

lemma ident_update:
  assumes "\<And>x. ident (f x) = ident x"
  shows "ident (xs[a := f (xs ! a)] ! i) = ident (xs ! i)"
  using assms by (cases "a < length xs") (auto simp: nth_list_update not_less list_update_beyond)

lemma registered_update: "registered R \<Longrightarrow> (\<And>x. ident (f x) = ident x) \<Longrightarrow> registered (registry_update a f R)"
  by (simp add: registered_def registry_get_def registry_update_def ident_update)

lemma registered_create:
  assumes "registered R" and "registry_create new i R = (a, R')"
  shows "registered R'" "registry_get (next_number R i) R' = Some a" "a < length (objects R')"
    "ident (objects R' ! a) = next_number R i" "\<And>j b. registry_get j R = Some b \<Longrightarrow> registry_get j R' = Some b"
    "\<And>b. b < length (objects R) \<Longrightarrow> objects R' ! b = objects R ! b" "length (objects R) \<le> length (objects R')"
proof -
  have r: "b < length (objects R) \<and> ident (objects R ! b) = j" if "RBT.lookup (table R) j = Some b" for j b
    using assms(1) that by (simp add: registered_def registry_get_def)
  have "registered R' \<and> registry_get (next_number R i) R' = Some a \<and> a < length (objects R') \<and>
      ident (objects R' ! a) = next_number R i \<and> (\<forall>j b. registry_get j R = Some b \<longrightarrow> registry_get j R' = Some b) \<and>
      (\<forall>b. b < length (objects R) \<longrightarrow> objects R' ! b = objects R ! b) \<and> length (objects R) \<le> length (objects R')"
  proof (cases "RBT.lookup (table R) (next_number R i)")
    case None
    then have R': "a = length (objects R)" "R' = R\<lparr>objects := objects R @ [new (next_number R i)],
        table := RBT.insert (next_number R i) (length (objects R)) (table R)\<rparr>"
      using assms(2) by (auto simp: registry_create_def Let_def)
    have "registered R'"
      unfolding registered_def registry_get_def R'
      by (auto simp: nth_append ident_new dest: r intro: less_SucI [OF conjunct1 [OF r]])
    then show ?thesis using None by (auto simp: R' registry_get_def nth_append ident_new)
  next
    case (Some b)
    then have "a = b" "R' = R" using assms(2) by (auto simp: registry_create_def Let_def)
    then show ?thesis using assms(1) Some r by (auto simp: registry_get_def)
  qed
  then show "registered R'" "registry_get (next_number R i) R' = Some a" "a < length (objects R')"
    "ident (objects R' ! a) = next_number R i" "\<And>j b. registry_get j R = Some b \<Longrightarrow> registry_get j R' = Some b"
    "\<And>b. b < length (objects R) \<Longrightarrow> objects R' ! b = objects R ! b" "length (objects R) \<le> length (objects R')"
    by auto
qed

text \<open>Number 0 gives a new number, as long as the largest one is not in use.\<close>

lemma fresh_number:
  assumes "registry_get (- 1) R = None"
  shows "registry_get (next_number R 0) R = None \<and> next_number R 0 \<noteq> 0"
proof (cases "RBT.entries (table R) = []")
  case True
  then have "RBT.lookup (table R) k = None" for k by (simp add: RBT.map_of_entries [symmetric])
  with True show ?thesis by (simp add: next_number_def registry_get_def)
next
  case False
  define k where "k = fst (last (RBT.entries (table R)))"
  have le: "j \<le> k" if "RBT.lookup (table R) j = Some b" for j b
  proof -
    let ?ks = "map fst (RBT.entries (table R))"
    have "j \<in> set ?ks" using that by (force simp: RBT.lookup_in_tree)
    moreover obtain bs x where "?ks = bs @ [x]" using False by (metis map_is_Nil_conv rev_exhaust)
    ultimately have "j \<le> last ?ks" using RBT.sorted_entries [of "table R"] by (auto simp: sorted_append)
    then show ?thesis using False by (simp add: k_def last_map)
  qed
  have "(k, snd (last (RBT.entries (table R)))) \<in> set (RBT.entries (table R))" using False by (simp add: k_def)
  then have "RBT.lookup (table R) k \<noteq> None" by (simp add: RBT.lookup_in_tree [symmetric])
  then have "k \<noteq> - 1" using assms by (auto simp: registry_get_def)
  then have u: "unat (k + 1) = unat k + 1" by (rule unat_plus_one)
  then have "\<not> k + 1 \<le> k" "k + 1 \<noteq> 0" by (auto simp: word_le_nat_alt)
  then have "RBT.lookup (table R) (k + 1) = None" using le by (cases "RBT.lookup (table R) (k + 1)") auto
  then show ?thesis using False \<open>k + 1 \<noteq> 0\<close> by (simp add: next_number_def registry_get_def k_def)
qed

end

subsection \<open>Views, categories, rooms\<close>

record RoomView =
  rv_name :: string
  rv_id :: u32

record RoomCategory =
  rc_view :: "nat option"
  rc_name :: string
  rc_description :: string
  rc_password :: string
  rc_id :: u32

text \<open>The users of a room are weak references, by the number of the user.\<close>

record Room =
  rm_users :: "(u64, nat) rbt"
  rm_category :: "nat option"
  rm_name :: string
  rm_password :: string
  rm_id :: u32
  rm_capacity :: u32

definition RoomView_new :: "u32 \<Rightarrow> RoomView" where
  "RoomView_new i = \<lparr>rv_name = ''Lobby View #'' @ decimal (unat i), rv_id = i\<rparr>"

definition RoomCategory_new :: "u32 \<Rightarrow> RoomCategory" where
  "RoomCategory_new i = \<lparr>rc_view = None, rc_name = ''Lobby Category #'' @ decimal (unat i), rc_description = [],
     rc_password = [], rc_id = i\<rparr>"

definition Room_new :: "u32 \<Rightarrow> Room" where
  "Room_new i = \<lparr>rm_users = RBT.empty, rm_category = None, rm_name = ''Lobby #'' @ decimal (unat i), rm_password = [],
     rm_id = i, rm_capacity = 1\<rparr>"

record rooms =
  mRooms :: "Room registry"
  mRoomCategories :: "RoomCategory registry"
  mRoomViews :: "RoomView registry"

interpretation views: numbered RoomView_new rv_id by standard (simp add: RoomView_new_def)
interpretation categories: numbered RoomCategory_new rc_id by standard (simp add: RoomCategory_new_def)
interpretation all_rooms: numbered Room_new rm_id by standard (simp add: Room_new_def)

definition GetRoom :: "u32 \<Rightarrow> rooms \<Rightarrow> nat option" where "GetRoom i m = registry_get i (mRooms m)"

definition CreateRoom :: "u32 \<Rightarrow> rooms \<Rightarrow> nat \<times> rooms" where
  "CreateRoom i m = (let (a, R) = registry_create Room_new i (mRooms m) in (a, m\<lparr>mRooms := R\<rparr>))"

definition RemoveRoom :: "u32 \<Rightarrow> rooms \<Rightarrow> rooms" where "RemoveRoom i m = m\<lparr>mRooms := registry_remove i (mRooms m)\<rparr>"

definition GetRoomCategory :: "u32 \<Rightarrow> rooms \<Rightarrow> nat option" where
  "GetRoomCategory i m = registry_get i (mRoomCategories m)"

definition CreateRoomCategory :: "u32 \<Rightarrow> rooms \<Rightarrow> nat \<times> rooms" where
  "CreateRoomCategory i m =
     (let (a, R) = registry_create RoomCategory_new i (mRoomCategories m) in (a, m\<lparr>mRoomCategories := R\<rparr>))"

definition RemoveRoomCategory :: "u32 \<Rightarrow> rooms \<Rightarrow> rooms" where
  "RemoveRoomCategory i m = m\<lparr>mRoomCategories := registry_remove i (mRoomCategories m)\<rparr>"

definition GetRoomView :: "u32 \<Rightarrow> rooms \<Rightarrow> nat option" where "GetRoomView i m = registry_get i (mRoomViews m)"

definition CreateRoomView :: "u32 \<Rightarrow> rooms \<Rightarrow> nat \<times> rooms" where
  "CreateRoomView i m = (let (a, R) = registry_create RoomView_new i (mRoomViews m) in (a, m\<lparr>mRoomViews := R\<rparr>))"

definition RemoveRoomView :: "u32 \<Rightarrow> rooms \<Rightarrow> rooms" where
  "RemoveRoomView i m = m\<lparr>mRoomViews := registry_remove i (mRoomViews m)\<rparr>"

abbreviation the_room :: "rooms \<Rightarrow> nat \<Rightarrow> Room" where "the_room m r \<equiv> objects (mRooms m) ! r"
abbreviation the_category :: "rooms \<Rightarrow> nat \<Rightarrow> RoomCategory" where "the_category m c \<equiv> objects (mRoomCategories m) ! c"
abbreviation the_view :: "rooms \<Rightarrow> nat \<Rightarrow> RoomView" where "the_view m v \<equiv> objects (mRoomViews m) ! v"

definition SetView :: "nat \<Rightarrow> nat option \<Rightarrow> rooms \<Rightarrow> rooms" where
  "SetView c v m = m\<lparr>mRoomCategories := registry_update c (rc_view_update (\<lambda>_. v)) (mRoomCategories m)\<rparr>"

definition SetCategory :: "nat \<Rightarrow> nat option \<Rightarrow> rooms \<Rightarrow> rooms" where
  "SetCategory r c m = m\<lparr>mRooms := registry_update r (rm_category_update (\<lambda>_. c)) (mRooms m)\<rparr>"

text \<open>The constructor of the manager.\<close>

definition no_rooms :: rooms where
  "no_rooms = \<lparr>mRooms = \<lparr>objects = [], table = RBT.empty\<rparr>, mRoomCategories = \<lparr>objects = [], table = RBT.empty\<rparr>,
     mRoomViews = \<lparr>objects = [], table = RBT.empty\<rparr>\<rparr>"

definition RoomManager_new :: rooms where
  "RoomManager_new =
     (let (v, m) = CreateRoomView 1 no_rooms;
          m = fold (\<lambda>i m. let (c, m) = CreateRoomCategory (of_nat i + 1) m in SetView c (Some v) m) [0..<4] m
      in fold (\<lambda>i m. let (r, m) = CreateRoom (of_nat i + 1) m in SetCategory r (GetRoomCategory (of_nat i + 1) m) m) [0..<4] m)"

subsection \<open>Members\<close>

text \<open>
  \<open>emplace\<close> adds nothing under a number that is in use.  The number of a user is a signed 64-bit
  number, the key the unsigned number of the same bits.
\<close>

definition Room_AddUser :: "nat \<Rightarrow> nat \<Rightarrow> rooms \<times> sessions \<Rightarrow> rooms \<times> sessions" where
  "Room_AddUser r a = (\<lambda>(m, s).
     let s1 = update_user a (mRoom_update (\<lambda>_. Some r)) s;
         k = account_id (mAccount (users s1 ! a))
     in (m\<lparr>mRooms := registry_update r (rm_users_update (\<lambda>us. if RBT.lookup us k = None then RBT.insert k a us else us)) (mRooms m)\<rparr>, s1))"

definition Room_RemoveUser :: "nat \<Rightarrow> nat \<Rightarrow> rooms \<times> sessions \<Rightarrow> rooms \<times> sessions" where
  "Room_RemoveUser r a = (\<lambda>(m, s).
     let k = account_id (mAccount (users s ! a));
         m1 = m\<lparr>mRooms := registry_update r (rm_users_update (RBT.delete k)) (mRooms m)\<rparr>
     in (if RBT.entries (rm_users (the_room m1 r)) = [] then RemoveRoom (rm_id (the_room m1 r)) m1 else m1, s))"

subsection \<open>On the wire\<close>

definition RoomView_WriteTo :: "jsonlib \<Rightarrow> RoomView \<Rightarrow> packet \<Rightarrow> packet option" where
  "RoomView_WriteTo J v = run
     [put_string J ''DISP'' ''hello'',
      within (push_map J ''GMET'' T_String T_String) [],
      within (push_map J ''META'' T_String T_String) [],
      put_integer J ''MXRM'' 1,
      put_string J ''NAME'' (rv_name v),
      put_integer J ''USRM'' 0,
      put_integer J ''VWID'' (ucast (rv_id v))]"

definition RoomCategory_WriteTo :: "jsonlib \<Rightarrow> rooms \<Rightarrow> RoomCategory \<Rightarrow> packet \<Rightarrow> packet option" where
  "RoomCategory_WriteTo J m c = run
     [put_integer J ''CAPA'' 10,
      within (push_map J ''CMET'' T_String T_String) [],
      within (push_map J ''CRIT'' T_String T_String) [],
      put_integer J ''CTID'' (ucast (rc_id c)),
      put_string J ''DESC'' (rc_description c),
      put_string J ''DISP'' [],
      put_string J ''DISR'' [],
      put_integer J ''EMAX'' 10,
      put_integer J ''EPCT'' 0,
      put_integer J ''FLAG'' 0,
      within (push_map J ''GMET'' T_String T_String) [],
      put_string J ''LOCL'' [],
      put_string J ''NAME'' (rc_name c),
      put_integer J ''NEXP'' 1,
      put_string J ''PASS'' (rc_password c),
      put_integer J ''UCRT'' 1,
      put_integer J ''VWID'' (case rc_view c of None \<Rightarrow> 0 | Some v \<Rightarrow> ucast (rv_id (the_view m v)))]"

text \<open>The members whose objects are gone (\<open>gone\<close>) are erased while the list is written.\<close>

definition Room_live :: "(nat \<Rightarrow> bool) \<Rightarrow> Room \<Rightarrow> (u64, nat) rbt" where
  "Room_live gone r =
     fold (\<lambda>(k, a) us. if gone a then RBT.delete k us else us) (RBT.entries (rm_users r)) (rm_users r)"

definition Room_packet :: "jsonlib \<Rightarrow> rooms \<Rightarrow> (nat \<Rightarrow> bool) \<Rightarrow> Room \<Rightarrow> packet \<Rightarrow> packet option" where
  "Room_packet J m gone r =
     (let (categoryName, categoryId) = (case rm_category r of
            Some c \<Rightarrow> (rc_name (the_category m c), rc_id (the_category m c)) | None \<Rightarrow> (''Unknown category'', 0));
          members = filter (\<lambda>(k, a). \<not> gone a) (RBT.entries (rm_users r))
      in run
     [put_integer J ''AREM'' 1,
      within (push_map J ''ATTR'' T_String T_String) [],
      within (push_list J ''BLST'' T_Integer False) [each (\<lambda>(k, a). put_integer J [] k) members],
      put_integer J ''CAP'' (ucast (rm_capacity r)),
      put_string J ''CNAM'' categoryName,
      put_integer J ''CRET'' 0,
      within (push_map J ''CRIT'' T_String T_String) [],
      put_integer J ''CRTM'' 0,
      put_integer J ''CTID'' (ucast categoryId),
      put_integer J ''ENUM'' 1,
      put_string J ''HNAM'' ''Lobby'',
      put_integer J ''HOST'' 1,
      put_string J ''NAME'' (rm_name r),
      put_integer J ''POPU'' (ucast (of_nat (length members) :: u32)),
      put_string J ''PSWD'' (rm_password r),
      put_string J ''PVAL'' [],
      put_integer J ''RMID'' (ucast (rm_id r)),
      put_integer J ''UCRT'' 1])"

definition Room_WriteTo :: "jsonlib \<Rightarrow> (nat \<Rightarrow> bool) \<Rightarrow> nat \<Rightarrow> rooms \<Rightarrow> packet \<Rightarrow> (packet \<times> rooms) option" where
  "Room_WriteTo J gone r m p = do {
     p \<leftarrow> Room_packet J m gone (the_room m r) p;
     Some (p, m\<lparr>mRooms := registry_update r (\<lambda>x. x\<lparr>rm_users := Room_live gone x\<rparr>) (mRooms m)\<rparr>)
   }"

subsection \<open>The manager's invariant\<close>

text \<open>
  Each number leads to an object with that number, the category of every room and the view of every
  category exist.
\<close>

definition rooms_ok :: "rooms \<Rightarrow> bool" where
  "rooms_ok m \<longleftrightarrow>
     all_rooms.registered (mRooms m) \<and> categories.registered (mRoomCategories m) \<and> views.registered (mRoomViews m) \<and>
     (\<forall>r < length (objects (mRooms m)). \<forall>c. rm_category (the_room m r) = Some c \<longrightarrow> c < length (objects (mRoomCategories m))) \<and>
     (\<forall>c < length (objects (mRoomCategories m)). \<forall>v. rc_view (the_category m c) = Some v \<longrightarrow> v < length (objects (mRoomViews m)))"

lemma created_object:
  "registry_create new i R = (a, R') \<Longrightarrow> b < length (objects R') \<Longrightarrow>
     b < length (objects R) \<and> objects R' ! b = objects R ! b \<or> objects R' ! b = new (next_number R i)"
  by (auto simp: registry_create_def Let_def nth_append less_Suc_eq split: option.splits)

lemma CreateRoom_ok:
  assumes "rooms_ok m" and "CreateRoom i m = (a, m')"
  shows "rooms_ok m' \<and> a < length (objects (mRooms m')) \<and> mRoomCategories m' = mRoomCategories m \<and> mRoomViews m' = mRoomViews m"
proof -
  obtain R where R: "registry_create Room_new i (mRooms m) = (a, R)" "m' = m\<lparr>mRooms := R\<rparr>"
    using assms(2) by (auto simp: CreateRoom_def split: prod.splits)
  have "all_rooms.registered (mRooms m)" using assms(1) by (simp add: rooms_ok_def)
  note c = all_rooms.registered_create [OF this R(1)]
  have "rm_category (objects R ! r) = Some x \<Longrightarrow> x < length (objects (mRoomCategories m))" if "r < length (objects R)" for r x
    using created_object [OF R(1) that] assms(1) by (auto simp: rooms_ok_def Room_new_def)
  with assms(1) c(1,3) show ?thesis by (simp add: rooms_ok_def R(2))
qed

lemma CreateRoomCategory_ok:
  assumes "rooms_ok m" and "CreateRoomCategory i m = (a, m')"
  shows "rooms_ok m' \<and> a < length (objects (mRoomCategories m')) \<and> mRooms m' = mRooms m \<and> mRoomViews m' = mRoomViews m"
proof -
  obtain R where R: "registry_create RoomCategory_new i (mRoomCategories m) = (a, R)" "m' = m\<lparr>mRoomCategories := R\<rparr>"
    using assms(2) by (auto simp: CreateRoomCategory_def split: prod.splits)
  have "categories.registered (mRoomCategories m)" using assms(1) by (simp add: rooms_ok_def)
  note c = categories.registered_create [OF this R(1)]
  have "rc_view (objects R ! r) = Some x \<Longrightarrow> x < length (objects (mRoomViews m))" if "r < length (objects R)" for r x
    using created_object [OF R(1) that] assms(1) by (auto simp: rooms_ok_def RoomCategory_new_def)
  with assms(1) c(1,3,7) show ?thesis by (auto simp: rooms_ok_def R(2) intro: less_le_trans)
qed

lemma CreateRoomView_ok:
  assumes "rooms_ok m" and "CreateRoomView i m = (a, m')"
  shows "rooms_ok m' \<and> a < length (objects (mRoomViews m')) \<and> mRooms m' = mRooms m \<and> mRoomCategories m' = mRoomCategories m"
proof -
  obtain R where R: "registry_create RoomView_new i (mRoomViews m) = (a, R)" "m' = m\<lparr>mRoomViews := R\<rparr>"
    using assms(2) by (auto simp: CreateRoomView_def split: prod.splits)
  have "views.registered (mRoomViews m)" using assms(1) by (simp add: rooms_ok_def)
  note c = views.registered_create [OF this R(1)]
  with assms(1) show ?thesis by (auto simp: rooms_ok_def R(2) intro: less_le_trans)
qed

lemma remove_ok:
  "rooms_ok m \<Longrightarrow> rooms_ok (RemoveRoom i m)" "rooms_ok m \<Longrightarrow> rooms_ok (RemoveRoomCategory i m)"
  "rooms_ok m \<Longrightarrow> rooms_ok (RemoveRoomView i m)"
  by (simp_all add: rooms_ok_def RemoveRoom_def RemoveRoomCategory_def RemoveRoomView_def all_rooms.registered_remove
      categories.registered_remove views.registered_remove) (simp_all add: registry_remove_def)

lemma object_update:
  "objects (registry_update a f R) ! i = (if i = a \<and> a < length (objects R) then f (objects R ! a) else objects R ! i)"
  "length (objects (registry_update a f R)) = length (objects R)"
  by (cases "a < length (objects R)"; simp add: registry_update_def nth_list_update not_less list_update_beyond)+

lemma set_ok:
  "rooms_ok m \<Longrightarrow> v < length (objects (mRoomViews m)) \<Longrightarrow> rooms_ok (SetView c (Some v) m)"
  "rooms_ok m \<Longrightarrow> k < length (objects (mRoomCategories m)) \<Longrightarrow> rooms_ok (SetCategory r (Some k) m)"
  by (simp_all add: rooms_ok_def SetView_def SetCategory_def categories.registered_update all_rooms.registered_update object_update)

lemma update_room_ok:
  assumes "rooms_ok m" and "\<And>x. rm_id (f x) = rm_id x" and "\<And>x. rm_category (f x) = rm_category x"
  shows "rooms_ok (m\<lparr>mRooms := registry_update r f (mRooms m)\<rparr>)"
  using assms by (simp add: rooms_ok_def all_rooms.registered_update object_update)

lemma Room_AddUser_ok: "rooms_ok m \<Longrightarrow> rooms_ok (fst (Room_AddUser r a (m, s)))"
  by (simp add: Room_AddUser_def Let_def update_room_ok)

lemma Room_RemoveUser_ok: "rooms_ok m \<Longrightarrow> rooms_ok (fst (Room_RemoveUser r a (m, s)))"
  by (simp add: Room_RemoveUser_def Let_def update_room_ok remove_ok)

lemma Room_WriteTo_ok: "rooms_ok m \<Longrightarrow> Room_WriteTo J gone r m p = Some (q, m') \<Longrightarrow> rooms_ok m'"
  by (auto simp: Room_WriteTo_def update_room_ok split: bind_splits)

lemma entries_singleton: "RBT.entries (RBT.insert k v RBT.empty) = [(k, v)]"
proof -
  let ?xs = "RBT.entries (RBT.insert k v RBT.empty)"
  have "set ?xs = {(k, v)}" by (auto simp: RBT.lookup_in_tree [symmetric] split: if_splits)
  moreover have "distinct ?xs" using RBT.distinct_entries distinct_map by blast
  ultimately have "length ?xs = 1" by (metis distinct_card card.empty card.insert empty_iff finite.emptyI One_nat_def)
  then show ?thesis using \<open>set ?xs = {(k, v)}\<close> by (cases ?xs) auto
qed

lemma create_unused:
  "i \<noteq> 0 \<Longrightarrow> RBT.lookup (table R) i = None \<Longrightarrow>
     registry_create new i R = (length (objects R), R\<lparr>objects := objects R @ [new i], table := RBT.insert i (length (objects R)) (table R)\<rparr>)"
  by (simp add: registry_create_def next_number_def)

text \<open>The state that the constructor builds.\<close>

lemma RoomManager_new_eq:
  "RoomManager_new =
     \<lparr>mRooms = \<lparr>objects = map (\<lambda>(i, c). (Room_new i)\<lparr>rm_category := Some c\<rparr>) [(1, 0), (2, 1), (3, 2), (4, 3)],
        table = RBT.insert 4 3 (RBT.insert 3 2 (RBT.insert 2 1 (RBT.insert 1 0 RBT.empty)))\<rparr>,
      mRoomCategories = \<lparr>objects = map (\<lambda>i. (RoomCategory_new i)\<lparr>rc_view := Some 0\<rparr>) [1, 2, 3, 4],
        table = RBT.insert 4 3 (RBT.insert 3 2 (RBT.insert 2 1 (RBT.insert 1 0 RBT.empty)))\<rparr>,
      mRoomViews = \<lparr>objects = [RoomView_new 1], table = RBT.insert 1 0 RBT.empty\<rparr>\<rparr>"
proof -
  have u: "[0..<4] = [0, 1, 2, 3 :: nat]" by (simp add: upt_rec)
  show ?thesis
    by (simp add: RoomManager_new_def u CreateRoomView_def CreateRoomCategory_def CreateRoom_def create_unused no_rooms_def
        SetView_def SetCategory_def registry_update_def GetRoomCategory_def registry_get_def Let_def)
      (simp add: numeral_3_eq_3 numeral_2_eq_2)
qed

lemma RoomManager_new_ok: "rooms_ok RoomManager_new"
  unfolding RoomManager_new_eq rooms_ok_def
  by (simp add: all_rooms.registered_def categories.registered_def views.registered_def registry_get_def Room_new_def
      RoomCategory_new_def RoomView_new_def less_Suc_eq numeral_3_eq_3 numeral_2_eq_2)

lemma initial_rooms:
  "GetRoom j RoomManager_new = (if j = 1 then Some 0 else if j = 2 then Some 1 else if j = 3 then Some 2 else if j = 4 then Some 3 else None)"
  "GetRoomCategory j RoomManager_new = GetRoom j RoomManager_new"
  "GetRoomView j RoomManager_new = (if j = 1 then Some 0 else None)"
  "j \<in> {1, 2, 3, 4} \<Longrightarrow> GetRoom j RoomManager_new = Some r \<Longrightarrow>
     the_room RoomManager_new r = (Room_new j)\<lparr>rm_category := Some r\<rparr> \<and>
     the_category RoomManager_new r = (RoomCategory_new j)\<lparr>rc_view := Some 0\<rparr>"
  subgoal by (simp add: RoomManager_new_eq GetRoom_def registry_get_def)
  subgoal by (simp add: RoomManager_new_eq GetRoomCategory_def GetRoom_def registry_get_def)
  subgoal by (simp add: RoomManager_new_eq GetRoomView_def registry_get_def)
  subgoal
    by (elim insertE emptyE) (simp_all add: RoomManager_new_eq GetRoom_def registry_get_def nth_Cons' split: if_splits)
  done

text \<open>
  C27: The room manager starts with exactly the rooms 1 to 4, empty, each in the category of its
  number, each category in view 1; and creating, removing, joining, leaving and writing keep its invariant: every number leads
  to the object of that number, and every category and view referred to exists.
\<close>

theorem rooms_invariant:
  "rooms_ok RoomManager_new \<and>
   (\<forall>j. GetRoom j RoomManager_new \<noteq> None \<longleftrightarrow> j \<in> {1, 2, 3, 4}) \<and>
   (\<forall>j \<in> {1, 2, 3, 4}. \<exists>r c v. GetRoom j RoomManager_new = Some r \<and> GetRoomCategory j RoomManager_new = Some c \<and>
      GetRoomView 1 RoomManager_new = Some v \<and> the_room RoomManager_new r = (Room_new j)\<lparr>rm_category := Some c\<rparr> \<and>
      the_category RoomManager_new c = (RoomCategory_new j)\<lparr>rc_view := Some v\<rparr>) \<and>
   (rooms_ok m \<longrightarrow>
     rooms_ok (snd (CreateRoom i m)) \<and> rooms_ok (snd (CreateRoomCategory i m)) \<and> rooms_ok (snd (CreateRoomView i m)) \<and>
     rooms_ok (RemoveRoom i m) \<and> rooms_ok (RemoveRoomCategory i m) \<and> rooms_ok (RemoveRoomView i m) \<and>
     rooms_ok (fst (Room_AddUser r a (m, s))) \<and> rooms_ok (fst (Room_RemoveUser r a (m, s))) \<and>
     (\<forall>p q m'. Room_WriteTo J gone r m p = Some (q, m') \<longrightarrow> rooms_ok m'))"
proof -
  have "rooms_ok (snd (CreateRoom i m))" "rooms_ok (snd (CreateRoomCategory i m))" "rooms_ok (snd (CreateRoomView i m))"
    if "rooms_ok m"
    using CreateRoom_ok [OF that, of i] CreateRoomCategory_ok [OF that, of i] CreateRoomView_ok [OF that, of i]
    by (metis prod.collapse)+
  moreover have "\<forall>j. GetRoom j RoomManager_new \<noteq> None \<longleftrightarrow> j \<in> {1, 2, 3, 4}" by (simp add: initial_rooms(1))
  moreover have "\<forall>j \<in> {1, 2, 3, 4}. \<exists>r c v. GetRoom j RoomManager_new = Some r \<and> GetRoomCategory j RoomManager_new = Some c \<and>
      GetRoomView 1 RoomManager_new = Some v \<and> the_room RoomManager_new r = (Room_new j)\<lparr>rm_category := Some c\<rparr> \<and>
      the_category RoomManager_new c = (RoomCategory_new j)\<lparr>rc_view := Some v\<rparr>"
  proof
    fix j :: u32 assume j: "j \<in> {1, 2, 3, 4}"
    then obtain r where "GetRoom j RoomManager_new = Some r" by (auto simp: initial_rooms(1))
    then show "\<exists>r c v. GetRoom j RoomManager_new = Some r \<and> GetRoomCategory j RoomManager_new = Some c \<and>
      GetRoomView 1 RoomManager_new = Some v \<and> the_room RoomManager_new r = (Room_new j)\<lparr>rm_category := Some c\<rparr> \<and>
      the_category RoomManager_new c = (RoomCategory_new j)\<lparr>rc_view := Some v\<rparr>"
      using initial_rooms(4) [OF j] by (simp add: initial_rooms(2,3))
  qed
  ultimately show ?thesis by (simp add: RoomManager_new_ok remove_ok Room_AddUser_ok Room_RemoveUser_ok Room_WriteTo_ok)
qed

theorem rooms_invariant_witness: "rooms_ok (RemoveRoom 2 RoomManager_new)"
  using rooms_invariant [of RoomManager_new] by simp

subsection \<open>New rooms\<close>

text \<open>
  Asking for a new room (number 0) gives a room that did not exist, with a number that is not zero,
  while the largest number is not in use; all rooms there were keep their numbers.
\<close>

lemma new_room_is_fresh:
  assumes "rooms_ok m" and "GetRoom (- 1) m = None" and "CreateRoom 0 m = (a, m')"
  shows "a = length (objects (mRooms m)) \<and> rm_id (the_room m' a) \<noteq> 0 \<and> GetRoom (rm_id (the_room m' a)) m = None \<and>
    GetRoom (rm_id (the_room m' a)) m' = Some a \<and> (\<forall>i b. GetRoom i m = Some b \<longrightarrow> GetRoom i m' = Some b)"
proof -
  obtain R where R: "registry_create Room_new 0 (mRooms m) = (a, R)" "m' = m\<lparr>mRooms := R\<rparr>"
    using assms(3) by (auto simp: CreateRoom_def split: prod.splits)
  have reg: "all_rooms.registered (mRooms m)" using assms(1) by (simp add: rooms_ok_def)
  note c = all_rooms.registered_create [OF reg R(1)]
  have f: "registry_get (next_number (mRooms m) 0) (mRooms m) = None \<and> next_number (mRooms m) 0 \<noteq> 0"
    using all_rooms.fresh_number assms(2) by (simp add: GetRoom_def)
  then have "a = length (objects (mRooms m))"
    using R(1) by (auto simp: registry_create_def registry_get_def Let_def)
  with c(2,4,5) f show ?thesis by (simp add: GetRoom_def R(2))
qed

text \<open>
  When the last user leaves, the room is removed, also one of the four rooms of the server, which
  are never created again.
\<close>

lemma empty_static_room_removed:
  assumes "rooms_ok m" and "GetRoom i m = Some r" and "RBT.entries (rm_users (the_room m r)) = [(account_id (mAccount (users s ! a)), b)]"
  shows "GetRoom i (fst (Room_RemoveUser r a (m, s))) = None"
proof -
  let ?k = "account_id (mAccount (users s ! a))"
  have r: "r < length (objects (mRooms m))" "rm_id (the_room m r) = i"
    using assms(1,2) by (auto simp: rooms_ok_def all_rooms.registered_def GetRoom_def)
  have "RBT.lookup (RBT.delete ?k (rm_users (the_room m r))) j = None" for j
    using assms(3) RBT.map_of_entries [of "rm_users (the_room m r)"]
    by (simp add: restrict_map_def) (metis map_of.simps(1,2) fun_upd_apply fst_conv option.distinct(1))
  then have "RBT.entries (RBT.delete ?k (rm_users (the_room m r))) = []"
    by (metis RBT.lookup_in_tree list.set_intros(1) neq_Nil_conv old.prod.exhaust option.distinct(1))
  then show ?thesis
    using r by (simp add: Room_RemoveUser_def Let_def object_update RemoveRoom_def registry_remove_def GetRoom_def registry_get_def)
qed

subsection \<open>Members that are gone\<close>

lemma Room_live_lookup:
  "RBT.lookup (Room_live gone r) k =
     (case RBT.lookup (rm_users r) k of None \<Rightarrow> None | Some a \<Rightarrow> if gone a then None else Some a)"
proof -
  have f: "RBT.lookup (fold (\<lambda>(k, a) us. if gone a then RBT.delete k us else us) es us) k =
      (if \<exists>a. (k, a) \<in> set es \<and> gone a then None else RBT.lookup us k)" for es us
    by (induction es arbitrary: us) auto
  show ?thesis
    unfolding Room_live_def f by (auto simp: RBT.lookup_in_tree [symmetric] split: option.splits)
qed

text \<open>The fields of a room on the wire.\<close>

definition room_fields :: "rooms \<Rightarrow> (nat \<Rightarrow> bool) \<Rightarrow> Room \<Rightarrow> (string \<times> tdf) list" where
  "room_fields m gone r =
     (let members = map fst (filter (\<lambda>(k, a). \<not> gone a) (RBT.entries (rm_users r))) in
     [(''AREM'', V_Integer 1), (''ATTR'', V_Map T_String T_String []),
      (''BLST'', V_List T_Integer False (map V_Integer members)), (''CAP'', V_Integer (ucast (rm_capacity r))),
      (''CNAM'', V_String (case rm_category r of Some c \<Rightarrow> rc_name (the_category m c) | None \<Rightarrow> ''Unknown category'')),
      (''CRET'', V_Integer 0), (''CRIT'', V_Map T_String T_String []), (''CRTM'', V_Integer 0),
      (''CTID'', V_Integer (ucast (case rm_category r of Some c \<Rightarrow> rc_id (the_category m c) | None \<Rightarrow> 0))),
      (''ENUM'', V_Integer 1), (''HNAM'', V_String ''Lobby''), (''HOST'', V_Integer 1), (''NAME'', V_String (rm_name r)),
      (''POPU'', V_Integer (ucast (of_nat (length members) :: u32))), (''PSWD'', V_String (rm_password r)),
      (''PVAL'', V_String []), (''RMID'', V_Integer (ucast (rm_id r))), (''UCRT'', V_Integer 1)])"

lemma room_packet_builds:
  assumes "json_laws J"
  shows "builds (Room_packet J m gone r) (room_fields m gone r)"
proof -
  have m: "builds (each (\<lambda>(k, a). put_integer J [] k) es) (map (\<lambda>(k, a). ([], V_Integer k)) es)" for es :: "(u64 \<times> nat) list"
    by (rule builds_each_pair) (rule builds_put [OF assms])
  show ?thesis
    unfolding Room_packet_def Let_def prod.case_eq_if
    by (rule builds_conv, (rule builds_intros m assms)+)
      (auto simp: room_fields_def Let_def comp_def case_prod_unfold split: option.splits)
qed

text \<open>
  What the client sees of a room is its record: the number, name, capacity and category of the
  room, the numbers of exactly the members whose objects are alive, and their count.
\<close>

lemma room_on_the_wire:
  assumes "json_laws J"
  shows "builds (Room_packet J m gone r) (room_fields m gone r)"
  by (rule room_packet_builds [OF assms])

text \<open>
  A player who comes back to a room is lost: while the room still has the reference to the old,
  destroyed user object, joining does not replace it, and the next message about the room erases it,
  so the room does not list the player although the player's object is in the room.
\<close>

lemma stale_member_blocks_rejoin:
  assumes "r < length (objects (mRooms m))" and "a < length (users s)"
    and "RBT.lookup (rm_users (the_room m r)) (account_id (mAccount (users s ! a))) = Some b" and "gone b"
    and "Room_AddUser r a (m, s) = (m', s')" and "Room_WriteTo J gone r m' p = Some (q, m'')"
  shows "mRoom (users s' ! a) = Some r \<and> RBT.lookup (rm_users (the_room m'' r)) (account_id (mAccount (users s' ! a))) = None"
proof -
  have s': "users s' ! a = (users s ! a)\<lparr>mRoom := Some r\<rparr>"
    using assms(2,5) by (auto simp: Room_AddUser_def Let_def update_user_def)
  have "rm_users (the_room m' r) = rm_users (the_room m r)"
    using assms(1-3,5) by (auto simp: Room_AddUser_def Let_def update_user_def object_update)
  moreover have "r < length (objects (mRooms m'))" using assms(1,5) by (auto simp: Room_AddUser_def Let_def object_update)
  ultimately have "rm_users (the_room m'' r) = Room_live gone (the_room m' r)" "rm_users (the_room m' r) = rm_users (the_room m r)"
    using assms(6) by (auto simp: Room_WriteTo_def object_update split: bind_splits)
  then show ?thesis using assms(3,4) by (simp add: s' Room_live_lookup)
qed

definition stale_rooms :: rooms where
  "stale_rooms = RoomManager_new\<lparr>mRooms := registry_update 0 (rm_users_update (\<lambda>_. RBT.insert 1 5 RBT.empty)) (mRooms RoomManager_new)\<rparr>"

end
