(* ===== verification/Attributes.thy ===== *)
theory Attributes
  imports RakImages "HOL-Library.Monad_Syntax"
begin

text \<open>
  The attributes of a game object, \<open>source/Game/Attributes.{h,cpp}\<close>: the values that are not zero,
  sorted by index; the indices written and the indices erased since the last update of the clients;
  and the two serialisations.  A float is its 32 bits.  \<open>None\<close> is undefined behaviour.
\<close>

type_synonym attribute_bits = "113 word"

record attributes =
  at_data :: "(u8 \<times> f32) list"
  at_erased :: "u8 list"
  at_bits :: attribute_bits
  mMinWeaponDamage :: f32
  mMaxWeaponDamage :: f32

definition Attributes_new :: attributes where
  "Attributes_new = \<lparr>at_data = [], at_erased = [], at_bits = 0, mMinWeaponDamage = 0, mMaxWeaponDamage = 0\<rparr>"

text \<open>\<open>value == 0\<close>: the two zeros.\<close>

definition is_zero :: "f32 \<Rightarrow> bool" where
  "is_zero v \<longleftrightarrow> v = 0 \<or> v = 0x80000000"

definition ClientCount :: nat where "ClientCount = 111"

definition GetValue :: "u8 \<Rightarrow> attributes \<Rightarrow> f32" where
  "GetValue idx a = (case find (\<lambda>d. fst d = idx) (at_data a) of Some d \<Rightarrow> snd d | None \<Rightarrow> 0)"

text \<open>\<open>mErasedData.erase(std::find(...))\<close> is undefined when nothing is found.\<close>

definition erase_index :: "u8 \<Rightarrow> attributes \<Rightarrow> attributes option" where
  "erase_index idx a = (if idx \<in> set (at_erased a) then Some (a\<lparr>at_erased := remove1 idx (at_erased a)\<rparr>) else None)"

definition SetValue :: "u8 \<Rightarrow> f32 \<Rightarrow> attributes \<Rightarrow> attributes option" where
  "SetValue idx v a =
     (if unat idx < ClientCount then do {
        a \<leftarrow> (case find (\<lambda>d. fst d = idx) (at_data a) of
               Some d \<Rightarrow>
                 Some (if is_zero v then a\<lparr>at_data := remove1 d (at_data a), at_erased := at_erased a @ [idx]\<rparr>
                       else a\<lparr>at_data := map (\<lambda>e. if e = d then (idx, v) else e) (at_data a)\<rparr>)
             | None \<Rightarrow>
                 if is_zero v then Some a
                 else do {
                   a \<leftarrow> (if bit (at_bits a) (unat idx) then erase_index idx a else Some a);
                   Some (a\<lparr>at_data := sort_key fst (at_data a @ [(idx, v)])\<rparr>)
                 });
        Some (a\<lparr>at_bits := set_bit (unat idx) (at_bits a)\<rparr>)
      }
      else Some a)"

definition GetWeaponDamage :: "attributes \<Rightarrow> f32 \<times> f32" where
  "GetWeaponDamage a = (mMinWeaponDamage a, mMaxWeaponDamage a)"

definition SetWeaponDamage :: "f32 \<Rightarrow> f32 \<Rightarrow> attributes \<Rightarrow> attributes" where
  "SetWeaponDamage lo hi a = a\<lparr>mMinWeaponDamage := lo, mMaxWeaponDamage := hi\<rparr>"

definition ResetReflectionBits :: "attributes \<Rightarrow> attributes" where
  "ResetReflectionBits a = a\<lparr>at_bits := 0, at_erased := []\<rparr>"

text \<open>The second loop runs up to the number of the stored values, not up to the number of attributes.\<close>

definition Attributes_WriteTo :: "'s bitstream \<Rightarrow> attributes \<Rightarrow> 's \<Rightarrow> 's" where
  "Attributes_WriteTo B a s =
     (let (off, s') = ReallocateStream B (bytes_to_bits 0x634) s in
      in_order [SetWriteOffset B (off + bytes_to_bits 0x26C),
       in_order (map (\<lambda>i. Write_f32 B (GetValue (of_nat i) a)) [0..<0x63]),
       SetWriteOffset B (off + bytes_to_bits 0x400),
       in_order (map (\<lambda>i. Write_f32 B (GetValue (of_nat i) a)) [0x63..<length (at_data a)]),
       SetWriteOffset B (off + bytes_to_bits 0x43C),
       Write_f32 B (mMinWeaponDamage a),
       Write_f32 B (mMaxWeaponDamage a),
       SetWriteOffset B (off + bytes_to_bits 0x634)] s')"

definition written :: "attributes \<Rightarrow> (u8 \<times> f32) list" where
  "written a = filter (\<lambda>(idx, v). bit (at_bits a) (unat idx)) (at_data a)"

definition Attributes_WriteReflection :: "'s bitstream \<Rightarrow> attributes \<Rightarrow> 's \<Rightarrow> 's" where
  "Attributes_WriteReflection B a = reflect B 113
     (in_order [in_order (map (\<lambda>(idx, v). refl_write B 113 (unat idx) (Write_f32 B v)) (written a)),
       in_order (map (\<lambda>idx. refl_write B 113 (unat idx) (Write_f32 B 0)) (at_erased a)),
       refl_write B 113 111 (Write_f32 B (mMinWeaponDamage a)),
       refl_write B 113 112 (Write_f32 B (mMaxWeaponDamage a))])"

definition Attributes_fields :: "attributes \<Rightarrow> (nat \<times> bytes) list" where
  "Attributes_fields a =
     map (\<lambda>(idx, v). (unat idx, bytes_le 4 v)) (written a) @ map (\<lambda>idx. (unat idx, bytes_le 4 (0 :: f32))) (at_erased a)
       @ [(111, bytes_le 4 (mMinWeaponDamage a)), (112, bytes_le 4 (mMaxWeaponDamage a))]"

subsection \<open>The invariant\<close>

text \<open>
  The indices are those of the clients' attributes, no index is stored twice, and no stored value
  is zero; an erased index is not stored.
\<close>

definition attributes_ok :: "attributes \<Rightarrow> bool" where
  "attributes_ok a \<longleftrightarrow>
     sorted (map fst (at_data a)) \<and> distinct (map fst (at_data a)) \<and>
     (\<forall>idx v. map_of (at_data a) idx = Some v \<longrightarrow> unat idx < ClientCount \<and> \<not> is_zero v) \<and>
     (\<forall>idx \<in> set (at_erased a). unat idx < ClientCount \<and> bit (at_bits a) (unat idx) \<and> map_of (at_data a) idx = None) \<and>
     distinct (at_erased a)"

lemma Attributes_new_ok: "attributes_ok Attributes_new"
  by (simp add: attributes_ok_def Attributes_new_def)

lemma find_stored:
  assumes "distinct (map fst ds)"
  shows "find (\<lambda>d. fst d = idx) ds = map_option (Pair idx) (map_of ds idx)"
  using assms by (induction ds) auto

lemma GetValue_map_of: "GetValue idx a = (case map_of (at_data a) idx of Some v \<Rightarrow> v | None \<Rightarrow> 0)"
proof -
  have "find (\<lambda>d. fst d = idx) ds = map_option (Pair idx) (map_of ds idx)" for ds :: "(u8 \<times> f32) list"
    by (induction ds) auto
  then show ?thesis by (simp add: GetValue_def split: option.splits)
qed

text \<open>When a write is defined, and what it leaves.\<close>

lemma remove_stored:
  assumes "distinct (map fst ds)"
  shows "remove1 d ds = filter (\<lambda>e. e \<noteq> d) ds"
  using assms by (simp add: distinct_map distinct_remove1_removeAll removeAll_filter_not_eq eq_commute)

lemma map_of_distinctI:
  assumes "distinct (map fst ds)" and "\<And>x y. (x, y) \<in> set ds \<longleftrightarrow> m x = Some y"
  shows "map_of ds = m"
proof (rule ext)
  fix x show "map_of ds x = m x"
    using assms map_of_eq_Some_iff [OF assms(1)] by (cases "m x") (auto simp: map_of_eq_None_iff)
qed

lemma map_of_remove:
  assumes "distinct (map fst ds)" and "map_of ds idx = Some v"
  shows "map_of (remove1 (idx, v) ds) = (map_of ds)(idx := None)" "distinct (map fst (remove1 (idx, v) ds))"
proof -
  show d: "distinct (map fst (remove1 (idx, v) ds))" using assms(1) by (simp add: remove_stored distinct_map_filter)
  show "map_of (remove1 (idx, v) ds) = (map_of ds)(idx := None)"
    using assms by (intro map_of_distinctI [OF d]) (auto simp: remove_stored map_of_eq_Some_iff dest: eq_key_imp_eq_value)
qed

lemma keys_replace: "map fst (map (\<lambda>e. if e = (idx, v) then (idx, w) else e) ds) = map fst ds"
  by (induction ds) auto

lemma map_of_replace:
  assumes "distinct (map fst ds)" and "map_of ds idx = Some v"
  shows "map_of (map (\<lambda>e. if e = (idx, v) then (idx, w) else e) ds) = (map_of ds)(idx := Some w)"
proof (rule map_of_distinctI)
  show "distinct (map fst (map (\<lambda>e. if e = (idx, v) then (idx, w) else e) ds))" by (simp add: keys_replace assms del: map_map)
  fix x y
  have m: "(x, y) \<in> set ds \<longleftrightarrow> map_of ds x = Some y" "(idx, v) \<in> set ds" using assms by (simp_all add: map_of_eq_Some_iff)
  show "(x, y) \<in> set (map (\<lambda>e. if e = (idx, v) then (idx, w) else e) ds) \<longleftrightarrow> ((map_of ds)(idx := Some w)) x = Some y"
  proof (cases "x = idx")
    case True
    then show ?thesis using m assms by (auto simp: image_iff map_of_eq_Some_iff split: if_splits)
  next
    case False
    then show ?thesis using m by (auto simp: image_iff split: if_splits)
  qed
qed

lemma distinct_sort_key: "distinct (map fst ds) \<Longrightarrow> distinct (map fst (sort_key fst ds))"
  by (metis (no_types, lifting) distinct_map distinct_sort inj_on_def set_sort)

lemma map_of_sorted_insert:
  assumes "distinct (map fst ds)" and "map_of ds idx = None"
  shows "map_of (sort_key fst (ds @ [(idx, v)])) = (map_of ds)(idx := Some v)"
proof (rule map_of_distinctI)
  show "distinct (map fst (sort_key fst (ds @ [(idx, v)])))"
    using assms by (intro distinct_sort_key) (simp add: map_of_eq_None_iff)
  show "(x, y) \<in> set (sort_key fst (ds @ [(idx, v)])) \<longleftrightarrow> ((map_of ds)(idx := Some v)) x = Some y" for x y
    using assms by (auto simp: map_of_eq_Some_iff map_of_eq_None_iff image_iff)
qed

lemma SetValue_cases:
  assumes "attributes_ok a" and "unat idx < ClientCount"
  obtains (undefined) "map_of (at_data a) idx = None" "\<not> is_zero v" "bit (at_bits a) (unat idx)"
      "idx \<notin> set (at_erased a)" "SetValue idx v a = None"
    | (untouched) "map_of (at_data a) idx = None" "is_zero v"
      "SetValue idx v a = Some (a\<lparr>at_bits := set_bit (unat idx) (at_bits a)\<rparr>)"
    | (erased) w where "map_of (at_data a) idx = Some w" "is_zero v"
      "SetValue idx v a = Some (a\<lparr>at_data := remove1 (idx, w) (at_data a), at_erased := at_erased a @ [idx],
         at_bits := set_bit (unat idx) (at_bits a)\<rparr>)"
    | (changed) w where "map_of (at_data a) idx = Some w" "\<not> is_zero v"
      "SetValue idx v a = Some (a\<lparr>at_data := map (\<lambda>e. if e = (idx, w) then (idx, v) else e) (at_data a),
         at_bits := set_bit (unat idx) (at_bits a)\<rparr>)"
    | (inserted) "map_of (at_data a) idx = None" "\<not> is_zero v"
      "bit (at_bits a) (unat idx) \<longleftrightarrow> idx \<in> set (at_erased a)"
      "SetValue idx v a = Some (a\<lparr>at_data := sort_key fst (at_data a @ [(idx, v)]), at_erased := remove1 idx (at_erased a),
         at_bits := set_bit (unat idx) (at_bits a)\<rparr>)"
proof -
  have f: "find (\<lambda>d. fst d = idx) (at_data a) = map_option (Pair idx) (map_of (at_data a) idx)"
    using assms(1) by (intro find_stored) (simp add: attributes_ok_def)
  have e: "bit (at_bits a) (unat idx)" if "idx \<in> set (at_erased a)" using assms(1) that by (simp add: attributes_ok_def)
  show thesis
  proof (cases "map_of (at_data a) idx")
    case None
    show thesis
    proof (cases "is_zero v")
      case True
      show thesis using assms(2) f None True by (intro untouched) (simp_all add: SetValue_def)
    next
      case False
      show thesis
      proof (cases "bit (at_bits a) (unat idx) \<longrightarrow> idx \<in> set (at_erased a)")
        case True
        have "at_erased a = remove1 idx (at_erased a)" if "idx \<notin> set (at_erased a)" using that by (simp add: remove1_idem)
        then show thesis using assms(2) f None False True e
          by (intro inserted) (cases a; auto simp: SetValue_def erase_index_def)+
      next
        case unknown: False
        show thesis using assms(2) f None False unknown by (intro undefined) (auto simp: SetValue_def erase_index_def)
      qed
    qed
  next
    case (Some w)
    show thesis using assms(2) f Some erased [of w] changed [of w] by (cases "is_zero v") (simp_all add: SetValue_def)
  qed
qed

lemma attributes_okI:
  assumes "sorted (map fst (at_data a))" and "distinct (map fst (at_data a))" and "distinct (at_erased a)"
    and "\<And>idx v. map_of (at_data a) idx = Some v \<Longrightarrow> unat idx < ClientCount \<and> \<not> is_zero v"
    and "\<And>idx. idx \<in> set (at_erased a) \<Longrightarrow>
           unat idx < ClientCount \<and> bit (at_bits a) (unat idx) \<and> map_of (at_data a) idx = None"
  shows "attributes_ok a"
  using assms by (simp add: attributes_ok_def del: map_of_eq_Some_iff)

text \<open>What a write does, as a whole.\<close>

definition stored :: "f32 \<Rightarrow> f32 option" where "stored v = (if is_zero v then None else Some v)"

lemma SetValue_Some:
  assumes ok: "attributes_ok a" and u: "unat idx < ClientCount" and s: "SetValue idx v a = Some a'"
  shows "attributes_ok a'" "map_of (at_data a') = (map_of (at_data a))(idx := stored v)"
    "at_bits a' = set_bit (unat idx) (at_bits a)"
    "set (at_erased a') = (if stored v \<noteq> None then set (at_erased a) - {idx}
       else if map_of (at_data a) idx \<noteq> None then insert idx (set (at_erased a)) else set (at_erased a))"
proof -
  have d: "distinct (map fst (at_data a))" "sorted (map fst (at_data a))" "distinct (at_erased a)"
    and m: "\<And>idx v. map_of (at_data a) idx = Some v \<Longrightarrow> unat idx < ClientCount \<and> \<not> is_zero v"
    and e: "\<And>idx. idx \<in> set (at_erased a) \<Longrightarrow>
       unat idx < ClientCount \<and> bit (at_bits a) (unat idx) \<and> map_of (at_data a) idx = None"
    using ok by (simp_all add: attributes_ok_def del: map_of_eq_Some_iff)
  have bits: "bit (set_bit (unat idx) (at_bits a)) (unat i) \<longleftrightarrow> i = idx \<or> bit (at_bits a) (unat i)" if "unat i < ClientCount" for i
    using that by (auto simp: bit_simps ClientCount_def word_unat_eq_iff)
  from ok u have "attributes_ok a' \<and> map_of (at_data a') = (map_of (at_data a))(idx := stored v) \<and>
    at_bits a' = set_bit (unat idx) (at_bits a) \<and>
    set (at_erased a') = (if stored v \<noteq> None then set (at_erased a) - {idx}
       else if map_of (at_data a) idx \<noteq> None then insert idx (set (at_erased a)) else set (at_erased a))"
  proof (cases rule: SetValue_cases [where v = v])
    case undefined
    then show ?thesis using s by simp
  next
    case untouched
    then have a': "a' = a\<lparr>at_bits := set_bit (unat idx) (at_bits a)\<rparr>" using s by simp
    have "attributes_ok a'" by (rule attributes_okI) (use d m e bits in \<open>simp_all add: a' del: map_of_eq_Some_iff\<close>)
    then show ?thesis using untouched by (simp add: a' stored_def fun_upd_idem del: map_of_eq_Some_iff)
  next
    case (erased w)
    then have a': "a' = a\<lparr>at_data := remove1 (idx, w) (at_data a), at_erased := at_erased a @ [idx],
        at_bits := set_bit (unat idx) (at_bits a)\<rparr>" using s by simp
    note r = map_of_remove [OF d(1) erased(1)]
    have i: "idx \<notin> set (at_erased a)" using e erased(1) by fastforce
    have "sorted (map fst (remove1 (idx, w) (at_data a)))" using d by (simp add: remove_stored sorted_filter)
    then have "attributes_ok a'"
      by (intro attributes_okI) (use d m e bits r i u in \<open>auto simp: a' simp del: map_of_eq_Some_iff split: if_splits\<close>)
    then show ?thesis using erased r by (simp add: a' stored_def del: map_of_eq_Some_iff)
  next
    case (changed w)
    then have a': "a' = a\<lparr>at_data := map (\<lambda>e. if e = (idx, w) then (idx, v) else e) (at_data a),
        at_bits := set_bit (unat idx) (at_bits a)\<rparr>" using s by simp
    note r = map_of_replace [OF d(1) changed(1), of v] keys_replace [of idx w v "at_data a"]
    have i: "idx \<notin> set (at_erased a)" using e changed(1) by fastforce
    have "attributes_ok a'"
    proof (rule attributes_okI)
      fix i x assume "map_of (at_data a') i = Some x"
      then show "unat i < ClientCount \<and> \<not> is_zero x" using m changed(2) u r(1) by (simp add: a' split: if_splits del: map_of_eq_Some_iff)
    next
      fix j assume "j \<in> set (at_erased a')"
      then show "unat j < ClientCount \<and> bit (at_bits a') (unat j) \<and> map_of (at_data a') j = None"
        using e [of j] bits i r(1) by (auto simp: a' simp del: map_of_eq_Some_iff)
    qed (use d r(2) in \<open>simp_all add: a' del: map_map\<close>)
    then show ?thesis using changed r(1) i by (simp add: a' stored_def del: map_of_eq_Some_iff)
  next
    case inserted
    then have a': "a' = a\<lparr>at_data := sort_key fst (at_data a @ [(idx, v)]), at_erased := remove1 idx (at_erased a),
        at_bits := set_bit (unat idx) (at_bits a)\<rparr>" using s by simp
    note r = map_of_sorted_insert [OF d(1) inserted(1), of v]
    have "distinct (map fst (at_data a @ [(idx, v)]))"
      using d inserted(1) by (simp add: map_of_eq_None_iff)
    then have "attributes_ok a'"
      using distinct_sort_key [of "at_data a @ [(idx, v)]"] inserted(2) u
      by (intro attributes_okI) (use d m e bits r in \<open>auto simp: a' simp del: map_of_eq_Some_iff split: if_splits\<close>)
    then show ?thesis using inserted r d(3) by (simp add: a' stored_def del: map_of_eq_Some_iff)
  qed
  then show "attributes_ok a'" "map_of (at_data a') = (map_of (at_data a))(idx := stored v)"
    "at_bits a' = set_bit (unat idx) (at_bits a)"
    "set (at_erased a') = (if stored v \<noteq> None then set (at_erased a) - {idx}
       else if map_of (at_data a) idx \<noteq> None then insert idx (set (at_erased a)) else set (at_erased a))"
    by blast+
qed

subsection \<open>The clients' copy\<close>

datatype attribute_write = Value_write u8 f32 | Damage_write f32 f32

fun apply_write :: "attribute_write \<Rightarrow> attributes \<Rightarrow> attributes option" where
  "apply_write (Value_write idx v) a = SetValue idx v a"
| "apply_write (Damage_write lo hi) a = Some (SetWeaponDamage lo hi a)"

fun apply_writes :: "attribute_write list \<Rightarrow> attributes \<Rightarrow> attributes option" where
  "apply_writes [] a = Some a"
| "apply_writes (w # ws) a = Option.bind (apply_write w a) (apply_writes ws)"

lemma apply_writes_snoc: "apply_writes (ws @ [w]) a = Option.bind (apply_writes ws a) (apply_write w)"
  by (induction ws a rule: apply_writes.induct) (auto split: bind_splits)

text \<open>A client puts the fields that it receives over the ones that it has.\<close>

definition receive :: "(nat \<times> bytes) list \<Rightarrow> (nat \<Rightarrow> bytes) \<Rightarrow> nat \<Rightarrow> bytes" where
  "receive fs m = fold (\<lambda>(k, bs) m. m(k := bs)) fs m"

lemma receive_map_of: "receive fs m k = (case map_of (rev fs) k of Some bs \<Rightarrow> bs | None \<Rightarrow> m k)"
  unfolding receive_def by (induction fs arbitrary: m) (auto simp: map_add_def split: option.splits)

lemma receive_append: "receive (fs @ gs) m = receive gs (receive fs m)"
  by (simp add: receive_def)

text \<open>
  \<open>base\<close> are the values at the last update: an index that was not written has its old value, and an
  index that was written, but is neither stored nor erased, was 0 before.
\<close>

definition tracks :: "attributes \<Rightarrow> attributes \<Rightarrow> bool" where
  "tracks base a \<longleftrightarrow> (\<forall>idx. unat idx < ClientCount \<longrightarrow>
     (\<not> bit (at_bits a) (unat idx) \<longrightarrow> map_of (at_data a) idx = map_of (at_data base) idx) \<and>
     (map_of (at_data a) idx = None \<and> idx \<notin> set (at_erased a) \<longrightarrow> map_of (at_data base) idx = None))"

lemma SetValue_tracks:
  assumes "attributes_ok a" and "tracks base a" and "SetValue idx v a = Some a'"
  shows "attributes_ok a' \<and> tracks base a'"
proof (cases "unat idx < ClientCount")
  case False
  then show ?thesis using assms by (simp add: SetValue_def)
next
  case True
  note w = SetValue_Some [OF assms(1) True assms(3)]
  have "tracks base a'"
    unfolding tracks_def
  proof (intro allI impI)
    fix i :: u8 assume i: "unat i < ClientCount"
    have t: "\<not> bit (at_bits a) (unat i) \<Longrightarrow> map_of (at_data a) i = map_of (at_data base) i"
      "map_of (at_data a) i = None \<Longrightarrow> i \<notin> set (at_erased a) \<Longrightarrow> map_of (at_data base) i = None"
      using assms(2) i by (simp_all add: tracks_def)
    have b: "bit (at_bits a') (unat i) \<longleftrightarrow> i = idx \<or> bit (at_bits a) (unat i)"
      using i by (auto simp: w(3) bit_simps ClientCount_def word_unat_eq_iff)
    show "(\<not> bit (at_bits a') (unat i) \<longrightarrow> map_of (at_data a') i = map_of (at_data base) i) \<and>
      (map_of (at_data a') i = None \<and> i \<notin> set (at_erased a') \<longrightarrow> map_of (at_data base) i = None)"
      using t b by (auto simp: w(2,4) stored_def simp del: map_of_eq_Some_iff split: if_splits)
  qed
  with w(1) show ?thesis ..
qed

lemma apply_write_tracks:
  assumes "attributes_ok a" and "tracks base a" and "apply_write w a = Some a'"
  shows "attributes_ok a' \<and> tracks base a'"
  proof (cases w)
  case (Value_write idx v)
  then show ?thesis using SetValue_tracks [OF assms(1,2)] assms(3) by simp
next
  case (Damage_write lo hi)
  then have "a' = SetWeaponDamage lo hi a" using assms(3) by simp
  then show ?thesis using assms(1,2) unfolding attributes_ok_def tracks_def by (simp add: SetWeaponDamage_def)
qed

lemma apply_writes_tracks:
  "apply_writes ws a = Some a' \<Longrightarrow> attributes_ok a \<Longrightarrow> tracks base a \<Longrightarrow> attributes_ok a' \<and> tracks base a'"
  by (induction ws a rule: apply_writes.induct) (auto split: bind_splits dest: apply_write_tracks)

lemma tracks_fresh: "at_bits a = 0 \<Longrightarrow> attributes_ok a \<Longrightarrow> tracks a a"
  by (auto simp: tracks_def)

text \<open>The fields that are sent bring the client's copy from the old values to the new ones.\<close>

lemma map_of_fields:
  assumes "distinct (map fst ds)"
  shows "map_of (rev (map (\<lambda>(idx, v). (unat idx, bytes_le 4 v)) ds)) (unat i) = map_option (bytes_le 4) (map_of ds (i :: u8))"
  using assms
proof (induction ds)
  case (Cons d ds)
  obtain idx v where d: "d = (idx, v)" by (cases d)
  have "map_of ds idx = None" using Cons.prems by (simp add: d map_of_eq_None_iff)
  then show ?case
    using Cons by (cases "i = idx") (auto simp: d map_add_def word_unat_eq_iff simp del: map_of_eq_Some_iff split: option.splits)
qed simp

lemma map_of_zeros:
  "map_of (rev (map (\<lambda>idx. (unat idx, z)) is)) (unat (i :: u8)) = (if i \<in> set is then Some z else None)"
  by (induction "is") (auto simp: map_add_def word_unat_eq_iff split: option.splits)

lemma receive_attributes:
  assumes "attributes_ok a" and "tracks base a" and i: "unat i < ClientCount"
  shows "receive (Attributes_fields a) (\<lambda>k. bytes_le 4 (GetValue (of_nat k) base)) (unat i) = bytes_le 4 (GetValue i a)"
proof -
  have d: "distinct (map fst (at_data a))"
    and e: "i \<in> set (at_erased a) \<Longrightarrow> bit (at_bits a) (unat i) \<and> map_of (at_data a) i = None"
    using assms(1) by (simp_all add: attributes_ok_def del: map_of_eq_Some_iff)
  have t: "\<not> bit (at_bits a) (unat i) \<Longrightarrow> map_of (at_data a) i = map_of (at_data base) i"
    "map_of (at_data a) i = None \<Longrightarrow> i \<notin> set (at_erased a) \<Longrightarrow> map_of (at_data base) i = None"
    using assms(2) i by (simp_all add: tracks_def)
  have w: "distinct (map fst (written a))" using d by (simp add: written_def distinct_map_filter)
  have f: "map_of (written a) i = (if bit (at_bits a) (unat i) then map_of (at_data a) i else None)"
  proof -
    have "distinct (map fst ds) \<Longrightarrow> map_of (filter (\<lambda>(idx, v). p idx) ds) i = (if p i then map_of ds i else None)"
      for ds :: "(u8 \<times> f32) list" and p
      by (induction ds) (auto simp: map_of_eq_None_iff simp del: map_of_eq_Some_iff)
    then show ?thesis using d by (simp add: written_def)
  qed
  have ne: "unat i \<noteq> 111" "unat i \<noteq> 112" using i by (simp_all add: ClientCount_def)
  have "receive (Attributes_fields a) m (unat i) =
      (if i \<in> set (at_erased a) then bytes_le 4 (0 :: f32)
       else case map_of (written a) i of Some v \<Rightarrow> bytes_le 4 v | None \<Rightarrow> m (unat i))" for m
    unfolding Attributes_fields_def receive_append
    by (simp add: receive_map_of map_of_fields [OF w] map_of_zeros ne split: option.splits)
  then show ?thesis
    using t e by (auto simp: f GetValue_map_of simp del: map_of_eq_Some_iff split: option.splits)
qed

text \<open>The clients are shown 113 values: the 111 attributes and the two of the weapon's damage.\<close>

definition shown_value :: "nat \<Rightarrow> attributes \<Rightarrow> f32" where
  "shown_value k a = (if k = 111 then fst (GetWeaponDamage a) else if k = 112 then snd (GetWeaponDamage a)
     else GetValue (of_nat k) a)"

lemma receive_shown:
  assumes "attributes_ok a" and "tracks base a" and k: "k < 113"
  shows "receive (Attributes_fields a) (\<lambda>k. bytes_le 4 (shown_value k base)) k = bytes_le 4 (shown_value k a)"
proof (cases "k < ClientCount")
  case True
  let ?i = "of_nat k :: u8"
  have i: "unat ?i = k" using True by (simp add: ClientCount_def unat_of_nat)
  have eq: "receive fs m k = receive fs m' k" if "m k = m' k" for fs and m m' :: "nat \<Rightarrow> bytes"
    using that by (simp add: receive_map_of split: option.split)
  have "receive (Attributes_fields a) (\<lambda>k. bytes_le 4 (shown_value k base)) k =
      receive (Attributes_fields a) (\<lambda>k. bytes_le 4 (GetValue (of_nat k) base)) k"
    by (rule eq) (use True in \<open>simp add: shown_value_def ClientCount_def\<close>)
  also have "\<dots> = bytes_le 4 (GetValue ?i a)" using receive_attributes [OF assms(1,2), of ?i] True by (simp add: i)
  finally show ?thesis using True by (simp add: shown_value_def ClientCount_def)
next
  case False
  then have "k = 111 \<or> k = 112" using k by (auto simp: ClientCount_def)
  then show ?thesis
    unfolding Attributes_fields_def receive_append by (auto simp: receive_def shown_value_def GetWeaponDamage_def)
qed

subsection \<open>The runs of writes that are defined\<close>

fun values_of :: "u8 \<Rightarrow> attribute_write list \<Rightarrow> f32 list" where
  "values_of idx [] = []"
| "values_of idx (Value_write i v # ws) = (if i = idx then v # values_of idx ws else values_of idx ws)"
| "values_of idx (Damage_write lo hi # ws) = values_of idx ws"

lemma values_of_append: "values_of idx (vs @ ws) = values_of idx vs @ values_of idx ws"
  by (induction idx vs rule: values_of.induct) auto

text \<open>
  An attribute is lost when it has no value, has been written since the last update and is not listed
  as erased.
\<close>

definition lost :: "u8 \<Rightarrow> attributes \<Rightarrow> bool" where
  "lost idx a \<longleftrightarrow> map_of (at_data a) idx = None \<and> bit (at_bits a) (unat idx) \<and> idx \<notin> set (at_erased a)"

lemma SetValue_undefined:
  assumes "attributes_ok a" and "unat idx < ClientCount"
  shows "SetValue idx v a = None \<longleftrightarrow> lost idx a \<and> \<not> is_zero v"
  using assms by (cases rule: SetValue_cases [where v = v]) (auto simp: lost_def simp del: map_of_eq_Some_iff)

lemma lost_after:
  assumes "attributes_ok base" and "at_bits base = 0"
  shows "apply_writes ws base = Some a \<Longrightarrow> unat idx < ClientCount \<Longrightarrow>
    (bit (at_bits a) (unat idx) \<longleftrightarrow> values_of idx ws \<noteq> []) \<and>
    (lost idx a \<longleftrightarrow> map_of (at_data base) idx = None \<and> values_of idx ws \<noteq> [] \<and> (\<forall>z \<in> set (values_of idx ws). is_zero z))"
proof (induction ws arbitrary: a rule: rev_induct)
  case Nil
  then show ?case using assms by (simp add: lost_def)
next
  case (snoc w ws)
  obtain b where b: "apply_writes ws base = Some b" "apply_write w b = Some a"
    using snoc.prems(1) by (auto simp: apply_writes_snoc split: bind_splits)
  note IH = snoc.IH [OF b(1) snoc.prems(2)]
  have ok: "attributes_ok b" "tracks base b" using apply_writes_tracks [OF b(1) assms(1) tracks_fresh [OF assms(2,1)]] by simp_all
  show ?case
  proof (cases w)
    case (Damage_write lo hi)
    then show ?thesis using IH b(2) by (auto simp: values_of_append SetWeaponDamage_def lost_def)
  next
    case (Value_write i v)
    show ?thesis
    proof (cases "unat i < ClientCount")
      case False
      then have "a = b" "i \<noteq> idx" using b(2) Value_write snoc.prems(2) by (auto simp: SetValue_def)
      then show ?thesis using IH Value_write by (simp add: values_of_append)
    next
      case i: True
      note s = SetValue_Some [OF ok(1) i b(2) [unfolded Value_write apply_write.simps]]
      have bits: "bit (at_bits a) (unat idx) \<longleftrightarrow> idx = i \<or> bit (at_bits b) (unat idx)"
        using snoc.prems(2) by (auto simp: s(3) bit_simps ClientCount_def word_unat_eq_iff)
      show ?thesis
      proof (cases "i = idx")
        case False
        then show ?thesis using IH bits by (auto simp: Value_write values_of_append lost_def s(2,4) simp del: map_of_eq_Some_iff)
      next
        case True
        have "idx \<in> set (at_erased b) \<Longrightarrow> bit (at_bits b) (unat idx) \<and> map_of (at_data b) idx = None"
          using ok(1) by (simp add: attributes_ok_def)
        moreover have "\<not> bit (at_bits b) (unat idx) \<Longrightarrow> map_of (at_data b) idx = map_of (at_data base) idx"
          "map_of (at_data b) idx = None \<Longrightarrow> idx \<notin> set (at_erased b) \<Longrightarrow> map_of (at_data base) idx = None"
          using ok(2) snoc.prems(2) by (simp_all add: tracks_def)
        ultimately show ?thesis using IH bits True
          by (auto simp: Value_write values_of_append lost_def s(2,4) stored_def simp del: map_of_eq_Some_iff split: if_splits)
      qed
    qed
  qed
qed

text \<open>
  A run of writes is undefined exactly when it writes only zeros to an attribute that the clients
  know to be zero, and then a value that is not zero.
\<close>

definition revives :: "attributes \<Rightarrow> attribute_write list \<Rightarrow> bool" where
  "revives base ws \<longleftrightarrow> (\<exists>idx v before after. ws = before @ Value_write idx v # after \<and> unat idx < ClientCount \<and>
     GetValue idx base = 0 \<and> values_of idx before \<noteq> [] \<and> (\<forall>z \<in> set (values_of idx before). is_zero z) \<and> \<not> is_zero v)"

lemma GetValue_0:
  "attributes_ok a \<Longrightarrow> GetValue idx a = 0 \<longleftrightarrow> map_of (at_data a) idx = None"
  by (auto simp: GetValue_map_of attributes_ok_def is_zero_def simp del: map_of_eq_Some_iff split: option.splits)

lemma apply_writes_undefined:
  assumes "attributes_ok base" and "at_bits base = 0"
  shows "apply_writes ws base = None \<longleftrightarrow> revives base ws"
proof (induction ws rule: rev_induct)
  case Nil
  then show ?case by (simp add: revives_def)
next
  case (snoc w ws)
  have last: "revives base (ws @ [w]) \<longleftrightarrow> revives base ws \<or> (\<exists>idx v. w = Value_write idx v \<and> unat idx < ClientCount \<and>
     GetValue idx base = 0 \<and> values_of idx ws \<noteq> [] \<and> (\<forall>z \<in> set (values_of idx ws). is_zero z) \<and> \<not> is_zero v)"
    (is "?l \<longleftrightarrow> ?r \<or> ?e")
  proof
    assume ?l
    then obtain idx v before after where e: "ws @ [w] = before @ Value_write idx v # after" and h: "unat idx < ClientCount"
        "GetValue idx base = 0" "values_of idx before \<noteq> []" "\<forall>z \<in> set (values_of idx before). is_zero z" "\<not> is_zero v"
      unfolding revives_def by blast
    show "?r \<or> ?e"
    proof (cases after rule: rev_cases)
      case Nil
      then show ?thesis using e h by auto
    next
      case (snoc after' w')
      then show ?thesis using e h unfolding revives_def by (metis append.assoc append_Cons append1_eq_conv)
    qed
  next
    assume "?r \<or> ?e"
    then show ?l
    proof
      assume ?r
      then show ?l unfolding revives_def by (metis append.assoc append_Cons)
    next
      assume ?e
      then show ?l unfolding revives_def by blast
    qed
  qed
  show ?case
  proof (cases "apply_writes ws base")
    case None
    then show ?thesis using snoc last by (simp add: apply_writes_snoc)
  next
    case (Some a)
    have ok: "attributes_ok a" using apply_writes_tracks [OF Some assms(1) tracks_fresh [OF assms(2,1)]] by simp
    have "apply_write w a = None \<longleftrightarrow> (\<exists>idx v. w = Value_write idx v \<and> unat idx < ClientCount \<and> lost idx a \<and> \<not> is_zero v)"
    proof (cases w)
      case (Value_write idx v)
      then show ?thesis using SetValue_undefined [OF ok, of idx v] by (cases "unat idx < ClientCount") (auto simp: SetValue_def)
    qed simp
    then show ?thesis using snoc last Some lost_after [OF assms Some] by (auto simp: apply_writes_snoc GetValue_0 [OF assms(1)])
  qed
qed

subsection \<open>On the wire\<close>

lemma Attributes_reflects:
  assumes "bitstream_laws B"
  shows "puts B (Attributes_WriteReflection B a) (reflection_bytes 113 (Attributes_fields a))"
proof -
  let ?ws = "map (\<lambda>(idx, v). (unat idx, Write_f32 B v)) (written a) @ map (\<lambda>idx. (unat idx, Write_f32 B 0)) (at_erased a)
      @ [(111, Write_f32 B (mMinWeaponDamage a)), (112, Write_f32 B (mMaxWeaponDamage a))]"
  have "Attributes_WriteReflection B a = reflect B 113 (refl_fields B 113 ?ws)"
    unfolding Attributes_WriteReflection_def refl_fields_def
    by (rule arg_cong [where f = "reflect B 113"], rule ext) (simp add: comp_def case_prod_unfold)
  moreover have "list_all2 (\<lambda>(k, w) (k', bs). k = k' \<and> puts B w bs) ?ws (Attributes_fields a)"
    unfolding Attributes_fields_def
    by (intro list_all2_appendI) (auto simp: list_all2_conv_all_nth puts_Write [OF assms] less_Suc_eq split: prod.splits)
  ultimately show ?thesis using reflect_fields_puts [OF assms] by simp
qed

lemma Attributes_delivered:
  assumes "bitstream_laws B" and "attributes_ok a"
  shows "delivers B (Attributes_WriteReflection B a) 113 (replicate 113 4) (Attributes_fields a)"
proof -
  have "\<forall>(k, bs) \<in> set (Attributes_fields a). k < 255 \<and> length bs = replicate 113 4 ! k"
    using assms(2) by (fastforce simp: Attributes_fields_def written_def attributes_ok_def ClientCount_def bytes_simps)
  then have "parse_tagged ((!) (replicate 113 4)) (reflection_bytes 113 (Attributes_fields a) @ r) = Some (Attributes_fields a, r)" for r
    using parse_tagged_concat [of "Attributes_fields a" "(!) (replicate 113 4)" r] by (simp add: reflection_bytes_def)
  then show ?thesis
    unfolding delivers_def using Attributes_reflects [OF assms(1)] by (auto simp: parse_reflection_def)
qed

text \<open>
  C19: The update of a game object's attributes brings every client up to date: after a sequence of
  writes to attributes and to the weapon's damage since the last update, a client that knows the old
  values, decodes the update and puts the fields that it finds over its own has all 113 values that
  the clients are shown.  This is so for every sequence that is defined; a sequence is undefined
  exactly when it first writes nothing but zeros to an attribute that the clients know to be zero, and
  then writes a value to it that is not zero (the code erases the end of a list).
\<close>

theorem attributes_replicated:
  assumes "bitstream_laws B" and "attributes_ok base" and "at_bits base = 0"
  shows "(apply_writes ws base = None \<longleftrightarrow> revives base ws) \<and>
    (\<forall>a. apply_writes ws base = Some a \<longrightarrow>
      (\<exists>fs. delivers B (Attributes_WriteReflection B a) 113 (replicate 113 4) fs \<and>
        (\<forall>k < 113. receive fs (\<lambda>k. bytes_le 4 (shown_value k base)) k = bytes_le 4 (shown_value k a))))"
proof -
  have "attributes_ok a \<and> tracks base a" if "apply_writes ws base = Some a" for a
    using apply_writes_tracks [OF that assms(2) tracks_fresh [OF assms(3,2)]] .
  then show ?thesis using Attributes_delivered [OF assms(1)] receive_shown apply_writes_undefined [OF assms(2,3)] by blast
qed

definition attributes_example :: attributes where
  "attributes_example = Attributes_new\<lparr>at_data := [(20, 0x40000000)]\<rparr>"

lemma attributes_example_ok: "attributes_ok attributes_example"
  by (simp add: attributes_ok_def attributes_example_def Attributes_new_def is_zero_def ClientCount_def del: map_of_eq_Some_iff)

theorem attributes_replicated_witness:
  "(\<exists>a fs. apply_writes [Value_write 20 0, Damage_write 0x3F800000 0x40000000] attributes_example = Some a \<and>
     delivers mem_stream (Attributes_WriteReflection mem_stream a) 113 (replicate 113 4) fs \<and>
     receive fs (\<lambda>k. bytes_le 4 (shown_value k attributes_example)) 20 = bytes_le 4 (0 :: f32) \<and>
     receive fs (\<lambda>k. bytes_le 4 (shown_value k attributes_example)) 112 = bytes_le 4 (0x40000000 :: f32)) \<and>
   apply_writes [Value_write 5 0, Value_write 5 0x3F800000] attributes_example = None"
proof -
  obtain a where a: "apply_writes [Value_write 20 0, Damage_write 0x3F800000 0x40000000] attributes_example = Some a"
      "shown_value 20 a = 0" "shown_value 112 a = 0x40000000"
    by (simp add: SetValue_def erase_index_def attributes_example_def Attributes_new_def is_zero_def ClientCount_def
      GetValue_def SetWeaponDamage_def shown_value_def GetWeaponDamage_def)
  have "at_bits attributes_example = 0" by (simp add: attributes_example_def Attributes_new_def)
  note r = attributes_replicated [OF mem_stream_laws attributes_example_ok this]
  have "revives attributes_example [Value_write 5 0, Value_write 5 0x3F800000]"
    unfolding revives_def by (rule exI [of _ 5], rule exI [of _ "0x3F800000"], rule exI [of _ "[Value_write 5 0]"])
      (simp add: attributes_example_def Attributes_new_def ClientCount_def GetValue_def is_zero_def)
  moreover from r a have "\<exists>fs. delivers mem_stream (Attributes_WriteReflection mem_stream a) 113 (replicate 113 4) fs \<and>
      (\<forall>k < 113. receive fs (\<lambda>k. bytes_le 4 (shown_value k attributes_example)) k = bytes_le 4 (shown_value k a))"
    by blast
  then obtain fs where "delivers mem_stream (Attributes_WriteReflection mem_stream a) 113 (replicate 113 4) fs"
      "\<forall>k < 113. receive fs (\<lambda>k. bytes_le 4 (shown_value k attributes_example)) k = bytes_le 4 (shown_value k a)" by blast
  moreover from this(2) have "receive fs (\<lambda>k. bytes_le 4 (shown_value k attributes_example)) 20 = bytes_le 4 (shown_value 20 a)"
    "receive fs (\<lambda>k. bytes_le 4 (shown_value k attributes_example)) 112 = bytes_le 4 (shown_value 112 a)"
    by simp_all
  ultimately show ?thesis using a r [of "[Value_write 5 0, Value_write 5 0x3F800000]"] by auto
qed

text \<open>The shortest run that is undefined.\<close>

lemma zero_then_value_undefined:
  assumes "attributes_ok a" and "unat idx < ClientCount" and "at_bits a = 0" and "is_zero z" and "\<not> is_zero v"
  shows "apply_writes [Value_write idx z, Value_write idx v] a = None \<longleftrightarrow> GetValue idx a = 0"
proof -
  have r: "revives a [Value_write idx z, Value_write idx v] \<longleftrightarrow>
      (GetValue idx a = 0 \<and> values_of idx [Value_write idx z] \<noteq> [] \<and> (\<forall>w \<in> set (values_of idx [Value_write idx z]). is_zero w) \<and> \<not> is_zero v)"
    (is "?l \<longleftrightarrow> ?r")
  proof
    assume ?l
    then obtain i w before after where e: "[Value_write idx z, Value_write idx v] = before @ Value_write i w # after"
        and h: "GetValue i a = 0" "values_of i before \<noteq> []" "\<forall>z \<in> set (values_of i before). is_zero z" "\<not> is_zero w"
      unfolding revives_def by blast
    have "before \<noteq> []" using h(2) by auto
    then have "before = [Value_write idx z] \<and> i = idx \<and> w = v" using e by (auto simp: Cons_eq_append_conv)
    then show ?r using h by simp
  next
    assume h: ?r
    show ?l unfolding revives_def
      by (rule exI [of _ idx], rule exI [of _ v], rule exI [of _ "[Value_write idx z]"], rule exI [of _ "[]"]) (use h assms(2) in simp)
  qed
  show ?thesis unfolding apply_writes_undefined [OF assms(1,3)] r using assms(4,5) by simp
qed

subsection \<open>The image\<close>

text \<open>
  An image never holds the attributes from 0x63 on, unless more than 0x63 values are stored.
\<close>

definition attribute_bytes :: "nat \<Rightarrow> nat \<Rightarrow> attributes \<Rightarrow> bytes" where
  "attribute_bytes i j a = concat (map (\<lambda>k. bytes_le 4 (GetValue (of_nat k) a)) [i..<j])"

lemma attribute_bytes_puts:
  assumes "bitstream_laws B"
  shows "puts B (in_order (map (\<lambda>k. Write_f32 B (GetValue (of_nat k) a)) ks))
           (concat (map (\<lambda>k. bytes_le 4 (GetValue (of_nat k) a)) ks))"
  by (rule puts_in_order) (simp add: list_all2_conv_all_nth puts_Write [OF assms])

lemma length_attribute_bytes: "length (attribute_bytes i j a) = 4 * (j - i)"
  by (simp add: attribute_bytes_def length_concat comp_def sum_list_triv bytes_simps)

lemma Attributes_lays_out:
  assumes "bitstream_laws B"
  shows "lays_out B (Attributes_WriteTo B a) 0x634
    [(0x26C, attribute_bytes 0 0x63 a), (0x400, attribute_bytes 0x63 (length (at_data a)) a),
     (0x43C, bytes_le 4 (mMinWeaponDamage a)), (0x440, bytes_le 4 (mMaxWeaponDamage a))]"
  apply (rule lays_outI [OF assms Attributes_WriteTo_def])
  apply (rule seg_conv)
    apply (rule seg_in_order seg_seek [OF assms] seg_fields [OF assms]
      seg_puts [OF attribute_bytes_puts [OF assms, folded attribute_bytes_def]])+
   apply (simp_all add: attribute_bytes_def)
  done

end
