(* ===== verification/Players.thy ===== *)
theory Players
  imports Attributes Users
begin

text \<open>
  A player in a game: the catalysts, the three characters and the player's own data, with what is
  sent of them; \<open>source/Game/{Catalyst,Character,Player}.cpp\<close>.  The objects of the world, which the
  characters are given when a squad is set, are not part of the model.
\<close>

subsection \<open>Catalysts\<close>

text \<open>Colours, rarities and types are the bytes of the enumerations; 0xFF is \<open>None\<close>.\<close>

definition no_enum :: u8 where "no_enum = 0xFF"
definition Prismatic :: u8 where "Prismatic = 1"

definition to_string_rarity :: "u8 \<Rightarrow> string" where
  "to_string_rarity r = (case map_of [(0, ''common''), (1, ''rare''), (2, ''epic'')] r of Some s \<Rightarrow> s | None \<Rightarrow> ''unknown'')"

definition to_string_color :: "u8 \<Rightarrow> string" where
  "to_string_color c =
     (case map_of [(0, ''blue''), (1, ''prismatic''), (2, ''yellow''), (3, ''red''), (4, ''green'')] c of
        Some s \<Rightarrow> s | None \<Rightarrow> ''unknown'')"

definition catalyst_names :: "string list" where
  "catalyst_names =
     [''aoedamage'', ''attackspeed'', ''buffduration'', ''ccreduction'', ''cooldown'', ''crit'', ''damage'',
      ''damageaura'', ''debuffduration'', ''debuffincrease'', ''defenserating'', ''deflectionrating'', ''dexterity'',
      ''dodgerating'', ''health'', ''immunepoison'', ''immunesleep'', ''immuneslow'', ''immunestun'', ''knockback'',
      ''lifeleech'', ''mana'', ''manacostreduction'', ''manaleech'', ''mind'', ''movespeed'', ''orbeffectiveness'',
      ''overdrivebuildup'', ''petdamage'', ''pethealth'', ''projectilespeed'', ''rangeincrease'', ''strength'',
      ''surefooted'', ''thorns'']"

definition to_string_type :: "u8 \<Rightarrow> string" where
  "to_string_type t = (if unat t < length catalyst_names then catalyst_names ! unat t else ''unknown'')"

text \<open>The colours of the types, in their order: blue 0, gold 2, red 3, green 4.\<close>

definition catalyst_colors :: "u8 list" where
  "catalyst_colors =
     [3, 3, 2, 0, 4, 3, 3, 3, 2, 3, 0, 0, 2, 0, 0, 0, 0, 0, 0, 3, 4, 3, 0, 4, 2, 4, 4, 4, 2, 2, 3, 4, 2, 0, 0]"

record Catalyst =
  ct_noun :: u32
  ct_type :: u8
  ct_color :: u8
  ct_rarity :: u8

definition Catalyst_none :: Catalyst where
  "Catalyst_none = \<lparr>ct_noun = 0, ct_type = no_enum, ct_color = no_enum, ct_rarity = no_enum\<rparr>"

definition Catalyst_new :: "u8 \<Rightarrow> u8 \<Rightarrow> bool \<Rightarrow> Catalyst" where
  "Catalyst_new t r prismatic =
     (let noun = ''crystal_'' @ (if prismatic then ''wild_'' else []) @ to_string_type t @
            (if r = 1 then ''_rare'' else if r = 2 then ''_epic'' else [])
      in \<lparr>ct_noun = hash_id (noun @ ''.noun''), ct_type = t,
          ct_color = (if prismatic then Prismatic
            else if unat t < length catalyst_colors then catalyst_colors ! unat t else no_enum),
          ct_rarity = r\<rparr>)"

definition MatchingColor :: "Catalyst \<Rightarrow> Catalyst \<Rightarrow> bool" where
  "MatchingColor c other =
     (if ct_color c = no_enum \<or> ct_color other = no_enum then False
      else if ct_color c = Prismatic \<or> ct_color other = Prismatic then True
      else ct_color c = ct_color other)"

definition Catalyst_WriteTo :: "'s bitstream \<Rightarrow> Catalyst \<Rightarrow> 's \<Rightarrow> 's" where
  "Catalyst_WriteTo B c = in_order
     [Write_u32 B (ct_noun c), Write_u16 B (ucast (ct_rarity c)), Write_u32 B 0, Write_u32 B 0, Write_u16 B 0]"

definition Catalyst_bytes :: "Catalyst \<Rightarrow> bytes" where
  "Catalyst_bytes c = bytes_le 4 (ct_noun c) @ bytes_le 2 (ucast (ct_rarity c) :: u16) @ bytes_le 4 (0 :: u32) @ bytes_le 4 (0 :: u32) @
     bytes_le 2 (0 :: u16)"

definition Catalyst_WriteReflection :: "'s bitstream \<Rightarrow> Catalyst \<Rightarrow> 's \<Rightarrow> 's" where
  "Catalyst_WriteReflection B c = reflect B 2
     (in_order [refl_write B 2 0 (Write_u32 B (ct_noun c)), refl_write B 2 1 (Write_u16 B (ucast (ct_rarity c)))])"

lemma Catalyst_puts:
  assumes "bitstream_laws B"
  shows "puts B (Catalyst_WriteTo B c) (Catalyst_bytes c)"
proof -
  have "puts B (Catalyst_WriteTo B c) (concat [bytes_le 4 (ct_noun c), bytes_le 2 (ucast (ct_rarity c) :: u16),
      bytes_le 4 (0 :: u32), bytes_le 4 (0 :: u32), bytes_le 2 (0 :: u16)])"
    unfolding Catalyst_WriteTo_def by (rule puts_in_order) (simp add: puts_Write [OF assms])
  then show ?thesis by (simp add: Catalyst_bytes_def)
qed

subsection \<open>Loot\<close>

text \<open>
  The loot of an object (\<open>LootData\<close> in \<open>source/Game/Object.{h,cpp}\<close>), without the mark for the
  object's next update.  The 32-bit numbers are signed.
\<close>

record LootData =
  lt_id :: u64
  lt_instanceId :: u64
  lt_rigblock :: u32
  lt_suffix :: u32
  lt_prefix :: u32
  lt_prefix2 :: u32
  lt_itemLevel :: u32
  lt_rarity :: u32
  lt_catalystLevel :: u32
  lt_catalystType :: u32
  lt_dna :: f32
  lt_catalystPrismatic :: bool

definition LootData_new :: LootData where
  "LootData_new = \<lparr>lt_id = 0, lt_instanceId = 0, lt_rigblock = 0, lt_suffix = 0, lt_prefix = 0, lt_prefix2 = 0,
     lt_itemLevel = 0, lt_rarity = 0, lt_catalystLevel = 0, lt_catalystType = 0, lt_dna = 0, lt_catalystPrismatic = False\<rparr>"

definition LootData_SetCatalyst :: "Catalyst \<Rightarrow> LootData \<Rightarrow> LootData" where
  "LootData_SetCatalyst c l = l\<lparr>lt_catalystType := ucast (ct_type c), lt_catalystLevel := ucast (ct_rarity c),
     lt_catalystPrismatic := (ct_color c = Prismatic)\<rparr>"

definition Catalyst_of_loot :: "LootData \<Rightarrow> Catalyst" where
  "Catalyst_of_loot l = Catalyst_new (ucast (lt_catalystType l)) (ucast (lt_catalystLevel l)) (lt_catalystPrismatic l)"

lemma catalyst_colors_plain: "i < 35 \<Longrightarrow> catalyst_colors ! i \<noteq> Prismatic"
  by (simp add: catalyst_colors_def Prismatic_def nth_Cons' split: if_splits)

lemma Catalyst_loot_roundtrip:
  "Catalyst_of_loot (LootData_SetCatalyst (Catalyst_new t r p) l) = Catalyst_new t r p"
proof -
  have "ct_color (Catalyst_new t r p) = Prismatic \<longleftrightarrow> p"
    using catalyst_colors_plain [of "unat t"]
    by (simp add: Catalyst_new_def Let_def no_enum_def Prismatic_def catalyst_colors_def)
  then have "lt_catalystPrismatic (LootData_SetCatalyst (Catalyst_new t r p) l) = p" by (simp add: LootData_SetCatalyst_def)
  moreover have "lt_catalystType (LootData_SetCatalyst (Catalyst_new t r p) l) = ucast t"
    "lt_catalystLevel (LootData_SetCatalyst (Catalyst_new t r p) l) = ucast r"
    by (simp_all add: LootData_SetCatalyst_def Catalyst_new_def Let_def)
  moreover have "ucast (ucast x :: u32) = x" for x :: u8 by (rule bit_word_eqI) (simp add: bit_simps)
  ultimately show ?thesis by (simp add: Catalyst_of_loot_def)
qed

subsection \<open>Characters\<close>

record Character =
  mPartAttributes :: attributes
  mAbilityRanks :: "u32 list"
  mAssetId :: u64
  mDeployCooldown :: u64
  mNounId :: u32
  mAbilityPoints :: u32
  mCreatureType :: u32
  mVersion :: u32
  mHealthPoints :: f32
  mMaxHealthPoints :: f32
  ch_mManaPoints :: f32
  mMaxManaPoints :: f32
  mGearScore :: f32
  mGearScoreFlattened :: f32
  ch_bits :: "13 word"

text \<open>All bits are set the first time; 0x43960000 is 300.\<close>

definition Character_new :: Character where
  "Character_new = \<lparr>mPartAttributes = Attributes_new, mAbilityRanks = replicate 9 0, mAssetId = 0, mDeployCooldown = 0,
     mNounId = 0, mAbilityPoints = 0, mCreatureType = 0, mVersion = 0, mHealthPoints = 0, mMaxHealthPoints = 0,
     ch_mManaPoints = 0, mMaxManaPoints = 0, mGearScore = 0x43960000, mGearScoreFlattened = 0x43960000, ch_bits = - 1\<rparr>"

definition ch_mark :: "nat \<Rightarrow> Character \<Rightarrow> Character" where
  "ch_mark k c = c\<lparr>ch_bits := set_bit k (ch_bits c)\<rparr>"

definition SetNoun :: "u32 \<Rightarrow> Character \<Rightarrow> Character" where "SetNoun v c = ch_mark 1 (c\<lparr>mNounId := v\<rparr>)"
definition SetCreatureType :: "u32 \<Rightarrow> Character \<Rightarrow> Character" where
  "SetCreatureType v c = ch_mark 3 (c\<lparr>mCreatureType := v\<rparr>)"
definition SetVersion :: "u32 \<Rightarrow> Character \<Rightarrow> Character" where "SetVersion v c = ch_mark 0 (c\<lparr>mVersion := v\<rparr>)"
definition SetHealth :: "f32 \<Rightarrow> Character \<Rightarrow> Character" where "SetHealth v c = ch_mark 7 (c\<lparr>mHealthPoints := v\<rparr>)"
definition SetMaxHealth :: "f32 \<Rightarrow> Character \<Rightarrow> Character" where
  "SetMaxHealth v c = ch_mark 8 (c\<lparr>mMaxHealthPoints := v\<rparr>)"
definition SetMana :: "f32 \<Rightarrow> Character \<Rightarrow> Character" where "SetMana v c = ch_mark 9 (c\<lparr>ch_mManaPoints := v\<rparr>)"
definition SetMaxMana :: "f32 \<Rightarrow> Character \<Rightarrow> Character" where
  "SetMaxMana v c = ch_mark 10 (c\<lparr>mMaxManaPoints := v\<rparr>)"
definition SetGearScore :: "f32 \<Rightarrow> Character \<Rightarrow> Character" where
  "SetGearScore v c = ch_mark 11 (c\<lparr>mGearScore := v\<rparr>)"
definition SetGearScoreFlattened :: "f32 \<Rightarrow> Character \<Rightarrow> Character" where
  "SetGearScoreFlattened v c = ch_mark 12 (c\<lparr>mGearScoreFlattened := v\<rparr>)"
definition Character_ResetUpdateBits :: "Character \<Rightarrow> Character" where
  "Character_ResetUpdateBits c = c\<lparr>ch_bits := 0\<rparr>"

definition part_values :: "'s bitstream \<Rightarrow> attributes \<Rightarrow> nat list \<Rightarrow> 's \<Rightarrow> 's" where
  "part_values B a ks = in_order (map (\<lambda>k. Write_f32 B (GetValue (of_nat k) a)) ks)"

definition ImmuneToSleep :: u8 where "ImmuneToSleep = 74"

definition Character_WriteTo :: "'s bitstream \<Rightarrow> Character \<Rightarrow> 's \<Rightarrow> 's" where
  "Character_WriteTo B c s =
     (let (off, s') = ReallocateStream B (bytes_to_bits 0x620) s in
      in_order [SetWriteOffset B (off + bytes_to_bits 0x008),
       Write_u64 B (mAssetId c),
       Write_u32 B (mVersion c),
       SetWriteOffset B (off + bytes_to_bits 0x0B4),
       Write_u32 B (mNounId c),
       SetWriteOffset B (off + bytes_to_bits 0x0B8),
       part_values B (mPartAttributes c) [0..<0x4A],
       SetWriteOffset B (off + bytes_to_bits 0x1E4),
       Write_f32 B (GetValue ImmuneToSleep (mPartAttributes c)),
       SetWriteOffset B (off + bytes_to_bits 0x1EC),
       part_values B (mPartAttributes c) [0x4B..<0x62],
       SetWriteOffset B (off + bytes_to_bits 0x24C),
       part_values B (mPartAttributes c) [0x62..<0x6F],
       SetWriteOffset B (off + bytes_to_bits 0x3B8),
       Write_u32 B (mCreatureType c),
       SetWriteOffset B (off + bytes_to_bits 0x3C0),
       Write_u64 B (mDeployCooldown c),
       Write_u32 B (mAbilityPoints c),
       in_order (map (Write_u32 B) (mAbilityRanks c)),
       SetWriteOffset B (off + bytes_to_bits 0x3F0),
       Write_f32 B (mHealthPoints c),
       Write_f32 B (mMaxHealthPoints c),
       Write_f32 B (ch_mManaPoints c),
       Write_f32 B (mMaxManaPoints c),
       Write_f32 B (mGearScore c),
       Write_f32 B (mGearScoreFlattened c),
       SetWriteOffset B (off + bytes_to_bits 0x620)] s')"

text \<open>\<open>writes_if\<close>: the fields whose bits are set.\<close>

definition writes_if :: "'s bitstream \<Rightarrow> nat \<Rightarrow> 'a::len word \<Rightarrow> (nat \<times> ('s \<Rightarrow> 's)) list \<Rightarrow> (nat \<times> ('s \<Rightarrow> 's)) list" where
  "writes_if B F bits ws = (if bits \<noteq> 0 then filter (\<lambda>(k, w). bit bits k) ws else [])"

definition Character_WriteReflection :: "'s bitstream \<Rightarrow> Character \<Rightarrow> 's \<Rightarrow> 's" where
  "Character_WriteReflection B c = reflect B 124 (refl_fields B 124
     (writes_if B 124 (ch_bits c)
       [(0, Write_u32 B (mVersion c)), (1, Write_u32 B (mNounId c)), (2, Write_u64 B (mAssetId c)),
        (3, Write_u32 B (mCreatureType c)), (4, Write_u64 B (mDeployCooldown c)), (5, Write_u32 B (mAbilityPoints c)),
        (6, in_order (map (Write_u32 B) (mAbilityRanks c))), (7, Write_f32 B (mHealthPoints c)),
        (8, Write_f32 B (mMaxHealthPoints c)), (9, Write_f32 B (ch_mManaPoints c)), (10, Write_f32 B (mMaxManaPoints c)),
        (11, Write_f32 B (mGearScore c)), (12, Write_f32 B (mGearScoreFlattened c))]
      @ map (\<lambda>(idx, v). (13 + unat idx, Write_f32 B v)) (written (mPartAttributes c))
      @ map (\<lambda>idx. (13 + unat idx, Write_f32 B 0)) (at_erased (mPartAttributes c))))"

subsection \<open>The player\<close>

text \<open>\<open>mUser\<close> is a reference to a user; the squad is the one set last.\<close>

record Player =
  pl_mUser :: nat
  mSquad :: "Squad option"
  mCharacterData :: "Character list"
  mCatalysts :: "Catalyst list"
  mCatalystBonuses :: "bool list"
  mPlayerOnlineId :: u64
  mStatus :: u32
  mCurrentCreatureId :: u32
  mAvatarLevel :: u32
  mChainProgression :: u32
  mLockedAbilityMin :: u32
  mLockedDeckIndexMin :: u32
  mDeckScore :: u32
  mCurrentDeckIndex :: u32
  mQueuedDeckIndex :: u32
  mDNA :: u32
  mStatusProgress :: f32
  mEnergyPoints :: f32
  mAvatarXP :: f32
  mPlayerIndex :: u8
  pl_mTeam :: u8
  mbDataSetup :: bool
  mbIsCharged :: bool
  mLockCamera :: bool
  mbLockedOverdrive :: bool
  mbLockedCrystals :: bool
  pl_bits :: "24 word"
  mUpdateBits :: u16

definition xpTable :: "u32 list" where
  "xpTable =
     [0, 100, 200, 3000, 6000, 9000, 12000, 15000, 18000, 21000, 24500, 28500, 33000, 38000, 43000, 48000, 53000, 58000,
      63000, 68000, 73000, 78000, 83000, 88000, 93500, 99500, 106000, 113000, 120500, 128500, 137000, 146000, 155500,
      165500, 176000, 187000, 198500, 210500, 223000, 236000, 249500, 263500, 278000, 293000, 308500, 324500, 341000,
      358000, 375500, 393500, 412000, 431000, 451000, 471500, 492500, 514000, 536000, 558500, 581500, 605000, 629000,
      653500, 678500, 704500, 731500, 759500, 788500, 818500, 849500, 881500, 914500, 948500, 983500, 1019500, 1056500,
      1094500, 1133500, 1173500, 1214500, 1256500, 1299500, 1343500, 1388500, 1434500, 1481500, 1529500, 1578500,
      1628500, 1679500, 1731500, 1784500, 1839500, 1896500, 1955500, 2016500, 2080500, 2149500, 2225500, 2310500,
      2410500, 2510500]"

definition GetXPForLevel :: "u32 \<Rightarrow> u32" where
  "GetXPForLevel level = (if unat level < length xpTable then xpTable ! unat level else 0)"

text \<open>
  The quotient of two 32-bit numbers as floats: each is rounded to 24 binary digits, to even, and so
  is the quotient.  \<open>bits n\<close> is the number of binary digits of \<open>n\<close>.
\<close>

fun bits :: "nat \<Rightarrow> nat" where
  "bits n = (if n = 0 then 0 else Suc (bits (n div 2)))"

definition round_even :: "nat \<Rightarrow> nat \<Rightarrow> nat" where
  "round_even n d = (let q = n div d; r = n mod d in if 2 * r < d \<or> 2 * r = d \<and> even q then q else q + 1)"

definition float_nat :: "nat \<Rightarrow> nat" where
  "float_nat n = (if bits n \<le> 24 then n else (let k = 2 ^ (bits n - 24) in round_even n k * k))"

definition float_ratio :: "nat \<Rightarrow> nat \<Rightarrow> f32" where
  "float_ratio n d =
     (if n = 0 then 0
      else (let e = bits (n * 2 ^ 64 div d) - 1; m = round_even (n * 2 ^ 64) (d * 2 ^ (e - 23))
            in of_nat ((e + 63) * 2 ^ 23 + (m - 2 ^ 23))))"

definition pl_mark :: "nat \<Rightarrow> Player \<Rightarrow> Player" where
  "pl_mark k p = p\<lparr>pl_bits := set_bit k (pl_bits p)\<rparr>"

definition PlayerBits :: u16 where "PlayerBits = 0x1000"
definition CrystalBits :: u16 where "CrystalBits = 8"
definition UpdateMask :: u16 where "UpdateMask = 0x1FFF"

definition SetUpdateBits :: "u16 \<Rightarrow> Player \<Rightarrow> Player" where
  "SetUpdateBits b p = p\<lparr>mUpdateBits := mUpdateBits p OR b\<rparr>"

definition SetStatus :: "u32 \<Rightarrow> f32 \<Rightarrow> Player \<Rightarrow> Player" where
  "SetStatus status progress p =
     SetUpdateBits PlayerBits (pl_mark 8 (pl_mark 7 (p\<lparr>mStatus := status, mStatusProgress := progress\<rparr>)))"

definition GetStatus :: "Player \<Rightarrow> u32 \<times> f32" where "GetStatus p = (mStatus p, mStatusProgress p)"

definition Player_Setup :: "Account \<Rightarrow> Player \<Rightarrow> Player" where
  "Player_Setup acc p =
     (let p = SetStatus 0 0 p;
          prevXP = GetXPForLevel (account_level acc);
          nextXP = GetXPForLevel (account_level acc + 1);
          p = p\<lparr>mbDataSetup := False, pl_mTeam := 1, mPlayerOnlineId := account_id acc, mLockCamera := False,
                mLockedAbilityMin := 0xFF, mLockedDeckIndexMin := 0xFF, mAvatarLevel := account_level acc, mDNA := dna acc,
                mAvatarXP := float_ratio (float_nat (unat (xp acc - prevXP))) (float_nat (unat (max 1 (nextXP - prevXP))))\<rparr>
      in fold pl_mark [0, 5, 6, 18, 21, 22, 15, 12, 16] p)"

definition Player_new :: "nat \<Rightarrow> Account \<Rightarrow> u8 \<Rightarrow> Player" where
  "Player_new user acc index =
     Player_Setup acc (fold pl_mark [4, 17, 3, 13, 14]
       \<lparr>pl_mUser = user, mSquad = None, mCharacterData = replicate 3 Character_new, mCatalysts = replicate 9 Catalyst_none,
        mCatalystBonuses = replicate 8 False, mPlayerOnlineId = 0, mStatus = 0, mCurrentCreatureId = 0, mAvatarLevel = 0,
        mChainProgression = chainProgression acc, mLockedAbilityMin = 0, mLockedDeckIndexMin = 0, mDeckScore = 0,
        mCurrentDeckIndex = 0, mQueuedDeckIndex = 0, mDNA = 0, mStatusProgress = 0, mEnergyPoints = 0, mAvatarXP = 0,
        mPlayerIndex = index, pl_mTeam = 0, mbDataSetup = False, mbIsCharged = False, mLockCamera = False,
        mbLockedOverdrive = False, mbLockedCrystals = False, pl_bits = 0, mUpdateBits = 0\<rparr>)"

text \<open>The deck index is a signed number that is compared with 0 to 2.\<close>

definition IsAbilityLocked :: "u8 \<Rightarrow> Player \<Rightarrow> bool" where
  "IsAbilityLocked abilityIndex p =
     (if ucast abilityIndex < mLockedAbilityMin p then True
      else if mLockedAbilityMin p = 5 then uint abilityIndex - 6 = sint (mCurrentDeckIndex p)
      else False)"

definition GetAbilityRank :: "u8 \<Rightarrow> u8 \<Rightarrow> Player \<Rightarrow> u32" where
  "GetAbilityRank creatureIndex abilityIndex p =
     (let i = (if creatureIndex \<ge> 3 then 0 else unat creatureIndex)
      in mAbilityRanks (mCharacterData p ! min i 2) ! min (unat abilityIndex) 8)"

text \<open>The number of the creature: undefined without a squad and past the end of its list.\<close>

definition GetAbilityId :: "User \<Rightarrow> u8 \<Rightarrow> u8 \<Rightarrow> Player \<Rightarrow> u32 option" where
  "GetAbilityId user creatureIndex abilityIndex p =
     (if abilityIndex \<in> {0, 2, 3} then do {
        squad \<leftarrow> mSquad p;
        let i = (if creatureIndex \<ge> 3 then 0 else unat creatureIndex);
        id \<leftarrow> (if i < length (mCreatureIds squad) then Some (mCreatureIds squad ! i) else None);
        Some (case GetCreatureById id user of
                None \<Rightarrow> 0
              | Some c \<Rightarrow> Creature_GetAbility c (if abilityIndex = 0 then 0 else if abilityIndex = 2 then 1 else 3))
      }
      else if abilityIndex \<in> {6, 7, 8} then do {
        squad \<leftarrow> mSquad p;
        let slot = unat abilityIndex - 6;
        Some (if slot \<ge> length (mCreatureIds squad) then 0
              else case GetCreatureById (mCreatureIds squad ! slot) user of None \<Rightarrow> 0 | Some c \<Rightarrow> Creature_GetAbility c 2)
      }
      else Some 0)"

definition SwapCharacter :: "u32 \<Rightarrow> Player \<Rightarrow> Player" where
  "SwapCharacter index p = SetUpdateBits PlayerBits (pl_mark 1 (p\<lparr>mCurrentDeckIndex := index\<rparr>))"

definition GetCharacter :: "u32 \<Rightarrow> Player \<Rightarrow> Character option" where
  "GetCharacter index p = (if unat index < length (mCharacterData p) then Some (mCharacterData p ! unat index) else None)"

definition Player_ResetUpdateBits :: "Player \<Rightarrow> Player" where
  "Player_ResetUpdateBits p =
     p\<lparr>mUpdateBits := 0, pl_bits := 0, mCharacterData := map Character_ResetUpdateBits (mCharacterData p)\<rparr>"

definition NeedUpdate :: "Player \<Rightarrow> bool" where
  "NeedUpdate p \<longleftrightarrow> mUpdateBits p AND UpdateMask \<noteq> 0 \<or> pl_bits p \<noteq> 0"

subsection \<open>The player's catalysts\<close>

definition line_bonus :: "Catalyst list \<Rightarrow> nat \<Rightarrow> nat \<Rightarrow> nat \<Rightarrow> bool" where
  "line_bonus cs i j k = (MatchingColor (cs ! i) (cs ! j) \<and> MatchingColor (cs ! i) (cs ! k))"

text \<open>The rows 0 to 2, the columns 3 to 5, and the two diagonals, which are seen from the middle.\<close>

definition UpdateCatalystBonuses :: "Player \<Rightarrow> Player" where
  "UpdateCatalystBonuses p =
     (let cs = mCatalysts p;
          bs = fold (\<lambda>i bs. bs[i := line_bonus cs (i * 3) (i * 3 + 1) (i * 3 + 2),
                               i + 3 := line_bonus cs i (i + 3) (i + 6)]) [0..<3] (mCatalystBonuses p);
          bs = bs[6 := line_bonus cs 4 0 8, 7 := line_bonus cs 4 2 6]
      in SetUpdateBits PlayerBits (pl_mark 14 (p\<lparr>mCatalystBonuses := bs\<rparr>)))"

definition GetOpenCatalystSlot :: "Player \<Rightarrow> u32" where
  "GetOpenCatalystSlot p =
     (case find (\<lambda>i. ct_noun (mCatalysts p ! i) = 0) [0..<length (mCatalysts p)] of Some i \<Rightarrow> of_nat i | None \<Rightarrow> 0xFFFFFFFF)"

text \<open>The test is \<open>mCatalysts.size() < index\<close>: the index 9 passes it and is past the end.\<close>

definition GetCatalyst :: "u32 \<Rightarrow> Player \<Rightarrow> Catalyst option" where
  "GetCatalyst index p =
     (if length (mCatalysts p) < unat index then Some Catalyst_none
      else if unat index < length (mCatalysts p) then Some (mCatalysts p ! unat index)
      else None)"

definition SetCatalyst :: "Catalyst \<Rightarrow> u32 \<Rightarrow> Player \<Rightarrow> Player" where
  "SetCatalyst c index p =
     (if unat index < length (mCatalysts p)
      then UpdateCatalystBonuses (SetUpdateBits (push_bit (unat index) CrystalBits)
             (p\<lparr>mCatalysts := (mCatalysts p)[unat index := c]\<rparr>))
      else p)"

text \<open>
  What \<open>Instance::PickupCatalyst\<close> and \<open>Instance::DropCatalyst\<close> (\<open>source/Game/Instance.cpp\<close>) do to the
  player and the loot, without the objects and the messages: the slot taken, and the loot left.
\<close>

definition take_catalyst :: "LootData \<Rightarrow> Player \<Rightarrow> u32 option \<times> Player" where
  "take_catalyst l p =
     (let slot = GetOpenCatalystSlot p
      in if slot \<noteq> 0xFFFFFFFF then (Some slot, SetCatalyst (Catalyst_of_loot l) slot p) else (None, p))"

definition leave_catalyst :: "u32 \<Rightarrow> Player \<Rightarrow> (LootData option \<times> Player) option" where
  "leave_catalyst slot p = do {
     c \<leftarrow> GetCatalyst slot p;
     if ct_noun c = 0 then Some (None, p)
     else Some (Some (LootData_SetCatalyst c LootData_new), SetCatalyst Catalyst_none slot p)
   }"

subsection \<open>On the wire\<close>

definition Player_WriteTo :: "'s bitstream \<Rightarrow> Player \<Rightarrow> 's \<Rightarrow> 's" where
  "Player_WriteTo B p s =
     (let (off, s') = ReallocateStream B (bytes_to_bits 0x14B8) s in
      in_order [SetWriteOffset B off,
       Write_bool B (mbDataSetup p),
       SetWriteOffset B (off + bytes_to_bits 0x0004),
       Write_u32 B (mStatus p),
       Write_f32 B (mStatusProgress p),
       SetWriteOffset B (off + bytes_to_bits 0x000C),
       Write_u32 B (mCurrentDeckIndex p),
       Write_u32 B (mQueuedDeckIndex p),
       SetWriteOffset B (off + bytes_to_bits 0x0018),
       in_order (map (Character_WriteTo B) (mCharacterData p)),
       SetWriteOffset B (off + bytes_to_bits 0x1278),
       Write_u8 B (mPlayerIndex p),
       SetWriteOffset B (off + bytes_to_bits 0x1280),
       Write_u64 B (mPlayerOnlineId p),
       SetWriteOffset B (off + bytes_to_bits 0x12DC),
       Write_u8 B (pl_mTeam p),
       SetWriteOffset B (off + bytes_to_bits 0x12E0),
       Write_u32 B (mCurrentCreatureId p),
       Write_f32 B (mEnergyPoints p),
       SetWriteOffset B (off + bytes_to_bits 0x12EC),
       Write_bool B (mbIsCharged p),
       SetWriteOffset B (off + bytes_to_bits 0x12F0),
       Write_u32 B (mDNA p),
       SetWriteOffset B (off + bytes_to_bits 0x12F8),
       Write_f32 B (mAvatarXP p),
       Write_u32 B (mAvatarLevel p),
       SetWriteOffset B (off + bytes_to_bits 0x1304),
       Write_u32 B (mChainProgression p),
       SetWriteOffset B (off + bytes_to_bits 0x133C),
       in_order (map (Catalyst_WriteTo B) (mCatalysts p)),
       SetWriteOffset B (off + bytes_to_bits 0x13CC),
       in_order (map (Write_bool B) (mCatalystBonuses p)),
       SetWriteOffset B (off + bytes_to_bits 0x1408),
       Write_bool B (mLockCamera p),
       SetWriteOffset B (off + bytes_to_bits 0x140C),
       Write_u32 B (mDeckScore p),
       SetWriteOffset B (off + bytes_to_bits 0x1414),
       Write_bool B (mbLockedOverdrive p),
       Write_bool B (mbLockedCrystals p),
       SetWriteOffset B (off + bytes_to_bits 0x1418),
       Write_u32 B (mLockedAbilityMin p),
       SetWriteOffset B (off + bytes_to_bits 0x1420),
       Write_u32 B (mLockedDeckIndexMin p),
       SetWriteOffset B (off + bytes_to_bits 0x14B8)] s')"

definition Player_WriteReflection :: "'s bitstream \<Rightarrow> Player \<Rightarrow> 's \<Rightarrow> 's" where
  "Player_WriteReflection B p = reflect B 24 (refl_fields B 24
     (writes_if B 24 (pl_bits p)
       [(0, Write_bool B (mbDataSetup p)), (1, Write_u32 B (mCurrentDeckIndex p)), (2, Write_u32 B (mQueuedDeckIndex p)),
        (3, in_order (map (Character_WriteTo B) (mCharacterData p))), (4, Write_u8 B (mPlayerIndex p)),
        (5, Write_u8 B (pl_mTeam p)), (6, Write_u64 B (mPlayerOnlineId p)), (7, Write_u32 B (mStatus p)),
        (8, Write_f32 B (mStatusProgress p)), (9, Write_u32 B (mCurrentCreatureId p)), (10, Write_f32 B (mEnergyPoints p)),
        (11, Write_bool B (mbIsCharged p)), (12, Write_u32 B (mDNA p)), (13, in_order (map (Catalyst_WriteTo B) (mCatalysts p))),
        (14, in_order (map (Write_bool B) (mCatalystBonuses p))), (15, Write_u32 B (mAvatarLevel p)),
        (16, Write_f32 B (mAvatarXP p)), (17, Write_u32 B (mChainProgression p)), (18, Write_bool B (mLockCamera p)),
        (19, Write_bool B (mbLockedOverdrive p)), (20, Write_bool B (mbLockedCrystals p)),
        (21, Write_u32 B (mLockedAbilityMin p)), (22, Write_u32 B (mLockedDeckIndexMin p)), (23, Write_u32 B (mDeckScore p))]))"

end
