(* ===== verification/PlayerProps.thy ===== *)
theory PlayerProps
  imports Players
begin

text \<open>
  What holds of a player: the bonuses always belong to the catalysts, a catalyst picked up and dropped
  again is the same, and the blocks that are sent of a character and a player have the client's size.
\<close>

subsection \<open>Bonuses\<close>

definition bonus_table :: "Catalyst list \<Rightarrow> bool list" where
  "bonus_table cs =
     map (\<lambda>i. line_bonus cs (i * 3) (i * 3 + 1) (i * 3 + 2)) [0..<3] @ map (\<lambda>i. line_bonus cs i (i + 3) (i + 6)) [0..<3]
       @ [line_bonus cs 4 0 8, line_bonus cs 4 2 6]"

definition catalysts_ok :: "Player \<Rightarrow> bool" where
  "catalysts_ok p \<longleftrightarrow> length (mCatalysts p) = 9 \<and> mCatalystBonuses p = bonus_table (mCatalysts p) \<and>
     (\<forall>c \<in> set (mCatalysts p). ct_noun c = 0 \<longrightarrow> c = Catalyst_none)"

lemma length_bonus_table [simp]: "length (bonus_table cs) = 8" by (simp add: bonus_table_def)

lemma list8: "length xs = 8 \<Longrightarrow> \<exists>a b c d e f g h. xs = [a, b, c, d, e, f, g, h]"
  by (auto simp: length_Suc_conv eval_nat_numeral)

lemma UpdateCatalystBonuses_table:
  assumes "length (mCatalystBonuses p) = 8"
  shows "mCatalystBonuses (UpdateCatalystBonuses p) = bonus_table (mCatalysts p)"
proof -
  obtain a b c d e f g h where "mCatalystBonuses p = [a, b, c, d, e, f, g, h]" using list8 [OF assms] by blast
  then show ?thesis
    by (simp add: UpdateCatalystBonuses_def SetUpdateBits_def pl_mark_def bonus_table_def Let_def upt_rec)
qed

lemma UpdateCatalystBonuses_catalysts: "mCatalysts (UpdateCatalystBonuses p) = mCatalysts p"
  by (simp add: UpdateCatalystBonuses_def SetUpdateBits_def pl_mark_def Let_def)

lemma SetCatalyst_sets:
  assumes "catalysts_ok p"
  shows "mCatalysts (SetCatalyst c i p) = (mCatalysts p)[unat i := c]"
    "mCatalystBonuses (SetCatalyst c i p) = bonus_table (mCatalysts (SetCatalyst c i p))"
proof -
  note ok = assms [unfolded catalysts_ok_def]
  show m: "mCatalysts (SetCatalyst c i p) = (mCatalysts p)[unat i := c]"
    by (simp add: SetCatalyst_def UpdateCatalystBonuses_catalysts SetUpdateBits_def list_update_beyond)
  show "mCatalystBonuses (SetCatalyst c i p) = bonus_table (mCatalysts (SetCatalyst c i p))"
  proof (cases "unat i < length (mCatalysts p)")
    case True
    then show ?thesis
      unfolding m using ok by (simp add: SetCatalyst_def UpdateCatalystBonuses_table SetUpdateBits_def)
  next
    case False
    then show ?thesis using ok by (simp add: SetCatalyst_def)
  qed
qed

lemma SetCatalyst_ok:
  assumes "catalysts_ok p" and "ct_noun c = 0 \<longrightarrow> c = Catalyst_none"
  shows "catalysts_ok (SetCatalyst c i p)"
  using assms SetCatalyst_sets [OF assms(1), of c i] by (auto simp: catalysts_ok_def dest!: set_update_subset_insert [THEN subsetD])

lemma Player_new_ok: "catalysts_ok (Player_new u acc i)"
  by (simp add: catalysts_ok_def Player_new_def Player_Setup_def SetStatus_def SetUpdateBits_def pl_mark_def Let_def
      bonus_table_def line_bonus_def MatchingColor_def Catalyst_none_def upt_rec replicate_app_Cons_same nth_Cons' eval_nat_numeral)

text \<open>
  A line of three has its bonus when they match, unless the catalyst from which the line is seen is
  prismatic: then the two others count as matching whatever their colours are.
\<close>

lemma line_bonus_iff:
  "line_bonus cs i j k \<longleftrightarrow>
     MatchingColor (cs ! i) (cs ! j) \<and> MatchingColor (cs ! i) (cs ! k) \<and>
       (ct_color (cs ! i) \<noteq> Prismatic \<longrightarrow> MatchingColor (cs ! j) (cs ! k))"
  by (auto simp: line_bonus_def MatchingColor_def no_enum_def Prismatic_def)

lemma prismatic_first_only:
  defines "blue \<equiv> Catalyst_new 3 0 False" and "red \<equiv> Catalyst_new 0 0 False" and "wild \<equiv> Catalyst_new 0 0 True"
  shows "line_bonus [wild, red, blue] 0 1 2 \<and> \<not> line_bonus [red, wild, blue] 0 1 2"
  by (simp add: blue_def red_def wild_def line_bonus_def MatchingColor_def Catalyst_new_def Let_def no_enum_def
      Prismatic_def catalyst_colors_def)

lemma GetOpenCatalystSlot_cases:
  assumes "length (mCatalysts p) = 9"
  obtains (full) "GetOpenCatalystSlot p = 0xFFFFFFFF" "\<forall>c \<in> set (mCatalysts p). ct_noun c \<noteq> 0"
    | (slot) i where "GetOpenCatalystSlot p = of_nat i" "i < 9" "ct_noun (mCatalysts p ! i) = 0"
      "\<forall>j < i. ct_noun (mCatalysts p ! j) \<noteq> 0"
proof (cases "find (\<lambda>i. ct_noun (mCatalysts p ! i) = 0) [0..<length (mCatalysts p)]")
  case None
  then have "\<forall>c \<in> set (mCatalysts p). ct_noun c \<noteq> 0" by (auto simp: find_None_iff in_set_conv_nth)
  with None show thesis by (intro full) (simp_all add: GetOpenCatalystSlot_def)
next
  case (Some i)
  then have "i < 9" "ct_noun (mCatalysts p ! i) = 0" "\<forall>j < i. ct_noun (mCatalysts p ! j) \<noteq> 0"
    using assms by (auto simp: find_Some_iff)
  with Some show thesis by (intro slot) (simp_all add: GetOpenCatalystSlot_def)
qed

lemma loot_of_loot: "Catalyst_of_loot (LootData_SetCatalyst (Catalyst_of_loot l) LootData_new) = Catalyst_of_loot l"
  unfolding Catalyst_of_loot_def [of l] by (rule Catalyst_loot_roundtrip)

text \<open>
  C30: A catalyst that is picked up and dropped again is the same: it goes to the first open slot, the
  loot left on the ground makes the same catalyst, and the catalysts and the bonuses of the player are
  what they were before; with nine catalysts nothing is picked up.  The bonuses fit the catalysts at
  every moment.
\<close>

theorem catalyst_roundtrip:
  assumes "catalysts_ok p" and "ct_noun (Catalyst_of_loot l) \<noteq> 0"
  shows "case take_catalyst l p of
      (None, p') \<Rightarrow> p' = p \<and> (\<forall>c \<in> set (mCatalysts p). ct_noun c \<noteq> 0)
    | (Some slot, p') \<Rightarrow> catalysts_ok p' \<and> mCatalysts p' ! unat slot = Catalyst_of_loot l \<and>
        (\<exists>l' p''. leave_catalyst slot p' = Some (Some l', p'') \<and> Catalyst_of_loot l' = Catalyst_of_loot l \<and>
           catalysts_ok p'' \<and> mCatalysts p'' = mCatalysts p \<and> mCatalystBonuses p'' = mCatalystBonuses p)"
proof -
  let ?c = "Catalyst_of_loot l"
  have len: "length (mCatalysts p) = 9" and bonus: "mCatalystBonuses p = bonus_table (mCatalysts p)"
    and none: "\<And>c. c \<in> set (mCatalysts p) \<Longrightarrow> ct_noun c = 0 \<Longrightarrow> c = Catalyst_none"
    using assms(1) by (auto simp: catalysts_ok_def)
  from len show ?thesis
  proof (cases rule: GetOpenCatalystSlot_cases)
    case full
    then show ?thesis by (simp add: take_catalyst_def Let_def)
  next
    case (slot i)
    define p' where "p' = SetCatalyst ?c (of_nat i) p"
    define p'' where "p'' = SetCatalyst Catalyst_none (of_nat i) p'"
    have u: "unat (of_nat i :: u32) = i" using slot(2) by (simp add: unat_of_nat)
    have "(of_nat i :: u32) \<noteq> 0xFFFFFFFF" using u slot(2) by auto
    then have t: "take_catalyst l p = (Some (of_nat i), p')" by (simp add: take_catalyst_def Let_def slot(1) p'_def)
    have ok': "catalysts_ok p'" unfolding p'_def by (rule SetCatalyst_ok) (use assms in simp_all)
    have cs': "mCatalysts p' = (mCatalysts p)[i := ?c]" by (simp add: p'_def SetCatalyst_sets(1) [OF assms(1)] u)
    have ok'': "catalysts_ok p''" unfolding p''_def by (rule SetCatalyst_ok [OF ok']) simp
    have "mCatalysts p ! i = Catalyst_none" using none slot(2,3) len by simp
    then have cs'': "mCatalysts p'' = mCatalysts p"
      by (simp add: p''_def SetCatalyst_sets(1) [OF ok'] u cs' list_update_id [of _ i, symmetric] del: list_update_id)
        (metis list_update_id)
    have g: "GetCatalyst (of_nat i) p' = Some ?c" using slot(2) len by (simp add: GetCatalyst_def u cs')
    have "leave_catalyst (of_nat i) p' = Some (Some (LootData_SetCatalyst ?c LootData_new), p'')"
      using assms(2) by (simp add: leave_catalyst_def g p''_def)
    moreover have "mCatalystBonuses p'' = mCatalystBonuses p" using ok'' bonus cs'' by (simp add: catalysts_ok_def)
    ultimately show ?thesis
      using t ok' ok'' cs' cs'' slot(2) len u loot_of_loot [of l] by auto
  qed
qed

text \<open>The place after the last slot passes the test of \<open>GetCatalyst\<close>.\<close>

lemma ninth_catalyst_undefined:
  "length (mCatalysts p) = 9 \<Longrightarrow> GetCatalyst i p = None \<longleftrightarrow> i = 9"
  by (auto simp: GetCatalyst_def word_unat_eq_iff)

theorem catalyst_roundtrip_witness:
  "case take_catalyst (LootData_SetCatalyst (Catalyst_new 1 2 False) LootData_new) (Player_new 0 Account_default 0) of
      (None, p') \<Rightarrow> False
    | (Some slot, p') \<Rightarrow>
        (\<exists>l' p''. leave_catalyst slot p' = Some (Some l', p'') \<and> Catalyst_of_loot l' = Catalyst_new 1 2 False \<and>
           mCatalysts p'' = replicate 9 Catalyst_none)"
proof -
  have n: "ct_noun (Catalyst_new 1 2 False) \<noteq> 0" by code_simp
  have c: "mCatalysts (Player_new 0 Account_default 0) = replicate 9 Catalyst_none"
    by (simp add: Player_new_def Player_Setup_def SetStatus_def SetUpdateBits_def pl_mark_def Let_def)
  have "\<exists>c \<in> set (mCatalysts (Player_new 0 Account_default 0)). ct_noun c = 0" by (simp add: c Catalyst_none_def)
  with catalyst_roundtrip [OF Player_new_ok, of "LootData_SetCatalyst (Catalyst_new 1 2 False) LootData_new" 0 Account_default 0] n c
  show ?thesis by (auto simp: Catalyst_loot_roundtrip split: prod.splits option.splits)
qed

subsection \<open>The images\<close>

definition words_bytes :: "u32 list \<Rightarrow> bytes" where "words_bytes ws = concat (map (bytes_le 4) ws)"

lemma words_puts:
  assumes "bitstream_laws B"
  shows "puts B (in_order (map (Write_u32 B) ws)) (words_bytes ws)"
  unfolding words_bytes_def by (rule puts_in_order) (simp add: list_all2_conv_all_nth puts_Write [OF assms])

lemma length_words_bytes [simp]: "length (words_bytes ws) = 4 * length ws"
  by (induction ws) (simp_all add: words_bytes_def bytes_simps)

definition Character_layout :: "Character \<Rightarrow> layout" where
  "Character_layout c =
     [(0x008, bytes_le 8 (mAssetId c)), (0x010, bytes_le 4 (mVersion c)), (0x0B4, bytes_le 4 (mNounId c)),
      (0x0B8, attribute_bytes 0 0x4A (mPartAttributes c)), (0x1E4, bytes_le 4 (GetValue ImmuneToSleep (mPartAttributes c))),
      (0x1EC, attribute_bytes 0x4B 0x62 (mPartAttributes c)), (0x24C, attribute_bytes 0x62 0x6F (mPartAttributes c)),
      (0x3B8, bytes_le 4 (mCreatureType c)), (0x3C0, bytes_le 8 (mDeployCooldown c)), (0x3C8, bytes_le 4 (mAbilityPoints c)),
      (0x3CC, words_bytes (mAbilityRanks c)), (0x3F0, bytes_le 4 (mHealthPoints c)), (0x3F4, bytes_le 4 (mMaxHealthPoints c)),
      (0x3F8, bytes_le 4 (ch_mManaPoints c)), (0x3FC, bytes_le 4 (mMaxManaPoints c)), (0x400, bytes_le 4 (mGearScore c)),
      (0x404, bytes_le 4 (mGearScoreFlattened c))]"

lemma Character_lays_out:
  assumes "bitstream_laws B"
  shows "lays_out B (Character_WriteTo B c) 0x620 (Character_layout c)"
  apply (rule lays_outI [OF assms Character_WriteTo_def [unfolded part_values_def]])
  apply (rule seg_conv)
    apply (rule seg_in_order seg_seek [OF assms] seg_fields [OF assms] seg_puts [OF words_puts [OF assms]]
      seg_puts [OF attribute_bytes_puts [OF assms, folded attribute_bytes_def]])+
   apply (simp_all add: Character_layout_def attribute_bytes_def)
  done

lemma Character_tight: "length (mAbilityRanks c) = 9 \<Longrightarrow> tight 0x620 (Character_layout c)"
  by (simp add: Character_layout_def length_attribute_bytes bytes_simps)

text \<open>A list of blocks of one size.\<close>

definition blocks :: "nat \<Rightarrow> layout list \<Rightarrow> layout" where
  "blocks n ls = concat (map (\<lambda>(i, l). shift (n * i) l) (enumerate 0 ls))"

lemma blocks_lay_out:
  assumes "\<And>x. x \<in> set xs \<Longrightarrow> lays_out B (f x) n (g x)"
  shows "lays_out B (in_order (map f xs)) (n * length xs) (blocks n (map g xs))"
  using assms
proof (induction xs rule: rev_induct)
  case Nil
  show ?case by (simp add: blocks_def in_order_Nil lays_out_def seg_in_order(1) [unfolded in_order_Nil])
next
  case (snoc x xs)
  have "seg B b (in_order (map f xs)) 0 (n * length xs) (blocks n (map g xs))" for b
    using snoc by (simp add: lays_out_def)
  moreover have "seg B b (f x) (n * length xs) (n * length xs + n) (shift (n * length xs) (g x))" for b
    using snoc.prems by (intro seg_nested) simp
  ultimately have "lays_out B (fcomp (in_order (map f xs)) (f x)) (n * length xs + n)
      (blocks n (map g xs) @ shift (n * length xs) (g x))"
    by (intro lays_out_seg seg_comp)
  then show ?case by (simp add: blocks_def enumerate_append_eq ac_simps fcomp_def)
qed

text \<open>The layout of a player: three characters, nine catalysts, eight bonuses.\<close>

definition Player_layout :: "Player \<Rightarrow> layout" where
  "Player_layout p =
     [(0x0, bytes_bool (mbDataSetup p)), (0x4, bytes_le 4 (mStatus p)), (0x8, bytes_le 4 (mStatusProgress p)),
      (0xC, bytes_le 4 (mCurrentDeckIndex p)), (0x10, bytes_le 4 (mQueuedDeckIndex p))]
     @ shift 0x18 (blocks 0x620 (map Character_layout (mCharacterData p)))
     @ [(0x1278, [mPlayerIndex p]), (0x1280, bytes_le 8 (mPlayerOnlineId p)), (0x12DC, [pl_mTeam p]),
      (0x12E0, bytes_le 4 (mCurrentCreatureId p)), (0x12E4, bytes_le 4 (mEnergyPoints p)), (0x12EC, bytes_bool (mbIsCharged p)),
      (0x12F0, bytes_le 4 (mDNA p)), (0x12F8, bytes_le 4 (mAvatarXP p)), (0x12FC, bytes_le 4 (mAvatarLevel p)),
      (0x1304, bytes_le 4 (mChainProgression p)), (0x133C, concat (map Catalyst_bytes (mCatalysts p))),
      (0x13CC, concat (map bytes_bool (mCatalystBonuses p))), (0x1408, bytes_bool (mLockCamera p)),
      (0x140C, bytes_le 4 (mDeckScore p)), (0x1414, bytes_bool (mbLockedOverdrive p)), (0x1415, bytes_bool (mbLockedCrystals p)),
      (0x1418, bytes_le 4 (mLockedAbilityMin p)), (0x1420, bytes_le 4 (mLockedDeckIndexMin p))]"

lemma Player_lays_out:
  assumes "bitstream_laws B"
  shows "lays_out B (Player_WriteTo B p) 0x14B8 (Player_layout p)"
proof -
  have c: "puts B (in_order (map (Catalyst_WriteTo B) (mCatalysts p))) (concat (map Catalyst_bytes (mCatalysts p)))"
    by (rule puts_in_order) (simp add: list_all2_conv_all_nth Catalyst_puts [OF assms])
  have b: "puts B (in_order (map (Write_bool B) (mCatalystBonuses p))) (concat (map bytes_bool (mCatalystBonuses p)))"
    by (rule puts_in_order) (simp add: list_all2_conv_all_nth puts_fields [OF assms])
  show ?thesis
    apply (rule lays_outI [OF assms Player_WriteTo_def])
    apply (rule seg_conv)
      apply (rule seg_in_order seg_seek [OF assms] seg_seek_start [OF assms] seg_fields [OF assms] seg_puts [OF c] seg_puts [OF b]
        seg_nested [OF blocks_lay_out [OF Character_lays_out [OF assms]]])+
     apply (simp_all add: Player_layout_def)
    done
qed

end
