(* ===== verification/Chain.thy ===== *)
theory Chain
  imports PlayerProps
begin

text \<open>
  The mission of a game: the chain of levels (\<open>ChainVoteData\<close>), the objectives and the cash-out, from
  \<open>source/RakNet/Types.cpp\<close> and \<open>source/Game/Instance.cpp\<close>, with their images.
\<close>

subsection \<open>The level\<close>

definition levelNames :: "string list" where
  "levelNames =
     [''Darkspore_Tutorial_cryos_1_v2'', ''zelems_1'', ''zelems_3'', ''nocturna_4'', ''nocturna_1'', ''verdanth_1'',
      ''verdanth_3'', ''zelems_2'', ''zelems_4'', ''cryos_4'', ''cryos_3'', ''verdanth_2'', ''verdanth_4'', ''infinity_2'',
      ''infinity_3'', ''cryos_1'', ''cryos_2'', ''nocturna_3'', ''nocturna_2'', ''infinity_1'', ''infinity_4'',
      ''scaldron_1'', ''scaldron_2'', ''scaldron_3'', ''scaldron_4'']"

record chain =
  mEnemyNouns :: "u32 list"
  mLevelNouns :: "u32 list"
  mTimeRemaining :: f32
  mLevel :: u32
  mLevelIndex :: u32
  mStarLevel :: u32
  mProgression :: u8
  mCompletedLevel :: bool

definition ChainVoteData_new :: chain where
  "ChainVoteData_new =
     \<lparr>mEnemyNouns = map hash_id [''VerdanthBasicMelee.Noun'', ''ZelemBasicHybrid.Noun'', ''ZelemBasicPackMelee.Noun'',
        ''ZelemBasicRangedHoming.Noun'', ''ZelemBasicFlyingMelee.Noun'', ''NomadSnipe.Noun''],
      mLevelNouns = map hash_id [''ZelemBoss.Noun'', ''NomadSpacetimeAgent.Noun''],
      mTimeRemaining = 0, mLevel = 0, mLevelIndex = 0, mStarLevel = 0, mProgression = 0, mCompletedLevel = False\<rparr>"

definition GetMinorDifficulty :: "chain \<Rightarrow> u32" where
  "GetMinorDifficulty c = ((mLevelIndex c - 1) mod 4) + 1"

definition GetMajorDifficulty :: "chain \<Rightarrow> u32" where
  "GetMajorDifficulty c = ((mLevelIndex c - 1) div 4) + 1"

definition GetDifficultyName :: "chain \<Rightarrow> string" where
  "GetDifficultyName c =
     (if mLevelIndex c = 0 then ''tutorial''
      else decimal (unat (GetMajorDifficulty c)) @ ''-'' @ decimal (unat (GetMinorDifficulty c)))"

text \<open>Past the end of the table the access is undefined.\<close>

definition GetLevelName :: "chain \<Rightarrow> string option" where
  "GetLevelName c = (if unat (mLevelIndex c) < length levelNames then Some (levelNames ! unat (mLevelIndex c)) else None)"

definition SetLevel :: "u32 \<Rightarrow> chain \<Rightarrow> chain" where
  "SetLevel l c = c\<lparr>mLevel := l, mLevelIndex := 0\<rparr>"

definition SetProgression :: "u8 \<Rightarrow> chain \<Rightarrow> chain" where
  "SetProgression p c = c\<lparr>mProgression := min 5 p\<rparr>"

definition SetLevelByIndex :: "u32 \<Rightarrow> chain \<Rightarrow> chain" where
  "SetLevelByIndex i c =
     (if unat i < length levelNames then c\<lparr>mLevelIndex := i, mLevel := hash_id (levelNames ! unat i @ ''.Level'')\<rparr> else c)"

definition SetLevelInstance :: "u32 \<Rightarrow> chain \<Rightarrow> chain" where
  "SetLevelInstance i c = c\<lparr>mLevelIndex := i\<rparr>"

definition GetMarkerSet :: "chain \<Rightarrow> u32 option" where
  "GetMarkerSet c = map_option (\<lambda>n. hash_id (n @ ''_ai_1.Markerset'')) (GetLevelName c)"

definition SetTimeRemaining :: "f32 \<Rightarrow> chain \<Rightarrow> chain" where
  "SetTimeRemaining t c = c\<lparr>mTimeRemaining := t\<rparr>"

definition SetStarLevel :: "u32 \<Rightarrow> chain \<Rightarrow> chain" where
  "SetStarLevel l c = c\<lparr>mStarLevel := l\<rparr>"

definition SetCompleted :: "bool \<Rightarrow> chain \<Rightarrow> chain" where
  "SetCompleted b c = c\<lparr>mCompletedLevel := b\<rparr>"

definition GetEnemyNoun :: "u32 \<Rightarrow> chain \<Rightarrow> u32" where
  "GetEnemyNoun i c = (if unat i < length (mEnemyNouns c) then mEnemyNouns c ! unat i else 0)"

definition SetEnemyNoun :: "string \<Rightarrow> u32 \<Rightarrow> chain \<Rightarrow> chain" where
  "SetEnemyNoun noun i c =
     (if unat i < length (mEnemyNouns c) then c\<lparr>mEnemyNouns := (mEnemyNouns c)[unat i := hash_id noun]\<rparr> else c)"

text \<open>Through every operation but \<open>SetLevelInstance\<close> the level has a name, and at most five planets are counted.\<close>

definition chain_ok :: "chain \<Rightarrow> bool" where
  "chain_ok c \<longleftrightarrow> GetLevelName c \<noteq> None \<and> mProgression c \<le> 5 \<and> length (mEnemyNouns c) = 6 \<and> length (mLevelNouns c) = 2"

lemma chain_ok_new: "chain_ok ChainVoteData_new"
  by (simp add: chain_ok_def ChainVoteData_new_def GetLevelName_def levelNames_def)

lemma chain_ok_steps:
  assumes "chain_ok c"
  shows "chain_ok (SetLevel l c)" "chain_ok (SetProgression p c)" "chain_ok (SetLevelByIndex i c)"
    "chain_ok (SetTimeRemaining t c)" "chain_ok (SetStarLevel l c)" "chain_ok (SetCompleted b c)"
    "chain_ok (SetEnemyNoun noun i c)"
  using assms
  by (simp_all add: chain_ok_def GetLevelName_def SetLevel_def SetProgression_def SetLevelByIndex_def SetTimeRemaining_def
      SetStarLevel_def SetCompleted_def SetEnemyNoun_def levelNames_def split: if_splits)

lemma level_without_name: "GetLevelName (SetLevelInstance 25 c) = None"
  by (simp add: GetLevelName_def SetLevelInstance_def levelNames_def)

text \<open>Levels 1 to 24 are named 1-1 to 6-4.\<close>

lemma difficulty_name:
  assumes "major \<in> {1..6}" and "minor \<in> {1..4}"
  shows "GetDifficultyName (SetLevelInstance (of_nat (4 * (major - 1) + minor)) c) = decimal major @ ''-'' @ decimal minor"
proof -
  have m: "major \<in> {1, 2, 3, 4, 5, 6}" "minor \<in> {1, 2, 3, 4}" using assms by auto
  then show ?thesis
    by (auto simp: GetDifficultyName_def GetMajorDifficulty_def GetMinorDifficulty_def SetLevelInstance_def)
qed

subsection \<open>The image of the chain\<close>

definition in_case :: "bool \<Rightarrow> ('s \<Rightarrow> 's) list \<Rightarrow> 's \<Rightarrow> 's" where
  "in_case c fs = (if c then in_order fs else (\<lambda>s. s))"

text \<open>What is written of player \<open>i\<close> after a planet; the floats are constants.\<close>

definition planet_summary :: "'s bitstream \<Rightarrow> nat \<Rightarrow> nat \<Rightarrow> f32 list \<Rightarrow> nat \<Rightarrow> 's \<Rightarrow> 's" where
  "planet_summary B off start values i = in_order
     [SetWriteOffset B (off + bytes_to_bits (i * 0x19 + start)),
      Write_u32 B (of_nat (10 + i * 10)),
      Write_u32 B 5,
      in_order (map (Write_f32 B) values),
      Write_u8 B (of_nat i)]"

definition ChainVoteData_WriteTo :: "'s bitstream \<Rightarrow> chain \<Rightarrow> 's \<Rightarrow> 's" where
  "ChainVoteData_WriteTo B c s =
     (let minor = (if mLevelIndex c > 0 then GetMinorDifficulty c else 0);
          major = (if mLevelIndex c > 0 then GetMajorDifficulty c else 0);
          completed = mCompletedLevel c;
          (off, s') = ReallocateStream B (bytes_to_bits 0x151) s in
      in_order [SetWriteOffset B off,
       in_order (if completed then [Write_u32 B minor, Write_u32 B major, Write_f32 B 0x495BBA00, Write_f32 B 0x49DBBA00]
         else [Write_u32 B (mLevel c), Write_u32 B (mLevelIndex c), Write_u32 B (mStarLevel c), Write_f32 B 0x49DBBA00]),
       Write_u8 B (mProgression c),
       in_order (map (Write_u32 B) (mEnemyNouns c)),
       in_order (map (Write_u32 B) (mLevelNouns c)),
       in_case completed [Write_u32 B 4, Write_u32 B 3],
       SetWriteOffset B (off + bytes_to_bits 0x39),
       Write_u32 B 0,
       Write_u32 B (hash_id ''fmv_02_zelems.vp6''),
       Write_u32 B (hash_id ''fmv_02_zelems.vp6''),
       SetWriteOffset B (off + bytes_to_bits 0x45),
       Write_u32 B (hash_id ''vo_ship_flow_reinfect_zelems''),
       Write_u32 B 0,
       in_case completed
         ([SetWriteOffset B (off + bytes_to_bits 0x4D), Write_u32 B 0, Write_u32 B (mLevelIndex c)]
          @ map (\<lambda>i. Write_u32 B (of_nat (30 + i * 30))) [0..<4]
          @ map (\<lambda>i. Write_u32 B (of_nat (40 + i * 40))) [0..<4]
          @ map (planet_summary B off 0x76 [0x41700000, 0x41200000, 0x41C80000, 0x40A00000]) [0..<4]),
       SetWriteOffset B (off + bytes_to_bits 0xD9),
       Write_u32 B 0,
       Write_u32 B (hash_id ''fmv_03_nocturna.vp6''),
       Write_u32 B (hash_id ''fmv_03_nocturna.vp6''),
       SetWriteOffset B (off + bytes_to_bits 0xE9),
       Write_u32 B (mLevel c),
       in_case completed (map (planet_summary B off 0xEE [0x42FA0000, 0x4499E000, 0x48FB89E0, 0x46B4A600]) [0..<4]),
       in_order (map (Write_u32 B) [10, 20, 30, 40, 50, 60]),
       SetWriteOffset B (off + bytes_to_bits 0x151)] s')"

subsection \<open>The cash-out\<close>

record CashOutData =
  mGoldMedals :: "u32 list"
  mSilverMedals :: "u32 list"
  mBronzeMedals :: "u32 list"
  mUniqueChances :: "u32 list"
  mRareChances :: "u32 list"
  mPlanetsCompleted :: u32
  mDna :: f32

definition CashOutData_new :: CashOutData where
  "CashOutData_new = \<lparr>mGoldMedals = replicate 4 0, mSilverMedals = replicate 4 0, mBronzeMedals = replicate 4 0,
     mUniqueChances = replicate 4 0, mRareChances = replicate 4 0, mPlanetsCompleted = 0, mDna = 0\<rparr>"

definition CashOutData_WriteTo :: "'s bitstream \<Rightarrow> CashOutData \<Rightarrow> 's \<Rightarrow> 's" where
  "CashOutData_WriteTo B d s =
     (let (off, s') = ReallocateStream B (bytes_to_bits 0x2C8) s in
      in_order [SetWriteOffset B (off + bytes_to_bits 0x00),
       Write_u32 B (mPlanetsCompleted d),
       Write_f32 B (mDna d),
       SetWriteOffset B (off + bytes_to_bits 0x34),
       in_order (map (Write_u32 B) (mGoldMedals d)),
       in_order (map (Write_u32 B) (mSilverMedals d)),
       in_order (map (Write_u32 B) (mBronzeMedals d)),
       SetWriteOffset B (off + bytes_to_bits 0x64),
       in_order (map (Write_u32 B) (mUniqueChances d)),
       in_order (map (Write_u32 B) (mRareChances d)),
       SetWriteOffset B (off + bytes_to_bits 0x2C8)] s')"

text \<open>What \<open>Instance::BeamOut\<close> sets; 0x42480000 is 50.\<close>

definition beam_out_chain :: "chain \<Rightarrow> chain" where
  "beam_out_chain c = SetProgression 1 (SetCompleted True c)"

definition beam_out_cash :: "CashOutData \<Rightarrow> CashOutData" where
  "beam_out_cash d = d\<lparr>mDna := 0x42480000, mPlanetsCompleted := 2, mGoldMedals := replicate 4 3, mSilverMedals := replicate 4 1,
     mBronzeMedals := replicate 4 4, mUniqueChances := replicate 4 50, mRareChances := replicate 4 30\<rparr>"

subsection \<open>Objectives\<close>

record Objective =
  ob_description :: string
  ob_id :: u32
  ob_value :: u32
  ob_medal :: u8

text \<open>
  The size of the block is a number of bytes, 56, but it is used as a number of bits.
\<close>

definition objectiveSize :: nat where "objectiveSize = 4 + 4 + 0x30"

definition debug_bytes :: bytes where
  "debug_bytes = concat (replicate 8 [0x01, 0x23, 0x45, 0x67, 0x89, 0xAB, 0xCD, 0xEF])"

definition Objective_WriteTo :: "'s bitstream \<Rightarrow> Objective \<Rightarrow> 's \<Rightarrow> 's" where
  "Objective_WriteTo B d s =
     (let (off, s') = ReallocateStream B objectiveSize s in
      in_order [SetWriteOffset B off,
       Write_u32 B (ob_id d),
       Write_u32 B (ob_value d),
       in_order (map (Write_u8 B) debug_bytes),
       SetWriteOffset B (off + objectiveSize)] s')"

definition objective_names :: "string list" where
  "objective_names = [''FinishLevelQuickly'', ''DoDamageOften'', ''TouchAllObelisks'', ''DefeatAllMonsters'', ''HugeDamage'']"

text \<open>The objectives of a new game; the medal gold is 4.\<close>

definition objectives_new :: "Objective list" where
  "objectives_new =
     map (\<lambda>n. \<lparr>ob_description = ''Do some stuff bruh'', ob_id = hash_id n, ob_value = 1, ob_medal = 4\<rparr>) objective_names"

subsection \<open>What the images hold\<close>

lemma words_seg:
  assumes "bitstream_laws B"
  shows "seg B b (in_order (map (Write_u32 B) ws)) p (p + 4 * length ws) [(p, words_bytes ws)]"
  using seg_puts [OF words_puts [OF assms, of ws], of b p] by simp

lemma floats_seg:
  assumes "bitstream_laws B"
  shows "seg B b (in_order (map (Write_f32 B) ws)) p (p + 4 * length ws) [(p, words_bytes ws)]"
proof -
  have "puts B (in_order (map (Write_f32 B) ws)) (words_bytes ws)"
    unfolding words_bytes_def by (rule puts_in_order) (simp add: list_all2_conv_all_nth puts_Write [OF assms])
  from seg_puts [OF this, of b p] show ?thesis by simp
qed

lemma bytes_seg:
  assumes "bitstream_laws B"
  shows "seg B b (in_order (map (Write_u8 B) bs)) p (p + length bs) [(p, bs)]"
proof -
  have "puts B (in_order (map (Write_u8 B) bs)) (concat (map (\<lambda>x. [x]) bs))"
    by (rule puts_in_order) (simp add: list_all2_conv_all_nth puts_Write [OF assms])
  from seg_puts [OF this, of b p] show ?thesis by (simp add: concat_map_singleton)
qed

definition CashOutData_layout :: "CashOutData \<Rightarrow> layout" where
  "CashOutData_layout d =
     [(0, bytes_le 4 (mPlanetsCompleted d)), (4, bytes_le 4 (mDna d)), (0x34, words_bytes (mGoldMedals d)),
      (0x34 + 4 * length (mGoldMedals d), words_bytes (mSilverMedals d)),
      (0x34 + 4 * length (mGoldMedals d) + 4 * length (mSilverMedals d), words_bytes (mBronzeMedals d)),
      (0x64, words_bytes (mUniqueChances d)), (0x64 + 4 * length (mUniqueChances d), words_bytes (mRareChances d))]"

lemma CashOutData_lays_out:
  assumes "bitstream_laws B"
  shows "lays_out B (CashOutData_WriteTo B d) 0x2C8 (CashOutData_layout d)"
  apply (rule lays_outI [OF assms CashOutData_WriteTo_def])
  apply (rule seg_conv)
    apply (rule seg_in_order seg_seek [OF assms] seg_fields [OF assms] words_seg [OF assms])+
   apply (simp_all add: CashOutData_layout_def)
  done

definition Objective_bytes :: "Objective \<Rightarrow> bytes" where
  "Objective_bytes d = bytes_le 4 (ob_id d) @ bytes_le 4 (ob_value d)"

lemma seg_seek_bits:
  assumes "bitstream_laws B" and "n = 8 * k"
  shows "seg B b (SetWriteOffset B (8 * b + n)) p k []"
  using seg_seek [OF assms(1), of b k p] assms(2) by (simp add: bytes_to_bits_def mult.commute)

lemma objectiveSize_bits: "objectiveSize = 8 * 7" by (simp add: objectiveSize_def)

lemma Objective_lays_out:
  assumes "bitstream_laws B"
  shows "lays_out B (Objective_WriteTo B d) 7 [(0, bytes_le 4 (ob_id d)), (4, bytes_le 4 (ob_value d)), (8, debug_bytes)]"
  apply (rule lays_outI [OF assms Objective_WriteTo_def])
  apply (rule seg_conv)
    apply (rule seg_in_order seg_seek_start [OF assms] seg_fields [OF assms] bytes_seg [OF assms]
      seg_seek_bits [OF assms objectiveSize_bits])+
   apply simp_all
  done

text \<open>
  The client reads 56 bytes of each objective.  What the server writes of a list of objectives takes
  seven bytes each: the number, and three of the four bytes of the value.
\<close>

definition Objective_layout :: "Objective \<Rightarrow> layout" where
  "Objective_layout d = [(0, bytes_le 4 (ob_id d)), (4, bytes_le 4 (ob_value d)), (8, debug_bytes)]"

lemma overlay_Objective:
  assumes "k < 7"
  shows "overlay (Objective_layout d) k = Some ((bytes_le 4 (ob_id d) @ bytes_le 4 (ob_value d)) ! k)"
  using assms by (simp add: Objective_layout_def nth_append)

lemma overlay_blocks:
  assumes "\<And>l k. l \<in> set ls \<Longrightarrow> k < n \<Longrightarrow> overlay l k \<noteq> None" and "i < length ls" and "j < n"
  shows "overlay (blocks n ls) (n * i + j) = overlay (ls ! i) j"
  using assms
proof (induction ls rule: rev_induct)
  case (snoc l ls)
  have b: "overlay (blocks n (ls @ [l])) k =
      (case overlay (shift (n * length ls) l) k of None \<Rightarrow> overlay (blocks n ls) k | Some b \<Rightarrow> Some b)" for k
    unfolding blocks_def by (simp add: enumerate_append_eq overlay_append)
  show ?case
  proof (cases "i = length ls")
    case True
    then show ?thesis using snoc.prems(1) [of l j] snoc.prems(3) by (auto simp: b overlay_shift)
  next
    case False
    then have i: "i < length ls" using snoc.prems(2) by simp
    have "n * i + j < n * Suc i" using snoc.prems(3) by simp
    also have "\<dots> \<le> n * length ls" using i by (intro mult_le_mono) simp_all
    finally show ?thesis using snoc.IH [OF _ i snoc.prems(3)] snoc.prems(1) i by (simp add: b overlay_shift nth_append)
  qed
qed simp

text \<open>
  The list of objectives that the server writes cannot be read by the client: after some
  objectives, n of them, the stream has advanced by 7 n bytes instead of 56 n, and from each objective only the
  number and the three low bytes of the value are left, since the next one starts over the rest.
\<close>

lemma objectives_run_together:
  assumes "bitstream_laws B" and "GetWriteOffset B s = 8 * b"
  shows "GetWriteOffset B (in_order (map (Objective_WriteTo B) os) s) = 8 * (b + 7 * length os) \<and>
     (\<forall>i < length os. \<forall>j < 7.
        StreamByte B (in_order (map (Objective_WriteTo B) os) s) (b + (7 * i + j)) =
          (bytes_le 4 (ob_id (os ! i)) @ bytes_le 4 (ob_value (os ! i))) ! j)"
proof -
  have "lays_out B (in_order (map (Objective_WriteTo B) os)) (7 * length os) (blocks 7 (map Objective_layout os))"
    unfolding Objective_layout_def by (rule blocks_lay_out [OF Objective_lays_out [OF assms(1)]])
  then have l: "leaves B b (7 * length os) (blocks 7 (map Objective_layout os)) s (in_order (map (Objective_WriteTo B) os) s)"
    using assms(2) by (simp add: lays_out_def seg_def)
  have "overlay (blocks 7 (map Objective_layout os)) (7 * i + j) =
      Some ((bytes_le 4 (ob_id (os ! i)) @ bytes_le 4 (ob_value (os ! i))) ! j)" if "i < length os" "j < 7" for i j
  proof -
    have "overlay (blocks 7 (map Objective_layout os)) (7 * i + j) = overlay (map Objective_layout os ! i) j"
      using that by (intro overlay_blocks) (auto simp: overlay_Objective)
    then show ?thesis using that by (simp add: overlay_Objective)
  qed
  then show ?thesis using leavesD(1,4) [OF l] by simp
qed

text \<open>
  The image of the chain.  For a completed level the last numbers go to 0x152 to 0x169, past the end of
  the block (0x151), and the number at 0xD9 is written over the last byte of the fourth player's summary.
\<close>

lemma planet_summary_seg:
  assumes "bitstream_laws B"
  shows "seg B b (planet_summary B (8 * b) start values i) p (i * 0x19 + start + 8 + 4 * length values + 1)
           [(i * 0x19 + start, bytes_le 4 (of_nat (10 + i * 10) :: u32)), (i * 0x19 + start + 4, bytes_le 4 (5 :: u32)),
            (i * 0x19 + start + 8, words_bytes values), (i * 0x19 + start + 8 + 4 * length values, [of_nat i])]"
  unfolding planet_summary_def
  apply (rule seg_conv)
    apply (rule seg_in_order seg_seek [OF assms] seg_fields [OF assms] floats_seg [OF assms])+
   apply simp_all
  done

definition chain_layout :: "chain \<Rightarrow> layout" where
  "chain_layout c =
     [(0x0, bytes_le 4 (mLevel c)), (0x4, bytes_le 4 (mLevelIndex c)), (0x8, bytes_le 4 (mStarLevel c)),
      (0xC, bytes_le 4 (0x49DBBA00 :: u32)), (0x10, [mProgression c]), (0x11, words_bytes (mEnemyNouns c)),
      (0x29, words_bytes (mLevelNouns c)), (0x39, bytes_le 4 (0 :: u32)), (0x3D, bytes_le 4 (hash_id ''fmv_02_zelems.vp6'')),
      (0x41, bytes_le 4 (hash_id ''fmv_02_zelems.vp6'')), (0x45, bytes_le 4 (hash_id ''vo_ship_flow_reinfect_zelems'')),
      (0x49, bytes_le 4 (0 :: u32)), (0xD9, bytes_le 4 (0 :: u32)), (0xDD, bytes_le 4 (hash_id ''fmv_03_nocturna.vp6'')),
      (0xE1, bytes_le 4 (hash_id ''fmv_03_nocturna.vp6'')), (0xE9, bytes_le 4 (mLevel c)),
      (0xED, words_bytes [10, 20, 30, 40, 50, 60])]"

lemma chain_lays_out:
  assumes "bitstream_laws B" and "\<not> mCompletedLevel c" and "length (mEnemyNouns c) = 6" and "length (mLevelNouns c) = 2"
  shows "lays_out B (ChainVoteData_WriteTo B c) 0x151 (chain_layout c)"
proof -
  have e: "ChainVoteData_WriteTo B c s = (let (off, s') = ReallocateStream B (bytes_to_bits 0x151) s in
      in_order [SetWriteOffset B off,
       in_order [Write_u32 B (mLevel c), Write_u32 B (mLevelIndex c), Write_u32 B (mStarLevel c), Write_f32 B 0x49DBBA00],
       Write_u8 B (mProgression c), in_order (map (Write_u32 B) (mEnemyNouns c)), in_order (map (Write_u32 B) (mLevelNouns c)),
       SetWriteOffset B (off + bytes_to_bits 0x39), Write_u32 B 0, Write_u32 B (hash_id ''fmv_02_zelems.vp6''),
       Write_u32 B (hash_id ''fmv_02_zelems.vp6''), SetWriteOffset B (off + bytes_to_bits 0x45),
       Write_u32 B (hash_id ''vo_ship_flow_reinfect_zelems''), Write_u32 B 0,
       SetWriteOffset B (off + bytes_to_bits 0xD9), Write_u32 B 0, Write_u32 B (hash_id ''fmv_03_nocturna.vp6''),
       Write_u32 B (hash_id ''fmv_03_nocturna.vp6''), SetWriteOffset B (off + bytes_to_bits 0xE9), Write_u32 B (mLevel c),
       in_order (map (Write_u32 B) [10, 20, 30, 40, 50, 60]), SetWriteOffset B (off + bytes_to_bits 0x151)] s')" for s
    using assms(2) by (simp add: ChainVoteData_WriteTo_def in_case_def Let_def case_prod_unfold)
  show ?thesis
    apply (rule lays_outI [OF assms(1) e])
    apply (rule seg_conv)
      apply (rule seg_in_order seg_seek_start [OF assms(1)] seg_seek [OF assms(1)] seg_fields [OF assms(1)] words_seg [OF assms(1)])+
     apply (simp_all add: chain_layout_def assms(3,4))
    done
qed

lemma chain_tight: "length (mEnemyNouns c) = 6 \<Longrightarrow> length (mLevelNouns c) = 2 \<Longrightarrow> tight 0x151 (chain_layout c)"
  by (simp add: chain_layout_def bytes_simps)

lemma summaries_seg:
  assumes "bitstream_laws B"
  shows "seg B b (in_order (map (planet_summary B (8 * b) start [v0, v1, v2, v3]) [0..<4])) p (3 * 0x19 + start + 0x19)
    (concat (map (\<lambda>i. [(i * 0x19 + start, bytes_le 4 (of_nat (10 + i * 10) :: u32)), (i * 0x19 + start + 4, bytes_le 4 (5 :: u32)),
      (i * 0x19 + start + 8, words_bytes [v0, v1, v2, v3]), (i * 0x19 + start + 0x18, [of_nat i])]) [0..<4]))"
proof -
  have u: "[0..<4] = [0, 1, 2, 3 :: nat]" by (simp add: upt_rec)
  show ?thesis
    unfolding u list.map
    apply (rule seg_conv)
      apply (rule seg_in_order planet_summary_seg [OF assms])+
     apply simp_all
    done
qed

lemma completed_overruns:
  assumes "bitstream_laws B" and "mCompletedLevel c" and "length (mEnemyNouns c) = 6" and "length (mLevelNouns c) = 2"
  shows "\<exists>cs. lays_out B (ChainVoteData_WriteTo B c) 0x151 (cs @ [(0x152, words_bytes [10, 20, 30, 40, 50, 60])])"
proof -
  define minor where "minor = (if mLevelIndex c > 0 then GetMinorDifficulty c else 0)"
  define major where "major = (if mLevelIndex c > 0 then GetMajorDifficulty c else 0)"
  have e: "ChainVoteData_WriteTo B c s = (let (off, s') = ReallocateStream B (bytes_to_bits 0x151) s in
      in_order [SetWriteOffset B off,
       in_order [Write_u32 B minor, Write_u32 B major, Write_f32 B 0x495BBA00, Write_f32 B 0x49DBBA00],
       Write_u8 B (mProgression c), in_order (map (Write_u32 B) (mEnemyNouns c)), in_order (map (Write_u32 B) (mLevelNouns c)),
       in_order [Write_u32 B 4, Write_u32 B 3],
       SetWriteOffset B (off + bytes_to_bits 0x39), Write_u32 B 0, Write_u32 B (hash_id ''fmv_02_zelems.vp6''),
       Write_u32 B (hash_id ''fmv_02_zelems.vp6''), SetWriteOffset B (off + bytes_to_bits 0x45),
       Write_u32 B (hash_id ''vo_ship_flow_reinfect_zelems''), Write_u32 B 0,
       SetWriteOffset B (off + bytes_to_bits 0x4D), Write_u32 B 0, Write_u32 B (mLevelIndex c),
       in_order (map (Write_u32 B) (map (\<lambda>i. of_nat (30 + i * 30)) [0..<4])),
       in_order (map (Write_u32 B) (map (\<lambda>i. of_nat (40 + i * 40)) [0..<4])),
       in_order (map (planet_summary B off 0x76 [0x41700000, 0x41200000, 0x41C80000, 0x40A00000]) [0..<4]),
       SetWriteOffset B (off + bytes_to_bits 0xD9), Write_u32 B 0, Write_u32 B (hash_id ''fmv_03_nocturna.vp6''),
       Write_u32 B (hash_id ''fmv_03_nocturna.vp6''), SetWriteOffset B (off + bytes_to_bits 0xE9), Write_u32 B (mLevel c),
       in_order (map (planet_summary B off 0xEE [0x42FA0000, 0x4499E000, 0x48FB89E0, 0x46B4A600]) [0..<4]),
       in_order (map (Write_u32 B) [10, 20, 30, 40, 50, 60]), SetWriteOffset B (off + bytes_to_bits 0x151)] s')" for s
    using assms(2) by (simp add: ChainVoteData_WriteTo_def in_case_def Let_def case_prod_unfold minor_def major_def comp_def)
  show ?thesis
    apply (rule exI)
    apply (rule lays_outI [OF assms(1) e])
    apply (rule seg_conv)
      apply (rule seg_in_order seg_seek_start [OF assms(1)] seg_seek [OF assms(1)] seg_fields [OF assms(1)]
        words_seg [OF assms(1)] summaries_seg [OF assms(1)])+
     apply simp_all
    done
qed

end
