(* ===== verification/Level.thy ===== *)
theory Level
  imports Creatures Users BitStream
begin

text \<open>
  The levels of \<open>source/Game/Level.{h,cpp}\<close>: markers, sets of markers, the creatures of the director,
  read from the XML files of the data directory.  A child that does not exist is the null node, of
  which every text is empty.
\<close>

definition node_text :: "xmllib \<Rightarrow> xnode option \<Rightarrow> string \<Rightarrow> string" where
  "node_text X node k = (case node of None \<Rightarrow> [] | Some v \<Rightarrow> xml_get_text_node X v k)"

definition node_child :: "xmllib \<Rightarrow> xnode option \<Rightarrow> string \<Rightarrow> xnode option" where
  "node_child X node k = Option.bind node (\<lambda>v. xml_child X v k)"

definition node_children :: "xmllib \<Rightarrow> xnode option \<Rightarrow> xnode list" where
  "node_children X node = (case node of None \<Rightarrow> [] | Some v \<Rightarrow> xml_children X v)"

text \<open>A 32-bit signed number: \<open>strtol\<close> has 64 bits, the cast keeps the low 32.\<close>

definition to_number_i32 :: "string \<Rightarrow> u32" where "to_number_i32 s = ucast (strtoll 10 s)"

text \<open>The children of a list that are called \<open>entry\<close>.\<close>

definition entries_of :: "xmllib \<Rightarrow> xnode option \<Rightarrow> string \<Rightarrow> xnode list" where
  "entries_of X node k = filter (\<lambda>c. string_iequals (xml_name X c) ''entry'') (node_children X (node_child X node k))"

definition read_vec3 :: "xmllib \<Rightarrow> floatlib \<Rightarrow> xnode option \<Rightarrow> vec3" where
  "read_vec3 X F node = \<lparr>vx = strtof F (node_text X node ''x''), vy = strtof F (node_text X node ''y''),
     vz = strtof F (node_text X node ''z'')\<rparr>"

subsection \<open>Trigger volumes, teleporters, interactables\<close>

record TriggerVolumeEvents =
  tve_onEnter :: string
  tve_onExit :: string

record TriggerVolumeData =
  tv_extent :: "vec3 option"
  tv_events :: "TriggerVolumeEvents option"
  tv_offset :: vec3
  tv_onEnter :: string
  tv_onExit :: string
  tv_onStay :: string
  tv_luaOnEnter :: string
  tv_luaOnExit :: string
  tv_luaOnStay :: string
  tv_shape :: u32
  tv_activationType :: u32
  tv_timeToActivate :: f32
  tv_useObjectDimensions :: bool
  tv_isKinematic :: bool
  tv_persistentTimer :: bool
  tv_triggerOnceOnly :: bool
  tv_triggerIfNotBeaten :: bool

definition TriggerVolumeEvents_Read :: "xmllib \<Rightarrow> xnode option \<Rightarrow> TriggerVolumeEvents" where
  "TriggerVolumeEvents_Read X node =
     \<lparr>tve_onEnter = node_text X node ''onEnterEvent'', tve_onExit = node_text X node ''onExitEvent''\<rparr>"

text \<open>The shapes 0 sphere, 1 box, 2 capsule; of another shape the bounding box is not set.\<close>

definition trigger_extent :: "xmllib \<Rightarrow> floatlib \<Rightarrow> xnode option \<Rightarrow> u32 \<Rightarrow> vec3 option" where
  "trigger_extent X F node shape =
     (let number = (\<lambda>k. strtof F (node_text X node k)) in
      if shape = 0 then Some \<lparr>vx = number ''sphereRadius'', vy = number ''sphereRadius'', vz = number ''sphereRadius''\<rparr>
      else if shape = 1 then Some \<lparr>vx = number ''boxWidth'', vy = number ''boxHeight'', vz = number ''boxLength''\<rparr>
      else if shape = 2 then
        Some \<lparr>vx = number ''capsuleRadius'', vy = number ''capsuleHeight'', vz = number ''capsuleRadius''\<rparr>
      else None)"

definition TriggerVolumeData_Read :: "xmllib \<Rightarrow> floatlib \<Rightarrow> xnode option \<Rightarrow> TriggerVolumeData" where
  "TriggerVolumeData_Read X F node =
     (let shape = to_number_u32 10 (node_text X node ''shape''); flag = (\<lambda>k. to_number_bool (node_text X node k)) in
      \<lparr>tv_extent = trigger_extent X F node shape,
       tv_events = (case node_child X node ''events'' of None \<Rightarrow> None | Some e \<Rightarrow> Some (TriggerVolumeEvents_Read X (Some e))),
       tv_offset = read_vec3 X F (node_child X node ''offset''),
       tv_onEnter = node_text X node ''onEnter'', tv_onExit = node_text X node ''onExit'', tv_onStay = node_text X node ''onStay'',
       tv_luaOnEnter = node_text X node ''luaCallbackOnEnter'', tv_luaOnExit = node_text X node ''luaCallbackOnExit'',
       tv_luaOnStay = node_text X node ''luaCallbackOnStay'',
       tv_shape = shape, tv_activationType = to_number_u32 10 (node_text X node ''triggerActivationType''),
       tv_timeToActivate = strtof F (node_text X node ''timeToActivate''),
       tv_useObjectDimensions = flag ''useGameObjectDimensions'', tv_isKinematic = flag ''isKinematic'',
       tv_persistentTimer = flag ''persistentTimer'', tv_triggerOnceOnly = flag ''triggerOnceOnly'',
       tv_triggerIfNotBeaten = flag ''triggerIfNotBeaten''\<rparr>)"

record TeleporterData =
  tp_trigger :: "TriggerVolumeData option"
  tp_destination :: u32
  tp_defer :: bool

definition TeleporterData_Read :: "xmllib \<Rightarrow> floatlib \<Rightarrow> xnode option \<Rightarrow> TeleporterData" where
  "TeleporterData_Read X F node =
     \<lparr>tp_trigger = (case node_child X node ''triggerVolume'' of None \<Rightarrow> None | Some t \<Rightarrow> Some (TriggerVolumeData_Read X F (Some t))),
      tp_destination = to_number_u32 10 (node_text X node ''destinationMarkerId''),
      tp_defer = to_number_bool (node_text X node ''deferTriggerCreation'')\<rparr>"

record MarkerInteractableData =
  mi_ability :: string
  mi_startEvent :: string
  mi_endEvent :: string
  mi_optionalEvent :: string
  mi_usesAllowed :: u32
  mi_challengeValue :: u32

definition MarkerInteractableData_Read :: "xmllib \<Rightarrow> xnode option \<Rightarrow> MarkerInteractableData" where
  "MarkerInteractableData_Read X node =
     \<lparr>mi_ability = node_text X node ''interactableAbility'', mi_startEvent = node_text X node ''startInteractEvent'',
      mi_endEvent = node_text X node ''endInteractEvent'', mi_optionalEvent = node_text X node ''optionalInteractEvent'',
      mi_usesAllowed = to_number_i32 (node_text X node ''numUsesAllowed''),
      mi_challengeValue = to_number_i32 (node_text X node ''challengeValue'')\<rparr>"

subsection \<open>Markers\<close>

record Marker =
  mk_teleporter :: "TeleporterData option"
  mk_interactable :: "MarkerInteractableData option"
  mk_position :: vec3
  mk_rotation :: vec3
  mk_name :: string
  mk_nounName :: string
  mk_overrideAssetId :: u64
  mk_id :: u32
  mk_noun :: u32
  mk_targetId :: u32
  mk_scale :: f32
  mk_visible :: bool
  mk_hasCollision :: bool

definition Marker_Read :: "xmllib \<Rightarrow> floatlib \<Rightarrow> xnode option \<Rightarrow> Marker" where
  "Marker_Read X F node =
     (let component = node_child X node ''componentData''; nounName = node_text X node ''nounDef'' in
      \<lparr>mk_teleporter = (case node_child X component ''teleporter'' of None \<Rightarrow> None | Some t \<Rightarrow> Some (TeleporterData_Read X F (Some t))),
       mk_interactable = (case node_child X component ''interactable'' of None \<Rightarrow> None
          | Some i \<Rightarrow> Some (MarkerInteractableData_Read X (Some i))),
       mk_position = read_vec3 X F (node_child X node ''pos''), mk_rotation = read_vec3 X F (node_child X node ''rotDegrees''),
       mk_name = node_text X node ''markerName'', mk_nounName = nounName,
       mk_overrideAssetId = to_number_u64 (node_text X node ''assetOverrideId''),
       mk_id = to_number_u32 10 (node_text X node ''markerId''), mk_noun = hash_id nounName,
       mk_targetId = to_number_u32 10 (node_text X node ''targetMarkerId''),
       mk_scale = strtof F (node_text X node ''scale''), mk_visible = to_number_bool (node_text X node ''visible''),
       mk_hasCollision = to_number_bool (node_text X node ''createWithCollision'')\<rparr>)"

record Markerset =
  mMarkersByNoun :: "u32 \<Rightarrow> Marker list"
  mMarkers :: "Marker list"

definition Markerset_new :: Markerset where
  "Markerset_new = \<lparr>mMarkersByNoun = (\<lambda>_. []), mMarkers = []\<rparr>"

definition Markerset_add :: "Marker \<Rightarrow> Markerset \<Rightarrow> Markerset" where
  "Markerset_add m s =
     s\<lparr>mMarkersByNoun := (mMarkersByNoun s)(mk_noun m := mMarkersByNoun s (mk_noun m) @ [m]), mMarkers := mMarkers s @ [m]\<rparr>"

definition Markerset_Read :: "xmllib \<Rightarrow> floatlib \<Rightarrow> xnode \<Rightarrow> Markerset \<Rightarrow> Markerset" where
  "Markerset_Read X F node s = fold (\<lambda>c. Markerset_add (Marker_Read X F (Some c))) (entries_of X (Some node) ''markers'') s"

definition markerset_path :: "string \<Rightarrow> string" where
  "markerset_path asset = ''data/serverdata/markerset/'' @ asset @ ''.xml''"

definition Markerset_Load :: "xmllib \<Rightarrow> floatlib \<Rightarrow> disk \<Rightarrow> string \<Rightarrow> Markerset \<Rightarrow> bool \<times> Markerset" where
  "Markerset_Load X F d asset s =
     (case load_file d (markerset_path asset) of
        None \<Rightarrow> (False, s)
      | Some document \<Rightarrow>
          (case xml_child X document ''markerset'' of None \<Rightarrow> (False, s) | Some node \<Rightarrow> (True, Markerset_Read X F node s)))"

definition GetMarkersByType :: "u32 \<Rightarrow> Markerset \<Rightarrow> Marker list" where
  "GetMarkersByType noun s = mMarkersByNoun s noun"

text \<open>The index by noun is the list of all markers, filtered.\<close>

definition indexed :: "Markerset \<Rightarrow> bool" where
  "indexed s \<longleftrightarrow> (\<forall>noun. GetMarkersByType noun s = filter (\<lambda>m. mk_noun m = noun) (mMarkers s))"

lemma indexed_new: "indexed Markerset_new"
  by (simp add: indexed_def GetMarkersByType_def Markerset_new_def)

lemma indexed_add: "indexed s \<Longrightarrow> indexed (Markerset_add m s)"
  by (simp add: indexed_def GetMarkersByType_def Markerset_add_def)

lemma indexed_Read: "indexed s \<Longrightarrow> indexed (Markerset_Read X F node s)"
  unfolding Markerset_Read_def
  by (induction "entries_of X (Some node) ''markers''" arbitrary: s) (simp_all add: fold_invariant indexed_add)

lemma indexed_Load: "indexed s \<Longrightarrow> Markerset_Load X F d asset s = (ok, s') \<Longrightarrow> indexed s'"
  by (auto simp: Markerset_Load_def indexed_Read split: option.splits)

subsection \<open>The creatures of the director\<close>

record DirectorClass =
  dc_nounName :: string
  dc_minLevel :: u32
  dc_maxLevel :: u32
  dc_hordeLegal :: bool

definition DirectorClass_new :: DirectorClass where
  "DirectorClass_new = \<lparr>dc_nounName = [], dc_minLevel = 0, dc_maxLevel = 100, dc_hordeLegal = True\<rparr>"

definition DirectorClass_Read :: "xmllib \<Rightarrow> xnode option \<Rightarrow> DirectorClass" where
  "DirectorClass_Read X node =
     \<lparr>dc_nounName = node_text X node ''mpNoun'', dc_minLevel = to_number_i32 (node_text X node ''minDifficulty''),
      dc_maxLevel = to_number_i32 (node_text X node ''maxDifficulty''), dc_hordeLegal = to_number_bool (node_text X node ''hordeLegal'')\<rparr>"

record LevelConfig =
  lv_minions :: "DirectorClass list"
  lv_special :: "DirectorClass list"
  lv_boss :: "DirectorClass list"
  lv_agent :: "DirectorClass list"
  lv_captain :: "DirectorClass list"

definition LevelConfig_new :: LevelConfig where
  "LevelConfig_new = \<lparr>lv_minions = [], lv_special = [], lv_boss = [], lv_agent = [], lv_captain = []\<rparr>"

definition LevelConfig_Read :: "xmllib \<Rightarrow> xnode option \<Rightarrow> LevelConfig \<Rightarrow> LevelConfig" where
  "LevelConfig_Read X node c =
     (let read = (\<lambda>k. map (\<lambda>e. DirectorClass_Read X (Some e)) (entries_of X node k)) in
      \<lparr>lv_minions = lv_minions c @ read ''minion'', lv_special = lv_special c @ read ''special'',
       lv_boss = lv_boss c @ read ''boss'', lv_agent = lv_agent c @ read ''agent'', lv_captain = lv_captain c @ read ''captain''\<rparr>)"

text \<open>\<open>GetMinion\<close> and its four siblings.\<close>

definition nth_class :: "DirectorClass list \<Rightarrow> nat \<Rightarrow> DirectorClass" where
  "nth_class cs i = (if length cs > i then cs ! i else DirectorClass_new)"

definition GetMinion :: "LevelConfig \<Rightarrow> nat \<Rightarrow> DirectorClass" where "GetMinion c = nth_class (lv_minions c)"
definition GetSpecial :: "LevelConfig \<Rightarrow> nat \<Rightarrow> DirectorClass" where "GetSpecial c = nth_class (lv_special c)"
definition GetBoss :: "LevelConfig \<Rightarrow> nat \<Rightarrow> DirectorClass" where "GetBoss c = nth_class (lv_boss c)"
definition GetAgent :: "LevelConfig \<Rightarrow> nat \<Rightarrow> DirectorClass" where "GetAgent c = nth_class (lv_agent c)"
definition GetCaptain :: "LevelConfig \<Rightarrow> nat \<Rightarrow> DirectorClass" where "GetCaptain c = nth_class (lv_captain c)"

subsection \<open>The level\<close>

text \<open>The sets are found by the hash of their name.\<close>

record Level =
  mMarkersets :: "u32 \<Rightarrow> Markerset option"
  mConfig :: LevelConfig
  mFirstTimeConfig :: LevelConfig

definition Level_new :: Level where
  "Level_new = \<lparr>mMarkersets = (\<lambda>_. None), mConfig = LevelConfig_new, mFirstTimeConfig = LevelConfig_new\<rparr>"

definition Level_add_markerset :: "xmllib \<Rightarrow> floatlib \<Rightarrow> disk \<Rightarrow> xnode \<Rightarrow> Level \<Rightarrow> Level" where
  "Level_add_markerset X F d c l =
     (let asset = xml_get_text_node X c ''markersetAsset'' in
      if asset = [] \<or> mMarkersets l (hash_id asset) \<noteq> None then l
      else l\<lparr>mMarkersets := (mMarkersets l)(hash_id asset \<mapsto> snd (Markerset_Load X F d asset Markerset_new))\<rparr>)"

definition level_path :: "string \<Rightarrow> string" where
  "level_path name = ''data/serverdata/level/'' @ name @ ''.level.xml''"

definition Level_Load :: "xmllib \<Rightarrow> floatlib \<Rightarrow> disk \<Rightarrow> string \<Rightarrow> Level \<Rightarrow> bool \<times> Level" where
  "Level_Load X F d levelName l =
     (case load_file d (level_path levelName) of
        None \<Rightarrow> (False, l)
      | Some document \<Rightarrow>
          (case xml_child X document ''level'' of
             None \<Rightarrow> (False, l)
           | Some node \<Rightarrow>
               (let l = fold (Level_add_markerset X F d) (entries_of X (Some node) ''markersets'') l
                in (True, l\<lparr>mConfig := LevelConfig_Read X (xml_child X node ''levelConfig'') (mConfig l),
                            mFirstTimeConfig := LevelConfig_Read X (xml_child X node ''firstTimeConfig'') (mFirstTimeConfig l)\<rparr>))))"

definition GetMarkerset :: "string \<Rightarrow> Level \<Rightarrow> Markerset option" where
  "GetMarkerset name l = mMarkersets l (hash_id name)"

definition level_ok :: "Level \<Rightarrow> bool" where
  "level_ok l \<longleftrightarrow> (\<forall>h s. mMarkersets l h = Some s \<longrightarrow> indexed s)"

lemma Level_add_ok: "level_ok l \<Longrightarrow> level_ok (Level_add_markerset X F d c l)"
  using indexed_Load [OF indexed_new] by (auto simp: level_ok_def Level_add_markerset_def Let_def prod_eq_iff)

lemma Level_Load_ok:
  assumes "level_ok l" and "Level_Load X F d name l = (ok, l')"
  shows "level_ok l'"
proof -
  have "level_ok (fold (Level_add_markerset X F d) cs l)" for cs
    using assms(1) by (induction cs arbitrary: l) (simp_all add: Level_add_ok)
  then show ?thesis using assms by (auto simp: Level_Load_def Let_def level_ok_def split: option.splits)
qed

text \<open>A level that could not be loaded is unchanged.\<close>

lemma Level_Load_failed: "Level_Load X F d name l = (False, l') \<Longrightarrow> l' = l"
  by (auto simp: Level_Load_def Let_def split: option.splits)

end
