(* ===== verification/Games.thy ===== *)
theory Games
  imports Chain Level Rooms "HOL-Library.Monad_Syntax"
begin

text \<open>
  The games of the server, \<open>source/Game/GameManager.cpp\<close> and the part of \<open>source/Game/Instance.cpp\<close>
  that the requests of the Blaze clients use: creating, starting and stopping a game, its level, its
  players.  The game objects are a store; users and the manager's map refer to them by place.  What
  the thread of a started game does is not part of the model: the tasks it is given are a queue.
\<close>

subsection \<open>The game\<close>

datatype server_task = LuaInitialize | LuaReload | LuaBuffer string | ClientTask u8 u8

record running_server =
  rs_port :: u16
  rs_tasks :: "server_task list"

record game =
  g_info :: ReplicatedGameData
  g_players :: "(int, Player) rbt"
  g_level :: Level
  g_levelLoaded :: bool
  g_spawnpoints :: "vec3 list"
  g_chain :: chain
  g_cash :: CashOutData
  g_objectives :: "Objective list"
  g_startTime :: u64
  g_server :: "running_server option"

text \<open>\<open>mData\<close> is value-initialised: every number and enumerator is zero.\<close>

definition IpPairAddress_zero :: IpPairAddress where
  "IpPairAddress_zero = \<lparr>IpPairAddress_exip = \<lparr>IpAddress_address = 0, IpAddress_port = 0\<rparr>,
     IpPairAddress_inip = \<lparr>IpAddress_address = 0, IpAddress_port = 0\<rparr>\<rparr>"

definition ReplicatedGameData_zero :: ReplicatedGameData where
  "ReplicatedGameData_zero =
     \<lparr>ReplicatedGameData_attributes = [], ReplicatedGameData_criteria = [], ReplicatedGameData_administrators = [],
      ReplicatedGameData_capacity = [], ReplicatedGameData_tids = [], ReplicatedGameData_name = [],
      ReplicatedGameData_type = [], ReplicatedGameData_playgroupId = [], ReplicatedGameData_psas = [],
      ReplicatedGameData_uuid = [], ReplicatedGameData_version = [], ReplicatedGameData_hostNetwork = IpPairAddress_zero,
      ReplicatedGameData_networkQos = \<lparr>NetworkQosData_dbps = 0, NetworkQosData_type = 0, NetworkQosData_ubps = 0\<rparr>,
      ReplicatedGameData_pHost = \<lparr>HostInfo_id = 0, HostInfo_slot = 0\<rparr>,
      ReplicatedGameData_tHost = \<lparr>HostInfo_id = 0, HostInfo_slot = 0\<rparr>, ReplicatedGameData_gpvh = 0,
      ReplicatedGameData_gsid = 0, ReplicatedGameData_id = 0, ReplicatedGameData_settings = 0,
      ReplicatedGameData_hses = 0, ReplicatedGameData_seed = 0, ReplicatedGameData_maxPlayers = 0,
      ReplicatedGameData_queueCapacity = 0, ReplicatedGameData_tcap = 0, ReplicatedGameData_state = 0,
      ReplicatedGameData_networkTopology = 0, ReplicatedGameData_presence = 0, ReplicatedGameData_ignore = False,
      ReplicatedGameData_resetable = False\<rparr>"

definition Instance_new :: "u32 \<Rightarrow> game" where
  "Instance_new i =
     \<lparr>g_info = ReplicatedGameData_zero\<lparr>ReplicatedGameData_id := i\<rparr>, g_players = RBT.empty, g_level = Level_new,
      g_levelLoaded = False, g_spawnpoints = [], g_chain = ChainVoteData_new, g_cash = CashOutData_new,
      g_objectives = objectives_new, g_startTime = 0, g_server = None\<rparr>"

definition GetId :: "game \<Rightarrow> u32" where "GetId g = ReplicatedGameData_id (g_info g)"

definition GetTimeElapsed :: "u64 \<Rightarrow> game \<Rightarrow> u64" where "GetTimeElapsed now g = now - g_startTime g"

definition Instance_Stop :: "game \<Rightarrow> game" where "Instance_Stop g = g\<lparr>g_server := None\<rparr>"

definition Instance_Start :: "u64 \<Rightarrow> game \<Rightarrow> game" where
  "Instance_Start now g =
     (Instance_Stop g)
       \<lparr>g_server := Some \<lparr>rs_port = IpAddress_port (IpPairAddress_exip (ReplicatedGameData_hostNetwork (g_info g))),
          rs_tasks = [LuaInitialize]\<rparr>,
        g_startTime := now\<rparr>"

text \<open>Without a server both dereference a null pointer.\<close>

definition AddServerTask :: "server_task \<Rightarrow> game \<Rightarrow> game option" where
  "AddServerTask t g = map_option (\<lambda>s. g\<lparr>g_server := Some (s\<lparr>rs_tasks := rs_tasks s @ [t]\<rparr>)\<rparr>) (g_server g)"

definition AddClientTask :: "u8 \<Rightarrow> u8 \<Rightarrow> game \<Rightarrow> game option" where
  "AddClientTask i packet g = AddServerTask (ClientTask i packet) g"

subsection \<open>Players\<close>

text \<open>The map is ordered by the signed number of the user.\<close>

definition GetPlayer :: "u64 \<Rightarrow> game \<Rightarrow> Player option" where
  "GetPlayer i g = RBT.lookup (g_players g) (sint i)"

definition GetPlayerByIndex :: "u8 \<Rightarrow> game \<Rightarrow> Player option" where
  "GetPlayerByIndex index g = find (\<lambda>p. mPlayerIndex p = index) (map snd (RBT.entries (g_players g)))"

text \<open>A player that is there is kept, with the index it has; \<open>a\<close> is the place of the user's object.\<close>

definition AddPlayer :: "nat \<Rightarrow> User \<Rightarrow> u8 \<Rightarrow> game \<Rightarrow> Player \<times> game" where
  "AddPlayer a u index g =
     (let i = sint (account_id (mAccount u)) in
      case RBT.lookup (g_players g) i of
        Some p \<Rightarrow> (p, g)
      | None \<Rightarrow> (let p = Player_new a (mAccount u) index in (p, g\<lparr>g_players := RBT.insert i p (g_players g)\<rparr>)))"

definition Game_RemovePlayer :: "u64 \<Rightarrow> game \<Rightarrow> game" where
  "Game_RemovePlayer i g = g\<lparr>g_players := RBT.delete (sint i) (g_players g)\<rparr>"

subsection \<open>The level\<close>

text \<open>
  The names of the enemies: three minions and three special ones.  A name that is not in the
  database of nouns (\<open>known\<close>) is looked up and the null pointer dereferenced.
\<close>

definition enemies_of :: "LevelConfig \<Rightarrow> (nat \<times> string) list" where
  "enemies_of c = concat (map (\<lambda>i. [(i, dc_nounName (GetMinion c i)), (i + 3, dc_nounName (GetSpecial c i))]) [0..<3])"

definition set_enemies :: "(u32 \<Rightarrow> bool) \<Rightarrow> LevelConfig \<Rightarrow> chain \<Rightarrow> chain option" where
  "set_enemies known c ch =
     (if list_all (\<lambda>(i, name). name = [] \<or> known (hash_id name)) (enemies_of c)
      then Some (fold (\<lambda>(i, name). SetEnemyNoun name (of_nat i)) (enemies_of c) ch) else None)"

definition spawnpoints_in :: "string \<Rightarrow> Level \<Rightarrow> vec3 list" where
  "spawnpoints_in name l =
     (case GetMarkerset name l of
        None \<Rightarrow> []
      | Some s \<Rightarrow> map mk_position (GetMarkersByType (hash_id ''CameraSpawnPoint.Noun'') s))"

definition LoadLevel :: "xmllib \<Rightarrow> floatlib \<Rightarrow> disk \<Rightarrow> (u32 \<Rightarrow> bool) \<Rightarrow> game \<Rightarrow> (bool \<times> game) option" where
  "LoadLevel X F d known g =
     (if g_levelLoaded g then Some (True, g)
      else do {
        levelName \<leftarrow> GetLevelName (g_chain g);
        let (loaded, l) = Level_Load X F d levelName (g_level g);
        let g = g\<lparr>g_level := l, g_levelLoaded := loaded\<rparr>;
        if loaded then do {
          ch \<leftarrow> set_enemies known (if mCompletedLevel (g_chain g) then mConfig l else mFirstTimeConfig l) (g_chain g);
          let points = g_spawnpoints g @ spawnpoints_in (levelName @ ''_design.Markerset'') l;
          let points = (if points = [] then spawnpoints_in (levelName @ ''_design_spawners.Markerset'') l else points);
          Some (True, g\<lparr>g_chain := ch, g_spawnpoints := points\<rparr>)
        } else Some (False, g)
      })"

subsection \<open>The manager\<close>

type_synonym games = "game registry"

text \<open>The number after the last one; \<open>operator[]\<close> replaces what is there.\<close>

definition CreateGame :: "games \<Rightarrow> nat \<times> games" where
  "CreateGame G =
     (let i = (if RBT.entries (table G) = [] then 1 else fst (last (RBT.entries (table G))) + 1)
      in (length (objects G),
          G\<lparr>objects := objects G @ [Instance_new i], table := RBT.insert i (length (objects G)) (table G)\<rparr>))"

definition RemoveGame :: "u32 \<Rightarrow> games \<Rightarrow> games" where "RemoveGame i G = registry_remove i G"

definition GetGame :: "u32 \<Rightarrow> games \<Rightarrow> nat option" where "GetGame i G = registry_get i G"

definition StartGame :: "u64 \<Rightarrow> u32 \<Rightarrow> games \<Rightarrow> games" where
  "StartGame now i G = (case GetGame i G of None \<Rightarrow> G | Some a \<Rightarrow> registry_update a (Instance_Start now) G)"

abbreviation the_game :: "games \<Rightarrow> nat \<Rightarrow> game" where "the_game G a \<equiv> objects G ! a"

interpretation all_games: numbered Instance_new GetId
  by standard (simp add: Instance_new_def GetId_def)

definition games_ok :: "games \<Rightarrow> bool" where "games_ok G \<longleftrightarrow> all_games.registered G"

subsection \<open>What the operations keep\<close>

lemma create_game_registry:
  assumes "registry_get (- 1) G = None"
  shows "CreateGame G = registry_create Instance_new 0 G"
proof -
  have "registry_get (next_number G 0) G = None" using all_games.fresh_number [OF assms] by simp
  then show ?thesis
    by (simp add: CreateGame_def registry_create_def next_number_def registry_get_def Let_def)
qed

lemma CreateGame_ok:
  assumes "games_ok G" and "GetGame (- 1) G = None" and "CreateGame G = (a, G')"
  shows "games_ok G'" "GetGame (GetId (the_game G' a)) G = None" "GetGame (GetId (the_game G' a)) G' = Some a"
    "a = length (objects G)" "length (objects G') = Suc a" "\<And>i b. GetGame i G = Some b \<Longrightarrow> GetGame i G' = Some b"
    "\<And>b. b < length (objects G) \<Longrightarrow> the_game G' b = the_game G b" "the_game G' a = Instance_new (GetId (the_game G' a))"
proof -
  have r: "registry_create Instance_new 0 G = (a, G')"
    using assms create_game_registry [of G] by (simp add: GetGame_def)
  note c = all_games.registered_create [OF assms(1) [unfolded games_ok_def] r]
  show "games_ok G'" using c(1) by (simp add: games_ok_def)
  show "GetGame (GetId (the_game G' a)) G = None"
    using all_games.fresh_number [of G] assms(2) c(4) by (simp add: GetGame_def)
  show "GetGame (GetId (the_game G' a)) G' = Some a" using c(2,4) by (simp add: GetGame_def)
  show a: "a = length (objects G)" and l: "length (objects G') = Suc a"
    using assms(3) by (auto simp: CreateGame_def Let_def)
  show "\<And>i b. GetGame i G = Some b \<Longrightarrow> GetGame i G' = Some b" using c(5) by (simp add: GetGame_def)
  show "\<And>b. b < length (objects G) \<Longrightarrow> the_game G' b = the_game G b" using c(6) .
  show "the_game G' a = Instance_new (GetId (the_game G' a))"
    using assms(3) by (auto simp: CreateGame_def Let_def GetId_def Instance_new_def)
qed

text \<open>The invariant holds also where the numbers are used up and an old game is replaced.\<close>

lemma CreateGame_registered:
  assumes "games_ok G" and "CreateGame G = (a, G')"
  shows "games_ok G'" "a = length (objects G)" "length (objects G') = Suc a" "\<And>b. b < a \<Longrightarrow> the_game G' b = the_game G b"
proof -
  obtain i where G': "a = length (objects G)"
    "G' = G\<lparr>objects := objects G @ [Instance_new i], table := RBT.insert i (length (objects G)) (table G)\<rparr>"
    using assms(2) by (auto simp: CreateGame_def Let_def)
  show "a = length (objects G)" "length (objects G') = Suc a" "\<And>b. b < a \<Longrightarrow> the_game G' b = the_game G b"
    by (simp_all add: G' nth_append)
  show "games_ok G'"
    using assms(1)
    by (auto simp: G' games_ok_def all_games.registered_def registry_get_def nth_append GetId_def Instance_new_def
        intro: less_SucI)
qed

lemma update_game_at:
  assumes "games_ok G" and "GetId (f (the_game G a)) = GetId (the_game G a)"
  shows "games_ok (registry_update a f G)"
  using assms
  by (cases "a < length (objects G)")
    (auto simp: games_ok_def all_games.registered_def registry_get_def registry_update_def nth_list_update not_less
      list_update_beyond)

lemma update_game_ok: "games_ok G \<Longrightarrow> (\<And>g. GetId (f g) = GetId g) \<Longrightarrow> games_ok (registry_update a f G)"
  unfolding games_ok_def by (rule all_games.registered_update)

lemma GetId_steps [simp]:
  "GetId (Instance_Start now g) = GetId g" "GetId (Instance_Stop g) = GetId g" "GetId (Game_RemovePlayer i g) = GetId g"
  by (simp_all add: GetId_def Instance_Start_def Instance_Stop_def Game_RemovePlayer_def)

lemma StartGame_ok: "games_ok G \<Longrightarrow> games_ok (StartGame now i G)"
  by (simp add: StartGame_def update_game_ok split: option.splits)

lemma RemoveGame_ok: "games_ok G \<Longrightarrow> games_ok (RemoveGame i G)"
  by (simp add: RemoveGame_def games_ok_def all_games.registered_remove)

text \<open>A level is loaded once; afterwards its enemies are those of the configuration.\<close>

lemma enemy_set: "unat i < length (mEnemyNouns c) \<Longrightarrow>
    GetEnemyNoun j (SetEnemyNoun noun i c) = (if j = i then hash_id noun else GetEnemyNoun j c)"
  by (auto simp: GetEnemyNoun_def SetEnemyNoun_def word_unat_eq_iff)

lemma chain_of_level: "Level_Load X F d name l = (ok, l') \<Longrightarrow> level_ok l \<Longrightarrow> level_ok l'"
  by (rule Level_Load_ok)

lemma set_enemies_ok:
  assumes "chain_ok c" and "set_enemies known cf c = Some c'"
  shows "chain_ok c'"
proof -
  have "chain_ok (fold (\<lambda>(i, name). SetEnemyNoun name (of_nat i)) es c)" for es :: "(nat \<times> string) list"
    using assms(1) by (induction es arbitrary: c) (auto simp: chain_ok_steps)
  then show ?thesis using assms(2) by (auto simp: set_enemies_def split: if_splits)
qed

lemma set_enemies_values:
  assumes "chain_ok c" and "set_enemies known cf c = Some c'" and "i < 3"
  shows "GetEnemyNoun (of_nat i) c' = hash_id (dc_nounName (GetMinion cf i))"
    "GetEnemyNoun (of_nat (i + 3)) c' = hash_id (dc_nounName (GetSpecial cf i))"
proof -
  have l: "length (mEnemyNouns c) = 6" using assms(1) by (simp add: chain_ok_def)
  have k: "length (mEnemyNouns (SetEnemyNoun n j c)) = length (mEnemyNouns c)" for n j c
    by (simp add: SetEnemyNoun_def)
  have c': "c' = fold (\<lambda>(i, name). SetEnemyNoun name (of_nat i)) (enemies_of cf) c"
    using assms(2) by (auto simp: set_enemies_def split: if_splits)
  have i: "i = 0 \<or> i = Suc 0 \<or> i = Suc (Suc 0)" using assms(3) by auto
  show "GetEnemyNoun (of_nat i) c' = hash_id (dc_nounName (GetMinion cf i))"
    "GetEnemyNoun (of_nat (i + 3)) c' = hash_id (dc_nounName (GetSpecial cf i))"
    using i by (auto simp: c' enemies_of_def upt_rec enemy_set k l)
qed

lemma LoadLevel_cases:
  assumes "LoadLevel X F d known g = Some (ok, g')" and "chain_ok (g_chain g)"
  shows "GetId g' = GetId g \<and> chain_ok (g_chain g') \<and> (if ok then g_levelLoaded g' else g' = g)"
proof (cases "g_levelLoaded g")
  case True
  then show ?thesis using assms by (auto simp: LoadLevel_def)
next
  case False
  obtain name where n: "GetLevelName (g_chain g) = Some name" using assms False by (auto simp: LoadLevel_def split: bind_splits)
  obtain loaded l where l: "Level_Load X F d name (g_level g) = (loaded, l)" by fastforce
  show ?thesis
  proof (cases loaded)
    case True
    define points where "points = g_spawnpoints g @ spawnpoints_in (name @ ''_design.Markerset'') l"
    obtain ch where c: "set_enemies known (if mCompletedLevel (g_chain g) then mConfig l else mFirstTimeConfig l) (g_chain g) = Some ch"
      using assms(1) False n l True by (auto simp: LoadLevel_def Let_def simp del: if_split split: bind_splits)
    have "ok" "g' = g\<lparr>g_level := l, g_levelLoaded := True, g_chain := ch, g_spawnpoints :=
        if points = [] then spawnpoints_in (name @ ''_design_spawners.Markerset'') l else points\<rparr>"
      using assms(1) False n l True c by (auto simp: LoadLevel_def Let_def points_def)
    then show ?thesis using set_enemies_ok [OF assms(2) c] by (simp add: GetId_def)
  next
    case f: False
    then have "l = g_level g" using Level_Load_failed l by simp
    then have ok: "\<not> ok" and g': "g' = g\<lparr>g_levelLoaded := False\<rparr>"
      using assms(1) False n l f by (auto simp: LoadLevel_def)
    have "g' = g" unfolding g' using False by (cases g) simp
    with ok show ?thesis using assms(2) by simp
  qed
qed

lemma LoadLevel_id: "LoadLevel X F d known g = Some (ok, g') \<Longrightarrow> GetId g' = GetId g \<and> g_info g' = g_info g \<and> g_server g' = g_server g"
  by (auto simp: LoadLevel_def Let_def GetId_def split: if_splits bind_splits prod.splits)

text \<open>A level that is loaded is not loaded again.\<close>

lemma LoadLevel_once: "g_levelLoaded g \<Longrightarrow> LoadLevel X F d known g = Some (True, g)"
  by (simp add: LoadLevel_def)

end
