(* ===== verification/Requests.thy ===== *)
theory Requests
  imports Games BlazeRead TDFTerminates
begin

text \<open>
  Requests of the Blaze clients, \<open>source/Blaze/Client.{h,cpp}\<close>: the state that the components work on,
  the frames of the messages, replies and notifications.  A handler is a function from states to
  states; \<open>None\<close> is an exception that nothing catches or undefined behaviour (a member that is not
  there, a null pointer).  What one read of the socket sends is kept as a list of buffers.
\<close>

subsection \<open>State\<close>

record client =
  cl_id :: u32
  cl_user :: "nat option"
  cl_data :: ClientData
  cl_document :: jval
  cl_read :: databuffer
  cl_writes :: "databuffer list"

text \<open>\<open>sv_user_game\<close> is the member \<open>mGame\<close> of the user objects: the place of a game object.\<close>

record server =
  sv_sessions :: sessions
  sv_rooms :: rooms
  sv_games :: games
  sv_user_game :: "nat \<Rightarrow> nat option"
  sv_client :: client

text \<open>
  What the code takes from outside: the JSON library, the environment of the sessions, the byte
  order, the known nouns, the user objects that are gone when a room is written, the clocks, the
  addresses of the other servers and what uninitialised memory holds.
\<close>

record services =
  sc_json :: jsonlib
  sc_env :: environment
  sc_host :: endian
  sc_known :: "u32 \<Rightarrow> bool"
  sc_gone :: "nat \<Rightarrow> bool"
  sc_now :: u64
  sc_millis :: u64
  sc_blaze :: "string \<times> u16"
  sc_pss :: "string \<times> u16"
  sc_telemetry :: "string \<times> u16"
  sc_tick :: "string \<times> u16"
  sc_qos :: "string \<times> u16"
  sc_junk_id :: u32
  sc_junk :: "u32 list"
  sc_userdata :: UserData
  sc_listid :: ListIdentification
  sc_listinfo :: ListInfo
  sc_memberid :: i64
  sc_request :: CreateGameRequest
  sc_status :: PlayerConnectionStatus

record request =
  rq_type :: u32
  rq_id :: u32
  rq_length :: u16
  rq_component :: u16
  rq_command :: u16
  rq_error :: u16

type_synonym handler = "server \<Rightarrow> server option"

abbreviation on_client :: "(client \<Rightarrow> client) \<Rightarrow> server \<Rightarrow> server" where
  "on_client f s \<equiv> s\<lparr>sv_client := f (sv_client s)\<rparr>"

abbreviation the_user :: "server \<Rightarrow> nat \<Rightarrow> User" where
  "the_user s a \<equiv> users (sv_sessions s) ! a"

definition get_user :: "server \<Rightarrow> nat option" where "get_user s = cl_user (sv_client s)"

definition set_user :: "nat option \<Rightarrow> server \<Rightarrow> server" where
  "set_user u s = on_client (\<lambda>c. c\<lparr>cl_user := u\<rparr>) s"

definition set_game :: "nat \<Rightarrow> nat option \<Rightarrow> server \<Rightarrow> server" where
  "set_game a g s = s\<lparr>sv_user_game := (sv_user_game s)(a := g)\<rparr>"

definition user_id :: "server \<Rightarrow> nat \<Rightarrow> u64" where "user_id s a = account_id (mAccount (the_user s a))"

definition user_name :: "server \<Rightarrow> nat \<Rightarrow> string" where "user_name s a = mName (the_user s a)"

definition with_sessions :: "(sessions \<Rightarrow> sessions) \<Rightarrow> server \<Rightarrow> server" where
  "with_sessions f s = s\<lparr>sv_sessions := f (sv_sessions s)\<rparr>"

text \<open>The document of the request: \<open>request[...]\<close>.\<close>

definition document_of :: "server \<Rightarrow> jval" where "document_of s = cl_document (sv_client s)"

definition arg_uint :: "services \<Rightarrow> server \<Rightarrow> string \<Rightarrow> u32 option" where
  "arg_uint S s k = get_uint (sc_json S) (document_of s) k"

definition arg_uint64 :: "services \<Rightarrow> server \<Rightarrow> string \<Rightarrow> u64 option" where
  "arg_uint64 S s k = get_uint64 (sc_json S) (document_of s) k"

definition arg_int64 :: "services \<Rightarrow> server \<Rightarrow> string \<Rightarrow> i64 option" where
  "arg_int64 S s k = get_int64 (sc_json S) (document_of s) k"

definition arg_string :: "services \<Rightarrow> server \<Rightarrow> string \<Rightarrow> string option" where
  "arg_string S s k = get_string (sc_json S) (document_of s) k"

subsection \<open>Frames\<close>

definition M_Reply :: u32 where "M_Reply = 1"
definition M_Notification :: u32 where "M_Notification = 2"
definition M_ErrorReply :: u32 where "M_ErrorReply = 3"

definition message_word :: "u32 \<Rightarrow> u32 \<Rightarrow> u32" where
  "message_word t i = push_bit 28 t OR (i AND 0xFFFFF)"

definition frame :: "endian \<Rightarrow> u32 \<Rightarrow> u32 \<Rightarrow> u16 \<Rightarrow> u16 \<Rightarrow> u16 \<Rightarrow> databuffer \<Rightarrow> databuffer" where
  "frame h t i component command err b =
     (let w = write_u32_be h (message_word t i) (write_u16_be h err (write_u16_be h command
            (write_u16_be h component (write_u16_be h (of_nat (mSize b)) db_empty))))
      in if mSize b > 0 then db_insert b w else w)"

definition Client_send :: "services \<Rightarrow> u32 \<Rightarrow> u32 \<Rightarrow> u16 \<Rightarrow> u16 \<Rightarrow> u16 \<Rightarrow> databuffer \<Rightarrow> server \<Rightarrow> server" where
  "Client_send S t i component command err b =
     on_client (\<lambda>c. c\<lparr>cl_writes := cl_writes c @ [frame (sc_host S) t i component command err b]\<rparr>)"

definition error_word :: "u32 \<Rightarrow> u16" where "error_word e = ucast (drop_bit 16 e)"

definition packet_bytes :: "services \<Rightarrow> (packet \<Rightarrow> packet option) list \<Rightarrow> databuffer option" where
  "packet_bytes S fs = do { p \<leftarrow> run fs Packet_new; Packet_Write (sc_json S) p db_empty }"

definition notify :: "services \<Rightarrow> u16 \<Rightarrow> u16 \<Rightarrow> (packet \<Rightarrow> packet option) list \<Rightarrow> handler" where
  "notify S component command fs s = do {
     b \<leftarrow> packet_bytes S fs;
     Some (Client_send S M_Notification 0 component command (error_word 0) b s)
   }"

definition reply_type :: "u32 \<Rightarrow> u32" where "reply_type e = (if e \<noteq> 0 then M_ErrorReply else M_Reply)"

definition reply_empty :: "services \<Rightarrow> request \<Rightarrow> u32 \<Rightarrow> handler" where
  "reply_empty S q e s =
     Some (Client_send S (reply_type e) (rq_id q) (rq_component q) (rq_command q) (error_word e) db_empty s)"

definition reply :: "services \<Rightarrow> request \<Rightarrow> (packet \<Rightarrow> packet option) list \<Rightarrow> handler" where
  "reply S q fs s = do {
     b \<leftarrow> packet_bytes S fs;
     Some (Client_send S (reply_type 0) (rq_id q) (rq_component q) (rq_command q) (error_word 0) b s)
   }"

definition read_header :: "endian \<Rightarrow> databuffer \<Rightarrow> (request \<times> databuffer) option" where
  "read_header h b = do {
     (len, b) \<leftarrow> read_u16_be h b;
     (component, b) \<leftarrow> read_u16_be h b;
     (command, b) \<leftarrow> read_u16_be h b;
     (err, b) \<leftarrow> read_u16_be h b;
     (message, b) \<leftarrow> read_u32_be h b;
     Some (\<lparr>rq_type = drop_bit 28 message, rq_id = message AND 0xFFFFF, rq_length = len, rq_component = component,
            rq_command = command, rq_error = err\<rparr>, b)
   }"

subsection \<open>What a frame holds\<close>

definition frame_header :: "nat \<Rightarrow> u32 \<Rightarrow> u32 \<Rightarrow> u16 \<Rightarrow> u16 \<Rightarrow> u16 \<Rightarrow> bytes" where
  "frame_header n t i component command err =
     bytes_be 2 (of_nat n :: u16) @ bytes_be 2 component @ bytes_be 2 command @ bytes_be 2 err @ bytes_be 4 (message_word t i)"

lemma length_frame_header [simp]: "length (frame_header n t i component command err) = 12"
  by (simp add: frame_header_def)

lemma frame_content:
  assumes "ready b"
  shows "content (frame h t i component command err b) = frame_header (mSize b) t i component command err @ content b"
    and "mSize (frame h t i component command err b) = 12 + mSize b"
    and "mSize (frame h t i component command err b) \<le> length (mBuffer (frame h t i component command err b))"
proof -
  define w where "w = write_u32_be h (message_word t i) (write_u16_be h err (write_u16_be h command
            (write_u16_be h component (write_u16_be h (of_nat (mSize b)) db_empty))))"
  have e: "ready db_empty" "content db_empty = []" by (simp_all add: ready_def content_def db_empty_def)
  have w: "ready w" "content w = frame_header (mSize b) t i component command err"
    unfolding w_def write_u16_be_eq write_u32_be_eq frame_header_def
    by (simp_all add: impl_write_ready impl_write_content e)
  have "mSize w \<le> length (mBuffer w)" "length (content w) = mSize w" using w(1) unfolding ready_def content_def by simp_all
  then have sz: "mSize w = 12" "mSize w \<le> length (mBuffer w)" using w(2) by (simp_all add: frame_header_def)
  have b: "mSize b \<le> length (mBuffer b)" using assms by (simp add: ready_def)
  have f: "frame h t i component command err b = (if mSize b > 0 then db_insert b w else w)"
    by (simp add: frame_def w_def Let_def)
  show "content (frame h t i component command err b) = frame_header (mSize b) t i component command err @ content b"
    using w(2) sz b by (auto simp: f db_insert_def content_def min_def)
  show "mSize (frame h t i component command err b) = 12 + mSize b"
    "mSize (frame h t i component command err b) \<le> length (mBuffer (frame h t i component command err b))"
    using sz b by (auto simp: f db_insert_def min_def)
qed

lemma message_word_parts:
  assumes "t < 16"
  shows "drop_bit 28 (message_word t i) = t" and "message_word t i AND 0xFFFFF = i AND 0xFFFFF"
proof -
  have low: "(x :: u32) AND 0xFFFFF = take_bit 20 x" for x
    by (simp add: take_bit_eq_mask mask_eq_exp_minus_1)
  have t: "take_bit 4 t = t" using assms less_2p_iff_take_bit [of 4 t] by simp
  then have nt': "bit t n \<Longrightarrow> n < 4" for n by (metis bit_take_bit_iff)
  show "drop_bit 28 (message_word t i) = t"
    unfolding message_word_def low by (rule bit_word_eqI) (auto simp: bit_simps dest: nt' )
  show "message_word t i AND 0xFFFFF = i AND 0xFFFFF"
    unfolding message_word_def low by (rule bit_word_eqI) (auto simp: bit_simps)
qed

subsection \<open>What a handler may send\<close>

text \<open>
  A message is a notification or an answer to the request.  \<open>answered S q k s r\<close>: if the handler
  ends, in \<open>r\<close>, then it has put messages behind those of the state \<open>s\<close> it began in, with at most
  \<open>k\<close> answers among them, and has kept the number, the document and the read buffer of the client.
\<close>

datatype message = Notice u16 u16 databuffer | Answer u32 databuffer

fun frame_of :: "services \<Rightarrow> request \<Rightarrow> message \<Rightarrow> databuffer" where
  "frame_of S q (Notice component command b) = frame (sc_host S) M_Notification 0 component command (error_word 0) b"
| "frame_of S q (Answer e b) = frame (sc_host S) (reply_type e) (rq_id q) (rq_component q) (rq_command q) (error_word e) b"

fun is_answer :: "message \<Rightarrow> bool" where
  "is_answer (Answer e b) = True"
| "is_answer (Notice component command b) = False"

definition kept :: "server \<Rightarrow> server \<Rightarrow> bool" where
  "kept s t \<longleftrightarrow> cl_id (sv_client t) = cl_id (sv_client s) \<and> cl_document (sv_client t) = cl_document (sv_client s) \<and>
     cl_read (sv_client t) = cl_read (sv_client s)"

definition answered :: "services \<Rightarrow> request \<Rightarrow> nat \<Rightarrow> server \<Rightarrow> server option \<Rightarrow> bool" where
  "answered S q k s r \<longleftrightarrow> (\<forall>t. r = Some t \<longrightarrow> kept s t \<and>
     (\<exists>ms. cl_writes (sv_client t) = cl_writes (sv_client s) @ map (frame_of S q) ms \<and>
        length (filter is_answer ms) \<le> k))"

named_theorems answer_rules

text \<open>Steps that touch nothing of the client but the user and the data.\<close>

definition silent :: "server \<Rightarrow> server \<Rightarrow> bool" where
  "silent s t \<longleftrightarrow> kept s t \<and> cl_writes (sv_client t) = cl_writes (sv_client s)"

lemma silent_rules [answer_rules]:
  "silent s s"
  "silent s t \<Longrightarrow> silent s (set_user u t)"
  "silent s t \<Longrightarrow> silent s (set_game a g t)"
  "silent s t \<Longrightarrow> silent s (with_sessions f t)"
  "silent s t \<Longrightarrow> silent s (t\<lparr>sv_games := G\<rparr>)"
  "silent s t \<Longrightarrow> silent s (t\<lparr>sv_rooms := R\<rparr>)"
  "silent s t \<Longrightarrow> silent s (t\<lparr>sv_sessions := X\<rparr>)"
  "silent s t \<Longrightarrow> silent s (t\<lparr>sv_client := (sv_client t)\<lparr>cl_data := d\<rparr>\<rparr>)"
  by (simp_all add: silent_def kept_def set_user_def set_game_def with_sessions_def)

lemma answered_after: "silent s t \<Longrightarrow> answered S q k t r \<Longrightarrow> answered S q k s r"
  unfolding silent_def answered_def kept_def by (cases r) auto

lemma answered_None [answer_rules]: "answered S q k s None"
  by (simp add: answered_def)

lemma answered_done [answer_rules]: "silent s t \<Longrightarrow> answered S q k s (Some t)"
  by (simp add: answered_def silent_def)

lemma answered_mono: "answered S q j s r \<Longrightarrow> j \<le> k \<Longrightarrow> answered S q k s r"
  unfolding answered_def by (cases r) (simp, fastforce intro: le_trans)

lemma answered_then:
  assumes "answered S q j s r" and "\<And>t. answered S q k t (g t)"
  shows "answered S q (j + k) s (Option.bind r g)"
  unfolding answered_def
proof (intro allI impI)
  fix u assume "Option.bind r g = Some u"
  then obtain t where t: "r = Some t" "g t = Some u" by (cases r) auto
  obtain ms where ms: "kept s t" "cl_writes (sv_client t) = cl_writes (sv_client s) @ map (frame_of S q) ms"
    "length (filter is_answer ms) \<le> j"
    using assms(1) t(1) by (auto simp: answered_def)
  obtain ns where ns: "kept t u" "cl_writes (sv_client u) = cl_writes (sv_client t) @ map (frame_of S q) ns"
    "length (filter is_answer ns) \<le> k"
    using assms(2) [of t] t(2) by (auto simp: answered_def)
  have "kept s u" using ms(1) ns(1) by (simp add: kept_def)
  moreover have "cl_writes (sv_client u) = cl_writes (sv_client s) @ map (frame_of S q) (ms @ ns)" using ms(2) ns(2) by simp
  moreover have "length (filter is_answer (ms @ ns)) \<le> j + k" using ms(3) ns(3) by simp
  ultimately show "kept s u \<and> (\<exists>ms. cl_writes (sv_client u) = cl_writes (sv_client s) @ map (frame_of S q) ms \<and>
      length (filter is_answer ms) \<le> j + k)" by blast
qed

lemma answered_quiet:
  "answered S q 0 s r \<Longrightarrow> (\<And>t. answered S q k t (g t)) \<Longrightarrow> answered S q k s (Option.bind r g)"
  using answered_then [of S q 0 s r k g] by simp

text \<open>A step that sends the messages \<open>ms\<close>.\<close>

lemma answeredI:
  assumes "\<And>t. r = Some t \<Longrightarrow> kept s t \<and> cl_writes (sv_client t) = cl_writes (sv_client s) @ map (frame_of S q) [m]"
    and "is_answer m \<Longrightarrow> 0 < k" and "\<And>t. r = Some t \<Longrightarrow> True"
  shows "answered S q k s r"
  using assms unfolding answered_def by (auto intro!: exI [of _ "[m]"])

lemma answered_reply: "answered S q (Suc 0) s (reply S q fs s)"
proof (cases "packet_bytes S fs")
  case (Some b)
  then show ?thesis
    by (intro answeredI [where m = "Answer 0 b"]) (auto simp: reply_def Client_send_def kept_def)
qed (simp add: reply_def answered_None)

lemma answered_empty: "answered S q (Suc 0) s (reply_empty S q e s)"
  by (intro answeredI [where m = "Answer e db_empty"]) (auto simp: reply_empty_def Client_send_def kept_def)

lemma answered_notify: "answered S q k s (notify S component command fs s)"
proof (cases "packet_bytes S fs")
  case (Some b)
  then show ?thesis
    by (intro answeredI [where m = "Notice component command b"]) (auto simp: notify_def Client_send_def kept_def)
qed (simp add: notify_def answered_None)

lemma answered_sends [answer_rules]:
  "silent s t \<Longrightarrow> answered S q (Suc 0) s (reply S q fs t)"
  "silent s t \<Longrightarrow> answered S q (Suc 0) s (reply_empty S q e t)"
  "silent s t \<Longrightarrow> answered S q k s (notify S component command fs t)"
  by (erule answered_after, rule answered_reply answered_empty answered_notify)+

lemma answered_sends_then [answer_rules]:
  "silent s t \<Longrightarrow> (\<And>u. answered S q 0 u (g u)) \<Longrightarrow> answered S q (Suc 0) s (Option.bind (reply S q fs t) g)"
  "silent s t \<Longrightarrow> (\<And>u. answered S q 0 u (g u)) \<Longrightarrow> answered S q (Suc 0) s (Option.bind (reply_empty S q e t) g)"
  "silent s t \<Longrightarrow> (\<And>u. answered S q k u (g u)) \<Longrightarrow> answered S q k s (Option.bind (notify S component command fs t) g)"
proof -
  show "answered S q (Suc 0) s (Option.bind (reply S q fs t) g)" if "silent s t" "\<And>u. answered S q 0 u (g u)"
    using answered_then [OF answered_sends(1) [OF that(1)] that(2)] by simp
  show "answered S q (Suc 0) s (Option.bind (reply_empty S q e t) g)" if "silent s t" "\<And>u. answered S q 0 u (g u)"
    using answered_then [OF answered_sends(2) [OF that(1)] that(2)] by simp
  show "answered S q k s (Option.bind (notify S component command fs t) g)" if "silent s t" "\<And>u. answered S q k u (g u)"
    by (rule answered_quiet [OF answered_sends(3) [OF that(1)] that(2)])
qed

text \<open>Handlers of notifications, alone and followed by more.\<close>

lemma answered_follow: "(\<And>s. answered S q 0 s (f s)) \<Longrightarrow> silent s t \<Longrightarrow> answered S q k s (f t)"
  by (erule answered_after, rule answered_mono [where j = 0]) simp_all

lemma answered_follow_then:
  "(\<And>s. answered S q 0 s (f s)) \<Longrightarrow> silent s t \<Longrightarrow> (\<And>u. answered S q k u (g u)) \<Longrightarrow> answered S q k s (Option.bind (f t) g)"
  by (rule answered_quiet [OF answered_follow])

lemma answered_value: "(\<And>x. answered S q k s (g x)) \<Longrightarrow> answered S q k s (Option.bind v g)"
  by (cases v) (simp_all add: answered_def)

lemma answered_map [answer_rules]: "(\<And>x. answered S q k s (Some (f x))) \<Longrightarrow> answered S q k s (map_option f v)"
  by (cases v) (simp_all add: answered_def)

lemmas answered_values [answer_rules] =
  answered_value [where 'a = u32] answered_value [where 'a = u64] answered_value [where 'a = string]
  answered_value [where 'a = jval] answered_value [where 'a = "jval list"]
  answered_value [where 'a = UserIdentification] answered_value [where 'a = IpPairAddress]
  answered_value [where 'a = PresenceInfo]

lemma answered_if [answer_rules]:
  "(c \<Longrightarrow> answered S q k s r) \<Longrightarrow> (\<not> c \<Longrightarrow> answered S q k s t) \<Longrightarrow> answered S q k s (if c then r else t)"
  by simp

lemma answered_option [answer_rules]:
  "answered S q k s r \<Longrightarrow> (\<And>x. answered S q k s (g x)) \<Longrightarrow> answered S q k s (case v of None \<Rightarrow> r | Some x \<Rightarrow> g x)"
  by (cases v) simp_all

lemma answered_pair [answer_rules]:
  "(\<And>x y. answered S q k s (g x y)) \<Longrightarrow> answered S q k s (case v of (x, y) \<Rightarrow> g x y)"
  by (cases v) simp_all

text \<open>The table of a component: every handler in it gives at most one answer.\<close>

definition well_answered :: "services \<Rightarrow> request \<Rightarrow> handler option \<Rightarrow> bool" where
  "well_answered S q h \<longleftrightarrow> (\<forall>f s. h = Some f \<longrightarrow> answered S q (Suc 0) s (f s))"

lemma well_answered_table:
  assumes "\<forall>(c, f) \<in> set fs. \<forall>s. answered S q (Suc 0) s (f s)"
  shows "well_answered S q (map_of fs c)"
  using assms unfolding well_answered_def by (auto dest: map_of_SomeD)

end
