(* ===== verification/LoginRequests.thy ===== *)
theory LoginRequests
  imports Requests
begin

text \<open>
  The components that let a client in: \<open>source/Blaze/Component/{UserSession,Auth,Redirector}Component.cpp\<close>.
  The values of the enumerations are written as numbers, with the name of the enumerator beside them
  where it is used.
\<close>

subsection \<open>User sessions (component 0x7802)\<close>

definition UserSession_Id :: u16 where "UserSession_Id = 0x7802"

definition NotifyUserSessionExtendedDataUpdate :: "services \<Rightarrow> u64 \<Rightarrow> UserSessionExtendedData \<Rightarrow> handler" where
  "NotifyUserSessionExtendedDataUpdate S userId extendedData = notify S UserSession_Id 0x01
     [within (push_struct (sc_json S) ''DATA'') [UserSessionExtendedData_Write (sc_json S) extendedData],
      put_integer (sc_json S) ''USID'' userId]"

definition NotifyUserAdded :: "services \<Rightarrow> nat \<Rightarrow> handler" where
  "NotifyUserAdded S a s =
     (let identification = \<lparr>UserIdentification_name = user_name s a, UserIdentification_id = user_id s a,
            UserIdentification_localization = ClientData_lang (cl_data (sv_client s))\<rparr>
      in notify S UserSession_Id 0x02
        [within (push_struct (sc_json S) ''DATA'') [UserSessionExtendedData_Write (sc_json S) (mExtendedData (the_user s a))],
         within (push_struct (sc_json S) ''USER'') [UserIdentification_Write (sc_json S) identification]] s)"

definition NotifyUserUpdated :: "services \<Rightarrow> nat \<Rightarrow> u32 \<Rightarrow> handler" where
  "NotifyUserUpdated S a state s = notify S UserSession_Id 0x05
     [put_integer (sc_json S) ''FLGS'' (scast state), put_integer (sc_json S) ''ID'' (user_id s a)] s"

definition UserSession_LookupUser :: "services \<Rightarrow> request \<Rightarrow> handler" where
  "UserSession_LookupUser S q s =
     (case get_user s of
        None \<Rightarrow> Some s
      | Some a \<Rightarrow>
          Option.bind (UserIdentification_Read (sc_json S) (document_of s) (UserData_user (sc_userdata S))) (\<lambda>identification.
            let data = (sc_userdata S)\<lparr>UserData_user := identification, UserData_statusFlags := 1,
                  UserData_extendedData := if UserIdentification_name identification = ''test''
                    then mExtendedData (the_user s a) else UserData_extendedData (sc_userdata S)\<rparr>
            in reply S q [UserData_Write (sc_json S) data] s))"

definition set_address :: "IpPairAddress \<Rightarrow> User \<Rightarrow> User" where
  "set_address ip u = u\<lparr>mExtendedData := (mExtendedData u)\<lparr>UserSessionExtendedData_ip := ip\<rparr>\<rparr>"

definition UserSession_UpdateNetworkInfo :: "services \<Rightarrow> request \<Rightarrow> handler" where
  "UserSession_UpdateNetworkInfo S q s =
     (case get_user s of
        None \<Rightarrow> Some s
      | Some a \<Rightarrow> do {
          address \<leftarrow> subscript (sc_json S) (document_of s) ''ADDR'';
          v \<leftarrow> subscript (sc_json S) address ''VALU'';
          Option.bind (IpPairAddress_Read (sc_json S) v (UserSessionExtendedData_ip (mExtendedData (the_user s a)))) (\<lambda>ip.
            let s = with_sessions (update_user a (set_address ip)) s
            in do {
              s \<leftarrow> reply_empty S q 0 s;
              NotifyUserSessionExtendedDataUpdate S (user_id s a) (mExtendedData (the_user s a)) s
            })
        })"

text \<open>What is read into the presence is not used.\<close>

definition UserSession_UpdateUserSessionClientData :: "services \<Rightarrow> request \<Rightarrow> handler" where
  "UserSession_UpdateUserSessionClientData S q s = do {
     v \<leftarrow> subscript (sc_json S) (document_of s) ''CVAR'';
     Option.bind (PresenceInfo_Read (sc_json S) v
       \<lparr>PresenceInfo_state = 0, PresenceInfo_level = 0, PresenceInfo_playgroupId = 0, PresenceInfo_extra = 0\<rparr>) (\<lambda>presence.
       reply S q [within (push_integer_list (sc_json S) ''CVAR'') [put_integer (sc_json S) [] 1]] s)
   }"

text \<open>\<open>ParsePacket\<close> of a component: \<open>None\<close> stands for the result false.\<close>

definition UserSession_ParsePacket :: "services \<Rightarrow> request \<Rightarrow> handler option" where
  "UserSession_ParsePacket S q = map_of
     [(0x0C, UserSession_LookupUser S q),
      (0x14, UserSession_UpdateNetworkInfo S q),
      (0x19, UserSession_UpdateUserSessionClientData S q)] (rq_command q)"

subsection \<open>Authentication (component 0x01)\<close>

definition Auth_Id :: u16 where "Auth_Id = 0x01"

definition AUTH_ERR_INVALID_USER :: u32 where "AUTH_ERR_INVALID_USER = 0xB0001"

definition put_values :: "services \<Rightarrow> (string \<times> u64) list \<Rightarrow> (packet \<Rightarrow> packet option) list" where
  "put_values S = map (\<lambda>(k, v). put_integer (sc_json S) k v)"

definition put_texts :: "services \<Rightarrow> (string \<times> string) list \<Rightarrow> (packet \<Rightarrow> packet option) list" where
  "put_texts S = map (\<lambda>(k, v). put_string (sc_json S) k v)"

text \<open>The persona of a user; 2 is \<open>PersonaStatus::Active\<close>.\<close>

definition persona_of :: "services \<Rightarrow> server \<Rightarrow> nat \<Rightarrow> PersonaDetails" where
  "persona_of S s a =
     \<lparr>PersonaDetails_name = user_name s a, PersonaDetails_id = user_id s a, PersonaDetails_last = ucast (sc_now S),
      PersonaDetails_status = 2, PersonaDetails_externalReference = 0, PersonaDetails_externalReferenceType = 0\<rparr>"

definition session_of :: "services \<Rightarrow> server \<Rightarrow> nat \<Rightarrow> SessionInfo" where
  "session_of S s a =
     \<lparr>SessionInfo_personaDetails = persona_of S s a, SessionInfo_email = [], SessionInfo_key = ''telemetry_key'',
      SessionInfo_blazeId = user_id s a, SessionInfo_uid = user_id s a, SessionInfo_lastLogin = sc_now S,
      SessionInfo_firstLogin = False\<rparr>"

definition WriteLogin :: "services \<Rightarrow> server \<Rightarrow> nat \<Rightarrow> (packet \<Rightarrow> packet option) list" where
  "WriteLogin S s a =
     [put_integer (sc_json S) ''NTOS'' 0,
      put_string (sc_json S) ''PCTK'' ''unknown_data'',
      within (push_list (sc_json S) ''PLST'' T_Struct False)
        [within (push_struct (sc_json S) []) [PersonaDetails_Write (sc_json S) (persona_of S s a)]],
      put_string (sc_json S) ''PRIV'' [],
      put_string (sc_json S) ''SKEY'' ''telemetry_key'',
      put_integer (sc_json S) ''SPAM'' 0,
      put_string (sc_json S) ''THST'' [],
      put_string (sc_json S) ''TURI'' [],
      put_integer (sc_json S) ''UID'' (user_id s a)]"

definition WriteFullLogin :: "services \<Rightarrow> server \<Rightarrow> nat \<Rightarrow> (packet \<Rightarrow> packet option) list" where
  "WriteFullLogin S s a =
     [put_integer (sc_json S) ''AGUP'' 0,
      put_integer (sc_json S) ''NTOS'' 0,
      put_string (sc_json S) ''PCTK'' [],
      put_string (sc_json S) ''PRIV'' [],
      within (push_struct (sc_json S) ''SESS'') [SessionInfo_Write (sc_json S) (session_of S s a)],
      put_integer (sc_json S) ''SPAM'' 0,
      put_string (sc_json S) ''THST'' [],
      put_string (sc_json S) ''TURI'' []]"

definition WriteTOSInfo :: "services \<Rightarrow> (packet \<Rightarrow> packet option) list" where
  "WriteTOSInfo S =
     put_values S [(''EAMC'', 0), (''PMC'', 0)] @ put_texts S [(''PRIV'', []), (''THST'', []), (''TURI'', [])]"

definition write_conditions :: "services \<Rightarrow> string \<Rightarrow> string \<Rightarrow> (packet \<Rightarrow> packet option) list" where
  "write_conditions S version conditions =
     [put_string (sc_json S) ''LDVC'' version,
      put_integer (sc_json S) ''TCOL'' (of_nat (length conditions)),
      put_string (sc_json S) ''TCOT'' conditions]"

definition WriteTermsAndConditions :: "services \<Rightarrow> (packet \<Rightarrow> packet option) list" where
  "WriteTermsAndConditions S = write_conditions S ''Something'' ''Hello this is something''"

definition WritePrivacyPolicy :: "services \<Rightarrow> (packet \<Rightarrow> packet option) list" where
  "WritePrivacyPolicy S = write_conditions S ''Something2'' ''Hello this is stuff about privacy''"

text \<open>3 is \<open>SessionState::Authenticated\<close>.\<close>

definition Auth_GetAuthToken :: "services \<Rightarrow> request \<Rightarrow> handler" where
  "Auth_GetAuthToken S q s =
     (case get_user s of
        None \<Rightarrow> Some s
      | Some a \<Rightarrow>
          (let s = with_sessions (update_user a (mAuthToken_update (\<lambda>_. to_string_i64 (user_id s a)))) s
           in do {
             s \<leftarrow> reply S q [put_string (sc_json S) ''AUTH'' (mAuthToken (the_user s a))] s;
             NotifyUserUpdated S a 3 s
           }))"

text \<open>The data of a session; every login appends to the two lists again.\<close>

definition session_data :: "User \<Rightarrow> User" where
  "session_data u = u\<lparr>mExtendedData := (mExtendedData u)
     \<lparr>UserSessionExtendedData_country := ''US'', UserSessionExtendedData_hardwareFlags := 1,
      UserSessionExtendedData_userAttributes := 3,
      UserSessionExtendedData_blazeObjectIdList :=
        UserSessionExtendedData_blazeObjectIdList (mExtendedData u) @ [(4, 1, 0), (5, 1, 0)],
      UserSessionExtendedData_latencyList :=
        UserSessionExtendedData_latencyList (mExtendedData u) @ replicate 5 1161889797,
      UserSessionExtendedData_qos := \<lparr>NetworkQosData_dbps = 128000, NetworkQosData_type = 0, NetworkQosData_ubps = 2\<rparr>\<rparr>\<rparr>"

definition Auth_Login :: "services \<Rightarrow> request \<Rightarrow> handler" where
  "Auth_Login S q s = do {
     dvid \<leftarrow> arg_uint64 S s ''DVID'';
     username \<leftarrow> arg_string S s ''MAIL'';
     password \<leftarrow> arg_string S s ''PASS'';
     token \<leftarrow> arg_string S s ''TOKN'';
     tokenType \<leftarrow> arg_uint S s ''TYPE'';
     case Login (sc_env S) (sc_junk_id S) (sc_junk S) username password (sv_sessions s) of
       ((a, success, alreadyLoggedIn), sessions) \<Rightarrow>
         (let s = s\<lparr>sv_sessions := sessions\<rparr>
          in if \<not> success \<and> \<not> alreadyLoggedIn then reply_empty S q AUTH_ERR_INVALID_USER s
             else (let s = set_user (Some a) (with_sessions (update_user a session_data) s)
                   in reply S q (WriteLogin S s a) s))
   }"

definition Auth_SilentLogin :: "services \<Rightarrow> request \<Rightarrow> handler" where
  "Auth_SilentLogin S q s = do {
     authToken \<leftarrow> arg_string S s ''AUTH'';
     tokenType \<leftarrow> arg_uint S s ''TYPE'';
     personaId \<leftarrow> arg_int64 S s ''PID'';
     case GetUserByAuthToken authToken (sv_sessions s) of
       None \<Rightarrow> reply_empty S q AUTH_ERR_INVALID_USER s
     | Some a \<Rightarrow> (let s = set_user (Some a) s in reply S q (WriteFullLogin S s a) s)
   }"

definition Auth_ExpressLogin :: "services \<Rightarrow> request \<Rightarrow> handler" where
  "Auth_ExpressLogin S q s = do {
     username \<leftarrow> arg_string S s ''MAIL'';
     password \<leftarrow> arg_string S s ''PASS'';
     personaName \<leftarrow> arg_string S s ''PNAM'';
     case GetUserByEmail username (sv_sessions s) of
       None \<Rightarrow> reply_empty S q AUTH_ERR_INVALID_USER s
     | Some a \<Rightarrow> (let s = set_user (Some a) s in reply S q (WriteFullLogin S s a) s)
   }"

text \<open>2 is \<open>SessionState::Connected\<close>.\<close>

definition Auth_LoginPersona :: "services \<Rightarrow> request \<Rightarrow> handler" where
  "Auth_LoginPersona S q s =
     (case get_user s of
        None \<Rightarrow> Some s
      | Some a \<Rightarrow> do {
          s \<leftarrow> reply S q [SessionInfo_Write (sc_json S) (session_of S s a)] s;
          s \<leftarrow> NotifyUserAdded S a s;
          NotifyUserUpdated S a 2 s
        })"

text \<open>Nothing is sent, and the client keeps the user.\<close>

definition Auth_Logout :: "services \<Rightarrow> request \<Rightarrow> handler" where
  "Auth_Logout S q s =
     (case get_user s of
        None \<Rightarrow> Some s
      | Some a \<Rightarrow> map_option (\<lambda>x. s\<lparr>sv_sessions := x\<rparr>)
          (Logout (env_xml (sc_env S)) (env_floats (sc_env S)) a (sv_sessions s)))"

definition Auth_AcceptTOS :: "services \<Rightarrow> request \<Rightarrow> handler" where "Auth_AcceptTOS S q = reply_empty S q 0"

definition Auth_GetTOSInfo :: "services \<Rightarrow> request \<Rightarrow> handler" where "Auth_GetTOSInfo S q = reply S q (WriteTOSInfo S)"

definition Auth_GetTermsAndConditions :: "services \<Rightarrow> request \<Rightarrow> handler" where
  "Auth_GetTermsAndConditions S q = reply S q (WriteTermsAndConditions S)"

definition Auth_GetPrivacyPolicy :: "services \<Rightarrow> request \<Rightarrow> handler" where
  "Auth_GetPrivacyPolicy S q = reply S q (WritePrivacyPolicy S)"

definition Auth_ParsePacket :: "services \<Rightarrow> request \<Rightarrow> handler option" where
  "Auth_ParsePacket S q = map_of
     [(0x24, Auth_GetAuthToken S q),
      (0x28, Auth_Login S q),
      (0x29, Auth_AcceptTOS S q),
      (0x2A, Auth_GetTOSInfo S q),
      (0x2E, Auth_GetTermsAndConditions S q),
      (0x2F, Auth_GetPrivacyPolicy S q),
      (0x32, Auth_SilentLogin S q),
      (0x3C, Auth_ExpressLogin S q),
      (0x46, Auth_Logout S q),
      (0x6E, Auth_LoginPersona S q)] (rq_command q)"

subsection \<open>Redirector (component 0x05)\<close>

definition Redirector_Id :: u16 where "Redirector_Id = 0x05"

definition write_address :: "services \<Rightarrow> string \<times> u16 \<Rightarrow> packet \<Rightarrow> packet option" where
  "write_address S = (\<lambda>(host, port). within (push_union (sc_json S) ''ADDR'' 0)
     [within (push_struct (sc_json S) ''VALU'')
        [put_string (sc_json S) ''HOST'' host,
         put_integer (sc_json S) ''IP'' 0,
         put_integer (sc_json S) ''PORT'' (ucast port)]])"

definition WriteServerInstanceInfo :: "services \<Rightarrow> string \<times> u16 \<Rightarrow> (packet \<Rightarrow> packet option) list" where
  "WriteServerInstanceInfo S address =
     [write_address S address, put_integer (sc_json S) ''SECU'' 1, put_integer (sc_json S) ''XDNS'' 0]"

definition WriteServerAddressInfo :: "services \<Rightarrow> string \<times> u16 \<Rightarrow> (packet \<Rightarrow> packet option) list" where
  "WriteServerAddressInfo S address = [write_address S address, put_integer (sc_json S) ''TYPE'' 1]"

definition Redirector_GetServerInstance :: "services \<Rightarrow> request \<Rightarrow> handler" where
  "Redirector_GetServerInstance S q = reply S q (WriteServerInstanceInfo S (sc_blaze S))"

definition Redirector_ParsePacket :: "services \<Rightarrow> request \<Rightarrow> handler option" where
  "Redirector_ParsePacket S q = map_of [(0x01, Redirector_GetServerInstance S q)] (rq_command q)"

subsection \<open>At most one answer\<close>

lemma notify_sessions:
  "answered S q 0 s (NotifyUserSessionExtendedDataUpdate S i d s)"
  "answered S q 0 s (NotifyUserAdded S a s)" "answered S q 0 s (NotifyUserUpdated S a state s)"
  unfolding NotifyUserSessionExtendedDataUpdate_def NotifyUserAdded_def NotifyUserUpdated_def Let_def
  by (intro answer_rules)+

lemmas notify_sessions_rules [answer_rules] =
  answered_follow [OF notify_sessions(1)] answered_follow [OF notify_sessions(2)] answered_follow [OF notify_sessions(3)]
  answered_follow_then [OF notify_sessions(2)]

lemma UserSession_answers: "well_answered S q (UserSession_ParsePacket S q)"
proof -
  have "answered S q (Suc 0) s (UserSession_LookupUser S q s)"
    "answered S q (Suc 0) s (UserSession_UpdateNetworkInfo S q s)"
    "answered S q (Suc 0) s (UserSession_UpdateUserSessionClientData S q s)" for s
    unfolding UserSession_LookupUser_def UserSession_UpdateNetworkInfo_def UserSession_UpdateUserSessionClientData_def Let_def
    by (intro answer_rules)+
  then show ?thesis unfolding UserSession_ParsePacket_def by (intro well_answered_table) simp
qed

lemma Auth_answers: "well_answered S q (Auth_ParsePacket S q)"
proof -
  have "answered S q (Suc 0) s (Auth_GetAuthToken S q s)" "answered S q (Suc 0) s (Auth_Login S q s)"
    "answered S q (Suc 0) s (Auth_AcceptTOS S q s)" "answered S q (Suc 0) s (Auth_GetTOSInfo S q s)"
    "answered S q (Suc 0) s (Auth_GetTermsAndConditions S q s)" "answered S q (Suc 0) s (Auth_GetPrivacyPolicy S q s)"
    "answered S q (Suc 0) s (Auth_SilentLogin S q s)" "answered S q (Suc 0) s (Auth_ExpressLogin S q s)"
    "answered S q (Suc 0) s (Auth_Logout S q s)" "answered S q (Suc 0) s (Auth_LoginPersona S q s)" for s
    unfolding Auth_GetAuthToken_def Auth_Login_def Auth_AcceptTOS_def Auth_GetTOSInfo_def Auth_GetTermsAndConditions_def
      Auth_GetPrivacyPolicy_def Auth_SilentLogin_def Auth_ExpressLogin_def Auth_Logout_def Auth_LoginPersona_def Let_def
    by (intro answer_rules)+
  then show ?thesis unfolding Auth_ParsePacket_def by (intro well_answered_table) simp
qed

lemma Redirector_answers: "well_answered S q (Redirector_ParsePacket S q)"
  unfolding Redirector_ParsePacket_def
  by (intro well_answered_table) (auto simp: Redirector_GetServerInstance_def intro!: answer_rules)

end
