(* ===== verification/RoomRequests.thy ===== *)
theory RoomRequests
  imports LoginRequests
begin

text \<open>
  The chat rooms: \<open>source/Blaze/Component/RoomsComponent.cpp\<close> (component 0x15).
\<close>

definition Rooms_Id :: u16 where "Rooms_Id = 0x15"

definition ROOMS_ERR_NOT_FOUND :: u32 where "ROOMS_ERR_NOT_FOUND = 0xB0015"
definition ROOMS_ERR_CREATE_UNKNOWN_CATEGORY :: u32 where "ROOMS_ERR_CREATE_UNKNOWN_CATEGORY = 0x190015"

subsection \<open>Notifications\<close>

definition notify_view :: "services \<Rightarrow> u16 \<Rightarrow> u32 \<Rightarrow> handler" where
  "notify_view S command i s =
     (case GetRoomView i (sv_rooms s) of
        None \<Rightarrow> Some s
      | Some v \<Rightarrow> notify S Rooms_Id command [RoomView_WriteTo (sc_json S) (the_view (sv_rooms s) v)] s)"

definition NotifyRoomViewUpdated :: "services \<Rightarrow> u32 \<Rightarrow> handler" where "NotifyRoomViewUpdated S = notify_view S 0x0A"
definition NotifyRoomViewAdded :: "services \<Rightarrow> u32 \<Rightarrow> handler" where "NotifyRoomViewAdded S = notify_view S 0x0B"

definition notify_category :: "services \<Rightarrow> u16 \<Rightarrow> u32 \<Rightarrow> handler" where
  "notify_category S command i s =
     (case GetRoomCategory i (sv_rooms s) of
        None \<Rightarrow> Some s
      | Some c \<Rightarrow> notify S Rooms_Id command
          [RoomCategory_WriteTo (sc_json S) (sv_rooms s) (the_category (sv_rooms s) c)] s)"

definition NotifyRoomCategoryUpdated :: "services \<Rightarrow> u32 \<Rightarrow> handler" where
  "NotifyRoomCategoryUpdated S = notify_category S 0x14"
definition NotifyRoomCategoryAdded :: "services \<Rightarrow> u32 \<Rightarrow> handler" where
  "NotifyRoomCategoryAdded S = notify_category S 0x15"

text \<open>Writing a room erases the members whose objects are gone.\<close>

definition room_writer :: "services \<Rightarrow> nat \<Rightarrow> server \<Rightarrow> packet \<Rightarrow> packet option" where
  "room_writer S r s p = map_option fst (Room_WriteTo (sc_json S) (sc_gone S) r (sv_rooms s) p)"

definition room_written :: "services \<Rightarrow> nat \<Rightarrow> server \<Rightarrow> server" where
  "room_written S r s = s\<lparr>sv_rooms := (sv_rooms s)
     \<lparr>mRooms := registry_update r (\<lambda>x. x\<lparr>rm_users := Room_live (sc_gone S) x\<rparr>) (mRooms (sv_rooms s))\<rparr>\<rparr>"

definition notify_room :: "services \<Rightarrow> u16 \<Rightarrow> u32 \<Rightarrow> handler" where
  "notify_room S command i s =
     (case GetRoom i (sv_rooms s) of
        None \<Rightarrow> Some s
      | Some r \<Rightarrow> map_option (room_written S r) (notify S Rooms_Id command [room_writer S r s] s))"

definition NotifyRoomUpdated :: "services \<Rightarrow> u32 \<Rightarrow> handler" where "NotifyRoomUpdated S = notify_room S 0x1E"
definition NotifyRoomAdded :: "services \<Rightarrow> u32 \<Rightarrow> handler" where "NotifyRoomAdded S = notify_room S 0x1F"

definition NotifyRoomViewRemoved :: "services \<Rightarrow> u32 \<Rightarrow> handler" where
  "NotifyRoomViewRemoved S i = notify S Rooms_Id 0x0C (put_values S [(''VWID'', ucast i)])"

definition NotifyRoomCategoryRemoved :: "services \<Rightarrow> u32 \<Rightarrow> handler" where
  "NotifyRoomCategoryRemoved S i = notify S Rooms_Id 0x16 (put_values S [(''CTID'', ucast i)])"

definition NotifyRoomRemoved :: "services \<Rightarrow> u32 \<Rightarrow> handler" where
  "NotifyRoomRemoved S i = notify S Rooms_Id 0x20 (put_values S [(''RMID'', ucast i)])"

definition NotifyRoomPopulationUpdated :: "services \<Rightarrow> handler" where
  "NotifyRoomPopulationUpdated S = notify S Rooms_Id 0x28
     [within (push_map (sc_json S) ''POPA'' T_String T_String) [], within (push_map (sc_json S) ''POPM'' T_String T_String) []]"

text \<open>The number of the member has 32 bits.\<close>

definition NotifyRoomMemberJoined :: "services \<Rightarrow> u32 \<Rightarrow> u32 \<Rightarrow> handler" where
  "NotifyRoomMemberJoined S i m = notify S Rooms_Id 0x32 (put_values S [(''BZID'', ucast m), (''RMID'', ucast i)])"

definition NotifyRoomMemberLeft :: "services \<Rightarrow> u32 \<Rightarrow> u32 \<Rightarrow> handler" where
  "NotifyRoomMemberLeft S i m = notify S Rooms_Id 0x33 (put_values S [(''MBID'', ucast m), (''RMID'', ucast i)])"

definition NotifyRoomMemberUpdated :: "services \<Rightarrow> u32 \<Rightarrow> u32 \<Rightarrow> handler" where
  "NotifyRoomMemberUpdated S i m = notify S Rooms_Id 0x34 (put_values S [(''BZID'', ucast m), (''RMID'', ucast i)])"

definition NotifyRoomKick :: "services \<Rightarrow> u32 \<Rightarrow> u32 \<Rightarrow> handler" where
  "NotifyRoomKick S i m = notify S Rooms_Id 0x3C (put_values S [(''MBID'', ucast m), (''RMID'', ucast i)])"

definition NotifyRoomHostTransfer :: "services \<Rightarrow> u32 \<Rightarrow> u32 \<Rightarrow> handler" where
  "NotifyRoomHostTransfer S i m = notify S Rooms_Id 0x46 (put_values S [(''MBID'', ucast m), (''RMID'', ucast i)])"

definition NotifyRoomAttributesSet :: "services \<Rightarrow> u32 \<Rightarrow> handler" where
  "NotifyRoomAttributesSet S i = notify S Rooms_Id 0x50
     [within (push_map (sc_json S) ''ATTR'' T_String T_String) [], put_integer (sc_json S) ''RMID'' (ucast i)]"

subsection \<open>Requests\<close>

text \<open>A room without a category, or a category without a view, is a null pointer that is used.\<close>

definition WriteJoinRoom :: "services \<Rightarrow> nat \<Rightarrow> u64 \<Rightarrow> server \<Rightarrow> (packet \<Rightarrow> packet option) list option" where
  "WriteJoinRoom S r userId s =
     (let m = sv_rooms s; J = sc_json S in
      Option.bind (rm_category (the_room m r)) (\<lambda>c.
      Option.bind (rc_view (the_category m c)) (\<lambda>v. Some
        [put_string J ''CRIT'' [],
         put_integer J ''VERS'' 1,
         within (push_struct J ''CDAT'') [RoomCategory_WriteTo J m (the_category m c)],
         within (push_struct J ''RDAT'') [room_writer S r s],
         within (push_struct J ''VDAT'') [RoomView_WriteTo J (the_view m v)],
         within (push_struct J ''MDAT'') [RoomMemberData_Write J
           \<lparr>RoomMemberData_memberId = userId, RoomMemberData_roomId = rm_id (the_room m r)\<rparr>]])))"

text \<open>1 is \<open>RoomViewUpdate::UserRoomCreated\<close>.\<close>

definition Rooms_SelectViewUpdates :: "services \<Rightarrow> request \<Rightarrow> handler" where
  "Rooms_SelectViewUpdates S q s =
     (case get_user s of
        None \<Rightarrow> Some s
      | Some a \<Rightarrow> do {
          updt \<leftarrow> arg_uint S s ''UPDT'';
          let viewId = (if updt \<noteq> 0 then 1 else 0);
          s \<leftarrow> reply S q (put_values S [(''SEID'', 1), (''UPRE'', 1), (''USID'', user_id s a), (''VWID'', ucast viewId)]) s;
          if updt \<noteq> 0 then do { s \<leftarrow> NotifyRoomViewAdded S viewId s; NotifyRoomViewUpdated S viewId s } else Some s
        })"

definition Rooms_SelectCategoryUpdates :: "services \<Rightarrow> request \<Rightarrow> handler" where
  "Rooms_SelectCategoryUpdates S q s = do {
     viewId \<leftarrow> arg_uint S s ''VWID'';
     s \<leftarrow> (if viewId = 0 then Some s
           else each (\<lambda>i s. do { s \<leftarrow> NotifyRoomCategoryAdded S i s; NotifyRoomCategoryUpdated S i s }) [1, 2, 3, 4] s);
     reply S q (put_values S [(''VWID'', ucast viewId)]) s
   }"

text \<open>The room and the category of a join: number 0 asks for a new one.\<close>

definition join_target :: "u32 \<Rightarrow> rooms \<Rightarrow> nat option \<times> u32 \<times> rooms" where
  "join_target i m =
     (if i = 0 then (let (r, m) = CreateRoom 0 m in (Some r, rm_id (the_room m r), m)) else (GetRoom i m, i, m))"

definition join_category :: "u32 \<Rightarrow> rooms \<Rightarrow> nat option \<times> rooms" where
  "join_category i m = (if i = 0 then (let (c, m) = CreateRoomCategory 0 m in (Some c, m)) else (GetRoomCategory i m, m))"

definition ensure_view :: "nat \<Rightarrow> rooms \<Rightarrow> rooms" where
  "ensure_view c m =
     (if rc_view (the_category m c) = None then (let (v, m) = CreateRoomView 0 m in SetView c (Some v) m) else m)"

definition enter_room :: "nat \<Rightarrow> nat \<Rightarrow> nat \<Rightarrow> server \<Rightarrow> server" where
  "enter_room r c a s =
     (let m = SetCategory r (Some c) (ensure_view c (sv_rooms s));
          (m, x) = Room_AddUser r a (m, sv_sessions s)
      in s\<lparr>sv_rooms := m, sv_sessions := x\<rparr>)"

definition Rooms_JoinRoom :: "services \<Rightarrow> request \<Rightarrow> handler" where
  "Rooms_JoinRoom S q s =
     (case get_user s of
        None \<Rightarrow> Some s
      | Some a \<Rightarrow> do {
          password \<leftarrow> arg_string S s ''PASS'';
          pval \<leftarrow> arg_string S s ''PVAL'';
          inviterId \<leftarrow> arg_uint64 S s ''INID'';
          invited \<leftarrow> arg_uint S s ''INVT'';
          categoryId \<leftarrow> arg_uint S s ''CTID'';
          number \<leftarrow> arg_uint S s ''RMID'';
          case join_target number (sv_rooms s) of (room, roomId, m) \<Rightarrow>
            (let s = s\<lparr>sv_rooms := m\<rparr> in
             case room of
               None \<Rightarrow> reply_empty S q ROOMS_ERR_NOT_FOUND s
             | Some r \<Rightarrow>
                 (case join_category categoryId (sv_rooms s) of (category, m) \<Rightarrow>
                    (let s = s\<lparr>sv_rooms := m\<rparr> in
                     case category of
                       None \<Rightarrow> reply_empty S q ROOMS_ERR_CREATE_UNKNOWN_CATEGORY s
                     | Some c \<Rightarrow>
                         (let s = enter_room r c a s in do {
                            s \<leftarrow> (if number = 0 then do { s \<leftarrow> NotifyRoomAdded S roomId s; NotifyRoomUpdated S roomId s }
                                  else Some s);
                            fs \<leftarrow> WriteJoinRoom S r (user_id s a) s;
                            s \<leftarrow> reply S q fs s;
                            NotifyRoomMemberJoined S roomId (ucast (user_id s a)) (room_written S r s)
                          }))))
        })"

definition Rooms_SelectPseudoRoomUpdates :: "services \<Rightarrow> request \<Rightarrow> handler" where
  "Rooms_SelectPseudoRoomUpdates S q = reply_empty S q 0"

definition Rooms_ParsePacket :: "services \<Rightarrow> request \<Rightarrow> handler option" where
  "Rooms_ParsePacket S q = map_of
     [(0x0A, Rooms_SelectViewUpdates S q),
      (0x0B, Rooms_SelectCategoryUpdates S q),
      (0x14, Rooms_JoinRoom S q),
      (0xA0, Rooms_SelectPseudoRoomUpdates S q)] (rq_command q)"

subsection \<open>At most one answer\<close>

lemma silent_room_written [answer_rules]: "silent s t \<Longrightarrow> silent s (room_written S r t)"
  by (simp add: silent_def kept_def room_written_def)

lemma silent_enter_room [answer_rules]: "silent s t \<Longrightarrow> silent s (enter_room r c a t)"
  by (simp add: silent_def kept_def enter_room_def Let_def split: prod.splits)

lemma answered_each:
  assumes "\<And>x s. answered S q 0 s (f x s)"
  shows "answered S q 0 s (each f xs s)"
proof (induction xs arbitrary: s)
  case (Cons x xs)
  then show ?case using answered_quiet [OF assms, of 0 "each f xs"] by simp
qed (simp add: answered_done silent_rules)

lemma answered_map_step:
  assumes "answered S q k s r" and "\<And>t. silent t (f t)"
  shows "answered S q k s (map_option f r)"
proof -
  have "map_option f r = Option.bind r (\<lambda>t. Some (f t))" by (cases r) simp_all
  then show ?thesis using answered_then [OF assms(1), of 0 "\<lambda>t. Some (f t)"] answered_done [OF assms(2)] by simp
qed

lemma notify_room_quiet: "answered S q 0 s (notify_room S command i s)"
  unfolding notify_room_def by (intro answered_option answered_map_step answer_rules)

lemma notify_others_quiet:
  "answered S q 0 s (notify_view S command i s)" "answered S q 0 s (notify_category S command i s)"
  unfolding notify_view_def notify_category_def by (intro answer_rules)+

lemma notify_rooms:
  "answered S q 0 s (NotifyRoomUpdated S i s)" "answered S q 0 s (NotifyRoomAdded S i s)"
  "answered S q 0 s (NotifyRoomViewAdded S i s)" "answered S q 0 s (NotifyRoomViewUpdated S i s)"
  "answered S q 0 s (NotifyRoomCategoryAdded S i s)" "answered S q 0 s (NotifyRoomCategoryUpdated S i s)"
  "answered S q 0 s (NotifyRoomMemberJoined S i m s)"
  by (simp_all add: NotifyRoomUpdated_def NotifyRoomAdded_def NotifyRoomViewAdded_def NotifyRoomViewUpdated_def
      NotifyRoomCategoryAdded_def NotifyRoomCategoryUpdated_def NotifyRoomMemberJoined_def
      notify_room_quiet notify_others_quiet answer_rules)

lemmas notify_rooms_rules [answer_rules] =
  notify_rooms [THEN answered_follow] notify_rooms [THEN answered_follow_then]

lemma categories_quiet:
  "answered S q 0 s (if viewId = 0 then Some s
     else each (\<lambda>i s. do { s \<leftarrow> NotifyRoomCategoryAdded S i s; NotifyRoomCategoryUpdated S i s }) ks s)"
  by (intro answered_if answered_each answer_rules)

lemma Rooms_answers: "well_answered S q (Rooms_ParsePacket S q)"
proof -
  have "answered S q (Suc 0) s (Rooms_SelectCategoryUpdates S q s)" for s
    unfolding Rooms_SelectCategoryUpdates_def
    by (rule answered_value, rule answered_quiet [OF categories_quiet]) (intro answer_rules)
  moreover have "answered S q 0 s (if n = (0 :: u32) then do { s \<leftarrow> NotifyRoomAdded S i s; NotifyRoomUpdated S i s } else Some s)" for s n i
    by (intro answer_rules)
  note added = answered_quiet [OF answered_follow [OF this]]
  have "answered S q (Suc 0) s (Rooms_JoinRoom S q s)" for s
    unfolding Rooms_JoinRoom_def Let_def
    by (intro added answered_value [where 'a = "(packet \<Rightarrow> packet option) list"] answer_rules)
  moreover have "answered S q (Suc 0) s (Rooms_SelectViewUpdates S q s)"
    "answered S q (Suc 0) s (Rooms_SelectPseudoRoomUpdates S q s)" for s
    unfolding Rooms_SelectViewUpdates_def Rooms_SelectPseudoRoomUpdates_def Let_def
    by (intro answer_rules)+
  ultimately show ?thesis unfolding Rooms_ParsePacket_def by (intro well_answered_table) simp
qed

end
