(* ===== verification/GameRequests.thy ===== *)
theory GameRequests
  imports RoomRequests
begin

text \<open>
  Games: \<open>source/Blaze/Component/GameManagerComponent.cpp\<close> (component 0x04).
\<close>

definition GameManager_Id :: u16 where "GameManager_Id = 0x04"

definition game_of :: "server \<Rightarrow> nat \<Rightarrow> nat option" where "game_of s a = sv_user_game s a"

abbreviation game_at :: "server \<Rightarrow> nat \<Rightarrow> game" where "game_at s g \<equiv> the_game (sv_games s) g"

definition update_game :: "nat \<Rightarrow> (game \<Rightarrow> game) \<Rightarrow> server \<Rightarrow> server" where
  "update_game g f s = s\<lparr>sv_games := registry_update g f (sv_games s)\<rparr>"

subsection \<open>Notifications\<close>

definition WriteCreateGame :: "services \<Rightarrow> u32 \<Rightarrow> (packet \<Rightarrow> packet option) list" where
  "WriteCreateGame S i = put_values S [(''GID'', ucast i)]"

definition WriteJoinGame :: "services \<Rightarrow> u32 \<Rightarrow> (packet \<Rightarrow> packet option) list" where
  "WriteJoinGame S i = put_values S [(''GID'', ucast i)]"

definition WriteStartMatchmaking :: "services \<Rightarrow> u32 \<Rightarrow> (packet \<Rightarrow> packet option) list" where
  "WriteStartMatchmaking S i = put_values S [(''MSID'', ucast i)]"

definition WriteCancelMatchmaking :: "services \<Rightarrow> u32 \<Rightarrow> (packet \<Rightarrow> packet option) list" where
  "WriteCancelMatchmaking S i = put_values S [(''MSID'', ucast i)]"

definition NotifyMatchmakingFailed :: "services \<Rightarrow> u32 \<Rightarrow> u32 \<Rightarrow> handler" where
  "NotifyMatchmakingFailed S i result s =
     (case get_user s of
        None \<Rightarrow> Some s
      | Some a \<Rightarrow> notify S GameManager_Id 0x0A
          (put_values S [(''MAXF'', 0), (''MSID'', ucast i), (''RSLT'', scast result), (''USID'', user_id s a)]) s)"

definition NotifyMatchmakingAsyncStatus :: "services \<Rightarrow> u32 \<Rightarrow> handler" where
  "NotifyMatchmakingAsyncStatus S i s =
     (case get_user s of
        None \<Rightarrow> Some s
      | Some a \<Rightarrow> notify S GameManager_Id 0x0C
          (within (push_list (sc_json S) ''ASIL'' T_String False) []
           # put_values S [(''MSID'', ucast i), (''USID'', user_id s a)]) s)"

definition NotifyGameCreated :: "services \<Rightarrow> u32 \<Rightarrow> handler" where
  "NotifyGameCreated S i = notify S GameManager_Id 0x0F (put_values S [(''GID'', ucast i)])"

definition NotifyGameRemoved :: "services \<Rightarrow> u32 \<Rightarrow> u32 \<Rightarrow> handler" where
  "NotifyGameRemoved S i reason = notify S GameManager_Id 0x10 (put_values S [(''GID'', ucast i), (''REAS'', scast reason)])"

definition NotifyGameSetup :: "services \<Rightarrow> ReplicatedGameData \<Rightarrow> ReplicatedGamePlayer list \<Rightarrow> handler" where
  "NotifyGameSetup S gameData gamePlayers s =
     (let J = sc_json S in
      case get_user s of
        None \<Rightarrow> Some s
      | Some a \<Rightarrow>
          (case game_of s a of
             None \<Rightarrow> Some s
           | Some g \<Rightarrow> notify S GameManager_Id 0x14
               [within (push_struct J ''GAME'') [ReplicatedGameData_Write J gameData],
                within (push_list J ''PROS'' T_Struct False)
                  [each (\<lambda>player. within (push_struct J []) [ReplicatedGamePlayer_Write J player]) gamePlayers],
                within (push_union J ''REAS'' 0) [within (push_struct J ''VALU'') [put_integer J ''DCTX'' 0]]] s))"

definition NotifyPlayerJoining :: "services \<Rightarrow> ReplicatedGamePlayer \<Rightarrow> handler" where
  "NotifyPlayerJoining S gamePlayer s =
     (case get_user s of
        None \<Rightarrow> Some s
      | Some a \<Rightarrow> notify S GameManager_Id 0x15
          [put_integer (sc_json S) ''GID'' (ucast (ReplicatedGamePlayer_gameId gamePlayer)),
           within (push_struct (sc_json S) ''PDAT'') [ReplicatedGamePlayer_Write (sc_json S) gamePlayer]] s)"

definition NotifyPlayerJoinCompleted :: "services \<Rightarrow> u32 \<Rightarrow> u32 \<Rightarrow> handler" where
  "NotifyPlayerJoinCompleted S i persona =
     notify S GameManager_Id 0x1E (put_values S [(''GID'', ucast i), (''PID'', ucast persona)])"

definition NotifyPlayerRemoved :: "services \<Rightarrow> u32 \<Rightarrow> u32 \<Rightarrow> u32 \<Rightarrow> handler" where
  "NotifyPlayerRemoved S i persona reason = notify S GameManager_Id 0x28
     (put_values S [(''CNTX'', 0), (''GID'', ucast i), (''PID'', ucast persona), (''REAS'', scast reason)])"

definition NotifyPlatformHostInitialized :: "services \<Rightarrow> u64 \<Rightarrow> handler" where
  "NotifyPlatformHostInitialized S i = notify S GameManager_Id 0x47 (put_values S [(''GID'', i), (''PHST'', 1)])"

definition NotifyGameStateChange :: "services \<Rightarrow> u64 \<Rightarrow> u32 \<Rightarrow> handler" where
  "NotifyGameStateChange S i state = notify S GameManager_Id 0x64 (put_values S [(''GID'', i), (''GSTA'', scast state)])"

definition NotifyGameReset :: "services \<Rightarrow> ReplicatedGameData \<Rightarrow> handler" where
  "NotifyGameReset S gameData s =
     (case get_user s of
        None \<Rightarrow> Some s
      | Some a \<Rightarrow> notify S GameManager_Id 0x70
          [within (push_struct (sc_json S) ''DATA'') [ReplicatedGameData_Write (sc_json S) gameData]] s)"

definition NotifyGameSessionUpdated :: "services \<Rightarrow> u32 \<Rightarrow> handler" where
  "NotifyGameSessionUpdated S i = notify S GameManager_Id 0x73
     [put_integer (sc_json S) ''GID'' (ucast i), put_blob (sc_json S) ''XNNC'' None, put_blob (sc_json S) ''XSES'' None]"

definition NotifyGamePlayerStateChange :: "services \<Rightarrow> u32 \<Rightarrow> u32 \<Rightarrow> u32 \<Rightarrow> handler" where
  "NotifyGamePlayerStateChange S i persona state = notify S GameManager_Id 0x74
     (put_values S [(''GID'', ucast i), (''PID'', ucast persona), (''STAT'', scast state)])"

definition NotifyCreateDynamicDedicatedServerGame :: "services \<Rightarrow> CreateGameRequest \<Rightarrow> handler" where
  "NotifyCreateDynamicDedicatedServerGame S gameData s =
     (case get_user s of
        None \<Rightarrow> Some s
      | Some a \<Rightarrow>
          (case game_of s a of
             None \<Rightarrow> Some s
           | Some g \<Rightarrow> notify S GameManager_Id 0xDC
               [within (push_struct (sc_json S) ''GREQ'') [CreateGameRequest_Write (sc_json S) gameData],
                put_string (sc_json S) ''MID'' ''1''] s))"

subsection \<open>Requests\<close>

text \<open>1 is \<open>GameState::Initializing\<close>; the number of the game is always 1, and no game is made.\<close>

definition GameManager_CreateGame :: "services \<Rightarrow> request \<Rightarrow> handler" where
  "GameManager_CreateGame S q s =
     Option.bind (CreateGameRequest_Read (sc_json S) (document_of s) (sc_request S)) (\<lambda>data. do {
       s \<leftarrow> reply S q (WriteCreateGame S 1) s;
       NotifyGameStateChange S 1 1 s
     })"

text \<open>No game is removed.\<close>

definition GameManager_DestroyGame :: "services \<Rightarrow> request \<Rightarrow> handler" where
  "GameManager_DestroyGame S q s = do {
     gameId \<leftarrow> arg_uint S s ''GID'';
     reason \<leftarrow> arg_uint S s ''REAS'';
     s \<leftarrow> reply S q (put_values S [(''GID'', ucast gameId)]) s;
     NotifyGameRemoved S gameId reason s
   }"

definition GameManager_SetPlayerAttributes :: "services \<Rightarrow> request \<Rightarrow> handler" where
  "GameManager_SetPlayerAttributes S q = reply_empty S q 0"

text \<open>4 is \<open>PlayerState::Connected\<close>.\<close>

definition GameManager_JoinGame :: "services \<Rightarrow> request \<Rightarrow> handler" where
  "GameManager_JoinGame S q s =
     (case get_user s of
        None \<Rightarrow> Some s
      | Some a \<Rightarrow> do {
          gameId \<leftarrow> arg_uint S s ''GID'';
          case GetGame gameId (sv_games s) of
            None \<Rightarrow> Some s
          | Some g \<Rightarrow>
              (let s = set_game a (Some g) s;
                   player = \<lparr>ReplicatedGamePlayer_ugid = (0, 0, 0), ReplicatedGamePlayer_name = user_name s a,
                     ReplicatedGamePlayer_hostNetwork = ReplicatedGameData_hostNetwork (g_info (game_at s g)),
                     ReplicatedGamePlayer_id = user_id s a, ReplicatedGamePlayer_time = sc_now S,
                     ReplicatedGamePlayer_gameId = gameId, ReplicatedGamePlayer_localization = ClientData_lang (cl_data (sv_client s)),
                     ReplicatedGamePlayer_uid = cl_id (sv_client s), ReplicatedGamePlayer_tIndex = 0xFFFF,
                     ReplicatedGamePlayer_slot = 1, ReplicatedGamePlayer_slotType = 0, ReplicatedGamePlayer_state = 4\<rparr>
               in do {
                 s \<leftarrow> reply S q (WriteJoinGame S gameId) s;
                 NotifyPlayerJoining S player s
               })
        })"

text \<open>The number of the player is cut to 32 bits in the notification.\<close>

definition GameManager_RemovePlayer :: "services \<Rightarrow> request \<Rightarrow> handler" where
  "GameManager_RemovePlayer S q s = do {
     gameId \<leftarrow> arg_uint S s ''GID'';
     personaId \<leftarrow> arg_int64 S s ''PID'';
     reason \<leftarrow> arg_uint S s ''REAS'';
     let s = (case GetGame gameId (sv_games s) of None \<Rightarrow> s | Some g \<Rightarrow> update_game g (Game_RemovePlayer personaId) s);
     let s = (case GetUserById personaId (sv_sessions s) of None \<Rightarrow> s | Some a \<Rightarrow> set_game a None s);
     s \<leftarrow> reply_empty S q 0 s;
     NotifyPlayerRemoved S gameId (ucast personaId) reason s
   }"

definition GameManager_StartMatchmaking :: "services \<Rightarrow> request \<Rightarrow> handler" where
  "GameManager_StartMatchmaking S q = reply S q (WriteStartMatchmaking S 1)"

text \<open>4 is \<open>MatchmakingResult::Cancelled\<close>.\<close>

definition GameManager_CancelMatchmaking :: "services \<Rightarrow> request \<Rightarrow> handler" where
  "GameManager_CancelMatchmaking S q s = do {
     matchmakingSessionId \<leftarrow> arg_uint S s ''MSID'';
     s \<leftarrow> reply S q (WriteCancelMatchmaking S matchmakingSessionId) s;
     NotifyMatchmakingFailed S matchmakingSessionId 4 s
   }"

text \<open>0x83 is \<open>GameState::InGame\<close>.\<close>

definition GameManager_FinalizeGameCreation :: "services \<Rightarrow> request \<Rightarrow> handler" where
  "GameManager_FinalizeGameCreation S q s =
     (case get_user s of
        None \<Rightarrow> Some s
      | Some a \<Rightarrow>
          (case game_of s a of
             None \<Rightarrow> reply_empty S q 0 s
           | Some g \<Rightarrow>
               (let gameId = GetId (game_at s g);
                    s = s\<lparr>sv_games := StartGame (sc_millis S) gameId (sv_games s)\<rparr>
                in do {
                  s \<leftarrow> reply S q (WriteJoinGame S gameId) s;
                  s \<leftarrow> NotifyGameStateChange S (ucast gameId) 0x83 s;
                  s \<leftarrow> NotifyGamePlayerStateChange S gameId (ucast (user_id s a)) 4 s;
                  NotifyPlayerJoinCompleted S gameId (ucast (user_id s a)) s
                })))"

text \<open>What the request gives the game and what is fixed.  The last field of a host is the slot.\<close>

definition game_data_of :: "CreateGameRequest \<Rightarrow> u64 \<Rightarrow> ReplicatedGameData \<Rightarrow> ReplicatedGameData" where
  "game_data_of d userId info = info
     \<lparr>ReplicatedGameData_attributes := CreateGameRequest_attributes d,
      ReplicatedGameData_capacity := CreateGameRequest_capacity d,
      ReplicatedGameData_hostNetwork := CreateGameRequest_hostNetwork d,
      ReplicatedGameData_name := CreateGameRequest_name d,
      ReplicatedGameData_settings := CreateGameRequest_settings d,
      ReplicatedGameData_type := CreateGameRequest_type d,
      ReplicatedGameData_ignore := CreateGameRequest_ignore d,
      ReplicatedGameData_playgroupId := CreateGameRequest_playgroupId d,
      ReplicatedGameData_tcap := CreateGameRequest_tcap d,
      ReplicatedGameData_version := CreateGameRequest_version d,
      ReplicatedGameData_presence := CreateGameRequest_presence d,
      ReplicatedGameData_networkTopology := CreateGameRequest_networkTopology d,
      ReplicatedGameData_maxPlayers := CreateGameRequest_maxPlayers d,
      ReplicatedGameData_queueCapacity := CreateGameRequest_queueCapacity d,
      ReplicatedGameData_resetable := CreateGameRequest_resetable d,
      ReplicatedGameData_state := 1,
      ReplicatedGameData_gpvh := 0xABABABAB,
      ReplicatedGameData_gsid := 0xCDCDCDCD,
      ReplicatedGameData_hses := 13666,
      ReplicatedGameData_psas := ''ams'',
      ReplicatedGameData_seed := 0xFAFAFAFA,
      ReplicatedGameData_uuid := ''71bc4bdb-82ec-494d-8d75-ca5123b827ac'',
      ReplicatedGameData_tids := ReplicatedGameData_tids info @ [0],
      ReplicatedGameData_networkQos := \<lparr>NetworkQosData_dbps = 128000, NetworkQosData_type = 0, NetworkQosData_ubps = 2\<rparr>,
      ReplicatedGameData_pHost := \<lparr>HostInfo_id = userId, HostInfo_slot = 0\<rparr>,
      ReplicatedGameData_tHost := \<lparr>HostInfo_id = userId, HostInfo_slot = 0\<rparr>\<rparr>"

text \<open>\<open>attributes["SelectedDifficulty"]\<close> adds the attribute where there is none.\<close>

definition selected_difficulty :: "(string \<times> string) list \<Rightarrow> (string \<times> string) list \<times> u32" where
  "selected_difficulty attributes =
     (let k = ''SelectedDifficulty''; attributes = emplace string_less k [] attributes
      in (attributes, to_number_u32 10 (case map_of attributes k of Some v \<Rightarrow> v | None \<Rightarrow> [])))"

definition prepare_chain :: "u32 \<Rightarrow> chain \<Rightarrow> chain" where
  "prepare_chain level c = SetCompleted False (SetStarLevel 0 (SetLevelByIndex level c))"

definition reset_player :: "services \<Rightarrow> server \<Rightarrow> nat \<Rightarrow> ReplicatedGameData \<Rightarrow> CreateGameRequest \<Rightarrow> ReplicatedGamePlayer" where
  "reset_player S s a info d =
     \<lparr>ReplicatedGamePlayer_ugid = (0, 0, 0), ReplicatedGamePlayer_name = user_name s a,
      ReplicatedGamePlayer_hostNetwork = ReplicatedGameData_hostNetwork info, ReplicatedGamePlayer_id = user_id s a,
      ReplicatedGamePlayer_time = sc_now S, ReplicatedGamePlayer_gameId = ReplicatedGameData_id info,
      ReplicatedGamePlayer_localization = ClientData_lang (cl_data (sv_client s)),
      ReplicatedGamePlayer_uid = ucast (user_id s a), ReplicatedGamePlayer_tIndex = CreateGameRequest_tIndex d,
      ReplicatedGamePlayer_slot = 0, ReplicatedGamePlayer_slotType = 0, ReplicatedGamePlayer_state = 2\<rparr>"

text \<open>The game that a request sets up, up to the loaded level.\<close>

definition reset_game :: "services \<Rightarrow> disk \<Rightarrow> CreateGameRequest \<Rightarrow> u64 \<Rightarrow> game \<Rightarrow> game option" where
  "reset_game S d data userId g =
     (let info = game_data_of data userId (g_info g);
          (attributes, level) = selected_difficulty (ReplicatedGameData_attributes info)
      in map_option snd (LoadLevel (env_xml (sc_env S)) (env_floats (sc_env S)) d (sc_known S)
           (g\<lparr>g_info := info\<lparr>ReplicatedGameData_attributes := attributes\<rparr>, g_chain := prepare_chain level (g_chain g)\<rparr>)))"

definition GameManager_ResetDedicatedServer :: "services \<Rightarrow> request \<Rightarrow> handler" where
  "GameManager_ResetDedicatedServer S q s =
     (case get_user s of
        None \<Rightarrow> Some s
      | Some a \<Rightarrow>
          (case CreateGame (sv_games s) of (g, G) \<Rightarrow>
             (let s = set_game a (Some g) (s\<lparr>sv_games := G\<rparr>) in
              Option.bind (CreateGameRequest_Read (sc_json S) (document_of s) (sc_request S)) (\<lambda>data.
              Option.bind (reset_game S (disk (sv_sessions s)) data (user_id s a) (game_at s g)) (\<lambda>newGame.
              let s = update_game g (\<lambda>_. newGame) s;
                  info = g_info newGame;
                  player = reset_player S s a info data
              in do {
                s \<leftarrow> reply S q (WriteJoinGame S (ReplicatedGameData_id info)) s;
                s \<leftarrow> NotifyGameCreated S (ReplicatedGameData_id info) s;
                s \<leftarrow> NotifyGameSetup S info [player] s;
                NotifyPlayerJoining S player s
              })))))"

text \<open>The states of a player are 0, \<open>Reserved\<close>, and 2, \<open>Connecting\<close>; the client is a player (0) or a server (2).\<close>

definition GameManager_UpdateMeshConnection :: "services \<Rightarrow> request \<Rightarrow> handler" where
  "GameManager_UpdateMeshConnection S q s = do {
     targ \<leftarrow> subscript (sc_json S) (document_of s) ''TARG'';
     targetList \<leftarrow> subscript (sc_json S) targ ''_Content'';
     gameId \<leftarrow> arg_uint S s ''GID'';
     targets \<leftarrow> GetArray targetList;
     status \<leftarrow> each (\<lambda>target d. PlayerConnectionStatus_Read (sc_json S) target d) targets (sc_status S);
     target \<leftarrow> (if targets = [] then None else Some (hd targets));
     personaId \<leftarrow> get_uint (sc_json S) target ''PID'';
     playerState \<leftarrow> get_uint (sc_json S) target ''STAT'';
     let type = ClientData_type (cl_data (sv_client s));
     s \<leftarrow> reply_empty S q 0 s;
     if playerState = 2 then
       (if type = 0 then
          (case get_user s of
             None \<Rightarrow> Some s
           | Some a \<Rightarrow> do {
               s \<leftarrow> NotifyGamePlayerStateChange S gameId (ucast (user_id s a)) 4 s;
               NotifyPlayerJoinCompleted S gameId (ucast (user_id s a)) s
             })
        else if type = 2 then do {
          s \<leftarrow> NotifyGamePlayerStateChange S gameId personaId 4 s;
          NotifyPlayerJoinCompleted S gameId personaId s
        } else Some s)
     else if playerState = 0 then
       (if type = 0 \<or> type = 2 then NotifyPlayerRemoved S gameId personaId 1 s else Some s)
     else Some s
   }"

definition GameManager_ParsePacket :: "services \<Rightarrow> request \<Rightarrow> handler option" where
  "GameManager_ParsePacket S q = map_of
     [(0x01, GameManager_CreateGame S q),
      (0x02, GameManager_DestroyGame S q),
      (0x08, GameManager_SetPlayerAttributes S q),
      (0x09, GameManager_JoinGame S q),
      (0x0B, GameManager_RemovePlayer S q),
      (0x0D, GameManager_StartMatchmaking S q),
      (0x0E, GameManager_CancelMatchmaking S q),
      (0x0F, GameManager_FinalizeGameCreation S q),
      (0x19, GameManager_ResetDedicatedServer S q),
      (0x1D, GameManager_UpdateMeshConnection S q)] (rq_command q)"

subsection \<open>At most one answer\<close>

lemma silent_update_game [answer_rules]: "silent s t \<Longrightarrow> silent s (update_game g f t)"
  by (simp add: silent_def kept_def update_game_def)

lemma silent_option [answer_rules]:
  "silent s t \<Longrightarrow> (\<And>x. silent s (f x)) \<Longrightarrow> silent s (case v of None \<Rightarrow> t | Some x \<Rightarrow> f x)"
  by (cases v) simp_all

lemma notify_games:
  "answered S q 0 s (NotifyGameStateChange S i64 state s)" "answered S q 0 s (NotifyGameRemoved S i reason s)"
  "answered S q 0 s (NotifyPlayerJoining S player s)" "answered S q 0 s (NotifyPlayerRemoved S i persona reason s)"
  "answered S q 0 s (NotifyMatchmakingFailed S i reason s)" "answered S q 0 s (NotifyGamePlayerStateChange S i persona state s)"
  "answered S q 0 s (NotifyPlayerJoinCompleted S i persona s)" "answered S q 0 s (NotifyGameCreated S i s)"
  "answered S q 0 s (NotifyGameSetup S info players s)"
  unfolding NotifyGameStateChange_def NotifyGameRemoved_def NotifyPlayerJoining_def NotifyPlayerRemoved_def
    NotifyMatchmakingFailed_def NotifyGamePlayerStateChange_def NotifyPlayerJoinCompleted_def NotifyGameCreated_def
    NotifyGameSetup_def Let_def
  by (intro answer_rules)+

lemmas notify_games_rules [answer_rules] =
  notify_games [THEN answered_follow] notify_games [THEN answered_follow_then]

lemmas game_values [answer_rules] =
  answered_value [where 'a = CreateGameRequest] answered_value [where 'a = game]
  answered_value [where 'a = PlayerConnectionStatus]

lemma GameManager_answers: "well_answered S q (GameManager_ParsePacket S q)"
proof -
  have "answered S q (Suc 0) s (GameManager_CreateGame S q s)" "answered S q (Suc 0) s (GameManager_DestroyGame S q s)"
    "answered S q (Suc 0) s (GameManager_SetPlayerAttributes S q s)" "answered S q (Suc 0) s (GameManager_JoinGame S q s)"
    "answered S q (Suc 0) s (GameManager_RemovePlayer S q s)" "answered S q (Suc 0) s (GameManager_StartMatchmaking S q s)"
    "answered S q (Suc 0) s (GameManager_CancelMatchmaking S q s)"
    "answered S q (Suc 0) s (GameManager_FinalizeGameCreation S q s)"
    "answered S q (Suc 0) s (GameManager_ResetDedicatedServer S q s)"
    "answered S q (Suc 0) s (GameManager_UpdateMeshConnection S q s)" for s
    unfolding GameManager_CreateGame_def GameManager_DestroyGame_def GameManager_SetPlayerAttributes_def
      GameManager_JoinGame_def GameManager_RemovePlayer_def GameManager_StartMatchmaking_def
      GameManager_CancelMatchmaking_def GameManager_FinalizeGameCreation_def GameManager_ResetDedicatedServer_def
      GameManager_UpdateMeshConnection_def Let_def
    by (intro answer_rules)+
  then show ?thesis unfolding GameManager_ParsePacket_def by (intro well_answered_table) simp
qed

end
