(* ===== verification/MiscRequests.thy ===== *)
theory MiscRequests
  imports GameRequests
begin

text \<open>
  The components with little state: \<open>source/Blaze/Component/{Util,Association,Messaging,Playgroups}Component.cpp\<close>.
\<close>

subsection \<open>Lists of users (component 0x19)\<close>

definition Association_Id :: u16 where "Association_Id = 0x19"

definition write_structs :: "services \<Rightarrow> string \<Rightarrow> ('a \<Rightarrow> packet \<Rightarrow> packet option) \<Rightarrow> 'a list \<Rightarrow> packet \<Rightarrow> packet option" where
  "write_structs S lbl f xs = within (push_list (sc_json S) lbl T_Struct False)
     [each (\<lambda>x. within (push_struct (sc_json S) []) [f x]) xs]"

definition UpdateListMembersResponse ::
  "services \<Rightarrow> ListMemberInfo list \<Rightarrow> ListMemberId list \<Rightarrow> (packet \<Rightarrow> packet option) list" where
  "UpdateListMembersResponse S memberInfoList removeList =
     (if memberInfoList \<noteq> [] then [write_structs S ''LMID'' (ListMemberInfo_Write (sc_json S)) memberInfoList] else []) @
     (if removeList \<noteq> [] then [write_structs S ''REM'' (ListMemberId_Write (sc_json S)) removeList] else [])"

definition WriteLists :: "services \<Rightarrow> ListMembers list \<Rightarrow> (packet \<Rightarrow> packet option) list" where
  "WriteLists S listMembersData = [write_structs S ''LMAP'' (ListMembers_Write (sc_json S)) listMembersData]"

definition NotifyUpdateListMembership :: "services \<Rightarrow> ListMemberInfoUpdate list \<Rightarrow> ListIdentification \<Rightarrow> handler" where
  "NotifyUpdateListMembership S listMemberInfoUpdate listId s =
     (if listMemberInfoUpdate = [] then Some s
      else (case get_user s of
              None \<Rightarrow> Some s
            | Some a \<Rightarrow> notify S Association_Id 0x01
                [write_structs S ''BIDL'' (ListMemberInfoUpdate_Write (sc_json S)) listMemberInfoUpdate,
                 within (push_struct (sc_json S) ''LID'') [ListIdentification_Write (sc_json S) listId]] s))"

text \<open>An object just made; its number, and the numbers of a list, are not initialised.\<close>

definition ListMemberId_new :: "services \<Rightarrow> ListMemberId" where
  "ListMemberId_new S = \<lparr>ListMemberId_name = [], ListMemberId_id = sc_memberid S, ListMemberId_externalReference = 0,
     ListMemberId_externalReferenceType = 0\<rparr>"

definition ListIdentification_new :: "services \<Rightarrow> ListIdentification" where
  "ListIdentification_new S = (sc_listid S)\<lparr>ListIdentification_name := []\<rparr>"

definition ListInfo_new :: "services \<Rightarrow> ListInfo" where
  "ListInfo_new S = (sc_listinfo S)\<lparr>ListInfo_blazeObjectId := (0, 0, 0), ListInfo_identification := ListIdentification_new S\<rparr>"

text \<open>The members that a request names, read in order.\<close>

definition members_of :: "services \<Rightarrow> server \<Rightarrow> ListMemberId list option" where
  "members_of S s = if_member (sc_json S) (document_of s) ''BIDL'' (\<lambda>v ids. do {
     c \<leftarrow> subscript (sc_json S) v ''_Content'';
     children \<leftarrow> GetArray c;
     each (\<lambda>child ids. do { i \<leftarrow> ListMemberId_Read (sc_json S) child (ListMemberId_new S); Some (ids @ [i]) }) children ids
   }) []"

definition list_of_request :: "services \<Rightarrow> server \<Rightarrow> ListIdentification option" where
  "list_of_request S s = do {
     v \<leftarrow> subscript (sc_json S) (document_of s) ''LID'';
     ListIdentification_Read (sc_json S) v (ListIdentification_new S)
   }"

definition timed :: "services \<Rightarrow> ListMemberId \<Rightarrow> ListMemberInfo" where
  "timed S i = \<lparr>ListMemberInfo_id = i, ListMemberInfo_time = sc_now S\<rparr>"

text \<open>1 is \<open>ListUpdateType::Add\<close>, 2 is \<open>ListUpdateType::Remove\<close>.  No list is kept.\<close>

definition AddUsersToList :: "services \<Rightarrow> request \<Rightarrow> handler" where
  "AddUsersToList S q s =
     Option.bind (members_of S s) (\<lambda>ids.
     Option.bind (list_of_request S s) (\<lambda>listId.
       let infos = map (timed S) ids in do {
         s \<leftarrow> reply S q (UpdateListMembersResponse S infos []) s;
         NotifyUpdateListMembership S
           (map (\<lambda>i. \<lparr>ListMemberInfoUpdate_info = i, ListMemberInfoUpdate_type = 1\<rparr>) infos) listId s
       }))"

definition RemoveUsersFromList :: "services \<Rightarrow> request \<Rightarrow> handler" where
  "RemoveUsersFromList S q s =
     Option.bind (members_of S s) (\<lambda>ids.
     Option.bind (list_of_request S s) (\<lambda>listId. do {
       s \<leftarrow> reply S q (UpdateListMembersResponse S [] ids) s;
       NotifyUpdateListMembership S
         (map (\<lambda>i. \<lparr>ListMemberInfoUpdate_info = timed S i, ListMemberInfoUpdate_type = 2\<rparr>) ids) listId s
     }))"

text \<open>List 4, of the ignored users, holds the user alone; list 5, of the friends, two fixed users.\<close>

definition list_member :: "services \<Rightarrow> u64 \<Rightarrow> string \<Rightarrow> ListMemberInfo" where
  "list_member S i name =
     \<lparr>ListMemberInfo_id = (ListMemberId_new S)\<lparr>ListMemberId_id := i, ListMemberId_name := name\<rparr>, ListMemberInfo_time = 0\<rparr>"

definition list_members :: "services \<Rightarrow> u64 \<Rightarrow> string \<Rightarrow> u32 \<Rightarrow> ListMemberInfo list" where
  "list_members S i name type =
     (if type = 4 then [list_member S i name]
      else if type = 5 then [list_member S 100 ''Dalkon'', list_member S 102 ''test''] else [])"

definition GetLists :: "services \<Rightarrow> request \<Rightarrow> handler" where
  "GetLists S q s =
     (case get_user s of
        None \<Rightarrow> Some s
      | Some a \<Rightarrow> do {
          mxrc \<leftarrow> arg_uint S s ''MXRC'';
          ofrc \<leftarrow> arg_uint S s ''OFRC'';
          Option.bind (if_member (sc_json S) (document_of s) ''ALST'' (\<lambda>v ls. do {
            c \<leftarrow> subscript (sc_json S) v ''_Content'';
            children \<leftarrow> GetArray c;
            each (\<lambda>child ls. do {
              info \<leftarrow> ListInfo_Read (sc_json S) child (ListInfo_new S);
              Some (ls @ [\<lparr>ListMembers_memberList = list_members S (user_id s a) (user_name s a)
                             (ListIdentification_type (ListInfo_identification info)),
                           ListMembers_info = info, ListMembers_ofrc = ofrc, ListMembers_toct = 0\<rparr>])
            }) children ls
          }) []) (\<lambda>listMembersData. reply S q (WriteLists S listMembersData) s)
        })"

definition Association_ParsePacket :: "services \<Rightarrow> request \<Rightarrow> handler option" where
  "Association_ParsePacket S q = map_of
     [(0x01, AddUsersToList S q), (0x02, RemoveUsersFromList S q), (0x06, GetLists S q)] (rq_command q)"

subsection \<open>Messages (component 0x0F)\<close>

definition Messaging_Id :: u16 where "Messaging_Id = 0x0F"

definition ReloadLevel :: u8 where "ReloadLevel = 0xBF"
definition PlayerCharacterDeploy :: u8 where "PlayerCharacterDeploy = 0xA7"
definition PhysicsChanged :: u8 where "PhysicsChanged = 0x93"

definition starts_with :: "string \<Rightarrow> string \<Rightarrow> bool" where
  "starts_with s t \<longleftrightarrow> take (length t) s = t"

text \<open>
  The commands in a message to a game: the text that is sent on and the game with its new task.  A
  view of the text from a place ends at the first NUL.
\<close>

definition packet_command :: "string \<Rightarrow> game \<Rightarrow> (string \<times> game) option" where
  "packet_command view g =
     (if starts_with view ''reload'' then map_option (Pair ''<reloaded level>'') (AddClientTask 0 ReloadLevel g)
      else if starts_with view ''deploycharacter''
        then map_option (Pair ''<tried to deploy character>'') (AddClientTask 0 PlayerCharacterDeploy g)
      else map_option (Pair (''<sent packet '' @ view @ ''>'')) (AddClientTask 0 (ucast (strtoul 0 view)) g))"

definition lua_command :: "string \<Rightarrow> game \<Rightarrow> (string \<times> game) option" where
  "lua_command view g =
     (if starts_with view ''reload'' then map_option (Pair ''<reload lua scripts>'') (AddServerTask LuaReload g)
      else map_option (Pair ''<load lua buffer>'') (AddServerTask (LuaBuffer view) g))"

definition run_command :: "string \<Rightarrow> game \<Rightarrow> (string \<times> game) option" where
  "run_command text g =
     (let view = c_str (drop 1 text) in
      if starts_with text ''!'' \<and> length text \<ge> 2 then
        if starts_with view ''packet '' then
          if length view < 8 then Some (text, g) else packet_command (c_str (drop 8 text)) g
        else if starts_with view ''lua '' then
          if length view < 5 then Some (text, g) else lua_command (c_str (drop 5 text)) g
        else if starts_with view ''debug'' then map_option (Pair text) (AddClientTask 0 PhysicsChanged g)
        else Some (text, g)
      else Some (text, g))"

definition set_attribute :: "u32 \<Rightarrow> string \<Rightarrow> ClientMessage \<Rightarrow> ClientMessage" where
  "set_attribute k v m = m\<lparr>ClientMessage_attributes :=
     map (\<lambda>(k', v'). (k', if k' = k then v else v')) (ClientMessage_attributes m)\<rparr>"

text \<open>\<open>attributes[0xFF02]\<close> adds the attribute where there is none.\<close>

definition message_text :: "ClientMessage \<Rightarrow> string \<times> ClientMessage" where
  "message_text m =
     (let attributes = emplace (<) 0xFF02 [] (ClientMessage_attributes m)
      in (case map_of attributes 0xFF02 of Some v \<Rightarrow> v | None \<Rightarrow> [], m\<lparr>ClientMessage_attributes := attributes\<rparr>))"

definition ServerMessage_of :: "services \<Rightarrow> ClientMessage \<Rightarrow> string \<Rightarrow> ServerMessage" where
  "ServerMessage_of S m name =
     \<lparr>ServerMessage_message = m, ServerMessage_name = name, ServerMessage_source = (0, 0, 0), ServerMessage_flags = 0,
      ServerMessage_messageId = 1, ServerMessage_time = ucast (sc_now S)\<rparr>"

text \<open>A message to a game is sent in the name of its first player, and its command is run.\<close>

definition message_to_game :: "nat \<Rightarrow> ClientMessage \<Rightarrow> server \<Rightarrow> (string \<times> ClientMessage \<times> server) option" where
  "message_to_game g m s =
     (case GetPlayerByIndex 0 (game_at s g) of
        None \<Rightarrow> Some ([], m, s)
      | Some p \<Rightarrow>
          (case message_text m of (text, m) \<Rightarrow>
             Option.bind (run_command text (game_at s g)) (\<lambda>(text, newGame).
               Some (user_name s (pl_mUser p), set_attribute 0xFF02 text m, update_game g (\<lambda>_. newGame) s))))"

definition message_to_target :: "ClientMessage \<Rightarrow> server \<Rightarrow> (string \<times> ClientMessage \<times> server) option" where
  "message_to_target m s =
     (case ClientMessage_target m of (component, _, localId) \<Rightarrow>
        if component = GameManager_Id then
          (case GetGame (ucast localId) (sv_games s) of None \<Rightarrow> Some ([], m, s) | Some g \<Rightarrow> message_to_game g m s)
        else if component = UserSession_Id then
          Some (case GetUserByAuthToken (decimal (unat localId)) (sv_sessions s) of None \<Rightarrow> [] | Some a \<Rightarrow> user_name s a, m, s)
        else Some ([], m, s))"

definition NotifyMessage :: "services \<Rightarrow> ClientMessage \<Rightarrow> handler" where
  "NotifyMessage S m s =
     Option.bind (message_to_target m s) (\<lambda>(name, m, s).
       if name \<noteq> [] then notify S Messaging_Id 0x01 [ServerMessage_Write (sc_json S) (ServerMessage_of S m name)] s else Some s)"

definition ClientMessage_new :: ClientMessage where
  "ClientMessage_new = \<lparr>ClientMessage_attributes = [], ClientMessage_target = (0, 0, 0), ClientMessage_flags = 0,
     ClientMessage_stat = 0, ClientMessage_tag = 0, ClientMessage_type = 0\<rparr>"

definition OnSendMessageResponse :: "services \<Rightarrow> request \<Rightarrow> handler" where
  "OnSendMessageResponse S q s =
     Option.bind (ClientMessage_Read (sc_json S) (document_of s) ClientMessage_new) (\<lambda>m.
       let ids = map fst (ClientMessage_attributes m) in do {
         s \<leftarrow> reply S q
           [put_integer (sc_json S) ''MGID'' (case ids of [] \<Rightarrow> 0 | i # _ \<Rightarrow> ucast i),
            within (push_list (sc_json S) ''MIDS'' T_Integer False) [each (\<lambda>i. put_integer (sc_json S) [] (ucast i)) ids]] s;
         NotifyMessage S m s
       })"

text \<open>The other requests are not answered.\<close>

definition unanswered :: handler where "unanswered s = Some s"

definition Messaging_ParsePacket :: "services \<Rightarrow> request \<Rightarrow> handler option" where
  "Messaging_ParsePacket S q = map_of
     ((0x01, OnSendMessageResponse S q) # map (\<lambda>c. (c, unanswered)) [0x02, 0x03, 0x04, 0x05]) (rq_command q)"

subsection \<open>Playgroups (component 0x06)\<close>

definition Playgroups_Id :: u16 where "Playgroups_Id = 0x06"

definition NotifyDestroyPlaygroup :: "services \<Rightarrow> u32 \<Rightarrow> u32 \<Rightarrow> handler" where
  "NotifyDestroyPlaygroup S i reason = notify S Playgroups_Id 0x32 (put_values S [(''PGID'', ucast i), (''REAS'', ucast reason)])"

definition test_playgroup :: "u64 \<Rightarrow> PlaygroupInfo" where
  "test_playgroup userId =
     \<lparr>PlaygroupInfo_attributes = [], PlaygroupInfo_uuid = ''71bc4bdb-82ec-494d-8d75-ca5123b827ac'',
      PlaygroupInfo_ukey = ''what'', PlaygroupInfo_name = ''Test playgroup'', PlaygroupInfo_ownerId = userId,
      PlaygroupInfo_playgroupId = 1, PlaygroupInfo_memberLimit = 1, PlaygroupInfo_hostSlotId = 0,
      PlaygroupInfo_state = 0, PlaygroupInfo_ntop = 1, PlaygroupInfo_pres = 1, PlaygroupInfo_uprs = True,
      PlaygroupInfo_enbv = True\<rparr>"

definition NotifyJoinPlaygroup :: "services \<Rightarrow> handler" where
  "NotifyJoinPlaygroup S s =
     (case get_user s of
        None \<Rightarrow> Some s
      | Some a \<Rightarrow> notify S Playgroups_Id 0x33
          [within (push_struct (sc_json S) ''INFO'') [PlaygroupInfo_Write (sc_json S) (test_playgroup (user_id s a))],
           within (push_list (sc_json S) ''MLST'' T_Struct False) [],
           put_integer (sc_json S) ''USER'' (user_id s a)] s)"

definition NotifyMemberJoinedPlaygroup :: "services \<Rightarrow> u32 \<Rightarrow> handler" where
  "NotifyMemberJoinedPlaygroup S i = notify S Playgroups_Id 0x34
     [within (push_struct (sc_json S) ''MEMB'') [PlaygroupMemberInfo_Write (sc_json S)
        \<lparr>PlaygroupMemberInfo_attributes = [],
         PlaygroupMemberInfo_user = \<lparr>UserIdentification_name = ''Unknown'', UserIdentification_id = 0,
           UserIdentification_localization = 0\<rparr>,
         PlaygroupMemberInfo_jtim = 0, PlaygroupMemberInfo_permissions = 0, PlaygroupMemberInfo_slot = 0\<rparr>],
      put_integer (sc_json S) ''PGID'' (ucast i)]"

definition NotifyMemberRemovedFromPlaygroup :: "services \<Rightarrow> u32 \<Rightarrow> u32 \<Rightarrow> handler" where
  "NotifyMemberRemovedFromPlaygroup S i reason = notify S Playgroups_Id 0x35
     (put_values S [(''MLST'', 0), (''PGID'', ucast i), (''REAS'', ucast reason)])"

definition NotifyPlaygroupAttributesSet :: "services \<Rightarrow> u32 \<Rightarrow> handler" where
  "NotifyPlaygroupAttributesSet S i = notify S Playgroups_Id 0x36
     [within (push_map (sc_json S) ''ATTR'' T_String T_String) [], put_integer (sc_json S) ''PGID'' (ucast i)]"

definition NotifyMemberAttributesSet :: "services \<Rightarrow> u32 \<Rightarrow> handler" where
  "NotifyMemberAttributesSet S i = notify S Playgroups_Id 0x45
     (within (push_map (sc_json S) ''ATTR'' T_String T_String) [] # put_values S [(''EID'', 0), (''PGID'', ucast i)])"

definition NotifyLeaderChange :: "services \<Rightarrow> u32 \<Rightarrow> handler" where
  "NotifyLeaderChange S i = notify S Playgroups_Id 0x4F (put_values S [(''HSID'', 0), (''LID'', 0), (''PGID'', ucast i)])"

definition NotifyMemberPermissionsChange :: "services \<Rightarrow> u32 \<Rightarrow> handler" where
  "NotifyMemberPermissionsChange S i = notify S Playgroups_Id 0x50
     (put_values S [(''LID'', 0), (''PERM'', 0), (''PGID'', ucast i)])"

definition NotifyJoinControlsChange :: "services \<Rightarrow> u32 \<Rightarrow> handler" where
  "NotifyJoinControlsChange S i = notify S Playgroups_Id 0x55 (put_values S [(''OPEN'', 0), (''PGID'', ucast i)])"

definition NotifyXboxSessionInfo :: "services \<Rightarrow> u32 \<Rightarrow> handler" where
  "NotifyXboxSessionInfo S i = notify S Playgroups_Id 0x56
     (put_values S [(''PGID'', ucast i), (''PRES'', 1)] @
      [put_blob (sc_json S) ''XNNC'' None, put_blob (sc_json S) ''XSES'' None])"

definition NotifyXboxSessionChange :: "services \<Rightarrow> u32 \<Rightarrow> handler" where
  "NotifyXboxSessionChange S i = NotifyXboxSessionInfo S i"

text \<open>Every request is accepted and nothing is done.\<close>

definition Playgroups_ParsePacket :: "request \<Rightarrow> handler option" where
  "Playgroups_ParsePacket q = map_of (map (\<lambda>c. (of_nat c, unanswered)) [1..<12]) (rq_command q)"

subsection \<open>Utilities (component 0x09)\<close>

definition Util_Id :: u16 where "Util_Id = 0x09"

definition disabled_countries :: string where
  "disabled_countries =
     ''AD,AF,AG,AI,AL,AM,AN,AO,AQ,AR,AS,AW,AX,AZ,BA,BB,BD,BF,BH,BI,BJ,BM,BN,BO,BR,BS,BT,BV,BW,BY,'' @
     ''BZ,CC,CD,CF,CG,CI,CK,CL,CM,CN,CO,CR,CU,CV,CX,DJ,DM,DO,DZ,EC,EG,EH,ER,ET,FJ,FK,FM,FO,GA,GD,'' @
     ''GE,GF,GG,GH,GI,GL,GM,GN,GP,GQ,GS,GT,GU,GW,GY,HM,HN,HT,ID,IL,IM,IN,IO,IQ,IR,IS,JE,JM,JO,KE,'' @
     ''KG,KH,KI,KM,KN,KP,KR,KW,KY,KZ,LA,LB,LC,LI,LK,LR,LS,LY,MA,MC,MD,ME,MG,MH,ML,MM,MN,MO,MP,MQ,'' @
     ''MR,MS,MU,MV,MW,MY,MZ,NA,NC,NE,NF,NG,NI,NP,NR,NU,OM,PA,PE,PF,PG,PH,PK,PM,PN,PS,PW,PY,QA,RE,'' @
     ''RS,RW,SA,SB,SC,SD,SG,SH,SJ,SL,SM,SN,SO,SR,ST,SV,SY,SZ,TC,TD,TF,TG,TH,TJ,TK,TL,TM,TN,TO,TT,'' @
     ''TV,TZ,UA,UG,UM,UY,UZ,VA,VC,VE,VG,VN,VU,WF,WS,YE,YT,ZM,ZW,ZZ''"

definition TelemetryServer_of :: "services \<Rightarrow> bool \<Rightarrow> server \<Rightarrow> TelemetryServer" where
  "TelemetryServer_of S anonymous s =
     \<lparr>TelemetryServer_address = fst (sc_telemetry S), TelemetryServer_disable = disabled_countries,
      TelemetryServer_filter = [], TelemetryServer_noToggleOk = ''US,CA,MX'', TelemetryServer_session = ''telemetry_session'',
      TelemetryServer_key = ''telemetry_key'', TelemetryServer_location = ClientData_lang (cl_data (sv_client s)),
      TelemetryServer_port = ucast (snd (sc_telemetry S)), TelemetryServer_sendDelay = 15000,
      TelemetryServer_sendPercentage = 75, TelemetryServer_anonymous = anonymous\<rparr>"

definition TickerServer_of :: "services \<Rightarrow> TickerServer" where
  "TickerServer_of S = (case sc_tick S of (address, port) \<Rightarrow>
     \<lparr>TickerServer_address = address,
      TickerServer_key = ''0,'' @ address @ '':'' @ decimal (unat port) @ '',darkspore-pc,10,50,50,50,50,0,0'',
      TickerServer_port = port\<rparr>)"

definition PssConfig_of :: "services \<Rightarrow> PssConfig" where
  "PssConfig_of S = (case sc_pss S of (address, port) \<Rightarrow>
     \<lparr>PssConfig_oids = [], PssConfig_address = address, PssConfig_pjid = ''123071'', PssConfig_port = ucast port,
      PssConfig_rprt = 9, PssConfig_tiid = 0\<rparr>)"

definition QosConfigInfo_of :: "services \<Rightarrow> QosConfigInfo \<Rightarrow> QosConfigInfo" where
  "QosConfigInfo_of S c = (case sc_qos S of (address, port) \<Rightarrow> c
     \<lparr>QosConfigInfo_pingSiteInfoByAlias := [(''ams'', \<lparr>QosPingSiteInfo_name = ''ams'', QosPingSiteInfo_address = address,
        QosPingSiteInfo_port = port\<rparr>)],
      QosConfigInfo_serviceId := 1161889797, QosConfigInfo_latencyProbes := 1\<rparr>)"

definition WritePostAuth ::
  "services \<Rightarrow> PssConfig \<Rightarrow> TelemetryServer \<Rightarrow> TickerServer \<Rightarrow> UserOptions \<Rightarrow> (packet \<Rightarrow> packet option) list" where
  "WritePostAuth S pss telemetry tick options =
     [within (push_struct (sc_json S) ''PSS'') [PssConfig_Write (sc_json S) pss],
      within (push_struct (sc_json S) ''TELE'') [TelemetryServer_Write (sc_json S) telemetry],
      within (push_struct (sc_json S) ''TICK'') [TickerServer_Write (sc_json S) tick],
      within (push_struct (sc_json S) ''UROP'') [UserOptions_Write (sc_json S) options]]"

definition Util_Ping :: "services \<Rightarrow> request \<Rightarrow> handler" where
  "Util_Ping S q = reply S q (put_values S [(''STIM'', sc_now S)])"

definition Util_GetTelemetryServer :: "services \<Rightarrow> request \<Rightarrow> handler" where
  "Util_GetTelemetryServer S q s = reply S q [TelemetryServer_Write (sc_json S) (TelemetryServer_of S True s)] s"

definition component_ids :: "u16 list" where
  "component_ids = [Association_Id, Auth_Id, GameManager_Id, Messaging_Id, Playgroups_Id, Redirector_Id, Rooms_Id,
     UserSession_Id, Util_Id]"

definition WritePreAuth :: "services \<Rightarrow> string \<Rightarrow> string \<Rightarrow> (packet \<Rightarrow> packet option) list" where
  "WritePreAuth S serviceName platform =
     (let J = sc_json S in
      [put_string J ''ASRC'' ''321915'',
       within (push_list J ''CIDS'' T_Integer False) [each (\<lambda>i. put_integer J [] (ucast i)) component_ids],
       within (push_struct J ''CONF'')
         [within (push_map J ''CONF'' T_String T_String) [put_string J ''pingPeriod'' ''20000'']]] @
      put_texts S [(''INST'', serviceName), (''NASP'', ''cem_ea_id''), (''PILD'', []), (''PLAT'', platform)] @
      [within (push_struct J ''QOSS'') [QosConfigInfo_Write J (QosConfigInfo_of S
         \<lparr>QosConfigInfo_bandwidthPingSiteInfo = [], QosConfigInfo_pingSiteInfoByAlias = [], QosConfigInfo_serviceId = 0,
          QosConfigInfo_latencyProbes = 0\<rparr>)]] @
      put_texts S [(''RSRC'', ''321915''), (''SVER'', ''Blaze 3.9.3.1'')])"

definition Util_PreAuth :: "services \<Rightarrow> request \<Rightarrow> handler" where
  "Util_PreAuth S q s = do {
     clientInfo \<leftarrow> subscript (sc_json S) (document_of s) ''CINF'';
     cdat \<leftarrow> subscript (sc_json S) (document_of s) ''CDAT'';
     Option.bind (ClientData_Read (sc_json S) cdat (cl_data (sv_client s))) (\<lambda>data.
       let s = on_client (\<lambda>c. c\<lparr>cl_data := data\<rparr>) s in do {
         platform \<leftarrow> get_string (sc_json S) clientInfo ''PLAT'';
         reply S q (WritePreAuth S (ClientData_serviceName data) platform) s
       })
   }"

text \<open>1 is \<open>TelemetryOpt::OptIn\<close>.\<close>

definition Util_PostAuth :: "services \<Rightarrow> request \<Rightarrow> handler" where
  "Util_PostAuth S q s =
     reply S q (WritePostAuth S (PssConfig_of S) (TelemetryServer_of S False s) (TickerServer_of S)
       \<lparr>UserOptions_value = 1\<rparr>) s"

definition Util_SetClientMetrics :: "services \<Rightarrow> request \<Rightarrow> handler" where
  "Util_SetClientMetrics S q = reply_empty S q 0"

text \<open>
  The requests for the configuration of the client (1) and for saving (11) and loading (12) the
  settings of the user are accepted and not answered.
\<close>

definition Util_ParsePacket :: "services \<Rightarrow> request \<Rightarrow> handler option" where
  "Util_ParsePacket S q = map_of
     [(0x01, unanswered),
      (0x02, Util_Ping S q),
      (0x05, Util_GetTelemetryServer S q),
      (0x07, Util_PreAuth S q),
      (0x08, Util_PostAuth S q),
      (0x0B, unanswered),
      (0x0C, unanswered),
      (0x16, Util_SetClientMetrics S q)] (rq_command q)"

subsection \<open>At most one answer\<close>

lemma answered_unanswered: "answered S q k s (unanswered s)"
  unfolding unanswered_def by (intro answer_rules)

lemma notify_lists: "answered S q 0 s (NotifyUpdateListMembership S us listId s)"
  unfolding NotifyUpdateListMembership_def by (intro answer_rules)

lemmas misc_values [answer_rules] =
  answered_value [where 'a = "ListMemberId list"] answered_value [where 'a = ListIdentification]
  answered_value [where 'a = "ListMembers list"] answered_value [where 'a = ClientMessage]
  answered_value [where 'a = ClientData]

lemmas notify_lists_rules [answer_rules] = notify_lists [THEN answered_follow]

lemma Association_answers: "well_answered S q (Association_ParsePacket S q)"
proof -
  have "answered S q (Suc 0) s (AddUsersToList S q s)" "answered S q (Suc 0) s (RemoveUsersFromList S q s)"
    "answered S q (Suc 0) s (GetLists S q s)" for s
    unfolding AddUsersToList_def RemoveUsersFromList_def GetLists_def Let_def by (intro answer_rules)+
  then show ?thesis unfolding Association_ParsePacket_def by (intro well_answered_table) simp
qed

lemma message_to_target_silent:
  assumes "message_to_target m s = Some (name, m', t)"
  shows "silent s t"
proof -
  have "message_to_game g m s = Some (name, m', t) \<Longrightarrow> silent s t" for g
    by (auto simp: message_to_game_def split: option.splits prod.splits bind_splits intro: answer_rules)
  then show ?thesis
    using assms by (auto simp: message_to_target_def split: option.splits prod.splits if_splits intro: answer_rules)
qed

lemma answered_NotifyMessage: "answered S q 0 s (NotifyMessage S m s)"
proof (cases "message_to_target m s")
  case (Some r)
  obtain name m' t where r: "r = (name, m', t)" by (cases r)
  then have "silent s t" using message_to_target_silent Some by simp
  then show ?thesis unfolding NotifyMessage_def Some r by (simp add: answer_rules)
qed (simp add: NotifyMessage_def answer_rules)

lemmas messaging_rules [answer_rules] = answered_NotifyMessage [THEN answered_follow]

lemma Messaging_answers: "well_answered S q (Messaging_ParsePacket S q)"
proof -
  have "answered S q (Suc 0) s (OnSendMessageResponse S q s)" for s
    unfolding OnSendMessageResponse_def Let_def by (intro answer_rules)
  then show ?thesis unfolding Messaging_ParsePacket_def by (intro well_answered_table) (simp add: answered_unanswered)
qed

lemma Playgroups_answers: "well_answered S q (Playgroups_ParsePacket q)"
  unfolding Playgroups_ParsePacket_def by (intro well_answered_table) (auto simp: answered_unanswered)

lemma Util_answers: "well_answered S q (Util_ParsePacket S q)"
proof -
  have "answered S q (Suc 0) s (Util_Ping S q s)" "answered S q (Suc 0) s (Util_GetTelemetryServer S q s)"
    "answered S q (Suc 0) s (Util_PreAuth S q s)" "answered S q (Suc 0) s (Util_PostAuth S q s)"
    "answered S q (Suc 0) s (Util_SetClientMetrics S q s)" for s
    unfolding Util_Ping_def Util_GetTelemetryServer_def Util_PreAuth_def Util_PostAuth_def Util_SetClientMetrics_def Let_def
    by (intro answer_rules)+
  then show ?thesis unfolding Util_ParsePacket_def by (intro well_answered_table) (simp add: answered_unanswered)
qed

end
