(* ===== verification/Dispatch.thy ===== *)
theory Dispatch
  imports MiscRequests
begin

text \<open>
  From the socket to the handlers: \<open>ComponentManager::Get\<close> of \<open>source/Blaze/Component.cpp\<close> and
  \<open>handle_read\<close>, \<open>parse_packets\<close> of \<open>source/Blaze/Client.cpp\<close>.  A read puts bytes at the front of the
  buffer of the client, whose capacity stays what it is; what was behind them stays there.
\<close>

subsection \<open>Dispatch\<close>

definition ComponentManager_Get :: "services \<Rightarrow> request \<Rightarrow> handler option option" where
  "ComponentManager_Get S q = map_of
     [(Auth_Id, Auth_ParsePacket S q),
      (GameManager_Id, GameManager_ParsePacket S q),
      (Redirector_Id, Redirector_ParsePacket S q),
      (Playgroups_Id, Playgroups_ParsePacket q),
      (Util_Id, Util_ParsePacket S q),
      (Messaging_Id, Messaging_ParsePacket S q),
      (Rooms_Id, Rooms_ParsePacket S q),
      (Association_Id, Association_ParsePacket S q),
      (UserSession_Id, UserSession_ParsePacket S q)] (rq_component q)"

text \<open>Of an unknown component and of an unknown command only the console hears.\<close>

definition dispatch :: "services \<Rightarrow> request \<Rightarrow> handler" where
  "dispatch S q s = (case ComponentManager_Get S q of Some (Some f) \<Rightarrow> f s | _ \<Rightarrow> Some s)"

text \<open>The bound of the parser is one more than the bytes that are left: no restriction.\<close>

definition parse_packets :: "services \<Rightarrow> handler" where
  "parse_packets S s =
     Option.bind (read_header (sc_host S) (cl_read (sv_client s))) (\<lambda>(q, b).
     Option.bind (Parser_Read (Suc (left b)) (sc_json S) b) (\<lambda>(document, b).
       dispatch S q (on_client (\<lambda>c. c\<lparr>cl_read := b, cl_document := document\<rparr>) s)))"

primrec parse_loop :: "nat \<Rightarrow> services \<Rightarrow> nat \<Rightarrow> handler" where
  "parse_loop 0 S n s = None"
| "parse_loop (Suc k) S n s =
     (if mPosition (cl_read (sv_client s)) < n then Option.bind (parse_packets S s) (parse_loop k S n) else Some s)"

definition received :: "bytes \<Rightarrow> databuffer \<Rightarrow> databuffer" where
  "received data b = b\<lparr>mBuffer := data @ drop (length data) (mBuffer b)\<rparr>"

definition begin_read :: "bytes \<Rightarrow> server \<Rightarrow> server" where
  "begin_read data s = on_client (\<lambda>c. c\<lparr>
     cl_read := set_position 0 (db_resize (length data) (received data (cl_read c))), cl_writes := []\<rparr>) s"

text \<open>The turns of the loop are bounded by the bytes; one is enough.\<close>

definition handle_read :: "services \<Rightarrow> bytes \<Rightarrow> handler" where
  "handle_read S data s = parse_loop (Suc (length data)) S (length data) (begin_read data s)"

text \<open>What is written to the socket afterwards.\<close>

definition sent :: "server \<Rightarrow> bytes list" where
  "sent s = map content (cl_writes (sv_client s))"

text \<open>A client that has connected; what its data hold is not initialised.\<close>

definition Client_new :: "u32 \<Rightarrow> ClientData \<Rightarrow> client" where
  "Client_new i data = \<lparr>cl_id = i, cl_user = None, cl_data = data, cl_document = JObject [],
     cl_read = db_resize 10240 db_empty, cl_writes = []\<rparr>"

subsection \<open>Answers\<close>

lemma well_answered_dispatch: "answered S q (Suc 0) s (dispatch S q s)"
proof -
  have "\<forall>h \<in> set [Auth_ParsePacket S q, GameManager_ParsePacket S q, Redirector_ParsePacket S q, Playgroups_ParsePacket q,
      Util_ParsePacket S q, Messaging_ParsePacket S q, Rooms_ParsePacket S q, Association_ParsePacket S q,
      UserSession_ParsePacket S q]. well_answered S q h"
    by (simp add: Auth_answers GameManager_answers Redirector_answers Playgroups_answers Util_answers
        Messaging_answers Rooms_answers Association_answers UserSession_answers)
  then have "well_answered S q h" if "ComponentManager_Get S q = Some h" for h
    using that by (auto simp: ComponentManager_Get_def split: if_splits)
  then show ?thesis
    unfolding dispatch_def by (auto simp: well_answered_def answered_done silent_rules split: option.splits)
qed

lemma document_end: "ReadDocument k n J doc b = Some (v, c) \<Longrightarrow> ahead b c \<and> eof c"
proof (induction k arbitrary: doc b)
  case (Suc k)
  show ?case
  proof (cases "eof b")
    case False
    then obtain d e where d: "ReadValue n J doc b = Some (d, e)" "ReadDocument k n J d e = Some (v, c)"
      using Suc.prems by (auto split: bind_splits)
    then have "ahead b e" using value_shrinks by (simp add: shrinks_strictly_def)
    then show ?thesis using Suc.IH [OF d(2)] ahead_trans by blast
  qed (use Suc.prems in simp)
qed (auto split: if_splits)

lemma read_header_ahead:
  assumes "read_header h b = Some (q, c)"
  shows "ahead b c"
proof -
  have t: "shrinks (read_u16_be h)" "shrinks (read_u32_be h)"
    using shrinks_read_T [of h 2] shrinks_read_T [of h 4] unfolding shrinks_def read_u16_be_def read_u32_be_def
    by fastforce+
  have "shrinks (read_header h)"
    unfolding read_header_def [abs_def] by (intro shrink_rules t)
  then show ?thesis using assms by (simp add: shrinks_def)
qed

lemma parse_packets_step:
  assumes "parse_packets S s = Some t"
  obtains q b c doc where "read_header (sc_host S) (cl_read (sv_client s)) = Some (q, b)"
    "Parser_Read (Suc (left b)) (sc_json S) b = Some (doc, c)" "ahead (cl_read (sv_client s)) c" "eof c"
    "dispatch S q (on_client (\<lambda>x. x\<lparr>cl_read := c, cl_document := doc\<rparr>) s) = Some t" "cl_read (sv_client t) = c"
    "cl_document (sv_client t) = doc"
    "\<exists>ms. cl_writes (sv_client t) = cl_writes (sv_client s) @ map (frame_of S q) ms \<and> length (filter is_answer ms) \<le> Suc 0"
proof -
  obtain q b doc c where r: "read_header (sc_host S) (cl_read (sv_client s)) = Some (q, b)"
    "Parser_Read (Suc (left b)) (sc_json S) b = Some (doc, c)"
    "dispatch S q (on_client (\<lambda>x. x\<lparr>cl_read := c, cl_document := doc\<rparr>) s) = Some t"
    using assms by (auto simp: parse_packets_def split: bind_splits)
  have "ahead b c" "eof c" using document_end r(2) unfolding Parser_Read_def by blast+
  then have a: "ahead (cl_read (sv_client s)) c" using read_header_ahead [OF r(1)] ahead_trans by blast
  note w = well_answered_dispatch [of S q "on_client (\<lambda>x. x\<lparr>cl_read := c, cl_document := doc\<rparr>) s",
      unfolded answered_def kept_def, rule_format, OF r(3)]
  show thesis by (rule that [OF r(1,2) a \<open>eof c\<close> r(3)]) (use w in simp_all)
qed

text \<open>A read of at least one byte is one turn of the loop.\<close>

lemma begin_read_buffer:
  assumes "length data \<le> db_capacity (cl_read (sv_client s))"
  shows "cl_read (sv_client (begin_read data s)) =
      \<lparr>mBuffer = data @ drop (length data) (mBuffer (cl_read (sv_client s))), mSize = length data, mPosition = 0\<rparr>"
  using assms by (simp add: begin_read_def received_def db_resize_def set_position_def db_capacity_def Let_def)

lemma handle_read_once:
  assumes "length data \<le> db_capacity (cl_read (sv_client s))"
  shows "handle_read S data s =
    (if data = [] then Some (begin_read data s) else parse_packets S (begin_read data s))"
proof (cases data)
  case (Cons x xs)
  have one: "Option.bind (parse_packets S (begin_read data s)) (parse_loop (length data) S (length data)) =
      parse_packets S (begin_read data s)"
  proof (cases "parse_packets S (begin_read data s)")
    case (Some t)
    then obtain c where "ahead (cl_read (sv_client (begin_read data s))) c" "eof c" "cl_read (sv_client t) = c"
      by (rule parse_packets_step)
    then have "\<not> mPosition (cl_read (sv_client t)) < length data"
      using begin_read_buffer [OF assms] by (simp add: ahead_def eof_def)
    then have "parse_loop (length data) S (length data) t = Some t" using Cons by simp
    then show ?thesis by (simp add: Some)
  qed simp
  have "mPosition (cl_read (sv_client (begin_read data s))) < length data" using begin_read_buffer [OF assms] Cons by simp
  then have "handle_read S data s = Option.bind (parse_packets S (begin_read data s)) (parse_loop (length data) S (length data))"
    by (simp add: handle_read_def)
  with one show ?thesis using Cons by simp
qed (use begin_read_buffer [OF assms] in \<open>simp add: handle_read_def\<close>)

subsection \<open>The header of a frame\<close>

lemma read_header_frame:
  assumes "remaining b = frame_header n t i component command err @ rest" and "mPosition b \<le> length (mBuffer b)" and "t < 16"
  shows "read_header h b = Some (\<lparr>rq_type = t, rq_id = i AND 0xFFFFF, rq_length = of_nat n, rq_component = component,
      rq_command = command, rq_error = err\<rparr>, b\<lparr>mPosition := mPosition b + 12\<rparr>)"
proof -
  have len: "length (remaining b) = length (mBuffer b) - mPosition b" by (simp add: remaining_def)
  then have room: "mPosition b + 12 \<le> length (mBuffer b)" using assms(1,2) by simp
  have r16: "read_u16_be h (b\<lparr>mPosition := mPosition b + k\<rparr>) = Some (w, b\<lparr>mPosition := mPosition b + (k + 2)\<rparr>)"
    if "drop k (remaining b) = bytes_be 2 w @ r" "k \<le> 10" for k w r
  proof -
    have "remaining (b\<lparr>mPosition := mPosition b + k\<rparr>) = bytes_be 2 w @ r"
      using that by (simp add: remaining_def add.commute)
    then show ?thesis
      using read_be_remaining [of "b\<lparr>mPosition := mPosition b + k\<rparr>" 2 w r h] room that(2) by (simp add: read_u16_be_def add.assoc)
  qed
  have r32: "read_u32_be h (b\<lparr>mPosition := mPosition b + 8\<rparr>) = Some (message_word t i, b\<lparr>mPosition := mPosition b + 12\<rparr>)"
  proof -
    have "remaining (b\<lparr>mPosition := mPosition b + 8\<rparr>) = bytes_be 4 (message_word t i) @ rest"
      using arg_cong [OF assms(1), of "drop 8"] by (simp add: remaining_def frame_header_def add.commute)
    then show ?thesis
      using read_be_remaining [of "b\<lparr>mPosition := mPosition b + 8\<rparr>" 4 "message_word t i" rest h] room
      by (simp add: read_u32_be_def add.commute)
  qed
  note m = message_word_parts [OF assms(3), of i]
  have z: "b\<lparr>mPosition := mPosition b + 0\<rparr> = b" by simp
  show ?thesis
    using r16 [of 0 "of_nat n"] r16 [of 2 component] r16 [of 4 command] r16 [of 6 err] r32
    by (simp add: assms(1) frame_header_def read_header_def m)
qed

end
