(* ===== verification/ServerInvariant.thy ===== *)
theory ServerInvariant
  imports Dispatch
begin

text \<open>
  What every request keeps: the games, the rooms and the sessions are consistent, and the references
  that the users and the client hold lead to objects.  The sessions change only by the steps of
  \<open>Sessions\<close>.
\<close>

definition server_ok :: "server \<Rightarrow> bool" where
  "server_ok s \<longleftrightarrow> games_ok (sv_games s) \<and> rooms_ok (sv_rooms s) \<and> sessions_ok (sv_sessions s) \<and>
     (\<forall>a g. sv_user_game s a = Some g \<longrightarrow> g < length (objects (sv_games s))) \<and>
     (\<forall>a. get_user s = Some a \<longrightarrow> a < length (users (sv_sessions s)))"

lemma server_okD:
  assumes "server_ok s"
  shows "games_ok (sv_games s)" "rooms_ok (sv_rooms s)" "sessions_ok (sv_sessions s)"
    "sv_user_game s a = Some g \<Longrightarrow> g < length (objects (sv_games s))"
    "get_user s = Some b \<Longrightarrow> b < length (users (sv_sessions s))"
  using assms by (auto simp: server_ok_def)

subsection \<open>Steps and handlers that keep it\<close>

definition good :: "services \<Rightarrow> server \<Rightarrow> server \<Rightarrow> bool" where
  "good S s t \<longleftrightarrow> (server_ok s \<longrightarrow> server_ok t \<and> reachable (sc_env S) (sv_sessions s) (sv_sessions t))"

definition safe :: "services \<Rightarrow> server \<Rightarrow> server option \<Rightarrow> bool" where
  "safe S s r \<longleftrightarrow> (\<forall>t. r = Some t \<longrightarrow> good S s t)"

named_theorems safe_rules

lemma reachable_trans: "reachable E b c \<Longrightarrow> reachable E a b \<Longrightarrow> reachable E a c"
  by (induction rule: reachable.induct) (auto intro: reachable.more)

lemma reachable_step: "step E a b \<Longrightarrow> reachable E a b"
  by (rule reachable.more [OF reachable.start])

lemma good_refl [safe_rules]: "good S s s"
  by (simp add: good_def reachable.start)

lemma good_trans: "good S s t \<Longrightarrow> good S t u \<Longrightarrow> good S s u"
  unfolding good_def by (meson reachable_trans)

lemma safe_after: "good S s t \<Longrightarrow> safe S t r \<Longrightarrow> safe S s r"
  unfolding safe_def using good_trans by blast

lemma safe_None [safe_rules]: "safe S s None"
  by (simp add: safe_def)

lemma safe_done [safe_rules]: "good S s t \<Longrightarrow> safe S s (Some t)"
  by (simp add: safe_def)

lemma safe_then: "safe S s r \<Longrightarrow> (\<And>t. safe S t (g t)) \<Longrightarrow> safe S s (Option.bind r g)"
  unfolding safe_def by (auto split: bind_splits intro: good_trans)

lemma good_same:
  "sv_games t = sv_games s \<Longrightarrow> sv_rooms t = sv_rooms s \<Longrightarrow> sv_sessions t = sv_sessions s \<Longrightarrow>
   sv_user_game t = sv_user_game s \<Longrightarrow> get_user t = get_user s \<Longrightarrow> good S s t"
  by (simp add: good_def server_ok_def reachable.start)

lemma good_Client_send: "good S s (Client_send S x i component command err b s)"
  by (rule good_same) (simp_all add: Client_send_def get_user_def)

lemma safe_sends:
  "safe S s (reply S q fs s)" "safe S s (reply_empty S q e s)" "safe S s (notify S component command fs s)"
  by (auto simp: safe_def reply_def reply_empty_def notify_def good_Client_send split: bind_splits)

lemmas safe_sends_rules [safe_rules] = safe_sends [THEN safe_after [rotated]]
lemmas safe_sends_then [safe_rules] = safe_sends_rules [THEN safe_then]

lemma safe_value: "(\<And>x. v = Some x \<Longrightarrow> safe S s (g x)) \<Longrightarrow> safe S s (Option.bind v g)"
  by (cases v) (simp_all add: safe_def)

lemma safe_map [safe_rules]: "(\<And>x. v = Some x \<Longrightarrow> safe S s (Some (f x))) \<Longrightarrow> safe S s (map_option f v)"
  by (cases v) (simp_all add: safe_def)

lemma safe_if [safe_rules]:
  "(c \<Longrightarrow> safe S s r) \<Longrightarrow> (\<not> c \<Longrightarrow> safe S s t) \<Longrightarrow> safe S s (if c then r else t)"
  by simp

lemma safe_option [safe_rules]:
  "safe S s r \<Longrightarrow> (\<And>x. v = Some x \<Longrightarrow> safe S s (g x)) \<Longrightarrow> safe S s (case v of None \<Rightarrow> r | Some x \<Rightarrow> g x)"
  by (cases v) simp_all

lemma safe_pair [safe_rules]:
  "(\<And>x y. v = (x, y) \<Longrightarrow> safe S s (g x y)) \<Longrightarrow> safe S s (case v of (x, y) \<Rightarrow> g x y)"
  by (cases v) simp_all

lemmas safe_values [safe_rules] =
  safe_value [where 'a = u32] safe_value [where 'a = u64] safe_value [where 'a = string]
  safe_value [where 'a = jval] safe_value [where 'a = "jval list"]
  safe_value [where 'a = UserIdentification] safe_value [where 'a = IpPairAddress]
  safe_value [where 'a = PresenceInfo] safe_value [where 'a = CreateGameRequest] safe_value [where 'a = game]
  safe_value [where 'a = PlayerConnectionStatus] safe_value [where 'a = "ListMemberId list"]
  safe_value [where 'a = ListIdentification] safe_value [where 'a = "ListMembers list"]
  safe_value [where 'a = ClientMessage] safe_value [where 'a = ClientData]
  safe_value [where 'a = "(packet \<Rightarrow> packet option) list"]

subsection \<open>Changes of the sessions\<close>

definition keeps_login :: "(User \<Rightarrow> User) \<Rightarrow> bool" where
  "keeps_login f \<longleftrightarrow> (\<forall>u. mUsername (f u) = mUsername u \<and> mPassword (f u) = mPassword u)"

lemma keeps_login_steps [simp]:
  "keeps_login (set_address ip)" "keeps_login session_data" "keeps_login (mAuthToken_update f)" "keeps_login (mRoom_update g)"
  by (simp_all add: keeps_login_def set_address_def session_data_def)

lemma step_update_user:
  "sessions_ok x \<Longrightarrow> a < length (users x) \<Longrightarrow> keeps_login f \<Longrightarrow> step E x (update_user a f x) \<and> sessions_ok (update_user a f x)"
  using step.change [of f a x E] step_invariant by (auto simp: keeps_login_def)

lemma good_sessions:
  assumes "\<And>a. get_user t = Some a \<Longrightarrow> server_ok s \<Longrightarrow> a < length (users (sv_sessions t))"
    and "server_ok s \<Longrightarrow> reachable (sc_env S) (sv_sessions s) (sv_sessions t) \<and> sessions_ok (sv_sessions t)"
    and "sv_games t = sv_games s" and "sv_rooms t = sv_rooms s" and "sv_user_game t = sv_user_game s"
  shows "good S s t"
  using assms by (auto simp: good_def server_ok_def)

lemma good_update_user:
  assumes "get_user s = Some a" and "keeps_login f"
  shows "good S s (with_sessions (update_user a f) s)"
proof (rule good_sessions)
  assume "server_ok s"
  then show "reachable (sc_env S) (sv_sessions s) (sv_sessions (with_sessions (update_user a f) s)) \<and>
      sessions_ok (sv_sessions (with_sessions (update_user a f) s))"
    using step_update_user [of "sv_sessions s" a f "sc_env S"] server_okD assms reachable_step
    by (auto simp: with_sessions_def)
next
  fix b assume "get_user (with_sessions (update_user a f) s) = Some b" "server_ok s"
  then show "b < length (users (sv_sessions (with_sessions (update_user a f) s)))"
    using server_okD(5) [of s b] by (simp add: with_sessions_def get_user_def update_user_def)
qed (simp_all add: with_sessions_def)

lemma good_set_user:
  assumes "server_ok s \<Longrightarrow> a < length (users (sv_sessions s))"
  shows "good S s (set_user (Some a) s)"
  by (rule good_sessions) (auto simp: set_user_def get_user_def assms server_okD reachable.start)

lemma sessions_ok_place:
  assumes "sessions_ok x" and "a \<in> set (GetUsers x)"
  shows "a < length (users x)"
proof -
  obtain k where "(k, a) \<in> set (RBT.entries (sUsersByEmail x))" using assms(2) by (auto simp: GetUsers_def)
  then have "RBT.lookup (sUsersByEmail x) k = Some a"
    using map_of_is_SomeI [OF RBT.distinct_entries] RBT.map_of_entries by metis
  then show ?thesis using assms(1) by (simp add: sessions_ok_def)
qed

lemma find_member: "find P xs = Some a \<Longrightarrow> a \<in> set xs"
  by (auto simp: find_Some_iff)

lemma found_place:
  assumes "sessions_ok x"
  shows "GetUserByAuthToken k x = Some a \<Longrightarrow> a < length (users x)" "GetUserByEmail e x = Some a \<Longrightarrow> a < length (users x)"
    "GetUserById i x = Some a \<Longrightarrow> a < length (users x)"
proof -
  note place = sessions_ok_place [OF assms find_member]
  show "a < length (users x)" if "GetUserByAuthToken k x = Some a" using place that unfolding GetUserByAuthToken_def .
  show "a < length (users x)" if "GetUserById i x = Some a" using place that unfolding GetUserById_def .
  show "a < length (users x)" if "GetUserByEmail e x = Some a"
    using assms that by (simp add: sessions_ok_def GetUserByEmail_def)
qed


lemma good_found_user:
  "GetUserByAuthToken k (sv_sessions s) = Some a \<Longrightarrow> good S s (set_user (Some a) s)"
  "GetUserByEmail e (sv_sessions s) = Some a \<Longrightarrow> good S s (set_user (Some a) s)"
  by (rule good_set_user, drule server_okD(3), erule found_place, assumption)+

lemma Login_place: "sessions_ok x \<Longrightarrow> Login E j js u p x = ((a, success, before), y) \<Longrightarrow> a < length (users y)"
  by (auto simp: Login_def sessions_ok_def Let_def split: option.splits prod.splits)

lemma good_Login:
  assumes "Login (sc_env S) j js u p (sv_sessions s) = ((a, success, before), x)"
  shows "good S s (s\<lparr>sv_sessions := x\<rparr>)"
    and "good S s (set_user (Some a) (with_sessions (update_user a session_data) (s\<lparr>sv_sessions := x\<rparr>)))"
proof -
  have st: "step (sc_env S) (sv_sessions s) x" by (rule step.login [OF assms])
  have len: "length (users (sv_sessions s)) \<le> length (users x)"
    using assms by (auto simp: Login_def Let_def split: option.splits prod.splits)
  show g: "good S s (s\<lparr>sv_sessions := x\<rparr>)"
  proof (rule good_sessions)
    fix b assume "get_user (s\<lparr>sv_sessions := x\<rparr>) = Some b" "server_ok s"
    then show "b < length (users (sv_sessions (s\<lparr>sv_sessions := x\<rparr>)))"
      using server_okD(5) [of s b] len by (simp add: get_user_def)
  next
    assume "server_ok s"
    then show "reachable (sc_env S) (sv_sessions s) (sv_sessions (s\<lparr>sv_sessions := x\<rparr>)) \<and>
        sessions_ok (sv_sessions (s\<lparr>sv_sessions := x\<rparr>))"
      using st step_invariant reachable_step server_okD(3) by auto
  qed simp_all
  show "good S s (set_user (Some a) (with_sessions (update_user a session_data) (s\<lparr>sv_sessions := x\<rparr>)))"
  proof (rule good_sessions)
    assume ok: "server_ok s"
    then have x: "sessions_ok x" using st step_invariant server_okD(3) by blast
    have "a < length (users x)" by (rule Login_place [OF server_okD(3) [OF ok] assms])
    then show "reachable (sc_env S) (sv_sessions s)
        (sv_sessions (set_user (Some a) (with_sessions (update_user a session_data) (s\<lparr>sv_sessions := x\<rparr>)))) \<and>
        sessions_ok (sv_sessions (set_user (Some a) (with_sessions (update_user a session_data) (s\<lparr>sv_sessions := x\<rparr>))))"
      using step_update_user [OF x, of a session_data "sc_env S"] st
      by (auto simp: set_user_def with_sessions_def intro: reachable.more reachable_step)
  next
    fix b assume "get_user (set_user (Some a) (with_sessions (update_user a session_data) (s\<lparr>sv_sessions := x\<rparr>))) = Some b" "server_ok s"
    then show "b < length (users (sv_sessions (set_user (Some a) (with_sessions (update_user a session_data) (s\<lparr>sv_sessions := x\<rparr>)))))"
      using Login_place [OF server_okD(3) assms] by (simp add: get_user_def set_user_def with_sessions_def update_user_def)
  qed (simp_all add: set_user_def with_sessions_def)
qed

lemma good_Logout:
  assumes "get_user s = Some a" and "Logout (env_xml (sc_env S)) (env_floats (sc_env S)) a (sv_sessions s) = Some x"
  shows "good S s (s\<lparr>sv_sessions := x\<rparr>)"
proof (rule good_sessions)
  assume ok: "server_ok s"
  then have "step (sc_env S) (sv_sessions s) x" using assms server_okD(5) by (blast intro: step.logout)
  then show "reachable (sc_env S) (sv_sessions s) (sv_sessions (s\<lparr>sv_sessions := x\<rparr>)) \<and>
      sessions_ok (sv_sessions (s\<lparr>sv_sessions := x\<rparr>))"
    using step_invariant reachable_step server_okD(3) [OF ok] by auto
next
  fix b assume "get_user (s\<lparr>sv_sessions := x\<rparr>) = Some b" "server_ok s"
  moreover have "users x = users (sv_sessions s)" using assms(2) by (auto simp: Logout_def RemoveUser_def split: bind_splits)
  ultimately show "b < length (users (sv_sessions (s\<lparr>sv_sessions := x\<rparr>)))"
    using server_okD(5) [of s b] by (simp add: get_user_def)
qed simp_all

subsection \<open>The components\<close>

definition well_behaved :: "services \<Rightarrow> handler option \<Rightarrow> bool" where
  "well_behaved S h \<longleftrightarrow> (\<forall>f s. h = Some f \<longrightarrow> safe S s (f s))"

lemma well_behaved_table: "\<forall>(c, f) \<in> set fs. \<forall>s. safe S s (f s) \<Longrightarrow> well_behaved S (map_of fs c)"
  unfolding well_behaved_def by (auto dest: map_of_SomeD)

lemma safe_notify_sessions:
  "safe S s (NotifyUserSessionExtendedDataUpdate S i d s)" "safe S s (NotifyUserAdded S a s)" "safe S s (NotifyUserUpdated S a state s)"
  unfolding NotifyUserSessionExtendedDataUpdate_def NotifyUserAdded_def NotifyUserUpdated_def Let_def
  by (intro safe_rules)+

lemmas safe_notify_sessions_rules [safe_rules] =
  safe_notify_sessions [THEN safe_after [rotated]] safe_notify_sessions [THEN safe_after [rotated], THEN safe_then]

lemma UserSession_safe: "well_behaved S (UserSession_ParsePacket S q)"
proof -
  have "safe S s (UserSession_LookupUser S q s)" "safe S s (UserSession_UpdateNetworkInfo S q s)"
    "safe S s (UserSession_UpdateUserSessionClientData S q s)" for s
    unfolding UserSession_LookupUser_def UserSession_UpdateNetworkInfo_def UserSession_UpdateUserSessionClientData_def Let_def
    by (intro safe_rules good_update_user keeps_login_steps | assumption)+
  then show ?thesis unfolding UserSession_ParsePacket_def by (intro well_behaved_table) simp
qed

lemma Auth_safe: "well_behaved S (Auth_ParsePacket S q)"
proof -
  have "safe S s (Auth_GetAuthToken S q s)" "safe S s (Auth_Login S q s)"
    "safe S s (Auth_AcceptTOS S q s)" "safe S s (Auth_GetTOSInfo S q s)"
    "safe S s (Auth_GetTermsAndConditions S q s)" "safe S s (Auth_GetPrivacyPolicy S q s)"
    "safe S s (Auth_SilentLogin S q s)" "safe S s (Auth_ExpressLogin S q s)"
    "safe S s (Auth_Logout S q s)" "safe S s (Auth_LoginPersona S q s)" for s
    unfolding Auth_GetAuthToken_def Auth_Login_def Auth_AcceptTOS_def Auth_GetTOSInfo_def Auth_GetTermsAndConditions_def
      Auth_GetPrivacyPolicy_def Auth_SilentLogin_def Auth_ExpressLogin_def Auth_Logout_def Auth_LoginPersona_def Let_def
    by (intro safe_rules good_update_user keeps_login_steps good_found_user good_Login good_Logout | assumption | clarify)+
  then show ?thesis unfolding Auth_ParsePacket_def by (intro well_behaved_table) simp
qed

lemma Redirector_safe: "well_behaved S (Redirector_ParsePacket S q)"
  unfolding Redirector_ParsePacket_def
  by (intro well_behaved_table) (auto simp: Redirector_GetServerInstance_def intro!: safe_rules)


text \<open>Rooms.\<close>

lemma good_rooms: "(server_ok s \<Longrightarrow> rooms_ok m) \<Longrightarrow> good S s (s\<lparr>sv_rooms := m\<rparr>)"
  by (simp add: good_def server_ok_def get_user_def reachable.start)

lemma join_target_ok: "rooms_ok m \<Longrightarrow> join_target i m = (r, k, m') \<Longrightarrow> rooms_ok m'"
  by (auto simp: join_target_def Let_def split: if_splits prod.splits dest: CreateRoom_ok)

lemma join_category_ok:
  assumes "rooms_ok m" and "join_category i m = (c, m')"
  shows "rooms_ok m' \<and> (\<forall>k. c = Some k \<longrightarrow> k < length (objects (mRoomCategories m')))"
proof (cases "i = 0")
  case True
  then obtain k where "CreateRoomCategory 0 m = (k, m')" "c = Some k"
    using assms(2) by (auto simp: join_category_def split: prod.splits)
  then show ?thesis using CreateRoomCategory_ok [OF assms(1)] by blast
next
  case False
  have "categories.registered (mRoomCategories m)" using assms(1) by (simp add: rooms_ok_def)
  then show ?thesis using assms False by (auto simp: join_category_def GetRoomCategory_def categories.registered_def)
qed

lemma ensure_view_ok:
  assumes "rooms_ok m"
  shows "rooms_ok (ensure_view c m) \<and> length (objects (mRoomCategories (ensure_view c m))) = length (objects (mRoomCategories m))"
proof -
  obtain v m' where v: "CreateRoomView 0 m = (v, m')" by fastforce
  note ok = CreateRoomView_ok [OF assms v]
  then have "rooms_ok (SetView c (Some v) m')" using set_ok(1) by blast
  moreover have "length (objects (mRoomCategories (SetView c (Some v) m'))) = length (objects (mRoomCategories m))"
    using ok by (simp add: SetView_def object_update)
  ultimately show ?thesis using assms by (simp add: ensure_view_def v)
qed

lemma good_enter_room:
  assumes "get_user s = Some a" and "server_ok s \<Longrightarrow> c < length (objects (mRoomCategories (sv_rooms s)))"
  shows "good S s (enter_room r c a s)"
proof -
  let ?m = "SetCategory r (Some c) (ensure_view c (sv_rooms s))"
  define m x where mx: "m = fst (Room_AddUser r a (?m, sv_sessions s))"
    "x = update_user a (mRoom_update (\<lambda>_. Some r)) (sv_sessions s)"
  have e: "enter_room r c a s = (with_sessions (update_user a (mRoom_update (\<lambda>_. Some r))) s)\<lparr>sv_rooms := m\<rparr>"
    by (simp add: enter_room_def mx Room_AddUser_def Let_def with_sessions_def)
  have "rooms_ok m" if "server_ok s"
    unfolding mx using ensure_view_ok [OF server_okD(2) [OF that]] assms(2) [OF that]
    by (intro Room_AddUser_ok set_ok) simp_all
  then have "good S s ((with_sessions (update_user a (mRoom_update (\<lambda>_. Some r))) s)\<lparr>sv_rooms := m\<rparr>)"
    using good_update_user [OF assms(1) keeps_login_steps(4), of S] by (auto simp: good_def server_ok_def get_user_def)
  then show ?thesis by (simp add: e)
qed

lemma good_room_written: "good S s (room_written S r s)"
  unfolding room_written_def by (rule good_rooms) (intro update_room_ok server_okD; simp)

lemma good_written [safe_rules]: "good S s t \<Longrightarrow> good S s (room_written S r t)"
  by (rule good_trans [OF _ good_room_written])

lemma safe_notify_views: "safe S s (notify_view S command i s)" "safe S s (notify_category S command i s)"
  unfolding notify_view_def notify_category_def by (intro safe_rules)+

lemma safe_notify_room: "safe S s (notify_room S command i s)"
proof -
  have "safe S s (map_option (room_written S r) (notify S k command fs s))" for r k fs
    using safe_sends(3) [of S s k command fs] good_trans [OF _ good_room_written] by (auto simp: safe_def)
  then show ?thesis unfolding notify_room_def by (intro safe_option safe_done good_refl)
qed

lemma safe_notify_rooms:
  "safe S s (NotifyRoomUpdated S i s)" "safe S s (NotifyRoomAdded S i s)" "safe S s (NotifyRoomViewAdded S i s)"
  "safe S s (NotifyRoomViewUpdated S i s)" "safe S s (NotifyRoomCategoryAdded S i s)" "safe S s (NotifyRoomCategoryUpdated S i s)"
  "safe S s (NotifyRoomMemberJoined S i m s)"
  by (simp_all add: NotifyRoomUpdated_def NotifyRoomAdded_def NotifyRoomViewAdded_def NotifyRoomViewUpdated_def
      NotifyRoomCategoryAdded_def NotifyRoomCategoryUpdated_def NotifyRoomMemberJoined_def
      safe_notify_room safe_notify_views safe_sends)

lemmas safe_notify_rooms_rules [safe_rules] =
  safe_notify_rooms [THEN safe_after [rotated]] safe_notify_rooms [THEN safe_after [rotated], THEN safe_then]

lemma safe_each: "(\<And>x s. safe S s (f x s)) \<Longrightarrow> safe S s (each f xs s)"
  by (induction xs arbitrary: s) (simp_all add: safe_done good_refl safe_then)

lemma safe_category_loop:
  "safe S s (if v = 0 then Some s
     else each (\<lambda>i s. do { s \<leftarrow> NotifyRoomCategoryAdded S i s; NotifyRoomCategoryUpdated S i s }) ks s)"
  by (intro safe_if safe_each safe_rules)

text \<open>Joining: the steps one after the other.\<close>

lemma safe_join_end:
  "safe S s (Option.bind (if number = (0 :: u32) then do { s \<leftarrow> NotifyRoomAdded S roomId s; NotifyRoomUpdated S roomId s } else Some s)
     (\<lambda>s. do { fs \<leftarrow> WriteJoinRoom S r i s; s \<leftarrow> reply S q fs s; NotifyRoomMemberJoined S roomId m (room_written S r s) }))"
  by (rule safe_then) (intro safe_rules)+

lemma safe_JoinRoom: "safe S s (Rooms_JoinRoom S q s)"
proof (cases "get_user s")
  case (Some a)
  show ?thesis
    unfolding Rooms_JoinRoom_def Let_def Some option.case
  proof (intro safe_values safe_pair)
    fix roomId number categoryId and room :: "nat option" and x m
    assume "join_target number (sv_rooms s) = (room, x)" and x: "x = (roomId, m)"
    then have g: "good S s (s\<lparr>sv_rooms := m\<rparr>)" using join_target_ok server_okD(2) by (blast intro: good_rooms)
    have u: "get_user (s\<lparr>sv_rooms := m\<rparr>) = Some a" using Some by (simp add: get_user_def)
    show "safe S s (case room of None \<Rightarrow> reply_empty S q ROOMS_ERR_NOT_FOUND (s\<lparr>sv_rooms := m\<rparr>)
      | Some r \<Rightarrow> (case join_category categoryId (sv_rooms (s\<lparr>sv_rooms := m\<rparr>)) of (category, m') \<Rightarrow>
          (case category of
             None \<Rightarrow> reply_empty S q ROOMS_ERR_CREATE_UNKNOWN_CATEGORY (s\<lparr>sv_rooms := m, sv_rooms := m'\<rparr>)
           | Some c \<Rightarrow> Option.bind
               (if number = 0 then do { s \<leftarrow> NotifyRoomAdded S roomId (enter_room r c a (s\<lparr>sv_rooms := m, sv_rooms := m'\<rparr>));
                  NotifyRoomUpdated S roomId s } else Some (enter_room r c a (s\<lparr>sv_rooms := m, sv_rooms := m'\<rparr>)))
               (\<lambda>s. do { fs \<leftarrow> WriteJoinRoom S r (user_id s a) s; s \<leftarrow> reply S q fs s;
                  NotifyRoomMemberJoined S roomId (ucast (user_id s a)) (room_written S r s) }))))"
    proof (rule safe_after [OF g], intro safe_option safe_pair)
      fix r category m'
      assume c: "join_category categoryId (sv_rooms (s\<lparr>sv_rooms := m\<rparr>)) = (category, m')"
      have g': "good S (s\<lparr>sv_rooms := m\<rparr>) (s\<lparr>sv_rooms := m, sv_rooms := m'\<rparr>)"
        using good_rooms [of "s\<lparr>sv_rooms := m\<rparr>" m' S] join_category_ok [OF server_okD(2) c] by simp
      show "safe S (s\<lparr>sv_rooms := m\<rparr>) (reply_empty S q ROOMS_ERR_CREATE_UNKNOWN_CATEGORY (s\<lparr>sv_rooms := m, sv_rooms := m'\<rparr>))"
        by (rule safe_after [OF g' safe_sends(2)])
      fix c' assume c': "category = Some c'"
      let ?t = "enter_room r c' a (s\<lparr>sv_rooms := m, sv_rooms := m'\<rparr>)"
      have "good S (s\<lparr>sv_rooms := m, sv_rooms := m'\<rparr>) ?t" if "server_ok (s\<lparr>sv_rooms := m\<rparr>)"
        using join_category_ok [OF server_okD(2) [OF that] c] c' u
        by (intro good_enter_room) (simp_all add: get_user_def)
      then have g2: "good S (s\<lparr>sv_rooms := m\<rparr>) ?t" using g' unfolding good_def by (meson reachable_trans)
      show "safe S (s\<lparr>sv_rooms := m\<rparr>) (Option.bind
               (if number = 0 then do { s \<leftarrow> NotifyRoomAdded S roomId ?t; NotifyRoomUpdated S roomId s } else Some ?t)
               (\<lambda>s. do { fs \<leftarrow> WriteJoinRoom S r (user_id s a) s; s \<leftarrow> reply S q fs s;
                  NotifyRoomMemberJoined S roomId (ucast (user_id s a)) (room_written S r s) }))"
        by (rule safe_after [OF g2], rule safe_then) (intro safe_rules)+
    qed (rule safe_sends)
  qed
qed (simp add: Rooms_JoinRoom_def safe_rules)

lemma Rooms_safe: "well_behaved S (Rooms_ParsePacket S q)"
proof -
  have "safe S s (Rooms_SelectCategoryUpdates S q s)" for s
    unfolding Rooms_SelectCategoryUpdates_def
    by (rule safe_values, rule safe_then [OF safe_category_loop]) (intro safe_rules)
  moreover have "safe S s (Rooms_SelectViewUpdates S q s)" "safe S s (Rooms_SelectPseudoRoomUpdates S q s)" for s
    unfolding Rooms_SelectViewUpdates_def Rooms_SelectPseudoRoomUpdates_def Let_def by (intro safe_rules)+
  ultimately show ?thesis unfolding Rooms_ParsePacket_def by (intro well_behaved_table) (simp add: safe_JoinRoom)
qed


text \<open>Games.\<close>

lemma good_games:
  assumes "server_ok s \<Longrightarrow> games_ok G \<and> length (objects (sv_games s)) \<le> length (objects G)"
  shows "good S s (s\<lparr>sv_games := G\<rparr>)"
  using assms by (auto simp: good_def server_ok_def get_user_def reachable.start intro: less_le_trans)

lemma good_set_game: "(\<And>g. v = Some g \<Longrightarrow> server_ok s \<Longrightarrow> g < length (objects (sv_games s))) \<Longrightarrow> good S s (set_game a v s)"
  by (auto simp: good_def server_ok_def set_game_def get_user_def reachable.start)

lemma length_registry_update [simp]: "length (objects (registry_update a f R)) = length (objects R)"
  by (simp add: registry_update_def)

lemma good_update_game: "GetId (f (game_at s g)) = GetId (game_at s g) \<Longrightarrow> good S s (update_game g f s)"
  unfolding update_game_def by (rule good_games) (simp add: update_game_at server_okD(1))

lemma good_start: "good S s (s\<lparr>sv_games := StartGame now i (sv_games s)\<rparr>)"
  by (rule good_games) (simp add: StartGame_ok server_okD(1), simp add: StartGame_def split: option.splits)

lemma found_game: "server_ok s \<Longrightarrow> GetGame i (sv_games s) = Some g \<Longrightarrow> g < length (objects (sv_games s))"
  using server_okD(1) by (fastforce simp: games_ok_def all_games.registered_def GetGame_def)

lemma safe_notify_games:
  "safe S s (NotifyGameStateChange S i64 state s)" "safe S s (NotifyGameRemoved S i reason s)"
  "safe S s (NotifyPlayerJoining S player s)" "safe S s (NotifyPlayerRemoved S i persona reason s)"
  "safe S s (NotifyMatchmakingFailed S i reason s)" "safe S s (NotifyGamePlayerStateChange S i persona state s)"
  "safe S s (NotifyPlayerJoinCompleted S i persona s)" "safe S s (NotifyGameCreated S i s)"
  "safe S s (NotifyGameSetup S info players s)"
  unfolding NotifyGameStateChange_def NotifyGameRemoved_def NotifyPlayerJoining_def NotifyPlayerRemoved_def
    NotifyMatchmakingFailed_def NotifyGamePlayerStateChange_def NotifyPlayerJoinCompleted_def NotifyGameCreated_def
    NotifyGameSetup_def Let_def
  by (intro safe_rules)+

lemmas safe_notify_games_rules [safe_rules] =
  safe_notify_games [THEN safe_after [rotated]] safe_notify_games [THEN safe_after [rotated], THEN safe_then]

lemma good_remove_player:
  "good S s (case GetGame i (sv_games s) of None \<Rightarrow> s | Some g \<Rightarrow> update_game g (Game_RemovePlayer p) s)"
  by (auto simp: good_refl good_update_game split: option.splits)

lemma good_leave_game:
  assumes "good S s t"
  shows "good S s (case v of None \<Rightarrow> t | Some a \<Rightarrow> set_game a None t)"
proof -
  have "good S t (set_game a None t)" for a by (rule good_set_game) simp
  then show ?thesis using assms good_trans by (cases v) (simp, fastforce)
qed

lemma reset_game_id:
  assumes "reset_game S d data userId g = Some g'"
  shows "GetId g' = GetId g \<and> g_server g' = g_server g"
  using assms by (auto simp: reset_game_def Let_def game_data_of_def GetId_def dest!: LoadLevel_id split: prod.splits)

lemma good_create:
  assumes "CreateGame (sv_games s) = (g, G)"
  shows "good S s (set_game a (Some g) (s\<lparr>sv_games := G\<rparr>))"
proof -
  have "good S s (s\<lparr>sv_games := G\<rparr>)"
    using CreateGame_registered [OF server_okD(1) assms] by (intro good_games) simp
  moreover have "good S (s\<lparr>sv_games := G\<rparr>) (set_game a (Some g) (s\<lparr>sv_games := G\<rparr>))" if "server_ok s"
    using CreateGame_registered(2,3) [OF server_okD(1) [OF that] assms] by (intro good_set_game) simp
  ultimately show ?thesis unfolding good_def by (meson reachable_trans)
qed

lemma safe_Reset: "safe S s (GameManager_ResetDedicatedServer S q s)"
  unfolding GameManager_ResetDedicatedServer_def Let_def
proof (intro safe_option safe_pair safe_values)
  fix a g G data newGame
  assume c: "CreateGame (sv_games s) = (g, G)"
    and r: "reset_game S (disk (sv_sessions (set_game a (Some g) (s\<lparr>sv_games := G\<rparr>)))) data
      (user_id (set_game a (Some g) (s\<lparr>sv_games := G\<rparr>)) a) (game_at (set_game a (Some g) (s\<lparr>sv_games := G\<rparr>)) g) = Some newGame"
  let ?t = "set_game a (Some g) (s\<lparr>sv_games := G\<rparr>)"
  have g: "good S s (update_game g (\<lambda>_. newGame) ?t)"
    by (rule good_trans [OF good_create [OF c] good_update_game]) (use reset_game_id [OF r] in simp)
  show "safe S s (do {
      s \<leftarrow> reply S q (WriteJoinGame S (ReplicatedGameData_id (g_info newGame))) (update_game g (\<lambda>_. newGame) ?t);
      s \<leftarrow> NotifyGameCreated S (ReplicatedGameData_id (g_info newGame)) s;
      s \<leftarrow> NotifyGameSetup S (g_info newGame) [reset_player S (update_game g (\<lambda>_. newGame) ?t) a (g_info newGame) data] s;
      NotifyPlayerJoining S (reset_player S (update_game g (\<lambda>_. newGame) ?t) a (g_info newGame) data) s })"
    by (rule safe_after [OF g]) (intro safe_rules)
qed (intro safe_rules)

lemma safe_RemovePlayer: "safe S s (GameManager_RemovePlayer S q s)"
  unfolding GameManager_RemovePlayer_def Let_def
  by (intro safe_rules good_leave_game good_remove_player)

lemma safe_JoinGame: "safe S s (GameManager_JoinGame S q s)"
  unfolding GameManager_JoinGame_def Let_def
proof (intro safe_rules good_set_game)
  fix i g h assume "GetGame i (sv_games s) = Some g" "Some g = Some h" "server_ok s"
  then show "h < length (objects (sv_games s))" using found_game by blast
qed

lemma safe_Finalize: "safe S s (GameManager_FinalizeGameCreation S q s)"
  unfolding GameManager_FinalizeGameCreation_def Let_def
  by (intro safe_rules good_start)

lemma GameManager_safe: "well_behaved S (GameManager_ParsePacket S q)"
proof -
  have "safe S s (GameManager_CreateGame S q s)" "safe S s (GameManager_DestroyGame S q s)"
    "safe S s (GameManager_SetPlayerAttributes S q s)"
    "safe S s (GameManager_StartMatchmaking S q s)" "safe S s (GameManager_CancelMatchmaking S q s)"
    "safe S s (GameManager_UpdateMeshConnection S q s)" for s
    unfolding GameManager_CreateGame_def GameManager_DestroyGame_def GameManager_SetPlayerAttributes_def
      GameManager_StartMatchmaking_def GameManager_CancelMatchmaking_def GameManager_UpdateMeshConnection_def Let_def
    by (intro safe_rules)+
  then show ?thesis
    unfolding GameManager_ParsePacket_def
    by (intro well_behaved_table) (simp add: safe_JoinGame safe_RemovePlayer safe_Finalize safe_Reset)
qed

text \<open>The rest.\<close>

lemma safe_unanswered: "safe S s (unanswered s)"
  unfolding unanswered_def by (intro safe_rules)

lemma Association_safe: "well_behaved S (Association_ParsePacket S q)"
proof -
  have n: "safe S s (NotifyUpdateListMembership S us listId s)" for s us listId
    unfolding NotifyUpdateListMembership_def by (intro safe_rules)
  have "safe S s (AddUsersToList S q s)" "safe S s (RemoveUsersFromList S q s)" "safe S s (GetLists S q s)" for s
    unfolding AddUsersToList_def RemoveUsersFromList_def GetLists_def Let_def by (intro n safe_rules)+
  then show ?thesis unfolding Association_ParsePacket_def by (intro well_behaved_table) simp
qed

lemma AddServerTask_id: "AddServerTask t g = Some g' \<Longrightarrow> GetId g' = GetId g"
  by (auto simp: AddServerTask_def GetId_def)

lemma run_command_id: "run_command text g = Some (text', g') \<Longrightarrow> GetId g' = GetId g"
  by (auto simp: run_command_def packet_command_def lua_command_def AddClientTask_def Let_def split: if_splits
      dest!: AddServerTask_id)

lemma message_to_target_good:
  assumes "message_to_target m s = Some (name, m', t)"
  shows "good S s t"
proof -
  have "good S s t" if "message_to_game g m s = Some (name, m', t)" for g
    using that by (auto simp: message_to_game_def good_refl split: option.splits prod.splits bind_splits
        intro!: good_update_game dest: run_command_id)
  then show ?thesis using assms by (auto simp: message_to_target_def good_refl split: option.splits prod.splits if_splits)
qed

lemma Messaging_safe: "well_behaved S (Messaging_ParsePacket S q)"
proof -
  have n: "safe S s (NotifyMessage S m s)" for s m
  proof (cases "message_to_target m s")
    case (Some r)
    then show ?thesis
      using message_to_target_good [of m s "fst r" "fst (snd r)" "snd (snd r)" S]
      by (cases r) (simp add: NotifyMessage_def safe_rules)
  qed (simp add: NotifyMessage_def safe_rules)
  have "safe S s (OnSendMessageResponse S q s)" for s
    unfolding OnSendMessageResponse_def Let_def by (intro n safe_rules)
  then show ?thesis unfolding Messaging_ParsePacket_def by (intro well_behaved_table) (simp add: safe_unanswered)
qed

lemma Playgroups_safe: "well_behaved S (Playgroups_ParsePacket q)"
  unfolding Playgroups_ParsePacket_def by (intro well_behaved_table) (auto simp: safe_unanswered)

lemma good_client_data: "good S s (on_client (\<lambda>c. c\<lparr>cl_data := d\<rparr>) s)"
  by (rule good_same) (simp_all add: get_user_def)

lemma Util_safe: "well_behaved S (Util_ParsePacket S q)"
proof -
  have "safe S s (Util_Ping S q s)" "safe S s (Util_GetTelemetryServer S q s)" "safe S s (Util_PreAuth S q s)"
    "safe S s (Util_PostAuth S q s)" "safe S s (Util_SetClientMetrics S q s)" for s
    unfolding Util_Ping_def Util_GetTelemetryServer_def Util_PreAuth_def Util_PostAuth_def Util_SetClientMetrics_def Let_def
    by (intro safe_rules good_client_data)+
  then show ?thesis unfolding Util_ParsePacket_def by (intro well_behaved_table) (simp add: safe_unanswered)
qed

subsection \<open>Reads\<close>

lemma dispatch_safe: "safe S s (dispatch S q s)"
proof -
  have "\<forall>h \<in> set [Auth_ParsePacket S q, GameManager_ParsePacket S q, Redirector_ParsePacket S q, Playgroups_ParsePacket q,
      Util_ParsePacket S q, Messaging_ParsePacket S q, Rooms_ParsePacket S q, Association_ParsePacket S q,
      UserSession_ParsePacket S q]. well_behaved S h"
    by (simp add: Auth_safe GameManager_safe Redirector_safe Playgroups_safe Util_safe
        Messaging_safe Rooms_safe Association_safe UserSession_safe)
  then have "well_behaved S h" if "ComponentManager_Get S q = Some h" for h
    using that by (auto simp: ComponentManager_Get_def split: if_splits)
  then show ?thesis
    unfolding dispatch_def by (auto simp: well_behaved_def safe_done good_refl split: option.splits)
qed

lemma parse_packets_safe: "safe S s (parse_packets S s)"
proof -
  have "safe S s (dispatch S q (on_client (\<lambda>c. c\<lparr>cl_read := b, cl_document := d\<rparr>) s))" for q b d
    by (rule safe_after [OF good_same dispatch_safe]) (simp_all add: get_user_def)
  then show ?thesis unfolding parse_packets_def by (auto simp: safe_def split: bind_splits)
qed

lemma handle_read_safe: "safe S s (handle_read S data s)"
proof -
  have "safe S t (parse_loop k S n t)" for k n t
    by (induction k arbitrary: t) (auto intro: safe_rules safe_then parse_packets_safe)
  moreover have "good S s (begin_read data s)" by (rule good_same) (simp_all add: begin_read_def get_user_def)
  ultimately show ?thesis unfolding handle_read_def by (blast intro: safe_after)
qed


subsection \<open>Many clients\<close>

text \<open>
  The clients take turns: every connection and every read that has come in is handled to its end
  before the next one, on the state that all of them share.
\<close>

record world =
  w_clients :: "client list"
  w_server :: server

definition on_turn :: "nat \<Rightarrow> world \<Rightarrow> server" where
  "on_turn i w = (w_server w)\<lparr>sv_client := w_clients w ! i\<rparr>"

definition after_turn :: "nat \<Rightarrow> server \<Rightarrow> world \<Rightarrow> world" where
  "after_turn i t w = \<lparr>w_clients = (w_clients w)[i := sv_client t], w_server = t\<rparr>"

inductive world_step :: "environment \<Rightarrow> world \<Rightarrow> world \<Rightarrow> bool" for E where
  accept: "world_step E w (w\<lparr>w_clients := w_clients w @ [Client_new (of_nat (Suc (length (w_clients w)))) data]\<rparr>)"
| read: "i < length (w_clients w) \<Longrightarrow> sc_env S = E \<Longrightarrow> handle_read S data (on_turn i w) = Some t \<Longrightarrow>
    world_step E w (after_turn i t w)"

inductive world_reachable :: "environment \<Rightarrow> world \<Rightarrow> world \<Rightarrow> bool" for E w0 where
  start: "world_reachable E w0 w0"
| more: "world_reachable E w0 w \<Longrightarrow> world_step E w w' \<Longrightarrow> world_reachable E w0 w'"

definition world_ok :: "world \<Rightarrow> bool" where
  "world_ok w \<longleftrightarrow> games_ok (sv_games (w_server w)) \<and> rooms_ok (sv_rooms (w_server w)) \<and> sessions_ok (sv_sessions (w_server w)) \<and>
     (\<forall>a g. sv_user_game (w_server w) a = Some g \<longrightarrow> g < length (objects (sv_games (w_server w)))) \<and>
     (\<forall>c \<in> set (w_clients w). \<forall>a. cl_user c = Some a \<longrightarrow> a < length (users (sv_sessions (w_server w))))"

lemma world_turn: "world_ok w \<Longrightarrow> i < length (w_clients w) \<Longrightarrow> server_ok (on_turn i w)"
  using nth_mem by (simp add: world_ok_def server_ok_def on_turn_def get_user_def) blast

text \<open>User objects are never destroyed.\<close>

lemma step_users: "step E x y \<Longrightarrow> length (users x) \<le> length (users y)"
  by (induction rule: step.induct)
    (auto simp: Login_def Logout_def RemoveUser_def update_user_def Let_def split: option.splits prod.splits bind_splits
      elim!: SignUp_cases)

lemma reachable_users: "reachable E x y \<Longrightarrow> length (users x) \<le> length (users y)"
  by (induction rule: reachable.induct) (auto dest: step_users)

lemma world_step_ok:
  assumes "world_step E w w'" and "world_ok w"
  shows "world_ok w' \<and> reachable E (sv_sessions (w_server w)) (sv_sessions (w_server w'))"
  using assms(1)
proof cases
  case (accept data)
  then show ?thesis using assms(2) by (auto simp: world_ok_def Client_new_def reachable.start)
next
  case (read i S data t)
  have "good S (on_turn i w) t" using handle_read_safe read(4) by (simp add: safe_def)
  then have t: "server_ok t" "reachable E (sv_sessions (w_server w)) (sv_sessions t)"
    using world_turn [OF assms(2) read(2)] read(3) by (simp_all add: good_def on_turn_def)
  have "a < length (users (sv_sessions t))" if "c \<in> set ((w_clients w)[i := sv_client t])" "cl_user c = Some a" for c a
  proof (cases "c = sv_client t")
    case True
    then show ?thesis using server_okD(5) [OF t(1)] that(2) by (simp add: get_user_def)
  next
    case False
    then have "c \<in> set (w_clients w)" using that(1) by (meson insert_iff set_update_subset_insert subsetD)
    then show ?thesis using assms(2) that(2) reachable_users [OF t(2)] by (fastforce simp: world_ok_def)
  qed
  then show ?thesis using t by (auto simp: read(1) world_ok_def server_ok_def after_turn_def)
qed

text \<open>The state after the start.\<close>

definition World_new :: "disk \<Rightarrow> client \<Rightarrow> world" where
  "World_new d c = \<lparr>w_clients = [],
     w_server = \<lparr>sv_sessions = \<lparr>users = [], sUsersByEmail = RBT.empty, disk = d\<rparr>, sv_rooms = RoomManager_new,
       sv_games = \<lparr>objects = [], table = RBT.empty\<rparr>, sv_user_game = (\<lambda>_. None), sv_client = c\<rparr>\<rparr>"

lemma World_new_ok: "world_ok (World_new d c)"
  by (simp add: world_ok_def World_new_def RoomManager_new_ok games_ok_def all_games.registered_empty sessions_ok_def)

end
