(* ===== verification/RequestProps.thy ===== *)
theory RequestProps
  imports ServerInvariant BlazeProps
begin

text \<open>
  Properties of the requests of the Blaze clients: frames and answers, the whole server, and single
  handlers.
\<close>

declare subscript.simps [simp del] if_member.simps [simp del] parsed.simps(7) [simp del]

subsection \<open>Packets that are written\<close>

lemma packet_bytes_fields:
  assumes "json_laws (sc_json S)" and "builds (run fs) flds" and "\<And>l v. (l, v) \<in> set flds \<Longrightarrow> no_nul l \<and> TDF.writable v"
  shows "\<exists>b. packet_bytes S fs = Some b \<and> ready b \<and> content b = fields_bytes flds"
proof -
  have e: "ready db_empty" "content db_empty = []" by (simp_all add: ready_def content_def db_empty_def)
  have "buf.emits (\<lambda>b. do { p \<leftarrow> run fs Packet_new; Packet_Write (sc_json S) p b }) (fields_bytes flds)"
    by (rule packet_write_emits [OF assms(1,2)]) (rule assms(3))
  from buf.emitsD [OF this e(1)] e(2) show ?thesis unfolding packet_bytes_def by auto
qed

lemma builds_values:
  assumes "json_laws (sc_json S)"
  shows "builds (run (put_values S kvs)) (map (\<lambda>(k, v). (k, V_Integer v)) kvs)"
proof (induction kvs)
  case (Cons kv kvs)
  then show ?case
    using builds_run_Cons [OF builds_put(1) [OF assms, of "fst kv" "snd kv"]] by (cases kv) (simp add: put_values_def)
qed (simp add: put_values_def builds_run_Nil [simplified])

text \<open>A reply and a notification whose packet can be written are sent.\<close>

definition can_write :: "services \<Rightarrow> (packet \<Rightarrow> packet option) list \<Rightarrow> bool" where
  "can_write S fs \<longleftrightarrow> packet_bytes S fs \<noteq> None"

lemma can_write_fields:
  "json_laws (sc_json S) \<Longrightarrow> builds (run fs) flds \<Longrightarrow> (\<And>l v. (l, v) \<in> set flds \<Longrightarrow> no_nul l \<and> TDF.writable v) \<Longrightarrow> can_write S fs"
  using packet_bytes_fields [of S fs flds] by (auto simp: can_write_def)

lemma can_write_values:
  assumes "json_laws (sc_json S)" and "\<And>k v. (k, v) \<in> set kvs \<Longrightarrow> no_nul k"
  shows "can_write S (put_values S kvs)"
  by (rule can_write_fields [OF assms(1) builds_values [OF assms(1)]]) (use assms(2) in auto)

lemma sends:
  assumes "can_write S fs"
  obtains b where "reply S q fs s = Some (Client_send S 1 (rq_id q) (rq_component q) (rq_command q) 0 b s)"
    "notify S component command fs s = Some (Client_send S 2 0 component command 0 b s)"
proof -
  obtain b where "packet_bytes S fs = Some b" using assms by (auto simp: can_write_def)
  then show thesis
    by (intro that) (simp_all add: reply_def notify_def reply_type_def error_word_def M_Reply_def M_Notification_def)
qed

lemma Client_send_frame [simp]:
  "sv_games (Client_send S t i c k e b s) = sv_games s" "sv_rooms (Client_send S t i c k e b s) = sv_rooms s"
  "sv_sessions (Client_send S t i c k e b s) = sv_sessions s" "sv_user_game (Client_send S t i c k e b s) = sv_user_game s"
  "get_user (Client_send S t i c k e b s) = get_user s" "document_of (Client_send S t i c k e b s) = document_of s"
  by (simp_all add: Client_send_def get_user_def document_of_def)

subsection \<open>Requests that arrive\<close>

lemma request_arrives:
  assumes "data \<noteq> []" and "length data \<le> db_capacity (cl_read (sv_client s))" and "t < 16"
    and "data @ drop (length data) (mBuffer (cl_read (sv_client s))) = frame_header n t i component command err @ rest"
    and "Parser_Read m (sc_json S) \<lparr>mBuffer = frame_header n t i component command err @ rest, mSize = length data,
      mPosition = 12\<rparr> = Some (doc, c)" and "length rest < m"
  shows "handle_read S data s = dispatch S \<lparr>rq_type = t, rq_id = i AND 0xFFFFF, rq_length = of_nat n,
      rq_component = component, rq_command = command, rq_error = err\<rparr>
      (on_client (\<lambda>x. x\<lparr>cl_read := c, cl_document := doc\<rparr>) (begin_read data s))"
proof -
  let ?b = "\<lparr>mBuffer = frame_header n t i component command err @ rest, mSize = length data, mPosition = 0\<rparr>"
  let ?c = "\<lparr>mBuffer = frame_header n t i component command err @ rest, mSize = length data, mPosition = 12\<rparr>"
  have b: "cl_read (sv_client (begin_read data s)) = ?b"
    using begin_read_buffer [OF assms(2)] assms(4) by simp
  have "remaining ?b = frame_header n t i component command err @ rest" by (simp add: remaining_def)
  from read_header_frame [OF this _ assms(3), of "sc_host S"]
  have h: "read_header (sc_host S) ?b = Some (\<lparr>rq_type = t, rq_id = i AND 0xFFFFF, rq_length = of_nat n,
      rq_component = component, rq_command = command, rq_error = err\<rparr>, ?c)"
    by simp
  have "left ?c = length rest" by (simp add: left_def)
  moreover have "Parser_Read m (sc_json S) ?c = Parser_Read (Suc (left ?c)) (sc_json S) ?c"
    unfolding Parser_Read_def
    by (rule agree_ReadDocument [of _ "Suc (length rest)"]) (use assms(6) in \<open>simp_all add: left_def\<close>)
  ultimately have "Parser_Read (Suc (left ?c)) (sc_json S) ?c = Some (doc, c)" using assms(5) by simp
  then show ?thesis
    unfolding handle_read_once [OF assms(2)] parse_packets_def b h using assms(1) by simp
qed

text \<open>
  C5: What one end sends arrives at the other: a packet whose fields can be written and parsed is
  put into a frame, and when the bytes of the frame are what a read of the socket gives, the
  handler of the component and command of the frame is run with the type, the error and the low 20
  bits of the number that were sent, on a document with exactly these fields; the length is the
  length of the packet modulo 2 ^ 16.
\<close>

theorem frame_roundtrip:
  assumes "json_laws (sc_json S)" and "builds (run fs) flds"
    and "\<forall>(l, v) \<in> set flds. no_nul l \<and> TDF.writable v \<and> parsable v" and "t < 16"
    and "12 + length (fields_bytes flds) \<le> db_capacity (cl_read (sv_client s))"
  shows "\<exists>b c. packet_bytes S fs = Some b \<and>
    handle_read S (content (frame h t i component command err b)) s =
      dispatch S \<lparr>rq_type = t, rq_id = i AND 0xFFFFF, rq_length = of_nat (length (fields_bytes flds)),
          rq_component = component, rq_command = command, rq_error = err\<rparr>
        (on_client (\<lambda>x. x\<lparr>cl_read := c,
            cl_document := JObject (fold (\<lambda>(l, v). put_member (wire_label l) (parsed v)) flds [])\<rparr>)
          (begin_read (content (frame h t i component command err b)) s))"
proof -
  obtain b where b: "packet_bytes S fs = Some b" "ready b" "content b = fields_bytes flds"
    using packet_bytes_fields [OF assms(1,2)] assms(3) by fastforce
  have len: "mSize b = length (fields_bytes flds)" using arg_cong [OF b(3), of length] b(2) by (simp add: ready_def content_def)
  define data where "data = content (frame h t i component command err b)"
  define rest where "rest = drop (length data) (mBuffer (cl_read (sv_client s)))"
  let ?H = "frame_header (mSize b) t i component command err"
  let ?b = "\<lparr>mBuffer = ?H @ fields_bytes flds @ rest, mSize = length data, mPosition = 12\<rparr>"
  let ?c = "\<lparr>mBuffer = ?H @ fields_bytes flds @ rest, mSize = length data, mPosition = length data\<rparr>"
  have data: "data = ?H @ fields_bytes flds" using frame_content(1) [OF b(2)] b(3) by (simp add: data_def)
  then have l: "length data = 12 + length (fields_bytes flds)" by simp
  have "at ?b (fields_bytes flds) ?c" by (simp add: at_def remaining_def l)
  moreover have "enough (\<lambda>n. \<forall>b c. at b (fields_bytes flds) c \<and> mPosition b + length (fields_bytes flds) = mSize b \<longrightarrow>
      Parser_Read n (sc_json S) b = Some (JObject (fold (\<lambda>(l, v). put_member (wire_label l) (parsed v)) flds []), c))"
    by (rule parser_reads_fields [OF assms(1)]) (use assms(3) in auto)
  ultimately obtain n0 where n0: "\<And>n. n \<ge> n0 \<Longrightarrow> Parser_Read n (sc_json S) ?b =
      Some (JObject (fold (\<lambda>(l, v). put_member (wire_label l) (parsed v)) flds []), ?c)"
    unfolding enough_def using l by fastforce
  have "handle_read S data s = dispatch S \<lparr>rq_type = t, rq_id = i AND 0xFFFFF, rq_length = of_nat (mSize b),
      rq_component = component, rq_command = command, rq_error = err\<rparr>
      (on_client (\<lambda>x. x\<lparr>cl_read := ?c,
        cl_document := JObject (fold (\<lambda>(l, v). put_member (wire_label l) (parsed v)) flds [])\<rparr>) (begin_read data s))"
  proof (rule request_arrives [where m = "max n0 (Suc (length (fields_bytes flds @ rest)))"])
    show "data @ drop (length data) (mBuffer (cl_read (sv_client s))) = ?H @ fields_bytes flds @ rest"
      by (simp add: rest_def [symmetric]) (simp add: data)
    show "data \<noteq> []" using l by auto
  qed (use assms(4,5) l n0 in \<open>auto simp: data\<close>)
  then show ?thesis using b(1) len data_def by auto
qed


subsection \<open>A server to try\<close>

definition demo_services :: services where
  "demo_services =
     \<lparr>sc_json = std_json, sc_env = demo_env, sc_host = Little, sc_known = (\<lambda>_. True), sc_gone = (\<lambda>_. False), sc_now = 5,
      sc_millis = 6, sc_blaze = (''127.0.0.1'', 10041), sc_pss = (''127.0.0.1'', 8443), sc_telemetry = (''127.0.0.1'', 9988),
      sc_tick = (''127.0.0.1'', 8999), sc_qos = (''127.0.0.1'', 17502), sc_junk_id = 0, sc_junk = [0, 0, 0],
      sc_userdata = \<lparr>UserData_extendedData = ExtendedData_default,
        UserData_user = \<lparr>UserIdentification_name = [], UserIdentification_id = 0, UserIdentification_localization = 0\<rparr>,
        UserData_statusFlags = 0\<rparr>,
      sc_listid = \<lparr>ListIdentification_name = [], ListIdentification_type = 0\<rparr>,
      sc_listinfo = \<lparr>ListInfo_blazeObjectId = (0, 0, 0),
        ListInfo_identification = \<lparr>ListIdentification_name = [], ListIdentification_type = 0\<rparr>, ListInfo_flags = 0,
        ListInfo_lms = 0, ListInfo_prid = 0\<rparr>,
      sc_memberid = 0, sc_request = sample_game True,
      sc_status = \<lparr>PlayerConnectionStatus_id = 0, PlayerConnectionStatus_flags = 0, PlayerConnectionStatus_status = 0\<rparr>\<rparr>"

definition demo_request :: request where
  "demo_request = \<lparr>rq_type = 0, rq_id = 7, rq_length = 0, rq_component = 0, rq_command = 0, rq_error = 0\<rparr>"

definition demo_data :: ClientData where
  "demo_data = \<lparr>ClientData_serviceName = [], ClientData_type = 0, ClientData_lang = 0, ClientData_iito = False\<rparr>"

text \<open>The start of the server, with one client and the user objects \<open>us\<close>, logged in under their names.\<close>

definition demo_server :: "User list \<Rightarrow> jval \<Rightarrow> server" where
  "demo_server us doc = (w_server (World_new empty_disk ((Client_new 1 demo_data)\<lparr>cl_document := doc\<rparr>)))
     \<lparr>sv_sessions := \<lparr>users = us, sUsersByEmail = fold (\<lambda>i. RBT.insert (mUsername (us ! i)) i) [0..<length us] RBT.empty,
        disk = empty_disk\<rparr>\<rparr>"

lemma demo_services_simps [simp]:
  "sc_json demo_services = std_json" "sc_env demo_services = demo_env"
  by (simp_all add: demo_services_def)

lemma demo_server_simps [simp]:
  "document_of (demo_server us doc) = doc" "get_user (demo_server us doc) = None" "sv_rooms (demo_server us doc) = RoomManager_new"
  "users (sv_sessions (demo_server us doc)) = us" "sv_games (demo_server us doc) = \<lparr>objects = [], table = RBT.empty\<rparr>"
  "db_capacity (cl_read (sv_client (demo_server us doc))) = 10240"
  "disk (sv_sessions (demo_server us doc)) = empty_disk"
  by (simp_all add: demo_server_def World_new_def document_of_def get_user_def Client_new_def db_capacity_def db_resize_def
      db_empty_def reserve_def Let_def)

theorem frame_roundtrip_witness:
  "\<exists>b c s'. packet_bytes demo_services [put_integer std_json ''STIM'' 300] = Some b \<and>
    handle_read demo_services (content (frame Little 0 5 9 2 0 b)) (demo_server [] JNull) =
      dispatch demo_services \<lparr>rq_type = 0, rq_id = 5, rq_length = 6, rq_component = 9, rq_command = 2, rq_error = 0\<rparr>
        (on_client (\<lambda>x. x\<lparr>cl_read := c, cl_document := JObject [(''STIM'', JUint 300)]\<rparr>) s')"
proof -
  let ?fs = "[put_integer (sc_json demo_services) ''STIM'' 300]"
  have b: "builds (run ?fs) [(''STIM'', V_Integer 300)]"
    using builds_run_one [OF builds_put(1) [OF std_json_laws, of "''STIM''" 300]] by simp
  have h: "fields_bytes [(''STIM'', V_Integer 300)] = header_bytes ''STIM'' T_Integer @ [0xAC, 4]"
    by (simp add: fields_bytes_def tdf_int_def tdf_tail.simps [of 4])
  then have l: "length (fields_bytes [(''STIM'', V_Integer 300)]) = 6" by simp
  have w: "wire_label ''STIM'' = ''STIM''" by code_simp
  have "\<exists>b c. packet_bytes demo_services ?fs = Some b \<and>
    handle_read demo_services (content (frame Little 0 5 9 2 0 b)) (demo_server [] JNull) =
      dispatch demo_services \<lparr>rq_type = 0, rq_id = 5 AND 0xFFFFF, rq_length = of_nat (length (fields_bytes [(''STIM'', V_Integer 300)])),
          rq_component = 9, rq_command = 2, rq_error = 0\<rparr>
        (on_client (\<lambda>x. x\<lparr>cl_read := c,
            cl_document := JObject (fold (\<lambda>(l, v). put_member (wire_label l) (parsed v)) [(''STIM'', V_Integer 300)] [])\<rparr>)
          (begin_read (content (frame Little 0 5 9 2 0 b)) (demo_server [] JNull)))"
    by (rule frame_roundtrip [OF _ b]) (use l in \<open>simp_all add: std_json_laws no_nul_def\<close>)
  then show ?thesis unfolding l by (auto simp: w put_member_def)
qed


lemma frame_header_not_Nil [simp]: "frame_header n t i component command err \<noteq> []"
  by (metis length_frame_header list.size(3) zero_neq_numeral)

text \<open>A ping is answered.\<close>

lemma ping_read:
  assumes "12 \<le> db_capacity (cl_read (sv_client s))" and "json_laws (sc_json S)"
  shows "\<exists>t. handle_read S (frame_header 0 0 1 9 2 0) s = Some t"
proof -
  let ?d = "frame_header 0 0 1 9 2 0"
  let ?r = "drop (length ?d) (mBuffer (cl_read (sv_client s)))"
  have "handle_read S ?d s = dispatch S \<lparr>rq_type = 0, rq_id = 1 AND 0xFFFFF, rq_length = of_nat 0, rq_component = 9,
      rq_command = 2, rq_error = 0\<rparr> (on_client (\<lambda>x. x\<lparr>cl_read := \<lparr>mBuffer = ?d @ ?r, mSize = length ?d, mPosition = 12\<rparr>,
         cl_document := JObject []\<rparr>) (begin_read ?d s))"
  proof (rule request_arrives [where m = "Suc (length ?r)"])
    show "length ?d \<le> db_capacity (cl_read (sv_client s))" using assms(1) by simp
    show "?d @ drop (length ?d) (mBuffer (cl_read (sv_client s))) = ?d @ ?r" ..
    show "Parser_Read (Suc (length ?r)) (sc_json S) \<lparr>mBuffer = ?d @ ?r, mSize = length ?d, mPosition = 12\<rparr> =
        Some (JObject [], \<lparr>mBuffer = ?d @ ?r, mSize = length ?d, mPosition = 12\<rparr>)"
      by (simp add: Parser_Read_def eof_def)
  qed simp_all
  moreover have "can_write S (put_values S [(''STIM'', sc_now S)])"
    by (rule can_write_values [OF assms(2)]) (simp add: no_nul_def)
  then obtain b where "packet_bytes S (put_values S [(''STIM'', sc_now S)]) = Some b" by (auto simp: can_write_def)
  ultimately show ?thesis
    by (simp add: dispatch_def ComponentManager_Get_def Auth_Id_def GameManager_Id_def Redirector_Id_def
        Playgroups_Id_def Util_Id_def Util_ParsePacket_def Util_Ping_def reply_def)
qed

subsection \<open>Reads\<close>

text \<open>
  C17: One read of the socket is one request at most: whatever the bytes are, the loop over the
  packets of a read runs the parser once, which takes everything to the end of the read, so that
  handling a read is handling one packet; the bytes of a second request that came with the first
  are swallowed as fields of the first, since the length in the header is never looked at.
\<close>

theorem one_request_per_read:
  assumes "length data \<le> db_capacity (cl_read (sv_client s))"
  shows "handle_read S data s = (if data = [] then Some (begin_read data s) else parse_packets S (begin_read data s)) \<and>
    (\<forall>t. handle_read S data s = Some t \<longrightarrow> eof (cl_read (sv_client t)))"
proof -
  have "eof (cl_read (sv_client t))" if "handle_read S data s = Some t" for t
  proof (cases "data = []")
    case True
    then show ?thesis using that handle_read_once [OF assms] begin_read_buffer [OF assms] by (auto simp: eof_def)
  next
    case False
    then have "parse_packets S (begin_read data s) = Some t" using that handle_read_once [OF assms] by simp
    then show ?thesis by (rule parse_packets_step) simp
  qed
  then show ?thesis using handle_read_once [OF assms] by blast
qed

theorem one_request_per_read_witness:
  "handle_read demo_services (replicate 24 0) (demo_server [] JNull) =
    parse_packets demo_services (begin_read (replicate 24 0) (demo_server [] JNull))"
proof -
  have "length (replicate 24 (0 :: u8)) \<le> db_capacity (cl_read (sv_client (demo_server [] JNull)))" by simp
  from one_request_per_read [OF this, of demo_services] show ?thesis by simp
qed

text \<open>
  C15: What a read sends: only notifications, which carry the number 0, and at most one answer, which
  carries the number, the component and the command of the header that was read; and the handlers
  leave the number of the client as it is, and the document and the place in the buffer where the
  parser left them.
\<close>

theorem replies_match_requests:
  assumes "handle_read S data s = Some t" and "data \<noteq> []" and "length data \<le> db_capacity (cl_read (sv_client s))"
  shows "\<exists>q b doc c ms. read_header (sc_host S) (cl_read (sv_client (begin_read data s))) = Some (q, b) \<and>
     Parser_Read (Suc (left b)) (sc_json S) b = Some (doc, c) \<and> cl_document (sv_client t) = doc \<and>
     cl_read (sv_client t) = c \<and> cl_id (sv_client t) = cl_id (sv_client s) \<and>
     cl_writes (sv_client t) = map (frame_of S q) ms \<and> length (filter is_answer ms) \<le> 1"
proof -
  have p: "parse_packets S (begin_read data s) = Some t" using handle_read_once [OF assms(3)] assms(1,2) by simp
  have w: "cl_writes (sv_client (begin_read data s)) = []" "cl_id (sv_client (begin_read data s)) = cl_id (sv_client s)"
    by (simp_all add: begin_read_def)
  from p show ?thesis
  proof (rule parse_packets_step)
    fix q b c doc
    assume r: "read_header (sc_host S) (cl_read (sv_client (begin_read data s))) = Some (q, b)"
      "Parser_Read (Suc (left b)) (sc_json S) b = Some (doc, c)" "cl_read (sv_client t) = c" "cl_document (sv_client t) = doc"
      and d: "dispatch S q (on_client (\<lambda>x. x\<lparr>cl_read := c, cl_document := doc\<rparr>) (begin_read data s)) = Some t"
      and m: "\<exists>ms. cl_writes (sv_client t) = cl_writes (sv_client (begin_read data s)) @ map (frame_of S q) ms \<and>
        length (filter is_answer ms) \<le> Suc 0"
    have "cl_id (sv_client t) = cl_id (sv_client s)"
      using well_answered_dispatch [of S q "on_client (\<lambda>x. x\<lparr>cl_read := c, cl_document := doc\<rparr>) (begin_read data s)"] d w
      by (simp add: answered_def kept_def)
    then show ?thesis using r m w by auto
  qed
qed

theorem replies_match_requests_witness:
  "\<exists>t q ms. handle_read demo_services (frame_header 0 0 1 9 2 0) (demo_server [] JNull) = Some t \<and>
     cl_writes (sv_client t) = map (frame_of demo_services q) ms \<and> length (filter is_answer ms) \<le> 1"
proof -
  obtain t where t: "handle_read demo_services (frame_header 0 0 1 9 2 0) (demo_server [] JNull) = Some t"
    using ping_read [of "demo_server [] JNull" demo_services] by (auto simp: std_json_laws)
  have n: "frame_header 0 0 1 9 2 0 \<noteq> []" by simp
  have c: "length (frame_header 0 0 1 9 2 0) \<le> db_capacity (cl_read (sv_client (demo_server [] JNull)))" by simp
  show ?thesis using replies_match_requests [OF t n c] t by blast
qed

text \<open>
  C40: A read that ends inside a header is completed with what an earlier read left in the buffer:
  the twelve bytes at the front, new and stale ones, are taken as the header of a request, which is
  run with an empty document.
\<close>

theorem short_read_repeats_header:
  assumes "0 < length data" and "length data \<le> 12" and "12 \<le> db_capacity (cl_read (sv_client s))" and "t < 16"
    and "data @ drop (length data) (mBuffer (cl_read (sv_client s))) =
      frame_header n t i component command err @ rest"
  shows "handle_read S data s = dispatch S \<lparr>rq_type = t, rq_id = i AND 0xFFFFF, rq_length = of_nat n,
      rq_component = component, rq_command = command, rq_error = err\<rparr>
      (on_client (\<lambda>x. x\<lparr>cl_read := \<lparr>mBuffer = frame_header n t i component command err @ rest, mSize = length data,
          mPosition = 12\<rparr>, cl_document := JObject []\<rparr>) (begin_read data s))"
proof (rule request_arrives [where m = "Suc (length rest)"])
  show "Parser_Read (Suc (length rest)) (sc_json S) \<lparr>mBuffer = frame_header n t i component command err @ rest,
      mSize = length data, mPosition = 12\<rparr> = Some (JObject [], \<lparr>mBuffer = frame_header n t i component command err @ rest,
      mSize = length data, mPosition = 12\<rparr>)"
    using assms(2) by (simp add: Parser_Read_def eof_def)
qed (use assms in auto)

theorem short_read_repeats_header_witness:
  "\<exists>q s'. rq_id q = 1 \<and> handle_read demo_services (take 1 (frame_header 0 0 1 9 2 0))
      (on_client (\<lambda>c. c\<lparr>cl_read := \<lparr>mBuffer = frame_header 0 0 1 9 2 0, mSize = 12, mPosition = 12\<rparr>\<rparr>) (demo_server [] JNull)) =
    Util_Ping demo_services q s'"
proof -
  let ?s = "on_client (\<lambda>c. c\<lparr>cl_read := \<lparr>mBuffer = frame_header 0 0 1 9 2 0, mSize = 12, mPosition = 12\<rparr>\<rparr>) (demo_server [] JNull)"
  let ?d = "take 1 (frame_header 0 0 1 9 2 0)"
  let ?q = "\<lparr>rq_type = 0, rq_id = 1 AND 0xFFFFF, rq_length = of_nat 0, rq_component = 9, rq_command = 2, rq_error = 0\<rparr>"
  have "handle_read demo_services ?d ?s = dispatch demo_services ?q
      (on_client (\<lambda>x. x\<lparr>cl_read := \<lparr>mBuffer = frame_header 0 0 1 9 2 0 @ [], mSize = length ?d, mPosition = 12\<rparr>,
         cl_document := JObject []\<rparr>) (begin_read ?d ?s))"
    by (rule short_read_repeats_header) (simp_all add: db_capacity_def)
  then obtain s' where h: "handle_read demo_services ?d ?s = dispatch demo_services ?q s'" by (rule that)
  have u: "dispatch demo_services ?q = Util_Ping demo_services ?q"
    by (rule ext) (simp add: dispatch_def ComponentManager_Get_def Auth_Id_def GameManager_Id_def Redirector_Id_def
        Playgroups_Id_def Util_Id_def Util_ParsePacket_def)
  show ?thesis by (rule exI [of _ ?q], rule exI [of _ s'], rule conjI, simp, simp only: h u)
qed


subsection \<open>The whole server\<close>

text \<open>
  C3: Whatever clients connect and whatever bytes they send in whatever order, with any clock and
  any contents of the memory that is not initialised: the numbers of the games and rooms lead to the
  objects that have them, every room's category, every category's view, the game of every user and
  the user of every client exist, and the sessions change only by the steps of signing up, logging
  in, changing a user and logging out, so that everybody logged in has a file in the storage and no
  file is lost.
\<close>

theorem server_invariant:
  assumes "world_reachable E (World_new d c) w"
  shows "world_ok w \<and> reachable E (sv_sessions (w_server (World_new d c))) (sv_sessions (w_server w)) \<and>
    files_kept (sv_sessions (w_server (World_new d c))) (sv_sessions (w_server w))"
proof -
  have "world_ok w \<and> reachable E (sv_sessions (w_server (World_new d c))) (sv_sessions (w_server w))"
    using assms
  proof (induction rule: world_reachable.induct)
    case start
    then show ?case using World_new_ok reachable.start by blast
  next
    case (more w w')
    then show ?case using world_step_ok reachable_trans by blast
  qed
  moreover have "files_kept x y" if "reachable E x y" "sessions_ok x" for x y
  proof -
    have "sessions_ok y \<and> files_kept x y" using that
      by (induction rule: reachable.induct) (use step_invariant files_kept_trans in \<open>auto\<close>)
    then show ?thesis ..
  qed
  moreover have "sessions_ok (sv_sessions (w_server (World_new d c)))" using World_new_ok by (simp add: world_ok_def)
  ultimately show ?thesis by blast
qed

theorem server_invariant_witness:
  "\<exists>w. world_reachable demo_env (World_new empty_disk (Client_new 0 demo_data)) w \<and> length (w_clients w) = 1 \<and>
     sv_client (w_server w) = w_clients w ! 0 \<and> world_ok w"
proof -
  define w1 where "w1 = (World_new empty_disk (Client_new 0 demo_data))\<lparr>w_clients := [Client_new 1 demo_data]\<rparr>"
  have a: "world_step demo_env (World_new empty_disk (Client_new 0 demo_data)) w1"
    using world_step.accept [of demo_env "World_new empty_disk (Client_new 0 demo_data)" demo_data]
    by (simp add: w1_def World_new_def)
  have "12 \<le> db_capacity (cl_read (sv_client (on_turn 0 w1)))"
    by (simp add: w1_def on_turn_def Client_new_def db_capacity_def db_resize_def db_empty_def reserve_def Let_def)
  from ping_read [OF this, of demo_services] obtain t where
    t: "handle_read demo_services (frame_header 0 0 1 9 2 0) (on_turn 0 w1) = Some t" by (auto simp: std_json_laws)
  have "world_step demo_env w1 (after_turn 0 t w1)"
    by (rule world_step.read [OF _ _ t]) (simp_all add: w1_def)
  with a have r: "world_reachable demo_env (World_new empty_disk (Client_new 0 demo_data)) (after_turn 0 t w1)"
    by (blast intro: world_reachable.intros)
  have "length (w_clients (after_turn 0 t w1)) = 1 \<and> sv_client (w_server (after_turn 0 t w1)) = w_clients (after_turn 0 t w1) ! 0"
    by (simp add: after_turn_def w1_def)
  with server_invariant [OF r] r show ?thesis by blast
qed


subsection \<open>Logging in\<close>

lemma writes_full_login:
  assumes "json_laws (sc_json S)" and "no_nul (user_name s a)"
  shows "can_write S (WriteFullLogin S s a)"
proof (rule can_write_fields [OF assms(1)])
  show "builds (run (WriteFullLogin S s a))
     [(''AGUP'', V_Integer 0), (''NTOS'', V_Integer 0), (''PCTK'', V_String []), (''PRIV'', V_String []),
      (''SESS'', V_Struct (SessionInfo_fields (session_of S s a))), (''SPAM'', V_Integer 0), (''THST'', V_String []),
      (''TURI'', V_String [])]"
    unfolding WriteFullLogin_def by (rule builds_conv, (rule builds_intros builds_rules assms)+, simp)
qed (use assms(2) in \<open>auto simp: SessionInfo_fields_def session_of_def PersonaDetails_fields_def persona_of_def no_nul_def\<close>)

lemma writes_login:
  assumes "json_laws (sc_json S)" and "no_nul (user_name s a)"
  shows "can_write S (WriteLogin S s a)"
proof (rule can_write_fields [OF assms(1)])
  show "builds (run (WriteLogin S s a))
     [(''NTOS'', V_Integer 0), (''PCTK'', V_String ''unknown_data''),
      (''PLST'', V_List T_Struct False [V_Struct (PersonaDetails_fields (persona_of S s a))]), (''PRIV'', V_String []),
      (''SKEY'', V_String ''telemetry_key''), (''SPAM'', V_Integer 0), (''THST'', V_String []),
      (''TURI'', V_String []), (''UID'', V_Integer (user_id s a))]"
    unfolding WriteLogin_def by (rule builds_conv, (rule builds_intros builds_rules assms)+, simp)
qed (use assms(2) in \<open>auto simp: PersonaDetails_fields_def persona_of_def no_nul_def\<close>)

lemma reply_sends:
  assumes "can_write S fs"
  obtains b where "packet_bytes S fs = Some b"
    "reply S q fs s = Some (Client_send S M_Reply (rq_id q) (rq_component q) (rq_command q) 0 b s)"
  using assms by (auto simp: can_write_def reply_def reply_type_def error_word_def intro!: that)

text \<open>The packets of a login depend on the users only.\<close>

lemma login_packets [simp]:
  "WriteFullLogin S (Client_send S' t i c k e b s) a = WriteFullLogin S s a"
  "WriteLogin S (Client_send S' t i c k e b s) a = WriteLogin S s a"
  by (simp_all add: WriteFullLogin_def WriteLogin_def session_of_def persona_of_def user_name_def user_id_def)

text \<open>
  C32: Where a player is logged in, the name is enough to take the player over: a client that sends
  the name of the account with any password is that player after an express login, and with any
  password and token after a login, and is sent the session of the player (the packet of
  \<open>WriteFullLogin\<close>, or of \<open>WriteLogin\<close>) in a reply without an error, and nothing else; only the
  lists of the session grow with every login.
\<close>

theorem logged_in_players_need_no_password:
  assumes "json_laws (sc_json S)" and "GetUserByEmail username (sv_sessions s) = Some a" and "no_nul (user_name s a)"
    and "a < length (users (sv_sessions s))"
  shows "(arg_string S s ''MAIL'' = Some username \<longrightarrow> arg_string S s ''PASS'' \<noteq> None \<longrightarrow> arg_string S s ''PNAM'' \<noteq> None \<longrightarrow>
      (\<exists>t b. Auth_ExpressLogin S q s = Some t \<and> get_user t = Some a \<and> sv_sessions t = sv_sessions s \<and>
        packet_bytes S (WriteFullLogin S t a) = Some b \<and> cl_writes (sv_client t) = cl_writes (sv_client s) @
          [frame (sc_host S) M_Reply (rq_id q) (rq_component q) (rq_command q) 0 b])) \<and>
    (arg_string S s ''MAIL'' = Some username \<longrightarrow> arg_string S s ''PASS'' \<noteq> None \<longrightarrow> arg_uint64 S s ''DVID'' \<noteq> None \<longrightarrow>
      arg_string S s ''TOKN'' \<noteq> None \<longrightarrow> arg_uint S s ''TYPE'' \<noteq> None \<longrightarrow>
      (\<exists>t b. Auth_Login S q s = Some t \<and> get_user t = Some a \<and> sv_sessions t = update_user a session_data (sv_sessions s) \<and>
        packet_bytes S (WriteLogin S t a) = Some b \<and> cl_writes (sv_client t) = cl_writes (sv_client s) @
          [frame (sc_host S) M_Reply (rq_id q) (rq_component q) (rq_command q) 0 b]))"
  (is "(_ \<longrightarrow> _ \<longrightarrow> _ \<longrightarrow> ?express) \<and> (_ \<longrightarrow> _ \<longrightarrow> _ \<longrightarrow> _ \<longrightarrow> _ \<longrightarrow> ?login)")
proof (intro conjI impI)
  assume e: "arg_string S s ''MAIL'' = Some username" "arg_string S s ''PASS'' \<noteq> None"
  show ?express if "arg_string S s ''PNAM'' \<noteq> None"
  proof -
    let ?u = "set_user (Some a) s"
    have "can_write S (WriteFullLogin S ?u a)"
      by (rule writes_full_login [OF assms(1)]) (use assms(3) in \<open>simp add: user_name_def set_user_def\<close>)
    then obtain b where b: "packet_bytes S (WriteFullLogin S ?u a) = Some b" "reply S q (WriteFullLogin S ?u a) ?u =
        Some (Client_send S M_Reply (rq_id q) (rq_component q) (rq_command q) 0 b ?u)" by (rule reply_sends)
    then have "Auth_ExpressLogin S q s = Some (Client_send S M_Reply (rq_id q) (rq_component q) (rq_command q) 0 b ?u)"
      using e that assms(2) by (auto simp: Auth_ExpressLogin_def)
    then show ?thesis
      using b(1) by (simp add: login_packets) (simp_all add: Client_send_def set_user_def get_user_def)
  qed
  assume l: "arg_uint64 S s ''DVID'' \<noteq> None" "arg_string S s ''TOKN'' \<noteq> None" "arg_uint S s ''TYPE'' \<noteq> None"
  let ?t = "set_user (Some a) (with_sessions (update_user a session_data) (s\<lparr>sv_sessions := sv_sessions s\<rparr>))"
  have lg: "Login (sc_env S) j js username p (sv_sessions s) = ((a, False, True), sv_sessions s)" for j js p
    by (rule second_login [OF assms(2)])
  have "user_name ?t a = user_name s a"
    using assms(4) by (simp add: user_name_def set_user_def with_sessions_def update_user_def session_data_def)
  then have "can_write S (WriteLogin S ?t a)" using writes_login [OF assms(1)] assms(3) by simp
  then obtain b where b: "packet_bytes S (WriteLogin S ?t a) = Some b"
      "reply S q (WriteLogin S ?t a) ?t = Some (Client_send S M_Reply (rq_id q) (rq_component q) (rq_command q) 0 b ?t)"
    by (rule reply_sends)
  then have "Auth_Login S q s = Some (Client_send S M_Reply (rq_id q) (rq_component q) (rq_command q) 0 b ?t)"
    using e l by (auto simp: Auth_Login_def lg)
  then show ?login
    using b(1) by (simp add: login_packets) (simp_all add: Client_send_def set_user_def get_user_def with_sessions_def)
qed


definition sage :: User where "sage = User_new ''Sage'' ''sage@mail'' ''pw''"

lemma sage_simps [simp]: "mUsername sage = ''sage@mail''" "mName sage = ''Sage''"
  by (simp_all add: sage_def User_new_def)

theorem logged_in_players_need_no_password_witness:
  "\<exists>t. Auth_ExpressLogin demo_services demo_request (demo_server [sage]
      (JObject [(''MAIL'', JString ''sage@mail''), (''PASS'', JString ''wrong''), (''PNAM'', JString [])])) = Some t \<and> get_user t = Some 0"
proof -
  let ?s = "demo_server [sage] (JObject [(''MAIL'', JString ''sage@mail''), (''PASS'', JString ''wrong''), (''PNAM'', JString [])])"
  have "GetUserByEmail ''sage@mail'' (sv_sessions ?s) = Some 0" by (simp add: demo_server_def GetUserByEmail_def)
  moreover have "arg_string demo_services ?s ''MAIL'' = Some ''sage@mail''" "arg_string demo_services ?s ''PASS'' \<noteq> None"
    "arg_string demo_services ?s ''PNAM'' \<noteq> None"
    by (simp_all add: arg_string_def member_laws [OF std_json_laws] get_defs no_nul_def)
  moreover have "no_nul (user_name ?s 0)" by (simp add: user_name_def no_nul_def)
  moreover have "json_laws (sc_json demo_services)" by (simp add: std_json_laws)
  ultimately show ?thesis
    using logged_in_players_need_no_password [of demo_services "''sage@mail''" ?s 0 demo_request] by auto
qed

subsection \<open>Rooms\<close>

text \<open>
  C39: A join that asks for a new room (number 0) in a category that does not exist is refused with
  the error of an unknown category, but the room has been made: it stays under its new number,
  empty and without a category, and nothing else has changed: the other rooms are found and are as
  before, and so are the categories, the views, the games, the sessions and the client, apart from
  the refusal that is sent to it.
\<close>

theorem failed_join_leaves_room:
  assumes "get_user s = Some a" and "rooms_ok (sv_rooms s)" and "GetRoom (- 1) (sv_rooms s) = None"
    and "arg_string S s ''PASS'' \<noteq> None" and "arg_string S s ''PVAL'' \<noteq> None" and "arg_uint64 S s ''INID'' \<noteq> None"
    and "arg_uint S s ''INVT'' \<noteq> None" and "arg_uint S s ''CTID'' = Some category" and "arg_uint S s ''RMID'' = Some 0"
    and "category \<noteq> 0" and "GetRoomCategory category (sv_rooms s) = None"
  shows "\<exists>t i r. Rooms_JoinRoom S q s = Some t \<and> GetRoom i (sv_rooms s) = None \<and> GetRoom i (sv_rooms t) = Some r \<and>
     the_room (sv_rooms t) r = Room_new i \<and>
     (\<forall>j. j \<noteq> i \<longrightarrow> GetRoom j (sv_rooms t) = GetRoom j (sv_rooms s)) \<and>
     objects (mRooms (sv_rooms t)) = objects (mRooms (sv_rooms s)) @ [Room_new i] \<and>
     sv_rooms t = (sv_rooms s)\<lparr>mRooms := mRooms (sv_rooms t)\<rparr> \<and>
     t = s\<lparr>sv_rooms := sv_rooms t, sv_client := (sv_client s)\<lparr>cl_writes := cl_writes (sv_client s) @
       [frame (sc_host S) M_ErrorReply (rq_id q) (rq_component q) (rq_command q) 0x19 db_empty]\<rparr>\<rparr>"
proof -
  define i where "i = next_number (mRooms (sv_rooms s)) 0"
  have f: "registry_get i (mRooms (sv_rooms s)) = None"
    unfolding i_def using all_rooms.fresh_number [of "mRooms (sv_rooms s)"] assms(3) by (simp add: GetRoom_def)
  then have c: "registry_create Room_new 0 (mRooms (sv_rooms s)) =
     (length (objects (mRooms (sv_rooms s))), (mRooms (sv_rooms s))\<lparr>objects := objects (mRooms (sv_rooms s)) @ [Room_new i],
        table := RBT.insert i (length (objects (mRooms (sv_rooms s)))) (table (mRooms (sv_rooms s)))\<rparr>)"
    by (simp add: registry_create_def Let_def i_def [symmetric] registry_get_def)
  define m where "m = (sv_rooms s)\<lparr>mRooms := (mRooms (sv_rooms s))\<lparr>objects := objects (mRooms (sv_rooms s)) @ [Room_new i],
        table := RBT.insert i (length (objects (mRooms (sv_rooms s)))) (table (mRooms (sv_rooms s)))\<rparr>\<rparr>"
  have j: "join_target 0 (sv_rooms s) = (Some (length (objects (mRooms (sv_rooms s)))), i, m)"
    by (simp add: join_target_def CreateRoom_def c m_def Room_new_def)
  have k: "join_category category m = (None, m)"
    using assms(10,11) by (simp add: join_category_def GetRoomCategory_def m_def)
  have e: "error_word ROOMS_ERR_CREATE_UNKNOWN_CATEGORY = 0x19" "reply_type ROOMS_ERR_CREATE_UNKNOWN_CATEGORY = M_ErrorReply"
    unfolding error_word_def reply_type_def ROOMS_ERR_CREATE_UNKNOWN_CATEGORY_def by code_simp+
  obtain password pval inviterId invited where "arg_string S s ''PASS'' = Some password" "arg_string S s ''PVAL'' = Some pval"
    "arg_uint64 S s ''INID'' = Some inviterId" "arg_uint S s ''INVT'' = Some invited"
    using assms(4-7) by auto
  then have "Rooms_JoinRoom S q s = reply_empty S q ROOMS_ERR_CREATE_UNKNOWN_CATEGORY (s\<lparr>sv_rooms := m\<rparr>)"
    using assms(1,8,9) by (simp add: Rooms_JoinRoom_def j k)
  then have t: "Rooms_JoinRoom S q s = Some (s\<lparr>sv_rooms := m, sv_client := (sv_client s)\<lparr>cl_writes := cl_writes (sv_client s) @
       [frame (sc_host S) M_ErrorReply (rq_id q) (rq_component q) (rq_command q) 0x19 db_empty]\<rparr>\<rparr>)"
    by (simp add: reply_empty_def Client_send_def e)
  have r: "GetRoom i m = Some (length (objects (mRooms (sv_rooms s))))" "the_room m (length (objects (mRooms (sv_rooms s)))) = Room_new i"
    "\<forall>j. j \<noteq> i \<longrightarrow> GetRoom j m = GetRoom j (sv_rooms s)" "objects (mRooms m) = objects (mRooms (sv_rooms s)) @ [Room_new i]"
    "m = (sv_rooms s)\<lparr>mRooms := mRooms m\<rparr>"
    by (simp_all add: m_def GetRoom_def registry_get_def)
  have n: "GetRoom i (sv_rooms s) = None" using f by (simp add: GetRoom_def)
  show ?thesis by (rule exI, rule exI [of _ i], rule exI [of _ "length (objects (mRooms (sv_rooms s)))"], rule conjI [OF t]) (simp add: r(1-4) n r(5) [symmetric])
qed


definition demo_join :: server where
  "demo_join = (set_user (Some 0) (demo_server [sage] (JObject
     [(''PASS'', JString []), (''PVAL'', JString []), (''INID'', JUint 0), (''INVT'', JUint 0), (''CTID'', JUint 9), (''RMID'', JUint 0)])))
     \<lparr>sv_rooms := no_rooms\<rparr>"

theorem failed_join_leaves_room_witness:
  "\<exists>t i r. Rooms_JoinRoom demo_services demo_request demo_join = Some t \<and> GetRoom i (sv_rooms t) = Some r \<and> the_room (sv_rooms t) r = Room_new i"
proof -
  have args: "arg_string demo_services demo_join ''PASS'' \<noteq> None" "arg_string demo_services demo_join ''PVAL'' \<noteq> None"
    "arg_uint64 demo_services demo_join ''INID'' \<noteq> None" "arg_uint demo_services demo_join ''INVT'' \<noteq> None"
    "arg_uint demo_services demo_join ''CTID'' = Some 9" "arg_uint demo_services demo_join ''RMID'' = Some 0"
    by (simp_all add: arg_string_def arg_uint_def arg_uint64_def demo_join_def document_of_def set_user_def demo_server_def
        World_new_def member_laws [OF std_json_laws] get_defs GetUint_def)
  have "get_user demo_join = Some 0" "rooms_ok (sv_rooms demo_join)" "GetRoom (- 1) (sv_rooms demo_join) = None"
    "GetRoomCategory 9 (sv_rooms demo_join) = None"
    by (simp_all add: demo_join_def set_user_def get_user_def no_rooms_def rooms_ok_def all_rooms.registered_empty
        categories.registered_empty views.registered_empty GetRoom_def GetRoomCategory_def registry_get_def)
  from failed_join_leaves_room [OF this(1-3) args _ this(4), of demo_request] show ?thesis by auto
qed

subsection \<open>Messages\<close>

lemma writes_message:
  assumes "json_laws (sc_json S)" and "no_nul name" and "\<forall>(k, v) \<in> set (ClientMessage_attributes m). no_nul v"
  shows "can_write S [ServerMessage_Write (sc_json S) (ServerMessage_of S m name)]"
proof (rule can_write_fields [OF assms(1)])
  show "builds (run [ServerMessage_Write (sc_json S) (ServerMessage_of S m name)]) (ServerMessage_fields (ServerMessage_of S m name))"
    by (rule builds_run_one [OF ServerMessage_builds [OF assms(1)]])
qed (use assms(2,3) in \<open>auto simp: ServerMessage_fields_def ServerMessage_of_def ClientMessage_fields_def no_nul_def V_id_def
      decimal_key no_nul_decimal(1) [unfolded no_nul_def] split: prod.splits\<close>)

lemma lua_runs:
  assumes "code \<noteq> []" and "no_nul code" and "\<not> starts_with code ''reload''"
  shows "run_command (''!lua '' @ code) g = map_option (Pair ''<load lua buffer>'') (AddServerTask (LuaBuffer code) g)"
proof -
  have "c_str (''lua '' @ code) = ''lua '' @ code" using assms(2) by (intro c_str_no_nul) (simp add: no_nul_def)
  then show ?thesis using assms by (cases code) (auto simp: run_command_def starts_with_def lua_command_def)
qed

text \<open>
  C33: Whoever can reach the port can run Lua code in a running game: where the server of a game
  runs and its first player (index 0) is there, a message to the game whose text is "!lua " and a
  code that is not empty and does not begin with "reload" puts that code at the end of the tasks of
  the game's thread, whether the client that sends it is logged in or not, and whoever it is.
\<close>

theorem anyone_runs_lua:
  assumes "json_laws (sc_json S)" and "ClientMessage_Read (sc_json S) (document_of s) ClientMessage_new = Some m"
    and "ClientMessage_target m = (GameManager_Id, x, i)" and "ClientMessage_attributes m = [(0xFF02, ''!lua '' @ code)]"
    and "code \<noteq> []" and "no_nul code" and "\<not> starts_with code ''reload''"
    and "GetGame (ucast i) (sv_games s) = Some g" and "g < length (objects (sv_games s))"
    and "g_server (game_at s g) = Some r"
    and "GetPlayerByIndex 0 (game_at s g) = Some p" and "no_nul (user_name s (pl_mUser p))"
  shows "\<exists>t. OnSendMessageResponse S q s = Some t \<and> get_user t = get_user s \<and> sv_sessions t = sv_sessions s \<and>
     game_at t g = (game_at s g)\<lparr>g_server := Some (r\<lparr>rs_tasks := rs_tasks r @ [LuaBuffer code]\<rparr>)\<rparr>"
proof -
  let ?fs = "[put_integer (sc_json S) ''MGID'' 0xFF02,
     within (push_list (sc_json S) ''MIDS'' T_Integer False) [each (\<lambda>i. put_integer (sc_json S) [] (ucast i)) [0xFF02 :: u32]]]"
  have "builds (run ?fs) [(''MGID'', V_Integer 0xFF02), (''MIDS'', V_List T_Integer False [V_Integer 0xFF02])]"
    by (rule builds_conv, (rule builds_intros assms)+, simp)
  then have "can_write S ?fs" by (rule can_write_fields [OF assms(1)]) (auto simp: no_nul_def)
  then obtain b where b: "\<And>s. reply S q ?fs s = Some (Client_send S 1 (rq_id q) (rq_component q) (rq_command q) 0 b s)"
    by (auto simp: can_write_def reply_def reply_type_def error_word_def M_Reply_def)
  define s1 where "s1 = Client_send S 1 (rq_id q) (rq_component q) (rq_command q) 0 b s"
  have osm: "OnSendMessageResponse S q s = NotifyMessage S m s1"
    unfolding OnSendMessageResponse_def using assms(2,4) by (simp add: b s1_def)
  have mt: "message_text m = (''!lua '' @ code, m)"
    unfolding message_text_def using assms(4) by (cases m) simp
  have to: "message_to_target m s1 = Option.bind (map_option (Pair ''<load lua buffer>'') (AddServerTask (LuaBuffer code) (game_at s g)))
      (\<lambda>(text, newGame). Some (user_name s (pl_mUser p), set_attribute 0xFF02 text m, update_game g (\<lambda>_. newGame) s1))"
    using assms(3,8,11) lua_runs [OF assms(5-7), of "game_at s g"]
    by (simp add: message_to_target_def message_to_game_def s1_def mt user_name_def)
  let ?m = "set_attribute 0xFF02 ''<load lua buffer>'' m"
  define t where "t = update_game g (\<lambda>_. (game_at s g)\<lparr>g_server := Some (r\<lparr>rs_tasks := rs_tasks r @ [LuaBuffer code]\<rparr>)\<rparr>) s1"
  have t: "OnSendMessageResponse S q s = (if user_name s (pl_mUser p) \<noteq> []
      then notify S Messaging_Id 0x01 [ServerMessage_Write (sc_json S) (ServerMessage_of S ?m (user_name s (pl_mUser p)))] t
      else Some t)"
    by (simp add: osm NotifyMessage_def to AddServerTask_def assms(10) t_def)
  have "can_write S [ServerMessage_Write (sc_json S) (ServerMessage_of S ?m (user_name s (pl_mUser p)))]"
    by (rule writes_message [OF assms(1,12)]) (simp add: set_attribute_def assms(4) no_nul_def)
  then obtain b' where n: "notify S Messaging_Id 0x01 [ServerMessage_Write (sc_json S) (ServerMessage_of S ?m (user_name s (pl_mUser p)))] t =
      Some (Client_send S 2 0 Messaging_Id 0x01 0 b' t)" by (rule sends)
  have g: "get_user t = get_user s" "sv_sessions t = sv_sessions s"
    "game_at t g = (game_at s g)\<lparr>g_server := Some (r\<lparr>rs_tasks := rs_tasks r @ [LuaBuffer code]\<rparr>)\<rparr>"
    using assms(9) by (simp_all add: t_def update_game_def s1_def registry_update_def) (simp_all add: get_user_def Client_send_def)
  show ?thesis
  proof (cases "user_name s (pl_mUser p) = []")
    case True
    then show ?thesis using t g by simp
  next
    case False
    then show ?thesis using t g n by simp
  qed
qed


definition demo_game :: "running_server \<Rightarrow> game" where
  "demo_game r = (Instance_new 1)\<lparr>g_players := RBT.insert 0 (Player_new 0 Account_default 0) RBT.empty, g_server := Some r\<rparr>"

definition demo_lua :: "running_server \<Rightarrow> server" where
  "demo_lua r = (demo_server [sage] (JObject
     [(''ATTR'', JObject [(''_Content'', JObject [(decimal 65282, JString ''!lua x=1'')])]),
      (''TARG'', JObject [(''_X'', JUint 4), (''_Y'', JUint 0), (''_Z'', JUint 1)]), (''FLAG'', JUint 0), (''STAT'', JUint 0),
      (''TAG'', JUint 0), (''TYPE'', JUint 0)]))
     \<lparr>sv_games := \<lparr>objects = [demo_game r], table = RBT.insert 1 0 RBT.empty\<rparr>\<rparr>"

lemma attribute_key: "to_number_u32 0 (decimal 65282) = 0xFF02"
  using decimal_key(2) [of "0xFF02"] by simp

lemma single_entry: "RBT.entries (RBT.insert k v RBT.empty) = [(k, v)]"
proof -
  let ?es = "RBT.entries (RBT.insert k v RBT.empty)"
  have d: "distinct (map fst ?es)" by (rule RBT.distinct_entries)
  have "map_of ?es = [k \<mapsto> v]" by (simp add: RBT.map_of_entries)
  then have "(x, y) \<in> set ?es \<longleftrightarrow> x = k \<and> y = v" for x y
    using map_of_eq_Some_iff [OF d, of x y] by (auto split: if_splits)
  then have s: "set ?es = {(k, v)}" by auto
  then have "length ?es = 1" using distinct_card [OF conjunct1 [OF d [unfolded distinct_map]]] by simp
  then show ?thesis using s by (cases ?es) auto
qed

lemma mark_keeps [simp]:
  "mPlayerIndex (pl_mark k p) = mPlayerIndex p" "pl_mUser (pl_mark k p) = pl_mUser p"
  "mPlayerIndex (Players.SetStatus st x p) = mPlayerIndex p" "pl_mUser (Players.SetStatus st x p) = pl_mUser p"
  by (simp_all add: pl_mark_def Players.SetStatus_def Players.SetUpdateBits_def)

lemma first_player: "mPlayerIndex (Player_new a acc i) = i \<and> pl_mUser (Player_new a acc i) = a"
  by (simp add: Player_new_def Player_Setup_def Let_def)

theorem anyone_runs_lua_witness:
  "get_user (demo_lua \<lparr>rs_port = 3659, rs_tasks = [LuaInitialize]\<rparr>) = None \<and>
   (\<exists>t. OnSendMessageResponse demo_services demo_request (demo_lua \<lparr>rs_port = 3659, rs_tasks = [LuaInitialize]\<rparr>) = Some t \<and>
      g_server (game_at t 0) = Some \<lparr>rs_port = 3659, rs_tasks = [LuaInitialize, LuaBuffer ''x=1'']\<rparr>)"
proof -
  define m where "m = \<lparr>ClientMessage_attributes = [(0xFF02, ''!lua '' @ ''x=1'')], ClientMessage_target = (4, 0, 1),
    ClientMessage_flags = 0, ClientMessage_stat = 0, ClientMessage_tag = 0, ClientMessage_type = 0\<rparr>"
  have d: "ClientMessage_Read std_json (document_of (demo_lua r)) ClientMessage_new = Some m" for r
    by (simp add: demo_lua_def demo_server_def World_new_def document_of_def ClientMessage_Read_def member_laws [OF std_json_laws]
        get_defs GetUint_def ClientMessage_new_def m_def attribute_key no_nul_decimal no_nul_def)
  have g: "GetGame (ucast (1 :: u64)) (sv_games (demo_lua r)) = Some 0" "0 < length (objects (sv_games (demo_lua r)))"
    "game_at (demo_lua r) 0 = demo_game r" for r
    by (simp_all add: demo_lua_def GetGame_def registry_get_def)
  have p: "GetPlayerByIndex 0 (demo_game r) = Some (Player_new 0 Account_default 0)" for r
    using first_player by (simp add: GetPlayerByIndex_def demo_game_def single_entry)
  have n: "no_nul (user_name (demo_lua r) (pl_mUser (Player_new 0 Account_default 0)))" for r
    using first_player by (simp add: user_name_def demo_lua_def no_nul_def)
  have r: "g_server (demo_game r) = Some r" for r by (simp add: demo_game_def)
  have u: "get_user (demo_lua r) = None" for r
    by (simp add: demo_lua_def get_user_def demo_server_def World_new_def Client_new_def)
  show ?thesis
    using anyone_runs_lua [of demo_services "demo_lua \<lparr>rs_port = 3659, rs_tasks = [LuaInitialize]\<rparr>" m 0 1 "''x=1''" 0
        "\<lparr>rs_port = 3659, rs_tasks = [LuaInitialize]\<rparr>" "Player_new 0 Account_default 0" demo_request] d g p n r u
    by (auto simp: std_json_laws m_def GameManager_Id_def no_nul_def starts_with_def)
qed

subsection \<open>Games\<close>

lemma reset_game_info:
  assumes "reset_game S d data userId g = Some g'"
  shows "ReplicatedGameData_hostNetwork (g_info g') = CreateGameRequest_hostNetwork data" "GetId g' = GetId g"
    "g_server g' = g_server g"
proof -
  show "ReplicatedGameData_hostNetwork (g_info g') = CreateGameRequest_hostNetwork data"
    using assms by (auto simp: reset_game_def Let_def game_data_of_def dest!: LoadLevel_id split: prod.splits)
  show "GetId g' = GetId g" "g_server g' = g_server g" using reset_game_id [OF assms] by simp_all
qed

lemma writes_player:
  assumes "no_nul (ReplicatedGamePlayer_name p)"
  shows "TDF.writable (V_Struct (ReplicatedGamePlayer_fields p))"
  using assms by (auto simp: ReplicatedGamePlayer_fields_def IpPairAddress_fields_def IpAddress_fields_def no_nul_def V_id_def
      split: prod.splits)

lemma notifies:
  assumes "can_write S fs"
  shows "\<exists>b. notify S component command fs s = Some (Client_send S 2 0 component command 0 b s)"
  using sends [OF assms] by metis

lemma replies:
  assumes "can_write S fs"
  shows "\<exists>b. reply S q fs s = Some (Client_send S 1 (rq_id q) (rq_component q) (rq_command q) 0 b s)"
  using sends [OF assms] by metis

lemma game_notifications:
  assumes J: "json_laws (sc_json S)"
  shows "\<exists>b. NotifyGameCreated S i s = Some (Client_send S 2 0 GameManager_Id 0x0F 0 b s)"
    "\<exists>b. NotifyGameStateChange S j state s = Some (Client_send S 2 0 GameManager_Id 0x64 0 b s)"
    "\<exists>b. NotifyGamePlayerStateChange S i persona state s = Some (Client_send S 2 0 GameManager_Id 0x74 0 b s)"
    "\<exists>b. NotifyPlayerJoinCompleted S i persona s = Some (Client_send S 2 0 GameManager_Id 0x1E 0 b s)"
    "\<exists>b. reply S q (WriteJoinGame S i) s = Some (Client_send S 1 (rq_id q) (rq_component q) (rq_command q) 0 b s)"
  unfolding NotifyGameCreated_def NotifyGameStateChange_def NotifyGamePlayerStateChange_def NotifyPlayerJoinCompleted_def
    WriteJoinGame_def
  by (rule notifies replies, rule can_write_values [OF J], auto simp: no_nul_def)+

lemma setup_notifications:
  assumes J: "json_laws (sc_json S)" and "get_user s = Some a" and "no_nul (ReplicatedGamePlayer_name p)"
  shows "\<exists>b. NotifyPlayerJoining S p s = Some (Client_send S 2 0 GameManager_Id 0x15 0 b s)"
    and "game_of s a = Some g \<Longrightarrow> TDF.writable (V_Struct (ReplicatedGameData_fields info)) \<Longrightarrow>
      \<exists>b. NotifyGameSetup S info [p] s = Some (Client_send S 2 0 GameManager_Id 0x14 0 b s)"
proof -
  let ?J = "[put_integer (sc_json S) ''GID'' (ucast (ReplicatedGamePlayer_gameId p)),
           within (push_struct (sc_json S) ''PDAT'') [ReplicatedGamePlayer_Write (sc_json S) p]]"
  have "builds (run ?J) [(''GID'', V_Integer (ucast (ReplicatedGamePlayer_gameId p))), (''PDAT'', V_Struct (ReplicatedGamePlayer_fields p))]"
    by (rule builds_conv, (rule builds_intros builds_rules J)+, simp)
  then have "can_write S ?J"
    by (rule can_write_fields [OF J]) (use writes_player [OF assms(3)] in \<open>auto simp: no_nul_def\<close>)
  then show "\<exists>b. NotifyPlayerJoining S p s = Some (Client_send S 2 0 GameManager_Id 0x15 0 b s)"
    unfolding NotifyPlayerJoining_def assms(2) option.case by (rule notifies)
next
  assume g: "game_of s a = Some g" and w: "TDF.writable (V_Struct (ReplicatedGameData_fields info))"
  let ?G = "[within (push_struct (sc_json S) ''GAME'') [ReplicatedGameData_Write (sc_json S) info],
     within (push_list (sc_json S) ''PROS'' T_Struct False)
       [each (\<lambda>player. within (push_struct (sc_json S) []) [ReplicatedGamePlayer_Write (sc_json S) player]) [p]],
     within (push_union (sc_json S) ''REAS'' 0) [within (push_struct (sc_json S) ''VALU'') [put_integer (sc_json S) ''DCTX'' 0]]]"
  have d: "TDF.writable (V_Struct [(''DCTX'', V_Integer 0)])" by (simp add: no_nul_def)
  have "builds (run ?G) [(''GAME'', V_Struct (ReplicatedGameData_fields info)),
      (''PROS'', V_List T_Struct False [V_Struct (ReplicatedGamePlayer_fields p)]),
      (''REAS'', V_Union 0 [(''VALU'', V_Struct [(''DCTX'', V_Integer 0)])])]"
    by (rule builds_conv, (rule builds_intros builds_rules J)+, simp)
  then have "can_write S ?G"
    by (rule can_write_fields [OF J]) (use w d writes_player [OF assms(3)] in \<open>auto simp: no_nul_def simp del: TDF.writable.simps(3)\<close>)
  then show "\<exists>b. NotifyGameSetup S info [p] s = Some (Client_send S 2 0 GameManager_Id 0x14 0 b s)"
    unfolding NotifyGameSetup_def Let_def assms(2) g option.case by (rule notifies)
qed


text \<open>The answers of the two requests can always be sent.\<close>

lemma same_state:
  assumes "s' = Client_send S x i component command err b s"
  shows "sv_games s' = sv_games s \<and> get_user s' = get_user s \<and> sv_user_game s' = sv_user_game s"
  using assms by simp

lemma reset_answers:
  assumes J: "json_laws (sc_json S)" and u: "get_user s = Some a" and g: "game_of s a = Some g"
    and w: "TDF.writable (V_Struct (ReplicatedGameData_fields info))" and p: "no_nul (ReplicatedGamePlayer_name p)"
  shows "\<exists>t. (do { s \<leftarrow> reply S q (WriteJoinGame S i) s; s \<leftarrow> NotifyGameCreated S i s; s \<leftarrow> NotifyGameSetup S info [p] s;
     NotifyPlayerJoining S p s }) = Some t \<and> sv_games t = sv_games s \<and> get_user t = Some a \<and> sv_user_game t = sv_user_game s"
proof -
  note N = game_notifications [OF J]
  obtain s1 where s1: "reply S q (WriteJoinGame S i) s = Some s1" "get_user s1 = Some a" "sv_user_game s1 = sv_user_game s"
    "sv_games s1 = sv_games s" using N(5) [of q i s] same_state u by metis
  obtain s2 where s2: "NotifyGameCreated S i s1 = Some s2" "get_user s2 = Some a" "sv_user_game s2 = sv_user_game s"
    "sv_games s2 = sv_games s" using N(1) [of i s1] same_state s1 by metis
  then have "game_of s2 a = Some g" using g by (simp add: game_of_def)
  then obtain s3 where s3: "NotifyGameSetup S info [p] s2 = Some s3" "get_user s3 = Some a" "sv_user_game s3 = sv_user_game s"
    "sv_games s3 = sv_games s" using setup_notifications(2) [OF J s2(2) p _ w] same_state s2 by metis
  obtain t where "NotifyPlayerJoining S p s3 = Some t" "get_user t = Some a" "sv_user_game t = sv_user_game s"
    "sv_games t = sv_games s" using setup_notifications(1) [OF J s3(2) p] same_state s3 by metis
  then show ?thesis by (simp add: s1(1) s2(1) s3(1))
qed

lemma finalize_runs:
  assumes J: "json_laws (sc_json S)" and u: "get_user s = Some a" and g: "game_of s a = Some g"
  shows "\<exists>t. GameManager_FinalizeGameCreation S q s = Some t \<and>
    sv_games t = StartGame (sc_millis S) (GetId (game_at s g)) (sv_games s)"
proof -
  note N = game_notifications [OF J]
  let ?i = "GetId (game_at s g)"
  define s0 where "s0 = s\<lparr>sv_games := StartGame (sc_millis S) ?i (sv_games s)\<rparr>"
  obtain s1 where s1: "reply S q (WriteJoinGame S ?i) s0 = Some s1" "sv_games s1 = sv_games s0"
    using N(5) [of q ?i s0] same_state by metis
  obtain s2 where s2: "NotifyGameStateChange S (ucast ?i) 0x83 s1 = Some s2" "sv_games s2 = sv_games s0"
    using N(2) [of "ucast ?i" "0x83" s1] same_state s1 by metis
  obtain s3 where s3: "NotifyGamePlayerStateChange S ?i (ucast (user_id s2 a)) 4 s2 = Some s3" "sv_games s3 = sv_games s0"
    using N(3) [of ?i "ucast (user_id s2 a)" 4 s2] same_state s2 by metis
  obtain t where t: "NotifyPlayerJoinCompleted S ?i (ucast (user_id s3 a)) s3 = Some t" "sv_games t = sv_games s0"
    using N(4) [of ?i "ucast (user_id s3 a)" s3] same_state s3 by metis
  then show ?thesis
    unfolding GameManager_FinalizeGameCreation_def u g option.case Let_def s0_def [symmetric]
    by (simp add: s1(1) s2(1) s3(1)) (simp add: s0_def)
qed

text \<open>
  C6: A player who is logged in and asks for a game gets one: the request makes a game with a number
  that no other has, binds it to the user and leaves it with the address the request names, not
  running; the request that finalises the creation then starts the server of this game on the port
  of that address, with the loading of the scripts as its first task; the objects of the games there
  were are untouched.
\<close>

theorem reset_then_finalize:
  assumes J: "json_laws (sc_json S)" and u: "get_user s = Some a" and ok: "games_ok (sv_games s)"
    and free: "GetGame (- 1) (sv_games s) = None" and c: "CreateGame (sv_games s) = (g, G)"
    and r: "CreateGameRequest_Read (sc_json S) (document_of s) (sc_request S) = Some data"
    and n: "reset_game S (disk (sv_sessions s)) data (user_id s a) (the_game G g) = Some newGame"
    and w: "TDF.writable (V_Struct (ReplicatedGameData_fields (g_info newGame)))" and name: "no_nul (user_name s a)"
  shows "\<exists>t v. GameManager_ResetDedicatedServer S q s = Some t \<and> GameManager_FinalizeGameCreation S q' t = Some v \<and>
     game_of t a = Some g \<and> game_at t g = newGame \<and> g_server newGame = None \<and>
     GetGame (GetId newGame) (sv_games s) = None \<and> GetGame (GetId newGame) (sv_games t) = Some g \<and>
     game_at v g = newGame\<lparr>g_server := Some \<lparr>rs_port = IpAddress_port (IpPairAddress_exip (CreateGameRequest_hostNetwork data)),
       rs_tasks = [LuaInitialize]\<rparr>, g_startTime := sc_millis S\<rparr> \<and>
     (\<forall>b < g. game_at v b = game_at s b)"
proof -
  note C = CreateGame_ok [OF ok free c]
  note I = reset_game_info [OF n]
  define s1 where "s1 = set_game a (Some g) (s\<lparr>sv_games := G\<rparr>)"
  define s2 where "s2 = update_game g (\<lambda>_. newGame) s1"
  define pl where "pl = reset_player S s2 a (g_info newGame) data"
  have s1: "get_user s1 = Some a" "document_of s1 = document_of s" "sv_sessions s1 = sv_sessions s" "sv_games s1 = G"
    "game_of s1 a = Some g"
    using u by (simp_all add: s1_def set_game_def get_user_def document_of_def game_of_def)
  have s2: "get_user s2 = Some a" "sv_sessions s2 = sv_sessions s" "game_of s2 a = Some g" "game_at s2 g = newGame"
    "\<And>b. b < g \<Longrightarrow> game_at s2 b = game_at s b"
    using s1 C(4,5,7) by (simp_all add: s2_def update_game_def get_user_def game_of_def registry_update_def)
  have id: "GetGame (GetId newGame) (sv_games s2) = Some g"
    using C(3) I(2) s1(4) by (simp add: s2_def update_game_def GetGame_def registry_get_def registry_update_def)
  have p: "no_nul (ReplicatedGamePlayer_name pl)"
    using name s2(2) by (simp add: pl_def reset_player_def user_name_def)
  obtain t where t: "do { s \<leftarrow> reply S q (WriteJoinGame S (ReplicatedGameData_id (g_info newGame))) s2;
      s \<leftarrow> NotifyGameCreated S (ReplicatedGameData_id (g_info newGame)) s; s \<leftarrow> NotifyGameSetup S (g_info newGame) [pl] s;
      NotifyPlayerJoining S pl s } = Some t" "sv_games t = sv_games s2" "get_user t = Some a" "sv_user_game t = sv_user_game s2"
    using reset_answers [OF J s2(1) s2(3) w p] by blast
  have R: "GameManager_ResetDedicatedServer S q s = Some t"
    using r n t(1)
    by (simp add: GameManager_ResetDedicatedServer_def u c s1_def [symmetric] s1 s2_def [symmetric] pl_def [symmetric] Let_def
        user_id_def)
  have g: "game_of t a = Some g" using t(4) s2(3) by (simp add: game_of_def)
  obtain v where v: "GameManager_FinalizeGameCreation S q' t = Some v" "sv_games v = StartGame (sc_millis S) (GetId newGame) (sv_games s2)"
    using finalize_runs [OF J t(3) g] t(2) s2(4) by auto
  have len: "g < length (objects (sv_games s2))" using C(4,5) s1(4) by (simp add: s2_def update_game_def)
  have "game_at v g = Instance_Start (sc_millis S) newGame" "\<And>b. b < g \<Longrightarrow> game_at v b = game_at s b"
    using s2(4,5) len id by (simp_all add: v(2) StartGame_def registry_update_def)
  moreover have "g_server newGame = None" using I(3) arg_cong [OF C(8), of g_server] by (simp add: Instance_new_def)
  moreover have "GetGame (GetId newGame) (sv_games s) = None" using C(2) I(2) by simp
  ultimately show ?thesis
    using R v(1) t(2) g s2(4) id I(1) by (intro exI [of _ t] exI [of _ v]) (simp add: Instance_Start_def Instance_Stop_def)
qed


definition demo_player :: server where
  "demo_player = set_user (Some 0) (demo_server [sage] (JObject sample_request))"

lemma demo_request_read:
  "CreateGameRequest_Read std_json (JObject sample_request) (sample_game True) =
    Some ((sample_game True)\<lparr>CreateGameRequest_capacity := [4, 4]\<rparr>)"
  by (simp add: CreateGameRequest_Read_def sample_request_def member_laws [OF std_json_laws] get_defs assign_def
      over_array_def over_object_def CreateGameRequest_ReadHost_def IpAddress_Read_def GetUint_def sample_game_def no_nul_def)

lemma demo_level: "GetLevelName (prepare_chain l ChainVoteData_new) \<noteq> None"
  unfolding prepare_chain_def using chain_ok_steps chain_ok_new unfolding chain_ok_def by blast

lemma demo_reset:
  assumes "data = (sample_game True)\<lparr>CreateGameRequest_capacity := [4, 4]\<rparr>"
  shows "\<exists>g. reset_game demo_services empty_disk data i (Instance_new 1) = Some g \<and>
    TDF.writable (V_Struct (ReplicatedGameData_fields (g_info g)))"
proof -
  let ?info = "game_data_of data i (g_info (Instance_new 1))"
  obtain attributes l where a: "selected_difficulty (ReplicatedGameData_attributes ?info) = (attributes, l)" by fastforce
  then have at: "attributes = [(''SelectedDifficulty'', [])]"
    by (simp add: assms selected_difficulty_def Let_def game_data_of_def sample_game_def)
  obtain name where n: "GetLevelName (prepare_chain l ChainVoteData_new) = Some name" using demo_level by blast
  have "Level_Load X F empty_disk name v = (False, v)" for X F v
    by (simp add: Level_Load_def load_file_def empty_disk_def)
  then have "reset_game demo_services empty_disk data i (Instance_new 1) = Some ((Instance_new 1)
      \<lparr>g_info := ?info\<lparr>ReplicatedGameData_attributes := attributes\<rparr>, g_chain := prepare_chain l ChainVoteData_new\<rparr>)"
    using a n by (simp add: reset_game_def Let_def LoadLevel_def Instance_new_def)
  moreover have "TDF.writable (V_Struct (ReplicatedGameData_fields (?info\<lparr>ReplicatedGameData_attributes := attributes\<rparr>)))"
    by (simp add: at assms ReplicatedGameData_fields_def game_data_of_def sample_game_def IpPairAddress_fields_def IpAddress_fields_def
        NetworkQosData_fields_def HostInfo_fields_def no_nul_def Instance_new_def ReplicatedGameData_zero_def)
  ultimately show ?thesis by simp
qed

theorem reset_then_finalize_witness:
  "\<exists>t v. GameManager_ResetDedicatedServer demo_services demo_request demo_player = Some t \<and>
     GameManager_FinalizeGameCreation demo_services demo_request t = Some v \<and> game_of t 0 = Some 0 \<and> g_server (game_at t 0) = None \<and>
     g_server (game_at v 0) = Some \<lparr>rs_port = 2, rs_tasks = [LuaInitialize]\<rparr>"
proof -
  define data where "data = (sample_game True)\<lparr>CreateGameRequest_capacity := [4, 4]\<rparr>"
  obtain G where c: "CreateGame (sv_games demo_player) = (0, G)" "the_game G 0 = Instance_new 1"
  proof
    have "RBT.entries (RBT.empty :: (u32, nat) rbt) = []"
      using RBT.map_of_entries [of "RBT.empty :: (u32, nat) rbt"] by (cases "RBT.entries (RBT.empty :: (u32, nat) rbt)") auto
    then show "CreateGame (sv_games demo_player) = (0, \<lparr>objects = [Instance_new 1], table = RBT.insert 1 0 RBT.empty\<rparr>)"
      by (simp add: CreateGame_def demo_player_def set_user_def)
  qed simp
  obtain g where r: "reset_game demo_services empty_disk data (user_id demo_player 0) (Instance_new 1) = Some g"
    "TDF.writable (V_Struct (ReplicatedGameData_fields (g_info g)))"
    using demo_reset [OF data_def] by blast
  have s: "get_user demo_player = Some 0" "games_ok (sv_games demo_player)" "GetGame (- 1) (sv_games demo_player) = None"
    "document_of demo_player = JObject sample_request" "disk (sv_sessions demo_player) = empty_disk" "no_nul (user_name demo_player 0)"
    by (simp_all add: demo_player_def set_user_def get_user_def document_of_def games_ok_def all_games.registered_empty GetGame_def
        registry_get_def user_name_def no_nul_def demo_server_def World_new_def)
  have d: "CreateGameRequest_Read (sc_json demo_services) (document_of demo_player) (sc_request demo_services) = Some data"
    using demo_request_read by (simp add: s(4) data_def demo_services_def)
  have p: "IpAddress_port (IpPairAddress_exip (CreateGameRequest_hostNetwork data)) = 2" by (simp add: data_def sample_game_def)
  obtain t v where "GameManager_ResetDedicatedServer demo_services demo_request demo_player = Some t"
    "GameManager_FinalizeGameCreation demo_services demo_request t = Some v" "game_of t 0 = Some 0" "game_at t 0 = g" "g_server g = None"
    "game_at v 0 = g\<lparr>g_server := Some \<lparr>rs_port = IpAddress_port (IpPairAddress_exip (CreateGameRequest_hostNetwork data)),
       rs_tasks = [LuaInitialize]\<rparr>, g_startTime := sc_millis demo_services\<rparr>"
    using reset_then_finalize [of demo_services demo_player 0 0 G data g demo_request demo_request] s c r d by (auto simp: std_json_laws)
  then show ?thesis by (intro exI [of _ t] exI [of _ v]) (simp add: p)
qed

end
