(* ===== verification/RefPack.thy ===== *)
theory RefPack
  imports Prelude
begin

unbundle bit_operations_syntax

text \<open>
  The decompressor of the asset packages: the class \<open>RefPackCompression\<close> of
  \<open>source/Game/AssetData/DBPFManager.cpp\<close>.  Buffers are lists of bytes; an access outside of a
  buffer is the value \<open>Memory_fault\<close>, the other errors are the exceptions of the code.  \<open>int\<close>
  values stay below \<open>2 ^ 25\<close> and are natural numbers.
\<close>

subsection \<open>Results\<close>

datatype package_error =
    Input_too_small | Unknown_compression | Output_too_small | Data_truncated | Plain_exceeds | Bad_offset
  | Copy_exceeds | Memory_fault | Unexpected_eof | Invalid_boolean | Unknown_label | Invalid_memSize
  | Invalid_compressedSize | Negative_count | Unknown_magic | Cannot_open | Registry_missing

definition and_then :: "'e + 'a \<Rightarrow> ('a \<Rightarrow> 'e + 'b) \<Rightarrow> 'e + 'b" where
  "and_then r f = (case r of Inl e \<Rightarrow> Inl e | Inr x \<Rightarrow> f x)"

lemma and_then_simps [simp]: "and_then (Inl e) f = Inl e" "and_then (Inr x) f = f x"
  by (simp_all add: and_then_def)

lemma and_then_Inr: "and_then r f = Inr y \<longleftrightarrow> (\<exists>x. r = Inr x \<and> f x = Inr y)"
  by (cases r) auto

definition unless_throw :: "bool \<Rightarrow> 'e \<Rightarrow> 'e + 'a \<Rightarrow> 'e + 'a" where
  "unless_throw bad e r = (if bad then Inl e else r)"

subsection \<open>The control bytes\<close>

definition byte_at :: "bytes \<Rightarrow> nat \<Rightarrow> package_error + nat" where
  "byte_at input i = (if i < length input then Inr (unat (input ! i)) else Inl Memory_fault)"

record refpack_run =
  numPlain :: nat
  numCopy :: nat
  copyOff :: nat

text \<open>The lengths and the distance that follow from the control byte and up to three more.\<close>

definition long_run :: "nat \<Rightarrow> nat \<Rightarrow> nat \<Rightarrow> nat \<Rightarrow> refpack_run" where
  "long_run ctrl b1 b2 b3 =
     \<lparr>numPlain = ctrl AND 0x03, numCopy = push_bit 6 (ctrl AND 0x0C) + b3 + 5,
      copyOff = push_bit 12 (ctrl AND 0x10) + push_bit 8 b1 + b2 + 1\<rparr>"

definition middle_run :: "nat \<Rightarrow> nat \<Rightarrow> nat \<Rightarrow> refpack_run" where
  "middle_run ctrl b2 b3 =
     \<lparr>numPlain = drop_bit 6 (b2 AND 0xC0) AND 0x03, numCopy = (ctrl AND 0x3F) + 4,
      copyOff = push_bit 8 (b2 AND 0x3F) + b3 + 1\<rparr>"

definition short_run :: "nat \<Rightarrow> nat \<Rightarrow> refpack_run" where
  "short_run ctrl b1 =
     \<lparr>numPlain = ctrl AND 0x03, numCopy = drop_bit 2 (ctrl AND 0x1C) + 3,
      copyOff = push_bit 3 (ctrl AND 0x60) + b1 + 1\<rparr>"

definition control :: "bytes \<Rightarrow> nat \<Rightarrow> package_error + refpack_run \<times> nat" where
  "control input pin = and_then (byte_at input pin) (\<lambda>ctrl. let pin = pin + 1 in
     if ctrl \<ge> 252 then Inr (\<lparr>numPlain = ctrl AND 0x03, numCopy = 0, copyOff = 0\<rparr>, pin)
     else if ctrl \<ge> 224 then Inr (\<lparr>numPlain = push_bit 2 (ctrl AND 0x1F) + 4, numCopy = 0, copyOff = 0\<rparr>, pin)
     else if ctrl \<ge> 192 then
       unless_throw (pin + 3 > length input) Data_truncated
         (and_then (byte_at input pin) (\<lambda>b1. and_then (byte_at input (pin + 1)) (\<lambda>b2.
          and_then (byte_at input (pin + 2)) (\<lambda>b3. Inr (long_run ctrl b1 b2 b3, pin + 3)))))
     else if ctrl \<ge> 128 then
       unless_throw (pin + 2 > length input) Data_truncated
         (and_then (byte_at input pin) (\<lambda>b2. and_then (byte_at input (pin + 1)) (\<lambda>b3.
          Inr (middle_run ctrl b2 b3, pin + 2))))
     else
       unless_throw (pin + 1 > length input) Data_truncated
         (and_then (byte_at input pin) (\<lambda>b1. Inr (short_run ctrl b1, pin + 1))))"

subsection \<open>The two copies\<close>

text \<open>\<open>memcpy\<close> from another buffer, and within one, where the pieces must not overlap.\<close>

definition memcpy :: "bytes \<Rightarrow> nat \<Rightarrow> bytes \<Rightarrow> nat \<Rightarrow> nat \<Rightarrow> package_error + bytes" where
  "memcpy out d src s n =
     (if d + n \<le> length out \<and> s + n \<le> length src
      then Inr (take d out @ take n (drop s src) @ drop (d + n) out) else Inl Memory_fault)"

definition memcpy_within :: "bytes \<Rightarrow> nat \<Rightarrow> nat \<Rightarrow> nat \<Rightarrow> package_error + bytes" where
  "memcpy_within out d s n = unless_throw (\<not> (s + n \<le> d \<or> d + n \<le> s)) Memory_fault (memcpy out d out s n)"

primrec copy_loop :: "nat \<Rightarrow> nat \<Rightarrow> nat \<Rightarrow> bytes \<Rightarrow> package_error + bytes" where
  "copy_loop 0 off filled out = Inr out"
| "copy_loop (Suc n) off filled out =
     unless_throw (filled < off \<or> length out \<le> filled) Memory_fault
       (copy_loop n off (Suc filled) (out[filled := out ! (filled - off)]))"

definition plain_run :: "bytes \<Rightarrow> nat \<Rightarrow> refpack_run \<Rightarrow> nat \<Rightarrow> nat \<Rightarrow> bytes \<Rightarrow> package_error + nat \<times> nat \<times> bytes" where
  "plain_run input decompSize r pin filled out =
     (let n = numPlain r in
      if n > 0 then
        unless_throw (pin + n > length input) Data_truncated
        (unless_throw (filled + n > decompSize) Plain_exceeds
        (and_then (memcpy out filled input pin n) (\<lambda>out. Inr (pin + n, filled + n, out))))
      else Inr (pin, filled, out))"

definition copy_run :: "nat \<Rightarrow> refpack_run \<Rightarrow> nat \<Rightarrow> bytes \<Rightarrow> package_error + nat \<times> bytes" where
  "copy_run decompSize r filled out =
     (let n = numCopy r; off = copyOff r in
      if n > 0 then
        unless_throw (off \<le> 0 \<or> off > filled) Bad_offset
        (unless_throw (filled + n > decompSize) Copy_exceeds
        (and_then (if n > off then copy_loop n off filled out else memcpy_within out filled (filled - off) n)
          (\<lambda>out. Inr (filled + n, out))))
      else Inr (filled, out))"

subsection \<open>The loop\<close>

lemma control_advances: "control input pin = Inr (r, p) \<Longrightarrow> pin < p \<and> pin < length input"
  by (auto simp: control_def byte_at_def unless_throw_def and_then_Inr Let_def split: if_splits)

lemma plain_run_advances: "plain_run input m r pin filled out = Inr (p, z, out') \<Longrightarrow> pin \<le> p"
  by (auto simp: plain_run_def unless_throw_def and_then_Inr Let_def split: if_splits)

function decompress_loop :: "bytes \<Rightarrow> nat \<Rightarrow> nat \<Rightarrow> nat \<Rightarrow> bytes \<Rightarrow> package_error + bytes" where
  "decompress_loop input decompSize pin filled out =
     (if filled < decompSize then
        if pin \<ge> length input then Inl Data_truncated
        else (case control input pin of
            Inl e \<Rightarrow> Inl e
          | Inr (r, p) \<Rightarrow>
              (case plain_run input decompSize r p filled out of
                 Inl e \<Rightarrow> Inl e
               | Inr (p', filled', out') \<Rightarrow>
                   (case copy_run decompSize r filled' out' of
                      Inl e \<Rightarrow> Inl e
                    | Inr (filled'', out'') \<Rightarrow> decompress_loop input decompSize p' filled'' out'')))
      else Inr out)"
  by pat_completeness auto
termination
  by (relation "measure (\<lambda>(input, m, pin, filled, out). length input - pin)")
    (auto dest!: control_advances plain_run_advances)

declare decompress_loop.simps [simp del]

text \<open>
  The three bytes of the size are taken from left to right; the source writes the three increments
  of \<open>pin\<close> into one expression, whose order the language leaves open.
\<close>

definition DecompressFast :: "bytes \<Rightarrow> bytes \<Rightarrow> package_error + bytes" where
  "DecompressFast input out =
     unless_throw (length input < 5) Input_too_small
     (and_then (byte_at input 0) (\<lambda>cType.
      unless_throw (cType \<noteq> 0x10 \<and> cType \<noteq> 0x50) Unknown_compression
      (and_then (byte_at input 2) (\<lambda>h. and_then (byte_at input 3) (\<lambda>m. and_then (byte_at input 4) (\<lambda>l.
       let decompSize = push_bit 16 h OR push_bit 8 m OR l in
       unless_throw (length out < decompSize) Output_too_small (decompress_loop input decompSize 5 0 out)))))))"


subsection \<open>The format\<close>

text \<open>
  What the format means: a piece is some literal bytes and then \<open>n\<close> bytes that repeat what was
  written \<open>off\<close> bytes before, one after another, so that a piece may repeat itself.
\<close>

primrec repeat_back :: "nat \<Rightarrow> nat \<Rightarrow> bytes \<Rightarrow> bytes" where
  "repeat_back 0 off xs = xs"
| "repeat_back (Suc n) off xs = repeat_back n off (xs @ [xs ! (length xs - off)])"

type_synonym piece = "bytes \<times> nat \<times> nat"

fun add_piece :: "piece \<Rightarrow> bytes \<Rightarrow> bytes" where
  "add_piece (literals, n, off) xs = repeat_back n off (xs @ literals)"

definition expand :: "piece list \<Rightarrow> bytes \<Rightarrow> bytes" where
  "expand ps xs = fold add_piece ps xs"

fun reaches :: "piece \<Rightarrow> bytes \<Rightarrow> bool" where
  "reaches (literals, n, off) xs \<longleftrightarrow> 0 < n \<longrightarrow> 0 < off \<and> off \<le> length xs + length literals"

primrec all_reach :: "piece list \<Rightarrow> bytes \<Rightarrow> bool" where
  "all_reach [] xs = True"
| "all_reach (p # ps) xs \<longleftrightarrow> reaches p xs \<and> all_reach ps (add_piece p xs)"

lemma length_repeat_back [simp]: "length (repeat_back n off xs) = length xs + n"
  by (induction n arbitrary: xs) simp_all

lemma length_add_piece: "length (add_piece p xs) \<ge> length xs"
  by (cases p) simp

lemma length_expand: "length xs \<le> length (expand ps xs)"
  unfolding expand_def by (induction ps arbitrary: xs) (simp, metis fold_simps(2) le_trans length_add_piece)

text \<open>The loop repeats byte by byte; where the pieces do not overlap a block is the same.\<close>

lemma list_update_extend:
  "filled < length out \<Longrightarrow> take (Suc filled) (out[filled := x]) = take filled out @ [x]"
  by (simp add: take_Suc_conv_app_nth take_update_cancel)

lemma copy_loop_repeats:
  assumes "0 < off" "off \<le> filled" "filled + n \<le> length out"
  shows "copy_loop n off filled out = Inr (repeat_back n off (take filled out) @ drop (filled + n) out)"
  using assms
proof (induction n arbitrary: filled out)
  case (Suc n)
  let ?o = "out[filled := out ! (filled - off)]"
  have "copy_loop n off (Suc filled) ?o = Inr (repeat_back n off (take (Suc filled) ?o) @ drop (Suc filled + n) ?o)"
    by (rule Suc.IH) (use Suc.prems in simp_all)
  moreover have "take (Suc filled) ?o = take filled out @ [take filled out ! (filled - off)]"
    using Suc.prems by (simp add: list_update_extend)
  ultimately show ?case using Suc.prems by (simp add: unless_throw_def min_def)
qed simp

lemma repeat_back_block:
  assumes "n \<le> off" "off \<le> length xs"
  shows "repeat_back n off xs = xs @ take n (drop (length xs - off) xs)"
proof -
  have "m + n \<le> off \<Longrightarrow> off \<le> length xs \<Longrightarrow>
      repeat_back n off (xs @ take m (drop (length xs - off) xs)) = xs @ take (m + n) (drop (length xs - off) xs)" for m
  proof (induction n arbitrary: m)
    case (Suc n)
    let ?d = "drop (length xs - off) xs"
    have "(xs @ take m ?d) ! (length xs + m - off) = ?d ! m"
      using Suc.prems by (simp add: nth_append add.commute)
    moreover have "take (Suc m) ?d = take m ?d @ [?d ! m]"
      using Suc.prems by (simp add: take_Suc_conv_app_nth)
    ultimately show ?case using Suc.IH [of "Suc m"] Suc.prems by (simp add: min_def)
  qed simp
  from this [of 0] assms show ?thesis by simp
qed

lemma memcpy_within_repeats:
  assumes "n \<le> off" "off \<le> filled" "filled + n \<le> length out"
  shows "memcpy_within out filled (filled - off) n = Inr (repeat_back n off (take filled out) @ drop (filled + n) out)"
proof -
  have "take n (drop (filled - off) (take filled out)) = take n (drop (filled - off) out)"
    using assms by (simp add: drop_take take_take min_def)
  moreover have "filled - off + n \<le> filled" "filled - off + n \<le> length out" "min filled (length out) = filled" "min (length out) filled = filled"
    using assms by simp_all
  ultimately show ?thesis
    using assms by (simp add: memcpy_within_def memcpy_def unless_throw_def repeat_back_block)
qed

lemma copy_run_value:
  assumes "filled \<le> m" "m \<le> length out"
  shows "copy_run m r filled out =
    (if numCopy r = 0 then Inr (filled, out)
     else if copyOff r = 0 \<or> filled < copyOff r then Inl Bad_offset
     else if m < filled + numCopy r then Inl Copy_exceeds
     else Inr (filled + numCopy r, repeat_back (numCopy r) (copyOff r) (take filled out) @ drop (filled + numCopy r) out))"
  using assms by (auto simp: copy_run_def unless_throw_def Let_def copy_loop_repeats memcpy_within_repeats)

lemma plain_run_value:
  assumes "filled \<le> m" "m \<le> length out" "pin \<le> length input"
  shows "plain_run input m r pin filled out =
    (if length input < pin + numPlain r then Inl Data_truncated
     else if m < filled + numPlain r then Inl Plain_exceeds
     else Inr (pin + numPlain r, filled + numPlain r,
       take filled out @ take (numPlain r) (drop pin input) @ drop (filled + numPlain r) out))"
  using assms by (auto simp: plain_run_def unless_throw_def Let_def memcpy_def)

subsection \<open>Memory safety\<close>

lemma control_safe:
  assumes "pin < length input"
  shows "control input pin \<noteq> Inl Memory_fault"
  using assms by (auto simp: control_def byte_at_def unless_throw_def Let_def split: if_splits)

lemma control_end: "control input pin = Inr (r, p) \<Longrightarrow> p \<le> length input"
  by (auto simp: control_def byte_at_def unless_throw_def and_then_Inr Let_def split: if_splits)

lemma plain_run_result:
  assumes "filled \<le> m" "m \<le> length out" "pin \<le> length input"
  shows "plain_run input m r pin filled out \<noteq> Inl Memory_fault"
    and "plain_run input m r pin filled out = Inr (p, f, o1) \<Longrightarrow> p \<le> length input \<and> f \<le> m \<and> length o1 = length out \<and>
      drop m o1 = drop m out \<and> take f o1 = take filled out @ take (numPlain r) (drop pin input)"
proof -
  let ?lits = "take (numPlain r) (drop pin input)"
  let ?o = "take filled out @ ?lits @ drop (filled + numPlain r) out"
  show "plain_run input m r pin filled out \<noteq> Inl Memory_fault"
    by (simp add: plain_run_value [OF assms])
  assume "plain_run input m r pin filled out = Inr (p, f, o1)"
  then have r: "p = pin + numPlain r" "f = filled + numPlain r" "o1 = ?o" "p \<le> length input" "f \<le> m"
    by (auto simp: plain_run_value [OF assms] split: if_splits)
  then have l: "length ?lits = numPlain r" "length (take filled out) = filled" using assms by simp_all
  have "length ?o = length out" using l r assms by (simp del: length_take add: l)
  moreover have "drop m ?o = drop m out" using l r assms by (simp del: length_take add: l drop_append)
  moreover have "take f ?o = take filled out @ ?lits" using l r assms by (simp del: length_take add: l)
  ultimately show "p \<le> length input \<and> f \<le> m \<and> length o1 = length out \<and> drop m o1 = drop m out \<and>
      take f o1 = take filled out @ ?lits" using r by simp
qed

lemma copy_run_result:
  assumes "filled \<le> m" "m \<le> length out"
  shows "copy_run m r filled out \<noteq> Inl Memory_fault"
    and "copy_run m r filled out = Inr (f, o1) \<Longrightarrow> f \<le> m \<and> length o1 = length out \<and> drop m o1 = drop m out \<and>
      take f o1 = repeat_back (numCopy r) (copyOff r) (take filled out) \<and>
      (0 < numCopy r \<longrightarrow> 0 < copyOff r \<and> copyOff r \<le> filled)"
proof -
  let ?o = "repeat_back (numCopy r) (copyOff r) (take filled out) @ drop (filled + numCopy r) out"
  have l: "length (repeat_back (numCopy r) (copyOff r) (take filled out)) = filled + numCopy r" using assms by simp
  show "copy_run m r filled out \<noteq> Inl Memory_fault"
    by (simp add: copy_run_value [OF assms])
  assume "copy_run m r filled out = Inr (f, o1)"
  then have r: "f = filled + numCopy r" "o1 = (if numCopy r = 0 then out else ?o)" "f \<le> m"
    "0 < numCopy r \<longrightarrow> 0 < copyOff r \<and> copyOff r \<le> filled"
    using assms by (auto simp: copy_run_value [OF assms] split: if_splits)
  have "length ?o = length out" using l r(1,3) assms by (simp del: length_repeat_back length_take add: l)
  moreover have "drop m ?o = drop m out" using l r(1,3) assms by (simp del: length_repeat_back length_take add: l)
  moreover have "take f ?o = repeat_back (numCopy r) (copyOff r) (take filled out)"
    using l r(1) by (simp del: length_repeat_back length_take add: l)
  ultimately show "f \<le> m \<and> length o1 = length out \<and> drop m o1 = drop m out \<and>
      take f o1 = repeat_back (numCopy r) (copyOff r) (take filled out) \<and>
      (0 < numCopy r \<longrightarrow> 0 < copyOff r \<and> copyOff r \<le> filled)" using r by simp
qed

lemma nat_masks:
  fixes x :: nat
  shows "x AND 0x03 = x mod 4" "x AND 0x1F = x mod 32" "x AND 0x3F = x mod 64"
    "x AND 0x0C = x div 4 mod 4 * 4" "x AND 0x10 = x div 16 mod 2 * 16" "x AND 0xC0 = x div 64 mod 4 * 64"
    "x AND 0x1C = x div 4 mod 8 * 4" "x AND 0x60 = x div 32 mod 4 * 32"
proof -
  have low: "x AND mask n = x mod 2 ^ n" for n by (simp add: take_bit_eq_mask [symmetric] take_bit_eq_mod)
  have mid: "x AND push_bit k (mask n) = x div 2 ^ k mod 2 ^ n * 2 ^ k" for n k
  proof -
    have "x AND push_bit k (mask n) = push_bit k (take_bit n (drop_bit k x))"
      by (rule bit_eqI) (auto simp: bit_simps)
    then show ?thesis by (simp add: push_bit_eq_mult take_bit_eq_mod drop_bit_eq_div)
  qed
  show "x AND 0x03 = x mod 4" "x AND 0x1F = x mod 32" "x AND 0x3F = x mod 64"
    using low [of 2] low [of 5] low [of 6] by (simp_all add: mask_eq_exp_minus_1)
  show "x AND 0x0C = x div 4 mod 4 * 4" "x AND 0x10 = x div 16 mod 2 * 16" "x AND 0xC0 = x div 64 mod 4 * 64"
    "x AND 0x1C = x div 4 mod 8 * 4" "x AND 0x60 = x div 32 mod 4 * 32"
    using mid [of 2 2] mid [of 4 1] mid [of 6 2] mid [of 2 3] mid [of 5 2]
    by (simp_all add: mask_eq_exp_minus_1 push_bit_eq_mult)
qed

lemma run_values:
  "long_run ctrl b1 b2 b3 = \<lparr>numPlain = ctrl mod 4, numCopy = ctrl div 4 mod 4 * 256 + b3 + 5,
     copyOff = ctrl div 16 mod 2 * 65536 + b1 * 256 + b2 + 1\<rparr>"
  "middle_run ctrl b2 b3 = \<lparr>numPlain = b2 div 64 mod 4, numCopy = ctrl mod 64 + 4, copyOff = b2 mod 64 * 256 + b3 + 1\<rparr>"
  "short_run ctrl b1 = \<lparr>numPlain = ctrl mod 4, numCopy = ctrl div 4 mod 8 + 3, copyOff = ctrl div 32 mod 4 * 256 + b1 + 1\<rparr>"
  by (simp_all add: long_run_def middle_run_def short_run_def nat_masks push_bit_eq_mult drop_bit_eq_div)

text \<open>
  How the pieces are written: the first byte says which of the five forms a piece has; the literals
  follow the bytes of the head.  This reader is independent of the code, on lists and with the
  digits of the numbers.
\<close>

definition with_literals :: "nat \<Rightarrow> nat \<Rightarrow> nat \<Rightarrow> bytes \<Rightarrow> (piece \<times> bytes) option" where
  "with_literals n c d xs = (if n \<le> length xs then Some ((take n xs, c, d), drop n xs) else None)"

definition next_piece :: "bytes \<Rightarrow> (piece \<times> bytes) option" where
  "next_piece ys = (case ys of [] \<Rightarrow> None | k # xs \<Rightarrow>
     (let k = unat k in
      if 252 \<le> k then with_literals (k mod 4) 0 0 xs
      else if 224 \<le> k then with_literals ((k mod 32 + 1) * 4) 0 0 xs
      else if 192 \<le> k then
        (case xs of a # b # c # xs \<Rightarrow> with_literals (k mod 4) (k div 4 mod 4 * 256 + unat c + 5)
            (k div 16 mod 2 * 65536 + unat a * 256 + unat b + 1) xs
          | _ \<Rightarrow> None)
      else if 128 \<le> k then
        (case xs of a # b # xs \<Rightarrow> with_literals (unat a div 64) (k mod 64 + 4) (unat a mod 64 * 256 + unat b + 1) xs
          | _ \<Rightarrow> None)
      else
        (case xs of a # xs \<Rightarrow> with_literals (k mod 4) (k div 4 mod 8 + 3) (k div 32 * 256 + unat a + 1) xs
          | _ \<Rightarrow> None)))"

text \<open>
  What a sequence of bytes means: pieces are read and added until there are \<open>m\<close> bytes; a piece
  that is cut off, reaches back too far or is too long has no meaning.
\<close>

lemma next_piece_shorter: "next_piece ys = Some (p, zs) \<Longrightarrow> length zs < length ys"
  by (auto simp: next_piece_def with_literals_def Let_def split: list.splits if_splits)

function unpack :: "nat \<Rightarrow> bytes \<Rightarrow> bytes \<Rightarrow> bytes option" where
  "unpack m ys xs =
     (if m \<le> length xs then Some xs
      else (case next_piece ys of
          None \<Rightarrow> None
        | Some (p, zs) \<Rightarrow>
            if reaches p xs \<and> length (add_piece p xs) \<le> m then unpack m zs (add_piece p xs) else None))"
  by pat_completeness auto
termination
  by (relation "measure (\<lambda>(m, ys, xs). length ys)") (auto dest: next_piece_shorter)

declare unpack.simps [simp del]

lemma high_bits: "unat (x :: u8) div 64 mod 4 = unat x div 64"
  using unsigned_less [of x, where 'a = nat] by (intro mod_less) (simp add: div_less_iff_less_mult)

lemma control_next:
  assumes "pin < length input"
  shows "(\<exists>e. control input pin = Inl e \<and> next_piece (drop pin input) = None) \<or>
    (\<exists>r p. control input pin = Inr (r, p) \<and>
       next_piece (drop pin input) = with_literals (numPlain r) (numCopy r) (copyOff r) (drop p input))"
proof -
  define pre k xs where "pre = take pin input" and "k = input ! pin" and "xs = drop (Suc pin) input"
  have i: "input = pre @ k # xs" "pin = length pre"
    using assms by (simp_all add: pre_def k_def xs_def id_take_nth_drop)
  have at: "byte_at (pre @ k # xs) (length pre) = Inr (unat k)"
    "0 < length xs \<Longrightarrow> byte_at (pre @ k # xs) (length pre + 1) = Inr (unat (xs ! 0))"
    "1 < length xs \<Longrightarrow> byte_at (pre @ k # xs) (length pre + 2) = Inr (unat (xs ! 1))"
    "2 < length xs \<Longrightarrow> byte_at (pre @ k # xs) (length pre + 3) = Inr (unat (xs ! 2))"
    by (simp_all add: byte_at_def nth_append numeral_2_eq_2 numeral_3_eq_3)
  have dr: "drop (length pre) (pre @ k # xs) = k # xs" "drop (length pre + 1) (pre @ k # xs) = xs"
    "drop (length pre + 2) (pre @ k # xs) = drop 1 xs" "drop (length pre + 3) (pre @ k # xs) = drop 2 xs"
    "drop (length pre + 4) (pre @ k # xs) = drop 3 xs"
    by simp_all
  consider (a) "252 \<le> unat k" | (b) "\<not> 252 \<le> unat k" "224 \<le> unat k" | (c) "\<not> 252 \<le> unat k" "\<not> 224 \<le> unat k" "192 \<le> unat k"
    | (d) "\<not> 252 \<le> unat k" "\<not> 224 \<le> unat k" "\<not> 192 \<le> unat k" "128 \<le> unat k"
    | (e) "\<not> 252 \<le> unat k" "\<not> 224 \<le> unat k" "\<not> 192 \<le> unat k" "\<not> 128 \<le> unat k" by blast
  then show ?thesis
  proof cases
    case a
    then show ?thesis by (simp add: i control_def at(1) dr next_piece_def Let_def nat_masks)
  next
    case b
    then show ?thesis by (simp add: i control_def at(1) dr next_piece_def Let_def nat_masks push_bit_eq_mult add.commute)
  next
    case c
    show ?thesis
    proof (cases "2 < length xs")
      case True
      then obtain x y z zs where x: "xs = x # y # z # zs" by (cases xs rule: list.exhaust; cases "tl xs"; cases "tl (tl xs)") auto
      show ?thesis using c at dr True
        by (simp add: i control_def unless_throw_def next_piece_def Let_def run_values x numeral_2_eq_2 numeral_3_eq_3)
    next
      case False
      then have "next_piece (k # xs) = None" using c by (auto simp: next_piece_def Let_def split: list.splits)
      then show ?thesis using c False by (simp add: i control_def at(1) dr(1) unless_throw_def)
    qed
  next
    case d
    show ?thesis
    proof (cases "1 < length xs")
      case True
      then obtain x y zs where x: "xs = x # y # zs" by (cases xs; cases "tl xs") auto
      show ?thesis using d at dr True
        by (simp add: i control_def unless_throw_def next_piece_def Let_def run_values high_bits x numeral_2_eq_2)
    next
      case False
      then have "next_piece (k # xs) = None" using d by (auto simp: next_piece_def Let_def split: list.splits)
      then show ?thesis using d False by (simp add: i control_def at(1) dr(1) unless_throw_def)
    qed
  next
    case e
    have low: "unat k div 32 mod 4 = unat k div 32" using e by (intro mod_less) (simp add: div_less_iff_less_mult)
    show ?thesis
    proof (cases xs)
      case Nil
      have "next_piece (k # xs) = None" using e Nil by (simp add: next_piece_def Let_def)
      then show ?thesis using e at(1) dr(1) Nil by (simp add: i control_def unless_throw_def)
    next
      case (Cons x zs)
      then show ?thesis using e at dr low
        by (simp add: i control_def unless_throw_def next_piece_def Let_def run_values)
    qed
  qed
qed

text \<open>The loop never leaves the buffers, and makes exactly what the bytes mean.\<close>

definition decoded :: "bytes \<Rightarrow> bytes option \<Rightarrow> package_error + bytes \<Rightarrow> bool" where
  "decoded rest u r \<longleftrightarrow> (case u of None \<Rightarrow> \<exists>e. r = Inl e \<and> e \<noteq> Memory_fault | Some xs \<Rightarrow> r = Inr (xs @ rest))"

lemma loop_unpacks:
  "filled \<le> m \<Longrightarrow> m \<le> length out \<Longrightarrow>
     decoded (drop m out) (unpack m (drop pin input) (take filled out)) (decompress_loop input m pin filled out)"
proof (induction input m pin filled out rule: decompress_loop.induct)
  case (1 input m pin filled out)
  note L = decompress_loop.simps [of input m pin filled out]
  let ?xs = "take filled out"
  note U = unpack.simps [of m "drop pin input" ?xs]
  have len: "length ?xs = filled" using "1.prems" by simp
  consider "\<not> filled < m" | "filled < m" "length input \<le> pin" | "filled < m" "pin < length input" by linarith
  then show ?case
  proof cases
    case 1
    then have "m \<le> length ?xs" "?xs @ drop m out = out" using "1.prems" by simp_all
    then show ?thesis using 1 by (simp only: L U decoded_def) simp
  next
    case 2
    then have "decompress_loop input m pin filled out = Inl Data_truncated" "unpack m (drop pin input) ?xs = None"
      using len by (simp add: L, subst unpack.simps) (simp add: next_piece_def)
    then show ?thesis by (simp add: decoded_def)
  next
    case 3
    then have go: "filled < m" "\<not> length input \<le> pin" by simp_all
    show ?thesis
    proof (cases "control input pin")
      case (Inl e)
      then show ?thesis using go control_safe [of pin input] control_next [OF 3(2)] len by (auto simp: L U decoded_def)
    next
      case (Inr v)
      then obtain r p where c: "control input pin = Inr (r, p)" by (cases v) simp
      let ?p = "(take (numPlain r) (drop p input), numCopy r, copyOff r)"
      have n: "next_piece (drop pin input) = with_literals (numPlain r) (numCopy r) (copyOff r) (drop p input)"
        using control_next [OF 3(2)] c by auto
      note e = control_end [OF c]
      note P = plain_run_value [OF "1.prems" e, of r]
      show ?thesis
      proof (cases "length input < p + numPlain r \<or> m < filled + numPlain r")
        case True
        then show ?thesis using go c P n len e by (auto simp: L U decoded_def with_literals_def)
      next
        case False
        then obtain o1 where pl: "plain_run input m r p filled out = Inr (p + numPlain r, filled + numPlain r, o1)"
          using P by simp
        let ?f = "filled + numPlain r"
        note p1 = plain_run_result(2) [OF "1.prems" e pl]
        have pre: "?f \<le> m" "m \<le> length o1" using p1 "1.prems" by simp_all
        note C = copy_run_value [OF pre, of r]
        have s: "next_piece (drop pin input) = Some (?p, drop (p + numPlain r) input)"
        proof -
          have "numPlain r \<le> length input - p" by (rule le_diff_conv2 [OF e, THEN iffD2]) (use False in simp)
          then have "numPlain r \<le> length (drop p input)" by simp
          then show ?thesis using n by (simp add: with_literals_def add.commute del: length_drop)
        qed
        have ll: "length (take (numPlain r) (drop p input)) = numPlain r" using False le_diff_conv2 [OF e, of "numPlain r"] by simp
        show ?thesis
        proof (cases "copy_run m r ?f o1")
          case ce: (Inl err)
          then have "\<not> (reaches ?p ?xs \<and> length (add_piece ?p ?xs) \<le> m)" "err \<noteq> Memory_fault"
            using C ll len by (auto split: if_splits)
          then show ?thesis using go c pl ce s len by (auto simp: L U decoded_def)
        next
          case (Inr u)
          then obtain f2 o2 where cp: "copy_run m r ?f o1 = Inr (f2, o2)" by (cases u) simp
          note q = copy_run_result(2) [OF pre cp]
          have t: "take f2 o2 = add_piece ?p ?xs" using q p1 by simp
          have d: "decoded (drop m o2) (unpack m (drop (p + numPlain r) input) (take f2 o2)) (decompress_loop input m (p + numPlain r) f2 o2)"
            using "1.IH" [OF go c refl pl refl refl cp refl] q pre by simp
          have "reaches ?p ?xs" using q ll len by simp
          moreover have "length (add_piece ?p ?xs) \<le> m" unfolding t [symmetric] by (rule le_trans [OF _ conjunct1 [OF q]]) simp
          moreover have "drop m o2 = drop m out" using q p1 by simp
          ultimately show ?thesis using go c pl cp s len d by (simp add: L U t del: add_piece.simps reaches.simps)
        qed
      qed
    qed
  qed
qed

definition announced :: "bytes \<Rightarrow> nat" where
  "announced input = push_bit 16 (unat (input ! 2)) OR push_bit 8 (unat (input ! 3)) OR unat (input ! 4)"

lemma DecompressFast_eq:
  "DecompressFast input out =
     (if length input < 5 then Inl Input_too_small
      else if unat (input ! 0) \<noteq> 0x10 \<and> unat (input ! 0) \<noteq> 0x50 then Inl Unknown_compression
      else if length out < announced input then Inl Output_too_small
      else decompress_loop input (announced input) 5 0 out)"
  by (simp add: DecompressFast_def byte_at_def unless_throw_def announced_def Let_def)

lemma unpack_length: "length xs \<le> m \<Longrightarrow> unpack m ys xs = Some zs \<Longrightarrow> length zs = m"
proof (induction m ys xs rule: unpack.induct)
  case (1 m ys xs)
  show ?case
  proof (cases "m \<le> length xs")
    case True
    then have "unpack m ys xs = Some xs" by (subst unpack.simps) simp
    then show ?thesis using "1.prems" True by simp
  next
    case False
    then show ?thesis
      using "1.prems" "1.IH" by (auto simp: unpack.simps [of m ys] split: option.splits if_splits)
  qed
qed

text \<open>
  C16: Whatever bytes an asset package holds, the decompressor never reads or writes outside of its
  two buffers: it ends, with one of the exceptions of the code or with an output in which exactly the
  announced number of bytes has been replaced, by what an independent reader of the pieces makes of
  the bytes behind the header; and it succeeds exactly where the header is right, the announced
  bytes fit and every piece that is read is whole and repeats only bytes that are there.  The three
  bytes of the size are taken from left to right; the source leaves their order open (its increments
  of \<open>pin\<close> are unsequenced, which the language does not define), and for the size and the place
  that any order gives the loop stays in the buffers, too, and makes what the bytes mean.
\<close>

theorem decompressor_memory_safe:
  "DecompressFast input out \<noteq> Inl Memory_fault \<and>
   (\<forall>out'. DecompressFast input out = Inr out' \<longleftrightarrow>
      5 \<le> length input \<and> input ! 0 \<in> {0x10, 0x50} \<and> announced input \<le> length out \<and>
      (\<exists>xs. unpack (announced input) (drop 5 input) [] = Some xs \<and> length xs = announced input \<and>
         out' = xs @ drop (announced input) out)) \<and>
   (\<forall>size pin. size \<le> length out \<longrightarrow> decompress_loop input size pin 0 out \<noteq> Inl Memory_fault \<and>
      (\<forall>out'. decompress_loop input size pin 0 out = Inr out' \<longleftrightarrow>
         (\<exists>xs. unpack size (drop pin input) [] = Some xs \<and> out' = xs @ drop size out)))"
proof -
  have k: "input ! 0 \<in> {0x10, 0x50} \<longleftrightarrow> unat (input ! 0) = 0x10 \<or> unat (input ! 0) = 0x50"
  proof -
    have "input ! 0 = 0x10 \<longleftrightarrow> unat (input ! 0) = unat (0x10 :: u8)" "input ! 0 = 0x50 \<longleftrightarrow> unat (input ! 0) = unat (0x50 :: u8)"
      by (simp_all only: word_unat_eq_iff)
    then show ?thesis by simp
  qed
  have loop: "decompress_loop input size pin 0 out \<noteq> Inl Memory_fault \<and>
      (\<forall>out'. decompress_loop input size pin 0 out = Inr out' \<longleftrightarrow>
         (\<exists>xs. unpack size (drop pin input) [] = Some xs \<and> out' = xs @ drop size out))" if "size \<le> length out" for size pin
    using loop_unpacks [of 0 size out pin input] that by (auto simp: decoded_def split: option.splits)
  have n: "unpack m ys [] = Some xs \<Longrightarrow> length xs = m" for m ys xs using unpack_length [of "[]"] by simp
  have fast: "DecompressFast input out \<noteq> Inl Memory_fault \<and> (\<forall>out'. DecompressFast input out = Inr out' \<longleftrightarrow>
      5 \<le> length input \<and> input ! 0 \<in> {0x10, 0x50} \<and> announced input \<le> length out \<and>
      (\<exists>xs. unpack (announced input) (drop 5 input) [] = Some xs \<and> length xs = announced input \<and>
         out' = xs @ drop (announced input) out))"
  proof (cases "5 \<le> length input \<and> input ! 0 \<in> {0x10, 0x50} \<and> announced input \<le> length out")
    case True
    then have "DecompressFast input out = decompress_loop input (announced input) 5 0 out"
      unfolding k by (auto simp: DecompressFast_eq)
    then show ?thesis using loop [of "announced input" 5] n [of "announced input" "drop 5 input"] True by metis
  next
    case False
    then have "\<exists>e. DecompressFast input out = Inl e \<and> e \<noteq> Memory_fault"
      unfolding k by (auto simp: DecompressFast_eq)
    then show ?thesis using False by auto
  qed
  then show ?thesis using loop by blast
qed

theorem decompressor_memory_safe_witness:
  "DecompressFast [0x10, 0xFB, 0, 0, 7, 0xE0, 1, 2, 3, 4, 0, 0] [9, 9, 9, 9, 9, 9, 9, 9] = Inr [1, 2, 3, 4, 4, 4, 4, 9]"
proof -
  let ?i = "[0x10, 0xFB, 0, 0, 7, 0xE0, 1, 2, 3, 4, 0, 0] :: bytes" and ?o = "[9, 9, 9, 9, 9, 9, 9, 9] :: bytes"
  have p: "next_piece [0xE0, 1, 2, 3, 4, 0, 0] = Some (([1, 2, 3, 4], 0, 0), [0, 0])"
    by (simp add: next_piece_def with_literals_def)
  have q: "next_piece [0, 0] = Some (([], 3, 1), [])" by (simp add: next_piece_def with_literals_def)
  have "unpack 7 [0xE0, 1, 2, 3, 4, 0, 0] [] = unpack 7 [0, 0] [1, 2, 3, 4]" by (subst unpack.simps) (simp add: p)
  also have "\<dots> = unpack 7 [] [1, 2, 3, 4, 4, 4, 4]" by (subst unpack.simps) (simp add: q numeral_3_eq_3)
  also have "\<dots> = Some [1, 2, 3, 4, 4, 4, 4]" by (subst unpack.simps) simp
  finally have u: "unpack 7 (drop 5 ?i) [] = Some [1, 2, 3, 4, 4, 4, 4]" by simp
  have a: "announced ?i = 7" by (simp add: announced_def)
  have r: "DecompressFast ?i ?o = Inr out'" if "5 \<le> length ?i \<and> ?i ! 0 \<in> {0x10, 0x50} \<and> announced ?i \<le> length ?o \<and>
      (\<exists>xs. unpack (announced ?i) (drop 5 ?i) [] = Some xs \<and> length xs = announced ?i \<and> out' = xs @ drop (announced ?i) ?o)" for out'
    using decompressor_memory_safe [of ?i ?o] that by blast
  show ?thesis
    by (rule r, unfold a, intro conjI exI [of _ "[1, 2, 3, 4, 4, 4, 4]"], simp, simp, simp, rule u, simp, simp)
qed

subsection \<open>Compressed data decode to what was packed\<close>

text \<open>
  The bytes of a piece.  The shortest form is chosen; \<open>n\<close> literals, \<open>c\<close> bytes repeated from a
  distance \<open>d\<close>.
\<close>

definition piece_head :: "nat \<Rightarrow> nat \<Rightarrow> nat \<Rightarrow> nat list" where
  "piece_head n c d =
     (if c = 0 then if n < 4 then [252 + n] else [224 + (n - 4) div 4]
      else if 3 \<le> c \<and> c \<le> 10 \<and> d \<le> 1024 then [(d - 1) div 256 * 32 + (c - 3) * 4 + n, (d - 1) mod 256]
      else if 4 \<le> c \<and> c \<le> 67 \<and> d \<le> 16384 then [128 + (c - 4), n * 64 + (d - 1) div 256, (d - 1) mod 256]
      else [192 + (d - 1) div 65536 * 16 + (c - 5) div 256 * 4 + n, (d - 1) div 256 mod 256, (d - 1) mod 256, (c - 5) mod 256])"

fun encodable :: "piece \<Rightarrow> bool" where
  "encodable (literals, c, d) \<longleftrightarrow>
     (if c = 0 then length literals < 4 \<or> (length literals \<le> 112 \<and> length literals mod 4 = 0)
      else length literals < 4 \<and> 0 < d \<and>
        ((3 \<le> c \<and> c \<le> 10 \<and> d \<le> 1024) \<or> (4 \<le> c \<and> c \<le> 67 \<and> d \<le> 16384) \<or> (5 \<le> c \<and> c \<le> 1028 \<and> d \<le> 131072)))"

fun encode_piece :: "piece \<Rightarrow> bytes" where
  "encode_piece (literals, c, d) = map of_nat (piece_head (length literals) c d) @ literals"

lemma byte_at_piece:
  assumes "i < length ks" and "ks ! i < 256" and "j = length pre + i"
  shows "byte_at (pre @ map of_nat ks @ rest) j = Inr (ks ! i)"
  using assms by (simp add: byte_at_def nth_append unat_of_nat take_bit_eq_mod)

lemma two_digits:
  fixes a b :: nat
  assumes "b < m"
  shows "(a * m + b) mod m = b" "(a * m + b) div m = a"
  using assms by simp_all

lemma digits:
  fixes a b n :: nat
  assumes "n < 4"
  shows "b < 8 \<Longrightarrow> (a * 32 + b * 4 + n) mod 4 = n \<and> (a * 32 + b * 4 + n) div 4 mod 8 = b \<and> (a * 32 + b * 4 + n) div 32 = a"
    and "b < 64 \<Longrightarrow> (128 + b) mod 64 = b" and "c < 64 \<Longrightarrow> (n * 64 + c) div 64 = n \<and> (n * 64 + c) mod 64 = c"
    and "b < 4 \<Longrightarrow> a < 2 \<Longrightarrow> (192 + a * 16 + b * 4 + n) mod 4 = n \<and> (192 + a * 16 + b * 4 + n) div 4 mod 4 = b \<and>
      (192 + a * 16 + b * 4 + n) div 16 mod 2 = a"
proof -
  show "(a * 32 + b * 4 + n) mod 4 = n \<and> (a * 32 + b * 4 + n) div 4 mod 8 = b \<and> (a * 32 + b * 4 + n) div 32 = a" if "b < 8"
  proof -
    have e: "a * 32 + b * 4 + n = (a * 8 + b) * 4 + n" by simp
    have "(a * 32 + b * 4 + n) div 32 = (a * 32 + b * 4 + n) div 4 div 8" by (simp add: div_mult2_eq [symmetric])
    then show ?thesis unfolding e using two_digits [of n 4 "a * 8 + b"] two_digits [of b 8 a] that assms by simp
  qed
  show "(128 + b) mod 64 = b" if "b < 64" using two_digits(1) [of b 64 2] that by simp
  show "(n * 64 + c) div 64 = n \<and> (n * 64 + c) mod 64 = c" if "c < 64" using two_digits [of c 64 n] that by simp
  show "(192 + a * 16 + b * 4 + n) mod 4 = n \<and> (192 + a * 16 + b * 4 + n) div 4 mod 4 = b \<and>
      (192 + a * 16 + b * 4 + n) div 16 mod 2 = a" if "b < 4" "a < 2"
  proof -
    have e: "192 + a * 16 + b * 4 + n = ((12 + a) * 4 + b) * 4 + n" by simp
    have "(192 + a * 16 + b * 4 + n) div 16 = (192 + a * 16 + b * 4 + n) div 4 div 4" by (simp add: div_mult2_eq [symmetric])
    moreover have "(12 + a) mod 2 = a" using two_digits(1) [of a 2 6] that(2) by simp
    ultimately show ?thesis
      unfolding e using two_digits [of n 4 "(12 + a) * 4 + b"] two_digits [of b 4 "12 + a"] that assms by simp
  qed
qed

lemma split_bytes:
  fixes x :: nat
  shows "x div 256 * 256 + x mod 256 = x" "x div 65536 * 65536 + x div 256 mod 256 * 256 + x mod 256 = x"
proof -
  have "x div 65536 = x div 256 div 256" by (simp add: div_mult2_eq [symmetric])
  then show "x div 65536 * 65536 + x div 256 mod 256 * 256 + x mod 256 = x" "x div 256 * 256 + x mod 256 = x"
    using div_mult_mod_eq [of "x div 256" 256] div_mult_mod_eq [of x 256] by linarith+
qed

lemma control_literals:
  assumes "n < 4 \<or> (n \<le> 112 \<and> n mod 4 = 0)"
  shows "control (pre @ map of_nat (piece_head n 0 d) @ rest) (length pre) =
    Inr (\<lparr>numPlain = n, numCopy = 0, copyOff = 0\<rparr>, length pre + length (piece_head n 0 d))"
proof -
  let ?k = "hd (piece_head n 0 d)"
  have one: "piece_head n 0 d = [?k]" by (simp add: piece_head_def)
  have k: "?k < 256" using assms by (auto simp: piece_head_def)
  have at: "byte_at (pre @ map of_nat (piece_head n 0 d) @ rest) (length pre) = Inr ?k"
    by (subst one) (use byte_at_piece [of 0 "[?k]" "length pre" pre rest] k in simp)
  moreover have "n < 4 \<longrightarrow> ?k mod 4 = n" "\<not> n < 4 \<longrightarrow> ?k < 252 \<and> 224 \<le> ?k \<and> ?k mod 32 * 4 + 4 = n"
    subgoal using two_digits(1) [of n 4 63] by (auto simp: piece_head_def)
    subgoal
    proof
      assume "\<not> n < 4"
      then have "n \<le> 112" "n mod 4 = 0" "4 \<le> n" using assms by auto
      moreover from this obtain q where "n = 4 * q" by blast
      ultimately show "?k < 252 \<and> 224 \<le> ?k \<and> ?k mod 32 * 4 + 4 = n"
        using two_digits(1) [of "q - 1" 32 7] by (cases q) (auto simp: piece_head_def)
    qed
    done
  moreover have "n < 4 \<longrightarrow> 252 \<le> ?k" by (simp add: piece_head_def)
  moreover have "length (piece_head n 0 d) = 1" by (simp add: piece_head_def)
  ultimately show ?thesis
    using at by (auto simp: control_def Let_def nat_masks push_bit_eq_mult)
qed

lemma control_copies:
  assumes "encodable (literals, c, d)" and "0 < c"
  shows "control (pre @ map of_nat (piece_head (length literals) c d) @ rest) (length pre) =
    Inr (\<lparr>numPlain = length literals, numCopy = c, copyOff = d\<rparr>, length pre + length (piece_head (length literals) c d))"
proof -
  define n where "n = length literals"
  have n: "n < 4" "0 < d" using assms by (auto simp: n_def)
  let ?i = "pre @ map of_nat (piece_head n c d) @ rest"
  have at: "byte_at ?i (length pre + i) = Inr (piece_head n c d ! i)" if "i < length (piece_head n c d)" "piece_head n c d ! i < 256" for i
    using byte_at_piece that by blast
  consider (short) "3 \<le> c" "c \<le> 10" "d \<le> 1024" | (middle) "\<not> (c \<le> 10 \<and> d \<le> 1024)" "4 \<le> c" "c \<le> 67" "d \<le> 16384"
    | (long) "\<not> (c \<le> 10 \<and> d \<le> 1024)" "\<not> (c \<le> 67 \<and> d \<le> 16384)" "5 \<le> c" "c \<le> 1028" "d \<le> 131072"
    using assms by (simp split: if_splits) linarith
  then have "control ?i (length pre) = Inr (\<lparr>numPlain = n, numCopy = c, copyOff = d\<rparr>, length pre + length (piece_head n c d))"
  proof cases
    case short
    let ?a = "(d - 1) div 256" and ?b = "c - 3"
    have h: "piece_head n c d = [?a * 32 + ?b * 4 + n, (d - 1) mod 256]" using short by (simp add: piece_head_def)
    have b: "?b < 8" "?a < 4" using short by auto
    have k: "?a * 32 + ?b * 4 + n < 128" using b n(1) by simp
    have d: "?a * 256 + (d - 1) mod 256 + 1 = d" using n(2) split_bytes(1) [of "d - 1"] by simp
    have at0: "byte_at ?i (length pre) = Inr (?a * 32 + ?b * 4 + n)" using at [of 0] h k by simp
    have at1: "byte_at ?i (length pre + 1) = Inr ((d - 1) mod 256)" using at [of 1] h by simp
    note digits(1) [OF n(1) b(1), of ?a]
    then show ?thesis
      using k d b short at0 at1 h by (simp add: control_def Let_def run_values unless_throw_def)
  next
    case middle
    let ?a = "(d - 1) div 256" and ?b = "c - 4"
    have h: "piece_head n c d = [128 + ?b, n * 64 + ?a, (d - 1) mod 256]" using middle by (auto simp: piece_head_def)
    have b: "?b < 64" "?a < 64" using middle by auto
    have d: "?a * 256 + (d - 1) mod 256 + 1 = d" using n(2) split_bytes(1) [of "d - 1"] by simp
    have at0: "byte_at ?i (length pre) = Inr (128 + ?b)" using at [of 0] h b by simp
    have at1: "byte_at ?i (length pre + 1) = Inr (n * 64 + ?a)" using at [of 1] h b n by simp
    have at2: "byte_at ?i (length pre + 2) = Inr ((d - 1) mod 256)" using at [of 2] h by simp
    show ?thesis
      using digits(2) [OF n(1) b(1)] digits(3) [OF n(1) b(2)] b d middle at0 at1 at2 h
      by (simp add: control_def Let_def run_values unless_throw_def n)
  next
    case long
    define a b e f g where "a = (d - 1) div 65536" and "b = (c - 5) div 256" and "e = (d - 1) div 256 mod 256"
      and "f = (d - 1) mod 256" and "g = (c - 5) mod 256"
    note defs = this
    have h: "piece_head n c d = [192 + a * 16 + b * 4 + n, e, f, g]"
      using long by (auto simp: piece_head_def defs)
    have b: "b < 4" "a < 2" "e < 256" "f < 256" "g < 256" using long by (auto simp: defs)
    have k: "192 + a * 16 + b * 4 + n < 224" using b n(1) by simp
    have d: "d = a * 65536 + e * 256 + f + 1" using n(2) split_bytes(2) [of "d - 1"] by (simp add: defs)
    have c: "c = b * 256 + g + 5" using long(3) split_bytes(1) [of "c - 5"] by (simp add: defs)
    have at0: "byte_at ?i (length pre) = Inr (192 + a * 16 + b * 4 + n)" using at [of 0] h k by simp
    have at1: "byte_at ?i (Suc (length pre)) = Inr e" using at [of 1] h b by simp
    have at2: "byte_at ?i (Suc (Suc (length pre))) = Inr f" using at [of 2] h b by simp
    have at3: "byte_at ?i (Suc (Suc (Suc (length pre)))) = Inr g" using at [of 3] h b by (simp add: numeral_3_eq_3)
    have len: "Suc (length pre) + 3 \<le> length ?i" using h by simp
    have run: "long_run (192 + a * 16 + b * 4 + n) e f g = \<lparr>numPlain = n, numCopy = c, copyOff = d\<rparr>"
      using digits(4) [OF n(1) b(1,2)] by (simp add: run_values c d)
    have "control ?i (length pre) = Inr (long_run (192 + a * 16 + b * 4 + n) e f g, length pre + 4)"
      using k at0 at1 at2 at3 len by (simp add: control_def unless_throw_def)
    then show ?thesis using run h by simp
  qed
  then show ?thesis by (simp add: n_def)
qed

lemma expand_extends: "\<exists>ys. expand ps xs = xs @ ys"
proof (induction ps arbitrary: xs)
  case (Cons p ps)
  obtain ls n d where p: "p = (ls, n, d)" by (cases p)
  have "\<exists>ys. repeat_back n d zs = zs @ ys" for zs by (induction n arbitrary: zs) (simp, metis append.assoc repeat_back.simps(2))
  from this [of "xs @ ls"] obtain ys where "add_piece p xs = xs @ ls @ ys" using p by auto
  moreover obtain zs where "expand ps (add_piece p xs) = add_piece p xs @ zs" using Cons.IH by blast
  ultimately show ?case by (simp add: expand_def)
qed (simp add: expand_def)

lemma control_piece:
  assumes "encodable (literals, c, d)"
  obtains r where "control (pre @ encode_piece (literals, c, d) @ rest) (length pre) =
      Inr (r, length pre + length (piece_head (length literals) c d))"
    "numPlain r = length literals" "numCopy r = c" "c = 0 \<or> copyOff r = d"
proof (cases "c = 0")
  case True
  then have "length literals < 4 \<or> (length literals \<le> 112 \<and> length literals mod 4 = 0)" using assms by simp
  from control_literals [OF this, of pre d "literals @ rest"] show ?thesis
    by (intro that) (use True in auto)
next
  case False
  with control_copies [OF assms, of pre "literals @ rest"] show ?thesis by (intro that) auto
qed

lemma decompress_turn:
  assumes "filled < m" "control input pin = Inr (r, p)" "plain_run input m r p filled out = Inr (p1, f1, o1)"
    "copy_run m r f1 o1 = Inr (f2, o2)"
  shows "decompress_loop input m pin filled out = decompress_loop input m p1 f2 o2"
  using assms control_advances [OF assms(2)] by (subst decompress_loop.simps) simp

lemma turn_piece:
  assumes "encodable p" and "reaches p (take filled out)" and "filled < m" "m \<le> length out"
    and "length (add_piece p (take filled out)) \<le> m"
  obtains out' where "decompress_loop (pre @ encode_piece p @ rest) m (length pre) filled out =
      decompress_loop (pre @ encode_piece p @ rest) m (length pre + length (encode_piece p))
        (length (add_piece p (take filled out))) out'"
    "length out' = length out" "drop m out' = drop m out"
    "take (length (add_piece p (take filled out))) out' = add_piece p (take filled out)"
proof -
  obtain literals c d where p: "p = (literals, c, d)" by (cases p)
  let ?i = "pre @ encode_piece p @ rest" and ?h = "length (piece_head (length literals) c d)"
  obtain r where r: "control ?i (length pre) = Inr (r, length pre + ?h)"
    "numPlain r = length literals" "numCopy r = c" "c = 0 \<or> copyOff r = d"
    using control_piece [of literals c d pre rest] assms(1) p by blast
  have fits: "filled + length literals + c \<le> m" using assms(3-5) p by simp
  have pin: "length pre + ?h \<le> length ?i" "length ?i \<ge> length pre + ?h + length literals" "?h > 0"
    using p by (auto simp: piece_head_def)
  have lits: "take (length literals) (drop (length pre + ?h) ?i) = literals" using p by simp
  let ?o1 = "take filled out @ literals @ drop (filled + length literals) out"
  have pl: "plain_run ?i m r (length pre + ?h) filled out =
      Inr (length pre + ?h + length literals, filled + length literals, ?o1)"
    using plain_run_value [OF less_imp_le [OF assms(3)] assms(4) pin(1), of r] r(2) pin(2) fits lits by simp
  note P = plain_run_result(2) [OF less_imp_le [OF assms(3)] assms(4) pin(1) pl]
  have "length ?o1 = length out \<and> drop m ?o1 = drop m out \<and> take (filled + length literals) ?o1 = take filled out @ literals"
    using P unfolding r(2) lits by blast
  then have o1: "length ?o1 = length out" "take (filled + length literals) ?o1 = take filled out @ literals" "m \<le> length ?o1"
    "drop m ?o1 = drop m out"
    using assms(4) by argo+
  have reach: "c = 0 \<or> (0 < d \<and> d \<le> filled + length literals)" using assms(2-4) p by auto
  let ?o2 = "if c = 0 then ?o1 else repeat_back c d (take (filled + length literals) ?o1) @ drop (filled + length literals + c) ?o1"
  have cp: "copy_run m r (filled + length literals) ?o1 = Inr (filled + length literals + c, ?o2)"
    using copy_run_value [of "filled + length literals" m ?o1 r] fits o1(3) r(3,4) reach by auto
  have pre2: "filled + length literals \<le> m" using fits by simp
  note C = copy_run_result(2) [OF pre2 o1(3) cp]
  have len: "length (add_piece p (take filled out)) = filled + length literals + c" using assms(3,4) p by simp
  have e: "length pre + length (encode_piece p) = length pre + ?h + length literals" using p by simp
  show ?thesis
  proof (rule that [of ?o2])
    show "decompress_loop ?i m (length pre) filled out =
        decompress_loop ?i m (length pre + length (encode_piece p)) (length (add_piece p (take filled out))) ?o2"
      unfolding len e by (rule decompress_turn [OF assms(3) r(1) pl cp])
    show "length ?o2 = length out" "drop m ?o2 = drop m out" using C o1 by simp_all
    show "take (length (add_piece p (take filled out))) ?o2 = add_piece p (take filled out)"
      unfolding len using C o1(2) r(3,4) p by auto
  qed
qed

lemma loop_expands:
  "list_all encodable ps \<Longrightarrow> all_reach ps (take filled out) \<Longrightarrow> filled \<le> length out \<Longrightarrow>
   m = length (expand ps (take filled out)) \<Longrightarrow> m \<le> length out \<Longrightarrow>
   decompress_loop (pre @ concat (map encode_piece ps) @ rest) m (length pre) filled out =
     Inr (expand ps (take filled out) @ drop m out)"
proof (induction ps arbitrary: pre filled out)
  case Nil
  then show ?case by (simp add: expand_def decompress_loop.simps)
next
  case (Cons p ps)
  let ?i = "pre @ encode_piece p @ concat (map encode_piece ps) @ rest" and ?x = "add_piece p (take filled out)"
  have m: "m = length (expand ps ?x)" using Cons.prems by (simp add: expand_def)
  show ?case
  proof (cases "filled < m")
    case True
    have le: "length ?x \<le> m" using m length_expand [of ?x ps] by simp
    obtain out' where o: "decompress_loop ?i m (length pre) filled out =
        decompress_loop ?i m (length pre + length (encode_piece p)) (length ?x) out'"
      "length out' = length out" "drop m out' = drop m out" "take (length ?x) out' = ?x"
      using turn_piece [of p filled out m pre "concat (map encode_piece ps) @ rest"] True le Cons.prems by auto
    have "decompress_loop ((pre @ encode_piece p) @ concat (map encode_piece ps) @ rest) m
        (length (pre @ encode_piece p)) (length ?x) out' = Inr (expand ps (take (length ?x) out') @ drop m out')"
      by (rule Cons.IH) (use Cons.prems m le o in simp_all)
    then show ?thesis using o by (simp add: expand_def)
  next
    case False
    obtain ys where ys: "expand (p # ps) (take filled out) = take filled out @ ys" using expand_extends by blast
    then have "ys = []" "m = filled" using False Cons.prems(3,4) by auto
    then show ?thesis using ys Cons.prems(3) by (simp add: decompress_loop.simps)
  qed
qed

definition packed :: "u8 \<Rightarrow> u8 \<Rightarrow> piece list \<Rightarrow> bytes" where
  "packed kind flags ps =
     [kind, flags] @ bytes_be 3 (of_nat (length (expand ps [])) :: u32) @ concat (map encode_piece ps)"

lemma announced_packed:
  assumes "length (expand ps []) < 2 ^ 24"
  shows "announced (packed kind flags ps) = length (expand ps [])"
proof -
  let ?n = "length (expand ps [])"
  define w where "w = (of_nat ?n :: u32)"
  have w: "unat w = ?n" using assms by (simp add: w_def unat_of_nat take_bit_eq_mod)
  have b: "bytes_be 3 w = [ucast (drop_bit 16 w), ucast (drop_bit 8 w), ucast w]"
    by (simp add: bytes_be_def bytes_le_def upt_rec)
  have "announced (packed kind flags ps) =
      push_bit 16 (take_bit 8 (drop_bit 16 ?n)) OR push_bit 8 (take_bit 8 (drop_bit 8 ?n)) OR take_bit 8 ?n"
    unfolding announced_def packed_def w_def [symmetric] b
    by (simp add: unsigned_ucast_eq unat_drop_bit_eq w)
  also have "\<dots> = ?n"
  proof -
    have "take_bit 24 ?n = ?n" using assms by (simp add: take_bit_nat_eq_self_iff)
    then have small: "bit ?n i \<Longrightarrow> i < 24" for i by (metis bit_take_bit_iff)
    show ?thesis
    proof (intro bit_eqI)
      fix i :: nat
      consider "i < 8" | "8 \<le> i" "i < 16" | "16 \<le> i" "i < 24" | "24 \<le> i" by linarith
      then show "bit (push_bit 16 (take_bit 8 (drop_bit 16 ?n)) OR push_bit 8 (take_bit 8 (drop_bit 8 ?n)) OR take_bit 8 ?n) i = bit ?n i"
        using small [of i] by cases (auto simp: bit_simps)
    qed
  qed
  finally show ?thesis .
qed

text \<open>
  What is packed comes out again: for every sequence of pieces that the format can express, of
  less than \<open>2 ^ 24\<close> bytes altogether, the decompressor turns the packed bytes into the bytes the
  pieces mean, whichever of the four forms a piece is written in and whatever follows in the file;
  the rest of the output stays as it is.
\<close>

lemma packed_data_decode:
  assumes "list_all encodable ps" and "all_reach ps []" and "length (expand ps []) < 2 ^ 24"
    and "length (expand ps []) \<le> length out" and "kind = 0x10 \<or> kind = 0x50"
  shows "DecompressFast (packed kind flags ps @ rest) out = Inr (expand ps [] @ drop (length (expand ps [])) out)"
proof -
  let ?i = "packed kind flags ps @ rest"
  have h: "length (bytes_be 3 (of_nat (length (expand ps [])) :: u32)) = 3" by simp
  have five: "length (packed kind flags ps) \<ge> 5" by (simp add: packed_def)
  have "announced ?i = announced (packed kind flags ps)" using five by (simp add: announced_def nth_append)
  then have a: "announced ?i = length (expand ps [])" using announced_packed [OF assms(3)] by simp
  have k: "unat (?i ! 0) = 0x10 \<or> unat (?i ! 0) = 0x50" using assms(5) by (auto simp: packed_def)
  have s: "?i = ([kind, flags] @ bytes_be 3 (of_nat (length (expand ps [])) :: u32)) @ concat (map encode_piece ps) @ rest"
    "length ([kind, flags] @ bytes_be 3 (of_nat (length (expand ps [])) :: u32)) = 5"
    by (simp_all add: packed_def)
  have "decompress_loop ?i (length (expand ps [])) 5 0 out = Inr (expand ps (take 0 out) @ drop (length (expand ps [])) out)"
    using loop_expands [of ps 0 out "length (expand ps [])" "[kind, flags] @ bytes_be 3 (of_nat (length (expand ps [])) :: u32)" rest]
      assms s by simp
  then show ?thesis
    using five k assms(4) unfolding DecompressFast_eq a by auto
qed

end
