(* ===== verification/Names.thy ===== *)
theory Names
  imports Text
begin

text \<open>
  The registries of asset names: \<open>NameRegistry\<close> and \<open>HashManager\<close> of
  \<open>source/Game/AssetData/DBPFManager.cpp\<close>.  A registry has two maps, from names to hashes and back;
  the files are a map from their names to their text.  Hashes are 32-bit numbers (the source reads
  them as signed, which only changes how they print).
\<close>

subsection \<open>Strings\<close>

text \<open>\<open>std::tolower\<close> in the "C" locale, on an unsigned byte.\<close>

definition tolower :: "char \<Rightarrow> char" where
  "tolower c = (let n = of_char c :: nat in if 65 \<le> n \<and> n \<le> 90 then char_of (n + 32) else c)"

definition lower_case :: "string \<Rightarrow> string" where "lower_case s = map tolower s"

definition trim :: "string \<Rightarrow> string" where
  "trim s = rev (dropWhile isspace (rev (dropWhile isspace s)))"

definition fnv_hash_local :: "string \<Rightarrow> u32" where
  "fnv_hash_local s =
     (if s = [] then 0
      else fold (\<lambda>c rez. (rez * 0x1000193) XOR of_nat (of_char c)) (lower_case s) 0x811C9DC5)"

text \<open>
  Reading a number from a string stream: the value that is stored and whether the stream failed.
  Out of range the largest or smallest value is stored.
\<close>

definition stream_number :: "nat \<Rightarrow> string \<Rightarrow> bool \<times> nat option" where
  "stream_number base s =
     (let s1 = dropWhile isspace s;
          neg = (take 1 s1 = ''-'');
          s2 = (if neg \<or> take 1 s1 = ''+'' then drop 1 s1 else s1);
          s3 = (if base = 16 \<and> (take 2 s2 = ''0x'' \<or> take 2 s2 = ''0X'') then drop 2 s2 else s2);
          ds = takeWhile (\<lambda>c. digit_value c < base) s3
      in (neg, if ds = [] then None else Some (digits_value base ds)))"

definition read_hex :: "string \<Rightarrow> u32 \<times> bool" where
  "read_hex s =
     (case stream_number 16 s of
        (neg, None) \<Rightarrow> (0, True)
      | (neg, Some n) \<Rightarrow> if n \<ge> 2 ^ 32 then (- 1, True) else (if neg then - of_nat n else of_nat n, False))"

definition read_int :: "string \<Rightarrow> u32" where
  "read_int s =
     (case stream_number 10 s of
        (neg, None) \<Rightarrow> 0
      | (neg, Some n) \<Rightarrow>
          if neg then (if n > 2 ^ 31 then 0x80000000 else - of_nat n)
          else if n \<ge> 2 ^ 31 then 0x7FFFFFFF else of_nat n)"

definition binary_digits :: "string \<Rightarrow> u32" where
  "binary_digits bits = fold (\<lambda>c v. if c = CHR ''1'' then push_bit 1 v OR 1 else push_bit 1 v) bits 0"

definition has_hex_prefix :: "string \<Rightarrow> bool" where
  "has_hex_prefix s \<longleftrightarrow> length s > 2 \<and> (take 2 s = ''0x'' \<or> take 2 s = ''0X'')"

text \<open>The two readers of the numbers in a registry differ in what a name after a dollar means.\<close>

definition int32_with :: "(string \<Rightarrow> u32) \<Rightarrow> string \<Rightarrow> u32" where
  "int32_with named str =
     (let s = trim str in
      if s = [] then 0
      else if has_hex_prefix s \<and> \<not> snd (read_hex (drop 2 s)) then fst (read_hex (drop 2 s))
      else if hd s = CHR ''#'' \<and> \<not> snd (read_hex (drop 1 s)) then fst (read_hex (drop 1 s))
      else if hd s = CHR ''$'' then named (drop 1 s)
      else if last s = CHR ''b'' then binary_digits (butlast s)
      else read_int s)"

definition int32_local :: "string \<Rightarrow> u32" where "int32_local = int32_with fnv_hash_local"

subsection \<open>A registry\<close>

record registry_of_names =
  nr_hashes :: "string \<Rightarrow> u32 option"
  nr_names :: "u32 \<Rightarrow> string option"

definition NameRegistry_new :: registry_of_names where
  "NameRegistry_new = \<lparr>nr_hashes = (\<lambda>_. None), nr_names = (\<lambda>_. None)\<rparr>"

definition NameRegistry_Clear :: "registry_of_names \<Rightarrow> registry_of_names" where
  "NameRegistry_Clear r = NameRegistry_new"

definition GetName :: "u32 \<Rightarrow> registry_of_names \<Rightarrow> string option" where "GetName h r = nr_names r h"

definition GetHash :: "string \<Rightarrow> registry_of_names \<Rightarrow> u32 option" where
  "GetHash name r = (case nr_hashes r name of Some h \<Rightarrow> Some h | None \<Rightarrow> nr_hashes r (lower_case name))"

definition key_of :: "string \<Rightarrow> string" where
  "key_of name = (if name \<noteq> [] \<and> last name = CHR ''~'' then lower_case name else name)"

definition put_name :: "string \<Rightarrow> string \<Rightarrow> u32 \<Rightarrow> registry_of_names \<Rightarrow> registry_of_names" where
  "put_name key name h r = r\<lparr>nr_hashes := (nr_hashes r)(key \<mapsto> h), nr_names := (nr_names r)(h \<mapsto> name)\<rparr>"

definition NameRegistry_Add :: "string \<Rightarrow> u32 \<Rightarrow> registry_of_names \<Rightarrow> registry_of_names" where
  "NameRegistry_Add name h r = (if name = [] then r else put_name (key_of name) name h r)"

text \<open>Everything from the first two slashes on is a comment.\<close>

fun StripComment :: "string \<Rightarrow> string" where
  "StripComment (c # d # s) = (if c = CHR ''/'' \<and> d = CHR ''/'' then [] else c # StripComment (d # s))"
| "StripComment s = s"

text \<open>A line without a tabulator gives its own hash a name; the hash of the name is not entered.\<close>

definition ParseEntry :: "string \<Rightarrow> registry_of_names \<Rightarrow> registry_of_names" where
  "ParseEntry str r =
     (if CHR 0x09 \<notin> set str then r\<lparr>nr_names := (nr_names r)(fnv_hash_local str \<mapsto> str)\<rparr>
      else (let name = trim (takeWhile (\<lambda>c. c \<noteq> CHR 0x09) str);
                h = int32_local (trim (tl (dropWhile (\<lambda>c. c \<noteq> CHR 0x09) str)))
            in put_name (key_of name) name h r))"

function lines_of :: "string \<Rightarrow> string list" where
  "lines_of s = (if s = [] then []
     else takeWhile (\<lambda>c. c \<noteq> CHR 0x0A) s # lines_of (tl (dropWhile (\<lambda>c. c \<noteq> CHR 0x0A) s)))"
  by pat_completeness auto
termination
proof (relation "measure length")
  fix s :: string assume "s \<noteq> []"
  moreover have "length (dropWhile (\<lambda>c. c \<noteq> CHR 0x0A) s) \<le> length s" by (rule length_dropWhile_le)
  ultimately show "(tl (dropWhile (\<lambda>c. c \<noteq> CHR 0x0A) s), s) \<in> measure length"
    by (cases "dropWhile (\<lambda>c. c \<noteq> CHR 0x0A) s") (simp_all only: in_measure list.sel list.size less_Suc_eq_le, simp_all)
qed simp

declare lines_of.simps [simp del]

definition ParseLine :: "string \<Rightarrow> registry_of_names \<Rightarrow> registry_of_names" where
  "ParseLine line r = (let s = trim (StripComment line) in if s = [] \<or> hd s = CHR ''#'' then r else ParseEntry s r)"

definition NameRegistry_Read :: "string \<Rightarrow> registry_of_names \<Rightarrow> registry_of_names" where
  "NameRegistry_Read text r = fold ParseLine (lines_of text) r"

definition NameRegistry_IsEmpty :: "registry_of_names \<Rightarrow> bool" where
  "NameRegistry_IsEmpty r \<longleftrightarrow> nr_names r = (\<lambda>_. None) \<and> nr_hashes r = (\<lambda>_. None)"

subsection \<open>Hashes as text\<close>

definition hex_digit :: "nat \<Rightarrow> nat \<Rightarrow> char" where
  "hex_digit letter d = char_of (if d < 10 then 48 + d else letter + d)"

definition hex_places :: "nat list" where "hex_places = rev [0..<8]"

definition HexToString :: "u32 \<Rightarrow> string" where
  "HexToString num = ''0x'' @ map (\<lambda>i. hex_digit 87 (unat num div 16 ^ i mod 16)) hex_places"

definition HexToStringUC :: "u32 \<Rightarrow> string" where
  "HexToStringUC num = ''0x'' @ map (\<lambda>i. hex_digit 55 (unat num div 16 ^ i mod 16)) hex_places"

subsection \<open>The registries together\<close>

record hash_manager =
  fileRegistry :: registry_of_names
  typeRegistry :: registry_of_names
  propRegistry :: registry_of_names
  simulatorRegistry :: registry_of_names
  projectRegistry :: registry_of_names
  extraRegistry :: registry_of_names
  updateProjectRegistry :: bool
  initialized :: bool

definition HashManager_new :: hash_manager where
  "HashManager_new =
     \<lparr>fileRegistry = NameRegistry_new, typeRegistry = NameRegistry_new, propRegistry = NameRegistry_new,
      simulatorRegistry = NameRegistry_new, projectRegistry = NameRegistry_new,
      extraRegistry = NameRegistry_new, updateProjectRegistry = False, initialized = False\<rparr>"

text \<open>
  The directory is a map from the names of the files to their text; a file that is missing throws
  and leaves what was read before.
\<close>

definition read_into ::
  "(string \<Rightarrow> string option) \<Rightarrow> string \<Rightarrow> ((registry_of_names \<Rightarrow> registry_of_names) \<Rightarrow> hash_manager \<Rightarrow> hash_manager)
     \<Rightarrow> bool \<times> hash_manager \<Rightarrow> bool \<times> hash_manager" where
  "read_into files name update r =
     (if \<not> fst r then r
      else case files name of None \<Rightarrow> (False, snd r) | Some text \<Rightarrow> (True, update (NameRegistry_Read text) (snd r)))"

definition Initialize :: "(string \<Rightarrow> string option) \<Rightarrow> hash_manager \<Rightarrow> bool \<times> hash_manager" where
  "Initialize files m =
     (if initialized m then (True, m)
      else read_into files ''reg_simulator_stub.txt'' simulatorRegistry_update
          (read_into files ''reg_simulator.txt'' simulatorRegistry_update
          (read_into files ''reg_property.txt'' propRegistry_update
          (read_into files ''reg_type.txt'' typeRegistry_update
          (read_into files ''reg_file.txt'' fileRegistry_update (True, m\<lparr>initialized := True\<rparr>))))))"

definition HashManager_GetFileName :: "u32 \<Rightarrow> hash_manager \<Rightarrow> string" where
  "HashManager_GetFileName h m =
     (case GetName h (fileRegistry m) of Some s \<Rightarrow> s
      | None \<Rightarrow> (case GetName h (projectRegistry m) of Some s \<Rightarrow> s | None \<Rightarrow> HexToStringUC h))"

definition GetTypeName :: "u32 \<Rightarrow> hash_manager \<Rightarrow> string" where
  "GetTypeName h m =
     (case GetName h (typeRegistry m) of Some s \<Rightarrow> s
      | None \<Rightarrow> (case GetName h (extraRegistry m) of Some s \<Rightarrow> s | None \<Rightarrow> HexToStringUC h))"

text \<open>A number in hexadecimal digits after a hash sign or a prefix; what follows the digits is ignored.\<close>

definition number_in_name :: "string \<Rightarrow> u32 option" where
  "number_in_name name =
     (if name = [] then Some (- 1)
      else if hd name = CHR ''#'' then Some (fst (read_hex (drop 1 name)))
      else if has_hex_prefix name then Some (fst (read_hex (drop 2 name)))
      else None)"

definition GetFileHash :: "string \<Rightarrow> hash_manager \<Rightarrow> u32 \<times> hash_manager" where
  "GetFileHash name m =
     (case number_in_name name of Some v \<Rightarrow> (v, m)
      | None \<Rightarrow> (case GetHash name (fileRegistry m) of Some h \<Rightarrow> (h, m)
      | None \<Rightarrow> (case GetHash name (projectRegistry m) of Some h \<Rightarrow> (h, m)
      | None \<Rightarrow> (let h = fnv_hash_local name
                in (h, if updateProjectRegistry m
                       then m\<lparr>projectRegistry := NameRegistry_Add name h (projectRegistry m)\<rparr> else m)))))"

definition GetTypeHash :: "string \<Rightarrow> hash_manager \<Rightarrow> u32 \<times> hash_manager" where
  "GetTypeHash name m =
     (case number_in_name name of Some v \<Rightarrow> (v, m)
      | None \<Rightarrow> (case GetHash name (typeRegistry m) of Some h \<Rightarrow> (h, m)
      | None \<Rightarrow> (case GetHash name (extraRegistry m) of Some h \<Rightarrow> (h, m)
      | None \<Rightarrow> (let h = fnv_hash_local name
                in (h, m\<lparr>extraRegistry := NameRegistry_Add name h (extraRegistry m)\<rparr>)))))"

definition HashManager_Int32 :: "hash_manager \<Rightarrow> string \<Rightarrow> u32" where
  "HashManager_Int32 m = int32_with (\<lambda>name. fst (GetFileHash name m))"

subsection \<open>Lemmas\<close>

lemma hex_digit_value:
  assumes "d < 16" "letter = 87 \<or> letter = 55"
  shows "digit_value (hex_digit letter d) = d" and "hex_digit letter d \<noteq> CHR ''x''"
    "hex_digit letter d \<noteq> CHR ''X''" "\<not> isspace (hex_digit letter d)"
    "hex_digit letter d \<noteq> CHR ''-''" "hex_digit letter d \<noteq> CHR ''+''"
proof -
  let ?n = "if d < 10 then 48 + d else letter + d"
  have "?n < 256" using assms by (simp split: if_splits) arith?
  then have n: "of_char (hex_digit letter d) = ?n" by (simp add: hex_digit_def del: if_split)
  have "of_char (CHR ''x'') = (120 :: nat)" "of_char (CHR ''X'') = (88 :: nat)" "of_char (CHR ''-'') = (45 :: nat)"
    "of_char (CHR ''+'') = (43 :: nat)" by simp_all
  with n assms show "digit_value (hex_digit letter d) = d" "hex_digit letter d \<noteq> CHR ''x''"
    "hex_digit letter d \<noteq> CHR ''X''" "\<not> isspace (hex_digit letter d)"
    "hex_digit letter d \<noteq> CHR ''-''" "hex_digit letter d \<noteq> CHR ''+''"
    unfolding digit_value_def isspace_def Let_def by (simp; fail | (elim disjE; auto split: if_splits))+
qed

lemma base_16_digits:
  fixes n :: nat
  assumes "n < 16 ^ k"
  shows "foldl (\<lambda>v d. v * 16 + d) 0 (map (\<lambda>i. n div 16 ^ i mod 16) (rev [0..<k])) = n"
proof -
  have "foldl (\<lambda>v d. v * 16 + d) a (map (\<lambda>i. n div 16 ^ i mod 16) (rev [0..<k])) = a * 16 ^ k + n mod 16 ^ k" for a
  proof (induction k arbitrary: a)
    case (Suc k)
    have "n mod 16 ^ Suc k = 16 ^ k * (n div 16 ^ k mod 16) + n mod 16 ^ k"
      using mod_mult2_eq [of n "16 ^ k" 16] by (simp add: mult.commute)
    then show ?case using Suc by (simp add: algebra_simps)
  qed simp
  from this [of 0] show ?thesis using assms by simp
qed

lemma read_hex_digits:
  assumes "\<forall>c \<in> set (a # b # r). digit_value c < 16"
    and "\<not> isspace a" "a \<noteq> CHR ''-''" "a \<noteq> CHR ''+''" "b \<noteq> CHR ''x''" "b \<noteq> CHR ''X''"
    and "digits_value 16 (a # b # r) = n" "n < 2 ^ 32"
  shows "read_hex (a # b # r) = (of_nat n, False)"
proof -
  have all: "takeWhile (\<lambda>c. digit_value c < 16) (a # b # r) = a # b # r"
    using assms(1) by (simp only: takeWhile_eq_all_conv)
  have "stream_number 16 (a # b # r) = (False, Some n)"
    using assms(2-7) by (simp add: stream_number_def Let_def all del: takeWhile.simps)
  with assms(8) show ?thesis by (simp add: read_hex_def del: power_numeral)
qed

lemma read_hex_places:
  assumes "letter = 87 \<or> letter = 55"
  shows "read_hex (map (\<lambda>i. hex_digit letter (unat (h :: u32) div 16 ^ i mod 16)) hex_places) = (h, False)"
proof -
  define d where "d i = unat h div 16 ^ i mod 16" for i
  define s where "s = map (\<lambda>i. hex_digit letter (d i)) hex_places"
  have small: "d i < 16" for i by (simp add: d_def)
  note D = hex_digit_value [OF small assms]
  have places: "hex_places = 7 # 6 # rev [0..<6]" by (simp add: hex_places_def upt_rec)
  have shape: "s = hex_digit letter (d 7) # hex_digit letter (d 6) # map (\<lambda>i. hex_digit letter (d i)) (rev [0..<6])"
    unfolding s_def places by simp
  have len: "unat h < 2 ^ 32" using unsigned_less [of h, where 'a = nat] by simp
  have "digits_value 16 s = foldl (\<lambda>v x. v * 16 + x) 0 (map d hex_places)"
    unfolding s_def by (simp add: digits_value_def foldl_map D(1))
  also have "\<dots> = unat h" using base_16_digits [of "unat h" 8] len unfolding hex_places_def d_def by simp
  finally have "digits_value 16 s = unat h" .
  moreover have "\<forall>c \<in> set s. digit_value c < 16" unfolding s_def by (auto simp: D(1) small)
  ultimately have "read_hex s = (of_nat (unat h), False)"
    unfolding shape by (intro read_hex_digits) (simp_all only: D len not_False_eq_True)
  then show ?thesis by (simp add: s_def d_def)
qed

text \<open>The name that is made up for a hash without one reads back as the hash.\<close>

lemma number_after_prefix: "s \<noteq> [] \<Longrightarrow> number_in_name (''0x'' @ s) = Some (fst (read_hex s))"
  by (cases s) (simp_all add: number_in_name_def has_hex_prefix_def)

lemma hex_name_reads_back:
  "number_in_name (HexToString h) = Some h" "number_in_name (HexToStringUC h) = Some h"
proof -
  have ne: "map f hex_places \<noteq> []" for f :: "nat \<Rightarrow> char" by (simp add: hex_places_def)
  show "number_in_name (HexToString h) = Some h" "number_in_name (HexToStringUC h) = Some h"
    unfolding HexToString_def HexToStringUC_def number_after_prefix [OF ne] by (simp_all only: read_hex_places simp_thms fst_conv)
qed

lemma unnamed_hash_reads_back:
  assumes "GetName h (fileRegistry m) = None" "GetName h (projectRegistry m) = None"
  shows "GetFileHash (HashManager_GetFileName h m) m = (h, m)"
  using assms by (simp add: HashManager_GetFileName_def GetFileHash_def hex_name_reads_back)

text \<open>A type that had no hash gets one, under which its name is then found.\<close>

lemma new_type_is_found:
  assumes "number_in_name name = None" "GetHash name (typeRegistry m) = None" "GetHash name (extraRegistry m) = None"
    and "last name \<noteq> CHR ''~''"
  shows "fst (GetTypeHash name (snd (GetTypeHash name m))) = fst (GetTypeHash name m)"
    and "GetName (fst (GetTypeHash name m)) (typeRegistry m) = None \<Longrightarrow>
      GetTypeName (fst (GetTypeHash name m)) (snd (GetTypeHash name m)) = name"
  using assms
  by (auto simp: GetTypeHash_def NameRegistry_Add_def put_name_def key_of_def GetHash_def GetTypeName_def
      GetName_def number_in_name_def Let_def)

text \<open>A registry that could not be read is not read again: the second call succeeds and does nothing.\<close>

lemma second_Initialize:
  assumes "Initialize files m = (ok, m')"
  shows "Initialize files' m' = (True, m')"
proof -
  have keep: "initialized (snd (read_into files n upd r)) = initialized (snd r)"
    if "\<And>f x. initialized (upd f x) = initialized x" for n upd and r :: "bool \<times> hash_manager"
    using that by (simp add: read_into_def split: option.split)
  have "initialized (snd (Initialize files m))"
    unfolding Initialize_def by (simp add: keep)
  with assms have "initialized m'" by simp
  then show ?thesis by (simp add: Initialize_def)
qed

end
