(* ===== verification/Packages.thy ===== *)
theory Packages
  imports RefPack Names
begin

unbundle bit_operations_syntax

text \<open>
  The asset packages of \<open>source/Game/AssetData/DBPFManager.cpp\<close>: the reader of a file, the header,
  the index and the items of a package, and the manager that serves the data of a key.  A file is a
  list of bytes.  A read that fails leaves the stream failed, as \<open>std::ifstream\<close> does, and nothing
  in the source clears it.
\<close>

subsection \<open>Keys\<close>

record resource_key =
  typeID :: u32
  groupID :: u32
  instanceID :: u32

definition ResourceKey_new :: resource_key where
  "ResourceKey_new = \<lparr>typeID = 0, groupID = 0, instanceID = 0\<rparr>"

definition IsEquivalent :: "resource_key \<Rightarrow> resource_key \<Rightarrow> bool" where
  "IsEquivalent a b \<longleftrightarrow> typeID a = typeID b \<and> instanceID a = instanceID b"

definition same_key :: "resource_key \<Rightarrow> resource_key \<Rightarrow> bool" where
  "same_key a b \<longleftrightarrow> typeID a = typeID b \<and> groupID a = groupID b \<and> instanceID a = instanceID b"

definition ResourceKeyHasher :: "resource_key \<Rightarrow> u64" where
  "ResourceKeyHasher k =
     (let h = ucast (typeID k); h = h * 1315423911 + ucast (groupID k)
      in h * 1315423911 + ucast (instanceID k))"

lemma same_key_iff: "same_key a b \<longleftrightarrow> a = b"
  by (cases a; cases b) (simp add: same_key_def)

subsection \<open>The stream\<close>

record read_stream =
  stream_bytes :: bytes
  stream_pos :: nat
  stream_failed :: bool

type_synonym 'a reader = "read_stream \<Rightarrow> (package_error + 'a) \<times> read_stream"

definition rd_return :: "'a \<Rightarrow> 'a reader" where "rd_return x s = (Inr x, s)"

definition rd_throw :: "package_error \<Rightarrow> 'a reader" where "rd_throw e s = (Inl e, s)"

definition rd_bind :: "'a reader \<Rightarrow> ('a \<Rightarrow> 'b reader) \<Rightarrow> 'b reader" where
  "rd_bind r f s = (case r s of (Inl e, s') \<Rightarrow> (Inl e, s') | (Inr x, s') \<Rightarrow> f x s')"

definition FileReadStream_open :: "bytes \<Rightarrow> read_stream" where
  "FileReadStream_open bs = \<lparr>stream_bytes = bs, stream_pos = 0, stream_failed = False\<rparr>"

text \<open>The base offset of the streams is never set and stays 0.\<close>

definition Seek :: "int \<Rightarrow> unit reader" where
  "Seek off s = (Inr (), if stream_failed s then s
     else if off < 0 then s\<lparr>stream_failed := True\<rparr> else s\<lparr>stream_pos := nat off\<rparr>)"

definition Skip :: "nat \<Rightarrow> unit reader" where
  "Skip n s = (Inr (), if stream_failed s then s else s\<lparr>stream_pos := stream_pos s + n\<rparr>)"

definition GetFilePointer :: "int reader" where
  "GetFilePointer s = (Inr (if stream_failed s then - 1 else int (stream_pos s)), s)"

definition ReadBytes :: "nat \<Rightarrow> bytes reader" where
  "ReadBytes len s =
     (if \<not> stream_failed s \<and> stream_pos s + len \<le> length (stream_bytes s)
      then (Inr (take len (drop (stream_pos s) (stream_bytes s))), s\<lparr>stream_pos := stream_pos s + len\<rparr>)
      else (Inl Unexpected_eof, s\<lparr>stream_failed := True\<rparr>))"

definition ReadByte :: "u8 reader" where
  "ReadByte = rd_bind (ReadBytes 1) (\<lambda>bs. rd_return (hd bs))"

definition ReadBoolean :: "bool reader" where
  "ReadBoolean = rd_bind ReadByte (\<lambda>b.
     if b = 0 then rd_return False else if b = 1 then rd_return True else rd_throw Invalid_boolean)"

definition ReadLEShort :: "u16 reader" where
  "ReadLEShort = rd_bind (ReadBytes 2) (\<lambda>b. rd_return (ucast (b ! 0) OR push_bit 8 (ucast (b ! 1))))"

definition ReadLEInt :: "u32 reader" where
  "ReadLEInt = rd_bind (ReadBytes 4) (\<lambda>b. rd_return
     (ucast (b ! 0) OR push_bit 8 (ucast (b ! 1)) OR push_bit 16 (ucast (b ! 2)) OR push_bit 24 (ucast (b ! 3))))"

definition ReadLEUInt :: "u32 reader" where "ReadLEUInt = ReadLEInt"

definition ReadLELong :: "u64 reader" where
  "ReadLELong = rd_bind (ReadBytes 8) (\<lambda>b. rd_return
     (ucast (b ! 0) OR push_bit 8 (ucast (b ! 1)) OR push_bit 16 (ucast (b ! 2)) OR push_bit 24 (ucast (b ! 3))
      OR push_bit 32 (ucast (b ! 4)) OR push_bit 40 (ucast (b ! 5)) OR push_bit 48 (ucast (b ! 6))
      OR push_bit 56 (ucast (b ! 7))))"

subsection \<open>Items\<close>

record package_item =
  isCompressed :: bool
  chunkOffset :: u64
  memSize :: u32
  compressedSize :: u32
  item_name :: resource_key
  isSaved :: bool

definition DBPFItem_new :: package_item where
  "DBPFItem_new = \<lparr>isCompressed = False, chunkOffset = 0, memSize = 0, compressedSize = 0,
     item_name = ResourceKey_new, isSaved = True\<rparr>"

definition DBPFItem_Read :: "bool \<Rightarrow> bool \<Rightarrow> bool \<Rightarrow> package_item \<Rightarrow> package_item reader" where
  "DBPFItem_Read isDBBF readType readGroup item =
     rd_bind (if readType then ReadLEInt else rd_return (typeID (item_name item))) (\<lambda>ty.
     rd_bind (if readGroup then ReadLEInt else rd_return (groupID (item_name item))) (\<lambda>gr.
     rd_bind ReadLEInt (\<lambda>inst.
     rd_bind (if isDBBF then ReadLELong else rd_bind ReadLEUInt (\<lambda>w. rd_return (ucast w))) (\<lambda>off.
     rd_bind ReadLEInt (\<lambda>cs.
     rd_bind ReadLEInt (\<lambda>ms.
     rd_bind ReadLEShort (\<lambda>comp.
     if comp \<noteq> 0 \<and> comp \<noteq> - 1 then rd_throw Unknown_label
     else rd_bind ReadBoolean (\<lambda>saved.
     rd_bind (Skip 1) (\<lambda>_. rd_return
       \<lparr>isCompressed = (comp = - 1), chunkOffset = off, memSize = ms, compressedSize = cs AND 0x7FFFFFFF,
        item_name = \<lparr>typeID = ty, groupID = gr, instanceID = inst\<rparr>, isSaved = saved\<rparr>)))))))))"

definition ProcessFile :: "package_item \<Rightarrow> bytes reader" where
  "ProcessFile item =
     rd_bind (Seek (sint (chunkOffset item))) (\<lambda>_.
     if sint (memSize item) < 0 then rd_throw Invalid_memSize
     else if sint (compressedSize item) < 0 \<and> isCompressed item then rd_throw Invalid_compressedSize
     else if isCompressed item then
       rd_bind (if compressedSize item = 0 then rd_return [] else ReadBytes (unat (compressedSize item))) (\<lambda>comp.
       if memSize item = 0 then rd_return []
       else case DecompressFast comp (replicate (unat (memSize item)) 0) of
              Inl e \<Rightarrow> rd_throw e | Inr buf \<Rightarrow> rd_return buf)
     else if memSize item = 0 then rd_return [] else ReadBytes (unat (memSize item)))"

subsection \<open>The index\<close>

record package_index =
  index_groupID :: u32
  index_typeID :: u32
  index_items :: "package_item list"
  itemsOffset :: int

definition DBPFIndex_new :: package_index where
  "DBPFIndex_new = \<lparr>index_groupID = - 1, index_typeID = - 1, index_items = [], itemsOffset = 0\<rparr>"

definition DBPFIndex_Read :: "package_index \<Rightarrow> package_index reader" where
  "DBPFIndex_Read ix =
     rd_bind ReadLEInt (\<lambda>typeFlags.
     rd_bind (if bit typeFlags 0 then ReadLEInt else rd_return (index_typeID ix)) (\<lambda>ty.
     rd_bind (if bit typeFlags 1 then ReadLEInt else rd_return (index_groupID ix)) (\<lambda>gr.
     rd_bind (if bit typeFlags 2 then ReadLEInt else rd_return 0) (\<lambda>_.
     rd_bind GetFilePointer (\<lambda>p.
     rd_return (ix\<lparr>index_groupID := gr, index_typeID := ty, itemsOffset := p\<rparr>))))))"

primrec read_items :: "package_item reader \<Rightarrow> nat \<Rightarrow> package_item list reader" where
  "read_items one 0 = rd_return []"
| "read_items one (Suc n) = rd_bind one (\<lambda>i. rd_bind (read_items one n) (\<lambda>is. rd_return (i # is)))"

definition ReadItems :: "u32 \<Rightarrow> bool \<Rightarrow> package_index \<Rightarrow> package_index reader" where
  "ReadItems numItems isDBBF ix =
     (if sint numItems < 0 then rd_throw Negative_count
      else rd_bind (Seek (itemsOffset ix)) (\<lambda>_.
        let readGroup = (index_groupID ix = - 1); readType = (index_typeID ix = - 1);
            item = DBPFItem_new\<lparr>item_name :=
              \<lparr>typeID = (if readType then 0 else index_typeID ix),
               groupID = (if readGroup then 0 else index_groupID ix), instanceID = 0\<rparr>\<rparr>
        in rd_bind (read_items (DBPFItem_Read isDBBF readType readGroup item) (unat numItems)) (\<lambda>is.
           rd_return (ix\<lparr>index_items := is\<rparr>))))"

subsection \<open>The package\<close>

record packed_file =
  majorVersion :: u32
  minVersion :: u32
  indexMajorVersion :: u32
  indexMinorVersion :: u32
  is_DBBF :: bool
  package_contents :: package_index
  indexCount :: u32
  indexOffset :: int
  indexSize :: int

definition DatabasePackedFile_new :: packed_file where
  "DatabasePackedFile_new = \<lparr>majorVersion = 3, minVersion = 0, indexMajorVersion = 0, indexMinorVersion = 3,
     is_DBBF = False, package_contents = DBPFIndex_new, indexCount = 0, indexOffset = 0, indexSize = 0\<rparr>"

definition ReadDBPF :: "packed_file \<Rightarrow> packed_file reader" where
  "ReadDBPF f =
     rd_bind ReadLEInt (\<lambda>major. rd_bind ReadLEInt (\<lambda>minor. rd_bind (Skip 20) (\<lambda>_.
     rd_bind ReadLEInt (\<lambda>imajor. rd_bind ReadLEInt (\<lambda>count. rd_bind (Skip 4) (\<lambda>_.
     rd_bind ReadLEUInt (\<lambda>isize. rd_bind (Skip 12) (\<lambda>_. rd_bind ReadLEInt (\<lambda>iminor.
     rd_bind ReadLEUInt (\<lambda>off. rd_return
       (f\<lparr>majorVersion := major, minVersion := minor, indexMajorVersion := imajor, indexMinorVersion := iminor,
          indexCount := count, indexOffset := uint off, indexSize := uint isize\<rparr>)))))))))))"

definition ReadDBBF :: "packed_file \<Rightarrow> packed_file reader" where
  "ReadDBBF f =
     rd_bind ReadLEInt (\<lambda>major. rd_bind ReadLEInt (\<lambda>minor. rd_bind (Skip 20) (\<lambda>_.
     rd_bind ReadLEInt (\<lambda>imajor. rd_bind ReadLEInt (\<lambda>count.
     rd_bind ReadLEInt (\<lambda>isize. rd_bind (Skip 8) (\<lambda>_. rd_bind ReadLEInt (\<lambda>iminor.
     rd_bind ReadLEInt (\<lambda>off. rd_return
       (f\<lparr>majorVersion := major, minVersion := minor, indexMajorVersion := imajor, indexMinorVersion := iminor,
          indexCount := count, indexOffset := sint off, indexSize := sint isize\<rparr>))))))))))"

definition Package_ReadHeader :: "packed_file \<Rightarrow> packed_file reader" where
  "Package_ReadHeader f = rd_bind ReadLEInt (\<lambda>magic.
     if magic = 0x46504244 then ReadDBPF (f\<lparr>is_DBBF := False\<rparr>)
     else if magic = 0x46424244 then ReadDBBF (f\<lparr>is_DBBF := True\<rparr>)
     else rd_throw Unknown_magic)"

definition ReadIndex :: "packed_file \<Rightarrow> packed_file reader" where
  "ReadIndex f = rd_bind (Seek (indexOffset f)) (\<lambda>_.
     rd_bind (DBPFIndex_Read (package_contents f)) (\<lambda>ix. rd_return (f\<lparr>package_contents := ix\<rparr>)))"

definition ReadAll :: "packed_file \<Rightarrow> packed_file reader" where
  "ReadAll f = rd_bind (Package_ReadHeader f) (\<lambda>f. rd_bind (ReadIndex f) (\<lambda>f.
     rd_bind (ReadItems (indexCount f) (is_DBBF f) (package_contents f)) (\<lambda>ix.
     rd_return (f\<lparr>package_contents := ix\<rparr>))))"

definition GetItem :: "resource_key \<Rightarrow> packed_file \<Rightarrow> package_item option" where
  "GetItem key f = find (\<lambda>i. same_key (item_name i) key) (index_items (package_contents f))"

subsection \<open>The manager\<close>

datatype source_mode = XmlOnly | PackageBridge

record init_config =
  config_mode :: source_mode
  asset_package :: string
  registry_dir :: string

type_synonym files = "string \<Rightarrow> bytes option"

definition text_of :: "bytes \<Rightarrow> string" where "text_of bs = map (\<lambda>b. char_of (unat b)) bs"

definition registry_files :: "files \<Rightarrow> string \<Rightarrow> string \<Rightarrow> string option" where
  "registry_files fs dir name = map_option text_of (fs (dir @ ''/'' @ name))"

definition FindNamesFile ::
  "package_item list \<Rightarrow> read_stream \<Rightarrow> hash_manager \<Rightarrow> (package_error + unit) \<times> read_stream \<times> hash_manager" where
  "FindNamesFile items s hasher =
     (let (group, h1) = GetFileHash ''sporemaster'' hasher; (name, h2) = GetFileHash ''names'' h1 in
      case find (\<lambda>it. groupID (item_name it) = group \<and> instanceID (item_name it) = name) items of
        None \<Rightarrow> (Inr (), s, h2)
      | Some it \<Rightarrow> (case ProcessFile it s of
            (Inl e, s') \<Rightarrow> (Inl e, s', h2)
          | (Inr raw, s') \<Rightarrow>
              (Inr (), s', if raw = [] then h2
                 else h2\<lparr>projectRegistry := NameRegistry_Read (text_of raw) (projectRegistry h2)\<rparr>)))"

record package_manager =
  pm_mode :: source_mode
  pm_stream :: read_stream
  pm_header :: packed_file
  itemsByKey :: "resource_key \<Rightarrow> package_item option"

text \<open>\<open>emplace_item\<close> keeps the first item of a key.\<close>

definition emplace_item :: "package_item \<Rightarrow> (resource_key \<Rightarrow> package_item option) \<Rightarrow> resource_key \<Rightarrow> package_item option" where
  "emplace_item item m = (if m (item_name item) = None then m(item_name item \<mapsto> item) else m)"

definition index_by_key :: "package_item list \<Rightarrow> resource_key \<Rightarrow> package_item option" where
  "index_by_key items = fold emplace_item items (\<lambda>_. None)"

definition DBPFManagerImpl_new ::
  "init_config \<Rightarrow> files \<Rightarrow> hash_manager \<Rightarrow> (package_error + package_manager) \<times> hash_manager" where
  "DBPFManagerImpl_new cfg fs hasher =
     (case Initialize (registry_files fs (registry_dir cfg)) hasher of
        (False, h) \<Rightarrow> (Inl Registry_missing, h)
      | (True, h) \<Rightarrow>
          if config_mode cfg \<noteq> PackageBridge
          then (Inr \<lparr>pm_mode = config_mode cfg, pm_stream = FileReadStream_open [], pm_header = DatabasePackedFile_new,
                     itemsByKey = (\<lambda>_. None)\<rparr>, h)
          else (case fs (asset_package cfg) of
              None \<Rightarrow> (Inl Cannot_open, h)
            | Some bs \<Rightarrow>
                (case ReadAll DatabasePackedFile_new (FileReadStream_open bs) of
                   (Inl e, s) \<Rightarrow> (Inl e, h)
                 | (Inr f, s) \<Rightarrow>
                     (let items = index_items (package_contents f) in
                      case FindNamesFile items s h of
                        (Inl e, s', h') \<Rightarrow> (Inl e, h')
                      | (Inr _, s', h') \<Rightarrow>
                          (Inr \<lparr>pm_mode = PackageBridge, pm_stream = s', pm_header = f,
                                itemsByKey = index_by_key items\<rparr>, h')))))"

definition impl_has_binary :: "resource_key \<Rightarrow> package_manager \<Rightarrow> bool" where
  "impl_has_binary key p \<longleftrightarrow> pm_mode p = PackageBridge \<and> itemsByKey p key \<noteq> None"

definition impl_get_binary ::
  "resource_key \<Rightarrow> package_manager \<Rightarrow> (package_error + bytes option) \<times> package_manager" where
  "impl_get_binary key p =
     (if pm_mode p \<noteq> PackageBridge then (Inr None, p)
      else case itemsByKey p key of None \<Rightarrow> (Inr None, p)
        | Some item \<Rightarrow> (case ProcessFile item (pm_stream p) of
              (Inl e, s) \<Rightarrow> (Inl e, p\<lparr>pm_stream := s\<rparr>)
            | (Inr buf, s) \<Rightarrow> (Inr (Some buf), p\<lparr>pm_stream := s\<rparr>)))"

definition impl_debug_get_first_of_type ::
  "string \<Rightarrow> package_manager \<Rightarrow> hash_manager
     \<Rightarrow> (package_error + (bytes \<times> string) option) \<times> package_manager \<times> hash_manager" where
  "impl_debug_get_first_of_type typeName p hasher =
     (if pm_mode p \<noteq> PackageBridge then (Inr None, p, hasher)
      else (let (typeHash, h) = GetTypeHash typeName hasher in
        case find (\<lambda>it. typeID (item_name it) = typeHash) (index_items (package_contents (pm_header p))) of
          None \<Rightarrow> (Inr None, p, h)
        | Some item \<Rightarrow> (case ProcessFile item (pm_stream p) of
              (Inl e, s) \<Rightarrow> (Inl e, p\<lparr>pm_stream := s\<rparr>, h)
            | (Inr buf, s) \<Rightarrow>
                (Inr (Some (buf, HashManager_GetFileName (instanceID (item_name item)) h @ ''.''
                              @ GetTypeName (typeID (item_name item)) h)),
                 p\<lparr>pm_stream := s\<rparr>, h))))"

text \<open>The process has one hash manager and at most one package manager.\<close>

record package_state =
  ps_hasher :: hash_manager
  ps_manager :: "package_manager option"

definition package_state_new :: package_state where
  "package_state_new = \<lparr>ps_hasher = HashManager_new, ps_manager = None\<rparr>"

definition DBPFManager_init :: "init_config \<Rightarrow> files \<Rightarrow> package_state \<Rightarrow> bool \<times> package_state" where
  "DBPFManager_init cfg fs st =
     (case DBPFManagerImpl_new cfg fs (ps_hasher st) of
        (Inl e, h) \<Rightarrow> (False, \<lparr>ps_hasher = h, ps_manager = None\<rparr>)
      | (Inr p, h) \<Rightarrow> (True, \<lparr>ps_hasher = h, ps_manager = Some p\<rparr>))"

definition DBPFManager_shutdown :: "package_state \<Rightarrow> package_state" where
  "DBPFManager_shutdown st = st\<lparr>ps_manager := None\<rparr>"

definition has_binary :: "resource_key \<Rightarrow> package_state \<Rightarrow> bool" where
  "has_binary key st = (case ps_manager st of None \<Rightarrow> False | Some p \<Rightarrow> impl_has_binary key p)"

definition get_binary :: "resource_key \<Rightarrow> package_state \<Rightarrow> (package_error + bytes option) \<times> package_state" where
  "get_binary key st =
     (case ps_manager st of None \<Rightarrow> (Inr None, st)
      | Some p \<Rightarrow> (case impl_get_binary key p of (r, p') \<Rightarrow> (r, st\<lparr>ps_manager := Some p'\<rparr>)))"

definition debug_get_first_of_type ::
  "string \<Rightarrow> package_state \<Rightarrow> (package_error + (bytes \<times> string) option) \<times> package_state" where
  "debug_get_first_of_type typeName st =
     (case ps_manager st of None \<Rightarrow> (Inr None, st)
      | Some p \<Rightarrow> (case impl_debug_get_first_of_type typeName p (ps_hasher st) of
            (r, p', h) \<Rightarrow> (r, st\<lparr>ps_manager := Some p', ps_hasher := h\<rparr>)))"

end
