(* ===== verification/PackageProps.thy ===== *)
theory PackageProps
  imports Packages
begin

unbundle bit_operations_syntax

text \<open>
  A writer of asset packages and the round trip through the reader, the index and the manager of
  \<open>Packages\<close>.
\<close>

subsection \<open>Reading at a place\<close>

definition strm :: "bytes \<Rightarrow> nat \<Rightarrow> read_stream" where
  "strm B p = \<lparr>stream_bytes = B, stream_pos = p, stream_failed = False\<rparr>"

lemma strm_eq [simp]: "strm B p = strm B q \<longleftrightarrow> p = q"
  by (simp add: strm_def)

lemma strm_simps [simp]: "stream_bytes (strm B p) = B" "stream_failed (strm B p) = False"
  by (simp_all add: strm_def)

definition holds :: "bytes \<Rightarrow> nat \<Rightarrow> bytes \<Rightarrow> bool" where
  "holds B p chunk \<longleftrightarrow> (\<exists>pre rest. B = pre @ chunk @ rest \<and> length pre = p)"

lemma holds_append: "holds B p (a @ b) \<Longrightarrow> holds B p a \<and> holds B (p + length a) b"
  unfolding holds_def by (metis append.assoc length_append)

lemma holds_here: "holds (pre @ chunk @ rest) (length pre) chunk"
  unfolding holds_def by blast

lemma ReadBytes_at:
  assumes "holds B p chunk" "n = length chunk"
  shows "ReadBytes n (strm B p) = (Inr chunk, strm B (p + n))"
  using assms by (auto simp: holds_def ReadBytes_def strm_def)

lemma of_le_4: "of_le [a, b, c, d] =
    (ucast a OR push_bit 8 (ucast b) OR push_bit 16 (ucast c) OR push_bit 24 (ucast d) :: 'a::len word)"
  by (simp add: push_bit_or)

lemma of_le_8: "of_le [a, b, c, d, e, f, g, h] =
    (ucast a OR push_bit 8 (ucast b) OR push_bit 16 (ucast c) OR push_bit 24 (ucast d)
     OR push_bit 32 (ucast e) OR push_bit 40 (ucast f) OR push_bit 48 (ucast g)
     OR push_bit 56 (ucast h) :: 'a::len word)"
  by (simp add: push_bit_or)

lemma list_of_length:
  "length xs = 2 \<Longrightarrow> xs = [xs ! 0, xs ! 1]"
  "length xs = 4 \<Longrightarrow> xs = [xs ! 0, xs ! 1, xs ! 2, xs ! 3]"
  "length xs = 8 \<Longrightarrow> xs = [xs ! 0, xs ! 1, xs ! 2, xs ! 3, xs ! 4, xs ! 5, xs ! 6, xs ! 7]"
  by (auto simp: list_eq_iff_nth_eq less_Suc_eq nth_Cons' numeral_eq_Suc)

lemma ReadLEShort_at:
  assumes "holds B p (bytes_le 2 w)"
  shows "ReadLEShort (strm B p) = (Inr w, strm B (p + 2))"
proof -
  have "of_le (bytes_le 2 w) = w" by (rule of_le_bytes_le) simp
  then have "ucast (bytes_le 2 w ! 0) OR push_bit 8 (ucast (bytes_le 2 w ! 1)) = w"
    using list_of_length(1) [of "bytes_le 2 w"] by (metis length_bytes_le of_le.simps or.right_neutral push_bit_of_0)
  then show ?thesis using ReadBytes_at [OF assms, of 2]
    by (simp add: ReadLEShort_def rd_bind_def rd_return_def)
qed

lemma ReadLEInt_at:
  assumes "holds B p (bytes_le 4 w)"
  shows "ReadLEInt (strm B p) = (Inr w, strm B (p + 4))" and "ReadLEUInt (strm B p) = (Inr w, strm B (p + 4))"
proof -
  have "of_le (bytes_le 4 w) = w" by (rule of_le_bytes_le) simp
  then have "ucast (bytes_le 4 w ! 0) OR push_bit 8 (ucast (bytes_le 4 w ! 1)) OR push_bit 16 (ucast (bytes_le 4 w ! 2))
      OR push_bit 24 (ucast (bytes_le 4 w ! 3)) = w"
    using list_of_length(2) [of "bytes_le 4 w"] of_le_4 by (metis length_bytes_le)
  then show "ReadLEInt (strm B p) = (Inr w, strm B (p + 4))" using ReadBytes_at [OF assms, of 4]
    by (simp add: ReadLEInt_def rd_bind_def rd_return_def)
  then show "ReadLEUInt (strm B p) = (Inr w, strm B (p + 4))" by (simp add: ReadLEUInt_def)
qed

lemma ReadLELong_at:
  assumes "holds B p (bytes_le 8 w)"
  shows "ReadLELong (strm B p) = (Inr w, strm B (p + 8))"
proof -
  have "of_le (bytes_le 8 w) = w" by (rule of_le_bytes_le) simp
  then have "ucast (bytes_le 8 w ! 0) OR push_bit 8 (ucast (bytes_le 8 w ! 1)) OR push_bit 16 (ucast (bytes_le 8 w ! 2))
      OR push_bit 24 (ucast (bytes_le 8 w ! 3)) OR push_bit 32 (ucast (bytes_le 8 w ! 4)) OR push_bit 40 (ucast (bytes_le 8 w ! 5))
      OR push_bit 48 (ucast (bytes_le 8 w ! 6)) OR push_bit 56 (ucast (bytes_le 8 w ! 7)) = w"
    using list_of_length(3) [of "bytes_le 8 w"] of_le_8 by (metis length_bytes_le)
  then show ?thesis using ReadBytes_at [OF assms, of 8]
    by (simp add: ReadLELong_def rd_bind_def rd_return_def)
qed

lemma ReadBoolean_at: "holds B p (1 # r) \<Longrightarrow> ReadBoolean (strm B p) = (Inr True, strm B (p + 1))"
  using ReadBytes_at [of B p "[1]" 1] holds_append [of B p "[1]" r]
  by (simp add: ReadBoolean_def ReadByte_def rd_bind_def rd_return_def)

lemma Skip_at: "Skip n (strm B p) = (Inr (), strm B (p + n))"
  by (simp add: Skip_def strm_def)

lemma Seek_at: "Seek (int q) (strm B p) = (Inr (), strm B q)"
  by (simp add: Seek_def strm_def)

lemma GetFilePointer_at: "GetFilePointer (strm B p) = (Inr (int p), strm B p)"
  by (simp add: GetFilePointer_def strm_def)

lemma rd_bind_at: "r s = (Inr x, s') \<Longrightarrow> rd_bind r f s = f x s'"
  by (simp add: rd_bind_def)

subsection \<open>A writer\<close>

datatype stored = Plain bytes | Packed u8 u8 "piece list"

primrec content :: "stored \<Rightarrow> bytes" where
  "content (Plain d) = d"
| "content (Packed kind flags ps) = expand ps []"

primrec raw :: "stored \<Rightarrow> bytes" where
  "raw (Plain d) = d"
| "raw (Packed kind flags ps) = packed kind flags ps"

primrec is_packed :: "stored \<Rightarrow> bool" where
  "is_packed (Plain d) = False"
| "is_packed (Packed kind flags ps) = True"

primrec good_stored :: "stored \<Rightarrow> bool" where
  "good_stored (Plain d) \<longleftrightarrow> True"
| "good_stored (Packed kind flags ps) \<longleftrightarrow> (kind = 0x10 \<or> kind = 0x50) \<and> list_all encodable ps \<and> all_reach ps []
     \<and> length (expand ps []) < 2 ^ 24"

type_synonym entry = "resource_key \<times> stored"

definition index_entry :: "bool \<Rightarrow> nat \<Rightarrow> entry \<Rightarrow> bytes" where
  "index_entry dbbf off e =
     (let k = fst e; st = snd e in
      bytes_le 4 (typeID k) @ bytes_le 4 (groupID k) @ bytes_le 4 (instanceID k)
      @ (if dbbf then bytes_le 8 (of_nat off :: u64) else bytes_le 4 (of_nat off :: u32))
      @ bytes_le 4 (of_nat (length (raw st)) OR 0x80000000 :: u32) @ bytes_le 4 (of_nat (length (content st)) :: u32)
      @ bytes_le 2 (if is_packed st then - 1 else 0 :: u16) @ [1] @ [0])"

primrec index_entries :: "bool \<Rightarrow> nat \<Rightarrow> entry list \<Rightarrow> bytes" where
  "index_entries dbbf off [] = []"
| "index_entries dbbf off (e # es) = index_entry dbbf off e @ index_entries dbbf (off + length (raw (snd e))) es"

definition chunks :: "entry list \<Rightarrow> bytes" where "chunks es = concat (map (\<lambda>e. raw (snd e)) es)"

definition header_length :: "bool \<Rightarrow> nat" where "header_length dbbf = (if dbbf then 60 else 68)"

definition package_header :: "bool \<Rightarrow> u32 \<Rightarrow> u32 \<Rightarrow> bytes" where
  "package_header dbbf count off =
     (if dbbf
      then bytes_le 4 (0x46424244 :: u32) @ bytes_le 4 (3 :: u32) @ bytes_le 4 (0 :: u32) @ replicate 20 0
        @ bytes_le 4 (0 :: u32) @ bytes_le 4 count @ bytes_le 4 (0 :: u32) @ replicate 8 0
        @ bytes_le 4 (3 :: u32) @ bytes_le 4 off
      else bytes_le 4 (0x46504244 :: u32) @ bytes_le 4 (3 :: u32) @ bytes_le 4 (0 :: u32) @ replicate 20 0
        @ bytes_le 4 (0 :: u32) @ bytes_le 4 count @ replicate 4 0 @ bytes_le 4 (0 :: u32) @ replicate 12 0
        @ bytes_le 4 (3 :: u32) @ bytes_le 4 off)"

definition package_bytes :: "bool \<Rightarrow> entry list \<Rightarrow> bytes" where
  "package_bytes dbbf es =
     (let hl = header_length dbbf in
      package_header dbbf (of_nat (length es)) (of_nat (hl + length (chunks es)))
      @ chunks es @ bytes_le 4 (0 :: u32) @ index_entries dbbf hl es)"

definition good_package :: "bool \<Rightarrow> entry list \<Rightarrow> bool" where
  "good_package dbbf es \<longleftrightarrow> list_all (\<lambda>e. good_stored (snd e)) es \<and> length es < 2 ^ 31
     \<and> header_length dbbf + length (chunks es) < 2 ^ 31"

subsection \<open>One item\<close>

definition item_of :: "nat \<Rightarrow> entry \<Rightarrow> package_item" where
  "item_of off e = \<lparr>isCompressed = is_packed (snd e), chunkOffset = of_nat off,
     memSize = of_nat (length (content (snd e))), compressedSize = of_nat (length (raw (snd e))),
     item_name = fst e, isSaved = True\<rparr>"

primrec items_of :: "nat \<Rightarrow> entry list \<Rightarrow> package_item list" where
  "items_of off [] = []"
| "items_of off (e # es) = item_of off e # items_of (off + length (raw (snd e))) es"

lemma top_bit_dropped:
  assumes "n < 2 ^ 31"
  shows "(of_nat n OR 0x80000000 :: u32) AND 0x7FFFFFFF = of_nat n"
proof -
  have "(of_nat n :: u32) AND mask 31 = of_nat n"
    using assms by (simp add: take_bit_eq_mask [symmetric] of_nat_take_bit [symmetric] take_bit_nat_eq_self)
  then have "(of_nat n :: u32) AND 0x7FFFFFFF = of_nat n" by (simp add: mask_eq_exp_minus_1)
  moreover have "(0x80000000 :: u32) AND 0x7FFFFFFF = 0" by simp
  ultimately show ?thesis by (simp only: bit.conj_disj_distrib2 or.right_neutral)
qed

lemma DBPFItem_Read_at:
  assumes h: "holds B p (index_entry dbbf off e)" and n: "length (raw (snd e)) < 2 ^ 31" and o: "off < 2 ^ 31"
  shows "DBPFItem_Read dbbf True True item (strm B p) = (Inr (item_of off e), strm B (p + length (index_entry dbbf off e)))"
proof -
  have wide: "(ucast (of_nat off :: u32) :: u64) = of_nat off"
    using o by (simp add: unsigned_of_nat take_bit_nat_eq_self)
  show ?thesis
    using h n wide
    by (cases dbbf)
      (auto dest!: holds_append simp: index_entry_def Let_def DBPFItem_Read_def rd_bind_def ReadLEInt_at ReadLELong_at ReadLEShort_at
        ReadBoolean_at Skip_at rd_return_def item_of_def top_bit_dropped add.commute)
qed

lemma small_u32:
  assumes "n < 2 ^ 31"
  shows "unat (of_nat n :: u32) = n" "\<not> sint (of_nat n :: u32) < 0" "(of_nat n :: u32) = 0 \<longleftrightarrow> n = 0"
proof -
  show u: "unat (of_nat n :: u32) = n" using assms by (simp add: unat_of_nat take_bit_nat_eq_self)
  show "\<not> sint (of_nat n :: u32) < 0" using assms by (simp add: signed_of_nat signed_take_bit_int_eq_self)
  show "(of_nat n :: u32) = 0 \<longleftrightarrow> n = 0" using u by auto
qed

lemma ProcessFile_at:
  assumes "good_stored (snd e)" and "length (raw (snd e)) < 2 ^ 31" and "off < 2 ^ 31" and "holds B off (raw (snd e))"
  shows "\<exists>q. ProcessFile (item_of off e) (strm B p) = (Inr (content (snd e)), strm B q)"
proof (cases "snd e")
  case (Plain d)
  have off: "sint (of_nat off :: u64) = int off" using assms(3)
    by (simp add: signed_of_nat signed_take_bit_int_eq_self)
  have n: "length d < 2 ^ 31" using Plain assms(2) by simp
  show ?thesis using Plain assms(4) small_u32 [OF n] ReadBytes_at [of B off d "length d"]
    by (cases "d = []") (auto simp: ProcessFile_def item_of_def rd_bind_def rd_return_def off Seek_at)
next
  case (Packed kind flags ps)
  let ?r = "packed kind flags ps" and ?c = "expand ps []"
  have off: "sint (of_nat off :: u64) = int off" using assms(3)
    by (simp add: signed_of_nat signed_take_bit_int_eq_self)
  have g: "kind = 0x10 \<or> kind = 0x50" "list_all encodable ps" "all_reach ps []" "length ?c < 2 ^ 24"
    using assms(1) Packed by simp_all
  have n: "length ?r < 2 ^ 31" "length ?c < 2 ^ 31" "?r \<noteq> []" using assms(2) g(4) Packed by (simp_all add: packed_def)
  have "DecompressFast ?r (replicate (length ?c) 0) = Inr ?c"
    using packed_data_decode [OF g(2-4) _ g(1), of "replicate (length ?c) 0" flags "[]"] by simp
  then show ?thesis using Packed assms(4) n(3) small_u32 [OF n(1)] small_u32 [OF n(2)] ReadBytes_at [of B off ?r "length ?r"]
    by (cases "?c = []") (auto simp: ProcessFile_def item_of_def rd_bind_def rd_return_def off Seek_at)
qed

subsection \<open>The index\<close>

lemma read_items_at:
  assumes "holds B p (index_entries dbbf off es)" and "off + length (chunks es) < 2 ^ 31"
  shows "\<exists>q. \<forall>item. read_items (DBPFItem_Read dbbf True True item) (length es) (strm B p) = (Inr (items_of off es), strm B q)"
  using assms
proof (induction es arbitrary: p off)
  case Nil
  then show ?case by (auto simp: rd_return_def)
next
  case (Cons e es)
  have h: "holds B p (index_entry dbbf off e)"
    "holds B (p + length (index_entry dbbf off e)) (index_entries dbbf (off + length (raw (snd e))) es)"
    using holds_append Cons.prems(1) by simp_all
  have b: "length (raw (snd e)) < 2 ^ 31" "off < 2 ^ 31" "off + length (raw (snd e)) + length (chunks es) < 2 ^ 31"
    using Cons.prems(2) by (simp_all add: chunks_def)
  from Cons.IH [OF h(2) b(3)] DBPFItem_Read_at [OF h(1) b(1,2)]
  show ?case by (auto simp: rd_bind_def rd_return_def)
qed

lemma length_items_of [simp]: "length (items_of off es) = length es"
  by (induction es arbitrary: off) simp_all

lemma package_header_length: "length (package_header dbbf n off) = header_length dbbf"
  by (simp add: package_header_def header_length_def)

lemma magics: "(0x46424244 :: u32) = 0x46504244 \<longleftrightarrow> False"
  by code_simp

lemma ReadHeader_magic:
  "ReadLEInt s = (Inr 0x46504244, s') \<Longrightarrow> Package_ReadHeader f s = ReadDBPF (f\<lparr>is_DBBF := False\<rparr>) s'"
  "ReadLEInt s = (Inr 0x46424244, s') \<Longrightarrow> Package_ReadHeader f s = ReadDBBF (f\<lparr>is_DBBF := True\<rparr>) s'"
  by (simp_all only: Package_ReadHeader_def rd_bind_def prod.case sum.case magics if_False refl if_True)

lemma Package_ReadHeader_at:
  assumes "holds B 0 (package_header dbbf (of_nat n) (of_nat off))" and "off < 2 ^ 31"
  shows "\<exists>f q. Package_ReadHeader DatabasePackedFile_new (strm B 0) = (Inr f, strm B q) \<and> is_DBBF f = dbbf
    \<and> package_contents f = DBPFIndex_new \<and> indexCount f = of_nat n \<and> indexOffset f = int off"
proof -
  have o: "sint (of_nat off :: u32) = int off" "uint (of_nat off :: u32) = int off"
    using assms(2) by (simp_all add: signed_of_nat signed_take_bit_int_eq_self unsigned_of_nat take_bit_nat_eq_self)
  show ?thesis
  proof (cases dbbf)
    case True
    have m: "ReadLEInt (strm B 0) = (Inr 0x46424244, strm B 4)"
      using True assms(1) ReadLEInt_at(1) [of B 0 "0x46424244"] by (auto dest!: holds_append simp: package_header_def)
    from True assms(1) o show ?thesis unfolding ReadHeader_magic(2) [OF m]
      by (auto dest!: holds_append simp: package_header_def ReadDBBF_def rd_bind_def rd_return_def
          ReadLEInt_at Skip_at DatabasePackedFile_new_def add.commute)
  next
    case False
    have m: "ReadLEInt (strm B 0) = (Inr 0x46504244, strm B 4)"
      using False assms(1) ReadLEInt_at(1) [of B 0 "0x46504244"] by (auto dest!: holds_append simp: package_header_def)
    from False assms(1) o show ?thesis unfolding ReadHeader_magic(1) [OF m]
      by (auto dest!: holds_append simp: package_header_def ReadDBPF_def rd_bind_def rd_return_def
          ReadLEInt_at Skip_at DatabasePackedFile_new_def add.commute)
  qed
qed

lemma ReadIndex_at:
  assumes "holds B off (bytes_le 4 (0 :: u32))" "indexOffset f = int off" "package_contents f = DBPFIndex_new"
  shows "ReadIndex f (strm B p) =
     (Inr (f\<lparr>package_contents := DBPFIndex_new\<lparr>itemsOffset := int (off + 4)\<rparr>\<rparr>), strm B (off + 4))"
  using assms
  by (simp add: ReadIndex_def rd_bind_def rd_return_def Seek_at DBPFIndex_Read_def ReadLEInt_at GetFilePointer_at
      DBPFIndex_new_def add.commute)

lemma ReadItems_at:
  assumes "n < 2 ^ 31" "itemsOffset ix = int q" "index_groupID ix = - 1" "index_typeID ix = - 1"
    and "\<And>item. read_items (DBPFItem_Read dbbf True True item) n (strm B q) = (Inr is, s')"
  shows "ReadItems (of_nat n) dbbf ix (strm B p) = (Inr (ix\<lparr>index_items := is\<rparr>), s')"
  using assms(2-5) small_u32 [OF assms(1)]
  by (simp add: ReadItems_def rd_bind_def rd_return_def Seek_at)

lemma ReadAll_package:
  assumes "good_package dbbf es"
  shows "\<exists>f q. ReadAll DatabasePackedFile_new (FileReadStream_open (package_bytes dbbf es))
      = (Inr f, strm (package_bytes dbbf es) q) \<and> index_items (package_contents f) = items_of (header_length dbbf) es"
proof -
  let ?B = "package_bytes dbbf es" and ?hl = "header_length dbbf"
  let ?off = "?hl + length (chunks es)"
  let ?hd = "package_header dbbf (of_nat (length es)) (of_nat ?off)"
  have n: "length es < 2 ^ 31" "?off < 2 ^ 31" using assms by (simp_all add: good_package_def)
  have B: "holds ?B 0 (?hd @ chunks es @ bytes_le 4 (0 :: u32) @ index_entries dbbf ?hl es)"
    using holds_here [of "[]" _ "[]"] by (simp add: package_bytes_def Let_def)
  from holds_append [OF B] have h1: "holds ?B 0 ?hd" and
    r1: "holds ?B ?hl (chunks es @ bytes_le 4 (0 :: u32) @ index_entries dbbf ?hl es)"
    by (simp_all add: package_header_length)
  from holds_append [OF r1] have r2: "holds ?B ?off (bytes_le 4 (0 :: u32) @ index_entries dbbf ?hl es)" by simp
  from holds_append [OF r2] have h2: "holds ?B ?off (bytes_le 4 (0 :: u32))"
    and h3: "holds ?B (?off + 4) (index_entries dbbf ?hl es)" by simp_all
  from Package_ReadHeader_at [OF h1 n(2)] obtain f q where f: "Package_ReadHeader DatabasePackedFile_new (strm ?B 0) = (Inr f, strm ?B q)"
    "is_DBBF f = dbbf" "package_contents f = DBPFIndex_new" "indexCount f = of_nat (length es)" "indexOffset f = int ?off"
    by blast
  from read_items_at [OF h3 n(2)] obtain q' where its: "\<And>item.
      read_items (DBPFItem_Read dbbf True True item) (length es) (strm ?B (?off + 4)) = (Inr (items_of ?hl es), strm ?B q')"
    by blast
  have "ReadItems (of_nat (length es)) dbbf (DBPFIndex_new\<lparr>itemsOffset := int (?off + 4)\<rparr>) (strm ?B (?off + 4))
      = (Inr (DBPFIndex_new\<lparr>itemsOffset := int (?off + 4), index_items := items_of ?hl es\<rparr>), strm ?B q')"
    by (rule ReadItems_at [OF n(1) _ _ _ its, THEN trans]) (simp_all add: DBPFIndex_new_def)
  then show ?thesis
    using f ReadIndex_at [OF h2 f(5,3)]
    by (simp add: ReadAll_def rd_bind_def rd_return_def FileReadStream_open_def strm_def [symmetric])
qed

subsection \<open>The manager\<close>

lemma index_by_key_find: "index_by_key items key = find (\<lambda>i. item_name i = key) items"
proof -
  have "fold emplace_item items m key = (case m key of Some i \<Rightarrow> Some i | None \<Rightarrow> find (\<lambda>i. item_name i = key) items)" for m
    by (induction items arbitrary: m) (auto simp: emplace_item_def split: option.split)
  then show ?thesis by (simp add: index_by_key_def)
qed

text \<open>The map of the manager is the linear search of the package.\<close>

lemma index_by_key_GetItem: "index_by_key (index_items (package_contents f)) key = GetItem key f"
  by (simp add: index_by_key_find GetItem_def same_key_iff)

text \<open>An item that reads, on every state of a stream of the file.\<close>

definition serves :: "bytes \<Rightarrow> package_item \<Rightarrow> bytes \<Rightarrow> bool" where
  "serves B i d \<longleftrightarrow> (\<forall>p. \<exists>q. ProcessFile i (strm B p) = (Inr d, strm B q))"

lemma items_serve:
  assumes "holds B off (chunks es @ rest)" "list_all (\<lambda>e. good_stored (snd e)) es" "off + length (chunks es) < 2 ^ 31"
  shows "list_all2 (\<lambda>i e. item_name i = fst e \<and> serves B i (content (snd e))) (items_of off es) es"
  using assms
proof (induction es arbitrary: off)
  case (Cons e es)
  have c: "chunks (e # es) = raw (snd e) @ chunks es" by (simp add: chunks_def)
  have h: "holds B off (raw (snd e))" "holds B (off + length (raw (snd e))) (chunks es @ rest)"
    using holds_append [of B off "raw (snd e)" "chunks es @ rest"] Cons.prems(1) by (simp_all add: c)
  have "serves B (item_of off e) (content (snd e))" unfolding serves_def
    using ProcessFile_at [OF _ _ _ h(1)] Cons.prems(2,3) by (simp add: c)
  moreover have "item_name (item_of off e) = fst e" by (simp add: item_of_def)
  ultimately show ?case using Cons.IH [OF h(2)] Cons.prems(2,3) by (simp add: c)
qed simp

definition right_item :: "bytes \<Rightarrow> entry list \<Rightarrow> resource_key \<Rightarrow> package_item option \<Rightarrow> bool" where
  "right_item B es key oi \<longleftrightarrow>
     (case oi of None \<Rightarrow> map_of es key = None | Some i \<Rightarrow> \<exists>st. map_of es key = Some st \<and> serves B i (content st))"

lemma right_item_simps [simp]:
  "right_item B es key None \<longleftrightarrow> map_of es key = None"
  "right_item B es key (Some i) \<longleftrightarrow> (\<exists>st. map_of es key = Some st \<and> serves B i (content st))"
  by (simp_all add: right_item_def)

lemma find_serves:
  assumes "list_all2 (\<lambda>i e. item_name i = fst e \<and> serves B i (content (snd e))) items es"
  shows "right_item B es key (find (\<lambda>i. item_name i = key) items)"
  using assms by (induction rule: list_all2_induct) (auto simp: right_item_def split: option.splits)

lemma serving_item:
  assumes "list_all2 (\<lambda>i e. item_name i = fst e \<and> serves B i (content (snd e))) items es" "i \<in> set items"
  shows "\<exists>d. serves B i d"
  using assms by (induction rule: list_all2_induct) auto

text \<open>A manager over the file of the entries.\<close>

definition manages :: "bytes \<Rightarrow> entry list \<Rightarrow> package_manager \<Rightarrow> bool" where
  "manages B es p \<longleftrightarrow> pm_mode p = PackageBridge \<and> (\<exists>q. pm_stream p = strm B q) \<and>
     (\<forall>key. right_item B es key (itemsByKey p key))"

lemma impl_get_binary_serves:
  assumes "manages B es p"
  shows "\<exists>p'. impl_get_binary key p = (Inr (map_option content (map_of es key)), p') \<and> manages B es p'"
proof -
  obtain q where q: "pm_stream p = strm B q" and m: "pm_mode p = PackageBridge"
    and r: "right_item B es key (itemsByKey p key)" using assms by (auto simp: manages_def)
  show ?thesis
  proof (cases "itemsByKey p key")
    case None
    with r m assms show ?thesis by (simp add: impl_get_binary_def)
  next
    case (Some i)
    with r obtain st where st: "map_of es key = Some st" "serves B i (content st)" by auto
    then obtain q' where "ProcessFile i (strm B q) = (Inr (content st), strm B q')" unfolding serves_def by blast
    with Some st m q have "impl_get_binary key p = (Inr (map_option content (map_of es key)), p\<lparr>pm_stream := strm B q'\<rparr>)"
      by (simp add: impl_get_binary_def)
    moreover have "manages B es (p\<lparr>pm_stream := strm B q'\<rparr>)" using assms by (simp add: manages_def)
    ultimately show ?thesis by blast
  qed
qed

lemma FindNamesFile_reads:
  assumes "list_all2 (\<lambda>i e. item_name i = fst e \<and> serves B i (content (snd e))) items es"
  shows "\<exists>q h. FindNamesFile items (strm B p) hasher = (Inr (), strm B q, h)"
proof -
  obtain g h1 where g: "GetFileHash ''sporemaster'' hasher = (g, h1)" by (cases "GetFileHash ''sporemaster'' hasher")
  obtain n h2 where n: "GetFileHash ''names'' h1 = (n, h2)" by (cases "GetFileHash ''names'' h1")
  show ?thesis
  proof (cases "find (\<lambda>it. groupID (item_name it) = g \<and> instanceID (item_name it) = n) items")
    case None
    then show ?thesis by (simp add: FindNamesFile_def g n)
  next
    case (Some i)
    then have "i \<in> set items" by (auto simp: find_Some_iff)
    then obtain d where "serves B i d" using serving_item [OF assms] by blast
    then obtain q where "ProcessFile i (strm B p) = (Inr d, strm B q)" unfolding serves_def by blast
    with Some show ?thesis by (simp add: FindNamesFile_def g n)
  qed
qed

lemma DBPFManager_init_serves:
  assumes "good_package dbbf es" and "config_mode cfg = PackageBridge"
    and "fs (asset_package cfg) = Some (package_bytes dbbf es)"
    and "fst (Initialize (registry_files fs (registry_dir cfg)) (ps_hasher st))"
  shows "\<exists>p h. DBPFManager_init cfg fs st = (True, \<lparr>ps_hasher = h, ps_manager = Some p\<rparr>)
    \<and> manages (package_bytes dbbf es) es p"
proof -
  let ?B = "package_bytes dbbf es" and ?hl = "header_length dbbf"
  obtain h where h: "Initialize (registry_files fs (registry_dir cfg)) (ps_hasher st) = (True, h)"
    using assms(4) by (metis prod.collapse)
  obtain f q where f: "ReadAll DatabasePackedFile_new (FileReadStream_open ?B) = (Inr f, strm ?B q)"
    "index_items (package_contents f) = items_of ?hl es"
    using ReadAll_package [OF assms(1)] by blast
  have "holds ?B ?hl (chunks es @ (bytes_le 4 (0 :: u32) @ index_entries dbbf ?hl es))"
    using holds_here [of "package_header dbbf (of_nat (length es)) (of_nat (?hl + length (chunks es)))" _ "[]"]
    by (simp add: package_bytes_def Let_def package_header_length)
  then have s: "list_all2 (\<lambda>i e. item_name i = fst e \<and> serves ?B i (content (snd e))) (items_of ?hl es) es"
    using items_serve assms(1) unfolding good_package_def by blast
  obtain q' h' where n: "FindNamesFile (items_of ?hl es) (strm ?B q) h = (Inr (), strm ?B q', h')"
    using FindNamesFile_reads [OF s] by blast
  show ?thesis using h f n find_serves [OF s] assms(2,3)
    by (simp add: DBPFManager_init_def DBPFManagerImpl_new_def manages_def index_by_key_find)
qed

text \<open>Requests one after another.\<close>

primrec get_binaries :: "resource_key list \<Rightarrow> package_state \<Rightarrow> (package_error + bytes option) list \<times> package_state" where
  "get_binaries [] st = ([], st)"
| "get_binaries (k # ks) st =
     (case get_binary k st of (r, st1) \<Rightarrow> (case get_binaries ks st1 of (rs, st2) \<Rightarrow> (r # rs, st2)))"

lemma get_binaries_serve:
  assumes "ps_manager st = Some p" "manages B es p"
  shows "fst (get_binaries keys st) = map (\<lambda>k. Inr (map_option content (map_of es k))) keys"
  using assms
proof (induction keys arbitrary: st p)
  case (Cons k ks)
  from impl_get_binary_serves [OF Cons.prems(2)] obtain p' where
    p': "impl_get_binary k p = (Inr (map_option content (map_of es k)), p')" "manages B es p'" by blast
  then have "get_binary k st = (Inr (map_option content (map_of es k)), st\<lparr>ps_manager := Some p'\<rparr>)"
    using Cons.prems(1) by (simp add: get_binary_def)
  with Cons.IH [of "st\<lparr>ps_manager := Some p'\<rparr>" p'] p'(2) show ?case by (simp add: case_prod_beta)
qed simp

lemma manages_has_binary:
  assumes "manages B es p"
  shows "impl_has_binary key p \<longleftrightarrow> key \<in> fst ` set es"
proof -
  have "itemsByKey p key = None \<longleftrightarrow> map_of es key = None"
    using assms unfolding manages_def by (metis not_None_eq right_item_simps)
  then show ?thesis using assms by (simp add: impl_has_binary_def manages_def map_of_eq_None_iff)
qed

text \<open>
  C11: A package serves what was put into it: a manager that is initialised on a package of either
  format, of plain and of packed items with any keys, answers every sequence of requests with the
  data of the first item of the key, and with nothing for a key that the package does not have, no
  matter what was asked for before.
\<close>

theorem package_serves_its_items:
  assumes "good_package dbbf es" and "config_mode cfg = PackageBridge"
    and "fs (asset_package cfg) = Some (package_bytes dbbf es)"
    and "fst (Initialize (registry_files fs (registry_dir cfg)) (ps_hasher st))"
  shows "\<exists>st'. DBPFManager_init cfg fs st = (True, st') \<and>
    (\<forall>keys. fst (get_binaries keys st') = map (\<lambda>k. Inr (map_option content (map_of es k))) keys) \<and>
    (\<forall>key. has_binary key st' \<longleftrightarrow> key \<in> fst ` set es)"
proof -
  obtain p h where p: "DBPFManager_init cfg fs st = (True, \<lparr>ps_hasher = h, ps_manager = Some p\<rparr>)"
    "manages (package_bytes dbbf es) es p" using DBPFManager_init_serves [OF assms] by blast
  then show ?thesis
    by (simp add: get_binaries_serve [OF _ p(2)] has_binary_def manages_has_binary [OF p(2)])
qed

theorem package_serves_its_items_witness:
  "let k1 = \<lparr>typeID = 1, groupID = 2, instanceID = 3\<rparr>; k2 = k1\<lparr>instanceID := 4\<rparr>; k3 = k1\<lparr>typeID := 9\<rparr>;
       es = [(k1, Plain [7, 8]), (k2, Packed 0x10 0xFB [([1, 2, 3], 4, 2), ([], 0, 0)]), (k1, Plain [0])];
       fs = (\<lambda>n. if n = ''a.package'' then Some (package_bytes True es) else Some []);
       cfg = \<lparr>config_mode = PackageBridge, asset_package = ''a.package'', registry_dir = ''reg''\<rparr>
   in fst (get_binaries [k2, k3, k1, k2] (snd (DBPFManager_init cfg fs package_state_new))) =
        [Inr (Some [1, 2, 3, 2, 3, 2, 3]), Inr None, Inr (Some [7, 8]), Inr (Some [1, 2, 3, 2, 3, 2, 3])]"
proof -
  let ?k1 = "\<lparr>typeID = 1, groupID = 2, instanceID = 3\<rparr>" let ?k2 = "?k1\<lparr>instanceID := 4\<rparr>" let ?k3 = "?k1\<lparr>typeID := 9\<rparr>"
  let ?ps = "[([1, 2, 3], 4, 2), ([], 0, 0)] :: piece list"
  let ?es = "[(?k1, Plain [7, 8]), (?k2, Packed 0x10 0xFB ?ps), (?k1, Plain [0])]"
  let ?fs = "\<lambda>n. if n = ''a.package'' then Some (package_bytes True ?es) else Some []"
  let ?cfg = "\<lparr>config_mode = PackageBridge, asset_package = ''a.package'', registry_dir = ''reg''\<rparr>"
  have "repeat_back 4 2 [1, 2, 3] = [1, 2, 3, 2, 3, 2, 3]" by code_simp
  then have e: "expand ?ps [] = [1, 2, 3, 2, 3, 2, 3]" by (simp add: expand_def)
  have good: "good_package True ?es"
    by (simp add: good_package_def header_length_def chunks_def packed_def e encode_piece.simps piece_head_def)
  have "fst (Initialize (registry_files ?fs ''reg'') HashManager_new)"
    by (simp add: Initialize_def read_into_def registry_files_def HashManager_new_def split: option.split)
  then obtain st' where st': "DBPFManager_init ?cfg ?fs package_state_new = (True, st')"
    "\<forall>keys. fst (get_binaries keys st') = map (\<lambda>k. Inr (map_option content (map_of ?es k))) keys"
    using package_serves_its_items [OF good, of ?cfg ?fs package_state_new] by (auto simp: package_state_new_def)
  show ?thesis unfolding Let_def st'(1) snd_conv st'(2) [rule_format] using e by simp
qed

subsection \<open>After a failed read\<close>

lemma no_eof:
  "control input pin \<noteq> Inl Unexpected_eof" "plain_run input m r pin filled out \<noteq> Inl Unexpected_eof"
  "copy_run m r filled out \<noteq> Inl Unexpected_eof"
proof -
  have m: "memcpy out d src s n \<noteq> Inl Unexpected_eof" for out d src s n by (simp add: memcpy_def)
  have l: "copy_loop n off filled out \<noteq> Inl Unexpected_eof" for n off filled out
    by (induction n arbitrary: filled out) (auto simp: unless_throw_def)
  show "control input pin \<noteq> Inl Unexpected_eof"
    by (auto simp: control_def byte_at_def unless_throw_def and_then_def Let_def split: sum.splits if_splits)
  show "plain_run input m r pin filled out \<noteq> Inl Unexpected_eof"
    by (auto simp: plain_run_def unless_throw_def and_then_def Let_def memcpy_def split: sum.splits if_splits)
  show "copy_run m r filled out \<noteq> Inl Unexpected_eof"
    using m l by (auto simp: copy_run_def memcpy_within_def unless_throw_def and_then_def Let_def split: sum.splits if_splits)
qed

lemma DecompressFast_no_eof: "DecompressFast input out \<noteq> Inl Unexpected_eof"
proof -
  have "decompress_loop input m pin filled out \<noteq> Inl Unexpected_eof" for m pin filled out
  proof (induction input m pin filled out rule: decompress_loop.induct)
    case (1 input m pin filled out)
    then show ?case
      by (subst decompress_loop.simps) (auto simp: no_eof split: sum.splits prod.splits)
  qed
  then show ?thesis
    by (auto simp: DecompressFast_def byte_at_def unless_throw_def and_then_def Let_def split: sum.splits if_splits)
qed

definition empty_item :: "package_item \<Rightarrow> bool" where
  "empty_item i \<longleftrightarrow> (if isCompressed i then compressedSize i = 0 else memSize i = 0)"

lemma ProcessFile_eof:
  assumes "ProcessFile i s = (Inl Unexpected_eof, s')"
  shows "stream_failed s'"
  using assms DecompressFast_no_eof
  by (auto simp: ProcessFile_def rd_bind_def rd_throw_def rd_return_def Seek_def ReadBytes_def
      split: if_splits sum.splits prod.splits)

lemma ProcessFile_failed:
  assumes "stream_failed s"
  shows "stream_failed (snd (ProcessFile i s))" and "\<not> empty_item i \<Longrightarrow> \<exists>e. fst (ProcessFile i s) = Inl e"
proof -
  have r: "Seek n s = (Inr (), s)" "ReadBytes m s = (Inl Unexpected_eof, s)" for n m
    using assms by (simp_all add: Seek_def ReadBytes_def)
  show "stream_failed (snd (ProcessFile i s))"
    using assms by (simp add: ProcessFile_def rd_bind_def rd_throw_def rd_return_def r split: sum.split)
  show "\<not> empty_item i \<Longrightarrow> \<exists>e. fst (ProcessFile i s) = Inl e"
    by (simp add: ProcessFile_def rd_bind_def rd_throw_def rd_return_def r empty_item_def split: if_splits)
qed

lemma get_binary_failed:
  assumes "ps_manager st = Some p" "stream_failed (pm_stream p)"
  shows "\<exists>p'. ps_manager (snd (get_binary key st)) = Some p' \<and> stream_failed (pm_stream p') \<and>
      itemsByKey p' = itemsByKey p \<and> pm_mode p' = pm_mode p"
    and "pm_mode p = PackageBridge \<Longrightarrow> itemsByKey p key = Some i \<Longrightarrow> \<not> empty_item i \<Longrightarrow>
      \<exists>e. fst (get_binary key st) = Inl e"
proof -
  show "\<exists>p'. ps_manager (snd (get_binary key st)) = Some p' \<and> stream_failed (pm_stream p') \<and>
      itemsByKey p' = itemsByKey p \<and> pm_mode p' = pm_mode p"
  proof (cases "itemsByKey p key")
    case None
    then show ?thesis using assms by (simp add: get_binary_def impl_get_binary_def)
  next
    case (Some i)
    obtain r s where "ProcessFile i (pm_stream p) = (r, s)" by (cases "ProcessFile i (pm_stream p)")
    with ProcessFile_failed(1) [OF assms(2), of i] assms Some show ?thesis
      by (cases r) (simp_all add: get_binary_def impl_get_binary_def)
  qed
  show "\<exists>e. fst (get_binary key st) = Inl e"
    if "pm_mode p = PackageBridge" "itemsByKey p key = Some i" "\<not> empty_item i"
    using ProcessFile_failed(2) [OF assms(2) that(3)] that assms
    by (auto simp: get_binary_def impl_get_binary_def split: prod.splits sum.splits)
qed

lemma get_binaries_failed:
  assumes "ps_manager st = Some p" "stream_failed (pm_stream p)"
  shows "\<exists>p'. ps_manager (snd (get_binaries keys st)) = Some p' \<and> stream_failed (pm_stream p') \<and>
      itemsByKey p' = itemsByKey p \<and> pm_mode p' = pm_mode p"
  using assms
proof (induction keys arbitrary: st p)
  case (Cons k ks)
  obtain p1 where p1: "ps_manager (snd (get_binary k st)) = Some p1" "stream_failed (pm_stream p1)"
    "itemsByKey p1 = itemsByKey p" "pm_mode p1 = pm_mode p"
    using get_binary_failed(1) [OF Cons.prems, of k] by blast
  from Cons.IH [OF p1(1,2)] p1(3,4) show ?case by (simp add: case_prod_beta)
qed simp

text \<open>
  C31: One bad item stops the rest.  After a request that ran into the end of the file, because the
  index gives an item a place or a size that the file does not have, every request for an item that
  is not empty throws, however many requests lie between them and although the item is in the file:
  the failed stream is never cleared.
\<close>

theorem one_bad_item_stops_the_rest:
  assumes "ps_manager st = Some p" and "get_binary key st = (Inl Unexpected_eof, st')"
    and "itemsByKey p key2 = Some item" and "\<not> empty_item item"
  shows "\<exists>e. fst (get_binary key2 (snd (get_binaries keys st'))) = Inl e"
proof -
  from assms(1,2) obtain i s where i: "pm_mode p = PackageBridge" "ProcessFile i (pm_stream p) = (Inl Unexpected_eof, s)"
    "st' = st\<lparr>ps_manager := Some (p\<lparr>pm_stream := s\<rparr>)\<rparr>"
    by (auto simp: get_binary_def impl_get_binary_def split: if_splits option.splits prod.splits sum.splits)
  have "ps_manager st' = Some (p\<lparr>pm_stream := s\<rparr>)" "stream_failed (pm_stream (p\<lparr>pm_stream := s\<rparr>))"
    using i(3) ProcessFile_eof [OF i(2)] by simp_all
  from get_binaries_failed [OF this, of keys] obtain p' where p': "ps_manager (snd (get_binaries keys st')) = Some p'"
    "stream_failed (pm_stream p')" "itemsByKey p' = itemsByKey p" "pm_mode p' = PackageBridge" using i(1) by auto
  from get_binary_failed(2) [OF p'(1,2,4)] p'(3) assms(3,4) show ?thesis by simp
qed

theorem one_bad_item_stops_the_rest_witness:
  "let k1 = \<lparr>typeID = 1, groupID = 2, instanceID = 3\<rparr>; k2 = k1\<lparr>instanceID := 4\<rparr>;
       good = DBPFItem_new\<lparr>memSize := 2, item_name := k1\<rparr>; bad = DBPFItem_new\<lparr>memSize := 9, item_name := k2\<rparr>;
       p = \<lparr>pm_mode = PackageBridge, pm_stream = FileReadStream_open [5, 6, 7], pm_header = DatabasePackedFile_new,
            itemsByKey = index_by_key [good, bad]\<rparr>;
       st = \<lparr>ps_hasher = HashManager_new, ps_manager = Some p\<rparr>
   in fst (get_binary k1 st) = Inr (Some [5, 6]) \<and> (\<exists>e. fst (get_binary k1 (snd (get_binary k2 st))) = Inl e)"
proof -
  let ?k1 = "\<lparr>typeID = 1, groupID = 2, instanceID = 3\<rparr>" let ?k2 = "?k1\<lparr>instanceID := 4\<rparr>"
  let ?good = "DBPFItem_new\<lparr>memSize := 2, item_name := ?k1\<rparr>" let ?bad = "DBPFItem_new\<lparr>memSize := 9, item_name := ?k2\<rparr>"
  let ?p = "\<lparr>pm_mode = PackageBridge, pm_stream = FileReadStream_open [5, 6, 7], pm_header = DatabasePackedFile_new,
            itemsByKey = index_by_key [?good, ?bad]\<rparr>"
  let ?st = "\<lparr>ps_hasher = HashManager_new, ps_manager = Some ?p\<rparr>"
  have i: "index_by_key [?good, ?bad] ?k1 = Some ?good" "index_by_key [?good, ?bad] ?k2 = Some ?bad"
    by (simp_all add: index_by_key_find)
  have f: "ProcessFile ?good (FileReadStream_open [5, 6, 7]) = (Inr [5, 6], strm [5, 6, 7] 2)"
    "fst (ProcessFile ?bad (FileReadStream_open [5, 6, 7])) = Inl Unexpected_eof"
    by (simp_all add: ProcessFile_def DBPFItem_new_def rd_bind_def Seek_def ReadBytes_def FileReadStream_open_def strm_def)
  have one: "fst (get_binary ?k1 ?st) = Inr (Some [5, 6])"
    by (simp only: get_binary_def impl_get_binary_def package_state.simps package_manager.simps option.case i f
        sum.case prod.case fst_conv simp_thms if_False)
  have two: "fst (get_binary ?k2 ?st) = Inl Unexpected_eof" using f(2)
    by (simp only: get_binary_def impl_get_binary_def package_state.simps package_manager.simps option.case i
        sum.case fst_conv simp_thms if_False case_prod_beta)
  have "get_binary ?k2 ?st = (Inl Unexpected_eof, snd (get_binary ?k2 ?st))" using two by (metis prod.collapse)
  from one_bad_item_stops_the_rest [OF _ this, of ?p ?k1 ?good "[]"] one i(1) show ?thesis
    by (simp add: Let_def empty_item_def DBPFItem_new_def)
qed

end
