(* ===== verification/Objects.thy ===== *)
theory Objects
  imports Players
begin

unbundle bit_operations_syntax

text \<open>
  The objects of a running game, \<open>source/Game/Object.{h,cpp}\<close>: the list of effects, cooldowns, the
  data of combatants, interactables, loot and agents, the setters with their update marks, and the
  object on the wire.  An object is a record; the parts that refer back to their object are members
  of it.  Floats are their 32 bits, with the comparisons of IEEE 754; the signed numbers are words.
\<close>

subsection \<open>Comparing floats\<close>

definition f32_nan :: "f32 \<Rightarrow> bool" where "f32_nan v \<longleftrightarrow> v AND 0x7FFFFFFF > 0x7F800000"

definition f32_key :: "f32 \<Rightarrow> int" where
  "f32_key v = (if bit v 31 then - int (unat (v AND 0x7FFFFFFF)) else int (unat v))"

definition f32_less :: "f32 \<Rightarrow> f32 \<Rightarrow> bool" where
  "f32_less a b \<longleftrightarrow> \<not> f32_nan a \<and> \<not> f32_nan b \<and> f32_key a < f32_key b"

definition f32_eq :: "f32 \<Rightarrow> f32 \<Rightarrow> bool" where
  "f32_eq a b \<longleftrightarrow> \<not> f32_nan a \<and> \<not> f32_nan b \<and> f32_key a = f32_key b"

definition f32_min :: "f32 \<Rightarrow> f32 \<Rightarrow> f32" where "f32_min a b = (if f32_less b a then b else a)"
definition f32_max :: "f32 \<Rightarrow> f32 \<Rightarrow> f32" where "f32_max a b = (if f32_less a b then b else a)"
definition f32_abs :: "f32 \<Rightarrow> f32" where "f32_abs v = v AND 0x7FFFFFFF"

definition vec3_eq :: "vec3 \<Rightarrow> vec3 \<Rightarrow> bool" where
  "vec3_eq a b \<longleftrightarrow> f32_eq (vx a) (vx b) \<and> f32_eq (vy a) (vy b) \<and> f32_eq (vz a) (vz b)"

subsection \<open>Effects\<close>

text \<open>The map from effects to indices is ordered by the effect.\<close>

record effect_list =
  mIndexByEffect :: "(u32 \<times> u8) list"
  mOpenIndexes :: "u8 list"
  mUsedIndexes :: "u8 list"

definition EffectList_new :: effect_list where
  "EffectList_new = \<lparr>mIndexByEffect = [], mOpenIndexes = [], mUsedIndexes = []\<rparr>"

definition GetOpenIndex :: "effect_list \<Rightarrow> u8 \<times> effect_list" where
  "GetOpenIndex el =
     (if mOpenIndexes el = [] then
        if length (mUsedIndexes el) < 0xFF then
          (let i = of_nat (length (mUsedIndexes el)) + 1 in (i, el\<lparr>mUsedIndexes := mUsedIndexes el @ [i]\<rparr>))
        else (0, el)
      else (let i = last (mOpenIndexes el) in
        (i, el\<lparr>mOpenIndexes := butlast (mOpenIndexes el), mUsedIndexes := mUsedIndexes el @ [i]\<rparr>)))"

definition EffectList_Add :: "u32 \<Rightarrow> effect_list \<Rightarrow> u8 \<times> effect_list" where
  "EffectList_Add effect el =
     (let (i, el1) = GetOpenIndex el in
      if i \<noteq> 0
      then (i, el1\<lparr>mIndexByEffect := sort_key fst ((effect, i) # filter (\<lambda>e. fst e \<noteq> effect) (mIndexByEffect el1))\<rparr>)
      else (i, el1))"

text \<open>\<open>std::swap(*it, back()); pop_back()\<close>: the last element takes the place of the one found.\<close>

fun swap_out :: "u8 \<Rightarrow> u8 list \<Rightarrow> u8 list" where
  "swap_out i [] = []"
| "swap_out i (x # xs) = (if x = i then (if xs = [] then [] else last xs # butlast xs) else x # swap_out i xs)"

definition EffectList_Remove :: "u32 \<Rightarrow> effect_list \<Rightarrow> u8 \<times> effect_list" where
  "EffectList_Remove effect el =
     (case find (\<lambda>e. fst e = effect) (mIndexByEffect el) of
        None \<Rightarrow> (0, el)
      | Some (_, i) \<Rightarrow>
          (let el1 = (if i \<in> set (mUsedIndexes el)
                      then el\<lparr>mUsedIndexes := swap_out i (mUsedIndexes el), mOpenIndexes := mOpenIndexes el @ [i]\<rparr> else el)
           in (i, el1\<lparr>mIndexByEffect := filter (\<lambda>e. fst e \<noteq> effect) (mIndexByEffect el1)\<rparr>)))"

definition EffectList_RemoveByIndex :: "u8 \<Rightarrow> effect_list \<Rightarrow> bool \<times> effect_list" where
  "EffectList_RemoveByIndex i el =
     (if i \<in> set (mUsedIndexes el) then
        (let el1 = el\<lparr>mUsedIndexes := swap_out i (mUsedIndexes el), mOpenIndexes := mOpenIndexes el @ [i]\<rparr> in
         (True, case find (\<lambda>e. snd e = i) (mIndexByEffect el1) of
            None \<Rightarrow> el1
          | Some (effect, _) \<Rightarrow> el1\<lparr>mIndexByEffect := filter (\<lambda>e. fst e \<noteq> effect) (mIndexByEffect el1)\<rparr>))
      else (False, el))"

subsection \<open>The data of an object\<close>

record CombatantData =
  cb_corpseState :: u32
  cb_hitPoints :: f32
  cb_manaPoints :: f32
  cb_corpseFadingAway :: bool

record InteractableData =
  it_ability :: u32
  it_timesUsed :: u32
  it_usesAllowed :: u32

record AgentBlackboard =
  bb_targetId :: u32
  bb_numAttackers :: u32
  bb_stealthType :: u8
  bb_inCombat :: bool
  bb_targetable :: bool

definition CombatantData_new :: CombatantData where
  "CombatantData_new = \<lparr>cb_corpseState = 0, cb_hitPoints = 0, cb_manaPoints = 0, cb_corpseFadingAway = False\<rparr>"

definition InteractableData_new :: InteractableData where
  "InteractableData_new = \<lparr>it_ability = 0, it_timesUsed = 0, it_usesAllowed = 0\<rparr>"

definition AgentBlackboard_new :: AgentBlackboard where
  "AgentBlackboard_new = \<lparr>bb_targetId = 0, bb_numAttackers = 0, bb_stealthType = 0, bb_inCombat = False, bb_targetable = False\<rparr>"

text \<open>
  \<open>Game::Locomotion\<close>: the values that go to the clients, which bits of them are marked, and what only
  the server keeps.
\<close>

record locomotion =
  lc_data :: LocomotionData
  lc_bits :: "18 word"
  lc_currentUpdate :: u32
  lc_hasCollidedWithCreature :: bool
  lc_hasCollided :: bool

definition LobParameters_new :: cLobParams where
  "LobParameters_new = \<lparr>planeDirLinearParam = 0, upLinearParam = 0, upQuadraticParam = 0, lobUpDir = vec3_zero,
     planeDir = vec3_zero, bounceNum = 0, bounceRestitution = 0, groundCollisionOnly = False, stopBounceOnCreatures = False\<rparr>"

definition ProjectileParameters_new :: cProjectileParams where
  "ProjectileParameters_new = \<lparr>mSpeed = 0, mAcceleration = 0, mJinkInfo = 0, mRange = 0, mSpinRate = 0, mDirection = vec3_zero,
     mProjectileFlags = 0, mHomingDelay = 0, mTurnRate = 0, mTurnAcceleration = 0, mEccentricity = 0, mPiercing = False,
     mIgnoreGroundCollide = False, mIgnoreCreatureCollide = False, mCombatantSweepHeight = 0\<rparr>"

text \<open>The members' initial values and then \<open>Stop\<close>, which sets the goal flags.\<close>

definition Locomotion_new :: locomotion where
  "Locomotion_new = \<lparr>lc_data = \<lparr>lobStartTime = 0, lobPrevSpeedModifier = 0, lobParams = LobParameters_new,
       mProjectileParams = ProjectileParameters_new, mGoalFlags = 0x020, mGoalPosition = vec3_zero,
       mPartialGoalPosition = vec3_zero, mFacing = vec3_zero, mExternalLinearVelocity = vec3_zero,
       mExternalForce = vec3_zero, mAllowedStopDistance = 0, mDesiredStopDistance = 0, mTargetObjectId = 0,
       mTargetPosition = vec3_zero, mExpectedGeoCollision = vec3_zero, mInitialDirection = vec3_zero,
       mOffset = vec3_zero, reflectedLastUpdate = 0\<rparr>,
     lc_bits = 0, lc_currentUpdate = - 1, lc_hasCollidedWithCreature = False, lc_hasCollided = False\<rparr>"

text \<open>
  The end of a cooldown and its length in milliseconds.  The owner is its identifier, \<open>None\<close> when
  there is none or it is gone.  A new object has no value for the asset until one is set: the model
  takes what is in memory as a parameter of the constructor.
\<close>

type_synonym cooldown = "u64 \<times> u32"

record game_object =
  ob_id :: u32
  ob_noun :: u32
  ob_assetId :: u64
  ob_center :: vec3
  ob_extent :: vec3
  ob_orientation :: quat
  ob_linearVelocity :: vec3
  ob_angularVelocity :: vec3
  ob_lastAnimationPlayTime :: u64
  ob_graphicsStateStartTime :: u64
  ob_newGraphicsStateStartTime :: u64
  ob_inputSyncStamp :: u32
  ob_lastAnimationState :: u32
  ob_overrideMoveIdle :: u32
  ob_graphicsState :: u32
  ob_interactableState :: u32
  ob_markerId :: u32
  ob_scale :: f32
  ob_markerScale :: f32
  ob_team :: u8
  ob_playerIndex :: u8
  ob_playerControlled :: bool
  ob_visible :: bool
  ob_hasCollision :: bool
  ob_disableRepulsion :: bool
  ob_movementType :: u8
  ob_owner :: "u32 option"
  ob_flags :: u16
  ob_bits :: "23 word"
  ob_cooldowns :: "u32 \<Rightarrow> cooldown option"
  ob_effects :: "effect_list option"
  ob_attributes :: "attributes option"
  ob_combatant :: "CombatantData option"
  ob_interactable :: "InteractableData option"
  ob_loot :: "LootData option"
  ob_locomotion :: "locomotion option"
  ob_blackboard :: "AgentBlackboard option"

definition MarkedForDeletion :: u16 where "MarkedForDeletion = 1"
definition Dirty :: u16 where "Dirty = 4"
definition UpdateCombatant :: u16 where "UpdateCombatant = 8"
definition UpdateAttributes :: u16 where "UpdateAttributes = 16"
definition UpdateLootData :: u16 where "UpdateLootData = 32"
definition UpdateAgentBlackboardData :: u16 where "UpdateAgentBlackboardData = 64"
definition UpdateInteractableData :: u16 where "UpdateInteractableData = 128"
definition UpdateLocomotion :: u16 where "UpdateLocomotion = 256"
definition UpdateFlags :: u16 where
  "UpdateFlags = UpdateCombatant OR UpdateAttributes OR UpdateLootData OR UpdateAgentBlackboardData
     OR UpdateInteractableData OR UpdateLocomotion"

definition one_f32 :: f32 where "one_f32 = 0x3F800000"

definition vec3_all :: "f32 \<Rightarrow> vec3" where "vec3_all v = \<lparr>vx = v, vy = v, vz = v\<rparr>"

definition Object_new :: "quat \<Rightarrow> u64 \<Rightarrow> u32 \<Rightarrow> u32 \<Rightarrow> game_object" where
  "Object_new orientation garbage i noun =
     \<lparr>ob_id = i, ob_noun = noun, ob_assetId = garbage, ob_center = vec3_all 0, ob_extent = vec3_all one_f32,
      ob_orientation = orientation, ob_linearVelocity = vec3_all 0, ob_angularVelocity = vec3_all 0,
      ob_lastAnimationPlayTime = 0, ob_graphicsStateStartTime = 0, ob_newGraphicsStateStartTime = 0,
      ob_inputSyncStamp = 0, ob_lastAnimationState = 0, ob_overrideMoveIdle = 0, ob_graphicsState = 0,
      ob_interactableState = 0, ob_markerId = 0, ob_scale = one_f32, ob_markerScale = one_f32, ob_team = 0,
      ob_playerIndex = 0xFF, ob_playerControlled = False, ob_visible = True, ob_hasCollision = True,
      ob_disableRepulsion = False, ob_movementType = 0, ob_owner = None, ob_flags = 0, ob_bits = 0,
      ob_cooldowns = (\<lambda>_. None), ob_effects = None, ob_attributes = None, ob_combatant = None,
      ob_interactable = None, ob_loot = None, ob_locomotion = None, ob_blackboard = None\<rparr>"

definition set_flag :: "u16 \<Rightarrow> game_object \<Rightarrow> game_object" where
  "set_flag f x = x\<lparr>ob_flags := ob_flags x OR f\<rparr>"

definition mark_bit :: "nat \<Rightarrow> game_object \<Rightarrow> game_object" where
  "mark_bit k x = x\<lparr>ob_bits := set_bit k (ob_bits x)\<rparr>"

definition SetDirty :: "bool \<Rightarrow> game_object \<Rightarrow> game_object" where
  "SetDirty d x = (if d then set_flag Dirty x else x\<lparr>ob_flags := ob_flags x AND NOT Dirty\<rparr>)"

definition IsDirty :: "game_object \<Rightarrow> bool" where "IsDirty x \<longleftrightarrow> ob_flags x AND Dirty \<noteq> 0"
definition IsMarkedForDeletion :: "game_object \<Rightarrow> bool" where
  "IsMarkedForDeletion x \<longleftrightarrow> ob_flags x AND MarkedForDeletion \<noteq> 0"

definition ObjectNeedUpdate :: "game_object \<Rightarrow> bool" where
  "ObjectNeedUpdate x \<longleftrightarrow> ob_flags x AND UpdateFlags \<noteq> 0 \<or> ob_bits x \<noteq> 0"

definition ResetUpdateBits :: "game_object \<Rightarrow> game_object" where "ResetUpdateBits x = x\<lparr>ob_bits := 0\<rparr>"

subsection \<open>Setters\<close>

definition SetAssetId :: "u64 \<Rightarrow> game_object \<Rightarrow> game_object" where
  "SetAssetId v x = x\<lparr>ob_assetId := v\<rparr>"

definition SetPositionSimulated :: "vec3 \<Rightarrow> game_object \<Rightarrow> game_object" where
  "SetPositionSimulated v x = (let y = x\<lparr>ob_center := v\<rparr> in if \<not> vec3_eq v (ob_center x) then SetDirty True y else y)"

definition SetPosition :: "vec3 \<Rightarrow> game_object \<Rightarrow> game_object" where
  "SetPosition v x = mark_bit 6 (SetPositionSimulated v x)"

definition SetOrientation :: "quat \<Rightarrow> game_object \<Rightarrow> game_object" where
  "SetOrientation v x = mark_bit 7 (x\<lparr>ob_orientation := v\<rparr>)"

definition SetLinearVelocity :: "vec3 \<Rightarrow> game_object \<Rightarrow> game_object" where
  "SetLinearVelocity v x = mark_bit 4 (x\<lparr>ob_linearVelocity := v\<rparr>)"

definition SetAngularVelocity :: "vec3 \<Rightarrow> game_object \<Rightarrow> game_object" where
  "SetAngularVelocity v x = mark_bit 5 (x\<lparr>ob_angularVelocity := v\<rparr>)"

definition SetExtent :: "vec3 \<Rightarrow> game_object \<Rightarrow> game_object" where
  "SetExtent v x = (let y = x\<lparr>ob_extent := \<lparr>vx = f32_abs (vx v), vy = f32_abs (vy v), vz = f32_abs (vz v)\<rparr>\<rparr>
     in if \<not> vec3_eq v (ob_extent x) then SetDirty True y else y)"

definition SetOwnerObject :: "u32 option \<Rightarrow> game_object \<Rightarrow> game_object" where
  "SetOwnerObject v x = mark_bit 18 (x\<lparr>ob_owner := v\<rparr>)"

definition SetInputSyncStamp :: "u32 \<Rightarrow> game_object \<Rightarrow> game_object" where
  "SetInputSyncStamp v x = mark_bit 2 (x\<lparr>ob_inputSyncStamp := v\<rparr>)"

definition SetInteractableState :: "u32 \<Rightarrow> game_object \<Rightarrow> game_object" where
  "SetInteractableState v x = mark_bit 21 (x\<lparr>ob_interactableState := v\<rparr>)"

definition SetMarkerId :: "u32 \<Rightarrow> game_object \<Rightarrow> game_object" where
  "SetMarkerId v x = mark_bit 22 (x\<lparr>ob_markerId := v\<rparr>)"

definition SetScale :: "f32 \<Rightarrow> game_object \<Rightarrow> game_object" where
  "SetScale v x = mark_bit 8 (x\<lparr>ob_scale := v\<rparr>)"

definition SetTeam :: "u8 \<Rightarrow> game_object \<Rightarrow> game_object" where
  "SetTeam v x = mark_bit 0 (x\<lparr>ob_team := v\<rparr>)"

definition SetMovementType :: "u8 \<Rightarrow> game_object \<Rightarrow> game_object" where
  "SetMovementType v x = mark_bit 19 (x\<lparr>ob_movementType := v\<rparr>)"

definition SetPlayerIndex :: "u8 \<Rightarrow> game_object \<Rightarrow> game_object" where
  "SetPlayerIndex v x = mark_bit 1 (mark_bit 3 (x\<lparr>ob_playerIndex := v, ob_playerControlled := (v < 0xFF)\<rparr>))"

definition SetHasCollision :: "bool \<Rightarrow> game_object \<Rightarrow> game_object" where
  "SetHasCollision v x = mark_bit 17 (x\<lparr>ob_hasCollision := v\<rparr>)"

definition SetVisible :: "bool \<Rightarrow> game_object \<Rightarrow> game_object" where
  "SetVisible v x = mark_bit 16 (x\<lparr>ob_visible := v\<rparr>)"

text \<open>The data of an object, made when they are first asked for.\<close>

definition CreateCombatantData :: "game_object \<Rightarrow> game_object" where
  "CreateCombatantData x =
     (if ob_combatant x = None then set_flag UpdateCombatant (x\<lparr>ob_combatant := Some CombatantData_new\<rparr>) else x)"

definition CreateInteractableData :: "game_object \<Rightarrow> game_object" where
  "CreateInteractableData x =
     (if ob_interactable x = None then set_flag UpdateInteractableData (x\<lparr>ob_interactable := Some InteractableData_new\<rparr>) else x)"

definition CreateLootData :: "game_object \<Rightarrow> game_object" where
  "CreateLootData x = (if ob_loot x = None then set_flag UpdateLootData (x\<lparr>ob_loot := Some LootData_new\<rparr>) else x)"

definition CreateLocomotionData :: "game_object \<Rightarrow> game_object" where
  "CreateLocomotionData x =
     (if ob_locomotion x = None then set_flag UpdateLocomotion (x\<lparr>ob_locomotion := Some Locomotion_new\<rparr>) else x)"

definition CreateAgentBlackboardData :: "game_object \<Rightarrow> game_object" where
  "CreateAgentBlackboardData x =
     (if ob_blackboard x = None then set_flag UpdateAgentBlackboardData (x\<lparr>ob_blackboard := Some AgentBlackboard_new\<rparr>) else x)"

text \<open>Setters of the data, on the object that has them; a call without the data is undefined.\<close>

definition on_interactable :: "(InteractableData \<Rightarrow> InteractableData) \<Rightarrow> game_object \<Rightarrow> game_object option" where
  "on_interactable f x = map_option (\<lambda>d. set_flag UpdateInteractableData (x\<lparr>ob_interactable := Some (f d)\<rparr>)) (ob_interactable x)"

definition on_loot :: "(LootData \<Rightarrow> LootData) \<Rightarrow> game_object \<Rightarrow> game_object option" where
  "on_loot f x = map_option (\<lambda>d. set_flag UpdateLootData (x\<lparr>ob_loot := Some (f d)\<rparr>)) (ob_loot x)"

definition on_blackboard :: "(AgentBlackboard \<Rightarrow> AgentBlackboard) \<Rightarrow> game_object \<Rightarrow> game_object option" where
  "on_blackboard f x = map_option (\<lambda>d. set_flag UpdateAgentBlackboardData (x\<lparr>ob_blackboard := Some (f d)\<rparr>)) (ob_blackboard x)"

definition SetAbility :: "u32 \<Rightarrow> game_object \<Rightarrow> game_object option" where
  "SetAbility v = on_interactable (it_ability_update (\<lambda>_. v))"
definition SetTimesUsed :: "u32 \<Rightarrow> game_object \<Rightarrow> game_object option" where
  "SetTimesUsed v = on_interactable (it_timesUsed_update (\<lambda>_. v))"
definition SetUsesAllowed :: "u32 \<Rightarrow> game_object \<Rightarrow> game_object option" where
  "SetUsesAllowed v = on_interactable (it_usesAllowed_update (\<lambda>_. v))"

definition SetLootId :: "u64 \<Rightarrow> game_object \<Rightarrow> game_object option" where
  "SetLootId v = on_loot (lt_id_update (\<lambda>_. v))"
definition SetLootInstanceId :: "u64 \<Rightarrow> game_object \<Rightarrow> game_object option" where
  "SetLootInstanceId v = on_loot (lt_instanceId_update (\<lambda>_. v))"
definition SetPart :: "part \<Rightarrow> game_object \<Rightarrow> game_object option" where
  "SetPart p = on_loot (\<lambda>d. d\<lparr>lt_rigblock := mRigblockAssetHash p, lt_suffix := mSuffixAssetHash p,
     lt_prefix := mPrefixAssetHash p, lt_prefix2 := mPrefixSecondaryAssetHash p,
     lt_itemLevel := ucast (mLevel p), lt_rarity := ucast (Parts.mRarity p)\<rparr>)"
definition SetDNAAmount :: "f32 \<Rightarrow> game_object \<Rightarrow> game_object option" where
  "SetDNAAmount v = on_loot (lt_dna_update (\<lambda>_. v))"
definition SetLootCatalyst :: "Catalyst \<Rightarrow> game_object \<Rightarrow> game_object option" where
  "SetLootCatalyst c = on_loot (LootData_SetCatalyst c)"

definition SetNumAttackers :: "u32 \<Rightarrow> game_object \<Rightarrow> game_object option" where
  "SetNumAttackers v = on_blackboard (bb_numAttackers_update (\<lambda>_. v))"

text \<open>The setters of the object do nothing when there is no blackboard.\<close>

definition if_blackboard :: "(AgentBlackboard \<Rightarrow> AgentBlackboard) \<Rightarrow> game_object \<Rightarrow> game_object" where
  "if_blackboard f x = (case on_blackboard f x of None \<Rightarrow> x | Some y \<Rightarrow> y)"

definition SetTargetId :: "u32 \<Rightarrow> game_object \<Rightarrow> game_object" where
  "SetTargetId v = if_blackboard (bb_targetId_update (\<lambda>_. v))"
definition SetStealthType :: "u8 \<Rightarrow> game_object \<Rightarrow> game_object" where
  "SetStealthType v = if_blackboard (bb_stealthType_update (\<lambda>_. v))"
definition SetInCombat :: "bool \<Rightarrow> game_object \<Rightarrow> game_object" where
  "SetInCombat v = if_blackboard (bb_inCombat_update (\<lambda>_. v))"
definition SetTargetable :: "bool \<Rightarrow> game_object \<Rightarrow> game_object" where
  "SetTargetable v = if_blackboard (bb_targetable_update (\<lambda>_. v))"

definition GetTargetId :: "game_object \<Rightarrow> u32" where
  "GetTargetId x = (case ob_blackboard x of Some b \<Rightarrow> bb_targetId b | None \<Rightarrow> 0)"
definition GetStealthType :: "game_object \<Rightarrow> u8" where
  "GetStealthType x = (case ob_blackboard x of Some b \<Rightarrow> bb_stealthType b | None \<Rightarrow> 0)"
definition IsInCombat :: "game_object \<Rightarrow> bool" where
  "IsInCombat x = (case ob_blackboard x of Some b \<Rightarrow> bb_inCombat b | None \<Rightarrow> False)"
definition IsTargetable :: "game_object \<Rightarrow> bool" where
  "IsTargetable x = (case ob_blackboard x of Some b \<Rightarrow> bb_targetable b | None \<Rightarrow> False)"

subsection \<open>Attributes, health and energy\<close>

definition MaxHealth :: u8 where "MaxHealth = 4"
definition MaxMana :: u8 where "MaxMana = 5"
definition Immobilized :: u8 where "Immobilized = 15"

definition GetAttributeValue :: "u8 \<Rightarrow> game_object \<Rightarrow> f32" where
  "GetAttributeValue i x = (case ob_attributes x of Some a \<Rightarrow> GetValue i a | None \<Rightarrow> 0)"

definition SetAttributeValue :: "u8 \<Rightarrow> f32 \<Rightarrow> game_object \<Rightarrow> game_object option" where
  "SetAttributeValue i v x =
     map_option (\<lambda>a. set_flag UpdateAttributes (x\<lparr>ob_attributes := Some a\<rparr>))
       (SetValue i v (case ob_attributes x of Some a \<Rightarrow> a | None \<Rightarrow> Attributes_new))"

definition IsImmobilized :: "game_object \<Rightarrow> bool" where
  "IsImmobilized x \<longleftrightarrow> f32_less 0 (GetAttributeValue Immobilized x)"

definition one_hundred :: f32 where "one_hundred = 0x42C80000"

definition GetMaxHealth :: "game_object \<Rightarrow> f32" where
  "GetMaxHealth x = (case ob_attributes x of Some a \<Rightarrow> GetValue MaxHealth a | None \<Rightarrow> one_hundred)"
definition GetMaxMana :: "game_object \<Rightarrow> f32" where
  "GetMaxMana x = (case ob_attributes x of Some a \<Rightarrow> GetValue MaxMana a | None \<Rightarrow> one_hundred)"

definition GetHealth :: "game_object \<Rightarrow> f32" where
  "GetHealth x = (case ob_combatant x of Some c \<Rightarrow> cb_hitPoints c | None \<Rightarrow> 0)"
definition GetMana :: "game_object \<Rightarrow> f32" where
  "GetMana x = (case ob_combatant x of Some c \<Rightarrow> cb_manaPoints c | None \<Rightarrow> 0)"

definition SetObjectHealth :: "f32 \<Rightarrow> game_object \<Rightarrow> game_object" where
  "SetObjectHealth v x =
     (case ob_combatant x of None \<Rightarrow> x
      | Some c \<Rightarrow> set_flag UpdateCombatant
          (x\<lparr>ob_combatant := Some (c\<lparr>cb_hitPoints := f32_max 0 (f32_min v (GetMaxHealth x))\<rparr>)\<rparr>))"

definition SetObjectMana :: "f32 \<Rightarrow> game_object \<Rightarrow> game_object" where
  "SetObjectMana v x =
     (case ob_combatant x of None \<Rightarrow> x
      | Some c \<Rightarrow> set_flag UpdateCombatant
          (x\<lparr>ob_combatant := Some (c\<lparr>cb_manaPoints := f32_max 0 (f32_min v (GetMaxMana x))\<rparr>)\<rparr>))"

text \<open>Adding floats is a parameter.\<close>

definition OnChangeHealth :: "(f32 \<Rightarrow> f32 \<Rightarrow> f32) \<Rightarrow> f32 \<Rightarrow> game_object \<Rightarrow> game_object" where
  "OnChangeHealth add v x = SetObjectHealth (add (GetHealth x) v) x"
definition OnChangeMana :: "(f32 \<Rightarrow> f32 \<Rightarrow> f32) \<Rightarrow> f32 \<Rightarrow> game_object \<Rightarrow> game_object" where
  "OnChangeMana add v x = SetObjectMana (add (GetMana x) v) x"

definition OnResurrect :: "game_object \<Rightarrow> game_object" where
  "OnResurrect x = (case ob_combatant x of None \<Rightarrow> x | Some c \<Rightarrow> x\<lparr>ob_combatant := Some (c\<lparr>cb_corpseState := 0\<rparr>)\<rparr>)"

text \<open>\<open>usable\<close>: the noun of the object is a door, a switch or a pressure switch.  The counts are signed.\<close>

definition HasInteractableUsesLeft :: "bool \<Rightarrow> game_object \<Rightarrow> bool" where
  "HasInteractableUsesLeft usable x \<longleftrightarrow>
     usable \<or> (case ob_interactable x of None \<Rightarrow> False | Some d \<Rightarrow> it_timesUsed d <s it_usesAllowed d)"

subsection \<open>Effects and cooldowns of an object\<close>

definition AddEffect :: "u32 \<Rightarrow> game_object \<Rightarrow> u8 \<times> game_object" where
  "AddEffect effect x =
     (if effect = 0 then (0, x)
      else (let (i, el) = EffectList_Add effect (case ob_effects x of None \<Rightarrow> EffectList_new | Some el \<Rightarrow> el)
            in (i, x\<lparr>ob_effects := Some el\<rparr>)))"

definition RemoveEffect :: "u32 \<Rightarrow> game_object \<Rightarrow> bool \<times> game_object" where
  "RemoveEffect effect x =
     (case ob_effects x of None \<Rightarrow> (False, x)
      | Some el \<Rightarrow> (let (i, el') = EffectList_Remove effect el in (i \<noteq> 0, x\<lparr>ob_effects := Some el'\<rparr>)))"

definition RemoveEffectByIndex :: "u8 \<Rightarrow> game_object \<Rightarrow> bool \<times> game_object" where
  "RemoveEffectByIndex i x =
     (case ob_effects x of None \<Rightarrow> (False, x)
      | Some el \<Rightarrow> (let (ok, el') = EffectList_RemoveByIndex i el in (ok, x\<lparr>ob_effects := Some el'\<rparr>)))"

definition HasCooldown :: "u64 \<Rightarrow> u32 \<Rightarrow> game_object \<Rightarrow> bool" where
  "HasCooldown now ability x = (case ob_cooldowns x ability of Some (finish, d) \<Rightarrow> finish > now | None \<Rightarrow> False)"

definition AddCooldown :: "u64 \<Rightarrow> u32 \<Rightarrow> u32 \<Rightarrow> game_object \<Rightarrow> cooldown \<times> game_object" where
  "AddCooldown now ability ms x =
     (let fresh = (now + ucast ms, ms);
          c = (case ob_cooldowns x ability of
                 None \<Rightarrow> fresh
               | Some (finish, d) \<Rightarrow>
                   if now > finish then fresh
                   else (let d' = ucast (finish - now + ucast ms) :: u32 in (finish - ucast d + ucast d', d')))
      in (c, x\<lparr>ob_cooldowns := (ob_cooldowns x)(ability \<mapsto> c)\<rparr>))"

definition RemoveCooldown :: "u32 \<Rightarrow> u32 \<Rightarrow> game_object \<Rightarrow> cooldown \<times> game_object" where
  "RemoveCooldown ability ms x =
     (case ob_cooldowns x ability of
        None \<Rightarrow> ((0, 0), x)
      | Some (finish, d) \<Rightarrow>
          if ms \<ge> d then ((0, 0), x\<lparr>ob_cooldowns := (ob_cooldowns x)(ability := None)\<rparr>)
          else (let c = (finish - ucast ms, d - ms) in (c, x\<lparr>ob_cooldowns := (ob_cooldowns x)(ability \<mapsto> c)\<rparr>)))"

definition ScaleCooldown :: "u32 \<Rightarrow> f32 \<Rightarrow> game_object \<Rightarrow> cooldown" where "ScaleCooldown ability scale x = (0, 0)"

subsection \<open>On the wire\<close>

definition CombatantData_WriteTo :: "'s bitstream \<Rightarrow> CombatantData \<Rightarrow> 's \<Rightarrow> 's" where
  "CombatantData_WriteTo B d s =
     (let (off, s') = ReallocateStream B (bytes_to_bits 0x70) s in
      in_order [SetWriteOffset B (off + bytes_to_bits 0x40), Write_f32 B (cb_hitPoints d), Write_f32 B (cb_manaPoints d),
        SetWriteOffset B (off + bytes_to_bits 0x70)] s')"

definition CombatantData_WriteReflection :: "'s bitstream \<Rightarrow> CombatantData \<Rightarrow> 's \<Rightarrow> 's" where
  "CombatantData_WriteReflection B d = reflect B 2
     (in_order [refl_write B 2 0 (Write_f32 B (cb_hitPoints d)), refl_write B 2 1 (Write_f32 B (cb_manaPoints d))])"

definition InteractableData_WriteTo :: "'s bitstream \<Rightarrow> InteractableData \<Rightarrow> 's \<Rightarrow> 's" where
  "InteractableData_WriteTo B d s =
     (let (off, s') = ReallocateStream B (bytes_to_bits 0x34) s in
      in_order [SetWriteOffset B (off + bytes_to_bits 0x8), Write_u32 B (it_timesUsed d), Write_u32 B (it_usesAllowed d),
        SetWriteOffset B (off + bytes_to_bits 0x14), Write_u32 B (it_ability d), SetWriteOffset B (off + bytes_to_bits 0x34)] s')"

definition InteractableData_WriteReflection :: "'s bitstream \<Rightarrow> InteractableData \<Rightarrow> 's \<Rightarrow> 's" where
  "InteractableData_WriteReflection B d = reflect B 3
     (in_order [refl_write B 3 0 (Write_u32 B (it_timesUsed d)), refl_write B 3 1 (Write_u32 B (it_usesAllowed d)),
       refl_write B 3 2 (Write_u32 B (it_ability d))])"

definition LootData_WriteTo :: "'s bitstream \<Rightarrow> LootData \<Rightarrow> 's \<Rightarrow> 's" where
  "LootData_WriteTo B d s =
     (let (off, s') = ReallocateStream B (bytes_to_bits 0x80) s in
      in_order [SetWriteOffset B (off + bytes_to_bits 0x8), Write_u32 B (lt_catalystLevel d),
        SetWriteOffset B (off + bytes_to_bits 0x10), Write_u64 B (lt_id d), Write_u32 B (lt_rigblock d),
        Write_u32 B (lt_suffix d), Write_u32 B (lt_prefix d), Write_u32 B (lt_prefix2 d), Write_u32 B (lt_itemLevel d),
        Write_u32 B (lt_rarity d), SetWriteOffset B (off + bytes_to_bits 0x40), Write_u64 B (lt_instanceId d),
        Write_f32 B (lt_dna d), SetWriteOffset B (off + bytes_to_bits 0x80)] s')"

definition LootData_WriteReflection :: "'s bitstream \<Rightarrow> LootData \<Rightarrow> 's \<Rightarrow> 's" where
  "LootData_WriteReflection B d = reflect B 10
     (in_order [refl_write B 10 0 (Write_u32 B (lt_catalystLevel d)), refl_write B 10 1 (Write_u64 B (lt_id d)),
       refl_write B 10 2 (Write_u32 B (lt_rigblock d)), refl_write B 10 3 (Write_u32 B (lt_suffix d)),
       refl_write B 10 4 (Write_u32 B (lt_prefix d)), refl_write B 10 5 (Write_u32 B (lt_prefix2 d)),
       refl_write B 10 6 (Write_u32 B (lt_itemLevel d)), refl_write B 10 7 (Write_u32 B (lt_rarity d)),
       refl_write B 10 8 (Write_u64 B (lt_instanceId d)), refl_write B 10 9 (Write_f32 B (lt_dna d))])"

definition AgentBlackboard_WriteTo :: "'s bitstream \<Rightarrow> AgentBlackboard \<Rightarrow> 's \<Rightarrow> 's" where
  "AgentBlackboard_WriteTo B d s =
     (let (off, s') = ReallocateStream B (bytes_to_bits 0x598) s in
      in_order [SetWriteOffset B (off + bytes_to_bits 0x550), Write_u32 B (bb_targetId d), Write_bool B (bb_inCombat d),
        SetWriteOffset B (off + bytes_to_bits 0x556), Write_u8 B (bb_stealthType d),
        SetWriteOffset B (off + bytes_to_bits 0x578), Write_bool B (bb_targetable d),
        SetWriteOffset B (off + bytes_to_bits 0x57C), Write_u32 B (bb_numAttackers d),
        SetWriteOffset B (off + bytes_to_bits 0x598)] s')"

definition AgentBlackboard_WriteReflection :: "'s bitstream \<Rightarrow> AgentBlackboard \<Rightarrow> 's \<Rightarrow> 's" where
  "AgentBlackboard_WriteReflection B d = reflect B 5
     (in_order [refl_write B 5 0 (Write_u32 B (bb_targetId d)), refl_write B 5 1 (Write_bool B (bb_inCombat d)),
       refl_write B 5 2 (Write_u8 B (bb_stealthType d)), refl_write B 5 3 (Write_bool B (bb_targetable d)),
       refl_write B 5 4 (Write_u32 B (bb_numAttackers d))])"

definition owner_id :: "game_object \<Rightarrow> u32" where
  "owner_id x = (case ob_owner x of Some i \<Rightarrow> i | None \<Rightarrow> 0)"

definition Object_WriteTo :: "'s bitstream \<Rightarrow> game_object \<Rightarrow> 's \<Rightarrow> 's" where
  "Object_WriteTo B x s =
     (let (off, s') = ReallocateStream B (bytes_to_bits 0x308) s in
      in_order [SetWriteOffset B (off + bytes_to_bits 0x10), Write_f32 B (ob_scale x), Write_f32 B (ob_markerScale x),
        SetWriteOffset B (off + bytes_to_bits 0x18), Write_vec3 B (ob_center x), Write_quat B (ob_orientation x),
        Write_vec3 B (ob_linearVelocity x), Write_vec3 B (ob_angularVelocity x),
        SetWriteOffset B (off + bytes_to_bits 0x50), Write_u32 B (owner_id x), Write_u8 B (ob_team x),
        Write_u8 B (ob_playerIndex x),
        SetWriteOffset B (off + bytes_to_bits 0x58), Write_u32 B (ob_inputSyncStamp x), Write_bool B (ob_playerControlled x),
        SetWriteOffset B (off + bytes_to_bits 0x5F), Write_bool B (ob_visible x), Write_bool B (ob_hasCollision x),
        Write_u8 B (ob_movementType x),
        SetWriteOffset B (off + bytes_to_bits 0x88), Write_u32 B (ob_markerId x),
        SetWriteOffset B (off + bytes_to_bits 0xAC), Write_u32 B (ob_lastAnimationState x),
        SetWriteOffset B (off + bytes_to_bits 0xB8), Write_u64 B (ob_lastAnimationPlayTime x),
        Write_u32 B (ob_overrideMoveIdle x),
        SetWriteOffset B (off + bytes_to_bits 0x258), Write_u32 B (ob_graphicsState x),
        SetWriteOffset B (off + bytes_to_bits 0x260), Write_u64 B (ob_graphicsStateStartTime x),
        Write_u64 B (ob_newGraphicsStateStartTime x),
        SetWriteOffset B (off + bytes_to_bits 0x284), Write_bool B (ob_disableRepulsion x),
        SetWriteOffset B (off + bytes_to_bits 0x288), Write_u32 B (ob_interactableState x),
        SetWriteOffset B (off + bytes_to_bits 0x308)] s')"

definition Object_WriteReflection :: "'s bitstream \<Rightarrow> game_object \<Rightarrow> 's \<Rightarrow> 's" where
  "Object_WriteReflection B x = reflect B 23 (refl_fields B 23 (writes_if B 23 (ob_bits x)
     [(0, Write_u8 B (ob_team x)), (1, Write_bool B (ob_playerControlled x)), (2, Write_u32 B (ob_inputSyncStamp x)),
      (3, Write_u8 B (ob_playerIndex x)), (4, Write_vec3 B (ob_linearVelocity x)), (5, Write_vec3 B (ob_angularVelocity x)),
      (6, Write_vec3 B (ob_center x)), (7, Write_quat B (ob_orientation x)), (8, Write_f32 B (ob_scale x)),
      (9, Write_f32 B (ob_markerScale x)), (10, Write_u32 B (ob_lastAnimationState x)),
      (11, Write_u64 B (ob_lastAnimationPlayTime x)), (12, Write_u32 B (ob_overrideMoveIdle x)),
      (13, Write_u32 B (ob_graphicsState x)), (14, Write_u64 B (ob_graphicsStateStartTime x)),
      (15, Write_u64 B (ob_newGraphicsStateStartTime x)), (16, Write_bool B (ob_visible x)),
      (17, Write_bool B (ob_hasCollision x)), (18, Write_u32 B (owner_id x)), (19, Write_u8 B (ob_movementType x)),
      (20, Write_bool B (ob_disableRepulsion x)), (21, Write_u32 B (ob_interactableState x)),
      (22, Write_u32 B (ob_markerId x))]))"

end
