(* ===== verification/Locomotion.thy ===== *)
theory Locomotion
  imports Objects
begin

unbundle bit_operations_syntax

text \<open>
  Movement orders, \<open>source/Game/Locomotion.{h,cpp}\<close>: the members of \<open>Game::Locomotion\<close> that set goals
  and targets, as operations on the object they belong to, since most of them mark it for an update,
  and the two serialisations.  Calls on an object without locomotion are undefined.  Directions
  between positions (\<open>glm::normalize\<close>) and the radius of the footprint are arguments: floating-point
  arithmetic.  The simulation of projectiles, orbits and rolls is not modelled.
\<close>

definition on_locomotion :: "bool \<Rightarrow> (locomotion \<Rightarrow> locomotion) \<Rightarrow> game_object \<Rightarrow> game_object option" where
  "on_locomotion mark f x =
     map_option (\<lambda>l. (if mark then set_flag UpdateLocomotion else id) (x\<lparr>ob_locomotion := Some (f l)\<rparr>)) (ob_locomotion x)"

definition with_data :: "(LocomotionData \<Rightarrow> LocomotionData) \<Rightarrow> locomotion \<Rightarrow> locomotion" where
  "with_data f l = l\<lparr>lc_data := f (lc_data l)\<rparr>"

definition lc_mark :: "nat \<Rightarrow> locomotion \<Rightarrow> locomotion" where
  "lc_mark k l = l\<lparr>lc_bits := set_bit k (lc_bits l)\<rparr>"

subsection \<open>Single values\<close>

definition ChangeProjectileParameters :: "(cProjectileParams \<Rightarrow> cProjectileParams) \<Rightarrow> game_object \<Rightarrow> game_object option" where
  "ChangeProjectileParameters f = on_locomotion True (\<lambda>l. lc_mark 3 (with_data (\<lambda>d. d\<lparr>mProjectileParams := f (mProjectileParams d)\<rparr>) l))"

definition ChangeLobParameters :: "(cLobParams \<Rightarrow> cLobParams) \<Rightarrow> game_object \<Rightarrow> game_object option" where
  "ChangeLobParameters f = on_locomotion True (\<lambda>l. lc_mark 2 (with_data (\<lambda>d. d\<lparr>lobParams := f (lobParams d)\<rparr>) l))"

definition SetReflectedLastUpdate :: "u32 \<Rightarrow> game_object \<Rightarrow> game_object option" where
  "SetReflectedLastUpdate v = on_locomotion False (\<lambda>l. lc_mark 17 (with_data (\<lambda>d. d\<lparr>reflectedLastUpdate := v\<rparr>) l))"

definition SetInitialDirection :: "vec3 \<Rightarrow> game_object \<Rightarrow> game_object option" where
  "SetInitialDirection v = on_locomotion False (\<lambda>l. lc_mark 15 (with_data (\<lambda>d. d\<lparr>mInitialDirection := v\<rparr>) l))"

definition SetTargetPosition :: "vec3 \<Rightarrow> game_object \<Rightarrow> game_object option" where
  "SetTargetPosition v = on_locomotion False (\<lambda>l. lc_mark 13 (with_data (\<lambda>d. d\<lparr>mTargetPosition := v\<rparr>) l))"

definition SetExpectedGeoCollision :: "vec3 \<Rightarrow> game_object \<Rightarrow> game_object option" where
  "SetExpectedGeoCollision v = on_locomotion False (\<lambda>l. lc_mark 14 (with_data (\<lambda>d. d\<lparr>mExpectedGeoCollision := v\<rparr>) l))"

definition SetHasCollidedWithCreature :: "bool \<Rightarrow> game_object \<Rightarrow> game_object option" where
  "SetHasCollidedWithCreature v = on_locomotion False (\<lambda>l. l\<lparr>lc_hasCollidedWithCreature := v\<rparr>)"

definition SetHasCollided :: "bool \<Rightarrow> game_object \<Rightarrow> game_object option" where
  "SetHasCollided v = on_locomotion False (\<lambda>l. l\<lparr>lc_hasCollided := v\<rparr>)"

definition Locomotion_SetTargetId :: "u32 \<Rightarrow> game_object \<Rightarrow> game_object option" where
  "Locomotion_SetTargetId v = on_locomotion False (\<lambda>l. lc_mark 12 (with_data (\<lambda>d. d\<lparr>mTargetObjectId := v\<rparr>) l))"

definition SetGoalFlags :: "u32 \<Rightarrow> game_object \<Rightarrow> game_object option" where
  "SetGoalFlags v = on_locomotion False (\<lambda>l. lc_mark 4 (with_data (\<lambda>d. d\<lparr>mGoalFlags := v\<rparr>) l))"

definition SetPartialGoalPosition :: "vec3 \<Rightarrow> game_object \<Rightarrow> game_object option" where
  "SetPartialGoalPosition v = on_locomotion False (with_data (\<lambda>d. d\<lparr>mPartialGoalPosition := v\<rparr>))"

subsection \<open>Orders\<close>

definition goal_reset :: "vec3 \<Rightarrow> LocomotionData \<Rightarrow> LocomotionData" where
  "goal_reset position d =
     d\<lparr>mTargetObjectId := 0, mFacing := vec3_zero, mTargetPosition := vec3_zero, mExternalLinearVelocity := vec3_zero,
       mGoalFlags := 0x001, mGoalPosition := position, mAllowedStopDistance := 0, mDesiredStopDistance := 0\<rparr>"

definition Locomotion_SetGoalPosition :: "vec3 \<Rightarrow> game_object \<Rightarrow> game_object option" where
  "Locomotion_SetGoalPosition position = on_locomotion True (with_data (goal_reset position))"

definition Locomotion_SetGoalPositionWithDistance :: "vec3 \<Rightarrow> f32 \<Rightarrow> game_object \<Rightarrow> game_object option" where
  "Locomotion_SetGoalPositionWithDistance position distance = on_locomotion True
     (with_data (\<lambda>d. (goal_reset position d)\<lparr>mAllowedStopDistance := distance, mDesiredStopDistance := distance\<rparr>))"

text \<open>An object that is not there leaves everything as it is.\<close>

definition SetGoalObject :: "game_object option \<Rightarrow> f32 \<Rightarrow> game_object \<Rightarrow> game_object option" where
  "SetGoalObject target distance x =
     (case target of None \<Rightarrow> Some x
      | Some t \<Rightarrow> Locomotion_SetGoalPositionWithDistance (ob_center t) distance x)"

definition SetGoalObjectEx :: "game_object option \<Rightarrow> f32 \<Rightarrow> game_object \<Rightarrow> game_object option" where
  "SetGoalObjectEx target distance x =
     (case target of None \<Rightarrow> Some x
      | Some t \<Rightarrow> on_locomotion True (with_data (\<lambda>d. d\<lparr>mFacing := vec3_zero, mTargetPosition := vec3_zero,
          mExternalLinearVelocity := vec3_zero, mGoalFlags := 0x400, mTargetObjectId := ob_id t,
          mGoalPosition := ob_center t, mAllowedStopDistance := distance, mDesiredStopDistance := distance\<rparr>)) x)"

definition SetFacing :: "(vec3 \<Rightarrow> vec3 \<Rightarrow> vec3) \<Rightarrow> vec3 \<Rightarrow> game_object \<Rightarrow> game_object option" where
  "SetFacing towards position x = on_locomotion True (with_data (\<lambda>d. d\<lparr>mTargetObjectId := 0, mAllowedStopDistance := 0,
     mDesiredStopDistance := 0, mExternalLinearVelocity := vec3_zero, mGoalFlags := 0x002 OR 0x040,
     mGoalPosition := ob_center x, mTargetPosition := position, mFacing := towards (ob_center x) position\<rparr>)) x"

definition Locomotion_Stop :: "game_object \<Rightarrow> game_object option" where
  "Locomotion_Stop = on_locomotion True (with_data (\<lambda>d. d\<lparr>mTargetObjectId := 0, mExternalLinearVelocity := vec3_zero,
     mTargetPosition := vec3_zero, mFacing := vec3_zero, mGoalFlags := 0x020\<rparr>))"

definition TurnToFaceTargetObject ::
  "(vec3 \<Rightarrow> vec3 \<Rightarrow> vec3) \<Rightarrow> (game_object \<Rightarrow> f32) \<Rightarrow> game_object option \<Rightarrow> game_object \<Rightarrow> game_object option" where
  "TurnToFaceTargetObject towards footprint target x =
     (case target of None \<Rightarrow> Some x
      | Some t \<Rightarrow> on_locomotion False (with_data (\<lambda>d. d\<lparr>mTargetPosition := vec3_zero, mExternalLinearVelocity := vec3_zero,
          mGoalFlags := 0x100 OR 0x002, mGoalPosition := ob_center x, mTargetObjectId := ob_id t,
          mFacing := towards (ob_center x) (ob_center t), mAllowedStopDistance := footprint x,
          mDesiredStopDistance := footprint x\<rparr>)) x)"

definition MoveToPointWhileFacingTarget :: "vec3 \<Rightarrow> game_object option \<Rightarrow> game_object \<Rightarrow> game_object option" where
  "MoveToPointWhileFacingTarget position target x =
     (case target of None \<Rightarrow> Some x
      | Some t \<Rightarrow> on_locomotion True (with_data (\<lambda>d. d\<lparr>mFacing := vec3_zero, mTargetPosition := vec3_zero,
          mExternalLinearVelocity := vec3_zero, mGoalFlags := 0x001 OR 0x100, mGoalPosition := position,
          mTargetObjectId := ob_id t, mAllowedStopDistance := 0, mDesiredStopDistance := 0\<rparr>)) x)"

definition Locomotion_ApplyExternalVelocity :: "vec3 \<Rightarrow> game_object \<Rightarrow> game_object option" where
  "Locomotion_ApplyExternalVelocity v = on_locomotion True (with_data (\<lambda>d. d\<lparr>mTargetObjectId := 0, mFacing := vec3_zero,
     mGoalFlags := 0x008, mExternalLinearVelocity := v\<rparr>))"

definition Locomotion_ClearExternalVelocity :: "game_object \<Rightarrow> game_object option" where
  "Locomotion_ClearExternalVelocity = on_locomotion True (with_data (\<lambda>d. d\<lparr>mGoalFlags := 0x020,
     mExternalLinearVelocity := vec3_zero\<rparr>))"

definition ClearTargetObject :: "game_object \<Rightarrow> game_object option" where
  "ClearTargetObject = on_locomotion True (with_data (\<lambda>d. d\<lparr>mGoalFlags := mGoalFlags d AND NOT 0x040 AND NOT 0x100,
     mTargetObjectId := 0\<rparr>))"

definition FaceObjectDuringMove :: "game_object option \<Rightarrow> game_object \<Rightarrow> game_object option" where
  "FaceObjectDuringMove target x =
     (case target of None \<Rightarrow> Some x
      | Some t \<Rightarrow> on_locomotion False (with_data (\<lambda>d. d\<lparr>mTargetObjectId := ob_id t, mGoalFlags := mGoalFlags d OR 0x100\<rparr>)) x)"

subsection \<open>On the wire\<close>

definition LobParameters_WriteTo :: "'s bitstream \<Rightarrow> cLobParams \<Rightarrow> 's \<Rightarrow> 's" where
  "LobParameters_WriteTo B d s =
     (let (off, s') = ReallocateStream B (bytes_to_bits 0x54) s in
      in_order [SetWriteOffset B (off + bytes_to_bits 0x18), Write_vec3 B (lobUpDir d),
        SetWriteOffset B (off + bytes_to_bits 0x30), Write_u32 B (bounceNum d), Write_f32 B (bounceRestitution d),
        Write_bool B (groundCollisionOnly d), Write_bool B (stopBounceOnCreatures d),
        SetWriteOffset B (off + bytes_to_bits 0x3C), Write_vec3 B (planeDir d),
        SetWriteOffset B (off + bytes_to_bits 0x48), Write_f32 B (planeDirLinearParam d), Write_f32 B (upLinearParam d),
        Write_f32 B (upQuadraticParam d), SetWriteOffset B (off + bytes_to_bits 0x54)] s')"

definition LobParameters_WriteReflection :: "'s bitstream \<Rightarrow> cLobParams \<Rightarrow> 's \<Rightarrow> 's" where
  "LobParameters_WriteReflection B d = reflect B 9
     (in_order [refl_write B 9 0 (Write_f32 B (planeDirLinearParam d)), refl_write B 9 1 (Write_f32 B (upLinearParam d)),
       refl_write B 9 2 (Write_f32 B (upQuadraticParam d)), refl_write B 9 3 (Write_vec3 B (lobUpDir d)),
       refl_write B 9 4 (Write_vec3 B (planeDir d)), refl_write B 9 5 (Write_u32 B (bounceNum d)),
       refl_write B 9 6 (Write_f32 B (bounceRestitution d)), refl_write B 9 7 (Write_bool B (groundCollisionOnly d)),
       refl_write B 9 8 (Write_bool B (stopBounceOnCreatures d))])"

definition ProjectileParameters_WriteTo :: "'s bitstream \<Rightarrow> cProjectileParams \<Rightarrow> 's \<Rightarrow> 's" where
  "ProjectileParameters_WriteTo B d s =
     (let (off, s') = ReallocateStream B (bytes_to_bits 0x3C) s in
      in_order [SetWriteOffset B off, Write_f32 B (mSpeed d), Write_f32 B (mAcceleration d), Write_u32 B (mJinkInfo d),
        Write_f32 B (mRange d), Write_f32 B (mSpinRate d), Write_vec3 B (mDirection d), Write_u8 B (mProjectileFlags d),
        SetWriteOffset B (off + bytes_to_bits 0x24), Write_f32 B (mHomingDelay d), Write_f32 B (mTurnRate d),
        Write_f32 B (mTurnAcceleration d), Write_bool B (mPiercing d), Write_bool B (mIgnoreGroundCollide d),
        Write_bool B (mIgnoreCreatureCollide d), SetWriteOffset B (off + bytes_to_bits 0x34),
        Write_f32 B (mEccentricity d), Write_f32 B (mCombatantSweepHeight d),
        SetWriteOffset B (off + bytes_to_bits 0x3C)] s')"

definition ProjectileParameters_WriteReflection :: "'s bitstream \<Rightarrow> cProjectileParams \<Rightarrow> 's \<Rightarrow> 's" where
  "ProjectileParameters_WriteReflection B d = reflect B 15
     (in_order [refl_write B 15 0 (Write_f32 B (mSpeed d)), refl_write B 15 1 (Write_f32 B (mAcceleration d)),
       refl_write B 15 2 (Write_u32 B (mJinkInfo d)), refl_write B 15 3 (Write_f32 B (mRange d)),
       refl_write B 15 4 (Write_f32 B (mSpinRate d)), refl_write B 15 5 (Write_vec3 B (mDirection d)),
       refl_write B 15 6 (Write_u8 B (mProjectileFlags d)), refl_write B 15 7 (Write_f32 B (mHomingDelay d)),
       refl_write B 15 8 (Write_f32 B (mTurnRate d)), refl_write B 15 9 (Write_f32 B (mTurnAcceleration d)),
       refl_write B 15 10 (Write_f32 B (mEccentricity d)), refl_write B 15 11 (Write_bool B (mPiercing d)),
       refl_write B 15 12 (Write_bool B (mIgnoreGroundCollide d)), refl_write B 15 13 (Write_bool B (mIgnoreCreatureCollide d)),
       refl_write B 15 14 (Write_f32 B (mCombatantSweepHeight d))])"

definition Locomotion_WriteTo :: "'s bitstream \<Rightarrow> locomotion \<Rightarrow> 's \<Rightarrow> 's" where
  "Locomotion_WriteTo B l s =
     (let d = lc_data l; (off, s') = ReallocateStream B (bytes_to_bits 0x290) s in
      in_order [SetWriteOffset B (off + bytes_to_bits 0x8), Write_u32 B (reflectedLastUpdate d),
        SetWriteOffset B (off + bytes_to_bits 0x44), ProjectileParameters_WriteTo B (mProjectileParams d),
        SetWriteOffset B (off + bytes_to_bits 0x84), Write_vec3 B (mExpectedGeoCollision d), Write_u32 B (mTargetObjectId d),
        SetWriteOffset B (off + bytes_to_bits 0x9C), Write_vec3 B (mInitialDirection d),
        SetWriteOffset B (off + bytes_to_bits 0xD8), Write_u64 B (lobStartTime d), Write_f32 B (lobPrevSpeedModifier d),
        LobParameters_WriteTo B (lobParams d),
        SetWriteOffset B (off + bytes_to_bits 0x138), Write_vec3 B (mOffset d), Write_u32 B (mGoalFlags d),
        Write_vec3 B (mGoalPosition d), Write_vec3 B (mPartialGoalPosition d),
        SetWriteOffset B (off + bytes_to_bits 0x178), Write_vec3 B (mFacing d), Write_vec3 B (mExternalLinearVelocity d),
        Write_vec3 B (mExternalForce d), Write_f32 B (mAllowedStopDistance d), Write_f32 B (mDesiredStopDistance d),
        SetWriteOffset B (off + bytes_to_bits 0x1AC), Write_vec3 B (mTargetPosition d),
        SetWriteOffset B (off + bytes_to_bits 0x290)] s')"

definition Locomotion_writes :: "'s bitstream \<Rightarrow> LocomotionData \<Rightarrow> (nat \<times> ('s \<Rightarrow> 's)) list" where
  "Locomotion_writes B d =
     [(0, Write_u64 B (lobStartTime d)), (1, Write_f32 B (lobPrevSpeedModifier d)),
      (2, LobParameters_WriteTo B (lobParams d)), (3, ProjectileParameters_WriteTo B (mProjectileParams d)),
      (4, Write_u32 B (mGoalFlags d)), (5, Write_vec3 B (mGoalPosition d)), (6, Write_vec3 B (mPartialGoalPosition d)),
      (7, Write_vec3 B (mFacing d)), (8, Write_vec3 B (mExternalLinearVelocity d)), (9, Write_vec3 B (mExternalForce d)),
      (10, Write_f32 B (mAllowedStopDistance d)), (11, Write_f32 B (mDesiredStopDistance d)),
      (12, Write_u32 B (mTargetObjectId d)), (13, Write_vec3 B (mTargetPosition d)),
      (14, Write_vec3 B (mExpectedGeoCollision d)), (15, Write_vec3 B (mInitialDirection d)), (16, Write_vec3 B (mOffset d)),
      (17, Write_u32 B (reflectedLastUpdate d))]"

definition Locomotion_WriteReflection :: "'s bitstream \<Rightarrow> locomotion \<Rightarrow> 's \<Rightarrow> 's" where
  "Locomotion_WriteReflection B l = reflect B 18 (refl_fields B 18 (writes_if B 18 (lc_bits l) (Locomotion_writes B (lc_data l))))"

end
