(* ===== verification/ObjectProps.thy ===== *)
theory ObjectProps
  imports Locomotion
begin

unbundle bit_operations_syntax

text \<open>
  Properties of the objects of a game: the indices of effects, cooldowns, health, the images on the
  wire and the updates that the clients get.
\<close>

subsection \<open>Effects\<close>

lemma swap_out_props:
  assumes "i \<in> set xs" "distinct xs"
  shows "distinct (swap_out i xs) \<and> set (swap_out i xs) = set xs - {i}"
  using assms
proof (induction xs)
  case (Cons x xs)
  show ?case
  proof (cases "x = i")
    case True
    have "set (last xs # butlast xs) = set xs \<and> distinct (last xs # butlast xs)" if "xs \<noteq> []"
    proof -
      have "set (butlast xs @ [last xs]) = set xs" "distinct (butlast xs @ [last xs])"
        using that Cons.prems by simp_all
      then show ?thesis by auto
    qed
    then show ?thesis using True Cons.prems by auto
  next
    case False
    then show ?thesis using Cons by auto
  qed
qed simp

definition effects_ok :: "effect_list \<Rightarrow> bool" where
  "effects_ok el \<longleftrightarrow> distinct (mUsedIndexes el @ mOpenIndexes el) \<and>
     (\<exists>n \<le> 255. unat ` set (mUsedIndexes el @ mOpenIndexes el) = {1..n}) \<and>
     distinct (map fst (mIndexByEffect el)) \<and> distinct (map snd (mIndexByEffect el)) \<and>
     snd ` set (mIndexByEffect el) \<subseteq> set (mUsedIndexes el)"

lemma effects_count:
  assumes "distinct xs" and "unat ` set xs = {1..n}" and "n \<le> 255"
  shows "length xs = n" and "\<forall>i \<in> set xs. i \<noteq> (0 :: u8)"
proof -
  have "inj_on unat (set xs)" by (rule inj_onI) (simp add: word_unat_eq_iff)
  then have "card (set xs) = n" using card_image assms(2) by fastforce
  then show "length xs = n" using distinct_card [OF assms(1)] by simp
  show "\<forall>i \<in> set xs. i \<noteq> 0" using assms(2) by (metis atLeastAtMost_iff imageI not_one_le_zero unat_0)
qed

lemma GetOpenIndex_props:
  assumes "effects_ok el" and "GetOpenIndex el = (i, el')"
  shows "effects_ok el'" and "mIndexByEffect el' = mIndexByEffect el"
    and "i = 0 \<longleftrightarrow> length (mUsedIndexes el) = 255"
    and "i \<noteq> 0 \<Longrightarrow> i \<notin> set (mUsedIndexes el) \<and> i \<in> set (mUsedIndexes el') \<and> set (mUsedIndexes el) \<subseteq> set (mUsedIndexes el')"
proof -
  obtain n where n: "n \<le> 255" "unat ` set (mUsedIndexes el @ mOpenIndexes el) = {1..n}"
    and d: "distinct (mUsedIndexes el @ mOpenIndexes el)" using assms(1) unfolding effects_ok_def by blast
  note c = effects_count [OF d n(2,1)]
  have "effects_ok el' \<and> mIndexByEffect el' = mIndexByEffect el \<and> (i = 0 \<longleftrightarrow> length (mUsedIndexes el) = 255) \<and>
    (i \<noteq> 0 \<longrightarrow> i \<notin> set (mUsedIndexes el) \<and> i \<in> set (mUsedIndexes el') \<and> set (mUsedIndexes el) \<subseteq> set (mUsedIndexes el'))"
  proof (cases "mOpenIndexes el = []")
    case True
    show ?thesis
    proof (cases "length (mUsedIndexes el) < 255")
      case False
      then have "length (mUsedIndexes el) = 255" using c(1) n(1) True by simp
      then show ?thesis using False True assms by (simp add: GetOpenIndex_def)
    next
      case small: True
      let ?i = "of_nat (length (mUsedIndexes el)) + 1 :: u8"
      have len: "length (mUsedIndexes el) = n" using c(1) True by simp
      have u: "unat ?i = Suc n"
      proof -
        have "?i = of_nat (Suc n)" by (simp add: len)
        moreover have "unat (of_nat (Suc n) :: u8) = Suc n" using small len
          by (simp only: unat_of_nat) (simp add: take_bit_eq_mod)
        ultimately show ?thesis by (simp only:)
      qed
      have new: "?i \<notin> set (mUsedIndexes el)"
      proof
        assume "?i \<in> set (mUsedIndexes el)"
        then have "unat ?i \<in> {1..n}" using n(2) by auto
        then show False using u by simp
      qed
      have "unat ` set (mUsedIndexes el @ [?i]) = {1..Suc n}"
      proof -
        have "unat ` set (mUsedIndexes el @ [?i]) = insert (Suc n) {1..n}" using n(2) True u by simp
        then show ?thesis by (simp add: atLeastAtMostSuc_conv)
      qed
      moreover have "i = ?i" "el' = el\<lparr>mUsedIndexes := mUsedIndexes el @ [?i]\<rparr>"
        using assms(2) True small by (auto simp: GetOpenIndex_def Let_def)
      moreover have "?i \<noteq> 0" using u by (metis nat.distinct(1) unat_0)
      ultimately show ?thesis using assms(1) True new d small len
        unfolding effects_ok_def by (auto intro!: exI [of _ "Suc n"])
    qed
  next
    case False
    let ?o = "last (mOpenIndexes el)"
    have e: "i = ?o" "el' = el\<lparr>mOpenIndexes := butlast (mOpenIndexes el), mUsedIndexes := mUsedIndexes el @ [?o]\<rparr>"
      using assms(2) False by (auto simp: GetOpenIndex_def Let_def)
    have s: "set (mOpenIndexes el) = insert ?o (set (butlast (mOpenIndexes el)))" "?o \<notin> set (butlast (mOpenIndexes el))"
      "distinct (butlast (mOpenIndexes el))" "length (mOpenIndexes el) > 0"
    proof -
      have b: "butlast (mOpenIndexes el) @ [?o] = mOpenIndexes el" using False by simp
      have "distinct (butlast (mOpenIndexes el) @ [?o])" using d b by simp
      then show "?o \<notin> set (butlast (mOpenIndexes el))" "distinct (butlast (mOpenIndexes el))" by simp_all
      show "set (mOpenIndexes el) = insert ?o (set (butlast (mOpenIndexes el)))"
        by (subst b [symmetric]) simp
      show "length (mOpenIndexes el) > 0" using False by simp
    qed
    have nz: "?o \<noteq> 0" using c(2) False by simp
    have fresh: "?o \<notin> set (mUsedIndexes el)" using d s(1) by auto
    have "length (mUsedIndexes el) < 255" using c(1) n(1) s(4) unfolding length_append by linarith
    then show ?thesis using assms(1) e s nz fresh d unfolding effects_ok_def by auto
  qed
  then show "effects_ok el'" "mIndexByEffect el' = mIndexByEffect el" "i = 0 \<longleftrightarrow> length (mUsedIndexes el) = 255"
    "i \<noteq> 0 \<Longrightarrow> i \<notin> set (mUsedIndexes el) \<and> i \<in> set (mUsedIndexes el') \<and> set (mUsedIndexes el) \<subseteq> set (mUsedIndexes el')"
    by blast+
qed

lemma distinct_map_filter_fst:
  "distinct (map f xs) \<Longrightarrow> distinct (map f (filter P xs))"
  by (induction xs) auto

lemma EffectList_Add_props:
  assumes "effects_ok el" and "EffectList_Add effect el = (i, el')"
  shows "effects_ok el'" and "i = 0 \<longleftrightarrow> length (mUsedIndexes el) = 255"
    and "i \<noteq> 0 \<Longrightarrow> (effect, i) \<in> set (mIndexByEffect el') \<and> i \<notin> snd ` set (mIndexByEffect el)"
    and "i \<noteq> 0 \<Longrightarrow> (effect, j) \<in> set (mIndexByEffect el) \<Longrightarrow> j \<in> set (mUsedIndexes el') \<and> j \<notin> snd ` set (mIndexByEffect el')"
proof -
  obtain k el1 where g: "GetOpenIndex el = (k, el1)" by (cases "GetOpenIndex el")
  note p = GetOpenIndex_props [OF assms(1) g]
  have k: "k = i" using assms(2) g by (auto simp: EffectList_Add_def split: if_splits)
  show "i = 0 \<longleftrightarrow> length (mUsedIndexes el) = 255" using p(3) k by simp
  have el': "el' = (if i = 0 then el1 else el1\<lparr>mIndexByEffect :=
      sort_key fst ((effect, i) # filter (\<lambda>e. fst e \<noteq> effect) (mIndexByEffect el1))\<rparr>)"
    using assms(2) g k by (auto simp: EffectList_Add_def split: if_splits)
  then have in': "i \<noteq> 0 \<Longrightarrow> set (mIndexByEffect el') = insert (effect, i) (set (filter (\<lambda>e. fst e \<noteq> effect) (mIndexByEffect el1)))"
    by (simp del: sort_key_simps)
  have sub: "snd ` set (mIndexByEffect el) \<subseteq> set (mUsedIndexes el)" "distinct (map fst (mIndexByEffect el))"
    "distinct (map snd (mIndexByEffect el))" using assms(1) unfolding effects_ok_def by blast+
  show "effects_ok el'"
  proof (cases "i = 0")
    case True
    then show ?thesis using p(1) el' by simp
  next
    case False
    let ?m = "(effect, i) # filter (\<lambda>e. fst e \<noteq> effect) (mIndexByEffect el1)"
    have f: "i \<notin> set (mUsedIndexes el)" "i \<in> set (mUsedIndexes el1)" "set (mUsedIndexes el) \<subseteq> set (mUsedIndexes el1)"
      using p(4) k False by simp_all
    have "distinct (map fst ?m)" "distinct (map snd ?m)"
      using sub f(1) p(2) by (auto simp: distinct_map_filter_fst)
    then have d: "distinct (map fst (sort_key fst ?m))" "distinct (map snd (sort_key fst ?m))"
      unfolding distinct_map set_sort distinct_sort by (simp_all only:)
    have "snd ` set ?m \<subseteq> set (mUsedIndexes el1)" using sub(1) f p(2) by auto
    then have "snd ` set (sort_key fst ?m) \<subseteq> set (mUsedIndexes el1)" by (simp only: set_sort)
    then show ?thesis using p(1) d False el' unfolding effects_ok_def by simp
  qed
  show "i \<noteq> 0 \<Longrightarrow> (effect, i) \<in> set (mIndexByEffect el') \<and> i \<notin> snd ` set (mIndexByEffect el)"
    using p(4) k in' sub(1) by auto
  show "j \<in> set (mUsedIndexes el') \<and> j \<notin> snd ` set (mIndexByEffect el')"
    if "i \<noteq> 0" "(effect, j) \<in> set (mIndexByEffect el)"
  proof -
    have j: "j \<in> set (mUsedIndexes el)" using that(2) sub(1) by force
    have "e = effect" if "(e, j) \<in> set (mIndexByEffect el)" for e
      using sub(3) that \<open>(effect, j) \<in> _\<close> by (metis (mono_tags, lifting) distinct_map inj_onD snd_conv prod.inject)
    then have "j \<notin> snd ` set (filter (\<lambda>e. fst e \<noteq> effect) (mIndexByEffect el))" by auto
    moreover have "j \<noteq> i" using p(4) k that(1) j by auto
    moreover have "mUsedIndexes el' = mUsedIndexes el1" using el' by simp
    ultimately show ?thesis using in' that(1) p(2,4) k j by auto
  qed
qed

lemma take_index_out:
  assumes "effects_ok el" "i \<in> set (mUsedIndexes el)" "set ms \<subseteq> set (mIndexByEffect el)"
    and "distinct (map fst ms)" "distinct (map snd ms)" "i \<notin> snd ` set ms"
  shows "effects_ok \<lparr>mIndexByEffect = ms, mOpenIndexes = mOpenIndexes el @ [i], mUsedIndexes = swap_out i (mUsedIndexes el)\<rparr>"
proof -
  have d: "distinct (mUsedIndexes el)" using assms(1) by (simp add: effects_ok_def)
  note s = swap_out_props [OF assms(2) d]
  have same: "set (swap_out i (mUsedIndexes el) @ mOpenIndexes el @ [i]) = set (mUsedIndexes el @ mOpenIndexes el)"
    using s assms(2) by auto
  have "snd ` set ms \<subseteq> set (mUsedIndexes el)" using assms(1,3) unfolding effects_ok_def by blast
  moreover have "distinct (swap_out i (mUsedIndexes el) @ mOpenIndexes el @ [i])"
    using s assms(1,2) by (auto simp: effects_ok_def)
  moreover have "\<exists>n \<le> 255. unat ` set (mUsedIndexes el @ mOpenIndexes el) = {1..n}"
    using assms(1) unfolding effects_ok_def by blast
  ultimately show ?thesis unfolding effects_ok_def effect_list.simps same
    using assms(4-6) s by blast
qed

lemma find_SomeD: "find P xs = Some x \<Longrightarrow> P x \<and> x \<in> set xs"
  by (induction xs) (auto split: if_splits)

lemma EffectList_Remove_ok:
  assumes "effects_ok el"
  shows "effects_ok (snd (EffectList_Remove effect el))"
proof (cases "find (\<lambda>e. fst e = effect) (mIndexByEffect el)")
  case None
  then show ?thesis using assms by (simp add: EffectList_Remove_def)
next
  case (Some e)
  from find_SomeD [OF this] obtain i where e: "e = (effect, i)" "(effect, i) \<in> set (mIndexByEffect el)"
    by (cases e) auto
  let ?ms = "filter (\<lambda>e. fst e \<noteq> effect) (mIndexByEffect el)"
  have k: "snd ` set (mIndexByEffect el) \<subseteq> set (mUsedIndexes el)" "distinct (map fst (mIndexByEffect el))"
    "distinct (map snd (mIndexByEffect el))" using assms unfolding effects_ok_def by blast+
  have i: "i \<in> set (mUsedIndexes el)" using k(1) e(2) by force
  have "fst x = effect" if "x \<in> set (mIndexByEffect el)" "snd x = i" for x
    using k(3) that e(2) by (metis (mono_tags, lifting) distinct_map inj_onD snd_conv fst_conv)
  then have "i \<notin> snd ` set ?ms" by auto
  from take_index_out [OF assms i _ _ _ this] k(2,3)
  have "effects_ok \<lparr>mIndexByEffect = ?ms, mOpenIndexes = mOpenIndexes el @ [i], mUsedIndexes = swap_out i (mUsedIndexes el)\<rparr>"
    by (simp add: distinct_map_filter_fst)
  moreover have "snd (EffectList_Remove effect el) =
      \<lparr>mIndexByEffect = ?ms, mOpenIndexes = mOpenIndexes el @ [i], mUsedIndexes = swap_out i (mUsedIndexes el)\<rparr>"
    using Some e(1) i by (cases el) (simp add: EffectList_Remove_def Let_def)
  ultimately show ?thesis by simp
qed

lemma EffectList_RemoveByIndex_ok:
  assumes "effects_ok el"
  shows "effects_ok (snd (EffectList_RemoveByIndex i el))"
proof (cases "i \<in> set (mUsedIndexes el)")
  case False
  then show ?thesis using assms by (simp add: EffectList_RemoveByIndex_def)
next
  case i: True
  have k: "distinct (map fst (mIndexByEffect el))" "distinct (map snd (mIndexByEffect el))"
    using assms unfolding effects_ok_def by blast+
  show ?thesis
  proof (cases "find (\<lambda>e. snd e = i) (mIndexByEffect el)")
    case None
    then have "i \<notin> snd ` set (mIndexByEffect el)" by (auto simp: find_None_iff)
    from take_index_out [OF assms i subset_refl k this] None i
    show ?thesis by (cases el) (simp add: EffectList_RemoveByIndex_def Let_def)
  next
    case (Some e)
    from find_SomeD [OF this] obtain effect where e: "e = (effect, i)" "(effect, i) \<in> set (mIndexByEffect el)"
      by (cases e) auto
    let ?ms = "filter (\<lambda>e. fst e \<noteq> effect) (mIndexByEffect el)"
    have "fst x = effect" if "x \<in> set (mIndexByEffect el)" "snd x = i" for x
      using k(2) that e(2) by (metis (mono_tags, lifting) distinct_map inj_onD snd_conv fst_conv)
    then have "i \<notin> snd ` set ?ms" by auto
    from take_index_out [OF assms i _ _ _ this] k Some e(1) i
    show ?thesis by (cases el) (simp add: EffectList_RemoveByIndex_def Let_def distinct_map_filter_fst)
  qed
qed

inductive effects_reachable :: "effect_list \<Rightarrow> bool" where
  start: "effects_reachable EffectList_new"
| add: "effects_reachable el \<Longrightarrow> effects_reachable (snd (EffectList_Add effect el))"
| remove: "effects_reachable el \<Longrightarrow> effects_reachable (snd (EffectList_Remove effect el))"
| remove_index: "effects_reachable el \<Longrightarrow> effects_reachable (snd (EffectList_RemoveByIndex i el))"

lemma effects_reachable_ok: "effects_reachable el \<Longrightarrow> effects_ok el"
proof (induction rule: effects_reachable.induct)
  case start
  show ?case by (auto simp: effects_ok_def EffectList_new_def)
next
  case (add el effect)
  then show ?case using EffectList_Add_props(1) [of el effect] by (metis prod.collapse)
qed (simp_all add: EffectList_Remove_ok EffectList_RemoveByIndex_ok)

text \<open>
  C22: Whatever effects were added and removed before, no two effects of an object share an index;
  adding an effect gives it an index between 1 and 255 that no other effect has, and fails, with
  index 0, exactly when all 255 are in use.  An effect that is added a second time gets a new index
  and its old one stays in use although no effect has it any more.
\<close>

theorem effect_indices_unique:
  assumes "effects_reachable el" and "EffectList_Add effect el = (i, el')"
  shows "distinct (map fst (mIndexByEffect el)) \<and> distinct (map snd (mIndexByEffect el)) \<and>
    (i = 0 \<longleftrightarrow> length (mUsedIndexes el) = 255) \<and>
    (i \<noteq> 0 \<longrightarrow> (effect, i) \<in> set (mIndexByEffect el') \<and> i \<notin> snd ` set (mIndexByEffect el) \<and>
      (\<forall>j. (effect, j) \<in> set (mIndexByEffect el) \<longrightarrow>
        j \<in> set (mUsedIndexes el') \<and> j \<notin> snd ` set (mIndexByEffect el')))"
  using EffectList_Add_props [OF effects_reachable_ok [OF assms(1)] assms(2)] effects_reachable_ok [OF assms(1)]
  by (simp add: effects_ok_def)

theorem effect_indices_unique_witness:
  "let el = snd (EffectList_Add 7 EffectList_new); r = EffectList_Add 7 el
   in fst r = 2 \<and> mIndexByEffect (snd r) = [(7, 2)] \<and> 1 \<in> set (mUsedIndexes (snd r))"
proof -
  let ?el = "snd (EffectList_Add 7 EffectList_new)"
  have e: "?el = \<lparr>mIndexByEffect = [(7, 1)], mOpenIndexes = [], mUsedIndexes = [1]\<rparr>"
    by (simp add: EffectList_Add_def EffectList_new_def GetOpenIndex_def Let_def)
  have r: "effects_reachable ?el" by (intro effects_reachable.intros)
  have a: "EffectList_Add 7 ?el = (2, \<lparr>mIndexByEffect = [(7, 2)], mOpenIndexes = [], mUsedIndexes = [1, 2]\<rparr>)"
    unfolding e by (simp add: EffectList_Add_def GetOpenIndex_def Let_def)
  from effect_indices_unique [OF r a] show ?thesis unfolding Let_def a by (simp add: e)
qed

subsection \<open>Cooldowns\<close>

lemma unat_of_nat_small: "n < 2 ^ LENGTH('a) \<Longrightarrow> unat (of_nat n :: 'a::len word) = n"
  by (simp add: unat_of_nat take_bit_nat_eq_self)

lemma ucast_of_nat_small:
  assumes "n < 2 ^ LENGTH('a)"
  shows "(ucast (of_nat n :: 'a::len word) :: 'b::len word) = of_nat n"
  using assms by (simp add: unsigned_of_nat take_bit_nat_eq_self)

lemma of_nat_less_small:
  "m < 2 ^ 64 \<Longrightarrow> n < 2 ^ 64 \<Longrightarrow> (of_nat m :: u64) < of_nat n \<longleftrightarrow> m < n"
  by (simp add: word_less_nat_alt unat_of_nat_small)

lemma new_cooldown_runs:
  assumes "ob_cooldowns x a = None \<or> (\<exists>finish d. ob_cooldowns x a = Some (finish, d) \<and> finish < of_nat now)"
    and "now + m < 2 ^ 64" and "m < 2 ^ 32"
  shows "HasCooldown (of_nat now) a (snd (AddCooldown (of_nat now) a (of_nat m) x)) \<longleftrightarrow> 0 < m"
proof -
  have "(ucast (of_nat m :: u32) :: u64) = of_nat m" using assms(3) by (intro ucast_of_nat_small) simp
  then have e: "of_nat now + ucast (of_nat m :: u32) = (of_nat (now + m) :: u64)" by simp
  have "(of_nat now :: u64) < of_nat (now + m) \<longleftrightarrow> 0 < m" using of_nat_less_small [of now "now + m"] assms(2) by simp
  then show ?thesis using assms(1) e by (auto simp: AddCooldown_def HasCooldown_def Let_def)
qed

text \<open>
  C38: Adding to a cooldown that still runs: it started at \<open>s\<close>, \<open>e\<close> milliseconds have passed,
  \<open>r\<close> remain and \<open>m\<close> are added.  Its new length is \<open>r + m\<close>, but counted from when it started and not
  from now on: the time that has passed is lost twice, and the ability is ready at once unless more
  remains and is added than has passed.
\<close>

theorem adding_to_a_running_cooldown:
  assumes "ob_cooldowns x a = Some (of_nat (s + e + r), of_nat (e + r))"
    and "s + e + r + m < 2 ^ 64" and "e + r + m < 2 ^ 32"
  shows "fst (AddCooldown (of_nat (s + e)) a (of_nat m) x) = (of_nat (s + r + m), of_nat (r + m)) \<and>
    (HasCooldown (of_nat (s + e)) a (snd (AddCooldown (of_nat (s + e)) a (of_nat m) x)) \<longleftrightarrow> e < r + m)"
proof -
  have m: "(ucast (of_nat m :: u32) :: u64) = of_nat m" using assms(3) by (intro ucast_of_nat_small) simp
  have rm: "(ucast (of_nat (r + m) :: u64) :: u32) = of_nat (r + m)" "(ucast (of_nat (r + m) :: u32) :: u64) = of_nat (r + m)"
    "(ucast (of_nat (e + r) :: u32) :: u64) = of_nat (e + r)"
    using assms by (intro ucast_of_nat_small; simp)+
  have "\<not> (of_nat (s + e + r) :: u64) < of_nat (s + e)"
    using of_nat_less_small [of "s + e + r" "s + e"] assms(2) by simp
  moreover have "(of_nat (s + e + r) :: u64) - of_nat (s + e) + of_nat m = of_nat (r + m)" by simp
  moreover have "(of_nat (s + e + r) :: u64) - of_nat (e + r) + of_nat (r + m) = of_nat (s + r + m)" by simp
  ultimately have c: "fst (AddCooldown (of_nat (s + e)) a (of_nat m) x) = (of_nat (s + r + m), of_nat (r + m))"
    unfolding AddCooldown_def Let_def assms(1) option.case prod.case m rm fst_conv by (simp only: if_False rm)
  then have "ob_cooldowns (snd (AddCooldown (of_nat (s + e)) a (of_nat m) x)) a = Some (of_nat (s + r + m), of_nat (r + m))"
    by (simp add: AddCooldown_def Let_def)
  then have "HasCooldown (of_nat (s + e)) a (snd (AddCooldown (of_nat (s + e)) a (of_nat m) x)) \<longleftrightarrow>
      (of_nat (s + e) :: u64) < of_nat (s + r + m)" by (simp add: HasCooldown_def del: of_nat_add)
  also have "\<dots> \<longleftrightarrow> e < r + m" using of_nat_less_small [of "s + e" "s + r + m"] assms(2,3) by simp
  finally show ?thesis using c by blast
qed

text \<open>Started at 0 for a second, 500 milliseconds added after 900: it is over.\<close>

theorem adding_to_a_running_cooldown_witness:
  "\<not> HasCooldown 900 5 (snd (AddCooldown 900 5 500
     ((Object_new \<lparr>qx = 0, qy = 0, qz = 0, qw = 0\<rparr> 0 1 2)\<lparr>ob_cooldowns := [5 \<mapsto> (1000, 1000)]\<rparr>)))"
  using adding_to_a_running_cooldown [of
      "(Object_new \<lparr>qx = 0, qy = 0, qz = 0, qw = 0\<rparr> 0 1 2)\<lparr>ob_cooldowns := [5 \<mapsto> (1000, 1000)]\<rparr>" 5 0 900 100 500]
  by simp

subsection \<open>Health and energy\<close>

lemma f32_zero [simp]: "\<not> f32_nan 0" "f32_key 0 = 0"
  by (simp_all add: f32_nan_def f32_key_def)

lemma clamp_bounds:
  fixes v m :: f32
  defines "h \<equiv> f32_max 0 (f32_min v m)"
  shows "\<not> f32_nan h \<and> \<not> f32_less h 0" and "\<not> f32_nan m \<Longrightarrow> \<not> f32_less m 0 \<Longrightarrow> \<not> f32_less m h"
    and "\<not> f32_nan v \<Longrightarrow> \<not> f32_less v 0 \<Longrightarrow> \<not> f32_less m v \<Longrightarrow> f32_eq h v"
  unfolding h_def f32_max_def f32_min_def f32_less_def f32_eq_def by (auto split: if_splits)

text \<open>The value \<open>h\<close> that is stored for \<open>v\<close> below a maximum \<open>m\<close>.\<close>

definition in_bounds :: "f32 \<Rightarrow> f32 \<Rightarrow> f32 \<Rightarrow> bool" where
  "in_bounds h v m \<longleftrightarrow> \<not> f32_nan h \<and> \<not> f32_less h 0 \<and> (f32_nan m \<or> f32_less m 0 \<or> \<not> f32_less m h) \<and>
     (f32_nan v \<or> f32_less v 0 \<or> f32_less m v \<or> f32_eq h v)"

lemma clamp_in_bounds: "in_bounds (f32_max 0 (f32_min v m)) v m"
  using clamp_bounds [where v = v and m = m] unfolding in_bounds_def by blast

lemma combatant_flag: "(w OR UpdateCombatant) AND UpdateFlags \<noteq> 0"
proof -
  have "bit ((w OR UpdateCombatant) AND UpdateFlags) 3"
    by (simp add: bit_or_iff bit_and_iff UpdateFlags_def UpdateCombatant_def UpdateAttributes_def UpdateLootData_def
        UpdateAgentBlackboardData_def UpdateInteractableData_def UpdateLocomotion_def)
  then show ?thesis by (metis bit_0_eq bot_apply bot_bool_def)
qed

text \<open>
  C25: Whatever value is set, also a NaN or an infinity, the health and the energy of a combatant are
  numbers and not negative, and not above the maximum as long as the maximum is a number that is not
  negative; a value between zero and the maximum is stored as it is; and the change is marked for
  the clients.
\<close>

theorem health_stays_in_bounds:
  assumes "ob_combatant x \<noteq> None"
  shows "in_bounds (GetHealth (SetObjectHealth v x)) v (GetMaxHealth x) \<and> ObjectNeedUpdate (SetObjectHealth v x) \<and>
    in_bounds (GetMana (SetObjectMana v x)) v (GetMaxMana x) \<and> ObjectNeedUpdate (SetObjectMana v x)"
  using assms clamp_in_bounds combatant_flag
  by (auto simp: SetObjectHealth_def GetHealth_def SetObjectMana_def GetMana_def set_flag_def ObjectNeedUpdate_def)

theorem health_stays_in_bounds_witness:
  "\<not> f32_less (GetHealth (SetObjectHealth 0xFF800000
      ((Object_new \<lparr>qx = 0, qy = 0, qz = 0, qw = 0\<rparr> 0 1 2)\<lparr>ob_combatant := Some CombatantData_new\<rparr>))) 0"
  using health_stays_in_bounds [of "(Object_new \<lparr>qx = 0, qy = 0, qz = 0, qw = 0\<rparr> 0 1 2)\<lparr>ob_combatant := Some CombatantData_new\<rparr>"]
  by (simp add: in_bounds_def)

subsection \<open>Two writers of one format\<close>

text \<open>What \<open>RakNet/Types.h\<close> calls the object and its data.\<close>

definition object_structure :: "game_object \<Rightarrow> sporelabsObject" where
  "object_structure x =
     \<lparr>mTeam = ob_team x, mbPlayerControlled = ob_playerControlled x, mInputSyncStamp = ob_inputSyncStamp x,
      mPlayerIdx = ob_playerIndex x, mLinearVelocity = ob_linearVelocity x, mAngularVelocity = ob_angularVelocity x,
      mPosition = ob_center x, mOrientation = ob_orientation x, mScale = ob_scale x, mMarkerScale = ob_markerScale x,
      mLastAnimationState = ob_lastAnimationState x, mLastAnimationPlayTimeMs = ob_lastAnimationPlayTime x,
      mOverrideMoveIdleAnimationState = ob_overrideMoveIdle x, mGraphicsState = ob_graphicsState x,
      mGraphicsStateStartTimeMs = ob_graphicsStateStartTime x, mNewGraphicsStateStartTimeMs = ob_newGraphicsStateStartTime x,
      mVisible = ob_visible x, mbHasCollision = ob_hasCollision x, mOwnerID = owner_id x, mMovementType = ob_movementType x,
      mDisableRepulsion = ob_disableRepulsion x, mInteractableState = ob_interactableState x,
      sourceMarkerKey_markerId = ob_markerId x\<rparr>"

definition combatant_structure :: "CombatantData \<Rightarrow> cCombatantData" where
  "combatant_structure d = \<lparr>mHitPoints = cb_hitPoints d, mManaPoints = cb_manaPoints d\<rparr>"

definition interactable_structure :: "InteractableData \<Rightarrow> cInteractableData" where
  "interactable_structure d =
     \<lparr>mNumTimesUsed = it_timesUsed d, mNumUsesAllowed = it_usesAllowed d, mInteractableAbility = it_ability d\<rparr>"

definition loot_structure :: "LootData \<Rightarrow> cLootData" where
  "loot_structure d =
     \<lparr>crystalLevel = lt_catalystLevel d, mId = lt_id d, mRigblockAsset = lt_rigblock d, mSuffixAssetId = lt_suffix d,
      mPrefixAssetId1 = lt_prefix d, mPrefixAssetId2 = lt_prefix2 d, mItemLevel = lt_itemLevel d, mRarity = lt_rarity d,
      mLootInstanceId = lt_instanceId d, mDNAAmount = lt_dna d\<rparr>"

definition blackboard_structure :: "AgentBlackboard \<Rightarrow> cAgentBlackboard" where
  "blackboard_structure d =
     \<lparr>targetId = bb_targetId d, mbInCombat = bb_inCombat d, mStealthType = bb_stealthType d,
      mbTargetable = bb_targetable d, mNumAttackers = bb_numAttackers d\<rparr>"

lemma parameters_same:
  "LobParameters_WriteTo = cLobParams_WriteTo" "ProjectileParameters_WriteTo = cProjectileParams_WriteTo"
  "LobParameters_WriteReflection = cLobParams_WriteReflection"
  "ProjectileParameters_WriteReflection = cProjectileParams_WriteReflection"
  by (simp_all add: fun_eq_iff LobParameters_WriteTo_def cLobParams_WriteTo_def ProjectileParameters_WriteTo_def
      cProjectileParams_WriteTo_def LobParameters_WriteReflection_def cLobParams_WriteReflection_def
      ProjectileParameters_WriteReflection_def cProjectileParams_WriteReflection_def)

lemma all_bits_23: "bit (- 1 :: 23 word) k \<longleftrightarrow> k < 23"
  by (simp add: bit_minus_1_iff)

lemma all_bits_18: "bit (- 1 :: 18 word) k \<longleftrightarrow> k < 18"
  by (simp add: bit_minus_1_iff)

text \<open>
  C35: The server writes an object and its data twice over, once from the structures of the protocol
  and once from its own classes.  The two agree: the images of objects, combatants, interactables,
  loot, agents and movements are the same writes, the reflections of the data are, and the
  reflections of an object and of a movement with every bit set are those of the structures.
\<close>

theorem classes_write_the_structures:
  "Object_WriteTo B x = sporelabsObject_WriteTo B (object_structure x) \<and>
   Object_WriteReflection B (x\<lparr>ob_bits := - 1\<rparr>) = sporelabsObject_WriteReflection B (object_structure x) \<and>
   CombatantData_WriteTo B c = cCombatantData_WriteTo B (combatant_structure c) \<and>
   CombatantData_WriteReflection B c = cCombatantData_WriteReflection B (combatant_structure c) \<and>
   InteractableData_WriteTo B i = cInteractableData_WriteTo B (interactable_structure i) \<and>
   InteractableData_WriteReflection B i = cInteractableData_WriteReflection B (interactable_structure i) \<and>
   LootData_WriteTo B l = cLootData_WriteTo B (loot_structure l) \<and>
   LootData_WriteReflection B l = cLootData_WriteReflection B (loot_structure l) \<and>
   AgentBlackboard_WriteTo B b = cAgentBlackboard_WriteTo B (blackboard_structure b) \<and>
   AgentBlackboard_WriteReflection B b = cAgentBlackboard_WriteReflection B (blackboard_structure b) \<and>
   Locomotion_WriteTo B m = LocomotionData_WriteTo B (lc_data m) \<and>
   Locomotion_WriteReflection B (m\<lparr>lc_bits := - 1\<rparr>) = LocomotionData_WriteReflection B (lc_data m)"
proof (intro conjI)
  show "Object_WriteTo B x = sporelabsObject_WriteTo B (object_structure x)"
    by (simp add: fun_eq_iff Object_WriteTo_def sporelabsObject_WriteTo_def object_structure_def)
  show "Object_WriteReflection B (x\<lparr>ob_bits := - 1\<rparr>) = sporelabsObject_WriteReflection B (object_structure x)"
    by (simp add: Object_WriteReflection_def sporelabsObject_WriteReflection_def object_structure_def writes_if_def
        all_bits_23 refl_fields_def owner_id_def)
  show "Locomotion_WriteTo B m = LocomotionData_WriteTo B (lc_data m)"
    by (simp add: fun_eq_iff Locomotion_WriteTo_def LocomotionData_WriteTo_def parameters_same Let_def)
  show "Locomotion_WriteReflection B (m\<lparr>lc_bits := - 1\<rparr>) = LocomotionData_WriteReflection B (lc_data m)"
    by (simp add: Locomotion_WriteReflection_def LocomotionData_WriteReflection_def Locomotion_writes_def writes_if_def
        all_bits_18 refl_fields_def parameters_same)
qed (simp_all add: fun_eq_iff CombatantData_WriteTo_def cCombatantData_WriteTo_def combatant_structure_def
    CombatantData_WriteReflection_def cCombatantData_WriteReflection_def InteractableData_WriteTo_def
    cInteractableData_WriteTo_def interactable_structure_def InteractableData_WriteReflection_def
    cInteractableData_WriteReflection_def LootData_WriteTo_def cLootData_WriteTo_def loot_structure_def
    LootData_WriteReflection_def cLootData_WriteReflection_def AgentBlackboard_WriteTo_def
    cAgentBlackboard_WriteTo_def blackboard_structure_def AgentBlackboard_WriteReflection_def
    cAgentBlackboard_WriteReflection_def)

subsection \<open>Updates of the clients\<close>

lemma writes_if_delivers:
  assumes "bitstream_laws B" and "list_all2 (\<lambda>(k, w) (k', bs). k = k' \<and> puts B w bs) ws fs" and "well_sized F ((!) ls) fs"
  shows "delivers B (reflect B F (refl_fields B F (writes_if B F b ws))) F ls (filter (\<lambda>(k, bs). bit b k) fs)"
proof -
  have w: "list_all2 (\<lambda>(k, w) (k', bs). k = k' \<and> puts B w bs) (filter (\<lambda>(k, w). bit b k) ws) (filter (\<lambda>(k, bs). bit b k) fs)"
    using assms(2) by (induction rule: list_all2_induct) auto
  have "writes_if B F b ws = filter (\<lambda>(k, w). bit b k) ws"
    by (simp add: writes_if_def)
  moreover have "well_sized F ((!) ls) (filter (\<lambda>(k, bs). bit b k) fs)"
    using assms(3) by (auto simp: well_sized_def sorted_wrt_map sorted_wrt_filter)
  ultimately show ?thesis using reflect_fields_puts [OF assms(1) w] by (simp add: deliversI)
qed

definition object_fields :: "game_object \<Rightarrow> (nat \<times> bytes) list" where
  "object_fields x = sporelabsObject_fields (object_structure x)"

definition object_sizes :: "nat list" where
  "object_sizes = [1, 1, 4, 1, 12, 12, 12, 16, 4, 4, 4, 8, 4, 4, 8, 8, 1, 1, 4, 1, 1, 4, 4]"

lemma Object_reflection_delivers:
  assumes "bitstream_laws B"
  shows "delivers B (Object_WriteReflection B x) 23 object_sizes (filter (\<lambda>(k, bs). bit (ob_bits x) k) (object_fields x))"
  unfolding Object_WriteReflection_def
proof (rule writes_if_delivers [OF assms])
  show "list_all2 (\<lambda>(k, w) (k', bs). k = k' \<and> puts B w bs)
     [(0, Write_u8 B (ob_team x)), (1, Write_bool B (ob_playerControlled x)), (2, Write_u32 B (ob_inputSyncStamp x)),
      (3, Write_u8 B (ob_playerIndex x)), (4, Write_vec3 B (ob_linearVelocity x)), (5, Write_vec3 B (ob_angularVelocity x)),
      (6, Write_vec3 B (ob_center x)), (7, Write_quat B (ob_orientation x)), (8, Write_f32 B (ob_scale x)),
      (9, Write_f32 B (ob_markerScale x)), (10, Write_u32 B (ob_lastAnimationState x)),
      (11, Write_u64 B (ob_lastAnimationPlayTime x)), (12, Write_u32 B (ob_overrideMoveIdle x)),
      (13, Write_u32 B (ob_graphicsState x)), (14, Write_u64 B (ob_graphicsStateStartTime x)),
      (15, Write_u64 B (ob_newGraphicsStateStartTime x)), (16, Write_bool B (ob_visible x)),
      (17, Write_bool B (ob_hasCollision x)), (18, Write_u32 B (owner_id x)), (19, Write_u8 B (ob_movementType x)),
      (20, Write_bool B (ob_disableRepulsion x)), (21, Write_u32 B (ob_interactableState x)),
      (22, Write_u32 B (ob_markerId x))] (object_fields x)"
    using puts_Write [OF assms] puts_fields [OF assms]
    by (simp add: object_fields_def sporelabsObject_fields_def object_structure_def)
  show "well_sized 23 ((!) object_sizes) (object_fields x)"
    by (simp add: well_sized_def object_fields_def sporelabsObject_fields_def object_sizes_def bytes_bool_def
        bytes_vec3_def bytes_quat_def)
qed

text \<open>The setters of what the clients get; \<open>SetPositionSimulated\<close> is not among them.\<close>

inductive object_set :: "game_object \<Rightarrow> game_object \<Rightarrow> bool" where
  "object_set x (SetPosition p x)" | "object_set x (SetOrientation q x)" | "object_set x (SetLinearVelocity p x)"
| "object_set x (SetAngularVelocity p x)" | "object_set x (SetOwnerObject w x)" | "object_set x (SetInputSyncStamp n x)"
| "object_set x (SetInteractableState n x)" | "object_set x (SetMarkerId n x)" | "object_set x (SetScale f x)"
| "object_set x (SetTeam t x)" | "object_set x (SetMovementType t x)" | "object_set x (SetPlayerIndex t x)"
| "object_set x (SetHasCollision c x)" | "object_set x (SetVisible c x)" | "object_set x (SetExtent p x)"
| "object_set x (SetDirty c x)" | "object_set x (SetAssetId n8 x)" | "object_set x (SetObjectHealth f x)"
| "object_set x (SetTargetable c x)" | "object_set x (SetInCombat c x)"

definition object_field :: "game_object \<Rightarrow> nat \<Rightarrow> bytes" where
  "object_field x k = snd (object_fields x ! k)"

lemma object_fields_nth: "k < 23 \<Longrightarrow> object_fields x ! k = (k, object_field x k)"
proof -
  have "map fst (object_fields x) = [0..<23]"
    by (simp add: object_fields_def sporelabsObject_fields_def upt_rec)
  moreover have "length (object_fields x) = 23" by (simp add: object_fields_def sporelabsObject_fields_def)
  ultimately show "k < 23 \<Longrightarrow> object_fields x ! k = (k, object_field x k)"
    by (metis add_0 length_map nth_map nth_upt object_field_def prod.collapse)
qed

definition kept_or_marked :: "game_object \<Rightarrow> game_object \<Rightarrow> bool" where
  "kept_or_marked x y \<longleftrightarrow>
     list_all2 (\<lambda>f g. fst f = fst g \<and> (f = g \<or> bit (ob_bits y) (fst g))) (object_fields x) (object_fields y) \<and>
     (\<forall>k. bit (ob_bits x) k \<longrightarrow> bit (ob_bits y) k)"

lemma kept_or_marked_refl: "kept_or_marked x x"
  by (simp add: kept_or_marked_def list_all2_same)

lemma kept_or_marked_trans:
  assumes "kept_or_marked x y" and "kept_or_marked y z"
  shows "kept_or_marked x z"
proof -
  have "list_all2 (\<lambda>f g. fst f = fst g \<and> (f = g \<or> bit (ob_bits z) (fst g))) (object_fields x) (object_fields z)"
    using assms unfolding kept_or_marked_def
    by (elim conjE) (erule (1) list_all2_trans [rotated], metis)
  then show ?thesis using assms by (simp add: kept_or_marked_def)
qed

lemmas object_setters = SetPosition_def SetPositionSimulated_def SetOrientation_def SetLinearVelocity_def
  SetAngularVelocity_def SetOwnerObject_def SetInputSyncStamp_def SetInteractableState_def SetMarkerId_def SetScale_def
  SetTeam_def SetMovementType_def SetPlayerIndex_def SetHasCollision_def SetVisible_def SetExtent_def SetDirty_def
  SetAssetId_def SetObjectHealth_def SetTargetable_def SetInCombat_def if_blackboard_def on_blackboard_def
  set_flag_def mark_bit_def

lemma object_set_marks: "object_set x y \<Longrightarrow> kept_or_marked x y"
  by (cases rule: object_set.cases, assumption)
    (simp_all add: kept_or_marked_def object_fields_def sporelabsObject_fields_def object_structure_def owner_id_def
      object_setters Let_def bit_set_bit_iff split: option.split)

lemma objects_set_mark: "object_set\<^sup>*\<^sup>* x y \<Longrightarrow> kept_or_marked x y"
  by (induction rule: rtranclp_induct) (auto intro: kept_or_marked_refl kept_or_marked_trans object_set_marks)

text \<open>
  C13: The clients have an object as it was at its last update.  After any setters in any order, the
  reflection of the object has at most the 23 fields of the format, in order and in the sizes that
  the client reads, and a client that puts what it gets over what it has, has the object as it is
  now.  (\<open>SetPositionSimulated\<close>, which leaves the position unmarked, is not one of the setters.)
\<close>

theorem object_update_reaches_the_clients:
  assumes "bitstream_laws B" and "ob_bits x = 0" and "object_set\<^sup>*\<^sup>* x y"
  shows "\<exists>fs. delivers B (Object_WriteReflection B y) 23 object_sizes fs \<and>
    (\<forall>k<23. receive fs (object_field x) k = object_field y k)"
proof -
  define fs where "fs = filter (\<lambda>(k, bs). bit (ob_bits y) k) (object_fields y)"
  have keys: "map fst (object_fields y) = [0..<23]"
    by (simp add: object_fields_def sporelabsObject_fields_def upt_rec)
  then have d: "distinct (map fst fs)" unfolding fs_def using distinct_map_filter distinct_upt by metis
  have "receive fs (object_field x) k = object_field y k" if k: "k < 23" for k
  proof (cases "bit (ob_bits y) k")
    case True
    have "(k, object_field y k) \<in> set (object_fields y)"
      using object_fields_nth [OF k] keys k by (metis length_map length_upt minus_nat.diff_0 nth_mem)
    then have "(k, object_field y k) \<in> set (rev fs)" using True by (simp add: fs_def)
    moreover have "distinct (map fst (rev fs))" using d by (metis distinct_rev rev_map)
    ultimately have "map_of (rev fs) k = Some (object_field y k)" by (rule map_of_is_SomeI [rotated])
    then show ?thesis by (simp add: receive_map_of)
  next
    case False
    then have "k \<notin> fst ` set fs" by (auto simp: fs_def)
    then have "map_of (rev fs) k = None" by (simp add: map_of_eq_None_iff)
    moreover have "object_field x k = object_field y k"
    proof -
      have "list_all2 (\<lambda>f g. fst f = fst g \<and> (f = g \<or> bit (ob_bits y) (fst g))) (object_fields x) (object_fields y)"
        using objects_set_mark [OF assms(3)] by (simp add: kept_or_marked_def)
      moreover have "length (object_fields x) = 23" by (simp add: object_fields_def sporelabsObject_fields_def)
      ultimately have "object_fields x ! k = object_fields y ! k"
        using False k object_fields_nth [OF k, of y] by (auto simp: list_all2_conv_all_nth)
      then show ?thesis by (simp add: object_field_def)
    qed
    ultimately show ?thesis by (simp add: receive_map_of)
  qed
  then show ?thesis using Object_reflection_delivers [OF assms(1), of y] unfolding fs_def by blast
qed

theorem object_update_reaches_the_clients_witness:
  "\<exists>fs. delivers mem_stream (Object_WriteReflection mem_stream
       (SetTeam 2 (SetVisible False (Object_new \<lparr>qx = 0, qy = 0, qz = 0, qw = 0\<rparr> 0 1 2)))) 23 object_sizes fs \<and>
     receive fs (object_field (Object_new \<lparr>qx = 0, qy = 0, qz = 0, qw = 0\<rparr> 0 1 2)) 0 = [2]"
proof -
  let ?x = "Object_new \<lparr>qx = 0, qy = 0, qz = 0, qw = 0\<rparr> 0 1 2"
  have "object_set\<^sup>*\<^sup>* ?x (SetTeam 2 (SetVisible False ?x))"
    by (meson object_set.intros r_into_rtranclp rtranclp.rtrancl_into_rtrancl)
  moreover have "ob_bits ?x = 0" by (simp add: Object_new_def)
  moreover have "object_field (SetTeam 2 x) 0 = [2]" for x
    by (simp add: object_field_def object_fields_def sporelabsObject_fields_def object_structure_def SetTeam_def mark_bit_def)
  ultimately show ?thesis using object_update_reaches_the_clients [OF mem_stream_laws, of ?x] by fastforce
qed

end
