(* ===== verification/GamePackets.thy ===== *)
theory GamePackets
  imports Chain GameStates Locomotion
begin

unbundle bit_operations_syntax

text \<open>
  The packets of a running game: the identifiers of \<open>source/RakNet/Types.h\<close>, the \<open>Send\<close> functions of
  \<open>source/RakNet/Server.cpp\<close> as what they write on a new stream, and the events of
  \<open>source/Game/ServerEvent.cpp\<close>.  A function that returns without sending gives \<open>None\<close>; objects are
  given by value, the object that is not there is \<open>None\<close>.  The switches for testing
  (\<open>DBG_SEND_\<close>...) are constants with the values of the source.  The address of the server, which the
  network library knows, is an argument of \<open>SendHelloPlayer\<close>, the angles of a rotation
  (\<open>glm::eulerAngles\<close>) are a function.
\<close>

subsection \<open>Identifiers\<close>

definition packet_names :: "(u8 \<times> string) list" where
  "packet_names = [
     (0x7F, ''HelloPlayerRequest''), (0x80, ''HelloPlayer''), (0x81, ''ReconnectPlayer''), (0x82, ''Connected''),
     (0x83, ''Goodbye''), (0x84, ''PlayerJoined''), (0x85, ''PartyMergeComplete''), (0x86, ''PlayerDeparted''),
     (0x87, ''VoteKickStarted''), (0x88, ''PlayerStatusUpdate''), (0x89, ''GameAborted''), (0x8A, ''GameState''),
     (0x8B, ''DirectorState''), (0x8C, ''ObjectCreate''), (0x8D, ''ObjectUpdate''), (0x8E, ''ObjectDelete''),
     (0x8F, ''ObjectJump''), (0x90, ''ObjectTeleport''), (0x91, ''ObjectPlayerMove''),
     (0x92, ''ForcePhysicsUpdate''), (0x93, ''PhysicsChanged''), (0x94, ''LocomotionDataUpdate''),
     (0x95, ''LocomotionDataUnreliableUpdate''), (0x96, ''AttributeDataUpdate''), (0x97, ''CombatantDataUpdate''),
     (0x98, ''InteractableDataUpdate''), (0x99, ''AgentBlackboardUpdate''), (0x9A, ''LootDataUpdate''),
     (0x9B, ''ServerEvent''), (0x9C, ''ActionCommandMsgs''), (0x9E, ''PlayerDamage''), (0x9F, ''LootSpawned''),
     (0xA0, ''LootAcquired''), (0xA1, ''LabsPlayerUpdate''), (0xA2, ''ModifierCreated''),
     (0xA3, ''ModifierUpdated''), (0xA4, ''ModifierDeleted''), (0xA5, ''SetAnimationState''),
     (0xA6, ''SetObjectGfxState''), (0xA7, ''PlayerCharacterDeploy''), (0xA8, ''ActionCommandResponse''),
     (0xA9, ''ChainVoteMsgs''), (0xAA, ''ChainLevelResultsMsgs''), (0xAB, ''ChainCashOutMsgs''),
     (0xAC, ''ChainPlayerMsgs''), (0xAD, ''ChainGameMsgs''), (0xAE, ''ChainGameOverMsgs''),
     (0xAF, ''QuickGameMsgs''), (0xB0, ''GamePrepareForStart''), (0xB1, ''GameStart''),
     (0xB2, ''CheatMessageDontUseInReleaseButDontChangeTheIndexOfTheMessagesBelowInCaseWeAreRunningOnADevServer''),
     (0xB3, ''ArenaPlayerMsgs''), (0xB4, ''ArenaLobbyMsgs''), (0xB5, ''ArenaGameMsgs''),
     (0xB6, ''ArenaResultsMsgs''), (0xB7, ''ObjectivesInitForLevel''), (0xB8, ''ObjectiveUpdated''),
     (0xB9, ''ObjectivesComplete''), (0xBA, ''CombatEvent''), (0xBB, ''JuggernautPlayerMsgs''),
     (0xBC, ''JuggernautLobbyMsgs''), (0xBD, ''JuggernautGameMsgs''), (0xBE, ''JuggernautResultsMsgs''),
     (0xBF, ''ReloadLevel''), (0xC0, ''GravityForceUpdate''), (0xC1, ''CooldownUpdate''),
     (0xC2, ''CrystalDragMessage''), (0xC3, ''CrystalMessage''), (0xC4, ''KillRacePlayerMsgs''),
     (0xC5, ''KillRaceLobbyMsgs''), (0xC6, ''KillRaceGameMsgs''), (0xC7, ''KillRaceResultsMsgs''),
     (0xC8, ''TutorialGameMsgs''), (0xC9, ''CinematicMsgs''), (0xCA, ''ObjectiveAdd''), (0xCB, ''LootDropMessage''),
     (0xCC, ''DebugPing'')]"
definition ID_HelloPlayerRequest :: u8 where "ID_HelloPlayerRequest = 0x7F"
definition ID_HelloPlayer :: u8 where "ID_HelloPlayer = 0x80"
definition ID_ReconnectPlayer :: u8 where "ID_ReconnectPlayer = 0x81"
definition ID_Connected :: u8 where "ID_Connected = 0x82"
definition ID_PlayerJoined :: u8 where "ID_PlayerJoined = 0x84"
definition ID_PartyMergeComplete :: u8 where "ID_PartyMergeComplete = 0x85"
definition ID_PlayerDeparted :: u8 where "ID_PlayerDeparted = 0x86"
definition ID_PlayerStatusUpdate :: u8 where "ID_PlayerStatusUpdate = 0x88"
definition ID_GameState :: u8 where "ID_GameState = 0x8A"
definition ID_DirectorState :: u8 where "ID_DirectorState = 0x8B"
definition ID_ObjectCreate :: u8 where "ID_ObjectCreate = 0x8C"
definition ID_ObjectUpdate :: u8 where "ID_ObjectUpdate = 0x8D"
definition ID_ObjectDelete :: u8 where "ID_ObjectDelete = 0x8E"
definition ID_ObjectJump :: u8 where "ID_ObjectJump = 0x8F"
definition ID_ObjectTeleport :: u8 where "ID_ObjectTeleport = 0x90"
definition ID_ObjectPlayerMove :: u8 where "ID_ObjectPlayerMove = 0x91"
definition ID_ForcePhysicsUpdate :: u8 where "ID_ForcePhysicsUpdate = 0x92"
definition ID_PhysicsChanged :: u8 where "ID_PhysicsChanged = 0x93"
definition ID_LocomotionDataUpdate :: u8 where "ID_LocomotionDataUpdate = 0x94"
definition ID_LocomotionDataUnreliableUpdate :: u8 where "ID_LocomotionDataUnreliableUpdate = 0x95"
definition ID_AttributeDataUpdate :: u8 where "ID_AttributeDataUpdate = 0x96"
definition ID_CombatantDataUpdate :: u8 where "ID_CombatantDataUpdate = 0x97"
definition ID_InteractableDataUpdate :: u8 where "ID_InteractableDataUpdate = 0x98"
definition ID_AgentBlackboardUpdate :: u8 where "ID_AgentBlackboardUpdate = 0x99"
definition ID_LootDataUpdate :: u8 where "ID_LootDataUpdate = 0x9A"
definition ID_ServerEvent :: u8 where "ID_ServerEvent = 0x9B"
definition ID_ActionCommandMsgs :: u8 where "ID_ActionCommandMsgs = 0x9C"
definition ID_LabsPlayerUpdate :: u8 where "ID_LabsPlayerUpdate = 0xA1"
definition ID_ModifierCreated :: u8 where "ID_ModifierCreated = 0xA2"
definition ID_ModifierUpdated :: u8 where "ID_ModifierUpdated = 0xA3"
definition ID_ModifierDeleted :: u8 where "ID_ModifierDeleted = 0xA4"
definition ID_SetAnimationState :: u8 where "ID_SetAnimationState = 0xA5"
definition ID_SetObjectGfxState :: u8 where "ID_SetObjectGfxState = 0xA6"
definition ID_PlayerCharacterDeploy :: u8 where "ID_PlayerCharacterDeploy = 0xA7"
definition ID_ActionCommandResponse :: u8 where "ID_ActionCommandResponse = 0xA8"
definition ID_ChainVoteMsgs :: u8 where "ID_ChainVoteMsgs = 0xA9"
definition ID_ChainPlayerMsgs :: u8 where "ID_ChainPlayerMsgs = 0xAC"
definition ID_ChainGameMsgs :: u8 where "ID_ChainGameMsgs = 0xAD"
definition ID_QuickGameMsgs :: u8 where "ID_QuickGameMsgs = 0xAF"
definition ID_GamePrepareForStart :: u8 where "ID_GamePrepareForStart = 0xB0"
definition ID_GameStart :: u8 where "ID_GameStart = 0xB1"
definition ID_ArenaGameMsgs :: u8 where "ID_ArenaGameMsgs = 0xB5"
definition ID_ObjectivesInitForLevel :: u8 where "ID_ObjectivesInitForLevel = 0xB7"
definition ID_ObjectiveUpdated :: u8 where "ID_ObjectiveUpdated = 0xB8"
definition ID_ObjectivesComplete :: u8 where "ID_ObjectivesComplete = 0xB9"
definition ID_CombatEvent :: u8 where "ID_CombatEvent = 0xBA"
definition ID_JuggernautGameMsgs :: u8 where "ID_JuggernautGameMsgs = 0xBD"
definition ID_ReloadLevel :: u8 where "ID_ReloadLevel = 0xBF"
definition ID_CooldownUpdate :: u8 where "ID_CooldownUpdate = 0xC1"
definition ID_CrystalDragMessage :: u8 where "ID_CrystalDragMessage = 0xC2"
definition ID_CrystalMessage :: u8 where "ID_CrystalMessage = 0xC3"
definition ID_KillRaceGameMsgs :: u8 where "ID_KillRaceGameMsgs = 0xC6"
definition ID_TutorialGameMsgs :: u8 where "ID_TutorialGameMsgs = 0xC8"
definition ID_CinematicMsgs :: u8 where "ID_CinematicMsgs = 0xC9"
definition ID_ObjectiveAdd :: u8 where "ID_ObjectiveAdd = 0xCA"
definition ID_LootDropMessage :: u8 where "ID_LootDropMessage = 0xCB"
definition ID_DebugPing :: u8 where "ID_DebugPing = 0xCC"

definition to_string_packet :: "u8 \<Rightarrow> string" where
  "to_string_packet p = (case map_of packet_names p of Some s \<Rightarrow> s | None \<Rightarrow> ''unknown packet type'')"

definition labs_CharacterMask :: u16 where "labs_CharacterMask = 0x0007"
definition labs_CrystalMask :: u16 where "labs_CrystalMask = 0x0FF8"

text \<open>The identifier of an object; \<open>Chain\<close> has a field of the same name.\<close>

definition GetObjectId :: "game_object \<Rightarrow> u32" where "GetObjectId x = game_object.ob_id x"

definition DBG_SEND_SERVER_EVENT :: bool where "DBG_SEND_SERVER_EVENT \<longleftrightarrow> False"
definition DBG_SEND_OBJECT_SPAWNS :: bool where "DBG_SEND_OBJECT_SPAWNS \<longleftrightarrow> True"
definition DBG_SEND_TELEPORTS :: bool where "DBG_SEND_TELEPORTS \<longleftrightarrow> True"
definition DBG_SEND_LOOT_UPDATE :: bool where "DBG_SEND_LOOT_UPDATE \<longleftrightarrow> False"
definition DBG_SEND_INTERACTABLE_UPDATE :: bool where "DBG_SEND_INTERACTABLE_UPDATE \<longleftrightarrow> True"

subsection \<open>Events\<close>

record ServerEvent =
  se_orientation :: quat
  se_position :: vec3
  se_facing :: vec3
  se_targetPoint :: vec3
  se_simpleSwarmEffectId :: u32
  se_serverEventDef :: u32
  se_objectId :: u32
  se_secondaryObjectId :: u32
  se_attackerId :: u32
  se_effectIndex :: u8
  se_ignoreFlags :: u8
  se_remove :: bool
  se_hardStop :: bool
  se_forceAttach :: bool
  se_critical :: bool

definition ServerEvent_new :: ServerEvent where
  "ServerEvent_new = \<lparr>se_orientation = \<lparr>qx = 0, qy = 0, qz = 0, qw = 0\<rparr>, se_position = vec3_zero, se_facing = vec3_zero,
     se_targetPoint = vec3_zero, se_simpleSwarmEffectId = 0, se_serverEventDef = 0, se_objectId = 0,
     se_secondaryObjectId = 0, se_attackerId = 0, se_effectIndex = 0, se_ignoreFlags = 0, se_remove = False,
     se_hardStop = False, se_forceAttach = False, se_critical = False\<rparr>"

definition ServerEvent_valid :: "ServerEvent \<Rightarrow> bool" where
  "ServerEvent_valid e \<longleftrightarrow> se_serverEventDef e \<noteq> 0 \<or> se_simpleSwarmEffectId e \<noteq> 0 \<or> (se_remove e \<and> se_effectIndex e \<noteq> 0)"

definition ServerEvent_WriteReflection :: "'s bitstream \<Rightarrow> ServerEvent \<Rightarrow> 's \<Rightarrow> 's" where
  "ServerEvent_WriteReflection B e = reflect B 26 (refl_fields B 26
     [(0, Write_u32 B (se_simpleSwarmEffectId e)), (1, Write_u8 B (se_effectIndex e)), (2, Write_bool B (se_remove e)),
      (3, Write_bool B (se_hardStop e)), (4, Write_bool B (se_forceAttach e)), (5, Write_bool B (se_critical e)),
      (6, Write_u32 B (se_serverEventDef e)), (7, Write_u32 B (se_objectId e)), (8, Write_u32 B (se_secondaryObjectId e)),
      (9, Write_u32 B (se_attackerId e)), (10, Write_vec3 B (se_position e)), (11, Write_vec3 B (se_facing e)),
      (12, Write_quat B (se_orientation e)), (13, Write_vec3 B (se_targetPoint e)), (16, Write_u8 B (se_ignoreFlags e))])"

record ClientEvent =
  ce_lootInstanceId :: u64
  ce_lootReferenceId :: u64
  ce_lootCreationTime :: u64
  ce_eventId :: u32
  ce_lootRigblockId :: u32
  ce_lootSuffixAssetId :: u32
  ce_lootPrefixAssetId1 :: u32
  ce_lootPrefixAssetId2 :: u32
  ce_objectId :: u32
  ce_lootItemLevel :: u32
  ce_lootRarity :: u32
  ce_textValue :: u32
  ce_ignoreFlags :: u8

definition ClientEvent_new :: ClientEvent where
  "ClientEvent_new = \<lparr>ce_lootInstanceId = 0, ce_lootReferenceId = 0, ce_lootCreationTime = 0, ce_eventId = 0,
     ce_lootRigblockId = 0, ce_lootSuffixAssetId = 0, ce_lootPrefixAssetId1 = 0, ce_lootPrefixAssetId2 = 0,
     ce_objectId = 0, ce_lootItemLevel = 0, ce_lootRarity = 0, ce_textValue = 0, ce_ignoreFlags = 0\<rparr>"

definition LootPickup :: u32 where "LootPickup = 0x615F3861"
definition LootPlayerDrop :: u32 where "LootPlayerDrop = 0xA717F30B"
definition CatalystPickup :: u32 where "CatalystPickup = 0x6EA4091E"

definition ClientEvent_valid :: "ClientEvent \<Rightarrow> bool" where "ClientEvent_valid e \<longleftrightarrow> ce_eventId e \<noteq> 0"

definition SetLootPickup_part :: "u8 \<Rightarrow> part \<Rightarrow> ClientEvent \<Rightarrow> ClientEvent" where
  "SetLootPickup_part playerId p e = e\<lparr>ce_eventId := LootPickup, ce_textValue := ucast playerId, ce_lootReferenceId := 0,
     ce_lootRigblockId := mRigblockAssetHash p, ce_lootSuffixAssetId := mSuffixAssetHash p,
     ce_lootPrefixAssetId1 := mPrefixAssetHash p, ce_lootPrefixAssetId2 := mPrefixSecondaryAssetHash p,
     ce_lootItemLevel := ucast (Parts.mLevel p), ce_lootRarity := ucast (Parts.mRarity p), ce_lootCreationTime := mTimestamp p\<rparr>"

definition SetLootPickup :: "u64 \<Rightarrow> u8 \<Rightarrow> LootData \<Rightarrow> ClientEvent \<Rightarrow> ClientEvent" where
  "SetLootPickup now playerId l e = e\<lparr>ce_eventId := LootPickup, ce_textValue := ucast playerId, ce_lootReferenceId := 0,
     ce_lootRigblockId := lt_rigblock l, ce_lootSuffixAssetId := lt_suffix l, ce_lootPrefixAssetId1 := lt_prefix l,
     ce_lootPrefixAssetId2 := lt_prefix2 l, ce_lootItemLevel := lt_itemLevel l, ce_lootRarity := lt_rarity l,
     ce_lootCreationTime := now\<rparr>"

definition SetCatalystPickup :: "u8 \<Rightarrow> ClientEvent \<Rightarrow> ClientEvent" where
  "SetCatalystPickup playerId e = e\<lparr>ce_eventId := CatalystPickup, ce_textValue := ucast playerId\<rparr>"

definition SetPlayerDropLoot :: "u8 \<Rightarrow> u64 \<Rightarrow> ClientEvent \<Rightarrow> ClientEvent" where
  "SetPlayerDropLoot playerId lootInstanceId e =
     e\<lparr>ce_eventId := LootPlayerDrop, ce_textValue := ucast playerId, ce_lootInstanceId := lootInstanceId\<rparr>"

definition ClientEvent_WriteReflection :: "'s bitstream \<Rightarrow> ClientEvent \<Rightarrow> 's \<Rightarrow> 's" where
  "ClientEvent_WriteReflection B e = reflect B 26 (refl_fields B 26
     [(7, Write_u32 B (ce_objectId e)), (14, Write_u32 B (ce_textValue e)), (15, Write_u32 B (ce_eventId e)),
      (16, Write_u8 B (ce_ignoreFlags e)), (17, Write_u64 B (ce_lootReferenceId e)), (18, Write_u64 B (ce_lootInstanceId e)),
      (19, Write_u32 B (ce_lootRigblockId e)), (20, Write_u32 B (ce_lootSuffixAssetId e)),
      (21, Write_u32 B (ce_lootPrefixAssetId1 e)), (22, Write_u32 B (ce_lootPrefixAssetId2 e)),
      (23, Write_u32 B (ce_lootItemLevel e)), (24, Write_u32 B (ce_lootRarity e)), (25, Write_u64 B (ce_lootCreationTime e))])"

record Game_CombatEvent =
  cv_direction :: vec3
  cv_flags :: u32
  cv_targetId :: u32
  cv_sourceId :: u32
  cv_abilityId :: u32
  cv_integerHpChange :: u32
  cv_deltaHealth :: f32
  cv_absorbedAmount :: f32

definition Game_CombatEvent_WriteReflection :: "'s bitstream \<Rightarrow> Game_CombatEvent \<Rightarrow> 's \<Rightarrow> 's" where
  "Game_CombatEvent_WriteReflection B e = reflect B 8 (refl_fields B 8
     [(0, Write_u32 B (cv_flags e)), (1, Write_f32 B (cv_deltaHealth e)), (2, Write_f32 B (cv_absorbedAmount e)),
      (3, Write_u32 B (cv_targetId e)), (4, Write_u32 B (cv_sourceId e)), (5, Write_u32 B (cv_abilityId e)),
      (6, Write_vec3 B (cv_direction e)), (7, Write_u32 B (cv_integerHpChange e))])"

subsection \<open>Packets\<close>

definition game_packet :: "'s bitstream \<Rightarrow> u8 \<Rightarrow> ('s \<Rightarrow> 's) list \<Rightarrow> 's \<Rightarrow> 's" where
  "game_packet B i ws = in_order (StreamWrite8 B i # ws)"

text \<open>A packet about an object, if there is one.\<close>

definition about :: "game_object option \<Rightarrow> (game_object \<Rightarrow> 's \<Rightarrow> 's) \<Rightarrow> ('s \<Rightarrow> 's) option" where
  "about x f = map_option f x"

text \<open>The address as four bytes in the order of memory, and the port in network order.\<close>

definition SendHelloPlayer :: "'s bitstream \<Rightarrow> bytes \<Rightarrow> u16 \<Rightarrow> u8 \<Rightarrow> 's \<Rightarrow> 's" where
  "SendHelloPlayer B ip port client = game_packet B ID_HelloPlayer
     [StreamWrite8 B 0, StreamWrite8 B client, in_order (map (StreamWrite8 B) ip), StreamWrite16 B port]"

definition SendConnected :: "'s bitstream \<Rightarrow> 's \<Rightarrow> 's" where "SendConnected B = game_packet B ID_Connected []"

definition SendPlayerJoined :: "'s bitstream \<Rightarrow> u8 \<Rightarrow> 's \<Rightarrow> 's" where
  "SendPlayerJoined B client = game_packet B ID_PlayerJoined [StreamWrite8 B client]"

definition SendPlayerDeparted :: "'s bitstream \<Rightarrow> u8 \<Rightarrow> 's \<Rightarrow> 's" where
  "SendPlayerDeparted B client = game_packet B ID_PlayerDeparted [StreamWrite8 B client]"

definition SendPlayerStatusUpdate :: "'s bitstream \<Rightarrow> u8 \<Rightarrow> 's \<Rightarrow> 's" where
  "SendPlayerStatusUpdate B playerState = game_packet B ID_PlayerStatusUpdate [StreamWrite8 B playerState]"

text \<open>The two packets with the state of the game; the second is a broadcast that nothing calls.\<close>

definition SendGameState :: "'s bitstream \<Rightarrow> u64 \<Rightarrow> u64 \<Rightarrow> u32 \<Rightarrow> u8 \<Rightarrow> 's \<Rightarrow> 's" where
  "SendGameState B time elapsed state type = game_packet B ID_GameState
     [Write_u64 B time, Write_u64 B elapsed, Write_u8 B (ucast state), Write_u32 B (ucast type), Write_u32 B 1]"

definition SendGameState_all :: "'s bitstream \<Rightarrow> u64 \<Rightarrow> 's \<Rightarrow> 's" where
  "SendGameState_all B elapsed = game_packet B ID_GameState
     [Write_u64 B 0, Write_u64 B elapsed, Write_u8 B 6, Write_u32 B 2, Write_u32 B 1]"

definition labs_characters :: "'s bitstream \<Rightarrow> u16 \<Rightarrow> Player \<Rightarrow> ('s \<Rightarrow> 's) list" where
  "labs_characters B ub p =
     (if ub AND labs_CharacterMask \<noteq> 0
      then concat (map (\<lambda>i. if ub AND push_bit i 1 \<noteq> 0 then [Character_WriteReflection B (mCharacterData p ! i)] else [])
        [0..<3]) else [])"

definition labs_catalysts :: "'s bitstream \<Rightarrow> u16 \<Rightarrow> Player \<Rightarrow> ('s \<Rightarrow> 's) list" where
  "labs_catalysts B ub p =
     (if ub AND labs_CrystalMask \<noteq> 0
      then concat (map (\<lambda>i. if ub AND push_bit i CrystalBits \<noteq> 0 then [Catalyst_WriteReflection B (mCatalysts p ! i)] else [])
        [0..<9]) else [])"

definition SendLabsPlayerUpdate :: "'s bitstream \<Rightarrow> Player \<Rightarrow> ('s \<Rightarrow> 's) option" where
  "SendLabsPlayerUpdate B p =
     (let ub = mUpdateBits p in
      if ub = 0 then None
      else Some (game_packet B ID_LabsPlayerUpdate ([Write_u8 B (mPlayerIndex p), Write_u16 B ub]
        @ (if ub AND PlayerBits \<noteq> 0 then [Player_WriteReflection B p] else [])
        @ labs_characters B ub p @ labs_catalysts B ub p)))"

definition SendDirectorState :: "'s bitstream \<Rightarrow> cAIDirector \<Rightarrow> 's \<Rightarrow> 's" where
  "SendDirectorState B d = game_packet B ID_DirectorState [cAIDirector_WriteTo B d]"

definition SendPlayerCharacterDeploy :: "'s bitstream \<Rightarrow> Player \<Rightarrow> game_object option \<Rightarrow> u32 \<Rightarrow> ('s \<Rightarrow> 's) option" where
  "SendPlayerCharacterDeploy B p character creatureIndex = about character (\<lambda>x. game_packet B ID_PlayerCharacterDeploy
     [Write_u8 B (mPlayerIndex p), Write_u32 B creatureIndex, Write_u32 B (GetObjectId x)])"

definition create_data :: "(quat \<Rightarrow> vec3) \<Rightarrow> game_object \<Rightarrow> cGameObjectCreateData" where
  "create_data euler x =
     (let e = euler (ob_orientation x) in
      \<lparr>goc_noun = ob_noun x, goc_position = ob_center x, rotXDegrees = vx e, rotYDegrees = vy e, rotZDegrees = vz e,
       assetId = ob_assetId x, goc_scale = ob_scale x, goc_team = ob_team x, hasCollision = ob_hasCollision x,
       playerControlled = ob_playerControlled x\<rparr>)"

definition SendObjectCreate :: "'s bitstream \<Rightarrow> (quat \<Rightarrow> vec3) \<Rightarrow> game_object option \<Rightarrow> ('s \<Rightarrow> 's) option" where
  "SendObjectCreate B euler obj =
     (if \<not> DBG_SEND_OBJECT_SPAWNS then None
      else about obj (\<lambda>x. game_packet B ID_ObjectCreate
        [Write_u32 B (GetObjectId x), cGameObjectCreateData_WriteReflection B (create_data euler x), Object_WriteReflection B x]))"

definition SendObjectUpdate :: "'s bitstream \<Rightarrow> game_object option \<Rightarrow> ('s \<Rightarrow> 's) option" where
  "SendObjectUpdate B obj = about obj (\<lambda>x. game_packet B ID_ObjectUpdate [Write_u32 B (GetObjectId x), Object_WriteReflection B x])"

definition SendObjectDelete :: "'s bitstream \<Rightarrow> game_object option \<Rightarrow> ('s \<Rightarrow> 's) option" where
  "SendObjectDelete B obj = about obj (\<lambda>x. game_packet B ID_ObjectDelete [Write_u32 B (GetObjectId x)])"

definition SendObjectsDelete :: "'s bitstream \<Rightarrow> game_object list \<Rightarrow> ('s \<Rightarrow> 's) option" where
  "SendObjectsDelete B xs =
     (if xs = [] then None else Some (game_packet B ID_ObjectDelete (map (\<lambda>x. Write_u32 B (GetObjectId x)) xs)))"

text \<open>The offset is \<open>bits_to_bytes(0x34 + 1)\<close>, a number of bytes where bits are expected.\<close>

definition SendActionCancel :: "'s bitstream \<Rightarrow> u8 \<Rightarrow> u32 \<Rightarrow> 's \<Rightarrow> 's" where
  "SendActionCancel B v other = game_packet B ID_ActionCommandResponse
     [Write_u8 B v, Write_u8 B 0x02, SetWriteOffset B (bits_to_bytes (0x34 + 1)), Write_u32 B other]"

definition WriteDebugData :: "'s bitstream \<Rightarrow> nat \<Rightarrow> ('s \<Rightarrow> 's) list" where
  "WriteDebugData B n =
     map (\<lambda>i. Write_u8 B ([0x01, 0x23, 0x45, 0x67, 0x89, 0xAB, 0xCD, 0xEF] ! (i mod 8))) [0..<n]"

definition SendActionCommandResponse_type :: "'s bitstream \<Rightarrow> u64 \<Rightarrow> u8 \<Rightarrow> 's \<Rightarrow> 's" where
  "SendActionCommandResponse_type B time type = game_packet B ID_ActionCommandResponse
     ([Write_u8 B 0xFF, Write_u8 B type, Write_u8 B 0xAA, Write_u8 B 0xBB] @
      (if type = 0x01 then
         [Write_u32 B (hash_id ''TreeOfLife''), Write_u32 B 1, Write_u32 B 0, Write_u64 B (time + 1000),
          Write_u64 B (time + 2000), Write_u64 B (time + 3000), Write_u64 B (time + 4000), Write_u32 B 0, Write_u32 B 0x123456]
       else if type = 0x02 then WriteDebugData B 0x30 @ [Write_u32 B 0x11112222]
       else if type = 0x08 then WriteDebugData B 0x34
       else []))"

record AbilityCommandResponse =
  ar_cooldown :: u64
  ar_timeImmobilized :: u64
  ar_abilityId :: u32
  ar_userData :: u32

definition SendActionCommandResponse :: "'s bitstream \<Rightarrow> u64 \<Rightarrow> AbilityCommandResponse \<Rightarrow> 's \<Rightarrow> 's" where
  "SendActionCommandResponse B time d = game_packet B ID_ActionCommandResponse
     [Write_u8 B 0x00, Write_u8 B 0x01, Write_u8 B 0x00, Write_u8 B 0x00, Write_u32 B (ar_abilityId d), Write_u32 B 1,
      Write_u32 B 0, Write_u64 B 0, Write_u64 B (time + ar_timeImmobilized d), Write_u64 B (time + ar_cooldown d),
      Write_u64 B time, Write_u32 B 0, Write_u32 B (ar_userData d)]"

definition SendObjectJump ::
  "'s bitstream \<Rightarrow> game_object \<Rightarrow> vec3 \<Rightarrow> vec3 \<Rightarrow> f32 \<Rightarrow> f32 \<Rightarrow> f32 \<Rightarrow> f32 \<Rightarrow> 's \<Rightarrow> 's" where
  "SendObjectJump B x destination direction speed minJumpHeight maxJumpHeight rangeToHitMaxJumpHeight =
     game_packet B ID_ObjectJump
       [Write_u32 B (GetObjectId x), Write_vec3 B destination, Write_vec3 B direction, Write_f32 B speed,
        Write_f32 B minJumpHeight, Write_f32 B maxJumpHeight, Write_f32 B rangeToHitMaxJumpHeight]"

definition SendObjectTeleport :: "'s bitstream \<Rightarrow> game_object \<Rightarrow> vec3 \<Rightarrow> quat \<Rightarrow> ('s \<Rightarrow> 's) option" where
  "SendObjectTeleport B x position orientation =
     (if \<not> DBG_SEND_TELEPORTS then None
      else Some (game_packet B ID_ObjectTeleport [Write_u32 B (GetObjectId x), Write_vec3 B position, Write_quat B orientation]))"

definition SendObjectPlayerMove :: "'s bitstream \<Rightarrow> game_object \<Rightarrow> LocomotionData \<Rightarrow> 's \<Rightarrow> 's" where
  "SendObjectPlayerMove B x l = game_packet B ID_ObjectPlayerMove
     [Write_u32 B (GetObjectId x), Write_u32 B (mGoalFlags l), Write_vec3 B (mGoalPosition l), Write_vec3 B (mFacing l),
      Write_vec3 B (mExternalLinearVelocity l), Write_vec3 B (mExternalForce l), Write_f32 B (mAllowedStopDistance l),
      Write_f32 B (mDesiredStopDistance l), Write_vec3 B (mTargetPosition l), Write_u32 B (mTargetObjectId l)]"

definition SendForcePhysicsUpdate :: "'s bitstream \<Rightarrow> (quat \<Rightarrow> vec3) \<Rightarrow> game_object option \<Rightarrow> ('s \<Rightarrow> 's) option" where
  "SendForcePhysicsUpdate B euler obj = about obj (\<lambda>x. game_packet B ID_ForcePhysicsUpdate
     [Write_u32 B (GetObjectId x), Write_vec3 B (ob_center x), Write_vec3 B (euler (ob_orientation x)),
      Write_vec3 B (ob_linearVelocity x)])"

definition SendPhysicsChanged :: "'s bitstream \<Rightarrow> game_object option \<Rightarrow> bool \<Rightarrow> ('s \<Rightarrow> 's) option" where
  "SendPhysicsChanged B obj collides = about obj (\<lambda>x. game_packet B ID_PhysicsChanged
     [Write_u32 B (GetObjectId x), Write_bool B collides])"

definition SendLocomotionDataUpdate :: "'s bitstream \<Rightarrow> game_object option \<Rightarrow> locomotion \<Rightarrow> ('s \<Rightarrow> 's) option" where
  "SendLocomotionDataUpdate B obj l = about obj (\<lambda>x. game_packet B ID_LocomotionDataUpdate
     [Write_u32 B (GetObjectId x), Locomotion_WriteTo B l])"

definition SendLocomotionDataUnreliableUpdate :: "'s bitstream \<Rightarrow> game_object option \<Rightarrow> vec3 \<Rightarrow> ('s \<Rightarrow> 's) option" where
  "SendLocomotionDataUnreliableUpdate B obj position = about obj (\<lambda>x. game_packet B ID_LocomotionDataUnreliableUpdate
     [Write_u32 B (GetObjectId x), Write_vec3 B position])"

definition SendAttributeDataUpdate :: "'s bitstream \<Rightarrow> game_object option \<Rightarrow> attributes \<Rightarrow> ('s \<Rightarrow> 's) option" where
  "SendAttributeDataUpdate B obj a = about obj (\<lambda>x. game_packet B ID_AttributeDataUpdate
     [Write_u32 B (GetObjectId x), Attributes_WriteReflection B a])"

definition SendCombatantDataUpdate :: "'s bitstream \<Rightarrow> game_object option \<Rightarrow> CombatantData \<Rightarrow> ('s \<Rightarrow> 's) option" where
  "SendCombatantDataUpdate B obj d = about obj (\<lambda>x. game_packet B ID_CombatantDataUpdate
     [Write_u32 B (GetObjectId x), CombatantData_WriteReflection B d])"

definition SendInteractableDataUpdate :: "'s bitstream \<Rightarrow> game_object option \<Rightarrow> InteractableData \<Rightarrow> ('s \<Rightarrow> 's) option" where
  "SendInteractableDataUpdate B obj d =
     (if \<not> DBG_SEND_INTERACTABLE_UPDATE then None
      else about obj (\<lambda>x. game_packet B ID_InteractableDataUpdate [Write_u32 B (GetObjectId x), InteractableData_WriteTo B d]))"

definition SendAgentBlackboardUpdate :: "'s bitstream \<Rightarrow> game_object option \<Rightarrow> AgentBlackboard \<Rightarrow> ('s \<Rightarrow> 's) option" where
  "SendAgentBlackboardUpdate B obj d = about obj (\<lambda>x. game_packet B ID_AgentBlackboardUpdate
     [Write_u32 B (GetObjectId x), AgentBlackboard_WriteReflection B d])"

definition SendLootDataUpdate :: "'s bitstream \<Rightarrow> game_object option \<Rightarrow> LootData \<Rightarrow> ('s \<Rightarrow> 's) option" where
  "SendLootDataUpdate B obj d =
     (if \<not> DBG_SEND_LOOT_UPDATE then None
      else about obj (\<lambda>x. game_packet B ID_LootDataUpdate [Write_u32 B (GetObjectId x), LootData_WriteReflection B d]))"

definition SendCooldownUpdate :: "'s bitstream \<Rightarrow> game_object option \<Rightarrow> u32 \<Rightarrow> u64 \<Rightarrow> u32 \<Rightarrow> ('s \<Rightarrow> 's) option" where
  "SendCooldownUpdate B obj i start duration = about obj (\<lambda>x. game_packet B ID_CooldownUpdate
     [Write_u32 B (GetObjectId x), Write_u32 B i, Write_u32 B 0, Write_u64 B (ucast duration), Write_u64 B start, Write_u64 B 0])"

definition SendServerEvent :: "'s bitstream \<Rightarrow> ('s \<Rightarrow> 's) \<Rightarrow> ('s \<Rightarrow> 's) option" where
  "SendServerEvent B event = (if \<not> DBG_SEND_SERVER_EVENT then None else Some (game_packet B ID_ServerEvent [event]))"

definition SendActionCommandMessages :: "'s bitstream \<Rightarrow> 's \<Rightarrow> 's" where
  "SendActionCommandMessages B = game_packet B ID_ActionCommandMsgs []"

definition SendCombatEvent :: "'s bitstream \<Rightarrow> Game_CombatEvent \<Rightarrow> 's \<Rightarrow> 's" where
  "SendCombatEvent B e = game_packet B ID_CombatEvent [Game_CombatEvent_WriteReflection B e]"

definition SendModifierCreated :: "'s bitstream \<Rightarrow> u64 \<Rightarrow> game_object option \<Rightarrow> ('s \<Rightarrow> 's) option" where
  "SendModifierCreated B time obj = about obj (\<lambda>x. game_packet B ID_ModifierCreated
     [Write_u32 B (GetObjectId x), Write_u32 B (hash_id ''LightningRoguePassive''), Write_u32 B (GetObjectId x),
      Write_u32 B (60 * 1000), Write_u32 B 1, Write_u32 B 1, Write_u64 B time, Write_u32 B 0, Write_bool B False])"

definition SendModifierUpdated ::
  "'s bitstream \<Rightarrow> game_object option \<Rightarrow> u32 \<Rightarrow> u64 \<Rightarrow> u32 \<Rightarrow> bool \<Rightarrow> ('s \<Rightarrow> 's) option" where
  "SendModifierUpdated B obj modifierId timestamp stackCount bound = about obj (\<lambda>x. game_packet B ID_ModifierUpdated
     [Write_u32 B (GetObjectId x), Write_u32 B modifierId, Write_u64 B timestamp, Write_u32 B stackCount, Write_bool B bound])"

definition SendModifierDeleted :: "'s bitstream \<Rightarrow> game_object option \<Rightarrow> u32 \<Rightarrow> ('s \<Rightarrow> 's) option" where
  "SendModifierDeleted B obj modifierId = about obj (\<lambda>x. game_packet B ID_ModifierDeleted
     [Write_u32 B (GetObjectId x), Write_u32 B modifierId])"

definition SendAnimationState :: "'s bitstream \<Rightarrow> game_object \<Rightarrow> u32 \<Rightarrow> u64 \<Rightarrow> bool \<Rightarrow> f32 \<Rightarrow> 's \<Rightarrow> 's" where
  "SendAnimationState B x state timestamp over scale = game_packet B ID_SetAnimationState
     [Write_u32 B (GetObjectId x), Write_u32 B state, Write_u64 B timestamp, Write_bool B over, Write_f32 B scale,
      Write_u32 B state]"

definition SendObjectGfxState :: "'s bitstream \<Rightarrow> game_object \<Rightarrow> u32 \<Rightarrow> u64 \<Rightarrow> 's \<Rightarrow> 's" where
  "SendObjectGfxState B x state timestamp = game_packet B ID_SetObjectGfxState
     [Write_u32 B (GetObjectId x), Write_u32 B state, Write_u64 B timestamp]"

text \<open>
  Where a function changes the state of the client, the state comes with the packet.  The level of
  a chain past the end of the table is undefined.
\<close>

definition SendReconnectPlayer :: "'s bitstream \<Rightarrow> GameState \<Rightarrow> u32 \<Rightarrow> GameState \<Rightarrow> ('s \<Rightarrow> 's) option \<times> GameState" where
  "SendReconnectPlayer B newState code state =
     (case SetGameState newState state of (ok, state') \<Rightarrow>
        (if ok then Some (game_packet B ID_ReconnectPlayer [Write_u32 B code]) else None, state'))"

definition SendGamePrepareForStart ::
  "'s bitstream \<Rightarrow> chain \<Rightarrow> GameState \<Rightarrow> (('s \<Rightarrow> 's) option \<times> GameState) option" where
  "SendGamePrepareForStart B c state =
     (case SetGameState PreDungeon state of (ok, state') \<Rightarrow>
        if \<not> ok then Some (None, state')
        else do {
          markers \<leftarrow> GetMarkerSet c;
          Some (Some (game_packet B ID_GamePrepareForStart
            [Write_u32 B (Chain.mLevel c), Write_u32 B markers, Write_u32 B 1, Write_u32 B (mLevelIndex c)]), state')
        })"

definition SendGameStart :: "'s bitstream \<Rightarrow> chain \<Rightarrow> GameState \<Rightarrow> ('s \<Rightarrow> 's) option \<times> GameState" where
  "SendGameStart B c state =
     (if state \<noteq> PreDungeon then (None, state)
      else (case SetGameState Dungeon state of (ok, state') \<Rightarrow>
        (if ok then Some (game_packet B ID_GameStart [Write_u32 B (mLevelIndex c)]) else None, state')))"

text \<open>0x3FA00000 is 1.25; the case for \<open>PreDungeon\<close> in the first branch cannot be reached.\<close>

definition SendArenaGameMessages :: "'s bitstream \<Rightarrow> (GameState \<Rightarrow> u32) \<Rightarrow> GameState \<Rightarrow> 's \<Rightarrow> 's" where
  "SendArenaGameMessages B code state = game_packet B ID_ArenaGameMsgs
     (if state \<noteq> PreDungeon then
        Write_u8 B (ucast (code state)) #
        (if state = Spectator \<or> state = Replay then [Write_f32 B 0x3FA00000, Write_u32 B 0x00FA, Write_u32 B 0x00FB]
         else if state = Dungeon then WriteDebugData B 0x18
         else [])
      else [Write_u8 B 0x09, Write_f32 B 0x3FA00000, Write_u32 B 0x00FA, Write_u32 B 0x00FB])"

text \<open>0x41F00000 is 30.\<close>

definition SendChainVoteMessages :: "'s bitstream \<Rightarrow> chain \<Rightarrow> u8 \<Rightarrow> 's \<Rightarrow> 's" where
  "SendChainVoteMessages B c v = game_packet B ID_ChainVoteMsgs (Write_u8 B v #
     (if v = 0 then [ChainVoteData_WriteTo B c]
      else if v = 1 then [Write_f32 B 0x41F00000]
      else if v = 2 then [Write_bool B False]
      else []))"

definition SendChainCashOutMessages :: "'s bitstream \<Rightarrow> CashOutData \<Rightarrow> u8 \<Rightarrow> 's \<Rightarrow> 's" where
  "SendChainCashOutMessages B d v = game_packet B ID_ChainVoteMsgs
     (Write_u8 B v # (if v \<noteq> 0 then [CashOutData_WriteTo B d] else []))"

text \<open>The number of objectives is cut to eight bits.\<close>

definition counted :: "Objective list \<Rightarrow> Objective list" where "counted objs = take (length objs mod 256) objs"

definition SendObjectivesInitForLevel :: "'s bitstream \<Rightarrow> Objective list \<Rightarrow> 's \<Rightarrow> 's" where
  "SendObjectivesInitForLevel B objs = game_packet B ID_ObjectivesInitForLevel
     (Write_u8 B (of_nat (length objs)) # map (Objective_WriteTo B) (counted objs))"

definition SendObjectiveUpdate :: "'s bitstream \<Rightarrow> Objective list \<Rightarrow> u8 \<Rightarrow> u8 \<Rightarrow> u32 \<Rightarrow> ('s \<Rightarrow> 's) option" where
  "SendObjectiveUpdate B objs client i voiceover =
     (if unat i < length objs then
        (let obj = objs ! unat i in Some (game_packet B ID_ObjectiveUpdated
          [Write_u32 B (Objective.ob_id obj), Write_u8 B client, Write_u8 B (ob_medal obj), Write_u32 B voiceover, Write_bool B False,
           Write_u32 B (ob_value obj), Write_u32 B 2, Write_u32 B 3]))
      else None)"

text \<open>A medal is shifted by eight bits for each objective before it: undefined from the fifth on.\<close>

definition medals_of :: "Objective list \<Rightarrow> u32 option" where
  "medals_of objs =
     (if length objs \<le> 4
      then Some (fold (\<lambda>(i, m) w. w OR push_bit (8 * i) (ucast m)) (enumerate 0 (map ob_medal objs)) 0) else None)"

definition SendObjectivesComplete :: "'s bitstream \<Rightarrow> Objective list \<Rightarrow> ('s \<Rightarrow> 's) option" where
  "SendObjectivesComplete B objs = map_option (\<lambda>medals. game_packet B ID_ObjectivesComplete
     (Write_u8 B (of_nat (length objs)) # map (Objective_WriteTo B) (counted objs) @ [Write_u32 B medals]))
     (medals_of (counted objs))"

definition SendObjectiveAdd :: "'s bitstream \<Rightarrow> Objective \<Rightarrow> 's \<Rightarrow> 's" where
  "SendObjectiveAdd B obj = game_packet B ID_ObjectiveAdd [Objective_WriteTo B obj]"

definition SendPartyMergeComplete :: "'s bitstream \<Rightarrow> u64 \<Rightarrow> 's \<Rightarrow> 's" where
  "SendPartyMergeComplete B unix = game_packet B ID_PartyMergeComplete [Write_u64 B unix]"

definition SendReloadLevel :: "'s bitstream \<Rightarrow> 's \<Rightarrow> 's" where "SendReloadLevel B = game_packet B ID_ReloadLevel []"

definition SendCrystalMessage :: "'s bitstream \<Rightarrow> u8 \<Rightarrow> u32 \<Rightarrow> u32 \<Rightarrow> Catalyst \<Rightarrow> 's \<Rightarrow> 's" where
  "SendCrystalMessage B moveType slot newSlot c = game_packet B ID_CrystalMessage (Write_u8 B moveType #
     (if moveType = 0 then
        [Write_u32 B newSlot, Write_u32 B (ct_noun c), Write_u32 B (ucast (ct_rarity c)), Write_u32 B (ucast (ct_color c)),
         Write_u32 B 0, Write_u32 B 0, Write_u32 B 0]
      else
        [Write_u32 B 0, Write_u32 B 0, Write_u32 B 0, Write_u32 B 0, Write_u32 B 0, Write_u32 B slot, Write_u32 B newSlot]))"

definition SendQuickGame :: "'s bitstream \<Rightarrow> 's \<Rightarrow> 's" where
  "SendQuickGame B = game_packet B ID_QuickGameMsgs [Write_bool B True]"

definition SendChainGame :: "'s bitstream \<Rightarrow> u8 \<Rightarrow> 's \<Rightarrow> 's" where
  "SendChainGame B state = game_packet B ID_ChainGameMsgs [Write_u8 B state]"

definition SendJuggernautGame :: "'s bitstream \<Rightarrow> 's \<Rightarrow> 's" where
  "SendJuggernautGame B = game_packet B ID_JuggernautGameMsgs
     [Write_u8 B 3, Write_u8 B 0, Write_u16 B 1, Write_u16 B 2, Write_u16 B 3]"

definition SendKillRaceGame :: "'s bitstream \<Rightarrow> 's \<Rightarrow> 's" where
  "SendKillRaceGame B = game_packet B ID_KillRaceGameMsgs [Write_u8 B 7, Write_u32 B 1, Write_u16 B 2, Write_u8 B 3]"

text \<open>0x42C80000 is 100, 0x3FC28F5C is 1.52.\<close>

definition SendCinematic :: "'s bitstream \<Rightarrow> 's \<Rightarrow> 's" where
  "SendCinematic B = game_packet B ID_CinematicMsgs
     [Write_u32 B 9500, Write_u32 B 10000, Write_f32 B 0x42C80000, Write_f32 B 0x42C80000, Write_f32 B 0x42C80000,
      Write_f32 B 0x3FC28F5C]"

definition SendTutorial :: "'s bitstream \<Rightarrow> 's \<Rightarrow> 's" where
  "SendTutorial B = game_packet B ID_TutorialGameMsgs [Write_bool B True]"

definition SendDebugPing :: "'s bitstream \<Rightarrow> u64 \<Rightarrow> 's \<Rightarrow> 's" where
  "SendDebugPing B unix = game_packet B ID_DebugPing [Write_u64 B unix]"

definition SendTestPacket :: "'s bitstream \<Rightarrow> u8 \<Rightarrow> bytes \<Rightarrow> 's \<Rightarrow> 's" where
  "SendTestPacket B i data = game_packet B i (map (StreamWrite8 B) data)"

end
