(* ===== verification/World.thy ===== *)
theory World
  imports GamePackets Games
begin

unbundle bit_operations_syntax

text \<open>
  The world of a running game: the state that the thread of a game works on, the manager of its
  objects (\<open>source/Game/ObjectManager.cpp\<close>) and the sending functions of \<open>source/Game/Instance.cpp\<close>.

  Objects and players are held by shared pointers: each kind is a list, and a pointer is a place in
  it.  Places are never reused, so an object that the manager has forgotten lives on for those who
  still point to it.  What is sent is a list of addresses with the streams sent there.  The order in
  which the set of the active objects is walked is the order in which they were made.  The level, the
  chain, the objectives and the start of the game are those of \<open>Games\<close>; the players are here, because
  the clients share them.
\<close>

subsection \<open>State\<close>

record game_client =
  cl_id :: u8
  cl_user :: "nat option"
  cl_player :: "nat option"
  cl_var :: u64
  cl_code :: u32
  cl_type :: u8
  cl_state :: GameState

text \<open>The objects of the three characters are with the player.\<close>

record game_player =
  gp_player :: Player
  gp_objects :: "nat option list"

type_synonym address = nat

record 's running =
  rn_game :: game
  rn_started :: bool
  rn_time :: u64
  rn_timeLua :: u64
  rn_markers :: "u32 \<Rightarrow> Marker option"
  rn_dropped :: "nat list"
  rn_lootIds :: "u64 list"
  rn_store :: "game_object list"
  rn_byId :: "u32 \<Rightarrow> nat option"
  rn_active :: "nat list"
  rn_marked :: "nat list"
  rn_open :: "u32 list"
  rn_next :: u32
  rn_players :: "game_player list"
  rn_byUser :: "(int \<times> nat) list"
  rn_clients :: "(address \<times> game_client) list"
  rn_teleport :: bool
  rn_collisionTest :: bool
  rn_out :: "(address \<times> 's) list"

text \<open>
  What the thread finds outside: the stream library and an empty stream, the clock, the users with
  their templates, the nouns, the angles and sums of floats, what uninitialised memory holds, random
  choices, and the scripts, which may do anything to the world.  The numbers of the network library's
  own messages are its own.
\<close>

record noun_view =
  nv_type :: u32
  nv_creature :: bool
  nv_animation :: "(u8 \<Rightarrow> u32) option"

record library_ids =
  ID_TIMESTAMP :: u8
  ID_USER_PACKET_ENUM :: u8
  ID_DISCONNECTION_NOTIFICATION :: u8
  ID_NEW_INCOMING_CONNECTION :: u8
  ID_CONNECTION_LOST :: u8
  sizeof_RakNetTime :: nat

record 's outside =
  os_stream :: "'s bitstream"
  os_empty :: 's
  os_ids :: library_ids
  os_ip :: bytes
  os_port :: u16
  os_now :: u64
  os_unix :: u64
  os_users :: sessions
  os_env :: environment
  os_noun :: "u32 \<Rightarrow> noun_view option"
  os_initialize :: "game_object \<Rightarrow> game_object"
  os_identity :: quat
  os_euler :: "quat \<Rightarrow> vec3"
  os_quat :: "vec3 \<Rightarrow> quat"
  os_add :: "f32 \<Rightarrow> f32 \<Rightarrow> f32"
  os_floor :: "f32 \<Rightarrow> f32"
  os_junk32 :: u32
  os_junk64 :: u64
  os_junk_vec :: vec3
  os_random :: "nat \<Rightarrow> nat"
  os_octree :: "'s running \<Rightarrow> 's running"
  os_scripts :: "'s running \<Rightarrow> 's running"
  os_tick :: "nat \<Rightarrow> 's running \<Rightarrow> 's running"
  os_activate :: "nat \<Rightarrow> 's running \<Rightarrow> 's running"
  os_ability :: "u32 \<Rightarrow> (nat \<Rightarrow> nat option \<Rightarrow> vec3 \<Rightarrow> u32 \<Rightarrow> 's running \<Rightarrow> 's running) option"
  os_stop :: "nat \<Rightarrow> 's running \<Rightarrow> 's running"

text \<open>A game whose thread has just been started.\<close>

definition running_new :: "game \<Rightarrow> 's running" where
  "running_new g = \<lparr>rn_game = g, rn_started = False, rn_time = 0, rn_timeLua = 0, rn_markers = (\<lambda>_. None), rn_dropped = [],
     rn_lootIds = [0, 0, 0, 0], rn_store = [], rn_byId = (\<lambda>_. None), rn_active = [], rn_marked = [], rn_open = [],
     rn_next = 1, rn_players = [], rn_byUser = [], rn_clients = [], rn_teleport = True, rn_collisionTest = False,
     rn_out = []\<rparr>"

definition obj :: "'s running \<Rightarrow> nat \<Rightarrow> game_object" where "obj R a = rn_store R ! a"
definition the_player :: "'s running \<Rightarrow> nat \<Rightarrow> Player" where "the_player R p = gp_player (rn_players R ! p)"

definition with_object :: "nat \<Rightarrow> (game_object \<Rightarrow> game_object) \<Rightarrow> 's running \<Rightarrow> 's running" where
  "with_object a f R = R\<lparr>rn_store := (rn_store R)[a := f (obj R a)]\<rparr>"

definition try_object :: "nat \<Rightarrow> (game_object \<Rightarrow> game_object option) \<Rightarrow> 's running \<Rightarrow> 's running option" where
  "try_object a f R = map_option (\<lambda>x. with_object a (\<lambda>_. x) R) (f (obj R a))"

definition with_player :: "nat \<Rightarrow> (Player \<Rightarrow> Player) \<Rightarrow> 's running \<Rightarrow> 's running" where
  "with_player p f R =
     R\<lparr>rn_players := (rn_players R)[p := (rn_players R ! p)\<lparr>gp_player := f (the_player R p)\<rparr>]\<rparr>"

definition with_client :: "address \<Rightarrow> (game_client \<Rightarrow> game_client) \<Rightarrow> 's running \<Rightarrow> 's running" where
  "with_client a f R = R\<lparr>rn_clients := map (\<lambda>(b, c). (b, if b = a then f c else c)) (rn_clients R)\<rparr>"

definition client_at :: "address \<Rightarrow> 's running \<Rightarrow> game_client option" where
  "client_at a R = map_of (rn_clients R) a"

text \<open>\<open>Player::GetCharacterObject\<close> and \<open>GetDeployedCharacterObject\<close>.\<close>

definition GetCharacterObject :: "'s running \<Rightarrow> nat \<Rightarrow> u32 \<Rightarrow> nat option" where
  "GetCharacterObject R p i =
     (let os = gp_objects (rn_players R ! p) in if unat i < length os then os ! unat i else None)"

definition GetDeployedCharacterObject :: "'s running \<Rightarrow> nat \<Rightarrow> nat option" where
  "GetDeployedCharacterObject R p = GetCharacterObject R p (mCurrentDeckIndex (the_player R p))"

subsection \<open>Sending\<close>

definition post :: "'s outside \<Rightarrow> address \<Rightarrow> ('s \<Rightarrow> 's) \<Rightarrow> 's running \<Rightarrow> 's running" where
  "post X a w R = R\<lparr>rn_out := rn_out R @ [(a, w (os_empty X))]\<rparr>"

definition post_maybe :: "'s outside \<Rightarrow> address \<Rightarrow> ('s \<Rightarrow> 's) option \<Rightarrow> 's running \<Rightarrow> 's running" where
  "post_maybe X a w R = (case w of Some f \<Rightarrow> post X a f R | None \<Rightarrow> R)"

text \<open>The loop over the clients.\<close>

definition to_all :: "'s outside \<Rightarrow> ('s \<Rightarrow> 's) option \<Rightarrow> 's running \<Rightarrow> 's running" where
  "to_all X w R = fold (\<lambda>(a, c). post_maybe X a w) (rn_clients R) R"

subsection \<open>The manager of the objects\<close>

definition Manager_Get :: "u32 \<Rightarrow> 's running \<Rightarrow> nat option" where "Manager_Get i R = rn_byId R i"

text \<open>The identifiers that are free again are a stack, its top at the end.\<close>

definition GetNextObjectId :: "'s running \<Rightarrow> u32 \<times> 's running" where
  "GetNextObjectId R =
     (if rn_open R \<noteq> [] then (last (rn_open R), R\<lparr>rn_open := butlast (rn_open R)\<rparr>)
      else (rn_next R, R\<lparr>rn_next := rn_next R + 1\<rparr>))"

text \<open>An object under an identifier, unless it is zero or taken.\<close>

definition insert_object :: "(u32 \<Rightarrow> game_object) \<Rightarrow> 's running \<Rightarrow> nat option \<times> 's running" where
  "insert_object build R =
     (case GetNextObjectId R of (i, R) \<Rightarrow>
        if i = 0 \<or> rn_byId R i \<noteq> None then (None, R)
        else (Some (length (rn_store R)),
              R\<lparr>rn_store := rn_store R @ [build i], rn_byId := (rn_byId R)(i \<mapsto> length (rn_store R)),
                rn_active := rn_active R @ [length (rn_store R)]\<rparr>))"

definition Manager_Create :: "'s outside \<Rightarrow> u32 \<Rightarrow> 's running \<Rightarrow> nat option \<times> 's running" where
  "Manager_Create X noun = insert_object (\<lambda>i. os_initialize X (Object_new (os_identity X) (os_junk64 X) i noun))"

definition trigger_noun :: u32 where "trigger_noun = hash_id ''SecurityTeleporter.noun''"

definition TriggerVolume_new :: "'s outside \<Rightarrow> u32 \<Rightarrow> vec3 \<Rightarrow> f32 \<Rightarrow> game_object" where
  "TriggerVolume_new X i position radius =
     (SetPosition position (SetHasCollision False (SetScale 0 (Object_new (os_identity X) (os_junk64 X) i trigger_noun))))
       \<lparr>ob_extent := vec3_all radius\<rparr>"

definition CreateTrigger :: "'s outside \<Rightarrow> vec3 \<Rightarrow> f32 \<Rightarrow> 's running \<Rightarrow> nat option \<times> 's running" where
  "CreateTrigger X position radius = insert_object (\<lambda>i. TriggerVolume_new X i position radius)"

text \<open>A box that was not read has no extent.\<close>

definition create_for_marker :: "'s outside \<Rightarrow> Marker \<Rightarrow> 's running \<Rightarrow> nat option \<times> 's running" where
  "create_for_marker X m =
     (case mk_teleporter m of
        Some t \<Rightarrow> CreateTrigger X (mk_position m)
          (case tp_trigger t of Some v \<Rightarrow> (case tv_extent v of Some e \<Rightarrow> vx e | None \<Rightarrow> 0) | None \<Rightarrow> one_f32)
      | None \<Rightarrow> Manager_Create X (mk_noun m))"

definition marker_settings :: "'s outside \<Rightarrow> Marker \<Rightarrow> game_object \<Rightarrow> game_object option" where
  "marker_settings X m x =
     (let x = (if mk_overrideAssetId m > 0 then SetAssetId (mk_overrideAssetId m) x else x);
          x = SetMarkerId (mk_id m) (SetOrientation (os_quat X (mk_rotation m)) (SetPosition (mk_position m) x));
          x = (if mk_teleporter m = None then SetScale (mk_scale m) x else x)
      in (case mk_interactable m of None \<Rightarrow> Some x
          | Some d \<Rightarrow> do {
              x \<leftarrow> SetAbility (hash_id (mi_ability d)) (CreateInteractableData x);
              x \<leftarrow> SetUsesAllowed (mi_usesAllowed d) x;
              SetTimesUsed 0 x
            }))"

definition Manager_CreateMarker :: "'s outside \<Rightarrow> Marker \<Rightarrow> 's running \<Rightarrow> 's running option" where
  "Manager_CreateMarker X m R =
     (case create_for_marker X m R of
        (None, R) \<Rightarrow> Some R
      | (Some a, R) \<Rightarrow> map_option (os_activate X a) (try_object a (marker_settings X m) R))"

definition MarkForDeletion :: "nat \<Rightarrow> 's running \<Rightarrow> 's running" where
  "MarkForDeletion a R =
     with_object a (set_flag MarkedForDeletion)
       (if IsMarkedForDeletion (obj R a) then R else R\<lparr>rn_marked := rn_marked R @ [a]\<rparr>)"

subsection \<open>Sending about objects\<close>

definition Created :: u16 where "Created = 2"

definition Instance_SendObjectCreate :: "'s outside \<Rightarrow> nat option \<Rightarrow> 's running \<Rightarrow> bool \<times> 's running" where
  "Instance_SendObjectCreate X obj_ref R =
     (case obj_ref of
        None \<Rightarrow> (False, R)
      | Some a \<Rightarrow>
          if \<not> rn_started R then (False, R)
          else if ob_flags (obj R a) AND Created \<noteq> 0 then (True, R)
          else (True, with_object a (\<lambda>x. ResetUpdateBits (set_flag Created x))
                  (to_all X (SendObjectCreate (os_stream X) (os_euler X) (Some (obj R a))) R)))"

definition Instance_SendObjectDelete :: "'s outside \<Rightarrow> nat \<Rightarrow> 's running \<Rightarrow> 's running" where
  "Instance_SendObjectDelete X a R = to_all X (SendObjectDelete (os_stream X) (Some (obj R a))) R"

definition Instance_SendObjectsDelete :: "'s outside \<Rightarrow> nat list \<Rightarrow> 's running \<Rightarrow> 's running" where
  "Instance_SendObjectsDelete X os R = to_all X (SendObjectsDelete (os_stream X) (map (obj R) os)) R"

text \<open>What the game has of an object that is deployed.\<close>

definition SyncCharacterData :: "nat \<Rightarrow> 's running \<Rightarrow> 's running" where
  "SyncCharacterData p R =
     (case GetDeployedCharacterObject R p of
        None \<Rightarrow> R
      | Some a \<Rightarrow>
          (let x = obj R a; i = unat (mCurrentDeckIndex (the_player R p)) in
           with_player p (\<lambda>q. SetUpdateBits (push_bit i 1)
             (q\<lparr>mCharacterData := (mCharacterData q)[i :=
                SetMaxMana (GetMaxMana x) (SetMana (GetMana x) (SetMaxHealth (GetMaxHealth x) (SetHealth (GetHealth x)
                  (mCharacterData q ! i))))]\<rparr>)) R))"

text \<open>
  The packets about an object that a client gets, in their order.  The data are dereferenced when
  their flag is set.
\<close>

definition when_flag :: "u16 \<Rightarrow> u16 \<Rightarrow> 'd option \<Rightarrow> ('d \<Rightarrow> ('s \<Rightarrow> 's) option) \<Rightarrow> ('s \<Rightarrow> 's) option list option" where
  "when_flag flags f d w = (if flags AND f = 0 then Some [] else map_option (\<lambda>v. [w v]) d)"

definition movement_packet :: "'s outside \<Rightarrow> game_object \<Rightarrow> locomotion \<Rightarrow> ('s \<Rightarrow> 's) option" where
  "movement_packet X x l =
     (if ob_playerControlled x then Some (SendObjectPlayerMove (os_stream X) x (lc_data l))
      else if mGoalFlags (lc_data l) AND 0x20 \<noteq> 0
           then SendObjectTeleport (os_stream X) x (ob_center x) (os_quat X (mFacing (lc_data l)))
      else SendLocomotionDataUpdate (os_stream X) (Some x) l)"

definition update_packets :: "'s outside \<Rightarrow> game_object \<Rightarrow> ('s \<Rightarrow> 's) option list option" where
  "update_packets X x = do {
     let B = os_stream X;
     combatant \<leftarrow> when_flag (ob_flags x) UpdateCombatant (ob_combatant x) (SendCombatantDataUpdate B (Some x));
     attribute \<leftarrow> when_flag (ob_flags x) UpdateAttributes (ob_attributes x) (SendAttributeDataUpdate B (Some x));
     loot \<leftarrow> when_flag (ob_flags x) UpdateLootData (ob_loot x) (SendLootDataUpdate B (Some x));
     blackboard \<leftarrow> when_flag (ob_flags x) UpdateAgentBlackboardData (ob_blackboard x) (SendAgentBlackboardUpdate B (Some x));
     interactable \<leftarrow> when_flag (ob_flags x) UpdateInteractableData (ob_interactable x) (SendInteractableDataUpdate B (Some x));
     movement \<leftarrow> when_flag (ob_flags x) UpdateLocomotion (ob_locomotion x) (movement_packet X x);
     Some ((if ob_bits x \<noteq> 0 then [SendObjectUpdate B (Some x)] else [])
       @ combatant @ attribute @ loot @ blackboard @ interactable @ movement)
   }"

text \<open>The turn of the loop for a client: it dereferences the client's player, which a client has only after its hello.\<close>

definition update_client :: "'s outside \<Rightarrow> nat \<Rightarrow> address \<times> game_client \<Rightarrow> 's running \<Rightarrow> 's running option" where
  "update_client X a ac R = do {
     p \<leftarrow> cl_player (snd ac);
     let R = (if GetDeployedCharacterObject R p = Some a then SyncCharacterData p R else R);
     ps \<leftarrow> update_packets X (obj R a);
     Some (fold (post_maybe X (fst ac)) ps R)
   }"

definition Instance_SendObjectUpdate :: "'s outside \<Rightarrow> nat \<Rightarrow> 's running \<Rightarrow> 's running option" where
  "Instance_SendObjectUpdate X a R =
     (case Instance_SendObjectCreate X (Some a) R of (ok, R) \<Rightarrow>
        if \<not> ok then Some R
        else do {
          R \<leftarrow> each (update_client X a) (rn_clients R) R;
          Some (with_object a (\<lambda>x. ResetUpdateBits
            (if rn_clients R = [] then x else x\<lparr>ob_flags := ob_flags x AND NOT UpdateFlags\<rparr>)) R)
        })"

definition Instance_SendAnimationState :: "'s outside \<Rightarrow> nat option \<Rightarrow> u32 \<Rightarrow> bool \<Rightarrow> f32 \<Rightarrow> 's running \<Rightarrow> 's running" where
  "Instance_SendAnimationState X obj_ref state over scale R =
     (case obj_ref of None \<Rightarrow> R
      | Some a \<Rightarrow>
          (let R = (if \<not> over then with_object a (\<lambda>x. x\<lparr>ob_lastAnimationState := state, ob_lastAnimationPlayTime := rn_time R\<rparr>) R
                    else R)
           in to_all X (Some (SendAnimationState (os_stream X) (obj R a) state (rn_time R) over scale)) R))"

definition Instance_SendObjectGfxState :: "'s outside \<Rightarrow> nat option \<Rightarrow> u32 \<Rightarrow> 's running \<Rightarrow> 's running" where
  "Instance_SendObjectGfxState X obj_ref state R =
     (case obj_ref of None \<Rightarrow> R
      | Some a \<Rightarrow>
          (let R = with_object a (\<lambda>x. x\<lparr>ob_graphicsState := state, ob_graphicsStateStartTime := rn_time R\<rparr>) R
           in to_all X (Some (SendObjectGfxState (os_stream X) (obj R a) state (rn_time R))) R))"

definition Instance_SendServerEvent :: "'s outside \<Rightarrow> ServerEvent \<Rightarrow> 's running \<Rightarrow> 's running" where
  "Instance_SendServerEvent X e R =
     (if \<not> ServerEvent_valid e then R
      else to_all X (SendServerEvent (os_stream X) (ServerEvent_WriteReflection (os_stream X) e)) R)"

definition Instance_SendCombatEvent :: "'s outside \<Rightarrow> Game_CombatEvent \<Rightarrow> 's running \<Rightarrow> 's running" where
  "Instance_SendCombatEvent X e = to_all X (Some (SendCombatEvent (os_stream X) e))"

definition Instance_SendCooldownUpdate :: "'s outside \<Rightarrow> nat option \<Rightarrow> u32 \<Rightarrow> u64 \<Rightarrow> u32 \<Rightarrow> 's running \<Rightarrow> 's running" where
  "Instance_SendCooldownUpdate X obj_ref i start duration R =
     (case obj_ref of None \<Rightarrow> R
      | Some a \<Rightarrow> to_all X (SendCooldownUpdate (os_stream X) (Some (obj R a)) i start duration) R)"

definition Instance_SendLabsPlayerUpdate :: "'s outside \<Rightarrow> nat \<Rightarrow> 's running \<Rightarrow> 's running" where
  "Instance_SendLabsPlayerUpdate X p R =
     (if \<not> NeedUpdate (the_player R p) then R
      else with_player p Player_ResetUpdateBits (to_all X (SendLabsPlayerUpdate (os_stream X) (the_player R p)) R))"

text \<open>
  \<open>ObjectManager::Update\<close>.  The loop walks a hash set into which objects are inserted when they are
  made: a tick that makes an object invalidates the iterator, for which the model has no value.
\<close>

definition tick_object :: "'s outside \<Rightarrow> nat \<Rightarrow> 's running \<Rightarrow> 's running option" where
  "tick_object X a R =
     (let R' = os_tick X a R in
      if rn_active R' \<noteq> rn_active R then None
      else if ObjectNeedUpdate (obj R' a) then Instance_SendObjectUpdate X a R'
      else Some R')"

definition forget_object :: "nat \<Rightarrow> 's running \<Rightarrow> 's running" where
  "forget_object a R =
     (let i = GetObjectId (obj R a) in
      R\<lparr>rn_active := removeAll a (rn_active R), rn_byId := (rn_byId R)(i := None), rn_open := rn_open R @ [i]\<rparr>)"

definition Manager_Update :: "'s outside \<Rightarrow> 's running \<Rightarrow> 's running option" where
  "Manager_Update X R = do {
     let R = os_octree X R;
     R \<leftarrow> each (tick_object X) (rn_active R) R;
     Some (if rn_marked R = [] then R
           else (fold forget_object (rn_marked R) (Instance_SendObjectsDelete X (rn_marked R) R))\<lparr>rn_marked := []\<rparr>)
   }"

end
