(* ===== verification/GameActions.thy ===== *)
theory GameActions
  imports World
begin

unbundle bit_operations_syntax

text \<open>
  What happens in a running game, \<open>source/Game/Instance.cpp\<close>: moving, abilities, swapping characters,
  interacting, loot and catalysts, the death of an object, the start of a player and the periodic
  update.  \<open>None\<close> is undefined behaviour (a null pointer that is dereferenced).
\<close>

subsection \<open>Moving and abilities\<close>

definition MoveObject :: "'s outside \<Rightarrow> nat \<Rightarrow> locomotion \<Rightarrow> 's running \<Rightarrow> 's running" where
  "MoveObject X a l R =
     (let d = lc_data l;
          R = (if mGoalFlags d AND 0x002 \<noteq> 0 then with_object a (SetOrientation (os_quat X (mFacing d))) R else R)
      in if mGoalFlags d AND 0x020 \<noteq> 0
         then (let R = with_object a (SetPosition (mGoalPosition d)) R
               in to_all X (SendObjectTeleport (os_stream X) (obj R a) (ob_center (obj R a)) (ob_orientation (obj R a))) R)
         else (let R = with_object a (SetPosition (mPartialGoalPosition d)) R
               in to_all X (Some (SendObjectPlayerMove (os_stream X) (obj R a) d)) R))"

record CombatData =
  cd_targetPosition :: vec3
  cd_cursorPosition :: vec3
  cd_targetId :: u32
  cd_abilityId :: u32
  cd_abilityRank :: u32
  cd_valueFromActionResponse :: u32
  cd_unk :: "u32 list"

text \<open>The ability itself is a script.\<close>

definition UseAbility :: "'s outside \<Rightarrow> nat \<Rightarrow> CombatData \<Rightarrow> 's running \<Rightarrow> 's running" where
  "UseAbility X a d R =
     (if HasCooldown (rn_time R) (cd_abilityId d) (obj R a) then R
      else case os_ability X (cd_abilityId d) of
        None \<Rightarrow> R
      | Some tick \<Rightarrow> tick a (Manager_Get (cd_targetId d) R) (cd_cursorPosition d) (cd_abilityRank d) R)"

definition Instance_SwapCharacter :: "'s outside \<Rightarrow> nat \<Rightarrow> u32 \<Rightarrow> 's running \<Rightarrow> 's running" where
  "Instance_SwapCharacter X p creatureIndex R =
     (let R = with_player p (SwapCharacter creatureIndex) R
      in Instance_SendLabsPlayerUpdate X p
        (to_all X (SendPlayerCharacterDeploy (os_stream X) (the_player R p)
          (map_option (obj R) (GetCharacterObject R p creatureIndex)) creatureIndex) R))"

definition CancelAction :: "'s outside \<Rightarrow> nat \<Rightarrow> 's running \<Rightarrow> 's running" where "CancelAction X a R = os_stop X a R"

subsection \<open>Loot and catalysts\<close>

definition drop_Orbs :: u32 where "drop_Orbs = 2"
definition drop_Catalysts :: u32 where "drop_Catalysts = 4"

text \<open>A new object with its settings; one that could not be made is dereferenced.\<close>

definition fresh_object ::
  "'s outside \<Rightarrow> u32 \<Rightarrow> (game_object \<Rightarrow> game_object option) \<Rightarrow> 's running \<Rightarrow> (nat \<times> 's running) option" where
  "fresh_object X noun f R =
     (case Manager_Create X noun R of
        (None, R) \<Rightarrow> None
      | (Some a, R) \<Rightarrow> map_option (Pair a) (try_object a f R))"

definition pickup_data :: "game_object \<Rightarrow> game_object option" where
  "pickup_data x = do {
     x \<leftarrow> SetUsesAllowed 1 (CreateInteractableData x);
     x \<leftarrow> SetTimesUsed 0 x;
     SetAbility (hash_id ''PickUpLoot'') x
   }"

text \<open>The counters of the functions that make loot; they are static: one for each function.\<close>

definition next_loot_id :: "nat \<Rightarrow> 's running \<Rightarrow> u64 \<times> 's running" where
  "next_loot_id k R = (rn_lootIds R ! k + 1, R\<lparr>rn_lootIds := (rn_lootIds R)[k := rn_lootIds R ! k + 1]\<rparr>)"

definition catalyst_settings :: "u64 \<Rightarrow> Catalyst \<Rightarrow> vec3 \<Rightarrow> bool \<Rightarrow> game_object \<Rightarrow> game_object option" where
  "catalyst_settings i c position ground x = do {
     let x = SetPosition position x;
     let x = (if ground then SetInteractableState 0 x else x);
     x \<leftarrow> SetLootId i (CreateLootData x);
     x \<leftarrow> SetLootCatalyst c x;
     pickup_data x
   }"

definition catalyst_object :: "'s outside \<Rightarrow> nat \<Rightarrow> Catalyst \<Rightarrow> vec3 \<Rightarrow> bool \<Rightarrow> 's running \<Rightarrow> (nat \<times> 's running) option" where
  "catalyst_object X k c position ground R =
     (case next_loot_id k R of (i, R) \<Rightarrow> fresh_object X (ct_noun c) (catalyst_settings i c position ground) R)"

definition drop_orb :: "'s outside \<Rightarrow> vec3 \<Rightarrow> 's running \<Rightarrow> 's running option" where
  "drop_orb X position R = do {
     (b, R) \<leftarrow> fresh_object X (hash_id ''HealthOrb.Noun'') (\<lambda>x. Some (SetPosition position x)) R;
     Some (Instance_SendServerEvent X
       (ServerEvent_new\<lparr>se_serverEventDef := hash_id ''health_orb_drop.ServerEventDef'', se_targetPoint := position\<rparr>)
       (snd (Instance_SendObjectCreate X (Some b) R)))
   }"

text \<open>A common catalyst of the second type (attack speed).\<close>

definition DropLoot :: "'s outside \<Rightarrow> nat option \<Rightarrow> nat option \<Rightarrow> u32 \<Rightarrow> 's running \<Rightarrow> 's running option" where
  "DropLoot X obj_ref target dropType R =
     (case (obj_ref, target) of
        (Some a, Some t) \<Rightarrow> do {
          let position = ob_center (obj R a);
          R \<leftarrow> (if dropType AND drop_Orbs \<noteq> 0 then drop_orb X position R else Some R);
          if dropType AND drop_Catalysts \<noteq> 0 then do {
            (b, R) \<leftarrow> catalyst_object X 0 (Catalyst_new 1 0 False) position False R;
            Some (snd (Instance_SendObjectCreate X (Some b) R))
          } else Some R
        }
      | _ \<Rightarrow> Some R)"

definition DropCatalyst :: "'s outside \<Rightarrow> nat \<Rightarrow> u32 \<Rightarrow> 's running \<Rightarrow> 's running option" where
  "DropCatalyst X p slot R =
     (case GetDeployedCharacterObject R p of
        None \<Rightarrow> Some R
      | Some a \<Rightarrow> do {
          c \<leftarrow> GetCatalyst slot (the_player R p);
          if ct_noun c = 0 then Some R
          else do {
            let R = with_player p (SetCatalyst Catalyst_none slot) R;
            (b, R) \<leftarrow> catalyst_object X 1 c (ob_center (obj R a)) True R;
            Some (snd (Instance_SendObjectCreate X (Some b) R))
          }
        })"

text \<open>Four catalysts in a row, five units apart (0x40A00000 is 5), at the first client's character.\<close>

definition drop_one_of_four :: "'s outside \<Rightarrow> nat \<Rightarrow> 's running \<times> vec3 \<Rightarrow> ('s running \<times> vec3) option" where
  "drop_one_of_four X i Rp =
     (case Rp of (R, position) \<Rightarrow> do {
        (b, R) \<leftarrow> catalyst_object X 2 (Catalyst_new (of_nat i) (of_nat (i mod 3)) (odd i)) position True R;
        let (ok, R) = Instance_SendObjectCreate X (Some b) R;
        l \<leftarrow> ob_loot (obj R b);
        d \<leftarrow> ob_interactable (obj R b);
        let R = (if ok then fold (\<lambda>(a, c) R. post_maybe X a (SendInteractableDataUpdate (os_stream X) (Some (obj R b)) d)
                   (post_maybe X a (SendLootDataUpdate (os_stream X) (Some (obj R b)) l) R)) (rn_clients R) R else R);
        Some (R\<lparr>rn_dropped := rn_dropped R @ [b]\<rparr>, position\<lparr>vx := os_add X (vx position) 0x40A00000\<rparr>)
      })"

definition DropCatalyst_all :: "'s outside \<Rightarrow> 's running \<Rightarrow> 's running option" where
  "DropCatalyst_all X R =
     (case rn_clients R of
        [] \<Rightarrow> Some R
      | (_, c) # _ \<Rightarrow> do {
          p \<leftarrow> cl_player c;
          case GetDeployedCharacterObject R p of
            None \<Rightarrow> Some R
          | Some a \<Rightarrow> map_option fst (each (drop_one_of_four X) [0..<4] (R, ob_center (obj R a)))
        })"

definition client_by_id :: "u8 \<Rightarrow> 's running \<Rightarrow> address option" where
  "client_by_id i R = map_option fst (find (\<lambda>(a, c). cl_id c = i) (rn_clients R))"

definition PickupLoot :: "'s outside \<Rightarrow> nat \<Rightarrow> nat \<Rightarrow> 's running \<Rightarrow> 's running" where
  "PickupLoot X p a R =
     (if IsMarkedForDeletion (obj R a) then R
      else (let R = MarkForDeletion a R in
        case ob_loot (obj R a) of
          None \<Rightarrow> R
        | Some l \<Rightarrow> to_all X (SendServerEvent (os_stream X) (ClientEvent_WriteReflection (os_stream X)
            (SetLootPickup (os_now X) (mPlayerIndex (the_player R p)) l ClientEvent_new))) R))"

text \<open>The client with the player's index may be gone; the reply dereferences it.\<close>

definition PickupCatalyst :: "'s outside \<Rightarrow> nat \<Rightarrow> nat \<Rightarrow> 's running \<Rightarrow> 's running option" where
  "PickupCatalyst X p a R =
     (if IsMarkedForDeletion (obj R a) then Some R
      else (let slot = GetOpenCatalystSlot (the_player R p) in
        if slot \<noteq> 0xFFFFFFFF then
          (let R = MarkForDeletion a R in
           case ob_loot (obj R a) of
             None \<Rightarrow> Some R
           | Some l \<Rightarrow> do {
               let c = Catalyst_of_loot l;
               let R = with_player p (SetCatalyst c slot) R;
               b \<leftarrow> client_by_id (mPlayerIndex (the_player R p)) R;
               Some (post X b (SendCrystalMessage (os_stream X) 0 0 slot c) R)
             })
        else Some (to_all X (SendServerEvent (os_stream X) (ClientEvent_WriteReflection (os_stream X)
               (SetCatalystPickup (mPlayerIndex (the_player R p)) ClientEvent_new))) R)))"

definition noun_Loot :: u32 where "noun_Loot = 0x292FEA33"
definition noun_Crystal :: u32 where "noun_Crystal = 0xCD482419"

definition InteractWithObject :: "'s outside \<Rightarrow> nat \<Rightarrow> u32 \<Rightarrow> 's running \<Rightarrow> 's running option" where
  "InteractWithObject X p objectId R =
     (case Manager_Get objectId R of
        None \<Rightarrow> Some R
      | Some a \<Rightarrow>
          if IsMarkedForDeletion (obj R a) then Some R
          else do {
            R \<leftarrow> (case ob_interactable (obj R a) of
                   None \<Rightarrow> Some R
                 | Some d \<Rightarrow> try_object a (SetTimesUsed (it_timesUsed d + 1)) R);
            let drop = (let b = GetDeployedCharacterObject R p in DropLoot X b b (drop_Catalysts OR drop_Orbs) R);
            case os_noun X (ob_noun (obj R a)) of
              None \<Rightarrow> drop
            | Some n \<Rightarrow>
                if nv_type n = noun_Loot then Some (PickupLoot X p a R)
                else if nv_type n = noun_Crystal then PickupCatalyst X p a R
                else drop
          })"

subsection \<open>Death\<close>

text \<open>The animations of a death: 9 in general, 15 in close combat, 16 and 17 when it was critical.\<close>

definition death_state :: "(u8 \<Rightarrow> u32) \<Rightarrow> bool \<Rightarrow> bool \<Rightarrow> u32" where
  "death_state animation critical knockback =
     (let s = animation (if critical then 16 + of_bool knockback else 15) in if s = 0 then animation 9 else s)"

definition OnObjectDeath :: "'s outside \<Rightarrow> nat option \<Rightarrow> bool \<Rightarrow> bool \<Rightarrow> 's running \<Rightarrow> 's running" where
  "OnObjectDeath X obj_ref critical knockback R =
     (case obj_ref of
        None \<Rightarrow> R
      | Some a \<Rightarrow>
          (let R = Instance_SendObjectGfxState X (Some a) (hash_id ''dead'') R in
           case os_noun X (ob_noun (obj R a)) of
             None \<Rightarrow> R
           | Some n \<Rightarrow>
               (let R = (if nv_creature n then with_object a (SetHasCollision False) R else R);
                    R = (case nv_animation n of
                           None \<Rightarrow> R
                         | Some animation \<Rightarrow>
                             (let s = death_state animation critical knockback
                              in if s \<noteq> 0 then Instance_SendAnimationState X (Some a) s False one_f32 R else R))
                in if critical then MarkForDeletion a R else R)))"

subsection \<open>The end and the start of a level\<close>

definition state_code :: "GameState \<Rightarrow> u32" where
  "state_code s =
     (case s of Invalid \<Rightarrow> 0xFFFFFFFF | Boot \<Rightarrow> 0 | Login_State \<Rightarrow> 1 | Spaceship \<Rightarrow> 2 | Editor \<Rightarrow> 3 | LevelEditor \<Rightarrow> 4
      | PreDungeon \<Rightarrow> 5 | Dungeon \<Rightarrow> 6 | Observer \<Rightarrow> 7 | Cinematic \<Rightarrow> 8 | Spectator \<Rightarrow> 9 | Replay \<Rightarrow> 10 | ChainVoting \<Rightarrow> 11
      | ChainCashOut \<Rightarrow> 12 | GameOver \<Rightarrow> 13 | Quit \<Rightarrow> 14 | ArenaLobby \<Rightarrow> 15 | ArenaRoundResults \<Rightarrow> 16
      | JuggernautLobby \<Rightarrow> 17 | JuggernautResults \<Rightarrow> 18 | KillRaceLobby \<Rightarrow> 19 | KillRaceResults \<Rightarrow> 20 | GS_Other w \<Rightarrow> w)"

definition reconnect :: "'s outside \<Rightarrow> address \<Rightarrow> GameState \<Rightarrow> 's running \<Rightarrow> 's running" where
  "reconnect X a s R =
     (case client_at a R of
        None \<Rightarrow> R
      | Some c \<Rightarrow>
          (case SendReconnectPlayer (os_stream X) s (state_code s) (cl_state c) of (w, s') \<Rightarrow>
             post_maybe X a w (with_client a (\<lambda>c. c\<lparr>cl_state := s'\<rparr>) R)))"

definition BeamOut :: "'s outside \<Rightarrow> nat \<Rightarrow> 's running \<Rightarrow> 's running" where
  "BeamOut X p R =
     (case client_by_id (mPlayerIndex (the_player R p)) R of
        None \<Rightarrow> R
      | Some a \<Rightarrow>
          post X a (SendDebugPing (os_stream X) (os_unix X))
            (reconnect X a ChainVoting
              (R\<lparr>rn_game := (rn_game R)\<lparr>g_chain := beam_out_chain (g_chain (rn_game R)), g_cash := beam_out_cash (g_cash (rn_game R))\<rparr>\<rparr>)))"

definition remember_marker :: "Marker \<Rightarrow> 's running \<Rightarrow> 's running" where
  "remember_marker m R = R\<lparr>rn_markers := (rn_markers R)(mk_id m \<mapsto> m)\<rparr>"

definition make_obelisks :: "'s outside \<Rightarrow> string \<Rightarrow> 's running \<Rightarrow> 's running option" where
  "make_obelisks X levelName R =
     (case GetMarkerset (levelName @ ''_obelisk_1.Markerset'') (g_level (rn_game R)) of
        None \<Rightarrow> Some R
      | Some s \<Rightarrow> each (Manager_CreateMarker X) (GetMarkersByType (hash_id ''prefab_health_obelisk.Noun'') s
          @ GetMarkersByType (hash_id ''prefab_boss_obelisk.Noun'') s) R)"

definition make_teleporters :: "'s outside \<Rightarrow> string \<Rightarrow> string \<Rightarrow> 's running \<Rightarrow> 's running option" where
  "make_teleporters X levelName designSet R =
     (case GetMarkerset (levelName @ designSet @ ''.Markerset'') (g_level (rn_game R)) of
        None \<Rightarrow> Some R
      | Some s \<Rightarrow> each (\<lambda>m R. (if mk_teleporter m \<noteq> None then Manager_CreateMarker X m else Some) (remember_marker m R)) (mMarkers s) R)"

definition spawn_nouns :: "u32 set" where
  "spawn_nouns = {hash_id ''SpawnPoint_Director.Noun'', hash_id ''SpawnPoint_DirectorA.Noun'',
     hash_id ''SpawnPoint_DirectorB.Noun'', hash_id ''SpawnPoint_DirectorWanderer.Noun''}"

text \<open>Only the first marker of the set, with a random one of the six enemies.\<close>

definition TestEnemy :: "'s outside \<Rightarrow> nat \<Rightarrow> Markerset \<Rightarrow> 's running \<Rightarrow> 's running" where
  "TestEnemy X k s R =
     (case mMarkers s of
        [] \<Rightarrow> R
      | m # _ \<Rightarrow>
          (let R = remember_marker m R in
           if mk_noun m \<in> spawn_nouns then
             (case Manager_Create X (GetEnemyNoun (of_nat (os_random X k mod 6)) (g_chain (rn_game R))) R of
                (None, R) \<Rightarrow> R
              | (Some a, R) \<Rightarrow> with_object a (\<lambda>x. SetOrientation (os_quat X (mk_rotation m)) (SetPosition (mk_position m) x)) R)
           else R))"

text \<open>The sets of wandering enemies: the first of the names that there is.\<close>

definition wanderers :: "string list list" where
  "wanderers = [[''_AI_Wander''], [''_AI_WandererA'', ''_AI_Wanderers_A''], [''_AI_WandererB'', ''_AI_Wanderers_B''],
     [''_AI_WandererC'', ''_AI_Wanderers_C'']]"

definition make_wanderer :: "'s outside \<Rightarrow> string \<Rightarrow> nat \<times> string list \<Rightarrow> 's running \<Rightarrow> 's running" where
  "make_wanderer X levelName kn R =
     (case List.map_filter (\<lambda>n. GetMarkerset (levelName @ n @ ''.Markerset'') (g_level (rn_game R))) (snd kn) of
        [] \<Rightarrow> R
      | s # _ \<Rightarrow> TestEnemy X (fst kn) s R)"

definition start_level :: "'s outside \<Rightarrow> 's running \<Rightarrow> 's running option" where
  "start_level X R = do {
     levelName \<leftarrow> GetLevelName (g_chain (rn_game R));
     R \<leftarrow> make_obelisks X levelName R;
     R \<leftarrow> each (make_teleporters X levelName) [''_design'', ''_design_spawners''] R;
     Some (fold (make_wanderer X levelName) (enumerate 0 wanderers) R)
   }"

definition send_objective :: "'s outside \<Rightarrow> address \<Rightarrow> u8 \<Rightarrow> u32 \<Rightarrow> 's running \<Rightarrow> 's running" where
  "send_objective X a i voiceover R =
     (case client_at a R of
        None \<Rightarrow> R
      | Some c \<Rightarrow> post_maybe X a (SendObjectiveUpdate (os_stream X) (g_objectives (rn_game R)) (cl_id c) i voiceover) R)"

text \<open>The objectives and the objects that no client has been told of.\<close>

definition show_world :: "'s outside \<Rightarrow> address \<Rightarrow> 's running \<Rightarrow> 's running" where
  "show_world X a R =
     (let objs = g_objectives (rn_game R);
          R = post X a (SendObjectivesInitForLevel (os_stream X) objs) R;
          R = fold (\<lambda>i. send_objective X a (of_nat i) 0) [0..<length objs mod 256] R
      in fold (\<lambda>b R. snd (Instance_SendObjectCreate X (Some b) R)) (rn_active R) R)"

definition InvisibleToSecurityTeleporters :: u8 where "InvisibleToSecurityTeleporters = 109"
definition AttackSpeedScale :: u8 where "AttackSpeedScale = 23"
definition CooldownScale :: u8 where "CooldownScale = 24"

definition hero_settings :: "vec3 \<Rightarrow> game_object \<Rightarrow> game_object option" where
  "hero_settings spawnpoint x = do {
     let x = SetVisible True (SetPosition spawnpoint x);
     x \<leftarrow> SetAttributeValue InvisibleToSecurityTeleporters one_f32 x;
     x \<leftarrow> SetAttributeValue AttackSpeedScale one_f32 x;
     SetAttributeValue CooldownScale one_f32 x
   }"

definition place_hero :: "'s outside \<Rightarrow> nat \<Rightarrow> vec3 \<Rightarrow> nat \<Rightarrow> 's running \<Rightarrow> 's running option" where
  "place_hero X p spawnpoint i R =
     (case GetCharacterObject R p (of_nat i) of
        None \<Rightarrow> Some R
      | Some a \<Rightarrow> do {
          R \<leftarrow> try_object a (hero_settings spawnpoint) R;
          Instance_SendObjectUpdate X a R
        })"

text \<open>Without a spawnpoint for the player's index the position is not initialised.\<close>

definition OnPlayerStart :: "'s outside \<Rightarrow> nat \<Rightarrow> 's running \<Rightarrow> 's running option" where
  "OnPlayerStart X p R = do {
     (loaded, g) \<leftarrow> LoadLevel (env_xml (os_env X)) (env_floats (os_env X)) (sessions.disk (os_users X))
       (\<lambda>n. os_noun X n \<noteq> None) (rn_game R);
     let R = R\<lparr>rn_game := g, rn_started := loaded\<rparr>;
     R \<leftarrow> (if loaded then start_level X R else Some R);
     let i = mPlayerIndex (the_player R p);
     let R = (case client_by_id i R of None \<Rightarrow> R | Some a \<Rightarrow> show_world X a R);
     let points = g_spawnpoints (rn_game R);
     each (place_hero X p (if unat i < length points then points ! unat i else os_junk_vec X)) [0..<3] R
   }"

subsection \<open>The periodic update\<close>

definition ServerUpdate :: "'s outside \<Rightarrow> 's running \<Rightarrow> bool" where "ServerUpdate X R \<longleftrightarrow> os_now X - rn_time R \<ge> 10"

text \<open>The time of the first objective, told to the client with the identifier 0.\<close>

definition update_clock :: "'s outside \<Rightarrow> 's running \<Rightarrow> 's running option" where
  "update_clock X R =
     (case client_by_id 0 R of
        None \<Rightarrow> Some R
      | Some a \<Rightarrow>
          (case g_objectives (rn_game R) of
             [] \<Rightarrow> None
           | q # qs \<Rightarrow>
               Some (if Objective.ob_id q = hash_id ''FinishLevelQuickly'' then
                 send_objective X a 0 (hash_id ''vo_ship_obelisk_accessed'') (R\<lparr>rn_game := (rn_game R)
                   \<lparr>g_objectives := q\<lparr>ob_value := ucast (GetTimeElapsed (os_now X) (rn_game R) div 1000)\<rparr> # qs\<rparr>\<rparr>)
               else R)))"

definition Instance_Update :: "'s outside \<Rightarrow> 's running \<Rightarrow> (bool \<times> 's running) option" where
  "Instance_Update X R =
     (let now = os_now X;
          R = (if now - rn_timeLua R \<ge> 1 then os_scripts X (R\<lparr>rn_timeLua := now\<rparr>) else R)
      in if now - rn_time R \<ge> 50 then do {
           R \<leftarrow> Manager_Update X (R\<lparr>rn_time := now\<rparr>);
           R \<leftarrow> update_clock X (fold (\<lambda>(u, p). Instance_SendLabsPlayerUpdate X p) (rn_byUser R) R);
           Some (True, R)
         } else Some (False, R))"

end
