(* ===== verification/GameServer.thy ===== *)
theory GameServer
  imports GameActions
begin

unbundle bit_operations_syntax

text \<open>
  The thread of a game, \<open>source/RakNet/Server.cpp\<close> and \<open>Client::SetUser\<close>: its clients, the packets
  they send, the tasks it is given and the turn of its loop.  A packet is its bytes.  A read that
  finds too few bytes leaves the variable as it is: an uninitialised one is undefined behaviour
  (\<open>None\<close>), a member of a command, which starts as zero, keeps its value.
\<close>

subsection \<open>Reading\<close>

text \<open>A number of \<open>n\<close> bytes, little-endian after the byte swap, if it is there, and the rest.\<close>

definition read_le :: "nat \<Rightarrow> bytes \<Rightarrow> ('a::len word \<times> bytes) option" where
  "read_le n bs = (if n \<le> length bs then Some (of_le (take n bs), drop n bs) else None)"

definition Read_u8 :: "bytes \<Rightarrow> (u8 \<times> bytes) option" where "Read_u8 = read_le 1"
definition Read_u32 :: "bytes \<Rightarrow> (u32 \<times> bytes) option" where "Read_u32 = read_le 4"
definition Read_u64 :: "bytes \<Rightarrow> (u64 \<times> bytes) option" where "Read_u64 = read_le 8"

text \<open>The bytes of a command: forty that all commands have, and a union of forty-four that starts as zeros.\<close>

definition u32_at :: "nat \<Rightarrow> bytes \<Rightarrow> u32" where "u32_at k bs = of_le (take 4 (drop k bs))"
definition vec3_at :: "nat \<Rightarrow> bytes \<Rightarrow> vec3" where
  "vec3_at k bs = \<lparr>vx = u32_at k bs, vy = u32_at (k + 4) bs, vz = u32_at (k + 8) bs\<rparr>"
definition quat_at :: "nat \<Rightarrow> bytes \<Rightarrow> quat" where
  "quat_at k bs = \<lparr>qx = u32_at k bs, qy = u32_at (k + 4) bs, qz = u32_at (k + 8) bs, qw = u32_at (k + 12) bs\<rparr>"

definition read_into_memory :: "nat \<Rightarrow> bytes \<times> bytes \<Rightarrow> bytes \<times> bytes" where
  "read_into_memory n mb =
     (case mb of (memory, bs) \<Rightarrow> if n \<le> length bs then (take n bs @ drop n memory, drop n bs) else (memory, bs))"

definition sizeof_common :: nat where "sizeof_common = 40"
definition sizeof_movement :: nat where "sizeof_movement = 24"
definition sizeof_catalyst :: nat where "sizeof_catalyst = 20"
definition sizeof_ability :: nat where "sizeof_ability = 44"

subsection \<open>Clients\<close>

definition size_of :: "'s running \<Rightarrow> nat" where "size_of R = length (rn_clients R)"

fun put_client :: "address \<Rightarrow> game_client \<Rightarrow> (address \<times> game_client) list \<Rightarrow> (address \<times> game_client) list" where
  "put_client a c [] = [(a, c)]"
| "put_client a c ((b, d) # cs) = (if a < b then (a, c) # (b, d) # cs else (b, d) # put_client a c cs)"

text \<open>The state data of a new client are not initialised.\<close>

definition NetClient_new :: "'s outside \<Rightarrow> u8 \<Rightarrow> game_client" where
  "NetClient_new X i = \<lparr>cl_id = i, cl_user = None, cl_player = None, cl_var = os_junk64 X, cl_code = os_junk32 X,
     cl_type = ucast (os_junk32 X), cl_state = Invalid\<rparr>"

text \<open>The identifier is the number of the clients before it.\<close>

definition AddClient :: "'s outside \<Rightarrow> address \<Rightarrow> 's running \<Rightarrow> 's running" where
  "AddClient X a R =
     (if client_at a R \<noteq> None then R
      else R\<lparr>rn_clients := put_client a (NetClient_new X (of_nat (size_of R))) (rn_clients R)\<rparr>)"

definition RemoveClient :: "address \<Rightarrow> 's running \<Rightarrow> 's running" where
  "RemoveClient a R = R\<lparr>rn_clients := filter (\<lambda>(b, c). b \<noteq> a) (rn_clients R)\<rparr>"

definition OnNewIncomingConnection :: "'s outside \<Rightarrow> address \<Rightarrow> 's running \<Rightarrow> 's running" where
  "OnNewIncomingConnection X a R =
     post X a (SendConnected (os_stream X))
       (with_client a (\<lambda>c. c\<lparr>cl_state := snd (SetGameState Spaceship (cl_state c))\<rparr>) (AddClient X a R))"

text \<open>The player the game has of the user is forgotten, and a new one made with the client's identifier.\<close>

fun put_player :: "int \<Rightarrow> nat \<Rightarrow> (int \<times> nat) list \<Rightarrow> (int \<times> nat) list" where
  "put_player i p [] = [(i, p)]"
| "put_player i p ((j, q) # ps) = (if i < j then (i, p) # (j, q) # ps else (j, q) # put_player i p ps)"

definition SetUser :: "'s outside \<Rightarrow> address \<Rightarrow> nat option \<Rightarrow> 's running \<Rightarrow> 's running" where
  "SetUser X a user R =
     (case (user, client_at a R) of
        (Some u, Some c) \<Rightarrow>
          (let acc = mAccount (users (os_users X) ! u);
               i = sint (account_id acc);
               p = length (rn_players R)
           in (with_client a (\<lambda>c. c\<lparr>cl_user := Some u, cl_player := Some p\<rparr>) R)
                \<lparr>rn_players := rn_players R @ [\<lparr>gp_player = Player_new u acc (cl_id c), gp_objects = replicate 3 None\<rparr>],
                 rn_byUser := put_player i p (filter (\<lambda>(j, q). j \<noteq> i) (rn_byUser R))\<rparr>)
      | _ \<Rightarrow> R)"

subsection \<open>Hello and status\<close>

definition game_Chain :: u8 where "game_Chain = 2"

definition set_state_data :: "GameState \<Rightarrow> game_client \<Rightarrow> game_client" where
  "set_state_data s c = c\<lparr>cl_code := state_code s, cl_type := game_Chain\<rparr>"

text \<open>Seven catalysts of the first type, of a random rarity and colour, and one for health.\<close>

definition first_catalysts :: "'s outside \<Rightarrow> Player \<Rightarrow> Player" where
  "first_catalysts X q =
     SetCatalyst (Catalyst_new 14 1 False) 7
       (fold (\<lambda>i. SetCatalyst (Catalyst_new 0 (of_nat (os_random X (2 * i) mod 3)) (odd (os_random X (2 * i + 1)))) (of_nat i))
         [0..<7] q)"

definition OnHelloPlayerRequest :: "'s outside \<Rightarrow> address \<Rightarrow> bytes \<Rightarrow> 's running \<Rightarrow> 's running option" where
  "OnHelloPlayerRequest X a bs R = do {
     (blazeId, bs) \<leftarrow> Read_u64 bs;
     let R = SetUser X a (GetUserById blazeId (os_users X)) R;
     c \<leftarrow> client_at a R;
     Some (case cl_player c of
        None \<Rightarrow> R
      | Some p \<Rightarrow>
          post X a (SendPartyMergeComplete (os_stream X) (os_unix X))
            (post X a (SendHelloPlayer (os_stream X) (os_ip X) (os_port X) (cl_id c))
              (with_client a (set_state_data Spaceship) (with_player p (first_catalysts X) R))))
   }"

definition Server_SendGameStart :: "'s outside \<Rightarrow> address \<Rightarrow> 's running \<Rightarrow> 's running" where
  "Server_SendGameStart X a R =
     (case client_at a R of
        None \<Rightarrow> R
      | Some c \<Rightarrow>
          (case SendGameStart (os_stream X) (g_chain (rn_game R)) (cl_state c) of (w, s) \<Rightarrow>
             post_maybe X a w (with_client a (\<lambda>c. c\<lparr>cl_state := s\<rparr>) R)))"

text \<open>The update of the player goes to the client itself, and then nothing is left to update.\<close>

definition OnPlayerStatusUpdate :: "'s outside \<Rightarrow> address \<Rightarrow> nat \<Rightarrow> bytes \<Rightarrow> 's running \<Rightarrow> 's running option" where
  "OnPlayerStatusUpdate X a p bs R = do {
     (status, bs) \<leftarrow> Read_u32 bs;
     (progress, bs) \<leftarrow> Read_u32 bs;
     let R = with_player p (SetStatus status progress) R;
     let R = (if status = 0x08 then
                post X a (SendDebugPing (os_stream X) (os_unix X))
                  (Server_SendGameStart X a (with_client a (set_state_data Dungeon) R))
              else if status = 0x20 then BeamOut X p R
              else R);
     Some (with_player p Player_ResetUpdateBits (post_maybe X a (SendLabsPlayerUpdate (os_stream X) (the_player R p)) R))
   }"

subsection \<open>Commands\<close>

definition user_of :: "'s outside \<Rightarrow> 's running \<Rightarrow> nat \<Rightarrow> User" where
  "user_of X R p = users (os_users X) ! pl_mUser (the_player R p)"

text \<open>
  The ability of the template when the creature has none: for the last slot, a random one of the
  first three when the template has none there either.
\<close>

definition fallback_ability :: "'s outside \<Rightarrow> TemplateCreature \<Rightarrow> u32 \<Rightarrow> u32" where
  "fallback_ability X t index =
     (let i = Template_GetAbility t (ucast index) in
      if i = 0 \<and> index = 3 then
        (let candidates = filter (\<lambda>v. v \<noteq> 0) (map (\<lambda>k. Template_GetAbility t (of_nat k)) [0..<3])
         in if candidates \<noteq> [] then candidates ! (os_random X 0 mod length candidates) else i)
      else i)"

definition template_ability :: "'s outside \<Rightarrow> User \<Rightarrow> Player \<Rightarrow> u32 \<Rightarrow> u32 \<Rightarrow> u32" where
  "template_ability X user q creatureIndex index =
     (case mSquad q of
        None \<Rightarrow> 0
      | Some s \<Rightarrow>
          if unat creatureIndex \<ge> length (mCreatureIds s) then 0
          else (case GetCreatureById (mCreatureIds s ! unat creatureIndex) user of
            None \<Rightarrow> 0
          | Some c \<Rightarrow>
              (case GetByNoun (env_templates (os_env X)) (Creature_GetNoun c) of
                 None \<Rightarrow> 0
               | Some t \<Rightarrow> fallback_ability X t index)))"

definition combat_data :: "bytes \<Rightarrow> u32 \<Rightarrow> u32 \<Rightarrow> CombatData" where
  "combat_data m abilityId rank =
     \<lparr>cd_targetPosition = vec3_at 16 m, cd_cursorPosition = vec3_at 4 m, cd_targetId = u32_at 0 m, cd_abilityId = abilityId,
      cd_abilityRank = rank, cd_valueFromActionResponse = u32_at 40 m, cd_unk = [u32_at 32 m, u32_at 36 m]\<rparr>"

text \<open>The indices are cut to eight bits by the calls that take them.\<close>

definition UseCharacterAbility :: "'s outside \<Rightarrow> address \<Rightarrow> nat \<Rightarrow> nat \<Rightarrow> bytes \<Rightarrow> 's running \<Rightarrow> 's running option" where
  "UseCharacterAbility X a p x m R = do {
     let q = the_player R p;
     let index = u32_at 28 m;
     own \<leftarrow> GetAbilityId (user_of X R p) (ucast (mCurrentDeckIndex q)) (ucast index) q;
     let abilityId = (if own = 0 then template_ability X (user_of X R p) q (mCurrentDeckIndex q) index else own);
     let R = UseAbility X x (combat_data m abilityId (u32_at 32 m)) R;
     Some (if Manager_Get (u32_at 0 m) R = None then R
           else post X a (SendActionCommandResponse (os_stream X) (rn_time R)
             \<lparr>ar_cooldown = 0, ar_timeImmobilized = 0, ar_abilityId = abilityId, ar_userData = u32_at 40 m\<rparr>) R)
   }"

text \<open>The time immobilised is not set; the case has no \<open>break\<close> and goes on with the next one.\<close>

definition UseSquadAbility :: "'s outside \<Rightarrow> address \<Rightarrow> nat \<Rightarrow> nat \<Rightarrow> quat \<Rightarrow> bytes \<Rightarrow> 's running \<Rightarrow> 's running option" where
  "UseSquadAbility X a p x orientation m R = do {
     let R = with_object x (SetOrientation orientation) R;
     abilityId \<leftarrow> GetAbilityId (user_of X R p) 0xFF (ucast (u32_at 28 m)) (the_player R p);
     Some (post X a (SendActionCommandResponse (os_stream X) (rn_time R)
       \<lparr>ar_cooldown = 2000, ar_timeImmobilized = os_junk64 X, ar_abilityId = abilityId, ar_userData = 0x4321\<rparr>) R)
   }"

definition move_command :: "'s outside \<Rightarrow> nat \<Rightarrow> vec3 \<Rightarrow> bytes \<Rightarrow> 's running \<Rightarrow> 's running option" where
  "move_command X x position m R = do {
     let goalFlags = (if rn_teleport R then 0x020 else u32_at 16 m);
     R \<leftarrow> try_object x (Locomotion_SetGoalPosition (vec3_at 4 m)) R;
     R \<leftarrow> try_object x (SetPartialGoalPosition position) R;
     l \<leftarrow> ob_locomotion (obj R x);
     R \<leftarrow> try_object x (SetGoalFlags (mGoalFlags (lc_data l) OR goalFlags)) R;
     l \<leftarrow> ob_locomotion (obj R x);
     Some (MoveObject X x l R)
   }"

definition OnActionCommandMsgs :: "'s outside \<Rightarrow> address \<Rightarrow> nat \<Rightarrow> bytes \<Rightarrow> 's running \<Rightarrow> 's running option" where
  "OnActionCommandMsgs X a p bs R =
     (let (common, bs) = read_into_memory sizeof_common (replicate sizeof_common 0, bs);
          m = replicate sizeof_ability 0;
          type = common ! 0;
          movement = fst (read_into_memory sizeof_movement (m, bs));
          (ability, rest) = read_into_memory sizeof_ability (m, bs)
      in case Manager_Get (u32_at 8 common) R of
        None \<Rightarrow> Some R
      | Some x \<Rightarrow>
          if type = 3 then
            (if ob_locomotion (obj R x) = None then Some R else move_command X x (vec3_at 12 common) movement R)
          else if type = 4 then
            (if ob_locomotion (obj R x) = None then Some R else try_object x Locomotion_Stop R)
          else if type = 5 then Some (Instance_SwapCharacter X p (u32_at 0 (fst (read_into_memory 4 (m, bs)))) R)
          else if type = 7 then UseCharacterAbility X a p x ability R
          else if type = 8 then do {
            R \<leftarrow> UseSquadAbility X a p x (quat_at 24 common) ability R;
            InteractWithObject X p (u32_at 0 (fst (read_into_memory sizeof_catalyst (ability, rest)))) R
          }
          else if type = 9 then InteractWithObject X p (u32_at 0 (fst (read_into_memory sizeof_catalyst (m, bs)))) R
          else if type = 10 then Some (CancelAction X x R)
          else if type = 11 then InteractWithObject X p (u32_at 0 (fst (read_into_memory 4 (m, bs)))) R
          else if type = 12 then Some (Instance_SendAnimationState X (Some x) (hash_id ''emote_dance_all'') False one_f32 R)
          else if type = 13 then Some (Instance_SendAnimationState X (Some x) (hash_id ''emote_taunt_all'') False one_f32 R)
          else Some R)"

subsection \<open>Squads\<close>

definition creature_code :: "CreatureType \<Rightarrow> u32" where
  "creature_code t = (case t of Bio \<Rightarrow> 0 | Cyber \<Rightarrow> 1 | Plasma \<Rightarrow> 2 | Necro \<Rightarrow> 3 | Chrono \<Rightarrow> 4 | CT_All \<Rightarrow> 5 | CT_Unknown \<Rightarrow> 6)"

text \<open>The character of a creature; 0x43480000 is 200.\<close>

definition squad_character :: "'s outside \<Rightarrow> Creature option \<Rightarrow> Character" where
  "squad_character X creature =
     (let c = SetMana 0x43480000 (SetMaxMana 0x43480000 (SetHealth 0x43480000 (SetMaxHealth 0x43480000 Character_new)))
      in case creature of
        Some cr \<Rightarrow> SetGearScoreFlattened (os_floor X (c_gearScore cr)) (SetGearScore (c_gearScore cr)
          (SetCreatureType (creature_code (Creature_GetType cr)) (SetVersion (c_version cr) (SetNoun (Creature_GetNoun cr) c))))
      | None \<Rightarrow> SetGearScoreFlattened 0 (SetGearScore 0 (SetCreatureType 6 (SetVersion 0 (SetNoun 0 c)))))"

definition hero_object :: "Player \<Rightarrow> Character \<Rightarrow> game_object \<Rightarrow> game_object option" where
  "hero_object q c x = do {
     x \<leftarrow> SetAttributeValue MaxHealth (mMaxHealthPoints c) x;
     x \<leftarrow> SetAttributeValue MaxMana (mMaxManaPoints c) x;
     Some (SetPlayerIndex (mPlayerIndex q) (SetHasCollision True (SetTeam (pl_mTeam q)
       (SetObjectMana (ch_mManaPoints c) (SetObjectHealth (mHealthPoints c) x)))))
   }"

definition set_character_object :: "nat \<Rightarrow> nat \<Rightarrow> nat option \<Rightarrow> 's running \<Rightarrow> 's running" where
  "set_character_object p i a R =
     R\<lparr>rn_players := (rn_players R)[p := (rn_players R ! p)\<lparr>gp_objects := (gp_objects (rn_players R ! p))[i := a]\<rparr>]\<rparr>"

definition set_character :: "nat \<Rightarrow> Character \<Rightarrow> Player \<Rightarrow> Player" where
  "set_character i c q =
     SetUpdateBits (push_bit i 1) (pl_mark 3 (q\<lparr>mCharacterData := (mCharacterData q)[i := c]\<rparr>))"

definition SetCharacter :: "'s outside \<Rightarrow> nat \<Rightarrow> Character \<Rightarrow> nat \<Rightarrow> 's running \<Rightarrow> 's running option" where
  "SetCharacter X p c i R =
     (if i \<ge> 3 then Some R
      else (case (if mNounId c \<noteq> 0 then Manager_Create X (mNounId c) R else (None, R)) of
          (None, R) \<Rightarrow> Some (with_player p (set_character i (c\<lparr>mAssetId := 0\<rparr>)) (set_character_object p i None R))
        | (Some a, R) \<Rightarrow>
            map_option (\<lambda>R. with_player p (set_character i
                (c\<lparr>mAssetId := ob_assetId (obj R a), mAbilityPoints := 10, mAbilityRanks := replicate 9 1\<rparr>))
                (set_character_object p i (Some a) R))
              (try_object a (hero_object (the_player R p) c) R)))"

definition SetSquad :: "'s outside \<Rightarrow> nat \<Rightarrow> Squad \<Rightarrow> 's running \<Rightarrow> 's running option" where
  "SetSquad X p s R = do {
     let user = user_of X R p;
     let R = with_player p (\<lambda>q. q\<lparr>mSquad := Some s, mCurrentDeckIndex := 0, mQueuedDeckIndex := 0\<rparr>) R;
     R \<leftarrow> each (\<lambda>(i, creatureId). SetCharacter X p (squad_character X (GetCreatureById creatureId user)) i)
           (enumerate 0 (mCreatureIds s)) R;
     Some (with_player p (\<lambda>q. SetUpdateBits PlayerBits (fold pl_mark [1, 2, 23] q)) R)
   }"

definition Server_SendGamePrepareForStart :: "'s outside \<Rightarrow> address \<Rightarrow> 's running \<Rightarrow> 's running option" where
  "Server_SendGamePrepareForStart X a R = do {
     c \<leftarrow> client_at a R;
     (w, s) \<leftarrow> SendGamePrepareForStart (os_stream X) (g_chain (rn_game R)) (cl_state c);
     Some (post_maybe X a w (with_client a (\<lambda>c. c\<lparr>cl_state := s\<rparr>) R))
   }"

definition PrepareGameStart :: "'s outside \<Rightarrow> address \<Rightarrow> u32 \<Rightarrow> 's running \<Rightarrow> 's running option" where
  "PrepareGameStart X a squadId R =
     (case client_at a R of
        None \<Rightarrow> Some R
      | Some c \<Rightarrow>
          (case (cl_player c, cl_user c) of
             (Some p, Some u) \<Rightarrow>
               (case GetSquadById squadId (users (os_users X) ! u) of
                  None \<Rightarrow> Some R
                | Some k \<Rightarrow> do {
                    R \<leftarrow> SetSquad X p (mSquads (users (os_users X) ! u) ! k)
                          (with_client a (\<lambda>c. c\<lparr>cl_code := state_code PreDungeon\<rparr>) R);
                    Server_SendGamePrepareForStart X a R
                  })
           | _ \<Rightarrow> Some R))"

subsection \<open>Votes, catalysts and pings\<close>

definition vote :: "'s outside \<Rightarrow> address \<Rightarrow> u8 \<Rightarrow> 's running \<Rightarrow> 's running" where
  "vote X a v R = post X a (SendChainVoteMessages (os_stream X) (g_chain (rn_game R)) v) R"

text \<open>The meaning of the message is in its length.\<close>

definition OnChainPlayerMsgs :: "'s outside \<Rightarrow> address \<Rightarrow> bytes \<Rightarrow> 's running \<Rightarrow> 's running option" where
  "OnChainPlayerMsgs X a bs R =
     (if length bs = 1 then
        Some (if bs ! 0 = 0 then vote X a 1 (vote X a 0 R) else if bs ! 0 = 2 then vote X a 2 R else R)
      else if length bs = 6 then PrepareGameStart X a (u32_at 2 bs) R
      else Some R)"

definition crystal :: "'s outside \<Rightarrow> address \<Rightarrow> u8 \<Rightarrow> u32 \<Rightarrow> u32 \<Rightarrow> Catalyst \<Rightarrow> 's running \<Rightarrow> 's running" where
  "crystal X a moveType slot newSlot c = post X a (SendCrystalMessage (os_stream X) moveType slot newSlot c)"

definition move_crystal :: "u32 \<Rightarrow> u32 \<Rightarrow> Catalyst \<Rightarrow> Player \<Rightarrow> Player option" where
  "move_crystal slot newSlot c q =
     (if slot = newSlot then Some q
      else map_option (\<lambda>other. SetCatalyst other slot (SetCatalyst c newSlot q)) (GetCatalyst newSlot q))"

definition drag_crystal :: "'s outside \<Rightarrow> address \<Rightarrow> nat \<Rightarrow> u32 \<Rightarrow> u32 \<Rightarrow> u32 \<Rightarrow> 's running \<Rightarrow> 's running option" where
  "drag_crystal X a p slot moveType newSlot R =
     (if GetDeployedCharacterObject R p = None then Some (crystal X a 3 slot 0 Catalyst_none R)
      else do {
        c \<leftarrow> GetCatalyst slot (the_player R p);
        if ct_noun c = 0 then Some (crystal X a 3 slot 0 Catalyst_none R)
        else if moveType = 0 then do {
          R \<leftarrow> DropCatalyst X p slot R;
          Some (crystal X a 2 slot 0xFFFFFFFF Catalyst_none R)
        }
        else if moveType = 1 then Some (crystal X a 2 slot newSlot Catalyst_none R)
        else if moveType = 2 then do {
          q \<leftarrow> move_crystal slot newSlot c (the_player R p);
          Some (crystal X a 2 slot newSlot c (with_player p (\<lambda>_. q) R))
        }
        else Some (crystal X a 0 0 0 Catalyst_none R)
      })"

definition OnCrystalDragMessage :: "'s outside \<Rightarrow> address \<Rightarrow> nat \<Rightarrow> bytes \<Rightarrow> 's running \<Rightarrow> 's running option" where
  "OnCrystalDragMessage X a p bs R = do {
     (crystalSlot, bs) \<leftarrow> Read_u32 bs;
     (moveType, bs) \<leftarrow> Read_u32 bs;
     (pickupTime, bs) \<leftarrow> Read_u32 bs;
     (dropTime, bs) \<leftarrow> Read_u32 bs;
     (unk, bs) \<leftarrow> Read_u32 bs;
     (newSlot, bs) \<leftarrow> Read_u32 bs;
     drag_crystal X a p crystalSlot moveType newSlot R
   }"

definition calm_director :: cAIDirector where
  "calm_director = \<lparr>mBossId = 0, mActiveHordeWaves = 0, mbBossSpawned = False, mbBossHorde = False, mbCaptainSpawned = False,
     mbBossComplete = False, mbHordeSpawned = False\<rparr>"

definition OnDebugPing :: "'s outside \<Rightarrow> address \<Rightarrow> nat \<Rightarrow> bytes \<Rightarrow> 's running \<Rightarrow> 's running option" where
  "OnDebugPing X a p bs R = do {
     (time, bs) \<leftarrow> Read_u64 bs;
     c \<leftarrow> client_at a R;
     case cl_state c of
       Spaceship \<Rightarrow> Some (with_client a (\<lambda>c. c\<lparr>cl_code := state_code ChainVoting\<rparr>) R)
     | ChainVoting \<Rightarrow> Some (vote X a 0 R)
     | ChainCashOut \<Rightarrow> Some (post X a (SendChainCashOutMessages (os_stream X) (g_cash (rn_game R)) 1) R)
     | Dungeon \<Rightarrow>
         map_option (Instance_SwapCharacter X p 1)
           (OnPlayerStart X p (post X a (SendQuickGame (os_stream X)) (post X a (SendDirectorState (os_stream X) calm_director) R)))
     | _ \<Rightarrow> Some R
   }"

subsection \<open>The thread\<close>

definition ParseRakNetPackets :: "'s outside \<Rightarrow> address \<Rightarrow> u8 \<Rightarrow> 's running \<Rightarrow> 's running" where
  "ParseRakNetPackets X a packetType R =
     (let ids = os_ids X in
      if packetType = ID_DISCONNECTION_NOTIFICATION ids \<or> packetType = ID_CONNECTION_LOST ids then RemoveClient a R
      else if packetType = ID_NEW_INCOMING_CONNECTION ids then OnNewIncomingConnection X a R
      else R)"

text \<open>\<open>LootDropMessage\<close> is only printed.\<close>

definition ParseSporeNetPackets :: "'s outside \<Rightarrow> address \<Rightarrow> u8 \<Rightarrow> bytes \<Rightarrow> 's running \<Rightarrow> 's running option" where
  "ParseSporeNetPackets X a packetType bs R =
     (case client_at a R of
        None \<Rightarrow> Some R
      | Some c \<Rightarrow>
          if packetType = ID_HelloPlayerRequest then OnHelloPlayerRequest X a bs R
          else if packetType = ID_ChainPlayerMsgs then OnChainPlayerMsgs X a bs R
          else (case cl_player c of
              None \<Rightarrow> Some R
            | Some p \<Rightarrow>
                if packetType = ID_PlayerStatusUpdate then OnPlayerStatusUpdate X a p bs R
                else if packetType = ID_ActionCommandMsgs then OnActionCommandMsgs X a p bs R
                else if packetType = ID_CrystalDragMessage then OnCrystalDragMessage X a p bs R
                else if packetType = ID_DebugPing then OnDebugPing X a p bs R
                else Some R))"

text \<open>The type of a packet: the first byte, or the one after a time stamp, which stays the first when there is none.\<close>

definition GetPacketIdentifier :: "library_ids \<Rightarrow> bytes \<Rightarrow> (u8 \<times> bytes) option" where
  "GetPacketIdentifier ids bs = do {
     (message, bs) \<leftarrow> Read_u8 bs;
     Some (if message = ID_TIMESTAMP ids
           then (case Read_u8 (drop (sizeof_RakNetTime ids) bs) of Some mb \<Rightarrow> mb | None \<Rightarrow> (message, []))
           else (message, bs))
   }"

definition receive_packet :: "'s outside \<Rightarrow> address \<times> bytes \<Rightarrow> 's running \<Rightarrow> 's running option" where
  "receive_packet X pk R = do {
     (packetType, bs) \<leftarrow> GetPacketIdentifier (os_ids X) (snd pk);
     if packetType < ID_USER_PACKET_ENUM (os_ids X) then Some (ParseRakNetPackets X (fst pk) packetType R)
     else ParseSporeNetPackets X (fst pk) packetType bs R
   }"

definition run_one :: "'s outside \<Rightarrow> (address \<times> bytes) list \<Rightarrow> 's running \<Rightarrow> 's running option" where
  "run_one X packets R = each (receive_packet X) packets R"

text \<open>The task of a client, for testing: always the first client, whichever was meant; without one the end of the map is dereferenced.\<close>

definition client_task :: "'s outside \<Rightarrow> u8 \<Rightarrow> 's running \<Rightarrow> 's running option" where
  "client_task X kind R =
     (case rn_clients R of
        [] \<Rightarrow> None
      | (a, c) # _ \<Rightarrow>
          (case cl_player c of
             None \<Rightarrow> Some R
           | Some p \<Rightarrow>
               (let B = os_stream X; deployed = map_option (obj R) (GetDeployedCharacterObject R p);
                    first = GetCharacterObject R p 0
                in if kind = ID_ReloadLevel then Some (post X a (SendReloadLevel B) R)
                else if kind = ID_PhysicsChanged then
                  Some ((post_maybe X a (SendPhysicsChanged B deployed (rn_collisionTest R)) R)\<lparr>rn_collisionTest := \<not> rn_collisionTest R\<rparr>)
                else if kind = ID_ServerEvent then Some R
                else if kind = ID_LabsPlayerUpdate then
                  (let R = with_player p (SetUpdateBits UpdateMask) R
                   in Some (with_player p Player_ResetUpdateBits (post_maybe X a (SendLabsPlayerUpdate B (the_player R p)) R)))
                else if kind = ID_ObjectCreate then (if first = None then Some R else DropCatalyst_all X R)
                else if kind = ID_ObjectUpdate then
                  (case first of None \<Rightarrow> Some R
                   | Some x \<Rightarrow> (let R = with_object x (SetScale 0x40000000) R
                                in Some (post_maybe X a (SendObjectUpdate B (Some (obj R x))) R)))
                else if kind = ID_DirectorState then do {
                  x \<leftarrow> first;
                  Some (post X a (SendDirectorState B (calm_director\<lparr>mBossId := GetObjectId (obj R x), mbBossSpawned := True\<rparr>)) R)
                }
                else if kind = ID_ModifierCreated then Some (post_maybe X a (SendModifierCreated B (rn_time R) deployed) R)
                else if kind = ID_DebugPing then Some (post X a (SendDebugPing B (os_unix X)) R)
                else Some (R\<lparr>rn_teleport := \<not> rn_teleport R\<rparr>))))"

definition run_task :: "'s outside \<Rightarrow> server_task \<Rightarrow> 's running \<Rightarrow> 's running option" where
  "run_task X t R = (case t of ClientTask i kind \<Rightarrow> client_task X kind R | _ \<Rightarrow> Some (os_scripts X R))"

text \<open>The state of the game, whose data nothing sets: their type is zero.\<close>

definition send_state :: "'s outside \<Rightarrow> address \<Rightarrow> 's running \<Rightarrow> 's running" where
  "send_state X a R =
     (let R = with_client a (\<lambda>c. c\<lparr>cl_var := 0, cl_type := 0\<rparr>) R in
      case client_at a R of None \<Rightarrow> R
      | Some c \<Rightarrow> post X a (SendGameState (os_stream X) (rn_time R) (GetTimeElapsed (os_now X) (rn_game R)) (cl_code c) (cl_type c)) R)"

definition periodic :: "'s outside \<Rightarrow> 's running \<Rightarrow> 's running option" where
  "periodic X R = map_option (\<lambda>(updated, R). if updated then fold (send_state X) (map fst (rn_clients R)) R else R) (Instance_Update X R)"

text \<open>A turn of the loop: tasks, packets when ten milliseconds have passed, and the update.\<close>

definition turn :: "'s outside \<Rightarrow> server_task list \<Rightarrow> (address \<times> bytes) list \<Rightarrow> 's running \<Rightarrow> 's running option" where
  "turn X tasks packets R = do {
     R \<leftarrow> each (run_task X) tasks R;
     R \<leftarrow> (if ServerUpdate X R then run_one X packets R else Some R);
     periodic X R
   }"

end
