(* ===== verification/WorldInvariant.thy ===== *)
theory WorldInvariant
  imports GameServer
begin

unbundle bit_operations_syntax

text \<open>
  What the thread of a game keeps: identifiers lead to their objects, marked objects are active, an
  object has the data that its flags announce, heroes and players are there, clients are in order.
  Scripts, which can do anything, are assumed to keep it.
\<close>

named_theorems object_steps "operations on an object that keep its identifier, its mark and its data"

subsection \<open>Objects\<close>

definition object_ok :: "game_object \<Rightarrow> bool" where
  "object_ok x \<longleftrightarrow>
     (ob_flags x AND UpdateCombatant \<noteq> 0 \<longrightarrow> ob_combatant x \<noteq> None) \<and>
     (ob_flags x AND UpdateAttributes \<noteq> 0 \<longrightarrow> ob_attributes x \<noteq> None) \<and>
     (ob_flags x AND UpdateLootData \<noteq> 0 \<longrightarrow> ob_loot x \<noteq> None) \<and>
     (ob_flags x AND UpdateAgentBlackboardData \<noteq> 0 \<longrightarrow> ob_blackboard x \<noteq> None) \<and>
     (ob_flags x AND UpdateInteractableData \<noteq> 0 \<longrightarrow> ob_interactable x \<noteq> None) \<and>
     (ob_flags x AND UpdateLocomotion \<noteq> 0 \<longrightarrow> ob_locomotion x \<noteq> None)"

definition object_step :: "game_object \<Rightarrow> game_object \<Rightarrow> bool" where
  "object_step x y \<longleftrightarrow> game_object.ob_id y = game_object.ob_id x \<and> IsMarkedForDeletion y = IsMarkedForDeletion x \<and>
     (object_ok x \<longrightarrow> object_ok y)"

lemma flag_bits:
  "(w :: u16) AND 1 \<noteq> 0 \<longleftrightarrow> bit w 0" "w AND 2 \<noteq> 0 \<longleftrightarrow> bit w 1" "w AND 4 \<noteq> 0 \<longleftrightarrow> bit w 2" "w AND 8 \<noteq> 0 \<longleftrightarrow> bit w 3"
  "w AND 16 \<noteq> 0 \<longleftrightarrow> bit w 4" "w AND 32 \<noteq> 0 \<longleftrightarrow> bit w 5" "w AND 64 \<noteq> 0 \<longleftrightarrow> bit w 6" "w AND 128 \<noteq> 0 \<longleftrightarrow> bit w 7"
  "w AND 256 \<noteq> 0 \<longleftrightarrow> bit w 8"
proof -
  have "w AND push_bit n 1 \<noteq> 0 \<longleftrightarrow> bit w n" for n
    by (simp add: bit_iff_and_push_bit_not_eq_0)
  note m = this
  show "w AND 1 \<noteq> 0 \<longleftrightarrow> bit w 0" using m [of 0] by simp
  show "w AND 2 \<noteq> 0 \<longleftrightarrow> bit w 1" using m [of 1] by simp
  show "w AND 4 \<noteq> 0 \<longleftrightarrow> bit w 2" using m [of 2] by simp
  show "w AND 8 \<noteq> 0 \<longleftrightarrow> bit w 3" using m [of 3] by simp
  show "w AND 16 \<noteq> 0 \<longleftrightarrow> bit w 4" using m [of 4] by simp
  show "w AND 32 \<noteq> 0 \<longleftrightarrow> bit w 5" using m [of 5] by simp
  show "w AND 64 \<noteq> 0 \<longleftrightarrow> bit w 6" using m [of 6] by simp
  show "w AND 128 \<noteq> 0 \<longleftrightarrow> bit w 7" using m [of 7] by simp
  show "w AND 256 \<noteq> 0 \<longleftrightarrow> bit w 8" using m [of 8] by simp
qed

lemmas flag_values = UpdateCombatant_def UpdateAttributes_def UpdateLootData_def UpdateAgentBlackboardData_def
  UpdateInteractableData_def UpdateLocomotion_def MarkedForDeletion_def Dirty_def Created_def

lemma object_ok_iff:
  "object_ok x \<longleftrightarrow> (bit (ob_flags x) 3 \<longrightarrow> ob_combatant x \<noteq> None) \<and> (bit (ob_flags x) 4 \<longrightarrow> ob_attributes x \<noteq> None) \<and>
     (bit (ob_flags x) 5 \<longrightarrow> ob_loot x \<noteq> None) \<and> (bit (ob_flags x) 6 \<longrightarrow> ob_blackboard x \<noteq> None) \<and>
     (bit (ob_flags x) 7 \<longrightarrow> ob_interactable x \<noteq> None) \<and> (bit (ob_flags x) 8 \<longrightarrow> ob_locomotion x \<noteq> None)"
  by (simp only: object_ok_def flag_values flag_bits)

lemma marked_iff: "IsMarkedForDeletion x \<longleftrightarrow> bit (ob_flags x) 0"
  by (simp only: IsMarkedForDeletion_def flag_values flag_bits)

lemma flag_bit:
  "bit (1 :: u16) n \<longleftrightarrow> n = 0" "bit (2 :: u16) n \<longleftrightarrow> n = 1" "bit (4 :: u16) n \<longleftrightarrow> n = 2" "bit (8 :: u16) n \<longleftrightarrow> n = 3"
  "bit (16 :: u16) n \<longleftrightarrow> n = 4" "bit (32 :: u16) n \<longleftrightarrow> n = 5" "bit (64 :: u16) n \<longleftrightarrow> n = 6" "bit (128 :: u16) n \<longleftrightarrow> n = 7"
  "bit (256 :: u16) n \<longleftrightarrow> n = 8"
proof -
  have m: "bit (push_bit k 1 :: u16) n \<longleftrightarrow> n = k" if "k < 16" for k
    using that by (auto simp: bit_exp_iff possible_bit_def)
  show "bit (1 :: u16) n \<longleftrightarrow> n = 0" using m [of 0] by simp
  show "bit (2 :: u16) n \<longleftrightarrow> n = 1" using m [of 1] by simp
  show "bit (4 :: u16) n \<longleftrightarrow> n = 2" using m [of 2] by simp
  show "bit (8 :: u16) n \<longleftrightarrow> n = 3" using m [of 3] by simp
  show "bit (16 :: u16) n \<longleftrightarrow> n = 4" using m [of 4] by simp
  show "bit (32 :: u16) n \<longleftrightarrow> n = 5" using m [of 5] by simp
  show "bit (64 :: u16) n \<longleftrightarrow> n = 6" using m [of 6] by simp
  show "bit (128 :: u16) n \<longleftrightarrow> n = 7" using m [of 7] by simp
  show "bit (256 :: u16) n \<longleftrightarrow> n = 8" using m [of 8] by simp
qed

lemma object_step_refl [simp, intro]: "object_step x x" by (simp add: object_step_def)

lemma object_step_trans: "object_step x y \<Longrightarrow> object_step y z \<Longrightarrow> object_step x z"
  by (simp add: object_step_def)

lemma marks_step [object_steps]: "object_step x (mark_bit k x)"
  by (simp add: object_step_def object_ok_def IsMarkedForDeletion_def mark_bit_def)

lemma field_steps [object_steps]:
  "object_step x (x\<lparr>ob_center := v\<rparr>)" "object_step x (x\<lparr>ob_orientation := r\<rparr>)" "object_step x (x\<lparr>ob_scale := s\<rparr>)"
  "object_step x (x\<lparr>ob_hasCollision := b\<rparr>)" "object_step x (x\<lparr>ob_visible := b\<rparr>)" "object_step x (x\<lparr>ob_team := t\<rparr>)"
  "object_step x (x\<lparr>ob_playerIndex := t, ob_playerControlled := b\<rparr>)" "object_step x (x\<lparr>ob_interactableState := i\<rparr>)"
  "object_step x (x\<lparr>ob_markerId := i\<rparr>)" "object_step x (SetAssetId q x)" "object_step x (ResetUpdateBits x)"
  "object_step x (x\<lparr>ob_lastAnimationState := i, ob_lastAnimationPlayTime := q\<rparr>)"
  "object_step x (x\<lparr>ob_graphicsState := i, ob_graphicsStateStartTime := q\<rparr>)"
  by (simp_all add: object_step_def object_ok_def IsMarkedForDeletion_def SetAssetId_def ResetUpdateBits_def)

lemma set_flag_step:
  assumes "object_step x y" and "\<not> bit f 0" and "bit f 3 \<longrightarrow> ob_combatant y \<noteq> None" and "bit f 4 \<longrightarrow> ob_attributes y \<noteq> None"
    and "bit f 5 \<longrightarrow> ob_loot y \<noteq> None" and "bit f 6 \<longrightarrow> ob_blackboard y \<noteq> None"
    and "bit f 7 \<longrightarrow> ob_interactable y \<noteq> None" and "bit f 8 \<longrightarrow> ob_locomotion y \<noteq> None"
  shows "object_step x (set_flag f y)"
proof -
  have "object_step y (set_flag f y)"
    using assms(2-) unfolding object_step_def object_ok_iff marked_iff set_flag_def by (simp add: bit_or_iff)
  then show ?thesis using assms(1) by (rule object_step_trans [rotated])
qed

lemmas flag_rules = flag_values flag_bit

lemma created_step [object_steps]: "object_step x (set_flag Created x)"
  by (rule set_flag_step) (simp_all add: flag_rules)

lemma dirty_step [object_steps]: "object_step x (SetDirty d x)"
proof (cases d)
  case True
  have "object_step x (set_flag Dirty x)" by (rule set_flag_step) (simp_all add: flag_rules)
  then show ?thesis using True by (simp add: SetDirty_def)
next
  case False
  then show ?thesis
    by (simp add: SetDirty_def object_step_def object_ok_iff marked_iff flag_values bit_and_iff bit_not_iff flag_bit)
qed

lemma clear_flags_step [object_steps]: "object_step x (x\<lparr>ob_flags := ob_flags x AND NOT UpdateFlags\<rparr>)"
  by (simp add: object_step_def object_ok_iff marked_iff UpdateFlags_def flag_values bit_and_iff bit_or_iff bit_not_iff flag_bit)

lemma setter_steps [object_steps]:
  "object_step x (SetPosition v x)" "object_step x (SetOrientation r x)" "object_step x (SetScale s x)"
  "object_step x (SetHasCollision b x)" "object_step x (SetVisible b x)" "object_step x (SetTeam t x)"
  "object_step x (SetPlayerIndex t x)" "object_step x (SetInteractableState i x)" "object_step x (SetMarkerId i x)"
proof -
  have m: "object_step x y \<Longrightarrow> object_step x (mark_bit k y)" for y k by (rule object_step_trans [OF _ marks_step])
  have "object_step x (SetPositionSimulated v x)"
    unfolding SetPositionSimulated_def Let_def by (auto intro: object_step_trans field_steps dirty_step)
  then show "object_step x (SetPosition v x)" unfolding SetPosition_def by (rule m)
  show "object_step x (SetOrientation r x)" "object_step x (SetScale s x)" "object_step x (SetHasCollision b x)"
    "object_step x (SetVisible b x)" "object_step x (SetTeam t x)" "object_step x (SetPlayerIndex t x)"
    "object_step x (SetInteractableState i x)" "object_step x (SetMarkerId i x)"
    unfolding SetOrientation_def SetScale_def SetHasCollision_def SetVisible_def SetTeam_def SetPlayerIndex_def
      SetInteractableState_def SetMarkerId_def by (intro m field_steps)+
qed

lemma data_field_steps:
  "object_step x (x\<lparr>ob_combatant := Some c\<rparr>)" "object_step x (x\<lparr>ob_attributes := Some a\<rparr>)" "object_step x (x\<lparr>ob_loot := Some l\<rparr>)"
  "object_step x (x\<lparr>ob_blackboard := Some d\<rparr>)" "object_step x (x\<lparr>ob_interactable := Some i\<rparr>)" "object_step x (x\<lparr>ob_locomotion := Some m\<rparr>)"
  by (simp_all add: object_step_def object_ok_def IsMarkedForDeletion_def)

lemma data_flag_steps:
  "object_step x (set_flag UpdateCombatant (x\<lparr>ob_combatant := Some c\<rparr>))"
  "object_step x (set_flag UpdateAttributes (x\<lparr>ob_attributes := Some a\<rparr>))"
  "object_step x (set_flag UpdateLootData (x\<lparr>ob_loot := Some l\<rparr>))"
  "object_step x (set_flag UpdateInteractableData (x\<lparr>ob_interactable := Some i\<rparr>))"
  "object_step x (set_flag UpdateLocomotion (x\<lparr>ob_locomotion := Some m\<rparr>))"
  by (rule set_flag_step [OF data_field_steps(1)], simp_all add: flag_rules)
    (rule set_flag_step [OF data_field_steps(2)], simp_all add: flag_rules,
     rule set_flag_step [OF data_field_steps(3)], simp_all add: flag_rules,
     rule set_flag_step [OF data_field_steps(5)], simp_all add: flag_rules,
     rule set_flag_step [OF data_field_steps(6)], simp_all add: flag_rules)

lemma create_steps [object_steps]:
  "object_step x (CreateInteractableData x)" "object_step x (CreateLootData x)"
  "object_step x (SetObjectHealth s x)" "object_step x (SetObjectMana s x)"
  unfolding CreateInteractableData_def CreateLootData_def SetObjectHealth_def SetObjectMana_def
  by (simp_all add: data_flag_steps split: option.splits)

lemma data_steps:
  "SetAbility i x = Some y \<Longrightarrow> object_step x y" "SetTimesUsed i x = Some y \<Longrightarrow> object_step x y"
  "SetUsesAllowed i x = Some y \<Longrightarrow> object_step x y" "SetLootId j x = Some y \<Longrightarrow> object_step x y"
  "SetLootCatalyst c x = Some y \<Longrightarrow> object_step x y" "SetAttributeValue k v x = Some y \<Longrightarrow> object_step x y"
  unfolding SetAbility_def SetTimesUsed_def SetUsesAllowed_def SetLootId_def SetLootCatalyst_def
    on_interactable_def on_loot_def SetAttributeValue_def
  by (auto simp: data_flag_steps)

lemma locomotion_steps:
  "Locomotion_SetGoalPosition p x = Some y \<Longrightarrow> object_step x y" "SetPartialGoalPosition p x = Some y \<Longrightarrow> object_step x y"
  "SetGoalFlags f x = Some y \<Longrightarrow> object_step x y" "Locomotion_Stop x = Some y \<Longrightarrow> object_step x y"
  unfolding Locomotion_SetGoalPosition_def SetPartialGoalPosition_def SetGoalFlags_def Locomotion_Stop_def on_locomotion_def
  by (auto simp: data_flag_steps data_field_steps)

subsection \<open>The world\<close>

definition player_ok :: "nat \<Rightarrow> game_player \<Rightarrow> bool" where
  "player_ok n g \<longleftrightarrow> length (gp_objects g) = 3 \<and> (\<forall>a. Some a \<in> set (gp_objects g) \<longrightarrow> a < n) \<and>
     length (mCharacterData (gp_player g)) = 3 \<and> length (mCatalysts (gp_player g)) = 9"

definition objects_ok :: "'s running \<Rightarrow> bool" where
  "objects_ok R \<longleftrightarrow>
     (\<forall>i a. rn_byId R i = Some a \<longrightarrow> i \<noteq> 0 \<and> a < length (rn_store R) \<and> game_object.ob_id (obj R a) = i) \<and>
     set (rn_active R) = ran (rn_byId R) \<and> distinct (rn_active R) \<and>
     set (rn_marked R) \<subseteq> set (rn_active R) \<and> distinct (rn_marked R) \<and>
     (\<forall>a < length (rn_store R). IsMarkedForDeletion (obj R a) \<longleftrightarrow> a \<in> set (rn_marked R) \<or> a \<notin> set (rn_active R)) \<and>
     (\<forall>a < length (rn_store R). object_ok (obj R a))"

definition clients_ok :: "'s running \<Rightarrow> bool" where
  "clients_ok R \<longleftrightarrow> sorted_wrt (<) (map fst (rn_clients R)) \<and>
     (\<forall>(a, c) \<in> set (rn_clients R). \<forall>p. cl_player c = Some p \<longrightarrow> p < length (rn_players R)) \<and>
     (\<forall>(i, p) \<in> set (rn_byUser R). p < length (rn_players R)) \<and>
     (\<forall>g \<in> set (rn_players R). player_ok (length (rn_store R)) g)"

definition game_ok :: "'s running \<Rightarrow> bool" where "game_ok R \<longleftrightarrow> objects_ok R \<and> clients_ok R"

text \<open>A step of the world: it keeps the invariant and takes nothing away that is pointed to.\<close>

definition fine :: "'s running \<Rightarrow> 's running \<Rightarrow> bool" where
  "fine R R' \<longleftrightarrow> (game_ok R \<longrightarrow> game_ok R') \<and> length (rn_store R) \<le> length (rn_store R') \<and>
     length (rn_players R) \<le> length (rn_players R')"

definition outside_ok :: "'s outside \<Rightarrow> bool" where
  "outside_ok X \<longleftrightarrow> (\<forall>x. object_step x (os_initialize X x)) \<and> (\<forall>R. fine R (os_octree X R)) \<and> (\<forall>R. fine R (os_scripts X R)) \<and>
     (\<forall>a R. fine R (os_tick X a R)) \<and> (\<forall>a R. fine R (os_activate X a R)) \<and> (\<forall>a R. fine R (os_stop X a R)) \<and>
     (\<forall>i f a b v r R. os_ability X i = Some f \<longrightarrow> fine R (f a b v r R))"

named_theorems fine_steps "operations that keep the world"

lemma fine_refl [simp, intro]: "fine R R" by (simp add: fine_def)
lemma fine_trans: "fine R S \<Longrightarrow> fine S T \<Longrightarrow> fine R T" by (auto simp: fine_def)

lemma fine_fold: "(\<And>x R. x \<in> set xs \<Longrightarrow> fine R (f x R)) \<Longrightarrow> fine R (fold f xs R)"
  by (induction xs arbitrary: R) (auto intro: fine_trans)

lemma fine_each:
  assumes "\<And>x R R'. x \<in> set xs \<Longrightarrow> f x R = Some R' \<Longrightarrow> fine R R'" and "each f xs R = Some R'"
  shows "fine R R'"
  using assms
proof (induction xs arbitrary: R)
  case (Cons x xs)
  from Cons.prems(2) obtain S where "f x R = Some S" "each f xs S = Some R'" by (auto split: bind_splits)
  then show ?case using Cons by (meson fine_trans list.set_intros)
qed simp

text \<open>What the invariant does not look at.\<close>

lemma world_ok_ignores [simp]:
  "game_ok (R\<lparr>rn_out := v1\<rparr>) = game_ok R" "game_ok (R\<lparr>rn_game := v2\<rparr>) = game_ok R" "game_ok (R\<lparr>rn_started := v3\<rparr>) = game_ok R"
  "game_ok (R\<lparr>rn_time := v4\<rparr>) = game_ok R" "game_ok (R\<lparr>rn_timeLua := v5\<rparr>) = game_ok R" "game_ok (R\<lparr>rn_markers := v6\<rparr>) = game_ok R"
  "game_ok (R\<lparr>rn_dropped := v7\<rparr>) = game_ok R" "game_ok (R\<lparr>rn_lootIds := v8\<rparr>) = game_ok R" "game_ok (R\<lparr>rn_teleport := v9\<rparr>) = game_ok R"
  "game_ok (R\<lparr>rn_collisionTest := v9\<rparr>) = game_ok R" "game_ok (R\<lparr>rn_open := v10\<rparr>) = game_ok R" "game_ok (R\<lparr>rn_next := v11\<rparr>) = game_ok R"
  by (simp_all add: game_ok_def objects_ok_def clients_ok_def obj_def)

lemma fine_ignores [fine_steps]:
  "fine R (R\<lparr>rn_out := v1\<rparr>)" "fine R (R\<lparr>rn_game := v2\<rparr>)" "fine R (R\<lparr>rn_game := v2, rn_started := v3\<rparr>)" "fine R (R\<lparr>rn_time := v4\<rparr>)"
  "fine R (R\<lparr>rn_timeLua := v5\<rparr>)" "fine R (R\<lparr>rn_markers := v6\<rparr>)" "fine R (R\<lparr>rn_dropped := v7\<rparr>)" "fine R (R\<lparr>rn_lootIds := v8\<rparr>)"
  "fine R (R\<lparr>rn_teleport := v9\<rparr>)" "fine R (R\<lparr>rn_collisionTest := v9\<rparr>)" "fine R (R\<lparr>rn_open := v10\<rparr>)" "fine R (R\<lparr>rn_next := v11\<rparr>)"
  by (simp_all add: fine_def)

lemma fine_post [fine_steps]: "fine R (post X a w R)" by (simp add: post_def fine_steps)
lemma fine_post_maybe [fine_steps]: "fine R (post_maybe X a w R)" by (auto simp: post_maybe_def fine_steps split: option.splits)
lemma fine_to_all [fine_steps]: "fine R (to_all X w R)" unfolding to_all_def by (rule fine_fold) (auto simp: fine_steps)

lemma fine_with_object:
  assumes "a < length (rn_store R) \<longrightarrow> object_step (obj R a) (f (obj R a))"
  shows "fine R (with_object a f R)"
proof -
  have "objects_ok (with_object a f R)" if "objects_ok R"
  proof -
    have o: "obj (with_object a f R) b = (if b = a \<and> a < length (rn_store R) then f (obj R a) else obj R b)" for b
      by (cases "a < length (rn_store R)") (auto simp: obj_def with_object_def nth_list_update list_update_beyond not_less)
    have "rn_byId (with_object a f R) = rn_byId R" "rn_active (with_object a f R) = rn_active R"
      "rn_marked (with_object a f R) = rn_marked R" "length (rn_store (with_object a f R)) = length (rn_store R)"
      by (simp_all add: with_object_def)
    then show ?thesis using that assms unfolding objects_ok_def by (auto simp: o object_step_def)
  qed
  moreover have "clients_ok (with_object a f R) = clients_ok R" by (simp add: clients_ok_def with_object_def)
  ultimately show ?thesis by (auto simp: fine_def game_ok_def with_object_def)
qed

lemma fine_try_object:
  assumes "try_object a f R = Some R'" and "\<And>x y. f x = Some y \<Longrightarrow> object_step x y"
  shows "fine R R'"
  using assms by (auto simp: try_object_def intro!: fine_with_object)

lemma fine_with_player:
  assumes "\<And>q. length (mCharacterData (f q)) = length (mCharacterData q)" and "\<And>q. length (mCatalysts (f q)) = length (mCatalysts q)"
  shows "fine R (with_player p f R)"
proof -
  have "objects_ok (with_player p f R) = objects_ok R" by (simp add: objects_ok_def with_player_def obj_def)
  moreover have "clients_ok (with_player p f R)" if "clients_ok R"
  proof -
    have "player_ok n ((rn_players R ! p)\<lparr>gp_player := f (gp_player (rn_players R ! p))\<rparr>)" if "player_ok n (rn_players R ! p)" for n
      using that assms by (simp add: player_ok_def)
    then have "player_ok (length (rn_store R)) g" if "g \<in> set ((rn_players R)[p := (rn_players R ! p)\<lparr>gp_player := f (the_player R p)\<rparr>])" for g
      using that \<open>clients_ok R\<close> unfolding the_player_def clients_ok_def
      by (cases "p < length (rn_players R)") (auto dest!: set_update_subset_insert [THEN subsetD] simp: list_update_beyond)
    then show ?thesis using \<open>clients_ok R\<close> by (simp add: clients_ok_def with_player_def)
  qed
  ultimately show ?thesis by (auto simp: fine_def game_ok_def with_player_def)
qed

lemma fine_with_client:
  assumes "\<And>c. cl_player (f c) = cl_player c"
  shows "fine R (with_client a f R)"
proof -
  have "objects_ok (with_client a f R) = objects_ok R" by (simp add: objects_ok_def with_client_def obj_def)
  moreover have "map fst (rn_clients (with_client a f R)) = map fst (rn_clients R)" by (auto simp: with_client_def)
  moreover have "rn_byUser (with_client a f R) = rn_byUser R" "rn_players (with_client a f R) = rn_players R"
    "rn_store (with_client a f R) = rn_store R" by (simp_all add: with_client_def)
  moreover have "\<forall>(b, c) \<in> set (rn_clients (with_client a f R)). \<forall>p. cl_player c = Some p \<longrightarrow> p < length (rn_players R)"
    if "clients_ok R"
    using that assms by (auto simp: with_client_def clients_ok_def split: if_splits)
  ultimately show ?thesis by (simp add: fine_def game_ok_def clients_ok_def)
qed

subsection \<open>Making, marking and forgetting objects\<close>

lemma GetNextObjectId_ignores:
  assumes "GetNextObjectId R = (i, R')"
  shows "rn_store R' = rn_store R" "rn_byId R' = rn_byId R" "rn_active R' = rn_active R" "rn_marked R' = rn_marked R"
    "rn_players R' = rn_players R" "rn_byUser R' = rn_byUser R" "rn_clients R' = rn_clients R"
  using assms by (auto simp: GetNextObjectId_def split: if_splits)

lemma fine_insert_object:
  assumes "insert_object build R = (a, R')"
    and build: "\<And>i. game_object.ob_id (build i) = i" "\<And>i. \<not> IsMarkedForDeletion (build i)" "\<And>i. object_ok (build i)"
  shows "fine R R'" and "a = Some b \<Longrightarrow> b < length (rn_store R')"
proof -
  obtain i S where S: "GetNextObjectId R = (i, S)" by fastforce
  note same = GetNextObjectId_ignores [OF S]
  have fS: "fine R S" using S by (auto simp: GetNextObjectId_def fine_steps split: if_splits)
  let ?n = "length (rn_store S)"
  let ?T = "S\<lparr>rn_store := rn_store S @ [build i], rn_byId := (rn_byId S)(i \<mapsto> ?n), rn_active := rn_active S @ [?n]\<rparr>"
  have new: "fine S ?T" if "i \<noteq> 0" "rn_byId S i = None"
  proof -
    have o: "obj ?T b = (if b < ?n then obj S b else build i)" if "b < Suc ?n" for b
      using that by (auto simp: obj_def nth_append less_Suc_eq)
    have "objects_ok ?T" if w: "objects_ok S"
    proof -
      have "ran ((rn_byId S)(i \<mapsto> ?n)) = insert ?n (ran (rn_byId S))" using \<open>rn_byId S i = None\<close> by simp
      moreover have "?n \<notin> set (rn_active S)" "?n \<notin> set (rn_marked S)"
        using w by (auto simp: objects_ok_def ran_def) blast+
      ultimately show ?thesis
        using w \<open>i \<noteq> 0\<close> build unfolding objects_ok_def
        by (auto simp: o less_Suc_eq split: if_splits)
    qed
    moreover have "clients_ok ?T" if "clients_ok S"
      using that by (auto simp: clients_ok_def player_ok_def less_Suc_eq)
    ultimately show ?thesis by (simp add: fine_def game_ok_def)
  qed
  from assms(1) have r: "(a, R') = (if i = 0 \<or> rn_byId S i \<noteq> None then (None, S) else (Some ?n, ?T))"
    by (simp add: insert_object_def S)
  then show "fine R R'" using fS new by (auto split: if_splits intro: fine_trans)
  show "a = Some b \<Longrightarrow> b < length (rn_store R')" using r by (auto split: if_splits)
qed

lemma Object_new_facts: "game_object.ob_id (Object_new q j i n) = i" "\<not> IsMarkedForDeletion (Object_new q j i n)" "object_ok (Object_new q j i n)"
  by (simp_all add: Object_new_def IsMarkedForDeletion_def object_ok_def)

lemma fine_Create:
  assumes "outside_ok X" and "Manager_Create X noun R = (a, R')"
  shows "fine R R'" and "a = Some b \<Longrightarrow> b < length (rn_store R')"
proof -
  have s: "object_step (Object_new q j i n) (os_initialize X (Object_new q j i n))" for q j i n using assms(1) by (simp add: outside_ok_def)
  then have "game_object.ob_id (os_initialize X (Object_new q j i n)) = i" "\<not> IsMarkedForDeletion (os_initialize X (Object_new q j i n))"
    "object_ok (os_initialize X (Object_new q j i n))" for q j i n
    using Object_new_facts by (auto simp: object_step_def)
  note f = fine_insert_object [OF assms(2) [unfolded Manager_Create_def] this]
  show "fine R R'" by (rule f(1)) 
  show "a = Some b \<Longrightarrow> b < length (rn_store R')" by (rule f(2))
qed

lemma fine_CreateTrigger:
  assumes "CreateTrigger X p r R = (a, R')"
  shows "fine R R'" and "a = Some b \<Longrightarrow> b < length (rn_store R')"
proof -
  have "object_step (Object_new q j i n) (SetPosition p (SetHasCollision False (SetScale 0 (Object_new q j i n))))" for q j i n
    by (meson object_step_trans setter_steps)
  moreover have "object_step x (x\<lparr>ob_extent := v\<rparr>)" for x v by (simp add: object_step_def object_ok_def IsMarkedForDeletion_def)
  ultimately have "object_step (Object_new (os_identity X) (os_junk64 X) i trigger_noun) (TriggerVolume_new X i p r)" for i
    unfolding TriggerVolume_new_def by (meson object_step_trans)
  then have "game_object.ob_id (TriggerVolume_new X i p r) = i" "\<not> IsMarkedForDeletion (TriggerVolume_new X i p r)"
    "object_ok (TriggerVolume_new X i p r)" for i
    using Object_new_facts by (auto simp: object_step_def)
  note f = fine_insert_object [OF assms [unfolded CreateTrigger_def] this]
  show "fine R R'" by (rule f(1))
  show "a = Some b \<Longrightarrow> b < length (rn_store R')" by (rule f(2))
qed

lemma fine_MarkForDeletion:
  assumes a: "a < length (rn_store R)"
  shows "fine R (MarkForDeletion a R)"
proof -
  let ?S = "if IsMarkedForDeletion (obj R a) then R else R\<lparr>rn_marked := rn_marked R @ [a]\<rparr>"
  let ?T = "MarkForDeletion a R"
  have o: "obj ?T b = (if b = a then set_flag MarkedForDeletion (obj R a) else obj R b)" for b
    using a by (auto simp: MarkForDeletion_def obj_def with_object_def nth_list_update)
  have same: "rn_byId ?T = rn_byId R" "rn_active ?T = rn_active R" "length (rn_store ?T) = length (rn_store R)"
    "rn_players ?T = rn_players R" "rn_byUser ?T = rn_byUser R" "rn_clients ?T = rn_clients R"
    and marked: "rn_marked ?T = rn_marked ?S"
    by (simp_all add: MarkForDeletion_def with_object_def)
  have f: "game_object.ob_id (set_flag MarkedForDeletion x) = game_object.ob_id x" "IsMarkedForDeletion (set_flag MarkedForDeletion x)"
    "object_ok x \<Longrightarrow> object_ok (set_flag MarkedForDeletion x)" for x
    by (simp_all add: set_flag_def object_ok_iff marked_iff bit_or_iff flag_rules)
  have "objects_ok ?T" if "objects_ok R"
  proof -
    have "\<not> IsMarkedForDeletion (obj R a) \<Longrightarrow> a \<in> set (rn_active R) \<and> a \<notin> set (rn_marked R)"
      "IsMarkedForDeletion (obj R a) \<Longrightarrow> a \<in> set (rn_marked R) \<or> a \<notin> set (rn_active R)"
      using that a by (auto simp: objects_ok_def)
    then show ?thesis using that unfolding objects_ok_def same marked by (auto simp: o f)
  qed
  moreover have "clients_ok ?T = clients_ok R" by (simp add: clients_ok_def same)
  ultimately show ?thesis by (simp add: fine_def game_ok_def same)
qed

lemma fine_forget:
  assumes "set xs \<subseteq> set (rn_marked R)" and "distinct xs"
  shows "fine R ((fold forget_object xs R)\<lparr>rn_marked := filter (\<lambda>a. a \<notin> set xs) (rn_marked R)\<rparr>)"
  using assms
proof (induction xs arbitrary: R)
  case Nil
  have "R\<lparr>rn_marked := rn_marked R\<rparr> = R" by simp
  then show ?case by simp
next
  case (Cons a xs)
  let ?S = "(forget_object a R)\<lparr>rn_marked := removeAll a (rn_marked R)\<rparr>"
  have "objects_ok ?S" if w: "objects_ok R"
  proof -
    have a: "a \<in> set (rn_active R)" using Cons.prems w by (auto simp: objects_ok_def)
    then obtain i where i: "rn_byId R i = Some a" using w by (auto simp: objects_ok_def ran_def)
    then have "GetObjectId (obj R a) = i" using w by (simp add: objects_ok_def GetObjectId_def)
    moreover have "rn_byId R k = Some b \<Longrightarrow> game_object.ob_id (obj R b) = k" for k b using w by (simp add: objects_ok_def)
    then have inj: "j = i" if "rn_byId R j = Some a" for j using that i by blast
    have "ran ((rn_byId R)(i := None)) = ran (rn_byId R) - {a}"
    proof (rule set_eqI)
      fix b
      show "b \<in> ran ((rn_byId R)(i := None)) \<longleftrightarrow> b \<in> ran (rn_byId R) - {a}"
      proof
        assume "b \<in> ran ((rn_byId R)(i := None))"
        then obtain j where "j \<noteq> i" "rn_byId R j = Some b" by (auto simp: ran_def split: if_splits)
        then show "b \<in> ran (rn_byId R) - {a}" using inj by (auto intro: ranI)
      next
        assume "b \<in> ran (rn_byId R) - {a}"
        then obtain j where "rn_byId R j = Some b" "b \<noteq> a" by (auto simp: ran_def)
        moreover from this have "j \<noteq> i" using i by auto
        ultimately show "b \<in> ran ((rn_byId R)(i := None))" by (intro ranI [where a = j]) simp
      qed
    qed
    moreover have "\<forall>b < length (rn_store R). IsMarkedForDeletion (rn_store R ! b) \<longleftrightarrow>
        b \<in> set (removeAll a (rn_marked R)) \<or> b \<notin> set (removeAll a (rn_active R))"
      using w a Cons.prems by (auto simp: objects_ok_def obj_def)
    ultimately show ?thesis
      using w a unfolding objects_ok_def
      by (auto simp: forget_object_def Let_def obj_def distinct_removeAll split: if_splits)
  qed
  moreover have "clients_ok ?S = clients_ok R" by (simp add: clients_ok_def forget_object_def Let_def)
  ultimately have S: "fine R ?S" by (simp add: fine_def game_ok_def forget_object_def Let_def)
  have T: "fine ?S ((fold forget_object xs ?S)\<lparr>rn_marked := filter (\<lambda>a. a \<notin> set xs) (rn_marked ?S)\<rparr>)"
    using Cons.prems by (intro Cons.IH) auto
  have c: "fold forget_object xs (S\<lparr>rn_marked := v\<rparr>) = (fold forget_object xs S)\<lparr>rn_marked := v\<rparr>" for S :: "'a running" and v
  proof (induction xs arbitrary: S)
    case (Cons b xs)
    have "forget_object b (S\<lparr>rn_marked := v\<rparr>) = (forget_object b S)\<lparr>rn_marked := v\<rparr>"
      by (cases S) (simp add: forget_object_def Let_def obj_def)
    then show ?case using Cons.IH by simp
  qed simp
  have m: "filter (\<lambda>b. b \<notin> set xs) (rn_marked ?S) = filter (\<lambda>b. b \<notin> set (a # xs)) (rn_marked R)"
    by (auto simp: removeAll_filter_not_eq intro!: filter_cong)
  have "(fold forget_object xs ?S)\<lparr>rn_marked := filter (\<lambda>b. b \<notin> set xs) (rn_marked ?S)\<rparr> =
      (fold forget_object (a # xs) R)\<lparr>rn_marked := filter (\<lambda>b. b \<notin> set (a # xs)) (rn_marked R)\<rparr>"
    unfolding m c by simp
  then show ?case using fine_trans [OF S T] by (simp only:)
qed

subsection \<open>Sending\<close>

lemma create_announced: "object_step x (ResetUpdateBits (set_flag Created x))"
  by (rule object_step_trans [OF created_step field_steps(11)])

lemma fine_SendObjectCreate [fine_steps]: "Instance_SendObjectCreate X a R = (ok, R') \<Longrightarrow> fine R R'"
  by (auto simp: Instance_SendObjectCreate_def split: option.splits if_splits
    intro!: fine_trans [OF fine_to_all fine_with_object] create_announced)

lemma fine_snd_SendObjectCreate [fine_steps]: "fine R (snd (Instance_SendObjectCreate X a R))"
  by (cases "Instance_SendObjectCreate X a R") (simp add: fine_SendObjectCreate)

lemma Character_setters_length: "length (list_update cs i c) = length cs" by simp

lemma fine_SyncCharacterData [fine_steps]: "fine R (SyncCharacterData p R)"
  unfolding SyncCharacterData_def Let_def
  by (auto split: option.splits intro!: fine_with_player simp: SetUpdateBits_def)

lemma fine_update_client: "update_client X a ac R = Some R' \<Longrightarrow> fine R R'"
  unfolding update_client_def Let_def
  by (auto split: bind_splits if_splits intro!: fine_trans [OF fine_SyncCharacterData fine_fold] fine_fold fine_post_maybe)

lemma fine_SendObjectUpdate:
  assumes "Instance_SendObjectUpdate X a R = Some R'"
  shows "fine R R'"
proof -
  obtain ok S where S: "Instance_SendObjectCreate X (Some a) R = (ok, S)" by fastforce
  note f = fine_SendObjectCreate [OF S]
  show ?thesis
  proof (cases ok)
    case False
    then show ?thesis using assms S f by (simp add: Instance_SendObjectUpdate_def)
  next
    case True
    with assms S obtain T where T: "each (update_client X a) (rn_clients S) S = Some T"
      and R': "R' = with_object a (\<lambda>x. ResetUpdateBits (if rn_clients T = [] then x else x\<lparr>ob_flags := ob_flags x AND NOT UpdateFlags\<rparr>)) T"
      by (auto simp: Instance_SendObjectUpdate_def split: bind_splits)
    have "fine S T" using T by (rule fine_each [rotated]) (rule fine_update_client)
    moreover have "fine T R'" unfolding R'
      by (rule fine_with_object) (auto intro: object_step_trans [OF clear_flags_step field_steps(11)] field_steps)
    ultimately show ?thesis using f by (meson fine_trans)
  qed
qed

lemma fine_animation [fine_steps]: "fine R (Instance_SendAnimationState X a s b v R)"
  unfolding Instance_SendAnimationState_def Let_def
  by (auto split: option.splits intro!: fine_trans [OF fine_with_object fine_to_all] fine_to_all field_steps)

lemma fine_gfx [fine_steps]: "fine R (Instance_SendObjectGfxState X a s R)"
  unfolding Instance_SendObjectGfxState_def Let_def
  by (auto split: option.splits intro!: fine_trans [OF fine_with_object fine_to_all] field_steps)

lemma fine_server_event [fine_steps]: "fine R (Instance_SendServerEvent X e R)"
  by (simp add: Instance_SendServerEvent_def fine_steps)

lemma fine_reset_player [fine_steps]: "fine R (with_player p Player_ResetUpdateBits R)"
  by (rule fine_with_player) (simp_all add: Player_ResetUpdateBits_def)

lemma fine_labs [fine_steps]: "fine R (Instance_SendLabsPlayerUpdate X p R)"
  by (auto simp: Instance_SendLabsPlayerUpdate_def intro: fine_trans [OF fine_to_all fine_reset_player])

lemma fine_tick:
  assumes "outside_ok X" and "tick_object X a R = Some R'"
  shows "fine R R'"
proof -
  have "fine R (os_tick X a R)" using assms(1) by (simp add: outside_ok_def)
  moreover have "fine (os_tick X a R) R'" using assms(2) fine_SendObjectUpdate [of X a]
    by (auto simp: tick_object_def Let_def split: if_splits)
  ultimately show ?thesis by (rule fine_trans)
qed

lemma fine_Update:
  assumes X: "outside_ok X" and "Manager_Update X R = Some R'"
  shows "fine R R'"
proof -
  let ?S = "os_octree X R"
  from assms(2) obtain T where T: "each (tick_object X) (rn_active ?S) ?S = Some T"
    and R': "R' = (if rn_marked T = [] then T
      else (fold forget_object (rn_marked T) (Instance_SendObjectsDelete X (rn_marked T) T))\<lparr>rn_marked := []\<rparr>)"
    by (auto simp: Manager_Update_def Let_def split: bind_splits)
  have "fine R ?S" using X by (simp add: outside_ok_def)
  moreover have "fine ?S T" using T by (rule fine_each [rotated]) (rule fine_tick [OF X])
  moreover have "fine T R'"
  proof (cases "rn_marked T = []")
    case False
    let ?U = "Instance_SendObjectsDelete X (rn_marked T) T"
    have U: "rn_marked ?U = rn_marked T" unfolding Instance_SendObjectsDelete_def to_all_def
      by (rule fold_invariant [where Q = "\<lambda>_. True" and P = "\<lambda>S. rn_marked S = rn_marked T"])
        (auto simp: post_maybe_def post_def split: option.splits)
    have "fine T ?U" by (simp add: Instance_SendObjectsDelete_def fine_steps)
    moreover have "fine ?U R'"
    proof (cases "distinct (rn_marked T)")
      case True
      then have "fine ?U ((fold forget_object (rn_marked T) ?U)\<lparr>rn_marked := filter (\<lambda>a. a \<notin> set (rn_marked T)) (rn_marked ?U)\<rparr>)"
        by (intro fine_forget) (simp_all add: U)
      then show ?thesis using False by (simp add: R' U)
    next
      case d: False
      have l: "length (rn_store (fold forget_object xs V)) = length (rn_store V) \<and> length (rn_players (fold forget_object xs V)) = length (rn_players V)"
        for xs and V :: "'a running"
        by (induction xs arbitrary: V) (simp_all add: forget_object_def Let_def)
      have "\<not> game_ok ?U" using d by (simp add: game_ok_def objects_ok_def U)
      then show ?thesis using False by (simp add: R' fine_def l)
    qed
    ultimately show ?thesis by (rule fine_trans)
  qed (simp add: R')
  ultimately show ?thesis by (meson fine_trans)
qed

end
