(* ===== verification/WorldSteps.thy ===== *)
theory WorldSteps
  imports WorldInvariant
begin

unbundle bit_operations_syntax

text \<open>Every operation of the thread of a game keeps the world: the actions, the packets, the tasks and the update.\<close>

subsection \<open>Actions\<close>

lemma fine_MoveObject [fine_steps]: "fine R (MoveObject X a l R)"
  unfolding MoveObject_def Let_def
  by (auto intro!: fine_trans [OF fine_with_object fine_to_all] fine_trans [OF fine_with_object fine_trans [OF fine_with_object fine_to_all]]
    setter_steps)

lemma fine_UseAbility: "outside_ok X \<Longrightarrow> fine R (UseAbility X a d R)"
  by (auto simp: UseAbility_def outside_ok_def split: option.splits)

lemma fine_SwapCharacter [fine_steps]: "fine R (Instance_SwapCharacter X p i R)"
proof -
  have "fine R (with_player p (SwapCharacter i) R)"
    by (rule fine_with_player) (simp_all add: SwapCharacter_def SetUpdateBits_def pl_mark_def)
  then show ?thesis unfolding Instance_SwapCharacter_def Let_def by (intro fine_trans [OF _ fine_labs] fine_trans [OF _ fine_to_all])
qed

lemma fresh_object_fine:
  assumes "outside_ok X" and "fresh_object X noun f R = Some (b, R')" and "\<And>x y. f x = Some y \<Longrightarrow> object_step x y"
  shows "fine R R'" and "b < length (rn_store R')"
proof -
  from assms(2) obtain S where S: "Manager_Create X noun R = (Some b, S)" "try_object b f S = Some R'"
    by (auto simp: fresh_object_def split: prod.splits option.splits)
  note c = fine_Create [OF assms(1) S(1)] and t = fine_try_object [OF S(2) assms(3)]
  show "fine R R'" using c(1) t by (rule fine_trans)
  show "b < length (rn_store R')" using c(2) t by (auto simp: fine_def intro: less_le_trans)
qed

lemma pickup_data_step:
  assumes "pickup_data x = Some y"
  shows "object_step x y"
proof -
  from assms obtain u w where s: "SetUsesAllowed 1 (CreateInteractableData x) = Some u" "SetTimesUsed 0 u = Some w"
      "SetAbility (hash_id ''PickUpLoot'') w = Some y"
    unfolding pickup_data_def by (auto split: bind_splits)
  show ?thesis
    by (rule object_step_trans [OF create_steps(1) object_step_trans [OF data_steps(3) [OF s(1)]
      object_step_trans [OF data_steps(2) [OF s(2)] data_steps(1) [OF s(3)]]]])
qed

lemma catalyst_settings_step:
  assumes "catalyst_settings i c v g x = Some y"
  shows "object_step x y"
proof -
  let ?x = "if g then SetInteractableState 0 (SetPosition v x) else SetPosition v x"
  from assms obtain u w where s: "SetLootId i (CreateLootData ?x) = Some u" "SetLootCatalyst c u = Some w" "pickup_data w = Some y"
    unfolding catalyst_settings_def Let_def by (auto split: bind_splits)
  have "object_step x ?x" by (auto intro: object_step_trans setter_steps)
  then show ?thesis
    by (rule object_step_trans [OF _ object_step_trans [OF create_steps(2) object_step_trans [OF data_steps(4) [OF s(1)]
      object_step_trans [OF data_steps(5) [OF s(2)] pickup_data_step [OF s(3)]]]]])
qed

lemma catalyst_object_fine:
  assumes "outside_ok X" and "catalyst_object X k c v g R = Some (b, R')"
  shows "fine R R'" and "b < length (rn_store R')"
proof -
  let ?S = "snd (next_loot_id k R)"
  have f: "fresh_object X (ct_noun c) (catalyst_settings (fst (next_loot_id k R)) c v g) ?S = Some (b, R')"
    using assms(2) by (simp add: catalyst_object_def split: prod.splits)
  have "fine R ?S" by (simp add: next_loot_id_def fine_steps)
  then show "fine R R'" using fresh_object_fine(1) [OF assms(1) f catalyst_settings_step] by (rule fine_trans)
  show "b < length (rn_store R')" by (rule fresh_object_fine(2) [OF assms(1) f catalyst_settings_step])
qed

lemma drop_orb_fine:
  assumes "outside_ok X" and "drop_orb X v R = Some R'"
  shows "fine R R'"
proof -
  from assms(2) obtain b S where S: "fresh_object X (hash_id ''HealthOrb.Noun'') (\<lambda>x. Some (SetPosition v x)) R = Some (b, S)"
    and R': "R' = Instance_SendServerEvent X (ServerEvent_new\<lparr>se_serverEventDef := hash_id ''health_orb_drop.ServerEventDef'',
        se_targetPoint := v\<rparr>) (snd (Instance_SendObjectCreate X (Some b) S))"
    unfolding drop_orb_def by (auto split: bind_splits)
  have "fine R S" by (rule fresh_object_fine(1) [OF assms(1) S]) (auto intro: setter_steps)
  moreover have "fine S R'" unfolding R' by (rule fine_trans [OF fine_snd_SendObjectCreate fine_server_event])
  ultimately show ?thesis by (rule fine_trans)
qed

lemma DropLoot_fine:
  assumes X: "outside_ok X" and "DropLoot X a t d R = Some R'"
  shows "fine R R'"
proof (cases "a = None \<or> t = None")
  case True
  then show ?thesis using assms(2) by (auto simp: DropLoot_def split: option.splits)
next
  case False
  then obtain x y where xy: "a = Some x" "t = Some y" by auto
  let ?v = "ob_center (obj R x)"
  from assms(2) obtain S where S: "(if d AND drop_Orbs \<noteq> 0 then drop_orb X ?v R else Some R) = Some S"
    and R': "(if d AND drop_Catalysts \<noteq> 0 then Option.bind (catalyst_object X 0 (Catalyst_new 1 0 False) ?v False S)
        (\<lambda>(b, R). Some (snd (Instance_SendObjectCreate X (Some b) R))) else Some S) = Some R'"
    unfolding DropLoot_def xy Let_def by (auto simp del: bind_split_asm split: bind_splits)
  have "fine R S" using S drop_orb_fine [OF X] by (auto split: if_splits)
  moreover have "fine S R'" using R'
    by (auto split: bind_splits if_splits intro!: fine_trans [OF catalyst_object_fine(1) [OF X] fine_snd_SendObjectCreate])
  ultimately show ?thesis by (rule fine_trans)
qed

lemma UpdateCatalystBonuses_lengths [simp]:
  "length (mCharacterData (UpdateCatalystBonuses q)) = length (mCharacterData q)"
  "length (mCatalysts (UpdateCatalystBonuses q)) = length (mCatalysts q)"
  by (simp_all add: UpdateCatalystBonuses_def Let_def SetUpdateBits_def pl_mark_def)

lemma SetCatalyst_lengths [simp]:
  "length (mCharacterData (SetCatalyst c i q)) = length (mCharacterData q)"
  "length (mCatalysts (SetCatalyst c i q)) = length (mCatalysts q)"
  by (simp_all add: SetCatalyst_def SetUpdateBits_def)

lemma fine_SetCatalyst [fine_steps]: "fine R (with_player p (SetCatalyst c i) R)"
  by (rule fine_with_player) simp_all

lemma DropCatalyst_fine:
  assumes X: "outside_ok X" and "DropCatalyst X p slot R = Some R'"
  shows "fine R R'"
  using assms(2) unfolding DropCatalyst_def Let_def
  by (auto split: option.splits bind_splits if_splits
    intro!: fine_trans [OF fine_SetCatalyst fine_trans [OF catalyst_object_fine(1) [OF X] fine_snd_SendObjectCreate]])

lemma drop_one_fine:
  assumes X: "outside_ok X" and "drop_one_of_four X i (R, v) = Some (R', v')"
  shows "fine R R'"
proof -
  from assms(2) obtain b S ok T l d where S: "catalyst_object X 2 (Catalyst_new (of_nat i) (of_nat (i mod 3)) (odd i)) v True R = Some (b, S)"
    and T: "Instance_SendObjectCreate X (Some b) S = (ok, T)"
    and R': "R' = (let U = (if ok then fold (\<lambda>(a, c) R. post_maybe X a (SendInteractableDataUpdate (os_stream X) (Some (obj R b)) d)
           (post_maybe X a (SendLootDataUpdate (os_stream X) (Some (obj R b)) l) R)) (rn_clients T) T else T)
         in U\<lparr>rn_dropped := rn_dropped U @ [b]\<rparr>)"
    unfolding drop_one_of_four_def Let_def
    by (auto elim!: bind_eq_Some_conv [THEN iffD1, elim_format] split: prod.splits)
  have "fine R S" by (rule catalyst_object_fine(1) [OF X S])
  moreover have "fine S T" by (rule fine_SendObjectCreate [OF T])
  moreover have "fine T R'" unfolding R' Let_def
    by (auto intro!: fine_trans [OF fine_fold fine_ignores(7)] fine_ignores(7) fine_trans [OF fine_post_maybe fine_post_maybe])
  ultimately show ?thesis by (meson fine_trans)
qed

lemma DropCatalyst_all_fine:
  assumes X: "outside_ok X" and "DropCatalyst_all X R = Some R'"
  shows "fine R R'"
proof -
  have e: "fine R R'" if "each (drop_one_of_four X) is (R, v) = Some (R', v')" for "is" R v R' v'
    using that
  proof (induction "is" arbitrary: R v)
    case (Cons i "is")
    from Cons.prems obtain S u where "drop_one_of_four X i (R, v) = Some (S, u)" "each (drop_one_of_four X) is (S, u) = Some (R', v')"
      by (auto elim!: bind_eq_Some_conv [THEN iffD1, elim_format])
    then show ?case using drop_one_fine [OF X] Cons.IH fine_trans by blast
  qed simp
  show ?thesis using assms(2) unfolding DropCatalyst_all_def
    by (auto split: list.splits option.splits elim!: bind_eq_Some_conv [THEN iffD1, elim_format] intro: e)
qed

lemma PickupLoot_fine: "a < length (rn_store R) \<Longrightarrow> fine R (PickupLoot X p a R)"
  by (auto simp: PickupLoot_def Let_def split: option.splits intro!: fine_trans [OF fine_MarkForDeletion fine_to_all] fine_MarkForDeletion)

lemma PickupCatalyst_fine:
  assumes a: "a < length (rn_store R)" and "PickupCatalyst X p a R = Some R'"
  shows "fine R R'"
  using assms(2) unfolding PickupCatalyst_def Let_def
  by (auto split: if_splits option.splits elim!: bind_eq_Some_conv [THEN iffD1, elim_format]
    intro!: fine_to_all fine_MarkForDeletion [OF a] fine_trans [OF fine_MarkForDeletion [OF a] fine_trans [OF fine_SetCatalyst fine_post]])

lemma world_ok_place: "game_ok R \<Longrightarrow> Manager_Get i R = Some a \<Longrightarrow> a < length (rn_store R)"
  by (simp add: game_ok_def objects_ok_def Manager_Get_def)

lemma InteractWithObject_fine:
  assumes X: "outside_ok X" and w: "game_ok R" and "InteractWithObject X p i R = Some R'"
  shows "fine R R'"
proof (cases "Manager_Get i R")
  case None
  then show ?thesis using assms(3) by (simp add: InteractWithObject_def)
next
  case (Some a)
  note a = world_ok_place [OF w Some]
  show ?thesis
  proof (cases "IsMarkedForDeletion (obj R a)")
    case True
    then show ?thesis using assms(3) Some by (simp add: InteractWithObject_def)
  next
    case False
    let ?drop = "\<lambda>S. DropLoot X (GetDeployedCharacterObject S p) (GetDeployedCharacterObject S p) (drop_Catalysts OR drop_Orbs) S"
    from assms(3) Some False obtain S where
      S: "(case ob_interactable (obj R a) of None \<Rightarrow> Some R | Some d \<Rightarrow> try_object a (SetTimesUsed (it_timesUsed d + 1)) R) = Some S"
      and R': "(case os_noun X (ob_noun (obj S a)) of None \<Rightarrow> ?drop S
         | Some n \<Rightarrow> if nv_type n = noun_Loot then Some (PickupLoot X p a S)
             else if nv_type n = noun_Crystal then PickupCatalyst X p a S else ?drop S) = Some R'"
      unfolding InteractWithObject_def by (auto simp: Let_def elim!: bind_eq_Some_conv [THEN iffD1, elim_format])
    have f: "fine R S" using S by (auto split: option.splits intro: fine_try_object data_steps)
    then have "a < length (rn_store S)" using a by (simp add: fine_def)
    then have "fine S R'" using R' DropLoot_fine [OF X] PickupLoot_fine PickupCatalyst_fine
      by (auto simp: Let_def split: option.splits if_splits)
    then show ?thesis using f by (rule fine_trans [rotated])
  qed
qed

lemma OnObjectDeath_fine:
  assumes "\<And>b. a = Some b \<Longrightarrow> b < length (rn_store R)"
  shows "fine R (OnObjectDeath X a critical knockback R)"
proof (cases a)
  case (Some b)
  let ?S = "Instance_SendObjectGfxState X (Some b) (hash_id ''dead'') R"
  have S: "fine R ?S" by (rule fine_gfx)
  show ?thesis
  proof (cases "os_noun X (ob_noun (obj ?S b))")
    case None
    then show ?thesis using S by (simp add: OnObjectDeath_def Some Let_def)
  next
    case (Some n)
    let ?T = "if nv_creature n then with_object b (SetHasCollision False) ?S else ?S"
    let ?U = "case nv_animation n of None \<Rightarrow> ?T
       | Some animation \<Rightarrow> (let s = death_state animation critical knockback
           in if s \<noteq> 0 then Instance_SendAnimationState X (Some b) s False one_f32 ?T else ?T)"
    have "fine ?S ?T" by (auto intro: fine_with_object setter_steps)
    moreover have "fine ?T ?U" by (auto simp: Let_def fine_steps split: option.splits)
    ultimately have U: "fine R ?U" using S by (meson fine_trans)
    moreover have "fine V (if critical then MarkForDeletion b V else V)" if "b < length (rn_store V)" for V :: "'a running"
      using that by (simp add: fine_MarkForDeletion)
    ultimately have "fine ?U (if critical then MarkForDeletion b ?U else ?U)"
      using assms [OF \<open>a = Some b\<close>] unfolding fine_def [of R] by (meson less_le_trans)
    then have "fine R (if critical then MarkForDeletion b ?U else ?U)" using U by (rule fine_trans [rotated])
    then show ?thesis using Some \<open>a = Some b\<close> by (simp add: OnObjectDeath_def Let_def)
  qed
qed (simp add: OnObjectDeath_def)

lemma reconnect_fine [fine_steps]: "fine R (reconnect X a s R)"
  unfolding reconnect_def by (auto split: option.splits prod.splits intro!: fine_trans [OF fine_with_client fine_post_maybe])

lemma BeamOut_fine [fine_steps]: "fine R (BeamOut X p R)"
  unfolding BeamOut_def
  by (auto split: option.splits intro!: fine_trans [OF fine_ignores(2) fine_trans [OF reconnect_fine fine_post]])

subsection \<open>The start of a level\<close>

lemma marker_settings_step:
  assumes "marker_settings X m x = Some y"
  shows "object_step x y"
proof -
  let ?x = "if mk_overrideAssetId m > 0 then SetAssetId (mk_overrideAssetId m) x else x"
  let ?y = "SetMarkerId (mk_id m) (SetOrientation (os_quat X (mk_rotation m)) (SetPosition (mk_position m) ?x))"
  let ?z = "if mk_teleporter m = None then SetScale (mk_scale m) ?y else ?y"
  have "object_step x ?x" by (auto intro: field_steps)
  moreover have "object_step ?x ?y" by (rule object_step_trans [OF setter_steps(1) object_step_trans [OF setter_steps(2) setter_steps(9)]])
  moreover have "object_step ?y ?z" by (auto intro: setter_steps)
  ultimately have z: "object_step x ?z" by (meson object_step_trans)
  show ?thesis
  proof (cases "mk_interactable m")
    case None
    then show ?thesis using assms z by (simp add: marker_settings_def Let_def)
  next
    case (Some d)
    from assms obtain u w where s: "SetAbility (hash_id (mi_ability d)) (CreateInteractableData ?z) = Some u"
        "SetUsesAllowed (mi_usesAllowed d) u = Some w" "SetTimesUsed 0 w = Some y"
      unfolding marker_settings_def Let_def Some by (auto elim!: bind_eq_Some_conv [THEN iffD1, elim_format])
    show ?thesis
      by (rule object_step_trans [OF z object_step_trans [OF create_steps(1) object_step_trans [OF data_steps(1) [OF s(1)]
        object_step_trans [OF data_steps(3) [OF s(2)] data_steps(2) [OF s(3)]]]]])
  qed
qed

lemma CreateMarker_fine:
  assumes X: "outside_ok X" and "Manager_CreateMarker X m R = Some R'"
  shows "fine R R'"
proof -
  obtain a S where S: "create_for_marker X m R = (a, S)" by fastforce
  have f: "fine R S" using S fine_Create(1) [OF X] fine_CreateTrigger(1) by (auto simp: create_for_marker_def split: option.splits)
  show ?thesis
  proof (cases a)
    case None
    then show ?thesis using assms(2) S f by (simp add: Manager_CreateMarker_def)
  next
    case (Some b)
    with assms(2) S obtain T where T: "try_object b (marker_settings X m) S = Some T" "R' = os_activate X b T"
      by (auto simp: Manager_CreateMarker_def)
    have "fine S T" using T(1) by (rule fine_try_object) (rule marker_settings_step)
    moreover have "fine T R'" using X by (simp add: T(2) outside_ok_def)
    ultimately show ?thesis using f by (meson fine_trans)
  qed
qed

lemma TestEnemy_fine:
  assumes X: "outside_ok X"
  shows "fine R (TestEnemy X k s R)"
proof -
  have r: "fine R (remember_marker m R)" for m by (simp add: remember_marker_def fine_steps)
  have o: "fine R (with_object a (\<lambda>x. SetOrientation q (SetPosition v x)) R)" for a q v and R :: "'a running"
    by (rule fine_with_object) (auto intro: object_step_trans setter_steps)
  show ?thesis
  proof (cases "mMarkers s")
    case (Cons m ms)
    let ?S = "remember_marker m R" and ?noun = "GetEnemyNoun (of_nat (os_random X k mod 6)) (g_chain (rn_game (remember_marker m R)))"
    obtain a T where T: "Manager_Create X ?noun ?S = (a, T)" by fastforce
    have "fine R T" by (rule fine_trans [OF r fine_Create(1) [OF X T]])
    then have "fine R (case a of None \<Rightarrow> T | Some a \<Rightarrow> with_object a (\<lambda>x. SetOrientation (os_quat X (mk_rotation m)) (SetPosition (mk_position m) x)) T)"
      by (auto split: option.splits intro: fine_trans [OF _ o])
    then show ?thesis using T r [of m] by (cases a) (simp_all add: TestEnemy_def Cons Let_def)
  qed (simp add: TestEnemy_def)
qed

lemma start_level_fine:
  assumes X: "outside_ok X" and "start_level X R = Some R'"
  shows "fine R R'"
proof -
  from assms(2) obtain n S T where S: "make_obelisks X n R = Some S"
    and T: "each (make_teleporters X n) [''_design'', ''_design_spawners''] S = Some T"
    and R': "R' = fold (make_wanderer X n) (enumerate 0 wanderers) T"
    unfolding start_level_def by (auto elim!: bind_eq_Some_conv [THEN iffD1, elim_format] simp del: each.simps)
  have "fine R S" using S unfolding make_obelisks_def
    by (auto split: option.splits elim: fine_each [rotated] intro: CreateMarker_fine [OF X])
  moreover have "fine V V'" if "make_teleporters X n d V = Some V'" for d V V'
  proof -
    have "fine U U'" if "(if mk_teleporter m \<noteq> None then Manager_CreateMarker X m else Some) (remember_marker m U) = Some U'" for m U U'
    proof -
      have "fine U (remember_marker m U)" by (simp add: remember_marker_def fine_steps)
      moreover have "fine (remember_marker m U) U'" using that CreateMarker_fine [OF X] by (auto split: if_splits)
      ultimately show ?thesis by (rule fine_trans)
    qed
    then show ?thesis using that unfolding make_teleporters_def by (auto split: option.splits elim: fine_each [rotated])
  qed
  then have "fine S T" by (rule fine_each [OF _ T])
  moreover have "fine T R'" unfolding R'
    by (rule fine_fold) (auto simp: make_wanderer_def split: list.splits intro: TestEnemy_fine [OF X])
  ultimately show ?thesis by (meson fine_trans)
qed

lemma send_objective_fine [fine_steps]: "fine R (send_objective X a i v R)"
  by (auto simp: send_objective_def fine_steps split: option.splits)

lemma show_world_fine [fine_steps]: "fine R (show_world X a R)"
  unfolding show_world_def Let_def
  by (auto intro!: fine_trans [OF fine_post fine_trans [OF fine_fold fine_fold]] simp: fine_steps)

lemma hero_settings_step:
  assumes "hero_settings v x = Some y"
  shows "object_step x y"
proof -
  from assms obtain u w where s: "SetAttributeValue InvisibleToSecurityTeleporters one_f32 (SetVisible True (SetPosition v x)) = Some u"
      "SetAttributeValue AttackSpeedScale one_f32 u = Some w" "SetAttributeValue CooldownScale one_f32 w = Some y"
    unfolding hero_settings_def Let_def by (auto elim!: bind_eq_Some_conv [THEN iffD1, elim_format])
  show ?thesis
    by (rule object_step_trans [OF setter_steps(1) object_step_trans [OF setter_steps(5) object_step_trans [OF data_steps(6) [OF s(1)]
      object_step_trans [OF data_steps(6) [OF s(2)] data_steps(6) [OF s(3)]]]]])
qed

lemma place_hero_fine: "place_hero X p v i R = Some R' \<Longrightarrow> fine R R'"
  unfolding place_hero_def
  by (auto split: option.splits elim!: bind_eq_Some_conv [THEN iffD1, elim_format]
    intro!: fine_trans [OF fine_try_object [OF _ hero_settings_step] fine_SendObjectUpdate])

lemma OnPlayerStart_fine:
  assumes X: "outside_ok X" and "OnPlayerStart X p R = Some R'"
  shows "fine R R'"
proof -
  let ?show = "\<lambda>S. case client_by_id (mPlayerIndex (the_player S p)) S of None \<Rightarrow> S | Some a \<Rightarrow> show_world X a S"
  from assms(2) obtain loaded g S v where
    S: "(if loaded then start_level X (R\<lparr>rn_game := g, rn_started := loaded\<rparr>) else Some (R\<lparr>rn_game := g, rn_started := loaded\<rparr>)) = Some S"
    and R': "each (place_hero X p v) [0..<3] (?show S) = Some R'"
    unfolding OnPlayerStart_def Let_def by (auto elim!: bind_eq_Some_conv [THEN iffD1, elim_format] simp del: each.simps upt_rec_numeral)
  have "fine (R\<lparr>rn_game := g, rn_started := loaded\<rparr>) S" using S start_level_fine [OF X] by (auto split: if_splits)
  moreover have "fine S (?show S)" by (auto simp: fine_steps split: option.splits)
  moreover have "fine (?show S) R'" using R' by (rule fine_each [rotated]) (rule place_hero_fine)
  ultimately show ?thesis by (rule fine_trans [OF fine_ignores(3) fine_trans [OF _ fine_trans]])
qed

lemma update_clock_fine:
  assumes "update_clock X R = Some R'"
  shows "fine R R'"
proof -
  have "R' = R \<or> (\<exists>a v g. R' = send_objective X a 0 v (R\<lparr>rn_game := g\<rparr>))"
    using assms unfolding update_clock_def by (auto split: option.splits list.splits if_splits)
  then show ?thesis by (auto intro: fine_trans [OF fine_ignores(2) send_objective_fine])
qed

lemma Instance_Update_fine:
  assumes X: "outside_ok X" and u: "Instance_Update X R = Some (u, R')"
  shows "fine R R'"
proof -
  let ?S = "if os_now X - rn_timeLua R \<ge> 1 then os_scripts X (R\<lparr>rn_timeLua := os_now X\<rparr>) else R"
  have scripts: "fine T (os_scripts X T)" for T using X unfolding outside_ok_def by blast
  have "fine R (os_scripts X (R\<lparr>rn_timeLua := os_now X\<rparr>))"
    by (rule fine_trans [OF fine_ignores(5) scripts])
  then have S: "fine R ?S" by (cases "os_now X - rn_timeLua R \<ge> 1") (simp_all only: if_True if_False fine_refl)
  obtain S where Seq: "S = ?S" by simp
  with u have u: "(if os_now X - rn_time S \<ge> 50 then do {
           R \<leftarrow> Manager_Update X (S\<lparr>rn_time := os_now X\<rparr>);
           R \<leftarrow> update_clock X (fold (\<lambda>(u, p). Instance_SendLabsPlayerUpdate X p) (rn_byUser R) R);
           Some (True, R)
         } else Some (False, S)) = Some (u, R')"
    by (simp only: Instance_Update_def Let_def)
  show ?thesis
  proof (cases "os_now X - rn_time S \<ge> 50")
    case False
    then show ?thesis using u S Seq by (simp only: if_False option.inject prod.inject)
  next
    case True
    from u obtain T where T: "Manager_Update X (S\<lparr>rn_time := os_now X\<rparr>) = Some T"
      and R': "update_clock X (fold (\<lambda>(u, p). Instance_SendLabsPlayerUpdate X p) (rn_byUser T) T) = Some R'"
      unfolding if_P [OF True] bind_eq_Some_conv by blast
    have "fine S T" by (rule fine_trans [OF fine_ignores(4) fine_Update [OF X T]])
    moreover have "fine T (fold (\<lambda>(u, p). Instance_SendLabsPlayerUpdate X p) (rn_byUser T) T)"
      by (rule fine_fold) (auto simp: fine_steps)
    ultimately show ?thesis using S update_clock_fine [OF R'] unfolding Seq by (meson fine_trans)
  qed
qed

subsection \<open>Packets\<close>

lemma put_client_set: "set (put_client a c cs) = insert (a, c) (set cs)"
  by (induction a c cs rule: put_client.induct) auto

lemma put_client_sorted:
  "sorted_wrt (<) (map fst cs) \<Longrightarrow> a \<notin> fst ` set cs \<Longrightarrow> sorted_wrt (<) (map fst (put_client a c cs))"
  by (induction a c cs rule: put_client.induct) (auto simp: put_client_set)

lemma put_player_set: "set (put_player i p ps) = insert (i, p) (set ps)"
  by (induction i p ps rule: put_player.induct) auto

lemma client_at_None: "client_at a R = None \<longleftrightarrow> a \<notin> fst ` set (rn_clients R)"
  by (simp add: client_at_def map_of_eq_None_iff)

lemma AddClient_fine [fine_steps]: "fine R (AddClient X a R)"
proof (cases "client_at a R")
  case None
  then have "a \<notin> fst ` set (rn_clients R)" by (simp add: client_at_None)
  then have "clients_ok (AddClient X a R)" if "clients_ok R"
    using that None by (auto simp: AddClient_def clients_ok_def put_client_set put_client_sorted NetClient_new_def)
  moreover have "objects_ok (AddClient X a R) = objects_ok R" using None by (simp add: AddClient_def objects_ok_def obj_def)
  ultimately show ?thesis using None by (simp add: fine_def game_ok_def AddClient_def)
qed (simp add: AddClient_def)

lemma sorted_filter_fst: "sorted_wrt (<) (map fst cs) \<Longrightarrow> sorted_wrt (<) (map fst (filter P cs))"
  by (induction cs) auto

lemma RemoveClient_fine [fine_steps]: "fine R (RemoveClient a R)"
proof -
  have "clients_ok (RemoveClient a R)" if "clients_ok R" using that by (auto simp: RemoveClient_def clients_ok_def sorted_filter_fst)
  moreover have "objects_ok (RemoveClient a R) = objects_ok R" by (simp add: RemoveClient_def objects_ok_def obj_def)
  ultimately show ?thesis by (simp add: fine_def game_ok_def RemoveClient_def)
qed

lemma OnNewIncomingConnection_fine [fine_steps]: "fine R (OnNewIncomingConnection X a R)"
  unfolding OnNewIncomingConnection_def
  by (rule fine_trans [OF AddClient_fine fine_trans [OF fine_with_client fine_post]]) simp

lemma pl_mark_lengths [simp]:
  "length (mCharacterData (pl_mark k q)) = length (mCharacterData q)" "length (mCatalysts (pl_mark k q)) = length (mCatalysts q)"
  by (simp_all add: pl_mark_def)

lemma fold_lengths:
  assumes "\<And>x q. length (mCharacterData (f x q)) = length (mCharacterData q) \<and> length (mCatalysts (f x q)) = length (mCatalysts q)"
  shows "length (mCharacterData (fold f xs q)) = length (mCharacterData q)" "length (mCatalysts (fold f xs q)) = length (mCatalysts q)"
  using assms by (induction xs arbitrary: q) simp_all

lemma marks_lengths:
  "length (mCharacterData (fold pl_mark ks q)) = length (mCharacterData q)" "length (mCatalysts (fold pl_mark ks q)) = length (mCatalysts q)"
  by (rule fold_lengths, simp)+

lemma SetUpdateBits_lengths:
  "length (mCharacterData (SetUpdateBits b q)) = length (mCharacterData q)" "length (mCatalysts (SetUpdateBits b q)) = length (mCatalysts q)"
  by (simp_all add: SetUpdateBits_def)

lemma SetStatus_lengths:
  "length (mCharacterData (SetStatus s v q)) = length (mCharacterData q)" "length (mCatalysts (SetStatus s v q)) = length (mCatalysts q)"
  by (simp_all add: SetStatus_def SetUpdateBits_def)

lemma setup_fields:
  "mCharacterData (q\<lparr>mbDataSetup := a, pl_mTeam := b, mPlayerOnlineId := c, mLockCamera := d, mLockedAbilityMin := e,
     mLockedDeckIndexMin := f, mAvatarLevel := g, mDNA := h, mAvatarXP := i\<rparr>) = mCharacterData q"
  "mCatalysts (q\<lparr>mbDataSetup := a, pl_mTeam := b, mPlayerOnlineId := c, mLockCamera := d, mLockedAbilityMin := e,
     mLockedDeckIndexMin := f, mAvatarLevel := g, mDNA := h, mAvatarXP := i\<rparr>) = mCatalysts q"
  by simp_all

lemma Player_Setup_lengths:
  "length (mCharacterData (Player_Setup acc q)) = length (mCharacterData q)" "length (mCatalysts (Player_Setup acc q)) = length (mCatalysts q)"
  unfolding Player_Setup_def Let_def marks_lengths setup_fields by (rule SetStatus_lengths)+

lemma new_player_ok: "player_ok n \<lparr>gp_player = Player_new u acc i, gp_objects = replicate 3 None\<rparr>"
  unfolding player_ok_def game_player.select_convs Player_new_def Player_Setup_lengths marks_lengths Player.select_convs length_replicate
  by simp

lemma SetUser_fine [fine_steps]: "fine R (SetUser X a u R)"
proof (cases "u = None \<or> client_at a R = None")
  case False
  then obtain v c where vc: "u = Some v" "client_at a R = Some c" by auto
  have "clients_ok (SetUser X a u R)" if w: "clients_ok R"
  proof -
    have "map fst (rn_clients (SetUser X a u R)) = map fst (rn_clients R)"
      by (auto simp: SetUser_def vc with_client_def Let_def)
    moreover have "\<forall>(b, c) \<in> set (rn_clients (SetUser X a u R)). \<forall>p. cl_player c = Some p \<longrightarrow> p < length (rn_players (SetUser X a u R))"
      using w by (auto simp: SetUser_def vc with_client_def Let_def clients_ok_def less_Suc_eq split: if_splits)
    moreover have "\<forall>(i, p) \<in> set (rn_byUser (SetUser X a u R)). p < length (rn_players (SetUser X a u R))"
      using w by (auto simp: SetUser_def vc with_client_def Let_def clients_ok_def put_player_set less_Suc_eq)
    moreover have "\<forall>g \<in> set (rn_players (SetUser X a u R)). player_ok (length (rn_store (SetUser X a u R))) g"
      using w by (auto simp: SetUser_def vc with_client_def Let_def clients_ok_def new_player_ok)
    ultimately show ?thesis using w by (simp add: clients_ok_def)
  qed
  moreover have "objects_ok (SetUser X a u R) = objects_ok R" by (simp add: SetUser_def vc Let_def with_client_def objects_ok_def obj_def)
  ultimately show ?thesis by (simp add: fine_def game_ok_def SetUser_def vc Let_def with_client_def)
qed (auto simp: SetUser_def split: option.splits)

lemma fine_set_state [fine_steps]: "fine R (with_client a (set_state_data s) R)"
  by (rule fine_with_client) (simp add: set_state_data_def)

lemma fine_first_catalysts [fine_steps]: "fine R (with_player p (first_catalysts X) R)"
  by (rule fine_with_player) (simp_all add: first_catalysts_def fold_lengths)

lemma OnHello_fine:
  assumes "OnHelloPlayerRequest X a bs R = Some R'"
  shows "fine R R'"
proof -
  from assms obtain blazeId rest c where "Read_u64 bs = Some (blazeId, rest)"
    and "client_at a (SetUser X a (GetUserById blazeId (os_users X)) R) = Some c"
    unfolding OnHelloPlayerRequest_def Let_def by (auto elim!: bind_eq_Some_conv [THEN iffD1, elim_format])
  with assms have R': "(case cl_player c of None \<Rightarrow> SetUser X a (GetUserById blazeId (os_users X)) R
     | Some p \<Rightarrow> post X a (SendPartyMergeComplete (os_stream X) (os_unix X))
            (post X a (SendHelloPlayer (os_stream X) (os_ip X) (os_port X) (cl_id c))
              (with_client a (set_state_data Spaceship) (with_player p (first_catalysts X)
                (SetUser X a (GetUserById blazeId (os_users X)) R))))) = R'"
    by (simp add: OnHelloPlayerRequest_def Let_def)
  have f: "fine S (post X a v (post X a w (with_client a (set_state_data Spaceship) (with_player p (first_catalysts X) S))))" for S p v w
    by (rule fine_trans [OF fine_first_catalysts fine_trans [OF fine_set_state fine_trans [OF fine_post fine_post]]])
  show ?thesis unfolding R' [symmetric]
    by (cases "cl_player c") (simp_all only: option.case SetUser_fine fine_trans [OF SetUser_fine f])
qed

lemma GameStart_fine [fine_steps]: "fine R (Server_SendGameStart X a R)"
  unfolding Server_SendGameStart_def by (auto split: option.splits prod.splits intro!: fine_trans [OF fine_with_client fine_post_maybe])

lemma fine_SetStatus [fine_steps]: "fine R (with_player p (SetStatus s v) R)"
  by (rule fine_with_player) (simp_all add: SetStatus_def SetUpdateBits_def)

lemma OnPlayerStatusUpdate_fine:
  assumes "OnPlayerStatusUpdate X a p bs R = Some R'"
  shows "fine R R'"
proof -
  from assms obtain status v where R': "R' = (let R = with_player p (SetStatus status v) R;
      R = (if status = 0x08 then post X a (SendDebugPing (os_stream X) (os_unix X)) (Server_SendGameStart X a (with_client a (set_state_data Dungeon) R))
           else if status = 0x20 then BeamOut X p R else R)
      in with_player p Player_ResetUpdateBits (post_maybe X a (SendLabsPlayerUpdate (os_stream X) (the_player R p)) R))"
    unfolding OnPlayerStatusUpdate_def Let_def by (auto elim!: bind_eq_Some_conv [THEN iffD1, elim_format])
  have "fine S (if status = 0x08 then post X a (SendDebugPing (os_stream X) (os_unix X)) (Server_SendGameStart X a (with_client a (set_state_data Dungeon) S))
       else if status = 0x20 then BeamOut X p S else S)" for S :: "'a running"
    by (auto simp: fine_steps intro!: fine_trans [OF fine_set_state fine_trans [OF GameStart_fine fine_post]])
  then show ?thesis unfolding R' Let_def
    by (rule fine_trans [OF fine_SetStatus fine_trans [OF _ fine_trans [OF fine_post_maybe fine_reset_player]]])
qed

subsection \<open>Commands\<close>

lemma move_command_fine:
  assumes "move_command X x v m R = Some R'"
  shows "fine R R'"
proof -
  let ?flags = "if rn_teleport R then 0x020 else u32_at 16 m"
  from assms obtain S T and l :: locomotion and U l' where s: "try_object x (Locomotion_SetGoalPosition (vec3_at 4 m)) R = Some S"
      "try_object x (SetPartialGoalPosition v) S = Some T" "try_object x (SetGoalFlags (mGoalFlags (lc_data l) OR ?flags)) T = Some U"
    and R': "MoveObject X x l' U = R'"
    unfolding move_command_def Let_def bind_eq_Some_conv option.inject by blast
  have "fine R S" by (rule fine_try_object [OF s(1) locomotion_steps(1)])
  moreover have "fine S T" by (rule fine_try_object [OF s(2) locomotion_steps(2)])
  moreover have "fine T U" by (rule fine_try_object [OF s(3) locomotion_steps(3)])
  moreover have "fine U R'" unfolding R' [symmetric] by (rule fine_MoveObject)
  ultimately show ?thesis by (meson fine_trans)
qed

lemma UseCharacterAbility_fine:
  assumes X: "outside_ok X" and "UseCharacterAbility X a p x m R = Some R'"
  shows "fine R R'"
proof -
  from assms(2) obtain d r where "R' = (let S = UseAbility X x d R in
      if Manager_Get (u32_at 0 m) S = None then S else post X a (SendActionCommandResponse (os_stream X) (rn_time S) r) S)"
    unfolding UseCharacterAbility_def Let_def by (auto elim!: bind_eq_Some_conv [THEN iffD1, elim_format])
  then show ?thesis
    by (simp only: Let_def) (auto intro: fine_UseAbility [OF X] fine_trans [OF fine_UseAbility [OF X] fine_post])
qed

lemma UseSquadAbility_fine:
  assumes "UseSquadAbility X a p x q m R = Some R'"
  shows "fine R R'"
proof -
  have "fine R (with_object x (SetOrientation q) R)" by (rule fine_with_object) (simp add: setter_steps)
  then show ?thesis using assms unfolding UseSquadAbility_def Let_def
    by (auto elim!: bind_eq_Some_conv [THEN iffD1, elim_format] intro: fine_trans [OF _ fine_post])
qed

lemma fine_world: "fine R S \<Longrightarrow> game_ok R \<Longrightarrow> game_ok S" by (simp add: fine_def)

lemma OnActionCommandMsgs_fine:
  assumes X: "outside_ok X" and w: "game_ok R" and r: "OnActionCommandMsgs X a p bs R = Some R'"
  shows "fine R R'"
proof -
  have stop: "fine R S" if "try_object x Locomotion_Stop R = Some S" for x S
    by (rule fine_try_object [OF that locomotion_steps(4)])
  have squad: "fine R T" if "UseSquadAbility X a p x q m R = Some S" "InteractWithObject X p i S = Some T" for x q m i S T
    using UseSquadAbility_fine [OF that(1)] InteractWithObject_fine [OF X _ that(2)] w by (blast intro: fine_trans fine_world)
  have cancel: "fine R (CancelAction X x R)" for x using X by (simp add: CancelAction_def outside_ok_def)
  note rules = move_command_fine stop UseCharacterAbility_fine [OF X] InteractWithObject_fine [OF X w] cancel fine_SwapCharacter fine_animation
  show ?thesis
  proof (cases "Manager_Get (u32_at 8 (fst (read_into_memory sizeof_common (replicate sizeof_common 0, bs)))) R")
    case None
    then show ?thesis using r by (simp add: OnActionCommandMsgs_def Let_def split: prod.splits)
  next
    case (Some x)
    with r show ?thesis unfolding OnActionCommandMsgs_def Let_def
      by (simp only: split: prod.splits option.splits if_splits)
        (auto simp del: bind_split_asm intro: rules elim!: bind_eq_Some_conv [THEN iffD1, elim_format] dest: squad)
  qed
qed

subsection \<open>Squads\<close>

lemma hero_object_step:
  assumes "hero_object q c x = Some y"
  shows "object_step x y"
proof -
  from assms obtain u w where s: "SetAttributeValue MaxHealth (mMaxHealthPoints c) x = Some u" "SetAttributeValue MaxMana (mMaxManaPoints c) u = Some w"
    and y: "SetPlayerIndex (mPlayerIndex q) (SetHasCollision True (SetTeam (pl_mTeam q)
       (SetObjectMana (ch_mManaPoints c) (SetObjectHealth (mHealthPoints c) w)))) = y"
    unfolding hero_object_def bind_eq_Some_conv option.inject by blast
  have "object_step x w" by (rule object_step_trans [OF data_steps(6) [OF s(1)] data_steps(6) [OF s(2)]])
  moreover have "object_step w y" unfolding y [symmetric]
    by (rule object_step_trans [OF create_steps(3) object_step_trans [OF create_steps(4) object_step_trans [OF setter_steps(6)
      object_step_trans [OF setter_steps(4) setter_steps(7)]]]])
  ultimately show ?thesis by (rule object_step_trans)
qed

lemma set_character_object_fine:
  assumes "\<And>b. a = Some b \<Longrightarrow> b < length (rn_store R)"
  shows "fine R (set_character_object p i a R)"
proof -
  let ?g = "rn_players R ! p"
  let ?new = "?g\<lparr>gp_objects := (gp_objects ?g)[i := a]\<rparr>"
  have new: "player_ok (length (rn_store R)) ?new" if "player_ok (length (rn_store R)) ?g"
    using that assms set_update_subset_insert [of "gp_objects ?g" i a] unfolding player_ok_def by auto
  have "player_ok (length (rn_store R)) g" if "clients_ok R" "g \<in> set ((rn_players R)[p := ?new])" for g
    using that new unfolding clients_ok_def
    by (cases "p < length (rn_players R)") (auto dest!: set_update_subset_insert [THEN subsetD] simp: list_update_beyond)
  then have "clients_ok (set_character_object p i a R)" if "clients_ok R"
    using that by (simp add: clients_ok_def set_character_object_def)
  moreover have "objects_ok (set_character_object p i a R) = objects_ok R" by (simp add: objects_ok_def set_character_object_def obj_def)
  ultimately show ?thesis by (auto simp: fine_def game_ok_def set_character_object_def)
qed

lemma fine_set_character [fine_steps]: "fine R (with_player p (set_character i c) R)"
  by (rule fine_with_player) (simp_all add: set_character_def SetUpdateBits_def)

lemma SetCharacter_fine:
  assumes X: "outside_ok X" and r: "SetCharacter X p c i R = Some R'"
  shows "fine R R'"
proof (cases "i \<ge> 3")
  case True
  then show ?thesis using r by (simp add: SetCharacter_def)
next
  case False
  obtain a S where S: "(if mNounId c \<noteq> 0 then Manager_Create X (mNounId c) R else (None, R)) = (a, S)" by fastforce
  have f: "fine R S" and l: "\<And>b. a = Some b \<Longrightarrow> b < length (rn_store S)"
    using S fine_Create [OF X] by (auto split: if_splits)
  show ?thesis
  proof (cases a)
    case None
    with r S False have "R' = with_player p (set_character i (c\<lparr>mAssetId := 0\<rparr>)) (set_character_object p i None S)"
      by (simp add: SetCharacter_def)
    moreover have "fine S \<dots>" by (rule fine_trans [OF set_character_object_fine fine_set_character]) simp
    ultimately show ?thesis using f by (blast intro: fine_trans)
  next
    case (Some b)
    with r S False obtain T c' where T: "try_object b (hero_object (the_player S p) c) S = Some T"
      and R': "R' = with_player p (set_character i c') (set_character_object p i (Some b) T)"
      by (auto simp: SetCharacter_def)
    have ST: "fine S T" by (rule fine_try_object [OF T hero_object_step])
    then have "b < length (rn_store T)" using l [OF Some] by (simp add: fine_def)
    then have "fine T R'" unfolding R' by (intro fine_trans [OF set_character_object_fine fine_set_character]) simp
    then show ?thesis using f ST by (blast intro: fine_trans)
  qed
qed

lemma SetSquad_fine:
  assumes X: "outside_ok X" and r: "SetSquad X p s R = Some R'"
  shows "fine R R'"
proof -
  let ?S = "with_player p (\<lambda>q. q\<lparr>mSquad := Some s, mCurrentDeckIndex := 0, mQueuedDeckIndex := 0\<rparr>) R"
  from r obtain T where T: "each (\<lambda>(i, creatureId). SetCharacter X p (squad_character X (GetCreatureById creatureId (user_of X R p))) i)
      (enumerate 0 (mCreatureIds s)) ?S = Some T"
    and R': "with_player p (\<lambda>q. SetUpdateBits PlayerBits (fold pl_mark [1, 2, 23] q)) T = R'"
    unfolding SetSquad_def Let_def bind_eq_Some_conv option.inject by blast
  have "fine R ?S" by (rule fine_with_player) simp_all
  moreover have "fine ?S T" using T by (rule fine_each [rotated]) (auto intro: SetCharacter_fine [OF X] split: prod.splits)
  moreover have "fine T R'" unfolding R' [symmetric]
    by (rule fine_with_player) (simp_all only: SetUpdateBits_lengths marks_lengths)
  ultimately show ?thesis by (blast intro: fine_trans)
qed

lemma GamePrepare_fine:
  assumes "Server_SendGamePrepareForStart X a R = Some R'"
  shows "fine R R'"
proof -
  from assms obtain s w where "R' = post_maybe X a w (with_client a (\<lambda>c. c\<lparr>cl_state := s\<rparr>) R)"
    unfolding Server_SendGamePrepareForStart_def by (auto elim!: bind_eq_Some_conv [THEN iffD1, elim_format])
  then show ?thesis by (auto intro: fine_trans [OF fine_with_client fine_post_maybe])
qed

lemma PrepareGameStart_fine:
  assumes X: "outside_ok X" and r: "PrepareGameStart X a squadId R = Some R'"
  shows "fine R R'"
proof -
  have f: "fine R R'" if "SetSquad X p s (with_client a (\<lambda>c. c\<lparr>cl_code := v\<rparr>) R) = Some S"
      "Server_SendGamePrepareForStart X a S = Some R'" for p s v S
  proof -
    have "fine R (with_client a (\<lambda>c. c\<lparr>cl_code := v\<rparr>) R)" by (rule fine_with_client) simp
    then show ?thesis using SetSquad_fine [OF X that(1)] GamePrepare_fine [OF that(2)] by (blast intro: fine_trans)
  qed
  show ?thesis using r unfolding PrepareGameStart_def bind_eq_Some_conv
    by (simp only: split: option.splits prod.splits) (auto dest: f simp: bind_eq_Some_conv)
qed

subsection \<open>Catalysts and pings\<close>

lemma fine_vote [fine_steps]: "fine R (vote X a v R)" by (simp add: vote_def fine_steps)

lemma fine_crystal [fine_steps]: "fine R (crystal X a t s n c R)" by (simp add: crystal_def fine_steps)

lemma OnChainPlayerMsgs_fine:
  assumes X: "outside_ok X" and r: "OnChainPlayerMsgs X a bs R = Some R'"
  shows "fine R R'"
  using r PrepareGameStart_fine [OF X] unfolding OnChainPlayerMsgs_def
  by (auto split: if_splits intro: fine_trans [OF fine_vote fine_vote] fine_vote)

lemma move_crystal_lengths:
  assumes "move_crystal slot newSlot c q = Some q'"
  shows "length (mCharacterData q') = length (mCharacterData q)" "length (mCatalysts q') = length (mCatalysts q)"
  using assms by (auto simp: move_crystal_def split: if_splits)

lemma fine_put_player:
  assumes "length (mCharacterData q) = length (mCharacterData (the_player R p))" "length (mCatalysts q) = length (mCatalysts (the_player R p))"
  shows "fine R (with_player p (\<lambda>_. q) R)"
proof -
  have "with_player p (\<lambda>_. q) R = with_player p (\<lambda>x. if length (mCharacterData x) = length (mCharacterData q) \<and>
      length (mCatalysts x) = length (mCatalysts q) then q else x) R"
    using assms by (simp add: with_player_def)
  moreover have "fine R \<dots>" by (rule fine_with_player) auto
  ultimately show ?thesis by (simp only:)
qed

lemma drag_crystal_fine:
  assumes X: "outside_ok X" and r: "drag_crystal X a p slot t n R = Some R'"
  shows "fine R R'"
proof -
  have drop: "fine R (crystal X a t' s' n' c' S)" if "DropCatalyst X p slot R = Some S" for t' s' n' c' S
    by (rule fine_trans [OF DropCatalyst_fine [OF X that] fine_crystal])
  have move: "fine R (crystal X a t' s' n' c' (with_player p (\<lambda>_. q) R))" if "move_crystal slot n c (the_player R p) = Some q" for t' s' n' c' c q
    by (rule fine_trans [OF fine_put_player [OF move_crystal_lengths [OF that]] fine_crystal])
  show ?thesis using r unfolding drag_crystal_def bind_eq_Some_conv
    by (auto simp: bind_eq_Some_conv simp del: bind_split_asm split: if_splits intro: fine_crystal drop move)
qed

lemma OnCrystalDragMessage_fine:
  assumes X: "outside_ok X" and r: "OnCrystalDragMessage X a p bs R = Some R'"
  shows "fine R R'"
  using r drag_crystal_fine [OF X] unfolding OnCrystalDragMessage_def bind_eq_Some_conv by (auto simp: bind_eq_Some_conv simp del: bind_split_asm)

lemma OnDebugPing_fine:
  assumes X: "outside_ok X" and r: "OnDebugPing X a p bs R = Some R'"
  shows "fine R R'"
proof -
  have code: "fine R (with_client a (\<lambda>c. c\<lparr>cl_code := v\<rparr>) R)" for v by (rule fine_with_client) simp
  have start: "fine R (Instance_SwapCharacter X p 1 S)" if "OnPlayerStart X p (post X a v (post X a w R)) = Some S" for v w S
    by (rule fine_trans [OF fine_post fine_trans [OF fine_post fine_trans [OF OnPlayerStart_fine [OF X that] fine_SwapCharacter]]])
  from r obtain c :: game_client where "(case cl_state c of
       Spaceship \<Rightarrow> Some (with_client a (\<lambda>c. c\<lparr>cl_code := state_code ChainVoting\<rparr>) R)
     | ChainVoting \<Rightarrow> Some (vote X a 0 R)
     | ChainCashOut \<Rightarrow> Some (post X a (SendChainCashOutMessages (os_stream X) (g_cash (rn_game R)) 1) R)
     | Dungeon \<Rightarrow>
         map_option (Instance_SwapCharacter X p 1)
           (OnPlayerStart X p (post X a (SendQuickGame (os_stream X)) (post X a (SendDirectorState (os_stream X) calm_director) R)))
     | _ \<Rightarrow> Some R) = Some R'"
    unfolding OnDebugPing_def bind_eq_Some_conv by (auto simp: bind_eq_Some_conv simp del: bind_split_asm)
  then show ?thesis by (cases "cl_state c") (auto intro: code fine_vote fine_post start)
qed

subsection \<open>The thread\<close>

lemma receive_fine:
  assumes X: "outside_ok X" and w: "game_ok R" and r: "receive_packet X pk R = Some R'"
  shows "fine R R'"
proof -
  have "fine R (ParseRakNetPackets X a t R)" for a t by (auto simp: ParseRakNetPackets_def Let_def fine_steps)
  moreover have "fine R S" if "ParseSporeNetPackets X a t bs R = Some S" for a t bs S
    using that OnHello_fine OnChainPlayerMsgs_fine [OF X] OnPlayerStatusUpdate_fine OnActionCommandMsgs_fine [OF X w]
      OnCrystalDragMessage_fine [OF X] OnDebugPing_fine [OF X]
    unfolding ParseSporeNetPackets_def by (auto split: option.splits if_splits)
  ultimately show ?thesis using r unfolding receive_packet_def bind_eq_Some_conv by (auto split: if_splits)
qed

lemma fine_mark_player [fine_steps]: "fine R (with_player p (SetUpdateBits b) R)"
  by (rule fine_with_player) (simp_all add: SetUpdateBits_lengths)

lemma client_task_fine:
  assumes X: "outside_ok X" and r: "client_task X kind R = Some R'"
  shows "fine R R'"
proof -
  have scale: "fine R (post_maybe X a v (with_object x (SetScale s) R))" for a v x s
    by (rule fine_trans [OF fine_with_object fine_post_maybe]) (simp add: setter_steps)
  have toggle: "fine R ((post_maybe X a v R)\<lparr>rn_collisionTest := b\<rparr>)" for a v b by (rule fine_trans [OF fine_post_maybe fine_ignores(10)])
  have labs: "fine R (with_player p Player_ResetUpdateBits (post_maybe X a v (with_player p (SetUpdateBits b) R)))" for a p v b
    by (rule fine_trans [OF fine_mark_player fine_trans [OF fine_post_maybe fine_reset_player]])
  show ?thesis using r unfolding client_task_def Let_def
    by (auto simp del: bind_split_asm simp: bind_eq_Some_conv split: list.splits option.splits if_splits
      intro: scale toggle labs fine_post fine_post_maybe DropCatalyst_all_fine [OF X] fine_ignores(9))
qed

lemma run_task_fine:
  assumes X: "outside_ok X" and r: "run_task X t R = Some R'"
  shows "fine R R'"
  using r client_task_fine [OF X] X by (auto simp: run_task_def outside_ok_def split: server_task.splits)

lemma send_state_fine [fine_steps]: "fine R (send_state X a R)"
proof -
  have f: "fine R (with_client a (\<lambda>c. c\<lparr>cl_var := 0, cl_type := 0\<rparr>) R)" by (rule fine_with_client) simp
  show ?thesis unfolding send_state_def Let_def by (auto split: option.splits intro: f fine_trans [OF f fine_post])
qed

lemma periodic_fine:
  assumes X: "outside_ok X" and r: "periodic X R = Some R'"
  shows "fine R R'"
proof -
  from r obtain u S where S: "Instance_Update X R = Some (u, S)" and R': "(if u then fold (send_state X) (map fst (rn_clients S)) S else S) = R'"
    unfolding periodic_def by auto
  have "fine S R'" unfolding R' [symmetric] by (auto intro: fine_fold fine_steps)
  then show ?thesis using Instance_Update_fine [OF X S] by (blast intro: fine_trans)
qed

end
