(* ===== verification/GameServerProps.thy ===== *)
theory GameServerProps
  imports WorldSteps "HOL-Library.Multiset"
begin

unbundle bit_operations_syntax

text \<open>
  The properties of a running game: the invariant over every run of its thread, when an update of an
  object is defined, who is told of what, the identifiers of the clients and the dragging of
  catalysts.
\<close>

subsection \<open>What the sending functions do\<close>

lemma post_maybe_out:
  "post_maybe X a w R = R\<lparr>rn_out := rn_out R @ (case w of None \<Rightarrow> [] | Some f \<Rightarrow> [(a, f (os_empty X))])\<rparr>"
  by (simp add: post_maybe_def post_def split: option.splits)

lemma to_all_out:
  "to_all X w R = R\<lparr>rn_out := rn_out R @ (case w of None \<Rightarrow> [] | Some f \<Rightarrow> map (\<lambda>(a, c). (a, f (os_empty X))) (rn_clients R))\<rparr>"
proof -
  have "fold (\<lambda>(a, c). post_maybe X a w) cs R =
      R\<lparr>rn_out := rn_out R @ (case w of None \<Rightarrow> [] | Some f \<Rightarrow> map (\<lambda>(a, c). (a, f (os_empty X))) cs)\<rparr>" for cs
    by (induction cs arbitrary: R) (auto simp: post_maybe_out split: option.splits)
  then show ?thesis by (simp add: to_all_def)
qed

lemma fold_post_maybe:
  "fold (post_maybe X a) ps R = R\<lparr>rn_out := rn_out R @ map (\<lambda>f. (a, f (os_empty X))) (List.map_filter id ps)\<rparr>"
  by (induction ps arbitrary: R) (auto simp: post_maybe_out List.map_filter_simps split: option.splits)

lemma SyncCharacterData_same [simp]:
  "rn_clients (SyncCharacterData p R) = rn_clients R" "rn_store (SyncCharacterData p R) = rn_store R"
  by (simp_all add: SyncCharacterData_def Let_def with_player_def split: option.splits)

subsection \<open>The invariant\<close>

text \<open>The life of the thread of a game: turns of its loop, each with what is found outside, the tasks and the packets.\<close>

definition game_loop ::
  "('s outside \<times> server_task list \<times> (address \<times> bytes) list) list \<Rightarrow> 's running \<Rightarrow> 's running option" where
  "game_loop = each (\<lambda>(X, tasks, packets). turn X tasks packets)"

lemma each_world:
  assumes "\<And>x R R'. x \<in> set xs \<Longrightarrow> game_ok R \<Longrightarrow> f x R = Some R' \<Longrightarrow> fine R R'" and "each f xs R = Some R'" and "game_ok R"
  shows "game_ok R'"
  using assms
proof (induction xs arbitrary: R)
  case (Cons x xs)
  from Cons.prems(2) obtain S where S: "f x R = Some S" "each f xs S = Some R'" by (auto split: bind_splits)
  have "game_ok S" using Cons.prems S(1) by (meson fine_world list.set_intros(1))
  then show ?case using Cons.IH [OF _ S(2)] Cons.prems(1) by (meson list.set_intros(2))
qed simp

lemma turn_world:
  assumes X: "outside_ok X" and w: "game_ok R" and r: "turn X tasks packets R = Some R'"
  shows "game_ok R'"
proof -
  from r obtain S T where S: "each (run_task X) tasks R = Some S"
    and T: "(if ServerUpdate X S then run_one X packets S else Some S) = Some T" and R': "periodic X T = Some R'"
    unfolding turn_def bind_eq_Some_conv by blast
  have "game_ok S" using each_world [OF _ S w] run_task_fine [OF X] by blast
  then have "game_ok T" using T each_world [of packets "receive_packet X"] receive_fine [OF X]
    by (auto simp: run_one_def split: if_splits)
  then show ?thesis using periodic_fine [OF X R'] fine_world by blast
qed

lemma world_new: "game_ok (running_new g)"
  by (simp add: game_ok_def objects_ok_def clients_ok_def running_new_def ran_def)


text \<open>An outside without scripts, at a moment, with the numbers of the library's own messages.\<close>

definition still_outside :: "u64 \<Rightarrow> sessions \<Rightarrow> memory outside" where
  "still_outside now s = \<lparr>os_stream = mem_stream, os_empty = mem_empty,
     os_ids = \<lparr>ID_TIMESTAMP = 25, ID_USER_PACKET_ENUM = 0x7F, ID_DISCONNECTION_NOTIFICATION = 19,
       ID_NEW_INCOMING_CONNECTION = 17, ID_CONNECTION_LOST = 20, sizeof_RakNetTime = 4\<rparr>,
     os_ip = [127, 0, 0, 1], os_port = 3659, os_now = now, os_unix = 0, os_users = s, os_env = demo_env,
     os_noun = (\<lambda>_. None), os_initialize = (\<lambda>x. x), os_identity = \<lparr>qx = 0, qy = 0, qz = 0, qw = one_f32\<rparr>,
     os_euler = (\<lambda>_. vec3_zero), os_quat = (\<lambda>_. \<lparr>qx = 0, qy = 0, qz = 0, qw = one_f32\<rparr>), os_add = (\<lambda>x y. x), os_floor = (\<lambda>x. x),
     os_junk32 = 0, os_junk64 = 0, os_junk_vec = vec3_zero, os_random = (\<lambda>_. 0), os_octree = (\<lambda>R. R), os_scripts = (\<lambda>R. R),
     os_tick = (\<lambda>a R. R), os_activate = (\<lambda>a R. R), os_ability = (\<lambda>_. None), os_stop = (\<lambda>a R. R)\<rparr>"

lemma still_outside_ok: "outside_ok (still_outside now s)"
  by (simp add: outside_ok_def still_outside_def)


subsection \<open>Updating an object\<close>

lemma when_flag_defined:
  assumes "flags AND f \<noteq> 0 \<longrightarrow> d \<noteq> None"
  shows "\<exists>ps. when_flag flags f d w = Some ps"
  using assms by (cases "flags AND f = 0") (auto simp: when_flag_def)

lemma update_packets_defined:
  assumes "object_ok x"
  shows "update_packets X x \<noteq> None"
proof -
  note ok = assms [unfolded object_ok_def]
  obtain a where a: "when_flag (ob_flags x) UpdateCombatant (ob_combatant x) (SendCombatantDataUpdate (os_stream X) (Some x)) = Some a"
    using when_flag_defined [OF ok [THEN conjunct1]] by blast
  obtain b where b: "when_flag (ob_flags x) UpdateAttributes (ob_attributes x) (SendAttributeDataUpdate (os_stream X) (Some x)) = Some b"
    using when_flag_defined [OF ok [THEN conjunct2, THEN conjunct1]] by blast
  obtain c where c: "when_flag (ob_flags x) UpdateLootData (ob_loot x) (SendLootDataUpdate (os_stream X) (Some x)) = Some c"
    using when_flag_defined [OF ok [THEN conjunct2, THEN conjunct2, THEN conjunct1]] by blast
  obtain d where d: "when_flag (ob_flags x) UpdateAgentBlackboardData (ob_blackboard x) (SendAgentBlackboardUpdate (os_stream X) (Some x)) = Some d"
    using when_flag_defined [OF ok [THEN conjunct2, THEN conjunct2, THEN conjunct2, THEN conjunct1]] by blast
  obtain e where e: "when_flag (ob_flags x) UpdateInteractableData (ob_interactable x) (SendInteractableDataUpdate (os_stream X) (Some x)) = Some e"
    using when_flag_defined [OF ok [THEN conjunct2, THEN conjunct2, THEN conjunct2, THEN conjunct2, THEN conjunct1]] by blast
  obtain f where f: "when_flag (ob_flags x) UpdateLocomotion (ob_locomotion x) (movement_packet X x) = Some f"
    using when_flag_defined [OF ok [THEN conjunct2, THEN conjunct2, THEN conjunct2, THEN conjunct2, THEN conjunct2]] by blast
  show ?thesis unfolding update_packets_def Let_def a b c d e f by simp
qed

lemma update_client_same: "update_client X a ac R = Some R' \<Longrightarrow> rn_clients R' = rn_clients R \<and> length (rn_store R') = length (rn_store R)"
  by (auto simp: update_client_def Let_def fold_post_maybe bind_eq_Some_conv simp del: bind_split_asm split: if_splits)

lemma update_client_defined:
  assumes "game_ok R" and "a < length (rn_store R)"
  shows "update_client X a ac R = None \<longleftrightarrow> cl_player (snd ac) = None"
proof -
  have "object_ok (obj R a)" using assms by (simp add: game_ok_def objects_ok_def)
  then have "update_packets X (obj R a) \<noteq> None" by (rule update_packets_defined)
  moreover have "obj (SyncCharacterData p R) a = obj R a" for p by (simp add: obj_def)
  ultimately show ?thesis by (cases "cl_player (snd ac)") (auto simp: update_client_def Let_def)
qed

lemma update_clients_defined:
  assumes "game_ok R" and "a < length (rn_store R)"
  shows "each (update_client X a) cs R = None \<longleftrightarrow> (\<exists>(b, c) \<in> set cs. cl_player c = None)"
  using assms
proof (induction cs arbitrary: R)
  case (Cons ac cs)
  show ?case
  proof (cases "update_client X a ac R")
    case None
    then show ?thesis using update_client_defined [OF Cons.prems, of X ac] by (auto split: prod.splits)
  next
    case (Some S)
    have "game_ok S" "a < length (rn_store S)"
      using fine_world [OF fine_update_client [OF Some]] update_client_same [OF Some] Cons.prems by simp_all
    then have "each (update_client X a) cs S = None \<longleftrightarrow> (\<exists>(b, c) \<in> set cs. cl_player c = None)" by (rule Cons.IH)
    moreover have "cl_player (snd ac) \<noteq> None" using Some update_client_defined [OF Cons.prems, of X ac] by auto
    ultimately show ?thesis using Some by (auto simp: case_prod_unfold)
  qed
qed simp

lemma SendObjectCreate_same:
  assumes "Instance_SendObjectCreate X (Some a) R = (ok, S)"
  shows "ok \<longleftrightarrow> rn_started R" "rn_clients S = rn_clients R" "length (rn_store S) = length (rn_store R)"
  using assms by (auto simp: Instance_SendObjectCreate_def to_all_out with_object_def split: if_splits)

text \<open>
  C10: One newcomer stops the game.  In a consistent world, sending the update of an object is
  undefined behaviour, a null pointer that is dereferenced, exactly when the game has started and
  some client is connected that has no player yet: a client has one only after its hello, and the
  loop over the clients takes the player of each.
\<close>

theorem update_needs_every_player:
  assumes "game_ok R" and "a < length (rn_store R)"
  shows "Instance_SendObjectUpdate X a R = None \<longleftrightarrow> rn_started R \<and> (\<exists>(b, c) \<in> set (rn_clients R). cl_player c = None)"
proof -
  obtain ok S where S: "Instance_SendObjectCreate X (Some a) R = (ok, S)" by fastforce
  note same = SendObjectCreate_same [OF S]
  have "game_ok S" "a < length (rn_store S)" using fine_world [OF fine_SendObjectCreate [OF S]] assms same by simp_all
  then have "each (update_client X a) (rn_clients R) S = None \<longleftrightarrow> (\<exists>(b, c) \<in> set (rn_clients R). cl_player c = None)"
    by (rule update_clients_defined)
  then show ?thesis using S same by (cases ok) (auto simp: Instance_SendObjectUpdate_def)
qed

text \<open>A started game with an object and one client that has only connected.\<close>

definition newcomer_world :: "memory running" where
  "newcomer_world = OnNewIncomingConnection (still_outside 0 no_sessions) 1
     (snd (Manager_Create (still_outside 0 no_sessions) 5 ((running_new (Instance_new 1))\<lparr>rn_started := True\<rparr>)))"

lemma newcomer_world_ok: "game_ok newcomer_world"
proof -
  have "fine R (snd (Manager_Create (still_outside 0 no_sessions) 5 R))" for R :: "memory running"
    using fine_Create(1) [OF still_outside_ok, of 0 no_sessions 5 R] by (cases "Manager_Create (still_outside 0 no_sessions) 5 R") auto
  moreover have "game_ok ((running_new (Instance_new 1))\<lparr>rn_started := True\<rparr>)" by (simp add: world_new)
  ultimately show ?thesis unfolding newcomer_world_def using OnNewIncomingConnection_fine fine_world by blast
qed

lemma newcomer_world_parts:
  "length (rn_store newcomer_world) = 1" "rn_active newcomer_world = [0]" "rn_started newcomer_world"
  "\<exists>c. rn_clients newcomer_world = [(1, c)] \<and> cl_player c = None"
  by (simp_all add: newcomer_world_def OnNewIncomingConnection_def AddClient_def client_at_def with_client_def post_def
    Manager_Create_def insert_object_def GetNextObjectId_def running_new_def NetClient_new_def)

theorem update_needs_every_player_witness:
  "game_ok newcomer_world \<and> Instance_SendObjectUpdate (still_outside 0 no_sessions) 0 newcomer_world = None"
  using newcomer_world_ok newcomer_world_parts update_needs_every_player [OF newcomer_world_ok, of 0 "still_outside 0 no_sessions"] by auto

subsection \<open>Identifiers of clients\<close>

lemma find_put_client:
  assumes "sorted_wrt (<) (map fst cs)" and "distinct (map (\<lambda>(a, c). cl_id c) cs)" and "(b, d) \<in> set cs"
    and "cl_id e = cl_id d" and "c \<noteq> b"
  shows "find (\<lambda>(a, x). cl_id x = cl_id d) (put_client c e cs) = Some (if c < b then (c, e) else (b, d))"
  using assms
proof (induction c e cs rule: put_client.induct)
  case (2 c e b' d' cs)
  show ?case
  proof (cases "(b, d) = (b', d')")
    case True
    then show ?thesis using "2.prems" by auto
  next
    case False
    then have d: "(b, d) \<in> set cs" using "2.prems"(3) by auto
    then have "cl_id d' \<noteq> cl_id d" "b' < b" using "2.prems"(1,2) by force+
    moreover have "find (\<lambda>(a, x). cl_id x = cl_id d) cs = Some (b, d)"
      using d "2.prems"(1,2)
    proof (induction cs)
      case (Cons x cs)
      then show ?case by (cases "x = (b, d)") (force split: prod.splits)+
    qed simp
    ultimately show ?thesis using "2.IH" "2.prems" d by (auto split: if_splits)
  qed
qed simp

lemma map_of_put_client: "a \<notin> fst ` set cs \<Longrightarrow> map_of (put_client a c cs) = (map_of cs)(a \<mapsto> c)"
  by (induction a c cs rule: put_client.induct) (auto simp: fun_eq_iff)

lemma length_without:
  fixes cs :: "(address \<times> game_client) list"
  assumes "sorted_wrt (<) (map fst cs)" and "a \<in> fst ` set cs"
  shows "length (filter (\<lambda>(b, c). b \<noteq> a) cs) = length cs - 1"
  using assms
proof (induction cs)
  case (Cons x cs)
  then have less: "\<forall>y \<in> set cs. fst x < fst y" by auto
  show ?case
  proof (cases "fst x = a")
    case True
    then have "\<forall>y \<in> set cs. fst y \<noteq> a" using less by auto
    then have "filter (\<lambda>(b, c). b \<noteq> a) cs = cs" by (intro filter_True) auto
    then show ?thesis using True by (simp add: case_prod_unfold)
  next
    case False
    then have "a \<in> fst ` set cs" using Cons.prems(2) by auto
    then have "length (filter (\<lambda>(b, c). b \<noteq> a) cs) = length cs - 1" and "cs \<noteq> []" using Cons by auto
    then show ?thesis using False by (cases cs) (auto simp: case_prod_unfold)
  qed
qed simp

text \<open>
  C23: Identifiers of clients are handed out twice.  A client gets the number of the clients before it
  as its identifier: when one has left and was not the newest, the next to come gets the identifier
  of the newest, and what the server looks up by identifier (the end of a level, a catalyst that was
  picked up, the clock) then goes to the one of the two with the lower address.
\<close>

theorem newcomer_takes_a_used_id:
  assumes "game_ok R" and "distinct (map (\<lambda>(a, c). cl_id c) (rn_clients R))"
    and "(a, l) \<in> set (rn_clients R)" and "(b, d) \<in> set (rn_clients R)" and "a \<noteq> b"
    and "cl_id d = of_nat (length (rn_clients R) - 1)" and "client_at c R = None"
  shows "\<exists>e. client_at c (AddClient X c (RemoveClient a R)) = Some e \<and> cl_id e = cl_id d \<and>
           client_at b (AddClient X c (RemoveClient a R)) = Some d \<and>
           client_by_id (cl_id d) (AddClient X c (RemoveClient a R)) = Some (min b c)"
proof -
  let ?cs = "filter (\<lambda>(x, y). x \<noteq> a) (rn_clients R)" and ?e = "NetClient_new X (of_nat (length (rn_clients R) - 1))"
  have s: "sorted_wrt (<) (map fst (rn_clients R))" using assms(1) by (simp add: game_ok_def clients_ok_def)
  then have s': "sorted_wrt (<) (map fst ?cs)" by (rule sorted_filter_fst)
  have l: "length ?cs = length (rn_clients R) - 1" by (rule length_without [OF s]) (use assms(3) in \<open>auto intro: rev_image_eqI\<close>)
  have c: "c \<notin> fst ` set (rn_clients R)" using assms(7) by (simp add: client_at_None)
  then have c': "c \<notin> fst ` set ?cs" by auto
  then have S: "rn_clients (AddClient X c (RemoveClient a R)) = put_client c ?e ?cs"
    using l by (auto simp: AddClient_def RemoveClient_def client_at_def map_of_eq_None_iff size_of_def)
  have "distinct (map (\<lambda>(a, c). cl_id c) ?cs)" using assms(2) by (simp add: distinct_map_filter)
  moreover have b: "(b, d) \<in> set ?cs" using assms(4,5) by simp
  moreover have "c \<noteq> b" using c assms(4) by force
  moreover have "cl_id ?e = cl_id d" using assms(6) by (simp add: NetClient_new_def)
  ultimately have "find (\<lambda>(x, y). cl_id y = cl_id d) (put_client c ?e ?cs) = Some (if c < b then (c, ?e) else (b, d))"
    by (intro find_put_client [OF s'])
  moreover have "map_of ?cs b = Some d" using b s' by (simp add: strict_sorted_iff)
  ultimately show ?thesis using \<open>c \<noteq> b\<close> assms(6)
    by (simp add: client_at_def client_by_id_def S map_of_put_client [OF c'] NetClient_new_def min_def)
qed

definition two_clients :: "memory running" where
  "two_clients = fold (OnNewIncomingConnection (still_outside 0 no_sessions)) [5, 7] (running_new (Instance_new 1))"

theorem newcomer_takes_a_used_id_witness:
  "client_by_id 1 (AddClient (still_outside 0 no_sessions) 6 (RemoveClient 5 two_clients)) = Some 6 \<and> rn_clients two_clients \<noteq> []"
proof -
  have w: "game_ok two_clients"
    unfolding two_clients_def by (simp add: fine_world [OF OnNewIncomingConnection_fine] world_new)
  obtain c d where c: "rn_clients two_clients = [(5, c), (7, d)]" "cl_id c = 0" "cl_id d = 1"
    by (simp add: two_clients_def OnNewIncomingConnection_def AddClient_def client_at_def with_client_def post_def
      running_new_def NetClient_new_def size_of_def)
  have "\<exists>e. client_at 6 (AddClient (still_outside 0 no_sessions) 6 (RemoveClient 5 two_clients)) = Some e \<and> cl_id e = cl_id d \<and>
      client_at 7 (AddClient (still_outside 0 no_sessions) 6 (RemoveClient 5 two_clients)) = Some d \<and>
      client_by_id (cl_id d) (AddClient (still_outside 0 no_sessions) 6 (RemoveClient 5 two_clients)) = Some (min 7 6)"
    by (rule newcomer_takes_a_used_id [OF w, where l = c]) (simp_all add: c client_at_def)
  then show ?thesis using c by (auto simp: min_def)
qed

subsection \<open>Dragging catalysts\<close>

lemma SetCatalyst_places:
  "length (mCatalysts q) = 9 \<Longrightarrow> mCatalysts (SetCatalyst c i q) = (if unat i < 9 then (mCatalysts q)[unat i := c] else mCatalysts q)"
  by (simp add: SetCatalyst_def UpdateCatalystBonuses_def Let_def SetUpdateBits_def pl_mark_def)

text \<open>
  C21: Dragging a catalyst.  A player who has a hero deployed drags a catalyst to another slot: inside
  the grid the two slots are exchanged, so that nothing is lost; on the slot right behind the grid
  the server reads past its array; anywhere else the catalyst is destroyed.  The client is told in
  both defined cases that the catalyst is where it was dragged, and only the dragging client.
\<close>

theorem dragging_a_catalyst:
  assumes "GetDeployedCharacterObject R p \<noteq> None" and "p < length (rn_players R)"
    and "mCatalysts (the_player R p) = cs" and "length cs = 9" and "unat slot < 9" and "ct_noun (cs ! unat slot) \<noteq> 0"
  shows "if unat n = 9 then drag_crystal X a p slot 2 n R = None
     else \<exists>R'. drag_crystal X a p slot 2 n R = Some R' \<and>
       mCatalysts (the_player R' p) = (if unat n < 9 then cs[unat n := cs ! unat slot, unat slot := cs ! unat n]
                                       else cs[unat slot := Catalyst_none]) \<and>
       (unat n < 9 \<longrightarrow> mset (mCatalysts (the_player R' p)) = mset cs) \<and>
       rn_out R' = rn_out R @ [(a, SendCrystalMessage (os_stream X) 2 slot n (cs ! unat slot) (os_empty X))]"
proof -
  let ?q = "the_player R p"
  have get: "GetCatalyst i ?q = (if unat i > 9 then Some Catalyst_none else if unat i < 9 then Some (cs ! unat i) else None)" for i
    using assms by (simp add: GetCatalyst_def)
  have drag: "drag_crystal X a p slot 2 n R = map_option (\<lambda>q. crystal X a 2 slot n (cs ! unat slot) (with_player p (\<lambda>_. q) R))
      (move_crystal slot n (cs ! unat slot) ?q)"
    using assms get [of slot] by (cases "move_crystal slot n (cs ! unat slot) ?q") (auto simp: drag_crystal_def)
  have player: "the_player (crystal X a 2 s t c (with_player p (\<lambda>_. q) R)) p = q"
    and out: "rn_out (crystal X a 2 s t c (with_player p (\<lambda>_. q) R)) = rn_out R @ [(a, SendCrystalMessage (os_stream X) 2 s t c (os_empty X))]" for s t c q
    using assms(2) by (simp_all add: crystal_def post_def the_player_def with_player_def)
  show ?thesis
  proof (cases "slot = n")
    case True
    then have "move_crystal slot n (cs ! unat slot) ?q = Some ?q" by (simp add: move_crystal_def)
    then show ?thesis using assms drag unfolding True by (simp add: player out)
  next
    case False
    then have m: "move_crystal slot n (cs ! unat slot) ?q = map_option (\<lambda>other. SetCatalyst other slot (SetCatalyst (cs ! unat slot) n ?q)) (GetCatalyst n ?q)"
      by (simp add: move_crystal_def)
    have places: "mCatalysts (SetCatalyst other slot (SetCatalyst (cs ! unat slot) n ?q)) =
        (if unat n < 9 then cs[unat n := cs ! unat slot] else cs)[unat slot := other]" for other
      using assms by (simp add: SetCatalyst_places)
    show ?thesis using assms by (auto simp: drag m get player out places mset_swap)
  qed
qed

text \<open>A player whose first hero is there and who has one catalyst.\<close>

definition one_catalyst :: "memory running" where
  "one_catalyst = (running_new (Instance_new 1))\<lparr>rn_players := [\<lparr>gp_player = (Player_new 0 Account_default 0)
     \<lparr>mCatalysts := (replicate 9 Catalyst_none)[0 := Catalyst_new 14 1 False], mCurrentDeckIndex := 0\<rparr>, gp_objects = [Some 0, None, None]\<rparr>]\<rparr>"

theorem dragging_a_catalyst_witness:
  "drag_crystal (still_outside 0 no_sessions) 1 0 0 2 9 one_catalyst = None"
proof -
  have d: "GetDeployedCharacterObject one_catalyst 0 \<noteq> None"
    by (simp add: GetDeployedCharacterObject_def GetCharacterObject_def one_catalyst_def the_player_def Let_def)
  have m: "mCatalysts (the_player one_catalyst 0) = (replicate 9 Catalyst_none)[0 := Catalyst_new 14 1 False]"
    by (simp add: one_catalyst_def the_player_def)
  have n: "ct_noun (((replicate 9 Catalyst_none)[0 := Catalyst_new 14 1 False]) ! unat (0 :: u32)) \<noteq> 0" by code_simp
  show ?thesis
    using dragging_a_catalyst [OF d _ m _ _ n, of 9 "still_outside 0 no_sessions" 1] by (simp add: one_catalyst_def)
qed

subsection \<open>Who is told of what\<close>

lemma Player_reset_NeedUpdate: "\<not> NeedUpdate (Player_ResetUpdateBits q)"
  by (simp add: NeedUpdate_def Player_ResetUpdateBits_def)

lemma GameStart_out: "\<exists>ws. rn_out (Server_SendGameStart X a R) = rn_out R @ map (Pair a) ws \<and> rn_players (Server_SendGameStart X a R) = rn_players R"
proof -
  have nil: "\<exists>ws. rn_out R = rn_out R @ map (Pair a) ws" by (rule exI [where x = "[]"]) simp
  show ?thesis unfolding Server_SendGameStart_def
    by (cases "client_at a R") (use nil in \<open>auto simp: post_maybe_out with_client_def intro: exI [where x = "[_]"] split: option.splits prod.splits\<close>)
qed

text \<open>
  C28: Only the player is told of the own status.  A client that reports its status (other than the end
  of the level) has it stored, and what the server sends then goes to this client alone: the change
  of the player is not marked any more, so that the update that would tell all clients of it, which
  comes later, sends nothing.
\<close>

theorem status_is_told_to_one:
  assumes "OnPlayerStatusUpdate X a p bs R = Some R'" and "p < length (rn_players R)" and "u32_at 0 bs \<noteq> 0x20"
  shows "GetStatus (the_player R' p) = (u32_at 0 bs, u32_at 4 bs) \<and>
         (\<exists>ws. rn_out R' = rn_out R @ map (Pair a) ws) \<and>
         \<not> NeedUpdate (the_player R' p) \<and> Instance_SendLabsPlayerUpdate X p R' = R'"
proof -
  let ?s = "u32_at 0 bs" and ?v = "u32_at 4 bs"
  let ?S = "with_player p (SetStatus ?s ?v) R"
  let ?T = "if ?s = 0x08 then post X a (SendDebugPing (os_stream X) (os_unix X)) (Server_SendGameStart X a (with_client a (set_state_data Dungeon) ?S)) else ?S"
  have R': "R' = with_player p Player_ResetUpdateBits (post_maybe X a (SendLabsPlayerUpdate (os_stream X) (the_player ?T p)) ?T)"
    using assms(1,3) by (auto simp: OnPlayerStatusUpdate_def Read_u32_def read_le_def u32_at_def Let_def bind_eq_Some_conv simp del: bind_split_asm split: if_splits)
  obtain ws where ws: "rn_out ?T = rn_out R @ map (Pair a) ws" and players: "rn_players ?T = rn_players ?S"
  proof (cases "?s = 0x08")
    case True
    obtain vs where "rn_out (Server_SendGameStart X a (with_client a (set_state_data Dungeon) ?S)) = rn_out R @ map (Pair a) vs"
        "rn_players (Server_SendGameStart X a (with_client a (set_state_data Dungeon) ?S)) = rn_players ?S"
      using GameStart_out [of X a "with_client a (set_state_data Dungeon) ?S"] by (auto simp: with_client_def with_player_def)
    then show ?thesis using True
      by (intro that [of "vs @ [SendDebugPing (os_stream X) (os_unix X) (os_empty X)]"]) (simp_all add: post_def)
  next
    case False
    then show ?thesis by (intro that [of "[]"]) (simp_all add: with_player_def)
  qed
  have player: "the_player R' p = Player_ResetUpdateBits (SetStatus ?s ?v (the_player R p))"
    using assms(2) players by (simp add: R' the_player_def with_player_def post_maybe_out)
  have "rn_out R' = rn_out R @ map (Pair a) (ws @ (case SendLabsPlayerUpdate (os_stream X) (the_player ?T p) of None \<Rightarrow> [] | Some w \<Rightarrow> [w (os_empty X)]))"
    unfolding R' with_player_def post_maybe_out by (simp add: ws [unfolded with_player_def] split: option.splits)
  then have "\<exists>ws. rn_out R' = rn_out R @ map (Pair a) ws" by blast
  moreover have "GetStatus (the_player R' p) = (?s, ?v)"
    by (simp add: player GetStatus_def Player_ResetUpdateBits_def SetStatus_def SetUpdateBits_def pl_mark_def)
  moreover have "\<not> NeedUpdate (the_player R' p)" unfolding player by (rule Player_reset_NeedUpdate)
  ultimately show ?thesis by (simp add: Instance_SendLabsPlayerUpdate_def)
qed

theorem status_is_told_to_one_witness:
  "\<exists>R'. OnPlayerStatusUpdate (still_outside 0 no_sessions) 1 0 [2, 0, 0, 0, 0, 0, 0, 0] one_catalyst = Some R' \<and>
        GetStatus (the_player R' 0) = (2, 0) \<and> \<not> NeedUpdate (the_player R' 0)"
proof -
  obtain R' where R': "OnPlayerStatusUpdate (still_outside 0 no_sessions) 1 0 [2, 0, 0, 0, 0, 0, 0, 0] one_catalyst = Some R'"
    by (simp add: OnPlayerStatusUpdate_def Read_u32_def read_le_def Let_def)
  have n: "u32_at 0 [2, 0, 0, 0, 0, 0, 0, 0] = 2" "u32_at 4 [2, 0, 0, 0, 0, 0, 0, 0] = 0" by (simp_all add: u32_at_def)
  then have "u32_at 0 [2, 0, 0, 0, 0, 0, 0, 0] \<noteq> 0x20" by simp
  from status_is_told_to_one [OF R' _ this] R' n show ?thesis by (auto simp: one_catalyst_def)
qed

lemma create_keeps:
  fixes X :: "'a outside"
  assumes "rn_started R" and "a < length (rn_store R)"
  defines "S \<equiv> snd (Instance_SendObjectCreate X (Some a) R)"
  shows "rn_started S" "rn_active S = rn_active R" "length (rn_store S) = length (rn_store R)" "rn_game S = rn_game R"
    "rn_clients S = rn_clients R" "ob_flags (obj S a) AND Created \<noteq> 0"
    "b < length (rn_store R) \<Longrightarrow> ob_flags (obj R b) AND Created \<noteq> 0 \<Longrightarrow> ob_flags (obj S b) AND Created \<noteq> 0"
proof -
  have S: "S = (if ob_flags (obj R a) AND Created \<noteq> 0 then R
     else with_object a (\<lambda>x. ResetUpdateBits (set_flag Created x)) (to_all X (SendObjectCreate (os_stream X) (os_euler X) (Some (obj R a))) R))"
    using assms by (simp add: Instance_SendObjectCreate_def)
  have c: "ob_flags (ResetUpdateBits (set_flag Created x)) AND Created \<noteq> 0" for x
    by (simp add: ResetUpdateBits_def set_flag_def flag_values flag_bits bit_or_iff flag_bit)
  show "rn_started S" "rn_active S = rn_active R" "length (rn_store S) = length (rn_store R)" "rn_game S = rn_game R" "rn_clients S = rn_clients R"
    using assms(1) by (simp_all add: S to_all_out with_object_def)
  have o: "obj S x = (if x = a \<and> \<not> ob_flags (obj R a) AND Created \<noteq> 0 then ResetUpdateBits (set_flag Created (obj R a)) else obj R x)" for x
    using assms(2) by (auto simp: S to_all_out with_object_def obj_def nth_list_update)
  show "ob_flags (obj S a) AND Created \<noteq> 0" using c by (simp add: o)
  show "b < length (rn_store R) \<Longrightarrow> ob_flags (obj R b) AND Created \<noteq> 0 \<Longrightarrow> ob_flags (obj S b) AND Created \<noteq> 0" using c by (simp add: o)
qed

lemma create_all:
  fixes X :: "'a outside"
  assumes "rn_started R" and "\<forall>a \<in> set xs. a < length (rn_store R)"
  defines "S \<equiv> fold (\<lambda>b R. snd (Instance_SendObjectCreate X (Some b) R)) xs R"
  shows "rn_started S \<and> rn_active S = rn_active R \<and> rn_game S = rn_game R \<and> (\<forall>a \<in> set xs. ob_flags (obj S a) AND Created \<noteq> 0) \<and>
    (\<forall>b < length (rn_store R). ob_flags (obj R b) AND Created \<noteq> 0 \<longrightarrow> ob_flags (obj S b) AND Created \<noteq> 0)"
  using assms(1,2) unfolding S_def
proof (induction xs arbitrary: R)
  case (Cons x xs)
  let ?R = "snd (Instance_SendObjectCreate X (Some x) R)"
  have x: "x < length (rn_store R)" using Cons.prems by simp
  note k = create_keeps [OF Cons.prems(1) x, where X = X]
  have "rn_started ?R" "\<forall>a \<in> set xs. a < length (rn_store ?R)" using k Cons.prems by simp_all
  note h = Cons.IH [OF this]
  show ?case unfolding fold_Cons o_apply using h k x by (metis set_ConsD)
qed simp

lemma create_again:
  assumes "rn_started R" and "\<forall>a \<in> set xs. ob_flags (obj R a) AND Created \<noteq> 0"
  shows "fold (\<lambda>b R. snd (Instance_SendObjectCreate X (Some b) R)) xs R = R"
  using assms by (induction xs) (simp_all add: Instance_SendObjectCreate_def)

text \<open>
  What a client is told about the objectives: their list, and one update for each of them that the
  code can describe.
\<close>

definition objective_packets :: "'s outside \<Rightarrow> address \<Rightarrow> 's running \<Rightarrow> (address \<times> 's) list" where
  "objective_packets X a R =
     (a, SendObjectivesInitForLevel (os_stream X) (g_objectives (rn_game R)) (os_empty X)) #
     (case client_at a R of
        None \<Rightarrow> []
      | Some c \<Rightarrow> List.map_filter (\<lambda>i. map_option (\<lambda>w. (a, w (os_empty X)))
          (SendObjectiveUpdate (os_stream X) (g_objectives (rn_game R)) (cl_id c) (of_nat i) 0))
          [0..<length (g_objectives (rn_game R)) mod 256])"

text \<open>The packets that make an object at every client.\<close>

definition creation_packets :: "'s outside \<Rightarrow> 's running \<Rightarrow> nat \<Rightarrow> (address \<times> 's) list" where
  "creation_packets X R x = (case SendObjectCreate (os_stream X) (os_euler X) (Some (obj R x)) of
     None \<Rightarrow> [] | Some w \<Rightarrow> map (\<lambda>(b, c). (b, w (os_empty X))) (rn_clients R))"

definition unannounced :: "'s running \<Rightarrow> nat list" where
  "unannounced R = filter (\<lambda>x. ob_flags (obj R x) AND Created = 0) (rn_active R)"

lemma send_objectives_out:
  "fold (\<lambda>i. send_objective X a (of_nat i) 0) is R = R\<lparr>rn_out := rn_out R @
     (case client_at a R of None \<Rightarrow> [] | Some c \<Rightarrow> List.map_filter (\<lambda>i. map_option (\<lambda>w. (a, w (os_empty X)))
        (SendObjectiveUpdate (os_stream X) (g_objectives (rn_game R)) (cl_id c) (of_nat i) 0)) is)\<rparr>"
proof (induction "is" arbitrary: R)
  case Nil
  show ?case by (simp add: map_filter_simps split: option.split)
next
  case (Cons i "is")
  show ?case
  proof (cases "client_at a R")
    case None
    then show ?thesis using Cons.IH [of R] by (simp add: send_objective_def)
  next
    case (Some c)
    let ?w = "SendObjectiveUpdate (os_stream X) (g_objectives (rn_game R)) (cl_id c) (of_nat i) 0"
    let ?v = "case ?w of None \<Rightarrow> [] | Some w \<Rightarrow> [(a, w (os_empty X))]"
    have "client_at a (R\<lparr>rn_out := rn_out R @ ?v\<rparr>) = Some c" using Some by (simp add: client_at_def)
    moreover have "send_objective X a (of_nat i) 0 R = R\<lparr>rn_out := rn_out R @ ?v\<rparr>"
      using Some by (cases ?w) (simp_all add: send_objective_def post_maybe_out)
    ultimately show ?thesis using Some Cons.IH [of "R\<lparr>rn_out := rn_out R @ ?v\<rparr>"]
      by (cases ?w) (simp_all add: map_filter_simps)
  qed
qed

lemma objectives_shown:
  "fold (\<lambda>i. send_objective X a (of_nat i) 0) [0..<length (g_objectives (rn_game R)) mod 256]
     (post X a (SendObjectivesInitForLevel (os_stream X) (g_objectives (rn_game R))) R) =
   R\<lparr>rn_out := rn_out R @ objective_packets X a R\<rparr>"
  unfolding send_objectives_out
  by (simp add: post_def objective_packets_def client_at_def split: option.split)

lemma create_out:
  assumes "rn_started R"
  shows "rn_out (snd (Instance_SendObjectCreate X (Some x) R)) =
     rn_out R @ (if ob_flags (obj R x) AND Created = 0 then creation_packets X R x else [])"
  using assms by (simp add: Instance_SendObjectCreate_def to_all_out with_object_def creation_packets_def case_prod_unfold
    split: option.split)

lemma create_others:
  assumes "rn_started R" and "x < length (rn_store R)" and "y \<noteq> x"
  shows "obj (snd (Instance_SendObjectCreate X (Some x) R)) y = obj R y"
  using assms by (simp add: Instance_SendObjectCreate_def to_all_out with_object_def obj_def)

lemma create_all_out:
  fixes X :: "'a outside"
  assumes "rn_started R" and "\<forall>a \<in> set xs. a < length (rn_store R)" and "distinct xs"
  shows "rn_out (fold (\<lambda>b R. snd (Instance_SendObjectCreate X (Some b) R)) xs R) =
     rn_out R @ concat (map (creation_packets X R) (filter (\<lambda>x. ob_flags (obj R x) AND Created = 0) xs))"
  using assms
proof (induction xs arbitrary: R)
  case (Cons x xs)
  let ?R = "snd (Instance_SendObjectCreate X (Some x) R)"
  have x: "x < length (rn_store R)" using Cons.prems by simp
  note k = create_keeps [OF Cons.prems(1) x, where X = X]
  have o: "obj ?R y = obj R y" if "y \<in> set xs" for y
    by (rule create_others [OF Cons.prems(1) x]) (use that Cons.prems(3) in auto)
  then have "creation_packets X ?R y = creation_packets X R y" if "y \<in> set xs" for y
    using that k(5) by (simp add: creation_packets_def o split: option.split)
  moreover have "filter (\<lambda>y. ob_flags (obj ?R y) AND Created = 0) xs = filter (\<lambda>y. ob_flags (obj R y) AND Created = 0) xs"
    using o by (intro filter_cong) simp_all
  ultimately have m: "map (creation_packets X ?R) (filter (\<lambda>y. ob_flags (obj ?R y) AND Created = 0) xs) =
      map (creation_packets X R) (filter (\<lambda>y. ob_flags (obj R y) AND Created = 0) xs)"
    by (intro map_cong) auto
  have "rn_started ?R" "\<forall>a \<in> set xs. a < length (rn_store ?R)" "distinct xs" using k Cons.prems by simp_all
  note h = Cons.IH [OF this]
  show ?case unfolding fold_Cons o_apply h m create_out [OF Cons.prems(1)] by simp
qed simp

text \<open>
  C26: Who comes later sees an empty level.  Showing a started game to a client sends this client the
  objectives, and makes at every client exactly the active objects that have not been announced yet;
  afterwards every active object is marked as announced, and showing the same game to another client
  sends it the objectives and nothing else: no object is made at it, and nothing in the game changes.
  (This is the end of \<open>OnPlayerStart\<close>, whose comment is "Create all existing objects".  Before it
  \<open>OnPlayerStart\<close> makes the objects of the level once more for every player who starts; these are new
  objects, so they are announced, and those of the earlier players are not.)
\<close>

theorem late_client_sees_no_objects:
  assumes "game_ok R" and "rn_started R" and "S = show_world X a R"
  shows "rn_out S = rn_out R @ objective_packets X a R @ concat (map (creation_packets X R) (unannounced R)) \<and>
         rn_active S = rn_active R \<and> unannounced S = [] \<and>
         show_world X b S = S\<lparr>rn_out := rn_out S @ objective_packets X b S\<rparr>"
proof -
  let ?R = "R\<lparr>rn_out := rn_out R @ objective_packets X a R\<rparr>"
  have sw: "show_world X c T = fold (\<lambda>b R. snd (Instance_SendObjectCreate X (Some b) R)) (rn_active T)
      (T\<lparr>rn_out := rn_out T @ objective_packets X c T\<rparr>)" for c and T :: "'a running"
    unfolding show_world_def Let_def objectives_shown by simp
  have S: "S = fold (\<lambda>b R. snd (Instance_SendObjectCreate X (Some b) R)) (rn_active R) ?R"
    by (simp add: assms(3) sw)
  have all: "\<forall>x \<in> set (rn_active R). x < length (rn_store ?R)" "distinct (rn_active R)"
    using assms(1) by (auto simp: game_ok_def objects_ok_def ran_def)
  have o: "obj ?R = obj R" "creation_packets X ?R = creation_packets X R" by (simp_all add: obj_def creation_packets_def fun_eq_iff split: option.split)
  have created: "rn_started S \<and> rn_active S = rn_active R \<and> (\<forall>x \<in> set (rn_active R). ob_flags (obj S x) AND Created \<noteq> 0)"
    using create_all [OF _ all(1), of X] assms(2) unfolding S by simp
  have out: "rn_out S = rn_out R @ objective_packets X a R @ concat (map (creation_packets X R) (unannounced R))"
    using create_all_out [OF _ all, of X] assms(2) unfolding S by (simp add: o unannounced_def)
  have "show_world X b S = S\<lparr>rn_out := rn_out S @ objective_packets X b S\<rparr>"
    unfolding sw by (rule create_again) (use created in \<open>simp_all add: obj_def\<close>)
  then show ?thesis using created out by (auto simp: unannounced_def filter_empty_conv)
qed

lemma newcomer_flags: "ob_flags (obj newcomer_world 0) AND Created = 0"
  by (simp add: newcomer_world_def OnNewIncomingConnection_def AddClient_def client_at_def with_client_def post_def
    Manager_Create_def insert_object_def GetNextObjectId_def running_new_def obj_def still_outside_def Object_new_def)

theorem late_client_sees_no_objects_witness:
  "unannounced newcomer_world = [0] \<and> rn_active newcomer_world = [0] \<and>
   (\<exists>S. S = show_world (still_outside 0 no_sessions) 1 newcomer_world \<and>
     show_world (still_outside 0 no_sessions) 2 S = S\<lparr>rn_out := rn_out S @ objective_packets (still_outside 0 no_sessions) 2 S\<rparr> \<and>
     rn_active S = [0] \<and> unannounced S = [])"
  using late_client_sees_no_objects [OF newcomer_world_ok newcomer_world_parts(3) refl, of "still_outside 0 no_sessions" 1 2]
    newcomer_world_parts(2) newcomer_flags by (auto simp: unannounced_def)

subsection \<open>Saying hello\<close>

lemma fold_keeps: "(\<And>x q. P (f x q) = P q) \<Longrightarrow> P (fold f xs q) = P q"
  by (induction xs arbitrary: q) simp_all

lemma marks_keep: "pl_mUser (fold pl_mark ks q) = pl_mUser q" "mPlayerIndex (fold pl_mark ks q) = mPlayerIndex q"
  by (rule fold_keeps, simp add: pl_mark_def)+

lemma setup_fields_keep:
  "pl_mUser (q\<lparr>mbDataSetup := a, pl_mTeam := b, mPlayerOnlineId := c, mLockCamera := d, mLockedAbilityMin := e,
     mLockedDeckIndexMin := f, mAvatarLevel := g, mDNA := h, mAvatarXP := i\<rparr>) = pl_mUser q"
  "mPlayerIndex (q\<lparr>mbDataSetup := a, pl_mTeam := b, mPlayerOnlineId := c, mLockCamera := d, mLockedAbilityMin := e,
     mLockedDeckIndexMin := f, mAvatarLevel := g, mDNA := h, mAvatarXP := i\<rparr>) = mPlayerIndex q"
  by simp_all

lemma SetStatus_keeps: "pl_mUser (SetStatus s v q) = pl_mUser q" "mPlayerIndex (SetStatus s v q) = mPlayerIndex q"
  by (simp_all add: SetStatus_def SetUpdateBits_def pl_mark_def)

lemma Player_new_owner: "pl_mUser (Player_new u acc i) = u" "mPlayerIndex (Player_new u acc i) = i"
  unfolding Player_new_def Player_Setup_def Let_def marks_keep setup_fields_keep SetStatus_keeps by simp_all

lemma SetCatalyst_keeps: "pl_mUser (SetCatalyst c i q) = pl_mUser q" "mPlayerIndex (SetCatalyst c i q) = mPlayerIndex q"
  by (simp_all add: SetCatalyst_def UpdateCatalystBonuses_def SetUpdateBits_def Let_def pl_mark_def)

lemma first_catalysts_keep:
  "pl_mUser (first_catalysts X q) = pl_mUser q" "mPlayerIndex (first_catalysts X q) = mPlayerIndex q"
  unfolding first_catalysts_def SetCatalyst_keeps by (rule fold_keeps, rule SetCatalyst_keeps)+

lemma map_of_put_player: "i \<notin> fst ` set ps \<Longrightarrow> map_of (put_player i p ps) = (map_of ps)(i \<mapsto> p)"
  by (induction i p ps rule: put_player.induct) (auto simp: fun_eq_iff)

text \<open>
  C12: A hello makes the player.  A connected client that says hello with the number of a user who is
  logged in becomes the client of this user with a new player, which has the client's identifier and
  is the player that the game now has of the user, in place of any earlier one; the client, and no
  other, gets the answer to its hello and the end of the party's merging.
\<close>

theorem hello_makes_the_player:
  assumes "GetUserById i (os_users X) = Some u" and "client_at a R = Some c"
    and "ID_USER_PACKET_ENUM (os_ids X) \<le> ID_HelloPlayerRequest" and "ID_TIMESTAMP (os_ids X) \<noteq> ID_HelloPlayerRequest"
  shows "\<exists>R'. receive_packet X (a, ID_HelloPlayerRequest # bytes_le 8 i @ rest) R = Some R' \<and>
           map_option cl_player (client_at a R') = Some (Some (length (rn_players R))) \<and>
           map_option cl_user (client_at a R') = Some (Some u) \<and>
           map_of (rn_byUser R') (sint i) = Some (length (rn_players R)) \<and>
           pl_mUser (the_player R' (length (rn_players R))) = u \<and>
           mPlayerIndex (the_player R' (length (rn_players R))) = cl_id c \<and>
           rn_out R' = rn_out R @ [(a, SendHelloPlayer (os_stream X) (os_ip X) (os_port X) (cl_id c) (os_empty X)),
                                   (a, SendPartyMergeComplete (os_stream X) (os_unix X) (os_empty X))]"
proof -
  let ?acc = "mAccount (users (os_users X) ! u)" and ?p = "length (rn_players R)"
  have i: "account_id ?acc = i" using assms(1) by (auto simp: GetUserById_def find_Some_iff)
  have r8: "Read_u64 (bytes_le 8 i @ rest) = Some (i, rest)"
    by (simp add: Read_u64_def read_le_def of_le_bytes_le)
  have c: "map_of (rn_clients R) a = Some c" using assms(2) by (simp add: client_at_def)
  have at: "map_of (map (\<lambda>(b, x). (b, if b = a then f x else x)) cs) a = map_option f (map_of cs a)" for f and cs :: "(address \<times> game_client) list"
    by (induction cs) auto
  let ?U = "SetUser X a (Some u) R"
  have U: "rn_players ?U = rn_players R @ [\<lparr>gp_player = Player_new u ?acc (cl_id c), gp_objects = replicate 3 None\<rparr>]"
    "rn_byUser ?U = put_player (sint i) ?p (filter (\<lambda>(j, q). j \<noteq> sint i) (rn_byUser R))"
    "rn_out ?U = rn_out R" "client_at a ?U = Some (c\<lparr>cl_user := Some u, cl_player := Some ?p\<rparr>)"
    by (simp_all add: SetUser_def assms(2) with_client_def client_at_def Let_def i at c)
  have id: "GetPacketIdentifier (os_ids X) (ID_HelloPlayerRequest # bytes_le 8 i @ rest) = Some (ID_HelloPlayerRequest, bytes_le 8 i @ rest)"
    using assms(4) by (auto simp: GetPacketIdentifier_def Read_u8_def read_le_def)
  let ?R = "post X a (SendPartyMergeComplete (os_stream X) (os_unix X))
            (post X a (SendHelloPlayer (os_stream X) (os_ip X) (os_port X) (cl_id c))
              (with_client a (set_state_data Spaceship) (with_player ?p (first_catalysts X) ?U)))"
  have "receive_packet X (a, ID_HelloPlayerRequest # bytes_le 8 i @ rest) R = OnHelloPlayerRequest X a (bytes_le 8 i @ rest) R"
    using assms(2) leD [OF assms(3)] by (simp add: receive_packet_def id ParseSporeNetPackets_def)
  also have "\<dots> = Some ?R" by (simp add: OnHelloPlayerRequest_def r8 assms(1) U(4) Let_def)
  finally have "receive_packet X (a, ID_HelloPlayerRequest # bytes_le 8 i @ rest) R = Some ?R" .
  moreover have "map_option cl_player (client_at a ?R) = Some (Some ?p)" "map_option cl_user (client_at a ?R) = Some (Some u)"
    using U(4) by (simp_all add: client_at_def post_def with_client_def with_player_def at set_state_data_def)
  moreover have "rn_byUser ?R = rn_byUser ?U" "rn_out ?R = rn_out ?U @ [(a, SendHelloPlayer (os_stream X) (os_ip X) (os_port X) (cl_id c) (os_empty X)),
      (a, SendPartyMergeComplete (os_stream X) (os_unix X) (os_empty X))]"
    by (simp_all add: post_def with_client_def with_player_def)
  moreover have "the_player ?R ?p = first_catalysts X (Player_new u ?acc (cl_id c))"
    by (simp add: the_player_def post_def with_client_def with_player_def U(1))
  moreover have "map_of (put_player (sint i) ?p (filter (\<lambda>(j, q). j \<noteq> sint i) (rn_byUser R))) (sint i) = Some ?p"
    by (subst map_of_put_player) auto
  ultimately show ?thesis by (intro exI [where x = ?R]) (simp only: U first_catalysts_keep Player_new_owner simp_thms)
qed

definition one_user :: sessions where
  "one_user = no_sessions\<lparr>users := [User_new ''sage'' ''sage@mail'' ''pw''], sUsersByEmail := RBT.insert ''sage@mail'' 0 RBT.empty\<rparr>"

theorem hello_makes_the_player_witness:
  "\<exists>R'. receive_packet (still_outside 0 one_user) (5, ID_HelloPlayerRequest # bytes_le 8 (1 :: u64) @ []) two_clients = Some R' \<and>
     map_option cl_player (client_at 5 R') = Some (Some 0) \<and> pl_mUser (the_player R' 0) = 0"
proof -
  have "RBT.entries (RBT.insert ''sage@mail'' (0 :: nat) RBT.empty) = [(''sage@mail'', 0)]" by code_simp
  then have u: "GetUserById 1 (os_users (still_outside 0 one_user)) = Some 0"
    by (simp add: GetUserById_def GetUsers_def one_user_def still_outside_def User_new_def Account_default_def)
  obtain c where c: "client_at 5 two_clients = Some c"
    by (simp add: two_clients_def OnNewIncomingConnection_def AddClient_def client_at_def with_client_def post_def running_new_def)
  have ids: "ID_USER_PACKET_ENUM (os_ids (still_outside 0 one_user)) \<le> ID_HelloPlayerRequest"
    "ID_TIMESTAMP (os_ids (still_outside 0 one_user)) \<noteq> ID_HelloPlayerRequest"
    by (simp_all add: still_outside_def ID_HelloPlayerRequest_def)
  have "length (rn_players two_clients) = 0"
    by (simp add: two_clients_def OnNewIncomingConnection_def AddClient_def client_at_def with_client_def post_def running_new_def)
  then show ?thesis using hello_makes_the_player [OF u c ids, of "[]"] by auto
qed

subsection \<open>Loot\<close>

lemma SetTimesUsed_defined: "ob_interactable x \<noteq> None \<Longrightarrow> \<exists>y. SetTimesUsed n x = Some y \<and> ob_noun y = ob_noun x \<and> IsMarkedForDeletion y = IsMarkedForDeletion x"
  by (auto simp: SetTimesUsed_def on_interactable_def set_flag_def marked_iff flag_values bit_or_iff flag_bit)

text \<open>
  C18: Loot is taken once.  When a player interacts with an object of the kind loot that is not marked
  for deletion, the interaction is defined, the object is marked and waits in the manager's list for
  the next update, and until then no player who interacts with it again, also one whose packet came
  in the same turn, changes anything or causes anything to be sent.
\<close>

theorem loot_is_taken_once:
  assumes "game_ok R" and "Manager_Get i R = Some a" and "\<not> IsMarkedForDeletion (obj R a)"
    and "os_noun X (ob_noun (obj R a)) = Some n" and "nv_type n = noun_Loot"
  shows "\<exists>R'. InteractWithObject X p i R = Some R' \<and> IsMarkedForDeletion (obj R' a) \<and> a \<in> set (rn_marked R') \<and>
           Manager_Get i R' = Some a \<and> (\<forall>q. InteractWithObject X q i R' = Some R')"
proof -
  have a: "a < length (rn_store R)" by (rule world_ok_place [OF assms(1,2)])
  obtain S where S: "(case ob_interactable (obj R a) of None \<Rightarrow> Some R | Some d \<Rightarrow> try_object a (SetTimesUsed (it_timesUsed d + 1)) R) = Some S"
    and same: "ob_noun (obj S a) = ob_noun (obj R a)" "\<not> IsMarkedForDeletion (obj S a)" "a < length (rn_store S)" "rn_byId S = rn_byId R"
  proof (cases "ob_interactable (obj R a)")
    case None
    then show ?thesis using that [of R] a assms(3) by simp
  next
    case (Some d)
    then obtain y where "SetTimesUsed (it_timesUsed d + 1) (obj R a) = Some y" "ob_noun y = ob_noun (obj R a)"
        "IsMarkedForDeletion y = IsMarkedForDeletion (obj R a)"
      using SetTimesUsed_defined [of "obj R a"] by blast
    then show ?thesis using that [of "with_object a (\<lambda>_. y) R"] Some a assms(3)
      by (simp add: try_object_def with_object_def obj_def)
  qed
  have "InteractWithObject X p i R = Some (PickupLoot X p a S)"
    using assms S same by (simp add: InteractWithObject_def Let_def)
  moreover have "IsMarkedForDeletion (set_flag MarkedForDeletion x)" for x
    by (simp add: set_flag_def marked_iff bit_or_iff flag_values flag_bit)
  then have "IsMarkedForDeletion (obj (PickupLoot X p a S) a)" and "a \<in> set (rn_marked (PickupLoot X p a S))"
    and "rn_byId (PickupLoot X p a S) = rn_byId S"
    using same by (simp_all add: PickupLoot_def Let_def MarkForDeletion_def with_object_def to_all_out obj_def split: option.splits)
  ultimately show ?thesis using assms(2) same(4) by (auto simp: Manager_Get_def InteractWithObject_def)
qed

definition loot_outside :: "memory outside" where
  "loot_outside = (still_outside 0 no_sessions)\<lparr>os_noun := (\<lambda>_. Some \<lparr>nv_type = noun_Loot, nv_creature = False, nv_animation = None\<rparr>)\<rparr>"

theorem loot_is_taken_once_witness:
  "\<exists>R'. InteractWithObject loot_outside 0 1 newcomer_world = Some R' \<and> IsMarkedForDeletion (obj R' 0) \<and>
        InteractWithObject loot_outside 1 1 R' = Some R'"
proof -
  have m: "Manager_Get 1 newcomer_world = Some 0" "\<not> IsMarkedForDeletion (obj newcomer_world 0)"
    by (simp_all add: newcomer_world_def OnNewIncomingConnection_def AddClient_def client_at_def with_client_def post_def
      Manager_Create_def insert_object_def GetNextObjectId_def running_new_def Manager_Get_def obj_def still_outside_def
      Object_new_facts)
  have n: "os_noun loot_outside (ob_noun (obj newcomer_world 0)) = Some \<lparr>nv_type = noun_Loot, nv_creature = False, nv_animation = None\<rparr>"
    by (simp add: loot_outside_def)
  from loot_is_taken_once [OF newcomer_world_ok m n, of 0] show ?thesis by auto
qed

end
